(* ===== verification/Prelude.thy ===== *)
theory Prelude
  imports Main "HOL-Library.Char_ord" "HOL-Library.List_Lexorder"
    "HOL-Library.Product_Lexorder" "HOL-Library.Option_ord" "HOL-Library.Multiset"
begin

text \<open>
  Shared vocabulary of the development: the exceptions of the program as values, the
  result type with its sequencing, SQLite tables as lists of row records with the three
  statement shapes the code uses (fetch one row, update matching rows, append a row), and
  the named collections of simplification rules the component proofs share.

  Python's \<open>str\<close> is modelled by \<open>string\<close>: a character stands for a code point below 256.
\<close>

section \<open>Errors as values\<close>

text \<open>One constructor per exception class the modelled code raises; the argument is the message.\<close>

datatype exn =
    ValueError string
  | TypeError string
  | ValidationError string
  | KeyError string
  | AssertionError
  | AttributeError string
  | RuntimeFailure string
  | TimeoutError string
  | RegistryError string
  | IdempotencyConflict string
  | InvalidTransition string
  | StaleRuntimeGeneration string
  | StaleAttemptFence string
  | IntegrityError string
  | OperationalError string
  | IndexError string
  | BrokerGrantDenied string
  | BrokerBudgetExceeded string
  | BrokerDeadlineExpired string
  | BrokerCallConflict string
  | BrokerCallIndeterminate string
  | BrokerCallQuarantined string
  | RlmExecutionCancelled string
  | SimulatedRlmProcessLoss
  | DispatcherClosed string
  | ModelBrokerError string
  | ModelRouteNotFound string
  | ModelRouteBindingStale string
  | ModelRouteDrift string
  | ModelCallIndeterminate string
  | ModelProviderOutcomeUnknown string
  | ModelProviderFailure string
  | ModelReceiptLookupUnavailable string
  | ModelReceiptLookupFailed string
  | DispatcherDrainTimeout "string list"
  | ReferenceHostError string
  | CapabilityMismatch string
  | GrantDenied string
  | BudgetDenied string
  | WorkspaceBindingDenied string
  | DeadlineExpired string
  | InputDigestMismatch string
  | RlmStateMissing string
  | WorkspaceError string
  | WorkspaceNotFound string
  | StaleWorkspaceGeneration string
  | WorkspaceRevisionConflict string
  | WorkspaceSessionMismatch string
  | InvalidWorkspaceMutation string
  | WorkspaceClosed string
  | WorkspaceOperationConflict string
  | WorkspaceCheckpointRejected string
  | WorkspaceArtifactUnavailable string
  | SimulatedProcessLoss
  | SimulatedWorkspaceTransactionLoss
  | RepositoryClosed string
  | CallerWorkConflict string
  | CallerWorkIdempotencyConflict string
  | StaleTicketRevision string
  | InvalidTicketTransition string
  | ExpiredCallerClaim string
  | ActivationStoreError string
  | ActivationGenerationConflict string
  | ActivationBindingMismatch string
  | SessionGrantDenied string
  | ProviderReadyStartupError string

text \<open>\<open>type(error).__name__\<close>, as the code stores it in failure codes and notes.\<close>

fun exn_name :: "exn \<Rightarrow> string" where
  "exn_name (ValueError m) = ''ValueError''"
| "exn_name (TypeError m) = ''TypeError''"
| "exn_name (ValidationError m) = ''ValidationError''"
| "exn_name (KeyError m) = ''KeyError''"
| "exn_name AssertionError = ''AssertionError''"
| "exn_name (AttributeError m) = ''AttributeError''"
| "exn_name (RuntimeFailure m) = ''RuntimeError''"
| "exn_name (TimeoutError m) = ''TimeoutError''"
| "exn_name (RegistryError m) = ''RegistryError''"
| "exn_name (IdempotencyConflict m) = ''IdempotencyConflict''"
| "exn_name (InvalidTransition m) = ''InvalidTransition''"
| "exn_name (StaleRuntimeGeneration m) = ''StaleRuntimeGeneration''"
| "exn_name (StaleAttemptFence m) = ''StaleAttemptFence''"
| "exn_name (IntegrityError m) = ''IntegrityError''"
| "exn_name (OperationalError m) = ''OperationalError''"
| "exn_name (IndexError m) = ''IndexError''"
| "exn_name (BrokerGrantDenied m) = ''BrokerGrantDenied''"
| "exn_name (BrokerBudgetExceeded m) = ''BrokerBudgetExceeded''"
| "exn_name (BrokerDeadlineExpired m) = ''BrokerDeadlineExpired''"
| "exn_name (BrokerCallConflict m) = ''BrokerCallConflict''"
| "exn_name (BrokerCallIndeterminate m) = ''BrokerCallIndeterminate''"
| "exn_name (BrokerCallQuarantined m) = ''BrokerCallQuarantined''"
| "exn_name (RlmExecutionCancelled m) = ''RlmExecutionCancelled''"
| "exn_name SimulatedRlmProcessLoss = ''SimulatedRlmProcessLoss''"
| "exn_name (DispatcherClosed m) = ''DispatcherClosed''"
| "exn_name (ModelBrokerError m) = ''ModelBrokerError''"
| "exn_name (ModelRouteNotFound m) = ''ModelRouteNotFound''"
| "exn_name (ModelRouteBindingStale m) = ''ModelRouteBindingStale''"
| "exn_name (ModelRouteDrift m) = ''ModelRouteDrift''"
| "exn_name (ModelCallIndeterminate m) = ''ModelCallIndeterminate''"
| "exn_name (ModelProviderOutcomeUnknown m) = ''ModelProviderOutcomeUnknown''"
| "exn_name (ModelProviderFailure m) = ''ModelProviderFailure''"
| "exn_name (ModelReceiptLookupUnavailable m) = ''ModelReceiptLookupUnavailable''"
| "exn_name (ModelReceiptLookupFailed m) = ''ModelReceiptLookupFailed''"
| "exn_name (DispatcherDrainTimeout m) = ''DispatcherDrainTimeout''"
| "exn_name (ReferenceHostError m) = ''ReferenceHostError''"
| "exn_name (CapabilityMismatch m) = ''CapabilityMismatch''"
| "exn_name (GrantDenied m) = ''GrantDenied''"
| "exn_name (BudgetDenied m) = ''BudgetDenied''"
| "exn_name (WorkspaceBindingDenied m) = ''WorkspaceBindingDenied''"
| "exn_name (DeadlineExpired m) = ''DeadlineExpired''"
| "exn_name (InputDigestMismatch m) = ''InputDigestMismatch''"
| "exn_name (RlmStateMissing m) = ''RlmStateMissing''"
| "exn_name (WorkspaceError m) = ''WorkspaceError''"
| "exn_name (WorkspaceNotFound m) = ''WorkspaceNotFound''"
| "exn_name (StaleWorkspaceGeneration m) = ''StaleWorkspaceGeneration''"
| "exn_name (WorkspaceRevisionConflict m) = ''WorkspaceRevisionConflict''"
| "exn_name (WorkspaceSessionMismatch m) = ''WorkspaceSessionMismatch''"
| "exn_name (InvalidWorkspaceMutation m) = ''InvalidWorkspaceMutation''"
| "exn_name (WorkspaceClosed m) = ''WorkspaceClosed''"
| "exn_name (WorkspaceOperationConflict m) = ''WorkspaceOperationConflict''"
| "exn_name (WorkspaceCheckpointRejected m) = ''WorkspaceCheckpointRejected''"
| "exn_name (WorkspaceArtifactUnavailable m) = ''WorkspaceArtifactUnavailable''"
| "exn_name SimulatedProcessLoss = ''SimulatedProcessLoss''"
| "exn_name SimulatedWorkspaceTransactionLoss = ''SimulatedWorkspaceTransactionLoss''"
| "exn_name (RepositoryClosed m) = ''RepositoryClosed''"
| "exn_name (CallerWorkConflict m) = ''CallerWorkConflict''"
| "exn_name (CallerWorkIdempotencyConflict m) = ''CallerWorkIdempotencyConflict''"
| "exn_name (StaleTicketRevision m) = ''StaleTicketRevision''"
| "exn_name (InvalidTicketTransition m) = ''InvalidTicketTransition''"
| "exn_name (ExpiredCallerClaim m) = ''ExpiredCallerClaim''"
| "exn_name (ActivationStoreError m) = ''ActivationStoreError''"
| "exn_name (ActivationGenerationConflict m) = ''ActivationGenerationConflict''"
| "exn_name (ActivationBindingMismatch m) = ''ActivationBindingMismatch''"
| "exn_name (SessionGrantDenied m) = ''GrantDenied''"
| "exn_name (ProviderReadyStartupError m) = ''ProviderReadyStartupError''"

text \<open>
  The exception classes the handlers name: the subclasses of \<open>ModelBrokerError\<close>, of
  \<open>BrokerFacadeError\<close> and of the built-in classes. A process loss is not an \<open>Exception\<close>.
\<close>

definition is_model_error :: "exn \<Rightarrow> bool" where
  "is_model_error e \<longleftrightarrow> exn_name e \<in> {''ModelBrokerError'', ''ModelRouteNotFound'', ''ModelRouteBindingStale'',
     ''ModelRouteDrift'', ''ModelCallIndeterminate'', ''ModelProviderOutcomeUnknown'', ''ModelProviderFailure'',
     ''ModelReceiptLookupUnavailable'', ''ModelReceiptLookupFailed''}"

definition is_facade_error :: "exn \<Rightarrow> bool" where
  "is_facade_error e \<longleftrightarrow> exn_name e \<in> {''BrokerGrantDenied'', ''BrokerBudgetExceeded'', ''BrokerDeadlineExpired'',
     ''BrokerCallConflict'', ''BrokerCallIndeterminate'', ''BrokerCallQuarantined''}"

definition is_runtime_error :: "exn \<Rightarrow> bool" where
  "is_runtime_error e \<longleftrightarrow> is_model_error e \<or> is_facade_error e \<or>
     exn_name e \<in> {''RuntimeError'', ''RegistryError'', ''IdempotencyConflict'', ''InvalidTransition'',
       ''StaleRuntimeGeneration'', ''StaleAttemptFence'', ''RlmExecutionCancelled'', ''DispatcherClosed'',
       ''DispatcherDrainTimeout'', ''ReferenceHostError'', ''CapabilityMismatch'', ''GrantDenied'',
       ''BudgetDenied'', ''WorkspaceBindingDenied'', ''DeadlineExpired'', ''InputDigestMismatch'',
       ''RlmStateMissing'', ''WorkspaceError'', ''WorkspaceNotFound'', ''StaleWorkspaceGeneration'',
       ''WorkspaceRevisionConflict'', ''WorkspaceSessionMismatch'', ''InvalidWorkspaceMutation'',
       ''WorkspaceClosed'', ''WorkspaceOperationConflict'', ''WorkspaceCheckpointRejected'',
       ''WorkspaceArtifactUnavailable'', ''RepositoryClosed'', ''CallerWorkConflict'',
       ''CallerWorkIdempotencyConflict'', ''StaleTicketRevision'', ''InvalidTicketTransition'',
       ''ExpiredCallerClaim'', ''ActivationStoreError'', ''ActivationGenerationConflict'',
       ''ActivationBindingMismatch'', ''ProviderReadyStartupError''}"

definition is_process_loss :: "exn \<Rightarrow> bool" where
  "is_process_loss e \<longleftrightarrow> e = SimulatedRlmProcessLoss \<or> e = SimulatedProcessLoss \<or>
     e = SimulatedWorkspaceTransactionLoss"

definition is_registry_error :: "exn \<Rightarrow> bool" where
  "is_registry_error e \<longleftrightarrow> exn_name e \<in> {''RegistryError'', ''IdempotencyConflict'', ''InvalidTransition'',
     ''StaleRuntimeGeneration'', ''StaleAttemptFence''}"

definition is_value_error :: "exn \<Rightarrow> bool" where
  "is_value_error e \<longleftrightarrow> exn_name e \<in> {''ValueError'', ''ValidationError''}"

type_synonym 'a res = "exn + 'a"

fun and_then :: "'a res \<Rightarrow> ('a \<Rightarrow> 'b res) \<Rightarrow> 'b res" where
  "and_then (Inl e) f = Inl e"
| "and_then (Inr x) f = f x"

definition require :: "bool \<Rightarrow> exn \<Rightarrow> unit res" where
  "require c e = (if c then Inr () else Inl e)"

text \<open>A comprehension whose element can raise: the first exception ends it.\<close>

fun traverse :: "('a \<Rightarrow> 'b res) \<Rightarrow> 'a list \<Rightarrow> 'b list res" where
  "traverse f [] = Inr []"
| "traverse f (x # xs) = and_then (f x) (\<lambda>y. and_then (traverse f xs) (\<lambda>ys. Inr (y # ys)))"

named_theorems res_simps \<open>inversion of results\<close>
named_theorems row_simps \<open>rows after a table statement\<close>

lemma and_then_Inr_iff [res_simps]:
  "and_then m f = Inr y \<longleftrightarrow> (\<exists>x. m = Inr x \<and> f x = Inr y)"
  by (cases m) auto

lemma and_then_Inl_iff:
  "and_then m f = Inl e \<longleftrightarrow> m = Inl e \<or> (\<exists>x. m = Inr x \<and> f x = Inl e)"
  by (cases m) auto

lemma require_Inr_iff [res_simps]: "require c e = Inr u \<longleftrightarrow> c"
  by (simp add: require_def)

lemma if_Inl_Inr_iff [res_simps]:
  "(if c then Inl e else m) = Inr x \<longleftrightarrow> \<not> c \<and> m = Inr x"
  by simp

lemma traverse_Inr_length: "traverse f xs = Inr ys \<Longrightarrow> length ys = length xs"
  by (induction xs arbitrary: ys) (auto simp: and_then_Inr_iff)

lemma traverse_Inr_nth: "traverse f xs = Inr ys \<Longrightarrow> i < length xs \<Longrightarrow> f (xs ! i) = Inr (ys ! i)"
  by (induction xs arbitrary: ys i) (auto simp: and_then_Inr_iff nth_Cons split: nat.splits)

section \<open>Tables\<close>

text \<open>
  A table is the list of its rows in rowid order. \<open>fetchone\<close> is the first row a query
  returns, \<open>update_rows\<close> an UPDATE with its WHERE clause, \<open>rowcount\<close> what
  \<open>SELECT changes()\<close> reports after it.
\<close>

type_synonym 'r tbl = "'r list"

definition fetchone :: "('r \<Rightarrow> bool) \<Rightarrow> 'r tbl \<Rightarrow> 'r option" where
  "fetchone p t = List.find p t"

definition update_rows :: "('r \<Rightarrow> bool) \<Rightarrow> ('r \<Rightarrow> 'r) \<Rightarrow> 'r tbl \<Rightarrow> 'r tbl" where
  "update_rows p f t = map (\<lambda>r. if p r then f r else r) t"

definition rowcount :: "('r \<Rightarrow> bool) \<Rightarrow> 'r tbl \<Rightarrow> nat" where
  "rowcount p t = length (filter p t)"

text \<open>\<open>COALESCE(MAX(col), 0)\<close> over the selected rows, for a column of positive integers.\<close>

definition max_col :: "('r \<Rightarrow> bool) \<Rightarrow> ('r \<Rightarrow> int) \<Rightarrow> 'r tbl \<Rightarrow> int" where
  "max_col p f t = foldr max (map f (filter p t)) 0"

text \<open>\<open>ORDER BY col DESC LIMIT 1\<close>: the first row whose column is maximal.\<close>

fun max_row :: "('r \<Rightarrow> int) \<Rightarrow> 'r tbl \<Rightarrow> 'r option" where
  "max_row f [] = None"
| "max_row f (r # t) =
     (case max_row f t of None \<Rightarrow> Some r
      | Some r' \<Rightarrow> if f r' \<le> f r then Some r else Some r')"

lemma fetchone_Nil [row_simps]: "fetchone p [] = None"
  by (simp add: fetchone_def)

lemma fetchone_Cons [row_simps]: "fetchone p (r # t) = (if p r then Some r else fetchone p t)"
  by (simp add: fetchone_def)

lemma fetchone_append [row_simps]:
  "fetchone p (t @ u) = (case fetchone p t of None \<Rightarrow> fetchone p u | Some r \<Rightarrow> Some r)"
  by (induction t) (simp_all add: fetchone_def)

lemma fetchone_SomeD: "fetchone p t = Some r \<Longrightarrow> r \<in> set t \<and> p r"
  by (induction t) (auto simp: fetchone_def split: if_splits)

lemma fetchone_None_iff [row_simps]: "fetchone p t = None \<longleftrightarrow> (\<forall>r \<in> set t. \<not> p r)"
  by (auto simp: fetchone_def find_None_iff)

lemma fetchone_ex: "r \<in> set t \<Longrightarrow> p r \<Longrightarrow> \<exists>r'. fetchone p t = Some r'"
  using fetchone_None_iff [of p t] by (cases "fetchone p t") auto

lemma fetchone_cong:
  "(\<And>r. r \<in> set t \<Longrightarrow> p r = q r) \<Longrightarrow> fetchone p t = fetchone q t"
  by (induction t) (auto simp: fetchone_def)

lemma fetchone_key:
  assumes "distinct (map k t)" "r \<in> set t" "\<And>x. x \<in> set t \<Longrightarrow> p x \<longleftrightarrow> k x = k r"
  shows "fetchone p t = Some r"
  using assms by (induction t) (auto simp: fetchone_def)

lemma update_rows_Nil [row_simps]: "update_rows p f [] = []"
  by (simp add: update_rows_def)

lemma update_rows_Cons [row_simps]:
  "update_rows p f (r # t) = (if p r then f r else r) # update_rows p f t"
  by (simp add: update_rows_def)

lemma set_update_rows: "set (update_rows p f t) = (\<lambda>r. if p r then f r else r) ` set t"
  by (simp add: update_rows_def)

lemma in_update_rowsE:
  assumes "r \<in> set (update_rows p f t)"
  obtains r' where "r' \<in> set t" "p r'" "r = f r'" | "r \<in> set t" "\<not> p r"
  using assms by (auto simp: set_update_rows split: if_splits)

lemma length_update_rows [simp]: "length (update_rows p f t) = length t"
  by (simp add: update_rows_def)

lemma map_update_rows:
  "(\<And>r. p r \<Longrightarrow> k (f r) = k r) \<Longrightarrow> map k (update_rows p f t) = map k t"
  by (simp add: update_rows_def)

lemma update_rows_none: "\<forall>r \<in> set t. \<not> p r \<Longrightarrow> update_rows p f t = t"
  by (induction t) (auto simp: row_simps)

lemma fetchone_update_rows_same:
  assumes "\<And>r. p r \<Longrightarrow> q (f r) = q r"
  shows "fetchone q (update_rows p f t) =
    map_option (\<lambda>r. if p r then f r else r) (fetchone q t)"
  using assms by (induction t) (auto simp: row_simps)

lemma rowcount_eq_0_iff: "rowcount p t = 0 \<longleftrightarrow> (\<forall>r \<in> set t. \<not> p r)"
  by (auto simp: rowcount_def filter_empty_conv)

lemma rowcount_key_le_1:
  assumes "distinct (map k t)" "\<And>x y. x \<in> set t \<Longrightarrow> y \<in> set t \<Longrightarrow> p x \<Longrightarrow> p y \<Longrightarrow> k x = k y"
  shows "rowcount p t \<le> 1"
  using assms
proof (induction t)
  case (Cons r t)
  show ?case
  proof (cases "p r")
    case True
    have "\<not> p x" if "x \<in> set t" for x
    proof
      assume "p x"
      with True that have "k r = k x" by (intro Cons.prems(2)) simp_all
      with that Cons.prems(1) show False by auto
    qed
    with True show ?thesis by (simp add: rowcount_def filter_empty_conv)
  next
    case False
    have "rowcount p t \<le> 1"
      using Cons.prems by (intro Cons.IH) simp_all
    with False show ?thesis by (simp add: rowcount_def)
  qed
qed (simp add: rowcount_def)

lemma max_col_ge: "r \<in> set t \<Longrightarrow> p r \<Longrightarrow> f r \<le> max_col p f t"
  by (induction t) (auto simp: max_col_def)

lemma max_col_nonneg: "0 \<le> max_col p f t"
  by (induction t) (auto simp: max_col_def)

lemma max_col_attained:
  "max_col p f t \<noteq> 0 \<Longrightarrow> \<exists>r \<in> set t. p r \<and> f r = max_col p f t"
  by (induction t) (auto simp: max_col_def max_def split: if_splits)

lemma max_row_None_iff [row_simps]: "max_row f t = None \<longleftrightarrow> t = []"
  by (cases t) (auto split: option.splits)

lemma max_row_Some:
  "max_row f t = Some r \<Longrightarrow> r \<in> set t \<and> (\<forall>x \<in> set t. f x \<le> f r)"
proof (induction t arbitrary: r)
  case (Cons a t)
  show ?case
  proof (cases "max_row f t")
    case None
    then have "t = []" using max_row_None_iff by blast
    with Cons.prems show ?thesis by simp
  next
    case (Some b)
    have b: "b \<in> set t \<and> (\<forall>x \<in> set t. f x \<le> f b)" by (rule Cons.IH [OF Some])
    with Some Cons.prems show ?thesis by (auto split: if_splits)
  qed
qed simp

text \<open>A join whose left rows have distinct keys.\<close>

lemma distinct_concat_keys:
  assumes "\<And>w. distinct (map f (g w))" "\<And>w z. z \<in> set (g w) \<Longrightarrow> f z = k w" "distinct (map k t)"
  shows "distinct (map f (concat (map g t)))"
  using assms(3)
proof (induction t)
  case (Cons w t)
  have "f z \<noteq> f y" if "z \<in> set (g w)" "v \<in> set t" "y \<in> set (g v)" for z v y
    using that Cons.prems assms(2) [of z w] assms(2) [of y v] by auto
  with Cons assms(1) [of w] show ?case by fastforce
qed simp

lemma length_concat_le_1:
  "length xs \<le> 1 \<Longrightarrow> (\<And>x. x \<in> set xs \<Longrightarrow> length (g x) \<le> 1) \<Longrightarrow> length (concat (map g xs)) \<le> 1"
  by (cases xs) auto

lemma length_filter_key_le_1:
  "distinct (map k t) \<Longrightarrow> (\<And>x. x \<in> set t \<Longrightarrow> p x \<Longrightarrow> k x = c) \<Longrightarrow> length (filter p t) \<le> 1"
  using rowcount_key_le_1 [of k t p] by (simp add: rowcount_def)

lemma distinct_map_sort_key: "distinct (map f (sort_key g xs)) \<longleftrightarrow> distinct (map f xs)"
  by (metis mset_eq_imp_distinct_iff mset_map mset_sort)

section \<open>Canonical name lists\<close>

text \<open>
  The test \<open>names != sorted(names) or len(names) != len(set(names))\<close> that many validators
  make, and what passing it means.
\<close>

definition sorted_unique :: "'a::linorder list \<Rightarrow> bool" where
  "sorted_unique xs \<longleftrightarrow> xs = sort xs \<and> length xs = length (remdups xs)"

lemma sorted_unique_iff: "sorted_unique xs \<longleftrightarrow> sorted xs \<and> distinct xs"
proof -
  have "xs = sort xs \<longleftrightarrow> sorted xs" by (metis sorted_sort sorted_sort_id)
  moreover have "length xs = length (remdups xs) \<longleftrightarrow> distinct xs"
    by (metis length_remdups_eq remdups_id_iff_distinct distinct_remdups_id)
  ultimately show ?thesis by (simp add: sorted_unique_def)
qed

lemma sorted_unique_strict: "sorted_unique xs \<longleftrightarrow> sorted_wrt (<) xs"
  by (simp add: sorted_unique_iff strict_sorted_iff)

lemma sorted_unique_set_eq:
  "sorted_unique xs \<Longrightarrow> sorted_unique ys \<Longrightarrow> set xs = set ys \<Longrightarrow> xs = ys"
  by (simp add: sorted_unique_iff sorted_distinct_set_unique)

section \<open>Decimal text of integers\<close>

function digits :: "nat \<Rightarrow> string" where
  "digits n = (if n < 10 then [char_of (48 + n)] else digits (n div 10) @ [char_of (48 + n mod 10)])"
  by pat_completeness auto
termination by (relation "measure id") auto

declare digits.simps [simp del]

definition itoa :: "int \<Rightarrow> string" where
  "itoa i = (if i < 0 then CHR ''-'' # digits (nat (- i)) else digits (nat i))"

definition is_digit :: "char \<Rightarrow> bool" where
  "is_digit c \<longleftrightarrow> 48 \<le> (of_char c :: nat) \<and> (of_char c :: nat) \<le> 57"

fun undigits :: "string \<Rightarrow> nat" where
  "undigits s = foldl (\<lambda>a c. 10 * a + (of_char c - 48)) 0 s"

lemma of_char_char_of_small: "n < 256 \<Longrightarrow> (of_char (char_of n :: char) :: nat) = n"
  by simp

lemma digits_all_digit: "\<forall>c \<in> set (digits n). is_digit c"
proof (induction n rule: digits.induct)
  case (1 n)
  show ?case
  proof (cases "n < 10")
    case True
    then show ?thesis by (simp add: digits.simps [of n] is_digit_def)
  next
    case False
    have "n mod 10 < 10" by simp
    with False "1" show ?thesis by (auto simp: digits.simps [of n] is_digit_def)
  qed
qed

lemma digits_nonempty [simp]: "digits n \<noteq> []"
  by (subst digits.simps) simp

lemma undigits_digits: "undigits (digits n) = n"
proof (induction n rule: digits.induct)
  case (1 n)
  show ?case
  proof (cases "n < 10")
    case True
    then show ?thesis by (simp add: digits.simps [of n])
  next
    case False
    then have IH: "undigits (digits (n div 10)) = n div 10" by (rule "1.IH")
    have m: "n mod 10 < 10" by simp
    have "undigits (digits n) = 10 * undigits (digits (n div 10)) + n mod 10"
      using False m by (subst digits.simps) simp
    with IH show ?thesis by simp
  qed
qed

lemma digits_inject: "digits m = digits n \<Longrightarrow> m = n"
  by (metis undigits_digits)

lemma itoa_nonempty [simp]: "itoa i \<noteq> []"
  by (simp add: itoa_def)

lemma minus_not_digit: "\<not> is_digit CHR ''-''"
  by (simp add: is_digit_def)

lemma itoa_inject: "itoa i = itoa j \<Longrightarrow> i = j"
proof -
  assume eq: "itoa i = itoa j"
  have hd: "hd (digits n) \<noteq> CHR ''-''" for n
    using digits_all_digit [of n] digits_nonempty [of n] minus_not_digit
    by (metis hd_in_set)
  have ne: "CHR ''-'' # x \<noteq> digits n" for x n
    using hd [of n] by (metis list.sel(1))
  have ne': "digits n \<noteq> CHR ''-'' # x" for x n
    using ne [of x n] by auto
  show "i = j"
  proof (cases "i < 0"; cases "j < 0")
    assume "i < 0" "j < 0"
    with eq show ?thesis by (auto simp: itoa_def dest!: digits_inject)
  next
    assume "\<not> i < 0" "\<not> j < 0"
    with eq show ?thesis by (auto simp: itoa_def dest!: digits_inject)
  qed (use eq ne ne' in \<open>auto simp: itoa_def\<close>)
qed

end
