(* ===== verification/Canonical.thy ===== *)
theory Canonical
  imports Prelude "HOL-Library.Multiset" "HOL-Library.Word"
begin

unbundle bit_operations_syntax

text \<open>
  Deterministic JSON text and typed SHA-256 digests (\<open>src/aar/canonical.py\<close>).

  \<open>pyval\<close> is what \<open>_json_value\<close> receives, \<open>json\<close> what it returns; \<open>canon\<close> and
  \<open>show_json\<close> are \<open>json.dumps\<close> with \<open>sort_keys\<close>, compact separators and
  \<open>ensure_ascii=False\<close>; \<open>utf8\<close> is \<open>str.encode\<close> on code points below 256; \<open>sha256\<close> is
  the hash of \<open>hashlib\<close>. The lemmas show that the text determines the value up to the
  order of object keys, and that the order of keys never shows in the text.
\<close>

section \<open>Values\<close>

datatype json =
    JNull
  | JBool bool
  | JInt int
  | JStr string
  | JArr "json list"
  | JObj "(string \<times> json) list"

datatype pyval =
    PyNone
  | PyBool bool
  | PyInt int
  | PyStr string
  | PyFloat
  | PyEnum pyval
  | PyModel pyval
  | PyMap "(pyval \<times> pyval) list"
  | PySeq "pyval list"
  | PyOther string

text \<open>
  \<open>_json_value\<close>. \<open>PyModel d\<close> is a pydantic model with \<open>model_dump(mode="json") = d\<close>,
  \<open>PyEnum v\<close> an enum member with \<open>value = v\<close>; \<open>PyOther n\<close> is any other object, of the
  type named \<open>n\<close> (\<open>bytes\<close> and \<open>bytearray\<close> among them). Entries are normalised in
  order and the first failure is the result.
\<close>

fun put_key :: "string \<Rightarrow> json \<Rightarrow> (string \<times> json) list \<Rightarrow> (string \<times> json) list" where
  "put_key k v [] = [(k, v)]"
| "put_key k v ((k', v') # m) = (if k = k' then (k, v) # m else (k', v') # put_key k v m)"

fun json_value :: "pyval \<Rightarrow> json res"
  and json_items :: "(pyval \<times> pyval) list \<Rightarrow> (string \<times> json) list \<Rightarrow> (string \<times> json) list res"
  and json_list :: "pyval list \<Rightarrow> json list res" where
  "json_value (PyModel d) = json_value d"
| "json_value (PyEnum v) = json_value v"
| "json_value PyNone = Inr JNull"
| "json_value (PyBool b) = Inr (JBool b)"
| "json_value (PyInt i) = Inr (JInt i)"
| "json_value (PyStr s) = Inr (JStr s)"
| "json_value PyFloat =
     Inl (TypeError ''floating-point values are not allowed in canonical AAR JSON'')"
| "json_value (PyMap kvs) = and_then (json_items kvs []) (\<lambda>m. Inr (JObj m))"
| "json_value (PySeq xs) = and_then (json_list xs) (\<lambda>ys. Inr (JArr ys))"
| "json_value (PyOther n) = Inl (TypeError (''unsupported canonical AAR JSON value: '' @ n))"
| "json_items [] m = Inr m"
| "json_items ((k, v) # kvs) m =
     (case k of
        PyStr s \<Rightarrow> and_then (json_value v) (\<lambda>j. json_items kvs (put_key s j m))
      | _ \<Rightarrow> Inl (TypeError ''canonical AAR JSON object keys must be strings''))"
| "json_list [] = Inr []"
| "json_list (x # xs) =
     and_then (json_value x) (\<lambda>y. and_then (json_list xs) (\<lambda>ys. Inr (y # ys)))"

section \<open>Text\<close>

fun canon :: "json \<Rightarrow> json" where
  "canon (JArr xs) = JArr (map canon xs)"
| "canon (JObj kvs) = JObj (sort_key fst (map (map_prod id canon) kvs))"
| "canon v = v"

definition hexdigit :: "nat \<Rightarrow> char" where
  "hexdigit n = ''0123456789abcdef'' ! (n mod 16)"

text \<open>One character of a JSON string, as \<open>json.encoder\<close> escapes it.\<close>

definition esc :: "char \<Rightarrow> string" where
  "esc c =
    (let n = (of_char c :: nat) in
     if n = 34 then [CHR 0x5C, CHR 0x22]
     else if n = 92 then [CHR 0x5C, CHR 0x5C]
     else if n = 8 then [CHR 0x5C, CHR ''b'']
     else if n = 9 then [CHR 0x5C, CHR ''t'']
     else if n = 10 then [CHR 0x5C, CHR ''n'']
     else if n = 12 then [CHR 0x5C, CHR ''f'']
     else if n = 13 then [CHR 0x5C, CHR ''r'']
     else if n < 32 then [CHR 0x5C, CHR ''u'', CHR ''0'', CHR ''0'', hexdigit (n div 16), hexdigit n]
     else [c])"

definition show_str :: "string \<Rightarrow> string" where
  "show_str s = CHR 0x22 # concat (map esc s) @ [CHR 0x22]"

fun sep_by :: "char \<Rightarrow> string list \<Rightarrow> string" where
  "sep_by c [] = []"
| "sep_by c [x] = x"
| "sep_by c (x # y # ys) = x @ c # sep_by c (y # ys)"

fun show_json :: "json \<Rightarrow> string" where
  "show_json JNull = ''null''"
| "show_json (JBool b) = (if b then ''true'' else ''false'')"
| "show_json (JInt i) = itoa i"
| "show_json (JStr s) = show_str s"
| "show_json (JArr xs) = CHR ''['' # sep_by CHR '','' (map show_json xs) @ '']''"
| "show_json (JObj kvs) =
     CHR ''{'' # sep_by CHR '',''
       (map (\<lambda>(k, v). show_str k @ CHR '':'' # show_json v) kvs) @ ''}''"

definition utf8 :: "string \<Rightarrow> 8 word list" where
  "utf8 s = concat (map (\<lambda>c. let n = (of_char c :: nat) in
     if n < 128 then [word_of_nat n]
     else [word_of_nat (192 + n div 64), word_of_nat (128 + n mod 64)]) s)"

definition canonical_json_text :: "json \<Rightarrow> string" where
  "canonical_json_text v = show_json (canon v)"

definition canonical_json_bytes :: "pyval \<Rightarrow> 8 word list res" where
  "canonical_json_bytes v = and_then (json_value v) (\<lambda>j. Inr (utf8 (canonical_json_text j)))"

section \<open>SHA-256\<close>

definition sha_init :: "32 word list" where
  "sha_init =
    [1779033703, 3144134277, 1013904242, 2773480762, 1359893119, 2600822924, 528734635, 1541459225]"

definition sha_k :: "32 word list" where
  "sha_k =
    [1116352408, 1899447441, 3049323471, 3921009573, 961987163, 1508970993, 2453635748, 2870763221,
     3624381080, 310598401, 607225278, 1426881987, 1925078388, 2162078206, 2614888103, 3248222580,
     3835390401, 4022224774, 264347078, 604807628, 770255983, 1249150122, 1555081692, 1996064986,
     2554220882, 2821834349, 2952996808, 3210313671, 3336571891, 3584528711, 113926993, 338241895,
     666307205, 773529912, 1294757372, 1396182291, 1695183700, 1986661051, 2177026350, 2456956037,
     2730485921, 2820302411, 3259730800, 3345764771, 3516065817, 3600352804, 4094571909, 275423344,
     430227734, 506948616, 659060556, 883997877, 958139571, 1322822218, 1537002063, 1747873779,
     1955562222, 2024104815, 2227730452, 2361852424, 2428436474, 2756734187, 3204031479, 3329325298]"

definition be_bytes :: "nat \<Rightarrow> nat \<Rightarrow> 8 word list" where
  "be_bytes k n = map (\<lambda>i. word_of_nat (n div 256 ^ i)) (rev [0..<k])"

definition sha_pad :: "8 word list \<Rightarrow> 8 word list" where
  "sha_pad m = m @ 0x80 # replicate ((119 - length m mod 64) mod 64) 0 @ be_bytes 8 (8 * length m)"

fun be_words :: "8 word list \<Rightarrow> 32 word list" where
  "be_words (a # b # c # d # bs) =
     word_of_nat (((unat a * 256 + unat b) * 256 + unat c) * 256 + unat d) # be_words bs"
| "be_words _ = []"

fun sha_schedule :: "nat \<Rightarrow> 32 word list \<Rightarrow> 32 word list" where
  "sha_schedule 0 w = w"
| "sha_schedule (Suc n) w =
     (let t = length w; a = w ! (t - 15); b = w ! (t - 2);
          s0 = word_rotr 7 a XOR word_rotr 18 a XOR drop_bit 3 a;
          s1 = word_rotr 17 b XOR word_rotr 19 b XOR drop_bit 10 b
      in sha_schedule n (w @ [s1 + w ! (t - 7) + s0 + w ! (t - 16)]))"

fun sha_round :: "32 word list \<Rightarrow> 32 word \<times> 32 word \<Rightarrow> 32 word list" where
  "sha_round [a, b, c, d, e, f, g, h] (k, w) =
     (let s1 = word_rotr 6 e XOR word_rotr 11 e XOR word_rotr 25 e;
          ch = (e AND f) XOR (NOT e AND g);
          t1 = h + s1 + ch + k + w;
          s0 = word_rotr 2 a XOR word_rotr 13 a XOR word_rotr 22 a;
          maj = (a AND b) XOR (a AND c) XOR (b AND c)
      in [t1 + (s0 + maj), a, b, c, d + t1, e, f, g])"
| "sha_round hs _ = hs"

definition sha_compress :: "32 word list \<Rightarrow> 8 word list \<Rightarrow> 32 word list" where
  "sha_compress h block =
     map (\<lambda>(x, y). x + y) (zip h (foldl sha_round h (zip sha_k (sha_schedule 48 (be_words block)))))"

function sha_blocks :: "32 word list \<Rightarrow> 8 word list \<Rightarrow> 32 word list" where
  "sha_blocks h bs =
     (if length bs < 64 then h else sha_blocks (sha_compress h (take 64 bs)) (drop 64 bs))"
  by pat_completeness auto
termination by (relation "measure (\<lambda>(h, bs). length bs)") auto

declare sha_blocks.simps [simp del]

definition hex_word :: "32 word \<Rightarrow> string" where
  "hex_word w = map (\<lambda>i. hexdigit (unat w div 16 ^ i)) (rev [0..<8])"

definition sha256_hex :: "8 word list \<Rightarrow> string" where
  "sha256_hex bs = concat (map hex_word (sha_blocks sha_init (sha_pad bs)))"

text \<open>
  \<open>canonical_sha256\<close> on a value that needs no normalisation, and on any value.
\<close>

definition json_digest :: "json \<Rightarrow> string" where
  "json_digest j = ''sha256:'' @ sha256_hex (utf8 (canonical_json_text j))"

definition canonical_sha256 :: "pyval \<Rightarrow> string res" where
  "canonical_sha256 v =
     and_then (canonical_json_bytes v) (\<lambda>bs. Inr (''sha256:'' @ sha256_hex bs))"

section \<open>The text determines the value\<close>

text \<open>A left inverse of \<open>esc\<close> that also returns what follows the character.\<close>

definition unhex :: "char \<Rightarrow> nat" where
  "unhex c = (let n = of_char c in if n < 58 then n - 48 else n - 87)"

fun unesc :: "string \<Rightarrow> char \<times> string" where
  "unesc (x # y # xs) =
     (if x = CHR 0x5C
      then (if y = CHR ''u'' then (char_of (16 * unhex (xs ! 2) + unhex (xs ! 3)), drop 4 xs)
            else if y = CHR ''b'' then (CHR 0x08, xs)
            else if y = CHR ''t'' then (CHR 0x09, xs)
            else if y = CHR ''n'' then (CHR 0x0A, xs)
            else if y = CHR ''f'' then (CHR 0x0C, xs)
            else if y = CHR ''r'' then (CHR 0x0D, xs)
            else (y, xs))
      else (x, y # xs))"
| "unesc [x] = (x, [])"
| "unesc [] = (CHR 0x00, [])"

lemma unhex_hexdigit: "unhex (hexdigit n) = n mod 16"
proof -
  have "\<forall>k < 16. unhex (''0123456789abcdef'' ! k) = k"
    by (simp add: unhex_def eval_nat_numeral All_less_Suc)
  then show ?thesis by (simp add: hexdigit_def)
qed

lemma char_eqI: "(of_char c :: nat) = of_char d \<Longrightarrow> c = d"
  by simp

lemma unesc_esc: "unesc (esc c @ r) = (c, r)"
proof -
  define n where "n = (of_char c :: nat)"
  have c: "c = char_of n" by (simp add: n_def)
  have hex: "n < 32 \<Longrightarrow> 16 * (n div 16) + n mod 16 = n" by simp
  have d: "n < 32 \<Longrightarrow> n div 16 mod 16 = n div 16" by simp
  consider "n = 34" | "n = 92" | "n = 8" | "n = 9" | "n = 10" | "n = 12" | "n = 13"
    | "n < 32" "n \<notin> {8, 9, 10, 12, 13}" | "32 \<le> n" "n \<noteq> 34" "n \<noteq> 92"
    by force
  then show ?thesis
  proof cases
    case 8
    then have "esc c = [CHR 0x5C, CHR ''u'', CHR ''0'', CHR ''0'', hexdigit (n div 16), hexdigit n]"
      by (simp add: esc_def n_def [symmetric])
    then show ?thesis using hex d 8 by (simp add: unhex_hexdigit c)
  next
    case 9
    then have "esc c = [c]" by (simp add: esc_def n_def [symmetric])
    moreover have "c \<noteq> CHR 0x5C" using 9 by (auto simp: n_def)
    ultimately show ?thesis by (cases r) simp_all
  qed (auto simp: esc_def n_def intro!: char_eqI)
qed

lemma esc_unique: "esc c @ r = esc d @ s \<Longrightarrow> c = d \<and> r = s"
  by (metis Pair_inject unesc_esc)

lemma esc_not_quote: "esc c @ r = x # s \<Longrightarrow> x \<noteq> CHR 0x22"
  by (auto simp: esc_def Let_def split: if_splits)

lemma show_str_unique: "show_str s @ r = show_str t @ u \<Longrightarrow> s = t \<and> r = u"
proof -
  have nq: "esc c @ r \<noteq> CHR 0x22 # s" "CHR 0x22 # s \<noteq> esc c @ r" for c r s
    using esc_not_quote [of c r "CHR 0x22" s] by metis+
  have "concat (map esc s) @ CHR 0x22 # r = concat (map esc t) @ CHR 0x22 # u \<Longrightarrow> s = t \<and> r = u"
  proof (induction s arbitrary: t)
    case Nil
    then show ?case using nq by (cases t) auto
  next
    case (Cons c s)
    show ?case
    proof (cases t)
      case Nil
      with Cons.prems nq show ?thesis by auto
    next
      case (Cons d t')
      with Cons.prems have "c = d \<and> concat (map esc s) @ CHR 0x22 # r = concat (map esc t') @ CHR 0x22 # u"
        by (intro esc_unique) simp
      with Cons.IH Cons show ?thesis by auto
    qed
  qed
  moreover assume "show_str s @ r = show_str t @ u"
  ultimately show ?thesis by (simp add: show_str_def)
qed

text \<open>A number ends where no digit follows it.\<close>

definition num_end :: "string \<Rightarrow> bool" where
  "num_end r \<longleftrightarrow> (case r of [] \<Rightarrow> True | c # _ \<Rightarrow> \<not> is_digit c)"

lemma num_end_simps [simp]:
  "num_end []" "num_end (c # r) = (\<not> is_digit c)"
  by (simp_all add: num_end_def)

lemma is_digit_delims [simp]:
  "\<not> is_digit CHR '',''" "\<not> is_digit CHR '']''" "\<not> is_digit CHR ''}''" "\<not> is_digit CHR '':''"
  "\<not> is_digit CHR 0x22" "\<not> is_digit CHR ''n''" "\<not> is_digit CHR ''t''" "\<not> is_digit CHR ''f''"
  "\<not> is_digit CHR ''[''" "\<not> is_digit CHR ''{''" "\<not> is_digit CHR ''-''"
  by (simp_all add: is_digit_def)

lemma takeWhile_digits: "num_end r \<Longrightarrow> takeWhile is_digit (digits n @ r) = digits n"
  using digits_all_digit [of n]
  by (cases r) (simp_all add: takeWhile_tail)

lemma digits_unique:
  assumes "digits m @ r = digits n @ s" "num_end r" "num_end s"
  shows "m = n \<and> r = s"
proof -
  have "digits m = digits n"
    using assms takeWhile_digits by metis
  with assms show ?thesis by (simp add: digits_inject)
qed

lemma digits_hd: "digits n @ r = c # s \<Longrightarrow> is_digit c"
  using digits_all_digit [of n] by (cases "digits n") auto

lemma itoa_hd: "itoa i @ r = c # s \<Longrightarrow> is_digit c \<or> c = CHR ''-''"
  by (auto simp: itoa_def split: if_splits dest: digits_hd)

lemma itoa_unique:
  assumes "itoa i @ r = itoa j @ s" "num_end r" "num_end s"
  shows "i = j \<and> r = s"
proof -
  have nd: "digits n @ r \<noteq> CHR ''-'' # s" "CHR ''-'' # s \<noteq> digits n @ r" for n r s
    using digits_hd [of n r "CHR ''-''" s] by auto
  show ?thesis
    using assms nd
    by (auto simp: itoa_def split: if_splits dest!: digits_unique)
qed

text \<open>Sequences printed with a separator and a closing character.\<close>

lemma sep_by_unique:
  assumes el: "\<And>x y r s. x \<in> set xs \<Longrightarrow> num_end r \<Longrightarrow> num_end s \<Longrightarrow> f x @ r = f y @ s \<Longrightarrow> x = y \<and> r = s"
    and hd: "\<And>x r s. f x @ r \<noteq> e # s"
    and e: "\<not> is_digit e" "e \<noteq> CHR '',''"
    and eq: "sep_by CHR '','' (map f xs) @ e # r = sep_by CHR '','' (map f ys) @ e # s"
  shows "xs = ys \<and> r = s"
  using el eq
proof (induction xs arbitrary: ys)
  case Nil
  then show ?case using hd e by (cases ys rule: remdups_adj.cases) (auto, metis+)
next
  case (Cons x xs)
  define rest where "rest = (\<lambda>zs. case zs of [] \<Rightarrow> [] | _ \<Rightarrow> CHR '','' # sep_by CHR '','' (map f zs))"
  have unf: "sep_by CHR '','' (map f (z # zs)) = f z @ rest zs" for z zs
    by (cases zs) (simp_all add: rest_def)
  have ne: "num_end (rest zs @ e # t)" for zs t
    using e by (cases zs) (simp_all add: rest_def)
  show ?case
  proof (cases ys)
    case Nil
    with Cons.prems(2) unf hd show ?thesis by simp
  next
    case (Cons y ys')
    with Cons.prems(2) unf have "f x @ (rest xs @ e # r) = f y @ (rest ys' @ e # s)" by simp
    from Cons.prems(1) [OF _ ne ne this]
    have xy: "x = y" and re: "rest xs @ e # r = rest ys' @ e # s" by simp_all
    show ?thesis
    proof (cases xs; cases ys')
      fix a as b bs assume as: "xs = a # as" "ys' = b # bs"
      have elx: "a = b \<and> u = v"
        if "a \<in> set xs" "num_end u" "num_end v" "f a @ u = f b @ v" for a b u v
        by (rule Cons.prems(1)) (use that in simp_all)
      from as re have "sep_by CHR '','' (map f xs) @ e # r = sep_by CHR '','' (map f ys') @ e # s"
        by (simp add: rest_def)
      from Cons.IH [OF elx this] have "xs = ys' \<and> r = s" .
      with xy Cons show ?thesis by simp
    qed (use re e xy Cons in \<open>auto simp: rest_def\<close>)
  qed
qed

lemma show_json_not_close: "show_json v @ r \<noteq> CHR '']'' # s"
  using itoa_hd [of _ r "CHR '']''" s] by (cases v) (auto simp: show_str_def split: if_splits)

lemma show_json_hd:
  "show_json v @ r = c # s \<Longrightarrow>
   (case v of JNull \<Rightarrow> c = CHR ''n'' | JBool b \<Rightarrow> c = (if b then CHR ''t'' else CHR ''f'')
    | JInt _ \<Rightarrow> is_digit c \<or> c = CHR ''-'' | JStr _ \<Rightarrow> c = CHR 0x22
    | JArr _ \<Rightarrow> c = CHR ''['' | JObj _ \<Rightarrow> c = CHR ''{'')"
  by (cases v) (auto simp: show_str_def split: if_splits dest: itoa_hd)

lemma show_json_ne: "\<exists>c t. show_json v = c # t"
  by (cases v) (auto simp: show_str_def neq_Nil_conv [symmetric])

lemma show_json_unique:
  "num_end r \<Longrightarrow> num_end s \<Longrightarrow> show_json v @ r = show_json w @ s \<Longrightarrow> v = w \<and> r = s"
proof (induction v arbitrary: w r s)
  case JNull
  from JNull.prems(3) show_json_hd [of w s "CHR ''n''" "''ull'' @ r"] show ?case
    by (cases w) (auto split: if_splits)
next
  case (JBool b)
  from JBool.prems(3)
    show_json_hd [of w s "if b then CHR ''t'' else CHR ''f''" "(if b then ''rue'' else ''alse'') @ r"]
  show ?case by (cases w) (auto split: if_splits)
next
  case (JInt i)
  obtain c t where ct: "itoa i @ r = c # t" by (cases "itoa i @ r") auto
  then have c: "is_digit c \<or> c = CHR ''-''" by (rule itoa_hd)
  from JInt.prems(3) ct have "show_json w @ s = c # t" by simp
  from show_json_hd [OF this] c JInt.prems show ?case
    by (cases w) (auto split: if_splits dest: itoa_unique)
next
  case (JStr x)
  obtain t where t: "show_str x @ r = CHR 0x22 # t" by (simp add: show_str_def)
  with JStr.prems(3) have "show_json w @ s = CHR 0x22 # t" by simp
  from show_json_hd [OF this] JStr.prems(3) show ?case
    by (cases w) (auto split: if_splits dest: show_str_unique)
next
  case (JArr xs)
  obtain t where "show_json (JArr xs) @ r = CHR ''['' # t" by simp
  with JArr.prems(3) have "show_json w @ s = CHR ''['' # t" by simp
  from show_json_hd [OF this] obtain ys where w: "w = JArr ys"
    by (cases w) (auto split: if_splits)
  with JArr.prems(3)
  have eq: "sep_by CHR '','' (map show_json xs) @ CHR '']'' # r
      = sep_by CHR '','' (map show_json ys) @ CHR '']'' # s" by simp
  have "xs = ys \<and> r = s"
    by (rule sep_by_unique [OF _ _ _ _ eq])
      (use JArr.IH show_json_not_close in \<open>auto\<close>)
  with w show ?case by simp
next
  case (JObj kvs)
  let ?f = "\<lambda>(k, v). show_str k @ CHR '':'' # show_json v"
  obtain t where "show_json (JObj kvs) @ r = CHR ''{'' # t" by simp
  with JObj.prems(3) have "show_json w @ s = CHR ''{'' # t" by simp
  from show_json_hd [OF this] obtain kws where w: "w = JObj kws"
    by (cases w) (auto split: if_splits)
  with JObj.prems(3)
  have eq: "sep_by CHR '','' (map ?f kvs) @ CHR ''}'' # r = sep_by CHR '','' (map ?f kws) @ CHR ''}'' # s"
    by simp
  have el: "x = y \<and> r = s"
    if "x \<in> set kvs" "num_end r" "num_end s" "?f x @ r = ?f y @ s" for x y r s
  proof -
    obtain k v l u where xy: "x = (k, v)" "y = (l, u)" by (cases x; cases y)
    with that(4) have "k = l \<and> CHR '':'' # show_json v @ r = CHR '':'' # show_json u @ s"
      by (intro show_str_unique) simp
    with JObj.IH [of x v r s u] that xy show ?thesis by auto
  qed
  have "kvs = kws \<and> r = s"
    by (rule sep_by_unique [OF el _ _ _ eq]) (auto simp: show_str_def)
  with w show ?case by simp
qed


section \<open>Key order\<close>

text \<open>Python dictionaries have distinct keys; so has every object \<open>json_value\<close> builds.\<close>

fun keys_ok :: "json \<Rightarrow> bool" where
  "keys_ok (JArr xs) = list_all keys_ok xs"
| "keys_ok (JObj kvs) = (distinct (map fst kvs) \<and> list_all (\<lambda>(k, v). keys_ok v) kvs)"
| "keys_ok v = True"

lemma set_put_key: "fst ` set (put_key k v m) = insert k (fst ` set m)"
proof (induction m)
  case (Cons p m)
  then show ?case by (cases p) (simp add: insert_commute)
qed simp

lemma distinct_put_key: "distinct (map fst m) \<Longrightarrow> distinct (map fst (put_key k v m))"
  using set_put_key by (induction m) auto

lemma put_key_keys_ok: "keys_ok v \<Longrightarrow> list_all (\<lambda>(k, v). keys_ok v) m \<Longrightarrow>
    list_all (\<lambda>(k, v). keys_ok v) (put_key k v m)"
  by (induction m) auto

lemma json_value_keys_ok:
  "json_value v = Inr j \<Longrightarrow> keys_ok j"
  "json_items kvs m = Inr m' \<Longrightarrow> keys_ok (JObj m) \<Longrightarrow> keys_ok (JObj m')"
  "json_list xs = Inr ys \<Longrightarrow> list_all keys_ok ys"
proof (induction v and kvs m and xs arbitrary: j and m' and ys
    rule: json_value_json_items_json_list.induct)
  case (12 k v kvs m)
  then show ?case
    by (auto simp: and_then_Inr_iff distinct_put_key put_key_keys_ok split: pyval.splits)
qed (auto simp: and_then_Inr_iff)

lemma canon_idem: "canon (canon v) = canon v"
proof (induction v)
  case (JObj kvs)
  have m: "map (map_prod id canon) (map (map_prod id canon) kvs) = map (map_prod id canon) kvs"
    using JObj by (auto simp: snds.simps intro!: list.map_cong0)
  let ?ys = "sort_key fst (map (map_prod id canon) kvs)"
  have "map (map_prod id canon) ?ys = ?ys"
    using m by (intro map_idI) (auto simp: map_eq_conv [of _ _ id, simplified] image_iff)
  moreover have "sort_key fst ?ys = ?ys"
    by (rule sort_key_id_if_sorted) simp
  ultimately show ?case by simp
qed (auto simp: comp_def intro: list.map_cong0)

lemma canon_obj_perm:
  assumes "mset kvs = mset kvs'" "distinct (map fst kvs)"
  shows "canon (JObj kvs) = canon (JObj kvs')"
proof -
  let ?c = "map (map_prod id canon)"
  have "mset (?c kvs) = mset (sort_key fst (?c kvs'))" using assms(1) by simp
  moreover have "distinct (map fst (?c kvs))" using assms(2) by (simp add: comp_def)
  then have "inj_on fst (set (?c kvs))" using distinct_map by blast
  ultimately have "sort_key fst (?c kvs) = sort_key fst (?c kvs')"
    by (intro sort_key_inj_key_eq) simp_all
  then show ?thesis by simp
qed

lemma canonical_json_text_inject:
  "canonical_json_text v = canonical_json_text w \<longleftrightarrow> canon v = canon w"
  using show_json_unique [of "[]" "[]" "canon v" "canon w"]
  by (auto simp: canonical_json_text_def)

section \<open>UTF-8\<close>

lemma utf8_Cons: "utf8 (c # s) = (let n = (of_char c :: nat) in
     if n < 128 then [word_of_nat n]
     else [word_of_nat (192 + n div 64), word_of_nat (128 + n mod 64)]) @ utf8 s"
  by (simp add: utf8_def)

lemma utf8_Nil [simp]: "utf8 [] = []"
  by (simp add: utf8_def)

lemma unat_byte: "n < 256 \<Longrightarrow> unat (word_of_nat n :: 8 word) = n"
  by (simp add: unat_of_nat)

lemma of_char_less [simp]: "(of_char c :: nat) < 256"
  by (rule nat_of_char_less_256)

lemma utf8_inject: "utf8 s = utf8 t \<Longrightarrow> s = t"
proof (induction s arbitrary: t)
  case Nil
  then show ?case by (cases t) (auto simp: utf8_Cons Let_def split: if_splits)
next
  case (Cons c s)
  then obtain d t' where t: "t = d # t'"
    by (cases t) (auto simp: utf8_Cons Let_def split: if_splits)
  define m n where "m = (of_char c :: nat)" and "n = (of_char d :: nat)"
  have b: "m < 256" "n < 256" by (simp_all add: m_def n_def)
  have q: "m div 64 < 4" "n div 64 < 4" using b by auto
  have eq: "(if m < 128 then [word_of_nat m] else
       [word_of_nat (192 + m div 64), word_of_nat (128 + m mod 64)]) @ utf8 s =
     (if n < 128 then [word_of_nat n] else
       [word_of_nat (192 + n div 64), word_of_nat (128 + n mod 64 :: nat) :: 8 word]) @ utf8 t'"
    using Cons.prems by (simp only: t utf8_Cons Let_def m_def n_def)
  have inj: "word_of_nat a = (word_of_nat e :: 8 word) \<Longrightarrow> a < 256 \<Longrightarrow> e < 256 \<Longrightarrow> a = e" for a e
    by (metis unat_byte)
  have "m = n \<and> utf8 s = utf8 t'"
  proof (cases "m < 128"; cases "n < 128")
    assume mn: "\<not> m < 128" "\<not> n < 128"
    from eq mn have "word_of_nat (192 + m div 64) = (word_of_nat (192 + n div 64) :: 8 word)"
      "word_of_nat (128 + m mod 64) = (word_of_nat (128 + n mod 64) :: 8 word)" "utf8 s = utf8 t'"
      by simp_all
    moreover have "128 + m mod 64 < 256" "128 + n mod 64 < 256"
      by (metis add_less_cancel_left mod_less_divisor numeral_Bit0 trans_less_add1 zero_less_numeral)+
    ultimately have "192 + m div 64 = 192 + n div 64" "128 + m mod 64 = 128 + n mod 64" "utf8 s = utf8 t'"
      using q by (auto intro: inj)
    then show ?thesis by (metis add_left_cancel div_mult_mod_eq)
  qed (use eq q b in \<open>auto simp del: of_nat_add dest!: inj\<close>)
  then have "c = d" "s = t'" using Cons.IH [of t'] by (simp_all add: m_def n_def)
  with t show ?case by simp
qed

end
