(* ===== verification/Content_Bound.thy ===== *)
theory Content_Bound
  imports Canonical
begin

text \<open>
  The contract shared by every model that carries the digest of its own content: an
  \<open>issue\<close> method that computes the digest and a validator that recomputes it. A provider
  gives the payload, the digest field and the field update; the clients get that issuing
  passes validation, that no other digest does, and that two values that validate with
  one digest have the same canonical payload unless their canonical texts are a SHA-256
  collision.
\<close>

definition collides :: "string \<Rightarrow> string \<Rightarrow> bool" where
  "collides s t \<longleftrightarrow> s \<noteq> t \<and> sha256_hex (utf8 s) = sha256_hex (utf8 t)"

lemma json_digest_eqD:
  "json_digest v = json_digest w \<Longrightarrow>
     canon v = canon w \<or> collides (canonical_json_text v) (canonical_json_text w)"
  by (auto simp: json_digest_def collides_def canonical_json_text_inject)

lemma json_digest_canon: "canon v = canon w \<Longrightarrow> json_digest v = json_digest w"
  by (simp add: json_digest_def canonical_json_text_def)

text \<open>Objects with one canonical form have the same members.\<close>

lemma canon_obj_set:
  "canon (JObj a) = canon (JObj b) \<Longrightarrow> map_prod id canon ` set a = map_prod id canon ` set b"
  by simp (metis image_set set_sort)

lemma canon_member:
  assumes "canon (JObj a) = canon (JObj b)" "distinct (map fst b)" "(k, v) \<in> set a" "(k, w) \<in> set b"
  shows "canon v = canon w"
proof -
  have "(k, canon v) \<in> map_prod id canon ` set b"
    using canon_obj_set [OF assms(1)] assms(3) by (metis id_apply image_eqI map_prod_simp)
  then obtain u where "(k, u) \<in> set b" "canon u = canon v" by auto
  then show ?thesis using assms(2,4) eq_key_imp_eq_value by metis
qed

locale content_bound =
  fixes payload :: "'a \<Rightarrow> json"
    and digest_of :: "'a \<Rightarrow> string"
    and with_digest :: "string \<Rightarrow> 'a \<Rightarrow> 'a"
  assumes get_with: "digest_of (with_digest d x) = d"
    and payload_with: "payload (with_digest d x) = payload x"
begin

lemma issued_bound: "digest_of (with_digest (json_digest (payload x)) x) =
    json_digest (payload (with_digest (json_digest (payload x)) x))"
  by (simp add: get_with payload_with)

lemma digest_unique:
  "digest_of x = json_digest (payload x) \<Longrightarrow>
   digest_of (with_digest d x) = json_digest (payload (with_digest d x)) \<longleftrightarrow> d = digest_of x"
  by (auto simp: get_with payload_with)

lemma same_digest_same_payload:
  assumes "digest_of x = json_digest (payload x)" "digest_of y = json_digest (payload y)"
    and "digest_of x = digest_of y"
  shows "canon (payload x) = canon (payload y) \<or>
    collides (canonical_json_text (payload x)) (canonical_json_text (payload y))"
  using assms by (intro json_digest_eqD) simp

end

end
