(* ===== verification/Schemas.thy ===== *)
theory Schemas
  imports Content_Bound
begin

text \<open>
  The host-neutral contract values of \<open>src/aar/schemas.py\<close>: typed references,
  capability sets, grants, budgets, request and failure envelopes, reconciliation reports,
  artifact references and the security boundary. Each pydantic model is a record (its
  literal \<open>schema_version\<close> fields are constants of the dump), \<open>X_json\<close> is
  \<open>model_dump(mode="json")\<close>, and \<open>validate_X\<close> is what construction does: the field
  constraints first (any failure is a \<open>ValidationError\<close>), then the model validator with
  its messages. Values held by a model were validated when they were constructed and are
  not validated again.
\<close>

section \<open>Scalar types\<close>

definition char_in :: "nat \<Rightarrow> nat \<Rightarrow> char \<Rightarrow> bool" where
  "char_in lo hi c \<longleftrightarrow> lo \<le> of_char c \<and> of_char c \<le> hi"

definition is_lower_alnum :: "char \<Rightarrow> bool" where
  "is_lower_alnum c \<longleftrightarrow> char_in 97 122 c \<or> char_in 48 57 c"

definition is_alnum :: "char \<Rightarrow> bool" where
  "is_alnum c \<longleftrightarrow> char_in 65 90 c \<or> is_lower_alnum c"

fun opaque_token :: "string \<Rightarrow> bool" where
  "opaque_token [] = False"
| "opaque_token (c # cs) \<longleftrightarrow> is_alnum c \<and> length cs \<le> 127 \<and>
     list_all (\<lambda>d. is_alnum d \<or> d \<in> set ''._~-'') cs"

fun capability_rest :: "string \<Rightarrow> bool" where
  "capability_rest [] = True"
| "capability_rest (c # cs) =
     (if is_lower_alnum c then capability_rest cs
      else if c \<in> set ''._-'' then
        (case cs of [] \<Rightarrow> False | d # ds \<Rightarrow> is_lower_alnum d \<and> capability_rest ds)
      else False)"

fun capability_name :: "string \<Rightarrow> bool" where
  "capability_name [] = False"
| "capability_name (c # cs) \<longleftrightarrow> char_in 97 122 c \<and> capability_rest cs"

definition is_digest :: "string \<Rightarrow> bool" where
  "is_digest s \<longleftrightarrow> take 7 s = ''sha256:'' \<and> length s = 71 \<and>
     list_all (\<lambda>c. char_in 48 57 c \<or> char_in 97 102 c) (drop 7 s)"

fun media_part :: "string \<Rightarrow> bool" where
  "media_part [] = False"
| "media_part (c # cs) \<longleftrightarrow> is_lower_alnum c \<and>
     list_all (\<lambda>d. is_lower_alnum d \<or> d \<in> set ''!#$&^_.+-'') cs"

definition media_type :: "string \<Rightarrow> bool" where
  "media_type s \<longleftrightarrow>
     (let a = takeWhile (\<lambda>c. c \<noteq> CHR ''/'') s; b = drop (length a) s
      in media_part a \<and> b \<noteq> [] \<and> media_part (tl b))"

definition max_i64 :: int where
  "max_i64 = 9223372036854775807"

definition positive_counter :: "int \<Rightarrow> bool" where
  "positive_counter i \<longleftrightarrow> 1 \<le> i \<and> i \<le> max_i64"

definition revision :: "int \<Rightarrow> bool" where
  "revision i \<longleftrightarrow> 0 \<le> i \<and> i \<le> max_i64"

definition budget_counter :: "int \<Rightarrow> bool" where
  "budget_counter i \<longleftrightarrow> 0 \<le> i \<and> i \<le> max_i64"

definition opt_ok :: "('a \<Rightarrow> bool) \<Rightarrow> 'a option \<Rightarrow> bool" where
  "opt_ok p x = (case x of None \<Rightarrow> True | Some y \<Rightarrow> p y)"

text \<open>Field constraints, then the messages of the model validator in order.\<close>

fun first_failure :: "(bool \<times> string) list \<Rightarrow> string option" where
  "first_failure [] = None"
| "first_failure ((ok, msg) # cs) = (if ok then first_failure cs else Some msg)"

definition validated :: "bool \<Rightarrow> (bool \<times> string) list \<Rightarrow> 'a \<Rightarrow> 'a res" where
  "validated fields checks x =
     (if \<not> fields then Inl (ValidationError ''field constraint'')
      else (case first_failure checks of Some msg \<Rightarrow> Inl (ValidationError msg) | None \<Rightarrow> Inr x))"

lemma first_failure_None_iff: "first_failure cs = None \<longleftrightarrow> list_all fst cs"
  by (induction cs) (auto split: if_splits)

lemma validated_Inr_iff [res_simps]:
  "validated fields checks x = Inr y \<longleftrightarrow> fields \<and> list_all fst checks \<and> y = x"
  by (auto simp: validated_def first_failure_None_iff [symmetric] split: option.splits)

definition opt_json :: "('a \<Rightarrow> json) \<Rightarrow> 'a option \<Rightarrow> json" where
  "opt_json f x = (case x of None \<Rightarrow> JNull | Some y \<Rightarrow> f y)"

datatype json_scalar = SStr string | SInt int | SBool bool | SNone

fun scalar_json :: "json_scalar \<Rightarrow> json" where
  "scalar_json (SStr s) = JStr s"
| "scalar_json (SInt i) = JInt i"
| "scalar_json (SBool b) = JBool b"
| "scalar_json SNone = JNull"

section \<open>Typed references\<close>

datatype host_ref = HostRef (host_value: string)
datatype principal_ref = PrincipalRef (principal_value: string)
datatype lane_ref = LaneRef (lane_value: string)
datatype session_ref = SessionRef (session_value: string)
datatype workspace_ref = WorkspaceRef (workspace_value: string)
datatype operation_ref = OperationRef (operation_value: string)
datatype artifact_ref = ArtifactIdRef (artifact_value: string)

definition ref_json :: "string \<Rightarrow> string \<Rightarrow> json" where
  "ref_json ty v = JObj [(''value'', JStr v), (''type'', JStr ty)]"

definition operation_json :: "operation_ref \<Rightarrow> json" where
  "operation_json r = ref_json ''operation'' (operation_value r)"

definition workspace_ref_json :: "workspace_ref \<Rightarrow> json" where
  "workspace_ref_json r = ref_json ''workspace'' (workspace_value r)"

definition validate_ref :: "(string \<Rightarrow> 'r) \<Rightarrow> string \<Rightarrow> 'r res" where
  "validate_ref C v = validated (opaque_token v) [] (C v)"

text \<open>References are ordered by their value, as SQLite orders the text columns that hold them.\<close>

instantiation operation_ref :: linorder
begin

definition less_eq_operation_ref :: "operation_ref \<Rightarrow> operation_ref \<Rightarrow> bool" where
  "a \<le> b \<longleftrightarrow> operation_value a \<le> operation_value b"

definition less_operation_ref :: "operation_ref \<Rightarrow> operation_ref \<Rightarrow> bool" where
  "a < b \<longleftrightarrow> operation_value a < operation_value b"

instance
  by intro_classes
    (auto simp: less_eq_operation_ref_def less_operation_ref_def operation_ref.expand)

end

section \<open>Capabilities\<close>

datatype access_mode = READ | WRITE

fun access_wire :: "access_mode \<Rightarrow> string" where
  "access_wire READ = ''read''"
| "access_wire WRITE = ''write''"

record capability_limit =
  cl_name :: string
  cl_value :: int

record capability_descriptor =
  cd_name :: string
  cd_access :: access_mode
  cd_limits :: "capability_limit list"

record capability_set =
  cs_capabilities :: "capability_descriptor list"
  cs_digest :: string

definition capability_limit_json :: "capability_limit \<Rightarrow> json" where
  "capability_limit_json l = JObj [(''name'', JStr (cl_name l)), (''value'', JInt (cl_value l))]"

definition capability_descriptor_json :: "capability_descriptor \<Rightarrow> json" where
  "capability_descriptor_json d = JObj
     [(''name'', JStr (cd_name d)), (''access'', JStr (access_wire (cd_access d))),
      (''limits'', JArr (map capability_limit_json (cd_limits d)))]"

definition validate_capability_limit :: "capability_limit \<Rightarrow> capability_limit res" where
  "validate_capability_limit l = validated (capability_name (cl_name l) \<and> budget_counter (cl_value l)) [] l"

definition validate_capability_descriptor :: "capability_descriptor \<Rightarrow> capability_descriptor res" where
  "validate_capability_descriptor d = validated (capability_name (cd_name d))
     [(sorted_unique (map cl_name (cd_limits d)), ''capability limits must be sorted by unique name'')] d"

definition capability_set_payload :: "capability_set \<Rightarrow> json" where
  "capability_set_payload s = JObj
     [(''schema_version'', JStr ''aar.runtime.v1''),
      (''capabilities'', JArr (map capability_descriptor_json (cs_capabilities s)))]"

definition validate_capability_set :: "capability_set \<Rightarrow> capability_set res" where
  "validate_capability_set s = validated (is_digest (cs_digest s))
     [(sorted_unique (map cd_name (cs_capabilities s)), ''capabilities must be sorted by unique name''),
      (cs_digest s = json_digest (capability_set_payload s),
       ''capability digest does not match canonical capability bytes'')] s"

definition capability_set_issue :: "capability_descriptor list \<Rightarrow> capability_set res" where
  "capability_set_issue caps =
     (let payload = JObj [(''schema_version'', JStr ''aar.runtime.v1''),
        (''capabilities'', JArr (map capability_descriptor_json caps))]
      in validate_capability_set \<lparr>cs_capabilities = caps, cs_digest = json_digest payload\<rparr>)"

section \<open>Grants, budgets and the request envelope\<close>

record grant_constraint =
  gc_name :: string
  gc_value :: json_scalar

record grant =
  gr_grant_id :: string
  gr_capability :: string
  gr_issued_to :: principal_ref
  gr_expires_at :: int
  gr_constraints :: "grant_constraint list"

definition validate_grant :: "grant \<Rightarrow> grant res" where
  "validate_grant g = validated
     (opaque_token (gr_grant_id g) \<and> capability_name (gr_capability g) \<and> positive_counter (gr_expires_at g))
     [(sorted_unique (map gc_name (gr_constraints g)), ''grant constraints must be sorted by unique name'')] g"

record budget =
  bu_wall_time_ms :: int
  bu_model_requests :: int
  bu_input_tokens :: int
  bu_output_tokens :: int
  bu_child_operations :: int
  bu_artifact_bytes :: int

definition validate_budget :: "budget \<Rightarrow> budget res" where
  "validate_budget b = validated (list_all budget_counter
     [bu_wall_time_ms b, bu_model_requests b, bu_input_tokens b, bu_output_tokens b,
      bu_child_operations b, bu_artifact_bytes b]) [] b"

record request_envelope =
  en_request_id :: string
  en_idempotency_key :: string
  en_host :: host_ref
  en_principal :: principal_ref
  en_lane :: lane_ref
  en_session :: session_ref
  en_workspace :: "workspace_ref option"
  en_parent_operation :: "operation_ref option"
  en_runtime_generation :: int
  en_workspace_generation :: "int option"
  en_expected_revision :: "int option"
  en_capability_digest :: string
  en_deadline :: int
  en_grants :: "grant list"
  en_budget :: budget
  en_trace_id :: string
  en_input_digest :: string

definition envelope_fields_ok :: "request_envelope \<Rightarrow> bool" where
  "envelope_fields_ok e \<longleftrightarrow>
     opaque_token (en_request_id e) \<and>
     8 \<le> length (en_idempotency_key e) \<and> length (en_idempotency_key e) \<le> 128 \<and>
     positive_counter (en_runtime_generation e) \<and>
     opt_ok positive_counter (en_workspace_generation e) \<and>
     opt_ok revision (en_expected_revision e) \<and>
     is_digest (en_capability_digest e) \<and> positive_counter (en_deadline e) \<and>
     opaque_token (en_trace_id e) \<and> is_digest (en_input_digest e)"

text \<open>The loop over the grants stops at the first grant that fails either test.\<close>

fun grants_bound :: "principal_ref \<Rightarrow> int \<Rightarrow> grant list \<Rightarrow> string option" where
  "grants_bound p d [] = None"
| "grants_bound p d (g # gs) =
     (if gr_issued_to g \<noteq> p then Some ''every grant must be issued to the envelope principal''
      else if gr_expires_at g < d then Some ''grant expiry cannot precede the request deadline''
      else grants_bound p d gs)"

definition validate_request_envelope :: "request_envelope \<Rightarrow> request_envelope res" where
  "validate_request_envelope e =
     and_then (validated (envelope_fields_ok e)
       [(\<not> (en_workspace e = None \<and> (en_workspace_generation e \<noteq> None \<or> en_expected_revision e \<noteq> None)),
         ''workspace generation and revision require a workspace reference''),
        (\<not> (en_workspace e \<noteq> None \<and> en_workspace_generation e = None),
         ''workspace reference requires a workspace generation''),
        (sorted_unique (map gr_grant_id (en_grants e)), ''grants must be sorted by unique grant_id'')] e)
     (\<lambda>e. case grants_bound (en_principal e) (en_deadline e) (en_grants e) of
        Some msg \<Rightarrow> Inl (ValidationError msg) | None \<Rightarrow> Inr e)"

section \<open>Failures and operation states\<close>

datatype failure_category =
  VALIDATION | AUTHORITY | BUDGET | DEADLINE | CONFLICT | STALE | CANCELLED_CATEGORY | TRANSPORT
  | WORKER | INTERNAL

datatype outcome_certainty = CERTAIN | INDETERMINATE_OUTCOME

record failure_detail =
  fd_name :: string
  fd_value :: json_scalar

record failure_envelope =
  fe_category :: failure_category
  fe_code :: string
  fe_message :: string
  fe_retryable :: bool
  fe_certainty :: outcome_certainty
  fe_operation :: "operation_ref option"
  fe_details :: "failure_detail list"

fun failure_code :: "string \<Rightarrow> bool" where
  "failure_code [] = False"
| "failure_code (c # cs) \<longleftrightarrow> char_in 65 90 c \<and> 2 \<le> length cs \<and> length cs \<le> 63 \<and>
     list_all (\<lambda>d. char_in 65 90 d \<or> char_in 48 57 d \<or> d = CHR ''_'') cs"

definition validate_failure_envelope :: "failure_envelope \<Rightarrow> failure_envelope res" where
  "validate_failure_envelope f = validated
     (failure_code (fe_code f) \<and> 1 \<le> length (fe_message f) \<and> length (fe_message f) \<le> 512)
     [(sorted_unique (map fd_name (fe_details f)), ''failure details must be sorted by unique name'')] f"

datatype operation_state =
  ACCEPTED | RUNNING | SUCCEEDED | FAILED | CANCELLED | TIMED_OUT | INDETERMINATE

fun state_wire :: "operation_state \<Rightarrow> string" where
  "state_wire ACCEPTED = ''accepted''"
| "state_wire RUNNING = ''running''"
| "state_wire SUCCEEDED = ''succeeded''"
| "state_wire FAILED = ''failed''"
| "state_wire CANCELLED = ''cancelled''"
| "state_wire TIMED_OUT = ''timed_out''"
| "state_wire INDETERMINATE = ''indeterminate''"

fun certainty_wire :: "outcome_certainty \<Rightarrow> string" where
  "certainty_wire CERTAIN = ''certain''"
| "certainty_wire INDETERMINATE_OUTCOME = ''indeterminate''"

lemma state_wire_inject [simp]: "state_wire a = state_wire b \<longleftrightarrow> a = b"
  by (cases a; cases b) auto

record reconciliation_report =
  rr_operation :: operation_ref
  rr_state :: operation_state
  rr_certainty :: outcome_certainty
  rr_runtime_generation :: int
  rr_workspace_generation :: "int option"
  rr_observed_revision :: "int option"
  rr_reconciliation_required :: bool

definition validate_reconciliation_report :: "reconciliation_report \<Rightarrow> reconciliation_report res" where
  "validate_reconciliation_report r = validated
     (positive_counter (rr_runtime_generation r) \<and> opt_ok positive_counter (rr_workspace_generation r) \<and>
      opt_ok revision (rr_observed_revision r))
     (if rr_state r = INDETERMINATE then
        [(rr_certainty r = INDETERMINATE_OUTCOME, ''indeterminate state requires indeterminate certainty''),
         (rr_reconciliation_required r, ''indeterminate state requires reconciliation'')]
      else
        [(rr_certainty r \<noteq> INDETERMINATE_OUTCOME, ''indeterminate certainty requires indeterminate state'')]) r"

section \<open>Artifacts and the security boundary\<close>

record artifact_reference =
  ar_artifact :: artifact_ref
  ar_digest :: string
  ar_media_type :: string
  ar_size_bytes :: int
  ar_created_by :: operation_ref
  ar_redacted :: bool

definition artifact_reference_json :: "artifact_reference \<Rightarrow> json" where
  "artifact_reference_json a = JObj
     [(''schema_version'', JStr ''aar.artifact.v1''),
      (''artifact'', ref_json ''artifact'' (artifact_value (ar_artifact a))),
      (''digest'', JStr (ar_digest a)), (''media_type'', JStr (ar_media_type a)),
      (''size_bytes'', JInt (ar_size_bytes a)), (''created_by'', operation_json (ar_created_by a)),
      (''redacted'', JBool (ar_redacted a))]"

definition validate_artifact_reference :: "artifact_reference \<Rightarrow> artifact_reference res" where
  "validate_artifact_reference a = validated
     (is_digest (ar_digest a) \<and> media_type (ar_media_type a) \<and> budget_counter (ar_size_bytes a)) [] a"

record security_boundary =
  sb_runtime_responsibilities :: "string list"
  sb_host_authority :: "string list"
  sb_forbidden_in_runtime :: "string list"

definition validate_security_boundary :: "security_boundary \<Rightarrow> security_boundary res" where
  "validate_security_boundary b = validated
     (list_all capability_name (sb_runtime_responsibilities b) \<and>
      list_all capability_name (sb_host_authority b) \<and>
      list_all capability_name (sb_forbidden_in_runtime b))
     [(sorted_unique (sb_runtime_responsibilities b), ''runtime_responsibilities must be sorted and unique''),
      (sorted_unique (sb_host_authority b), ''host_authority must be sorted and unique''),
      (sorted_unique (sb_forbidden_in_runtime b), ''forbidden_in_runtime must be sorted and unique'')] b"

section \<open>Lemmas\<close>

interpretation capability_digest: content_bound capability_set_payload cs_digest
  "\<lambda>d s. s\<lparr>cs_digest := d\<rparr>"
  by unfold_locales (simp_all add: capability_set_payload_def)

lemma length_hex_word: "length (hex_word w) = 8"
  by (simp add: hex_word_def)

lemma length_sha_round: "length h = 8 \<Longrightarrow> length (sha_round h kw) = 8"
  by (cases "(h, kw)" rule: sha_round.cases) (auto simp: Let_def)

lemma length_foldl_sha_round: "length h = 8 \<Longrightarrow> length (foldl sha_round h kws) = 8"
  by (induction kws arbitrary: h) (simp_all add: length_sha_round)

lemma length_sha_blocks: "length h = 8 \<Longrightarrow> length (sha_blocks h bs) = 8"
proof (induction h bs rule: sha_blocks.induct)
  case (1 h bs)
  then show ?case
    by (subst sha_blocks.simps) (simp add: sha_compress_def length_foldl_sha_round)
qed

lemma hexdigit_range: "char_in 48 57 (hexdigit n) \<or> char_in 97 102 (hexdigit n)"
proof -
  have "\<forall>k < 16. char_in 48 57 (''0123456789abcdef'' ! k) \<or> char_in 97 102 (''0123456789abcdef'' ! k)"
    by (simp add: char_in_def eval_nat_numeral All_less_Suc)
  then show ?thesis by (simp add: hexdigit_def)
qed

lemma length_concat_const: "(\<And>x. x \<in> set xs \<Longrightarrow> length (f x) = k) \<Longrightarrow> length (concat (map f xs)) = length xs * k"
  by (induction xs) auto

lemma sha256_hex_shape:
  "length (sha256_hex bs) = 64 \<and> list_all (\<lambda>c. char_in 48 57 c \<or> char_in 97 102 c) (sha256_hex bs)"
proof -
  have "length (sha_blocks sha_init (sha_pad bs)) = 8"
    by (rule length_sha_blocks) (simp add: sha_init_def)
  then have "length (sha256_hex bs) = 64"
    by (simp add: sha256_hex_def length_concat_const [where k = 8] length_hex_word)
  moreover have "list_all (\<lambda>c. char_in 48 57 c \<or> char_in 97 102 c) (sha256_hex bs)"
    using hexdigit_range by (auto simp: sha256_hex_def hex_word_def list_all_iff)
  ultimately show ?thesis by simp
qed

text \<open>A canonical digest always has the shape the \<open>Digest\<close> type demands.\<close>

lemma is_digest_json_digest [simp]: "is_digest (json_digest j)"
  using sha256_hex_shape by (simp add: is_digest_def json_digest_def)

lemma capability_set_issue_Inr_iff:
  "capability_set_issue caps = Inr s \<longleftrightarrow>
     sorted_unique (map cd_name caps) \<and> cs_capabilities s = caps \<and>
     cs_digest s = json_digest (capability_set_payload s)"
  by (cases s) (auto simp: capability_set_issue_def validate_capability_set_def res_simps
    capability_set_payload_def Let_def)

lemma grants_bound_None_iff:
  "grants_bound p d gs = None \<longleftrightarrow> (\<forall>g \<in> set gs. gr_issued_to g = p \<and> d \<le> gr_expires_at g)"
  by (induction gs) (auto split: if_splits)

lemma validate_request_envelope_Inr_iff:
  "validate_request_envelope e = Inr e' \<longleftrightarrow> e' = e \<and> envelope_fields_ok e \<and>
     (en_workspace e = None \<longrightarrow> en_workspace_generation e = None \<and> en_expected_revision e = None) \<and>
     (en_workspace e \<noteq> None \<longrightarrow> en_workspace_generation e \<noteq> None) \<and>
     sorted_unique (map gr_grant_id (en_grants e)) \<and>
     (\<forall>g \<in> set (en_grants e). gr_issued_to g = en_principal e \<and> en_deadline e \<le> gr_expires_at g)"
  by (auto simp: validate_request_envelope_def res_simps grants_bound_None_iff [symmetric]
    split: option.splits)

end
