(* ===== verification/Workspace_Models.thy ===== *)
theory Workspace_Models
  imports Schemas
begin

text \<open>
  The programmable-workspace values of \<open>src/aar/runtime/workspace_models.py\<close>: backend
  descriptors, handles, environment fingerprints, program specifications, events and
  results, and checkpoint manifests. A \<open>JsonValue\<close> is a \<open>pyval\<close> where the model still has
  to check that it is canonical, and a \<open>json\<close> where a validator has already done so.
\<close>

section \<open>Backends and handles\<close>

datatype backend_kind = Plain_python | Ipython

fun backend_wire :: "backend_kind \<Rightarrow> string" where
  "backend_wire Plain_python = ''plain-python''"
| "backend_wire Ipython = ''ipython''"

record backend_descriptor =
  bd_kind :: backend_kind
  bd_version :: string
  bd_capability_digest :: string
  bd_checkpoint_formats :: "string list"
  bd_features :: "string list"

definition backend_payload :: "backend_descriptor \<Rightarrow> json" where
  "backend_payload b = JObj
     [(''kind'', JStr (backend_wire (bd_kind b))), (''version'', JStr (bd_version b)),
      (''checkpoint_formats'', JArr (map JStr (bd_checkpoint_formats b))),
      (''features'', JArr (map JStr (bd_features b)))]"

definition backend_json :: "backend_descriptor \<Rightarrow> json" where
  "backend_json b = JObj
     [(''kind'', JStr (backend_wire (bd_kind b))), (''version'', JStr (bd_version b)),
      (''capability_digest'', JStr (bd_capability_digest b)),
      (''checkpoint_formats'', JArr (map JStr (bd_checkpoint_formats b))),
      (''features'', JArr (map JStr (bd_features b)))]"

definition backend_fields_ok :: "backend_descriptor \<Rightarrow> bool" where
  "backend_fields_ok b \<longleftrightarrow>
     1 \<le> length (bd_version b) \<and> length (bd_version b) \<le> 64 \<and> is_digest (bd_capability_digest b) \<and>
     list_all (\<lambda>f. f = ''aar.workspace-checkpoint.v1'') (bd_checkpoint_formats b) \<and>
     list_all (\<lambda>f. 1 \<le> length f \<and> length f \<le> 128) (bd_features b)"

definition validate_backend :: "backend_descriptor \<Rightarrow> backend_descriptor res" where
  "validate_backend b = validated (backend_fields_ok b)
     [(bd_checkpoint_formats b = sort (remdups (bd_checkpoint_formats b)),
       ''checkpoint formats must be sorted and unique''),
      (bd_features b = sort (remdups (bd_features b)), ''workspace features must be sorted and unique''),
      (bd_capability_digest b = json_digest (backend_payload b),
       ''workspace backend capability digest mismatch'')] b"

definition backend_issue :: "backend_kind \<Rightarrow> string \<Rightarrow> string list \<Rightarrow> string list \<Rightarrow> backend_descriptor res" where
  "backend_issue kind version formats features =
     (let b = \<lparr>bd_kind = kind, bd_version = version, bd_capability_digest = [],
               bd_checkpoint_formats = sort formats, bd_features = sort features\<rparr>
      in validate_backend (b\<lparr>bd_capability_digest := json_digest (backend_payload b)\<rparr>))"

record workspace_handle =
  wh_workspace :: workspace_ref
  wh_backend :: backend_descriptor
  wh_generation :: int
  wh_revision :: int

definition handle_json :: "workspace_handle \<Rightarrow> json" where
  "handle_json h = JObj
     [(''workspace'', workspace_ref_json (wh_workspace h)), (''backend'', backend_json (wh_backend h)),
      (''generation'', JInt (wh_generation h)), (''revision'', JInt (wh_revision h))]"

definition validate_handle :: "workspace_handle \<Rightarrow> workspace_handle res" where
  "validate_handle h = validated (positive_counter (wh_generation h) \<and> revision (wh_revision h)) [] h"

record environment =
  ev_entries :: "(string \<times> string) list"
  ev_digest :: string

definition entries_json :: "(string \<times> string) list \<Rightarrow> json" where
  "entries_json es = JArr (map (\<lambda>(n, v). JArr [JStr n, JStr v]) es)"

definition environment_json :: "environment \<Rightarrow> json" where
  "environment_json e = JObj
     [(''entries'', entries_json (ev_entries e)), (''digest'', JStr (ev_digest e))]"

definition validate_environment :: "environment \<Rightarrow> environment res" where
  "validate_environment e = validated (is_digest (ev_digest e))
     [(sorted_unique (map fst (ev_entries e)), ''environment entries must be sorted by unique name''),
      (ev_digest e = json_digest (entries_json (ev_entries e)), ''workspace environment digest mismatch'')] e"

section \<open>Programs, events and results\<close>

record program_spec =
  sp_code :: string
  sp_wall_time_ms :: int
  sp_max_output_chars :: int
  sp_max_events :: int
  sp_checkpoint_replay_safe :: bool

definition program_spec_json :: "program_spec \<Rightarrow> json" where
  "program_spec_json s = JObj
     [(''code'', JStr (sp_code s)), (''wall_time_ms'', JInt (sp_wall_time_ms s)),
      (''max_output_chars'', JInt (sp_max_output_chars s)), (''max_events'', JInt (sp_max_events s)),
      (''checkpoint_replay_safe'', JBool (sp_checkpoint_replay_safe s))]"

definition validate_program_spec :: "program_spec \<Rightarrow> program_spec res" where
  "validate_program_spec s = validated
     (1 \<le> length (sp_code s) \<and> length (sp_code s) \<le> 65536 \<and>
      1 \<le> sp_wall_time_ms s \<and> sp_wall_time_ms s \<le> max_i64 \<and>
      1 \<le> sp_max_output_chars s \<and> sp_max_output_chars s \<le> 262144 \<and>
      1 \<le> sp_max_events s \<and> sp_max_events s \<le> 512) [] s"

datatype event_kind = EK_stdout | EK_stderr | EK_display | EK_exception | EK_progress | EK_artifact

fun event_kind_wire :: "event_kind \<Rightarrow> string" where
  "event_kind_wire EK_stdout = ''stdout''"
| "event_kind_wire EK_stderr = ''stderr''"
| "event_kind_wire EK_display = ''display''"
| "event_kind_wire EK_exception = ''exception''"
| "event_kind_wire EK_progress = ''progress''"
| "event_kind_wire EK_artifact = ''artifact''"

record workspace_event =
  we_sequence :: int
  we_kind :: event_kind
  we_text :: "string option"
  we_data :: "pyval option"
  we_artifact :: "artifact_reference option"
  we_truncated :: bool

definition event_payload_error :: "workspace_event \<Rightarrow> string option" where
  "event_payload_error e =
     (if we_kind e \<in> {EK_stdout, EK_stderr} then
        (if we_text e = None \<or> we_data e \<noteq> None \<or> we_artifact e \<noteq> None
         then Some ''stream events require only text'' else None)
      else if we_kind e = EK_artifact then
        (if we_artifact e = None \<or> we_text e \<noteq> None \<or> we_data e \<noteq> None
         then Some ''artifact events require only an artifact reference'' else None)
      else if we_data e = None \<or> we_text e \<noteq> None \<or> we_artifact e \<noteq> None
      then Some (event_kind_wire (we_kind e) @ '' events require only structured data'')
      else None)"

definition validate_workspace_event :: "workspace_event \<Rightarrow> workspace_event res" where
  "validate_workspace_event e =
     and_then (validated
       (positive_counter (we_sequence e) \<and> opt_ok (\<lambda>t. length t \<le> 8192) (we_text e)) [] e)
     (\<lambda>e. case event_payload_error e of
        Some msg \<Rightarrow> Inl (ValidationError msg)
      | None \<Rightarrow>
          (case we_data e of
             None \<Rightarrow> Inr e
           | Some d \<Rightarrow> and_then (canonical_json_bytes d) (\<lambda>bs.
               if 16384 < length bs then Inl (ValidationError ''structured event data exceeds 16384 bytes'')
               else Inr e)))"

datatype execution_status = EX_succeeded | EX_failed | EX_interrupted | EX_timed_out

record program_result =
  pr_operation :: operation_ref
  pr_workspace :: workspace_ref
  pr_backend :: backend_descriptor
  pr_generation :: int
  pr_revision_before :: int
  pr_revision_after :: int
  pr_status :: execution_status
  pr_workspace_lost :: bool
  pr_result :: "pyval option"
  pr_result_excluded_reason :: "string option"
  pr_events :: "workspace_event list"

definition validate_program_result :: "program_result \<Rightarrow> program_result res" where
  "validate_program_result r =
     and_then (validated
       (positive_counter (pr_generation r) \<and> revision (pr_revision_before r) \<and> revision (pr_revision_after r))
       [(pr_revision_after r = pr_revision_before r + 1, ''executed programs must advance exactly one revision'')] r)
     (\<lambda>r. and_then (case pr_result r of None \<Rightarrow> Inr True
            | Some v \<Rightarrow> and_then (canonical_json_bytes v) (\<lambda>bs. Inr (length bs \<le> 65536)))
     (\<lambda>small. validated True
       [(small, ''portable result exceeds 65536 bytes''),
        (\<not> (pr_result r \<noteq> None \<and> pr_result_excluded_reason r \<noteq> None), ''portable result cannot also be excluded''),
        (map we_sequence (pr_events r) = map int [1..<Suc (length (pr_events r))],
         ''workspace event sequences must be contiguous'')] r))"

section \<open>Checkpoints\<close>

fun python_name :: "string \<Rightarrow> bool" where
  "python_name [] = False"
| "python_name (c # cs) \<longleftrightarrow> (char_in 65 90 c \<or> char_in 97 122 c \<or> c = CHR ''_'') \<and> length cs \<le> 127 \<and>
     list_all (\<lambda>d. is_alnum d \<or> d = CHR ''_'') cs"

record checkpoint_value =
  cv_name :: string
  cv_value :: json

definition checkpoint_value_make :: "string \<Rightarrow> pyval \<Rightarrow> checkpoint_value res" where
  "checkpoint_value_make name v =
     and_then (validated (python_name name) [] ()) (\<lambda>_.
     and_then (json_value v) (\<lambda>j. Inr \<lparr>cv_name = name, cv_value = j\<rparr>))"

record checkpoint_exclusion =
  ce_name :: string
  ce_type_name :: string
  ce_reason :: string

definition validate_checkpoint_exclusion :: "checkpoint_exclusion \<Rightarrow> checkpoint_exclusion res" where
  "validate_checkpoint_exclusion x = validated
     (python_name (ce_name x) \<and> 1 \<le> length (ce_type_name x) \<and> length (ce_type_name x) \<le> 128 \<and>
      1 \<le> length (ce_reason x) \<and> length (ce_reason x) \<le> 256) [] x"

definition checkpoint_value_json :: "checkpoint_value \<Rightarrow> json" where
  "checkpoint_value_json v = JObj [(''name'', JStr (cv_name v)), (''value'', cv_value v)]"

definition checkpoint_exclusion_json :: "checkpoint_exclusion \<Rightarrow> json" where
  "checkpoint_exclusion_json x = JObj
     [(''name'', JStr (ce_name x)), (''type_name'', JStr (ce_type_name x)), (''reason'', JStr (ce_reason x))]"

record checkpoint_manifest =
  cm_source_handle :: workspace_handle
  cm_creation_operation :: operation_ref
  cm_trace_id :: string
  cm_environment :: environment
  cm_values :: "checkpoint_value list"
  cm_exclusions :: "checkpoint_exclusion list"
  cm_artifacts :: "artifact_reference list"
  cm_content_digest :: string

definition manifest_payload :: "checkpoint_manifest \<Rightarrow> json" where
  "manifest_payload m = JObj
     [(''schema_version'', JStr ''aar.workspace-checkpoint.v1''),
      (''source_handle'', handle_json (cm_source_handle m)),
      (''creation_operation'', operation_json (cm_creation_operation m)),
      (''trace_id'', JStr (cm_trace_id m)),
      (''environment'', environment_json (cm_environment m)),
      (''values'', JArr (map checkpoint_value_json (cm_values m))),
      (''exclusions'', JArr (map checkpoint_exclusion_json (cm_exclusions m))),
      (''artifacts'', JArr (map artifact_reference_json (cm_artifacts m)))]"

definition validate_manifest :: "checkpoint_manifest \<Rightarrow> checkpoint_manifest res" where
  "validate_manifest m = validated (opaque_token (cm_trace_id m) \<and> is_digest (cm_content_digest m))
     [(sorted_unique (map cv_name (cm_values m)), ''checkpoint values must be sorted and unique''),
      (sorted_unique (map ce_name (cm_exclusions m)), ''checkpoint exclusions must be sorted and unique''),
      (set (map cv_name (cm_values m)) \<inter> set (map ce_name (cm_exclusions m)) = {},
       ''checkpoint names cannot be both included and excluded''),
      (cm_content_digest m = json_digest (manifest_payload m), ''checkpoint content digest mismatch'')] m"

definition manifest_issue ::
    "workspace_handle \<Rightarrow> operation_ref \<Rightarrow> string \<Rightarrow> environment \<Rightarrow> checkpoint_value list \<Rightarrow>
     checkpoint_exclusion list \<Rightarrow> artifact_reference list \<Rightarrow> checkpoint_manifest res" where
  "manifest_issue source_handle creation_operation trace_id env values exclusions artifacts =
     (let m = \<lparr>cm_source_handle = source_handle, cm_creation_operation = creation_operation,
               cm_trace_id = trace_id, cm_environment = env, cm_values = values,
               cm_exclusions = exclusions, cm_artifacts = artifacts, cm_content_digest = []\<rparr>
      in validate_manifest (m\<lparr>cm_content_digest := json_digest (manifest_payload m)\<rparr>))"

section \<open>Lemmas\<close>

interpretation backend_digest: content_bound backend_payload bd_capability_digest
  "\<lambda>d b. b\<lparr>bd_capability_digest := d\<rparr>"
  by unfold_locales (simp_all add: backend_payload_def)

interpretation manifest_digest: content_bound manifest_payload cm_content_digest
  "\<lambda>d m. m\<lparr>cm_content_digest := d\<rparr>"
  by unfold_locales (simp_all add: manifest_payload_def)

lemma manifest_issue_Inr_iff:
  "manifest_issue h op tr env vs xs arts = Inr m \<longleftrightarrow>
     opaque_token tr \<and> sorted_unique (map cv_name vs) \<and> sorted_unique (map ce_name xs) \<and>
     set (map cv_name vs) \<inter> set (map ce_name xs) = {} \<and>
     cm_source_handle m = h \<and> cm_creation_operation m = op \<and> cm_trace_id m = tr \<and>
     cm_environment m = env \<and> cm_values m = vs \<and> cm_exclusions m = xs \<and> cm_artifacts m = arts \<and>
     cm_content_digest m = json_digest (manifest_payload m)"
  by (cases m) (auto simp: manifest_issue_def validate_manifest_def res_simps manifest_payload_def Let_def)

lemma validate_program_result_Inr:
  assumes "validate_program_result r = Inr r'"
  shows "r' = r \<and> pr_revision_after r = pr_revision_before r + 1 \<and>
    map we_sequence (pr_events r) = map int [1..<Suc (length (pr_events r))]"
  using assms by (auto simp: validate_program_result_def res_simps split: option.splits)

end
