(* ===== verification/Continuity_Models.thy ===== *)
theory Continuity_Models
  imports Workspace_Models
begin

text \<open>
  The continuity contracts of \<open>src/aar/continuity_models.py\<close>: attempt references and
  records, leases, control state, recovery policies and their bindings, the two
  continuation boundaries, workspace checkpoint selections, recovery decisions, event
  envelopes and pages, and the continuity snapshot, each with its validator and, where
  the code has one, its content-bound \<open>issue\<close>.
\<close>

section \<open>Attempts, leases and controls\<close>

definition continuity_text :: "string \<Rightarrow> bool" where
  "continuity_text s \<longleftrightarrow> 1 \<le> length s \<and> length s \<le> 512"

record attempt_ref =
  at_operation :: operation_ref
  at_attempt_no :: int
  at_attempt_id :: string

definition attempt_ref_json :: "attempt_ref \<Rightarrow> json" where
  "attempt_ref_json a = JObj
     [(''schema_version'', JStr ''aar.operation-continuity.v1''),
      (''operation'', operation_json (at_operation a)), (''attempt_no'', JInt (at_attempt_no a)),
      (''attempt_id'', JStr (at_attempt_id a))]"

definition validate_attempt_ref :: "attempt_ref \<Rightarrow> attempt_ref res" where
  "validate_attempt_ref a =
     validated (positive_counter (at_attempt_no a) \<and> opaque_token (at_attempt_id a)) [] a"

datatype dispatch_state = D_queued | D_running | D_completed | D_parked | D_cancelled

fun dispatch_wire :: "dispatch_state \<Rightarrow> string" where
  "dispatch_wire D_queued = ''queued''"
| "dispatch_wire D_running = ''running''"
| "dispatch_wire D_completed = ''completed''"
| "dispatch_wire D_parked = ''parked''"
| "dispatch_wire D_cancelled = ''cancelled''"

record attempt_record =
  ac_ref :: attempt_ref
  ac_runtime_generation :: int
  ac_dispatcher_generation :: int
  ac_state :: dispatch_state
  ac_certainty :: outcome_certainty
  ac_recovery_reason :: "string option"
  ac_created_at :: int
  ac_started_at :: "int option"
  ac_ended_at :: "int option"

text \<open>\<open>self.started_at_unix_ms or self.created_at_unix_ms\<close>: a start of 0 counts as absent.\<close>

definition validate_attempt_record :: "attempt_record \<Rightarrow> attempt_record res" where
  "validate_attempt_record a = validated
     (positive_counter (ac_runtime_generation a) \<and> positive_counter (ac_dispatcher_generation a) \<and>
      opt_ok continuity_text (ac_recovery_reason a) \<and> positive_counter (ac_created_at a) \<and>
      opt_ok positive_counter (ac_started_at a) \<and> opt_ok positive_counter (ac_ended_at a))
     [(opt_ok (\<lambda>s. \<not> s < ac_created_at a) (ac_started_at a),
       ''attempt started_at_unix_ms cannot precede created_at_unix_ms''),
      (opt_ok (\<lambda>e. \<not> e < (case ac_started_at a of None \<Rightarrow> ac_created_at a
                           | Some s \<Rightarrow> if s = 0 then ac_created_at a else s)) (ac_ended_at a),
       ''attempt ended_at_unix_ms cannot precede its prior timestamp'')] a"

record lease_record =
  le_attempt :: attempt_ref
  le_runtime_generation :: int
  le_dispatcher_generation :: int
  le_lease_epoch :: int
  le_owner_digest :: string
  le_acquired_at :: int
  le_heartbeat_at :: int
  le_expires_at :: int
  le_released_at :: "int option"

definition validate_lease_record :: "lease_record \<Rightarrow> lease_record res" where
  "validate_lease_record l = validated
     (positive_counter (le_runtime_generation l) \<and> positive_counter (le_dispatcher_generation l) \<and>
      positive_counter (le_lease_epoch l) \<and> is_digest (le_owner_digest l) \<and>
      positive_counter (le_acquired_at l) \<and> positive_counter (le_heartbeat_at l) \<and>
      positive_counter (le_expires_at l) \<and> opt_ok positive_counter (le_released_at l))
     [(\<not> le_heartbeat_at l < le_acquired_at l,
       ''lease heartbeat_at_unix_ms must be at or after acquired_at_unix_ms''),
      (\<not> le_expires_at l < le_heartbeat_at l,
       ''lease expires_at_unix_ms must be at or after heartbeat_at_unix_ms''),
      (opt_ok (\<lambda>r. \<not> r < le_heartbeat_at l) (le_released_at l),
       ''lease released_at_unix_ms must be at or after heartbeat_at_unix_ms'')] l"

record control_state =
  ct_operation :: operation_ref
  ct_control_revision :: int
  ct_cancellation_requested :: bool
  ct_requested_at :: "int option"
  ct_requested_by_digest :: "string option"
  ct_reason_code :: "string option"

definition validate_control_state :: "control_state \<Rightarrow> control_state res" where
  "validate_control_state c = validated
     (revision (ct_control_revision c) \<and> opt_ok positive_counter (ct_requested_at c) \<and>
      opt_ok is_digest (ct_requested_by_digest c) \<and> opt_ok continuity_text (ct_reason_code c))
     [(\<not> (ct_cancellation_requested c \<and>
          (ct_requested_at c = None \<or> ct_requested_by_digest c = None \<or> ct_reason_code c = None)),
       ''a cancellation request requires requested_at_unix_ms, requested_by_digest, and reason_code'')] c"

section \<open>Recovery decisions and policies\<close>

datatype recovery_decision_kind =
  Resume_native | Start_successor | Restore_checkpoint | Reconcile_effect | Needs_user
  | Terminal_from_receipt | Quarantine

fun decision_wire :: "recovery_decision_kind \<Rightarrow> string" where
  "decision_wire Resume_native = ''resume_native''"
| "decision_wire Start_successor = ''start_successor''"
| "decision_wire Restore_checkpoint = ''restore_checkpoint''"
| "decision_wire Reconcile_effect = ''reconcile_effect''"
| "decision_wire Needs_user = ''needs_user''"
| "decision_wire Terminal_from_receipt = ''terminal_from_receipt''"
| "decision_wire Quarantine = ''quarantine''"

lemma decision_wire_inject [simp]: "decision_wire a = decision_wire b \<longleftrightarrow> a = b"
  by (cases a; cases b) simp_all

text \<open>Decisions are string literals in the code, so \<open>sorted\<close> orders them by their text.\<close>

instantiation recovery_decision_kind :: linorder
begin

definition less_eq_recovery_decision_kind :: "recovery_decision_kind \<Rightarrow> recovery_decision_kind \<Rightarrow> bool" where
  "a \<le> b \<longleftrightarrow> decision_wire a \<le> decision_wire b"

definition less_recovery_decision_kind :: "recovery_decision_kind \<Rightarrow> recovery_decision_kind \<Rightarrow> bool" where
  "a < b \<longleftrightarrow> decision_wire a < decision_wire b"

instance
  by intro_classes
    (auto simp: less_eq_recovery_decision_kind_def less_recovery_decision_kind_def
      dest: order_antisym)

end

definition successor_decisions :: "recovery_decision_kind set" where
  "successor_decisions = {Start_successor, Restore_checkpoint}"

datatype recovery_policy_id =
  Legacy_safe_replay | No_automatic_continuation | Rlm_step_boundary | Workspace_checkpoint_boundary

fun policy_id_wire :: "recovery_policy_id \<Rightarrow> string" where
  "policy_id_wire Legacy_safe_replay = ''legacy-safe-replay.v1''"
| "policy_id_wire No_automatic_continuation = ''no-automatic-continuation.v1''"
| "policy_id_wire Rlm_step_boundary = ''rlm.step-boundary.v1''"
| "policy_id_wire Workspace_checkpoint_boundary = ''workspace.checkpoint-boundary.v1''"

datatype environment_compatibility = Capability_exact | Environment_exact
datatype broker_uncertainty = Receipt_or_park | No_broker_replay

fun compatibility_wire :: "environment_compatibility \<Rightarrow> string" where
  "compatibility_wire Capability_exact = ''capability-exact''"
| "compatibility_wire Environment_exact = ''environment-exact''"

fun uncertainty_wire :: "broker_uncertainty \<Rightarrow> string" where
  "uncertainty_wire Receipt_or_park = ''receipt-or-park''"
| "uncertainty_wire No_broker_replay = ''no-broker-replay''"

text \<open>
  \<open>cancellation_policy\<close> and \<open>deadline_policy\<close> have one admissible literal each, which the
  dump carries as a constant.
\<close>

record recovery_policy =
  rp_policy_version :: int
  rp_policy_id :: recovery_policy_id
  rp_operation_kind :: string
  rp_allowed_decisions :: "recovery_decision_kind list"
  rp_max_successor_attempts :: int
  rp_safe_replay_no_effect :: bool
  rp_checkpoint_required :: bool
  rp_allow_partial_checkpoint :: bool
  rp_environment_compatibility :: environment_compatibility
  rp_broker_uncertainty_policy :: broker_uncertainty
  rp_effect_reconcile_required :: bool

definition policy_json :: "recovery_policy \<Rightarrow> json" where
  "policy_json p = JObj
     [(''schema_version'', JStr ''aar.operation-continuity.v1''),
      (''policy_version'', JInt (rp_policy_version p)),
      (''policy_id'', JStr (policy_id_wire (rp_policy_id p))),
      (''operation_kind'', JStr (rp_operation_kind p)),
      (''allowed_decisions'', JArr (map (\<lambda>d. JStr (decision_wire d)) (rp_allowed_decisions p))),
      (''max_successor_attempts'', JInt (rp_max_successor_attempts p)),
      (''safe_replay_no_effect'', JBool (rp_safe_replay_no_effect p)),
      (''checkpoint_required'', JBool (rp_checkpoint_required p)),
      (''allow_partial_checkpoint'', JBool (rp_allow_partial_checkpoint p)),
      (''environment_compatibility'', JStr (compatibility_wire (rp_environment_compatibility p))),
      (''broker_uncertainty_policy'', JStr (uncertainty_wire (rp_broker_uncertainty_policy p))),
      (''cancellation_policy'', JStr ''block-successor''),
      (''deadline_policy'', JStr ''preserve-original''),
      (''effect_reconcile_required'', JBool (rp_effect_reconcile_required p))]"

definition validate_policy :: "recovery_policy \<Rightarrow> recovery_policy res" where
  "validate_policy p =
     (let has_successor = (\<exists>d \<in> set (rp_allowed_decisions p). d \<in> successor_decisions)
      in validated
        (positive_counter (rp_policy_version p) \<and> continuity_text (rp_operation_kind p) \<and>
         revision (rp_max_successor_attempts p))
        [(sorted_unique (rp_allowed_decisions p), ''recovery policy decisions must be sorted and unique''),
         (\<not> (has_successor \<and> rp_max_successor_attempts p = 0),
          ''successor recovery requires a positive successor bound''),
         (\<not> (\<not> has_successor \<and> rp_max_successor_attempts p \<noteq> 0),
          ''non-successor policy must set max_successor_attempts to zero'')] p)"

record policy_binding =
  pb_operation :: operation_ref
  pb_operation_kind :: string
  pb_policy :: recovery_policy
  pb_policy_digest :: string
  pb_environment_digest :: string
  pb_created_at :: int

definition policy_binding_payload :: "policy_binding \<Rightarrow> json" where
  "policy_binding_payload b = policy_json (pb_policy b)"

definition validate_policy_binding :: "policy_binding \<Rightarrow> policy_binding res" where
  "validate_policy_binding b = validated
     (continuity_text (pb_operation_kind b) \<and> is_digest (pb_policy_digest b) \<and>
      is_digest (pb_environment_digest b) \<and> positive_counter (pb_created_at b))
     [(rp_operation_kind (pb_policy b) = pb_operation_kind b,
       ''recovery policy operation kind does not match binding''),
      (pb_policy_digest b = json_digest (policy_json (pb_policy b)),
       ''recovery policy digest does not match canonical policy bytes'')] b"

definition policy_binding_issue ::
    "operation_ref \<Rightarrow> string \<Rightarrow> recovery_policy \<Rightarrow> string \<Rightarrow> int \<Rightarrow> policy_binding res" where
  "policy_binding_issue operation operation_kind policy environment_digest created_at =
     validate_policy_binding
       \<lparr>pb_operation = operation, pb_operation_kind = operation_kind, pb_policy = policy,
        pb_policy_digest = json_digest (policy_json policy),
        pb_environment_digest = environment_digest, pb_created_at = created_at\<rparr>"

section \<open>The RLM step boundary\<close>

record rlm_boundary =
  rb_operation :: operation_ref
  rb_prior_attempt :: attempt_ref
  rb_runtime_generation :: int
  rb_dispatcher_generation :: int
  rb_lease_epoch :: int
  rb_policy_digest :: string
  rb_input_digest :: string
  rb_strategy :: string
  rb_strategy_digest :: string
  rb_capability_digest :: string
  rb_environment_digest :: string
  rb_deadline :: int
  rb_committed_step_count :: int
  rb_last_step_index :: "int option"
  rb_last_step_digest :: "string option"
  rb_steps_digest :: string
  rb_broker_trace_digest :: string
  rb_usage_digest :: string
  rb_created_at :: int
  rb_boundary_digest :: string

definition rlm_boundary_payload :: "rlm_boundary \<Rightarrow> json" where
  "rlm_boundary_payload b = JObj
     [(''operation'', operation_json (rb_operation b)),
      (''prior_attempt'', attempt_ref_json (rb_prior_attempt b)),
      (''runtime_generation'', JInt (rb_runtime_generation b)),
      (''dispatcher_generation'', JInt (rb_dispatcher_generation b)),
      (''lease_epoch'', JInt (rb_lease_epoch b)),
      (''policy_digest'', JStr (rb_policy_digest b)),
      (''input_digest'', JStr (rb_input_digest b)),
      (''strategy'', JStr (rb_strategy b)),
      (''strategy_digest'', JStr (rb_strategy_digest b)),
      (''capability_digest'', JStr (rb_capability_digest b)),
      (''environment_digest'', JStr (rb_environment_digest b)),
      (''deadline_unix_ms'', JInt (rb_deadline b)),
      (''committed_step_count'', JInt (rb_committed_step_count b)),
      (''last_step_index'', opt_json JInt (rb_last_step_index b)),
      (''last_step_digest'', opt_json JStr (rb_last_step_digest b)),
      (''steps_digest'', JStr (rb_steps_digest b)),
      (''broker_trace_digest'', JStr (rb_broker_trace_digest b)),
      (''usage_digest'', JStr (rb_usage_digest b)),
      (''created_at_unix_ms'', JInt (rb_created_at b))]"

definition rlm_boundary_fields_ok :: "rlm_boundary \<Rightarrow> bool" where
  "rlm_boundary_fields_ok b \<longleftrightarrow>
     positive_counter (rb_runtime_generation b) \<and> positive_counter (rb_dispatcher_generation b) \<and>
     positive_counter (rb_lease_epoch b) \<and> is_digest (rb_policy_digest b) \<and>
     is_digest (rb_input_digest b) \<and> continuity_text (rb_strategy b) \<and>
     is_digest (rb_strategy_digest b) \<and> is_digest (rb_capability_digest b) \<and>
     is_digest (rb_environment_digest b) \<and> positive_counter (rb_deadline b) \<and>
     revision (rb_committed_step_count b) \<and> opt_ok revision (rb_last_step_index b) \<and>
     opt_ok is_digest (rb_last_step_digest b) \<and> is_digest (rb_steps_digest b) \<and>
     is_digest (rb_broker_trace_digest b) \<and> is_digest (rb_usage_digest b) \<and>
     positive_counter (rb_created_at b) \<and> is_digest (rb_boundary_digest b)"

definition validate_rlm_boundary :: "rlm_boundary \<Rightarrow> rlm_boundary res" where
  "validate_rlm_boundary b = validated (rlm_boundary_fields_ok b)
     [(at_operation (rb_prior_attempt b) = rb_operation b,
       ''RLM boundary attempt operation must match binding operation''),
      (\<not> (rb_committed_step_count b = 0 \<and> (rb_last_step_index b \<noteq> None \<or> rb_last_step_digest b \<noteq> None)),
       ''empty RLM boundary cannot bind a last step''),
      (\<not> (rb_committed_step_count b \<noteq> 0 \<and>
          (rb_last_step_index b \<noteq> Some (rb_committed_step_count b - 1) \<or> rb_last_step_digest b = None)),
       ''RLM boundary must bind its highest committed step''),
      (rb_boundary_digest b = json_digest (rlm_boundary_payload b),
       ''RLM boundary digest does not match canonical boundary bytes'')] b"

text \<open>
  \<open>issue\<close> takes every field but \<open>last_step_index\<close>, which it derives from the step count,
  and the boundary digest; the argument's values of those two fields are ignored.
\<close>

definition rlm_boundary_issue :: "rlm_boundary \<Rightarrow> rlm_boundary res" where
  "rlm_boundary_issue a =
     (let b = a\<lparr>rb_last_step_index := (if rb_committed_step_count a \<noteq> 0
                 then Some (rb_committed_step_count a - 1) else None)\<rparr>
      in validate_rlm_boundary (b\<lparr>rb_boundary_digest := json_digest (rlm_boundary_payload b)\<rparr>))"

section \<open>Checkpoint bindings and selections\<close>

record checkpoint_binding =
  cb_operation :: operation_ref
  cb_attempt :: attempt_ref
  cb_checkpoint :: artifact_reference
  cb_environment_digest :: string
  cb_created_at :: int

definition validate_checkpoint_binding :: "checkpoint_binding \<Rightarrow> checkpoint_binding res" where
  "validate_checkpoint_binding b = validated
     (is_digest (cb_environment_digest b) \<and> positive_counter (cb_created_at b))
     [(at_operation (cb_attempt b) = cb_operation b,
       ''checkpoint attempt operation must match binding operation'')] b"

datatype completeness = Complete | Partial

fun completeness_wire :: "completeness \<Rightarrow> string" where
  "completeness_wire Complete = ''complete''"
| "completeness_wire Partial = ''partial''"

record ws_selection =
  ws_operation :: operation_ref
  ws_prior_attempt :: attempt_ref
  ws_runtime_generation :: int
  ws_dispatcher_generation :: int
  ws_lease_epoch :: int
  ws_policy_digest :: string
  ws_input_digest :: string
  ws_checkpoint_operation :: operation_ref
  ws_checkpoint_manifest_digest :: string
  ws_source_handle :: workspace_handle
  ws_environment_digest :: string
  ws_exclusion_count :: int
  ws_exclusions_digest :: string
  ws_artifacts_digest :: string
  ws_completeness :: completeness
  ws_deadline :: int
  ws_selected_at :: int
  ws_selection_digest :: string

definition ws_selection_payload :: "ws_selection \<Rightarrow> json" where
  "ws_selection_payload s = JObj
     [(''operation'', operation_json (ws_operation s)),
      (''prior_attempt'', attempt_ref_json (ws_prior_attempt s)),
      (''runtime_generation'', JInt (ws_runtime_generation s)),
      (''dispatcher_generation'', JInt (ws_dispatcher_generation s)),
      (''lease_epoch'', JInt (ws_lease_epoch s)),
      (''policy_digest'', JStr (ws_policy_digest s)),
      (''input_digest'', JStr (ws_input_digest s)),
      (''checkpoint_operation'', operation_json (ws_checkpoint_operation s)),
      (''checkpoint_manifest_digest'', JStr (ws_checkpoint_manifest_digest s)),
      (''source_handle'', handle_json (ws_source_handle s)),
      (''environment_digest'', JStr (ws_environment_digest s)),
      (''exclusion_count'', JInt (ws_exclusion_count s)),
      (''exclusions_digest'', JStr (ws_exclusions_digest s)),
      (''artifacts_digest'', JStr (ws_artifacts_digest s)),
      (''completeness'', JStr (completeness_wire (ws_completeness s))),
      (''deadline_unix_ms'', JInt (ws_deadline s)),
      (''selected_at_unix_ms'', JInt (ws_selected_at s))]"

definition validate_ws_selection :: "ws_selection \<Rightarrow> ws_selection res" where
  "validate_ws_selection s = validated
     (positive_counter (ws_runtime_generation s) \<and> positive_counter (ws_dispatcher_generation s) \<and>
      positive_counter (ws_lease_epoch s) \<and> is_digest (ws_policy_digest s) \<and>
      is_digest (ws_input_digest s) \<and> is_digest (ws_checkpoint_manifest_digest s) \<and>
      is_digest (ws_environment_digest s) \<and> revision (ws_exclusion_count s) \<and>
      is_digest (ws_exclusions_digest s) \<and> is_digest (ws_artifacts_digest s) \<and>
      positive_counter (ws_deadline s) \<and> positive_counter (ws_selected_at s) \<and>
      is_digest (ws_selection_digest s))
     [(at_operation (ws_prior_attempt s) = ws_operation s,
       ''workspace selection attempt must match binding operation''),
      ((ws_exclusion_count s = 0) = (ws_completeness s = Complete),
       ''checkpoint completeness does not match exclusion count''),
      (ws_selection_digest s = json_digest (ws_selection_payload s),
       ''workspace selection digest does not match canonical selection bytes'')] s"

text \<open>\<open>issue\<close> derives the completeness and the digest; the argument's values of both are ignored.\<close>

definition ws_selection_issue :: "ws_selection \<Rightarrow> ws_selection res" where
  "ws_selection_issue a =
     (let s = a\<lparr>ws_completeness := (if ws_exclusion_count a = 0 then Complete else Partial)\<rparr>
      in validate_ws_selection (s\<lparr>ws_selection_digest := json_digest (ws_selection_payload s)\<rparr>))"

section \<open>The workspace checkpoint boundary\<close>

record ws_boundary =
  wb_operation :: operation_ref
  wb_prior_attempt :: attempt_ref
  wb_runtime_generation :: int
  wb_dispatcher_generation :: int
  wb_lease_epoch :: int
  wb_policy_digest :: string
  wb_input_digest :: string
  wb_checkpoint_operation :: operation_ref
  wb_checkpoint_manifest_digest :: string
  wb_source_handle :: workspace_handle
  wb_restored_handle :: workspace_handle
  wb_environment_digest :: string
  wb_exclusion_count :: int
  wb_exclusions_digest :: string
  wb_artifacts_digest :: string
  wb_completeness :: completeness
  wb_deadline :: int
  wb_created_at :: int
  wb_boundary_digest :: string

definition ws_boundary_payload :: "ws_boundary \<Rightarrow> json" where
  "ws_boundary_payload b = JObj
     [(''operation'', operation_json (wb_operation b)),
      (''prior_attempt'', attempt_ref_json (wb_prior_attempt b)),
      (''runtime_generation'', JInt (wb_runtime_generation b)),
      (''dispatcher_generation'', JInt (wb_dispatcher_generation b)),
      (''lease_epoch'', JInt (wb_lease_epoch b)),
      (''policy_digest'', JStr (wb_policy_digest b)),
      (''input_digest'', JStr (wb_input_digest b)),
      (''checkpoint_operation'', operation_json (wb_checkpoint_operation b)),
      (''checkpoint_manifest_digest'', JStr (wb_checkpoint_manifest_digest b)),
      (''source_handle'', handle_json (wb_source_handle b)),
      (''restored_handle'', handle_json (wb_restored_handle b)),
      (''environment_digest'', JStr (wb_environment_digest b)),
      (''exclusion_count'', JInt (wb_exclusion_count b)),
      (''exclusions_digest'', JStr (wb_exclusions_digest b)),
      (''artifacts_digest'', JStr (wb_artifacts_digest b)),
      (''completeness'', JStr (completeness_wire (wb_completeness b))),
      (''deadline_unix_ms'', JInt (wb_deadline b)),
      (''created_at_unix_ms'', JInt (wb_created_at b))]"

definition validate_ws_boundary :: "ws_boundary \<Rightarrow> ws_boundary res" where
  "validate_ws_boundary b = validated
     (positive_counter (wb_runtime_generation b) \<and> positive_counter (wb_dispatcher_generation b) \<and>
      positive_counter (wb_lease_epoch b) \<and> is_digest (wb_policy_digest b) \<and>
      is_digest (wb_input_digest b) \<and> is_digest (wb_checkpoint_manifest_digest b) \<and>
      is_digest (wb_environment_digest b) \<and> revision (wb_exclusion_count b) \<and>
      is_digest (wb_exclusions_digest b) \<and> is_digest (wb_artifacts_digest b) \<and>
      positive_counter (wb_deadline b) \<and> positive_counter (wb_created_at b) \<and>
      is_digest (wb_boundary_digest b))
     [(at_operation (wb_prior_attempt b) = wb_operation b,
       ''workspace boundary attempt operation must match binding operation''),
      (wh_workspace (wb_source_handle b) = wh_workspace (wb_restored_handle b),
       ''workspace recovery must preserve workspace identity''),
      (wh_generation (wb_restored_handle b) = wh_generation (wb_source_handle b) + 1,
       ''workspace recovery must advance exactly one generation''),
      (wh_revision (wb_restored_handle b) = 0,
       ''restored workspace generation must start at revision zero''),
      (wh_backend (wb_source_handle b) = wh_backend (wb_restored_handle b),
       ''workspace recovery requires the exact backend capability''),
      ((wb_exclusion_count b = 0) = (wb_completeness b = Complete),
       ''checkpoint completeness does not match exclusion count''),
      (wb_boundary_digest b = json_digest (ws_boundary_payload b),
       ''workspace boundary digest does not match canonical boundary bytes'')] b"

definition ws_boundary_issue :: "ws_boundary \<Rightarrow> ws_boundary res" where
  "ws_boundary_issue a =
     (let b = a\<lparr>wb_completeness := (if wb_exclusion_count a = 0 then Complete else Partial)\<rparr>
      in validate_ws_boundary (b\<lparr>wb_boundary_digest := json_digest (ws_boundary_payload b)\<rparr>))"

section \<open>Decisions, events, pages and snapshots\<close>

record recovery_decision =
  rd_operation :: operation_ref
  rd_decision_no :: int
  rd_policy_version :: int
  rd_prior_attempt :: "attempt_ref option"
  rd_decision :: recovery_decision_kind
  rd_reason_code :: string
  rd_input_digest :: string
  rd_policy_digest :: "string option"
  rd_checkpoint_digest :: "string option"
  rd_effect_receipt_digest :: "string option"
  rd_boundary_digest :: "string option"
  rd_successor_attempt :: "attempt_ref option"
  rd_created_at :: int

definition validate_recovery_decision :: "recovery_decision \<Rightarrow> recovery_decision res" where
  "validate_recovery_decision d = validated
     (positive_counter (rd_decision_no d) \<and> positive_counter (rd_policy_version d) \<and>
      continuity_text (rd_reason_code d) \<and> is_digest (rd_input_digest d) \<and>
      opt_ok is_digest (rd_policy_digest d) \<and> opt_ok is_digest (rd_checkpoint_digest d) \<and>
      opt_ok is_digest (rd_effect_receipt_digest d) \<and> opt_ok is_digest (rd_boundary_digest d) \<and>
      positive_counter (rd_created_at d))
     [(opt_ok (\<lambda>a. at_operation a = rd_operation d) (rd_prior_attempt d),
       ''prior attempt operation must match recovery decision operation''),
      (opt_ok (\<lambda>a. at_operation a = rd_operation d) (rd_successor_attempt d),
       ''successor attempt operation must match recovery decision operation''),
      (opt_ok (\<lambda>p. opt_ok (\<lambda>s. \<not> at_attempt_no s \<le> at_attempt_no p) (rd_successor_attempt d))
         (rd_prior_attempt d),
       ''successor attempt number must be greater than prior attempt number''),
      (\<not> (rd_decision d \<in> successor_decisions \<and>
          (rd_policy_digest d = None) \<noteq> (rd_boundary_digest d = None)),
       ''policy and continuation boundary digests must be supplied together'')] d"

record event_envelope =
  oe_sequence :: int
  oe_operation :: operation_ref
  oe_attempt :: "attempt_ref option"
  oe_event_kind :: string
  oe_state :: operation_state
  oe_certainty :: outcome_certainty
  oe_record_revision :: int
  oe_at :: int
  oe_payload :: json
  oe_payload_digest :: string

definition event_envelope_json :: "event_envelope \<Rightarrow> json" where
  "event_envelope_json e = JObj
     [(''schema_version'', JStr ''aar.operation-continuity.v1''),
      (''sequence'', JInt (oe_sequence e)), (''operation'', operation_json (oe_operation e)),
      (''attempt'', opt_json attempt_ref_json (oe_attempt e)),
      (''event_kind'', JStr (oe_event_kind e)), (''state'', JStr (state_wire (oe_state e))),
      (''certainty'', JStr (certainty_wire (oe_certainty e))),
      (''record_revision'', JInt (oe_record_revision e)), (''at_unix_ms'', JInt (oe_at e)),
      (''payload'', oe_payload e), (''payload_digest'', JStr (oe_payload_digest e))]"

definition event_fields_ok :: "event_envelope \<Rightarrow> bool" where
  "event_fields_ok e \<longleftrightarrow>
     positive_counter (oe_sequence e) \<and> 1 \<le> length (oe_event_kind e) \<and> length (oe_event_kind e) \<le> 128 \<and>
     revision (oe_record_revision e) \<and> positive_counter (oe_at e) \<and> is_digest (oe_payload_digest e)"

text \<open>
  \<open>event_envelope_make\<close> is the construction from an arbitrary payload, whose canonical form
  replaces the record's; \<open>validate_event_envelope\<close> the construction from one that is
  already canonical.
\<close>

definition event_envelope_make :: "event_envelope \<Rightarrow> pyval \<Rightarrow> event_envelope res" where
  "event_envelope_make e payload =
     and_then (validated (event_fields_ok e)
       [(opt_ok (\<lambda>a. at_operation a = oe_operation e) (oe_attempt e),
         ''event attempt operation must match event operation'')] e)
     (\<lambda>e. case json_value payload of
        Inl _ \<Rightarrow> Inl (ValidationError ''event payload must be canonical JSON'')
      | Inr j \<Rightarrow> validated True
          [(oe_payload_digest e = json_digest j,
            ''event payload digest does not match canonical payload bytes'')] (e\<lparr>oe_payload := j\<rparr>))"

definition validate_event_envelope :: "event_envelope \<Rightarrow> event_envelope res" where
  "validate_event_envelope e = validated (event_fields_ok e)
     [(opt_ok (\<lambda>a. at_operation a = oe_operation e) (oe_attempt e),
       ''event attempt operation must match event operation''),
      (oe_payload_digest e = json_digest (oe_payload e),
       ''event payload digest does not match canonical payload bytes'')] e"

record continuity_snapshot =
  sn_operation :: operation_ref
  sn_operation_state :: operation_state
  sn_certainty :: outcome_certainty
  sn_record_revision :: int
  sn_current_attempt :: "attempt_ref option"
  sn_last_attempt :: "attempt_ref option"
  sn_control :: control_state
  sn_dispatcher_state :: "dispatch_state option"
  sn_last_event_sequence :: int
  sn_reconciliation_required :: bool
  sn_recovery_reason :: "string option"

definition validate_snapshot :: "continuity_snapshot \<Rightarrow> continuity_snapshot res" where
  "validate_snapshot s = validated
     (revision (sn_record_revision s) \<and> revision (sn_last_event_sequence s) \<and>
      opt_ok continuity_text (sn_recovery_reason s))
     [(ct_operation (sn_control s) = sn_operation s,
       ''snapshot control operation must match snapshot operation''),
      (opt_ok (\<lambda>a. at_operation a = sn_operation s) (sn_current_attempt s),
       ''current attempt operation must match snapshot operation''),
      (opt_ok (\<lambda>a. at_operation a = sn_operation s) (sn_last_attempt s),
       ''last attempt operation must match snapshot operation''),
      (opt_ok (\<lambda>c. opt_ok (\<lambda>l. \<not> at_attempt_no c < at_attempt_no l) (sn_last_attempt s))
         (sn_current_attempt s),
       ''current attempt number cannot precede last attempt number'')] s"

record event_page =
  pg_operation :: operation_ref
  pg_after_sequence :: int
  pg_events :: "event_envelope list"
  pg_next_sequence :: int
  pg_has_more :: bool
  pg_terminal_snapshot :: "continuity_snapshot option"

definition validate_event_page :: "event_page \<Rightarrow> event_page res" where
  "validate_event_page p =
     (let sequences = map oe_sequence (pg_events p) in
      validated (revision (pg_after_sequence p) \<and> revision (pg_next_sequence p))
        [(\<not> (\<exists>e \<in> set (pg_events p). oe_operation e \<noteq> pg_operation p),
          ''event operation must match page operation''),
         (sorted_unique sequences, ''page events must be ordered by unique sequence''),
         (case sequences of [] \<Rightarrow> True | s # _ \<Rightarrow> \<not> s \<le> pg_after_sequence p,
          ''page events must be after the supplied cursor''),
         (pg_next_sequence p = (if sequences = [] then pg_after_sequence p else last sequences),
          ''page next_sequence must equal the page cursor''),
         (opt_ok (\<lambda>s. sn_operation s = pg_operation p) (pg_terminal_snapshot p),
          ''terminal snapshot operation must match page operation'')] p)"

section \<open>Lemmas\<close>

interpretation policy_digest: content_bound policy_binding_payload pb_policy_digest
  "\<lambda>d b. b\<lparr>pb_policy_digest := d\<rparr>"
  by unfold_locales (simp_all add: policy_binding_payload_def)

interpretation rlm_boundary_digest: content_bound rlm_boundary_payload rb_boundary_digest
  "\<lambda>d b. b\<lparr>rb_boundary_digest := d\<rparr>"
  by unfold_locales (simp_all add: rlm_boundary_payload_def)

interpretation ws_selection_digest: content_bound ws_selection_payload ws_selection_digest
  "\<lambda>d s. s\<lparr>ws_selection_digest := d\<rparr>"
  by unfold_locales (simp_all add: ws_selection_payload_def)

interpretation ws_boundary_digest: content_bound ws_boundary_payload wb_boundary_digest
  "\<lambda>d b. b\<lparr>wb_boundary_digest := d\<rparr>"
  by unfold_locales (simp_all add: ws_boundary_payload_def)

lemma policy_binding_issue_Inr:
  "policy_binding_issue op k p ed t = Inr b \<Longrightarrow>
     pb_operation b = op \<and> pb_operation_kind b = k \<and> pb_policy b = p \<and> rp_operation_kind p = k \<and>
     pb_environment_digest b = ed \<and> pb_policy_digest b = json_digest (policy_json p)"
  by (auto simp: policy_binding_issue_def validate_policy_binding_def res_simps)

lemma validate_rlm_boundary_Inr:
  "validate_rlm_boundary b = Inr b' \<Longrightarrow> b' = b \<and> rlm_boundary_fields_ok b \<and>
     at_operation (rb_prior_attempt b) = rb_operation b \<and>
     rb_boundary_digest b = json_digest (rlm_boundary_payload b)"
  by (auto simp: validate_rlm_boundary_def res_simps)

text \<open>
  Issuing a boundary succeeds exactly when the scalar fields are in range, the attempt is
  the operation's own and a last-step digest is given exactly when a step is committed.
\<close>

lemma rlm_boundary_issue_Inr_iff:
  "(\<exists>b. rlm_boundary_issue a = Inr b) \<longleftrightarrow>
     rlm_boundary_fields_ok (a\<lparr>rb_last_step_index :=
         (if rb_committed_step_count a \<noteq> 0 then Some (rb_committed_step_count a - 1) else None),
       rb_boundary_digest := json_digest (JObj [])\<rparr>) \<and>
     at_operation (rb_prior_attempt a) = rb_operation a \<and>
     (rb_committed_step_count a = 0 \<longleftrightarrow> rb_last_step_digest a = None)"
  by (auto simp: rlm_boundary_issue_def validate_rlm_boundary_def res_simps Let_def
    rlm_boundary_payload_def rlm_boundary_fields_ok_def)

lemma validate_ws_boundary_Inr:
  "validate_ws_boundary b = Inr b' \<Longrightarrow> b' = b \<and>
     wh_workspace (wb_restored_handle b) = wh_workspace (wb_source_handle b) \<and>
     wh_generation (wb_restored_handle b) = wh_generation (wb_source_handle b) + 1 \<and>
     wh_revision (wb_restored_handle b) = 0 \<and>
     wh_backend (wb_restored_handle b) = wh_backend (wb_source_handle b)"
  by (auto simp: validate_ws_boundary_def res_simps)

lemma validate_event_page_Inr:
  "validate_event_page p = Inr p' \<Longrightarrow> p' = p \<and>
     sorted_wrt (<) (map oe_sequence (pg_events p)) \<and>
     (\<forall>e \<in> set (pg_events p). oe_operation e = pg_operation p \<and> pg_after_sequence p < oe_sequence e \<and>
        oe_sequence e \<le> pg_next_sequence p)"
proof -
  assume a: "validate_event_page p = Inr p'"
  define q where "q = map oe_sequence (pg_events p)"
  from a have p': "p' = p" and ops: "\<forall>e \<in> set (pg_events p). oe_operation e = pg_operation p"
    and st: "sorted_wrt (<) q" and first: "case q of [] \<Rightarrow> True | s # _ \<Rightarrow> \<not> s \<le> pg_after_sequence p"
    and next_: "pg_next_sequence p = (if q = [] then pg_after_sequence p else last q)"
    by (auto simp: validate_event_page_def res_simps Let_def sorted_unique_strict q_def)
  have "pg_after_sequence p < x \<and> x \<le> pg_next_sequence p" if x: "x \<in> set q" for x
  proof (cases q)
    case (Cons y ys)
    from st have s: "sorted q" by (simp add: strict_sorted_iff)
    from x s Cons have "y \<le> x" by auto
    from x obtain i where i: "i < length q" "x = q ! i" by (auto simp: in_set_conv_nth)
    have "q ! i \<le> q ! (length q - 1)" using s i(1) by (intro sorted_nth_mono) simp_all
    moreover have "last q = q ! (length q - 1)" using Cons by (intro last_conv_nth) simp
    ultimately have "x \<le> last q" using i(2) by simp
    with \<open>y \<le> x\<close> show ?thesis using first next_ Cons by simp
  qed (use x in simp)
  then show ?thesis using p' ops st by (auto simp: q_def)
qed

end
