(* ===== verification/Registry_State.thy ===== *)
theory Registry_State
  imports Continuity_Models
begin

text \<open>
  The tables of \<open>src/aar/runtime/registry.py\<close> as one state record, the statements its
  methods share (\<open>_insert_event\<close>, the row fetches, constrained inserts), the identifiers
  it derives by hashing, and the read models it builds from rows.

  The state is that of a database initialised by \<open>_initialize\<close> (schema version 5): the
  version-6 workbench tables are created only by an offline migration, so a statement on
  one of them is SQLite's \<open>OperationalError\<close>. A column that holds the canonical text of a
  model holds the model here; \<open>canonical_json_text_inject\<close> is why comparing models is
  comparing that text. Every method runs under one lock inside one transaction and any
  exception rolls it back, so a method is a function from the state to either an
  exception, which leaves the state as it was, or a value with the committed state. Each
  reading of the clock is an argument.
\<close>

section \<open>Rows\<close>

record op_row =
  or_operation :: operation_ref
  or_host :: string
  or_principal :: string
  or_idempotency_key :: string
  or_input_digest :: string
  or_state :: operation_state
  or_certainty :: outcome_certainty
  or_runtime_generation :: int
  or_record_revision :: int
  or_reconciliation_required :: bool
  or_request :: request_envelope
  or_payload_json :: string
  or_result_json :: "string option"
  or_failure :: "failure_envelope option"
  or_created_at :: int
  or_updated_at :: int

record event_row =
  ev_sequence :: int
  ev_operation :: operation_ref
  ev_state :: operation_state
  ev_certainty :: outcome_certainty
  ev_record_revision :: int
  ev_at :: int
  ev_note :: string
  ev_attempt_no :: "int option"
  ev_event_kind :: string
  ev_payload :: json
  ev_payload_digest :: string

text \<open>
  The attempt's \<open>state\<close> column holds an operation state or the text
  \<open>suspended_external\<close> of a suspended workbench attempt.
\<close>

datatype attempt_state = A_state operation_state | Suspended_external

abbreviation "A_running \<equiv> A_state RUNNING"

record attempt_row =
  aw_operation :: operation_ref
  aw_attempt_no :: int
  aw_attempt_id :: string
  aw_runtime_generation :: int
  aw_dispatcher_generation :: int
  aw_state :: attempt_state
  aw_certainty :: outcome_certainty
  aw_recovery_reason :: "string option"
  aw_created_at :: int
  aw_started_at :: "int option"
  aw_ended_at :: "int option"
  aw_checkpoint_digest :: "string option"

record lease_row =
  lw_operation :: operation_ref
  lw_attempt_no :: int
  lw_lease_epoch :: int
  lw_owner_digest :: string
  lw_acquired_at :: int
  lw_heartbeat_at :: int
  lw_expires_at :: int
  lw_released_at :: "int option"

record control_row =
  cw_operation :: operation_ref
  cw_control_revision :: int
  cw_cancellation_requested :: bool
  cw_requested_at :: "int option"
  cw_requested_by_digest :: "string option"
  cw_reason_code :: "string option"

record dispatch_row =
  dw_operation :: operation_ref
  dw_kind :: string
  dw_state :: dispatch_state
  dw_queued_at :: "int option"
  dw_running_at :: "int option"
  dw_finished_at :: "int option"
  dw_current_attempt_no :: "int option"

record checkpoint_row =
  kw_operation :: operation_ref
  kw_attempt_no :: int
  kw_checkpoint_digest :: string
  kw_checkpoint_kind :: string
  kw_artifact_id :: string
  kw_media_type :: string
  kw_size_bytes :: int
  kw_created_by :: string
  kw_created_at :: int

record decision_row =
  xw_operation :: operation_ref
  xw_decision_no :: int
  xw_prior_attempt_no :: "int option"
  xw_decision :: recovery_decision_kind
  xw_reason_code :: string
  xw_input_digest :: string
  xw_policy_version :: "int option"
  xw_policy_digest :: "string option"
  xw_checkpoint_digest :: "string option"
  xw_effect_receipt_digest :: "string option"
  xw_boundary_digest :: "string option"
  xw_successor_attempt_no :: "int option"
  xw_created_at :: int

record policy_row =
  pw_operation :: operation_ref
  pw_operation_kind :: string
  pw_policy :: recovery_policy
  pw_policy_digest :: string
  pw_environment_digest :: string
  pw_created_at :: int

record 'b boundary_row =
  bw_operation :: operation_ref
  bw_prior_attempt_no :: int
  bw_boundary_digest :: string
  bw_boundary :: 'b
  bw_created_at :: int

record catalog_row =
  gw_manifest_digest :: string
  gw_workspace :: string
  gw_source_generation :: int
  gw_source_revision :: int
  gw_backend_digest :: string
  gw_environment_digest :: string
  gw_creation_operation :: operation_ref
  gw_manifest :: checkpoint_manifest
  gw_created_at :: int

datatype selection_state = Selected | Restored

record selection_row =
  sw_operation :: operation_ref
  sw_prior_attempt_no :: int
  sw_selection_digest :: string
  sw_selection :: ws_selection
  sw_state :: selection_state
  sw_restored_handle :: "workspace_handle option"
  sw_selected_at :: int
  sw_restored_at :: "int option"

text \<open>The owners of \<open>supervisor_runs\<close> and the worker processes of \<open>worker_bindings\<close>.\<close>

datatype supervisor_state = S_ready | S_degraded | S_draining | S_reconcile_required | S_stopped

record supervisor_row =
  su_runtime_generation :: int
  su_dispatcher_generation :: int
  su_pid :: int
  su_process_start_identity :: string
  su_capability_digest :: string
  su_runtime_home_digest :: string
  su_endpoint_kind :: string
  su_discovery_digest :: string
  su_state :: supervisor_state
  su_started_at :: int
  su_ready_at :: "int option"
  su_draining_at :: "int option"
  su_stopped_at :: "int option"
  su_terminal_reason :: "string option"

datatype worker_state = W_ready | W_busy | W_terminating | W_lost | W_quarantined | W_terminated

record worker_row =
  wr_worker_id :: string
  wr_runtime_generation :: int
  wr_worker_kind :: string
  wr_workspace :: string
  wr_workspace_generation :: int
  wr_operation :: "string option"
  wr_pid :: int
  wr_process_start_identity :: string
  wr_capability_digest :: string
  wr_environment_digest :: string
  wr_state :: worker_state
  wr_started_at :: int
  wr_heartbeat_at :: int
  wr_last_event_sequence :: int
  wr_ended_at :: "int option"
  wr_termination_receipt :: "string option"

record reg =
  rg_generation :: int
  rg_operations :: "op_row tbl"
  rg_events :: "event_row tbl"
  rg_event_seq :: int
  rg_attempts :: "attempt_row tbl"
  rg_leases :: "lease_row tbl"
  rg_controls :: "control_row tbl"
  rg_dispatch :: "dispatch_row tbl"
  rg_checkpoints :: "checkpoint_row tbl"
  rg_decisions :: "decision_row tbl"
  rg_policies :: "policy_row tbl"
  rg_rlm_boundaries :: "rlm_boundary boundary_row tbl"
  rg_ws_boundaries :: "ws_boundary boundary_row tbl"
  rg_ws_catalog :: "catalog_row tbl"
  rg_ws_selections :: "selection_row tbl"
  rg_supervisor_runs :: "supervisor_row tbl"
  rg_workers :: "worker_row tbl"

text \<open>The tables \<open>_initialize\<close> creates, and \<open>runtime_meta\<close> with generation 0.\<close>

definition reg_init :: reg where
  "reg_init = \<lparr>rg_generation = 0, rg_operations = [], rg_events = [], rg_event_seq = 0,
     rg_attempts = [], rg_leases = [], rg_controls = [], rg_dispatch = [], rg_checkpoints = [],
     rg_decisions = [], rg_policies = [], rg_rlm_boundaries = [], rg_ws_boundaries = [],
     rg_ws_catalog = [], rg_ws_selections = [], rg_supervisor_runs = [], rg_workers = []\<rparr>"

text \<open>\<open>TERMINAL_STATES\<close>.\<close>

definition terminal :: "operation_state \<Rightarrow> bool" where
  "terminal s \<longleftrightarrow> s \<in> {SUCCEEDED, FAILED, CANCELLED, TIMED_OUT}"

section \<open>Statements\<close>

text \<open>An INSERT into a table whose PRIMARY KEY and UNIQUE constraints are \<open>clash\<close>.\<close>

definition insert_row :: "('r \<Rightarrow> 'r \<Rightarrow> bool) \<Rightarrow> 'r \<Rightarrow> 'r tbl \<Rightarrow> 'r tbl res" where
  "insert_row clash x t =
     (if \<exists>y \<in> set t. clash x y then Inl (IntegrityError ''UNIQUE constraint failed'')
      else Inr (t @ [x]))"

definition find_op :: "operation_ref \<Rightarrow> reg \<Rightarrow> op_row option" where
  "find_op i r = fetchone (\<lambda>x. or_operation x = i) (rg_operations r)"

definition get_op :: "operation_ref \<Rightarrow> reg \<Rightarrow> op_row res" where
  "get_op i r = (case find_op i r of None \<Rightarrow> Inl (KeyError (operation_value i)) | Some x \<Rightarrow> Inr x)"

definition set_op :: "operation_ref \<Rightarrow> (op_row \<Rightarrow> bool) \<Rightarrow> (op_row \<Rightarrow> op_row) \<Rightarrow> reg \<Rightarrow> reg" where
  "set_op i p f r =
     r\<lparr>rg_operations := update_rows (\<lambda>x. or_operation x = i \<and> p x) f (rg_operations r)\<rparr>"

definition find_dispatch :: "operation_ref \<Rightarrow> reg \<Rightarrow> dispatch_row option" where
  "find_dispatch i r = fetchone (\<lambda>d. dw_operation d = i) (rg_dispatch r)"

definition set_dispatch ::
    "operation_ref \<Rightarrow> (dispatch_row \<Rightarrow> bool) \<Rightarrow> (dispatch_row \<Rightarrow> dispatch_row) \<Rightarrow> reg \<Rightarrow> reg" where
  "set_dispatch i p f r =
     r\<lparr>rg_dispatch := update_rows (\<lambda>d. dw_operation d = i \<and> p d) f (rg_dispatch r)\<rparr>"

definition find_attempt :: "operation_ref \<Rightarrow> int \<Rightarrow> reg \<Rightarrow> attempt_row option" where
  "find_attempt i n r = fetchone (\<lambda>a. aw_operation a = i \<and> aw_attempt_no a = n) (rg_attempts r)"

definition set_attempt ::
    "operation_ref \<Rightarrow> int \<Rightarrow> (attempt_row \<Rightarrow> bool) \<Rightarrow> (attempt_row \<Rightarrow> attempt_row) \<Rightarrow> reg \<Rightarrow> reg" where
  "set_attempt i n p f r = r\<lparr>rg_attempts :=
     update_rows (\<lambda>a. aw_operation a = i \<and> aw_attempt_no a = n \<and> p a) f (rg_attempts r)\<rparr>"

definition set_lease ::
    "operation_ref \<Rightarrow> int \<Rightarrow> (lease_row \<Rightarrow> bool) \<Rightarrow> (lease_row \<Rightarrow> lease_row) \<Rightarrow> reg \<Rightarrow> reg" where
  "set_lease i n p f r = r\<lparr>rg_leases :=
     update_rows (\<lambda>l. lw_operation l = i \<and> lw_attempt_no l = n \<and> p l) f (rg_leases r)\<rparr>"

definition find_lease :: "operation_ref \<Rightarrow> int \<Rightarrow> int \<Rightarrow> reg \<Rightarrow> lease_row option" where
  "find_lease i n ep r = fetchone
     (\<lambda>l. lw_operation l = i \<and> lw_attempt_no l = n \<and> lw_lease_epoch l = ep) (rg_leases r)"

definition find_control :: "operation_ref \<Rightarrow> reg \<Rightarrow> control_row option" where
  "find_control i r = fetchone (\<lambda>c. cw_operation c = i) (rg_controls r)"

definition find_policy :: "operation_ref \<Rightarrow> reg \<Rightarrow> policy_row option" where
  "find_policy i r = fetchone (\<lambda>p. pw_operation p = i) (rg_policies r)"

text \<open>
  \<open>_insert_event\<close>: the kind defaults to the note and the payload to \<open>{"note": note}\<close>; the
  sequence is SQLite's AUTOINCREMENT counter.
\<close>

definition insert_event ::
    "operation_ref \<Rightarrow> operation_state \<Rightarrow> outcome_certainty \<Rightarrow> int \<Rightarrow> int \<Rightarrow> string \<Rightarrow>
     int option \<Rightarrow> string option \<Rightarrow> json option \<Rightarrow> reg \<Rightarrow> reg" where
  "insert_event i st ce rv now note attempt_no event_kind payload r =
     (let kind = (case event_kind of None \<Rightarrow> note | Some k \<Rightarrow> k);
          body = (case payload of None \<Rightarrow> JObj [(''note'', JStr note)] | Some j \<Rightarrow> j);
          seq = rg_event_seq r + 1
      in r\<lparr>rg_event_seq := seq,
           rg_events := rg_events r @
             [\<lparr>ev_sequence = seq, ev_operation = i, ev_state = st, ev_certainty = ce,
               ev_record_revision = rv, ev_at = now, ev_note = note, ev_attempt_no = attempt_no,
               ev_event_kind = kind, ev_payload = body, ev_payload_digest = json_digest body\<rparr>]\<rparr>)"

section \<open>Identifiers\<close>

text \<open>\<open>_operation_id\<close> hashes host, principal and key joined by NUL bytes.\<close>

definition operation_id_of :: "request_envelope \<Rightarrow> operation_ref" where
  "operation_id_of e = OperationRef (''op-'' @ take 32 (sha256_hex (utf8
     (host_value (en_host e) @ [CHR 0x00] @ principal_value (en_principal e) @ [CHR 0x00] @
      en_idempotency_key e))))"

definition attempt_id_of :: "operation_ref \<Rightarrow> int \<Rightarrow> int \<Rightarrow> int \<Rightarrow> string" where
  "attempt_id_of i attempt_no runtime_generation dispatcher_generation =
     ''attempt-'' @ take 32 (drop 7 (json_digest (JObj
       [(''attempt_no'', JInt attempt_no),
        (''dispatcher_generation'', JInt dispatcher_generation),
        (''operation_id'', JStr (operation_value i)),
        (''runtime_generation'', JInt runtime_generation)])))"

section \<open>Read models\<close>

text \<open>\<open>_record\<close>: an \<open>OperationRecord\<close> has the row's columns and pydantic's constraints.\<close>

definition record_model :: "op_row \<Rightarrow> op_row res" where
  "record_model x = validated
     (opaque_token (operation_value (or_operation x)) \<and> is_digest (or_input_digest x) \<and>
      positive_counter (or_runtime_generation x) \<and> revision (or_record_revision x) \<and>
      positive_counter (or_created_at x) \<and> positive_counter (or_updated_at x)) [] x"

definition get_record :: "operation_ref \<Rightarrow> reg \<Rightarrow> op_row res" where
  "get_record i r = and_then (get_op i r) record_model"

definition record_from_operation_id :: "operation_ref \<Rightarrow> reg \<Rightarrow> op_row res" where
  "record_from_operation_id i r =
     (case find_op i r of None \<Rightarrow> Inl AssertionError | Some x \<Rightarrow> record_model x)"

definition lease_model :: "operation_ref \<Rightarrow> lease_row \<Rightarrow> attempt_row \<Rightarrow> lease_record res" where
  "lease_model i l a =
     and_then (validate_attempt_ref
       \<lparr>at_operation = i, at_attempt_no = lw_attempt_no l, at_attempt_id = aw_attempt_id a\<rparr>)
     (\<lambda>ref. validate_lease_record
       \<lparr>le_attempt = ref, le_runtime_generation = aw_runtime_generation a,
        le_dispatcher_generation = aw_dispatcher_generation a, le_lease_epoch = lw_lease_epoch l,
        le_owner_digest = lw_owner_digest l, le_acquired_at = lw_acquired_at l,
        le_heartbeat_at = lw_heartbeat_at l, le_expires_at = lw_expires_at l,
        le_released_at = lw_released_at l\<rparr>)"

definition control_model :: "operation_ref \<Rightarrow> control_row option \<Rightarrow> control_state res" where
  "control_model i c = validate_control_state
     (case c of
        None \<Rightarrow> \<lparr>ct_operation = i, ct_control_revision = 0, ct_cancellation_requested = False,
                  ct_requested_at = None, ct_requested_by_digest = None, ct_reason_code = None\<rparr>
      | Some w \<Rightarrow> \<lparr>ct_operation = i, ct_control_revision = cw_control_revision w,
                  ct_cancellation_requested = cw_cancellation_requested w,
                  ct_requested_at = cw_requested_at w,
                  ct_requested_by_digest = cw_requested_by_digest w,
                  ct_reason_code = cw_reason_code w\<rparr>)"

text \<open>\<open>_dispatch_model\<close> copies the row.\<close>

definition recovery_policy_binding_of :: "operation_ref \<Rightarrow> policy_row \<Rightarrow> policy_binding res" where
  "recovery_policy_binding_of i w =
     and_then (validate_policy (pw_policy w)) (\<lambda>policy. validate_policy_binding
       \<lparr>pb_operation = i, pb_operation_kind = pw_operation_kind w, pb_policy = policy,
        pb_policy_digest = pw_policy_digest w, pb_environment_digest = pw_environment_digest w,
        pb_created_at = pw_created_at w\<rparr>)"

definition attempt_ref_for_no :: "operation_ref \<Rightarrow> int option \<Rightarrow> reg \<Rightarrow> attempt_ref option res" where
  "attempt_ref_for_no i n r =
     (case n of None \<Rightarrow> Inr None
      | Some k \<Rightarrow>
        (case find_attempt i k r of None \<Rightarrow> Inr None
         | Some a \<Rightarrow> and_then (validate_attempt_ref
             \<lparr>at_operation = i, at_attempt_no = aw_attempt_no a, at_attempt_id = aw_attempt_id a\<rparr>)
             (\<lambda>ref. Inr (Some ref))))"

section \<open>Lemmas\<close>

lemma insert_row_Inr_iff [res_simps]:
  "insert_row clash x t = Inr u \<longleftrightarrow> u = t @ [x] \<and> (\<forall>y \<in> set t. \<not> clash x y)"
  by (auto simp: insert_row_def)

lemma get_op_Inr_iff [res_simps]: "get_op i r = Inr x \<longleftrightarrow> find_op i r = Some x"
  by (auto simp: get_op_def split: option.splits)

lemma record_model_Inr: "record_model x = Inr y \<Longrightarrow> y = x"
  by (simp add: record_model_def res_simps)

lemma get_record_Inr: "get_record i r = Inr x \<Longrightarrow> find_op i r = Some x"
  by (auto simp: get_record_def res_simps dest: record_model_Inr)

lemma find_op_SomeD: "find_op i r = Some x \<Longrightarrow> x \<in> set (rg_operations r) \<and> or_operation x = i"
  unfolding find_op_def by (drule fetchone_SomeD) simp

lemma find_dispatch_SomeD:
  "find_dispatch i r = Some d \<Longrightarrow> d \<in> set (rg_dispatch r) \<and> dw_operation d = i"
  unfolding find_dispatch_def by (drule fetchone_SomeD) simp

lemma find_attempt_SomeD:
  "find_attempt i n r = Some a \<Longrightarrow>
     a \<in> set (rg_attempts r) \<and> aw_operation a = i \<and> aw_attempt_no a = n"
  unfolding find_attempt_def by (drule fetchone_SomeD) simp

lemma find_lease_SomeD:
  "find_lease i n e r = Some l \<Longrightarrow>
     l \<in> set (rg_leases r) \<and> lw_operation l = i \<and> lw_attempt_no l = n \<and> lw_lease_epoch l = e"
  unfolding find_lease_def by (drule fetchone_SomeD) simp

end
