(* ===== verification/Journal.thy ===== *)
theory Journal
  imports Registry_State
begin

text \<open>
  The abstract specification of the registry's record of work: a journal is the operation
  rows together with the event log and its sequence counter. A journal moves by accepting
  a fresh operation, by moving one operation along an edge of the lifecycle with its
  revision one higher and an event that says so, or by noting an event that repeats an
  operation's present state. The registry's methods are shown to refine these moves.
\<close>

section \<open>The lifecycle\<close>

fun lifecycle_next :: "operation_state \<Rightarrow> operation_state set" where
  "lifecycle_next ACCEPTED = {ACCEPTED, RUNNING, FAILED, CANCELLED, TIMED_OUT}"
| "lifecycle_next RUNNING = {SUCCEEDED, FAILED, CANCELLED, TIMED_OUT, INDETERMINATE}"
| "lifecycle_next INDETERMINATE = {ACCEPTED, SUCCEEDED, FAILED, CANCELLED, TIMED_OUT}"
| "lifecycle_next SUCCEEDED = {}"
| "lifecycle_next FAILED = {}"
| "lifecycle_next CANCELLED = {}"
| "lifecycle_next TIMED_OUT = {}"

definition coherent :: "op_row \<Rightarrow> bool" where
  "coherent x \<longleftrightarrow> (or_certainty x = INDETERMINATE_OUTCOME \<longleftrightarrow> or_state x = INDETERMINATE) \<and>
     (or_reconciliation_required x \<longleftrightarrow> or_state x = INDETERMINATE)"

definition same_intent :: "op_row \<Rightarrow> op_row \<Rightarrow> bool" where
  "same_intent x y \<longleftrightarrow> or_operation y = or_operation x \<and> or_host y = or_host x \<and>
     or_principal y = or_principal x \<and> or_idempotency_key y = or_idempotency_key x \<and>
     or_input_digest y = or_input_digest x \<and> or_request y = or_request x \<and>
     or_payload_json y = or_payload_json x \<and> or_created_at y = or_created_at x"

definition event_says :: "event_row \<Rightarrow> op_row \<Rightarrow> bool" where
  "event_says e x \<longleftrightarrow> ev_operation e = or_operation x \<and> ev_state e = or_state x \<and>
     ev_certainty e = or_certainty x \<and> ev_record_revision e = or_record_revision x \<and>
     ev_payload_digest e = json_digest (ev_payload e)"

type_synonym journal = "op_row tbl \<times> event_row tbl \<times> int"

definition replace_op :: "op_row \<Rightarrow> op_row tbl \<Rightarrow> op_row tbl" where
  "replace_op y ops = update_rows (\<lambda>z. or_operation z = or_operation y) (\<lambda>_. y) ops"

inductive journal_step :: "journal \<Rightarrow> journal \<Rightarrow> bool" where
  accepted: "journal_step (ops, evs, s) (ops @ [x], evs @ [e], s + 1)"
    if "or_state x = ACCEPTED" "or_record_revision x = 0" "coherent x"
       "\<forall>y \<in> set ops. or_operation y \<noteq> or_operation x \<and>
          (or_host y, or_principal y, or_idempotency_key y) \<noteq>
          (or_host x, or_principal x, or_idempotency_key x)"
       "event_says e x" "ev_sequence e = s + 1"
| moved: "journal_step (ops, evs, s) (replace_op y ops, evs @ [e], s + 1)"
    if "x \<in> set ops" "same_intent x y" "or_state y \<in> lifecycle_next (or_state x)"
       "or_record_revision y = or_record_revision x + 1" "coherent y"
       "event_says e y" "ev_sequence e = s + 1"
| noted: "journal_step (ops, evs, s) (ops, evs @ [e], s + 1)"
    if "x \<in> set ops" "event_says e x" "ev_sequence e = s + 1"

abbreviation journal_steps :: "journal \<Rightarrow> journal \<Rightarrow> bool" where
  "journal_steps \<equiv> journal_step\<^sup>*\<^sup>*"

section \<open>What every reachable journal satisfies\<close>

text \<open>The events of one operation, and the edges they must follow.\<close>

definition history :: "operation_ref \<Rightarrow> event_row tbl \<Rightarrow> event_row list" where
  "history i evs = filter (\<lambda>e. ev_operation e = i) evs"

definition lifecycle_edge :: "event_row \<Rightarrow> event_row \<Rightarrow> bool" where
  "lifecycle_edge a b \<longleftrightarrow>
     (ev_state b = ev_state a \<and> ev_record_revision b = ev_record_revision a) \<or>
     (ev_state b \<in> lifecycle_next (ev_state a) \<and> ev_record_revision b = ev_record_revision a + 1)"

definition scope_of :: "op_row \<Rightarrow> string \<times> string \<times> string" where
  "scope_of x = (or_host x, or_principal x, or_idempotency_key x)"

definition tells :: "event_row list \<Rightarrow> op_row \<Rightarrow> bool" where
  "tells h x \<longleftrightarrow> h \<noteq> [] \<and> event_says (last h) x \<and> ev_state (hd h) = ACCEPTED \<and>
     ev_record_revision (hd h) = 0 \<and> successively lifecycle_edge h"

definition journal_ok :: "journal \<Rightarrow> bool" where
  "journal_ok J = (case J of (ops, evs, s) \<Rightarrow>
     distinct (map or_operation ops) \<and> distinct (map scope_of ops) \<and>
     (\<forall>x \<in> set ops. coherent x \<and> tells (history (or_operation x) evs) x) \<and>
     sorted_wrt (<) (map ev_sequence evs) \<and>
     (\<forall>e \<in> set evs. 0 < ev_sequence e \<and> ev_sequence e \<le> s \<and>
        ev_payload_digest e = json_digest (ev_payload e) \<and>
        ev_operation e \<in> or_operation ` set ops) \<and> 0 \<le> s)"

lemma history_append: "history i (evs @ [e]) =
    (if ev_operation e = i then history i evs @ [e] else history i evs)"
  by (simp add: history_def)

lemma successively_snoc:
  "successively P (xs @ [y]) \<longleftrightarrow> successively P xs \<and> (xs = [] \<or> P (last xs) y)"
  by (auto simp: successively_append_iff)

lemma tells_snoc:
  assumes "tells h x" "event_says e y" "or_operation y = or_operation x"
    and "(or_state y = or_state x \<and> or_record_revision y = or_record_revision x) \<or>
      (or_state y \<in> lifecycle_next (or_state x) \<and> or_record_revision y = or_record_revision x + 1)"
  shows "tells (h @ [e]) y"
  using assms by (auto simp: tells_def successively_snoc lifecycle_edge_def event_says_def)

lemma replace_op_set:
  "distinct (map or_operation ops) \<Longrightarrow> x \<in> set ops \<Longrightarrow> or_operation y = or_operation x \<Longrightarrow>
   set (replace_op y ops) = insert y {z \<in> set ops. or_operation z \<noteq> or_operation x}"
  by (auto simp: replace_op_def set_update_rows)

lemma map_replace_op:
  assumes "distinct (map or_operation ops)" "x \<in> set ops" "same_intent x y"
  shows "map or_operation (replace_op y ops) = map or_operation ops"
    and "map scope_of (replace_op y ops) = map scope_of ops"
proof -
  have eq: "z = x" if "z \<in> set ops" "or_operation z = or_operation y" for z
    using assms that by (auto simp: same_intent_def distinct_map inj_on_def)
  show "map or_operation (replace_op y ops) = map or_operation ops"
    by (simp add: replace_op_def update_rows_def)
  show "map scope_of (replace_op y ops) = map scope_of ops"
    using assms(3) eq by (auto simp: replace_op_def update_rows_def scope_of_def same_intent_def)
qed

text \<open>The event part of the invariant after one more event.\<close>

lemma events_ok_snoc:
  assumes "sorted_wrt (<) (map ev_sequence evs)"
    and "\<forall>e \<in> set evs. 0 < ev_sequence e \<and> ev_sequence e \<le> s" "0 \<le> s" "ev_sequence e = s + (1::int)"
  shows "sorted_wrt (<) (map ev_sequence (evs @ [e]))"
    and "\<forall>e \<in> set (evs @ [e]). 0 < ev_sequence e \<and> ev_sequence e \<le> s + 1"
  using assms by (auto simp: sorted_wrt_append)

lemma history_none:
  "\<forall>e \<in> set evs. ev_operation e \<noteq> i \<Longrightarrow> history i evs = []"
  by (simp add: history_def filter_empty_conv)

theorem journal_ok_step: "journal_step J K \<Longrightarrow> journal_ok J \<Longrightarrow> journal_ok K"
proof (induction rule: journal_step.induct)
  case (accepted x ops e s evs)
  have new: "\<forall>d \<in> set evs. ev_operation d \<noteq> or_operation x"
    using accepted(4) accepted.prems by (fastforce simp: journal_ok_def)
  have "tells (history (or_operation x) (evs @ [e])) x"
    using accepted(1,2,5) history_none [OF new]
    by (auto simp: history_append tells_def event_says_def)
  moreover have "tells (history (or_operation y) (evs @ [e])) y" if "y \<in> set ops" for y
    using that accepted(4,5) accepted.prems by (auto simp: history_append event_says_def journal_ok_def)
  ultimately show ?case
    using accepted events_ok_snoc [of evs s e]
    by (fastforce simp: journal_ok_def scope_of_def event_says_def)
next
  case (moved x ops y e s evs)
  have d: "distinct (map or_operation ops)" using moved.prems by (simp add: journal_ok_def)
  have op: "or_operation y = or_operation x" using moved(2) by (simp add: same_intent_def)
  note maps = map_replace_op [OF d moved(1,2)]
  note st = replace_op_set [OF d moved(1) op]
  have tx: "tells (history (or_operation x) evs) x"
    using moved(1) moved.prems by (simp add: journal_ok_def)
  have ty: "tells (history (or_operation y) (evs @ [e])) y"
    using tells_snoc [OF tx moved(6) op] moved(3,4,6) op
    by (simp add: history_append event_says_def)
  have "coherent z \<and> tells (history (or_operation z) (evs @ [e])) z" if "z \<in> set (replace_op y ops)" for z
  proof (cases "z = y")
    case True with ty moved(5) show ?thesis by simp
  next
    case False
    with that have "z \<in> set ops" "or_operation z \<noteq> or_operation x" by (auto simp: st)
    with moved(6) op moved.prems show ?thesis
      by (auto simp: history_append event_says_def journal_ok_def)
  qed
  moreover have "or_operation ` set (replace_op y ops) = or_operation ` set ops"
    using maps(1) by (metis list.set_map)
  ultimately show ?case
    using moved.prems moved(1,6,7) op events_ok_snoc [of evs s e] maps
    by (auto simp: journal_ok_def event_says_def)
next
  case (noted x ops e s evs)
  have "tells (history (or_operation z) (evs @ [e])) z" if z: "z \<in> set ops" for z
  proof (cases "or_operation z = or_operation x")
    case True
    with z noted(1) noted.prems have "z = x" by (auto simp: journal_ok_def distinct_map inj_on_def)
    with tells_snoc [of _ x e x] noted show ?thesis
      by (auto simp: history_append event_says_def journal_ok_def)
  next
    case False
    with z noted show ?thesis by (auto simp: history_append event_says_def journal_ok_def)
  qed
  then show ?case
    using noted events_ok_snoc [of evs s e] by (auto simp: journal_ok_def event_says_def)
qed

lemma journal_ok_steps: "journal_steps J K \<Longrightarrow> journal_ok J \<Longrightarrow> journal_ok K"
  by (induction rule: rtranclp_induct) (auto intro: journal_ok_step)

section \<open>What a journal never does\<close>

lemma lifecycle_terminal: "terminal s \<Longrightarrow> lifecycle_next s = {}"
  by (auto simp: terminal_def)

text \<open>
  \<open>later x y\<close>: \<open>y\<close> is \<open>x\<close> at a later time. The intent is the same, the revision has not
  gone back, an equal revision is an equal row and a terminal row is never rewritten.
\<close>

definition later :: "op_row \<Rightarrow> op_row \<Rightarrow> bool" where
  "later x y \<longleftrightarrow> same_intent x y \<and> or_record_revision x \<le> or_record_revision y \<and>
     (or_record_revision y = or_record_revision x \<longrightarrow> y = x) \<and> (terminal (or_state x) \<longrightarrow> y = x)"

lemma later_refl [simp]: "later x x"
  by (simp add: later_def same_intent_def)

lemma later_trans: "later x y \<Longrightarrow> later y z \<Longrightarrow> later x z"
  by (auto simp: later_def same_intent_def)

definition rows_later :: "op_row tbl \<Rightarrow> op_row tbl \<Rightarrow> bool" where
  "rows_later ops ops' \<longleftrightarrow> (\<forall>x \<in> set ops. \<exists>y \<in> set ops'. later x y)"

lemma rows_later_refl [simp]: "rows_later ops ops"
  unfolding rows_later_def by (blast intro: later_refl)

lemma rows_later_append [simp]: "rows_later ops (ops @ t)"
  unfolding rows_later_def set_append by (blast intro: later_refl)

lemma rows_later_trans: "rows_later a b \<Longrightarrow> rows_later b c \<Longrightarrow> rows_later a c"
  unfolding rows_later_def by (blast intro: later_trans)

definition grows :: "journal \<Rightarrow> journal \<Rightarrow> bool" where
  "grows J K = (case (J, K) of ((ops, evs, s), (ops', evs', s')) \<Rightarrow>
     rows_later ops ops' \<and> (\<exists>new. evs' = evs @ new) \<and> s \<le> s')"

lemma grows_refl: "grows J J"
  by (cases J) (simp add: grows_def)

lemma grows_trans: "grows J K \<Longrightarrow> grows K L \<Longrightarrow> grows J L"
  by (cases J; cases K; cases L) (auto simp: grows_def intro: rows_later_trans)

lemma grows_step:
  assumes "journal_step J K" "journal_ok J"
  shows "grows J K"
  using assms
proof (induction rule: journal_step.induct)
  case (accepted x ops e s evs)
  then show ?case by (simp add: grows_def)
next
  case (moved x ops y e s evs)
  have d: "distinct (map or_operation ops)" using moved.prems by (simp add: journal_ok_def)
  have op: "or_operation y = or_operation x" using moved(2) by (simp add: same_intent_def)
  have "\<exists>y' \<in> set (replace_op y ops). later z y'" if "z \<in> set ops" for z
  proof (cases "or_operation z = or_operation x")
    case True
    with d that moved(1) have "z = x" by (auto simp: distinct_map inj_on_def)
    moreover have "later x y"
      using moved(2,3,4) lifecycle_terminal [of "or_state x"] by (auto simp: later_def)
    ultimately show ?thesis using replace_op_set [OF d moved(1) op] by auto
  next
    case False
    with that replace_op_set [OF d moved(1) op] show ?thesis by (intro bexI [of _ z]) auto
  qed
  then show ?case by (auto simp: grows_def rows_later_def)
next
  case (noted x ops e s evs)
  then show ?case by (simp add: grows_def)
qed

lemma grows_steps: "journal_steps J K \<Longrightarrow> journal_ok J \<Longrightarrow> grows J K"
proof (induction rule: rtranclp_induct)
  case (step K L)
  then show ?case
    using grows_step [of K L] journal_ok_steps [of J K] grows_trans [of J K L] by blast
qed (rule grows_refl)

section \<open>Stores that keep a journal\<close>

text \<open>
  The interface of a store whose record of work is a journal: every step keeps the store's
  invariant and is a sequence of journal steps. Its clients learn what a journal never
  does, whatever the store's own tables and methods are.
\<close>

locale journaled_store =
  fixes journal_of :: "'s \<Rightarrow> journal"
    and step :: "'s \<Rightarrow> 's \<Rightarrow> bool"
    and ok :: "'s \<Rightarrow> bool"
  assumes ok_journal: "ok s \<Longrightarrow> journal_ok (journal_of s)"
    and step_ok: "step s t \<Longrightarrow> ok s \<Longrightarrow> ok t"
    and step_refines: "step s t \<Longrightarrow> ok s \<Longrightarrow> journal_steps (journal_of s) (journal_of t)"
begin

lemma steps_ok: "step\<^sup>*\<^sup>* s t \<Longrightarrow> ok s \<Longrightarrow> ok t"
proof (induction rule: rtranclp_induct)
  case (step u t)
  from step_ok [OF step.hyps(2) step.IH [OF step.prems]] show ?case .
qed

lemma steps_refine: "step\<^sup>*\<^sup>* s t \<Longrightarrow> ok s \<Longrightarrow> journal_steps (journal_of s) (journal_of t)"
proof (induction rule: rtranclp_induct)
  case (step u t)
  from step.IH [OF step.prems] step_refines [OF step.hyps(2) steps_ok [OF step.hyps(1) step.prems]]
  show ?case by (rule rtranclp_trans)
qed simp

lemma steps_grow: "step\<^sup>*\<^sup>* s t \<Longrightarrow> ok s \<Longrightarrow> grows (journal_of s) (journal_of t)"
  by (rule grows_steps [OF steps_refine ok_journal])

lemma row_later:
  assumes "step\<^sup>*\<^sup>* s t" "ok s" "x \<in> set (fst (journal_of s))"
  obtains y where "y \<in> set (fst (journal_of t))" "later x y"
  using steps_grow [OF assms(1,2)] assms(3) that
  by (auto simp: grows_def rows_later_def split: prod.splits)

lemma log_prefix:
  assumes "step\<^sup>*\<^sup>* s t" "ok s"
  obtains new where "fst (snd (journal_of t)) = fst (snd (journal_of s)) @ new"
  using steps_grow [OF assms] that by (auto simp: grows_def split: prod.splits)

end

end
