(* ===== verification/Registry_Lifecycle.thy ===== *)
theory Registry_Lifecycle
  imports Registry_State
begin

text \<open>
  The lifecycle methods of \<open>OperationRegistry\<close>: \<open>start_runtime\<close>, idempotent \<open>accept\<close>,
  policy binding, the \<open>_transition\<close> family and \<open>request_dispatch\<close>, with the reads that
  return one operation's record, events and recovery fence.
\<close>

section \<open>Starting a runtime generation\<close>

definition rebind_accepted :: "int \<Rightarrow> int \<Rightarrow> reg \<Rightarrow> op_row \<Rightarrow> reg" where
  "rebind_accepted generation now r item =
     (let i = or_operation item; rv = or_record_revision item + 1 in
      insert_event i ACCEPTED CERTAIN rv now ''runtime_restart_rebound_accepted'' None None None
        (set_op i (\<lambda>_. True)
           (\<lambda>x. x\<lparr>or_runtime_generation := generation, or_record_revision := rv,
                  or_updated_at := now\<rparr>) r))"

text \<open>The dispatch row is deliberately left running: recovery must decide explicitly.\<close>

definition fence_running :: "int \<Rightarrow> int \<Rightarrow> reg \<Rightarrow> op_row \<Rightarrow> reg" where
  "fence_running generation now r item =
     (let i = or_operation item; rv = or_record_revision item + 1;
          attempt = max_row aw_attempt_no
            (filter (\<lambda>a. aw_operation a = i \<and> aw_state a = A_running) (rg_attempts r));
          attempt_no = map_option aw_attempt_no attempt;
          r1 = set_op i (\<lambda>_. True)
            (\<lambda>x. x\<lparr>or_state := INDETERMINATE, or_certainty := INDETERMINATE_OUTCOME,
                   or_record_revision := rv, or_reconciliation_required := True,
                   or_updated_at := now\<rparr>) r;
          r2 = (case attempt_no of None \<Rightarrow> r1
                | Some n \<Rightarrow>
                  set_lease i n (\<lambda>l. lw_released_at l = None) (\<lambda>l. l\<lparr>lw_released_at := Some now\<rparr>)
                    (set_attempt i n (\<lambda>_. True)
                      (\<lambda>a. a\<lparr>aw_state := A_state INDETERMINATE,
                             aw_certainty := INDETERMINATE_OUTCOME,
                             aw_recovery_reason := Some ''runtime_restart'',
                             aw_ended_at := Some now\<rparr>) r1))
      in insert_event i INDETERMINATE INDETERMINATE_OUTCOME rv now ''runtime_restart'' attempt_no
           (Some ''runtime_restart'')
           (Some (JObj [(''attempt_no'', opt_json JInt attempt_no),
                        (''runtime_generation'', JInt generation)])) r2)"

definition start_runtime :: "int \<Rightarrow> reg \<Rightarrow> int \<times> reg" where
  "start_runtime now r =
     (let generation = rg_generation r + 1;
          r0 = r\<lparr>rg_generation := generation\<rparr>;
          accepted = filter (\<lambda>x. or_state x = ACCEPTED) (rg_operations r0);
          running = filter (\<lambda>x. or_state x = RUNNING) (rg_operations r0);
          r1 = foldl (rebind_accepted generation now) r0 accepted;
          r2 = foldl (fence_running generation now) r1 running
      in (generation, r2))"

section \<open>Accepting an intent\<close>

text \<open>The scope a replay must match: the six compared envelope fields.\<close>

definition same_replay_scope :: "request_envelope \<Rightarrow> request_envelope \<Rightarrow> bool" where
  "same_replay_scope s e \<longleftrightarrow>
     en_session s = en_session e \<and> en_lane s = en_lane e \<and> en_workspace s = en_workspace e \<and>
     en_workspace_generation s = en_workspace_generation e \<and>
     en_expected_revision s = en_expected_revision e \<and>
     en_parent_operation s = en_parent_operation e"

definition same_key :: "op_row \<Rightarrow> op_row \<Rightarrow> bool" where
  "same_key x y \<longleftrightarrow> or_operation x = or_operation y \<or>
     (or_host x = or_host y \<and> or_principal x = or_principal y \<and>
      or_idempotency_key x = or_idempotency_key y)"

definition find_scoped :: "request_envelope \<Rightarrow> reg \<Rightarrow> op_row option" where
  "find_scoped e r = fetchone (\<lambda>x. or_host x = host_value (en_host e) \<and>
     or_principal x = principal_value (en_principal e) \<and>
     or_idempotency_key x = en_idempotency_key e) (rg_operations r)"

definition fresh_op_row :: "request_envelope \<Rightarrow> string \<Rightarrow> int \<Rightarrow> op_row" where
  "fresh_op_row e payload_json now =
     \<lparr>or_operation = operation_id_of e, or_host = host_value (en_host e),
      or_principal = principal_value (en_principal e),
      or_idempotency_key = en_idempotency_key e, or_input_digest = en_input_digest e,
      or_state = ACCEPTED, or_certainty = CERTAIN,
      or_runtime_generation = en_runtime_generation e, or_record_revision = 0,
      or_reconciliation_required = False, or_request = e, or_payload_json = payload_json,
      or_result_json = None, or_failure = None, or_created_at = now, or_updated_at = now\<rparr>"

text \<open>
  \<open>admission\<close> is the caller's hook, run in the same transaction on the operation's
  reference; the stored request is validated again when it is read back.
\<close>

type_synonym admission = "operation_ref \<Rightarrow> reg \<Rightarrow> reg res"

definition run_admission :: "admission option \<Rightarrow> operation_ref \<Rightarrow> reg \<Rightarrow> reg res" where
  "run_admission hook i r = (case hook of None \<Rightarrow> Inr r | Some h \<Rightarrow> h i r)"

definition accept ::
    "request_envelope \<Rightarrow> string \<Rightarrow> admission option \<Rightarrow> int \<Rightarrow> reg \<Rightarrow> ((op_row \<times> bool) \<times> reg) res" where
  "accept envelope payload_json hook now r =
     (let i = operation_id_of envelope in
      case find_scoped envelope r of
        Some existing \<Rightarrow>
          if or_input_digest existing \<noteq> en_input_digest envelope then
            Inl (IdempotencyConflict ''idempotency key already binds a different input digest'')
          else if or_payload_json existing \<noteq> payload_json then
            Inl (IdempotencyConflict ''idempotency key already binds different payload bytes'')
          else and_then (validate_request_envelope (or_request existing)) (\<lambda>stored.
            if \<not> same_replay_scope stored envelope then
              Inl (IdempotencyConflict ''idempotency key already binds a different authority scope'')
            else and_then (run_admission hook i r) (\<lambda>r'.
              and_then (record_model existing) (\<lambda>rec. Inr ((rec, False), r'))))
      | None \<Rightarrow>
          and_then (insert_row same_key (fresh_op_row envelope payload_json now) (rg_operations r))
            (\<lambda>ops.
              let r1 = insert_event i ACCEPTED CERTAIN 0 now ''intent_persisted'' None None None
                    (r\<lparr>rg_operations := ops\<rparr>)
              in and_then (run_admission hook i r1) (\<lambda>r2.
                and_then (get_record i r2) (\<lambda>rec. Inr ((rec, True), r2)))))"

section \<open>Binding a recovery policy\<close>

definition bind_recovery_policy ::
    "operation_ref \<Rightarrow> string \<Rightarrow> recovery_policy \<Rightarrow> string \<Rightarrow> int \<Rightarrow> reg \<Rightarrow> (policy_binding \<times> reg) res" where
  "bind_recovery_policy i operation_kind policy environment_digest now r =
     (let policy_digest = json_digest (policy_json policy) in
      if rp_operation_kind policy \<noteq> operation_kind then
        Inl (RegistryError ''recovery policy operation kind does not match admission kind'')
      else case find_policy i r of
        Some row \<Rightarrow>
          and_then (recovery_policy_binding_of i row) (\<lambda>existing.
            if pb_operation_kind existing \<noteq> operation_kind \<or> pb_policy_digest existing \<noteq> policy_digest \<or>
               pb_environment_digest existing \<noteq> environment_digest \<or> pw_policy row \<noteq> policy
            then Inl (IdempotencyConflict ''operation already binds different recovery policy bytes'')
            else Inr (existing, r))
      | None \<Rightarrow>
          and_then (get_op i r) (\<lambda>op.
            if or_state op \<noteq> ACCEPTED \<or> find_dispatch i r \<noteq> None \<or>
               fetchone (\<lambda>a. aw_operation a = i) (rg_attempts r) \<noteq> None
            then Inl (InvalidTransition ''recovery policy must be bound before durable dispatch'')
            else
              let row = \<lparr>pw_operation = i, pw_operation_kind = operation_kind, pw_policy = policy,
                         pw_policy_digest = policy_digest,
                         pw_environment_digest = environment_digest, pw_created_at = now\<rparr>;
                  r1 = insert_event i ACCEPTED CERTAIN (or_record_revision op) now
                    ''recovery_policy_bound'' None (Some ''recovery_policy_bound'')
                    (Some (JObj [(''operation_kind'', JStr operation_kind),
                       (''policy_id'', JStr (policy_id_wire (rp_policy_id policy))),
                       (''policy_version'', JInt (rp_policy_version policy)),
                       (''policy_digest'', JStr policy_digest),
                       (''environment_digest'', JStr environment_digest)]))
                    (r\<lparr>rg_policies := rg_policies r @ [row]\<rparr>)
              in and_then (recovery_policy_binding_of i row) (\<lambda>b. Inr (b, r1))))"

definition recovery_policy_binding :: "operation_ref \<Rightarrow> reg \<Rightarrow> policy_binding option res" where
  "recovery_policy_binding i r =
     (case find_policy i r of None \<Rightarrow> Inr None
      | Some row \<Rightarrow> and_then (recovery_policy_binding_of i row) (\<lambda>b. Inr (Some b)))"

record recovery_fence =
  rf_attempt :: attempt_ref
  rf_runtime_generation :: int
  rf_dispatcher_generation :: int
  rf_lease_epoch :: int

text \<open>The join's rows ordered by attempt number, then lease epoch, both descending.\<close>

definition latest_recovery_attempt_fence :: "operation_ref \<Rightarrow> reg \<Rightarrow> recovery_fence option res" where
  "latest_recovery_attempt_fence i r =
     (let joined = [(a, l). a \<leftarrow> rg_attempts r, aw_operation a = i,
                      l \<leftarrow> rg_leases r, lw_operation l = i \<and> lw_attempt_no l = aw_attempt_no a]
      in case rev (sort_key (\<lambda>(a, l). (aw_attempt_no a, lw_lease_epoch l)) joined) of
           [] \<Rightarrow> Inr None
         | (a, l) # _ \<Rightarrow>
             and_then (validate_attempt_ref \<lparr>at_operation = i, at_attempt_no = aw_attempt_no a,
                         at_attempt_id = aw_attempt_id a\<rparr>)
               (\<lambda>ref. Inr (Some \<lparr>rf_attempt = ref, rf_runtime_generation = aw_runtime_generation a,
                  rf_dispatcher_generation = aw_dispatcher_generation a,
                  rf_lease_epoch = lw_lease_epoch l\<rparr>)))"

definition rlm_step_boundaries :: "operation_ref \<Rightarrow> reg \<Rightarrow> rlm_boundary list res" where
  "rlm_step_boundaries i r = traverse (\<lambda>b. validate_rlm_boundary (bw_boundary b))
     (sort_key bw_prior_attempt_no (filter (\<lambda>b. bw_operation b = i) (rg_rlm_boundaries r)))"

section \<open>Lifecycle transitions\<close>

definition events_of :: "operation_ref \<Rightarrow> reg \<Rightarrow> event_row list" where
  "events_of i r = sort_key ev_sequence (filter (\<lambda>e. ev_operation e = i) (rg_events r))"

record transition_args =
  ta_expected :: "operation_state list"
  ta_state :: operation_state
  ta_certainty :: outcome_certainty
  ta_reconciliation :: bool
  ta_note :: string
  ta_result :: "string option"
  ta_failure :: "failure_envelope option"
  ta_allow_generation_change :: bool

definition transition_row :: "transition_args \<Rightarrow> int \<Rightarrow> int \<Rightarrow> op_row \<Rightarrow> op_row" where
  "transition_row t runtime_generation now x =
     x\<lparr>or_state := ta_state t, or_certainty := ta_certainty t,
       or_runtime_generation := runtime_generation,
       or_record_revision := or_record_revision x + 1,
       or_reconciliation_required := ta_reconciliation t,
       or_result_json := (case ta_result t of None \<Rightarrow> or_result_json x | Some j \<Rightarrow> Some j),
       or_failure := (case ta_failure t of None \<Rightarrow> or_failure x | Some f \<Rightarrow> Some f),
       or_updated_at := now\<rparr>"

definition transition ::
    "operation_ref \<Rightarrow> transition_args \<Rightarrow> int \<Rightarrow> int \<Rightarrow> reg \<Rightarrow> (op_row \<times> reg) res" where
  "transition i t runtime_generation now r =
     and_then (get_op i r) (\<lambda>row.
       if or_state row \<notin> set (ta_expected t) then
         Inl (InvalidTransition (''cannot transition '' @ state_wire (or_state row) @ '' to '' @
           state_wire (ta_state t)))
       else if \<not> ta_allow_generation_change t \<and> runtime_generation \<noteq> or_runtime_generation row then
         Inl (StaleRuntimeGeneration (''operation belongs to runtime generation '' @
           itoa (or_runtime_generation row) @ '', not '' @ itoa runtime_generation))
       else if runtime_generation \<noteq> rg_generation r then
         Inl (StaleRuntimeGeneration ''runtime generation is no longer current'')
       else
         let r1 = insert_event i (ta_state t) (ta_certainty t) (or_record_revision row + 1) now
               (ta_note t) None None None
               (set_op i (\<lambda>_. True) (transition_row t runtime_generation now) r)
         in and_then (get_record i r1) (\<lambda>rec. Inr (rec, r1)))"

definition begin_args :: transition_args where
  "begin_args = \<lparr>ta_expected = [ACCEPTED], ta_state = RUNNING, ta_certainty = CERTAIN,
     ta_reconciliation = False, ta_note = ''execution_started'', ta_result = None,
     ta_failure = None, ta_allow_generation_change = False\<rparr>"

definition succeed_args :: "string \<Rightarrow> bool \<Rightarrow> transition_args" where
  "succeed_args result_json reconciled =
     \<lparr>ta_expected = (if reconciled then [INDETERMINATE] else [RUNNING]), ta_state = SUCCEEDED,
      ta_certainty = CERTAIN, ta_reconciliation = False,
      ta_note = (if reconciled then ''reconciled_success'' else ''execution_succeeded''),
      ta_result = Some result_json, ta_failure = None, ta_allow_generation_change = reconciled\<rparr>"

definition fail_args :: "failure_envelope \<Rightarrow> bool \<Rightarrow> string option \<Rightarrow> transition_args" where
  "fail_args failure reconciled result_json =
     \<lparr>ta_expected = (if reconciled then [INDETERMINATE] else [ACCEPTED, RUNNING]),
      ta_state = FAILED, ta_certainty = CERTAIN, ta_reconciliation = False,
      ta_note = (if reconciled then ''reconciled_failure'' else ''execution_failed''),
      ta_result = result_json, ta_failure = Some failure,
      ta_allow_generation_change = reconciled\<rparr>"

definition cancel_args :: "string option \<Rightarrow> transition_args" where
  "cancel_args result_json =
     \<lparr>ta_expected = [ACCEPTED, RUNNING], ta_state = CANCELLED, ta_certainty = CERTAIN,
      ta_reconciliation = False, ta_note = ''cancelled'', ta_result = result_json,
      ta_failure = None, ta_allow_generation_change = False\<rparr>"

definition time_out_args :: "string option \<Rightarrow> transition_args" where
  "time_out_args result_json =
     \<lparr>ta_expected = [ACCEPTED, RUNNING], ta_state = TIMED_OUT, ta_certainty = CERTAIN,
      ta_reconciliation = False, ta_note = ''deadline_expired'', ta_result = result_json,
      ta_failure = None, ta_allow_generation_change = False\<rparr>"

definition mark_indeterminate_args :: "string \<Rightarrow> transition_args" where
  "mark_indeterminate_args note =
     \<lparr>ta_expected = [RUNNING], ta_state = INDETERMINATE, ta_certainty = INDETERMINATE_OUTCOME,
      ta_reconciliation = True, ta_note = note, ta_result = None, ta_failure = None,
      ta_allow_generation_change = False\<rparr>"

definition begin_op :: "operation_ref \<Rightarrow> int \<Rightarrow> int \<Rightarrow> reg \<Rightarrow> (op_row \<times> reg) res" where
  "begin_op i = transition i begin_args"

definition succeed ::
    "operation_ref \<Rightarrow> string \<Rightarrow> bool \<Rightarrow> int \<Rightarrow> int \<Rightarrow> reg \<Rightarrow> (op_row \<times> reg) res" where
  "succeed i result_json reconciled = transition i (succeed_args result_json reconciled)"

definition fail_op ::
    "operation_ref \<Rightarrow> failure_envelope \<Rightarrow> bool \<Rightarrow> string option \<Rightarrow> int \<Rightarrow> int \<Rightarrow> reg \<Rightarrow> (op_row \<times> reg) res" where
  "fail_op i failure reconciled result_json = transition i (fail_args failure reconciled result_json)"

definition cancel ::
    "operation_ref \<Rightarrow> string option \<Rightarrow> int \<Rightarrow> int \<Rightarrow> reg \<Rightarrow> (op_row \<times> reg) res" where
  "cancel i result_json = transition i (cancel_args result_json)"

definition time_out ::
    "operation_ref \<Rightarrow> string option \<Rightarrow> int \<Rightarrow> int \<Rightarrow> reg \<Rightarrow> (op_row \<times> reg) res" where
  "time_out i result_json = transition i (time_out_args result_json)"

definition mark_indeterminate ::
    "operation_ref \<Rightarrow> string \<Rightarrow> int \<Rightarrow> int \<Rightarrow> reg \<Rightarrow> (op_row \<times> reg) res" where
  "mark_indeterminate i note = transition i (mark_indeterminate_args note)"

section \<open>Requesting a durable dispatch\<close>

definition durable_dispatch_kinds :: "string list" where
  "durable_dispatch_kinds =
     [''rlm.execute'', ''rlm.workbench.execute'', ''workspace.program.execute'']"

definition queued_row :: "int \<Rightarrow> dispatch_row \<Rightarrow> dispatch_row" where
  "queued_row now d = d\<lparr>dw_state := D_queued, dw_queued_at := Some now, dw_running_at := None,
     dw_finished_at := None\<rparr>"

definition request_dispatch ::
    "operation_ref \<Rightarrow> string \<Rightarrow> int \<Rightarrow> reg \<Rightarrow> (dispatch_row \<times> reg) res" where
  "request_dispatch i kind now r =
     (if kind \<notin> set durable_dispatch_kinds then
        Inl (ValueError (''unsupported durable dispatch kind: '' @ kind))
      else and_then (get_op i r) (\<lambda>row.
        let existing = find_dispatch i r in
        if (case existing of None \<Rightarrow> False | Some d \<Rightarrow> dw_kind d \<noteq> kind) then
          Inl (IdempotencyConflict ''operation is already bound to another dispatch kind'')
        else if or_state row \<noteq> ACCEPTED then
          (case existing of
             Some d \<Rightarrow> Inr (d, r)
           | None \<Rightarrow> Inl (InvalidTransition
               (''cannot dispatch '' @ state_wire (or_state row) @ '' operation'')))
        else
          let fresh = \<lparr>dw_operation = i, dw_kind = kind, dw_state = D_queued,
                       dw_queued_at = Some now, dw_running_at = None, dw_finished_at = None,
                       dw_current_attempt_no = None\<rparr>;
              logged = (\<lambda>s. insert_event i (or_state row) (or_certainty row)
                (or_record_revision row) now ''dispatch_requested'' None
                (Some ''dispatch_requested'') (Some (JObj [(''kind'', JStr kind)])) s)
          in case existing of
               None \<Rightarrow> Inr (fresh, logged (r\<lparr>rg_dispatch := rg_dispatch r @ [fresh]\<rparr>))
             | Some d \<Rightarrow>
                 if dw_state d = D_queued then Inr (d, r)
                 else Inr (queued_row now d, logged (set_dispatch i (\<lambda>_. True) (queued_row now) r))))"

end
