(* ===== verification/Registry_Claims.thy ===== *)
theory Registry_Claims
  imports Registry_Lifecycle
begin

text \<open>
  Claims, leases and fences of \<open>OperationRegistry\<close>: \<open>claim_next\<close>, the fence checks,
  \<open>heartbeat\<close>, cancellation requests and queued cancellation, the fenced outcome commit
  \<open>transition_claimed\<close>, checkpoint binding and \<open>finish_attempt\<close>.
\<close>

section \<open>Claiming the oldest queued operation\<close>

record dispatch_claim =
  dc_attempt :: attempt_ref
  dc_runtime_generation :: int
  dc_dispatcher_generation :: int
  dc_lease_epoch :: int
  dc_owner_digest :: string
  dc_kind :: string

definition dc_operation :: "dispatch_claim \<Rightarrow> operation_ref" where
  "dc_operation c = at_operation (dc_attempt c)"

definition expire_queued :: "op_row \<Rightarrow> int \<Rightarrow> reg \<Rightarrow> reg" where
  "expire_queued row now r =
     (let i = or_operation row; rv = or_record_revision row + 1 in
      insert_event i TIMED_OUT CERTAIN rv now ''deadline_expired_before_claim'' None
        (Some ''deadline_expired_before_claim'')
        (Some (JObj [(''deadline_unix_ms'', JInt (en_deadline (or_request row)))]))
        (set_dispatch i (\<lambda>_. True)
           (\<lambda>d. d\<lparr>dw_state := D_completed, dw_finished_at := Some now\<rparr>)
          (set_op i (\<lambda>x. or_state x = ACCEPTED)
             (\<lambda>x. x\<lparr>or_state := TIMED_OUT, or_certainty := CERTAIN,
                    or_runtime_generation := rg_generation r, or_record_revision := rv,
                    or_reconciliation_required := False, or_updated_at := now\<rparr>) r)))"

definition attempt_clash :: "attempt_row \<Rightarrow> attempt_row \<Rightarrow> bool" where
  "attempt_clash x y \<longleftrightarrow>
     (aw_operation x = aw_operation y \<and> aw_attempt_no x = aw_attempt_no y) \<or>
     aw_attempt_id x = aw_attempt_id y"

definition lease_clash :: "lease_row \<Rightarrow> lease_row \<Rightarrow> bool" where
  "lease_clash x y \<longleftrightarrow> lw_operation x = lw_operation y \<and> lw_attempt_no x = lw_attempt_no y \<and>
     lw_lease_epoch x = lw_lease_epoch y"

record claim_args =
  ca_runtime_generation :: int
  ca_dispatcher_generation :: int
  ca_owner_digest :: string
  ca_lease_duration :: int
  ca_now :: int

definition next_attempt_no :: "operation_ref \<Rightarrow> reg \<Rightarrow> int" where
  "next_attempt_no i r = max_col (\<lambda>a. aw_operation a = i) aw_attempt_no (rg_attempts r) + 1"

definition next_lease_epoch :: "operation_ref \<Rightarrow> reg \<Rightarrow> int" where
  "next_lease_epoch i r = max_col (\<lambda>l. lw_operation l = i) lw_lease_epoch (rg_leases r) + 1"

definition fresh_attempt :: "claim_args \<Rightarrow> operation_ref \<Rightarrow> int \<Rightarrow> attempt_row" where
  "fresh_attempt c i n =
     \<lparr>aw_operation = i, aw_attempt_no = n,
      aw_attempt_id = attempt_id_of i n (ca_runtime_generation c) (ca_dispatcher_generation c),
      aw_runtime_generation = ca_runtime_generation c,
      aw_dispatcher_generation = ca_dispatcher_generation c, aw_state = A_running,
      aw_certainty = CERTAIN, aw_recovery_reason = None, aw_created_at = ca_now c,
      aw_started_at = Some (ca_now c), aw_ended_at = None, aw_checkpoint_digest = None\<rparr>"

definition fresh_lease :: "claim_args \<Rightarrow> operation_ref \<Rightarrow> int \<Rightarrow> int \<Rightarrow> lease_row" where
  "fresh_lease c i n epoch =
     \<lparr>lw_operation = i, lw_attempt_no = n, lw_lease_epoch = epoch,
      lw_owner_digest = ca_owner_digest c, lw_acquired_at = ca_now c, lw_heartbeat_at = ca_now c,
      lw_expires_at = ca_now c + ca_lease_duration c, lw_released_at = None\<rparr>"

definition claimed_op :: "claim_args \<Rightarrow> int \<Rightarrow> op_row \<Rightarrow> op_row" where
  "claimed_op c rv x = x\<lparr>or_state := RUNNING, or_certainty := CERTAIN,
     or_runtime_generation := ca_runtime_generation c, or_record_revision := rv,
     or_reconciliation_required := False, or_updated_at := ca_now c\<rparr>"

definition claimed_dispatch :: "claim_args \<Rightarrow> int \<Rightarrow> dispatch_row \<Rightarrow> dispatch_row" where
  "claimed_dispatch c n d = d\<lparr>dw_state := D_running, dw_running_at := Some (ca_now c),
     dw_current_attempt_no := Some n\<rparr>"

text \<open>
  The event of a workspace successor, which must find the restored boundary of the
  predecessor attempt.
\<close>

definition successor_started ::
    "claim_args \<Rightarrow> string \<Rightarrow> operation_ref \<Rightarrow> int \<Rightarrow> int \<Rightarrow> reg \<Rightarrow> reg res" where
  "successor_started c kind i n rv r =
     (if kind = ''workspace.program.execute'' \<and> n > 1 then
        (case fetchone (\<lambda>b. bw_operation b = i \<and> bw_prior_attempt_no b = n - 1) (rg_ws_boundaries r) of
           None \<Rightarrow> Inl (InvalidTransition ''workspace successor claim requires a restored boundary'')
         | Some b \<Rightarrow> Inr (insert_event i RUNNING CERTAIN rv (ca_now c) ''successor_started'' (Some n)
             (Some ''successor_started'')
             (Some (JObj [(''boundary_digest'', JStr (bw_boundary_digest b)),
                          (''successor_attempt_no'', JInt n)])) r))
      else Inr r)"

text \<open>
  One candidate that is accepted and not expired: \<open>claim_writes\<close> is the state after the
  four table statements, \<open>claim_value\<close> the claim that is returned.
\<close>

definition claim_writes :: "claim_args \<Rightarrow> op_row \<Rightarrow> reg \<Rightarrow> reg" where
  "claim_writes c row r =
     (let i = or_operation row; n = next_attempt_no i r in
      set_dispatch i (\<lambda>w. dw_state w = D_queued) (claimed_dispatch c n)
        (set_op i (\<lambda>x. or_state x = ACCEPTED) (claimed_op c (or_record_revision row + 1))
          (r\<lparr>rg_attempts := rg_attempts r @ [fresh_attempt c i n],
             rg_leases := rg_leases r @ [fresh_lease c i n (next_lease_epoch i r)]\<rparr>)))"

definition claimed_payload :: "claim_args \<Rightarrow> operation_ref \<Rightarrow> int \<Rightarrow> int \<Rightarrow> json" where
  "claimed_payload c i n epoch = JObj
     [(''attempt_id'', JStr (aw_attempt_id (fresh_attempt c i n))), (''attempt_no'', JInt n),
      (''dispatcher_generation'', JInt (ca_dispatcher_generation c)),
      (''lease_epoch'', JInt epoch), (''runtime_generation'', JInt (ca_runtime_generation c))]"

definition claim_value :: "claim_args \<Rightarrow> string \<Rightarrow> operation_ref \<Rightarrow> int \<Rightarrow> int \<Rightarrow> dispatch_claim res" where
  "claim_value c kind i n epoch =
     and_then (validate_attempt_ref \<lparr>at_operation = i, at_attempt_no = n,
       at_attempt_id = aw_attempt_id (fresh_attempt c i n)\<rparr>)
     (\<lambda>ref. Inr \<lparr>dc_attempt = ref, dc_runtime_generation = ca_runtime_generation c,
        dc_dispatcher_generation = ca_dispatcher_generation c, dc_lease_epoch = epoch,
        dc_owner_digest = ca_owner_digest c, dc_kind = kind\<rparr>)"

definition claim_candidate ::
    "claim_args \<Rightarrow> dispatch_row \<Rightarrow> op_row \<Rightarrow> reg \<Rightarrow> (dispatch_claim \<times> reg) res" where
  "claim_candidate c d row r =
     (let i = or_operation row; n = next_attempt_no i r; epoch = next_lease_epoch i r;
          rv = or_record_revision row + 1 in
      and_then (insert_row attempt_clash (fresh_attempt c i n) (rg_attempts r)) (\<lambda>_.
      and_then (insert_row lease_clash (fresh_lease c i n epoch) (rg_leases r)) (\<lambda>_.
      if dw_kind d = ''rlm.workbench.execute'' \<and> n > 1 then
        Inl (OperationalError ''no such table: rlm_workbench_jobs'')
      else if rowcount (\<lambda>x. or_operation x = i \<and> or_state x = ACCEPTED) (rg_operations r) \<noteq> 1 then
        Inl (StaleRuntimeGeneration ''operation changed during claim'')
      else and_then (successor_started c (dw_kind d) i n rv (claim_writes c row r)) (\<lambda>r2.
        and_then (claim_value c (dw_kind d) i n epoch) (\<lambda>claim.
        Inr (claim, insert_event i RUNNING CERTAIN rv (ca_now c) ''attempt_claimed'' (Some n)
          (Some ''attempt_claimed'') (Some (claimed_payload c i n epoch)) r2))))))"

text \<open>
  The loop over the candidates fetched before it: one that is no longer accepted is
  parked, an expired one is timed out, and the first other one is claimed.
\<close>

fun claim_loop ::
    "claim_args \<Rightarrow> (dispatch_row \<times> op_row) list \<Rightarrow> reg \<Rightarrow> (dispatch_claim option \<times> reg) res" where
  "claim_loop c [] r = Inr (None, r)"
| "claim_loop c ((d, row) # rest) r =
     (if or_state row \<noteq> ACCEPTED then
        claim_loop c rest
          (set_dispatch (or_operation row) (\<lambda>_. True) (\<lambda>w. w\<lparr>dw_state := D_parked\<rparr>) r)
      else if ca_now c \<ge> en_deadline (or_request row) then
        (if dw_kind d = ''rlm.workbench.execute'' then
           Inl (OperationalError ''no such table: rlm_workbench_successor_outbox'')
         else claim_loop c rest (expire_queued row (ca_now c) r))
      else and_then (claim_candidate c d row r) (\<lambda>(claim, r'). Inr (Some claim, r')))"

text \<open>The join of the queued dispatch rows with their operations, oldest first.\<close>

definition candidate_rows :: "reg \<Rightarrow> dispatch_row \<Rightarrow> (dispatch_row \<times> op_row) list" where
  "candidate_rows r d =
     (if dw_state d = D_queued
      then map (\<lambda>x. (d, x)) (filter (\<lambda>x. or_operation x = dw_operation d) (rg_operations r))
      else [])"

definition queued_candidates :: "reg \<Rightarrow> (dispatch_row \<times> op_row) list" where
  "queued_candidates r = sort_key (\<lambda>(d, x). (dw_queued_at d, dw_operation d))
     (concat (map (candidate_rows r) (rg_dispatch r)))"

definition claim_next :: "claim_args \<Rightarrow> reg \<Rightarrow> (dispatch_claim option \<times> reg) res" where
  "claim_next c r =
     (if ca_lease_duration c \<le> 0 then Inl (ValueError ''lease_duration_ms must be positive'')
      else if ca_runtime_generation c \<noteq> rg_generation r then
        Inl (StaleRuntimeGeneration (''runtime generation '' @ itoa (ca_runtime_generation c) @
          '' is not current''))
      else claim_loop c (queued_candidates r) r)"

section \<open>Fences\<close>

record fence =
  fn_operation :: operation_ref
  fn_attempt_no :: int
  fn_attempt_id :: string
  fn_runtime_generation :: int
  fn_dispatcher_generation :: int
  fn_lease_epoch :: int
  fn_owner_digest :: string

definition fence_of :: "dispatch_claim \<Rightarrow> fence" where
  "fence_of c = \<lparr>fn_operation = at_operation (dc_attempt c),
     fn_attempt_no = at_attempt_no (dc_attempt c), fn_attempt_id = at_attempt_id (dc_attempt c),
     fn_runtime_generation = dc_runtime_generation c,
     fn_dispatcher_generation = dc_dispatcher_generation c,
     fn_lease_epoch = dc_lease_epoch c, fn_owner_digest = dc_owner_digest c\<rparr>"

definition find_exact_attempt :: "operation_ref \<Rightarrow> int \<Rightarrow> string \<Rightarrow> reg \<Rightarrow> attempt_row option" where
  "find_exact_attempt i n aid r = fetchone
     (\<lambda>a. aw_operation a = i \<and> aw_attempt_no a = n \<and> aw_attempt_id a = aid) (rg_attempts r)"

text \<open>
  \<open>int(dispatch["current_attempt_no"])\<close> raises \<open>TypeError\<close> on a NULL column; the state
  test before it short-circuits.
\<close>

definition dispatch_owns :: "dispatch_state \<Rightarrow> operation_ref \<Rightarrow> int \<Rightarrow> reg \<Rightarrow> bool res" where
  "dispatch_owns st i n r =
     (case find_dispatch i r of None \<Rightarrow> Inr False
      | Some d \<Rightarrow> if dw_state d \<noteq> st then Inr False
          else (case dw_current_attempt_no d of
                  None \<Rightarrow> Inl (TypeError ''int() argument must not be NoneType'')
                | Some k \<Rightarrow> Inr (k = n)))"

definition validate_fence :: "fence \<Rightarrow> int \<Rightarrow> reg \<Rightarrow> (attempt_row \<times> lease_row) res" where
  "validate_fence f now r =
     (let i = fn_operation f; n = fn_attempt_no f; g = fn_runtime_generation f in
      if g \<noteq> rg_generation r then Inl (StaleAttemptFence ''runtime generation fence is stale'')
      else case find_exact_attempt i n (fn_attempt_id f) r of
        None \<Rightarrow> Inl (StaleAttemptFence ''attempt identity is not current'')
      | Some attempt \<Rightarrow>
        if aw_runtime_generation attempt \<noteq> g then
          Inl (StaleAttemptFence ''attempt runtime generation fence is stale'')
        else if aw_dispatcher_generation attempt \<noteq> fn_dispatcher_generation f then
          Inl (StaleAttemptFence ''dispatcher generation fence is stale'')
        else if aw_state attempt \<noteq> A_running then
          Inl (StaleAttemptFence ''attempt is no longer running'')
        else (case find_lease i n (fn_lease_epoch f) r of
          None \<Rightarrow> Inl (StaleAttemptFence ''lease epoch is stale'')
        | Some lease \<Rightarrow>
          if lw_owner_digest lease \<noteq> fn_owner_digest f then
            Inl (StaleAttemptFence ''lease owner fence is stale'')
          else if lw_released_at lease \<noteq> None then
            Inl (StaleAttemptFence ''lease has been released'')
          else if now \<ge> lw_expires_at lease then Inl (StaleAttemptFence ''lease has expired'')
          else and_then (dispatch_owns D_running i n r) (\<lambda>owns.
            if \<not> owns then Inl (StaleAttemptFence ''dispatch no longer owns this attempt'')
            else (case find_op i r of
              None \<Rightarrow> Inl (StaleAttemptFence ''outer runtime generation fence is stale'')
            | Some outer \<Rightarrow>
              if or_runtime_generation outer \<noteq> g then
                Inl (StaleAttemptFence ''outer runtime generation fence is stale'')
              else if or_state outer \<notin>
                  {RUNNING, INDETERMINATE, SUCCEEDED, FAILED, CANCELLED, TIMED_OUT} then
                Inl (StaleAttemptFence ''outer operation fence is stale'')
              else Inr (attempt, lease)))))"

definition validate_closed_fence :: "fence \<Rightarrow> attempt_row \<Rightarrow> reg \<Rightarrow> unit res" where
  "validate_closed_fence f attempt r =
     (let i = fn_operation f; g = fn_runtime_generation f; n = aw_attempt_no attempt in
      if g \<noteq> rg_generation r then Inl (StaleAttemptFence ''runtime generation fence is stale'')
      else if aw_runtime_generation attempt \<noteq> g then
        Inl (StaleAttemptFence ''attempt runtime generation fence is stale'')
      else if aw_dispatcher_generation attempt \<noteq> fn_dispatcher_generation f then
        Inl (StaleAttemptFence ''dispatcher generation fence is stale'')
      else
        let lease = find_lease i n (fn_lease_epoch f) r in
        if (case lease of None \<Rightarrow> True | Some l \<Rightarrow> lw_owner_digest l \<noteq> fn_owner_digest f) then
          Inl (StaleAttemptFence ''closed lease ownership fence is stale'')
        else if (case lease of None \<Rightarrow> True | Some l \<Rightarrow> lw_released_at l = None) then
          Inl (StaleAttemptFence ''closed attempt still has a live lease'')
        else case find_op i r of
          None \<Rightarrow> Inl (StaleAttemptFence ''outer runtime generation fence is stale'')
        | Some outer \<Rightarrow>
          if or_runtime_generation outer \<noteq> g then
            Inl (StaleAttemptFence ''outer runtime generation fence is stale'')
          else if aw_state attempt = Suspended_external then
            Inl (OperationalError ''no such table: rlm_workbench_jobs'')
          else if \<not> terminal (or_state outer) \<and> or_state outer \<noteq> INDETERMINATE then
            Inl (StaleAttemptFence ''outer operation is not closed'')
          else and_then (dispatch_owns
                 (if or_state outer = INDETERMINATE then D_parked else D_completed) i n r)
            (\<lambda>owns. if owns then Inr () else Inl (StaleAttemptFence ''closed dispatch fence is stale'')))"

definition heartbeat ::
    "fence \<Rightarrow> int \<Rightarrow> int \<Rightarrow> int \<Rightarrow> reg \<Rightarrow> (lease_record \<times> reg) res" where
  "heartbeat f lease_duration fence_now now r =
     (if lease_duration \<le> 0 then Inl (ValueError ''lease_duration_ms must be positive'')
      else and_then (validate_fence f fence_now r) (\<lambda>(attempt, _).
        let i = fn_operation f; n = fn_attempt_no f;
            r1 = set_lease i n (\<lambda>l. lw_lease_epoch l = fn_lease_epoch f)
              (\<lambda>l. l\<lparr>lw_heartbeat_at := now, lw_expires_at := now + lease_duration\<rparr>) r
        in case find_lease i n (fn_lease_epoch f) r1 of
             None \<Rightarrow> Inl AssertionError
           | Some updated \<Rightarrow> and_then (lease_model i updated attempt) (\<lambda>m. Inr (m, r1))))"

section \<open>Cancellation\<close>

text \<open>The upsert on \<open>operation_controls\<close>.\<close>

definition request_cancel ::
    "operation_ref \<Rightarrow> string \<Rightarrow> string \<Rightarrow> int \<Rightarrow> reg \<Rightarrow> (control_state \<times> reg) res" where
  "request_cancel i requested_by reason_code now r =
     (if reason_code = [] then Inl (ValueError ''reason_code must not be empty'')
      else and_then (get_op i r) (\<lambda>row.
        let control = find_control i r in
        if (case control of None \<Rightarrow> False | Some c \<Rightarrow> cw_cancellation_requested c) then
          and_then (control_model i control) (\<lambda>m. Inr (m, r))
        else
          let rv = (case control of None \<Rightarrow> 1 | Some c \<Rightarrow> cw_control_revision c + 1);
              new = \<lparr>cw_operation = i, cw_control_revision = rv, cw_cancellation_requested = True,
                     cw_requested_at = Some now, cw_requested_by_digest = Some requested_by,
                     cw_reason_code = Some reason_code\<rparr>;
              controls = (case control of None \<Rightarrow> rg_controls r @ [new]
                | Some _ \<Rightarrow> update_rows (\<lambda>c. cw_operation c = i) (\<lambda>_. new) (rg_controls r));
              r1 = insert_event i (or_state row) (or_certainty row) (or_record_revision row) now
                ''cancel_requested'' None (Some ''cancel_requested'')
                (Some (JObj [(''control_revision'', JInt rv), (''reason_code'', JStr reason_code),
                             (''requested_by_digest'', JStr requested_by)]))
                (r\<lparr>rg_controls := controls\<rparr>)
          in and_then (control_model i (Some new)) (\<lambda>m. Inr (m, r1))))"

definition cancellation_requested :: "operation_ref \<Rightarrow> reg \<Rightarrow> bool" where
  "cancellation_requested i r =
     (case find_control i r of None \<Rightarrow> False | Some c \<Rightarrow> cw_cancellation_requested c)"

definition prior_attempt_quiescent :: "operation_ref \<Rightarrow> int \<Rightarrow> reg \<Rightarrow> bool" where
  "prior_attempt_quiescent i now r =
     (case find_dispatch i r of None \<Rightarrow> True
      | Some d \<Rightarrow>
        (case dw_current_attempt_no d of None \<Rightarrow> True
         | Some n \<Rightarrow>
           (case find_attempt i n r of None \<Rightarrow> False | Some a \<Rightarrow> aw_state a \<noteq> A_running) \<and>
           fetchone (\<lambda>l. lw_operation l = i \<and> lw_attempt_no l = n \<and> lw_released_at l = None \<and>
             lw_expires_at l > now) (rg_leases r) = None))"

definition cancel_queued_dispatch ::
    "operation_ref \<Rightarrow> int \<Rightarrow> string option \<Rightarrow> int \<Rightarrow> reg \<Rightarrow> ((op_row \<times> bool) \<times> reg) res" where
  "cancel_queued_dispatch i runtime_generation result_json now r =
     (if runtime_generation \<noteq> rg_generation r then
        Inl (StaleRuntimeGeneration (''runtime generation '' @ itoa runtime_generation @
          '' is not current''))
      else and_then (get_op i r) (\<lambda>row.
        let dispatch = find_dispatch i r in
        if or_state row \<noteq> ACCEPTED \<or>
           (case dispatch of None \<Rightarrow> True | Some d \<Rightarrow> dw_state d \<notin> {D_queued, D_parked}) \<or>
           \<not> prior_attempt_quiescent i now r
        then and_then (record_model row) (\<lambda>rec. Inr ((rec, False), r))
        else
          let rv = or_record_revision row + 1;
              r1 = set_op i (\<lambda>x. or_state x = ACCEPTED)
                (\<lambda>x. x\<lparr>or_state := CANCELLED, or_certainty := CERTAIN, or_record_revision := rv,
                       or_reconciliation_required := False, or_result_json := result_json,
                       or_updated_at := now\<rparr>) r in
          if rowcount (\<lambda>x. or_operation x = i \<and> or_state x = ACCEPTED) (rg_operations r) \<noteq> 1 then
            and_then (get_record i r1) (\<lambda>rec. Inr ((rec, False), r1))
          else
            let r2 = set_dispatch i (\<lambda>d. dw_state d \<in> {D_queued, D_parked})
                  (\<lambda>d. d\<lparr>dw_state := D_completed, dw_finished_at := Some now\<rparr>) r1 in
            if (case dispatch of None \<Rightarrow> False | Some d \<Rightarrow> dw_kind d = ''rlm.workbench.execute'') then
              Inl (OperationalError ''no such table: rlm_workbench_jobs'')
            else
              let r3 = insert_event i CANCELLED CERTAIN rv now ''cancelled_before_claim'' None
                    (Some ''cancelled_before_claim'')
                    (Some (JObj [(''state'', JStr (state_wire CANCELLED))])) r2
              in and_then (get_record i r3) (\<lambda>rec. Inr ((rec, True), r3))))"

section \<open>Fenced outcomes\<close>

definition outcome_certainty_of :: "operation_state \<Rightarrow> outcome_certainty" where
  "outcome_certainty_of st = (if st = INDETERMINATE then INDETERMINATE_OUTCOME else CERTAIN)"

definition closed_dispatch_state :: "operation_state \<Rightarrow> dispatch_state" where
  "closed_dispatch_state st = (if st = INDETERMINATE then D_parked else D_completed)"

text \<open>The four table writes of a committed outcome.\<close>

definition outcome_op ::
    "operation_state \<Rightarrow> string option \<Rightarrow> failure_envelope option \<Rightarrow> int \<Rightarrow> int \<Rightarrow> op_row \<Rightarrow> op_row" where
  "outcome_op st result_json failure rv now x =
     x\<lparr>or_state := st, or_certainty := outcome_certainty_of st, or_record_revision := rv,
       or_reconciliation_required := (st = INDETERMINATE), or_result_json := result_json,
       or_failure := failure, or_updated_at := now\<rparr>"

definition outcome_writes ::
    "fence \<Rightarrow> operation_state \<Rightarrow> string option \<Rightarrow> failure_envelope option \<Rightarrow> string \<Rightarrow> int \<Rightarrow> op_row \<Rightarrow>
     reg \<Rightarrow> reg" where
  "outcome_writes f st result_json failure note now row r =
     (let i = fn_operation f; n = fn_attempt_no f in
      set_dispatch i (\<lambda>d. dw_state d = D_running \<and> dw_current_attempt_no d = Some n)
        (\<lambda>d. d\<lparr>dw_state := closed_dispatch_state st, dw_finished_at := Some now\<rparr>)
      (set_lease i n (\<lambda>l. lw_lease_epoch l = fn_lease_epoch f \<and> lw_released_at l = None)
        (\<lambda>l. l\<lparr>lw_released_at := Some now\<rparr>)
      (set_attempt i n (\<lambda>a. aw_attempt_id a = fn_attempt_id f \<and> aw_state a = A_running)
        (\<lambda>a. a\<lparr>aw_state := A_state st, aw_certainty := outcome_certainty_of st,
               aw_recovery_reason := (if st = INDETERMINATE then Some note else None),
               aw_ended_at := Some now\<rparr>)
      (set_op i (\<lambda>x. or_state x = RUNNING \<and> or_runtime_generation x = fn_runtime_generation f)
        (outcome_op st result_json failure (or_record_revision row + 1) now) r))))"

definition transition_claimed ::
    "fence \<Rightarrow> operation_state \<Rightarrow> string option \<Rightarrow> failure_envelope option \<Rightarrow> string \<Rightarrow> int \<Rightarrow> int \<Rightarrow>
     reg \<Rightarrow> (op_row \<times> reg) res" where
  "transition_claimed f st result_json failure note fence_now now r =
     (if \<not> terminal st \<and> st \<noteq> INDETERMINATE then
        Inl (ValueError ''claimed outcome must be terminal or indeterminate'')
      else and_then (validate_fence f fence_now r) (\<lambda>_.
        let i = fn_operation f; n = fn_attempt_no f in
        case find_op i r of None \<Rightarrow> Inl AssertionError
        | Some row \<Rightarrow>
          if or_state row \<noteq> RUNNING then
            Inl (StaleAttemptFence ''outer operation is no longer running'')
          else if rowcount (\<lambda>x. or_operation x = i \<and> or_state x = RUNNING \<and>
                or_runtime_generation x = fn_runtime_generation f) (rg_operations r) \<noteq> 1 then
            Inl (StaleAttemptFence ''outer operation changed during claimed commit'')
          else
            let r1 = insert_event i st (outcome_certainty_of st) (or_record_revision row + 1) now
                  note (Some n) (Some note)
                  (Some (JObj [(''attempt_no'', JInt n), (''state'', JStr (state_wire st))]))
                  (outcome_writes f st result_json failure note now row r)
            in and_then (record_from_operation_id i r1) (\<lambda>rec. Inr (rec, r1))))"

definition park_attempt :: "fence \<Rightarrow> string \<Rightarrow> int \<Rightarrow> int \<Rightarrow> reg \<Rightarrow> (op_row \<times> reg) res" where
  "park_attempt f note = transition_claimed f INDETERMINATE None None note"

section \<open>Checkpoints\<close>

definition bind_checkpoint ::
    "attempt_ref \<Rightarrow> fence \<Rightarrow> artifact_reference \<Rightarrow> string \<Rightarrow> int \<Rightarrow> int \<Rightarrow> reg \<Rightarrow>
     (checkpoint_binding \<times> reg) res" where
  "bind_checkpoint ref f checkpoint environment_digest fence_now now r =
     (if ar_redacted checkpoint then
        Inl (ValueError ''redacted artifacts cannot be continuity checkpoints'')
      else and_then (validate_fence f fence_now r) (\<lambda>_.
        let i = fn_operation f; n = fn_attempt_no f in
        case find_op i r of None \<Rightarrow> Inl AssertionError
        | Some outer \<Rightarrow>
          let existing = fetchone (\<lambda>k. kw_operation k = i \<and> kw_attempt_no k = n \<and>
                kw_checkpoint_digest k = ar_digest checkpoint) (rg_checkpoints r);
              row = \<lparr>kw_operation = i, kw_attempt_no = n,
                     kw_checkpoint_digest = ar_digest checkpoint,
                     kw_checkpoint_kind = environment_digest,
                     kw_artifact_id = artifact_value (ar_artifact checkpoint),
                     kw_media_type = ar_media_type checkpoint,
                     kw_size_bytes = ar_size_bytes checkpoint,
                     kw_created_by = operation_value (ar_created_by checkpoint),
                     kw_created_at = now\<rparr>;
              bound = (\<lambda>created_at. validate_checkpoint_binding
                \<lparr>cb_operation = i, cb_attempt = ref, cb_checkpoint = checkpoint,
                 cb_environment_digest = environment_digest, cb_created_at = created_at\<rparr>)
          in (case existing of
               Some k \<Rightarrow>
                 if k\<lparr>kw_created_at := now\<rparr> \<noteq> row then
                   Inl (IdempotencyConflict ''checkpoint digest already binds different artifact metadata'')
                 else and_then (bound (kw_created_at k)) (\<lambda>b. Inr (b, r))
             | None \<Rightarrow>
                 let r1 = set_attempt i n (\<lambda>a. aw_attempt_id a = fn_attempt_id f)
                       (\<lambda>a. a\<lparr>aw_checkpoint_digest := Some (ar_digest checkpoint)\<rparr>)
                       (r\<lparr>rg_checkpoints := rg_checkpoints r @ [row]\<rparr>);
                     r2 = insert_event i (or_state outer) (or_certainty outer)
                       (or_record_revision outer) now ''checkpoint_bound'' (Some n)
                       (Some ''checkpoint_bound'')
                       (Some (JObj [(''checkpoint_digest'', JStr (ar_digest checkpoint))])) r1
                 in and_then (bound now) (\<lambda>b. Inr (b, r2)))))"

definition checkpoint_binding_of ::
    "operation_ref \<Rightarrow> reg \<Rightarrow> checkpoint_row \<Rightarrow> checkpoint_binding res" where
  "checkpoint_binding_of i r k =
     and_then (attempt_ref_for_no i (Some (kw_attempt_no k)) r) (\<lambda>attempt.
       case attempt of None \<Rightarrow> Inl AssertionError
       | Some ref \<Rightarrow>
         and_then (validate_ref ArtifactIdRef (kw_artifact_id k)) (\<lambda>artifact.
         and_then (validate_ref OperationRef (kw_created_by k)) (\<lambda>created_by.
         and_then (validate_artifact_reference
           \<lparr>ar_artifact = artifact, ar_digest = kw_checkpoint_digest k,
            ar_media_type = kw_media_type k, ar_size_bytes = kw_size_bytes k,
            ar_created_by = created_by, ar_redacted = False\<rparr>) (\<lambda>checkpoint.
         validate_checkpoint_binding
           \<lparr>cb_operation = i, cb_attempt = ref, cb_checkpoint = checkpoint,
            cb_environment_digest = kw_checkpoint_kind k, cb_created_at = kw_created_at k\<rparr>))))"

definition checkpoint_bindings :: "operation_ref \<Rightarrow> reg \<Rightarrow> checkpoint_binding list res" where
  "checkpoint_bindings i r =
     and_then (get_op i r) (\<lambda>_. traverse (checkpoint_binding_of i r)
       (sort_key (\<lambda>k. (kw_attempt_no k, kw_created_at k))
         (filter (\<lambda>k. kw_operation k = i) (rg_checkpoints r))))"

section \<open>Closing an attempt\<close>

definition finish_writes :: "fence \<Rightarrow> operation_state \<Rightarrow> int \<Rightarrow> reg \<Rightarrow> reg" where
  "finish_writes f st now r =
     (let i = fn_operation f; n = fn_attempt_no f in
      set_dispatch i (\<lambda>_. True)
        (\<lambda>d. d\<lparr>dw_state := closed_dispatch_state st, dw_finished_at := Some now\<rparr>)
      (set_lease i n (\<lambda>l. lw_lease_epoch l = fn_lease_epoch f)
        (\<lambda>l. l\<lparr>lw_released_at := Some now\<rparr>)
      (set_attempt i n (\<lambda>a. aw_attempt_id a = fn_attempt_id f)
        (\<lambda>a. a\<lparr>aw_state := A_state st, aw_certainty := outcome_certainty_of st,
               aw_ended_at := Some now\<rparr>) r)))"

definition finish_attempt :: "fence \<Rightarrow> int \<Rightarrow> int \<Rightarrow> reg \<Rightarrow> (op_row \<times> reg) res" where
  "finish_attempt f fence_now now r =
     (let i = fn_operation f; n = fn_attempt_no f in
      case find_exact_attempt i n (fn_attempt_id f) r of
        None \<Rightarrow> Inl (StaleAttemptFence ''attempt identity is not current'')
      | Some stored \<Rightarrow>
        if aw_state stored \<noteq> A_running then
          and_then (validate_closed_fence f stored r)
            (\<lambda>_. and_then (get_record i r) (\<lambda>rec. Inr (rec, r)))
        else and_then (validate_fence f fence_now r) (\<lambda>_.
          case find_op i r of None \<Rightarrow> Inl AssertionError
          | Some row \<Rightarrow>
            if \<not> terminal (or_state row) \<and> or_state row \<noteq> INDETERMINATE then
              Inl (InvalidTransition
                ''attempt can finish only after a terminal or indeterminate outer state'')
            else
              let r1 = finish_writes f (or_state row) now r
              in and_then (get_record i r1) (\<lambda>rec. Inr (rec, r1))))"

section \<open>Inversion\<close>

lemma claim_candidate_Inr:
  "claim_candidate c d x r = Inr (claim, r') \<Longrightarrow>
   (\<exists>r2. (\<forall>a \<in> set (rg_attempts r).
        \<not> attempt_clash (fresh_attempt c (or_operation x) (next_attempt_no (or_operation x) r)) a) \<and>
      successor_started c (dw_kind d) (or_operation x) (next_attempt_no (or_operation x) r)
        (or_record_revision x + 1) (claim_writes c x r) = Inr r2 \<and>
      claim_value c (dw_kind d) (or_operation x) (next_attempt_no (or_operation x) r)
        (next_lease_epoch (or_operation x) r) = Inr claim \<and>
      r' = insert_event (or_operation x) RUNNING CERTAIN (or_record_revision x + 1) (ca_now c)
        ''attempt_claimed'' (Some (next_attempt_no (or_operation x) r)) (Some ''attempt_claimed'')
        (Some (claimed_payload c (or_operation x) (next_attempt_no (or_operation x) r)
          (next_lease_epoch (or_operation x) r))) r2)"
  by (auto simp: claim_candidate_def res_simps Let_def split: if_splits)

lemma successor_started_Inr:
  "successor_started c k i n rv r = Inr r2 \<Longrightarrow>
   r2 = r \<or> (\<exists>pl. r2 = insert_event i RUNNING CERTAIN rv (ca_now c) ''successor_started'' (Some n)
     (Some ''successor_started'') pl r)"
  by (auto simp: successor_started_def split: if_splits option.splits)

lemma claim_value_Inr:
  "claim_value c k i n epoch = Inr claim \<Longrightarrow>
   fence_of claim = \<lparr>fn_operation = i, fn_attempt_no = n,
     fn_attempt_id = aw_attempt_id (fresh_attempt c i n),
     fn_runtime_generation = ca_runtime_generation c,
     fn_dispatcher_generation = ca_dispatcher_generation c, fn_lease_epoch = epoch,
     fn_owner_digest = ca_owner_digest c\<rparr> \<and> dc_kind claim = k"
  by (auto simp: claim_value_def fence_of_def validate_attempt_ref_def res_simps)

lemma transition_claimed_Inr:
  assumes "transition_claimed f st j fl note fn now r = Inr (rec, r')"
  shows "\<exists>x v pl. find_op (fn_operation f) r = Some x \<and> or_state x = RUNNING \<and>
     (terminal st \<or> st = INDETERMINATE) \<and> validate_fence f fn r = Inr v \<and>
     record_from_operation_id (fn_operation f) r' = Inr rec \<and>
     r' = insert_event (fn_operation f) st (outcome_certainty_of st)
       (or_record_revision x + 1) now note (Some (fn_attempt_no f)) (Some note) pl
       (outcome_writes f st j fl note now x r)"
  using assms by (auto simp: transition_claimed_def res_simps Let_def split: if_splits option.splits)

lemma validate_fence_Inr:
  "validate_fence f now r = Inr (a, l) \<longleftrightarrow>
     (\<exists>d x. fn_runtime_generation f = rg_generation r \<and>
      find_exact_attempt (fn_operation f) (fn_attempt_no f) (fn_attempt_id f) r = Some a \<and>
      aw_runtime_generation a = fn_runtime_generation f \<and>
      aw_dispatcher_generation a = fn_dispatcher_generation f \<and> aw_state a = A_running \<and>
      find_lease (fn_operation f) (fn_attempt_no f) (fn_lease_epoch f) r = Some l \<and>
      lw_owner_digest l = fn_owner_digest f \<and> lw_released_at l = None \<and> now < lw_expires_at l \<and>
      find_dispatch (fn_operation f) r = Some d \<and> dw_state d = D_running \<and>
      dw_current_attempt_no d = Some (fn_attempt_no f) \<and>
      find_op (fn_operation f) r = Some x \<and> or_runtime_generation x = fn_runtime_generation f \<and>
      or_state x \<noteq> ACCEPTED)"
proof -
  have st: "s \<in> {RUNNING, INDETERMINATE, SUCCEEDED, FAILED, CANCELLED, TIMED_OUT} \<longleftrightarrow> s \<noteq> ACCEPTED" for s
    by (cases s) auto
  have own: "dispatch_owns D_running i n r = Inr True \<longleftrightarrow>
      (\<exists>d. find_dispatch i r = Some d \<and> dw_state d = D_running \<and> dw_current_attempt_no d = Some n)" for i n
    by (auto simp: dispatch_owns_def split: option.splits if_splits)
  have ex: "(\<exists>b. P b \<and> b) \<longleftrightarrow> P True" for P :: "bool \<Rightarrow> bool" by (metis (full_types))
  show ?thesis
    unfolding validate_fence_def Let_def st
    by (auto simp: own ex res_simps split: option.splits if_splits)
qed

lemma finish_attempt_Inr:
  "finish_attempt f fn now r = Inr (rec, r') \<Longrightarrow>
   get_record (fn_operation f) r' = Inr rec \<and>
   (\<exists>a. find_exact_attempt (fn_operation f) (fn_attempt_no f) (fn_attempt_id f) r = Some a \<and>
     (aw_state a \<noteq> A_running \<and> validate_closed_fence f a r = Inr () \<and> r' = r \<or>
      aw_state a = A_running \<and> (\<exists>v x. validate_fence f fn r = Inr v \<and>
        find_op (fn_operation f) r = Some x \<and> (terminal (or_state x) \<or> or_state x = INDETERMINATE) \<and>
        r' = finish_writes f (or_state x) now r)))"
  by (auto simp: finish_attempt_def res_simps Let_def split: if_splits option.splits)

lemmas claim_inversions = claim_candidate_Inr successor_started_Inr transition_claimed_Inr
  finish_attempt_Inr

end
