(* ===== verification/Registry_Recovery.thy ===== *)
theory Registry_Recovery
  imports Registry_Claims
begin

text \<open>
  Recovery in \<open>OperationRegistry\<close>: the candidate list, fencing of expired attempts,
  \<open>requeue_indeterminate\<close> with its bound policies and continuation boundaries, and
  \<open>recover_terminal_from_receipt\<close>.
\<close>

section \<open>Candidates and decisions\<close>

definition undecided :: "reg \<Rightarrow> op_row \<Rightarrow> dispatch_row \<Rightarrow> bool" where
  "undecided r x d \<longleftrightarrow> \<not> (\<exists>w \<in> set (rg_decisions r).
     xw_operation w = or_operation x \<and> xw_prior_attempt_no w \<noteq> None \<and>
     xw_prior_attempt_no w = dw_current_attempt_no d)"

definition list_recovery_candidates :: "reg \<Rightarrow> op_row list res" where
  "list_recovery_candidates r = traverse record_model
     (sort_key (\<lambda>x. (or_updated_at x, or_operation x))
       [x. x \<leftarrow> rg_operations r, d \<leftarrow> rg_dispatch r, dw_operation d = or_operation x \<and>
          or_state x = INDETERMINATE \<and> or_certainty x = INDETERMINATE_OUTCOME \<and>
          dw_state d \<in> {D_running, D_parked} \<and> undecided r x d])"

definition recovery_decision_of ::
    "operation_ref \<Rightarrow> reg \<Rightarrow> decision_row \<Rightarrow> recovery_decision res" where
  "recovery_decision_of i r w =
     and_then (attempt_ref_for_no i (xw_prior_attempt_no w) r) (\<lambda>prior.
     and_then (attempt_ref_for_no i (xw_successor_attempt_no w) r) (\<lambda>successor.
     validate_recovery_decision
       \<lparr>rd_operation = i, rd_decision_no = xw_decision_no w,
        rd_policy_version = (case xw_policy_version w of None \<Rightarrow> 1 | Some v \<Rightarrow> v),
        rd_prior_attempt = prior, rd_decision = xw_decision w,
        rd_reason_code = xw_reason_code w, rd_input_digest = xw_input_digest w,
        rd_policy_digest = xw_policy_digest w, rd_checkpoint_digest = xw_checkpoint_digest w,
        rd_effect_receipt_digest = xw_effect_receipt_digest w,
        rd_boundary_digest = xw_boundary_digest w, rd_successor_attempt = successor,
        rd_created_at = xw_created_at w\<rparr>))"

definition recovery_decisions :: "operation_ref \<Rightarrow> reg \<Rightarrow> recovery_decision list res" where
  "recovery_decisions i r =
     and_then (get_op i r) (\<lambda>_. traverse (recovery_decision_of i r)
       (sort_key xw_decision_no (filter (\<lambda>w. xw_operation w = i) (rg_decisions r))))"

section \<open>Fencing expired attempts\<close>

text \<open>The join of a running operation with its running dispatch, attempt and expired lease.\<close>

definition expired_rows :: "int \<Rightarrow> reg \<Rightarrow> op_row \<Rightarrow> (op_row \<times> int \<times> lease_row) list" where
  "expired_rows now r x =
     (if or_state x = RUNNING then
        concat (map (\<lambda>d. concat (map (\<lambda>a. map (\<lambda>l. (x, aw_attempt_no a, l))
            (filter (\<lambda>l. lw_operation l = or_operation x \<and> lw_attempt_no l = aw_attempt_no a \<and>
               lw_released_at l = None \<and> lw_expires_at l \<le> now) (rg_leases r)))
          (filter (\<lambda>a. aw_operation a = or_operation x \<and>
             dw_current_attempt_no d = Some (aw_attempt_no a) \<and> aw_state a = A_running)
             (rg_attempts r))))
        (filter (\<lambda>d. dw_operation d = or_operation x \<and> dw_state d = D_running) (rg_dispatch r)))
      else [])"

definition expired_candidates :: "int \<Rightarrow> reg \<Rightarrow> (op_row \<times> int \<times> lease_row) list" where
  "expired_candidates now r = sort_key (\<lambda>(x, n, l). (lw_expires_at l, or_operation x))
     (concat (map (expired_rows now r) (rg_operations r)))"

definition fence_expired_one :: "int \<Rightarrow> op_row \<Rightarrow> int \<Rightarrow> lease_row \<Rightarrow> reg \<Rightarrow> reg" where
  "fence_expired_one now row n lease r =
     (let i = or_operation row; rv = or_record_revision row + 1;
          r1 = set_op i (\<lambda>x. or_state x = RUNNING)
            (\<lambda>x. x\<lparr>or_state := INDETERMINATE, or_certainty := INDETERMINATE_OUTCOME,
                   or_record_revision := rv, or_reconciliation_required := True,
                   or_updated_at := now\<rparr>) r;
          r2 = set_attempt i n (\<lambda>a. aw_state a = A_running)
            (\<lambda>a. a\<lparr>aw_state := A_state INDETERMINATE, aw_certainty := INDETERMINATE_OUTCOME,
                   aw_recovery_reason := Some ''lease_expired'', aw_ended_at := Some now\<rparr>) r1;
          r3 = set_lease i n
            (\<lambda>l. lw_lease_epoch l = lw_lease_epoch lease \<and> lw_released_at l = None)
            (\<lambda>l. l\<lparr>lw_released_at := Some now\<rparr>) r2
      in insert_event i INDETERMINATE INDETERMINATE_OUTCOME rv now ''lease_expired'' (Some n)
           (Some ''lease_expired'')
           (Some (JObj [(''attempt_no'', JInt n), (''lease_epoch'', JInt (lw_lease_epoch lease))])) r3)"

fun fence_expired_loop ::
    "int \<Rightarrow> (op_row \<times> int \<times> lease_row) list \<Rightarrow> reg \<Rightarrow> (op_row list \<times> reg) res" where
  "fence_expired_loop now [] r = Inr ([], r)"
| "fence_expired_loop now ((row, n, lease) # rest) r =
     (let r1 = fence_expired_one now row n lease r in
      and_then (record_from_operation_id (or_operation row) r1) (\<lambda>rec.
      and_then (fence_expired_loop now rest r1) (\<lambda>(recs, r2). Inr (rec # recs, r2))))"

definition fence_expired_attempts :: "int \<Rightarrow> int \<Rightarrow> reg \<Rightarrow> (op_row list \<times> reg) res" where
  "fence_expired_attempts runtime_generation now r =
     (if runtime_generation \<noteq> rg_generation r then
        Inl (StaleRuntimeGeneration (''runtime generation '' @ itoa runtime_generation @
          '' is not current''))
      else fence_expired_loop now (expired_candidates now r) r)"

section \<open>Continuation boundaries\<close>

datatype boundary = Rlm_bd rlm_boundary | Ws_bd ws_boundary

fun bd_operation where
  "bd_operation (Rlm_bd b) = rb_operation b" | "bd_operation (Ws_bd b) = wb_operation b"
fun bd_prior_attempt where
  "bd_prior_attempt (Rlm_bd b) = rb_prior_attempt b" | "bd_prior_attempt (Ws_bd b) = wb_prior_attempt b"
fun bd_runtime_generation where
  "bd_runtime_generation (Rlm_bd b) = rb_runtime_generation b"
| "bd_runtime_generation (Ws_bd b) = wb_runtime_generation b"
fun bd_dispatcher_generation where
  "bd_dispatcher_generation (Rlm_bd b) = rb_dispatcher_generation b"
| "bd_dispatcher_generation (Ws_bd b) = wb_dispatcher_generation b"
fun bd_lease_epoch where
  "bd_lease_epoch (Rlm_bd b) = rb_lease_epoch b" | "bd_lease_epoch (Ws_bd b) = wb_lease_epoch b"
fun bd_policy_digest where
  "bd_policy_digest (Rlm_bd b) = rb_policy_digest b" | "bd_policy_digest (Ws_bd b) = wb_policy_digest b"
fun bd_input_digest where
  "bd_input_digest (Rlm_bd b) = rb_input_digest b" | "bd_input_digest (Ws_bd b) = wb_input_digest b"
fun bd_environment_digest where
  "bd_environment_digest (Rlm_bd b) = rb_environment_digest b"
| "bd_environment_digest (Ws_bd b) = wb_environment_digest b"
fun bd_deadline where
  "bd_deadline (Rlm_bd b) = rb_deadline b" | "bd_deadline (Ws_bd b) = wb_deadline b"
fun bd_boundary_digest where
  "bd_boundary_digest (Rlm_bd b) = rb_boundary_digest b"
| "bd_boundary_digest (Ws_bd b) = wb_boundary_digest b"

text \<open>The predecessor attempt: the dispatch's current one, else the highest.\<close>

definition prior_attempt :: "operation_ref \<Rightarrow> reg \<Rightarrow> attempt_row option" where
  "prior_attempt i r =
     (case (case find_dispatch i r of None \<Rightarrow> None | Some d \<Rightarrow> dw_current_attempt_no d) of
        None \<Rightarrow> max_row aw_attempt_no (filter (\<lambda>a. aw_operation a = i) (rg_attempts r))
      | Some n \<Rightarrow> find_attempt i n r)"

definition prior_attempt_no :: "operation_ref \<Rightarrow> reg \<Rightarrow> int option" where
  "prior_attempt_no i r =
     (case prior_attempt i r of Some a \<Rightarrow> Some (aw_attempt_no a)
      | None \<Rightarrow> (case find_dispatch i r of None \<Rightarrow> None | Some d \<Rightarrow> dw_current_attempt_no d))"

definition close_prior :: "operation_ref \<Rightarrow> string \<Rightarrow> int \<Rightarrow> reg \<Rightarrow> reg" where
  "close_prior i reason_code now r =
     (case prior_attempt i r of None \<Rightarrow> r
      | Some a \<Rightarrow>
        let n = aw_attempt_no a;
            r1 = (if aw_state a = A_running then
                set_attempt i n (\<lambda>_. True)
                  (\<lambda>a. a\<lparr>aw_state := A_state INDETERMINATE, aw_certainty := INDETERMINATE_OUTCOME,
                         aw_recovery_reason := Some reason_code, aw_ended_at := Some now\<rparr>) r
              else r)
        in set_lease i n (\<lambda>l. lw_released_at l = None) (\<lambda>l. l\<lparr>lw_released_at := Some now\<rparr>) r1)"

text \<open>
  The checks on a boundary that a policy-bound successor must pass, in the order of the
  code: predecessor authority, lease epoch, cancellation, deadline, successor bound.
\<close>

definition predecessor_authority ::
    "operation_ref \<Rightarrow> boundary \<Rightarrow> attempt_row \<Rightarrow> policy_binding \<Rightarrow> string \<Rightarrow> int \<Rightarrow> bool" where
  "predecessor_authority i b prior pb input_digest deadline \<longleftrightarrow>
     bd_operation b = i \<and> at_attempt_no (bd_prior_attempt b) = aw_attempt_no prior \<and>
     at_attempt_id (bd_prior_attempt b) = aw_attempt_id prior \<and>
     bd_runtime_generation b = aw_runtime_generation prior \<and>
     bd_dispatcher_generation b = aw_dispatcher_generation prior \<and>
     bd_policy_digest b = pb_policy_digest pb \<and> bd_input_digest b = input_digest \<and>
     bd_environment_digest b = pb_environment_digest pb \<and> bd_deadline b = deadline"

definition successor_count :: "operation_ref \<Rightarrow> reg \<Rightarrow> nat" where
  "successor_count i r = length (filter
     (\<lambda>w. xw_operation w = i \<and> xw_decision w \<in> successor_decisions) (rg_decisions r))"

definition admit_successor ::
    "operation_ref \<Rightarrow> boundary option \<Rightarrow> attempt_row option \<Rightarrow> policy_binding \<Rightarrow> string \<Rightarrow> int \<Rightarrow>
     op_row \<Rightarrow> reg \<Rightarrow> (boundary \<times> int) res" where
  "admit_successor i bd predecessor pb input_digest now row r =
     (case (bd, predecessor) of
        (Some b, Some prior) \<Rightarrow>
          if \<not> predecessor_authority i b prior pb input_digest (en_deadline (or_request row)) then
            Inl (StaleAttemptFence ''continuation boundary does not match predecessor authority'')
          else
            let lease = max_row lw_lease_epoch (filter
                  (\<lambda>l. lw_operation l = i \<and> lw_attempt_no l = aw_attempt_no prior) (rg_leases r)) in
            if (case lease of None \<Rightarrow> True | Some l \<Rightarrow> lw_lease_epoch l \<noteq> bd_lease_epoch b) then
              Inl (StaleAttemptFence ''continuation boundary lease epoch is stale'')
            else if cancellation_requested i r then
              Inl (InvalidTransition ''cancellation prevents successor recovery'')
            else if now \<ge> bd_deadline b then
              Inl (InvalidTransition ''deadline prevents successor recovery'')
            else if int (successor_count i r) \<ge> rp_max_successor_attempts (pb_policy pb) then
              Inl (InvalidTransition ''successor recovery bound is exhausted'')
            else Inr (b, aw_attempt_no prior)
      | _ \<Rightarrow> Inl (InvalidTransition ''policy-bound successor requires an exact predecessor boundary''))"

definition selection_matches :: "ws_selection \<Rightarrow> ws_boundary \<Rightarrow> bool" where
  "selection_matches s b \<longleftrightarrow>
     ws_operation s = wb_operation b \<and> ws_prior_attempt s = wb_prior_attempt b \<and>
     ws_runtime_generation s = wb_runtime_generation b \<and>
     ws_dispatcher_generation s = wb_dispatcher_generation b \<and>
     ws_lease_epoch s = wb_lease_epoch b \<and> ws_policy_digest s = wb_policy_digest b \<and>
     ws_input_digest s = wb_input_digest b \<and>
     ws_checkpoint_operation s = wb_checkpoint_operation b \<and>
     ws_checkpoint_manifest_digest s = wb_checkpoint_manifest_digest b \<and>
     ws_source_handle s = wb_source_handle b \<and> ws_environment_digest s = wb_environment_digest b \<and>
     ws_exclusion_count s = wb_exclusion_count b \<and> ws_exclusions_digest s = wb_exclusions_digest b \<and>
     ws_artifacts_digest s = wb_artifacts_digest b \<and> ws_completeness s = wb_completeness b \<and>
     ws_deadline s = wb_deadline b"

definition find_selection :: "operation_ref \<Rightarrow> int \<Rightarrow> reg \<Rightarrow> selection_row option" where
  "find_selection i n r =
     fetchone (\<lambda>s. sw_operation s = i \<and> sw_prior_attempt_no s = n) (rg_ws_selections r)"

definition boundary_clash :: "'b boundary_row \<Rightarrow> 'b boundary_row \<Rightarrow> bool" where
  "boundary_clash x y \<longleftrightarrow>
     (bw_operation x = bw_operation y \<and> bw_prior_attempt_no x = bw_prior_attempt_no y) \<or>
     bw_boundary_digest x = bw_boundary_digest y"

text \<open>Insert the boundary of \<open>(operation, prior attempt)\<close>, or find the identical one stored.\<close>

definition bind_boundary_row :: "'b boundary_row \<Rightarrow> 'b boundary_row tbl \<Rightarrow> 'b boundary_row tbl res" where
  "bind_boundary_row x t =
     (case fetchone (\<lambda>y. bw_operation y = bw_operation x \<and>
              bw_prior_attempt_no y = bw_prior_attempt_no x) t of
        Some y \<Rightarrow>
          if bw_boundary_digest y \<noteq> bw_boundary_digest x \<or> bw_boundary y \<noteq> bw_boundary x then
            Inl (IdempotencyConflict
              ''predecessor attempt already binds a different continuation boundary'')
          else Inr t
      | None \<Rightarrow> insert_row boundary_clash x t)"

definition bind_rlm_boundary :: "operation_ref \<Rightarrow> int \<Rightarrow> rlm_boundary \<Rightarrow> reg \<Rightarrow> reg res" where
  "bind_rlm_boundary i n b r =
     and_then (bind_boundary_row
       \<lparr>bw_operation = i, bw_prior_attempt_no = n, bw_boundary_digest = rb_boundary_digest b,
        bw_boundary = b, bw_created_at = rb_created_at b\<rparr> (rg_rlm_boundaries r))
     (\<lambda>t. Inr (r\<lparr>rg_rlm_boundaries := t\<rparr>))"

definition bind_ws_boundary :: "operation_ref \<Rightarrow> int \<Rightarrow> ws_boundary \<Rightarrow> reg \<Rightarrow> reg res" where
  "bind_ws_boundary i n b r =
     (case find_selection i n r of
        None \<Rightarrow> Inl (InvalidTransition ''workspace successor requires a verified restored selection'')
      | Some row \<Rightarrow>
        if sw_state row \<noteq> Restored then
          Inl (InvalidTransition ''workspace successor requires a verified restored selection'')
        else and_then (validate_ws_selection (sw_selection row)) (\<lambda>selection.
          if \<not> selection_matches selection b \<or> sw_restored_handle row \<noteq> Some (wb_restored_handle b) then
            Inl (IdempotencyConflict ''workspace boundary does not match the restored selection'')
          else and_then (bind_boundary_row
            \<lparr>bw_operation = i, bw_prior_attempt_no = n, bw_boundary_digest = wb_boundary_digest b,
             bw_boundary = b, bw_created_at = wb_created_at b\<rparr> (rg_ws_boundaries r))
            (\<lambda>t. Inr (r\<lparr>rg_ws_boundaries := t\<rparr>))))"

text \<open>The continuation of a policy-bound successor: its digests and the stored boundary.\<close>

definition bind_continuation ::
    "operation_ref \<Rightarrow> recovery_decision_kind \<Rightarrow> boundary \<Rightarrow> int \<Rightarrow> reg \<Rightarrow>
     ((string option \<times> string option) \<times> reg) res" where
  "bind_continuation i decision b n r =
     (if decision = Start_successor then
        (case b of
           Rlm_bd rb \<Rightarrow> and_then (bind_rlm_boundary i n rb r)
             (\<lambda>r1. Inr ((None, Some (rb_boundary_digest rb)), r1))
         | Ws_bd _ \<Rightarrow> Inl (InvalidTransition ''RLM successor requires an RLM step boundary''))
      else
        (case b of
           Ws_bd wb \<Rightarrow> and_then (bind_ws_boundary i n wb r)
             (\<lambda>r1. Inr ((Some (wb_checkpoint_manifest_digest wb), Some (wb_boundary_digest wb)), r1))
         | Rlm_bd _ \<Rightarrow>
             Inl (InvalidTransition ''workspace restore requires a workspace checkpoint boundary'')))"

section \<open>Requeueing an indeterminate operation\<close>

definition decisions_all :: "recovery_decision_kind list" where
  "decisions_all = [Needs_user, Quarantine, Reconcile_effect, Restore_checkpoint, Resume_native,
     Start_successor, Terminal_from_receipt]"

definition decision_of_text :: "string \<Rightarrow> recovery_decision_kind res" where
  "decision_of_text t =
     (case List.find (\<lambda>d. decision_wire d = t) decisions_all of
        None \<Rightarrow> Inl (ValueError (''unsupported recovery decision: '' @ t)) | Some d \<Rightarrow> Inr d)"

definition check_policy ::
    "operation_ref \<Rightarrow> recovery_decision_kind \<Rightarrow> policy_binding option \<Rightarrow> boundary option \<Rightarrow> reg \<Rightarrow>
     unit res" where
  "check_policy i decision policy bd r =
     (case policy of
        None \<Rightarrow> if bd \<noteq> None then
            Inl (InvalidTransition ''continuation boundary requires a bound recovery policy'')
          else Inr ()
      | Some pb \<Rightarrow>
        (case find_policy i r of
           None \<Rightarrow> Inl (InvalidTransition ''operation has no admission-bound recovery policy'')
         | Some row \<Rightarrow> and_then (recovery_policy_binding_of i row) (\<lambda>stored.
             if stored \<noteq> pb then
               Inl (IdempotencyConflict ''recovery policy binding does not match admission'')
             else if decision \<notin> set (rp_allowed_decisions (pb_policy pb)) then
               Inl (InvalidTransition ''recovery decision is not allowed by bound policy'')
             else Inr ())))"

definition next_decision_no :: "operation_ref \<Rightarrow> reg \<Rightarrow> int" where
  "next_decision_no i r = max_col (\<lambda>w. xw_operation w = i) xw_decision_no (rg_decisions r) + 1"

text \<open>The dispatch row of an admitted successor.\<close>

definition requeue_dispatch ::
    "operation_ref \<Rightarrow> policy_binding option \<Rightarrow> int option \<Rightarrow> int \<Rightarrow> reg \<Rightarrow> reg res" where
  "requeue_dispatch i policy prior_no now r =
     (case find_dispatch i r of
        None \<Rightarrow> Inr (r\<lparr>rg_dispatch := rg_dispatch r @
          [\<lparr>dw_operation = i,
            dw_kind = (case policy of None \<Rightarrow> ''rlm.execute'' | Some pb \<Rightarrow> pb_operation_kind pb),
            dw_state = D_queued, dw_queued_at = Some now, dw_running_at = None,
            dw_finished_at = None, dw_current_attempt_no = prior_no\<rparr>]\<rparr>)
      | Some d \<Rightarrow>
          if (case policy of None \<Rightarrow> False | Some pb \<Rightarrow> dw_kind d \<noteq> pb_operation_kind pb) then
            Inl (IdempotencyConflict ''dispatch kind does not match the recovery policy'')
          else Inr (set_dispatch i (\<lambda>_. True) (queued_row now) r))"

text \<open>
  What a decided requeue writes: the decision row, then for a successor the accepted
  operation and its queued dispatch, otherwise a parked dispatch, and the event.
\<close>

record requeue_args =
  qa_operation :: operation_ref
  qa_runtime_generation :: int
  qa_decision :: recovery_decision_kind
  qa_reason_code :: string
  qa_input_digest :: string
  qa_policy :: "policy_binding option"
  qa_prior_no :: "int option"
  qa_now :: int

definition qa_admits :: "requeue_args \<Rightarrow> bool" where
  "qa_admits q \<longleftrightarrow> qa_decision q \<in> successor_decisions"

definition qa_successor_no :: "requeue_args \<Rightarrow> int option" where
  "qa_successor_no q = (if qa_admits q then map_option (\<lambda>n. n + 1) (qa_prior_no q) else None)"

definition decision_row_of ::
    "requeue_args \<Rightarrow> int \<Rightarrow> string option \<Rightarrow> string option \<Rightarrow> decision_row" where
  "decision_row_of q no checkpoint_digest boundary_digest =
     \<lparr>xw_operation = qa_operation q, xw_decision_no = no, xw_prior_attempt_no = qa_prior_no q,
      xw_decision = qa_decision q, xw_reason_code = qa_reason_code q,
      xw_input_digest = qa_input_digest q,
      xw_policy_version = map_option (\<lambda>pb. rp_policy_version (pb_policy pb)) (qa_policy q),
      xw_policy_digest = map_option pb_policy_digest (qa_policy q),
      xw_checkpoint_digest = checkpoint_digest, xw_effect_receipt_digest = None,
      xw_boundary_digest = boundary_digest, xw_successor_attempt_no = qa_successor_no q,
      xw_created_at = qa_now q\<rparr>"

definition decision_payload :: "requeue_args \<Rightarrow> int \<Rightarrow> string option \<Rightarrow> json" where
  "decision_payload q no boundary_digest = JObj
     [(''decision'', JStr (decision_wire (qa_decision q))), (''decision_no'', JInt no),
      (''reason_code'', JStr (qa_reason_code q)),
      (''policy_digest'', opt_json JStr (map_option pb_policy_digest (qa_policy q))),
      (''continuation_boundary_digest'', opt_json JStr boundary_digest),
      (''successor_attempt_no'', opt_json JInt (qa_successor_no q))]"

definition requeued_op :: "requeue_args \<Rightarrow> int \<Rightarrow> op_row \<Rightarrow> op_row" where
  "requeued_op q rv x = x\<lparr>or_state := ACCEPTED, or_certainty := CERTAIN,
     or_runtime_generation := qa_runtime_generation q, or_record_revision := rv,
     or_reconciliation_required := False, or_updated_at := qa_now q\<rparr>"

definition with_decision :: "requeue_args \<Rightarrow> string option \<Rightarrow> string option \<Rightarrow> reg \<Rightarrow> reg" where
  "with_decision q checkpoint_digest boundary_digest r = r\<lparr>rg_decisions := rg_decisions r @
     [decision_row_of q (next_decision_no (qa_operation q) r) checkpoint_digest boundary_digest]\<rparr>"

definition log_decision ::
    "requeue_args \<Rightarrow> int \<Rightarrow> string option \<Rightarrow> operation_state \<Rightarrow> outcome_certainty \<Rightarrow> int \<Rightarrow> reg \<Rightarrow> reg" where
  "log_decision q no boundary_digest st ce rv =
     insert_event (qa_operation q) st ce rv (qa_now q) ''recovery_decision'' (qa_prior_no q)
       (Some ''recovery_decision'') (Some (decision_payload q no boundary_digest))"

definition requeue_commit ::
    "requeue_args \<Rightarrow> op_row \<Rightarrow> string option \<Rightarrow> string option \<Rightarrow> reg \<Rightarrow> reg res" where
  "requeue_commit q row checkpoint_digest boundary_digest r =
     (let i = qa_operation q; no = next_decision_no i r; rv = or_record_revision row + 1;
          r1 = with_decision q checkpoint_digest boundary_digest r in
      if qa_admits q then
        and_then (requeue_dispatch i (qa_policy q) (qa_prior_no q) (qa_now q)
          (set_op i (\<lambda>_. True) (requeued_op q rv) r1))
        (\<lambda>r2. Inr (log_decision q no boundary_digest ACCEPTED CERTAIN rv r2))
      else
        Inr (log_decision q no boundary_digest INDETERMINATE INDETERMINATE_OUTCOME
          (or_record_revision row)
          (set_dispatch i (\<lambda>_. True)
            (\<lambda>d. d\<lparr>dw_state := D_parked, dw_finished_at := Some (qa_now q)\<rparr>) r1)))"

text \<open>The continuation that a policy-bound successor binds; nothing otherwise.\<close>

definition requeue_continuation ::
    "requeue_args \<Rightarrow> boundary option \<Rightarrow> attempt_row option \<Rightarrow> op_row \<Rightarrow> reg \<Rightarrow>
     ((string option \<times> string option) \<times> reg) res" where
  "requeue_continuation q bd predecessor row r =
     (case qa_policy q of
        Some pb \<Rightarrow>
          if qa_admits q then
            and_then (admit_successor (qa_operation q) bd predecessor pb (qa_input_digest q)
                (qa_now q) row r)
              (\<lambda>(b, n). bind_continuation (qa_operation q) (qa_decision q) b n r)
          else Inr ((None, None), r)
      | None \<Rightarrow> Inr ((None, None), r))"

definition requeue_indeterminate ::
    "operation_ref \<Rightarrow> int \<Rightarrow> string \<Rightarrow> string \<Rightarrow> string \<Rightarrow> policy_binding option \<Rightarrow> boundary option \<Rightarrow>
     int \<Rightarrow> reg \<Rightarrow> (op_row \<times> reg) res" where
  "requeue_indeterminate i runtime_generation decision_text reason_code input_digest policy bd now r =
     (if reason_code = [] then Inl (ValueError ''reason_code must not be empty'')
      else if runtime_generation \<noteq> rg_generation r then
        Inl (StaleRuntimeGeneration (''runtime generation '' @ itoa runtime_generation @
          '' is not current''))
      else and_then (get_op i r) (\<lambda>row.
      if or_state row \<noteq> INDETERMINATE then
        Inl (InvalidTransition ''only indeterminate operations can be requeued'')
      else if input_digest \<noteq> [] \<and> input_digest \<noteq> or_input_digest row then
        Inl (IdempotencyConflict ''recovery input digest does not match accepted intent'')
      else
        let r1 = close_prior i reason_code now r in
        and_then (decision_of_text decision_text) (\<lambda>decision.
        let q = \<lparr>qa_operation = i, qa_runtime_generation = runtime_generation,
                 qa_decision = decision, qa_reason_code = reason_code,
                 qa_input_digest =
                   (if input_digest = [] then or_input_digest row else input_digest),
                 qa_policy = policy, qa_prior_no = prior_attempt_no i r, qa_now = now\<rparr> in
        and_then (check_policy i decision policy bd r1) (\<lambda>_.
        and_then (requeue_continuation q bd (prior_attempt i r) row r1)
          (\<lambda>((checkpoint_digest, boundary_digest), r2).
        and_then (requeue_commit q row checkpoint_digest boundary_digest r2) (\<lambda>r3.
        and_then (get_record i r3) (\<lambda>rec. Inr (rec, r3))))))))"

section \<open>Recovery from an authoritative receipt\<close>

definition receipt_op :: "operation_state \<Rightarrow> int \<Rightarrow> string \<Rightarrow> int \<Rightarrow> int \<Rightarrow> op_row \<Rightarrow> op_row" where
  "receipt_op st runtime_generation result_json rv now x =
     x\<lparr>or_state := st, or_certainty := CERTAIN, or_runtime_generation := runtime_generation,
       or_record_revision := rv, or_reconciliation_required := False,
       or_result_json := Some result_json, or_failure := None, or_updated_at := now\<rparr>"

definition receipt_decision ::
    "operation_ref \<Rightarrow> int \<Rightarrow> int option \<Rightarrow> string \<Rightarrow> string \<Rightarrow> int \<Rightarrow> decision_row" where
  "receipt_decision i no attempt_no reason_code input_digest now =
     \<lparr>xw_operation = i, xw_decision_no = no, xw_prior_attempt_no = attempt_no,
      xw_decision = Terminal_from_receipt, xw_reason_code = reason_code,
      xw_input_digest = input_digest, xw_policy_version = None, xw_policy_digest = None,
      xw_checkpoint_digest = None, xw_effect_receipt_digest = None, xw_boundary_digest = None,
      xw_successor_attempt_no = None, xw_created_at = now\<rparr>"

definition receipt_attempt :: "operation_state \<Rightarrow> string \<Rightarrow> int \<Rightarrow> attempt_row \<Rightarrow> attempt_row" where
  "receipt_attempt st reason_code now a =
     a\<lparr>aw_state := A_state st, aw_certainty := CERTAIN, aw_recovery_reason := Some reason_code,
       aw_ended_at := (case aw_ended_at a of None \<Rightarrow> Some now | Some t \<Rightarrow> Some t)\<rparr>"

definition receipt_writes ::
    "operation_ref \<Rightarrow> operation_state \<Rightarrow> string \<Rightarrow> string \<Rightarrow> string \<Rightarrow> int \<Rightarrow> op_row \<Rightarrow> int option \<Rightarrow>
     reg \<Rightarrow> reg" where
  "receipt_writes i st result_json reason_code input_digest now row attempt_no r =
     (let r1 = r\<lparr>rg_decisions := rg_decisions r @
            [receipt_decision i (next_decision_no i r) attempt_no reason_code input_digest now]\<rparr>;
          r2 = set_op i (\<lambda>x. or_state x = INDETERMINATE)
            (receipt_op st (rg_generation r) result_json (or_record_revision row + 1) now) r1;
          r3 = (case attempt_no of None \<Rightarrow> r2
            | Some n \<Rightarrow> set_attempt i n (\<lambda>_. True) (receipt_attempt st reason_code now) r2)
      in set_dispatch i (\<lambda>_. True)
           (\<lambda>d. d\<lparr>dw_state := D_completed, dw_finished_at := Some now\<rparr>) r3)"

definition recover_terminal_from_receipt ::
    "operation_ref \<Rightarrow> int \<Rightarrow> operation_state \<Rightarrow> string \<Rightarrow> string \<Rightarrow> string \<Rightarrow> int \<Rightarrow> reg \<Rightarrow>
     (op_row \<times> reg) res" where
  "recover_terminal_from_receipt i runtime_generation st result_json reason_code input_digest now r =
     (if st \<notin> {SUCCEEDED, CANCELLED, TIMED_OUT} then
        Inl (ValueError ''receipt recovery supports succeeded, cancelled, or timed_out'')
      else if reason_code = [] then Inl (ValueError ''reason_code must not be empty'')
      else if runtime_generation \<noteq> rg_generation r then
        Inl (StaleRuntimeGeneration (''runtime generation '' @ itoa runtime_generation @
          '' is not current''))
      else and_then (get_op i r) (\<lambda>row.
      if or_state row \<noteq> INDETERMINATE then
        Inl (InvalidTransition ''receipt recovery requires an indeterminate operation'')
      else if input_digest \<noteq> or_input_digest row then
        Inl (IdempotencyConflict ''recovery input digest does not match accepted intent'')
      else (case find_dispatch i r of
        None \<Rightarrow> Inl (InvalidTransition ''receipt recovery requires a parked or running dispatch'')
      | Some dispatch \<Rightarrow>
        if dw_state dispatch \<notin> {D_running, D_parked} then
          Inl (InvalidTransition ''receipt recovery requires a parked or running dispatch'')
        else
          let attempt_no = dw_current_attempt_no dispatch;
              r1 = insert_event i st CERTAIN (or_record_revision row + 1) now
                ''terminal_from_receipt'' attempt_no (Some ''terminal_from_receipt'')
                (Some (JObj [(''decision_no'', JInt (next_decision_no i r)),
                             (''reason_code'', JStr reason_code), (''state'', JStr (state_wire st))]))
                (receipt_writes i st result_json reason_code input_digest now row attempt_no r)
          in and_then (get_record i r1) (\<lambda>rec. Inr (rec, r1)))))"

section \<open>Inversion\<close>

lemma requeue_Inr:
  "requeue_indeterminate i g dt rc ind policy bd now r = Inr (rec, r') \<Longrightarrow>
   (\<exists>row decision q cd bdg r2. rc \<noteq> [] \<and> g = rg_generation r \<and>
      find_op i r = Some row \<and> or_state row = INDETERMINATE \<and>
      (ind = [] \<or> ind = or_input_digest row) \<and> decision_of_text dt = Inr decision \<and>
      q = \<lparr>qa_operation = i, qa_runtime_generation = g, qa_decision = decision, qa_reason_code = rc,
           qa_input_digest = or_input_digest row, qa_policy = policy,
           qa_prior_no = prior_attempt_no i r, qa_now = now\<rparr> \<and>
      check_policy i decision policy bd (close_prior i rc now r) = Inr () \<and>
      requeue_continuation q bd (prior_attempt i r) row (close_prior i rc now r) = Inr ((cd, bdg), r2) \<and>
      requeue_commit q row cd bdg r2 = Inr r' \<and> get_record i r' = Inr rec)"
  by (auto simp: requeue_indeterminate_def res_simps Let_def split: if_splits)

lemma requeue_commit_Inr:
  "requeue_commit q row cd bd r = Inr r' \<Longrightarrow>
   (qa_admits q \<and> (\<exists>r2. requeue_dispatch (qa_operation q) (qa_policy q) (qa_prior_no q) (qa_now q)
        (set_op (qa_operation q) (\<lambda>_. True) (requeued_op q (or_record_revision row + 1))
          (with_decision q cd bd r)) = Inr r2 \<and>
      r' = log_decision q (next_decision_no (qa_operation q) r) bd ACCEPTED CERTAIN
        (or_record_revision row + 1) r2)) \<or>
   (\<not> qa_admits q \<and> r' = log_decision q (next_decision_no (qa_operation q) r) bd INDETERMINATE
      INDETERMINATE_OUTCOME (or_record_revision row) (set_dispatch (qa_operation q) (\<lambda>_. True)
        (\<lambda>d. d\<lparr>dw_state := D_parked, dw_finished_at := Some (qa_now q)\<rparr>) (with_decision q cd bd r)))"
  by (auto simp: requeue_commit_def res_simps Let_def split: if_splits)

text \<open>The tables a step of the requeue leaves alone.\<close>

lemma bind_continuation_frame:
  "bind_continuation i d b n r = Inr (ds, r') \<Longrightarrow>
   \<exists>x y. r' = r\<lparr>rg_rlm_boundaries := x, rg_ws_boundaries := y\<rparr>"
  by (auto simp: bind_continuation_def bind_rlm_boundary_def bind_ws_boundary_def res_simps
    split: if_splits boundary.splits option.splits) (metis reg.surjective reg.update_convs(12,13))+

lemma requeue_continuation_frame:
  "requeue_continuation q bd p row r = Inr (ds, r') \<Longrightarrow>
   \<exists>x y. r' = r\<lparr>rg_rlm_boundaries := x, rg_ws_boundaries := y\<rparr>"
proof (cases "qa_policy q")
  case (Some pb)
  assume "requeue_continuation q bd p row r = Inr (ds, r')"
  with Some have "r' = r \<or> (\<exists>b n. bind_continuation (qa_operation q) (qa_decision q) b n r = Inr (ds, r'))"
    by (auto simp: requeue_continuation_def res_simps split: if_splits)
  moreover have "\<exists>x y. r = r\<lparr>rg_rlm_boundaries := x, rg_ws_boundaries := y\<rparr>"
    by (rule exI [of _ "rg_rlm_boundaries r"], rule exI [of _ "rg_ws_boundaries r"]) simp
  ultimately show ?thesis by (auto dest: bind_continuation_frame)
next
  case None
  assume "requeue_continuation q bd p row r = Inr (ds, r')"
  with None have "r' = r\<lparr>rg_rlm_boundaries := rg_rlm_boundaries r, rg_ws_boundaries := rg_ws_boundaries r\<rparr>"
    by (simp add: requeue_continuation_def)
  then show ?thesis by blast
qed

lemma close_prior_frame:
  "\<exists>x y. close_prior i rc now r = r\<lparr>rg_attempts := x, rg_leases := y\<rparr>"
  by (rule exI [of _ "rg_attempts (close_prior i rc now r)"],
      rule exI [of _ "rg_leases (close_prior i rc now r)"])
    (simp add: close_prior_def set_attempt_def set_lease_def Let_def split: option.splits)

lemma recover_terminal_Inr:
  "recover_terminal_from_receipt i g st j rc ind now r = Inr (rec, r') \<Longrightarrow>
   (\<exists>x d pl. find_op i r = Some x \<and> or_state x = INDETERMINATE \<and> g = rg_generation r \<and> rc \<noteq> [] \<and>
      st \<in> {SUCCEEDED, CANCELLED, TIMED_OUT} \<and> ind = or_input_digest x \<and>
      find_dispatch i r = Some d \<and> dw_state d \<in> {D_running, D_parked} \<and>
      get_record i r' = Inr rec \<and>
      r' = insert_event i st CERTAIN (or_record_revision x + 1) now ''terminal_from_receipt''
        (dw_current_attempt_no d) (Some ''terminal_from_receipt'') pl
        (receipt_writes i st j rc ind now x (dw_current_attempt_no d) r))"
  by (auto simp: recover_terminal_from_receipt_def res_simps Let_def split: if_splits option.splits)

lemmas recovery_inversions = requeue_Inr requeue_commit_Inr recover_terminal_Inr

end
