(* ===== verification/Registry_Workspace.thy ===== *)
theory Registry_Workspace
  imports Registry_Recovery
begin

text \<open>
  The workspace checkpoint catalog of \<open>OperationRegistry\<close>: publishing a completed
  checkpoint with its operation's outcome, cataloguing a manifest, selecting a checkpoint
  for a lost attempt and marking it restored. A selection is persisted before the restore
  begins and the restored handle before a successor is admitted.
\<close>

section \<open>Publishing and cataloguing manifests\<close>

definition manifest_json :: "checkpoint_manifest \<Rightarrow> json" where
  "manifest_json m = (case manifest_payload m of
     JObj fs \<Rightarrow> JObj (fs @ [(''content_digest'', JStr (cm_content_digest m))])
   | j \<Rightarrow> j)"

definition manifest_text :: "checkpoint_manifest \<Rightarrow> string" where
  "manifest_text m = canonical_json_text (manifest_json m)"

definition find_manifest_row :: "string \<Rightarrow> reg \<Rightarrow> catalog_row option" where
  "find_manifest_row d r = fetchone (\<lambda>g. gw_manifest_digest g = d) (rg_ws_catalog r)"

definition fresh_catalog_row :: "checkpoint_manifest \<Rightarrow> int \<Rightarrow> catalog_row" where
  "fresh_catalog_row m now =
     (let h = cm_source_handle m in
      \<lparr>gw_manifest_digest = cm_content_digest m, gw_workspace = workspace_value (wh_workspace h),
       gw_source_generation = wh_generation h, gw_source_revision = wh_revision h,
       gw_backend_digest = bd_capability_digest (wh_backend h),
       gw_environment_digest = ev_digest (cm_environment m),
       gw_creation_operation = cm_creation_operation m, gw_manifest = m, gw_created_at = now\<rparr>)"

definition published_op :: "checkpoint_manifest \<Rightarrow> int \<Rightarrow> int \<Rightarrow> op_row \<Rightarrow> op_row" where
  "published_op m rv now x =
     x\<lparr>or_state := SUCCEEDED, or_certainty := CERTAIN, or_record_revision := rv,
       or_reconciliation_required := False, or_result_json := Some (manifest_text m),
       or_failure := None, or_updated_at := now\<rparr>"

definition publish_writes :: "operation_ref \<Rightarrow> checkpoint_manifest \<Rightarrow> int \<Rightarrow> op_row \<Rightarrow> reg \<Rightarrow> reg" where
  "publish_writes i m now row r =
     (let r1 = set_op i (\<lambda>x. or_state x = RUNNING)
            (published_op m (or_record_revision row + 1) now) r
      in case find_manifest_row (cm_content_digest m) r of
           None \<Rightarrow> r1\<lparr>rg_ws_catalog := rg_ws_catalog r1 @ [fresh_catalog_row m now]\<rparr>
         | Some _ \<Rightarrow> r1)"

definition succeed_workspace_checkpoint ::
    "operation_ref \<Rightarrow> checkpoint_manifest \<Rightarrow> int \<Rightarrow> int \<Rightarrow> reg \<Rightarrow> (op_row \<times> reg) res" where
  "succeed_workspace_checkpoint i manifest runtime_generation now r =
     and_then (validate_manifest manifest) (\<lambda>m.
     if cm_creation_operation m \<noteq> i then
       Inl (IdempotencyConflict
         ''checkpoint creation operation does not match the published operation'')
     else if runtime_generation \<noteq> rg_generation r then
       Inl (StaleRuntimeGeneration (''runtime generation '' @ itoa runtime_generation @
         '' is not current''))
     else and_then (get_op i r) (\<lambda>row.
     if or_state row \<noteq> RUNNING then
       Inl (InvalidTransition ''checkpoint publication requires a running operation'')
     else if or_runtime_generation row \<noteq> runtime_generation then
       Inl (StaleRuntimeGeneration ''checkpoint operation belongs to a stale runtime generation'')
     else if (case find_manifest_row (cm_content_digest m) r of None \<Rightarrow> False
              | Some g \<Rightarrow> manifest_text (gw_manifest g) \<noteq> manifest_text m) then
       Inl (IdempotencyConflict ''checkpoint digest is bound to different bytes'')
     else if rowcount (\<lambda>x. or_operation x = i \<and> or_state x = RUNNING) (rg_operations r) \<noteq> 1 then
       Inl (InvalidTransition ''checkpoint operation changed during publication'')
     else
       let r1 = insert_event i SUCCEEDED CERTAIN (or_record_revision row + 1) now ''succeeded''
             None None None (publish_writes i m now row r)
       in and_then (get_record i r1) (\<lambda>rec. Inr (rec, r1))))"

definition record_workspace_checkpoint ::
    "checkpoint_manifest \<Rightarrow> int \<Rightarrow> reg \<Rightarrow> (checkpoint_manifest \<times> reg) res" where
  "record_workspace_checkpoint manifest now r =
     and_then (validate_manifest manifest) (\<lambda>m.
     and_then (get_op (cm_creation_operation m) r) (\<lambda>row.
     if or_state row \<noteq> SUCCEEDED then
       Inl (InvalidTransition ''checkpoint creation operation is not succeeded'')
     else if or_result_json row \<noteq> Some (manifest_text m) then
       Inl (IdempotencyConflict
         ''checkpoint manifest does not match the authoritative operation result'')
     else (case find_manifest_row (cm_content_digest m) r of
       Some g \<Rightarrow>
         if manifest_text (gw_manifest g) \<noteq> manifest_text m then
           Inl (IdempotencyConflict ''checkpoint digest is bound to different bytes'')
         else Inr (m, r)
     | None \<Rightarrow> Inr (m, r\<lparr>rg_ws_catalog := rg_ws_catalog r @ [fresh_catalog_row m now]\<rparr>))))"

definition workspace_checkpoint_manifest :: "string \<Rightarrow> reg \<Rightarrow> checkpoint_manifest option res" where
  "workspace_checkpoint_manifest d r =
     (case find_manifest_row d r of None \<Rightarrow> Inr None
      | Some g \<Rightarrow> and_then (validate_manifest (gw_manifest g)) (\<lambda>m. Inr (Some m)))"

definition latest_workspace_checkpoint ::
    "workspace_handle \<Rightarrow> reg \<Rightarrow> checkpoint_manifest option res" where
  "latest_workspace_checkpoint h r =
     (case rev (sort_key (\<lambda>g. (gw_created_at g, gw_manifest_digest g))
        (filter (\<lambda>g. gw_workspace g = workspace_value (wh_workspace h) \<and>
           gw_source_generation g = wh_generation h \<and> gw_source_revision g = wh_revision h \<and>
           gw_backend_digest g = bd_capability_digest (wh_backend h)) (rg_ws_catalog r))) of
        [] \<Rightarrow> Inr None
      | g # _ \<Rightarrow> and_then (validate_manifest (gw_manifest g)) (\<lambda>m. Inr (Some m)))"

section \<open>Selecting a checkpoint\<close>

text \<open>The attempt, dispatch and lease a selection must name.\<close>

definition selection_fence :: "ws_selection \<Rightarrow> reg \<Rightarrow> unit res" where
  "selection_fence s r =
     (let i = ws_operation s; n = at_attempt_no (ws_prior_attempt s);
          lease = max_row lw_lease_epoch
            (filter (\<lambda>l. lw_operation l = i \<and> lw_attempt_no l = n) (rg_leases r)) in
      if (case find_attempt i n r of None \<Rightarrow> True
          | Some a \<Rightarrow> aw_attempt_id a \<noteq> at_attempt_id (ws_prior_attempt s) \<or>
              aw_runtime_generation a \<noteq> ws_runtime_generation s \<or>
              aw_dispatcher_generation a \<noteq> ws_dispatcher_generation s) then
        Inl (StaleAttemptFence ''checkpoint selection attempt fence is stale'')
      else if (case find_dispatch i r of None \<Rightarrow> True
          | Some d \<Rightarrow> dw_current_attempt_no d \<noteq> Some n \<or> dw_state d \<notin> {D_running, D_parked}) then
        Inl (StaleAttemptFence ''checkpoint selection dispatch fence is stale'')
      else if (case lease of None \<Rightarrow> True | Some l \<Rightarrow> lw_lease_epoch l \<noteq> ws_lease_epoch s) then
        Inl (StaleAttemptFence ''checkpoint selection lease epoch is stale'')
      else Inr ())"

text \<open>The admission-bound policy and the catalogued manifest it must agree with.\<close>

definition selection_sources :: "ws_selection \<Rightarrow> reg \<Rightarrow> unit res" where
  "selection_sources s r =
     (case find_policy (ws_operation s) r of
        None \<Rightarrow> Inl (InvalidTransition ''checkpoint selection requires a recovery policy'')
      | Some w \<Rightarrow> and_then (recovery_policy_binding_of (ws_operation s) w) (\<lambda>policy.
        if pb_policy_digest policy \<noteq> ws_policy_digest s \<or>
           pb_environment_digest policy \<noteq> ws_environment_digest s then
          Inl (IdempotencyConflict ''checkpoint selection policy binding is stale'')
        else and_then (workspace_checkpoint_manifest (ws_checkpoint_manifest_digest s) r) (\<lambda>found.
        (case found of
           None \<Rightarrow> Inl (InvalidTransition ''selected checkpoint is not in the durable catalog'')
         | Some m \<Rightarrow>
           if cm_creation_operation m \<noteq> ws_checkpoint_operation s \<or>
              cm_source_handle m \<noteq> ws_source_handle s \<or>
              int (length (cm_exclusions m)) \<noteq> ws_exclusion_count s \<or>
              json_digest (JArr (map checkpoint_exclusion_json (cm_exclusions m))) \<noteq>
                ws_exclusions_digest s \<or>
              json_digest (JArr (map artifact_reference_json (cm_artifacts m))) \<noteq>
                ws_artifacts_digest s
           then Inl (IdempotencyConflict ''selected checkpoint manifest binding is inconsistent'')
           else Inr ()))))"

definition selection_clash :: "selection_row \<Rightarrow> selection_row \<Rightarrow> bool" where
  "selection_clash x y \<longleftrightarrow>
     (sw_operation x = sw_operation y \<and> sw_prior_attempt_no x = sw_prior_attempt_no y) \<or>
     sw_selection_digest x = sw_selection_digest y"

definition select_workspace_checkpoint ::
    "ws_selection \<Rightarrow> int \<Rightarrow> int \<Rightarrow> reg \<Rightarrow> (ws_selection \<times> reg) res" where
  "select_workspace_checkpoint selection runtime_generation now r =
     and_then (validate_ws_selection selection) (\<lambda>s.
     let i = ws_operation s; n = at_attempt_no (ws_prior_attempt s) in
     if runtime_generation \<noteq> rg_generation r then
       Inl (StaleRuntimeGeneration (''runtime generation '' @ itoa runtime_generation @
         '' is not current''))
     else and_then (get_op i r) (\<lambda>row.
     if or_state row \<noteq> INDETERMINATE then
       Inl (InvalidTransition ''checkpoint selection requires an indeterminate operation'')
     else if or_input_digest row \<noteq> ws_input_digest s then
       Inl (IdempotencyConflict ''checkpoint selection input digest is stale'')
     else and_then (selection_fence s r) (\<lambda>_. and_then (selection_sources s r) (\<lambda>_.
     if cancellation_requested i r then
       Inl (InvalidTransition ''cancellation prevents checkpoint selection'')
     else if now \<ge> ws_deadline s then
       Inl (InvalidTransition ''deadline prevents checkpoint selection'')
     else if fetchone (\<lambda>w. xw_operation w = i \<and> xw_prior_attempt_no w = Some n) (rg_decisions r) \<noteq> None then
       Inl (InvalidTransition ''predecessor attempt already has a recovery decision'')
     else (case find_selection i n r of
       Some e \<Rightarrow>
         if sw_selection_digest e \<noteq> ws_selection_digest s \<or> sw_selection e \<noteq> s then
           Inl (IdempotencyConflict ''predecessor attempt already selected a different checkpoint'')
         else Inr (s, r)
     | None \<Rightarrow>
         and_then (insert_row selection_clash
           \<lparr>sw_operation = i, sw_prior_attempt_no = n,
            sw_selection_digest = ws_selection_digest s, sw_selection = s, sw_state = Selected,
            sw_restored_handle = None, sw_selected_at = ws_selected_at s, sw_restored_at = None\<rparr>
           (rg_ws_selections r)) (\<lambda>t.
         Inr (s, insert_event i INDETERMINATE INDETERMINATE_OUTCOME (or_record_revision row) now
           ''checkpoint_selected'' (Some n) (Some ''checkpoint_selected'')
           (Some (JObj
             [(''checkpoint_manifest_digest'', JStr (ws_checkpoint_manifest_digest s)),
              (''selection_digest'', JStr (ws_selection_digest s))]))
           (r\<lparr>rg_ws_selections := t\<rparr>))))))))"

definition workspace_checkpoint_selection ::
    "operation_ref \<Rightarrow> int \<Rightarrow> reg \<Rightarrow> ws_selection option res" where
  "workspace_checkpoint_selection i n r =
     (case find_selection i n r of None \<Rightarrow> Inr None
      | Some e \<Rightarrow> and_then (validate_ws_selection (sw_selection e)) (\<lambda>s. Inr (Some s)))"

section \<open>Marking the restore\<close>

definition restored_handle_ok :: "workspace_handle \<Rightarrow> workspace_handle \<Rightarrow> bool" where
  "restored_handle_ok source restored \<longleftrightarrow>
     wh_workspace restored = wh_workspace source \<and> wh_backend restored = wh_backend source \<and>
     wh_generation restored = wh_generation source + 1 \<and> wh_revision restored = 0"

definition mark_workspace_checkpoint_restored ::
    "ws_selection \<Rightarrow> workspace_handle \<Rightarrow> int \<Rightarrow> int \<Rightarrow> reg \<Rightarrow> (workspace_handle \<times> reg) res" where
  "mark_workspace_checkpoint_restored selection restored runtime_generation now r =
     and_then (validate_ws_selection selection) (\<lambda>s.
     let i = ws_operation s; n = at_attempt_no (ws_prior_attempt s) in
     if \<not> restored_handle_ok (ws_source_handle s) restored then
       Inl (IdempotencyConflict ''restored handle does not match checkpoint selection'')
     else if runtime_generation \<noteq> rg_generation r then
       Inl (StaleRuntimeGeneration (''runtime generation '' @ itoa runtime_generation @
         '' is not current''))
     else and_then (get_op i r) (\<lambda>op.
     if or_state op \<noteq> INDETERMINATE then
       Inl (InvalidTransition ''restore binding requires an indeterminate operation'')
     else (case find_selection i n r of
       None \<Rightarrow> Inl (InvalidTransition ''checkpoint restore requires a persisted selection'')
     | Some row \<Rightarrow>
       if sw_selection_digest row \<noteq> ws_selection_digest s \<or> sw_selection row \<noteq> s then
         Inl (IdempotencyConflict ''checkpoint restore selection is inconsistent'')
       else if sw_state row = Restored then
         (if sw_restored_handle row \<noteq> Some restored then
            Inl (IdempotencyConflict ''checkpoint selection restored a different handle'')
          else Inr (restored, r))
       else
         let p = (\<lambda>e. sw_operation e = i \<and> sw_prior_attempt_no e = n \<and> sw_state e = Selected) in
         if rowcount p (rg_ws_selections r) \<noteq> 1 then
           Inl (StaleAttemptFence ''checkpoint selection changed during restore binding'')
         else Inr (restored, insert_event i INDETERMINATE INDETERMINATE_OUTCOME
           (or_record_revision op) now ''checkpoint_restored'' (Some n)
           (Some ''checkpoint_restored'')
           (Some (JObj [(''restored_generation'', JInt (wh_generation restored)),
                        (''selection_digest'', JStr (ws_selection_digest s))]))
           (r\<lparr>rg_ws_selections := update_rows p
             (\<lambda>e. e\<lparr>sw_state := Restored, sw_restored_handle := Some restored,
                    sw_restored_at := Some now\<rparr>) (rg_ws_selections r)\<rparr>)))))"

definition workspace_checkpoint_boundaries :: "operation_ref \<Rightarrow> reg \<Rightarrow> ws_boundary list res" where
  "workspace_checkpoint_boundaries i r = traverse (\<lambda>b. validate_ws_boundary (bw_boundary b))
     (sort_key bw_prior_attempt_no (filter (\<lambda>b. bw_operation b = i) (rg_ws_boundaries r)))"

section \<open>Inversion\<close>

lemma validate_manifest_Inr: "validate_manifest m = Inr m' \<Longrightarrow> m' = m"
  by (simp add: validate_manifest_def res_simps)

lemma succeed_workspace_checkpoint_Inr:
  "succeed_workspace_checkpoint i m g now r = Inr (rec, r') \<Longrightarrow>
   (\<exists>x. find_op i r = Some x \<and> or_state x = RUNNING \<and> or_runtime_generation x = g \<and>
      g = rg_generation r \<and> cm_creation_operation m = i \<and> validate_manifest m = Inr m \<and>
      get_record i r' = Inr rec \<and>
      r' = insert_event i SUCCEEDED CERTAIN (or_record_revision x + 1) now ''succeeded'' None None
        None (publish_writes i m now x r))"
  by (auto simp: succeed_workspace_checkpoint_def res_simps Let_def dest: validate_manifest_Inr
    split: if_splits)

end
