(* ===== verification/Registry_Reads.thy ===== *)
theory Registry_Reads
  imports Registry_Workspace
begin

text \<open>
  The cursor reads of \<open>OperationRegistry\<close>: \<open>event_page\<close>, a page bounded by a row limit
  and a byte limit, and \<open>continuity_snapshot\<close>. Neither writes.
\<close>

section \<open>Event envelopes\<close>

text \<open>
  \<open>_event_envelope\<close>: the payload is the parsed \<open>payload_json\<close>; a payload that is not an
  object is wrapped. Rows written by \<open>_insert_event\<close> always have the version-2 columns.
\<close>

definition event_payload :: "event_row \<Rightarrow> json" where
  "event_payload e = (case ev_payload e of
     JObj fs \<Rightarrow> JObj fs | j \<Rightarrow> JObj [(''value'', j)])"

definition event_envelope :: "operation_ref \<Rightarrow> reg \<Rightarrow> event_row \<Rightarrow> event_envelope res" where
  "event_envelope i r e =
     and_then (attempt_ref_for_no i (ev_attempt_no e) r) (\<lambda>attempt.
     validate_event_envelope
       \<lparr>oe_sequence = ev_sequence e, oe_operation = i, oe_attempt = attempt,
        oe_event_kind = ev_event_kind e, oe_state = ev_state e, oe_certainty = ev_certainty e,
        oe_record_revision = ev_record_revision e, oe_at = ev_at e,
        oe_payload = event_payload e, oe_payload_digest = ev_payload_digest e\<rparr>)"

definition event_bytes :: "event_envelope \<Rightarrow> nat" where
  "event_bytes e = length (utf8 (canonical_json_text (event_envelope_json e)))"

section \<open>Snapshots\<close>

definition dispatch_is_running :: "dispatch_row option \<Rightarrow> bool" where
  "dispatch_is_running d = (case d of None \<Rightarrow> False | Some w \<Rightarrow> dw_state w = D_running)"

definition continuity_snapshot :: "operation_ref \<Rightarrow> reg \<Rightarrow> continuity_snapshot res" where
  "continuity_snapshot i r =
     and_then (get_op i r) (\<lambda>row.
     let attempt_row = max_row aw_attempt_no (filter (\<lambda>a. aw_operation a = i) (rg_attempts r));
         dispatch = find_dispatch i r in
     and_then (record_model row) (\<lambda>rec.
     and_then (control_model i (find_control i r)) (\<lambda>control.
     and_then (attempt_ref_for_no i (map_option aw_attempt_no attempt_row) r) (\<lambda>last_attempt.
     validate_snapshot
       \<lparr>sn_operation = i, sn_operation_state = or_state rec, sn_certainty = or_certainty rec,
        sn_record_revision = or_record_revision rec,
        sn_current_attempt = (if dispatch_is_running dispatch then last_attempt else None),
        sn_last_attempt = last_attempt, sn_control = control,
        sn_dispatcher_state = map_option dw_state dispatch,
        sn_last_event_sequence = max_col (\<lambda>e. ev_operation e = i) ev_sequence (rg_events r),
        sn_reconciliation_required = or_reconciliation_required rec,
        sn_recovery_reason = (case attempt_row of None \<Rightarrow> None | Some a \<Rightarrow> aw_recovery_reason a)\<rparr>))))"

section \<open>Event pages\<close>

definition default_event_page_limit :: int where
  "default_event_page_limit = 100"

definition max_event_page_limit :: int where
  "max_event_page_limit = 500"

definition default_event_page_bytes :: int where
  "default_event_page_bytes = 65536"

definition max_event_page_bytes :: int where
  "max_event_page_bytes = 1048576"

text \<open>
  The rows fetched: after the cursor, in sequence order, one more than the limit. The loop
  takes events while their bytes fit; the first one must fit.
\<close>

definition page_rows :: "operation_ref \<Rightarrow> int \<Rightarrow> int \<Rightarrow> reg \<Rightarrow> event_row list" where
  "page_rows i after limit r = take (nat (limit + 1))
     (sort_key ev_sequence
       (filter (\<lambda>e. ev_operation e = i \<and> ev_sequence e > after) (rg_events r)))"

fun page_loop ::
    "(event_row \<Rightarrow> event_envelope res) \<Rightarrow> int \<Rightarrow> int \<Rightarrow> event_envelope list \<Rightarrow> event_row list \<Rightarrow>
     event_envelope list res" where
  "page_loop envelope max_bytes used acc [] = Inr acc"
| "page_loop envelope max_bytes used acc (row # rows) =
     and_then (envelope row) (\<lambda>e.
       if used + int (event_bytes e) > max_bytes then
         (if acc = [] then Inl (RegistryError ''single operation event exceeds max_bytes'')
          else Inr acc)
       else page_loop envelope max_bytes (used + int (event_bytes e)) (acc @ [e]) rows)"

definition event_page ::
    "operation_ref \<Rightarrow> int \<Rightarrow> int \<Rightarrow> int \<Rightarrow> int \<Rightarrow> reg \<Rightarrow> event_page res" where
  "event_page i after limit max_limit max_bytes r =
     (if after < 0 then Inl (ValueError ''after_sequence must not be negative'')
      else if limit < 1 \<or> limit > min max_limit max_event_page_limit then
        Inl (ValueError (''limit must be between 1 and '' @ itoa (min max_limit max_event_page_limit)))
      else if max_bytes < 1024 \<or> max_bytes > max_event_page_bytes then
        Inl (ValueError (''max_bytes must be between 1024 and '' @ itoa max_event_page_bytes))
      else and_then (get_op i r) (\<lambda>_.
        let rows = page_rows i after limit r in
        and_then (page_loop (event_envelope i r) max_bytes 0 [] (take (nat limit) rows)) (\<lambda>events.
        let has_more = length rows > length events;
            next_sequence = (if events = [] then after else oe_sequence (last events)) in
        and_then (record_from_operation_id i r) (\<lambda>record.
        and_then (if \<not> terminal (or_state record) \<or> has_more then Inr None
            else and_then (continuity_snapshot i r) (\<lambda>s. Inr (Some s))) (\<lambda>snapshot.
        validate_event_page
          \<lparr>pg_operation = i, pg_after_sequence = after, pg_events = events,
           pg_next_sequence = next_sequence, pg_has_more = has_more,
           pg_terminal_snapshot = snapshot\<rparr>)))))"

end
