(* ===== verification/Registry_Refinement.thy ===== *)
theory Registry_Refinement
  imports Journal Registry_Reads
begin

text \<open>
  Every state-changing method of the registry refines the abstract journal: the operations
  and events it leaves are reached from those it found by journal moves. The methods are
  taken one by one; the loops over a fetched snapshot need that each fetched row is still
  the stored one when its turn comes.
\<close>

definition journal_of :: "reg \<Rightarrow> journal" where
  "journal_of r = (rg_operations r, rg_events r, rg_event_seq r)"

abbreviation reg_journal_ok :: "reg \<Rightarrow> bool" where
  "reg_journal_ok r \<equiv> journal_ok (journal_of r)"

abbreviation refines :: "reg \<Rightarrow> reg \<Rightarrow> bool" where
  "refines r r' \<equiv> journal_steps (journal_of r) (journal_of r')"

named_theorems set_defs \<open>the statements, unfolded to record updates\<close>

declare set_op_def [set_defs] set_dispatch_def [set_defs] set_attempt_def [set_defs]
  set_lease_def [set_defs] insert_event_def [set_defs] Let_def [set_defs]

section \<open>Rows\<close>

lemma journal_distinct:
  "reg_journal_ok r \<Longrightarrow> distinct (map or_operation (rg_operations r))"
  by (simp add: journal_ok_def journal_of_def)

lemma find_op_iff:
  assumes "reg_journal_ok r"
  shows "find_op i r = Some x \<longleftrightarrow> x \<in> set (rg_operations r) \<and> or_operation x = i"
proof
  assume "x \<in> set (rg_operations r) \<and> or_operation x = i"
  then show "find_op i r = Some x"
    unfolding find_op_def using journal_distinct [OF assms]
    by (intro fetchone_key [where k = or_operation]) auto
qed (auto dest: find_op_SomeD)

lemma find_op_coherent: "reg_journal_ok r \<Longrightarrow> find_op i r = Some x \<Longrightarrow> coherent x"
  by (auto dest!: find_op_SomeD simp: journal_ok_def journal_of_def)

lemma coherent_certainty: "coherent x \<Longrightarrow> or_certainty x = outcome_certainty_of (or_state x)"
  by (cases "or_certainty x") (auto simp: coherent_def outcome_certainty_of_def)

lemma set_op_replace:
  assumes "distinct (map or_operation ops)" "x \<in> set ops" "or_operation x = i" "p x"
    and "or_operation (f x) = i"
  shows "update_rows (\<lambda>z. or_operation z = i \<and> p z) f ops = replace_op (f x) ops"
proof -
  have "z = x" if "z \<in> set ops" "or_operation z = i" for z
    using assms(1-3) that by (auto simp: distinct_map inj_on_def)
  then show ?thesis using assms(3-5) by (auto simp: replace_op_def update_rows_def)
qed

lemma find_op_update_other:
  assumes "\<And>z. or_operation (f z) = or_operation z" "j \<noteq> i"
    and "rg_operations q = update_rows (\<lambda>z. or_operation z = i \<and> p z) f (rg_operations r)"
  shows "find_op j q = find_op j r"
proof -
  have "fetchone (\<lambda>x. or_operation x = j) (update_rows (\<lambda>z. or_operation z = i \<and> p z) f t) =
      fetchone (\<lambda>x. or_operation x = j) t" for t
    using assms(1,2) by (induction t) (auto simp: row_simps)
  then show ?thesis by (simp add: find_op_def assms(3))
qed

section \<open>The three moves\<close>

lemma refine_move:
  assumes ok: "reg_journal_ok r" and x: "find_op i r = Some x" and p: "p x"
    and intent: "same_intent x (f x)" and nx: "or_state (f x) \<in> lifecycle_next (or_state x)"
    and rv: "or_record_revision (f x) = or_record_revision x + 1" and co: "coherent (f x)"
    and says: "st = or_state (f x)" "ce = or_certainty (f x)" "v = or_record_revision (f x)"
    and q: "rg_operations q = update_rows (\<lambda>z. or_operation z = i \<and> p z) f (rg_operations r)"
      "rg_events q = rg_events r" "rg_event_seq q = rg_event_seq r"
  shows "refines r (insert_event i st ce v now note an k pl q)"
proof -
  let ?e = "last (rg_events (insert_event i st ce v now note an k pl q))"
  have mem: "x \<in> set (rg_operations r)" "or_operation x = i" using find_op_SomeD [OF x] by auto
  have op: "or_operation (f x) = i" using intent mem by (simp add: same_intent_def)
  have rep: "rg_operations q = replace_op (f x) (rg_operations r)"
    unfolding q(1) using set_op_replace [where p = p and f = f, OF journal_distinct [OF ok] mem p op] .
  have "event_says ?e (f x)" "ev_sequence ?e = rg_event_seq r + 1"
    by (simp_all add: insert_event_def Let_def event_says_def says op q)
  from journal_step.moved [OF mem(1) intent nx rv co this, of "rg_events r"]
  have "journal_step (journal_of r) (journal_of (insert_event i st ce v now note an k pl q))"
    by (simp add: journal_of_def insert_event_def Let_def rep q)
  then show ?thesis by (rule r_into_rtranclp)
qed

lemma refine_note:
  assumes x: "find_op i r = Some x"
    and says: "st = or_state x" "ce = or_certainty x" "v = or_record_revision x"
    and q: "rg_operations q = rg_operations r" "rg_events q = rg_events r"
      "rg_event_seq q = rg_event_seq r"
  shows "refines r (insert_event i st ce v now note an k pl q)"
proof -
  let ?e = "last (rg_events (insert_event i st ce v now note an k pl q))"
  have mem: "x \<in> set (rg_operations r)" "or_operation x = i" using find_op_SomeD [OF x] by auto
  have "event_says ?e x" "ev_sequence ?e = rg_event_seq r + 1"
    using mem by (simp_all add: insert_event_def Let_def event_says_def says q)
  from journal_step.noted [OF mem(1) this, of "rg_events r"]
  have "journal_step (journal_of r) (journal_of (insert_event i st ce v now note an k pl q))"
    by (simp add: journal_of_def insert_event_def Let_def q)
  then show ?thesis by (rule r_into_rtranclp)
qed

lemma refine_same:
  "rg_operations q = rg_operations r \<Longrightarrow> rg_events q = rg_events r \<Longrightarrow>
   rg_event_seq q = rg_event_seq r \<Longrightarrow> refines r q"
  by (simp add: journal_of_def)

section \<open>Lifecycle methods\<close>

lemma accept_refines:
  assumes "accept e pl None now r = Inr (res, r')"
  shows "refines r r'"
proof (cases "find_scoped e r")
  case (Some x)
  with assms show ?thesis
    by (auto simp: accept_def res_simps run_admission_def Let_def split: if_splits)
next
  case None
  let ?x = "fresh_op_row e pl now"
  from assms None obtain ops where ops: "ops = rg_operations r @ [?x]"
    and fresh: "\<forall>y \<in> set (rg_operations r). \<not> same_key ?x y"
    and r': "r' = insert_event (operation_id_of e) ACCEPTED CERTAIN 0 now ''intent_persisted''
      None None None (r\<lparr>rg_operations := ops\<rparr>)"
    by (auto simp: accept_def res_simps run_admission_def Let_def)
  let ?e = "last (rg_events r')"
  have "journal_step (rg_operations r, rg_events r, rg_event_seq r)
      (rg_operations r @ [?x], rg_events r @ [?e], rg_event_seq r + 1)"
    by (rule journal_step.accepted)
      (use fresh in \<open>auto simp: fresh_op_row_def coherent_def event_says_def same_key_def r'
        insert_event_def Let_def\<close>)
  then show ?thesis by (auto simp: journal_of_def r' ops insert_event_def Let_def)
qed

lemma transition_refines:
  assumes ok: "reg_journal_ok r" and tr: "transition i t g now r = Inr (rec, r')"
    and edge: "\<And>s. s \<in> set (ta_expected t) \<Longrightarrow> ta_state t \<in> lifecycle_next s"
    and co: "ta_certainty t = outcome_certainty_of (ta_state t)"
      "ta_reconciliation t \<longleftrightarrow> ta_state t = INDETERMINATE"
  shows "refines r r'"
proof -
  from tr obtain x where x: "find_op i r = Some x" and st: "or_state x \<in> set (ta_expected t)"
    and r': "r' = insert_event i (ta_state t) (ta_certainty t) (or_record_revision x + 1) now
      (ta_note t) None None None (set_op i (\<lambda>_. True) (transition_row t g now) r)"
    by (auto simp: transition_def res_simps Let_def split: if_splits)
  show ?thesis unfolding r'
    by (rule refine_move [OF ok x, where p = "\<lambda>_. True" and f = "transition_row t g now"])
      (use edge [OF st] co in \<open>auto simp: transition_row_def same_intent_def coherent_def set_op_def
        outcome_certainty_of_def\<close>)
qed

lemmas transition_args_defs = begin_args_def succeed_args_def fail_args_def cancel_args_def
  time_out_args_def mark_indeterminate_args_def

lemma begin_refines: "reg_journal_ok r \<Longrightarrow> begin_op i g now r = Inr (rec, r') \<Longrightarrow> refines r r'"
  unfolding begin_op_def
  by (erule transition_refines) (auto simp: transition_args_defs outcome_certainty_of_def)

lemma succeed_refines:
  "reg_journal_ok r \<Longrightarrow> succeed i j b g now r = Inr (rec, r') \<Longrightarrow> refines r r'"
  unfolding succeed_def
  by (erule transition_refines) (auto simp: transition_args_defs outcome_certainty_of_def split: if_splits)

lemma fail_refines:
  "reg_journal_ok r \<Longrightarrow> fail_op i f b j g now r = Inr (rec, r') \<Longrightarrow> refines r r'"
  unfolding fail_op_def
  by (erule transition_refines) (auto simp: transition_args_defs outcome_certainty_of_def split: if_splits)

lemma cancel_refines: "reg_journal_ok r \<Longrightarrow> cancel i j g now r = Inr (rec, r') \<Longrightarrow> refines r r'"
  unfolding cancel_def
  by (erule transition_refines) (auto simp: transition_args_defs outcome_certainty_of_def)

lemma time_out_refines: "reg_journal_ok r \<Longrightarrow> time_out i j g now r = Inr (rec, r') \<Longrightarrow> refines r r'"
  unfolding time_out_def
  by (erule transition_refines) (auto simp: transition_args_defs outcome_certainty_of_def)

lemma mark_indeterminate_refines:
  "reg_journal_ok r \<Longrightarrow> mark_indeterminate i n g now r = Inr (rec, r') \<Longrightarrow> refines r r'"
  unfolding mark_indeterminate_def
  by (erule transition_refines) (auto simp: transition_args_defs outcome_certainty_of_def)

lemma bind_recovery_policy_refines:
  assumes ok: "reg_journal_ok r" and b: "bind_recovery_policy i k p ed now r = Inr (bd, r')"
  shows "refines r r'"
proof (cases "find_policy i r")
  case (Some w)
  with b show ?thesis by (auto simp: bind_recovery_policy_def res_simps Let_def split: if_splits)
next
  case None
  with b obtain x where x: "find_op i r = Some x" "or_state x = ACCEPTED"
    by (auto simp: bind_recovery_policy_def res_simps Let_def split: if_splits)
  moreover have "or_certainty x = CERTAIN"
    using coherent_certainty [OF find_op_coherent [OF ok x(1)]] x(2)
    by (simp add: outcome_certainty_of_def)
  ultimately show ?thesis using b None
    by (auto simp: bind_recovery_policy_def res_simps Let_def split: if_splits intro!: refine_note)
qed

lemma request_dispatch_refines:
  "request_dispatch i k now r = Inr (d, r') \<Longrightarrow> refines r r'"
  by (auto simp: request_dispatch_def res_simps Let_def set_dispatch_def split: if_splits option.splits
    intro!: refine_note)

section \<open>Starting a runtime\<close>

lemma find_op_set_op_other:
  "(\<And>z. or_operation (f z) = or_operation z) \<Longrightarrow> j \<noteq> i \<Longrightarrow> find_op j (set_op i p f r) = find_op j r"
  by (rule find_op_update_other [where f = f and p = p]) (simp_all add: set_op_def)

lemma find_op_cong: "rg_operations q = rg_operations r \<Longrightarrow> find_op i q = find_op i r"
  by (simp add: find_op_def)

lemma rebind_operations:
  "rg_operations (rebind_accepted g now r x) = rg_operations
     (set_op (or_operation x) (\<lambda>_. True) (\<lambda>z. z\<lparr>or_runtime_generation := g,
        or_record_revision := or_record_revision x + 1, or_updated_at := now\<rparr>) r)"
  by (simp add: rebind_accepted_def set_defs)

lemma rebind_find_other:
  "j \<noteq> or_operation x \<Longrightarrow> find_op j (rebind_accepted g now r x) = find_op j r"
  unfolding find_op_cong [OF rebind_operations] by (rule find_op_set_op_other) simp_all

lemma fence_running_operations:
  "rg_operations (fence_running g now r x) = rg_operations
     (set_op (or_operation x) (\<lambda>_. True) (\<lambda>z. z\<lparr>or_state := INDETERMINATE,
        or_certainty := INDETERMINATE_OUTCOME, or_record_revision := or_record_revision x + 1,
        or_reconciliation_required := True, or_updated_at := now\<rparr>) r)"
  by (auto simp: fence_running_def set_defs split: option.splits)

lemma fence_running_find_other:
  "j \<noteq> or_operation x \<Longrightarrow> find_op j (fence_running g now r x) = find_op j r"
  unfolding find_op_cong [OF fence_running_operations] by (rule find_op_set_op_other) simp_all

lemma rebind_refines:
  assumes "reg_journal_ok r" "find_op (or_operation x) r = Some x" "or_state x = ACCEPTED"
  shows "refines r (rebind_accepted g now r x)"
  unfolding rebind_accepted_def Let_def
  by (rule refine_move [OF assms(1,2), where p = "\<lambda>_. True" and
        f = "\<lambda>z. z\<lparr>or_runtime_generation := g, or_record_revision := or_record_revision x + 1,
               or_updated_at := now\<rparr>"])
    (use assms find_op_coherent [OF assms(1,2)] coherent_certainty [of x] in
      \<open>auto simp: same_intent_def coherent_def set_op_def outcome_certainty_of_def\<close>)

lemma fence_running_refines:
  assumes "reg_journal_ok r" "find_op (or_operation x) r = Some x" "or_state x = RUNNING"
  shows "refines r (fence_running g now r x)"
  unfolding fence_running_def Let_def
  by (rule refine_move [OF assms(1,2), where p = "\<lambda>_. True" and
        f = "\<lambda>z. z\<lparr>or_state := INDETERMINATE, or_certainty := INDETERMINATE_OUTCOME,
               or_record_revision := or_record_revision x + 1, or_reconciliation_required := True,
               or_updated_at := now\<rparr>"])
    (use assms(3) in \<open>auto simp: same_intent_def coherent_def set_op_def set_attempt_def set_lease_def
      split: option.splits\<close>)

text \<open>
  A loop over rows fetched before it: every step refines while its row is the stored one,
  and leaves the rows of the other operations alone.
\<close>

lemma fold_rows_refine:
  assumes step: "\<And>s x. P x \<Longrightarrow> reg_journal_ok s \<Longrightarrow> find_op (or_operation x) s = Some x \<Longrightarrow>
      refines s (f s x)"
    and other: "\<And>s x j. j \<noteq> or_operation x \<Longrightarrow> find_op j (f s x) = find_op j s"
  shows "reg_journal_ok r \<Longrightarrow> distinct (map or_operation xs) \<Longrightarrow>
     \<forall>x \<in> set xs. P x \<and> find_op (or_operation x) r = Some x \<Longrightarrow> refines r (foldl f r xs)"
proof (induction xs arbitrary: r)
  case (Cons x xs)
  have x: "P x" "find_op (or_operation x) r = Some x" using Cons.prems(3) by simp_all
  have a: "refines r (f r x)" by (rule step [OF x(1) Cons.prems(1) x(2)])
  have rest: "\<forall>y \<in> set xs. P y \<and> find_op (or_operation y) (f r x) = Some y"
  proof
    fix y assume y: "y \<in> set xs"
    with Cons.prems(2) have "or_operation y \<noteq> or_operation x"
      by (metis distinct.simps(2) image_eqI list.set_map list.simps(9))
    with other y Cons.prems(3) show "P y \<and> find_op (or_operation y) (f r x) = Some y" by simp
  qed
  have "refines (f r x) (foldl f (f r x) xs)"
    using Cons.prems(2) by (intro Cons.IH [OF journal_ok_steps [OF a Cons.prems(1)] _ rest]) simp
  with a show ?case by simp
qed simp

lemma fold_rows_find_other:
  assumes "\<And>s x j. j \<noteq> or_operation x \<Longrightarrow> find_op j (f s x) = find_op j s"
  shows "j \<notin> or_operation ` set xs \<Longrightarrow> find_op j (foldl f r xs) = find_op j r"
  using assms by (induction xs arbitrary: r) auto

lemma distinct_map_filter: "distinct (map f xs) \<Longrightarrow> distinct (map f (filter p xs))"
  by (auto simp: distinct_map inj_on_def)

lemma start_runtime_refines:
  assumes ok: "reg_journal_ok r" and s: "start_runtime now r = (g, r')"
  shows "refines r r'"
proof -
  let ?r0 = "r\<lparr>rg_generation := rg_generation r + 1\<rparr>"
  let ?acc = "filter (\<lambda>x. or_state x = ACCEPTED) (rg_operations r)"
  let ?run = "filter (\<lambda>x. or_state x = RUNNING) (rg_operations r)"
  let ?r1 = "foldl (rebind_accepted (rg_generation r + 1) now) ?r0 ?acc"
  have r': "r' = foldl (fence_running (rg_generation r + 1) now) ?r1 ?run"
    using s by (auto simp: start_runtime_def Let_def)
  have ok0: "reg_journal_ok ?r0" using ok by (simp add: journal_of_def)
  have found: "find_op (or_operation x) ?r0 = Some x" if "x \<in> set (rg_operations r)" for x
    using that find_op_iff [OF ok0] by simp
  have d: "distinct (map or_operation (filter p (rg_operations r)))" for p
    by (intro distinct_map_filter journal_distinct [OF ok])
  have a: "refines ?r0 ?r1"
    by (rule fold_rows_refine [where P = "\<lambda>x. or_state x = ACCEPTED"])
      (auto intro: rebind_refines rebind_find_other ok0 d found)
  have keep: "find_op (or_operation x) ?r1 = Some x" if x: "x \<in> set ?run" for x
  proof -
    have "or_operation x \<notin> or_operation ` set ?acc"
    proof
      assume "or_operation x \<in> or_operation ` set ?acc"
      then obtain y where "y \<in> set (rg_operations r)" "or_operation y = or_operation x"
        "or_state y = ACCEPTED" by auto
      with found [of x] found [of y] x show False by simp
    qed
    then show ?thesis using fold_rows_find_other [where f = "rebind_accepted (rg_generation r + 1) now"]
        rebind_find_other found x by simp
  qed
  have "refines ?r1 r'"
    unfolding r'
    by (rule fold_rows_refine [where P = "\<lambda>x. or_state x = RUNNING"])
      (use keep in \<open>auto intro: fence_running_refines fence_running_find_other d
        journal_ok_steps [OF a ok0]\<close>)
  with a show ?thesis by (simp add: journal_of_def)
qed

section \<open>Claims\<close>

lemma find_op_replaced:
  assumes ok: "reg_journal_ok r" and x: "find_op i r = Some x" and p: "p x" "or_operation (f x) = i"
    and q: "rg_operations q = update_rows (\<lambda>z. or_operation z = i \<and> p z) f (rg_operations r)"
  shows "find_op i q = Some (f x)"
proof -
  have mem: "x \<in> set (rg_operations r)" "or_operation x = i" using find_op_SomeD [OF x] by auto
  have rep: "rg_operations q = replace_op (f x) (rg_operations r)"
    unfolding q using set_op_replace [where p = p and f = f, OF journal_distinct [OF ok] mem p] .
  have "fetchone (\<lambda>z. or_operation z = i) (replace_op (f x) t) = Some (f x)" if "x \<in> set t" for t
    using that p(2) mem(2) by (induction t) (auto simp: replace_op_def row_simps)
  with mem show ?thesis by (simp add: find_op_def rep)
qed

lemma claim_candidate_refines:
  assumes ok: "reg_journal_ok r" and x: "find_op (or_operation x) r = Some x"
    and st: "or_state x = ACCEPTED" and c: "claim_candidate c d x r = Inr (claim, r')"
  shows "refines r r'"
proof -
  let ?i = "or_operation x" and ?n = "next_attempt_no (or_operation x) r"
  let ?f = "claimed_op c (or_record_revision x + 1)"
  define r1 where "r1 = claim_writes c x r"
  from claim_candidate_Inr [OF c] obtain r2 pl where
    r2: "successor_started c (dw_kind d) ?i ?n (or_record_revision x + 1) r1 = Inr r2"
    and r': "r' = insert_event ?i RUNNING CERTAIN (or_record_revision x + 1) (ca_now c)
      ''attempt_claimed'' (Some ?n) (Some ''attempt_claimed'') pl r2"
    unfolding r1_def by blast
  have ops1: "rg_operations r1 =
      update_rows (\<lambda>z. or_operation z = ?i \<and> or_state z = ACCEPTED) ?f (rg_operations r)"
    "rg_events r1 = rg_events r" "rg_event_seq r1 = rg_event_seq r"
    by (simp_all add: r1_def claim_writes_def set_defs)
  have move: "refines r (insert_event ?i RUNNING CERTAIN (or_record_revision x + 1) now nt an k pl r1)"
    for now nt an k pl
    by (rule refine_move [OF ok x, where p = "\<lambda>z. or_state z = ACCEPTED" and f = ?f])
      (use st ops1 in \<open>auto simp: claimed_op_def same_intent_def coherent_def\<close>)
  have found: "find_op ?i r1 = Some (?f x)"
    by (rule find_op_replaced [OF ok x, where p = "\<lambda>z. or_state z = ACCEPTED" and f = ?f])
      (use st ops1 in \<open>auto simp: claimed_op_def\<close>)
  from successor_started_Inr [OF r2] show ?thesis
  proof
    assume "r2 = r1"
    with r' move show ?thesis by auto
  next
    assume "\<exists>pl. r2 = insert_event ?i RUNNING CERTAIN (or_record_revision x + 1)
        (ca_now c) ''successor_started'' (Some ?n) (Some ''successor_started'') pl r1"
    then obtain pl2 where r2': "r2 = insert_event ?i RUNNING CERTAIN (or_record_revision x + 1)
        (ca_now c) ''successor_started'' (Some ?n) (Some ''successor_started'') pl2 r1"
      by blast
    have "find_op ?i r2 = Some (?f x)"
      using found by (simp add: r2' insert_event_def Let_def find_op_def)
    then have "refines r2 r'" using r' by (auto simp: claimed_op_def intro!: refine_note)
    then show ?thesis unfolding r2' by (rule rtranclp_trans [OF move])
  qed
qed

lemma expire_queued_operations:
  "rg_operations (expire_queued x now r) = rg_operations (set_op (or_operation x)
     (\<lambda>z. or_state z = ACCEPTED)
     (\<lambda>z. z\<lparr>or_state := TIMED_OUT, or_certainty := CERTAIN, or_runtime_generation := rg_generation r,
        or_record_revision := or_record_revision x + 1, or_reconciliation_required := False,
        or_updated_at := now\<rparr>) r)"
  by (simp add: expire_queued_def set_defs)

lemma expire_queued_refines:
  assumes "reg_journal_ok r" "find_op (or_operation x) r = Some x" "or_state x = ACCEPTED"
  shows "refines r (expire_queued x now r)"
  unfolding expire_queued_def Let_def
  by (rule refine_move [OF assms(1,2), where p = "\<lambda>z. or_state z = ACCEPTED" and
        f = "\<lambda>z. z\<lparr>or_state := TIMED_OUT, or_certainty := CERTAIN,
          or_runtime_generation := rg_generation r, or_record_revision := or_record_revision x + 1,
          or_reconciliation_required := False, or_updated_at := now\<rparr>"])
    (use assms(3) in \<open>auto simp: same_intent_def coherent_def set_op_def set_dispatch_def\<close>)

lemma expire_queued_find_other:
  "j \<noteq> or_operation x \<Longrightarrow> find_op j (expire_queued x now r) = find_op j r"
  unfolding find_op_cong [OF expire_queued_operations] by (rule find_op_set_op_other) simp_all

lemma claim_loop_refines:
  "reg_journal_ok r \<Longrightarrow> distinct (map (or_operation \<circ> snd) cs) \<Longrightarrow>
   \<forall>(d, x) \<in> set cs. find_op (or_operation x) r = Some x \<Longrightarrow>
   claim_loop c cs r = Inr (res, r') \<Longrightarrow> refines r r'"
proof (induction c cs r rule: claim_loop.induct)
  case (2 c d x rest r)
  let ?i = "or_operation x"
  have x: "find_op ?i r = Some x" using "2.prems"(3) by simp
  have tail: "\<forall>(d, y) \<in> set rest. find_op (or_operation y) q = Some y"
    if "\<And>j. j \<noteq> ?i \<Longrightarrow> find_op j q = find_op j r" for q
  proof (intro ballI, clarify)
    fix e y assume y: "(e, y) \<in> set rest"
    with "2.prems"(2) have "or_operation y \<noteq> ?i" by force
    with that y "2.prems"(3) show "find_op (or_operation y) q = Some y" by auto
  qed
  show ?case
  proof (cases "or_state x = ACCEPTED")
    case False
    let ?q = "set_dispatch ?i (\<lambda>_. True) (\<lambda>w. w\<lparr>dw_state := D_parked\<rparr>) r"
    have q: "journal_of ?q = journal_of r" "\<And>j. find_op j ?q = find_op j r"
      by (simp_all add: journal_of_def set_dispatch_def find_op_def)
    have "refines ?q r'"
      using "2.prems" False q tail [of ?q] by (intro "2.IH"(1)) auto
    then show ?thesis by (simp add: q)
  next
    case acc: True
    show ?thesis
    proof (cases "ca_now c \<ge> en_deadline (or_request x)")
      case True
      have a: "refines r (expire_queued x (ca_now c) r)"
        by (rule expire_queued_refines [OF "2.prems"(1) x acc])
      have "refines (expire_queued x (ca_now c) r) r'"
        using "2.prems" acc True tail [OF expire_queued_find_other]
        by (intro "2.IH"(2) journal_ok_steps [OF a]) (auto split: if_splits)
      with a show ?thesis by (rule rtranclp_trans)
    next
      case False
      with "2.prems"(4) acc obtain claim where "claim_candidate c d x r = Inr (claim, r')"
        by (auto simp: res_simps)
      then show ?thesis by (rule claim_candidate_refines [OF "2.prems"(1) x acc])
    qed
  qed
qed simp

text \<open>The candidates are stored rows of distinct operations when dispatch keys are unique.\<close>

lemma queued_candidates_ok:
  assumes ok: "reg_journal_ok r" and d: "distinct (map dw_operation (rg_dispatch r))"
  shows "distinct (map (or_operation \<circ> snd) (queued_candidates r))"
    and "\<forall>(w, x) \<in> set (queued_candidates r). find_op (or_operation x) r = Some x \<and>
      w \<in> set (rg_dispatch r) \<and> dw_state w = D_queued \<and> dw_operation w = or_operation x"
proof -
  have "distinct (map (or_operation \<circ> snd) (concat (map (candidate_rows r) (rg_dispatch r))))"
    by (rule distinct_concat_keys [OF _ _ d])
      (use distinct_map_filter [OF journal_distinct [OF ok]] in
        \<open>auto simp: candidate_rows_def comp_def split: if_splits\<close>)
  then show "distinct (map (or_operation \<circ> snd) (queued_candidates r))"
    by (simp only: queued_candidates_def distinct_map_sort_key)
  show "\<forall>(w, x) \<in> set (queued_candidates r). find_op (or_operation x) r = Some x \<and>
      w \<in> set (rg_dispatch r) \<and> dw_state w = D_queued \<and> dw_operation w = or_operation x"
    using find_op_iff [OF ok]
    by (auto simp: queued_candidates_def candidate_rows_def split: if_splits)
qed

lemma claim_next_refines:
  assumes "reg_journal_ok r" "distinct (map dw_operation (rg_dispatch r))"
    and "claim_next c r = Inr (res, r')"
  shows "refines r r'"
  using assms queued_candidates_ok [OF assms(1,2)]
  by (auto simp: claim_next_def split: if_splits intro!: claim_loop_refines [OF assms(1)])

section \<open>Fenced methods and cancellation\<close>

lemma heartbeat_refines: "heartbeat f dur fn now r = Inr (m, r') \<Longrightarrow> refines r r'"
  by (auto simp: heartbeat_def res_simps Let_def set_lease_def split: if_splits option.splits
    intro!: refine_same)

lemma request_cancel_refines: "request_cancel i who rc now r = Inr (m, r') \<Longrightarrow> refines r r'"
  by (auto simp: request_cancel_def res_simps Let_def split: if_splits option.splits
    intro!: refine_note)

lemma cancel_queued_refines:
  assumes ok: "reg_journal_ok r" and c: "cancel_queued_dispatch i g j now r = Inr (res, r')"
  shows "refines r r'"
proof (cases "snd res")
  case False
  have one: "rowcount (\<lambda>x. or_operation x = i \<and> or_state x = ACCEPTED) (rg_operations r) = 1"
    if "find_op i r = Some x" "or_state x = ACCEPTED" for x
  proof -
    have "rowcount (\<lambda>x. or_operation x = i \<and> or_state x = ACCEPTED) (rg_operations r) \<le> 1"
      by (rule rowcount_key_le_1 [OF journal_distinct [OF ok]]) simp
    moreover have "rowcount (\<lambda>x. or_operation x = i \<and> or_state x = ACCEPTED) (rg_operations r) \<noteq> 0"
      using find_op_SomeD [OF that(1)] that(2) by (auto simp: rowcount_eq_0_iff)
    ultimately show ?thesis by simp
  qed
  from c False one show ?thesis
    by (auto simp: cancel_queued_dispatch_def res_simps Let_def split: if_splits)
next
  case True
  from c True obtain x where x: "find_op i r = Some x" "or_state x = ACCEPTED"
    by (auto simp: cancel_queued_dispatch_def res_simps Let_def split: if_splits)
  let ?f = "\<lambda>z. z\<lparr>or_state := CANCELLED, or_certainty := CERTAIN,
    or_record_revision := or_record_revision x + 1, or_reconciliation_required := False,
    or_result_json := j, or_updated_at := now\<rparr>"
  from c True x have r': "\<exists>pl. r' = insert_event i CANCELLED CERTAIN (or_record_revision x + 1) now
      ''cancelled_before_claim'' None (Some ''cancelled_before_claim'') pl
      (set_dispatch i (\<lambda>d. dw_state d \<in> {D_queued, D_parked})
        (\<lambda>d. d\<lparr>dw_state := D_completed, dw_finished_at := Some now\<rparr>)
        (set_op i (\<lambda>z. or_state z = ACCEPTED) ?f r))"
    by (auto simp: cancel_queued_dispatch_def res_simps Let_def split: if_splits)
  then show ?thesis
    using x by (auto intro!: refine_move [OF ok x(1), where p = "\<lambda>z. or_state z = ACCEPTED" and f = ?f]
      simp: same_intent_def coherent_def set_op_def set_dispatch_def)
qed

lemma transition_claimed_refines:
  assumes ok: "reg_journal_ok r" and t: "transition_claimed f st j fl note fn now r = Inr (rec, r')"
  shows "refines r r'"
proof -
  from transition_claimed_Inr [OF t] obtain x v pl where x: "find_op (fn_operation f) r = Some x"
    "or_state x = RUNNING" "terminal st \<or> st = INDETERMINATE" and v: "validate_fence f fn r = Inr v"
    and r': "r' = insert_event (fn_operation f) st (outcome_certainty_of st)
       (or_record_revision x + 1) now note (Some (fn_attempt_no f)) (Some note) pl
       (outcome_writes f st j fl note now x r)" by blast
  have g: "or_runtime_generation x = fn_runtime_generation f"
    using v x(1) by (cases v) (auto simp: validate_fence_Inr)
  show ?thesis
    unfolding r'
    by (rule refine_move [OF ok x(1), where
        p = "\<lambda>z. or_state z = RUNNING \<and> or_runtime_generation z = fn_runtime_generation f" and
        f = "outcome_op st j fl (or_record_revision x + 1) now"])
      (use x g in \<open>auto simp: outcome_op_def same_intent_def coherent_def terminal_def
        outcome_certainty_of_def outcome_writes_def set_op_def set_dispatch_def set_attempt_def
        set_lease_def Let_def\<close>)
qed

lemma bind_checkpoint_refines:
  "bind_checkpoint ref f ck ed fn now r = Inr (b, r') \<Longrightarrow> refines r r'"
  by (auto simp: bind_checkpoint_def res_simps Let_def set_attempt_def split: if_splits option.splits
    intro!: refine_note)

lemma finish_attempt_refines: "finish_attempt f fn now r = Inr (rec, r') \<Longrightarrow> refines r r'"
  by (drule finish_attempt_Inr) (auto simp: finish_writes_def Let_def set_attempt_def set_lease_def
    set_dispatch_def intro!: refine_same)

section \<open>Recovery\<close>

lemma requeue_dispatch_frame:
  "requeue_dispatch i p n now r = Inr r' \<Longrightarrow> rg_operations r' = rg_operations r \<and>
     rg_events r' = rg_events r \<and> rg_event_seq r' = rg_event_seq r"
  by (auto simp: requeue_dispatch_def set_dispatch_def split: option.splits if_splits)

lemma requeue_commit_refines:
  assumes ok: "reg_journal_ok r" and x: "find_op (qa_operation q) r = Some x"
    and st: "or_state x = INDETERMINATE" and c: "requeue_commit q x cd bd r = Inr r'"
  shows "refines r r'"
  using requeue_commit_Inr [OF c]
proof (elim disjE conjE exE)
  let ?f = "requeued_op q (or_record_revision x + 1)"
  fix r2
  assume d: "requeue_dispatch (qa_operation q) (qa_policy q) (qa_prior_no q) (qa_now q)
      (set_op (qa_operation q) (\<lambda>_. True) ?f (with_decision q cd bd r)) = Inr r2"
    and r': "r' = log_decision q (next_decision_no (qa_operation q) r) bd ACCEPTED CERTAIN
      (or_record_revision x + 1) r2"
  have q2: "rg_operations r2 = update_rows (\<lambda>z. or_operation z = qa_operation q \<and> True) ?f (rg_operations r)"
    "rg_events r2 = rg_events r" "rg_event_seq r2 = rg_event_seq r"
    using requeue_dispatch_frame [OF d] by (simp_all add: set_op_def with_decision_def)
  show ?thesis unfolding r' log_decision_def
    by (rule refine_move [OF ok x, where p = "\<lambda>_. True" and f = ?f])
      (use st q2 in \<open>auto simp: requeued_op_def same_intent_def coherent_def\<close>)
next
  assume r': "r' = log_decision q (next_decision_no (qa_operation q) r) bd INDETERMINATE
      INDETERMINATE_OUTCOME (or_record_revision x) (set_dispatch (qa_operation q) (\<lambda>_. True)
        (\<lambda>d. d\<lparr>dw_state := D_parked, dw_finished_at := Some (qa_now q)\<rparr>) (with_decision q cd bd r))"
  have "or_certainty x = INDETERMINATE_OUTCOME"
    using find_op_coherent [OF ok x] st by (simp add: coherent_def)
  with st show ?thesis unfolding r' log_decision_def
    by (intro refine_note [OF x]) (simp_all add: set_dispatch_def with_decision_def)
qed

lemma requeue_refines:
  assumes ok: "reg_journal_ok r"
    and q: "requeue_indeterminate i g dt rc ind policy bd now r = Inr (rec, r')"
  shows "refines r r'"
proof -
  from requeue_Inr [OF q] obtain row decision q cd bdg r2 where
    row: "find_op i r = Some row" "or_state row = INDETERMINATE" and
    qa: "q = \<lparr>qa_operation = i, qa_runtime_generation = g, qa_decision = decision,
      qa_reason_code = rc, qa_input_digest = or_input_digest row, qa_policy = policy,
      qa_prior_no = prior_attempt_no i r, qa_now = now\<rparr>"
    and cont: "requeue_continuation q bd (prior_attempt i r) row (close_prior i rc now r) =
      Inr ((cd, bdg), r2)"
    and c: "requeue_commit q row cd bdg r2 = Inr r'" by blast
  have j: "journal_of r2 = journal_of r" "find_op i r2 = find_op i r"
    using requeue_continuation_frame [OF cont] close_prior_frame [of i rc now r]
    by (auto simp: journal_of_def find_op_def)
  have "refines r2 r'"
    by (rule requeue_commit_refines [OF _ _ row(2) c]) (use ok row j qa in simp_all)
  then show ?thesis by (simp add: j)
qed

lemma recover_terminal_refines:
  assumes ok: "reg_journal_ok r"
    and q: "recover_terminal_from_receipt i g st j rc ind now r = Inr (rec, r')"
  shows "refines r r'"
proof -
  from recover_terminal_Inr [OF q] obtain x d pl where x: "find_op i r = Some x"
    "or_state x = INDETERMINATE" "st \<in> {SUCCEEDED, CANCELLED, TIMED_OUT}" and
    d: "find_dispatch i r = Some d" and
    r': "r' = insert_event i st CERTAIN (or_record_revision x + 1) now ''terminal_from_receipt''
        (dw_current_attempt_no d) (Some ''terminal_from_receipt'') pl
        (receipt_writes i st j rc ind now x (dw_current_attempt_no d) r)"
    by blast
  show ?thesis unfolding r'
    by (rule refine_move [OF ok x(1), where p = "\<lambda>z. or_state z = INDETERMINATE" and
        f = "receipt_op st (rg_generation r) j (or_record_revision x + 1) now"])
      (use x in \<open>auto simp: receipt_writes_def Let_def receipt_op_def same_intent_def coherent_def
        set_op_def set_dispatch_def set_attempt_def split: option.splits\<close>)
qed

section \<open>Workspace checkpoints\<close>

lemma succeed_workspace_checkpoint_refines:
  assumes ok: "reg_journal_ok r" and s: "succeed_workspace_checkpoint i m g now r = Inr (rec, r')"
  shows "refines r r'"
proof -
  from succeed_workspace_checkpoint_Inr [OF s] obtain x where
    x: "find_op i r = Some x" "or_state x = RUNNING" and
    r': "r' = insert_event i SUCCEEDED CERTAIN (or_record_revision x + 1) now ''succeeded'' None None
        None (publish_writes i m now x r)"
    by blast
  show ?thesis unfolding r'
    by (rule refine_move [OF ok x(1), where p = "\<lambda>z. or_state z = RUNNING" and
          f = "published_op m (or_record_revision x + 1) now"])
      (use x in \<open>auto simp: published_op_def same_intent_def coherent_def publish_writes_def set_op_def
        Let_def split: option.splits\<close>)
qed

lemma record_workspace_checkpoint_refines:
  "record_workspace_checkpoint m now r = Inr (m', r') \<Longrightarrow> refines r r'"
  by (auto simp: record_workspace_checkpoint_def res_simps split: if_splits option.splits
    intro!: refine_same)

lemma indeterminate_certainty:
  "reg_journal_ok r \<Longrightarrow> find_op i r = Some x \<Longrightarrow> or_state x = INDETERMINATE \<Longrightarrow>
   or_certainty x = INDETERMINATE_OUTCOME"
  using find_op_coherent by (auto simp: coherent_def)

lemma select_workspace_checkpoint_refines:
  "reg_journal_ok r \<Longrightarrow> select_workspace_checkpoint s g now r = Inr (s', r') \<Longrightarrow> refines r r'"
  by (auto simp: select_workspace_checkpoint_def res_simps Let_def indeterminate_certainty
    split: if_splits option.splits intro!: refine_note)

lemma mark_restored_refines:
  "reg_journal_ok r \<Longrightarrow> mark_workspace_checkpoint_restored s h g now r = Inr (h', r') \<Longrightarrow> refines r r'"
  by (auto simp: mark_workspace_checkpoint_restored_def res_simps Let_def indeterminate_certainty
    split: if_splits option.splits intro!: refine_note)

end
