(* ===== verification/Fences.thy ===== *)
theory Fences
  imports Registry_Refinement
begin

text \<open>
  The ownership invariant of the registry's attempts, leases and dispatch rows: attempts of
  an operation are numbered 1, 2, ..., each has exactly one lease, whose epoch is the
  attempt's number; the dispatch row names the latest attempt; and a running attempt
  belongs to a running dispatch of an operation that is not waiting in the queue. From it
  follow that two valid fences of one operation are the same and that a new claim finds no
  running attempt.
\<close>

section \<open>The invariant\<close>

definition attempts_of :: "operation_ref \<Rightarrow> reg \<Rightarrow> attempt_row list" where
  "attempts_of i r = filter (\<lambda>a. aw_operation a = i) (rg_attempts r)"

definition attempt_key :: "attempt_row \<Rightarrow> operation_ref \<times> int" where
  "attempt_key a = (aw_operation a, aw_attempt_no a)"

definition lease_key :: "lease_row \<Rightarrow> operation_ref \<times> int" where
  "lease_key l = (lw_operation l, lw_attempt_no l)"

definition numbers :: "nat \<Rightarrow> int list" where
  "numbers n = map int [1..<Suc n]"

definition latest_no :: "operation_ref \<Rightarrow> reg \<Rightarrow> int option" where
  "latest_no i r = (if attempts_of i r = [] then None else Some (int (length (attempts_of i r))))"

definition running_owned :: "operation_ref \<Rightarrow> reg \<Rightarrow> bool" where
  "running_owned i r \<longleftrightarrow>
     (\<forall>a \<in> set (rg_attempts r). aw_operation a = i \<and> aw_state a = A_running \<longrightarrow>
        (\<forall>x \<in> set (rg_operations r). or_operation x = i \<longrightarrow> or_state x \<noteq> ACCEPTED) \<and>
        (\<exists>d \<in> set (rg_dispatch r). dw_operation d = i \<and> dw_state d = D_running \<and>
           dw_current_attempt_no d = Some (aw_attempt_no a)))"

definition fences_ok :: "reg \<Rightarrow> bool" where
  "fences_ok r \<longleftrightarrow>
     distinct (map dw_operation (rg_dispatch r)) \<and>
     (\<forall>d \<in> set (rg_dispatch r). dw_operation d \<in> or_operation ` set (rg_operations r) \<and>
        dw_current_attempt_no d = latest_no (dw_operation d) r) \<and>
     (\<forall>i. map aw_attempt_no (attempts_of i r) = numbers (length (attempts_of i r))) \<and>
     (\<forall>a \<in> set (rg_attempts r). aw_operation a \<in> dw_operation ` set (rg_dispatch r) \<and>
        aw_state a \<noteq> Suspended_external) \<and>
     map lease_key (rg_leases r) = map attempt_key (rg_attempts r) \<and>
     (\<forall>l \<in> set (rg_leases r). lw_lease_epoch l = lw_attempt_no l) \<and>
     (\<forall>i. running_owned i r)"

definition quiet :: "operation_ref \<Rightarrow> reg \<Rightarrow> bool" where
  "quiet i r \<longleftrightarrow> (\<forall>a \<in> set (rg_attempts r). aw_operation a = i \<longrightarrow> aw_state a \<noteq> A_running)"

lemma fences_init: "fences_ok reg_init"
  by (simp add: fences_ok_def reg_init_def attempts_of_def latest_no_def running_owned_def numbers_def)

lemma quiet_running_owned: "quiet i r \<Longrightarrow> running_owned i r"
  by (auto simp: quiet_def running_owned_def)

lemma quiet_accepted:
  "fences_ok r \<Longrightarrow> find_op i r = Some x \<Longrightarrow> or_state x = ACCEPTED \<Longrightarrow> quiet i r"
  by (auto simp: fences_ok_def quiet_def running_owned_def dest!: find_op_SomeD)

lemma dispatch_unique:
  "fences_ok r \<Longrightarrow> d \<in> set (rg_dispatch r) \<Longrightarrow> e \<in> set (rg_dispatch r) \<Longrightarrow>
   dw_operation d = dw_operation e \<Longrightarrow> d = e"
  by (auto simp: fences_ok_def distinct_map inj_on_def)

lemma find_dispatch_iff:
  assumes "fences_ok r"
  shows "find_dispatch i r = Some d \<longleftrightarrow> d \<in> set (rg_dispatch r) \<and> dw_operation d = i"
proof
  assume "d \<in> set (rg_dispatch r) \<and> dw_operation d = i"
  then show "find_dispatch i r = Some d"
    unfolding find_dispatch_def using assms
    by (intro fetchone_key [where k = dw_operation]) (auto simp: fences_ok_def)
qed (auto dest: find_dispatch_SomeD)

lemma running_current:
  "fences_ok r \<Longrightarrow> d \<in> set (rg_dispatch r) \<Longrightarrow> dw_operation d = i \<Longrightarrow>
   a \<in> set (rg_attempts r) \<Longrightarrow> aw_operation a = i \<Longrightarrow> aw_state a = A_running \<Longrightarrow>
   dw_state d = D_running \<and> dw_current_attempt_no d = Some (aw_attempt_no a)"
  by (metis dispatch_unique fences_ok_def running_owned_def)

lemma quiet_not_running:
  "fences_ok r \<Longrightarrow> d \<in> set (rg_dispatch r) \<Longrightarrow> dw_operation d = i \<Longrightarrow> dw_state d \<noteq> D_running \<Longrightarrow>
   quiet i r"
  unfolding quiet_def using running_current by blast

lemma running_latest:
  assumes "fences_ok r" "a \<in> set (rg_attempts r)" "aw_state a = A_running"
  shows "latest_no (aw_operation a) r = Some (aw_attempt_no a)"
proof -
  from assms obtain d where d: "d \<in> set (rg_dispatch r)" "dw_operation d = aw_operation a"
    by (force simp: fences_ok_def)
  with assms have "dw_current_attempt_no d = Some (aw_attempt_no a)"
    using running_current [OF assms(1) d _ _ assms(3)] by simp
  with assms(1) d show ?thesis by (simp add: fences_ok_def)
qed

lemma attempts_distinct:
  assumes "fences_ok r"
  shows "distinct (map attempt_key (rg_attempts r))"
proof -
  have "distinct (map aw_attempt_no (attempts_of i r))" for i
    using assms by (simp add: fences_ok_def numbers_def distinct_map)
  moreover have "(\<And>i. distinct (map aw_attempt_no (filter (\<lambda>a. aw_operation a = i) t))) \<Longrightarrow>
      distinct (map attempt_key t)" for t
  proof (induction t)
    case (Cons a t)
    have "distinct (map aw_attempt_no (filter (\<lambda>a. aw_operation a = i) t))" for i
      using Cons.prems [of i] by (auto split: if_splits)
    moreover have "attempt_key a \<notin> attempt_key ` set t"
      using Cons.prems [of "aw_operation a"] by (auto simp: attempt_key_def)
    ultimately show ?case using Cons.IH by simp
  qed simp
  ultimately show ?thesis by (simp add: attempts_of_def)
qed

lemma attempt_unique:
  "fences_ok r \<Longrightarrow> a \<in> set (rg_attempts r) \<Longrightarrow> b \<in> set (rg_attempts r) \<Longrightarrow>
   attempt_key a = attempt_key b \<Longrightarrow> a = b"
  by (drule attempts_distinct) (auto simp: distinct_map inj_on_def)

lemma lease_unique:
  assumes "fences_ok r" "l \<in> set (rg_leases r)" "m \<in> set (rg_leases r)" "lease_key l = lease_key m"
  shows "l = m"
proof -
  have "distinct (map lease_key (rg_leases r))"
    using attempts_distinct [OF assms(1)] assms(1) by (simp add: fences_ok_def)
  with assms show ?thesis by (auto simp: distinct_map inj_on_def)
qed

text \<open>The conjuncts of the invariant, by name.\<close>

lemma attempt_dispatched:
  "fences_ok r \<Longrightarrow> a \<in> set (rg_attempts r) \<Longrightarrow> aw_operation a \<in> dw_operation ` set (rg_dispatch r)"
  by (simp add: fences_ok_def)

lemma dispatch_accepted:
  "fences_ok r \<Longrightarrow> d \<in> set (rg_dispatch r) \<Longrightarrow> dw_operation d \<in> or_operation ` set (rg_operations r)"
  by (simp add: fences_ok_def)

lemma dispatch_latest:
  "fences_ok r \<Longrightarrow> d \<in> set (rg_dispatch r) \<Longrightarrow> dw_current_attempt_no d = latest_no (dw_operation d) r"
  by (simp add: fences_ok_def)

lemma attempts_numbered:
  "fences_ok r \<Longrightarrow> map aw_attempt_no (attempts_of i r) = numbers (length (attempts_of i r))"
  by (simp add: fences_ok_def)

lemma lease_epoch_no: "fences_ok r \<Longrightarrow> l \<in> set (rg_leases r) \<Longrightarrow> lw_lease_epoch l = lw_attempt_no l"
  by (simp add: fences_ok_def)

section \<open>Changes local to one operation\<close>

text \<open>
  Most methods rewrite rows of one operation without adding attempts or dispatch rows. It
  is enough that the keys stay, that other operations' rows stay, and that the running
  attempts of this operation are still owned.
\<close>

definition ops_change :: "operation_ref \<Rightarrow> op_row tbl \<Rightarrow> op_row tbl \<Rightarrow> bool" where
  "ops_change i t t' \<longleftrightarrow> or_operation ` set t \<subseteq> or_operation ` set t' \<and>
     (\<forall>x \<in> set t'. or_operation x \<noteq> i \<longrightarrow> x \<in> set t)"

definition dispatch_key :: "dispatch_row \<Rightarrow> operation_ref \<times> int option" where
  "dispatch_key d = (dw_operation d, dw_current_attempt_no d)"

definition dispatch_change :: "operation_ref \<Rightarrow> dispatch_row tbl \<Rightarrow> dispatch_row tbl \<Rightarrow> bool" where
  "dispatch_change i t t' \<longleftrightarrow> map dispatch_key t' = map dispatch_key t \<and>
     (\<forall>d \<in> set t. dw_operation d \<noteq> i \<longrightarrow> d \<in> set t')"

definition attempts_change :: "operation_ref \<Rightarrow> attempt_row tbl \<Rightarrow> attempt_row tbl \<Rightarrow> bool" where
  "attempts_change i t t' \<longleftrightarrow> map attempt_key t' = map attempt_key t \<and>
     (\<forall>a \<in> set t'. aw_operation a \<noteq> i \<longrightarrow> a \<in> set t) \<and>
     (\<forall>a \<in> set t'. a \<in> set t \<or> aw_state a \<noteq> Suspended_external)"

definition leases_change :: "lease_row tbl \<Rightarrow> lease_row tbl \<Rightarrow> bool" where
  "leases_change t t' \<longleftrightarrow>
     map (\<lambda>l. (lease_key l, lw_lease_epoch l)) t' = map (\<lambda>l. (lease_key l, lw_lease_epoch l)) t"

definition local_change :: "operation_ref \<Rightarrow> reg \<Rightarrow> reg \<Rightarrow> bool" where
  "local_change i r r' \<longleftrightarrow> ops_change i (rg_operations r) (rg_operations r') \<and>
     dispatch_change i (rg_dispatch r) (rg_dispatch r') \<and>
     attempts_change i (rg_attempts r) (rg_attempts r') \<and>
     leases_change (rg_leases r) (rg_leases r') \<and> running_owned i r'"

named_theorems change_intros \<open>tables that change locally\<close>

lemma ops_change_refl [change_intros]: "ops_change i t t"
  by (simp add: ops_change_def)

lemma ops_change_update [change_intros]:
  "(\<And>x. or_operation (f x) = or_operation x) \<Longrightarrow>
   ops_change i t (update_rows (\<lambda>x. or_operation x = i \<and> p x) f t)"
  unfolding ops_change_def
proof
  assume f: "\<And>x. or_operation (f x) = or_operation x"
  have "map or_operation (update_rows (\<lambda>x. or_operation x = i \<and> p x) f t) = map or_operation t"
    by (rule map_update_rows) (rule f)
  then show "or_operation ` set t \<subseteq> or_operation ` set (update_rows (\<lambda>x. or_operation x = i \<and> p x) f t)"
    by (metis list.set_map order_refl)
  show "\<forall>x \<in> set (update_rows (\<lambda>x. or_operation x = i \<and> p x) f t). or_operation x \<noteq> i \<longrightarrow> x \<in> set t"
    by (auto elim!: in_update_rowsE simp: f)
qed

lemma ops_change_update_all [change_intros]:
  "(\<And>x. or_operation (f x) = or_operation x) \<Longrightarrow>
   ops_change i t (update_rows (\<lambda>x. or_operation x = i) f t)"
  using ops_change_update [where p = "\<lambda>_. True"] by simp

lemma dispatch_change_refl [change_intros]: "dispatch_change i t t"
  by (simp add: dispatch_change_def)

lemma dispatch_change_update [change_intros]:
  "(\<And>d. dispatch_key (f d) = dispatch_key d) \<Longrightarrow>
   dispatch_change i t (update_rows (\<lambda>d. dw_operation d = i \<and> p d) f t)"
  by (auto simp: dispatch_change_def map_update_rows set_update_rows image_iff)

lemma dispatch_change_update_all [change_intros]:
  "(\<And>d. dispatch_key (f d) = dispatch_key d) \<Longrightarrow>
   dispatch_change i t (update_rows (\<lambda>d. dw_operation d = i) f t)"
  using dispatch_change_update [where p = "\<lambda>_. True"] by simp

lemma attempts_change_refl [change_intros]: "attempts_change i t t"
  by (simp add: attempts_change_def)

lemma attempts_change_update [change_intros]:
  "(\<And>a. attempt_key (f a) = attempt_key a \<and> (aw_state (f a) = Suspended_external \<longrightarrow> f a = a)) \<Longrightarrow>
   attempts_change i t (update_rows (\<lambda>a. aw_operation a = i \<and> aw_attempt_no a = n \<and> p a) f t)"
  by (auto simp: attempts_change_def map_update_rows set_update_rows image_iff attempt_key_def) metis

lemma attempts_change_update_all [change_intros]:
  "(\<And>a. attempt_key (f a) = attempt_key a \<and> (aw_state (f a) = Suspended_external \<longrightarrow> f a = a)) \<Longrightarrow>
   attempts_change i t (update_rows (\<lambda>a. aw_operation a = i \<and> aw_attempt_no a = n) f t)"
  using attempts_change_update [where p = "\<lambda>_. True"] by simp

lemma leases_change_refl [change_intros]: "leases_change t t"
  by (simp add: leases_change_def)

lemma leases_change_update [change_intros]:
  "(\<And>l. lease_key (f l) = lease_key l \<and> lw_lease_epoch (f l) = lw_lease_epoch l) \<Longrightarrow>
   leases_change t (update_rows p f t)"
  by (simp add: leases_change_def map_update_rows)

lemma attempts_of_keys:
  assumes "map attempt_key (rg_attempts r') = map attempt_key (rg_attempts r)"
  shows "map aw_attempt_no (attempts_of i r') = map aw_attempt_no (attempts_of i r)"
proof -
  have "map aw_attempt_no (attempts_of i r) =
      map snd (filter (\<lambda>k. fst k = i) (map attempt_key (rg_attempts r)))" for r
    by (simp add: attempts_of_def attempt_key_def filter_map comp_def)
  then show ?thesis by (simp add: assms)
qed

lemma latest_no_keys:
  assumes "map attempt_key (rg_attempts r') = map attempt_key (rg_attempts r)"
  shows "latest_no i r' = latest_no i r"
  using arg_cong [OF attempts_of_keys [OF assms, of i], of length]
  by (auto simp: latest_no_def)

text \<open>The rows of the other operations are owned as before.\<close>

lemma running_owned_other:
  assumes own: "running_owned j r" and c: "local_change i r r'" and ne: "j \<noteq> i"
  shows "running_owned j r'"
  unfolding running_owned_def
proof (intro ballI impI, elim conjE)
  fix a assume a: "a \<in> set (rg_attempts r')" "aw_operation a = j" "aw_state a = A_running"
  with c ne have ar: "a \<in> set (rg_attempts r)" by (auto simp: local_change_def attempts_change_def)
  with own a obtain d where d: "d \<in> set (rg_dispatch r)" "dw_operation d = j"
    "dw_state d = D_running" "dw_current_attempt_no d = Some (aw_attempt_no a)"
    by (auto simp: running_owned_def)
  with c ne have "d \<in> set (rg_dispatch r')" by (auto simp: local_change_def dispatch_change_def)
  moreover have "or_state x \<noteq> ACCEPTED" if "x \<in> set (rg_operations r')" "or_operation x = j" for x
    using that c ne own ar a by (auto simp: local_change_def ops_change_def running_owned_def)
  ultimately show "(\<forall>x \<in> set (rg_operations r'). or_operation x = j \<longrightarrow> or_state x \<noteq> ACCEPTED) \<and>
    (\<exists>d \<in> set (rg_dispatch r'). dw_operation d = j \<and> dw_state d = D_running \<and>
       dw_current_attempt_no d = Some (aw_attempt_no a))"
    using d by blast
qed

lemma map_eq_member:
  "map f xs = map f ys \<Longrightarrow> x \<in> set xs \<Longrightarrow> \<exists>y \<in> set ys. f y = f x"
  by (metis (mono_tags) image_iff list.set_map)

lemma fences_local:
  assumes ok: "fences_ok r" and c: "local_change i r r'"
  shows "fences_ok r'"
proof -
  have keys: "map attempt_key (rg_attempts r') = map attempt_key (rg_attempts r)"
    and disp: "map dispatch_key (rg_dispatch r') = map dispatch_key (rg_dispatch r)"
    and ls: "map (\<lambda>l. (lease_key l, lw_lease_epoch l)) (rg_leases r') =
      map (\<lambda>l. (lease_key l, lw_lease_epoch l)) (rg_leases r)"
    and opset: "or_operation ` set (rg_operations r) \<subseteq> or_operation ` set (rg_operations r')"
    using c by (auto simp: local_change_def attempts_change_def dispatch_change_def
        leases_change_def ops_change_def)
  have ops: "map dw_operation (rg_dispatch r') = map dw_operation (rg_dispatch r)"
    using arg_cong [OF disp, of "map fst"] by (simp add: comp_def dispatch_key_def)
  have lkeys: "map lease_key (rg_leases r') = map attempt_key (rg_attempts r')"
    using arg_cong [OF ls, of "map fst"] ok keys by (simp add: comp_def fences_ok_def)
  have eps: "lw_lease_epoch l = lw_attempt_no l" if "l \<in> set (rg_leases r')" for l
  proof -
    from map_eq_member [OF ls that] obtain m where "m \<in> set (rg_leases r)"
      "lw_attempt_no m = lw_attempt_no l" "lw_lease_epoch m = lw_lease_epoch l"
      by (auto simp: lease_key_def)
    then show ?thesis using lease_epoch_no [OF ok] by metis
  qed
  have run: "running_owned j r'" for j
    using running_owned_other [OF _ c] c ok by (cases "j = i") (auto simp: local_change_def fences_ok_def)
  have att: "aw_operation a \<in> dw_operation ` set (rg_dispatch r') \<and> aw_state a \<noteq> Suspended_external"
    if "a \<in> set (rg_attempts r')" for a
  proof -
    from map_eq_member [OF keys that] obtain b where
      b: "b \<in> set (rg_attempts r)" "aw_operation b = aw_operation a" by (auto simp: attempt_key_def)
    have "aw_operation a \<in> set (map dw_operation (rg_dispatch r))"
      using attempt_dispatched [OF ok b(1)] b(2) by simp
    with ops have "aw_operation a \<in> set (map dw_operation (rg_dispatch r'))" by simp
    moreover have "aw_state a \<noteq> Suspended_external"
      using c ok that by (auto simp: local_change_def attempts_change_def fences_ok_def)
    ultimately show ?thesis by simp
  qed
  have d1: "dw_operation d \<in> or_operation ` set (rg_operations r') \<and>
      dw_current_attempt_no d = latest_no (dw_operation d) r'" if d: "d \<in> set (rg_dispatch r')" for d
  proof -
    from map_eq_member [OF disp d] obtain e where "e \<in> set (rg_dispatch r)"
      "dw_operation e = dw_operation d" "dw_current_attempt_no e = dw_current_attempt_no d"
      by (auto simp: dispatch_key_def)
    then have "dw_operation d \<in> or_operation ` set (rg_operations r)"
      "dw_current_attempt_no d = latest_no (dw_operation d) r"
      using dispatch_accepted [OF ok, of e] dispatch_latest [OF ok, of e] by simp_all
    with opset show ?thesis by (auto simp: latest_no_keys [OF keys])
  qed
  have num: "map aw_attempt_no (attempts_of j r') = numbers (length (attempts_of j r'))" for j
  proof -
    have "length (attempts_of j r') = length (attempts_of j r)"
      using arg_cong [OF attempts_of_keys [OF keys, of j], of length] by simp
    then show ?thesis using attempts_numbered [OF ok] attempts_of_keys [OF keys] by metis
  qed
  have "distinct (map dw_operation (rg_dispatch r'))" using ok ops by (simp add: fences_ok_def)
  then show ?thesis
    unfolding fences_ok_def using run att d1 num lkeys eps by blast
qed

section \<open>Methods that change one operation's rows\<close>

text \<open>Ownership when the attempts' states and the running dispatch are as before.\<close>

lemma running_owned_frame:
  assumes "fences_ok r" "rg_attempts r' = rg_attempts r"
    and "\<And>x. x \<in> set (rg_operations r') \<Longrightarrow> or_operation x = i \<Longrightarrow>
      or_state x \<noteq> ACCEPTED \<or> x \<in> set (rg_operations r)"
    and "\<And>d. d \<in> set (rg_dispatch r) \<Longrightarrow> dw_operation d = i \<Longrightarrow> d \<in> set (rg_dispatch r')"
  shows "running_owned i r'"
proof -
  have "running_owned i r" using assms(1) by (simp add: fences_ok_def)
  with assms(2-4) show ?thesis unfolding running_owned_def by metis
qed

lemma quiet_frame:
  "quiet i r \<Longrightarrow> rg_attempts r' = rg_attempts r \<Longrightarrow> running_owned i r'"
  by (rule quiet_running_owned) (simp add: quiet_def)

lemma fences_same:
  assumes "fences_ok r" "rg_operations r' = rg_operations r" "rg_dispatch r' = rg_dispatch r"
    "rg_attempts r' = rg_attempts r" "rg_leases r' = rg_leases r"
  shows "fences_ok r'"
proof -
  have "running_owned (OperationRef []) r" using assms(1) by (simp add: fences_ok_def)
  then have "local_change (OperationRef []) r r'"
    using assms(2-5) by (simp add: local_change_def running_owned_def change_intros)
  then show ?thesis by (rule fences_local [OF assms(1)])
qed

text \<open>The attempt whose key is \<open>(i, n)\<close> is the only one that can be running.\<close>

lemma quiet_after_attempt:
  assumes ok: "fences_ok r" and run: "\<And>a. a \<in> set (rg_attempts r) \<Longrightarrow> aw_operation a = i \<Longrightarrow>
      aw_state a = A_running \<Longrightarrow> aw_attempt_no a = n \<and> p a"
    and f: "\<And>a. aw_state (f a) \<noteq> A_running"
    and q: "rg_attempts q = update_rows (\<lambda>a. aw_operation a = i \<and> aw_attempt_no a = n \<and> p a) f (rg_attempts r)"
  shows "quiet i q"
  unfolding quiet_def q
proof (intro ballI impI)
  fix a
  assume "a \<in> set (update_rows (\<lambda>a. aw_operation a = i \<and> aw_attempt_no a = n \<and> p a) f (rg_attempts r))"
    "aw_operation a = i"
  then show "aw_state a \<noteq> A_running"
    by (cases rule: in_update_rowsE) (use run f in auto)
qed

lemma accept_fences:
  assumes ok: "fences_ok r" and a: "accept e pl None now r = Inr (res, r')"
  shows "fences_ok r'"
proof (cases "find_scoped e r")
  case (Some x)
  with a ok show ?thesis
    by (auto simp: accept_def res_simps run_admission_def Let_def split: if_splits)
next
  case None
  let ?x = "fresh_op_row e pl now" and ?i = "operation_id_of e"
  from a None have fresh: "\<forall>y \<in> set (rg_operations r). \<not> same_key ?x y"
    and r': "r' = insert_event ?i ACCEPTED CERTAIN 0 now ''intent_persisted'' None None None
      (r\<lparr>rg_operations := rg_operations r @ [?x]\<rparr>)"
    by (auto simp: accept_def res_simps run_admission_def Let_def)
  have "?i \<notin> or_operation ` set (rg_operations r)"
    using fresh by (auto simp: same_key_def fresh_op_row_def)
  then have q: "quiet ?i r"
    unfolding quiet_def using attempt_dispatched [OF ok] dispatch_accepted [OF ok] by (metis imageE)
  have "ops_change ?i (rg_operations r) (rg_operations r @ [?x])"
    by (auto simp: ops_change_def fresh_op_row_def)
  then have "local_change ?i r r'"
    using quiet_frame [OF q, of r'] by (simp add: local_change_def r' insert_event_def Let_def change_intros)
  then show ?thesis by (rule fences_local [OF ok])
qed

lemma transition_row_simps [simp]:
  "or_state (transition_row t g now x) = ta_state t"
  "or_operation (transition_row t g now x) = or_operation x"
  by (simp_all add: transition_row_def)

text \<open>After an UPDATE of operation \<open>i\<close>, its rows are updated ones.\<close>

lemma updated_op:
  assumes "x \<in> set (update_rows (\<lambda>x. or_operation x = i) f t)" "or_operation x = i"
    "\<And>x. or_operation (f x) = or_operation x"
  shows "\<exists>y. x = f y"
  using assms by (auto simp: set_update_rows)

lemma transition_fences:
  assumes ok: "fences_ok r" and t: "transition i t g now r = Inr (rec, r')"
    and st: "ta_state t \<noteq> ACCEPTED"
  shows "fences_ok r'"
proof -
  from t obtain v where r': "r' = insert_event i (ta_state t) (ta_certainty t) v now
      (ta_note t) None None None (set_op i (\<lambda>_. True) (transition_row t g now) r)"
    by (auto simp: transition_def res_simps Let_def split: if_splits)
  have ops: "rg_operations r' =
      update_rows (\<lambda>x. or_operation x = i) (transition_row t g now) (rg_operations r)"
    and same: "rg_dispatch r' = rg_dispatch r" "rg_attempts r' = rg_attempts r" "rg_leases r' = rg_leases r"
    by (simp_all add: r' set_op_def insert_event_def Let_def)
  have "or_state x \<noteq> ACCEPTED" if "x \<in> set (rg_operations r')" "or_operation x = i" for x
    using updated_op [OF that [unfolded ops]] st by auto
  then have "running_owned i r'"
    using running_owned_frame [OF ok same(2), of i] same(1) by metis
  moreover have "ops_change i (rg_operations r) (rg_operations r')"
    unfolding ops by (rule ops_change_update_all) simp
  ultimately have "local_change i r r'"
    by (simp add: local_change_def same change_intros)
  then show ?thesis by (rule fences_local [OF ok])
qed

lemma lifecycle_fences:
  assumes "fences_ok r"
  shows "begin_op i g now r = Inr (rec, r') \<Longrightarrow> fences_ok r'"
    "succeed i j b g now r = Inr (rec, r') \<Longrightarrow> fences_ok r'"
    "fail_op i fl b oj g now r = Inr (rec, r') \<Longrightarrow> fences_ok r'"
    "cancel i oj g now r = Inr (rec, r') \<Longrightarrow> fences_ok r'"
    "time_out i oj g now r = Inr (rec, r') \<Longrightarrow> fences_ok r'"
    "mark_indeterminate i note g now r = Inr (rec, r') \<Longrightarrow> fences_ok r'"
  using transition_fences [OF assms]
  unfolding begin_op_def succeed_def fail_op_def cancel_def time_out_def mark_indeterminate_def
  by (simp_all add: transition_args_defs)

lemma bind_recovery_policy_fences:
  "fences_ok r \<Longrightarrow> bind_recovery_policy i k p ed now r = Inr (b, r') \<Longrightarrow> fences_ok r'"
  by (erule fences_same)
    (auto simp: bind_recovery_policy_def res_simps insert_event_def Let_def split: if_splits option.splits)

text \<open>A dispatch row is added only for an operation without attempts.\<close>

lemma fences_new_dispatch:
  assumes ok: "fences_ok r" and d: "find_dispatch (dw_operation d) r = None"
    and op: "dw_operation d \<in> or_operation ` set (rg_operations r)"
    and cur: "dw_current_attempt_no d = latest_no (dw_operation d) r"
    and q: "rg_operations q = rg_operations r" "rg_dispatch q = rg_dispatch r @ [d]"
      "rg_attempts q = rg_attempts r" "rg_leases q = rg_leases r"
  shows "fences_ok q"
proof -
  have new: "dw_operation d \<notin> dw_operation ` set (rg_dispatch r)"
    using d by (auto simp: find_dispatch_def row_simps)
  have own: "running_owned i q" for i
    using ok by (auto simp: fences_ok_def running_owned_def q)
  have l: "latest_no i q = latest_no i r" "attempts_of i q = attempts_of i r" for i
    by (simp_all add: latest_no_def attempts_of_def q)
  show ?thesis
    unfolding fences_ok_def
    using ok new op cur own by (auto simp: fences_ok_def l q)
qed

lemma no_dispatch_no_attempts:
  assumes "fences_ok r" "find_dispatch i r = None"
  shows "attempts_of i r = []"
proof -
  have "i \<notin> dw_operation ` set (rg_dispatch r)"
    using assms(2) by (auto simp: find_dispatch_def row_simps)
  then show ?thesis
    unfolding attempts_of_def filter_empty_conv using attempt_dispatched [OF assms(1)] by metis
qed

lemma find_op_accepted: "find_op i r = Some x \<Longrightarrow> i \<in> or_operation ` set (rg_operations r)"
  using find_op_SomeD by (metis image_eqI)

lemma request_dispatch_fences:
  assumes ok: "fences_ok r" and d: "request_dispatch i k now r = Inr (w, r')"
  shows "fences_ok r'"
proof -
  have upd: "fences_ok (insert_event i st ce v now nt an kd pl (set_dispatch i (\<lambda>_. True) (queued_row now) r))"
    if x: "find_op i r = Some x" "or_state x = ACCEPTED" for x st ce v nt an kd pl
    by (rule fences_local [OF ok, of i])
      (use quiet_frame [OF quiet_accepted [OF ok x]] in \<open>auto simp: local_change_def set_defs queued_row_def
        dispatch_key_def intro!: change_intros\<close>)
  have new: "fences_ok (insert_event i st ce v now nt an kd pl (r\<lparr>rg_dispatch := rg_dispatch r @ [e]\<rparr>))"
    if "find_op i r = Some x" "find_dispatch i r = None" "dw_operation e = i"
      "dw_current_attempt_no e = None" for x e st ce v nt an kd pl
    by (rule fences_new_dispatch [OF ok, of e])
      (use that no_dispatch_no_attempts [OF ok that(2)] find_op_accepted [OF that(1)] in
        \<open>simp_all add: insert_event_def Let_def latest_no_def\<close>)
  from d ok upd new show ?thesis
    by (auto simp: request_dispatch_def res_simps Let_def split: if_splits option.splits)
qed

lemma heartbeat_fences:
  assumes ok: "fences_ok r" and h: "heartbeat f dur fn now r = Inr (m, r')"
  shows "fences_ok r'"
proof -
  from h obtain p g where r': "r' = set_lease (fn_operation f) (fn_attempt_no f) p g r"
    and g: "\<And>l. lease_key (g l) = lease_key l \<and> lw_lease_epoch (g l) = lw_lease_epoch l"
    by (auto simp: heartbeat_def res_simps Let_def lease_key_def split: if_splits option.splits)
  have "running_owned (fn_operation f) r'"
    by (rule running_owned_frame [OF ok]) (simp_all add: r' set_lease_def)
  with g have "local_change (fn_operation f) r r'"
    by (simp add: local_change_def r' set_lease_def change_intros)
  then show ?thesis by (rule fences_local [OF ok])
qed

lemma request_cancel_fences:
  "fences_ok r \<Longrightarrow> request_cancel i who rc now r = Inr (m, r') \<Longrightarrow> fences_ok r'"
  by (erule fences_same)
    (auto simp: request_cancel_def res_simps insert_event_def Let_def split: if_splits option.splits)

lemma cancel_queued_fences:
  assumes ok: "fences_ok r" and c: "cancel_queued_dispatch i g j now r = Inr (res, r')"
  shows "fences_ok r'"
proof (cases "r' = r")
  case False
  with c obtain x where x: "find_op i r = Some x" "or_state x = ACCEPTED"
    by (auto simp: cancel_queued_dispatch_def res_simps Let_def split: if_splits)
  from c False have "rg_attempts r' = rg_attempts r"
    by (auto simp: cancel_queued_dispatch_def res_simps set_defs split: if_splits)
  from quiet_frame [OF quiet_accepted [OF ok x] this]
  have "local_change i r r'"
    using c False
    by (auto simp: cancel_queued_dispatch_def res_simps set_defs local_change_def dispatch_key_def
      split: if_splits intro!: change_intros)
  then show ?thesis by (rule fences_local [OF ok])
qed (use ok in simp)

section \<open>Claims\<close>

lemma numbers_Suc: "numbers (Suc k) = numbers k @ [int k + 1]"
  by (simp add: numbers_def)

lemma foldr_max_snoc: "foldr max (xs @ [y]) (0::int) = max (foldr max xs 0) (max y 0)"
  by (induction xs) (auto simp: max.assoc)

lemma max_numbers: "foldr max (numbers k) (0::int) = int k"
proof (induction k)
  case (Suc k)
  then show ?case by (simp add: numbers_Suc foldr_max_snoc del: foldr_append)
qed (simp add: numbers_def)

lemma next_attempt_no_eq:
  "fences_ok r \<Longrightarrow> next_attempt_no i r = int (length (attempts_of i r)) + 1"
  using attempts_numbered [of r i]
  by (simp add: next_attempt_no_def max_col_def attempts_of_def max_numbers)

lemma lease_epochs:
  assumes ok: "fences_ok r"
  shows "map lw_lease_epoch (filter (\<lambda>l. lw_operation l = i) (rg_leases r)) =
    map aw_attempt_no (attempts_of i r)"
proof -
  have "map lw_lease_epoch (filter (\<lambda>l. lw_operation l = i) (rg_leases r)) =
      map lw_attempt_no (filter (\<lambda>l. lw_operation l = i) (rg_leases r))"
    using lease_epoch_no [OF ok] by simp
  also have "\<dots> = map snd (filter (\<lambda>k. fst k = i) (map lease_key (rg_leases r)))"
    by (simp add: lease_key_def filter_map comp_def)
  also have "\<dots> = map snd (filter (\<lambda>k. fst k = i) (map attempt_key (rg_attempts r)))"
    using ok by (simp add: fences_ok_def)
  also have "\<dots> = map aw_attempt_no (attempts_of i r)"
    by (simp add: attempts_of_def attempt_key_def filter_map comp_def)
  finally show ?thesis .
qed

lemma next_lease_epoch_eq: "fences_ok r \<Longrightarrow> next_lease_epoch i r = next_attempt_no i r"
  using lease_epochs [of r i]
  by (simp add: next_lease_epoch_def next_attempt_no_def max_col_def attempts_of_def)

lemma claim_row_simps [simp]:
  "or_state (claimed_op c v x) = RUNNING" "or_operation (claimed_op c v x) = or_operation x"
  "dw_operation (claimed_dispatch c n d) = dw_operation d"
  "dw_state (claimed_dispatch c n d) = D_running"
  "dw_current_attempt_no (claimed_dispatch c n d) = Some n"
  "aw_operation (fresh_attempt c i n) = i" "aw_attempt_no (fresh_attempt c i n) = n"
  "aw_state (fresh_attempt c i n) = A_running" "lease_key (fresh_lease c i n e) = (i, n)"
  "lw_lease_epoch (fresh_lease c i n e) = e" "lw_attempt_no (fresh_lease c i n e) = n"
  "attempt_key (fresh_attempt c i n) = (i, n)"
  by (simp_all add: claimed_op_def claimed_dispatch_def fresh_attempt_def fresh_lease_def
    lease_key_def attempt_key_def)

lemma claim_writes_tables:
  "rg_operations (claim_writes c x r) = update_rows
     (\<lambda>z. or_operation z = or_operation x \<and> or_state z = ACCEPTED)
     (claimed_op c (or_record_revision x + 1)) (rg_operations r)"
  "rg_dispatch (claim_writes c x r) = update_rows
     (\<lambda>d. dw_operation d = or_operation x \<and> dw_state d = D_queued)
     (claimed_dispatch c (next_attempt_no (or_operation x) r)) (rg_dispatch r)"
  "rg_attempts (claim_writes c x r) =
     rg_attempts r @ [fresh_attempt c (or_operation x) (next_attempt_no (or_operation x) r)]"
  "rg_leases (claim_writes c x r) = rg_leases r @ [fresh_lease c (or_operation x)
     (next_attempt_no (or_operation x) r) (next_lease_epoch (or_operation x) r)]"
  by (simp_all add: claim_writes_def Let_def set_dispatch_def set_op_def)

lemma attempts_of_claim:
  "attempts_of j (claim_writes c x r) = attempts_of j r @
     (if j = or_operation x then [fresh_attempt c j (next_attempt_no j r)] else [])"
  by (auto simp: attempts_of_def claim_writes_tables)

lemma claim_writes_owned:
  assumes ok: "fences_ok r" and jok: "reg_journal_ok r"
    and x: "find_op i r = Some x" "or_state x = ACCEPTED" "or_operation x = i"
    and d: "find_dispatch i r = Some d" "dw_state d = D_queued"
  shows "running_owned j (claim_writes c x r)"
  unfolding running_owned_def
proof (intro ballI impI, elim conjE)
  let ?q = "claim_writes c x r" and ?n = "next_attempt_no i r"
  fix a assume a: "a \<in> set (rg_attempts ?q)" "aw_operation a = j" "aw_state a = A_running"
  show "(\<forall>z \<in> set (rg_operations ?q). or_operation z = j \<longrightarrow> or_state z \<noteq> ACCEPTED) \<and>
    (\<exists>d \<in> set (rg_dispatch ?q). dw_operation d = j \<and> dw_state d = D_running \<and>
       dw_current_attempt_no d = Some (aw_attempt_no a))"
  proof (cases "j = i")
    case True
    have "a \<notin> set (rg_attempts r)"
      using quiet_accepted [OF ok x(1,2)] a(2,3) True by (auto simp: quiet_def)
    with a(1) x(3) have n: "aw_attempt_no a = ?n" by (auto simp: claim_writes_tables)
    have "claimed_dispatch c ?n d \<in> set (rg_dispatch ?q)"
      using find_dispatch_SomeD [OF d(1)] d(2) x(3) by (auto simp: claim_writes_tables set_update_rows)
    moreover have "z = x" if "z \<in> set (rg_operations r)" "or_operation z = i" for z
      using that find_op_iff [OF jok, of i z] x(1) by simp
    ultimately show ?thesis
      using True n x find_dispatch_SomeD [OF d(1)]
      by (intro conjI bexI [of _ "claimed_dispatch c ?n d"])
        (auto simp: claim_writes_tables set_update_rows)
  next
    case False
    with a x(3) have ar: "a \<in> set (rg_attempts r)" by (auto simp: claim_writes_tables)
    have own: "running_owned j r" using ok by (simp add: fences_ok_def)
    with ar a obtain e where e: "e \<in> set (rg_dispatch r)" "dw_operation e = j" "dw_state e = D_running"
      "dw_current_attempt_no e = Some (aw_attempt_no a)" by (auto simp: running_owned_def)
    with False x(3) have "e \<in> set (rg_dispatch ?q)"
      by (auto simp: claim_writes_tables set_update_rows image_iff intro!: bexI [of _ e])
    moreover have "or_state z \<noteq> ACCEPTED" if "z \<in> set (rg_operations ?q)" "or_operation z = j" for z
      using that own ar a by (auto simp: claim_writes_tables set_update_rows running_owned_def)
    ultimately show ?thesis using e by blast
  qed
qed

lemma claim_writes_fences:
  assumes ok: "fences_ok r" and jok: "reg_journal_ok r"
    and x: "find_op i r = Some x" "or_state x = ACCEPTED" "or_operation x = i"
    and d: "find_dispatch i r = Some d" "dw_state d = D_queued"
  shows "fences_ok (claim_writes c x r)"
proof -
  let ?q = "claim_writes c x r" and ?n = "next_attempt_no i r"
  have n: "?n = int (length (attempts_of i r)) + 1" by (rule next_attempt_no_eq [OF ok])
  have dd: "d \<in> set (rg_dispatch r)" "dw_operation d = i" using find_dispatch_SomeD [OF d(1)] by auto
  have keys: "map dw_operation (rg_dispatch ?q) = map dw_operation (rg_dispatch r)"
    by (simp add: claim_writes_tables map_update_rows)
  have opkeys: "or_operation ` set (rg_operations ?q) = or_operation ` set (rg_operations r)"
  proof -
    have "map or_operation (rg_operations ?q) = map or_operation (rg_operations r)"
      by (simp add: claim_writes_tables map_update_rows)
    then show ?thesis by (metis list.set_map)
  qed
  have latest: "latest_no j ?q = (if j = i then Some ?n else latest_no j r)" for j
    using x(3) n by (auto simp: latest_no_def attempts_of_claim)
  have disp: "dw_operation e \<in> or_operation ` set (rg_operations ?q) \<and>
      dw_current_attempt_no e = latest_no (dw_operation e) ?q" if e: "e \<in> set (rg_dispatch ?q)" for e
  proof (cases "dw_operation e = i")
    case True
    from e have "e = claimed_dispatch c ?n d"
      unfolding claim_writes_tables x(3)
      by (cases rule: in_update_rowsE) (use True dd d(2) dispatch_unique [OF ok] in force)+
    then show ?thesis using dd dispatch_accepted [OF ok dd(1)] by (simp add: latest opkeys)
  next
    case False
    with e x(3) have "e \<in> set (rg_dispatch r)"
      unfolding claim_writes_tables by (cases rule: in_update_rowsE) auto
    with False show ?thesis
      using dispatch_accepted [OF ok] dispatch_latest [OF ok] by (simp add: latest opkeys)
  qed
  have num: "map aw_attempt_no (attempts_of j ?q) = numbers (length (attempts_of j ?q))" for j
    using attempts_numbered [OF ok, of j] n x(3) by (auto simp: attempts_of_claim numbers_Suc)
  have att: "aw_operation a \<in> dw_operation ` set (rg_dispatch ?q) \<and> aw_state a \<noteq> Suspended_external"
    if "a \<in> set (rg_attempts ?q)" for a
  proof -
    have "aw_operation a \<in> set (map dw_operation (rg_dispatch r))"
      using that dd attempt_dispatched [OF ok] x(3) by (auto simp: claim_writes_tables)
    moreover have "aw_state a \<noteq> Suspended_external"
      using that ok by (auto simp: claim_writes_tables fences_ok_def)
    ultimately show ?thesis by (metis keys list.set_map)
  qed
  have ls: "map lease_key (rg_leases ?q) = map attempt_key (rg_attempts ?q)"
    using ok by (simp add: claim_writes_tables fences_ok_def)
  have eps: "\<forall>l \<in> set (rg_leases ?q). lw_lease_epoch l = lw_attempt_no l"
    using lease_epoch_no [OF ok] next_lease_epoch_eq [OF ok] by (auto simp: claim_writes_tables)
  have "distinct (map dw_operation (rg_dispatch ?q))" using ok keys by (simp add: fences_ok_def)
  then show ?thesis
    unfolding fences_ok_def
    using disp num att ls eps claim_writes_owned [OF ok jok x d] by blast
qed

lemma insert_event_fences:
  "fences_ok r \<Longrightarrow> fences_ok (insert_event i st ce v now nt an k pl r)"
  by (erule fences_same) (simp_all add: insert_event_def Let_def)

lemma claim_candidate_fences:
  assumes ok: "fences_ok r" and jok: "reg_journal_ok r"
    and x: "find_op (or_operation x) r = Some x" "or_state x = ACCEPTED"
    and d: "find_dispatch (or_operation x) r = Some d" "dw_state d = D_queued"
    and c: "claim_candidate c d x r = Inr (claim, r')"
  shows "fences_ok r'"
proof -
  have w: "fences_ok (claim_writes c x r)" by (rule claim_writes_fences [OF ok jok x refl d])
  from claim_candidate_Inr [OF c] obtain r2 pl where
    r2: "successor_started c (dw_kind d) (or_operation x) (next_attempt_no (or_operation x) r)
        (or_record_revision x + 1) (claim_writes c x r) = Inr r2" and
    r': "r' = insert_event (or_operation x) RUNNING CERTAIN (or_record_revision x + 1) (ca_now c)
        ''attempt_claimed'' (Some (next_attempt_no (or_operation x) r)) (Some ''attempt_claimed'') pl r2"
    by blast
  from successor_started_Inr [OF r2] w have "fences_ok r2" by (auto intro: insert_event_fences)
  then show ?thesis unfolding r' by (rule insert_event_fences)
qed

lemma expire_queued_fences:
  assumes ok: "fences_ok r" and x: "find_op (or_operation x) r = Some x" "or_state x = ACCEPTED"
  shows "fences_ok (expire_queued x now r)"
proof -
  let ?q = "expire_queued x now r"
  have "rg_attempts ?q = rg_attempts r" by (simp add: expire_queued_def set_defs)
  from quiet_frame [OF quiet_accepted [OF ok x] this]
  have "local_change (or_operation x) r ?q"
    by (simp add: local_change_def expire_queued_def set_defs dispatch_key_def change_intros)
  then show ?thesis by (rule fences_local [OF ok])
qed

definition parked :: "operation_ref \<Rightarrow> reg \<Rightarrow> reg" where
  "parked i r = set_dispatch i (\<lambda>_. True) (\<lambda>w. w\<lparr>dw_state := D_parked\<rparr>) r"

lemma parked_fences:
  assumes ok: "fences_ok r" and d: "find_dispatch i r = Some d" "dw_state d = D_queued"
  shows "fences_ok (parked i r)"
proof -
  have "quiet i r"
    using find_dispatch_SomeD [OF d(1)] d(2) by (intro quiet_not_running [OF ok, of d]) auto
  from quiet_frame [OF this, of "parked i r"]
  have "local_change i r (parked i r)"
    by (simp add: local_change_def parked_def set_dispatch_def dispatch_key_def change_intros)
  then show ?thesis by (rule fences_local [OF ok])
qed

lemma find_dispatch_update_other:
  "(\<And>d. dw_operation (f d) = dw_operation d) \<Longrightarrow> j \<noteq> i \<Longrightarrow>
   find_dispatch j (set_dispatch i p f r) = find_dispatch j r"
proof -
  assume a: "\<And>d. dw_operation (f d) = dw_operation d" "j \<noteq> i"
  have "fetchone (\<lambda>d. dw_operation d = j) (update_rows (\<lambda>d. dw_operation d = i \<and> p d) f t) =
      fetchone (\<lambda>d. dw_operation d = j) t" for t
    using a by (induction t) (auto simp: row_simps)
  then show ?thesis by (simp add: find_dispatch_def set_dispatch_def)
qed

lemma find_dispatch_cong: "rg_dispatch q = rg_dispatch r \<Longrightarrow> find_dispatch j q = find_dispatch j r"
  by (simp add: find_dispatch_def)

lemma expire_queued_find_dispatch:
  "j \<noteq> or_operation x \<Longrightarrow> find_dispatch j (expire_queued x now r) = find_dispatch j r"
proof -
  assume j: "j \<noteq> or_operation x"
  have "rg_dispatch (expire_queued x now r) = rg_dispatch (set_dispatch (or_operation x) (\<lambda>_. True)
      (\<lambda>d. d\<lparr>dw_state := D_completed, dw_finished_at := Some now\<rparr>) r)"
    by (simp add: expire_queued_def set_defs)
  from find_dispatch_cong [OF this] j show ?thesis by (simp add: find_dispatch_update_other)
qed

lemma claim_loop_fences:
  "fences_ok r \<Longrightarrow> reg_journal_ok r \<Longrightarrow> distinct (map (or_operation \<circ> snd) cs) \<Longrightarrow>
   \<forall>(d, x) \<in> set cs. find_op (or_operation x) r = Some x \<and>
     find_dispatch (or_operation x) r = Some d \<and> dw_state d = D_queued \<Longrightarrow>
   claim_loop c cs r = Inr (res, r') \<Longrightarrow> fences_ok r'"
proof (induction c cs r rule: claim_loop.induct)
  case (2 c d x rest r)
  let ?i = "or_operation x"
  have x: "find_op ?i r = Some x" "find_dispatch ?i r = Some d" "dw_state d = D_queued"
    using "2.prems"(4) by simp_all
  have tail: "\<forall>(d, y) \<in> set rest. find_op (or_operation y) q = Some y \<and>
      find_dispatch (or_operation y) q = Some d \<and> dw_state d = D_queued"
    if "\<And>j. j \<noteq> ?i \<Longrightarrow> find_op j q = find_op j r"
      "\<And>j. j \<noteq> ?i \<Longrightarrow> find_dispatch j q = find_dispatch j r" for q
  proof (intro ballI, clarify)
    fix e y assume y: "(e, y) \<in> set rest"
    with "2.prems"(3) have "or_operation y \<noteq> ?i" by force
    with that y "2.prems"(4) show "find_op (or_operation y) q = Some y \<and>
      find_dispatch (or_operation y) q = Some e \<and> dw_state e = D_queued" by auto
  qed
  have dist: "distinct (map (or_operation \<circ> snd) rest)" using "2.prems"(3) by (simp add: comp_def)
  show ?case
  proof (cases "or_state x = ACCEPTED")
    case False
    have q: "journal_of (parked ?i r) = journal_of r" "\<And>j. find_op j (parked ?i r) = find_op j r"
      "\<And>j. j \<noteq> ?i \<Longrightarrow> find_dispatch j (parked ?i r) = find_dispatch j r"
      by (simp_all add: journal_of_def find_op_def find_dispatch_update_other parked_def)
        (simp_all add: set_dispatch_def)
    show ?thesis
      by (rule "2.IH"(1) [folded parked_def, OF False parked_fences [OF "2.prems"(1) x(2,3)] _ dist
            tail [OF q(2,3)]])
        (use "2.prems"(2,5) False q(1) in \<open>auto simp: parked_def\<close>)
  next
    case acc: True
    show ?thesis
    proof (cases "ca_now c \<ge> en_deadline (or_request x)")
      case True
      have k: "dw_kind d \<noteq> ''rlm.workbench.execute''"
        "claim_loop c rest (expire_queued x (ca_now c) r) = Inr (res, r')"
        using "2.prems"(5) acc True by (auto split: if_splits)
      have a: "refines r (expire_queued x (ca_now c) r)"
        by (rule expire_queued_refines [OF "2.prems"(2) x(1) acc])
      show ?thesis
        by (rule "2.IH"(2) [OF _ True k(1) expire_queued_fences [OF "2.prems"(1) x(1) acc]
              journal_ok_steps [OF a "2.prems"(2)] dist
              tail [OF expire_queued_find_other expire_queued_find_dispatch] k(2)])
          (use acc in simp_all)
    next
      case False
      with "2.prems"(5) acc obtain claim where "claim_candidate c d x r = Inr (claim, r')"
        by (auto simp: res_simps)
      then show ?thesis
        by (rule claim_candidate_fences [OF "2.prems"(1,2) x(1) acc x(2,3)])
    qed
  qed
qed simp

lemma fences_dispatch_distinct: "fences_ok r \<Longrightarrow> distinct (map dw_operation (rg_dispatch r))"
  by (simp add: fences_ok_def)

lemma claim_candidates_found:
  assumes "fences_ok r" "reg_journal_ok r"
  shows "\<forall>(d, x) \<in> set (queued_candidates r). find_op (or_operation x) r = Some x \<and>
     find_dispatch (or_operation x) r = Some d \<and> dw_state d = D_queued"
  using queued_candidates_ok(2) [OF assms(2) fences_dispatch_distinct [OF assms(1)]]
    find_dispatch_iff [OF assms(1)] by fastforce

lemma claim_next_fences:
  assumes "fences_ok r" "reg_journal_ok r" "claim_next c r = Inr (res, r')"
  shows "fences_ok r'"
proof -
  from assms(3) have "claim_loop c (queued_candidates r) r = Inr (res, r')"
    by (simp add: claim_next_def split: if_splits)
  then show ?thesis
    by (rule claim_loop_fences [OF assms(1,2)
          queued_candidates_ok(1) [OF assms(2) fences_dispatch_distinct [OF assms(1)]]
          claim_candidates_found [OF assms(1,2)]])
qed

end
