(* ===== verification/Supervisor.thy ===== *)
theory Supervisor
  imports Registry_State
begin

text \<open>
  The supervisor and worker ownership tables of \<open>OperationRegistry\<close>: readiness receipts,
  the supervisor's lifecycle, reconciliation of predecessors at startup, and worker
  bindings with their fenced heartbeat and termination.
\<close>

section \<open>Supervisor runs\<close>

text \<open>A \<open>CHECK (column > 0)\<close> constraint.\<close>

definition check_positive :: "int \<Rightarrow> unit res" where
  "check_positive n = require (0 < n) (IntegrityError ''CHECK constraint failed'')"

definition find_supervisor_run :: "int \<Rightarrow> reg \<Rightarrow> supervisor_row res" where
  "find_supervisor_run g r =
     (case fetchone (\<lambda>s. su_runtime_generation s = g) (rg_supervisor_runs r) of
        None \<Rightarrow> Inl (RegistryError (''supervisor run '' @ itoa g @ '' does not exist''))
      | Some s \<Rightarrow> Inr s)"

text \<open>The arguments of \<open>record_supervisor_ready\<close> are the row's identifying columns.\<close>

definition record_supervisor_ready :: "supervisor_row \<Rightarrow> int \<Rightarrow> reg \<Rightarrow> (supervisor_row \<times> reg) res" where
  "record_supervisor_ready s now r =
     (if su_runtime_generation s \<noteq> rg_generation r \<or> su_dispatcher_generation s \<noteq> rg_generation r then
        Inl (StaleRuntimeGeneration (''supervisor generation '' @ itoa (su_runtime_generation s) @
          ''/'' @ itoa (su_dispatcher_generation s) @ '' does not match runtime '' @
          itoa (rg_generation r)))
      else
        let row = s\<lparr>su_state := S_ready, su_started_at := now, su_ready_at := Some now,
                    su_draining_at := None, su_stopped_at := None, su_terminal_reason := None\<rparr> in
        and_then (check_positive (su_pid s)) (\<lambda>_.
        and_then (insert_row (\<lambda>x y. su_runtime_generation x = su_runtime_generation y) row
            (rg_supervisor_runs r)) (\<lambda>t.
        let r1 = r\<lparr>rg_supervisor_runs := t\<rparr> in
        and_then (find_supervisor_run (su_runtime_generation s) r1) (\<lambda>m. Inr (m, r1)))))"

definition supervisor_target :: "string \<Rightarrow> supervisor_state res" where
  "supervisor_target t =
     (if t = ''degraded'' then Inr S_degraded
      else if t = ''draining'' then Inr S_draining
      else if t = ''reconcile-required'' then Inr S_reconcile_required
      else if t = ''stopped'' then Inr S_stopped
      else Inl (ValueError (''unsupported supervisor state transition: '' @ t)))"

fun supervisor_wire :: "supervisor_state \<Rightarrow> string" where
  "supervisor_wire S_ready = ''ready''"
| "supervisor_wire S_degraded = ''degraded''"
| "supervisor_wire S_draining = ''draining''"
| "supervisor_wire S_reconcile_required = ''reconcile-required''"
| "supervisor_wire S_stopped = ''stopped''"

fun supervisor_allowed :: "supervisor_state \<Rightarrow> supervisor_state set" where
  "supervisor_allowed S_ready = {S_degraded, S_draining, S_reconcile_required}"
| "supervisor_allowed S_degraded = {S_draining, S_reconcile_required}"
| "supervisor_allowed S_draining = {S_stopped, S_reconcile_required}"
| "supervisor_allowed S_reconcile_required = {S_stopped}"
| "supervisor_allowed S_stopped = {}"

definition transition_supervisor_run ::
    "int \<Rightarrow> int \<Rightarrow> string \<Rightarrow> string \<Rightarrow> string option \<Rightarrow> int \<Rightarrow> reg \<Rightarrow> (supervisor_row \<times> reg) res" where
  "transition_supervisor_run g pid identity state_text reason now r =
     and_then (supervisor_target state_text) (\<lambda>st.
     and_then (find_supervisor_run g r) (\<lambda>prior.
     if su_pid prior \<noteq> pid \<or> su_process_start_identity prior \<noteq> identity then
       Inl (StaleRuntimeGeneration ''supervisor process identity is stale'')
     else if st \<notin> supervisor_allowed (su_state prior) then
       Inl (InvalidTransition (''cannot transition supervisor '' @ supervisor_wire (su_state prior) @
         '' -> '' @ state_text))
     else
       let draining_at = (if st = S_draining then Some now else su_draining_at prior);
           stopped_at = (if st \<in> {S_reconcile_required, S_stopped} then Some now else None);
           r1 = r\<lparr>rg_supervisor_runs := update_rows
             (\<lambda>s. su_runtime_generation s = g \<and> su_pid s = pid \<and> su_process_start_identity s = identity)
             (\<lambda>s. s\<lparr>su_state := st, su_draining_at := draining_at, su_stopped_at := stopped_at,
                    su_terminal_reason := reason\<rparr>) (rg_supervisor_runs r)\<rparr>
       in and_then (find_supervisor_run g r1) (\<lambda>m. Inr (m, r1))))"

definition supervisor_runs :: "reg \<Rightarrow> supervisor_row list" where
  "supervisor_runs r = sort_key su_runtime_generation (rg_supervisor_runs r)"

definition supervisor_active :: "supervisor_state \<Rightarrow> bool" where
  "supervisor_active s \<longleftrightarrow> s \<in> {S_ready, S_degraded, S_draining}"

definition reconcile_predecessor_supervisor_runs :: "int \<Rightarrow> int \<Rightarrow> reg \<Rightarrow> (nat \<times> reg) res" where
  "reconcile_predecessor_supervisor_runs g now r =
     (if rg_generation r \<noteq> g then
        Inl (StaleRuntimeGeneration (''expected runtime generation '' @ itoa g @ '', current is '' @
          itoa (rg_generation r)))
      else
        let p = (\<lambda>s. su_runtime_generation s < g \<and> supervisor_active (su_state s)) in
        Inr (rowcount p (rg_supervisor_runs r),
          r\<lparr>rg_supervisor_runs := update_rows p
            (\<lambda>s. s\<lparr>su_state := S_reconcile_required, su_stopped_at := Some now,
                   su_terminal_reason := Some ''predecessor_process_absent_on_startup''\<rparr>)
            (rg_supervisor_runs r)\<rparr>))"

section \<open>Worker bindings\<close>

definition find_worker :: "string \<Rightarrow> reg \<Rightarrow> worker_row res" where
  "find_worker w r = (case fetchone (\<lambda>x. wr_worker_id x = w) (rg_workers r) of
     None \<Rightarrow> Inl (RegistryError (''worker binding '' @ w @ '' does not exist''))
   | Some x \<Rightarrow> Inr x)"

definition register_worker_binding :: "worker_row \<Rightarrow> int \<Rightarrow> reg \<Rightarrow> (worker_row \<times> reg) res" where
  "register_worker_binding w now r =
     (if wr_runtime_generation w \<noteq> rg_generation r then
        Inl (StaleRuntimeGeneration (''worker runtime generation '' @
          itoa (wr_runtime_generation w) @ '' does not match '' @ itoa (rg_generation r)))
      else
        let row = w\<lparr>wr_operation := None, wr_state := W_ready, wr_started_at := now,
                    wr_heartbeat_at := now, wr_last_event_sequence := 0, wr_ended_at := None,
                    wr_termination_receipt := None\<rparr> in
        and_then (check_positive (wr_workspace_generation w)) (\<lambda>_.
        and_then (check_positive (wr_pid w)) (\<lambda>_.
        and_then (insert_row (\<lambda>x y. wr_worker_id x = wr_worker_id y) row (rg_workers r)) (\<lambda>t.
        let r1 = r\<lparr>rg_workers := t\<rparr> in
        and_then (find_worker (wr_worker_id w) r1) (\<lambda>m. Inr (m, r1))))))"

definition worker_active :: "worker_state \<Rightarrow> bool" where
  "worker_active s \<longleftrightarrow> s \<in> {W_ready, W_busy, W_terminating}"

definition active_worker_target :: "string \<Rightarrow> worker_state res" where
  "active_worker_target t =
     (if t = ''ready'' then Inr W_ready else if t = ''busy'' then Inr W_busy
      else if t = ''terminating'' then Inr W_terminating
      else Inl (ValueError (''unsupported active worker state: '' @ t)))"

definition terminal_worker_target :: "string \<Rightarrow> worker_state res" where
  "terminal_worker_target t =
     (if t = ''lost'' then Inr W_lost else if t = ''quarantined'' then Inr W_quarantined
      else if t = ''terminated'' then Inr W_terminated
      else Inl (ValueError (''unsupported terminal worker state: '' @ t)))"

definition worker_fenced :: "worker_row \<Rightarrow> int \<Rightarrow> string \<Rightarrow> bool" where
  "worker_fenced b g identity \<longleftrightarrow>
     wr_runtime_generation b = g \<and> wr_process_start_identity b = identity \<and> worker_active (wr_state b)"

definition heartbeat_worker_binding ::
    "string \<Rightarrow> int \<Rightarrow> string \<Rightarrow> string \<Rightarrow> string option \<Rightarrow> int option \<Rightarrow> int \<Rightarrow> reg \<Rightarrow>
     (worker_row \<times> reg) res" where
  "heartbeat_worker_binding w g identity state_text op last_event_sequence now r =
     and_then (active_worker_target state_text) (\<lambda>st.
     and_then (find_worker w r) (\<lambda>binding.
     if \<not> worker_fenced binding g identity then
       Inl (StaleAttemptFence ''worker binding fence is stale'')
     else
       let sequence = (case last_event_sequence of
             None \<Rightarrow> wr_last_event_sequence binding | Some s \<Rightarrow> s) in
       if sequence < wr_last_event_sequence binding then
         Inl (StaleAttemptFence ''worker event sequence cannot move backwards'')
       else
         let r1 = r\<lparr>rg_workers := update_rows
             (\<lambda>x. wr_worker_id x = w \<and> wr_runtime_generation x = g \<and>
                wr_process_start_identity x = identity)
             (\<lambda>x. x\<lparr>wr_state := st, wr_operation := op, wr_heartbeat_at := now,
                    wr_last_event_sequence := sequence\<rparr>) (rg_workers r)\<rparr>
         in and_then (find_worker w r1) (\<lambda>m. Inr (m, r1))))"

text \<open>The two clock readings of one UPDATE.\<close>

definition finish_worker_binding ::
    "string \<Rightarrow> int \<Rightarrow> string \<Rightarrow> string \<Rightarrow> string \<Rightarrow> int \<Rightarrow> int \<Rightarrow> reg \<Rightarrow> (worker_row \<times> reg) res" where
  "finish_worker_binding w g identity state_text receipt now now2 r =
     and_then (terminal_worker_target state_text) (\<lambda>st.
     and_then (find_worker w r) (\<lambda>binding.
     if \<not> worker_fenced binding g identity then
       Inl (StaleAttemptFence ''worker terminal fence is stale'')
     else
       let r1 = r\<lparr>rg_workers := update_rows
           (\<lambda>x. wr_worker_id x = w \<and> wr_runtime_generation x = g \<and>
              wr_process_start_identity x = identity)
           (\<lambda>x. x\<lparr>wr_state := st, wr_operation := None, wr_heartbeat_at := now,
                  wr_ended_at := Some now2, wr_termination_receipt := Some receipt\<rparr>)
           (rg_workers r)\<rparr>
       in and_then (find_worker w r1) (\<lambda>m. Inr (m, r1))))"

definition active_worker_bindings :: "reg \<Rightarrow> worker_row list" where
  "active_worker_bindings r = sort_key (\<lambda>x. (wr_runtime_generation x, wr_worker_id x))
     (filter (\<lambda>x. worker_active (wr_state x)) (rg_workers r))"

end
