(* ===== verification/Registry_Invariant.thy ===== *)
theory Registry_Invariant
  imports Fences Supervisor
begin

text \<open>
  The registry's invariant, journal and fences together, for the remaining methods: the
  restart of the runtime, fenced outcomes, recovery and the workspace catalog; the step
  relation of the registry, its reachable states, and the theorems that hold of all of them.
\<close>

definition reg_ok :: "reg \<Rightarrow> bool" where
  "reg_ok r \<longleftrightarrow> reg_journal_ok r \<and> fences_ok r"

lemma reg_okI: "reg_journal_ok r \<Longrightarrow> refines r r' \<Longrightarrow> fences_ok r' \<Longrightarrow> reg_ok r'"
  by (auto simp: reg_ok_def intro: journal_ok_steps)

lemma reg_ok_init: "reg_ok reg_init"
  by (simp add: reg_ok_def fences_init) (simp add: journal_ok_def journal_of_def reg_init_def)

section \<open>Restart\<close>

lemma rebind_fences:
  assumes ok: "fences_ok r" and x: "find_op (or_operation x) r = Some x" "or_state x = ACCEPTED"
  shows "fences_ok (rebind_accepted g now r x)"
proof -
  let ?q = "rebind_accepted g now r x"
  have "rg_attempts ?q = rg_attempts r" by (simp add: rebind_accepted_def set_defs)
  from quiet_frame [OF quiet_accepted [OF ok x] this]
  have "local_change (or_operation x) r ?q"
    by (simp add: local_change_def rebind_accepted_def set_defs change_intros)
  then show ?thesis by (rule fences_local [OF ok])
qed

lemma running_same_no:
  assumes "fences_ok r" "a \<in> set (rg_attempts r)" "aw_state a = A_running"
    "b \<in> set (rg_attempts r)" "aw_state b = A_running" "aw_operation a = aw_operation b"
  shows "aw_attempt_no a = aw_attempt_no b"
  using running_latest [OF assms(1-3)] running_latest [OF assms(1,4,5)] assms(6) by simp

lemma fence_running_fences:
  assumes ok: "fences_ok r"
  shows "fences_ok (fence_running g now r x)"
proof -
  let ?i = "or_operation x" and ?q = "fence_running g now r x"
  let ?rs = "filter (\<lambda>a. aw_operation a = ?i \<and> aw_state a = A_running) (rg_attempts r)"
  have "local_change ?i r ?q"
  proof (cases "max_row aw_attempt_no ?rs")
    case None
    then have "quiet ?i r" by (auto simp: row_simps filter_empty_conv quiet_def)
    moreover have "rg_attempts ?q = rg_attempts r" "rg_leases ?q = rg_leases r"
      using None by (simp_all add: fence_running_def set_defs)
    ultimately show ?thesis
      using quiet_frame [of ?i r ?q]
      by (simp add: local_change_def) (simp add: fence_running_def set_defs None change_intros)
  next
    case (Some a)
    let ?f = "\<lambda>a. a\<lparr>aw_state := A_state INDETERMINATE, aw_certainty := INDETERMINATE_OUTCOME,
      aw_recovery_reason := Some ''runtime_restart'', aw_ended_at := Some now\<rparr>"
    have a: "a \<in> set (rg_attempts r)" "aw_operation a = ?i" "aw_state a = A_running"
      using max_row_Some [OF Some] by auto
    have att: "rg_attempts ?q = update_rows
        (\<lambda>b. aw_operation b = ?i \<and> aw_attempt_no b = aw_attempt_no a) ?f (rg_attempts r)"
      using Some by (simp add: fence_running_def set_defs)
    have same: "aw_attempt_no b = aw_attempt_no a \<and> True"
      if "b \<in> set (rg_attempts r)" "aw_operation b = ?i" "aw_state b = A_running" for b
      using running_same_no [OF ok that(1,3) a(1,3)] that(2) a(2) by simp
    have "quiet ?i ?q"
      by (rule quiet_after_attempt [OF ok, where n = "aw_attempt_no a" and p = "\<lambda>_. True" and f = ?f])
        (simp_all add: same att)
    then have "running_owned ?i ?q" by (rule quiet_running_owned)
    moreover have "attempts_change ?i (rg_attempts r) (rg_attempts ?q)"
      unfolding att by (rule attempts_change_update_all) (simp add: attempt_key_def)
    ultimately show ?thesis
      by (simp add: local_change_def)
        (simp add: fence_running_def set_defs Some lease_key_def change_intros)
  qed
  then show ?thesis by (rule fences_local [OF ok])
qed

lemma fold_rows_fences:
  assumes ref: "\<And>s x. P x \<Longrightarrow> reg_journal_ok s \<Longrightarrow> find_op (or_operation x) s = Some x \<Longrightarrow>
      refines s (f s x)"
    and step: "\<And>s x. P x \<Longrightarrow> fences_ok s \<Longrightarrow> find_op (or_operation x) s = Some x \<Longrightarrow> fences_ok (f s x)"
    and other: "\<And>s x j. j \<noteq> or_operation x \<Longrightarrow> find_op j (f s x) = find_op j s"
  shows "reg_journal_ok r \<Longrightarrow> fences_ok r \<Longrightarrow> distinct (map or_operation xs) \<Longrightarrow>
     \<forall>x \<in> set xs. P x \<and> find_op (or_operation x) r = Some x \<Longrightarrow> fences_ok (foldl f r xs)"
proof (induction xs arbitrary: r)
  case (Cons x xs)
  have x: "P x" "find_op (or_operation x) r = Some x" using Cons.prems(4) by simp_all
  have rest: "\<forall>y \<in> set xs. P y \<and> find_op (or_operation y) (f r x) = Some y"
  proof
    fix y assume y: "y \<in> set xs"
    with Cons.prems(3) have "or_operation y \<noteq> or_operation x"
      by (metis distinct.simps(2) image_eqI list.set_map list.simps(9))
    with other y Cons.prems(4) show "P y \<and> find_op (or_operation y) (f r x) = Some y" by simp
  qed
  have "fences_ok (foldl f (f r x) xs)"
    using Cons.prems(3)
    by (intro Cons.IH [OF journal_ok_steps [OF ref [OF x(1) Cons.prems(1) x(2)] Cons.prems(1)]
          step [OF x(1) Cons.prems(2) x(2)] _ rest]) simp
  then show ?case by simp
qed simp

lemma start_runtime_fences:
  assumes ok: "reg_ok r" and s: "start_runtime now r = (g, r')"
  shows "fences_ok r'"
proof -
  let ?r0 = "r\<lparr>rg_generation := rg_generation r + 1\<rparr>" and ?g = "rg_generation r + 1"
  let ?acc = "filter (\<lambda>x. or_state x = ACCEPTED) (rg_operations r)"
  let ?run = "filter (\<lambda>x. or_state x = RUNNING) (rg_operations r)"
  let ?r1 = "foldl (rebind_accepted ?g now) ?r0 ?acc"
  have r': "r' = foldl (fence_running ?g now) ?r1 ?run"
    using s by (auto simp: start_runtime_def Let_def)
  have jok0: "reg_journal_ok ?r0" using ok by (simp add: journal_of_def reg_ok_def)
  have fok0: "fences_ok ?r0" using ok by (auto simp: reg_ok_def elim!: fences_same)
  have d: "distinct (map or_operation (filter p (rg_operations r)))" for p
    using ok by (intro distinct_map_filter journal_distinct) (simp add: reg_ok_def)
  have found: "\<forall>x \<in> set ?acc. or_state x = ACCEPTED \<and> find_op (or_operation x) ?r0 = Some x"
    using find_op_iff [OF jok0] by simp
  have f1: "fences_ok ?r1"
    by (rule fold_rows_fences [where P = "\<lambda>x. or_state x = ACCEPTED", OF _ _ _ jok0 fok0 d found])
      (auto intro: rebind_refines rebind_fences rebind_find_other)
  have "fences_ok (foldl (fence_running ?g now) s xs)" if "fences_ok s" for s xs
    using that by (induction xs arbitrary: s) (auto intro: fence_running_fences)
  with f1 show ?thesis by (simp add: r')
qed

section \<open>Fenced outcomes\<close>

lemma find_exact_attempt_SomeD:
  "find_exact_attempt i n aid r = Some a \<Longrightarrow>
     a \<in> set (rg_attempts r) \<and> aw_operation a = i \<and> aw_attempt_no a = n \<and> aw_attempt_id a = aid"
  unfolding find_exact_attempt_def by (drule fetchone_SomeD) simp

text \<open>The running attempt a fence names is the only running one of its operation.\<close>

lemma only_running:
  assumes ok: "fences_ok r" and a: "find_exact_attempt i n aid r = Some a" "aw_state a = A_running"
    and b: "b \<in> set (rg_attempts r)" "aw_operation b = i" "aw_state b = A_running"
  shows "b = a"
proof -
  note f = find_exact_attempt_SomeD [OF a(1)]
  have "aw_attempt_no b = aw_attempt_no a"
    using running_same_no [OF ok b(1,3) _ a(2)] f b(2) by simp
  then show ?thesis
    using f b by (intro attempt_unique [OF ok]) (auto simp: attempt_key_def)
qed

lemma transition_claimed_fences:
  assumes ok: "fences_ok r" and t: "transition_claimed f st j fl note fn now r = Inr (rec, r')"
  shows "fences_ok r'"
proof -
  let ?i = "fn_operation f" and ?n = "fn_attempt_no f"
  from transition_claimed_Inr [OF t] obtain x a l pl where
    v: "validate_fence f fn r = Inr (a, l)"
    and r': "r' = insert_event ?i st (outcome_certainty_of st) (or_record_revision x + 1) now note
      (Some ?n) (Some note) pl (outcome_writes f st j fl note now x r)"
    and st: "terminal st \<or> st = INDETERMINATE" by (metis surj_pair)
  let ?q = "outcome_writes f st j fl note now x r"
  let ?fa = "\<lambda>a. a\<lparr>aw_state := A_state st, aw_certainty := outcome_certainty_of st,
               aw_recovery_reason := (if st = INDETERMINATE then Some note else None),
               aw_ended_at := Some now\<rparr>"
  have a: "find_exact_attempt ?i ?n (fn_attempt_id f) r = Some a" "aw_state a = A_running"
    using v by (auto simp: validate_fence_Inr)
  have att: "rg_attempts ?q = update_rows (\<lambda>b. aw_operation b = ?i \<and> aw_attempt_no b = ?n \<and>
      (aw_attempt_id b = fn_attempt_id f \<and> aw_state b = A_running)) ?fa (rg_attempts r)"
    by (simp add: outcome_writes_def set_defs)
  have only: "aw_attempt_no b = ?n \<and> aw_attempt_id b = fn_attempt_id f \<and> aw_state b = A_running"
    if "b \<in> set (rg_attempts r)" "aw_operation b = ?i" "aw_state b = A_running" for b
    using only_running [OF ok a that] find_exact_attempt_SomeD [OF a(1)] a(2) by simp
  have "quiet ?i ?q"
    by (rule quiet_after_attempt [OF ok _ _ att]) (use only st in \<open>auto simp: terminal_def\<close>)
  then have "running_owned ?i ?q" by (rule quiet_running_owned)
  moreover have "attempts_change ?i (rg_attempts r) (rg_attempts ?q)"
    unfolding att by (rule attempts_change_update) (simp add: attempt_key_def)
  ultimately have "local_change ?i r ?q"
    by (simp add: local_change_def)
      (simp add: outcome_writes_def set_defs outcome_op_def dispatch_key_def lease_key_def change_intros)
  then have "fences_ok ?q" by (rule fences_local [OF ok])
  then show ?thesis unfolding r' by (rule insert_event_fences)
qed

text \<open>A change of the attempt that keeps its state keeps ownership.\<close>

lemma running_owned_states:
  assumes ok: "fences_ok r"
    and ops: "rg_operations r' = rg_operations r" "rg_dispatch r' = rg_dispatch r"
    and att: "rg_attempts r' = update_rows p f (rg_attempts r)"
    and f: "\<And>a. aw_state (f a) = aw_state a \<and> attempt_key (f a) = attempt_key a"
  shows "running_owned i r'"
  unfolding running_owned_def ops
proof (intro ballI impI, elim conjE)
  fix a assume a: "a \<in> set (rg_attempts r')" "aw_operation a = i" "aw_state a = A_running"
  then obtain b where b: "b \<in> set (rg_attempts r)" "aw_state b = A_running"
    "attempt_key b = attempt_key a"
    unfolding att using f by (metis in_update_rowsE)
  have "running_owned i r" using ok by (simp add: fences_ok_def)
  moreover have "aw_operation b = i" "aw_attempt_no b = aw_attempt_no a"
    using b(3) a(2) by (auto simp: attempt_key_def)
  ultimately show "(\<forall>x \<in> set (rg_operations r). or_operation x = i \<longrightarrow> or_state x \<noteq> ACCEPTED) \<and>
    (\<exists>d \<in> set (rg_dispatch r). dw_operation d = i \<and> dw_state d = D_running \<and>
       dw_current_attempt_no d = Some (aw_attempt_no a))"
    using b(1,2) unfolding running_owned_def by metis
qed

lemma bind_checkpoint_fences:
  assumes ok: "fences_ok r" and b: "bind_checkpoint ref f ck ed fn now r = Inr (bd, r')"
  shows "fences_ok r'"
proof (cases "r' = r")
  case False
  let ?i = "fn_operation f"
  let ?fa = "\<lambda>a. a\<lparr>aw_checkpoint_digest := Some (ar_digest ck)\<rparr>"
  let ?p = "\<lambda>a. aw_operation a = ?i \<and> aw_attempt_no a = fn_attempt_no f \<and> aw_attempt_id a = fn_attempt_id f"
  from b False have t: "rg_operations r' = rg_operations r" "rg_dispatch r' = rg_dispatch r"
    "rg_leases r' = rg_leases r" "rg_attempts r' = update_rows ?p ?fa (rg_attempts r)"
    by (auto simp: bind_checkpoint_def res_simps set_defs split: if_splits option.splits)
  have "running_owned ?i r'"
    by (rule running_owned_states [OF ok t(1,2,4)]) (simp add: attempt_key_def)
  moreover have "attempts_change ?i (rg_attempts r) (rg_attempts r')"
    unfolding t(4) using ok
    by (auto simp: attempts_change_def map_update_rows attempt_key_def set_update_rows fences_ok_def)
  ultimately have "local_change ?i r r'" by (simp add: local_change_def t(1-3) change_intros)
  then show ?thesis by (rule fences_local [OF ok])
qed (use ok in simp)

lemma finish_attempt_fences:
  assumes ok: "fences_ok r" and h: "finish_attempt f fn now r = Inr (rec, r')"
  shows "fences_ok r'"
proof -
  let ?i = "fn_operation f" and ?n = "fn_attempt_no f"
  from finish_attempt_Inr [OF h] obtain a where
    a: "find_exact_attempt ?i ?n (fn_attempt_id f) r = Some a" and
    c: "r' = r \<or> aw_state a = A_running \<and> (\<exists>st. (terminal st \<or> st = INDETERMINATE) \<and>
      r' = finish_writes f st now r)" by blast
  have "fences_ok (finish_writes f st now r)"
    if st: "terminal st \<or> st = INDETERMINATE" and run: "aw_state a = A_running" for st
  proof (rule fences_local [OF ok])
    let ?q = "finish_writes f st now r"
    let ?fa = "\<lambda>a. a\<lparr>aw_state := A_state st, aw_certainty := outcome_certainty_of st,
               aw_ended_at := Some now\<rparr>"
    have att: "rg_attempts ?q = update_rows (\<lambda>b. aw_operation b = ?i \<and> aw_attempt_no b = ?n \<and>
        aw_attempt_id b = fn_attempt_id f) ?fa (rg_attempts r)"
      by (simp add: finish_writes_def set_defs)
    have only: "aw_attempt_no b = ?n \<and> aw_attempt_id b = fn_attempt_id f"
      if "b \<in> set (rg_attempts r)" "aw_operation b = ?i" "aw_state b = A_running" for b
      using only_running [OF ok a run that] find_exact_attempt_SomeD [OF a] by simp
    have "quiet ?i ?q"
      by (rule quiet_after_attempt [OF ok _ _ att]) (use only st in \<open>auto simp: terminal_def\<close>)
    then have "running_owned ?i ?q" by (rule quiet_running_owned)
    moreover have "attempts_change ?i (rg_attempts r) (rg_attempts ?q)"
      unfolding att by (rule attempts_change_update) (simp add: attempt_key_def)
    ultimately show "local_change ?i r ?q"
      by (simp add: local_change_def)
        (simp add: finish_writes_def set_defs dispatch_key_def lease_key_def change_intros)
  qed
  with c ok show ?thesis by auto
qed

section \<open>Expired attempts\<close>

lemma expired_rows_le_1:
  assumes ok: "fences_ok r"
  shows "length (expired_rows now r x) \<le> 1"
proof -
  have l: "length (filter (\<lambda>l. lw_operation l = or_operation x \<and> lw_attempt_no l = n \<and>
      lw_released_at l = None \<and> lw_expires_at l \<le> now) (rg_leases r)) \<le> 1" for n
    by (rule length_filter_key_le_1 [where k = lease_key and c = "(or_operation x, n)"])
      (use attempts_distinct [OF ok] ok in \<open>auto simp: lease_key_def fences_ok_def\<close>)
  have a: "length (filter (\<lambda>a. aw_operation a = or_operation x \<and>
      dw_current_attempt_no d = Some (aw_attempt_no a) \<and> aw_state a = A_running) (rg_attempts r)) \<le> 1" for d
    by (rule length_filter_key_le_1 [where k = attempt_key and
          c = "(or_operation x, the (dw_current_attempt_no d))"])
      (use attempts_distinct [OF ok] in \<open>auto simp: attempt_key_def\<close>)
  have d: "length (filter (\<lambda>d. dw_operation d = or_operation x \<and> dw_state d = D_running)
      (rg_dispatch r)) \<le> 1"
    by (rule length_filter_key_le_1 [where k = dw_operation and c = "or_operation x"])
      (use ok in \<open>auto simp: fences_ok_def\<close>)
  show ?thesis
  proof (cases "or_state x = RUNNING")
    case True
    show ?thesis
      unfolding expired_rows_def if_P [OF True]
      by (rule length_concat_le_1 [OF d], rule length_concat_le_1 [OF a]) (simp add: l del: One_nat_def)
  qed (simp add: expired_rows_def)
qed

definition candidate_ok :: "reg \<Rightarrow> op_row \<times> int \<times> lease_row \<Rightarrow> bool" where
  "candidate_ok r c = (case c of (x, n, l) \<Rightarrow> find_op (or_operation x) r = Some x \<and>
     or_state x = RUNNING \<and>
     (\<exists>d \<in> set (rg_dispatch r). dw_operation d = or_operation x \<and> dw_current_attempt_no d = Some n))"

lemma expired_candidates_ok:
  assumes jok: "reg_journal_ok r" and ok: "fences_ok r"
  shows "distinct (map (or_operation \<circ> fst) (expired_candidates now r))"
    and "\<forall>c \<in> set (expired_candidates now r). candidate_ok r c"
proof -
  have "distinct (map f (expired_rows now r x))" for x and f :: "_ \<Rightarrow> operation_ref"
    using expired_rows_le_1 [OF ok, of now x] by (cases "expired_rows now r x") auto
  then have "distinct (map (or_operation \<circ> fst) (concat (map (expired_rows now r) (rg_operations r))))"
    by (rule distinct_concat_keys [OF _ _ journal_distinct [OF jok]])
      (auto simp: expired_rows_def split: if_splits)
  then show "distinct (map (or_operation \<circ> fst) (expired_candidates now r))"
    by (simp only: expired_candidates_def distinct_map_sort_key)
  show "\<forall>c \<in> set (expired_candidates now r). candidate_ok r c"
    using find_op_iff [OF jok]
    by (auto simp: expired_candidates_def expired_rows_def candidate_ok_def split: if_splits)
qed

lemma fence_expired_one_frame:
  "rg_dispatch (fence_expired_one now x n l r) = rg_dispatch r"
  "j \<noteq> or_operation x \<Longrightarrow> find_op j (fence_expired_one now x n l r) = find_op j r"
proof -
  show "rg_dispatch (fence_expired_one now x n l r) = rg_dispatch r"
    by (simp add: fence_expired_one_def set_defs)
  have "rg_operations (fence_expired_one now x n l r) = rg_operations (set_op (or_operation x)
      (\<lambda>x. or_state x = RUNNING) (\<lambda>z. z\<lparr>or_state := INDETERMINATE,
        or_certainty := INDETERMINATE_OUTCOME, or_record_revision := or_record_revision x + 1,
        or_reconciliation_required := True, or_updated_at := now\<rparr>) r)"
    by (simp add: fence_expired_one_def set_defs)
  from find_op_cong [OF this]
  show "j \<noteq> or_operation x \<Longrightarrow> find_op j (fence_expired_one now x n l r) = find_op j r"
    by (simp add: find_op_set_op_other)
qed

lemma fence_expired_one_refines:
  assumes "reg_journal_ok r" "find_op (or_operation x) r = Some x" "or_state x = RUNNING"
  shows "refines r (fence_expired_one now x n l r)"
  unfolding fence_expired_one_def Let_def
  by (rule refine_move [OF assms(1,2), where p = "\<lambda>z. or_state z = RUNNING" and
        f = "\<lambda>z. z\<lparr>or_state := INDETERMINATE, or_certainty := INDETERMINATE_OUTCOME,
          or_record_revision := or_record_revision x + 1, or_reconciliation_required := True,
          or_updated_at := now\<rparr>"])
    (use assms(3) in \<open>auto simp: same_intent_def coherent_def set_op_def set_attempt_def set_lease_def\<close>)

lemma fence_expired_one_fences:
  assumes ok: "fences_ok r"
    and d: "d \<in> set (rg_dispatch r)" "dw_operation d = or_operation x" "dw_current_attempt_no d = Some n"
  shows "fences_ok (fence_expired_one now x n l r)"
proof (rule fences_local [OF ok])
  let ?q = "fence_expired_one now x n l r" and ?i = "or_operation x"
  let ?fa = "\<lambda>a. a\<lparr>aw_state := A_state INDETERMINATE, aw_certainty := INDETERMINATE_OUTCOME,
    aw_recovery_reason := Some ''lease_expired'', aw_ended_at := Some now\<rparr>"
  have att: "rg_attempts ?q = update_rows (\<lambda>a. aw_operation a = ?i \<and> aw_attempt_no a = n \<and>
      aw_state a = A_running) ?fa (rg_attempts r)"
    by (simp add: fence_expired_one_def set_defs)
  have only: "aw_attempt_no b = n \<and> aw_state b = A_running"
    if "b \<in> set (rg_attempts r)" "aw_operation b = ?i" "aw_state b = A_running" for b
    using running_current [OF ok d(1,2) that] d(3) that(3) by simp
  have "quiet ?i ?q" by (rule quiet_after_attempt [OF ok _ _ att]) (use only in auto)
  then have "running_owned ?i ?q" by (rule quiet_running_owned)
  moreover have "attempts_change ?i (rg_attempts r) (rg_attempts ?q)"
    unfolding att by (rule attempts_change_update) (simp add: attempt_key_def)
  ultimately show "local_change ?i r ?q"
    by (simp add: local_change_def)
      (simp add: fence_expired_one_def set_defs lease_key_def change_intros)
qed

lemma fence_expired_loop_ok:
  "reg_journal_ok r \<Longrightarrow> fences_ok r \<Longrightarrow> distinct (map (or_operation \<circ> fst) cs) \<Longrightarrow>
   \<forall>c \<in> set cs. candidate_ok r c \<Longrightarrow> fence_expired_loop now cs r = Inr (recs, r') \<Longrightarrow>
   refines r r' \<and> fences_ok r'"
proof (induction now cs r arbitrary: recs rule: fence_expired_loop.induct)
  case (2 now x n l rest r)
  let ?q = "fence_expired_one now x n l r"
  have x: "find_op (or_operation x) r = Some x" "or_state x = RUNNING"
    using "2.prems"(4) by (auto simp: candidate_ok_def)
  from "2.prems"(4) obtain d where d: "d \<in> set (rg_dispatch r)" "dw_operation d = or_operation x"
    "dw_current_attempt_no d = Some n" by (auto simp: candidate_ok_def)
  have a: "refines r ?q" by (rule fence_expired_one_refines [OF "2.prems"(1) x])
  have rest: "\<forall>c \<in> set rest. candidate_ok ?q c"
  proof
    fix c assume c: "c \<in> set rest"
    with "2.prems"(3) have "or_operation (fst c) \<noteq> or_operation x" by force
    then have "find_op (or_operation (fst c)) ?q = find_op (or_operation (fst c)) r"
      by (rule fence_expired_one_frame(2))
    with c "2.prems"(4) show "candidate_ok ?q c"
      by (auto simp: candidate_ok_def fence_expired_one_frame(1))
  qed
  from "2.prems"(5) obtain rec recs2 where
    "record_from_operation_id (or_operation x) ?q = Inr rec"
    "fence_expired_loop now rest ?q = Inr (recs2, r')"
    by (auto simp: res_simps Let_def)
  with "2.prems"(3) rest have "refines ?q r' \<and> fences_ok r'"
    by (intro "2.IH" [OF refl journal_ok_steps [OF a "2.prems"(1)]
          fence_expired_one_fences [OF "2.prems"(2) d]]) (auto simp: comp_def)
  with a show ?case by auto
qed simp

lemma fence_expired_attempts_ok:
  assumes jok: "reg_journal_ok r" and ok: "fences_ok r"
    and f: "fence_expired_attempts g now r = Inr (recs, r')"
  shows "refines r r' \<and> fences_ok r'"
proof -
  from f have "fence_expired_loop now (expired_candidates now r) r = Inr (recs, r')"
    by (simp add: fence_expired_attempts_def split: if_splits)
  then show ?thesis
    by (rule fence_expired_loop_ok [OF jok ok expired_candidates_ok [OF jok ok]])
qed

section \<open>Recovery\<close>

lemma find_attempt_iff:
  assumes "fences_ok r"
  shows "find_attempt i n r = Some a \<longleftrightarrow>
    a \<in> set (rg_attempts r) \<and> aw_operation a = i \<and> aw_attempt_no a = n"
proof
  assume a: "a \<in> set (rg_attempts r) \<and> aw_operation a = i \<and> aw_attempt_no a = n"
  then show "find_attempt i n r = Some a"
    unfolding find_attempt_def using attempts_distinct [OF assms]
    by (intro fetchone_key [where k = attempt_key]) (auto simp: attempt_key_def)
qed (auto dest: find_attempt_SomeD)

text \<open>The predecessor is the latest attempt, so a running attempt is the predecessor.\<close>

lemma running_is_prior:
  assumes ok: "fences_ok r"
    and b: "b \<in> set (rg_attempts r)" "aw_operation b = i" "aw_state b = A_running"
  shows "prior_attempt i r = Some b"
proof -
  from attempt_dispatched [OF ok b(1)] b(2) obtain d where
    d: "d \<in> set (rg_dispatch r)" "dw_operation d = i" by auto
  have "find_dispatch i r = Some d" using d find_dispatch_iff [OF ok] by simp
  moreover have "dw_current_attempt_no d = Some (aw_attempt_no b)"
    using running_current [OF ok d b] by simp
  moreover have "find_attempt i (aw_attempt_no b) r = Some b" using b find_attempt_iff [OF ok] by simp
  ultimately show ?thesis by (simp add: prior_attempt_def)
qed

lemma prior_attempt_SomeD:
  assumes "prior_attempt i r = Some a"
  shows "a \<in> set (rg_attempts r) \<and> aw_operation a = i"
proof -
  consider "max_row aw_attempt_no (filter (\<lambda>a. aw_operation a = i) (rg_attempts r)) = Some a"
    | n where "find_attempt i n r = Some a"
    using assms by (auto simp: prior_attempt_def split: option.splits)
  then show ?thesis
  proof cases
    case 1 then show ?thesis using max_row_Some [OF 1] by simp
  next
    case 2 then show ?thesis using find_attempt_SomeD by fast
  qed
qed

lemma no_dispatch_no_prior:
  "fences_ok r \<Longrightarrow> find_dispatch i r = None \<Longrightarrow> prior_attempt i r = None \<and> prior_attempt_no i r = None"
  using no_dispatch_no_attempts [of r i]
  by (simp add: prior_attempt_no_def prior_attempt_def attempts_of_def)

lemma close_prior_fences:
  assumes ok: "fences_ok r"
  shows "fences_ok (close_prior i rc now r) \<and> quiet i (close_prior i rc now r)"
proof (cases "prior_attempt i r")
  case None
  then have "close_prior i rc now r = r" by (simp add: close_prior_def)
  moreover have "quiet i r" using running_is_prior [OF ok] None by (auto simp: quiet_def)
  ultimately show ?thesis using ok by simp
next
  case (Some a)
  let ?q = "close_prior i rc now r" and ?n = "aw_attempt_no a"
  let ?fa = "\<lambda>a. a\<lparr>aw_state := A_state INDETERMINATE, aw_certainty := INDETERMINATE_OUTCOME,
    aw_recovery_reason := Some rc, aw_ended_at := Some now\<rparr>"
  note a = prior_attempt_SomeD [OF Some]
  have one: "b = a" if "b \<in> set (rg_attempts r)" "aw_operation b = i" "aw_state b = A_running" for b
    using running_is_prior [OF ok that] Some by simp
  have ls: "leases_change (rg_leases r) (rg_leases ?q)"
    by (simp add: close_prior_def Some Let_def set_lease_def set_attempt_def lease_key_def change_intros)
  have frame: "rg_operations ?q = rg_operations r" "rg_dispatch ?q = rg_dispatch r"
    using close_prior_frame [of i rc now r] by auto
  have att: "attempts_change i (rg_attempts r) (rg_attempts ?q) \<and> quiet i ?q"
  proof (cases "aw_state a = A_running")
    case True
    then have t: "rg_attempts ?q = update_rows (\<lambda>b. aw_operation b = i \<and> aw_attempt_no b = ?n) ?fa (rg_attempts r)"
      by (simp add: close_prior_def Some set_defs)
    have same: "aw_attempt_no b = ?n \<and> True"
      if "b \<in> set (rg_attempts r)" "aw_operation b = i" "aw_state b = A_running" for b
      using one [OF that] by simp
    have "quiet i ?q"
      by (rule quiet_after_attempt [OF ok, where n = ?n and p = "\<lambda>_. True" and f = ?fa])
        (simp_all add: same t)
    moreover have "attempts_change i (rg_attempts r) (rg_attempts ?q)"
      unfolding t by (rule attempts_change_update_all) (simp add: attempt_key_def)
    ultimately show ?thesis by simp
  next
    case False
    then have "rg_attempts ?q = rg_attempts r" by (simp add: close_prior_def Some set_defs)
    moreover have "quiet i r" using one False by (auto simp: quiet_def)
    ultimately show ?thesis by (simp add: quiet_def change_intros)
  qed
  then have "local_change i r ?q"
    using ls quiet_running_owned [of i ?q] by (simp add: local_change_def frame change_intros)
  with att show ?thesis using fences_local [OF ok] by simp
qed

lemma requeued_op_simps [simp]:
  "or_operation (requeued_op q v x) = or_operation x" "dispatch_key (queued_row now d) = dispatch_key d"
  by (simp_all add: requeued_op_def queued_row_def dispatch_key_def)

lemma requeue_commit_fences:
  assumes ok: "fences_ok r" and quiet: "quiet (qa_operation q) r"
    and x: "find_op (qa_operation q) r = Some x"
    and none: "find_dispatch (qa_operation q) r = None \<Longrightarrow> qa_prior_no q = None"
    and c: "requeue_commit q x cd bd r = Inr r'"
  shows "fences_ok r'"
proof -
  let ?i = "qa_operation q" and ?f = "requeued_op q (or_record_revision x + 1)"
  let ?r1 = "with_decision q cd bd r"
  have r1: "rg_operations ?r1 = rg_operations r" "rg_dispatch ?r1 = rg_dispatch r"
    "rg_attempts ?r1 = rg_attempts r" "rg_leases ?r1 = rg_leases r"
    by (simp_all add: with_decision_def)
  have ok1: "fences_ok ?r1" by (rule fences_same [OF ok r1])
  have quiet1: "quiet ?i ?r1" using quiet by (simp add: quiet_def r1)
  let ?r2 = "set_op ?i (\<lambda>_. True) ?f ?r1"
  have l2: "local_change ?i ?r1 ?r2"
    using quiet_frame [OF quiet1, of ?r2] by (simp add: local_change_def set_op_def change_intros)
  have ok2: "fences_ok ?r2" by (rule fences_local [OF ok1 l2])
  from requeue_commit_Inr [OF c] show ?thesis
  proof (elim disjE exE conjE)
    fix r2
    assume d: "requeue_dispatch ?i (qa_policy q) (qa_prior_no q) (qa_now q) ?r2 = Inr r2"
      and r': "r' = log_decision q (next_decision_no ?i r) bd ACCEPTED CERTAIN
        (or_record_revision x + 1) r2"
    have fd: "find_dispatch ?i ?r2 = find_dispatch ?i r"
      by (simp add: find_dispatch_def set_op_def r1)
    have "fences_ok r2"
    proof (cases "find_dispatch ?i r")
      case None
      with d fd obtain e where e: "r2 = ?r2\<lparr>rg_dispatch := rg_dispatch ?r2 @ [e]\<rparr>" "dw_operation e = ?i"
        "dw_current_attempt_no e = qa_prior_no q"
        by (auto simp: requeue_dispatch_def)
      have "latest_no ?i ?r2 = None"
        using no_dispatch_no_attempts [OF ok None]
        by (simp add: latest_no_def attempts_of_def set_op_def r1)
      moreover have "?i \<in> or_operation ` set (rg_operations ?r2)"
        using find_op_accepted [OF x] l2 r1 by (auto simp: local_change_def ops_change_def)
      ultimately show ?thesis
        using e none [OF None] fd None by (intro fences_new_dispatch [OF ok2, of e]) auto
    next
      case (Some w)
      with d fd have r2: "r2 = set_dispatch ?i (\<lambda>_. True) (queued_row (qa_now q)) ?r2"
        by (auto simp: requeue_dispatch_def split: if_splits)
      have "quiet ?i ?r2" using quiet1 by (simp add: quiet_def set_op_def)
      from quiet_frame [OF this, of r2] have "local_change ?i ?r2 r2"
        by (simp add: local_change_def r2 set_dispatch_def change_intros)
      then show ?thesis by (rule fences_local [OF ok2])
    qed
    then show ?thesis unfolding r' log_decision_def by (rule insert_event_fences)
  next
    assume r': "r' = log_decision q (next_decision_no ?i r) bd INDETERMINATE INDETERMINATE_OUTCOME
        (or_record_revision x) (set_dispatch ?i (\<lambda>_. True)
          (\<lambda>d. d\<lparr>dw_state := D_parked, dw_finished_at := Some (qa_now q)\<rparr>) ?r1)"
    let ?q = "set_dispatch ?i (\<lambda>_. True)
          (\<lambda>d. d\<lparr>dw_state := D_parked, dw_finished_at := Some (qa_now q)\<rparr>) ?r1"
    have "local_change ?i ?r1 ?q"
      using quiet_frame [OF quiet1, of ?q]
      by (simp add: local_change_def set_dispatch_def dispatch_key_def change_intros)
    then show ?thesis unfolding r' log_decision_def by (intro insert_event_fences fences_local [OF ok1])
  qed
qed

lemma requeue_fences:
  assumes ok: "fences_ok r"
    and q: "requeue_indeterminate i g dt rc ind policy bd now r = Inr (rec, r')"
  shows "fences_ok r'"
proof -
  from requeue_Inr [OF q] obtain row decision q cd bdg r2 where row: "find_op i r = Some row" and
    qa: "q = \<lparr>qa_operation = i, qa_runtime_generation = g, qa_decision = decision,
      qa_reason_code = rc, qa_input_digest = or_input_digest row, qa_policy = policy,
      qa_prior_no = prior_attempt_no i r, qa_now = now\<rparr>"
    and cont: "requeue_continuation q bd (prior_attempt i r) row (close_prior i rc now r) =
      Inr ((cd, bdg), r2)"
    and c: "requeue_commit q row cd bdg r2 = Inr r'" by blast
  from close_prior_frame [of i rc now r] requeue_continuation_frame [OF cont]
  have same: "rg_operations r2 = rg_operations r" "rg_dispatch r2 = rg_dispatch r"
    "rg_operations r2 = rg_operations (close_prior i rc now r)"
    "rg_dispatch r2 = rg_dispatch (close_prior i rc now r)"
    "rg_attempts r2 = rg_attempts (close_prior i rc now r)"
    "rg_leases r2 = rg_leases (close_prior i rc now r)" by auto
  have cp: "fences_ok (close_prior i rc now r)" "quiet i (close_prior i rc now r)"
    using close_prior_fences [OF ok] by auto
  have "find_dispatch i r2 = None \<Longrightarrow> prior_attempt_no i r = None"
    using no_dispatch_no_prior [OF ok, of i] by (simp add: find_dispatch_def same(2))
  then show ?thesis
    using cp row qa
    by (intro requeue_commit_fences [OF fences_same [OF cp(1) same(3-6)] _ _ _ c])
      (auto simp: quiet_def same(5) find_op_def same(1))
qed

lemma receipt_row_simps [simp]:
  "or_operation (receipt_op st g j v now x) = or_operation x"
  "or_state (receipt_op st g j v now x) = st"
  "aw_state (receipt_attempt st rc now a) = A_state st"
  "attempt_key (receipt_attempt st rc now a) = attempt_key a"
  by (simp_all add: receipt_op_def receipt_attempt_def attempt_key_def)

lemma recover_terminal_fences:
  assumes ok: "fences_ok r"
    and q: "recover_terminal_from_receipt i g st j rc ind now r = Inr (rec, r')"
  shows "fences_ok r'"
proof -
  from recover_terminal_Inr [OF q] obtain x d pl where
    st: "st \<in> {SUCCEEDED, CANCELLED, TIMED_OUT}" and d: "find_dispatch i r = Some d" and
    r': "r' = insert_event i st CERTAIN (or_record_revision x + 1) now ''terminal_from_receipt''
        (dw_current_attempt_no d) (Some ''terminal_from_receipt'') pl
        (receipt_writes i st j rc ind now x (dw_current_attempt_no d) r)"
    by blast
  let ?q = "receipt_writes i st j rc ind now x (dw_current_attempt_no d) r"
  have dd: "d \<in> set (rg_dispatch r)" "dw_operation d = i" using find_dispatch_SomeD [OF d] by auto
  have att: "attempts_change i (rg_attempts r) (rg_attempts ?q) \<and> quiet i ?q"
  proof (cases "dw_current_attempt_no d")
    case None
    then have "rg_attempts ?q = rg_attempts r" by (simp add: receipt_writes_def set_defs)
    moreover have "quiet i r" using running_current [OF ok dd] None by (auto simp: quiet_def)
    ultimately show ?thesis by (simp add: quiet_def change_intros)
  next
    case (Some n)
    have t: "rg_attempts ?q = update_rows (\<lambda>b. aw_operation b = i \<and> aw_attempt_no b = n)
        (receipt_attempt st rc now) (rg_attempts r)"
      using Some by (simp add: receipt_writes_def set_defs)
    have same: "aw_attempt_no b = n \<and> True"
      if "b \<in> set (rg_attempts r)" "aw_operation b = i" "aw_state b = A_running" for b
      using running_current [OF ok dd that] Some by simp
    have "quiet i ?q"
      by (rule quiet_after_attempt [OF ok, where n = n and p = "\<lambda>_. True" and f = "receipt_attempt st rc now"])
        (use st in \<open>auto simp: same t\<close>)
    moreover have "attempts_change i (rg_attempts r) (rg_attempts ?q)"
      unfolding t by (rule attempts_change_update_all) simp
    ultimately show ?thesis by simp
  qed
  have rest: "rg_leases ?q = rg_leases r"
    "rg_operations ?q = update_rows (\<lambda>x. or_operation x = i \<and> or_state x = INDETERMINATE)
      (receipt_op st (rg_generation r) j (or_record_revision x + 1) now) (rg_operations r)"
    "rg_dispatch ?q = update_rows (\<lambda>d. dw_operation d = i)
      (\<lambda>d. d\<lparr>dw_state := D_completed, dw_finished_at := Some now\<rparr>) (rg_dispatch r)"
    by (simp_all add: receipt_writes_def set_defs split: option.splits)
  have "local_change i r ?q"
    using att quiet_running_owned [of i ?q]
    by (simp add: local_change_def rest change_intros dispatch_key_def)
  then show ?thesis unfolding r' by (intro insert_event_fences fences_local [OF ok])
qed

section \<open>Workspace checkpoints\<close>

lemma succeed_workspace_checkpoint_fences:
  assumes ok: "fences_ok r" and s: "succeed_workspace_checkpoint i m g now r = Inr (rec, r')"
  shows "fences_ok r'"
proof -
  from succeed_workspace_checkpoint_Inr [OF s] obtain x where x: "find_op i r = Some x" and
    r': "r' = insert_event i SUCCEEDED CERTAIN (or_record_revision x + 1) now ''succeeded'' None None
        None (publish_writes i m now x r)" by blast
  let ?q = "publish_writes i m now x r" and ?f = "published_op m (or_record_revision x + 1) now"
  have f: "or_operation (?f z) = or_operation z" "or_state (?f z) = SUCCEEDED" for z
    by (simp_all add: published_op_def)
  have t: "rg_operations ?q = update_rows (\<lambda>z. or_operation z = i \<and> or_state z = RUNNING) ?f (rg_operations r)"
    "rg_dispatch ?q = rg_dispatch r" "rg_attempts ?q = rg_attempts r" "rg_leases ?q = rg_leases r"
    by (simp_all add: publish_writes_def set_defs split: option.splits)
  have "or_state z \<noteq> ACCEPTED \<or> z \<in> set (rg_operations r)" if "z \<in> set (rg_operations ?q)" for z
    using that f(2) unfolding t(1) by (cases rule: in_update_rowsE) simp_all
  then have "running_owned i ?q"
    using running_owned_frame [OF ok t(3), of i] t(2) by metis
  then have "local_change i r ?q" by (simp add: local_change_def t f change_intros)
  then show ?thesis unfolding r' by (intro insert_event_fences fences_local [OF ok])
qed

lemma workspace_fences:
  assumes "fences_ok r"
  shows "record_workspace_checkpoint m now r = Inr (m', r') \<Longrightarrow> fences_ok r'"
    "select_workspace_checkpoint s g now r = Inr (s', r') \<Longrightarrow> fences_ok r'"
    "mark_workspace_checkpoint_restored s h g now r = Inr (h', r') \<Longrightarrow> fences_ok r'"
  using assms
  by (auto simp: record_workspace_checkpoint_def select_workspace_checkpoint_def
    mark_workspace_checkpoint_restored_def res_simps Let_def insert_event_def
    split: if_splits option.splits elim!: fences_same)

section \<open>Steps of the registry\<close>

text \<open>
  One constructor per state-changing method, for a call that returns; a call that raises
  leaves the state. The lifecycle methods share \<open>transition\<close> with the arguments each passes.
  \<open>accept\<close> is taken without its caller's admission hook.
\<close>

inductive reg_step :: "reg \<Rightarrow> reg \<Rightarrow> bool" where
  start: "start_runtime now r = (g, r') \<Longrightarrow> reg_step r r'"
| accept: "accept e pl None now r = Inr (res, r') \<Longrightarrow> reg_step r r'"
| bind_policy: "bind_recovery_policy i k p ed now r = Inr (pb, r') \<Longrightarrow> reg_step r r'"
| begin_: "begin_op i g now r = Inr (rec, r') \<Longrightarrow> reg_step r r'"
| succeed: "succeed i j b g now r = Inr (rec, r') \<Longrightarrow> reg_step r r'"
| fail: "fail_op i fl b oj g now r = Inr (rec, r') \<Longrightarrow> reg_step r r'"
| cancel: "cancel i oj g now r = Inr (rec, r') \<Longrightarrow> reg_step r r'"
| time_out: "time_out i oj g now r = Inr (rec, r') \<Longrightarrow> reg_step r r'"
| mark: "mark_indeterminate i note g now r = Inr (rec, r') \<Longrightarrow> reg_step r r'"
| dispatch: "request_dispatch i k now r = Inr (d, r') \<Longrightarrow> reg_step r r'"
| claim: "claim_next c r = Inr (res, r') \<Longrightarrow> reg_step r r'"
| heartbeat: "heartbeat f dur fn now r = Inr (m, r') \<Longrightarrow> reg_step r r'"
| request_cancel: "request_cancel i who rc now r = Inr (m, r') \<Longrightarrow> reg_step r r'"
| cancel_queued: "cancel_queued_dispatch i g oj now r = Inr (res, r') \<Longrightarrow> reg_step r r'"
| outcome: "transition_claimed f st oj fl note fn now r = Inr (rec, r') \<Longrightarrow> reg_step r r'"
| checkpoint: "bind_checkpoint ref f ck ed fn now r = Inr (b, r') \<Longrightarrow> reg_step r r'"
| finish: "finish_attempt f fn now r = Inr (rec, r') \<Longrightarrow> reg_step r r'"
| fence_expired: "fence_expired_attempts g now r = Inr (recs, r') \<Longrightarrow> reg_step r r'"
| requeue: "requeue_indeterminate i g dt rc ind policy bd now r = Inr (rec, r') \<Longrightarrow> reg_step r r'"
| receipt: "recover_terminal_from_receipt i g st j rc ind now r = Inr (rec, r') \<Longrightarrow> reg_step r r'"
| publish: "succeed_workspace_checkpoint i m g now r = Inr (rec, r') \<Longrightarrow> reg_step r r'"
| catalogue: "record_workspace_checkpoint m now r = Inr (m', r') \<Longrightarrow> reg_step r r'"
| select: "select_workspace_checkpoint s g now r = Inr (s', r') \<Longrightarrow> reg_step r r'"
| restored: "mark_workspace_checkpoint_restored s h g now r = Inr (h', r') \<Longrightarrow> reg_step r r'"
| supervisor_ready: "record_supervisor_ready su now r = Inr (m, r') \<Longrightarrow> reg_step r r'"
| supervisor_move: "transition_supervisor_run g pid ident t reason now r = Inr (m, r') \<Longrightarrow> reg_step r r'"
| supervisor_reconcile: "reconcile_predecessor_supervisor_runs g now r = Inr (n, r') \<Longrightarrow> reg_step r r'"
| worker_register: "register_worker_binding w now r = Inr (m, r') \<Longrightarrow> reg_step r r'"
| worker_heartbeat: "heartbeat_worker_binding w g ident t op sq now r = Inr (m, r') \<Longrightarrow> reg_step r r'"
| worker_finish: "finish_worker_binding w g ident t rcpt now now2 r = Inr (m, r') \<Longrightarrow> reg_step r r'"

inductive_cases reg_stepE: "reg_step r r'"

abbreviation reg_steps :: "reg \<Rightarrow> reg \<Rightarrow> bool" where
  "reg_steps \<equiv> reg_step\<^sup>*\<^sup>*"

definition reachable :: "reg \<Rightarrow> bool" where
  "reachable r \<longleftrightarrow> reg_steps reg_init r"

text \<open>The supervisor and worker methods touch only their own tables.\<close>

definition owners_only :: "reg \<Rightarrow> reg \<Rightarrow> bool" where
  "owners_only r r' \<longleftrightarrow> (\<exists>s w. r' = r\<lparr>rg_supervisor_runs := s, rg_workers := w\<rparr>)"

lemma owners_onlyI:
  "r' = r\<lparr>rg_supervisor_runs := s\<rparr> \<Longrightarrow> owners_only r r'"
  "r' = r\<lparr>rg_workers := w\<rparr> \<Longrightarrow> owners_only r r'"
  unfolding owners_only_def
  by (rule exI [of _ s], rule exI [of _ "rg_workers r"], simp)
    (rule exI [of _ "rg_supervisor_runs r"], rule exI [of _ w], simp)

lemma owners_only_steps:
  "record_supervisor_ready su now r = Inr (ms, r') \<Longrightarrow> owners_only r r'"
  "transition_supervisor_run g pid ident t reason now r = Inr (ms, r') \<Longrightarrow> owners_only r r'"
  "reconcile_predecessor_supervisor_runs g now r = Inr (n, r') \<Longrightarrow> owners_only r r'"
  "register_worker_binding w now r = Inr (mw, r') \<Longrightarrow> owners_only r r'"
  "heartbeat_worker_binding wi g ident t op sq now r = Inr (mw, r') \<Longrightarrow> owners_only r r'"
  "finish_worker_binding wi g ident t rcpt now now2 r = Inr (mw, r') \<Longrightarrow> owners_only r r'"
  by (auto simp: record_supervisor_ready_def transition_supervisor_run_def
    reconcile_predecessor_supervisor_runs_def register_worker_binding_def
    heartbeat_worker_binding_def finish_worker_binding_def res_simps Let_def
    split: if_splits option.splits intro: owners_onlyI)

lemma owners_only_frame:
  assumes "owners_only r r'"
  shows "refines r r'" "fences_ok r \<Longrightarrow> fences_ok r'"
  using assms by (auto simp: owners_only_def journal_of_def elim!: fences_same)

lemma step_refines:
  assumes step: "reg_step r r'" and ok: "reg_ok r"
  shows "refines r r'"
proof -
  have j: "reg_journal_ok r" and f: "fences_ok r" using ok by (auto simp: reg_ok_def)
  from step show ?thesis
    by cases
      (erule start_runtime_refines [OF j] accept_refines bind_recovery_policy_refines [OF j]
        begin_refines [OF j] succeed_refines [OF j] fail_refines [OF j] cancel_refines [OF j]
        time_out_refines [OF j] mark_indeterminate_refines [OF j] request_dispatch_refines
        claim_next_refines [OF j fences_dispatch_distinct [OF f]] heartbeat_refines
        request_cancel_refines cancel_queued_refines [OF j] transition_claimed_refines [OF j]
        bind_checkpoint_refines finish_attempt_refines
        fence_expired_attempts_ok [OF j f, THEN conjunct1] requeue_refines [OF j]
        recover_terminal_refines [OF j] succeed_workspace_checkpoint_refines [OF j]
        record_workspace_checkpoint_refines select_workspace_checkpoint_refines [OF j]
        mark_restored_refines [OF j] owners_only_frame(1) [OF owners_only_steps(1)]
        owners_only_frame(1) [OF owners_only_steps(2)] owners_only_frame(1) [OF owners_only_steps(3)]
        owners_only_frame(1) [OF owners_only_steps(4)] owners_only_frame(1) [OF owners_only_steps(5)]
        owners_only_frame(1) [OF owners_only_steps(6)])+
qed

lemma step_fences:
  assumes step: "reg_step r r'" and ok: "reg_ok r"
  shows "fences_ok r'"
proof -
  have j: "reg_journal_ok r" and f: "fences_ok r" using ok by (auto simp: reg_ok_def)
  note own = owners_only_frame(2) [OF _ f]
  from step show ?thesis
    by cases
      (erule start_runtime_fences [OF ok] accept_fences [OF f] bind_recovery_policy_fences [OF f]
        lifecycle_fences [OF f] request_dispatch_fences [OF f] claim_next_fences [OF f j]
        heartbeat_fences [OF f] request_cancel_fences [OF f] cancel_queued_fences [OF f]
        transition_claimed_fences [OF f] bind_checkpoint_fences [OF f] finish_attempt_fences [OF f]
        fence_expired_attempts_ok [OF j f, THEN conjunct2] requeue_fences [OF f]
        recover_terminal_fences [OF f] succeed_workspace_checkpoint_fences [OF f]
        workspace_fences [OF f] own [OF owners_only_steps(1)] own [OF owners_only_steps(2)]
        own [OF owners_only_steps(3)] own [OF owners_only_steps(4)] own [OF owners_only_steps(5)]
        own [OF owners_only_steps(6)])+
qed

lemma reg_ok_step:
  assumes step: "reg_step r r'" and ok: "reg_ok r"
  shows "reg_ok r'"
proof -
  have "reg_journal_ok r" using ok unfolding reg_ok_def by (rule conjunct1)
  then show ?thesis by (rule reg_okI [OF _ step_refines [OF step ok] step_fences [OF step ok]])
qed

text \<open>The registry is a journaled store.\<close>

interpretation registry: journaled_store journal_of reg_step reg_ok
  by unfold_locales (simp add: reg_ok_def, erule (1) reg_ok_step, erule (1) step_refines)

lemma reachable_ok: "reachable r \<Longrightarrow> reg_ok r"
  unfolding reachable_def by (rule registry.steps_ok [OF _ reg_ok_init])

lemma reachable_steps: "reachable r \<Longrightarrow> reg_steps r r' \<Longrightarrow> reachable r'"
  unfolding reachable_def by (rule rtranclp_trans)

text \<open>The journal's facts on \<open>find_op\<close> and the event table.\<close>

lemma find_op_ok_iff:
  "reg_ok r \<Longrightarrow> find_op i r = Some x \<longleftrightarrow> x \<in> set (rg_operations r) \<and> or_operation x = i"
  by (simp add: reg_ok_def find_op_iff)

lemma find_op_later:
  assumes "reg_steps r r'" "reg_ok r" "find_op i r = Some x"
  obtains y where "find_op i r' = Some y" "later x y"
proof -
  have "x \<in> set (fst (journal_of r))" using assms(3) find_op_SomeD by (simp add: journal_of_def)
  then obtain y where y: "y \<in> set (fst (journal_of r'))" "later x y"
    by (rule registry.row_later [OF assms(1,2)])
  have "or_operation y = i" using y(2) find_op_SomeD [OF assms(3)] by (simp add: later_def same_intent_def)
  then have "find_op i r' = Some y"
    using y(1) find_op_ok_iff [OF registry.steps_ok [OF assms(1,2)]] by (simp add: journal_of_def)
  with y(2) that show thesis by blast
qed

end
