(* ===== verification/Registry_Monotone.thy ===== *)
theory Registry_Monotone
  imports Registry_Invariant
begin

text \<open>
  What no step of the registry undoes, beside the journal: the runtime generation never
  goes back, an attempt keeps its identity and once it has left \<open>running\<close> never returns to
  it, a requested cancellation stays as it was requested, and a bound recovery policy is
  never replaced.
\<close>

section \<open>The relation\<close>

definition same_attempt :: "attempt_row \<Rightarrow> attempt_row \<Rightarrow> bool" where
  "same_attempt a b \<longleftrightarrow> attempt_key b = attempt_key a \<and> aw_attempt_id b = aw_attempt_id a \<and>
     aw_runtime_generation b = aw_runtime_generation a \<and>
     aw_dispatcher_generation b = aw_dispatcher_generation a \<and>
     (aw_state b = A_running \<longrightarrow> aw_state a = A_running)"

lemma same_attempt_refl [simp]: "same_attempt a a"
  by (simp add: same_attempt_def)

lemma same_attempt_trans: "same_attempt a b \<Longrightarrow> same_attempt b c \<Longrightarrow> same_attempt a c"
  by (simp add: same_attempt_def)

definition attempts_later :: "attempt_row tbl \<Rightarrow> attempt_row tbl \<Rightarrow> bool" where
  "attempts_later t u \<longleftrightarrow> (\<forall>a \<in> set t. \<exists>b \<in> set u. same_attempt a b)"

definition evolves :: "reg \<Rightarrow> reg \<Rightarrow> bool" where
  "evolves r r' \<longleftrightarrow> rg_generation r \<le> rg_generation r' \<and>
     attempts_later (rg_attempts r) (rg_attempts r') \<and>
     (\<forall>i c. find_control i r = Some c \<and> cw_cancellation_requested c \<longrightarrow> find_control i r' = Some c) \<and>
     (\<forall>i p. find_policy i r = Some p \<longrightarrow> find_policy i r' = Some p)"

named_theorems evolves_intros \<open>writes that only move forward\<close>

lemma evolves_refl [evolves_intros, simp]: "evolves r r"
  by (auto simp: evolves_def attempts_later_def intro: same_attempt_refl)

lemma evolves_trans: "evolves r s \<Longrightarrow> evolves s t \<Longrightarrow> evolves r t"
  unfolding evolves_def attempts_later_def by (meson order_trans same_attempt_trans)

text \<open>A write that leaves the four tables alone, and the writes of the shared statements.\<close>

lemma evolves_frame:
  "rg_generation s = rg_generation r \<Longrightarrow> rg_attempts s = rg_attempts r \<Longrightarrow>
   rg_controls s = rg_controls r \<Longrightarrow> rg_policies s = rg_policies r \<Longrightarrow> evolves r s"
  by (auto simp: evolves_def attempts_later_def find_control_def find_policy_def
      intro: same_attempt_refl)

lemma evolves_tables [evolves_intros]:
  "evolves r s \<Longrightarrow> evolves r (s\<lparr>rg_operations := t1\<rparr>)"
  "evolves r s \<Longrightarrow> evolves r (s\<lparr>rg_leases := t2\<rparr>)"
  "evolves r s \<Longrightarrow> evolves r (s\<lparr>rg_dispatch := t3\<rparr>)"
  "evolves r s \<Longrightarrow> evolves r (s\<lparr>rg_checkpoints := t4\<rparr>)"
  "evolves r s \<Longrightarrow> evolves r (s\<lparr>rg_decisions := t5\<rparr>)"
  "evolves r s \<Longrightarrow> evolves r (s\<lparr>rg_rlm_boundaries := t6\<rparr>)"
  "evolves r s \<Longrightarrow> evolves r (s\<lparr>rg_ws_boundaries := t7\<rparr>)"
  "evolves r s \<Longrightarrow> evolves r (s\<lparr>rg_ws_catalog := t8\<rparr>)"
  "evolves r s \<Longrightarrow> evolves r (s\<lparr>rg_ws_selections := t9\<rparr>)"
  "evolves r s \<Longrightarrow> evolves r (s\<lparr>rg_supervisor_runs := t10\<rparr>)"
  "evolves r s \<Longrightarrow> evolves r (s\<lparr>rg_workers := t11\<rparr>)"
  by (erule evolves_trans, rule evolves_frame; simp)+

lemma evolves_writes [evolves_intros]:
  "evolves r s \<Longrightarrow> evolves r (set_op i p f s)"
  "evolves r s \<Longrightarrow> evolves r (set_dispatch i q g s)"
  "evolves r s \<Longrightarrow> evolves r (set_lease i n l h s)"
  "evolves r s \<Longrightarrow> evolves r (insert_event i st ce rv now note no k pl s)"
  by (erule evolves_trans, rule evolves_frame; simp add: set_defs insert_event_def Let_def)+

lemma evolves_attempts_append [evolves_intros]:
  "evolves r s \<Longrightarrow> evolves r (s\<lparr>rg_attempts := rg_attempts s @ t\<rparr>)"
  by (erule evolves_trans)
    (auto simp: evolves_def attempts_later_def find_control_def find_policy_def
      intro: same_attempt_refl)

lemma attempts_later_update:
  assumes "\<And>a. same_attempt a (f a)"
  shows "attempts_later t (update_rows p f t)"
  unfolding attempts_later_def
proof
  fix a assume "a \<in> set t"
  then have "(if p a then f a else a) \<in> set (update_rows p f t)" by (simp add: set_update_rows)
  then show "\<exists>b \<in> set (update_rows p f t). same_attempt a b" by (rule bexI [rotated]) (simp add: assms)
qed

lemma evolves_attempts_update [evolves_intros]:
  assumes "evolves r s" "\<And>a. same_attempt a (f a)"
  shows "evolves r (set_attempt i n p f s)"
  by (rule evolves_trans [OF assms(1)])
    (simp add: evolves_def find_control_def find_policy_def set_attempt_def
      attempts_later_update [OF assms(2)])

lemma evolves_policy_append [evolves_intros]:
  "evolves r s \<Longrightarrow> evolves r (s\<lparr>rg_policies := rg_policies s @ t\<rparr>)"
  by (erule evolves_trans)
    (auto simp: evolves_def attempts_later_def find_control_def find_policy_def fetchone_append
      intro: same_attempt_refl split: option.splits)

lemma evolves_generation [evolves_intros]:
  "evolves r s \<Longrightarrow> evolves r (s\<lparr>rg_generation := rg_generation s + 1\<rparr>)"
  by (erule evolves_trans)
    (auto simp: evolves_def attempts_later_def find_control_def find_policy_def
      intro: same_attempt_refl)

lemma evolves_case_option [evolves_intros]:
  "(x = None \<Longrightarrow> evolves r s) \<Longrightarrow> (\<And>y. x = Some y \<Longrightarrow> evolves r (t y)) \<Longrightarrow>
   evolves r (case x of None \<Rightarrow> s | Some y \<Rightarrow> t y)"
  by (cases x) simp_all

lemma evolves_foldl:
  "(\<And>s x. evolves r s \<Longrightarrow> evolves r (f s x)) \<Longrightarrow> evolves r s \<Longrightarrow> evolves r (foldl f s xs)"
  by (induction xs arbitrary: s) simp_all

section \<open>Every method evolves\<close>

lemma start_runtime_evolves:
  assumes "start_runtime now r = (g, r')"
  shows "evolves r r'"
proof -
  let ?r0 = "r\<lparr>rg_generation := rg_generation r + 1\<rparr>"
  have "evolves r ?r0" by (intro evolves_intros)
  moreover have "evolves r (rebind_accepted h now s x)" if "evolves r s" for h s x
    using that unfolding rebind_accepted_def Let_def by (intro evolves_intros)
  moreover have "evolves r (fence_running h now s x)" if "evolves r s" for h s x
    using that unfolding fence_running_def Let_def
    by (intro evolves_intros) (auto simp: same_attempt_def attempt_key_def)
  ultimately show ?thesis
    using assms unfolding start_runtime_def Let_def by (auto intro!: evolves_foldl)
qed

lemma accept_evolves: "accept e pl None now r = Inr (res, r') \<Longrightarrow> evolves r r'"
  by (auto simp: accept_def run_admission_def res_simps Let_def
      split: if_splits option.splits intro!: evolves_intros)

lemma bind_recovery_policy_evolves: "bind_recovery_policy i k p ed now r = Inr (b, r') \<Longrightarrow> evolves r r'"
  by (auto simp: bind_recovery_policy_def res_simps Let_def
      split: if_splits option.splits intro!: evolves_intros)

lemma transition_evolves: "transition i t g now r = Inr (rec, r') \<Longrightarrow> evolves r r'"
  by (auto simp: transition_def res_simps Let_def split: if_splits intro!: evolves_intros)

lemmas lifecycle_methods = begin_op_def succeed_def fail_op_def cancel_def time_out_def
  mark_indeterminate_def

lemma lifecycle_evolves:
  "begin_op i g now r = Inr (rec, r') \<Longrightarrow> evolves r r'"
  "succeed i j b g now r = Inr (rec, r') \<Longrightarrow> evolves r r'"
  "fail_op i fl b oj g now r = Inr (rec, r') \<Longrightarrow> evolves r r'"
  "cancel i oj g now r = Inr (rec, r') \<Longrightarrow> evolves r r'"
  "time_out i oj g now r = Inr (rec, r') \<Longrightarrow> evolves r r'"
  "mark_indeterminate i note g now r = Inr (rec, r') \<Longrightarrow> evolves r r'"
  unfolding lifecycle_methods by (erule transition_evolves)+

lemma request_dispatch_evolves: "request_dispatch i k now r = Inr (d, r') \<Longrightarrow> evolves r r'"
  by (auto simp: request_dispatch_def res_simps Let_def
      split: if_splits option.splits intro!: evolves_intros)

lemma claim_candidate_evolves:
  assumes "evolves r s" "claim_candidate c d x s = Inr (claim, r')"
  shows "evolves r r'"
proof -
  have w: "evolves r (claim_writes c x s)"
    unfolding claim_writes_def Let_def by (intro evolves_intros assms(1))
  from claim_candidate_Inr [OF assms(2)] obtain r2 pl where
    s: "successor_started c (dw_kind d) (or_operation x) (next_attempt_no (or_operation x) s)
      (or_record_revision x + 1) (claim_writes c x s) = Inr r2"
    and r': "\<exists>i st ce rv now note no k. r' = insert_event i st ce rv now note no k pl r2" by blast
  have "evolves r r2" using successor_started_Inr [OF s] w by (auto intro!: evolves_intros)
  with r' show ?thesis by (auto intro!: evolves_intros)
qed

lemma claim_loop_evolves: "evolves r0 r \<Longrightarrow> claim_loop c cs r = Inr (res, r') \<Longrightarrow> evolves r0 r'"
proof (induction c cs r rule: claim_loop.induct)
  case (2 c d row rest r)
  have "evolves r0 (expire_queued row (ca_now c) r)"
    unfolding expire_queued_def Let_def by (intro evolves_intros 2)
  with 2 show ?case
    by (auto simp: res_simps split: if_splits intro: claim_candidate_evolves evolves_intros)
qed simp

lemma claim_next_evolves: "claim_next c r = Inr (res, r') \<Longrightarrow> evolves r r'"
  by (auto simp: claim_next_def split: if_splits elim!: claim_loop_evolves [OF evolves_refl])

lemma heartbeat_evolves: "heartbeat f dur fn now r = Inr (m, r') \<Longrightarrow> evolves r r'"
  by (auto simp: heartbeat_def res_simps Let_def split: if_splits option.splits
      intro!: evolves_intros)

lemma fetchone_update_other:
  "(\<And>x. k x = i \<Longrightarrow> k (f x) \<noteq> j) \<Longrightarrow> j \<noteq> i \<Longrightarrow>
   fetchone (\<lambda>x. k x = j) (update_rows (\<lambda>x. k x = i) f t) = fetchone (\<lambda>x. k x = j) t"
  by (induction t) (auto simp: row_simps)

lemma request_cancel_evolves:
  assumes "request_cancel i who rc now r = Inr (m, r')"
  shows "evolves r r'"
proof -
  let ?up = "\<lambda>new. update_rows (\<lambda>c. cw_operation c = i) (\<lambda>_. new) (rg_controls r)"
  have other: "fetchone (\<lambda>c. cw_operation c = j) (?up new) = find_control j r"
    if "j \<noteq> i" "cw_operation new = i" for j new
    unfolding find_control_def using that by (intro fetchone_update_other) simp_all
  have up: "evolves r (r\<lparr>rg_controls := ?up new\<rparr>)"
    if "find_control i r = Some c" "\<not> cw_cancellation_requested c" "cw_operation new = i" for c new
  proof -
    have "find_control j (r\<lparr>rg_controls := ?up new\<rparr>) = Some d"
      if "find_control j r = Some d" "cw_cancellation_requested d" for j d
      using that other [of j new] \<open>cw_operation new = i\<close> \<open>find_control i r = Some c\<close>
        \<open>\<not> cw_cancellation_requested c\<close> by (cases "j = i") (auto simp: find_control_def)
    then show ?thesis by (auto simp: evolves_def attempts_later_def find_policy_def intro: same_attempt_refl)
  qed
  have app: "evolves r (r\<lparr>rg_controls := rg_controls r @ t\<rparr>)" for t
    by (auto simp: evolves_def attempts_later_def find_control_def find_policy_def fetchone_append
      intro: same_attempt_refl split: option.splits)
  show ?thesis
  proof (cases "find_control i r")
    case None
    then show ?thesis
      using assms by (auto simp: request_cancel_def res_simps Let_def split: if_splits
        intro!: evolves_writes app)
  next
    case (Some c)
    then show ?thesis
      using assms by (cases "cw_cancellation_requested c")
        (auto simp: request_cancel_def res_simps Let_def split: if_splits intro!: evolves_writes up)
  qed
qed

lemma cancel_queued_evolves:
  "cancel_queued_dispatch i g j now r = Inr (res, r') \<Longrightarrow> evolves r r'"
  by (auto simp: cancel_queued_dispatch_def res_simps Let_def split: if_splits option.splits
      intro!: evolves_intros)

lemma transition_claimed_evolves:
  assumes "transition_claimed f st j fl note fn now r = Inr (rec, r')"
  shows "evolves r r'"
  using transition_claimed_Inr [OF assms] unfolding outcome_writes_def Let_def
  by (auto simp: same_attempt_def attempt_key_def terminal_def intro!: evolves_intros)

lemma bind_checkpoint_evolves: "bind_checkpoint ref f ck ed fn now r = Inr (b, r') \<Longrightarrow> evolves r r'"
  by (auto simp: bind_checkpoint_def res_simps Let_def same_attempt_def attempt_key_def
      split: if_splits option.splits intro!: evolves_intros)

lemma finish_attempt_evolves: "finish_attempt f fn now r = Inr (rec, r') \<Longrightarrow> evolves r r'"
  by (drule finish_attempt_Inr)
    (auto simp: finish_writes_def Let_def same_attempt_def attempt_key_def terminal_def
      intro!: evolves_intros)

lemma fence_expired_evolves:
  "evolves r0 r \<Longrightarrow> fence_expired_loop now cs r = Inr (recs, r') \<Longrightarrow> evolves r0 r'"
proof (induction now cs r arbitrary: recs rule: fence_expired_loop.induct)
  case (2 now row n lease rest r)
  have "evolves r0 (fence_expired_one now row n lease r)"
    unfolding fence_expired_one_def Let_def
    by (intro evolves_intros 2) (simp add: same_attempt_def attempt_key_def)
  with 2 show ?case by (auto simp: res_simps Let_def)
qed simp

lemma fence_expired_attempts_evolves:
  "fence_expired_attempts g now r = Inr (recs, r') \<Longrightarrow> evolves r r'"
  by (auto simp: fence_expired_attempts_def split: if_splits elim!: fence_expired_evolves [OF evolves_refl])

lemma close_prior_evolves: "evolves r (close_prior i rc now r)"
  unfolding close_prior_def Let_def
  by (auto simp: same_attempt_def attempt_key_def split: option.splits intro!: evolves_intros)

lemma requeue_evolves:
  assumes "requeue_indeterminate i g dt rc ind policy bd now r = Inr (rec, r')"
  shows "evolves r r'"
proof -
  from requeue_Inr [OF assms] obtain row q cd bdg r2 where
    cont: "requeue_continuation q bd (prior_attempt i r) row (close_prior i rc now r) =
      Inr ((cd, bdg), r2)" and c: "requeue_commit q row cd bdg r2 = Inr r'" by blast
  obtain x y where r2: "r2 = close_prior i rc now r\<lparr>rg_rlm_boundaries := x, rg_ws_boundaries := y\<rparr>"
    using requeue_continuation_frame [OF cont] by blast
  have e2: "evolves r r2" unfolding r2 by (intro evolves_intros close_prior_evolves)
  have w: "evolves r (with_decision q a b r2)" for a b
    unfolding with_decision_def by (intro evolves_intros e2)
  have d: "evolves r s'" if "requeue_dispatch j p n now' s = Inr s'" "evolves r s" for j p n now' s s'
    using that by (auto simp: requeue_dispatch_def split: option.splits if_splits intro!: evolves_intros)
  from requeue_commit_Inr [OF c] show ?thesis
    unfolding log_decision_def by (auto intro!: evolves_intros w elim!: d)
qed

lemma recover_terminal_evolves:
  assumes "recover_terminal_from_receipt i g st j rc ind now r = Inr (rec, r')"
  shows "evolves r r'"
  using recover_terminal_Inr [OF assms] unfolding receipt_writes_def Let_def
  by (auto simp: same_attempt_def receipt_attempt_def attempt_key_def intro!: evolves_intros)

lemma succeed_workspace_checkpoint_evolves:
  "succeed_workspace_checkpoint i m g now r = Inr (rec, r') \<Longrightarrow> evolves r r'"
  by (drule succeed_workspace_checkpoint_Inr)
    (auto simp: publish_writes_def Let_def split: option.splits intro!: evolves_intros)

lemma workspace_evolves:
  "record_workspace_checkpoint m now r = Inr (m', r') \<Longrightarrow> evolves r r'"
  "select_workspace_checkpoint s g now r = Inr (s', r') \<Longrightarrow> evolves r r'"
  "mark_workspace_checkpoint_restored s h g now r = Inr (h', r') \<Longrightarrow> evolves r r'"
  by (auto simp: record_workspace_checkpoint_def select_workspace_checkpoint_def
    mark_workspace_checkpoint_restored_def res_simps Let_def
    split: if_splits option.splits intro!: evolves_intros)

lemma owners_evolves: "owners_only r r' \<Longrightarrow> evolves r r'"
  by (auto simp: owners_only_def intro!: evolves_intros)

section \<open>Steps evolve\<close>

lemma step_evolves: "reg_step r r' \<Longrightarrow> evolves r r'"
  by (induction rule: reg_step.induct)
    (erule start_runtime_evolves accept_evolves bind_recovery_policy_evolves
      lifecycle_evolves request_dispatch_evolves
      claim_next_evolves heartbeat_evolves request_cancel_evolves cancel_queued_evolves
      transition_claimed_evolves bind_checkpoint_evolves finish_attempt_evolves
      fence_expired_attempts_evolves requeue_evolves recover_terminal_evolves
      succeed_workspace_checkpoint_evolves workspace_evolves owners_evolves [OF owners_only_steps(1)]
      owners_evolves [OF owners_only_steps(2)] owners_evolves [OF owners_only_steps(3)]
      owners_evolves [OF owners_only_steps(4)] owners_evolves [OF owners_only_steps(5)]
      owners_evolves [OF owners_only_steps(6)])+

lemma steps_evolve: "reg_steps r r' \<Longrightarrow> evolves r r'"
proof (induction rule: rtranclp_induct)
  case (step s t)
  from step.IH step_evolves [OF step.hyps(2)] show ?case by (rule evolves_trans)
qed simp

end
