(* ===== verification/Registry_Samples.thy ===== *)
theory Registry_Samples
  imports Registry_Monotone
begin

text \<open>
  A sample run of the registry for the witnesses of its properties: a first runtime
  generation, one accepted operation, its durable dispatch and its claim, then a committed
  success. Identifiers are hashes and stay symbolic; every other value is concrete, and
  each step is one call evaluated by the simplifier.
\<close>

section \<open>Hashed identifiers are tokens\<close>

lemma hex_alnum: "char_in 48 57 c \<or> char_in 97 102 c \<Longrightarrow> is_alnum c"
  by (auto simp: is_alnum_def is_lower_alnum_def char_in_def)

lemma take_hex_alnum: "list_all is_alnum (take n (sha256_hex bs))"
proof -
  have "\<forall>c \<in> set (sha256_hex bs). is_alnum c"
    using sha256_hex_shape [of bs] hex_alnum by (auto simp: list_all_iff)
  then show ?thesis by (auto simp: list_all_iff dest: in_set_takeD)
qed

lemma opaque_hashed:
  assumes "list_all is_alnum h" "length h \<le> 32"
  shows "opaque_token (''op-'' @ h)" "opaque_token (''attempt-'' @ h)"
  using assms by (auto simp: list_all_iff is_alnum_def is_lower_alnum_def char_in_def)

lemma operation_id_token [simp]: "opaque_token (operation_value (operation_id_of e))"
  unfolding operation_id_of_def operation_ref.sel
  by (rule opaque_hashed(1) [OF take_hex_alnum]) simp

lemma attempt_id_token [simp]: "opaque_token (attempt_id_of i n g d)"
proof -
  have drop: "drop 7 (''sha256:'' @ x) = x" for x by simp
  show ?thesis unfolding attempt_id_of_def json_digest_def drop
    by (rule opaque_hashed(2) [OF take_hex_alnum]) simp
qed

section \<open>The run\<close>

definition sample_envelope :: request_envelope where
  "sample_envelope = \<lparr>en_request_id = ''req-1'', en_idempotency_key = ''key-0001'',
     en_host = HostRef ''host'', en_principal = PrincipalRef ''alice'', en_lane = LaneRef ''main'',
     en_session = SessionRef ''s1'', en_workspace = None, en_parent_operation = None,
     en_runtime_generation = 1, en_workspace_generation = None, en_expected_revision = None,
     en_capability_digest = json_digest JNull, en_deadline = 5000, en_grants = [],
     en_budget = \<lparr>bu_wall_time_ms = 0, bu_model_requests = 0, bu_input_tokens = 0,
       bu_output_tokens = 0, bu_child_operations = 0, bu_artifact_bytes = 0\<rparr>,
     en_trace_id = ''trace-1'', en_input_digest = json_digest (JObj [])\<rparr>"

definition sample_op :: operation_ref where
  "sample_op = operation_id_of sample_envelope"

definition sample_row :: op_row where
  "sample_row = fresh_op_row sample_envelope ''{}'' 1000"

definition sample_started :: reg where
  "sample_started = reg_init\<lparr>rg_generation := 1\<rparr>"

definition sample_accepted :: reg where
  "sample_accepted = insert_event sample_op ACCEPTED CERTAIN 0 1000 ''intent_persisted'' None None
     None (sample_started\<lparr>rg_operations := [sample_row]\<rparr>)"

definition sample_dispatch :: dispatch_row where
  "sample_dispatch = \<lparr>dw_operation = sample_op, dw_kind = ''rlm.execute'', dw_state = D_queued,
     dw_queued_at = Some 1100, dw_running_at = None, dw_finished_at = None,
     dw_current_attempt_no = None\<rparr>"

definition sample_queued :: reg where
  "sample_queued = insert_event sample_op ACCEPTED CERTAIN 0 1100 ''dispatch_requested'' None
     (Some ''dispatch_requested'') (Some (JObj [(''kind'', JStr ''rlm.execute'')]))
     (sample_accepted\<lparr>rg_dispatch := [sample_dispatch]\<rparr>)"

definition sample_args :: claim_args where
  "sample_args = \<lparr>ca_runtime_generation = 1, ca_dispatcher_generation = 1,
     ca_owner_digest = json_digest (JStr ''owner''), ca_lease_duration = 300, ca_now = 1200\<rparr>"

definition sample_claim :: dispatch_claim where
  "sample_claim = \<lparr>dc_attempt = \<lparr>at_operation = sample_op, at_attempt_no = 1,
       at_attempt_id = attempt_id_of sample_op 1 1 1\<rparr>, dc_runtime_generation = 1,
     dc_dispatcher_generation = 1, dc_lease_epoch = 1,
     dc_owner_digest = json_digest (JStr ''owner''), dc_kind = ''rlm.execute''\<rparr>"

definition sample_running :: reg where
  "sample_running = insert_event sample_op RUNNING CERTAIN 1 1200 ''attempt_claimed'' (Some 1)
     (Some ''attempt_claimed'') (Some (claimed_payload sample_args sample_op 1 1))
     (sample_queued\<lparr>rg_operations := [claimed_op sample_args 1 sample_row],
        rg_dispatch := [claimed_dispatch sample_args 1 sample_dispatch],
        rg_attempts := [fresh_attempt sample_args sample_op 1],
        rg_leases := [fresh_lease sample_args sample_op 1 1]\<rparr>)"

lemma insert_event_simps [simp]:
  "rg_generation (insert_event i st ce rv now note no k pl r) = rg_generation r"
  "rg_operations (insert_event i st ce rv now note no k pl r) = rg_operations r"
  "rg_attempts (insert_event i st ce rv now note no k pl r) = rg_attempts r"
  "rg_leases (insert_event i st ce rv now note no k pl r) = rg_leases r"
  "rg_controls (insert_event i st ce rv now note no k pl r) = rg_controls r"
  "rg_dispatch (insert_event i st ce rv now note no k pl r) = rg_dispatch r"
  "rg_decisions (insert_event i st ce rv now note no k pl r) = rg_decisions r"
  "rg_policies (insert_event i st ce rv now note no k pl r) = rg_policies r"
  by (simp_all add: insert_event_def Let_def)

text \<open>The tables of the sample states, and the statements on one-row tables.\<close>

lemma sample_tables [simp]:
  "rg_generation sample_started = 1" "rg_operations sample_started = []"
  "rg_generation sample_accepted = 1" "rg_operations sample_accepted = [sample_row]"
  "rg_dispatch sample_accepted = []" "rg_attempts sample_accepted = []"
  "rg_leases sample_accepted = []" "rg_controls sample_accepted = []" "rg_policies sample_accepted = []"
  "rg_generation sample_queued = 1" "rg_operations sample_queued = [sample_row]"
  "rg_dispatch sample_queued = [sample_dispatch]" "rg_attempts sample_queued = []"
  "rg_leases sample_queued = []" "rg_controls sample_queued = []"
  "rg_generation sample_running = 1"
  "rg_operations sample_running = [claimed_op sample_args 1 sample_row]"
  "rg_dispatch sample_running = [claimed_dispatch sample_args 1 sample_dispatch]"
  "rg_attempts sample_running = [fresh_attempt sample_args sample_op 1]"
  "rg_leases sample_running = [fresh_lease sample_args sample_op 1 1]"
  "rg_controls sample_running = []"
  by (simp_all add: sample_started_def sample_accepted_def sample_queued_def sample_running_def
    reg_init_def)

lemma sample_op_simps [simp]:
  "or_operation sample_row = sample_op" "or_state sample_row = ACCEPTED"
  "or_certainty sample_row = CERTAIN" "or_record_revision sample_row = 0"
  "or_request sample_row = sample_envelope" "or_input_digest sample_row = json_digest (JObj [])"
  "or_payload_json sample_row = ''{}''" "or_runtime_generation sample_row = 1"
  "en_deadline sample_envelope = 5000" "en_input_digest sample_envelope = json_digest (JObj [])"
  "dw_operation sample_dispatch = sample_op"
  "dw_state sample_dispatch = D_queued" "dw_kind sample_dispatch = ''rlm.execute''"
  "opaque_token (operation_value sample_op)"
  by (simp_all add: sample_row_def fresh_op_row_def sample_op_def sample_envelope_def sample_dispatch_def)

lemmas sample_eval = find_op_def get_op_def find_dispatch_def find_attempt_def find_lease_def
  find_control_def find_policy_def find_exact_attempt_def row_simps and_then.simps record_model_def
  get_record_def record_from_operation_id_def validated_def positive_counter_def revision_def
  max_i64_def

lemma sample_start: "start_runtime 900 reg_init = (1, sample_started)"
  by (simp add: start_runtime_def sample_started_def reg_init_def)

lemma sample_record [simp]: "record_model sample_row = Inr sample_row"
  by (simp add: record_model_def validated_def positive_counter_def revision_def max_i64_def)
    (simp add: sample_row_def fresh_op_row_def)

lemma sample_accept:
  "accept sample_envelope ''{}'' None 1000 sample_started = Inr ((sample_row, True), sample_accepted)"
proof -
  have i: "operation_id_of sample_envelope = sample_op" by (simp add: sample_op_def)
  have row: "fresh_op_row sample_envelope ''{}'' 1000 = sample_row" by (simp add: sample_row_def)
  have "find_scoped sample_envelope sample_started = None"
    by (simp add: find_scoped_def row_simps)
  moreover have "insert_row same_key sample_row (rg_operations sample_started) = Inr [sample_row]"
    by (simp add: insert_row_def)
  moreover have "get_record sample_op sample_accepted = Inr sample_row"
    by (simp add: get_record_def get_op_def find_op_def row_simps)
  ultimately show ?thesis
    by (simp add: accept_def i row run_admission_def Let_def flip: sample_accepted_def)
qed

lemma sample_request:
  "request_dispatch sample_op ''rlm.execute'' 1100 sample_accepted = Inr (sample_dispatch, sample_queued)"
  by (simp add: request_dispatch_def durable_dispatch_kinds_def sample_eval Let_def
    sample_queued_def flip: sample_dispatch_def)

lemma sample_claims: "claim_next sample_args sample_queued = Inr (Some sample_claim, sample_running)"
proof -
  have c: "queued_candidates sample_queued = [(sample_dispatch, sample_row)]"
    by (simp add: queued_candidates_def candidate_rows_def)
  have n: "next_attempt_no sample_op sample_queued = 1" "next_lease_epoch sample_op sample_queued = 1"
    by (simp_all add: next_attempt_no_def next_lease_epoch_def max_col_def)
  have w: "claim_writes sample_args sample_row sample_queued =
    sample_queued\<lparr>rg_operations := [claimed_op sample_args 1 sample_row],
        rg_dispatch := [claimed_dispatch sample_args 1 sample_dispatch],
        rg_attempts := [fresh_attempt sample_args sample_op 1],
        rg_leases := [fresh_lease sample_args sample_op 1 1]\<rparr>"
    by (simp add: claim_writes_def n set_defs row_simps)
  have v: "claim_value sample_args ''rlm.execute'' sample_op 1 1 = Inr sample_claim"
    by (simp add: claim_value_def sample_claim_def sample_args_def fresh_attempt_def
      validate_attempt_ref_def validated_def positive_counter_def max_i64_def)
  show ?thesis
    by (simp add: claim_next_def c claim_candidate_def n w v insert_row_def successor_started_def
      rowcount_def Let_def flip: sample_running_def)
      (simp add: sample_args_def sample_running_def)
qed

lemma sample_run: "reachable sample_started" "reachable sample_accepted" "reachable sample_queued"
  "reachable sample_running"
proof -
  show 1: "reachable sample_started" unfolding reachable_def
    by (rule r_into_rtranclp, rule reg_step.start, rule sample_start)
  show 2: "reachable sample_accepted"
    by (rule reachable_steps [OF 1], rule r_into_rtranclp, rule reg_step.accept, rule sample_accept)
  show 3: "reachable sample_queued"
    by (rule reachable_steps [OF 2], rule r_into_rtranclp, rule reg_step.dispatch, rule sample_request)
  show "reachable sample_running"
    by (rule reachable_steps [OF 3], rule r_into_rtranclp, rule reg_step.claim, rule sample_claims)
qed

section \<open>A committed success\<close>

definition sample_fence :: fence where
  "sample_fence = fence_of sample_claim"

definition sample_done_row :: op_row where
  "sample_done_row = outcome_op SUCCEEDED (Some ''1'') None 2 1250 (claimed_op sample_args 1 sample_row)"

definition sample_done :: reg where
  "sample_done = insert_event sample_op SUCCEEDED CERTAIN 2 1250 ''execution_succeeded'' (Some 1)
     (Some ''execution_succeeded'')
     (Some (JObj [(''attempt_no'', JInt 1), (''state'', JStr ''succeeded'')]))
     (outcome_writes sample_fence SUCCEEDED (Some ''1'') None ''execution_succeeded'' 1250
        (claimed_op sample_args 1 sample_row) sample_running)"

lemma sample_fence_simps [simp]:
  "fn_operation sample_fence = sample_op" "fn_attempt_no sample_fence = 1"
  "fn_attempt_id sample_fence = attempt_id_of sample_op 1 1 1"
  "fn_runtime_generation sample_fence = 1" "fn_dispatcher_generation sample_fence = 1"
  "fn_lease_epoch sample_fence = 1" "fn_owner_digest sample_fence = json_digest (JStr ''owner'')"
  by (simp_all add: sample_fence_def fence_of_def sample_claim_def)

lemma sample_claimed_simps [simp]:
  "or_runtime_generation (claimed_op sample_args 1 sample_row) = 1"
  "or_record_revision (claimed_op sample_args 1 sample_row) = 1"
  "or_request (claimed_op sample_args 1 sample_row) = sample_envelope"
  "aw_attempt_id (fresh_attempt sample_args sample_op 1) = attempt_id_of sample_op 1 1 1"
  "aw_runtime_generation (fresh_attempt sample_args sample_op 1) = 1"
  "aw_dispatcher_generation (fresh_attempt sample_args sample_op 1) = 1"
  "lw_operation (fresh_lease sample_args sample_op 1 1) = sample_op"
  "lw_owner_digest (fresh_lease sample_args sample_op 1 1) = json_digest (JStr ''owner'')"
  "lw_released_at (fresh_lease sample_args sample_op 1 1) = None"
  "lw_expires_at (fresh_lease sample_args sample_op 1 1) = 1500"
  "or_state sample_done_row = SUCCEEDED" "or_operation sample_done_row = sample_op"
  by (simp_all add: claimed_op_def sample_args_def fresh_attempt_def fresh_lease_def
    sample_done_row_def outcome_op_def)

lemma sample_fence_valid:
  "now < 1500 \<Longrightarrow> validate_fence sample_fence now sample_running =
     Inr (fresh_attempt sample_args sample_op 1, fresh_lease sample_args sample_op 1 1)"
  by (subst validate_fence_Inr) (simp add: sample_eval)

lemma sample_done_tables [simp]:
  "rg_generation sample_done = 1" "rg_operations sample_done = [sample_done_row]"
  by (simp_all add: sample_done_def outcome_writes_def set_defs row_simps sample_done_row_def)

lemma sample_commit:
  "transition_claimed sample_fence SUCCEEDED (Some ''1'') None ''execution_succeeded'' 1250 1250
     sample_running = Inr (sample_done_row, sample_done)"
proof -
  have "record_from_operation_id sample_op sample_done = Inr sample_done_row"
    by (simp add: sample_eval)
      (simp add: sample_done_row_def outcome_op_def claimed_op_def sample_args_def sample_row_def
        fresh_op_row_def)
  then show ?thesis
    by (simp add: transition_claimed_def terminal_def sample_fence_valid find_op_def row_simps
      rowcount_def Let_def outcome_certainty_of_def flip: sample_done_def)
qed

lemma steps_single: "reg_step r r' \<Longrightarrow> reg_steps r r'"
  by (rule r_into_rtranclp)

lemma sample_done_reachable: "reachable sample_done"
  by (rule reachable_steps [OF sample_run(4) steps_single [OF reg_step.outcome [OF sample_commit]]])

end
