(* ===== verification/Registry_Properties.thy ===== *)
theory Registry_Properties
  imports Registry_Samples
begin

text \<open>
  Properties of the operation registry as a journal: what every reachable state satisfies,
  what no step undoes, and what a replayed or conflicting request gets.
\<close>

section \<open>Lemmas\<close>

lemma sorted_history:
  "reg_journal_ok r \<Longrightarrow> events_of i r = history i (rg_events r)"
proof -
  assume "reg_journal_ok r"
  then have "sorted_wrt (<) (map ev_sequence (rg_events r))"
    by (simp add: journal_ok_def journal_of_def)
  then have "sorted (map ev_sequence (filter (\<lambda>e. ev_operation e = i) (rg_events r)))"
    by (auto intro: sorted_filter simp: strict_sorted_iff)
  then show ?thesis by (simp add: events_of_def history_def sort_key_id_if_sorted)
qed

lemma find_scoped_unique:
  assumes ok: "reg_journal_ok r" and x: "find_op i r = Some x"
    and k: "or_host x = host_value (en_host e)" "or_principal x = principal_value (en_principal e)"
      "or_idempotency_key x = en_idempotency_key e"
  shows "find_scoped e r = Some x"
  unfolding find_scoped_def
proof (rule fetchone_key [where k = scope_of])
  show "distinct (map scope_of (rg_operations r))" using ok by (simp add: journal_ok_def journal_of_def)
  show "x \<in> set (rg_operations r)" using find_op_SomeD [OF x] by simp
qed (use k in \<open>auto simp: scope_of_def\<close>)

lemma accept_fresh:
  assumes "accept e pl None now r = Inr ((rec, True), r')"
  shows "rec = fresh_op_row e pl now" "find_op (operation_id_of e) r' = Some rec"
proof -
  from assms have new: "find_scoped e r = None"
    and "get_record (operation_id_of e) r' = Inr rec"
    and r': "rg_operations r' = rg_operations r @ [fresh_op_row e pl now]"
    and fresh: "\<forall>y \<in> set (rg_operations r). \<not> same_key (fresh_op_row e pl now) y"
    by (auto simp: accept_def run_admission_def res_simps Let_def split: option.splits if_splits)
  then show rec: "find_op (operation_id_of e) r' = Some rec" using get_record_Inr by blast
  have none: "fetchone (\<lambda>x. or_operation x = operation_id_of e) (rg_operations r) = None"
    using fresh by (auto simp: row_simps same_key_def fresh_op_row_def)
  have "or_operation (fresh_op_row e pl now) = operation_id_of e" by (simp add: fresh_op_row_def)
  with none have "find_op (operation_id_of e) r' = Some (fresh_op_row e pl now)"
    by (simp add: find_op_def r' fetchone_append fetchone_Cons)
  with rec show "rec = fresh_op_row e pl now" by simp
qed

text \<open>A replay of the stored intent finds it and changes nothing.\<close>

lemma accept_stored:
  assumes ok: "reg_journal_ok r" and x: "find_op i r = Some x"
    and same: "same_intent (fresh_op_row e pl t) x" and v: "validate_request_envelope e = Inr e"
  shows "accept e pl None now r = and_then (record_model x) (\<lambda>m. Inr ((m, False), r))"
proof -
  have "find_scoped e r = Some x"
    using same by (intro find_scoped_unique [OF ok x]) (auto simp: same_intent_def fresh_op_row_def)
  moreover have "or_input_digest x = en_input_digest e" "or_payload_json x = pl" "or_request x = e"
    using same by (auto simp: same_intent_def fresh_op_row_def)
  ultimately show ?thesis
    using v by (simp add: accept_def run_admission_def Let_def same_replay_scope_def)
qed

lemma sample_valid: "validate_request_envelope sample_envelope = Inr sample_envelope"
  by (simp add: validate_request_envelope_Inr_iff envelope_fields_ok_def sample_envelope_def
    sorted_unique_def positive_counter_def max_i64_def opt_ok_def is_alnum_def is_lower_alnum_def
    char_in_def list_all_iff)

section \<open>Properties\<close>

text \<open>C1: every state-changing call of the registry, from any reachable state, is a sequence of
  moves of the abstract journal: an operation accepted with a fresh id and idempotency
  scope, one operation moved along an edge of the lifecycle with its revision one higher
  and an event that says so, or an event that repeats an operation's state.\<close>

theorem registry_refines_journal:
  assumes "reachable r" "reg_step r r'"
  shows "journal_steps (journal_of r) (journal_of r')"
  by (rule step_refines [OF assms(2) reachable_ok [OF assms(1)]])

theorem registry_refines_journal_witness:
  "journal_steps (journal_of sample_queued) (journal_of sample_running)"
  by (rule registry_refines_journal [OF sample_run(3) reg_step.claim [OF sample_claims]])

text \<open>C2: every reachable state satisfies the journal invariant (unique ids and idempotency scopes,
  coherent certainty, a lifecycle-shaped event history for every operation, strictly
  increasing event sequence) and the ownership invariant of attempts, leases and dispatch rows.\<close>

theorem reachable_invariant:
  assumes "reachable r"
  shows "journal_ok (journal_of r) \<and> fences_ok r"
  using reachable_ok [OF assms] unfolding reg_ok_def .

theorem reachable_invariant_witness: "journal_ok (journal_of sample_running) \<and> fences_ok sample_running"
  by (rule reachable_invariant [OF sample_run(4)])

text \<open>C4: an operation that reached a terminal state is never rewritten: whatever is called later,
  its row (state, result, failure, revision, timestamps) stays exactly as it was.\<close>

theorem terminal_rows_are_final:
  assumes "reachable r" "find_op i r = Some x" "terminal (or_state x)" "reg_steps r r'"
  shows "find_op i r' = Some x"
proof -
  obtain y where "find_op i r' = Some y" "later x y"
    by (rule find_op_later [OF assms(4) reachable_ok [OF assms(1)] assms(2)])
  with assms(3) show ?thesis by (simp add: later_def)
qed

theorem terminal_rows_are_final_witness:
  "find_op sample_op (snd (start_runtime 2000 sample_done)) = Some sample_done_row"
proof -
  have "start_runtime 2000 sample_done = (fst (start_runtime 2000 sample_done), snd (start_runtime 2000 sample_done))"
    by simp
  from terminal_rows_are_final [OF sample_done_reachable _ _ steps_single [OF reg_step.start [OF this]]]
  show ?thesis by (simp add: find_op_def row_simps terminal_def)
qed

text \<open>C11: the events of an operation, read back in sequence order, start with its acceptance at
  revision 0, follow the edges of the lifecycle with revisions that never skip, and end with
  the state, certainty and revision its record holds now.\<close>

theorem event_log_is_the_lifecycle:
  assumes "reachable r" "find_op i r = Some x"
  shows "events_of i r \<noteq> [] \<and> ev_state (hd (events_of i r)) = ACCEPTED \<and>
    ev_record_revision (hd (events_of i r)) = 0 \<and> event_says (last (events_of i r)) x \<and>
    successively lifecycle_edge (events_of i r) \<and> sorted_wrt (<) (map ev_sequence (events_of i r))"
proof -
  have j: "reg_journal_ok r" using reachable_ok [OF assms(1)] by (simp add: reg_ok_def)
  have x: "x \<in> set (rg_operations r)" "or_operation x = i" using find_op_SomeD [OF assms(2)] by auto
  have "tells (history i (rg_events r)) x" and "sorted_wrt (<) (map ev_sequence (rg_events r))"
    using j x by (auto simp: journal_ok_def journal_of_def)
  then show ?thesis
    by (auto simp: sorted_history [OF j] tells_def history_def strict_sorted_iff sorted_filter
      intro: distinct_map_filter)
qed

theorem event_log_is_the_lifecycle_witness:
  "event_says (last (events_of sample_op sample_running)) (claimed_op sample_args 1 sample_row)"
  using event_log_is_the_lifecycle [OF sample_run(4), of sample_op "claimed_op sample_args 1 sample_row"]
  by (simp add: sample_eval)

text \<open>no step loses or edits history: the event table only grows at its end, and every
  operation stays with the intent it was accepted with and a revision that never goes back.\<close>

theorem intents_and_events_are_kept:
  assumes "reachable r" "reg_steps r r'"
  shows "(\<exists>new. rg_events r' = rg_events r @ new) \<and>
    (\<forall>i x. find_op i r = Some x \<longrightarrow> (\<exists>y. find_op i r' = Some y \<and> same_intent x y \<and>
       or_record_revision x \<le> or_record_revision y))"
proof -
  note ok = reachable_ok [OF assms(1)]
  obtain new where "rg_events r' = rg_events r @ new"
    by (rule registry.log_prefix [OF assms(2) ok]) (simp add: journal_of_def)
  moreover have "\<exists>y. find_op i r' = Some y \<and> same_intent x y \<and>
      or_record_revision x \<le> or_record_revision y" if "find_op i r = Some x" for i x
    by (rule find_op_later [OF assms(2) ok that]) (auto simp: later_def)
  ultimately show ?thesis by blast
qed

theorem intents_and_events_are_kept_witness:
  "\<exists>new. rg_events sample_running = rg_events sample_queued @ new"
  using intents_and_events_are_kept [OF sample_run(3) steps_single [OF reg_step.claim [OF sample_claims]]]
  by blast

text \<open>C24: \<open>accept\<close> is idempotent at any later time: once an envelope has created an operation,
  accepting the same envelope and payload again, after any other calls, returns the record
  of that same operation as not created and writes nothing at all (or only reports that the
  stored row does not fit the record model).\<close>

theorem accept_is_idempotent:
  assumes "reachable r" "validate_request_envelope e = Inr e"
    and "accept e pl None now r = Inr ((rec, True), r1)" "reg_steps r1 r2"
  shows "\<exists>x. find_op (operation_id_of e) r2 = Some x \<and> same_intent rec x \<and>
    accept e pl None now2 r2 = and_then (record_model x) (\<lambda>m. Inr ((m, False), r2))"
proof -
  have r1: "reachable r1"
    by (rule reachable_steps [OF assms(1) steps_single [OF reg_step.accept [OF assms(3)]]])
  note rec = accept_fresh [OF assms(3)]
  obtain x where x: "find_op (operation_id_of e) r2 = Some x" "later rec x"
    by (rule find_op_later [OF assms(4) reachable_ok [OF r1] rec(2)])
  have j: "reg_journal_ok r2"
    using reachable_ok [OF reachable_steps [OF r1 assms(4)]] by (simp add: reg_ok_def)
  have s: "same_intent (fresh_op_row e pl now) x" using x(2) rec(1) by (simp add: later_def)
  show ?thesis using x(1) s accept_stored [OF j x(1) s assms(2)] rec(1) by blast
qed

theorem accept_is_idempotent_witness:
  "\<exists>x. find_op (operation_id_of sample_envelope) sample_running = Some x \<and> same_intent sample_row x \<and>
    accept sample_envelope ''{}'' None 1300 sample_running =
      and_then (record_model x) (\<lambda>m. Inr ((m, False), sample_running))"
  by (rule accept_is_idempotent [OF sample_run(1) sample_valid sample_accept
      rtranclp_trans [OF steps_single [OF reg_step.dispatch [OF sample_request]]
        steps_single [OF reg_step.claim [OF sample_claims]]]])

text \<open>C25: a host, principal and idempotency key that already name an operation never name another
  one: a request with that key but another input digest, other payload bytes or another
  authority scope is refused as an idempotency conflict, whatever its admission hook.\<close>

theorem accept_conflicts:
  assumes "reachable r" "find_op i r = Some x"
    and "or_host x = host_value (en_host e)" "or_principal x = principal_value (en_principal e)"
      "or_idempotency_key x = en_idempotency_key e"
    and "validate_request_envelope (or_request x) = Inr (or_request x)"
    and "or_input_digest x \<noteq> en_input_digest e \<or> or_payload_json x \<noteq> pl \<or>
      \<not> same_replay_scope (or_request x) e"
  shows "\<exists>m. accept e pl hook now r = Inl (IdempotencyConflict m)"
proof -
  have "reg_journal_ok r" using reachable_ok [OF assms(1)] by (simp add: reg_ok_def)
  from find_scoped_unique [OF this assms(2-5)] show ?thesis
    using assms(6,7) by (auto simp: accept_def Let_def)
qed

theorem accept_conflicts_witness:
  "\<exists>m. accept sample_envelope ''[]'' None 1300 sample_running = Inl (IdempotencyConflict m)"
  by (rule accept_conflicts [OF sample_run(4), of sample_op "claimed_op sample_args 1 sample_row"])
    (simp_all add: sample_eval claimed_op_def sample_valid,
     simp_all add: sample_row_def fresh_op_row_def)

end
