(* ===== verification/Fence_Properties.thy ===== *)
theory Fence_Properties
  imports Registry_Properties
begin

text \<open>
  Properties of claims and fences: a claim takes the oldest eligible operation and gives its
  owner a fence that holds until the lease expires, at most one fence of an operation holds
  at a time, a restart and a committed outcome end it for good, and closing a committed
  attempt again changes nothing.
\<close>

section \<open>How a claim loop ends\<close>

definition passed_over :: "claim_args \<Rightarrow> dispatch_row \<times> op_row \<Rightarrow> bool" where
  "passed_over c p \<longleftrightarrow> or_state (snd p) \<noteq> ACCEPTED \<or> en_deadline (or_request (snd p)) \<le> ca_now c"

text \<open>The loop passes over a prefix of the candidates, then claims one or finds none.\<close>

lemma claim_loop_splits:
  "claim_loop c cs r = Inr (Some k, r') \<Longrightarrow>
   \<exists>skipped d x rest s. cs = skipped @ (d, x) # rest \<and> (\<forall>p \<in> set skipped. passed_over c p) \<and>
     \<not> passed_over c (d, x) \<and> claim_loop c skipped r = Inr (None, s) \<and>
     claim_candidate c d x s = Inr (k, r')"
proof (induction c cs r rule: claim_loop.induct)
  case (2 c d x rest r)
  show ?case
  proof (cases "passed_over c (d, x)")
    case False
    then have "claim_candidate c d x r = Inr (k, r')"
      using "2.prems" by (auto simp: passed_over_def res_simps split: if_splits)
    with False show ?thesis
      by (intro exI [of _ "[]"] exI [of _ d] exI [of _ x] exI [of _ rest] exI [of _ r]) simp
  next
    case True
    let ?q = "if or_state x \<noteq> ACCEPTED then set_dispatch (or_operation x) (\<lambda>_. True)
      (\<lambda>w. w\<lparr>dw_state := D_parked\<rparr>) r else expire_queued x (ca_now c) r"
    have step: "claim_loop c ((d, x) # ys) r = claim_loop c ys ?q" for ys
      using True "2.prems" by (auto simp: passed_over_def split: if_splits)
    have "\<exists>skipped d' x' rest' s. rest = skipped @ (d', x') # rest' \<and>
        (\<forall>p \<in> set skipped. passed_over c p) \<and> \<not> passed_over c (d', x') \<and>
        claim_loop c skipped ?q = Inr (None, s) \<and> claim_candidate c d' x' s = Inr (k, r')"
    proof (cases "or_state x = ACCEPTED")
      case acc: True
      with True "2.prems" have "dw_kind d \<noteq> ''rlm.workbench.execute''"
        by (auto simp: passed_over_def split: if_splits)
      with acc True "2.IH"(2) "2.prems" show ?thesis unfolding step by (simp add: passed_over_def)
    qed (use "2.IH"(1) "2.prems" step in simp)
    then obtain skipped d' x' rest' s where "rest = skipped @ (d', x') # rest'"
      "\<forall>p \<in> set skipped. passed_over c p" "\<not> passed_over c (d', x')"
      "claim_loop c skipped ?q = Inr (None, s)" "claim_candidate c d' x' s = Inr (k, r')" by blast
    moreover from this(4) have "claim_loop c ((d, x) # skipped) r = Inr (None, s)" by (subst step)
    ultimately show ?thesis using True
      by (intro exI [of _ "(d, x) # skipped"] exI [of _ d'] exI [of _ x'] exI [of _ rest'] exI [of _ s])
        (simp del: claim_loop.simps)
  qed
qed simp

lemma claim_loop_None:
  "claim_loop c cs r = Inr (None, r') \<Longrightarrow> \<forall>p \<in> set cs. passed_over c p"
  by (induction c cs r rule: claim_loop.induct)
    (auto simp: passed_over_def res_simps split: if_splits)

lemma claim_loop_other:
  "claim_loop c cs r = Inr (None, s) \<Longrightarrow> j \<notin> set (map (or_operation \<circ> snd) cs) \<Longrightarrow>
   find_op j s = find_op j r \<and> find_dispatch j s = find_dispatch j r"
proof (induction c cs r rule: claim_loop.induct)
  case (2 c d x rest r)
  have "find_op j (set_dispatch i p f r) = find_op j r" for i p f
    by (simp add: find_op_def set_dispatch_def)
  with 2 show ?case
    by (auto simp: res_simps find_dispatch_update_other expire_queued_find_other
      expire_queued_find_dispatch split: if_splits)
qed simp

lemma claim_loop_generation:
  "claim_loop c cs r = Inr (None, s) \<Longrightarrow> rg_generation s = rg_generation r"
  by (induction c cs r rule: claim_loop.induct)
    (auto simp: res_simps set_dispatch_def expire_queued_def set_op_def Let_def split: if_splits)

text \<open>
  What is known when \<open>claim_next\<close> returns a claim: the split of its candidates and the state
  in which the claimed one was taken.
\<close>

lemma claim_next_split:
  assumes ok: "reg_ok r" and c: "claim_next c r = Inr (Some k, r')"
  obtains skipped d x rest s where
    "queued_candidates r = skipped @ (d, x) # rest" "\<forall>p \<in> set skipped. passed_over c p"
    "\<not> passed_over c (d, x)" "claim_candidate c d x s = Inr (k, r')"
    "reg_journal_ok s" "fences_ok s" "rg_generation s = ca_runtime_generation c"
    "find_op (or_operation x) s = Some x" "find_dispatch (or_operation x) s = Some d"
    "dw_state d = D_queued" "0 < ca_lease_duration c"
proof -
  have j: "reg_journal_ok r" and f: "fences_ok r" using ok by (auto simp: reg_ok_def)
  note cands = queued_candidates_ok(1) [OF j fences_dispatch_distinct [OF f]] claim_candidates_found [OF f j]
  from c have g: "rg_generation r = ca_runtime_generation c" "0 < ca_lease_duration c"
    and loop: "claim_loop c (queued_candidates r) r = Inr (Some k, r')"
    by (auto simp: claim_next_def split: if_splits)
  from claim_loop_splits [OF loop] obtain skipped d x rest s where
    split: "queued_candidates r = skipped @ (d, x) # rest" "\<forall>p \<in> set skipped. passed_over c p"
    "\<not> passed_over c (d, x)" and sk: "claim_loop c skipped r = Inr (None, s)"
    and cc: "claim_candidate c d x s = Inr (k, r')" by blast
  have dist: "distinct (map (or_operation \<circ> snd) skipped)"
    and new: "or_operation x \<notin> set (map (or_operation \<circ> snd) skipped)"
    using cands(1) unfolding split(1) by auto
  have found: "\<forall>(d, x) \<in> set skipped. find_op (or_operation x) r = Some x \<and>
      find_dispatch (or_operation x) r = Some d \<and> dw_state d = D_queued"
    using cands(2) unfolding split(1) by auto
  have "reg_journal_ok s"
    by (rule journal_ok_steps [OF claim_loop_refines [OF j dist _ sk] j]) (use found in auto)
  moreover have "fences_ok s" by (rule claim_loop_fences [OF f j dist found sk])
  moreover have "find_op (or_operation x) s = Some x" "find_dispatch (or_operation x) s = Some d"
    "dw_state d = D_queued"
    using claim_loop_other [OF sk new] cands(2) unfolding split(1) by auto
  ultimately show thesis
    using that [OF split cc] claim_loop_generation [OF sk] g by simp
qed

text \<open>The tables right after a candidate is claimed, and its fence against them.\<close>

lemma claim_candidate_tables:
  assumes "claim_candidate c d x s = Inr (k, r')"
  shows "rg_operations r' = rg_operations (claim_writes c x s)"
    "rg_dispatch r' = rg_dispatch (claim_writes c x s)"
    "rg_attempts r' = rg_attempts (claim_writes c x s)"
    "rg_leases r' = rg_leases (claim_writes c x s)" "rg_generation r' = rg_generation s"
    "fence_of k = \<lparr>fn_operation = or_operation x, fn_attempt_no = next_attempt_no (or_operation x) s,
       fn_attempt_id = aw_attempt_id (fresh_attempt c (or_operation x) (next_attempt_no (or_operation x) s)),
       fn_runtime_generation = ca_runtime_generation c,
       fn_dispatcher_generation = ca_dispatcher_generation c,
       fn_lease_epoch = next_lease_epoch (or_operation x) s, fn_owner_digest = ca_owner_digest c\<rparr>"
    "dc_kind k = dw_kind d"
proof -
  from claim_candidate_Inr [OF assms] obtain r2 pl where
    s: "successor_started c (dw_kind d) (or_operation x) (next_attempt_no (or_operation x) s)
      (or_record_revision x + 1) (claim_writes c x s) = Inr r2"
    and v: "claim_value c (dw_kind d) (or_operation x) (next_attempt_no (or_operation x) s)
      (next_lease_epoch (or_operation x) s) = Inr k"
    and r': "\<exists>i st ce rv now note no k. r' = insert_event i st ce rv now note no k pl r2" by blast
  have w: "rg_generation (claim_writes c x s) = rg_generation s"
    by (simp add: claim_writes_def set_defs)
  show "rg_operations r' = rg_operations (claim_writes c x s)"
    "rg_dispatch r' = rg_dispatch (claim_writes c x s)"
    "rg_attempts r' = rg_attempts (claim_writes c x s)"
    "rg_leases r' = rg_leases (claim_writes c x s)" "rg_generation r' = rg_generation s"
    using successor_started_Inr [OF s] r' w by auto
  show "fence_of k = \<lparr>fn_operation = or_operation x, fn_attempt_no = next_attempt_no (or_operation x) s,
       fn_attempt_id = aw_attempt_id (fresh_attempt c (or_operation x) (next_attempt_no (or_operation x) s)),
       fn_runtime_generation = ca_runtime_generation c,
       fn_dispatcher_generation = ca_dispatcher_generation c,
       fn_lease_epoch = next_lease_epoch (or_operation x) s, fn_owner_digest = ca_owner_digest c\<rparr>"
    "dc_kind k = dw_kind d" using claim_value_Inr [OF v] by simp_all
qed

section \<open>Lookups under the ownership invariant\<close>

lemma find_exact_attempt_iff:
  assumes "fences_ok r"
  shows "find_exact_attempt i n aid r = Some a \<longleftrightarrow>
    a \<in> set (rg_attempts r) \<and> aw_operation a = i \<and> aw_attempt_no a = n \<and> aw_attempt_id a = aid"
proof
  assume a: "a \<in> set (rg_attempts r) \<and> aw_operation a = i \<and> aw_attempt_no a = n \<and> aw_attempt_id a = aid"
  show "find_exact_attempt i n aid r = Some a"
    unfolding find_exact_attempt_def
  proof (rule fetchone_key [where k = attempt_key, OF attempts_distinct [OF assms]])
    fix b assume b: "b \<in> set (rg_attempts r)"
    show "(aw_operation b = i \<and> aw_attempt_no b = n \<and> aw_attempt_id b = aid) \<longleftrightarrow>
        attempt_key b = attempt_key a"
      using attempt_unique [OF assms b, of a] a by (auto simp: attempt_key_def)
  qed (use a in simp)
qed (rule find_exact_attempt_SomeD)

lemma find_lease_iff:
  assumes "fences_ok r"
  shows "find_lease i n e r = Some l \<longleftrightarrow>
    l \<in> set (rg_leases r) \<and> lw_operation l = i \<and> lw_attempt_no l = n \<and> lw_lease_epoch l = e"
proof
  assume l: "l \<in> set (rg_leases r) \<and> lw_operation l = i \<and> lw_attempt_no l = n \<and> lw_lease_epoch l = e"
  show "find_lease i n e r = Some l"
    unfolding find_lease_def
  proof (rule fetchone_key [where k = lease_key])
    show "distinct (map lease_key (rg_leases r))"
      using attempts_distinct [OF assms] assms by (simp add: fences_ok_def)
    fix m assume m: "m \<in> set (rg_leases r)"
    show "(lw_operation m = i \<and> lw_attempt_no m = n \<and> lw_lease_epoch m = e) \<longleftrightarrow> lease_key m = lease_key l"
      using lease_unique [OF assms m, of l] l by (auto simp: lease_key_def)
  qed (use l in simp)
qed (auto dest: find_lease_SomeD)

lemma claimed_fence_valid:
  assumes ok: "reg_ok r'" and cc: "claim_candidate c d x s = Inr (k, r')"
    and g: "rg_generation s = ca_runtime_generation c" and f: "fences_ok s" and j: "reg_journal_ok s"
    and x: "find_op (or_operation x) s = Some x" "or_state x = ACCEPTED"
    and d: "find_dispatch (or_operation x) s = Some d" "dw_state d = D_queued"
    and now: "now < ca_now c + ca_lease_duration c"
  shows "\<exists>a l. validate_fence (fence_of k) now r' = Inr (a, l) \<and>
    lw_expires_at l = ca_now c + ca_lease_duration c \<and> lw_owner_digest l = ca_owner_digest c"
proof -
  let ?i = "or_operation x" and ?n = "next_attempt_no (or_operation x) s"
  let ?e = "next_lease_epoch (or_operation x) s"
  let ?a = "fresh_attempt c ?i ?n" and ?l = "fresh_lease c ?i ?n ?e"
  note t = claim_candidate_tables [OF cc]
  have f': "fences_ok r'" and j': "reg_journal_ok r'" using ok by (auto simp: reg_ok_def)
  have "find_exact_attempt ?i ?n (aw_attempt_id ?a) r' = Some ?a"
    by (simp add: find_exact_attempt_iff [OF f'] t claim_writes_tables)
  moreover have "find_lease ?i ?n ?e r' = Some ?l"
    by (simp add: find_lease_iff [OF f'] t claim_writes_tables) (simp add: fresh_lease_def)
  moreover have "find_dispatch ?i r' = Some (claimed_dispatch c ?n d)"
    using find_dispatch_SomeD [OF d(1)] d(2)
    by (auto simp: find_dispatch_iff [OF f'] t claim_writes_tables set_update_rows)
  moreover have "find_op ?i r' = Some (claimed_op c (or_record_revision x + 1) x)"
    using find_op_SomeD [OF x(1)] x(2)
    by (auto simp: find_op_iff [OF j'] t claim_writes_tables set_update_rows)
  moreover have "aw_runtime_generation ?a = ca_runtime_generation c"
    "aw_dispatcher_generation ?a = ca_dispatcher_generation c"
    "lw_owner_digest ?l = ca_owner_digest c" "lw_released_at ?l = None"
    "lw_expires_at ?l = ca_now c + ca_lease_duration c"
    "or_runtime_generation (claimed_op c v x) = ca_runtime_generation c" for v
    by (simp_all add: fresh_attempt_def fresh_lease_def claimed_op_def)
  ultimately have "validate_fence (fence_of k) now r' = Inr (?a, ?l)"
    using now g t(5) by (simp add: validate_fence_Inr t(6))
  then show ?thesis by (simp add: fresh_lease_def)
qed

lemma validate_fence_closed:
  assumes f: "fences_ok r" and b: "b \<in> set (rg_attempts r)" "aw_state b \<noteq> A_running"
    and k: "attempt_key b = (fn_operation h, fn_attempt_no h)"
  shows "\<exists>m. validate_fence h now r = Inl (StaleAttemptFence m)"
proof (cases "find_exact_attempt (fn_operation h) (fn_attempt_no h) (fn_attempt_id h) r")
  case (Some a)
  then have "a \<in> set (rg_attempts r)" "attempt_key a = attempt_key b"
    using k by (auto simp: find_exact_attempt_iff [OF f] attempt_key_def)
  then have "a = b" by (rule attempt_unique [OF f _ b(1)])
  with Some b(2) show ?thesis by (simp add: validate_fence_def Let_def)
qed (simp add: validate_fence_def Let_def)

lemma start_runtime_generation:
  assumes "start_runtime now r = (g, r')"
  shows "rg_generation r' = rg_generation r + 1" "g = rg_generation r + 1"
proof -
  have "rg_generation (foldl (rebind_accepted h now) s xs) = rg_generation s" for h s xs
    by (induction xs arbitrary: s) (simp_all add: rebind_accepted_def set_defs)
  moreover have "rg_generation (foldl (fence_running h now) s xs) = rg_generation s" for h s xs
    by (induction xs arbitrary: s) (simp_all add: fence_running_def set_defs split: option.splits)
  ultimately show "rg_generation r' = rg_generation r + 1" "g = rg_generation r + 1"
    using assms by (auto simp: start_runtime_def Let_def)
qed

lemma outcome_tables:
  assumes "transition_claimed f st j fl note fn now r = Inr (rec, r')"
  obtains x where "find_op (fn_operation f) r = Some x" "or_state x = RUNNING"
    "rg_generation r' = rg_generation r"
    "rg_operations r' = update_rows (\<lambda>x. or_operation x = fn_operation f \<and> or_state x = RUNNING \<and>
       or_runtime_generation x = fn_runtime_generation f)
       (outcome_op st j fl (or_record_revision x + 1) now) (rg_operations r)"
    "rg_attempts r' = update_rows (\<lambda>a. aw_operation a = fn_operation f \<and>
       aw_attempt_no a = fn_attempt_no f \<and> aw_attempt_id a = fn_attempt_id f \<and> aw_state a = A_running)
       (\<lambda>a. a\<lparr>aw_state := A_state st, aw_certainty := outcome_certainty_of st,
          aw_recovery_reason := (if st = INDETERMINATE then Some note else None),
          aw_ended_at := Some now\<rparr>) (rg_attempts r)"
    "rg_leases r' = update_rows (\<lambda>l. lw_operation l = fn_operation f \<and>
       lw_attempt_no l = fn_attempt_no f \<and> lw_lease_epoch l = fn_lease_epoch f \<and> lw_released_at l = None)
       (\<lambda>l. l\<lparr>lw_released_at := Some now\<rparr>) (rg_leases r)"
    "rg_dispatch r' = update_rows (\<lambda>d. dw_operation d = fn_operation f \<and> dw_state d = D_running \<and>
       dw_current_attempt_no d = Some (fn_attempt_no f))
       (\<lambda>d. d\<lparr>dw_state := closed_dispatch_state st, dw_finished_at := Some now\<rparr>) (rg_dispatch r)"
  using transition_claimed_Inr [OF assms] by (auto simp: outcome_writes_def set_defs)

text \<open>A loop over fetched rows rewrites each of them once.\<close>

lemma fold_rows_find_in:
  assumes other: "\<And>s x j. j \<noteq> or_operation x \<Longrightarrow> find_op j (f s x) = find_op j s"
  shows "distinct (map or_operation xs) \<Longrightarrow> x \<in> set xs \<Longrightarrow>
    \<exists>s. find_op (or_operation x) s = find_op (or_operation x) r \<and>
      find_op (or_operation x) (foldl f r xs) = find_op (or_operation x) (f s x)"
proof (induction xs arbitrary: r)
  case (Cons y xs)
  show ?case
  proof (cases "x = y")
    case True
    then have "or_operation x \<notin> or_operation ` set xs" using Cons.prems(1) by auto
    from fold_rows_find_other [OF other this] True show ?thesis by auto
  next
    case False
    with Cons.prems(2) have "x \<in> set xs" by simp
    moreover from this Cons.prems(1) have "or_operation x \<noteq> or_operation y" by (metis distinct.simps(2) image_eqI list.set_map list.simps(9))
    ultimately have x: "x \<in> set xs" "or_operation x \<noteq> or_operation y" by simp_all
    with Cons.IH [of "f r y"] Cons.prems(1) other [OF x(2)] show ?thesis by auto
  qed
qed simp

lemma find_op_set_op:
  "find_op i s = Some x \<Longrightarrow> p x \<Longrightarrow> (\<And>z. or_operation (f z) = or_operation z) \<Longrightarrow>
   find_op i (set_op i p f s) = Some (f x)"
proof -
  assume a: "find_op i s = Some x" "p x" "\<And>z. or_operation (f z) = or_operation z"
  have "fetchone (\<lambda>x. or_operation x = i) t = Some x \<Longrightarrow>
      fetchone (\<lambda>x. or_operation x = i) (update_rows (\<lambda>x. or_operation x = i \<and> p x) f t) = Some (f x)" for t
    using a(2,3) by (induction t) (auto simp: row_simps split: if_splits)
  with a(1) show ?thesis by (simp add: find_op_def set_op_def)
qed

lemma rebind_find_self:
  assumes "find_op (or_operation x) s = Some x"
  shows "find_op (or_operation x) (rebind_accepted g now s x) = Some (x\<lparr>or_runtime_generation := g,
    or_record_revision := or_record_revision x + 1, or_updated_at := now\<rparr>)"
proof -
  have "find_op (or_operation x) (rebind_accepted g now s x) = find_op (or_operation x)
      (set_op (or_operation x) (\<lambda>_. True) (\<lambda>z. z\<lparr>or_runtime_generation := g,
        or_record_revision := or_record_revision x + 1, or_updated_at := now\<rparr>) s)"
    by (rule find_op_cong) (simp add: rebind_accepted_def Let_def)
  then show ?thesis using find_op_set_op [OF assms, of "\<lambda>_. True"] by simp
qed

lemma fence_running_find_self:
  assumes "find_op (or_operation x) s = Some x"
  shows "\<exists>y. find_op (or_operation x) (fence_running g now s x) = Some y \<and> or_state y = INDETERMINATE \<and>
    or_reconciliation_required y \<and> or_record_revision y = or_record_revision x + 1"
proof -
  let ?f = "\<lambda>z. z\<lparr>or_state := INDETERMINATE, or_certainty := INDETERMINATE_OUTCOME,
    or_record_revision := or_record_revision x + 1, or_reconciliation_required := True, or_updated_at := now\<rparr>"
  have "find_op (or_operation x) (fence_running g now s x) =
      find_op (or_operation x) (set_op (or_operation x) (\<lambda>_. True) ?f s)"
    by (rule find_op_cong)
      (simp add: fence_running_def Let_def set_lease_def set_attempt_def split: option.splits)
  then show ?thesis using find_op_set_op [OF assms, of "\<lambda>_. True" ?f] by simp
qed

lemma restart_rows:
  assumes ok: "reg_journal_ok r" and s: "start_runtime now r = (g, r')" and x: "find_op i r = Some x"
  shows "\<exists>y. find_op i r' = Some y \<and>
    (if or_state x = RUNNING then or_state y = INDETERMINATE \<and> or_reconciliation_required y \<and>
       or_record_revision y = or_record_revision x + 1
     else if or_state x = ACCEPTED then or_state y = ACCEPTED \<and> or_runtime_generation y = g \<and>
       or_record_revision y = or_record_revision x + 1
     else y = x)"
proof -
  let ?r0 = "r\<lparr>rg_generation := rg_generation r + 1\<rparr>" and ?g = "rg_generation r + 1"
  let ?acc = "filter (\<lambda>x. or_state x = ACCEPTED) (rg_operations r)"
  let ?run = "filter (\<lambda>x. or_state x = RUNNING) (rg_operations r)"
  let ?r1 = "foldl (rebind_accepted ?g now) ?r0 ?acc"
  have r': "r' = foldl (fence_running ?g now) ?r1 ?run" and g: "g = ?g"
    using s by (auto simp: start_runtime_def Let_def)
  have mem: "x \<in> set (rg_operations r)" "or_operation x = i" using find_op_SomeD [OF x] by auto
  have uniq: "y = x" if "y \<in> set (rg_operations r)" "or_operation y = i" for y
    using that find_op_iff [OF ok, of i y] x by simp
  have x0: "find_op i ?r0 = Some x" using x by (simp add: find_op_def)
  have d: "distinct (map or_operation (filter p (rg_operations r)))" for p
    by (intro distinct_map_filter journal_distinct [OF ok])
  show ?thesis
  proof (cases "or_state x = RUNNING")
    case True
    have "i \<notin> or_operation ` set ?acc" using uniq True by force
    then have x1: "find_op i ?r1 = Some x"
      using fold_rows_find_other [where f = "rebind_accepted ?g now", OF rebind_find_other] x0 by metis
    have "x \<in> set ?run" using mem True by simp
    from fold_rows_find_in [where f = "fence_running ?g now", OF fence_running_find_other d this, of ?r1]
    obtain t where "find_op i t = Some x" "find_op i r' = find_op i (fence_running ?g now t x)"
      using mem(2) x1 unfolding r' by auto
    with fence_running_find_self [of x t ?g now] mem(2) True show ?thesis by auto
  next
    case False
    have "i \<notin> or_operation ` set ?run" using uniq False by force
    then have x1: "find_op i r' = find_op i ?r1" unfolding r'
      using fold_rows_find_other [where f = "fence_running ?g now", OF fence_running_find_other] by metis
    show ?thesis
    proof (cases "or_state x = ACCEPTED")
      case True
      have "x \<in> set ?acc" using mem True by simp
      from fold_rows_find_in [where f = "rebind_accepted ?g now", OF rebind_find_other d this, of ?r0]
      obtain t where "find_op i t = Some x" "find_op i ?r1 = find_op i (rebind_accepted ?g now t x)"
        using mem(2) x0 by auto
      with rebind_find_self [of x t ?g now] mem(2) True False x1 g show ?thesis by simp
    next
      case no: False
      have "i \<notin> or_operation ` set ?acc" using uniq no by force
      then have "find_op i ?r1 = Some x"
        using fold_rows_find_other [where f = "rebind_accepted ?g now", OF rebind_find_other] x0 by metis
      with x1 False no show ?thesis by simp
    qed
  qed
qed

lemma find_dispatch_update:
  assumes f: "fences_ok r" and d: "find_dispatch i r = Some d" and p: "p d"
    and g: "\<And>d. dw_operation (g d) = dw_operation d" and f': "fences_ok r'"
    and t: "rg_dispatch r' = update_rows (\<lambda>d. dw_operation d = i \<and> p d) g (rg_dispatch r)"
  shows "find_dispatch i r' = Some (g d)"
  using d p by (auto simp: find_dispatch_iff [OF f] find_dispatch_iff [OF f'] t set_update_rows g)

text \<open>What the owner's commit leaves, row by row.\<close>

lemma committed_rows:
  assumes ok: "reg_ok r" and c: "transition_claimed f st j fl note fn now r = Inr (rec, r')"
  obtains x a l d where "rg_generation r' = fn_runtime_generation f"
    "find_op (fn_operation f) r = Some x" "or_state x = RUNNING"
    "find_op (fn_operation f) r' = Some (outcome_op st j fl (or_record_revision x + 1) now x)"
    "or_runtime_generation x = fn_runtime_generation f"
    "find_exact_attempt (fn_operation f) (fn_attempt_no f) (fn_attempt_id f) r' = Some a"
    "aw_state a = A_state st" "aw_runtime_generation a = fn_runtime_generation f"
    "aw_dispatcher_generation a = fn_dispatcher_generation f"
    "find_lease (fn_operation f) (fn_attempt_no f) (fn_lease_epoch f) r' = Some l"
    "lw_released_at l = Some now" "lw_owner_digest l = fn_owner_digest f"
    "find_dispatch (fn_operation f) r' = Some d" "dw_state d = closed_dispatch_state st"
    "dw_current_attempt_no d = Some (fn_attempt_no f)"
proof -
  have j: "reg_journal_ok r" and fo: "fences_ok r" using ok by (auto simp: reg_ok_def)
  have ok': "reg_ok r'" by (rule reg_ok_step [OF reg_step.outcome [OF c] ok])
  then have j': "reg_journal_ok r'" and fo': "fences_ok r'" by (auto simp: reg_ok_def)
  obtain x where x: "find_op (fn_operation f) r = Some x" "or_state x = RUNNING" and
    t: "rg_generation r' = rg_generation r"
    "rg_operations r' = update_rows (\<lambda>x. or_operation x = fn_operation f \<and> or_state x = RUNNING \<and>
       or_runtime_generation x = fn_runtime_generation f)
       (outcome_op st j fl (or_record_revision x + 1) now) (rg_operations r)"
    "rg_attempts r' = update_rows (\<lambda>a. aw_operation a = fn_operation f \<and>
       aw_attempt_no a = fn_attempt_no f \<and> aw_attempt_id a = fn_attempt_id f \<and> aw_state a = A_running)
       (\<lambda>a. a\<lparr>aw_state := A_state st, aw_certainty := outcome_certainty_of st,
          aw_recovery_reason := (if st = INDETERMINATE then Some note else None),
          aw_ended_at := Some now\<rparr>) (rg_attempts r)"
    "rg_leases r' = update_rows (\<lambda>l. lw_operation l = fn_operation f \<and>
       lw_attempt_no l = fn_attempt_no f \<and> lw_lease_epoch l = fn_lease_epoch f \<and> lw_released_at l = None)
       (\<lambda>l. l\<lparr>lw_released_at := Some now\<rparr>) (rg_leases r)"
    "rg_dispatch r' = update_rows (\<lambda>d. dw_operation d = fn_operation f \<and> dw_state d = D_running \<and>
       dw_current_attempt_no d = Some (fn_attempt_no f))
       (\<lambda>d. d\<lparr>dw_state := closed_dispatch_state st, dw_finished_at := Some now\<rparr>) (rg_dispatch r)"
    by (rule outcome_tables [OF c])
  obtain a l where v: "validate_fence f fn r = Inr (a, l)"
    using transition_claimed_Inr [OF c] by (metis surj_pair)
  then obtain d where va: "fn_runtime_generation f = rg_generation r"
    "find_exact_attempt (fn_operation f) (fn_attempt_no f) (fn_attempt_id f) r = Some a"
    "aw_runtime_generation a = fn_runtime_generation f"
    "aw_dispatcher_generation a = fn_dispatcher_generation f" "aw_state a = A_running"
    "find_lease (fn_operation f) (fn_attempt_no f) (fn_lease_epoch f) r = Some l"
    "lw_owner_digest l = fn_owner_digest f" "lw_released_at l = None"
    "find_dispatch (fn_operation f) r = Some d" "dw_state d = D_running"
    "dw_current_attempt_no d = Some (fn_attempt_no f)" "or_runtime_generation x = fn_runtime_generation f"
    using x(1) unfolding validate_fence_Inr by auto
  let ?a = "a\<lparr>aw_state := A_state st, aw_certainty := outcome_certainty_of st,
          aw_recovery_reason := (if st = INDETERMINATE then Some note else None),
          aw_ended_at := Some now\<rparr>"
  let ?d = "d\<lparr>dw_state := closed_dispatch_state st, dw_finished_at := Some now\<rparr>"
  have "find_op (fn_operation f) r' = Some (outcome_op st j fl (or_record_revision x + 1) now x)"
    by (rule find_op_replaced [OF j x(1) _ _ t(2)])
      (use x va find_op_SomeD [OF x(1)] in \<open>simp_all add: outcome_op_def\<close>)
  moreover have "find_exact_attempt (fn_operation f) (fn_attempt_no f) (fn_attempt_id f) r' = Some ?a"
    using va(2,5) by (auto simp: find_exact_attempt_iff [OF fo] find_exact_attempt_iff [OF fo'] t(3)
      set_update_rows image_iff intro!: bexI [of _ a])
  moreover have "find_lease (fn_operation f) (fn_attempt_no f) (fn_lease_epoch f) r' =
      Some (l\<lparr>lw_released_at := Some now\<rparr>)"
    using va(6,8) by (auto simp: find_lease_iff [OF fo] find_lease_iff [OF fo'] t(4)
      set_update_rows image_iff intro!: bexI [of _ l])
  moreover have "find_dispatch (fn_operation f) r' = Some ?d"
    using va(9-11) by (auto simp: find_dispatch_iff [OF fo] find_dispatch_iff [OF fo'] t(5)
      set_update_rows image_iff intro!: bexI [of _ d])
  ultimately show thesis using that [of x ?a "l\<lparr>lw_released_at := Some now\<rparr>" ?d] va x t(1) by simp
qed

section \<open>Properties\<close>

text \<open>C5: at most one owner: two fences of one operation that both pass validation, even at
  different clock readings, are the same fence (attempt, generations, lease epoch and owner).\<close>

theorem valid_fence_is_unique:
  assumes "reachable r" "fn_operation f = fn_operation h"
    and "validate_fence f now r = Inr (a, l)" "validate_fence h now2 r = Inr (b, m)"
  shows "f = h \<and> a = b \<and> l = m"
proof -
  have ok: "fences_ok r" using reachable_ok [OF assms(1)] by (simp add: reg_ok_def)
  from assms(3) have fa: "find_exact_attempt (fn_operation f) (fn_attempt_no f) (fn_attempt_id f) r = Some a"
    "aw_runtime_generation a = fn_runtime_generation f"
    "aw_dispatcher_generation a = fn_dispatcher_generation f"
    "find_lease (fn_operation f) (fn_attempt_no f) (fn_lease_epoch f) r = Some l"
    "lw_owner_digest l = fn_owner_digest f" "aw_state a = A_running"
    unfolding validate_fence_Inr by auto
  from assms(4) have hb: "find_exact_attempt (fn_operation h) (fn_attempt_no h) (fn_attempt_id h) r = Some b"
    "aw_runtime_generation b = fn_runtime_generation h"
    "aw_dispatcher_generation b = fn_dispatcher_generation h"
    "find_lease (fn_operation h) (fn_attempt_no h) (fn_lease_epoch h) r = Some m"
    "lw_owner_digest m = fn_owner_digest h" "aw_state b = A_running"
    unfolding validate_fence_Inr by auto
  note A = fa(1) [unfolded find_exact_attempt_iff [OF ok]] hb(1) [unfolded find_exact_attempt_iff [OF ok]]
  note L = fa(4) [unfolded find_lease_iff [OF ok]] hb(4) [unfolded find_lease_iff [OF ok]]
  have "latest_no (fn_operation f) r = Some (fn_attempt_no f)" "latest_no (fn_operation f) r = Some (fn_attempt_no h)"
    using running_latest [OF ok] A fa(6) hb(6) assms(2) by metis+
  then have n: "fn_attempt_no f = fn_attempt_no h" by simp
  have ab: "a = b" using A assms(2) n by (intro attempt_unique [OF ok]) (simp_all add: attempt_key_def)
  have lm: "l = m" using L assms(2) n by (intro lease_unique [OF ok]) (simp_all add: lease_key_def)
  have "fn_attempt_id f = fn_attempt_id h" "fn_lease_epoch f = fn_lease_epoch h" using A L ab lm by simp_all
  moreover have "fn_runtime_generation f = fn_runtime_generation h"
    "fn_dispatcher_generation f = fn_dispatcher_generation h" "fn_owner_digest f = fn_owner_digest h"
    using fa(2,3,5) hb(2,3,5) ab lm by simp_all
  ultimately have "f = h" using assms(2) n by (intro fence.equality) simp_all
  with ab lm show ?thesis by simp
qed

theorem valid_fence_is_unique_witness:
  "sample_fence = sample_fence \<and> fresh_attempt sample_args sample_op 1 = fresh_attempt sample_args sample_op 1 \<and>
   fresh_lease sample_args sample_op 1 1 = fresh_lease sample_args sample_op 1 1"
  by (rule valid_fence_is_unique [OF sample_run(4) refl sample_fence_valid [of 1300] sample_fence_valid [of 1400]])
    simp_all

text \<open>C18: \<open>claim_next\<close> gives its caller real ownership: the fence of the claim it returns
  validates in the state it commits, at any clock reading before the lease duration has
  passed, against a lease of exactly that length held by the calling owner.\<close>

theorem claim_owns_until_expiry:
  assumes "reachable r" "claim_next c r = Inr (Some k, r')"
    and "now < ca_now c + ca_lease_duration c"
  shows "\<exists>a l. validate_fence (fence_of k) now r' = Inr (a, l) \<and>
    lw_expires_at l = ca_now c + ca_lease_duration c \<and> lw_owner_digest l = ca_owner_digest c"
proof -
  note ok = reachable_ok [OF assms(1)]
  have ok': "reg_ok r'" by (rule reg_ok_step [OF reg_step.claim [OF assms(2)] ok])
  obtain skipped d x rest s where "queued_candidates r = skipped @ (d, x) # rest"
    "\<forall>p \<in> set skipped. passed_over c p" and x: "\<not> passed_over c (d, x)"
    and s: "claim_candidate c d x s = Inr (k, r')" "reg_journal_ok s" "fences_ok s"
    "rg_generation s = ca_runtime_generation c" "find_op (or_operation x) s = Some x"
    "find_dispatch (or_operation x) s = Some d" "dw_state d = D_queued" "0 < ca_lease_duration c"
    by (rule claim_next_split [OF ok assms(2)])
  show ?thesis
    by (rule claimed_fence_valid [OF ok' s(1,4,3,2,5) _ s(6,7) assms(3)])
      (use x in \<open>simp add: passed_over_def\<close>)
qed

theorem claim_owns_until_expiry_witness:
  "\<exists>a l. validate_fence (fence_of sample_claim) 1499 sample_running = Inr (a, l) \<and>
    lw_expires_at l = 1500 \<and> lw_owner_digest l = json_digest (JStr ''owner'')"
  using claim_owns_until_expiry [OF sample_run(3) sample_claims, of 1499]
  by (simp add: sample_args_def)

text \<open>C17: \<open>claim_next\<close> serves the oldest work: the operation it claims was queued, accepted and
  before its deadline, and no other queued operation that was accepted and before its
  deadline had been queued earlier (equal times are ordered by operation id).\<close>

theorem claim_takes_the_oldest:
  assumes "reachable r" "claim_next c r = Inr (Some k, r')"
  shows "\<exists>d x. d \<in> set (rg_dispatch r) \<and> dw_operation d = dc_operation k \<and> dw_kind d = dc_kind k \<and>
    dw_state d = D_queued \<and> find_op (dc_operation k) r = Some x \<and> or_state x = ACCEPTED \<and>
    ca_now c < en_deadline (or_request x) \<and>
    (\<forall>e \<in> set (rg_dispatch r). \<forall>y. dw_state e = D_queued \<and> find_op (dw_operation e) r = Some y \<and>
       or_state y = ACCEPTED \<and> ca_now c < en_deadline (or_request y) \<longrightarrow>
       (dw_queued_at d, dw_operation d) \<le> (dw_queued_at e, dw_operation e))"
proof -
  note ok = reachable_ok [OF assms(1)]
  have j: "reg_journal_ok r" and f: "fences_ok r" using ok by (auto simp: reg_ok_def)
  let ?key = "\<lambda>(d, x). (dw_queued_at d, dw_operation d)"
  obtain skipped d x rest s where split: "queued_candidates r = skipped @ (d, x) # rest"
    and sk: "\<forall>p \<in> set skipped. passed_over c p" and x: "\<not> passed_over c (d, x)"
    and s: "claim_candidate c d x s = Inr (k, r')" "reg_journal_ok s" "fences_ok s"
    "rg_generation s = ca_runtime_generation c" "find_op (or_operation x) s = Some x"
    "find_dispatch (or_operation x) s = Some d" "dw_state d = D_queued" "0 < ca_lease_duration c"
    by (rule claim_next_split [OF ok assms(2)])
  have "(d, x) \<in> set (queued_candidates r)" unfolding split by simp
  then have dx: "find_op (or_operation x) r = Some x" "find_dispatch (or_operation x) r = Some d"
    using claim_candidates_found [OF f j] by auto
  have op: "dc_operation k = or_operation x" "dc_kind k = dw_kind d"
    using claim_candidate_tables(6,7) [OF s(1)] by (simp_all add: fence_of_def dc_operation_def)
  have sorted: "sorted (map ?key (skipped @ (d, x) # rest))"
    unfolding split [symmetric] queued_candidates_def by (rule sorted_sort_key)
  have "(dw_queued_at d, dw_operation d) \<le> (dw_queued_at e, dw_operation e)"
    if e: "e \<in> set (rg_dispatch r)" "dw_state e = D_queued" "find_op (dw_operation e) r = Some y"
      "or_state y = ACCEPTED" "ca_now c < en_deadline (or_request y)" for e y
  proof -
    have "(e, y) \<in> set (queued_candidates r)"
      using e(1-3) find_op_SomeD [OF e(3)]
      by (force simp: queued_candidates_def candidate_rows_def)
    moreover have "\<not> passed_over c (e, y)" using e by (simp add: passed_over_def)
    ultimately have "(e, y) \<in> set ((d, x) # rest)" using sk unfolding split by auto
    then show ?thesis using sorted by (auto simp: sorted_append)
  qed
  then show ?thesis
    using x dx op s(7) find_dispatch_SomeD [OF dx(2)]
    by (intro exI [of _ d] exI [of _ x]) (auto simp: passed_over_def)
qed

theorem claim_takes_the_oldest_witness:
  "\<exists>d x. d \<in> set (rg_dispatch sample_queued) \<and> dw_operation d = dc_operation sample_claim \<and>
    find_op (dc_operation sample_claim) sample_queued = Some x \<and> or_state x = ACCEPTED"
  using claim_takes_the_oldest [OF sample_run(3) sample_claims] by blast

text \<open>C16: no eligible work is left behind: \<open>claim_next\<close> reports that there is nothing to claim only
  when every queued operation is no longer accepted or has passed its deadline.\<close>

theorem claim_leaves_no_work:
  assumes "reachable r" "claim_next c r = Inr (None, r')"
    and "e \<in> set (rg_dispatch r)" "dw_state e = D_queued" "find_op (dw_operation e) r = Some y"
    and "or_state y = ACCEPTED"
  shows "en_deadline (or_request y) \<le> ca_now c"
proof -
  from assms(2) have "claim_loop c (queued_candidates r) r = Inr (None, r')"
    by (auto simp: claim_next_def split: if_splits)
  from claim_loop_None [OF this] have "passed_over c (e, y)"
    using assms(3-5) find_op_SomeD [OF assms(5)]
    by (force simp: queued_candidates_def candidate_rows_def)
  with assms(6) show ?thesis by (simp add: passed_over_def)
qed

theorem claim_leaves_no_work_witness:
  "(\<exists>r'. claim_next (sample_args\<lparr>ca_now := 6000\<rparr>) sample_queued = Inr (None, r')) \<and>
   en_deadline (or_request sample_row) \<le> ca_now (sample_args\<lparr>ca_now := 6000\<rparr>)"
proof -
  let ?c = "sample_args\<lparr>ca_now := 6000\<rparr>"
  have "queued_candidates sample_queued = [(sample_dispatch, sample_row)]"
    by (simp add: queued_candidates_def candidate_rows_def)
  then have c: "claim_next ?c sample_queued = Inr (None, expire_queued sample_row 6000 sample_queued)"
    by (simp add: claim_next_def) (simp add: sample_args_def)
  from claim_leaves_no_work [OF sample_run(3) c, of sample_dispatch sample_row] c show ?thesis
    by (simp add: find_op_def row_simps)
qed

text \<open>A restart reclassifies exactly the unfinished work: every running operation becomes
  indeterminate and marked for reconciliation, every accepted one is rebound to the new
  generation, both with their revision one higher, and every other row is left alone.\<close>

theorem restart_reclassifies:
  assumes "reachable r" "start_runtime now r = (g, r')" "find_op i r = Some x"
  shows "\<exists>y. find_op i r' = Some y \<and>
    (if or_state x = RUNNING then or_state y = INDETERMINATE \<and> or_reconciliation_required y \<and>
       or_record_revision y = or_record_revision x + 1
     else if or_state x = ACCEPTED then or_state y = ACCEPTED \<and> or_runtime_generation y = g \<and>
       or_record_revision y = or_record_revision x + 1
     else y = x)"
proof -
  have "reg_journal_ok r" using reachable_ok [OF assms(1)] by (simp add: reg_ok_def)
  from restart_rows [OF this assms(2,3)] show ?thesis .
qed

theorem restart_reclassifies_witness:
  "\<exists>y. find_op sample_op (snd (start_runtime 2000 sample_running)) = Some y \<and> or_state y = INDETERMINATE"
  using restart_reclassifies [OF sample_run(4), of 2000 "fst (start_runtime 2000 sample_running)"
      "snd (start_runtime 2000 sample_running)" sample_op "claimed_op sample_args 1 sample_row"]
  by (auto simp: find_op_def row_simps)

text \<open>C22: a restart ends every earlier claim: once the runtime has started a new generation, a
  fence of any earlier generation is refused as stale, whatever is called afterwards.\<close>

theorem restart_ends_fences:
  assumes "fn_runtime_generation f \<le> rg_generation r" "start_runtime now r = (g, r1)" "reg_steps r1 r2"
  shows "validate_fence f now2 r2 = Inl (StaleAttemptFence ''runtime generation fence is stale'')"
proof -
  have "rg_generation r1 \<le> rg_generation r2" using steps_evolve [OF assms(3)] by (simp add: evolves_def)
  with start_runtime_generation [OF assms(2)] assms(1) show ?thesis by (simp add: validate_fence_def Let_def)
qed

theorem restart_ends_fences_witness:
  "validate_fence sample_fence 1300 (snd (start_runtime 1250 sample_running)) =
     Inl (StaleAttemptFence ''runtime generation fence is stale'')"
  by (rule restart_ends_fences [OF _ prod.collapse [symmetric] rtranclp.rtrancl_refl]) simp

text \<open>C12: an attempt commits at most one outcome: after a fenced outcome was committed, no fence
  of that operation and attempt ever validates again, so no later heartbeat, checkpoint or
  second outcome of that attempt is accepted.\<close>

theorem committed_attempt_stays_closed:
  assumes "reachable r" "transition_claimed f st j fl note fn now r = Inr (rec, r1)" "reg_steps r1 r2"
    and "fn_operation h = fn_operation f" "fn_attempt_no h = fn_attempt_no f"
  shows "\<exists>m. validate_fence h now2 r2 = Inl (StaleAttemptFence m)"
proof -
  note ok = reachable_ok [OF assms(1)]
  have ok1: "reg_ok r1" by (rule reg_ok_step [OF reg_step.outcome [OF assms(2)] ok])
  have f1: "fences_ok r1" and f2: "fences_ok r2"
    using ok1 registry.steps_ok [OF assms(3) ok1] by (auto simp: reg_ok_def)
  have st: "terminal st \<or> st = INDETERMINATE" using transition_claimed_Inr [OF assms(2)] by blast
  obtain a where "find_exact_attempt (fn_operation f) (fn_attempt_no f) (fn_attempt_id f) r1 = Some a"
    "aw_state a = A_state st" by (rule committed_rows [OF ok assms(2)])
  then have a: "a \<in> set (rg_attempts r1)" "attempt_key a = (fn_operation f, fn_attempt_no f)"
    "aw_state a \<noteq> A_running" using st by (auto simp: find_exact_attempt_iff [OF f1] attempt_key_def terminal_def)
  obtain b where b: "b \<in> set (rg_attempts r2)" "same_attempt a b"
    using steps_evolve [OF assms(3)] a(1) by (auto simp: evolves_def attempts_later_def)
  show ?thesis
    by (rule validate_fence_closed [OF f2 b(1)]) (use b(2) a assms(4,5) in \<open>auto simp: same_attempt_def\<close>)
qed

theorem committed_attempt_stays_closed_witness:
  "\<exists>m. validate_fence sample_fence 1300 sample_done = Inl (StaleAttemptFence m)"
  by (rule committed_attempt_stays_closed [OF sample_run(4) sample_commit rtranclp.rtrancl_refl refl refl])

text \<open>A committed outcome is complete and closing it again is a no-op: the operation holds the
  committed state, result and failure, its attempt is closed, its lease released and its
  dispatch completed (or parked when indeterminate), and \<open>finish_attempt\<close> with the same fence
  returns the committed record without changing anything.\<close>

theorem commit_then_finish:
  assumes "reachable r" "transition_claimed f st j fl note fn now r = Inr (rec, r1)"
  shows "find_op (fn_operation f) r1 = Some rec \<and> or_state rec = st \<and> or_result_json rec = j \<and>
    or_failure rec = fl \<and> finish_attempt f fn2 now2 r1 = Inr (rec, r1)"
proof -
  have st: "terminal st \<or> st = INDETERMINATE" and
    rec: "record_from_operation_id (fn_operation f) r1 = Inr rec"
    using transition_claimed_Inr [OF assms(2)] by blast+
  obtain x a l d where g: "rg_generation r1 = fn_runtime_generation f" and
    x: "find_op (fn_operation f) r1 = Some (outcome_op st j fl (or_record_revision x + 1) now x)"
    "or_runtime_generation x = fn_runtime_generation f" and
    a: "find_exact_attempt (fn_operation f) (fn_attempt_no f) (fn_attempt_id f) r1 = Some a"
    "aw_state a = A_state st" "aw_runtime_generation a = fn_runtime_generation f"
    "aw_dispatcher_generation a = fn_dispatcher_generation f" and
    l: "find_lease (fn_operation f) (fn_attempt_no f) (fn_lease_epoch f) r1 = Some l"
    "lw_released_at l = Some now" "lw_owner_digest l = fn_owner_digest f" and
    d: "find_dispatch (fn_operation f) r1 = Some d" "dw_state d = closed_dispatch_state st"
    "dw_current_attempt_no d = Some (fn_attempt_no f)"
    by (rule committed_rows [OF reachable_ok [OF assms(1)] assms(2)])
  let ?x = "outcome_op st j fl (or_record_revision x + 1) now x"
  have recx: "record_model ?x = Inr rec" "rec = ?x"
    using rec x(1) record_model_Inr by (auto simp: record_from_operation_id_def)
  have sx: "or_state ?x = st" "or_runtime_generation ?x = fn_runtime_generation f"
    "or_result_json ?x = j" "or_failure ?x = fl"
    using x(2) by (simp_all add: outcome_op_def)
  have no: "aw_attempt_no a = fn_attempt_no f" using find_exact_attempt_SomeD [OF a(1)] by simp
  have "validate_closed_fence f a r1 = Inr ()"
    using g x(1) sx a l d no st
    by (auto simp: validate_closed_fence_def Let_def dispatch_owns_def closed_dispatch_state_def)
  moreover have "aw_state a \<noteq> A_running" using a(2) st by (auto simp: terminal_def)
  moreover have "get_record (fn_operation f) r1 = Inr rec"
    using x(1) recx by (simp add: get_record_def get_op_def)
  ultimately show ?thesis using a(1) x(1) recx sx by (simp add: finish_attempt_def Let_def)
qed

theorem commit_then_finish_witness:
  "or_state sample_done_row = SUCCEEDED \<and> or_result_json sample_done_row = Some ''1'' \<and>
   finish_attempt sample_fence 1260 1260 sample_done = Inr (sample_done_row, sample_done)"
  using commit_then_finish [OF sample_run(4) sample_commit] by simp

end
