(* ===== verification/Recovery_Properties.thy ===== *)
theory Recovery_Properties
  imports Fence_Properties Registry_Reads
begin

text \<open>
  Properties of cancellation, expiry and recovery: a requested cancellation is final and
  blocks every policy-bound successor, expired owners and only they are fenced, a successor
  is admitted only with a complete certificate and within the bound of its policy, and an
  event page is a bounded, gap-free and terminating way to read an operation's events.
\<close>

section \<open>Fencing expired owners\<close>

lemma fence_expired_one_self:
  assumes "find_op (or_operation x) s = Some x" "or_state x = RUNNING"
  shows "\<exists>y. find_op (or_operation x) (fence_expired_one now x n l s) = Some y \<and>
    or_state y = INDETERMINATE \<and> or_record_revision y = or_record_revision x + 1"
proof -
  let ?f = "\<lambda>z. z\<lparr>or_state := INDETERMINATE, or_certainty := INDETERMINATE_OUTCOME,
    or_record_revision := or_record_revision x + 1, or_reconciliation_required := True, or_updated_at := now\<rparr>"
  have "find_op (or_operation x) (fence_expired_one now x n l s) = find_op (or_operation x)
      (set_op (or_operation x) (\<lambda>z. or_state z = RUNNING) ?f s)"
    by (rule find_op_cong) (simp add: fence_expired_one_def Let_def set_lease_def set_attempt_def)
  then show ?thesis
    using find_op_set_op [OF assms(1), of "\<lambda>z. or_state z = RUNNING" ?f] assms(2) by simp
qed

lemma fence_expired_loop_rows:
  "distinct (map (or_operation \<circ> fst) cs) \<Longrightarrow>
   \<forall>(x, n, l) \<in> set cs. find_op (or_operation x) r = Some x \<and> or_state x = RUNNING \<Longrightarrow>
   fence_expired_loop now cs r = Inr (recs, r') \<Longrightarrow>
   (\<forall>j. j \<notin> (or_operation \<circ> fst) ` set cs \<longrightarrow> find_op j r' = find_op j r) \<and>
   (\<forall>(x, n, l) \<in> set cs. \<exists>y. find_op (or_operation x) r' = Some y \<and> y \<in> set recs \<and>
     or_state y = INDETERMINATE \<and> or_record_revision y = or_record_revision x + 1)"
proof (induction now cs r arbitrary: recs rule: fence_expired_loop.induct)
  case (2 now x n l rest r)
  let ?q = "fence_expired_one now x n l r" and ?i = "or_operation x"
  have x: "find_op ?i r = Some x" "or_state x = RUNNING" using "2.prems"(2) by auto
  from "2.prems"(3) obtain rec recs2 where rec: "record_from_operation_id ?i ?q = Inr rec"
    and tl: "fence_expired_loop now rest ?q = Inr (recs2, r')" and recs: "recs = rec # recs2"
    by (auto simp: res_simps Let_def)
  have new: "?i \<notin> (or_operation \<circ> fst) ` set rest" using "2.prems"(1) by auto
  have rest: "\<forall>(y, n, l) \<in> set rest. find_op (or_operation y) ?q = Some y \<and> or_state y = RUNNING"
  proof (intro ballI, clarify)
    fix y m k assume y: "(y, m, k) \<in> set rest"
    with new have "or_operation y \<noteq> ?i" by force
    with y "2.prems"(2) show "find_op (or_operation y) ?q = Some y \<and> or_state y = RUNNING"
      by (auto simp: fence_expired_one_frame(2))
  qed
  have d: "distinct (map (or_operation \<circ> fst) rest)" using "2.prems"(1) by (simp add: comp_def)
  have ih: "\<forall>j. j \<notin> (or_operation \<circ> fst) ` set rest \<longrightarrow> find_op j r' = find_op j ?q"
    "\<forall>(x, n, l) \<in> set rest. \<exists>y. find_op (or_operation x) r' = Some y \<and> y \<in> set recs2 \<and>
     or_state y = INDETERMINATE \<and> or_record_revision y = or_record_revision x + 1"
    using "2.IH" [OF refl d rest tl] by auto
  have "find_op ?i r' = find_op ?i ?q" using ih(1) new by blast
  moreover from fence_expired_one_self [OF x, of now n l] obtain y where y: "find_op ?i ?q = Some y"
    "or_state y = INDETERMINATE" "or_record_revision y = or_record_revision x + 1" by blast
  moreover have "y = rec" using rec y(1) record_model_Inr by (auto simp: record_from_operation_id_def)
  ultimately have self: "\<exists>y. find_op ?i r' = Some y \<and> y \<in> set recs \<and> or_state y = INDETERMINATE \<and>
    or_record_revision y = or_record_revision x + 1" using recs by auto
  have "find_op j r' = find_op j r" if "j \<notin> (or_operation \<circ> fst) ` set ((x, n, l) # rest)" for j
    using that ih(1) fence_expired_one_frame(2) [of j x] by auto
  moreover have "\<exists>y. find_op (or_operation z) r' = Some y \<and> y \<in> set recs \<and>
     or_state y = INDETERMINATE \<and> or_record_revision y = or_record_revision z + 1"
    if "(z, m, k) \<in> set ((x, n, l) # rest)" for z m k
    using that self ih(2) recs by fastforce
  ultimately show ?case by blast
qed simp

lemma owner_expired:
  assumes v: "validate_fence f t r = Inr (a, l)" and x: "find_op (fn_operation f) r = Some x"
    and st: "or_state x = RUNNING" and e: "lw_expires_at l \<le> now" and ok: "fences_ok r"
  shows "(x, fn_attempt_no f, l) \<in> set (expired_rows now r x)"
proof -
  from v obtain d where d: "find_dispatch (fn_operation f) r = Some d" "dw_state d = D_running"
    "dw_current_attempt_no d = Some (fn_attempt_no f)" and
    al: "find_exact_attempt (fn_operation f) (fn_attempt_no f) (fn_attempt_id f) r = Some a"
    "aw_state a = A_running" "find_lease (fn_operation f) (fn_attempt_no f) (fn_lease_epoch f) r = Some l"
    "lw_released_at l = None" unfolding validate_fence_Inr by blast
  note A = al(1) [unfolded find_exact_attempt_iff [OF ok]] al(3) [unfolded find_lease_iff [OF ok]]
  have "or_operation x = fn_operation f" using find_op_SomeD [OF x] by simp
  with d A al e st find_dispatch_SomeD [OF d(1)] show ?thesis
    unfolding expired_rows_def if_P [OF st]
    by (auto intro!: exI [of _ d] exI [of _ a] image_eqI)
qed

text \<open>A lease that is still running is the only lease of its owner.\<close>

lemma owner_live:
  assumes v: "validate_fence f t r = Inr (a, l)" and x: "find_op (fn_operation f) r = Some x"
    and e: "now < lw_expires_at l" and ok: "fences_ok r"
  shows "expired_rows now r x = []"
proof (rule ccontr)
  assume "expired_rows now r x \<noteq> []"
  then obtain p where "p \<in> set (expired_rows now r x)" by (cases "expired_rows now r x") auto
  then obtain d b k where d: "d \<in> set (rg_dispatch r)" "dw_operation d = or_operation x"
      "dw_current_attempt_no d = Some (aw_attempt_no b)" and
    b: "b \<in> set (rg_attempts r)" "aw_operation b = or_operation x" and
    k: "k \<in> set (rg_leases r)" "lw_operation k = or_operation x" "lw_attempt_no k = aw_attempt_no b"
      "lw_expires_at k \<le> now"
    by (auto simp: expired_rows_def split: if_splits)
  have i: "or_operation x = fn_operation f" using find_op_SomeD [OF x] by simp
  from v obtain w where w: "find_dispatch (fn_operation f) r = Some w"
    "dw_current_attempt_no w = Some (fn_attempt_no f)" and
    al: "find_lease (fn_operation f) (fn_attempt_no f) (fn_lease_epoch f) r = Some l"
    unfolding validate_fence_Inr by blast
  have "w = d" using d i find_dispatch_SomeD [OF w(1)] dispatch_unique [OF ok] by auto
  then have n: "aw_attempt_no b = fn_attempt_no f" using w d by simp
  from al have L: "l \<in> set (rg_leases r)" "lw_operation l = fn_operation f" "lw_attempt_no l = fn_attempt_no f"
    by (auto simp: find_lease_iff [OF ok])
  have "k = l" by (rule lease_unique [OF ok k(1) L(1)]) (simp add: lease_key_def k L i n)
  with e k(4) show False by simp
qed

text \<open>What one call does to every operation.\<close>

lemma fence_expired_rows:
  assumes ok: "reg_ok r" and c: "fence_expired_attempts g now r = Inr (recs, r')"
    and x: "find_op i r = Some x"
  shows "if expired_rows now r x = [] then find_op i r' = Some x
    else \<exists>y. find_op i r' = Some y \<and> y \<in> set recs \<and> or_state y = INDETERMINATE \<and>
      or_record_revision y = or_record_revision x + 1"
proof -
  have j: "reg_journal_ok r" and f: "fences_ok r" using ok by (auto simp: reg_ok_def)
  from c have loop: "fence_expired_loop now (expired_candidates now r) r = Inr (recs, r')"
    by (simp add: fence_expired_attempts_def split: if_splits)
  have cand: "\<forall>(x, n, l) \<in> set (expired_candidates now r). find_op (or_operation x) r = Some x \<and> or_state x = RUNNING"
    using expired_candidates_ok(2) [OF j f] by (auto simp: candidate_ok_def)
  note rows = fence_expired_loop_rows [OF expired_candidates_ok(1) [OF j f] cand loop]
  have mem: "x \<in> set (rg_operations r)" "or_operation x = i" using find_op_SomeD [OF x] by auto
  have fst_x: "y = x" if "(y, p) \<in> set (expired_rows now r z)" "or_operation y = i"
    "z \<in> set (rg_operations r)" for y z p
    using that find_op_iff [OF j, of i z] x by (auto simp: expired_rows_def split: if_splits)
  show ?thesis
  proof (cases "expired_rows now r x")
    case Nil
    have "i \<notin> (or_operation \<circ> fst) ` set (expired_candidates now r)"
    proof
      assume "i \<in> (or_operation \<circ> fst) ` set (expired_candidates now r)"
      then obtain y p z where "(y, p) \<in> set (expired_rows now r z)" "z \<in> set (rg_operations r)"
        "or_operation y = i" by (auto simp: expired_candidates_def)
      moreover from this have "z = x"
        using fst_x [of y p z] by (auto simp: expired_rows_def split: if_splits)
      ultimately show False using Nil by simp
    qed
    with rows x Nil show ?thesis by simp
  next
    case (Cons p ps)
    then have "p \<in> set (expired_candidates now r)"
      using mem(1) by (auto simp: expired_candidates_def intro!: bexI [of _ x])
    moreover have "fst p = x"
    proof -
      have "p \<in> set (expired_rows now r x)" using Cons by simp
      then show ?thesis by (auto simp: expired_rows_def split: if_splits)
    qed
    ultimately show ?thesis using rows Cons mem(2) by (cases p) auto
  qed
qed

section \<open>Cancellation\<close>

lemma request_cancel_sets:
  assumes "request_cancel i who rc now r = Inr (m, r')"
  obtains c x where "find_control i r' = Some c" "cw_cancellation_requested c" "control_model i (Some c) = Inr m"
    "find_op i r' = Some x"
proof -
  have up: "fetchone (\<lambda>c. cw_operation c = i) (update_rows (\<lambda>c. cw_operation c = i) (\<lambda>_. new) t) = Some new"
    if "fetchone (\<lambda>c. cw_operation c = i) t = Some c" "cw_operation new = i" for t c new
    using that by (induction t) (auto simp: row_simps split: if_splits)
  from assms obtain x where x: "find_op i r = Some x" by (auto simp: request_cancel_def res_simps split: if_splits)
  show thesis
  proof (cases "find_control i r")
    case None
    with assms x that show thesis
      by (auto simp: request_cancel_def res_simps Let_def find_control_def find_op_def fetchone_append
        fetchone_Cons split: if_splits)
  next
    case (Some c)
    show thesis
    proof (cases "cw_cancellation_requested c")
      case True
      with assms x Some that show thesis by (auto simp: request_cancel_def res_simps split: if_splits)
    next
      case False
      with assms x Some that show thesis
        by (auto simp: request_cancel_def res_simps Let_def find_control_def find_op_def
          up [OF Some [unfolded find_control_def]] split: if_splits)
    qed
  qed
qed

lemma cancellation_kept:
  assumes "find_control i r = Some c" "cw_cancellation_requested c" "reg_steps r r'"
  shows "find_control i r' = Some c"
  using steps_evolve [OF assms(3)] assms(1,2) by (simp add: evolves_def)

section \<open>The certificate of a successor\<close>

lemma admit_successor_Inr:
  "admit_successor i bd predecessor pb ind now row r = Inr (b, n) \<longleftrightarrow>
   (\<exists>prior l. bd = Some b \<and> predecessor = Some prior \<and> n = aw_attempt_no prior \<and>
     predecessor_authority i b prior pb ind (en_deadline (or_request row)) \<and>
     max_row lw_lease_epoch (filter (\<lambda>l. lw_operation l = i \<and> lw_attempt_no l = aw_attempt_no prior)
       (rg_leases r)) = Some l \<and> lw_lease_epoch l = bd_lease_epoch b \<and>
     \<not> cancellation_requested i r \<and> now < bd_deadline b \<and>
     int (successor_count i r) < rp_max_successor_attempts (pb_policy pb))"
  by (auto simp: admit_successor_def Let_def split: option.splits if_splits)

lemma close_prior_simps [simp]:
  "rg_decisions (close_prior i rc now r) = rg_decisions r"
  "rg_controls (close_prior i rc now r) = rg_controls r"
  "rg_policies (close_prior i rc now r) = rg_policies r"
  "rg_operations (close_prior i rc now r) = rg_operations r"
  "rg_dispatch (close_prior i rc now r) = rg_dispatch r"
  "successor_count i (close_prior i rc now r) = successor_count i r"
  "cancellation_requested i (close_prior i rc now r) = cancellation_requested i r"
  using close_prior_frame [of i rc now r]
  by (auto simp: successor_count_def cancellation_requested_def find_control_def)

lemma requeue_successor:
  assumes c: "requeue_indeterminate i g dt rc ind (Some pb) bd now r = Inr (rec, r')"
    and d: "decision_of_text dt = Inr decision" "decision \<in> successor_decisions"
  obtains b prior row cd bdg r2 where "bd = Some b" "prior_attempt i r = Some prior"
    "find_op i r = Some row" "predecessor_authority i b prior pb (or_input_digest row) (en_deadline (or_request row))"
    "\<not> cancellation_requested i r" "now < en_deadline (or_request row)"
    "int (successor_count i r) < rp_max_successor_attempts (pb_policy pb)"
    "check_policy i decision (Some pb) bd (close_prior i rc now r) = Inr ()"
    "rg_decisions r2 = rg_decisions r" "rg_operations r2 = rg_operations r" "rg_dispatch r2 = rg_dispatch r"
    "requeue_commit \<lparr>qa_operation = i, qa_runtime_generation = g, qa_decision = decision,
      qa_reason_code = rc, qa_input_digest = or_input_digest row, qa_policy = Some pb,
      qa_prior_no = prior_attempt_no i r, qa_now = now\<rparr> row cd bdg r2 = Inr r'"
    "find_op i r' = Some rec"
proof -
  from requeue_Inr [OF c] d(1) obtain row q cd bdg r2 where row: "find_op i r = Some row" and
    q: "q = \<lparr>qa_operation = i, qa_runtime_generation = g, qa_decision = decision,
      qa_reason_code = rc, qa_input_digest = or_input_digest row, qa_policy = Some pb,
      qa_prior_no = prior_attempt_no i r, qa_now = now\<rparr>" and
    chk: "check_policy i decision (Some pb) bd (close_prior i rc now r) = Inr ()" and
    cont: "requeue_continuation q bd (prior_attempt i r) row (close_prior i rc now r) = Inr ((cd, bdg), r2)" and
    com: "requeue_commit q row cd bdg r2 = Inr r'" and rec: "get_record i r' = Inr rec" by auto
  have "qa_admits q" using d(2) by (simp add: q qa_admits_def)
  then obtain b n where adm: "admit_successor i bd (prior_attempt i r) pb (or_input_digest row) now row
      (close_prior i rc now r) = Inr (b, n)"
    using cont by (auto simp: requeue_continuation_def q res_simps)
  obtain x y where r2: "r2 = close_prior i rc now r\<lparr>rg_rlm_boundaries := x, rg_ws_boundaries := y\<rparr>"
    using requeue_continuation_frame [OF cont] by blast
  from adm obtain prior where p: "bd = Some b" "prior_attempt i r = Some prior"
    "predecessor_authority i b prior pb (or_input_digest row) (en_deadline (or_request row))"
    "\<not> cancellation_requested i r" "now < bd_deadline b"
    "int (successor_count i r) < rp_max_successor_attempts (pb_policy pb)"
    by (auto simp: admit_successor_Inr)
  have "now < en_deadline (or_request row)" using p(3,5) by (simp add: predecessor_authority_def)
  from that [OF p(1,2) row p(3,4) this p(6) chk _ _ _ com [unfolded q] get_record_Inr [OF rec]] show thesis
    by (simp add: r2)
qed

lemma successor_not_cancelled:
  assumes "requeue_indeterminate i g dt rc ind (Some pb) bd now r = Inr (rec, r')"
    and "decision_of_text dt = Inr decision" "decision \<in> successor_decisions"
  shows "\<not> cancellation_requested i r"
proof (rule requeue_successor [OF assms], goal_cases)
  case 1
  then show ?case by simp
qed

lemma requeue_commit_successor:
  assumes c: "requeue_commit q row cd bdg r = Inr r'" and a: "qa_admits q"
    and x: "find_op (qa_operation q) r = Some row"
  shows "successor_count (qa_operation q) r' = successor_count (qa_operation q) r + 1"
    "\<exists>y. find_op (qa_operation q) r' = Some y \<and> or_state y = ACCEPTED"
proof -
  let ?i = "qa_operation q"
  let ?s = "set_op ?i (\<lambda>_. True) (requeued_op q (or_record_revision row + 1)) (with_decision q cd bdg r)"
  from requeue_commit_Inr [OF c] a obtain r2 where
    d: "requeue_dispatch ?i (qa_policy q) (qa_prior_no q) (qa_now q) ?s = Inr r2" and
    r': "r' = log_decision q (next_decision_no ?i r) bdg ACCEPTED CERTAIN (or_record_revision row + 1) r2"
    by auto
  have fr: "rg_decisions r2 = rg_decisions ?s" "rg_operations r2 = rg_operations ?s"
    using d by (auto simp: requeue_dispatch_def set_dispatch_def split: option.splits if_splits)
  have "rg_decisions r' = rg_decisions r2" "rg_operations r' = rg_operations r2"
    by (simp_all add: r' log_decision_def)
  moreover have "rg_decisions ?s = rg_decisions r @ [decision_row_of q (next_decision_no ?i r) cd bdg]"
    by (simp add: set_op_def with_decision_def)
  ultimately show "successor_count ?i r' = successor_count ?i r + 1"
    using a fr by (simp add: successor_count_def decision_row_of_def qa_admits_def)
  have w: "find_op ?i (with_decision q cd bdg r) = Some row" using x by (simp add: find_op_def with_decision_def)
  have "find_op ?i ?s = Some (requeued_op q (or_record_revision row + 1) row)"
    by (rule find_op_set_op [OF w]) (simp_all add: requeued_op_def)
  moreover have "find_op ?i r' = find_op ?i ?s"
    using fr \<open>rg_operations r' = rg_operations r2\<close> by (simp add: find_op_def)
  ultimately show "\<exists>y. find_op ?i r' = Some y \<and> or_state y = ACCEPTED" by (simp add: requeued_op_def)
qed

section \<open>Event pages\<close>

lemma event_envelope_Inr:
  "event_envelope i r e = Inr oe \<Longrightarrow> oe_sequence oe = ev_sequence e \<and> oe_operation oe = i"
  by (auto simp: event_envelope_def validate_event_envelope_def res_simps)

lemma page_loop_Inr:
  "page_loop env mb used acc rows = Inr evs \<Longrightarrow> used \<le> mb \<Longrightarrow>
   \<exists>k es. k \<le> length rows \<and> evs = acc @ es \<and> traverse env (take k rows) = Inr es \<and>
     used + (\<Sum>e \<leftarrow> es. int (event_bytes e)) \<le> mb \<and> (acc = [] \<and> rows \<noteq> [] \<longrightarrow> 0 < k)"
proof (induction env mb used acc rows rule: page_loop.induct)
  case (2 env mb used acc row rows)
  from "2.prems"(1) obtain e where e: "env row = Inr e" by (auto simp: res_simps)
  show ?case
  proof (cases "used + int (event_bytes e) > mb")
    case True
    with "2.prems" e have "evs = acc" "acc \<noteq> []" by (auto split: if_splits)
    with "2.prems"(2) show ?thesis by (intro exI [of _ 0] exI [of _ "[]"]) simp
  next
    case False
    with "2.prems" e have "page_loop env mb (used + int (event_bytes e)) (acc @ [e]) rows = Inr evs" by simp
    from "2.IH" [OF False this] False obtain k es where
      "k \<le> length rows" "evs = (acc @ [e]) @ es" "traverse env (take k rows) = Inr es"
      "used + int (event_bytes e) + (\<Sum>e \<leftarrow> es. int (event_bytes e)) \<le> mb" by auto
    with e show ?thesis by (intro exI [of _ "Suc k"] exI [of _ "e # es"]) simp
  qed
qed simp

lemma traverse_envelopes:
  "traverse (event_envelope i r) rows = Inr es \<Longrightarrow> map oe_sequence es = map ev_sequence rows"
  by (induction rows arbitrary: es) (auto simp: res_simps dest: event_envelope_Inr)

lemma page_rows_eq:
  assumes "reg_journal_ok r"
  shows "page_rows i after limit r = take (nat (limit + 1)) (filter (\<lambda>e. after < ev_sequence e) (events_of i r))"
proof -
  have "sorted (map ev_sequence (filter p (rg_events r)))" for p
    using assms by (auto intro!: sorted_filter simp: journal_ok_def journal_of_def strict_sorted_iff)
  then show ?thesis
    by (simp add: page_rows_def sorted_history [OF assms] history_def sort_key_id_if_sorted conj_commute)
qed

lemma event_page_split:
  assumes "reachable r" "event_page i after limit max_limit mb r = Inr p"
  shows "\<exists>k. map oe_sequence (pg_events p) =
      map ev_sequence (take k (filter (\<lambda>e. after < ev_sequence e) (events_of i r))) \<and>
    length (pg_events p) = k \<and> int k \<le> limit \<and>
    (\<Sum>e \<leftarrow> pg_events p. int (event_bytes e)) \<le> mb \<and>
    (pg_has_more p \<longleftrightarrow> k < length (filter (\<lambda>e. after < ev_sequence e) (events_of i r))) \<and>
    (filter (\<lambda>e. after < ev_sequence e) (events_of i r) \<noteq> [] \<longrightarrow> 0 < k) \<and>
    pg_next_sequence p = (if pg_events p = [] then after else oe_sequence (last (pg_events p)))"
proof -
  let ?all = "filter (\<lambda>e. after < ev_sequence e) (events_of i r)"
  have j: "reg_journal_ok r" using reachable_ok [OF assms(1)] by (simp add: reg_ok_def)
  note rows = page_rows_eq [OF j, of i "after" limit]
  from assms(2) have lim: "1 \<le> limit" "1024 \<le> mb" by (auto simp: event_page_def split: if_splits)
  from assms(2) obtain evs sn where
    loop: "page_loop (event_envelope i r) mb 0 [] (take (nat limit) (page_rows i after limit r)) = Inr evs" and
    p: "p = \<lparr>pg_operation = i, pg_after_sequence = after, pg_events = evs,
           pg_next_sequence = (if evs = [] then after else oe_sequence (last evs)),
           pg_has_more = (length (page_rows i after limit r) > length evs), pg_terminal_snapshot = sn\<rparr>"
    by (auto simp: event_page_def res_simps Let_def validate_event_page_def validated_Inr_iff split: if_splits)
  have tk: "take (nat limit) (page_rows i after limit r) = take (nat limit) ?all"
    using lim by (simp add: rows min_def)
  from page_loop_Inr [OF loop] lim obtain k where k: "k \<le> length (take (nat limit) ?all)"
    "traverse (event_envelope i r) (take k (take (nat limit) ?all)) = Inr evs"
    "(\<Sum>e \<leftarrow> evs. int (event_bytes e)) \<le> mb" "take (nat limit) ?all \<noteq> [] \<longrightarrow> 0 < k"
    unfolding tk by auto
  then have kl: "k \<le> nat limit" "k \<le> length ?all" by simp_all
  with k(2) have sq: "map oe_sequence evs = map ev_sequence (take k ?all)"
    by (auto dest: traverse_envelopes simp: min_def)
  then have len: "length evs = k" using kl by (metis length_map length_take min.absorb2)
  have "length (page_rows i after limit r) > length evs \<longleftrightarrow> k < length ?all"
    using kl lim by (auto simp: rows len)
  then show ?thesis using sq len kl lim k(3,4)
    by (intro exI [of _ k]) (simp add: p)
qed

text \<open>A reader that follows the cursor of each page until no events are left.\<close>

fun read_events :: "nat \<Rightarrow> operation_ref \<Rightarrow> int \<Rightarrow> int \<Rightarrow> int \<Rightarrow> int \<Rightarrow> reg \<Rightarrow> int list option res" where
  "read_events 0 i after limit max_limit mb r = Inr None"
| "read_events (Suc n) i after limit max_limit mb r =
     and_then (event_page i after limit max_limit mb r) (\<lambda>p.
       if pg_has_more p
       then and_then (read_events n i (pg_next_sequence p) limit max_limit mb r)
         (\<lambda>rest. Inr (map_option (\<lambda>xs. map oe_sequence (pg_events p) @ xs) rest))
       else Inr (Some (map oe_sequence (pg_events p))))"

text \<open>What a cursor moves past: the events up to and including the last one of the page.\<close>

lemma sorted_filter_after:
  assumes "sorted_wrt (<) (map f xs)" "0 < k" "k \<le> length xs"
  shows "filter (\<lambda>e. (f (xs ! (k - 1)) :: int) < f e) xs = drop k xs"
proof -
  have "xs = take k xs @ drop k xs" by simp
  moreover have "\<forall>e \<in> set (take k xs). f e \<le> f (xs ! (k - 1))"
  proof
    fix e assume "e \<in> set (take k xs)"
    then obtain j where j: "j < k" "e = xs ! j" by (auto simp: in_set_conv_nth)
    have "sorted (map f xs)" using assms(1) by (simp add: strict_sorted_iff)
    then have "map f xs ! j \<le> map f xs ! (k - 1)" using j assms(2,3) by (intro sorted_nth_mono) auto
    then show "f e \<le> f (xs ! (k - 1))" using j assms by simp
  qed
  moreover have "\<forall>e \<in> set (drop k xs). f (xs ! (k - 1)) < f e"
  proof
    fix e assume "e \<in> set (drop k xs)"
    then obtain j where j: "j < length xs - k" "e = xs ! (k + j)" by (auto simp: in_set_conv_nth)
    then show "f (xs ! (k - 1)) < f e" using assms sorted_wrt_nth_less [OF assms(1), of "k - 1" "k + j"] by simp
  qed
  ultimately have "filter (\<lambda>e. f (xs ! (k - 1)) < f e) (take k xs @ drop k xs) = [] @ drop k xs"
    unfolding filter_append by (intro arg_cong2 [where f = append]) (auto simp: filter_empty_conv filter_id_conv)
  then show ?thesis by simp
qed

lemma read_events_all:
  assumes ok: "reachable r"
  shows "length (filter (\<lambda>e. after < ev_sequence e) (events_of i r)) < n \<Longrightarrow>
    read_events n i after limit max_limit mb r = Inr out \<Longrightarrow>
    out = Some (map ev_sequence (filter (\<lambda>e. after < ev_sequence e) (events_of i r)))"
proof (induction n arbitrary: "after" out)
  case (Suc n)
  let ?all = "filter (\<lambda>e. after < ev_sequence e) (events_of i r)"
  from Suc.prems(2) obtain p where p: "event_page i after limit max_limit mb r = Inr p" by (auto simp: res_simps)
  from event_page_split [OF ok p] obtain k where k: "map oe_sequence (pg_events p) = map ev_sequence (take k ?all)"
    "length (pg_events p) = k" "pg_has_more p \<longleftrightarrow> k < length ?all" "?all \<noteq> [] \<longrightarrow> 0 < k"
    "pg_next_sequence p = (if pg_events p = [] then after else oe_sequence (last (pg_events p)))" by blast
  show ?case
  proof (cases "pg_has_more p")
    case False
    with Suc.prems(2) p k show ?thesis by auto
  next
    case True
    then have kk: "0 < k" "k < length ?all" using k by auto
    have "oe_sequence (last (pg_events p)) = last (map oe_sequence (pg_events p))"
      using k(2) kk by (subst last_map) auto
    also have "\<dots> = ev_sequence (?all ! (k - 1))"
      using kk unfolding k(1) by (subst last_conv_nth) auto
    finally have nx: "pg_next_sequence p = ev_sequence (?all ! (k - 1))" using k(2,5) kk by auto
    have "sorted_wrt (<) (map ev_sequence (events_of i r))"
      using sorted_history reachable_ok [OF ok] by (auto simp: reg_ok_def history_def journal_ok_def journal_of_def
        strict_sorted_iff sorted_filter intro: distinct_map_filter)
    then have "sorted_wrt (<) (map ev_sequence ?all)" by (simp add: strict_sorted_iff sorted_filter distinct_map_filter)
    from sorted_filter_after [OF this kk(1)] kk have rest:
      "filter (\<lambda>e. pg_next_sequence p < ev_sequence e) ?all = drop k ?all" by (simp add: nx)
    have "after < pg_next_sequence p" using kk nx nth_mem [of "k - 1" ?all] by auto
    then have "filter (\<lambda>e. pg_next_sequence p < ev_sequence e) (events_of i r) =
        filter (\<lambda>e. pg_next_sequence p < ev_sequence e) ?all"
      by (auto intro: filter_cong)
    with rest have rest': "filter (\<lambda>e. pg_next_sequence p < ev_sequence e) (events_of i r) = drop k ?all" by simp
    from Suc.prems(2) p True obtain o2 where o2: "read_events n i (pg_next_sequence p) limit max_limit mb r = Inr o2"
      "out = map_option (\<lambda>xs. map oe_sequence (pg_events p) @ xs) o2" by (auto simp: res_simps)
    have "o2 = Some (map ev_sequence (drop k ?all))"
      using Suc.IH [OF _ o2(1)] Suc.prems(1) kk rest' by simp
    then show ?thesis using o2(2) k(1) by (simp flip: map_append)
  qed
qed simp

section \<open>Sample: an expired lease\<close>

definition sample_expired_row :: op_row where
  "sample_expired_row = (claimed_op sample_args 1 sample_row)\<lparr>or_state := INDETERMINATE,
     or_certainty := INDETERMINATE_OUTCOME, or_record_revision := 2,
     or_reconciliation_required := True, or_updated_at := 2000\<rparr>"

definition sample_expired :: reg where
  "sample_expired = fence_expired_one 2000 (claimed_op sample_args 1 sample_row) 1
     (fresh_lease sample_args sample_op 1 1) sample_running"

lemma sample_expired_tables:
  "rg_operations sample_expired = [sample_expired_row]" "rg_generation sample_expired = 1"
  by (simp_all add: sample_expired_def fence_expired_one_def Let_def set_defs row_simps
    sample_expired_row_def claimed_op_def sample_row_def fresh_op_row_def)

lemma sample_expires: "fence_expired_attempts 1 2000 sample_running = Inr ([sample_expired_row], sample_expired)"
proof -
  have c: "expired_candidates 2000 sample_running =
      [(claimed_op sample_args 1 sample_row, 1, fresh_lease sample_args sample_op 1 1)]"
    by (simp add: expired_candidates_def expired_rows_def claimed_op_def claimed_dispatch_def
      fresh_attempt_def fresh_lease_def sample_args_def)
  have "record_from_operation_id sample_op sample_expired = Inr sample_expired_row"
    by (simp add: sample_eval sample_expired_tables)
      (simp add: sample_expired_row_def claimed_op_def sample_args_def sample_row_def fresh_op_row_def
        sample_op_def)
  then show ?thesis by (simp add: fence_expired_attempts_def c Let_def flip: sample_expired_def)
qed

lemma sample_expired_reachable: "reachable sample_expired"
  by (rule reachable_steps [OF sample_run(4) steps_single [OF reg_step.fence_expired [OF sample_expires]]])

text \<open>A cancellation of the indeterminate operation.\<close>

definition sample_control :: control_row where
  "sample_control = \<lparr>cw_operation = sample_op, cw_control_revision = 1, cw_cancellation_requested = True,
     cw_requested_at = Some 2050, cw_requested_by_digest = Some (json_digest (JStr ''alice'')),
     cw_reason_code = Some ''user''\<rparr>"

definition sample_control_state :: control_state where
  "sample_control_state = \<lparr>ct_operation = sample_op, ct_control_revision = 1,
     ct_cancellation_requested = True, ct_requested_at = Some 2050,
     ct_requested_by_digest = Some (json_digest (JStr ''alice'')), ct_reason_code = Some ''user''\<rparr>"

definition sample_cancelled :: reg where
  "sample_cancelled = insert_event sample_op INDETERMINATE INDETERMINATE_OUTCOME 2 2050
     ''cancel_requested'' None (Some ''cancel_requested'')
     (Some (JObj [(''control_revision'', JInt 1), (''reason_code'', JStr ''user''),
                  (''requested_by_digest'', JStr (json_digest (JStr ''alice'')))]))
     (sample_expired\<lparr>rg_controls := [sample_control]\<rparr>)"

lemma sample_expired_simps [simp]:
  "or_operation sample_expired_row = sample_op" "or_state sample_expired_row = INDETERMINATE"
  "or_certainty sample_expired_row = INDETERMINATE_OUTCOME" "or_record_revision sample_expired_row = 2"
  "or_request sample_expired_row = sample_envelope"
  "or_input_digest sample_expired_row = json_digest (JObj [])"
  "rg_controls sample_expired = []" "rg_decisions sample_expired = []" "rg_policies sample_expired = []"
  "rg_rlm_boundaries sample_expired = []"
  by (simp_all add: sample_expired_row_def claimed_op_def sample_expired_def fence_expired_one_def Let_def
    set_defs sample_running_def sample_queued_def sample_accepted_def sample_started_def reg_init_def
    insert_event_def sample_row_def fresh_op_row_def sample_op_def sample_envelope_def)

lemma sample_cancel:
  "request_cancel sample_op (json_digest (JStr ''alice'')) ''user'' 2050 sample_expired =
     Inr (sample_control_state, sample_cancelled)"
  by (simp add: request_cancel_def sample_eval sample_expired_tables control_model_def
    validate_control_state_def opt_ok_def continuity_text_def Let_def flip: sample_control_def)
   (simp add: sample_cancelled_def sample_control_state_def sample_control_def)

text \<open>A successor under a recovery policy that allows one.\<close>

definition sample_policy :: recovery_policy where
  "sample_policy = \<lparr>rp_policy_version = 1, rp_policy_id = Rlm_step_boundary,
     rp_operation_kind = ''rlm.execute'', rp_allowed_decisions = [Start_successor],
     rp_max_successor_attempts = 1, rp_safe_replay_no_effect = False,
     rp_checkpoint_required = False, rp_allow_partial_checkpoint = False,
     rp_environment_compatibility = Environment_exact,
     rp_broker_uncertainty_policy = Receipt_or_park, rp_effect_reconcile_required = True\<rparr>"

definition sample_binding :: policy_binding where
  "sample_binding = \<lparr>pb_operation = sample_op, pb_operation_kind = ''rlm.execute'',
     pb_policy = sample_policy, pb_policy_digest = json_digest (policy_json sample_policy),
     pb_environment_digest = json_digest JNull, pb_created_at = 1050\<rparr>"

definition sample_policy_row :: policy_row where
  "sample_policy_row = \<lparr>pw_operation = sample_op, pw_operation_kind = ''rlm.execute'',
     pw_policy = sample_policy, pw_policy_digest = json_digest (policy_json sample_policy),
     pw_environment_digest = json_digest JNull, pw_created_at = 1050\<rparr>"

definition sample_boundary :: rlm_boundary where
  "sample_boundary = \<lparr>rb_operation = sample_op,
     rb_prior_attempt = \<lparr>at_operation = sample_op, at_attempt_no = 1,
       at_attempt_id = attempt_id_of sample_op 1 1 1\<rparr>,
     rb_runtime_generation = 1, rb_dispatcher_generation = 1, rb_lease_epoch = 1,
     rb_policy_digest = json_digest (policy_json sample_policy), rb_input_digest = json_digest (JObj []),
     rb_strategy = ''direct'', rb_strategy_digest = json_digest JNull,
     rb_capability_digest = json_digest JNull, rb_environment_digest = json_digest JNull,
     rb_deadline = 5000, rb_committed_step_count = 0, rb_last_step_index = None,
     rb_last_step_digest = None, rb_steps_digest = json_digest JNull,
     rb_broker_trace_digest = json_digest JNull, rb_usage_digest = json_digest JNull,
     rb_created_at = 2090, rb_boundary_digest = json_digest JNull\<rparr>"

definition sample_policed :: reg where
  "sample_policed = sample_expired\<lparr>rg_policies := [sample_policy_row]\<rparr>"

lemma sample_policy_simps [simp]:
  "rp_max_successor_attempts sample_policy = 1" "rp_allowed_decisions sample_policy = [Start_successor]"
  "rp_operation_kind sample_policy = ''rlm.execute''" "pb_policy sample_binding = sample_policy"
  "pb_policy_digest sample_binding = json_digest (policy_json sample_policy)"
  "pb_environment_digest sample_binding = json_digest JNull" "pb_operation_kind sample_binding = ''rlm.execute''"
  "pw_operation sample_policy_row = sample_op"
  "recovery_policy_binding_of sample_op sample_policy_row = Inr sample_binding"
  by (simp_all add: sample_policy_def sample_binding_def recovery_policy_binding_of_def sample_policy_row_def
    validate_policy_def validate_policy_binding_def validated_def positive_counter_def max_i64_def
    revision_def continuity_text_def sorted_unique_def successor_decisions_def)

lemma sample_expired_owners [simp]:
  "rg_attempts sample_expired = [(fresh_attempt sample_args sample_op 1)\<lparr>aw_state := A_state INDETERMINATE,
     aw_certainty := INDETERMINATE_OUTCOME, aw_recovery_reason := Some ''lease_expired'', aw_ended_at := Some 2000\<rparr>]"
  "rg_leases sample_expired = [(fresh_lease sample_args sample_op 1 1)\<lparr>lw_released_at := Some 2000\<rparr>]"
  "rg_dispatch sample_expired = [claimed_dispatch sample_args 1 sample_dispatch]"
  by (simp_all add: sample_expired_def fence_expired_one_def Let_def set_defs row_simps)

lemma sample_successor:
  "\<exists>rec r'. requeue_indeterminate sample_op 1 ''start_successor'' ''lease_expired'' [] (Some sample_binding)
     (Some (Rlm_bd sample_boundary)) 2100 sample_policed = Inr (rec, r')"
proof -
  let ?a = "(fresh_attempt sample_args sample_op 1)\<lparr>aw_state := A_state INDETERMINATE,
     aw_certainty := INDETERMINATE_OUTCOME, aw_recovery_reason := Some ''lease_expired'', aw_ended_at := Some 2000\<rparr>"
  have p: "prior_attempt sample_op sample_policed = Some ?a"
    by (simp add: prior_attempt_def sample_policed_def sample_eval)
  have c: "close_prior sample_op ''lease_expired'' 2100 sample_policed = sample_policed"
    by (simp add: close_prior_def p Let_def) (simp add: set_defs sample_policed_def row_simps)
  have k: "check_policy sample_op Start_successor (Some sample_binding) (Some (Rlm_bd sample_boundary)) sample_policed = Inr ()"
    by (simp add: check_policy_def sample_policed_def sample_eval)
  have d: "decision_of_text ''start_successor'' = Inr Start_successor"
    by (simp add: decision_of_text_def decisions_all_def)
  have a: "admit_successor sample_op (Some (Rlm_bd sample_boundary)) (Some ?a) sample_binding
      (json_digest (JObj [])) 2100 sample_expired_row sample_policed = Inr (Rlm_bd sample_boundary, 1)"
    by (subst admit_successor_Inr) (simp add: predecessor_authority_def sample_boundary_def sample_policed_def
      max_row.simps cancellation_requested_def successor_count_def sample_eval)
  have g: "rg_generation sample_policed = 1" "get_op sample_op sample_policed = Inr sample_expired_row"
    "find_op sample_op sample_policed = Some sample_expired_row"
    by (simp_all add: sample_policed_def sample_expired_tables sample_eval)
  let ?q = "\<lparr>qa_operation = sample_op, qa_runtime_generation = 1, qa_decision = Start_successor,
    qa_reason_code = ''lease_expired'', qa_input_digest = json_digest (JObj []), qa_policy = Some sample_binding,
    qa_prior_no = prior_attempt_no sample_op sample_policed, qa_now = 2100\<rparr>"
  let ?r = "sample_policed\<lparr>rg_rlm_boundaries := [\<lparr>bw_operation = sample_op, bw_prior_attempt_no = 1,
    bw_boundary_digest = rb_boundary_digest sample_boundary, bw_boundary = sample_boundary,
    bw_created_at = rb_created_at sample_boundary\<rparr>]\<rparr>"
  have cont: "requeue_continuation ?q (Some (Rlm_bd sample_boundary)) (prior_attempt sample_op sample_policed)
      sample_expired_row sample_policed = Inr ((None, Some (rb_boundary_digest sample_boundary)), ?r)"
    by (simp add: requeue_continuation_def qa_admits_def successor_decisions_def p a
      bind_continuation_def bind_rlm_boundary_def)
      (simp add: bind_boundary_row_def insert_row_def sample_policed_def row_simps)
  have com: "\<exists>rec r'. and_then (requeue_commit ?q sample_expired_row None (Some dg) ?r)
      (\<lambda>r3. and_then (get_record sample_op r3) (\<lambda>rec. Inr (rec, r3))) = Inr (rec, r')" for dg
  proof -
    let ?s = "set_op sample_op (\<lambda>_. True) (requeued_op ?q 3) (with_decision ?q None (Some dg) ?r)"
    let ?x = "requeued_op ?q 3 sample_expired_row"
    have "\<exists>r2. requeue_dispatch sample_op (Some sample_binding) (qa_prior_no ?q) 2100 ?s = Inr r2 \<and>
        rg_operations r2 = rg_operations ?s"
      by (simp add: requeue_dispatch_def set_defs with_decision_def sample_policed_def sample_eval
        claimed_dispatch_def)
    then obtain r2 where r2: "requeue_dispatch sample_op (Some sample_binding) (qa_prior_no ?q) 2100 ?s = Inr r2"
      "rg_operations r2 = rg_operations ?s" by blast
    have "rg_operations ?s = [?x]"
      by (simp add: set_defs with_decision_def sample_policed_def sample_expired_tables row_simps)
    with r2(2) have ops: "find_op sample_op (log_decision ?q n b ACCEPTED CERTAIN 3 r2) = Some ?x" for n b
      by (simp add: log_decision_def find_op_def row_simps)
    have rec: "record_model ?x = Inr ?x"
      by (simp add: sample_eval requeued_op_def) (simp add: sample_expired_row_def claimed_op_def sample_args_def
        sample_row_def fresh_op_row_def)
    from r2(1) ops rec show ?thesis
      by (simp add: requeue_commit_def Let_def qa_admits_def successor_decisions_def get_record_def get_op_def)
  qed
  show ?thesis
    by (simp add: requeue_indeterminate_def c d k g Let_def cont com del: split_paired_Ex)
qed

text \<open>A page after the only event of the accepted operation.\<close>

lemma sample_events: "rg_events sample_accepted \<noteq> []" "\<forall>e \<in> set (rg_events sample_accepted). ev_sequence e = 1"
  by (simp_all add: sample_accepted_def sample_started_def reg_init_def insert_event_def Let_def max_col_def)

lemma sample_none: "filter (\<lambda>e. 1 < ev_sequence e) (events_of sample_op sample_accepted) = []"
  using sample_events by (simp add: filter_empty_conv events_of_def)

lemma sample_page: "\<exists>p. event_page sample_op 1 10 500 65536 sample_accepted = Inr p \<and> \<not> pg_has_more p"
proof -
  have rows: "page_rows sample_op 1 10 sample_accepted = []"
    using sample_events by (simp add: page_rows_def filter_empty_conv)
  have "get_op sample_op sample_accepted = Inr sample_row"
    "record_from_operation_id sample_op sample_accepted = Inr sample_row"
    by (simp_all add: get_op_def record_from_operation_id_def find_op_def row_simps)
  then show ?thesis
    by (simp add: event_page_def rows max_event_page_limit_def max_event_page_bytes_def Let_def
      validate_event_page_def sorted_unique_def opt_ok_def terminal_def validated_def revision_def max_i64_def)
qed

section \<open>Properties\<close>

text \<open>\<open>fence_expired_attempts\<close> takes work away from exactly the owners whose lease has expired:
  if the lease of the current owner is over, the running operation becomes indeterminate with
  its revision one higher and its record is returned; if not, its row is left as it was.\<close>

theorem expired_owners_are_fenced:
  assumes "reachable r" "fence_expired_attempts g now r = Inr (recs, r')"
    and "validate_fence f t r = Inr (a, l)" "find_op (fn_operation f) r = Some x" "or_state x = RUNNING"
  shows "if lw_expires_at l \<le> now
    then \<exists>y \<in> set recs. find_op (fn_operation f) r' = Some y \<and> or_state y = INDETERMINATE \<and>
      or_record_revision y = or_record_revision x + 1
    else find_op (fn_operation f) r' = Some x"
proof -
  note ok = reachable_ok [OF assms(1)]
  have f: "fences_ok r" using ok by (simp add: reg_ok_def)
  note rows = fence_expired_rows [OF ok assms(2,4)]
  show ?thesis
  proof (cases "lw_expires_at l \<le> now")
    case True
    from owner_expired [OF assms(3-5) this f] have "expired_rows now r x \<noteq> []" by auto
    with rows True show ?thesis by auto
  next
    case False
    have "expired_rows now r x = []" by (rule owner_live [OF assms(3,4) _ f]) (use False in simp)
    with rows False show ?thesis by simp
  qed
qed

theorem expired_owners_are_fenced_witness:
  "find_op sample_op sample_expired = Some sample_expired_row \<and> or_state sample_expired_row = INDETERMINATE"
  using expired_owners_are_fenced [OF sample_run(4) sample_expires sample_fence_valid [of 1300],
    of "claimed_op sample_args 1 sample_row"]
  by (auto simp: find_op_def row_simps)

text \<open>A cancellation request is final and idempotent: once \<open>request_cancel\<close> succeeded, any later
  request for the operation, whoever makes it and whatever the reason, returns the control
  state of the first one and writes nothing.\<close>

theorem first_cancel_request_wins:
  assumes "reachable r" "request_cancel i who rc now r = Inr (m, r1)" "reg_steps r1 r2" "rc2 \<noteq> []"
  shows "cancellation_requested i r2 \<and> request_cancel i who2 rc2 now2 r2 = Inr (m, r2)"
proof -
  obtain c x where c: "find_control i r1 = Some c" "cw_cancellation_requested c"
    "control_model i (Some c) = Inr m" and x: "find_op i r1 = Some x"
    by (rule request_cancel_sets [OF assms(2)])
  have k: "find_control i r2 = Some c" by (rule cancellation_kept [OF c(1,2) assms(3)])
  have "reg_ok r1" by (rule reg_ok_step [OF reg_step.request_cancel [OF assms(2)] reachable_ok [OF assms(1)]])
  then obtain y where "find_op i r2 = Some y" by (rule find_op_later [OF assms(3) _ x])
  then show ?thesis using k c(2,3) assms(4)
    by (simp add: request_cancel_def get_op_def cancellation_requested_def)
qed

theorem first_cancel_request_wins_witness:
  "request_cancel sample_op (json_digest (JStr ''bob'')) ''later'' 2060 sample_cancelled =
     Inr (sample_control_state, sample_cancelled)"
  using first_cancel_request_wins [OF sample_expired_reachable sample_cancel rtranclp.rtrancl_refl, of "''later''"]
  by simp

text \<open>C23: a cancelled operation is never resumed under its recovery policy: after a cancellation
  request, no policy-bound decision for a successor is accepted in any later state.\<close>

theorem cancelled_never_resumes:
  assumes "request_cancel i who rc now r = Inr (m, r1)" "reg_steps r1 r2"
    and "decision_of_text dt = Inr decision" "decision \<in> successor_decisions"
  shows "\<exists>e. requeue_indeterminate i g dt rc2 ind (Some pb) bd now2 r2 = Inl e"
proof (cases "requeue_indeterminate i g dt rc2 ind (Some pb) bd now2 r2")
  case (Inr p)
  then obtain rec r3 where q: "requeue_indeterminate i g dt rc2 ind (Some pb) bd now2 r2 = Inr (rec, r3)"
    by (cases p) auto
  obtain c where "find_control i r1 = Some c" "cw_cancellation_requested c"
    by (rule request_cancel_sets [OF assms(1)]) (rule that)
  from cancellation_kept [OF this assms(2)] this(2) have "cancellation_requested i r2"
    by (simp add: cancellation_requested_def)
  moreover from q assms(3,4) have "\<not> cancellation_requested i r2" by (rule successor_not_cancelled)
  ultimately show ?thesis by contradiction
qed blast

theorem cancelled_never_resumes_witness:
  "\<exists>e. requeue_indeterminate sample_op 1 ''start_successor'' ''lease_expired'' [] (Some sample_binding)
     (Some (Rlm_bd sample_boundary)) 2100 sample_cancelled = Inl e"
  by (rule cancelled_never_resumes [OF sample_cancel rtranclp.rtrancl_refl, of _ Start_successor])
    (simp_all add: decision_of_text_def decisions_all_def successor_decisions_def)

text \<open>C21: a policy-bound successor is admitted only with a complete certificate: a boundary that
  carries the identity, generations, lease epoch holder, digests and deadline of the
  predecessor attempt, no cancellation, a deadline still ahead, and fewer successors so far
  than the policy allows. Admission spends exactly one of them and leaves the operation
  accepted.\<close>

theorem successor_needs_certificate:
  assumes "requeue_indeterminate i g dt rc ind (Some pb) bd now r = Inr (rec, r')"
    and "decision_of_text dt = Inr decision" "decision \<in> successor_decisions"
  shows "(\<exists>b prior row. bd = Some b \<and> prior_attempt i r = Some prior \<and> find_op i r = Some row \<and>
      or_state row = INDETERMINATE \<and> now < en_deadline (or_request row) \<and>
      predecessor_authority i b prior pb (or_input_digest row) (en_deadline (or_request row))) \<and>
    \<not> cancellation_requested i r \<and> or_state rec = ACCEPTED \<and>
    successor_count i r' = successor_count i r + 1 \<and>
    int (successor_count i r') \<le> rp_max_successor_attempts (pb_policy pb)"
proof -
  from requeue_Inr [OF assms(1)] obtain row0 where "find_op i r = Some row0" "or_state row0 = INDETERMINATE" by blast
  moreover obtain b prior row cd bdg r2 where b: "bd = Some b" "prior_attempt i r = Some prior"
    "find_op i r = Some row" "predecessor_authority i b prior pb (or_input_digest row) (en_deadline (or_request row))"
    "\<not> cancellation_requested i r" "now < en_deadline (or_request row)"
    "int (successor_count i r) < rp_max_successor_attempts (pb_policy pb)" and
    r2: "rg_decisions r2 = rg_decisions r" "rg_operations r2 = rg_operations r" and
    com: "requeue_commit \<lparr>qa_operation = i, qa_runtime_generation = g, qa_decision = decision,
      qa_reason_code = rc, qa_input_digest = or_input_digest row, qa_policy = Some pb,
      qa_prior_no = prior_attempt_no i r, qa_now = now\<rparr> row cd bdg r2 = Inr r'" and
    rec: "find_op i r' = Some rec"
    by (rule requeue_successor [OF assms])
  have "successor_count i r' = successor_count i r2 + 1" "\<exists>y. find_op i r' = Some y \<and> or_state y = ACCEPTED"
    using requeue_commit_successor [OF com] assms(3) b(3) r2(2) by (simp_all add: qa_admits_def find_op_def)
  moreover have "successor_count i r2 = successor_count i r" by (simp add: successor_count_def r2)
  ultimately show ?thesis using b rec by simp
qed

theorem successor_needs_certificate_witness:
  "\<exists>rec r'. requeue_indeterminate sample_op 1 ''start_successor'' ''lease_expired'' [] (Some sample_binding)
     (Some (Rlm_bd sample_boundary)) 2100 sample_policed = Inr (rec, r') \<and> or_state rec = ACCEPTED \<and>
     int (successor_count sample_op r') \<le> 1"
proof -
  obtain rec r' where q: "requeue_indeterminate sample_op 1 ''start_successor'' ''lease_expired'' []
    (Some sample_binding) (Some (Rlm_bd sample_boundary)) 2100 sample_policed = Inr (rec, r')"
    using sample_successor by blast
  have "decision_of_text ''start_successor'' = Inr Start_successor"
    by (simp add: decision_of_text_def decisions_all_def)
  from successor_needs_certificate [OF q this] show ?thesis
    unfolding q by (simp add: successor_decisions_def)
qed

text \<open>An event page is a gap-free, bounded and progressing read: its events are exactly the next
  ones after the cursor in sequence order, at most \<open>limit\<close> of them and at most \<open>max_bytes\<close> of
  canonical text, \<open>has_more\<close> says whether events are left, and when events are left to read
  the page holds at least one of them, so a reader that follows \<open>next_sequence\<close> sees every
  event once and ends.\<close>

theorem event_page_reads_on:
  assumes "reachable r" "event_page i after limit max_limit mb r = Inr p"
  shows "\<exists>k. map oe_sequence (pg_events p) =
      map ev_sequence (take k (filter (\<lambda>e. after < ev_sequence e) (events_of i r))) \<and>
    length (pg_events p) = k \<and> int k \<le> limit \<and>
    (\<Sum>e \<leftarrow> pg_events p. int (event_bytes e)) \<le> mb \<and>
    (pg_has_more p \<longleftrightarrow> k < length (filter (\<lambda>e. after < ev_sequence e) (events_of i r))) \<and>
    (filter (\<lambda>e. after < ev_sequence e) (events_of i r) \<noteq> [] \<longrightarrow> 0 < k) \<and>
    pg_next_sequence p = (if pg_events p = [] then after else oe_sequence (last (pg_events p)))"
  by (rule event_page_split [OF assms])

theorem event_page_reads_on_witness:
  "\<exists>p. event_page sample_op 1 10 500 65536 sample_accepted = Inr p \<and> pg_events p = [] \<and>
     \<not> pg_has_more p \<and> pg_next_sequence p = 1"
proof -
  obtain p where p: "event_page sample_op 1 10 500 65536 sample_accepted = Inr p" using sample_page by blast
  from event_page_reads_on [OF sample_run(2) p] show ?thesis using p by (auto simp: sample_none)
qed

text \<open>C37: reading page by page equals reading the whole log: a client that follows the cursor of each
  page until \<open>has_more\<close> is false ends after at most one page more than there are events, and
  what it collected is every event after its first cursor, in order, each exactly once.\<close>

theorem paged_reading_is_complete:
  assumes "reachable r" "length (filter (\<lambda>e. after < ev_sequence e) (events_of i r)) < n"
    and "read_events n i after limit max_limit mb r = Inr out"
  shows "out = Some (map ev_sequence (filter (\<lambda>e. after < ev_sequence e) (events_of i r)))"
  by (rule read_events_all [OF assms])

theorem paged_reading_is_complete_witness:
  "read_events 1 sample_op 1 10 500 65536 sample_accepted = Inr (Some [])"
proof -
  note page = sample_page
  then obtain p where p: "event_page sample_op 1 10 500 65536 sample_accepted = Inr p" "\<not> pg_has_more p" by blast
  then have "read_events 1 sample_op 1 10 500 65536 sample_accepted = Inr (Some (map oe_sequence (pg_events p)))"
    by simp
  from paged_reading_is_complete [OF sample_run(2) _ this] this show ?thesis by (simp add: sample_none)
qed

text \<open>A heartbeat renews the owner's lease and nothing else: the same fence then holds until the
  new lease duration has passed, and no operation, attempt or dispatch row changes.\<close>

theorem heartbeat_extends_ownership:
  assumes "reachable r" "heartbeat f dur fn now r = Inr (m, r')" "t < now + dur"
  shows "(\<exists>a l. validate_fence f t r' = Inr (a, l) \<and> lw_expires_at l = now + dur) \<and>
    rg_operations r' = rg_operations r \<and> rg_attempts r' = rg_attempts r \<and>
    rg_dispatch r' = rg_dispatch r \<and> rg_events r' = rg_events r"
proof -
  let ?i = "fn_operation f" and ?n = "fn_attempt_no f"
  let ?up = "\<lambda>l. l\<lparr>lw_heartbeat_at := now, lw_expires_at := now + dur\<rparr>"
  note ok = reachable_ok [OF assms(1)]
  have "reg_ok r'" by (rule reg_ok_step [OF reg_step.heartbeat [OF assms(2)] ok])
  with ok have f: "fences_ok r" "fences_ok r'" by (auto simp: reg_ok_def)
  from assms(2) obtain a l where v: "validate_fence f fn r = Inr (a, l)" and
    r': "r' = set_lease ?i ?n (\<lambda>l. lw_lease_epoch l = fn_lease_epoch f) ?up r"
    by (auto simp: heartbeat_def res_simps Let_def split: if_splits option.splits)
  have same: "rg_operations r' = rg_operations r" "rg_attempts r' = rg_attempts r"
    "rg_dispatch r' = rg_dispatch r" "rg_events r' = rg_events r" "rg_generation r' = rg_generation r"
    by (simp_all add: r' set_lease_def)
  then have finds: "find_op j r' = find_op j r" "find_dispatch j r' = find_dispatch j r"
    "find_exact_attempt j k x r' = find_exact_attempt j k x r" for j k x
    by (simp_all add: find_op_def find_dispatch_def find_exact_attempt_def)
  have L: "find_lease ?i ?n (fn_lease_epoch f) r = Some l" using v by (simp add: validate_fence_Inr)
  then have "l \<in> set (rg_leases r)" "lw_operation l = ?i" "lw_attempt_no l = ?n"
    "lw_lease_epoch l = fn_lease_epoch f" by (auto simp: find_lease_iff [OF f(1)])
  then have "find_lease ?i ?n (fn_lease_epoch f) r' = Some (?up l)"
    unfolding find_lease_iff [OF f(2)]
    by (force simp: r' set_lease_def set_update_rows)
  with v L assms(3) have "validate_fence f t r' = Inr (a, ?up l)"
    by (auto simp: validate_fence_Inr same finds)
  then show ?thesis using same by (intro conjI exI [of _ a] exI [of _ "?up l"]) simp_all
qed

theorem heartbeat_extends_ownership_witness:
  "\<exists>m r' a l. heartbeat sample_fence 500 1300 1300 sample_running = Inr (m, r') \<and>
     validate_fence sample_fence 1799 r' = Inr (a, l)"
proof -
  have "find_lease sample_op 1 1 (set_lease sample_op 1 (\<lambda>l. lw_lease_epoch l = 1)
      (\<lambda>l. l\<lparr>lw_heartbeat_at := 1300, lw_expires_at := 1800\<rparr>) sample_running) =
    Some ((fresh_lease sample_args sample_op 1 1)\<lparr>lw_heartbeat_at := 1300, lw_expires_at := 1800\<rparr>)"
    by (simp add: set_lease_def find_lease_def row_simps fresh_lease_def)
  then obtain m r' where h: "heartbeat sample_fence 500 1300 1300 sample_running = Inr (m, r')"
    by (simp add: heartbeat_def sample_fence_valid Let_def)
      (simp add: lease_model_def fresh_lease_def fresh_attempt_def sample_args_def validate_lease_record_def
        validate_attempt_ref_def validated_def positive_counter_def max_i64_def opt_ok_def)
  from heartbeat_extends_ownership [OF sample_run(4) h, of 1799] h show ?thesis by auto
qed

end
