(* ===== verification/Broker_Models.thy ===== *)
theory Broker_Models
  imports Schemas
begin

text \<open>
  The broker contract values of \<open>src/aar/broker_models.py\<close>: route profiles, catalogs and
  bindings, effective routes and their receipts, usage records, the requests and receipts
  of the seven broker methods, call traces and reconciliation reports.
\<close>

section \<open>Model routes\<close>

datatype fallback_policy = FB_none | FB_explicit
datatype cache_policy = CP_disabled | CP_run_scoped | CP_provider_managed
datatype accounting_source = AS_reference | AS_provider_reported | AS_estimated

fun fallback_wire :: "fallback_policy \<Rightarrow> string" where
  "fallback_wire FB_none = ''none''"
| "fallback_wire FB_explicit = ''explicit''"

fun cache_wire :: "cache_policy \<Rightarrow> string" where
  "cache_wire CP_disabled = ''disabled''"
| "cache_wire CP_run_scoped = ''run-scoped''"
| "cache_wire CP_provider_managed = ''provider-managed''"

fun accounting_wire :: "accounting_source \<Rightarrow> string" where
  "accounting_wire AS_reference = ''reference''"
| "accounting_wire AS_provider_reported = ''provider_reported''"
| "accounting_wire AS_estimated = ''estimated''"

fun model_route_value :: "string \<Rightarrow> bool" where
  "model_route_value [] = False"
| "model_route_value (c # cs) \<longleftrightarrow> is_alnum c \<and> length cs \<le> 127 \<and>
     list_all (\<lambda>d. is_alnum d \<or> d \<in> set ''._~:/+-'') cs"

record model_route_profile =
  mp_profile_id :: string
  mp_provider_driver :: string
  mp_provider :: string
  mp_model :: string
  mp_reasoning_effort :: "string option"
  mp_max_output_tokens :: int
  mp_fallback_policy :: fallback_policy
  mp_cache_policy :: cache_policy

definition validate_model_route_profile :: "model_route_profile \<Rightarrow> model_route_profile res" where
  "validate_model_route_profile p = validated
     (model_route_value (mp_profile_id p) \<and> model_route_value (mp_provider_driver p) \<and>
      model_route_value (mp_provider p) \<and> model_route_value (mp_model p) \<and>
      opt_ok model_route_value (mp_reasoning_effort p) \<and> positive_counter (mp_max_output_tokens p)) [] p"

definition profile_payload :: "model_route_profile \<Rightarrow> json" where
  "profile_payload p = JObj
     [(''schema_version'', JStr ''aar.model-route.v1''),
      (''profile_id'', JStr (mp_profile_id p)),
      (''provider_driver'', JStr (mp_provider_driver p)),
      (''provider'', JStr (mp_provider p)),
      (''model'', JStr (mp_model p)),
      (''reasoning_effort'', opt_json JStr (mp_reasoning_effort p)),
      (''max_output_tokens'', JInt (mp_max_output_tokens p)),
      (''fallback_policy'', JStr (fallback_wire (mp_fallback_policy p))),
      (''cache_policy'', JStr (cache_wire (mp_cache_policy p)))]"

definition profile_digest :: "model_route_profile \<Rightarrow> string" where
  "profile_digest p = json_digest (profile_payload p)"

record model_route_catalog =
  mc_profiles :: "model_route_profile list"
  mc_catalog_digest :: string

definition catalog_payload :: "model_route_catalog \<Rightarrow> json" where
  "catalog_payload c = JObj
     [(''schema_version'', JStr ''aar.model-route.v1''),
      (''profiles'', JArr (map profile_payload (mc_profiles c)))]"

definition validate_model_route_catalog :: "model_route_catalog \<Rightarrow> model_route_catalog res" where
  "validate_model_route_catalog c = validated
     (1 \<le> length (mc_profiles c) \<and> length (mc_profiles c) \<le> 64 \<and> is_digest (mc_catalog_digest c))
     [(sorted_unique (map mp_profile_id (mc_profiles c)),
       ''model route profiles must be sorted by unique profile_id''),
      (mc_catalog_digest c = json_digest (catalog_payload c), ''model route catalog digest mismatch'')] c"

definition catalog_issue :: "model_route_profile list \<Rightarrow> model_route_catalog res" where
  "catalog_issue profiles =
     (if 64 < length profiles then Inl (ValueError ''model route catalog supports at most 64 profiles'')
      else let ordered = sort_key mp_profile_id profiles;
               payload = JObj [(''schema_version'', JStr ''aar.model-route.v1''),
                 (''profiles'', JArr (map profile_payload ordered))]
           in validate_model_route_catalog
                \<lparr>mc_profiles = ordered, mc_catalog_digest = json_digest payload\<rparr>)"

record model_route_binding =
  mb_profile_id :: string
  mb_catalog_digest :: string
  mb_profile_digest :: string
  mb_provider_driver :: string
  mb_provider :: string
  mb_model :: string
  mb_reasoning_effort :: "string option"
  mb_max_output_tokens :: int
  mb_fallback_policy :: fallback_policy
  mb_cache_policy :: cache_policy

definition binding_json :: "model_route_binding \<Rightarrow> json" where
  "binding_json b = JObj
     [(''schema_version'', JStr ''aar.model-route.v1''),
      (''profile_id'', JStr (mb_profile_id b)),
      (''catalog_digest'', JStr (mb_catalog_digest b)),
      (''profile_digest'', JStr (mb_profile_digest b)),
      (''provider_driver'', JStr (mb_provider_driver b)),
      (''provider'', JStr (mb_provider b)),
      (''model'', JStr (mb_model b)),
      (''reasoning_effort'', opt_json JStr (mb_reasoning_effort b)),
      (''max_output_tokens'', JInt (mb_max_output_tokens b)),
      (''fallback_policy'', JStr (fallback_wire (mb_fallback_policy b))),
      (''cache_policy'', JStr (cache_wire (mb_cache_policy b)))]"

definition binding_profile :: "model_route_binding \<Rightarrow> model_route_profile" where
  "binding_profile b = \<lparr>
     mp_profile_id = mb_profile_id b, mp_provider_driver = mb_provider_driver b,
     mp_provider = mb_provider b, mp_model = mb_model b,
     mp_reasoning_effort = mb_reasoning_effort b, mp_max_output_tokens = mb_max_output_tokens b,
     mp_fallback_policy = mb_fallback_policy b, mp_cache_policy = mb_cache_policy b\<rparr>"

definition validate_model_route_binding :: "model_route_binding \<Rightarrow> model_route_binding res" where
  "validate_model_route_binding b =
     and_then (validated
       (model_route_value (mb_profile_id b) \<and> is_digest (mb_catalog_digest b) \<and>
        is_digest (mb_profile_digest b) \<and> model_route_value (mb_provider_driver b) \<and>
        model_route_value (mb_provider b) \<and> model_route_value (mb_model b) \<and>
        opt_ok model_route_value (mb_reasoning_effort b) \<and> positive_counter (mb_max_output_tokens b)) [] b)
     (\<lambda>b. and_then (validate_model_route_profile (binding_profile b))
     (\<lambda>p. validated True
       [(mb_profile_digest b = profile_digest p, ''model route profile digest mismatch'')] b))"

definition binding_issue :: "model_route_catalog \<Rightarrow> model_route_profile \<Rightarrow> model_route_binding res" where
  "binding_issue catalog profile =
     (case List.find (\<lambda>item. mp_profile_id item = mp_profile_id profile) (mc_profiles catalog) of
        None \<Rightarrow> Inl (ValueError ''model route profile is not an exact member of the catalog'')
      | Some m \<Rightarrow>
          if m \<noteq> profile then Inl (ValueError ''model route profile is not an exact member of the catalog'')
          else validate_model_route_binding \<lparr>
            mb_profile_id = mp_profile_id m, mb_catalog_digest = mc_catalog_digest catalog,
            mb_profile_digest = profile_digest m, mb_provider_driver = mp_provider_driver m,
            mb_provider = mp_provider m, mb_model = mp_model m,
            mb_reasoning_effort = mp_reasoning_effort m,
            mb_max_output_tokens = mp_max_output_tokens m,
            mb_fallback_policy = mp_fallback_policy m, mb_cache_policy = mp_cache_policy m\<rparr>)"

record effective_route =
  em_provider_driver :: string
  em_provider :: string
  em_model :: string
  em_reasoning_effort :: "string option"

definition effective_json :: "effective_route \<Rightarrow> json" where
  "effective_json e = JObj
     [(''schema_version'', JStr ''aar.model-route.v1''),
      (''provider_driver'', JStr (em_provider_driver e)), (''provider'', JStr (em_provider e)),
      (''model'', JStr (em_model e)), (''reasoning_effort'', opt_json JStr (em_reasoning_effort e))]"

definition validate_effective_route :: "effective_route \<Rightarrow> effective_route res" where
  "validate_effective_route e = validated
     (model_route_value (em_provider_driver e) \<and> model_route_value (em_provider e) \<and>
      model_route_value (em_model e) \<and> opt_ok model_route_value (em_reasoning_effort e)) [] e"

record model_usage =
  mu_accounting_source :: accounting_source
  mu_input_tokens :: int
  mu_output_tokens :: int
  mu_cache_read_tokens :: "int option"
  mu_cache_write_tokens :: "int option"
  mu_reasoning_tokens :: "int option"
  mu_total_tokens :: int
  mu_retry_ordinal :: int
  mu_wasted :: bool

definition validate_model_usage :: "model_usage \<Rightarrow> model_usage res" where
  "validate_model_usage u = validated
     (budget_counter (mu_input_tokens u) \<and> budget_counter (mu_output_tokens u) \<and>
      opt_ok budget_counter (mu_cache_read_tokens u) \<and> opt_ok budget_counter (mu_cache_write_tokens u) \<and>
      opt_ok budget_counter (mu_reasoning_tokens u) \<and> budget_counter (mu_total_tokens u) \<and>
      budget_counter (mu_retry_ordinal u))
     [(mu_total_tokens u = mu_input_tokens u + mu_output_tokens u,
       ''model usage total must equal input plus output tokens'')] u"

record route_receipt =
  mr_requested :: model_route_binding
  mr_effective :: effective_route
  mr_finish_reason :: string
  mr_provider_response_id :: "string option"
  mr_fallback_chain :: "effective_route list"
  mr_lookup_supported :: bool
  mr_receipt_digest :: string

definition receipt_payload :: "route_receipt \<Rightarrow> json" where
  "receipt_payload r = JObj
     [(''requested'', binding_json (mr_requested r)),
      (''effective'', effective_json (mr_effective r)),
      (''finish_reason'', JStr (mr_finish_reason r)),
      (''provider_response_id'', opt_json JStr (mr_provider_response_id r)),
      (''fallback_chain'', JArr (map effective_json (mr_fallback_chain r))),
      (''lookup_supported'', JBool (mr_lookup_supported r))]"

definition validate_route_receipt :: "route_receipt \<Rightarrow> route_receipt res" where
  "validate_route_receipt r = validated
     (model_route_value (mr_finish_reason r) \<and> opt_ok model_route_value (mr_provider_response_id r) \<and>
      is_digest (mr_receipt_digest r))
     [(mr_receipt_digest r = json_digest (receipt_payload r), ''model route receipt digest mismatch''),
      ((em_provider_driver (mr_effective r), em_provider (mr_effective r), em_model (mr_effective r),
        em_reasoning_effort (mr_effective r)) =
       (mb_provider_driver (mr_requested r), mb_provider (mr_requested r), mb_model (mr_requested r),
        mb_reasoning_effort (mr_requested r)),
       ''effective model route drifted from the bound profile''),
      (\<not> (mb_fallback_policy (mr_requested r) = FB_none \<and> mr_fallback_chain r \<noteq> []),
       ''fallback chain is forbidden by the bound route profile'')] r"

definition route_receipt_issue ::
    "model_route_binding \<Rightarrow> effective_route \<Rightarrow> string \<Rightarrow> string option \<Rightarrow> effective_route list \<Rightarrow> bool
     \<Rightarrow> route_receipt res" where
  "route_receipt_issue requested effective finish_reason provider_response_id fallback_chain lookup_supported =
     (let payload = JObj
        [(''requested'', binding_json requested),
         (''effective'', effective_json effective),
         (''finish_reason'', JStr finish_reason),
         (''provider_response_id'', opt_json JStr provider_response_id),
         (''fallback_chain'', JArr (map effective_json fallback_chain)),
         (''lookup_supported'', JBool lookup_supported)]
      in validate_route_receipt
        \<lparr>mr_requested = requested, mr_effective = effective, mr_finish_reason = finish_reason,
         mr_provider_response_id = provider_response_id, mr_fallback_chain = fallback_chain,
         mr_lookup_supported = lookup_supported, mr_receipt_digest = json_digest payload\<rparr>)"

section \<open>Broker calls\<close>

datatype broker_method =
  Artifact_put | Artifact_read | Effect_propose | Evidence_query | Model_request
  | Subagent_result | Subagent_submit

fun method_wire :: "broker_method \<Rightarrow> string" where
  "method_wire Artifact_put = ''artifact.put''"
| "method_wire Artifact_read = ''artifact.read''"
| "method_wire Effect_propose = ''effect.propose''"
| "method_wire Evidence_query = ''evidence.query''"
| "method_wire Model_request = ''model.request''"
| "method_wire Subagent_result = ''subagent.result''"
| "method_wire Subagent_submit = ''subagent.submit''"

text \<open>The capability and access columns of \<open>_METHODS\<close>.\<close>

fun method_capability :: "broker_method \<Rightarrow> string \<times> access_mode" where
  "method_capability Artifact_put = (''artifact.write'', WRITE)"
| "method_capability Artifact_read = (''artifact.read'', READ)"
| "method_capability Effect_propose = (''effect.propose'', WRITE)"
| "method_capability Evidence_query = (''evidence.query'', READ)"
| "method_capability Model_request = (''model.request'', WRITE)"
| "method_capability Subagent_result = (''subagent.result'', READ)"
| "method_capability Subagent_submit = (''subagent.submit'', WRITE)"

record broker_receipt =
  br_kind :: string
  br_handle :: string
  br_digest :: string
  br_value :: string

definition broker_receipt_json :: "broker_receipt \<Rightarrow> json" where
  "broker_receipt_json r = JObj
     [(''schema_version'', JStr ''aar.broker.v1''), (''kind'', JStr (br_kind r)),
      (''handle'', JStr (br_handle r)), (''digest'', JStr (br_digest r)), (''value'', JStr (br_value r))]"

record broker_usage =
  us_model_requests :: int
  us_input_tokens :: int
  us_output_tokens :: int
  us_child_operations :: int
  us_artifact_bytes :: int

definition usage_zero :: broker_usage where
  "usage_zero = \<lparr>us_model_requests = 0, us_input_tokens = 0, us_output_tokens = 0,
     us_child_operations = 0, us_artifact_bytes = 0\<rparr>"

definition broker_usage_json :: "broker_usage \<Rightarrow> json" where
  "broker_usage_json u = JObj
     [(''schema_version'', JStr ''aar.broker.v1''),
      (''model_requests'', JInt (us_model_requests u)), (''input_tokens'', JInt (us_input_tokens u)),
      (''output_tokens'', JInt (us_output_tokens u)),
      (''child_operations'', JInt (us_child_operations u)),
      (''artifact_bytes'', JInt (us_artifact_bytes u))]"

definition validate_broker_usage :: "broker_usage \<Rightarrow> broker_usage res" where
  "validate_broker_usage u = validated (list_all budget_counter
     [us_model_requests u, us_input_tokens u, us_output_tokens u, us_child_operations u,
      us_artifact_bytes u]) [] u"

definition usage_plus :: "broker_usage \<Rightarrow> broker_usage \<Rightarrow> broker_usage res" where
  "usage_plus a b = validate_broker_usage \<lparr>
     us_model_requests = us_model_requests a + us_model_requests b,
     us_input_tokens = us_input_tokens a + us_input_tokens b,
     us_output_tokens = us_output_tokens a + us_output_tokens b,
     us_child_operations = us_child_operations a + us_child_operations b,
     us_artifact_bytes = us_artifact_bytes a + us_artifact_bytes b\<rparr>"

text \<open>The two request models the RLM sends, as their canonical dumps.\<close>

definition model_request_json :: "string \<Rightarrow> json" where
  "model_request_json prompt = JObj
     [(''schema_version'', JStr ''aar.broker.v1''), (''prompt'', JStr prompt)]"

definition validate_model_request :: "string \<Rightarrow> string res" where
  "validate_model_request p = validated (1 \<le> length p \<and> length p \<le> 65536) [] p"

definition evidence_query_json :: "string \<Rightarrow> json" where
  "evidence_query_json t = JObj [(''schema_version'', JStr ''aar.broker.v1''), (''text'', JStr t)]"

definition validate_evidence_query :: "string \<Rightarrow> string res" where
  "validate_evidence_query t = validated (1 \<le> length t \<and> length t \<le> 8192) [] t"

datatype trace_state = T_started | T_rejected_before_send | T_succeeded | T_failed

fun trace_state_wire :: "trace_state \<Rightarrow> string" where
  "trace_state_wire T_started = ''started''"
| "trace_state_wire T_rejected_before_send = ''rejected_before_send''"
| "trace_state_wire T_succeeded = ''succeeded''"
| "trace_state_wire T_failed = ''failed''"

datatype reconciliation_action =
  RA_receipt_recovered | RA_safe_replay | RA_pending | RA_quarantine | RA_compensation_proposed

fun action_wire :: "reconciliation_action \<Rightarrow> string" where
  "action_wire RA_receipt_recovered = ''receipt_recovered''"
| "action_wire RA_safe_replay = ''safe_replay''"
| "action_wire RA_pending = ''pending''"
| "action_wire RA_quarantine = ''quarantine''"
| "action_wire RA_compensation_proposed = ''compensation_proposed''"

record call_trace =
  bt_sequence :: int
  bt_parent_operation :: operation_ref
  bt_method :: broker_method
  bt_grant_id :: string
  bt_idempotency_key :: string
  bt_request_digest :: string
  bt_state :: trace_state
  bt_response_digest :: "string option"
  bt_response_model :: string
  bt_usage_delta :: broker_usage
  bt_failure_code :: "string option"
  bt_reconciliation_action :: "reconciliation_action option"
  bt_authority_digest :: "string option"
  bt_reconciliation_digest :: "string option"
  bt_compensation_digest :: "string option"

definition call_trace_json :: "call_trace \<Rightarrow> json" where
  "call_trace_json t = JObj
     [(''schema_version'', JStr ''aar.broker.v1''),
      (''sequence'', JInt (bt_sequence t)),
      (''parent_operation'', operation_json (bt_parent_operation t)),
      (''method'', JStr (method_wire (bt_method t))),
      (''grant_id'', JStr (bt_grant_id t)),
      (''idempotency_key'', JStr (bt_idempotency_key t)),
      (''request_digest'', JStr (bt_request_digest t)),
      (''state'', JStr (trace_state_wire (bt_state t))),
      (''response_digest'', opt_json JStr (bt_response_digest t)),
      (''response_model'', JStr (bt_response_model t)),
      (''usage_delta'', broker_usage_json (bt_usage_delta t)),
      (''failure_code'', opt_json JStr (bt_failure_code t)),
      (''reconciliation_action'', opt_json (\<lambda>a. JStr (action_wire a)) (bt_reconciliation_action t)),
      (''authority_digest'', opt_json JStr (bt_authority_digest t)),
      (''reconciliation_digest'', opt_json JStr (bt_reconciliation_digest t)),
      (''compensation_digest'', opt_json JStr (bt_compensation_digest t))]"

record call_reconciliation =
  bc_sequence :: int
  bc_method :: broker_method
  bc_action :: reconciliation_action
  bc_reason_code :: string
  bc_request_digest :: string
  bc_authority_digest :: string
  bc_response_digest :: "string option"
  bc_compensation_receipt :: "broker_receipt option"

definition call_reconciliation_json :: "call_reconciliation \<Rightarrow> json" where
  "call_reconciliation_json c = JObj
     [(''schema_version'', JStr ''aar.broker.v1''),
      (''sequence'', JInt (bc_sequence c)), (''method'', JStr (method_wire (bc_method c))),
      (''action'', JStr (action_wire (bc_action c))), (''reason_code'', JStr (bc_reason_code c)),
      (''request_digest'', JStr (bc_request_digest c)),
      (''authority_digest'', JStr (bc_authority_digest c)),
      (''response_digest'', opt_json JStr (bc_response_digest c)),
      (''compensation_receipt'', opt_json broker_receipt_json (bc_compensation_receipt c))]"

record broker_report =
  bp_operation :: operation_ref
  bp_calls :: "call_reconciliation list"
  bp_unresolved :: bool
  bp_report_digest :: string

definition broker_report_payload :: "broker_report \<Rightarrow> json" where
  "broker_report_payload r = JObj
     [(''operation'', operation_json (bp_operation r)),
      (''calls'', JArr (map call_reconciliation_json (bp_calls r))),
      (''unresolved'', JBool (bp_unresolved r))]"

definition validate_broker_report :: "broker_report \<Rightarrow> broker_report res" where
  "validate_broker_report r = validated (is_digest (bp_report_digest r))
     [(bp_report_digest r = json_digest (broker_report_payload r),
       ''broker reconciliation report digest mismatch'')] r"

definition broker_report_issue ::
    "operation_ref \<Rightarrow> call_reconciliation list \<Rightarrow> bool \<Rightarrow> broker_report res" where
  "broker_report_issue operation calls unresolved =
     (let payload = JObj
        [(''operation'', operation_json operation),
         (''calls'', JArr (map call_reconciliation_json calls)),
         (''unresolved'', JBool unresolved)]
      in validate_broker_report
        \<lparr>bp_operation = operation, bp_calls = calls, bp_unresolved = unresolved,
         bp_report_digest = json_digest payload\<rparr>)"

section \<open>Lemmas\<close>

interpretation catalog_digest: content_bound catalog_payload mc_catalog_digest
  "\<lambda>d c. c\<lparr>mc_catalog_digest := d\<rparr>"
  by unfold_locales (simp_all add: catalog_payload_def)

interpretation receipt_digest: content_bound receipt_payload mr_receipt_digest
  "\<lambda>d r. r\<lparr>mr_receipt_digest := d\<rparr>"
  by unfold_locales (simp_all add: receipt_payload_def)

interpretation report_digest: content_bound broker_report_payload bp_report_digest
  "\<lambda>d r. r\<lparr>bp_report_digest := d\<rparr>"
  by unfold_locales (simp_all add: broker_report_payload_def)

lemma validate_route_receipt_Inr_iff:
  "validate_route_receipt r = Inr r' \<longleftrightarrow> r' = r \<and>
     model_route_value (mr_finish_reason r) \<and> opt_ok model_route_value (mr_provider_response_id r) \<and>
     is_digest (mr_receipt_digest r) \<and>
     mr_receipt_digest r = json_digest (receipt_payload r) \<and>
     em_provider_driver (mr_effective r) = mb_provider_driver (mr_requested r) \<and>
     em_provider (mr_effective r) = mb_provider (mr_requested r) \<and>
     em_model (mr_effective r) = mb_model (mr_requested r) \<and>
     em_reasoning_effort (mr_effective r) = mb_reasoning_effort (mr_requested r) \<and>
     (mb_fallback_policy (mr_requested r) = FB_none \<longrightarrow> mr_fallback_chain r = [])"
  by (auto simp: validate_route_receipt_def res_simps)

lemma catalog_issue_Inr:
  assumes "catalog_issue ps = Inr c"
  shows "mset (mc_profiles c) = mset ps \<and> sorted_unique (map mp_profile_id (mc_profiles c)) \<and>
    mc_catalog_digest c = json_digest (catalog_payload c) \<and> length ps \<le> 64 \<and> ps \<noteq> []"
proof -
  from assms have len: "length ps \<le> 64"
    and c: "mc_profiles c = sort_key mp_profile_id ps"
      "sorted_unique (map mp_profile_id (mc_profiles c))"
      "mc_catalog_digest c = json_digest (catalog_payload c)" "1 \<le> length ps"
    by (auto simp: catalog_issue_def validate_model_route_catalog_def res_simps Let_def
      catalog_payload_def)
  then show ?thesis by auto
qed

lemma catalog_issue_perm:
  assumes "mset ps = mset qs" "distinct (map mp_profile_id ps)"
  shows "catalog_issue ps = catalog_issue qs"
proof -
  have "length ps = length qs" using assms(1) by (rule mset_eq_length)
  moreover have "inj_on mp_profile_id (set ps)" using assms(2) by (simp add: distinct_map)
  then have "sort_key mp_profile_id ps = sort_key mp_profile_id qs"
    using assms(1) by (intro sort_key_inj_key_eq) simp_all
  ultimately show ?thesis by (simp add: catalog_issue_def)
qed

lemma binding_issue_Inr:
  assumes "binding_issue c p = Inr b"
  shows "p \<in> set (mc_profiles c) \<and> binding_profile b = p \<and>
    mb_catalog_digest b = mc_catalog_digest c \<and> mb_profile_digest b = profile_digest p"
  using assms
  by (auto simp: binding_issue_def validate_model_route_binding_def
      validate_model_route_profile_def binding_profile_def res_simps
    dest!: fetchone_SomeD [unfolded fetchone_def] split: option.splits if_splits)

lemma validate_model_route_binding_Inr:
  "validate_model_route_binding b = Inr b' \<Longrightarrow>
     b' = b \<and> mb_profile_digest b = profile_digest (binding_profile b)"
  by (auto simp: validate_model_route_binding_def validate_model_route_profile_def res_simps)

end
