(* ===== verification/Broker_Calls.thy ===== *)
theory Broker_Calls
  imports Broker_Models Registry_State
begin

text \<open>
  The durable journal of brokered calls (\<open>BrokerJournal\<close> in \<open>src/aar/runtime/brokers.py\<close>):
  one row per call with its identity, its requested or committed usage and its outcome. A
  call is admitted in one transaction, sent to its provider outside of any transaction, and
  its outcome committed in another; reconciliation closes calls that were never committed.
\<close>

section \<open>Requests and responses\<close>

record put_request =
  ap_content_digest :: string
  ap_media_type :: string
  ap_size_bytes :: int
  ap_redacted :: bool

datatype broker_request =
    Model_req string
  | Evidence_req string
  | Submit_req string
  | Result_req string
  | Effect_req string string
  | Put_req put_request
  | Read_req artifact_reference

fun request_json :: "broker_request \<Rightarrow> json" where
  "request_json (Model_req p) = model_request_json p"
| "request_json (Evidence_req t) = evidence_query_json t"
| "request_json (Submit_req t) = JObj [(''schema_version'', JStr ''aar.broker.v1''), (''task'', JStr t)]"
| "request_json (Result_req h) = JObj [(''schema_version'', JStr ''aar.broker.v1''), (''handle'', JStr h)]"
| "request_json (Effect_req t d) = JObj
     [(''schema_version'', JStr ''aar.broker.v1''), (''effect_type'', JStr t), (''payload_digest'', JStr d)]"
| "request_json (Put_req a) = JObj
     [(''schema_version'', JStr ''aar.broker.v1''), (''content_digest'', JStr (ap_content_digest a)),
      (''media_type'', JStr (ap_media_type a)), (''size_bytes'', JInt (ap_size_bytes a)),
      (''redacted'', JBool (ap_redacted a))]"
| "request_json (Read_req r) = JObj
     [(''schema_version'', JStr ''aar.broker.v1''), (''reference'', artifact_reference_json r)]"

datatype broker_response =
    Receipt_resp broker_receipt
  | Artifact_resp artifact_reference
  | Read_resp artifact_reference string
  | Handle_resp string

fun response_model :: "broker_response \<Rightarrow> string" where
  "response_model (Receipt_resp r) = ''BrokerReceipt''"
| "response_model (Artifact_resp a) = ''ArtifactReference''"
| "response_model (Read_resp a c) = ''ArtifactReadResult''"
| "response_model (Handle_resp h) = ''RetainedSubagentHandle''"

fun response_json :: "broker_response \<Rightarrow> json" where
  "response_json (Receipt_resp r) = broker_receipt_json r"
| "response_json (Artifact_resp a) = artifact_reference_json a"
| "response_json (Read_resp a c) = JObj
     [(''schema_version'', JStr ''aar.broker.v1''), (''reference'', artifact_reference_json a),
      (''content_base64'', JStr c)]"
| "response_json (Handle_resp h) = JObj
     [(''schema_version'', JStr ''aar.broker.v1''), (''handle'', JStr h), (''state'', JStr ''retained'')]"

section \<open>The journal\<close>

text \<open>
  Columns that hold canonical JSON hold the value; a request column is empty only in rows
  written before the column existed. The control rows are the registry's, in the same file.
\<close>

record call_row =
  bj_operation :: operation_ref
  bj_sequence :: int
  bj_method :: broker_method
  bj_grant_id :: string
  bj_key :: string
  bj_request_digest :: string
  bj_request :: "broker_request option"
  bj_state :: trace_state
  bj_response_digest :: "string option"
  bj_response_model :: string
  bj_response :: "broker_response option"
  bj_usage :: broker_usage
  bj_failure_code :: "string option"
  bj_action :: "reconciliation_action option"
  bj_authority_digest :: "string option"
  bj_reconciliation :: "call_reconciliation option"
  bj_compensation :: "broker_receipt option"
  bj_reconciled_at :: "int option"
  bj_control_revision :: "int option"

record brk =
  bk_calls :: "call_row tbl"
  bk_controls :: "control_row tbl"

definition set_call :: "operation_ref \<Rightarrow> int \<Rightarrow> (call_row \<Rightarrow> bool) \<Rightarrow> (call_row \<Rightarrow> call_row) \<Rightarrow> brk \<Rightarrow> brk" where
  "set_call i n p f db = db\<lparr>bk_calls := update_rows (\<lambda>w. bj_operation w = i \<and> bj_sequence w = n \<and> p w) f
     (bk_calls db)\<rparr>"

definition find_call :: "operation_ref \<Rightarrow> string \<Rightarrow> brk \<Rightarrow> call_row option" where
  "find_call i k db = fetchone (\<lambda>w. bj_operation w = i \<and> bj_key w = k) (bk_calls db)"

definition call_at :: "operation_ref \<Rightarrow> int \<Rightarrow> brk \<Rightarrow> call_row option" where
  "call_at i n db = fetchone (\<lambda>w. bj_operation w = i \<and> bj_sequence w = n) (bk_calls db)"

definition operation_control_state :: "operation_ref \<Rightarrow> brk \<Rightarrow> int \<times> bool" where
  "operation_control_state i db =
     (case fetchone (\<lambda>c. cw_operation c = i) (bk_controls db) of None \<Rightarrow> (0, False)
      | Some c \<Rightarrow> (cw_control_revision c, cw_cancellation_requested c))"

section \<open>Usage and budgets\<close>

fun usage_total :: "broker_usage \<Rightarrow> broker_usage list \<Rightarrow> broker_usage res" where
  "usage_total acc [] = Inr acc"
| "usage_total acc (u # us) = and_then (usage_plus acc u) (\<lambda>t. usage_total t us)"

text \<open>The usage of every call of the operation that is not merely started.\<close>

definition counted_usages :: "operation_ref \<Rightarrow> brk \<Rightarrow> broker_usage list" where
  "counted_usages i db = map bj_usage (filter (\<lambda>w. bj_operation w = i \<and> bj_state w \<noteq> T_started) (bk_calls db))"

definition journal_usage :: "operation_ref \<Rightarrow> brk \<Rightarrow> broker_usage res" where
  "journal_usage i db = usage_total usage_zero (map bj_usage (sort_key bj_sequence
     (filter (\<lambda>w. bj_operation w = i \<and> bj_state w \<noteq> T_started) (bk_calls db))))"

fun join :: "string \<Rightarrow> string list \<Rightarrow> string" where
  "join s [] = []"
| "join s [x] = x"
| "join s (x # y # ys) = x @ s @ join s (y # ys)"

definition exceeded :: "budget \<Rightarrow> broker_usage \<Rightarrow> string list" where
  "exceeded b u = map fst (filter snd
     [(''model_requests'', us_model_requests u > bu_model_requests b),
      (''input_tokens'', us_input_tokens u > bu_input_tokens b),
      (''output_tokens'', us_output_tokens u > bu_output_tokens b),
      (''child_operations'', us_child_operations u > bu_child_operations b),
      (''artifact_bytes'', us_artifact_bytes u > bu_artifact_bytes b)])"

definition assert_budget :: "budget \<Rightarrow> broker_usage \<Rightarrow> unit res" where
  "assert_budget b u = (let ex = exceeded b u in
     if ex = [] then Inr ()
     else Inl (BrokerBudgetExceeded (''broker budget exceeded: '' @ join '', '' (sort ex))))"

section \<open>Admission\<close>

text \<open>
  The arguments of \<open>invoke\<close> that do not run code; \<open>iv_check\<close> is \<open>admission_check\<close> as a
  function of the clock reading it takes.
\<close>

record invoke_args =
  iv_operation :: operation_ref
  iv_method :: broker_method
  iv_grant_id :: string
  iv_key :: string
  iv_request :: broker_request
  iv_response_model :: string
  iv_usage :: broker_usage
  iv_budget :: budget
  iv_control :: "int option"
  iv_not_cancelled :: bool
  iv_check :: "(int \<Rightarrow> unit res) option"

definition iv_digest :: "invoke_args \<Rightarrow> string" where
  "iv_digest c = json_digest (request_json (iv_request c))"

definition run_check :: "invoke_args \<Rightarrow> int \<Rightarrow> unit res" where
  "run_check c now = (case iv_check c of None \<Rightarrow> Inr () | Some chk \<Rightarrow> chk now)"

definition check_control :: "invoke_args \<Rightarrow> brk \<Rightarrow> unit res" where
  "check_control c db =
     (let (control_revision, cancelled) = operation_control_state (iv_operation c) db in
      if iv_control c \<noteq> None \<and> iv_control c \<noteq> Some control_revision then
        Inl (BrokerCallConflict ''operation control revision changed before broker admission'')
      else if iv_not_cancelled c \<and> cancelled then
        Inl (BrokerCallConflict ''operation cancellation prevents broker admission'')
      else Inr ())"

text \<open>What an earlier call with the same key means for this one.\<close>

datatype prior_call = No_prior | Stored broker_response | Rejected int

definition prior_call :: "invoke_args \<Rightarrow> brk \<Rightarrow> prior_call res" where
  "prior_call c db =
     (case find_call (iv_operation c) (iv_key c) db of
        None \<Rightarrow> Inr No_prior
      | Some w \<Rightarrow>
        if bj_request_digest w \<noteq> iv_digest c then
          Inl (BrokerCallConflict ''broker idempotency key already binds different request bytes'')
        else if bj_state w = T_succeeded \<and> bj_response w \<noteq> None then
          (let response = the (bj_response w) in
           if response_model response \<noteq> iv_response_model c then Inl (ValidationError ''field constraint'')
           else if bj_response_digest w \<noteq> Some (json_digest (response_json response)) then
             Inl (BrokerCallConflict ''broker success receipt digest does not match stored response bytes'')
           else Inr (Stored response))
        else if bj_state w = T_rejected_before_send \<and> bj_response w = None then
          Inr (Rejected (bj_sequence w))
        else Inl (BrokerCallIndeterminate ''broker call has no authoritative terminal receipt''))"

definition next_sequence :: "operation_ref \<Rightarrow> brk \<Rightarrow> int" where
  "next_sequence i db = max_col (\<lambda>w. bj_operation w = i) bj_sequence (bk_calls db) + 1"

definition started_row :: "invoke_args \<Rightarrow> int \<Rightarrow> call_row" where
  "started_row c n = \<lparr>bj_operation = iv_operation c, bj_sequence = n, bj_method = iv_method c,
     bj_grant_id = iv_grant_id c, bj_key = iv_key c, bj_request_digest = iv_digest c,
     bj_request = Some (iv_request c), bj_state = T_started, bj_response_digest = None,
     bj_response_model = iv_response_model c, bj_response = None, bj_usage = iv_usage c,
     bj_failure_code = None, bj_action = None, bj_authority_digest = None,
     bj_reconciliation = None, bj_compensation = None, bj_reconciled_at = None,
     bj_control_revision = iv_control c\<rparr>"

definition restarted :: "invoke_args \<Rightarrow> call_row \<Rightarrow> call_row" where
  "restarted c w = w\<lparr>bj_state := T_started, bj_grant_id := iv_grant_id c, bj_usage := iv_usage c,
     bj_failure_code := None, bj_control_revision := iv_control c\<rparr>"

definition call_clash :: "call_row \<Rightarrow> call_row \<Rightarrow> bool" where
  "call_clash x y \<longleftrightarrow> bj_operation x = bj_operation y \<and>
     (bj_sequence x = bj_sequence y \<or> bj_key x = bj_key y)"

datatype admitted = Replayed broker_response | Admitted int broker_usage

text \<open>The first transaction; the admitted call carries its sequence and the usage so far.\<close>

definition admit_call :: "invoke_args \<Rightarrow> int \<Rightarrow> brk \<Rightarrow> (admitted \<times> brk) res" where
  "admit_call c now db =
     (let i = iv_operation c in
      and_then (run_check c now) (\<lambda>_.
      and_then (if iv_control c \<noteq> None \<or> iv_not_cancelled c then check_control c db else Inr ()) (\<lambda>_.
      and_then (prior_call c db) (\<lambda>prior.
      case prior of Stored response \<Rightarrow> Inr (Replayed response, db)
      | _ \<Rightarrow>
        and_then (usage_total usage_zero (counted_usages i db)) (\<lambda>current.
        and_then (usage_plus current (iv_usage c)) (\<lambda>planned.
        and_then (assert_budget (iv_budget c) planned) (\<lambda>_.
        case prior of
          Rejected n \<Rightarrow>
            if rowcount (\<lambda>w. bj_operation w = i \<and> bj_sequence w = n \<and> bj_state w = T_rejected_before_send)
                 (bk_calls db) \<noteq> 1
            then Inl (BrokerCallConflict ''broker rejection changed during safe replay'')
            else Inr (Admitted n current,
              set_call i n (\<lambda>w. bj_state w = T_rejected_before_send) (restarted c) db)
        | _ \<Rightarrow>
            let n = next_sequence i db in
            and_then (insert_row call_clash (started_row c n) (bk_calls db)) (\<lambda>t.
            Inr (Admitted n current, db\<lparr>bk_calls := t\<rparr>)))))))))"

section \<open>Outcomes\<close>

text \<open>
  What a provider call returns: the response, the usage to commit and the check to make
  after the commit. Its failures are the exceptions it raises.
\<close>

record sent =
  se_response :: broker_response
  se_usage :: broker_usage
  se_check :: "unit res"

definition reject_call :: "invoke_args \<Rightarrow> int \<Rightarrow> exn \<Rightarrow> brk \<Rightarrow> brk" where
  "reject_call c n e = set_call (iv_operation c) n (\<lambda>w. bj_state w = T_started)
     (\<lambda>w. w\<lparr>bj_state := T_rejected_before_send, bj_failure_code := Some (exn_name e), bj_usage := usage_zero\<rparr>)"

definition fail_call :: "invoke_args \<Rightarrow> int \<Rightarrow> string \<Rightarrow> brk \<Rightarrow> brk" where
  "fail_call c n code = set_call (iv_operation c) n (\<lambda>_. True)
     (\<lambda>w. w\<lparr>bj_state := T_failed, bj_failure_code := Some code, bj_usage := usage_zero\<rparr>)"

definition quarantine_call :: "invoke_args \<Rightarrow> int \<Rightarrow> string \<Rightarrow> brk \<Rightarrow> brk" where
  "quarantine_call c n code = set_call (iv_operation c) n (\<lambda>_. True)
     (\<lambda>w. w\<lparr>bj_state := T_failed, bj_failure_code := Some code, bj_usage := usage_zero,
            bj_action := Some RA_quarantine\<rparr>)"

definition succeed_call :: "invoke_args \<Rightarrow> int \<Rightarrow> sent \<Rightarrow> brk \<Rightarrow> brk" where
  "succeed_call c n s = set_call (iv_operation c) n (\<lambda>_. True)
     (\<lambda>w. w\<lparr>bj_state := T_succeeded, bj_response_digest := Some (json_digest (response_json (se_response s))),
            bj_response := Some (se_response s), bj_usage := se_usage s\<rparr>)"

definition revoke_call :: "invoke_args \<Rightarrow> int \<Rightarrow> exn \<Rightarrow> brk \<Rightarrow> brk" where
  "revoke_call c n e = set_call (iv_operation c) n (\<lambda>w. bj_state w = T_succeeded)
     (\<lambda>w. w\<lparr>bj_state := T_failed, bj_failure_code := Some (exn_name e)\<rparr>)"

text \<open>
  The handlers of the provider call, in their order: an indeterminate call stays started, a
  process loss is not an \<open>Exception\<close> and leaves the row as it is.
\<close>

fun record_failure :: "invoke_args \<Rightarrow> int \<Rightarrow> exn \<Rightarrow> brk \<Rightarrow> brk" where
  "record_failure c n (BrokerCallIndeterminate m) db = db"
| "record_failure c n SimulatedRlmProcessLoss db = db"
| "record_failure c n (BrokerCallQuarantined code) db = quarantine_call c n code db"
| "record_failure c n e db = fail_call c n (exn_name e) db"

definition commit_call ::
    "invoke_args \<Rightarrow> int \<Rightarrow> broker_usage \<Rightarrow> sent res \<Rightarrow> brk \<Rightarrow> broker_response res \<times> brk" where
  "commit_call c n current out db =
     (case out of Inl e \<Rightarrow> (Inl e, record_failure c n e db)
      | Inr s \<Rightarrow>
        if response_model (se_response s) \<noteq> iv_response_model c then
          let e = TypeError (''broker method '' @ method_wire (iv_method c) @ '' returned '' @
                response_model (se_response s) @ '', expected '' @ iv_response_model c)
          in (Inl e, record_failure c n e db)
        else
          let db1 = succeed_call c n s db in
          case and_then (usage_plus current (se_usage s)) (\<lambda>u.
                 and_then (assert_budget (iv_budget c) u) (\<lambda>_. se_check s)) of
            Inl e \<Rightarrow> (Inl e, revoke_call c n e db1)
          | Inr _ \<Rightarrow> (Inr (se_response s), db1))"

text \<open>
  The whole call, with nothing else writing the journal while the provider runs. The provider is a
  state transformer, so that what is sent, and whether anything is sent at all, is part of the
  result. The code holds the journal's lock in each of the transactions and not during the
  provider's call; the runs in which other steps fall between them are those of \<open>call_step\<close>, of
  which this is the run without others in between (\<open>invoke_is_a_run\<close>).
\<close>

definition invoke ::
    "invoke_args \<Rightarrow> int \<Rightarrow> int \<Rightarrow> ('p \<Rightarrow> sent res \<times> 'p) \<Rightarrow> brk \<times> 'p \<Rightarrow> broker_response res \<times> brk \<times> 'p" where
  "invoke c now1 now2 provider s =
     (let (db, p) = s in
      case admit_call c now1 db of
        Inl e \<Rightarrow> (Inl e, db, p)
      | Inr (Replayed response, db1) \<Rightarrow> (Inr response, db1, p)
      | Inr (Admitted n current, db1) \<Rightarrow>
          (case run_check c now2 of
             Inl e \<Rightarrow> (Inl e, reject_call c n e db1, p)
           | Inr _ \<Rightarrow>
             let (out, p1) = provider p; (result, db2) = commit_call c n current out db1
             in (result, db2, p1)))"

section \<open>Reconciliation of started calls\<close>

definition started_calls :: "operation_ref \<Rightarrow> brk \<Rightarrow> call_row list" where
  "started_calls i db = sort_key bj_sequence
     (filter (\<lambda>w. bj_operation w = i \<and> bj_state w = T_started) (bk_calls db))"

definition has_unresolved_calls :: "operation_ref \<Rightarrow> brk \<Rightarrow> bool" where
  "has_unresolved_calls i db \<longleftrightarrow>
     fetchone (\<lambda>w. bj_operation w = i \<and> bj_state w \<noteq> T_succeeded) (bk_calls db) \<noteq> None"

record resolution =
  re_operation :: operation_ref
  re_sequence :: int
  re_method :: broker_method
  re_request_digest :: string
  re_authority_digest :: string
  re_action :: reconciliation_action
  re_reason_code :: string
  re_now :: int

definition reconciliation_of ::
    "resolution \<Rightarrow> string option \<Rightarrow> broker_receipt option \<Rightarrow> call_reconciliation" where
  "reconciliation_of q response_digest compensation =
     \<lparr>bc_sequence = re_sequence q, bc_method = re_method q, bc_action = re_action q,
      bc_reason_code = re_reason_code q, bc_request_digest = re_request_digest q,
      bc_authority_digest = re_authority_digest q, bc_response_digest = response_digest,
      bc_compensation_receipt = compensation\<rparr>"

definition call_identity :: "resolution \<Rightarrow> string" where
  "call_identity q = operation_value (re_operation q) @ '':'' @ itoa (re_sequence q)"

definition resolve_started_call ::
    "resolution \<Rightarrow> broker_response \<Rightarrow> broker_usage option \<Rightarrow> brk \<Rightarrow> (call_reconciliation \<times> brk) res" where
  "resolve_started_call q response committed db =
     (let digest = json_digest (response_json response);
          rec = reconciliation_of q (Some digest) None in
      case call_at (re_operation q) (re_sequence q) db of
        None \<Rightarrow> Inl (KeyError (call_identity q))
      | Some w \<Rightarrow>
        if bj_request_digest w \<noteq> re_request_digest q then
          Inl (BrokerCallConflict ''broker request digest changed during reconciliation'')
        else if bj_response_model w \<noteq> response_model response then
          Inl (BrokerCallConflict ''broker response model changed during reconciliation'')
        else if bj_state w = T_succeeded then
          (if bj_response w \<noteq> Some response \<or> bj_response_digest w \<noteq> Some digest \<or>
              (committed \<noteq> None \<and> committed \<noteq> Some (bj_usage w))
           then Inl (BrokerCallConflict ''terminal broker receipt conflicts with reconciled response'')
           else Inr (rec, db))
        else if bj_state w \<noteq> T_started then
          Inl (BrokerCallConflict ''broker call is no longer reconcilable'')
        else Inr (rec, set_call (re_operation q) (re_sequence q) (\<lambda>w. bj_state w = T_started)
          (\<lambda>w. w\<lparr>bj_state := T_succeeded, bj_response_digest := Some digest, bj_response := Some response,
             bj_usage := (case committed of None \<Rightarrow> bj_usage w | Some u \<Rightarrow> u),
             bj_failure_code := None, bj_action := Some (re_action q),
             bj_authority_digest := Some (re_authority_digest q), bj_reconciliation := Some rec,
             bj_compensation := None, bj_reconciled_at := Some (re_now q)\<rparr>) db))"

definition record_unresolved_reconciliation ::
    "resolution \<Rightarrow> broker_receipt option \<Rightarrow> broker_usage option \<Rightarrow> brk \<Rightarrow> (call_reconciliation \<times> brk) res" where
  "record_unresolved_reconciliation q compensation committed db =
     (let rec = reconciliation_of q None compensation;
          usage = (case committed of None \<Rightarrow> usage_zero | Some u \<Rightarrow> u);
          target = (if re_action q = RA_pending then T_started else T_failed) in
      case call_at (re_operation q) (re_sequence q) db of
        None \<Rightarrow> Inl (KeyError (call_identity q))
      | Some w \<Rightarrow>
        if bj_request_digest w \<noteq> re_request_digest q then
          Inl (BrokerCallConflict ''broker request digest changed during reconciliation'')
        else if bj_state w \<noteq> T_started then
          (if bj_reconciliation w = Some rec then Inr (rec, db)
           else Inl (BrokerCallConflict ''broker call is no longer reconcilable''))
        else Inr (rec, set_call (re_operation q) (re_sequence q) (\<lambda>w. bj_state w = T_started)
          (\<lambda>w. w\<lparr>bj_state := target, bj_failure_code := Some (re_reason_code q),
             bj_action := Some (re_action q), bj_authority_digest := Some (re_authority_digest q),
             bj_reconciliation := Some rec, bj_compensation := compensation,
             bj_usage := (if target = T_started then bj_usage w else usage),
             bj_reconciled_at := Some (re_now q)\<rparr>) db))"

section \<open>Traces\<close>

text \<open>
  \<open>traces\<close>. The checks on columns that hold text outside their enumerations cannot fail on
  typed columns; the response digest is checked against the stored response.
\<close>

definition call_trace_of :: "call_row \<Rightarrow> call_trace" where
  "call_trace_of w =
     (let bad = (bj_state w = T_succeeded \<and>
            (bj_response w = None \<or>
             bj_response_digest w \<noteq> Some (json_digest (response_json (the (bj_response w)))))) in
      \<lparr>bt_sequence = bj_sequence w, bt_parent_operation = bj_operation w, bt_method = bj_method w,
       bt_grant_id = bj_grant_id w, bt_idempotency_key = bj_key w,
       bt_request_digest = bj_request_digest w,
       bt_state = (if bad then T_failed else bj_state w),
       bt_response_digest = bj_response_digest w, bt_response_model = bj_response_model w,
       bt_usage_delta = bj_usage w,
       bt_failure_code = (if bad then Some ''BrokerReceiptDigestMismatch'' else bj_failure_code w),
       bt_reconciliation_action = bj_action w, bt_authority_digest = bj_authority_digest w,
       bt_reconciliation_digest =
         map_option (\<lambda>c. json_digest (call_reconciliation_json c)) (bj_reconciliation w),
       bt_compensation_digest = map_option (\<lambda>c. json_digest (broker_receipt_json c)) (bj_compensation w)\<rparr>)"

definition traces :: "operation_ref \<Rightarrow> brk \<Rightarrow> call_trace list" where
  "traces i db = map call_trace_of
     (sort_key bj_sequence (filter (\<lambda>w. bj_operation w = i) (bk_calls db)))"

end
