(* ===== verification/Model_Properties.thy ===== *)
theory Model_Properties
  imports Recovery_Properties Broker_Calls
begin

text \<open>
  Properties of the pure models: canonical JSON determines its value, digests bind what they
  are issued over, routes and receipts cannot drift, and usage adds up.
\<close>

section \<open>Normal forms\<close>

text \<open>A normalised value, read as a Python value again.\<close>

fun py_of :: "json \<Rightarrow> pyval" where
  "py_of JNull = PyNone"
| "py_of (JBool b) = PyBool b"
| "py_of (JInt i) = PyInt i"
| "py_of (JStr s) = PyStr s"
| "py_of (JArr xs) = PySeq (map py_of xs)"
| "py_of (JObj kvs) = PyMap (map (\<lambda>(k, v). (PyStr k, py_of v)) kvs)"

lemma put_key_new: "k \<notin> fst ` set m \<Longrightarrow> put_key k v m = m @ [(k, v)]"
  by (induction m) auto

lemma json_list_py_of:
  "\<forall>x \<in> set xs. json_value (py_of x) = Inr x \<Longrightarrow> json_list (map py_of xs) = Inr xs"
  by (induction xs) auto

lemma json_items_py_of:
  "\<forall>(k, v) \<in> set kvs. json_value (py_of v) = Inr v \<Longrightarrow> distinct (map fst (m @ kvs)) \<Longrightarrow>
   json_items (map (\<lambda>(k, v). (PyStr k, py_of v)) kvs) m = Inr (m @ kvs)"
proof (induction kvs arbitrary: m)
  case (Cons p kvs)
  obtain k v where p: "p = (k, v)" by (cases p)
  have "put_key k v m = m @ [(k, v)]" using Cons.prems(2) p by (intro put_key_new) auto
  then show ?case using Cons p by auto
qed simp

lemma json_value_py_of: "keys_ok j \<Longrightarrow> json_value (py_of j) = Inr j"
proof (induction j)
  case (JArr xs)
  then show ?case by (simp add: json_list_py_of list_all_iff)
next
  case (JObj kvs)
  then have "\<forall>(k, v) \<in> set kvs. json_value (py_of v) = Inr v"
    by (fastforce simp: list_all_iff)
  with JObj.prems show ?case by (simp add: json_items_py_of)
qed simp_all

lemma json_value_error:
  "json_value v = Inl e \<Longrightarrow> \<exists>m. e = TypeError m"
  "json_items kvs m = Inl e \<Longrightarrow> \<exists>t. e = TypeError t"
  "json_list xs = Inl e \<Longrightarrow> \<exists>m. e = TypeError m"
  by (induction v and kvs m and xs rule: json_value_json_items_json_list.induct)
    (auto simp: and_then_Inl_iff split: pyval.splits)

section \<open>Objects\<close>

text \<open>The items of a dictionary whose keys are distinct strings.\<close>

lemma json_items_mset:
  "json_items kvs m = Inr m' \<Longrightarrow> distinct (map fst m @ map (\<lambda>(k, v). case k of PyStr s \<Rightarrow> s) kvs) \<Longrightarrow>
   \<exists>ws. m' = m @ ws \<and> map (\<lambda>(k, v). (PyStr k, Inr v)) ws = map (\<lambda>(k, v). (k, json_value v)) kvs"
proof (induction kvs arbitrary: m)
  case (Cons p kvs)
  obtain k v where p: "p = (k, v)" by (cases p)
  from Cons.prems p obtain s j where k: "k = PyStr s" and j: "json_value v = Inr j"
    and rest: "json_items kvs (put_key s j m) = Inr m'" by (auto simp: res_simps split: pyval.splits)
  have new: "put_key s j m = m @ [(s, j)]" using Cons.prems(2) p k by (intro put_key_new) auto
  from Cons.IH [OF rest [unfolded new]] Cons.prems(2) p k obtain ws where
    "m' = (m @ [(s, j)]) @ ws" "map (\<lambda>(k, v). (PyStr k, Inr v)) ws = map (\<lambda>(k, v). (k, json_value v)) kvs"
    by auto
  then show ?case using p k j by (intro exI [of _ "(s, j) # ws"]) simp
qed simp

lemma json_items_ok_iff:
  "(\<exists>m'. json_items kvs m = Inr m') \<longleftrightarrow>
   (\<forall>(k, v) \<in> set kvs. (\<exists>s. k = PyStr s) \<and> (\<exists>j. json_value v = Inr j))"
proof (induction kvs arbitrary: m)
  case (Cons p kvs)
  obtain k v where p: "p = (k, v)" by (cases p)
  show ?case by (cases k; cases "json_value v") (simp_all add: p Cons.IH)
qed simp

lemma json_map_perm:
  assumes j: "json_value (PyMap kvs) = Inr j" and perm: "mset kvs' = mset kvs" and d: "distinct (map fst kvs)"
  obtains ws ws' where "j = JObj ws" "json_value (PyMap kvs') = Inr (JObj ws')" "mset ws' = mset ws"
    "distinct (map fst ws)"
proof -
  let ?key = "\<lambda>(k, v). case k of PyStr s \<Rightarrow> s" and ?g = "\<lambda>(k, v). (k, json_value v)"
  let ?f = "\<lambda>(k, v). (PyStr k, Inr v :: json res)"
  from j obtain m where m: "json_items kvs [] = Inr m" "j = JObj m" by (auto simp: res_simps)
  then have str: "\<forall>(k, v) \<in> set kvs. (\<exists>s. k = PyStr s) \<and> (\<exists>j. json_value v = Inr j)"
    using json_items_ok_iff by blast
  have same: "set kvs' = set kvs" using perm by (rule mset_eq_setD)
  with str obtain m' where m': "json_items kvs' [] = Inr m'" using json_items_ok_iff [of kvs' "[]"] by auto
  have key: "map fst xs = map PyStr (map ?key xs)" if "set xs = set kvs" for xs
    using str that by (auto simp: comp_def)
  have "mset (map fst kvs') = mset (map fst kvs)" using perm by simp
  then have "distinct (map fst kvs')" using d mset_eq_imp_distinct_iff by blast
  then have dk: "distinct (map ?key kvs)" "distinct (map ?key kvs')"
    using d unfolding key [OF refl] key [OF same] distinct_map by simp_all
  from json_items_mset [OF m(1)] dk obtain ws where ws: "m = ws" "map ?f ws = map ?g kvs" by auto
  from json_items_mset [OF m'] dk obtain ws' where ws': "m' = ws'" "map ?f ws' = map ?g kvs'" by auto
  have "image_mset ?f (mset ws') = image_mset ?g (mset kvs')" "image_mset ?f (mset ws) = image_mset ?g (mset kvs)"
    using ws(2) ws'(2) by (simp_all flip: mset_map)
  then have "image_mset ?f (mset ws') = image_mset ?f (mset ws)" by (simp only: perm)
  moreover have "inj ?f" by (auto simp: inj_on_def)
  ultimately have "mset ws' = mset ws" by (meson injD multiset.inj_map)
  moreover have "distinct (map fst ws)" using json_value_keys_ok(1) [OF j] m(2) ws(1) by simp
  ultimately show thesis using that m(2) ws(1) ws'(1) m' by simp
qed

section \<open>Policies\<close>

lemma wire_injects [simp]:
  "policy_id_wire a = policy_id_wire b \<longleftrightarrow> a = b" "compatibility_wire c = compatibility_wire d \<longleftrightarrow> c = d"
  "uncertainty_wire e = uncertainty_wire f \<longleftrightarrow> e = f"
proof -
  show "policy_id_wire a = policy_id_wire b \<longleftrightarrow> a = b" by (cases a; cases b; simp)
  show "compatibility_wire c = compatibility_wire d \<longleftrightarrow> c = d" by (cases c; cases d; simp)
  show "uncertainty_wire e = uncertainty_wire f \<longleftrightarrow> e = f" by (cases e; cases f; simp)
qed

lemma inj_map_eq: "map (\<lambda>d. JStr (decision_wire d)) xs = map (\<lambda>d. JStr (decision_wire d)) ys \<longleftrightarrow> xs = ys"
  by (rule inj_map_eq_map) (simp add: inj_on_def)

lemma policy_json_inject: "canon (policy_json p) = canon (policy_json q) \<Longrightarrow> p = q"
proof -
  assume eq: "canon (policy_json p) = canon (policy_json q)"
  note same = canon_obj_set [OF eq [unfolded policy_json_def], THEN equalityD1, THEN subsetD]
  from same [of "(''policy_version'', JInt (rp_policy_version p))"]
  have f0: "rp_policy_version p = rp_policy_version q" by (simp add: comp_def inj_map_eq)
  from same [of "(''policy_id'', JStr (policy_id_wire (rp_policy_id p)))"]
  have f1: "rp_policy_id p = rp_policy_id q" by (simp add: comp_def inj_map_eq)
  from same [of "(''operation_kind'', JStr (rp_operation_kind p))"]
  have f2: "rp_operation_kind p = rp_operation_kind q" by (simp add: comp_def inj_map_eq)
  from same [of "(''allowed_decisions'', canon (JArr (map (\<lambda>d. JStr (decision_wire d)) (rp_allowed_decisions p))))"]
  have f3: "rp_allowed_decisions p = rp_allowed_decisions q" by (simp add: comp_def inj_map_eq)
  from same [of "(''max_successor_attempts'', JInt (rp_max_successor_attempts p))"]
  have f4: "rp_max_successor_attempts p = rp_max_successor_attempts q" by (simp add: comp_def inj_map_eq)
  from same [of "(''safe_replay_no_effect'', JBool (rp_safe_replay_no_effect p))"]
  have f5: "rp_safe_replay_no_effect p = rp_safe_replay_no_effect q" by (simp add: comp_def inj_map_eq)
  from same [of "(''checkpoint_required'', JBool (rp_checkpoint_required p))"]
  have f6: "rp_checkpoint_required p = rp_checkpoint_required q" by (simp add: comp_def inj_map_eq)
  from same [of "(''allow_partial_checkpoint'', JBool (rp_allow_partial_checkpoint p))"]
  have f7: "rp_allow_partial_checkpoint p = rp_allow_partial_checkpoint q" by (simp add: comp_def inj_map_eq)
  from same [of "(''environment_compatibility'', JStr (compatibility_wire (rp_environment_compatibility p)))"]
  have f8: "rp_environment_compatibility p = rp_environment_compatibility q" by (simp add: comp_def inj_map_eq)
  from same [of "(''broker_uncertainty_policy'', JStr (uncertainty_wire (rp_broker_uncertainty_policy p)))"]
  have f9: "rp_broker_uncertainty_policy p = rp_broker_uncertainty_policy q" by (simp add: comp_def inj_map_eq)
  from same [of "(''effect_reconcile_required'', JBool (rp_effect_reconcile_required p))"]
  have f10: "rp_effect_reconcile_required p = rp_effect_reconcile_required q" by (simp add: comp_def inj_map_eq)
  from f0 f1 f2 f3 f4 f5 f6 f7 f8 f9 f10 show "p = q" by (cases p; cases q) simp
qed

section \<open>Usage\<close>

lemma usage_plus_Inr_iff:
  "usage_plus a b = Inr c \<longleftrightarrow>
   c = \<lparr>us_model_requests = us_model_requests a + us_model_requests b,
     us_input_tokens = us_input_tokens a + us_input_tokens b,
     us_output_tokens = us_output_tokens a + us_output_tokens b,
     us_child_operations = us_child_operations a + us_child_operations b,
     us_artifact_bytes = us_artifact_bytes a + us_artifact_bytes b\<rparr> \<and>
   validate_broker_usage c = Inr c"
  by (auto simp: usage_plus_def validate_broker_usage_def res_simps)

lemma usage_total_Inr:
  "usage_total acc us = Inr c \<Longrightarrow>
   us_model_requests c = us_model_requests acc + sum_list (map us_model_requests us) \<and>
   us_input_tokens c = us_input_tokens acc + sum_list (map us_input_tokens us) \<and>
   us_output_tokens c = us_output_tokens acc + sum_list (map us_output_tokens us) \<and>
   us_child_operations c = us_child_operations acc + sum_list (map us_child_operations us) \<and>
   us_artifact_bytes c = us_artifact_bytes acc + sum_list (map us_artifact_bytes us)"
  by (induction us arbitrary: acc) (auto simp: res_simps usage_plus_Inr_iff)

definition sample_profile :: model_route_profile where
  "sample_profile = \<lparr>mp_profile_id = ''fast'', mp_provider_driver = ''driver'', mp_provider = ''provider'',
     mp_model = ''model'', mp_reasoning_effort = None, mp_max_output_tokens = 100,
     mp_fallback_policy = FB_none, mp_cache_policy = CP_disabled\<rparr>"

section \<open>Properties\<close>

text \<open>C40: \<open>_json_value\<close> normalises: whatever it accepts becomes a JSON value whose objects have
  distinct string keys, a normalised value read back in is returned unchanged, and whatever it
  refuses (a float, a non-string key, an unknown type) is refused with a type error.\<close>

theorem json_value_normalises:
  "case json_value v of Inl e \<Rightarrow> (\<exists>m. e = TypeError m) | Inr j \<Rightarrow> keys_ok j \<and> json_value (py_of j) = Inr j"
  using json_value_error(1) json_value_keys_ok(1) json_value_py_of by (auto split: sum.split)

text \<open>C39: canonical bytes determine the value: two accepted values have the same canonical bytes
  exactly when their normal forms differ at most in the order of object keys.\<close>

theorem canonical_bytes_determine_value:
  assumes "canonical_json_bytes v = Inr bs" "canonical_json_bytes w = Inr cs"
  shows "\<exists>i j. json_value v = Inr i \<and> json_value w = Inr j \<and> (bs = cs \<longleftrightarrow> canon i = canon j)"
proof -
  from assms obtain i j where "json_value v = Inr i" "json_value w = Inr j"
    "bs = utf8 (canonical_json_text i)" "cs = utf8 (canonical_json_text j)"
    by (auto simp: canonical_json_bytes_def res_simps)
  then show ?thesis using utf8_inject by (auto simp flip: canonical_json_text_inject)
qed

theorem canonical_bytes_determine_value_witness:
  "utf8 ''{}'' \<noteq> utf8 ''[]''"
proof -
  have "canonical_json_bytes (PyMap []) = Inr (utf8 ''{}'')" "canonical_json_bytes (PySeq []) = Inr (utf8 ''[]'')"
    by (simp_all add: canonical_json_bytes_def canonical_json_text_def)
  from canonical_bytes_determine_value [OF this] show ?thesis by auto
qed

text \<open>The order in which a dictionary was filled never shows: a permutation of its entries has
  the same \<open>canonical_sha256\<close>, which is a well-formed digest.\<close>

theorem dictionary_order_is_irrelevant:
  assumes "canonical_sha256 (PyMap kvs) = Inr d" "mset kvs' = mset kvs" "distinct (map fst kvs)"
  shows "canonical_sha256 (PyMap kvs') = Inr d \<and> is_digest d"
proof -
  from assms(1) obtain j where j: "json_value (PyMap kvs) = Inr j" "d = json_digest j"
    by (auto simp: canonical_sha256_def canonical_json_bytes_def res_simps json_digest_def simp del: json_value.simps)
  obtain ws ws' where ws: "j = JObj ws" "json_value (PyMap kvs') = Inr (JObj ws')" "mset ws' = mset ws"
    "distinct (map fst ws)" by (rule json_map_perm [OF j(1) assms(2,3)])
  then have "canon (JObj ws) = canon (JObj ws')" by (intro canon_obj_perm) simp_all
  then have "json_digest (JObj ws') = d" using json_digest_canon j(2) ws(1) by simp
  then have "canonical_sha256 (PyMap kvs') = Inr d" using ws(2)
    by (auto simp: canonical_sha256_def canonical_json_bytes_def json_digest_def simp del: json_value.simps)
  then show ?thesis using j(2) by simp
qed

theorem dictionary_order_is_irrelevant_witness:
  "canonical_sha256 (PyMap [(PyStr ''b'', PyInt 2), (PyStr ''a'', PyInt 1)]) =
   canonical_sha256 (PyMap [(PyStr ''a'', PyInt 1), (PyStr ''b'', PyInt 2)])"
proof -
  obtain d where d: "canonical_sha256 (PyMap [(PyStr ''a'', PyInt 1), (PyStr ''b'', PyInt 2)]) = Inr d"
    by (simp add: canonical_sha256_def canonical_json_bytes_def)
  from dictionary_order_is_irrelevant [OF d, of "[(PyStr ''b'', PyInt 2), (PyStr ''a'', PyInt 1)]"] d
  show ?thesis by simp
qed

text \<open>A policy digest identifies its policy: two recovery policy bindings that validate with the
  same digest carry the same policy, unless their canonical texts are a SHA-256 collision.\<close>

theorem policy_digest_identifies_policy:
  assumes "validate_policy_binding b = Inr b" "validate_policy_binding c = Inr c"
    and "pb_policy_digest b = pb_policy_digest c"
  shows "pb_policy b = pb_policy c \<or>
    collides (canonical_json_text (policy_json (pb_policy b))) (canonical_json_text (policy_json (pb_policy c)))"
proof -
  have "pb_policy_digest x = json_digest (policy_binding_payload x)" if "validate_policy_binding x = Inr x" for x
    using that by (auto simp: validate_policy_binding_def res_simps policy_binding_payload_def)
  then have "canon (policy_json (pb_policy b)) = canon (policy_json (pb_policy c)) \<or>
    collides (canonical_json_text (policy_json (pb_policy b))) (canonical_json_text (policy_json (pb_policy c)))"
    using policy_digest.same_digest_same_payload [of b c] assms by (simp add: policy_binding_payload_def)
  then show ?thesis using policy_json_inject by blast
qed

theorem policy_digest_identifies_policy_witness:
  "pb_policy sample_binding = pb_policy (sample_binding\<lparr>pb_created_at := 7\<rparr>) \<or>
    collides (canonical_json_text (policy_json sample_policy)) (canonical_json_text (policy_json sample_policy))"
proof -
  have "validate_policy_binding (sample_binding\<lparr>pb_created_at := t\<rparr>) = Inr (sample_binding\<lparr>pb_created_at := t\<rparr>)"
    if "t = 7 \<or> t = 1050" for t
    using that by (auto simp: sample_binding_def validate_policy_binding_def validated_def positive_counter_def
      max_i64_def continuity_text_def)
  from policy_digest_identifies_policy [OF this [of 1050] this [of 7]] show ?thesis by simp
qed

text \<open>A route binding names exactly one profile of its catalog: issuing a binding from an issued
  catalog succeeds only for a profile the catalog was issued from, and the binding carries
  that profile field by field, its digest and the digest of the catalog's content.\<close>

theorem route_binding_is_exact:
  assumes "catalog_issue ps = Inr c" "binding_issue c p = Inr b"
  shows "p \<in> set ps \<and> binding_profile b = p \<and> mb_profile_digest b = profile_digest p \<and>
    mb_catalog_digest b = json_digest (catalog_payload c) \<and>
    (\<forall>q \<in> set ps. mp_profile_id q = mp_profile_id p \<longrightarrow> q = p)"
proof -
  note c = catalog_issue_Inr [OF assms(1)] and b = binding_issue_Inr [OF assms(2)]
  then have same: "set (mc_profiles c) = set ps" by (metis mset_eq_setD)
  have "distinct (map mp_profile_id (mc_profiles c))"
    using c by (simp add: sorted_unique_strict strict_sorted_iff)
  then show ?thesis using b c same by (auto simp: distinct_map inj_on_def)
qed

theorem route_binding_is_exact_witness:
  "\<exists>c b. catalog_issue [sample_profile] = Inr c \<and> binding_issue c sample_profile = Inr b \<and>
     binding_profile b = sample_profile"
proof -
  let ?c = "\<lparr>mc_profiles = [sample_profile], mc_catalog_digest = json_digest (JObj
    [(''schema_version'', JStr ''aar.model-route.v1''), (''profiles'', JArr [profile_payload sample_profile])])\<rparr>"
  have c: "catalog_issue [sample_profile] = Inr ?c"
    by (simp add: catalog_issue_def validate_model_route_catalog_def validated_def catalog_payload_def
      sorted_unique_def)
  obtain b where b: "binding_issue ?c sample_profile = Inr b"
    by (simp add: binding_issue_def validate_model_route_binding_def validate_model_route_profile_def
      binding_profile_def validated_def)
      (simp add: sample_profile_def is_alnum_def is_lower_alnum_def char_in_def positive_counter_def max_i64_def
        opt_ok_def profile_digest_def profile_payload_def)
  from route_binding_is_exact [OF c b] c b show ?thesis by blast
qed

definition sample_route :: model_route_binding where
  "sample_route = \<lparr>mb_profile_id = ''fast'', mb_catalog_digest = ''c'', mb_profile_digest = ''q'',
     mb_provider_driver = ''d'', mb_provider = ''p'', mb_model = ''m'', mb_reasoning_effort = None,
     mb_max_output_tokens = 100, mb_fallback_policy = FB_none, mb_cache_policy = CP_disabled\<rparr>"

text \<open>A route receipt proves there was no drift: a receipt is issued exactly when its scalar fields
  are well formed, the effective route is the bound one in every part, and no fallback was
  taken under a profile that forbids it.\<close>

theorem route_receipt_proves_no_drift:
  "(\<exists>r. route_receipt_issue b e fr rid chain lk = Inr r) \<longleftrightarrow>
     model_route_value fr \<and> opt_ok model_route_value rid \<and>
     e = \<lparr>em_provider_driver = mb_provider_driver b, em_provider = mb_provider b, em_model = mb_model b,
       em_reasoning_effort = mb_reasoning_effort b\<rparr> \<and>
     (mb_fallback_policy b = FB_none \<longrightarrow> chain = [])"
  by (cases e) (auto simp: route_receipt_issue_def Let_def validate_route_receipt_Inr_iff receipt_payload_def)

theorem route_receipt_proves_no_drift_witness:
  "(\<exists>r. route_receipt_issue sample_route \<lparr>em_provider_driver = ''d'', em_provider = ''p'', em_model = ''m'',
      em_reasoning_effort = None\<rparr> ''stop'' None [] False = Inr r) \<and>
   (\<nexists>r. route_receipt_issue sample_route \<lparr>em_provider_driver = ''d'', em_provider = ''p'', em_model = ''other'',
      em_reasoning_effort = None\<rparr> ''stop'' None [] False = Inr r)"
  unfolding route_receipt_proves_no_drift by (simp add: sample_route_def opt_ok_def is_alnum_def is_lower_alnum_def char_in_def)

text \<open>Usage never wraps or loses a call: adding up the usage of any list of brokered calls either
  fails, or gives in every column the exact integer sum and that sum is within the counter
  range.\<close>

theorem usage_adds_up:
  assumes "usage_total usage_zero us = Inr c" "us \<noteq> []"
  shows "us_model_requests c = sum_list (map us_model_requests us) \<and>
    us_input_tokens c = sum_list (map us_input_tokens us) \<and>
    us_output_tokens c = sum_list (map us_output_tokens us) \<and>
    us_child_operations c = sum_list (map us_child_operations us) \<and>
    us_artifact_bytes c = sum_list (map us_artifact_bytes us) \<and> validate_broker_usage c = Inr c"
proof -
  have "usage_total acc xs = Inr c \<Longrightarrow> xs \<noteq> [] \<Longrightarrow> validate_broker_usage c = Inr c" for acc xs
    by (induction xs arbitrary: acc) (auto simp: res_simps usage_plus_Inr_iff, metis usage_total.simps(1) sum.inject(2))
  then show ?thesis using usage_total_Inr [OF assms(1)] assms by (auto simp: usage_zero_def)
qed

theorem usage_adds_up_witness:
  "\<exists>c. usage_total usage_zero [usage_zero\<lparr>us_input_tokens := 3\<rparr>, usage_zero\<lparr>us_input_tokens := 4\<rparr>] = Inr c \<and>
     us_input_tokens c = 7"
proof -
  obtain c where c: "usage_total usage_zero [usage_zero\<lparr>us_input_tokens := 3\<rparr>, usage_zero\<lparr>us_input_tokens := 4\<rparr>] = Inr c"
    by (simp add: usage_plus_def validate_broker_usage_def validated_def usage_zero_def budget_counter_def max_i64_def)
  from usage_adds_up [OF this] c show ?thesis by (auto simp: usage_zero_def)
qed

end
