(* ===== verification/Supervisor_Properties.thy ===== *)
theory Supervisor_Properties
  imports Recovery_Properties
begin

text \<open>
  Properties of the supervisor and worker tables: along every run of the registry a
  supervisor row moves only along the edges of its lifecycle and a worker row never goes
  back, and the startup reconciliation leaves at most the current generation active.
\<close>

section \<open>The other methods leave both tables alone\<close>

definition owners_same :: "reg \<Rightarrow> reg \<Rightarrow> bool" where
  "owners_same r r' \<longleftrightarrow> rg_supervisor_runs r' = rg_supervisor_runs r \<and> rg_workers r' = rg_workers r"

lemma owners_same_refl [simp]: "owners_same r r"
  by (simp add: owners_same_def)

lemma owners_same_trans: "owners_same r s \<Longrightarrow> owners_same s t \<Longrightarrow> owners_same r t"
  by (simp add: owners_same_def)

lemma insert_event_owners [simp]:
  "rg_supervisor_runs (insert_event i st ce rv now note no k pl r) = rg_supervisor_runs r"
  "rg_workers (insert_event i st ce rv now note no k pl r) = rg_workers r"
  by (simp_all add: insert_event_def Let_def)

lemma set_owners [simp]:
  "rg_supervisor_runs (set_op i p f r) = rg_supervisor_runs r" "rg_workers (set_op i p f r) = rg_workers r"
  "rg_supervisor_runs (set_dispatch i pd g r) = rg_supervisor_runs r" "rg_workers (set_dispatch i pd g r) = rg_workers r"
  "rg_supervisor_runs (set_attempt i n q h r) = rg_supervisor_runs r" "rg_workers (set_attempt i n q h r) = rg_workers r"
  "rg_supervisor_runs (set_lease i n s k r) = rg_supervisor_runs r" "rg_workers (set_lease i n s k r) = rg_workers r"
  by (simp_all add: set_defs)

lemma foldl_owners: "(\<And>x s. owners_same s (f s x)) \<Longrightarrow> owners_same r (foldl f r xs)"
  by (induction xs arbitrary: r) (auto intro: owners_same_trans)

lemma start_runtime_owners: "start_runtime now r = (g, r') \<Longrightarrow> owners_same r r'"
proof -
  assume "start_runtime now r = (g, r')"
  then have r': "r' = foldl (fence_running g now) (foldl (rebind_accepted g now) (r\<lparr>rg_generation := g\<rparr>)
      (filter (\<lambda>x. or_state x = ACCEPTED) (rg_operations r))) (filter (\<lambda>x. or_state x = RUNNING) (rg_operations r))"
    by (auto simp: start_runtime_def Let_def)
  have "owners_same s (rebind_accepted g now s x)" "owners_same s (fence_running g now s x)" for s x
    by (simp_all add: owners_same_def rebind_accepted_def fence_running_def Let_def split: option.splits)
  then have "owners_same (r\<lparr>rg_generation := g\<rparr>) r'" unfolding r'
    by (meson foldl_owners owners_same_trans)
  then show ?thesis by (simp add: owners_same_def)
qed

lemma claim_candidate_owners: "claim_candidate c d x r = Inr (k, r') \<Longrightarrow> owners_same r r'"
  by (auto simp: claim_candidate_def successor_started_def claim_writes_def owners_same_def res_simps Let_def
    split: if_splits option.splits)

lemma claim_loop_owners: "claim_loop c cs r = Inr (k, r') \<Longrightarrow> owners_same r r'"
proof (induction c cs r rule: claim_loop.induct)
  case (2 c d x rest r)
  have "owners_same r (set_dispatch i p f r)" "owners_same r (expire_queued y t r)" for i p f y t r
    by (simp_all add: owners_same_def expire_queued_def Let_def)
  with 2 show ?case
    by (auto simp: res_simps owners_same_def split: if_splits
      dest: claim_candidate_owners [unfolded owners_same_def])
qed simp

lemma fence_expired_loop_owners: "fence_expired_loop now cs r = Inr (recs, r') \<Longrightarrow> owners_same r r'"
proof (induction now cs r arbitrary: recs rule: fence_expired_loop.induct)
  case (2 now x n l rest r)
  have "owners_same r (fence_expired_one now x n l r)"
    by (simp add: owners_same_def fence_expired_one_def Let_def)
  with 2 show ?case by (auto simp: res_simps Let_def intro: owners_same_trans)
qed simp

lemma requeue_owners: "requeue_indeterminate i g dt rc ind policy bd now r = Inr (rec, r') \<Longrightarrow> owners_same r r'"
proof -
  assume "requeue_indeterminate i g dt rc ind policy bd now r = Inr (rec, r')"
  from requeue_Inr [OF this] obtain q row cd bdg r2 where
    c: "requeue_continuation q bd (prior_attempt i r) row (close_prior i rc now r) = Inr ((cd, bdg), r2)"
    and m: "requeue_commit q row cd bdg r2 = Inr r'" by blast
  have "owners_same (close_prior i rc now r) r2" using requeue_continuation_frame [OF c] by (auto simp: owners_same_def)
  moreover have "owners_same r (close_prior i rc now r)" using close_prior_frame [of i rc now r] by (auto simp: owners_same_def)
  moreover have "owners_same r2 r'" using m
    by (auto simp: requeue_commit_def requeue_dispatch_def log_decision_def with_decision_def owners_same_def
      res_simps Let_def split: if_splits option.splits)
  ultimately show ?thesis by (blast intro: owners_same_trans)
qed

lemma transition_owners: "transition i t g now r = Inr (rec, r') \<Longrightarrow> owners_same r r'"
  by (auto simp: transition_def owners_same_def res_simps Let_def split: if_splits)

lemma lifecycle_owners:
  "begin_op i g now r = Inr (rec, r') \<Longrightarrow> owners_same r r'"
  "succeed i j b g now r = Inr (rec, r') \<Longrightarrow> owners_same r r'"
  "fail_op i fl b oj g now r = Inr (rec, r') \<Longrightarrow> owners_same r r'"
  "cancel i oj g now r = Inr (rec, r') \<Longrightarrow> owners_same r r'"
  "time_out i oj g now r = Inr (rec, r') \<Longrightarrow> owners_same r r'"
  "mark_indeterminate i note g now r = Inr (rec, r') \<Longrightarrow> owners_same r r'"
  by (simp_all add: lifecycle_methods transition_owners)

lemma claim_next_owners: "claim_next c r = Inr (res, r') \<Longrightarrow> owners_same r r'"
  by (auto simp: claim_next_def intro: claim_loop_owners split: if_split_asm)

lemma fence_expired_owners: "fence_expired_attempts g now r = Inr (recs, r') \<Longrightarrow> owners_same r r'"
  by (auto simp: fence_expired_attempts_def intro: fence_expired_loop_owners split: if_split_asm)

lemma writes_owners [simp]:
  "rg_supervisor_runs (outcome_writes f st j fl note now row r) = rg_supervisor_runs r"
  "rg_workers (outcome_writes f st j fl note now row r) = rg_workers r"
  "rg_supervisor_runs (receipt_writes i st k rc ind now row no r) = rg_supervisor_runs r"
  "rg_workers (receipt_writes i st k rc ind now row no r) = rg_workers r"
  "rg_supervisor_runs (finish_writes f st now r) = rg_supervisor_runs r"
  "rg_workers (finish_writes f st now r) = rg_workers r"
  "rg_supervisor_runs (publish_writes i mf now row r) = rg_supervisor_runs r"
  "rg_workers (publish_writes i mf now row r) = rg_workers r"
  by (simp_all add: outcome_writes_def receipt_writes_def finish_writes_def
    publish_writes_def Let_def split: option.splits)

lemmas method_defs = accept_def run_admission_def bind_recovery_policy_def request_dispatch_def heartbeat_def
  request_cancel_def cancel_queued_dispatch_def transition_claimed_def bind_checkpoint_def
  finish_attempt_def recover_terminal_from_receipt_def 
  succeed_workspace_checkpoint_def record_workspace_checkpoint_def select_workspace_checkpoint_def
  mark_workspace_checkpoint_restored_def

lemma simple_owners:
  "accept e pl None now r = Inr (res, r') \<Longrightarrow> owners_same r r'"
  "bind_recovery_policy i k p ed now r = Inr (pb, r') \<Longrightarrow> owners_same r r'"
  "request_dispatch i k now r = Inr (d, r') \<Longrightarrow> owners_same r r'"
  "heartbeat f dur fn now r = Inr (m, r') \<Longrightarrow> owners_same r r'"
  "request_cancel i who rc now r = Inr (ct, r') \<Longrightarrow> owners_same r r'"
  "cancel_queued_dispatch i g oj now r = Inr (res, r') \<Longrightarrow> owners_same r r'"
  "transition_claimed f st oj fl note fn now r = Inr (rec, r') \<Longrightarrow> owners_same r r'"
  "bind_checkpoint ref f ck ed fn now r = Inr (b, r') \<Longrightarrow> owners_same r r'"
  "finish_attempt f fn now r = Inr (rec, r') \<Longrightarrow> owners_same r r'"
  "recover_terminal_from_receipt i g st j rc ind now r = Inr (rec, r') \<Longrightarrow> owners_same r r'"
  "succeed_workspace_checkpoint i mf g now r = Inr (rec, r') \<Longrightarrow> owners_same r r'"
  "record_workspace_checkpoint mf now r = Inr (mf', r') \<Longrightarrow> owners_same r r'"
  "select_workspace_checkpoint s g now r = Inr (s', r') \<Longrightarrow> owners_same r r'"
  "mark_workspace_checkpoint_restored s h g now r = Inr (h', r') \<Longrightarrow> owners_same r r'"
  by (auto simp: method_defs owners_same_def res_simps Let_def
    split: if_split_asm option.split_asm prod.split_asm)

section \<open>How the two tables evolve\<close>

definition supervisor_edge :: "supervisor_state \<Rightarrow> supervisor_state \<Rightarrow> bool" where
  "supervisor_edge a b \<longleftrightarrow> b \<in> supervisor_allowed a"

definition supervisor_later :: "supervisor_row \<Rightarrow> supervisor_row \<Rightarrow> bool" where
  "supervisor_later s t \<longleftrightarrow> su_runtime_generation t = su_runtime_generation s \<and> su_pid t = su_pid s \<and>
     su_process_start_identity t = su_process_start_identity s \<and>
     supervisor_edge\<^sup>*\<^sup>* (su_state s) (su_state t)"

definition worker_later :: "worker_row \<Rightarrow> worker_row \<Rightarrow> bool" where
  "worker_later x y \<longleftrightarrow> wr_worker_id y = wr_worker_id x \<and> wr_runtime_generation y = wr_runtime_generation x \<and>
     wr_process_start_identity y = wr_process_start_identity x \<and>
     wr_last_event_sequence x \<le> wr_last_event_sequence y \<and> (\<not> worker_active (wr_state x) \<longrightarrow> y = x)"

definition owners_ok :: "reg \<Rightarrow> bool" where
  "owners_ok r \<longleftrightarrow> distinct (map su_runtime_generation (rg_supervisor_runs r)) \<and>
     distinct (map wr_worker_id (rg_workers r)) \<and>
     (\<forall>s \<in> set (rg_supervisor_runs r). su_runtime_generation s \<le> rg_generation r)"

definition owners_evolve :: "reg \<Rightarrow> reg \<Rightarrow> bool" where
  "owners_evolve r r' \<longleftrightarrow>
     (\<forall>s \<in> set (rg_supervisor_runs r). \<exists>t \<in> set (rg_supervisor_runs r'). supervisor_later s t) \<and>
     (\<forall>x \<in> set (rg_workers r). \<exists>y \<in> set (rg_workers r'). worker_later x y)"

lemma supervisor_later_trans: "supervisor_later s t \<Longrightarrow> supervisor_later t u \<Longrightarrow> supervisor_later s u"
  by (auto simp: supervisor_later_def)

lemma worker_later_trans: "worker_later x y \<Longrightarrow> worker_later y z \<Longrightarrow> worker_later x z"
  by (auto simp: worker_later_def)

lemma later_refls [simp]: "supervisor_later s s" "worker_later x x"
  by (simp_all add: supervisor_later_def worker_later_def)

lemma owners_evolve_trans: "owners_evolve r s \<Longrightarrow> owners_evolve s t \<Longrightarrow> owners_evolve r t"
  unfolding owners_evolve_def by (meson supervisor_later_trans worker_later_trans)

lemma owners_same_evolve: "owners_same r r' \<Longrightarrow> owners_evolve r r'"
  by (auto simp: owners_same_def owners_evolve_def intro: later_refls)

lemma rows_updated:
  assumes "x \<in> set t" "p x \<Longrightarrow> R x (f x)" "R x x"
  shows "\<exists>y \<in> set (update_rows p f t). R x y"
proof -
  have "(if p x then f x else x) \<in> set (update_rows p f t)" using assms(1) by (simp add: update_rows_def)
  moreover have "R x (if p x then f x else x)" using assms(2,3) by simp
  ultimately show ?thesis by blast
qed

lemma key_fetched:
  "distinct (map k t) \<Longrightarrow> fetchone (\<lambda>x. k x = v) t = Some y \<Longrightarrow> x \<in> set t \<Longrightarrow> k x = v \<Longrightarrow> x = y"
  by (drule fetchone_SomeD) (auto simp: distinct_map inj_on_def)

lemma transition_supervisor_Inr:
  assumes "transition_supervisor_run g pid ident t reason now r = Inr (ms, r')"
  obtains st prior dr sp where "find_supervisor_run g r = Inr prior" "st \<in> supervisor_allowed (su_state prior)"
    "r' = r\<lparr>rg_supervisor_runs := update_rows (\<lambda>s. su_runtime_generation s = g \<and> su_pid s = pid \<and>
      su_process_start_identity s = ident) (\<lambda>s. s\<lparr>su_state := st, su_draining_at := dr, su_stopped_at := sp,
      su_terminal_reason := reason\<rparr>) (rg_supervisor_runs r)\<rparr>"
  using assms unfolding transition_supervisor_run_def and_then_Inr_iff Let_def
  by (elim exE conjE) (simp only: if_Inl_Inr_iff and_then_Inr_iff sum.inject prod.inject not_not, elim exE conjE,
      rule that, assumption, assumption, rule sym, assumption)

lemma supervisor_methods_evolve:
  assumes "owners_ok r"
  shows "record_supervisor_ready su now r = Inr (ms, r') \<Longrightarrow> owners_evolve r r'"
    "transition_supervisor_run g pid ident t reason now r = Inr (ms, r') \<Longrightarrow> owners_evolve r r'"
    "reconcile_predecessor_supervisor_runs g now r = Inr (n, r') \<Longrightarrow> owners_evolve r r'"
proof -
  show "record_supervisor_ready su now r = Inr (ms, r') \<Longrightarrow> owners_evolve r r'"
    by (auto simp: record_supervisor_ready_def owners_evolve_def res_simps Let_def insert_row_Inr_iff
      intro: later_refls split: if_split_asm)
  have "supervisor_edge\<^sup>*\<^sup>* (su_state s) S_reconcile_required" if "supervisor_active (su_state s)" for s
    using that by (auto simp: supervisor_edge_def supervisor_active_def intro!: r_into_rtranclp)
  then have down: "supervisor_later s (s\<lparr>su_state := S_reconcile_required, su_stopped_at := x, su_terminal_reason := y\<rparr>)"
    if "supervisor_active (su_state s)" for s x y using that by (simp add: supervisor_later_def)
  show "owners_evolve r r'" if "reconcile_predecessor_supervisor_runs g now r = Inr (n, r')"
  proof -
    from that have r': "rg_workers r' = rg_workers r" "rg_supervisor_runs r' = update_rows
      (\<lambda>s. su_runtime_generation s < g \<and> supervisor_active (su_state s))
      (\<lambda>s. s\<lparr>su_state := S_reconcile_required, su_stopped_at := Some now,
        su_terminal_reason := Some ''predecessor_process_absent_on_startup''\<rparr>) (rg_supervisor_runs r)"
      by (auto simp: reconcile_predecessor_supervisor_runs_def Let_def split: if_split_asm)
    show ?thesis unfolding owners_evolve_def r'
      by (intro conjI ballI rows_updated) (auto intro: down later_refls)
  qed
  assume "transition_supervisor_run g pid ident t reason now r = Inr (ms, r')"
  then obtain st prior dr sp where prior: "find_supervisor_run g r = Inr prior"
    "st \<in> supervisor_allowed (su_state prior)" and r': "r' = r\<lparr>rg_supervisor_runs := update_rows
      (\<lambda>s. su_runtime_generation s = g \<and> su_pid s = pid \<and> su_process_start_identity s = ident)
      (\<lambda>s. s\<lparr>su_state := st, su_draining_at := dr, su_stopped_at := sp, su_terminal_reason := reason\<rparr>)
      (rg_supervisor_runs r)\<rparr>" by (rule transition_supervisor_Inr)
  have "supervisor_later s (s\<lparr>su_state := st, su_draining_at := dr, su_stopped_at := sp,
      su_terminal_reason := reason\<rparr>)" if "s \<in> set (rg_supervisor_runs r)" "su_runtime_generation s = g" for s
  proof -
    have "s = prior" using assms that prior(1)
      by (auto simp: owners_ok_def find_supervisor_run_def split: option.splits intro: key_fetched)
    with prior(2) show ?thesis by (auto simp: supervisor_later_def supervisor_edge_def)
  qed
  then have "\<forall>s \<in> set (rg_supervisor_runs r). \<exists>t \<in> set (rg_supervisor_runs r'). supervisor_later s t"
    unfolding r' by (intro ballI) (simp, rule rows_updated, auto)
  then show "owners_evolve r r'" by (auto simp: r' owners_evolve_def intro: later_refls)
qed

lemma worker_methods_evolve:
  assumes "owners_ok r"
  shows "register_worker_binding w now r = Inr (mw, r') \<Longrightarrow> owners_evolve r r'"
    "heartbeat_worker_binding wi g ident t op sq now r = Inr (mw, r') \<Longrightarrow> owners_evolve r r'"
    "finish_worker_binding wi g ident t rcpt now now2 r = Inr (mw, r') \<Longrightarrow> owners_evolve r r'"
proof -
  show "register_worker_binding w now r = Inr (mw, r') \<Longrightarrow> owners_evolve r r'"
    by (auto simp: register_worker_binding_def owners_evolve_def res_simps Let_def insert_row_Inr_iff
      intro: later_refls split: if_split_asm)
  have one: "x = b" if "find_worker wi r = Inr b" "x \<in> set (rg_workers r)" "wr_worker_id x = wi" for x b
    using assms that by (auto simp: owners_ok_def find_worker_def split: option.splits intro: key_fetched)
  have up: "owners_evolve r (r\<lparr>rg_workers := update_rows (\<lambda>x. wr_worker_id x = wi \<and> wr_runtime_generation x = g \<and>
      wr_process_start_identity x = ident) f (rg_workers r)\<rparr>)"
    if "find_worker wi r = Inr b" "worker_later b (f b)" for b f
    using that one [OF that(1)] by (auto simp: owners_evolve_def intro!: rows_updated intro: later_refls)
  show "owners_evolve r r'" if h: "heartbeat_worker_binding wi g ident t op sq now r = Inr (mw, r')"
  proof -
    from h obtain b st k where b: "find_worker wi r = Inr b" "worker_active (wr_state b)"
      "wr_last_event_sequence b \<le> k" and
      r': "r' = r\<lparr>rg_workers := update_rows (\<lambda>x. wr_worker_id x = wi \<and> wr_runtime_generation x = g \<and>
        wr_process_start_identity x = ident) (\<lambda>x. x\<lparr>wr_state := st, wr_operation := op,
        wr_heartbeat_at := now, wr_last_event_sequence := k\<rparr>) (rg_workers r)\<rparr>"
      by (auto simp: heartbeat_worker_binding_def res_simps Let_def worker_fenced_def linorder_not_less
        split: if_split_asm)
    show ?thesis unfolding r' by (rule up [OF b(1)]) (use b in \<open>simp add: worker_later_def\<close>)
  qed
  show "owners_evolve r r'" if h: "finish_worker_binding wi g ident t rcpt now now2 r = Inr (mw, r')"
  proof -
    from h obtain b st where b: "find_worker wi r = Inr b" "worker_active (wr_state b)" and
      r': "r' = r\<lparr>rg_workers := update_rows (\<lambda>x. wr_worker_id x = wi \<and> wr_runtime_generation x = g \<and>
        wr_process_start_identity x = ident) (\<lambda>x. x\<lparr>wr_state := st, wr_operation := None,
        wr_heartbeat_at := now, wr_ended_at := Some now2, wr_termination_receipt := Some rcpt\<rparr>) (rg_workers r)\<rparr>"
      by (auto simp: finish_worker_binding_def res_simps Let_def worker_fenced_def split: if_split_asm)
    show ?thesis unfolding r' by (rule up [OF b(1)]) (use b in \<open>simp add: worker_later_def\<close>)
  qed
qed

lemma owners_ok_same:
  "owners_same r r' \<Longrightarrow> rg_generation r \<le> rg_generation r' \<Longrightarrow> owners_ok r \<Longrightarrow> owners_ok r'"
  unfolding owners_ok_def owners_same_def by fastforce

lemma owners_ok_init: "owners_ok reg_init"
  by (simp add: owners_ok_def reg_init_def)

lemma owner_keys:
  "record_supervisor_ready su now r = Inr (ms, r') \<Longrightarrow>
   \<exists>s. rg_supervisor_runs r' = rg_supervisor_runs r @ [s] \<and> su_runtime_generation s = rg_generation r \<and>
     su_runtime_generation s \<notin> su_runtime_generation ` set (rg_supervisor_runs r) \<and> rg_workers r' = rg_workers r"
  "transition_supervisor_run g pid ident t reason now r = Inr (ms, r') \<Longrightarrow>
   map su_runtime_generation (rg_supervisor_runs r') = map su_runtime_generation (rg_supervisor_runs r) \<and>
   rg_workers r' = rg_workers r"
  "reconcile_predecessor_supervisor_runs g now r = Inr (n, r') \<Longrightarrow>
   map su_runtime_generation (rg_supervisor_runs r') = map su_runtime_generation (rg_supervisor_runs r) \<and>
   rg_workers r' = rg_workers r"
  "register_worker_binding w now r = Inr (mw, r') \<Longrightarrow>
   \<exists>x. rg_workers r' = rg_workers r @ [x] \<and> wr_worker_id x \<notin> wr_worker_id ` set (rg_workers r) \<and>
     rg_supervisor_runs r' = rg_supervisor_runs r"
  "heartbeat_worker_binding wi g ident t op sq now r = Inr (mw, r') \<Longrightarrow>
   map wr_worker_id (rg_workers r') = map wr_worker_id (rg_workers r) \<and> rg_supervisor_runs r' = rg_supervisor_runs r"
  "finish_worker_binding wi g ident t rcpt now now2 r = Inr (mw, r') \<Longrightarrow>
   map wr_worker_id (rg_workers r') = map wr_worker_id (rg_workers r) \<and> rg_supervisor_runs r' = rg_supervisor_runs r"
  subgoal by (auto simp: record_supervisor_ready_def res_simps Let_def insert_row_Inr_iff split: if_split_asm)
  subgoal by (erule transition_supervisor_Inr) (simp add: map_update_rows)
  subgoal by (auto simp: reconcile_predecessor_supervisor_runs_def Let_def map_update_rows split: if_split_asm)
  subgoal by (auto simp: register_worker_binding_def res_simps Let_def insert_row_Inr_iff split: if_split_asm)
  subgoal by (auto simp: heartbeat_worker_binding_def res_simps Let_def map_update_rows split: if_split_asm)
  subgoal by (auto simp: finish_worker_binding_def res_simps Let_def map_update_rows split: if_split_asm)
  done

lemma owners_ok_keys:
  "owners_ok r \<Longrightarrow> rg_generation r' = rg_generation r \<Longrightarrow>
   map su_runtime_generation (rg_supervisor_runs r') = map su_runtime_generation (rg_supervisor_runs r) \<Longrightarrow>
   map wr_worker_id (rg_workers r') = map wr_worker_id (rg_workers r) \<Longrightarrow> owners_ok r'"
proof -
  have keys: "owners_ok q \<longleftrightarrow> distinct (map su_runtime_generation (rg_supervisor_runs q)) \<and>
      distinct (map wr_worker_id (rg_workers q)) \<and>
      (\<forall>g \<in> set (map su_runtime_generation (rg_supervisor_runs q)). g \<le> rg_generation q)" for q
    by (simp add: owners_ok_def)
  assume "owners_ok r" "rg_generation r' = rg_generation r"
    "map su_runtime_generation (rg_supervisor_runs r') = map su_runtime_generation (rg_supervisor_runs r)"
    "map wr_worker_id (rg_workers r') = map wr_worker_id (rg_workers r)"
  then show ?thesis by (simp only: keys simp_thms) blast
qed

lemma stopped_final: "supervisor_edge\<^sup>*\<^sup>* a b \<Longrightarrow> a = S_stopped \<Longrightarrow> b = S_stopped"
  by (induction rule: rtranclp_induct) (auto simp: supervisor_edge_def)

lemma owner_step_ok:
  assumes ok: "owners_ok r" and g: "rg_generation r' = rg_generation r"
  shows "record_supervisor_ready su now r = Inr (ms, r') \<Longrightarrow> owners_ok r'"
    "transition_supervisor_run gn pid ident t reason now r = Inr (ms, r') \<Longrightarrow> owners_ok r'"
    "reconcile_predecessor_supervisor_runs gn now r = Inr (n, r') \<Longrightarrow> owners_ok r'"
    "register_worker_binding w now r = Inr (mw, r') \<Longrightarrow> owners_ok r'"
    "heartbeat_worker_binding wi gn ident t op sq now r = Inr (mw, r') \<Longrightarrow> owners_ok r'"
    "finish_worker_binding wi gn ident t rcpt now now2 r = Inr (mw, r') \<Longrightarrow> owners_ok r'"
proof -
  show "record_supervisor_ready su now r = Inr (ms, r') \<Longrightarrow> owners_ok r'"
    "register_worker_binding w now r = Inr (mw, r') \<Longrightarrow> owners_ok r'"
    using ok g by (auto simp: owners_ok_def dest!: owner_keys)
qed (use owners_ok_keys [OF ok g] in \<open>blast dest: owner_keys arg_cong\<close>)+

lemma owners_only_generation: "owners_only r r' \<Longrightarrow> rg_generation r' = rg_generation r"
  by (auto simp: owners_only_def)

text \<open>Every step either leaves both tables alone or is one of the six methods on them.\<close>

lemma step_owners:
  assumes step: "reg_step r r'" and ok: "owners_ok r"
  shows "owners_evolve r r' \<and> owners_ok r'"
proof -
  have gen: "rg_generation r \<le> rg_generation r'" using step_evolves [OF step] by (simp add: evolves_def)
  have same: ?thesis if "owners_same r r'"
    using owners_same_evolve owners_ok_same gen ok that by blast
  note ev = supervisor_methods_evolve [OF ok] worker_methods_evolve [OF ok]
  note kp = owner_step_ok [OF ok owners_only_generation]
  from step show ?thesis
  proof cases
    case supervisor_ready then show ?thesis by (intro conjI ev(1) kp(1) [OF owners_only_steps(1)])
  next
    case supervisor_move then show ?thesis by (intro conjI ev(2) kp(2) [OF owners_only_steps(2)])
  next
    case supervisor_reconcile then show ?thesis by (intro conjI ev(3) kp(3) [OF owners_only_steps(3)])
  next
    case worker_register then show ?thesis by (intro conjI ev(4) kp(4) [OF owners_only_steps(4)])
  next
    case worker_heartbeat then show ?thesis by (intro conjI ev(5) kp(5) [OF owners_only_steps(5)])
  next
    case worker_finish then show ?thesis by (intro conjI ev(6) kp(6) [OF owners_only_steps(6)])
  qed (rule same, erule simple_owners start_runtime_owners requeue_owners transition_owners lifecycle_owners
      claim_next_owners fence_expired_owners)+
qed

lemma steps_owners:
  assumes "reg_steps r r'" "owners_ok r"
  shows "owners_evolve r r' \<and> owners_ok r'"
  using assms
proof (induction rule: rtranclp_induct)
  case base
  then show ?case by (simp add: owners_same_evolve)
next
  case (step s t)
  then show ?case using step_owners [OF step.hyps(2)] owners_evolve_trans by blast
qed

lemma reachable_owners: "reachable r \<Longrightarrow> owners_ok r"
  unfolding reachable_def using steps_owners owners_ok_init by blast

section \<open>Sample tables\<close>

definition sample_supervisor :: "int \<Rightarrow> supervisor_row" where
  "sample_supervisor g = \<lparr>su_runtime_generation = g, su_dispatcher_generation = g, su_pid = 100 + g,
     su_process_start_identity = ''boot-1'', su_capability_digest = json_digest JNull,
     su_runtime_home_digest = json_digest JNull, su_endpoint_kind = ''pipe'',
     su_discovery_digest = json_digest JNull, su_state = S_ready, su_started_at = 950,
     su_ready_at = Some 950, su_draining_at = None, su_stopped_at = None, su_terminal_reason = None\<rparr>"

definition sample_supervised :: reg where
  "sample_supervised = sample_started\<lparr>rg_supervisor_runs := [sample_supervisor 1]\<rparr>"

lemma sample_ready:
  "record_supervisor_ready (sample_supervisor 1) 950 sample_started = Inr (sample_supervisor 1, sample_supervised)"
proof -
  have "rg_supervisor_runs sample_started = []" by (simp add: sample_started_def reg_init_def)
  then show ?thesis
    by (simp add: record_supervisor_ready_def check_positive_def require_def insert_row_def Let_def
      find_supervisor_run_def row_simps sample_supervised_def) (simp add: sample_supervisor_def)
qed

lemma sample_supervised_reachable: "reachable sample_supervised"
  by (rule reachable_steps [OF sample_run(1) steps_single [OF reg_step.supervisor_ready [OF sample_ready]]])

definition sample_succeeded :: reg where
  "sample_succeeded = sample_supervised\<lparr>rg_generation := 2,
     rg_supervisor_runs := [sample_supervisor 1, sample_supervisor 2]\<rparr>"

lemma sample_succeeds: "reg_steps sample_supervised sample_succeeded"
proof -
  let ?r = "sample_supervised\<lparr>rg_generation := 2\<rparr>"
  have "start_runtime 960 sample_supervised = (2, ?r)"
    by (simp add: start_runtime_def sample_supervised_def sample_started_def reg_init_def)
  moreover have "record_supervisor_ready (sample_supervisor 2) 950 ?r = Inr (sample_supervisor 2, sample_succeeded)"
    by (simp add: record_supervisor_ready_def check_positive_def require_def insert_row_def Let_def
      find_supervisor_run_def row_simps sample_succeeded_def sample_supervised_def)
      (simp add: sample_supervisor_def)
  ultimately show ?thesis
    by (meson reg_step.start reg_step.supervisor_ready rtranclp.rtrancl_into_rtrancl rtranclp.rtrancl_refl)
qed

definition sample_worker :: worker_row where
  "sample_worker = \<lparr>wr_worker_id = ''worker-1'', wr_runtime_generation = 1, wr_worker_kind = ''ipython'',
     wr_workspace = ''ws'', wr_workspace_generation = 1, wr_operation = None, wr_pid = 7,
     wr_process_start_identity = ''boot-1'', wr_capability_digest = json_digest JNull,
     wr_environment_digest = json_digest JNull, wr_state = W_ready, wr_started_at = 950,
     wr_heartbeat_at = 950, wr_last_event_sequence = 0, wr_ended_at = None, wr_termination_receipt = None\<rparr>"

definition sample_workers :: reg where
  "sample_workers = sample_started\<lparr>rg_workers := [sample_worker]\<rparr>"

lemma sample_register: "register_worker_binding sample_worker 950 sample_started = Inr (sample_worker, sample_workers)"
proof -
  have "rg_workers sample_started = []" by (simp add: sample_started_def reg_init_def)
  then show ?thesis
    by (simp add: register_worker_binding_def check_positive_def require_def insert_row_def Let_def
      find_worker_def row_simps sample_workers_def) (simp add: sample_worker_def)
qed

section \<open>Properties\<close>

text \<open>supervisor runs follow their lifecycle: whatever is called, a recorded run keeps its
  generation, process and start identity, its state moves only along the allowed edges
  (ready, degraded, draining, reconcile-required, stopped, never back), so a stopped run is
  final, and no generation ever has two runs.\<close>

theorem supervisor_runs_follow_lifecycle:
  assumes "reachable r" "reg_steps r r'" "s \<in> set (rg_supervisor_runs r)"
  shows "\<exists>t \<in> set (rg_supervisor_runs r'). supervisor_later s t \<and>
    (su_state s = S_stopped \<longrightarrow> su_state t = S_stopped) \<and>
    (\<forall>u \<in> set (rg_supervisor_runs r'). su_runtime_generation u = su_runtime_generation s \<longrightarrow> u = t)"
proof -
  have ok: "owners_evolve r r'" "owners_ok r'"
    using steps_owners [OF assms(2) reachable_owners [OF assms(1)]] by auto
  then obtain t where t: "t \<in> set (rg_supervisor_runs r')" "supervisor_later s t"
    using assms(3) by (auto simp: owners_evolve_def)
  have "su_state s = S_stopped \<longrightarrow> su_state t = S_stopped"
    using t(2) stopped_final by (auto simp: supervisor_later_def)
  moreover have "u = t" if "u \<in> set (rg_supervisor_runs r')" "su_runtime_generation u = su_runtime_generation s" for u
    using ok(2) t that by (auto simp: owners_ok_def supervisor_later_def distinct_map inj_on_def)
  ultimately show ?thesis using t by blast
qed

theorem supervisor_runs_follow_lifecycle_witness:
  "\<exists>t \<in> set (rg_supervisor_runs sample_succeeded). supervisor_later (sample_supervisor 1) t"
  using supervisor_runs_follow_lifecycle [OF sample_supervised_reachable sample_succeeds, of "sample_supervisor 1"]
  by (auto simp: sample_supervised_def)

text \<open>C38: startup leaves one owner: once the runtime of the current generation has reconciled its
  predecessors, every supervisor run still active belongs to that generation, and there is
  at most one such run.\<close>

theorem one_active_supervisor:
  assumes "reachable r" "reconcile_predecessor_supervisor_runs g now r = Inr (n, r')"
    and "s \<in> set (rg_supervisor_runs r')" "supervisor_active (su_state s)"
  shows "su_runtime_generation s = rg_generation r' \<and>
    (\<forall>t \<in> set (rg_supervisor_runs r'). supervisor_active (su_state t) \<longrightarrow> t = s)"
proof -
  have "owners_ok r'"
    using step_owners [OF reg_step.supervisor_reconcile [OF assms(2)] reachable_owners [OF assms(1)]] by simp
  then have ok: "distinct (map su_runtime_generation (rg_supervisor_runs r'))"
    "\<forall>t \<in> set (rg_supervisor_runs r'). su_runtime_generation t \<le> rg_generation r'" by (auto simp: owners_ok_def)
  have cur: "su_runtime_generation t = rg_generation r'"
    if t: "t \<in> set (rg_supervisor_runs r')" "supervisor_active (su_state t)" for t
  proof -
    have "\<not> su_runtime_generation t < rg_generation r'"
      using assms(2) t by (auto simp: reconcile_predecessor_supervisor_runs_def Let_def set_update_rows
        supervisor_active_def split: if_split_asm)
    with ok(2) t(1) show ?thesis by force
  qed
  then show ?thesis using ok(1) assms(3,4) by (auto simp: distinct_map inj_on_def)
qed

theorem one_active_supervisor_witness:
  "\<exists>r'. reconcile_predecessor_supervisor_runs 2 970 sample_succeeded = Inr (1, r') \<and>
     sample_supervisor 2 \<in> set (rg_supervisor_runs r') \<and>
     (\<forall>t \<in> set (rg_supervisor_runs r'). supervisor_active (su_state t) \<longrightarrow> t = sample_supervisor 2)"
proof -
  obtain r' where r': "reconcile_predecessor_supervisor_runs 2 970 sample_succeeded = Inr (1, r')"
    "sample_supervisor 2 \<in> set (rg_supervisor_runs r')"
    by (simp add: reconcile_predecessor_supervisor_runs_def sample_succeeded_def Let_def rowcount_def)
      (simp add: sample_supervisor_def supervisor_active_def row_simps)
  have "supervisor_active (su_state (sample_supervisor 2))"
    by (simp add: sample_supervisor_def supervisor_active_def)
  from one_active_supervisor [OF reachable_steps [OF sample_supervised_reachable sample_succeeds] r' this] r'
  show ?thesis by blast
qed

text \<open>worker bindings never go back: whatever is called, a binding keeps its generation and
  process identity, its event sequence never decreases, and once it is lost, quarantined or
  terminated its row is final.\<close>

theorem worker_bindings_never_go_back:
  assumes "reachable r" "reg_steps r r'" "find_worker w r = Inr x"
  shows "\<exists>y. find_worker w r' = Inr y \<and> wr_runtime_generation y = wr_runtime_generation x \<and>
    wr_process_start_identity y = wr_process_start_identity x \<and>
    wr_last_event_sequence x \<le> wr_last_event_sequence y \<and> (\<not> worker_active (wr_state x) \<longrightarrow> y = x)"
proof -
  have ok: "owners_evolve r r'" "owners_ok r'"
    using steps_owners [OF assms(2) reachable_owners [OF assms(1)]] by auto
  have x: "x \<in> set (rg_workers r)" "wr_worker_id x = w"
    using assms(3) fetchone_SomeD by (fastforce simp: find_worker_def split: option.splits)+
  with ok(1) obtain y where y: "y \<in> set (rg_workers r')" "worker_later x y" by (auto simp: owners_evolve_def)
  have "fetchone (\<lambda>x. wr_worker_id x = w) (rg_workers r') = Some y"
    using ok(2) y x by (intro fetchone_key [where k = wr_worker_id]) (auto simp: owners_ok_def worker_later_def)
  with y(2) show ?thesis by (simp add: find_worker_def worker_later_def)
qed

theorem worker_bindings_never_go_back_witness:
  "\<exists>y. find_worker ''worker-1'' sample_workers = Inr y \<and> wr_process_start_identity y = ''boot-1''"
proof -
  have r: "reachable sample_workers"
    by (rule reachable_steps [OF sample_run(1) steps_single [OF reg_step.worker_register [OF sample_register]]])
  have "find_worker ''worker-1'' sample_workers = Inr sample_worker"
    by (simp add: find_worker_def sample_workers_def row_simps) (simp add: sample_worker_def)
  from worker_bindings_never_go_back [OF r rtranclp.rtrancl_refl this] show ?thesis
    by (auto simp: sample_worker_def)
qed

end
