(* ===== verification/Broker_Journal.thy ===== *)
theory Broker_Journal
  imports Broker_Calls
begin

text \<open>
  What keeps the broker journal consistent: rows are unique by sequence and by key; an
  interleaved run of calls, provider outcomes, process losses and reconciliations keeps
  every sent identity spent and sends again only reads; the usage of the counted rows;
  finished rows.
\<close>

section \<open>Rows\<close>

definition call_seq :: "call_row \<Rightarrow> operation_ref \<times> int" where
  "call_seq w = (bj_operation w, bj_sequence w)"

definition call_key :: "call_row \<Rightarrow> operation_ref \<times> string" where
  "call_key w = (bj_operation w, bj_key w)"

definition calls_ok :: "brk \<Rightarrow> bool" where
  "calls_ok db \<longleftrightarrow> distinct (map call_seq (bk_calls db)) \<and> distinct (map call_key (bk_calls db))"

lemma seq_unique:
  "calls_ok db \<Longrightarrow> v \<in> set (bk_calls db) \<Longrightarrow> w \<in> set (bk_calls db) \<Longrightarrow>
   bj_operation v = bj_operation w \<Longrightarrow> bj_sequence v = bj_sequence w \<Longrightarrow> v = w"
  by (auto simp: calls_ok_def call_seq_def distinct_map inj_on_def)

lemma key_unique:
  "calls_ok db \<Longrightarrow> v \<in> set (bk_calls db) \<Longrightarrow> w \<in> set (bk_calls db) \<Longrightarrow>
   bj_operation v = bj_operation w \<Longrightarrow> bj_key v = bj_key w \<Longrightarrow> v = w"
  by (auto simp: calls_ok_def call_key_def distinct_map inj_on_def)

lemma bk_calls_set_call:
  "bk_calls (set_call i n p f db) = map (\<lambda>v. if bj_operation v = i \<and> bj_sequence v = n \<and> p v then f v else v) (bk_calls db)"
  by (simp add: set_call_def update_rows_def split del: if_split)

lemma set_call_rows:
  "w \<in> set (bk_calls (set_call i n p f db)) \<longleftrightarrow> (\<exists>v \<in> set (bk_calls db).
     w = (if bj_operation v = i \<and> bj_sequence v = n \<and> p v then f v else v))"
  by (simp only: bk_calls_set_call set_map image_iff)

definition same_call :: "(call_row \<Rightarrow> call_row) \<Rightarrow> bool" where
  "same_call f \<longleftrightarrow> (\<forall>w. bj_operation (f w) = bj_operation w \<and> bj_sequence (f w) = bj_sequence w \<and>
     bj_key (f w) = bj_key w \<and> bj_method (f w) = bj_method w)"

lemma calls_ok_set_call: "calls_ok db \<Longrightarrow> same_call f \<Longrightarrow> calls_ok (set_call i n p f db)"
  unfolding calls_ok_def set_call_def same_call_def
  by (simp add: map_update_rows call_seq_def call_key_def)

lemma find_call_SomeD:
  "find_call i k db = Some w \<Longrightarrow> w \<in> set (bk_calls db) \<and> bj_operation w = i \<and> bj_key w = k"
  by (auto simp: find_call_def dest!: fetchone_SomeD)

lemma find_call_None: "find_call i k db = None \<Longrightarrow> w \<in> set (bk_calls db) \<Longrightarrow> (bj_operation w, bj_key w) \<noteq> (i, k)"
  by (auto simp: find_call_def fetchone_None_iff)

text \<open>What an admission did to the table.\<close>

lemma admit_Admitted:
  assumes "admit_call c now db = Inr (Admitted n cur, db')"
  shows "(find_call (iv_operation c) (iv_key c) db = None \<and> n = next_sequence (iv_operation c) db \<and>
      bk_calls db' = bk_calls db @ [started_row c n] \<and> (\<forall>y \<in> set (bk_calls db). \<not> call_clash (started_row c n) y)) \<or>
    (\<exists>w. find_call (iv_operation c) (iv_key c) db = Some w \<and> bj_state w = T_rejected_before_send \<and>
      bj_sequence w = n \<and> bj_request_digest w = iv_digest c \<and> bj_response w = None \<and>
      db' = set_call (iv_operation c) n (\<lambda>w. bj_state w = T_rejected_before_send) (restarted c) db)"
    and "usage_total usage_zero (counted_usages (iv_operation c) db) = Inr cur"
    and "\<exists>u. usage_plus cur (iv_usage c) = Inr u \<and> assert_budget (iv_budget c) u = Inr ()"
  using assms
  by (auto simp: admit_call_def prior_call_def Let_def res_simps split: if_split_asm option.split_asm prior_call.split_asm)

lemma admit_Replayed:
  assumes "admit_call c now db = Inr (Replayed r, db')"
  shows "db' = db \<and> (\<exists>w. find_call (iv_operation c) (iv_key c) db = Some w \<and> bj_state w = T_succeeded \<and>
    bj_response w = Some r \<and> bj_request_digest w = iv_digest c)"
  using assms
  by (auto simp: admit_call_def prior_call_def Let_def res_simps split: if_split_asm option.split_asm prior_call.split_asm)

lemma admit_calls_ok:
  assumes "admit_call c now db = Inr (Admitted n cur, db')" "calls_ok db"
  shows "calls_ok db'"
  using admit_Admitted(1) [OF assms(1)]
proof
  assume a: "find_call (iv_operation c) (iv_key c) db = None \<and> n = next_sequence (iv_operation c) db \<and>
    bk_calls db' = bk_calls db @ [started_row c n] \<and> (\<forall>y \<in> set (bk_calls db). \<not> call_clash (started_row c n) y)"
  then have "call_seq (started_row c n) \<notin> call_seq ` set (bk_calls db)"
    "call_key (started_row c n) \<notin> call_key ` set (bk_calls db)"
    by (auto simp: call_clash_def call_seq_def call_key_def)
  with a assms(2) show "calls_ok db'" by (simp add: calls_ok_def)
next
  assume "\<exists>w. find_call (iv_operation c) (iv_key c) db = Some w \<and> bj_state w = T_rejected_before_send \<and>
      bj_sequence w = n \<and> bj_request_digest w = iv_digest c \<and> bj_response w = None \<and>
      db' = set_call (iv_operation c) n (\<lambda>w. bj_state w = T_rejected_before_send) (restarted c) db"
  then show "calls_ok db'" using assms(2) by (auto intro!: calls_ok_set_call simp: same_call_def restarted_def)
qed

text \<open>The admitted row is started, belongs to the call and every other row is untouched.\<close>

lemma admit_row:
  assumes a: "admit_call c now db = Inr (Admitted n cur, db')" and ok: "calls_ok db"
  obtains w where "bj_operation w = iv_operation c" "bj_sequence w = n" "bj_key w = iv_key c"
    "bj_state w = T_started" "bj_response w = None" "bj_request_digest w = iv_digest c"
    "set (bk_calls db') = insert w {v \<in> set (bk_calls db). \<not> (bj_operation v = iv_operation c \<and> bj_sequence v = n)}"
    "\<forall>v \<in> set (bk_calls db). bj_operation v = iv_operation c \<and> (bj_sequence v = n \<or> bj_key v = iv_key c) \<longrightarrow>
       bj_state v = T_rejected_before_send \<and> bj_sequence v = n \<and> bj_key v = iv_key c"
  using admit_Admitted(1) [OF a]
proof
  assume f: "find_call (iv_operation c) (iv_key c) db = None \<and> n = next_sequence (iv_operation c) db \<and>
    bk_calls db' = bk_calls db @ [started_row c n] \<and> (\<forall>y \<in> set (bk_calls db). \<not> call_clash (started_row c n) y)"
  then have "\<forall>v \<in> set (bk_calls db). bj_operation v = iv_operation c \<longrightarrow> bj_sequence v \<noteq> n \<and> bj_key v \<noteq> iv_key c"
    by (auto simp: call_clash_def started_row_def)
  with f show thesis by (intro that [of "started_row c n"]) (auto simp: started_row_def)
next
  assume "\<exists>w. find_call (iv_operation c) (iv_key c) db = Some w \<and> bj_state w = T_rejected_before_send \<and>
      bj_sequence w = n \<and> bj_request_digest w = iv_digest c \<and> bj_response w = None \<and>
      db' = set_call (iv_operation c) n (\<lambda>w. bj_state w = T_rejected_before_send) (restarted c) db"
  then obtain w where w: "w \<in> set (bk_calls db)" "bj_operation w = iv_operation c" "bj_key w = iv_key c"
    "bj_state w = T_rejected_before_send" "bj_sequence w = n" "bj_request_digest w = iv_digest c" "bj_response w = None"
    and db': "db' = set_call (iv_operation c) n (\<lambda>w. bj_state w = T_rejected_before_send) (restarted c) db"
    using find_call_SomeD by blast
  have one: "v = w" if "v \<in> set (bk_calls db)" "bj_operation v = iv_operation c"
    "bj_sequence v = n \<or> bj_key v = iv_key c" for v
    using that w seq_unique [OF ok] key_unique [OF ok] by auto
  have in_n: "restarted c w \<in> set (bk_calls db')"
    unfolding db' set_call_rows using w by (intro bexI [of _ w]) simp_all
  have rows: "set (bk_calls db') = insert (restarted c w)
      {v \<in> set (bk_calls db). \<not> (bj_operation v = iv_operation c \<and> bj_sequence v = n)}" (is "?L = ?R")
  proof (rule subset_antisym)
    show "?L \<subseteq> ?R"
    proof
      fix v assume "v \<in> ?L"
      then obtain x where x: "x \<in> set (bk_calls db)"
        "v = (if bj_operation x = iv_operation c \<and> bj_sequence x = n \<and> bj_state x = T_rejected_before_send
              then restarted c x else x)" unfolding db' set_call_rows by blast
      show "v \<in> ?R"
      proof (cases "bj_operation x = iv_operation c \<and> bj_sequence x = n")
        case True
        then have "x = w" using one x(1) by blast
        with x(2) w show ?thesis by simp
      next
        case False
        then have "v = x" using x(2) by (metis (full_types))
        with False x(1) show ?thesis by simp
      qed
    qed
    show "?R \<subseteq> ?L"
    proof
      fix v assume "v \<in> ?R"
      then show "v \<in> ?L"
      proof
        assume "v = restarted c w"
        then show ?thesis using in_n by simp
      next
        assume v: "v \<in> {v \<in> set (bk_calls db). \<not> (bj_operation v = iv_operation c \<and> bj_sequence v = n)}"
        then show ?thesis unfolding db' set_call_rows by (intro bexI [of _ v]) auto
      qed
    qed
  qed
  show thesis
  proof (rule that [OF _ _ _ _ _ _ rows])
    show "\<forall>v \<in> set (bk_calls db). bj_operation v = iv_operation c \<and> (bj_sequence v = n \<or> bj_key v = iv_key c) \<longrightarrow>
       bj_state v = T_rejected_before_send \<and> bj_sequence v = n \<and> bj_key v = iv_key c"
      using one w by blast
  qed (use w in \<open>simp_all add: restarted_def\<close>)
qed

section \<open>Interleaved calls\<close>

text \<open>
  A run of the journal: the table, the calls admitted but not yet sent, the calls at their
  provider, the identities sent so far by a call, and those whose read a reconciliation has made
  again. The three transactions of a call (admission, rejection or send, commit) are steps of their
  own, since the journal is not locked while the provider runs: calls, reconciliations and losses
  fall between them in any order. A process loss forgets both groups of calls.

  A reconciliation makes the read of a row it has fetched before it writes the row; it may be lost
  between the two, and the row may have changed since it was fetched, so the read is a step without
  a guard on the row's state.
\<close>

type_synonym pending_call = "invoke_args \<times> int \<times> broker_usage"

record call_run =
  cr_db :: brk
  cr_pending :: "pending_call list"
  cr_flight :: "pending_call list"
  cr_sent :: "(operation_ref \<times> string) list"
  cr_replays :: "(operation_ref \<times> string) list"

text \<open>The methods that \<open>reconcile_unresolved\<close> answers with \<open>safe_replay\<close>.\<close>

definition safe_read :: "broker_method \<Rightarrow> bool" where
  "safe_read m \<longleftrightarrow> m \<in> {Artifact_read, Evidence_query, Subagent_result}"

definition pending_key :: "pending_call \<Rightarrow> operation_ref \<times> string" where
  "pending_key p = (iv_operation (fst p), iv_key (fst p))"

inductive call_step :: "call_run \<Rightarrow> call_run \<Rightarrow> bool" where
  admitted: "admit_call c now (cr_db s) = Inr (Admitted n cur, db) \<Longrightarrow>
    call_step s (s\<lparr>cr_db := db, cr_pending := (c, n, cur) # cr_pending s\<rparr>)"
| rejected: "(c, n, cur) \<in> set (cr_pending s) \<Longrightarrow> run_check c now = Inl e \<Longrightarrow>
    call_step s (s\<lparr>cr_db := reject_call c n e (cr_db s), cr_pending := remove1 (c, n, cur) (cr_pending s)\<rparr>)"
| sent: "(c, n, cur) \<in> set (cr_pending s) \<Longrightarrow> run_check c now = Inr () \<Longrightarrow>
    call_step s (s\<lparr>cr_pending := remove1 (c, n, cur) (cr_pending s), cr_flight := (c, n, cur) # cr_flight s,
      cr_sent := pending_key (c, n, cur) # cr_sent s\<rparr>)"
| committed: "(c, n, cur) \<in> set (cr_flight s) \<Longrightarrow>
    call_step s (s\<lparr>cr_db := snd (commit_call c n cur out (cr_db s)), cr_flight := remove1 (c, n, cur) (cr_flight s)\<rparr>)"
| lost: "call_step s (s\<lparr>cr_pending := [], cr_flight := []\<rparr>)"
| resolved: "resolve_started_call q response usage (cr_db s) = Inr (rec, db) \<Longrightarrow> call_step s (s\<lparr>cr_db := db\<rparr>)"
| unresolved: "record_unresolved_reconciliation q receipt usage (cr_db s) = Inr (rec, db) \<Longrightarrow>
    call_step s (s\<lparr>cr_db := db\<rparr>)"
| replayed: "w \<in> set (bk_calls (cr_db s)) \<Longrightarrow> safe_read (bj_method w) \<Longrightarrow>
    call_step s (s\<lparr>cr_replays := call_key w # cr_replays s\<rparr>)"

text \<open>
  A sent identity has a row that was not rejected; a pending one has a row of its own, is
  not sent yet and is pending once.
\<close>

definition sendable :: "brk \<Rightarrow> pending_call \<Rightarrow> bool" where
  "sendable db p \<longleftrightarrow> (\<exists>w \<in> set (bk_calls db). bj_operation w = iv_operation (fst p) \<and>
     bj_sequence w = fst (snd p) \<and> bj_key w = iv_key (fst p) \<and> bj_state w \<noteq> T_rejected_before_send)"

definition spent :: "brk \<Rightarrow> operation_ref \<times> string \<Rightarrow> bool" where
  "spent db k \<longleftrightarrow> (\<exists>w \<in> set (bk_calls db). call_key w = k \<and> bj_state w \<noteq> T_rejected_before_send)"

definition run_ok :: "call_run \<Rightarrow> bool" where
  "run_ok s \<longleftrightarrow> calls_ok (cr_db s) \<and> distinct (cr_sent s) \<and> distinct (map pending_key (cr_pending s)) \<and>
     (\<forall>p \<in> set (cr_pending s). sendable (cr_db s) p \<and> pending_key p \<notin> set (cr_sent s)) \<and>
     (\<forall>k \<in> set (cr_sent s). spent (cr_db s) k)"

text \<open>An update that rejects no row keeps what is sendable and what is spent.\<close>

definition keeps_sent :: "brk \<Rightarrow> brk \<Rightarrow> bool" where
  "keeps_sent db db' \<longleftrightarrow> (calls_ok db \<longrightarrow> calls_ok db') \<and> (\<forall>p. sendable db p \<longrightarrow> sendable db' p) \<and>
     (\<forall>k. spent db k \<longrightarrow> spent db' k)"

lemma keeps_sent_refl [simp]: "keeps_sent db db"
  by (simp add: keeps_sent_def)

lemma keeps_sent_trans: "keeps_sent a b \<Longrightarrow> keeps_sent b c \<Longrightarrow> keeps_sent a c"
  by (simp add: keeps_sent_def)

lemma keeps_sent_set_call:
  assumes "same_call f" "\<And>w. p w \<Longrightarrow> bj_state w \<noteq> T_rejected_before_send \<Longrightarrow> bj_state (f w) \<noteq> T_rejected_before_send"
  shows "keeps_sent db (set_call i n p f db)"
proof -
  let ?g = "\<lambda>v. if bj_operation v = i \<and> bj_sequence v = n \<and> p v then f v else v"
  have in': "v \<in> set (bk_calls db) \<Longrightarrow> ?g v \<in> set (bk_calls (set_call i n p f db))" for v
    by (subst set_call_rows) blast
  have same: "bj_operation (?g v) = bj_operation v" "bj_sequence (?g v) = bj_sequence v" "bj_key (?g v) = bj_key v"
    "bj_state v \<noteq> T_rejected_before_send \<Longrightarrow> bj_state (?g v) \<noteq> T_rejected_before_send" for v
    using assms by (auto simp: same_call_def)
  have "sendable (set_call i n p f db) x" if x: "sendable db x" for x
  proof -
    from x obtain v where "v \<in> set (bk_calls db)" "bj_operation v = iv_operation (fst x)"
      "bj_sequence v = fst (snd x)" "bj_key v = iv_key (fst x)" "bj_state v \<noteq> T_rejected_before_send"
      by (auto simp: sendable_def)
    then show ?thesis unfolding sendable_def using in' [of v] same [of v] by (intro bexI [of _ "?g v"]) simp_all
  qed
  moreover have "spent (set_call i n p f db) k" if k: "spent db k" for k
  proof -
    from k obtain v where "v \<in> set (bk_calls db)" "call_key v = k" "bj_state v \<noteq> T_rejected_before_send"
      by (auto simp: spent_def)
    then show ?thesis unfolding spent_def using in' [of v] same [of v]
      by (intro bexI [of _ "?g v"]) (simp_all add: call_key_def)
  qed
  ultimately show ?thesis using calls_ok_set_call [OF _ assms(1)] by (simp add: keeps_sent_def)
qed

lemma keeps_sent_calls_ok: "keeps_sent db db' \<Longrightarrow> calls_ok db \<Longrightarrow> calls_ok db'"
  by (simp add: keeps_sent_def)

lemma keeps_sent_commit: "keeps_sent db (snd (commit_call c n cur out db))"
proof -
  have q: "keeps_sent db (fail_call c n code db)" "keeps_sent db (quarantine_call c n code db)"
    "keeps_sent db (succeed_call c n s db)" "keeps_sent db (revoke_call c n e db)" for db code s e
    by (simp_all add: fail_call_def quarantine_call_def succeed_call_def revoke_call_def keeps_sent_set_call
        same_call_def)
  have r: "keeps_sent db (record_failure c n e db)" for e by (cases e) (simp_all add: q)
  show ?thesis
    by (auto simp: commit_call_def Let_def r q keeps_sent_trans [OF q(3) q(4)] split: sum.splits)
qed

lemma keeps_sent_resolve:
  "resolve_started_call q response usage db = Inr (r, db') \<Longrightarrow> keeps_sent db db'"
  by (auto simp: resolve_started_call_def Let_def same_call_def intro!: keeps_sent_set_call
      split: option.split_asm if_split_asm)

lemma keeps_sent_unresolved:
  "record_unresolved_reconciliation q receipt usage db = Inr (r, db') \<Longrightarrow> keeps_sent db db'"
  by (auto simp: record_unresolved_reconciliation_def Let_def same_call_def intro!: keeps_sent_set_call
      split: option.split_asm if_split_asm)

lemma run_ok_db:
  assumes "run_ok s" "keeps_sent (cr_db s) db" "cr_pending t = cr_pending s \<or> cr_pending t = []"
    "cr_sent t = cr_sent s" "cr_db t = db"
  shows "run_ok t"
  using assms unfolding run_ok_def keeps_sent_def by auto

lemma run_ok_admitted:
  assumes ok: "run_ok s" and a: "admit_call c now (cr_db s) = Inr (Admitted n cur, db)"
  shows "run_ok (s\<lparr>cr_db := db, cr_pending := (c, n, cur) # cr_pending s\<rparr>)"
proof -
  have cok: "calls_ok (cr_db s)" using ok by (simp add: run_ok_def)
  obtain w where w: "bj_operation w = iv_operation c" "bj_sequence w = n" "bj_key w = iv_key c"
    "bj_state w = T_started"
    and rows: "set (bk_calls db) = insert w {v \<in> set (bk_calls (cr_db s)). \<not> (bj_operation v = iv_operation c \<and> bj_sequence v = n)}"
    and old: "\<And>v. v \<in> set (bk_calls (cr_db s)) \<Longrightarrow> bj_operation v = iv_operation c \<Longrightarrow>
      bj_sequence v = n \<or> bj_key v = iv_key c \<Longrightarrow> bj_state v = T_rejected_before_send"
    by (rule admit_row [OF a cok]) blast
  have new: "sendable db (c, n, cur)" unfolding sendable_def using w rows by auto
  have keep: "sendable db q" if "sendable (cr_db s) q" for q
    using that old unfolding sendable_def rows by blast
  have keep': "spent db k" if "spent (cr_db s) k" for k
    using that old unfolding spent_def rows by blast
  have fresh: "pending_key q \<noteq> pending_key (c, n, cur)" if "sendable (cr_db s) q" for q
    using that old unfolding sendable_def pending_key_def by fastforce
  have fresh': "k \<noteq> pending_key (c, n, cur)" if "spent (cr_db s) k" for k
    using that old unfolding spent_def pending_key_def call_key_def by fastforce
  have p: "sendable (cr_db s) q" if "q \<in> set (cr_pending s)" for q using ok that by (simp add: run_ok_def)
  have k: "spent (cr_db s) k" if "k \<in> set (cr_sent s)" for k using ok that by (simp add: run_ok_def)
  have "pending_key (c, n, cur) \<notin> pending_key ` set (cr_pending s)"
    using p fresh by (metis imageE)
  moreover have "\<forall>q \<in> set (cr_pending s). sendable db q" using p keep by blast
  moreover have "pending_key (c, n, cur) \<notin> set (cr_sent s)" using k fresh' by blast
  moreover have "\<forall>k \<in> set (cr_sent s). spent db k" using k keep' by blast
  ultimately show ?thesis using ok new admit_calls_ok [OF a cok] by (simp add: run_ok_def)
qed

lemma run_ok_rejected:
  assumes ok: "run_ok s" and p: "(c, n, cur) \<in> set (cr_pending s)"
  shows "run_ok (s\<lparr>cr_db := reject_call c n e (cr_db s), cr_pending := remove1 (c, n, cur) (cr_pending s)\<rparr>)"
proof -
  let ?db = "cr_db s" and ?db' = "reject_call c n e (cr_db s)" and ?p = "(c, n, cur)"
  have cok: "calls_ok ?db" and d: "distinct (map pending_key (cr_pending s))"
    and sp: "sendable ?db ?p" "pending_key ?p \<notin> set (cr_sent s)" using ok p by (auto simp: run_ok_def)
  obtain w where w: "w \<in> set (bk_calls ?db)" "bj_operation w = iv_operation c" "bj_sequence w = n"
    "bj_key w = iv_key c" using sp(1) by (auto simp: sendable_def)
  have stay: "v \<in> set (bk_calls ?db')" if v: "v \<in> set (bk_calls ?db)" "call_key v \<noteq> pending_key ?p" for v
  proof -
    have "\<not> (bj_operation v = iv_operation c \<and> bj_sequence v = n)"
      using seq_unique [OF cok v(1) w(1)] v(2) w by (auto simp: call_key_def pending_key_def)
    then show ?thesis using v(1) unfolding reject_call_def set_call_rows by (intro bexI [of _ v]) auto
  qed
  have "sendable ?db' q" if q: "q \<in> set (remove1 ?p (cr_pending s))" for q
  proof -
    have "q \<in> set (cr_pending s)" "q \<noteq> ?p" using q d by (auto simp: distinct_map)
    then have "pending_key q \<noteq> pending_key ?p" "sendable ?db q"
      using d p ok by (auto simp: distinct_map inj_on_def run_ok_def)
    then show ?thesis using stay unfolding sendable_def
      by (metis call_key_def pending_key_def)
  qed
  moreover have "spent ?db' k" if k: "k \<in> set (cr_sent s)" for k
  proof -
    have "spent ?db k" "k \<noteq> pending_key ?p" using k ok sp(2) by (auto simp: run_ok_def)
    then show ?thesis using stay unfolding spent_def by metis
  qed
  moreover have "calls_ok ?db'" using cok unfolding reject_call_def
    by (rule calls_ok_set_call) (simp add: same_call_def)
  moreover have "distinct (map pending_key (remove1 ?p (cr_pending s)))"
    using d by (meson distinct_map distinct_remove1 inj_on_subset set_remove1_subset)
  ultimately show ?thesis using ok set_remove1_subset [of ?p "cr_pending s"] by (auto simp: run_ok_def)
qed

lemma run_ok_sent:
  assumes ok: "run_ok s" and p: "p \<in> set (cr_pending s)"
  shows "run_ok (s\<lparr>cr_pending := remove1 p (cr_pending s), cr_flight := f, cr_sent := pending_key p # cr_sent s\<rparr>)"
proof -
  have d: "distinct (map pending_key (cr_pending s))" and sp: "sendable (cr_db s) p" "pending_key p \<notin> set (cr_sent s)"
    using ok p by (auto simp: run_ok_def)
  have "spent (cr_db s) (pending_key p)" using sp(1) by (auto simp: sendable_def spent_def pending_key_def call_key_def)
  moreover have "pending_key q \<noteq> pending_key p" if "q \<in> set (remove1 p (cr_pending s))" for q
    using that d p by (auto simp: distinct_map inj_on_def)
  moreover have "distinct (map pending_key (remove1 p (cr_pending s)))"
    using d by (meson distinct_map distinct_remove1 inj_on_subset set_remove1_subset)
  moreover have "sendable (cr_db s) q \<and> pending_key q \<notin> set (cr_sent s)" if "q \<in> set (remove1 p (cr_pending s))" for q
    using ok set_remove1_subset [of p "cr_pending s"] that by (auto simp: run_ok_def)
  ultimately show ?thesis using ok sp by (simp add: run_ok_def)
qed

lemma call_step_run_ok: "call_step s t \<Longrightarrow> run_ok s \<Longrightarrow> run_ok t"
proof (induction rule: call_step.induct)
  case (admitted c now s n cur db)
  then show ?case by (intro run_ok_admitted)
next
  case (rejected c n cur s now e)
  then show ?case by (intro run_ok_rejected)
next
  case (sent c n cur s now)
  then show ?case by (intro run_ok_sent)
next
  case (committed c n cur s out)
  show ?case by (rule run_ok_db [OF committed(2) keeps_sent_commit]) simp_all
next
  case (lost s)
  show ?case by (rule run_ok_db [OF lost keeps_sent_refl]) simp_all
next
  case (resolved q response usage s rec db)
  show ?case by (rule run_ok_db [OF resolved(2) keeps_sent_resolve [OF resolved(1)]]) simp_all
next
  case (unresolved q receipt usage s rec db)
  show ?case by (rule run_ok_db [OF unresolved(2) keeps_sent_unresolved [OF unresolved(1)]]) simp_all
next
  case (replayed w s)
  show ?case by (rule run_ok_db [OF replayed(3) keeps_sent_refl]) simp_all
qed

lemma call_runs_ok: "call_step\<^sup>*\<^sup>* s t \<Longrightarrow> run_ok s \<Longrightarrow> run_ok t"
  by (induction rule: rtranclp_induct) (auto intro: call_step_run_ok)

text \<open>Rows stay, with their identity and their method, so what is read again stays the row of a read.\<close>

definition rows_stay :: "brk \<Rightarrow> brk \<Rightarrow> bool" where
  "rows_stay db db' \<longleftrightarrow> (\<forall>w \<in> set (bk_calls db). \<exists>w' \<in> set (bk_calls db').
     call_seq w' = call_seq w \<and> call_key w' = call_key w \<and> bj_method w' = bj_method w)"

lemma rows_stay_refl [simp]: "rows_stay db db"
  by (auto simp: rows_stay_def)

lemma rows_stay_trans: "rows_stay a b \<Longrightarrow> rows_stay b c \<Longrightarrow> rows_stay a c"
  unfolding rows_stay_def by metis

lemma rows_stay_set_call [intro]: "same_call f \<Longrightarrow> rows_stay db (set_call i n p f db)"
  unfolding rows_stay_def bk_calls_set_call
  by (auto simp: same_call_def call_seq_def call_key_def)

lemma rows_stay_admit:
  assumes "admit_call c now db = Inr (a, db')"
  shows "rows_stay db db'"
proof (cases a)
  case (Admitted n cur)
  have "admit_call c now db = Inr (Admitted n cur, db')" using assms by (simp add: Admitted)
  from admit_Admitted(1) [OF this] show ?thesis
  proof (elim disjE exE conjE)
    assume "bk_calls db' = bk_calls db @ [started_row c n]"
    then show ?thesis by (auto simp: rows_stay_def)
  next
    fix w assume d: "db' = set_call (iv_operation c) n (\<lambda>w. bj_state w = T_rejected_before_send) (restarted c) db"
    show ?thesis unfolding d by (rule rows_stay_set_call) (simp add: same_call_def restarted_def)
  qed
next
  case (Replayed r)
  then have "db' = db" using admit_Replayed assms by blast
  then show ?thesis by simp
qed

lemma rows_stay_commit: "rows_stay db (snd (commit_call c n cur out db))"
proof -
  have q: "rows_stay db (fail_call c n code db)" "rows_stay db (quarantine_call c n code db)"
    "rows_stay db (succeed_call c n s db)" "rows_stay db (revoke_call c n e db)" for db code s e
    by (simp_all add: fail_call_def quarantine_call_def succeed_call_def revoke_call_def rows_stay_set_call same_call_def)
  have r: "rows_stay db (record_failure c n e db)" for e by (cases e) (simp_all add: q)
  show ?thesis
    by (auto simp: commit_call_def Let_def r q rows_stay_trans [OF q(3) q(4)] split: sum.splits)
qed

lemma rows_stay_reconciled:
  "resolve_started_call q response usage db = Inr (r, db') \<Longrightarrow> rows_stay db db'"
  "record_unresolved_reconciliation q receipt usage db = Inr (r, db') \<Longrightarrow> rows_stay db db'"
  by (auto simp: resolve_started_call_def record_unresolved_reconciliation_def Let_def same_call_def
      split: option.split_asm if_split_asm)

lemma call_step_rows_stay: "call_step s t \<Longrightarrow> rows_stay (cr_db s) (cr_db t)"
  by (induction rule: call_step.induct)
    (auto intro: rows_stay_admit rows_stay_commit rows_stay_reconciled simp: reject_call_def same_call_def)

definition replays_ok :: "call_run \<Rightarrow> bool" where
  "replays_ok s \<longleftrightarrow> (\<forall>k \<in> set (cr_replays s). \<exists>w \<in> set (bk_calls (cr_db s)). call_key w = k \<and> safe_read (bj_method w))"

lemma call_step_replays: "call_step s t \<Longrightarrow> replays_ok s \<Longrightarrow> replays_ok t"
proof -
  assume st: "call_step s t" and r: "replays_ok s"
  have "cr_replays t = cr_replays s \<or>
      (\<exists>w. w \<in> set (bk_calls (cr_db s)) \<and> safe_read (bj_method w) \<and> cr_replays t = call_key w # cr_replays s)"
    using st by cases auto
  then have "\<exists>w \<in> set (bk_calls (cr_db s)). call_key w = k \<and> safe_read (bj_method w)" if "k \<in> set (cr_replays t)" for k
    using r that unfolding replays_ok_def by auto
  with call_step_rows_stay [OF st] show "replays_ok t" unfolding replays_ok_def rows_stay_def by metis
qed

lemma call_runs_replays: "call_step\<^sup>*\<^sup>* s t \<Longrightarrow> replays_ok s \<Longrightarrow> replays_ok t"
  by (induction rule: rtranclp_induct) (auto intro: call_step_replays)

text \<open>How often a call and the reconciliations have reached a provider under an identity.\<close>

definition provider_sends :: "call_run \<Rightarrow> operation_ref \<times> string \<Rightarrow> nat" where
  "provider_sends s k = count_list (cr_sent s) k + count_list (cr_replays s) k"

lemma count_list_distinct: "distinct xs \<Longrightarrow> count_list xs x \<le> 1"
  by (induction xs) (auto simp: count_list_0_iff)

lemma effectful_sends:
  assumes "run_ok s" "replays_ok s" "w \<in> set (bk_calls (cr_db s))" "\<not> safe_read (bj_method w)"
  shows "provider_sends s (call_key w) \<le> 1"
proof -
  have "call_key w \<notin> set (cr_replays s)"
  proof
    assume "call_key w \<in> set (cr_replays s)"
    then obtain v where v: "v \<in> set (bk_calls (cr_db s))" "call_key v = call_key w" "safe_read (bj_method v)"
      using assms(2) unfolding replays_ok_def by blast
    then have "v = w" using key_unique [of "cr_db s" v w] assms(1,3) by (simp add: run_ok_def call_key_def)
    with v(3) assms(4) show False by simp
  qed
  moreover have "distinct (cr_sent s)" using assms(1) by (simp add: run_ok_def)
  ultimately show ?thesis using count_list_distinct [of "cr_sent s" "call_key w"]
    by (simp add: provider_sends_def count_list_0_iff)
qed

section \<open>Usage\<close>

definition limits :: "((broker_usage \<Rightarrow> int) \<times> (budget \<Rightarrow> int)) list" where
  "limits = [(us_model_requests, bu_model_requests), (us_input_tokens, bu_input_tokens),
     (us_output_tokens, bu_output_tokens), (us_child_operations, bu_child_operations),
     (us_artifact_bytes, bu_artifact_bytes)]"

definition counters :: "(broker_usage \<Rightarrow> int) set" where
  "counters = fst ` set limits"

lemma counters_simps:
  "(\<forall>g \<in> counters. P g) \<longleftrightarrow> P us_model_requests \<and> P us_input_tokens \<and> P us_output_tokens \<and>
     P us_child_operations \<and> P us_artifact_bytes"
  by (simp add: counters_def limits_def)

definition usage_ok :: "broker_usage \<Rightarrow> bool" where
  "usage_ok u \<longleftrightarrow> (\<forall>g \<in> counters. budget_counter (g u))"

lemma usage_plus_counters:
  "usage_plus a b = Inr c \<longleftrightarrow> (\<forall>g \<in> counters. g c = g a + g b) \<and> usage_ok c"
  by (cases c) (auto simp: usage_plus_def validate_broker_usage_def res_simps usage_ok_def counters_simps)

lemma usage_zero_counters [simp]: "g \<in> counters \<Longrightarrow> g usage_zero = 0"
  by (auto simp: counters_def limits_def usage_zero_def)

lemma usage_ok_zero [simp]: "usage_ok usage_zero"
  by (simp add: usage_ok_def budget_counter_def max_i64_def)

lemma usage_total_counters:
  "usage_total acc us = Inr c \<Longrightarrow> usage_ok acc \<Longrightarrow> usage_ok c \<and> (\<forall>g \<in> counters. g c = g acc + (\<Sum>u\<leftarrow>us. g u))"
proof (induction us arbitrary: acc)
  case (Cons u us)
  then obtain t where t: "usage_plus acc u = Inr t" "usage_total t us = Inr c" by (auto simp: res_simps)
  then have ok: "usage_ok t" and sums: "\<forall>g \<in> counters. g t = g acc + g u" by (simp_all add: usage_plus_counters)
  have "g c = g acc + (\<Sum>v\<leftarrow>u # us. g v)" if g: "g \<in> counters" for g
    using bspec [OF conjunct2 [OF Cons.IH [OF t(2) ok]] g] bspec [OF sums g] by simp
  with Cons.IH [OF t(2) ok] show ?case by blast
qed simp

lemma usage_total_exists:
  assumes "usage_ok acc" "\<forall>u \<in> set us. usage_ok u" "\<forall>g \<in> counters. g acc + (\<Sum>u\<leftarrow>us. g u) \<le> max_i64"
  shows "\<exists>c. usage_total acc us = Inr c"
  using assms
proof (induction us arbitrary: acc)
  case (Cons u us)
  let ?t = "\<lparr>us_model_requests = us_model_requests acc + us_model_requests u,
     us_input_tokens = us_input_tokens acc + us_input_tokens u,
     us_output_tokens = us_output_tokens acc + us_output_tokens u,
     us_child_operations = us_child_operations acc + us_child_operations u,
     us_artifact_bytes = us_artifact_bytes acc + us_artifact_bytes u\<rparr>"
  have sums: "\<forall>g \<in> counters. g ?t = g acc + g u" by (simp add: counters_simps)
  have "0 \<le> (\<Sum>u\<leftarrow>us. g u)" if "g \<in> counters" for g
    using Cons.prems(2) that by (intro sum_list_nonneg) (auto simp: usage_ok_def budget_counter_def)
  then have le: "g acc + g u \<le> max_i64" if "g \<in> counters" for g
    using Cons.prems(3) that by fastforce
  have "usage_ok ?t" unfolding usage_ok_def budget_counter_def
  proof (intro ballI conjI)
    fix g assume g: "g \<in> counters"
    show "0 \<le> g ?t" using Cons.prems(1,2) g bspec [OF sums g] by (simp add: usage_ok_def budget_counter_def)
    show "g ?t \<le> max_i64" using le [OF g] bspec [OF sums g] by simp
  qed
  moreover from this have "usage_plus acc u = Inr ?t" using sums by (simp add: usage_plus_counters)
  moreover have "g ?t + (\<Sum>v\<leftarrow>us. g v) \<le> max_i64" if g: "g \<in> counters" for g
    using bspec [OF Cons.prems(3) g] bspec [OF sums g] by simp
  ultimately show ?case using Cons.IH [of ?t] Cons.prems(2) by auto
qed simp

lemma exceeded_counters: "exceeded b u = [] \<longleftrightarrow> (\<forall>(g, h) \<in> set limits. g u \<le> h b)"
  by (auto simp: exceeded_def limits_def filter_empty_conv)

lemma assert_budget_Inr [simp]: "assert_budget b u = Inr x \<longleftrightarrow> exceeded b u = []"
  by (simp add: assert_budget_def Let_def)

text \<open>What the counted rows of an operation sum up to.\<close>

definition counted :: "operation_ref \<Rightarrow> (broker_usage \<Rightarrow> int) \<Rightarrow> call_row \<Rightarrow> int" where
  "counted i g w = (if bj_operation w = i \<and> bj_state w \<noteq> T_started then g (bj_usage w) else 0)"

definition spend :: "operation_ref \<Rightarrow> brk \<Rightarrow> (broker_usage \<Rightarrow> int) \<Rightarrow> int" where
  "spend i db g = (\<Sum>w\<leftarrow>bk_calls db. counted i g w)"

definition usages_ok :: "brk \<Rightarrow> bool" where
  "usages_ok db \<longleftrightarrow> (\<forall>w \<in> set (bk_calls db). usage_ok (bj_usage w))"

lemma spend_counted_usages: "(\<Sum>u\<leftarrow>counted_usages i db. g u) = spend i db g"
  by (simp add: counted_usages_def spend_def counted_def o_def sum_list_map_filter')

lemma spend_journal: "(\<Sum>u\<leftarrow>map bj_usage (sort_key bj_sequence
    (filter (\<lambda>w. bj_operation w = i \<and> bj_state w \<noteq> T_started) (bk_calls db))). g u) = spend i db g"
proof -
  have "(\<Sum>u\<leftarrow>map bj_usage (sort_key bj_sequence xs). g u) = (\<Sum>u\<leftarrow>map bj_usage xs. g u)" for xs
    by (simp add: o_def flip: sum_mset_sum_list)
  from this [of "filter (\<lambda>w. bj_operation w = i \<and> bj_state w \<noteq> T_started) (bk_calls db)"]
  show ?thesis unfolding spend_def counted_def by (simp only: map_map o_def sum_list_map_filter')
qed

lemma journal_usage_counters:
  assumes "journal_usage i db = Inr u" "g \<in> counters"
  shows "g u = spend i db g"
  using usage_total_counters [OF assms(1) [unfolded journal_usage_def]] assms(2) spend_journal [of g i db] by simp

lemma journal_usage_exists:
  assumes "usages_ok db" "\<forall>g \<in> counters. spend i db g \<le> max_i64"
  shows "\<exists>u. journal_usage i db = Inr u"
  unfolding journal_usage_def
proof (rule usage_total_exists)
  show "\<forall>g\<in>counters. g usage_zero + sum_list (map g (map bj_usage (sort_key bj_sequence
      (filter (\<lambda>w. bj_operation w = i \<and> bj_state w \<noteq> T_started) (bk_calls db))))) \<le> max_i64"
    using assms(2) unfolding spend_journal by simp
qed (use assms(1) in \<open>auto simp: usages_ok_def\<close>)

lemma sum_list_update_key:
  fixes g :: "'a \<Rightarrow> int"
  assumes "distinct (map k xs)" "w \<in> set xs"
  shows "(\<Sum>v\<leftarrow>map (\<lambda>v. if k v = k w then f v else v) xs. g v) = (\<Sum>v\<leftarrow>xs. g v) - g w + g (f w)"
  using assms
proof (induction xs)
  case (Cons x xs)
  show ?case
  proof (cases "x = w")
    case True
    then have "map (\<lambda>v. if k v = k w then f v else v) xs = xs" using Cons.prems
      by (intro map_idI) (metis distinct.simps(2) image_eqI list.set_map list.simps(9))
    then show ?thesis using True by simp
  next
    case False
    then have "k x \<noteq> k w" "w \<in> set xs" using Cons.prems by auto
    then show ?thesis using Cons by simp
  qed
qed simp

lemma spend_set_call:
  assumes "calls_ok db" "w \<in> set (bk_calls db)" "p w"
  shows "spend i (set_call (bj_operation w) (bj_sequence w) p f db) g = spend i db g - counted i g w + counted i g (f w)"
proof -
  have eq: "map (\<lambda>v. if bj_operation v = bj_operation w \<and> bj_sequence v = bj_sequence w \<and> p v then f v else v) (bk_calls db) =
    map (\<lambda>v. if call_seq v = call_seq w then f v else v) (bk_calls db)"
    using seq_unique [OF assms(1) _ assms(2)] assms(3) by (intro map_cong) (auto simp: call_seq_def)
  have "distinct (map call_seq (bk_calls db))" using assms(1) by (simp add: calls_ok_def)
  from sum_list_update_key [where g = "counted i g" and f = f, OF this assms(2)]
  show ?thesis unfolding spend_def bk_calls_set_call eq .
qed

section \<open>Single calls\<close>

lemma invoke_Inr:
  assumes "invoke c now1 now2 prov (db, p) = (Inr r, db', p')"
  obtains (replayed) "admit_call c now1 db = Inr (Replayed r, db)" "db' = db" "p' = p"
  | (returned) n cur db1 s u where "admit_call c now1 db = Inr (Admitted n cur, db1)" "prov p = (Inr s, p')"
    "r = se_response s" "db' = succeed_call c n s db1" "usage_plus cur (se_usage s) = Inr u"
    "exceeded (iv_budget c) u = []"
  using assms
  by (auto simp: invoke_def commit_call_def Let_def res_simps dest: admit_Replayed
      split: sum.split_asm prod.split_asm admitted.split_asm if_split_asm)

lemma spend_admit:
  assumes a: "admit_call c now db = Inr (Admitted n cur, db1)" and ok: "calls_ok db" "usages_ok db" and g: "g \<in> counters"
  shows "spend (iv_operation c) db1 g \<le> spend (iv_operation c) db g"
  using admit_Admitted(1) [OF a]
proof
  assume "find_call (iv_operation c) (iv_key c) db = None \<and> n = next_sequence (iv_operation c) db \<and>
    bk_calls db1 = bk_calls db @ [started_row c n] \<and> (\<forall>y \<in> set (bk_calls db). \<not> call_clash (started_row c n) y)"
  then have "bk_calls db1 = bk_calls db @ [started_row c n]" by blast
  then show ?thesis by (simp add: spend_def counted_def started_row_def)
next
  assume "\<exists>w. find_call (iv_operation c) (iv_key c) db = Some w \<and> bj_state w = T_rejected_before_send \<and>
      bj_sequence w = n \<and> bj_request_digest w = iv_digest c \<and> bj_response w = None \<and>
      db1 = set_call (iv_operation c) n (\<lambda>w. bj_state w = T_rejected_before_send) (restarted c) db"
  then obtain w where f: "find_call (iv_operation c) (iv_key c) db = Some w" and n: "bj_sequence w = n"
    and r: "bj_state w = T_rejected_before_send"
    and e: "db1 = set_call (iv_operation c) n (\<lambda>w. bj_state w = T_rejected_before_send) (restarted c) db"
    by blast
  note w = find_call_SomeD [OF f, THEN conjunct1] find_call_SomeD [OF f, THEN conjunct2, THEN conjunct1] n r
  from e have db1: "db1 = set_call (bj_operation w) (bj_sequence w) (\<lambda>w. bj_state w = T_rejected_before_send) (restarted c) db"
    unfolding w(2,3) .
  have "spend (iv_operation c) db1 g = spend (iv_operation c) db g - g (bj_usage w)"
    unfolding db1 using w by (subst spend_set_call [OF ok(1) w(1)]) (simp_all add: counted_def restarted_def)
  moreover have "0 \<le> g (bj_usage w)" using ok(2) w(1) g by (auto simp: usages_ok_def usage_ok_def budget_counter_def)
  ultimately show ?thesis by simp
qed

lemma returned_usage:
  assumes a: "admit_call c now db = Inr (Admitted n cur, db1)" and ok: "calls_ok db" "usages_ok db"
    and s: "usage_ok (se_usage s)" and u: "usage_plus cur (se_usage s) = Inr u" "exceeded (iv_budget c) u = []"
    and db': "db' = succeed_call c n s db1"
  shows "calls_ok db'" "usages_ok db'"
    "\<exists>t. journal_usage (iv_operation c) db' = Inr t \<and> exceeded (iv_budget c) t = []"
proof -
  let ?i = "iv_operation c"
  obtain w where w: "bj_operation w = ?i" "bj_sequence w = n" "bj_state w = T_started"
    and rows: "set (bk_calls db1) = insert w {v \<in> set (bk_calls db). \<not> (bj_operation v = ?i \<and> bj_sequence v = n)}"
    by (rule admit_row [OF a ok(1)]) (rule that)
  have ok1: "calls_ok db1" using a ok(1) by (rule admit_calls_ok)
  then show ok': "calls_ok db'" unfolding db' succeed_call_def
    by (rule calls_ok_set_call) (simp add: same_call_def)
  show uok: "usages_ok db'" unfolding usages_ok_def db' succeed_call_def
  proof
    fix v assume "v \<in> set (bk_calls (set_call ?i n (\<lambda>_. True) (\<lambda>w. w\<lparr>bj_state := T_succeeded,
      bj_response_digest := Some (json_digest (response_json (se_response s))),
      bj_response := Some (se_response s), bj_usage := se_usage s\<rparr>) db1))"
    then obtain x where "x \<in> set (bk_calls db1)"
      "v = (if bj_operation x = ?i \<and> bj_sequence x = n \<and> True then x\<lparr>bj_state := T_succeeded,
      bj_response_digest := Some (json_digest (response_json (se_response s))),
      bj_response := Some (se_response s), bj_usage := se_usage s\<rparr> else x)"
      unfolding set_call_rows by blast
    then show "usage_ok (bj_usage v)" using rows w ok(2) s by (auto simp: usages_ok_def split: if_split_asm)
  qed
  have cur: "g cur = spend ?i db g" if "g \<in> counters" for g
    using usage_total_counters [OF admit_Admitted(2) [OF a]] that spend_counted_usages [of g ?i db] by simp
  have le: "spend ?i db' g \<le> g u" if g: "g \<in> counters" for g
  proof -
    have "spend ?i db' g = spend ?i db1 g - counted ?i g w + g (se_usage s)"
      unfolding db' succeed_call_def using spend_set_call [OF ok1, of w] rows w
      by (simp add: counted_def)
    moreover have "g u = g cur + g (se_usage s)" using u(1) g by (auto simp: usage_plus_counters)
    ultimately show ?thesis using spend_admit [OF a ok g] cur [OF g] w by (simp add: counted_def)
  qed
  have "usage_ok u" using u(1) by (simp add: usage_plus_counters)
  then have "\<forall>g \<in> counters. spend ?i db' g \<le> max_i64"
    using le by (fastforce simp: usage_ok_def budget_counter_def)
  from journal_usage_exists [OF uok this] obtain t where t: "journal_usage ?i db' = Inr t" by blast
  moreover have "exceeded (iv_budget c) t = []" unfolding exceeded_counters
  proof (clarify)
    fix g h assume gh: "(g, h) \<in> set limits"
    then have g: "g \<in> counters" by (force simp: counters_def)
    have "g u \<le> h (iv_budget c)" using u(2) gh unfolding exceeded_counters by blast
    with le [OF g] journal_usage_counters [OF t g] show "g t \<le> h (iv_budget c)" by simp
  qed
  ultimately show "\<exists>t. journal_usage ?i db' = Inr t \<and> exceeded (iv_budget c) t = []" by blast
qed

section \<open>Finished calls\<close>

definition finished :: "call_row \<Rightarrow> bool" where
  "finished w \<longleftrightarrow> bj_state w = T_succeeded \<or> bj_state w = T_failed"

lemma set_call_other:
  "w \<in> set (bk_calls db) \<Longrightarrow> \<not> (bj_operation w = i \<and> bj_sequence w = n \<and> p w) \<Longrightarrow> w \<in> set (bk_calls (set_call i n p f db))"
  unfolding set_call_rows by (intro bexI [of _ w]) auto

lemma commit_other:
  assumes "w \<in> set (bk_calls db)" "\<not> (bj_operation w = iv_operation c \<and> bj_sequence w = n)"
  shows "w \<in> set (bk_calls (snd (commit_call c n cur out db)))"
proof -
  have q: "x \<in> set (bk_calls (fail_call c n code d))" "x \<in> set (bk_calls (quarantine_call c n code d))"
    "x \<in> set (bk_calls (succeed_call c n s d))" "x \<in> set (bk_calls (revoke_call c n e d))"
    if "x \<in> set (bk_calls d)" "\<not> (bj_operation x = iv_operation c \<and> bj_sequence x = n)" for x code s e d
    using that by (auto simp: fail_call_def quarantine_call_def succeed_call_def revoke_call_def intro!: set_call_other)
  have "w \<in> set (bk_calls (record_failure c n e db))" for e using assms by (cases e) (simp_all add: q)
  then show ?thesis using assms by (auto simp: commit_call_def Let_def q split: sum.splits)
qed

lemma invoke_steps:
  "fst (snd (invoke c now1 now2 prov (db, p))) =
     (case admit_call c now1 db of Inl e \<Rightarrow> db | Inr (Replayed r, db1) \<Rightarrow> db1
      | Inr (Admitted n cur, db1) \<Rightarrow>
          (case run_check c now2 of Inl e \<Rightarrow> reject_call c n e db1
           | Inr _ \<Rightarrow> snd (commit_call c n cur (fst (prov p)) db1)))"
  by (simp add: invoke_def Let_def split: sum.split prod.split admitted.split)

lemma invoke_calls_ok: "calls_ok db \<Longrightarrow> calls_ok (fst (snd (invoke c now1 now2 prov (db, p))))"
  unfolding invoke_steps
  by (auto split: sum.split prod.split admitted.split dest!: admit_calls_ok dest: admit_Replayed
      intro: keeps_sent_calls_ok [OF keeps_sent_commit]
      simp: reject_call_def same_call_def calls_ok_set_call)

text \<open>No call of the row's is under way: neither admitted and waiting nor at its provider.\<close>

definition none_under_way :: "call_run \<Rightarrow> call_row \<Rightarrow> bool" where
  "none_under_way s w \<longleftrightarrow> (\<forall>p \<in> set (cr_pending s) \<union> set (cr_flight s).
     \<not> (bj_operation w = iv_operation (fst p) \<and> bj_sequence w = fst (snd p)))"

definition at_rest :: "call_run \<Rightarrow> call_row \<Rightarrow> bool" where
  "at_rest s w \<longleftrightarrow> calls_ok (cr_db s) \<and> w \<in> set (bk_calls (cr_db s)) \<and> finished w \<and> none_under_way s w"

lemma at_restI: "calls_ok (cr_db s) \<Longrightarrow> w \<in> set (bk_calls (cr_db s)) \<Longrightarrow> finished w \<Longrightarrow> none_under_way s w \<Longrightarrow> at_rest s w"
  by (simp add: at_rest_def)

lemma fewer_under_way:
  "none_under_way s w \<Longrightarrow> set (cr_pending t) \<union> set (cr_flight t) \<subseteq> set (cr_pending s) \<union> set (cr_flight s) \<Longrightarrow> none_under_way t w"
  unfolding none_under_way_def by blast

lemma call_step_at_rest: "call_step s t \<Longrightarrow> at_rest s w \<Longrightarrow> at_rest t w"
proof (induction rule: call_step.induct)
  case (admitted c now s n cur db)
  note st = admitted(2) [unfolded at_rest_def]
  obtain x where rows: "set (bk_calls db) =
      insert x {v \<in> set (bk_calls (cr_db s)). \<not> (bj_operation v = iv_operation c \<and> bj_sequence v = n)}"
    and old: "\<forall>v \<in> set (bk_calls (cr_db s)). bj_operation v = iv_operation c \<and> (bj_sequence v = n \<or> bj_key v = iv_key c) \<longrightarrow>
     bj_state v = T_rejected_before_send \<and> bj_sequence v = n \<and> bj_key v = iv_key c"
    by (rule admit_row [OF admitted(1)]) (use st in blast)+
  have n: "\<not> (bj_operation w = iv_operation c \<and> bj_sequence w = n)"
  proof
    assume "bj_operation w = iv_operation c \<and> bj_sequence w = n"
    with old st have "bj_state w = T_rejected_before_send" by blast
    with st show False by (simp add: finished_def)
  qed
  then have "w \<in> set (bk_calls db)" using rows st by simp
  moreover have "calls_ok db" using admit_calls_ok [OF admitted(1)] st by blast
  ultimately show ?case using n st by (auto simp: at_rest_def none_under_way_def)
next
  case (rejected c n cur s now e)
  note st = rejected(3) [unfolded at_rest_def]
  have "\<not> (bj_operation w = iv_operation c \<and> bj_sequence w = n)"
    using st rejected(1) by (force simp: none_under_way_def)
  then have "w \<in> set (bk_calls (reject_call c n e (cr_db s)))"
    using st unfolding reject_call_def by (intro set_call_other) auto
  moreover have "calls_ok (reject_call c n e (cr_db s))"
    using st by (simp add: reject_call_def calls_ok_set_call same_call_def)
  moreover have "none_under_way (s\<lparr>cr_db := reject_call c n e (cr_db s), cr_pending := remove1 (c, n, cur) (cr_pending s)\<rparr>) w"
    using st by (rule_tac fewer_under_way [of s]) (use set_remove1_subset in fastforce)+
  ultimately show ?case using st by (intro at_restI) simp_all
next
  case (sent c n cur s now)
  note st = sent(3) [unfolded at_rest_def]
  have "none_under_way (s\<lparr>cr_pending := remove1 (c, n, cur) (cr_pending s), cr_flight := (c, n, cur) # cr_flight s,
      cr_sent := pending_key (c, n, cur) # cr_sent s\<rparr>) w"
    using st by (rule_tac fewer_under_way [of s]) (use sent(1) set_remove1_subset in fastforce)+
  then show ?case using st by (intro at_restI) simp_all
next
  case (committed c n cur s out)
  note st = committed(2) [unfolded at_rest_def]
  have "\<not> (bj_operation w = iv_operation c \<and> bj_sequence w = n)"
    using st committed(1) by (force simp: none_under_way_def)
  then have "w \<in> set (bk_calls (snd (commit_call c n cur out (cr_db s))))" using st commit_other by blast
  moreover have "calls_ok (snd (commit_call c n cur out (cr_db s)))"
    using st keeps_sent_calls_ok [OF keeps_sent_commit] by blast
  moreover have "none_under_way (s\<lparr>cr_db := snd (commit_call c n cur out (cr_db s)), cr_flight := remove1 (c, n, cur) (cr_flight s)\<rparr>) w"
    using st by (rule_tac fewer_under_way [of s]) (use set_remove1_subset in fastforce)+
  ultimately show ?case using st by (intro at_restI) simp_all
next
  case (lost s)
  then show ?case by (auto simp: at_rest_def none_under_way_def)
next
  case (resolved q response usage s rec db)
  have "w \<in> set (bk_calls db)" using resolved
    by (auto simp: at_rest_def resolve_started_call_def Let_def finished_def intro!: set_call_other
        split: option.split_asm if_split_asm)
  then show ?case using resolved(2) keeps_sent_calls_ok [OF keeps_sent_resolve [OF resolved(1)]]
    by (auto simp: at_rest_def none_under_way_def)
next
  case (unresolved q receipt usage s rec db)
  have "w \<in> set (bk_calls db)" using unresolved
    by (auto simp: at_rest_def record_unresolved_reconciliation_def Let_def finished_def intro!: set_call_other
        split: option.split_asm if_split_asm)
  then show ?case using unresolved(2) keeps_sent_calls_ok [OF keeps_sent_unresolved [OF unresolved(1)]]
    by (auto simp: at_rest_def none_under_way_def)
next
  case (replayed v s)
  then show ?case by (simp add: at_rest_def none_under_way_def)
qed

lemma call_runs_at_rest: "call_step\<^sup>*\<^sup>* s t \<Longrightarrow> at_rest s w \<Longrightarrow> at_rest t w"
  by (induction rule: rtranclp_induct) (auto intro: call_step_at_rest)

text \<open>
  The commit of a call that is still at its provider has no guard on the state of its row: it
  rewrites a row that a reconciliation has finished in the meantime.
\<close>

lemma late_commit_overwrites_finished_call:
  assumes "(c, n, cur) \<in> set (cr_flight s)" "w \<in> set (bk_calls (cr_db s))" "bj_state w = T_succeeded"
    and "bj_operation w = iv_operation c" "bj_sequence w = n"
  shows "\<exists>t w'. call_step s t \<and> w' \<in> set (bk_calls (cr_db t)) \<and> call_key w' = call_key w \<and>
    bj_state w' = T_failed \<and> bj_response w' = bj_response w \<and> bj_usage w' = usage_zero"
proof -
  let ?e = "RuntimeFailure ''late failure''"
  let ?t = "s\<lparr>cr_db := snd (commit_call c n cur (Inl ?e) (cr_db s)), cr_flight := remove1 (c, n, cur) (cr_flight s)\<rparr>"
  let ?w = "w\<lparr>bj_state := T_failed, bj_failure_code := Some (exn_name ?e), bj_usage := usage_zero\<rparr>"
  have "call_step s ?t" using assms(1) by (rule call_step.committed)
  moreover have "?w \<in> set (bk_calls (cr_db ?t))"
    using assms(2,4,5) by (auto simp: commit_call_def fail_call_def set_call_rows intro!: bexI [of _ w])
  ultimately show ?thesis by (intro exI [of _ ?t] exI [of _ ?w]) (simp add: call_key_def)
qed

lemma find_call_unique:
  assumes "calls_ok db" "w \<in> set (bk_calls db)"
  shows "find_call (bj_operation w) (bj_key w) db = Some w"
proof (cases "find_call (bj_operation w) (bj_key w) db")
  case None
  then show ?thesis using find_call_None [OF None assms(2)] by simp
next
  case (Some x)
  then show ?thesis using find_call_SomeD [OF Some] key_unique [OF assms(1)] assms(2) by metis
qed

text \<open>A call whose identity has finished: no state changes, nothing is sent.\<close>

lemma invoke_repeated:
  assumes ok: "calls_ok db" and w: "w \<in> set (bk_calls db)" "finished w"
    and c: "iv_operation c = bj_operation w" "iv_key c = bj_key w"
  shows "snd (invoke c now1 now2 prov (db, p)) = (db, p)"
    and "invoke c now1 now2 prov (db, p) = (Inr r, db, p) \<Longrightarrow>
      bj_state w = T_succeeded \<and> bj_response w = Some r \<and> bj_request_digest w = iv_digest c"
proof -
  have f: "find_call (iv_operation c) (iv_key c) db = Some w" unfolding c using find_call_unique [OF ok w(1)] .
  have no: "admit_call c now1 db \<noteq> Inr (Admitted n cur, db1)" for n cur db1
    using admit_Admitted(1) [of c now1 db n cur db1] f w(2) by (auto simp: finished_def)
  then show "snd (invoke c now1 now2 prov (db, p)) = (db, p)"
    by (auto simp: invoke_def Let_def dest: admit_Replayed split: sum.split prod.split admitted.split)
  show "bj_state w = T_succeeded \<and> bj_response w = Some r \<and> bj_request_digest w = iv_digest c"
    if "invoke c now1 now2 prov (db, p) = (Inr r, db, p)"
    using that no f by (auto simp: invoke_def Let_def dest!: admit_Replayed split: sum.split_asm prod.split_asm admitted.split_asm)
qed

lemma invoke_stored:
  assumes ok: "calls_ok db" and w: "w \<in> set (bk_calls db)"
    and c: "iv_operation c = bj_operation w" "iv_key c = bj_key w"
    and chk: "run_check c now1 = Inr ()" "check_control c db = Inr ()"
  shows "iv_digest c \<noteq> bj_request_digest w \<Longrightarrow> fst (invoke c now1 now2 prov (db, p)) =
      Inl (BrokerCallConflict ''broker idempotency key already binds different request bytes'')"
    and "iv_digest c = bj_request_digest w \<Longrightarrow> bj_state w = T_succeeded \<Longrightarrow> bj_response w = Some r \<Longrightarrow>
      response_model r = iv_response_model c \<Longrightarrow> bj_response_digest w = Some (json_digest (response_json r)) \<Longrightarrow>
      fst (invoke c now1 now2 prov (db, p)) = Inr r"
    and "iv_digest c = bj_request_digest w \<Longrightarrow> bj_state w = T_failed \<Longrightarrow> fst (invoke c now1 now2 prov (db, p)) =
      Inl (BrokerCallIndeterminate ''broker call has no authoritative terminal receipt'')"
proof -
  have f: "find_call (iv_operation c) (iv_key c) db = Some w" unfolding c using find_call_unique [OF ok w] .
  note defs = invoke_def admit_call_def prior_call_def f chk Let_def
  show "iv_digest c \<noteq> bj_request_digest w \<Longrightarrow> fst (invoke c now1 now2 prov (db, p)) =
      Inl (BrokerCallConflict ''broker idempotency key already binds different request bytes'')"
    by (simp add: defs)
  show "iv_digest c = bj_request_digest w \<Longrightarrow> bj_state w = T_succeeded \<Longrightarrow> bj_response w = Some r \<Longrightarrow>
      response_model r = iv_response_model c \<Longrightarrow> bj_response_digest w = Some (json_digest (response_json r)) \<Longrightarrow>
      fst (invoke c now1 now2 prov (db, p)) = Inr r"
    by (simp add: defs)
  show "iv_digest c = bj_request_digest w \<Longrightarrow> bj_state w = T_failed \<Longrightarrow> fst (invoke c now1 now2 prov (db, p)) =
      Inl (BrokerCallIndeterminate ''broker call has no authoritative terminal receipt'')"
    by (simp add: defs)
qed

section \<open>A call is a run of steps\<close>

lemma invoke_run:
  fixes s :: call_run
  assumes a: "admit_call c now1 (cr_db s) = Inr (Admitted n cur, db1)" and chk: "run_check c now2 = Inr ()"
  shows "\<exists>t. call_step\<^sup>*\<^sup>* s t \<and> cr_db t = snd (commit_call c n cur out db1) \<and> cr_pending t = cr_pending s \<and>
    cr_flight t = cr_flight s \<and> cr_sent t = (iv_operation c, iv_key c) # cr_sent s \<and> cr_replays t = cr_replays s"
proof -
  let ?p = "(c, n, cur)"
  let ?s1 = "s\<lparr>cr_db := db1, cr_pending := ?p # cr_pending s\<rparr>"
  let ?s2 = "?s1\<lparr>cr_pending := remove1 ?p (cr_pending ?s1), cr_flight := ?p # cr_flight ?s1,
    cr_sent := pending_key ?p # cr_sent ?s1\<rparr>"
  let ?s3 = "?s2\<lparr>cr_db := snd (commit_call c n cur out (cr_db ?s2)), cr_flight := remove1 ?p (cr_flight ?s2)\<rparr>"
  have "call_step s ?s1" using a by (rule call_step.admitted)
  moreover have "call_step ?s1 ?s2" by (rule call_step.sent [OF _ chk]) simp
  moreover have "call_step ?s2 ?s3" by (rule call_step.committed) simp
  ultimately have "call_step\<^sup>*\<^sup>* s ?s3"
    by (rule converse_rtranclp_into_rtranclp [OF _ converse_rtranclp_into_rtranclp [OF _ r_into_rtranclp]])
  then show ?thesis by (rule exI [of _ ?s3, OF conjI]) (simp add: pending_key_def)
qed

lemma refused_run:
  fixes s :: call_run
  assumes a: "admit_call c now1 (cr_db s) = Inr (Admitted n cur, db1)" and chk: "run_check c now2 = Inl e"
  shows "\<exists>t. call_step\<^sup>*\<^sup>* s t \<and> cr_db t = reject_call c n e db1 \<and> cr_pending t = cr_pending s \<and>
    cr_flight t = cr_flight s \<and> cr_sent t = cr_sent s \<and> cr_replays t = cr_replays s"
proof -
  let ?p = "(c, n, cur)"
  let ?s1 = "s\<lparr>cr_db := db1, cr_pending := ?p # cr_pending s\<rparr>"
  let ?s2 = "?s1\<lparr>cr_db := reject_call c n e (cr_db ?s1), cr_pending := remove1 ?p (cr_pending ?s1)\<rparr>"
  have "call_step s ?s1" using a by (rule call_step.admitted)
  moreover have "call_step ?s1 ?s2" by (rule call_step.rejected [OF _ chk]) simp
  ultimately have "call_step\<^sup>*\<^sup>* s ?s2" by (rule converse_rtranclp_into_rtranclp [OF _ r_into_rtranclp])
  then show ?thesis by (rule exI [of _ ?s2, OF conjI]) simp
qed

text \<open>Every broker call is a run of the journal's steps: it ends with the table its steps leave, and the
  provider is either untouched and nothing is recorded as sent, or ran once and exactly this identity was sent.\<close>

lemma invoke_is_a_run:
  "\<exists>t. call_step\<^sup>*\<^sup>* s t \<and> cr_db t = fst (snd (invoke c now1 now2 prov (cr_db s, p))) \<and>
     cr_pending t = cr_pending s \<and> cr_flight t = cr_flight s \<and> cr_replays t = cr_replays s \<and>
     ((cr_sent t = cr_sent s \<and> snd (snd (invoke c now1 now2 prov (cr_db s, p))) = p) \<or>
      (cr_sent t = (iv_operation c, iv_key c) # cr_sent s \<and>
       snd (snd (invoke c now1 now2 prov (cr_db s, p))) = snd (prov p)))"
proof (cases "\<exists>n cur db1. admit_call c now1 (cr_db s) = Inr (Admitted n cur, db1)")
  case True
  then obtain n cur db1 where a: "admit_call c now1 (cr_db s) = Inr (Admitted n cur, db1)" by blast
  show ?thesis
  proof (cases "run_check c now2")
    case (Inl e)
    from refused_run [OF a Inl] show ?thesis using a Inl by (auto simp: invoke_def)
  next
    case (Inr u)
    then have chk: "run_check c now2 = Inr ()" by simp
    from invoke_run [OF a chk, of "fst (prov p)"] show ?thesis using a chk
      by (auto simp: invoke_def Let_def split: prod.split)
  qed
next
  case False
  then have "snd (invoke c now1 now2 prov (cr_db s, p)) = (cr_db s, p)"
    by (auto simp: invoke_def dest: admit_Replayed split: sum.split prod.split admitted.split)
  then show ?thesis by (intro exI [of _ s]) simp
qed

end
