(* ===== verification/Model_Journal.thy ===== *)
theory Model_Journal
  imports Broker_Models Registry_State
begin

text \<open>
  Model routing and the durable journal of model calls (\<open>src/aar/runtime/model_broker.py\<close>):
  the static registry that lends a driver only to the exact bound profile, the journal that
  records an execution before it is sent and its terminal response before it is visible, and
  the reference driver. Drivers are parameters: functions on a provider state.
\<close>

section \<open>Responses\<close>

record model_response =
  ms_output_text :: string
  ms_route_receipt :: route_receipt
  ms_usage :: model_usage

definition model_usage_json :: "model_usage \<Rightarrow> json" where
  "model_usage_json u = JObj
     [(''schema_version'', JStr ''aar.model-usage.v1''),
      (''accounting_source'', JStr (accounting_wire (mu_accounting_source u))),
      (''input_tokens'', JInt (mu_input_tokens u)), (''output_tokens'', JInt (mu_output_tokens u)),
      (''cache_read_tokens'', opt_json JInt (mu_cache_read_tokens u)),
      (''cache_write_tokens'', opt_json JInt (mu_cache_write_tokens u)),
      (''reasoning_tokens'', opt_json JInt (mu_reasoning_tokens u)),
      (''total_tokens'', JInt (mu_total_tokens u)), (''retry_ordinal'', JInt (mu_retry_ordinal u)),
      (''wasted'', JBool (mu_wasted u))]"

definition route_receipt_json :: "route_receipt \<Rightarrow> json" where
  "route_receipt_json r = JObj
     [(''schema_version'', JStr ''aar.model-response.v1''),
      (''requested'', binding_json (mr_requested r)), (''effective'', effective_json (mr_effective r)),
      (''finish_reason'', JStr (mr_finish_reason r)),
      (''provider_response_id'', opt_json JStr (mr_provider_response_id r)),
      (''fallback_chain'', JArr (map effective_json (mr_fallback_chain r))),
      (''lookup_supported'', JBool (mr_lookup_supported r)),
      (''receipt_digest'', JStr (mr_receipt_digest r))]"

definition model_response_json :: "model_response \<Rightarrow> json" where
  "model_response_json r = JObj
     [(''schema_version'', JStr ''aar.model-response.v1''), (''output_text'', JStr (ms_output_text r)),
      (''route_receipt'', route_receipt_json (ms_route_receipt r)),
      (''usage'', model_usage_json (ms_usage r))]"

definition validate_model_response :: "model_response \<Rightarrow> model_response res" where
  "validate_model_response r =
     and_then (validate_model_route_binding (mr_requested (ms_route_receipt r))) (\<lambda>_.
     and_then (validate_effective_route (mr_effective (ms_route_receipt r))) (\<lambda>_.
     and_then (traverse validate_effective_route (mr_fallback_chain (ms_route_receipt r))) (\<lambda>_.
     and_then (validate_route_receipt (ms_route_receipt r)) (\<lambda>_.
     and_then (validate_model_usage (ms_usage r)) (\<lambda>_.
     validated (length (ms_output_text r) \<le> 1048576) [] r)))))"

record broker_context =
  bx_parent_operation :: operation_ref
  bx_grant_id :: string
  bx_deadline :: int
  bx_key :: string

section \<open>The static registry of drivers\<close>

text \<open>
  A driver is its identity and its three methods on the provider state \<open>'s\<close>. The registry's
  two flags are \<open>_closing\<close> and \<open>_closed\<close>.
\<close>

record 's model_driver =
  md_id :: nat
  md_request :: "string \<Rightarrow> broker_context \<Rightarrow> model_route_binding \<Rightarrow> 's \<Rightarrow> model_response res \<times> 's"
  md_reconcile :: "string \<Rightarrow> broker_context \<Rightarrow> model_route_binding \<Rightarrow> 's \<Rightarrow> model_response option res \<times> 's"
  md_close :: "'s \<Rightarrow> unit res \<times> 's"

record 's static_registry =
  sr_catalog :: model_route_catalog
  sr_drivers :: "(string \<times> 's model_driver) list"
  sr_closing :: bool
  sr_closed :: bool
  sr_closed_ids :: "nat list"

definition static_registry_new ::
    "model_route_catalog \<Rightarrow> (string \<times> 's model_driver) list \<Rightarrow> 's static_registry res" where
  "static_registry_new catalog drivers =
     (if set (map fst drivers) \<noteq> set (map mp_profile_id (mc_profiles catalog)) then
        Inl (ValueError ''model broker mapping must exactly cover the route catalog'')
      else Inr \<lparr>sr_catalog = catalog, sr_drivers = drivers, sr_closing = False, sr_closed = False,
                sr_closed_ids = []\<rparr>)"

definition static_bind :: "'s static_registry \<Rightarrow> string \<Rightarrow> model_route_binding res" where
  "static_bind reg profile_id =
     (if sr_closing reg \<or> sr_closed reg then Inl (ModelBrokerError ''model broker registry is closed'')
      else case fetchone (\<lambda>p. mp_profile_id p = profile_id) (mc_profiles (sr_catalog reg)) of
        None \<Rightarrow> Inl (ModelRouteNotFound profile_id)
      | Some profile \<Rightarrow> binding_issue (sr_catalog reg) profile)"

definition static_resolve :: "'s static_registry \<Rightarrow> model_route_binding \<Rightarrow> 's model_driver res" where
  "static_resolve reg binding =
     (if sr_closing reg \<or> sr_closed reg then Inl (ModelBrokerError ''model broker registry is closed'')
      else if mb_catalog_digest binding \<noteq> mc_catalog_digest (sr_catalog reg) then
        Inl (ModelRouteBindingStale ''model route catalog digest changed'')
      else and_then (static_bind reg (mb_profile_id binding)) (\<lambda>current.
        if current \<noteq> binding then Inl (ModelRouteBindingStale ''model route profile digest changed'')
        else case map_of (sr_drivers reg) (mb_profile_id binding) of
          None \<Rightarrow> Inl (KeyError (mb_profile_id binding))
        | Some driver \<Rightarrow> Inr driver))"

fun sanitized_request :: "exn \<Rightarrow> exn" where
  "sanitized_request (ModelProviderOutcomeUnknown m) =
     ModelProviderOutcomeUnknown ''model provider outcome is unknown; receipt lookup is required''"
| "sanitized_request (ModelProviderFailure m) = ModelProviderFailure ''model provider call failed''"
| "sanitized_request (ModelRouteDrift m) = ModelRouteDrift ''model provider route receipt drifted''"
| "sanitized_request e = e"

fun sanitized_lookup :: "exn \<Rightarrow> exn" where
  "sanitized_lookup (ModelReceiptLookupUnavailable m) =
     ModelReceiptLookupUnavailable ''model provider receipt lookup is unavailable''"
| "sanitized_lookup (ModelReceiptLookupFailed m) =
     ModelReceiptLookupFailed ''model provider receipt lookup failed''"
| "sanitized_lookup (ModelRouteDrift m) = ModelRouteDrift ''model provider route receipt drifted''"
| "sanitized_lookup e = e"

definition static_request ::
    "'s static_registry \<Rightarrow> model_route_binding \<Rightarrow> string \<Rightarrow> broker_context \<Rightarrow> 's \<Rightarrow> model_response res \<times> 's" where
  "static_request reg binding prompt context s =
     (case static_resolve reg binding of Inl e \<Rightarrow> (Inl e, s)
      | Inr driver \<Rightarrow>
        (case md_request driver prompt context binding s of
           (Inl e, s1) \<Rightarrow> (Inl (sanitized_request e), s1)
         | (Inr r, s1) \<Rightarrow>
             if mr_requested (ms_route_receipt r) \<noteq> binding then
               (Inl (ModelRouteDrift ''model response does not attest the exact bound route''), s1)
             else (Inr r, s1)))"

definition static_reconcile ::
    "'s static_registry \<Rightarrow> model_route_binding \<Rightarrow> string \<Rightarrow> broker_context \<Rightarrow> 's
     \<Rightarrow> model_response option res \<times> 's" where
  "static_reconcile reg binding prompt context s =
     (case static_resolve reg binding of Inl e \<Rightarrow> (Inl e, s)
      | Inr driver \<Rightarrow>
        (case md_reconcile driver prompt context binding s of
           (Inl e, s1) \<Rightarrow> (Inl (sanitized_lookup e), s1)
         | (Inr None, s1) \<Rightarrow> (Inr None, s1)
         | (Inr (Some r), s1) \<Rightarrow>
             if mr_requested (ms_route_receipt r) \<noteq> binding then
               (Inl (ModelRouteDrift ''recovered model response does not attest the exact bound route''), s1)
             else (Inr (Some r), s1)))"

fun close_drivers :: "'s model_driver list \<Rightarrow> nat list \<Rightarrow> 's \<Rightarrow> unit res \<times> nat list \<times> 's" where
  "close_drivers [] ids s = (Inr (), ids, s)"
| "close_drivers (d # ds) ids s =
     (if md_id d \<in> set ids then close_drivers ds ids s
      else case md_close d s of
        (Inl e, s1) \<Rightarrow> (Inl e, ids, s1)
      | (Inr _, s1) \<Rightarrow> close_drivers ds (md_id d # ids) s1)"

definition static_close :: "'s static_registry \<Rightarrow> 's \<Rightarrow> unit res \<times> 's static_registry \<times> 's" where
  "static_close reg s =
     (if sr_closed reg then (Inr (), reg, s)
      else let (result, ids, s1) = close_drivers (map snd (sr_drivers reg)) (sr_closed_ids reg) s
           in (result, reg\<lparr>sr_closing := True, sr_closed := (case result of Inl _ \<Rightarrow> False | Inr _ \<Rightarrow> True),
                 sr_closed_ids := ids\<rparr>, s1))"

section \<open>The journal\<close>

datatype execution_state =
    X_send_started | X_route_drift | X_indeterminate | X_failed_certain | X_terminal_receipt
  | X_result_committed | X_lookup_unavailable | X_lookup_failed | X_receipt_invalid

fun execution_wire :: "execution_state \<Rightarrow> string" where
  "execution_wire X_send_started = ''provider_send_started''"
| "execution_wire X_route_drift = ''route_drift_quarantined''"
| "execution_wire X_indeterminate = ''provider_call_indeterminate''"
| "execution_wire X_failed_certain = ''provider_failed_certain''"
| "execution_wire X_terminal_receipt = ''provider_terminal_receipt''"
| "execution_wire X_result_committed = ''result_committed''"
| "execution_wire X_lookup_unavailable = ''receipt_lookup_unavailable_quarantined''"
| "execution_wire X_lookup_failed = ''receipt_lookup_failed_quarantined''"
| "execution_wire X_receipt_invalid = ''receipt_invalid_quarantined''"

text \<open>
  The request column holds the prompt, the only variable part of a \<open>ModelRequest\<close>; of a
  route row only the binding is ever read.
\<close>

record route_row =
  ro_operation :: operation_ref
  ro_binding :: model_route_binding

record model_execution =
  mx_operation :: operation_ref
  mx_key :: string
  mx_request_digest :: string
  mx_prompt :: string
  mx_binding :: model_route_binding
  mx_state :: execution_state
  mx_response_digest :: "string option"
  mx_response :: "model_response option"
  mx_usage :: "model_usage option"
  mx_failure_code :: "string option"

record mjr =
  mj_bindings :: "route_row tbl"
  mj_executions :: "model_execution tbl"

definition find_execution :: "operation_ref \<Rightarrow> string \<Rightarrow> mjr \<Rightarrow> model_execution option" where
  "find_execution i k db = fetchone (\<lambda>x. mx_operation x = i \<and> mx_key x = k) (mj_executions db)"

definition set_execution ::
    "operation_ref \<Rightarrow> string \<Rightarrow> (model_execution \<Rightarrow> bool) \<Rightarrow> (model_execution \<Rightarrow> model_execution) \<Rightarrow> mjr \<Rightarrow> mjr" where
  "set_execution i k p f db = db\<lparr>mj_executions :=
     update_rows (\<lambda>x. mx_operation x = i \<and> mx_key x = k \<and> p x) f (mj_executions db)\<rparr>"

definition bind_operation ::
    "operation_ref \<Rightarrow> model_route_binding \<Rightarrow> mjr \<Rightarrow> (model_route_binding \<times> mjr) res" where
  "bind_operation i binding db =
     (case fetchone (\<lambda>r. ro_operation r = i) (mj_bindings db) of
        Some row \<Rightarrow> and_then (validate_model_route_binding (ro_binding row)) (\<lambda>existing.
          if existing \<noteq> binding then
            Inl (ModelRouteBindingStale ''operation already binds different model route bytes'')
          else Inr (existing, db))
      | None \<Rightarrow> Inr (binding, db\<lparr>mj_bindings := mj_bindings db @ [\<lparr>ro_operation = i, ro_binding = binding\<rparr>]\<rparr>))"

definition journal_binding :: "operation_ref \<Rightarrow> mjr \<Rightarrow> model_route_binding res" where
  "journal_binding i db =
     (case fetchone (\<lambda>r. ro_operation r = i) (mj_bindings db) of
        None \<Rightarrow> Inl (ModelRouteNotFound (''operation has no bound model route: '' @ operation_value i))
      | Some row \<Rightarrow> validate_model_route_binding (ro_binding row))"

definition validated_response :: "model_route_binding \<Rightarrow> model_execution \<Rightarrow> model_response res" where
  "validated_response expected x =
     (case mx_response x of
        None \<Rightarrow> Inl (ModelCallIndeterminate ''model result state has no response bytes'')
      | Some stored \<Rightarrow> and_then (validate_model_response stored) (\<lambda>r.
          if mx_response_digest x \<noteq> Some (json_digest (model_response_json r)) then
            Inl (ModelRouteDrift ''stored model response digest mismatch'')
          else if mx_binding x \<noteq> expected then
            Inl (ModelRouteDrift ''stored model execution binding differs from operation authority'')
          else if mr_requested (ms_route_receipt r) \<noteq> expected then
            Inl (ModelRouteDrift ''stored model response binds a different route authority'')
          else case mx_usage x of
            None \<Rightarrow> Inl (ModelRouteDrift ''stored model response has no usage projection'')
          | Some u \<Rightarrow> and_then (validate_model_usage u) (\<lambda>usage.
              if usage \<noteq> ms_usage r then
                Inl (ModelRouteDrift ''stored model usage projection differs from response evidence'')
              else Inr r)))"

section \<open>Calls\<close>

definition prompt_digest :: "string \<Rightarrow> string" where
  "prompt_digest prompt = json_digest (model_request_json prompt)"

definition started_execution ::
    "operation_ref \<Rightarrow> string \<Rightarrow> string \<Rightarrow> model_route_binding \<Rightarrow> model_execution" where
  "started_execution i key prompt binding = \<lparr>mx_operation = i, mx_key = key,
     mx_request_digest = prompt_digest prompt, mx_prompt = prompt, mx_binding = binding,
     mx_state = X_send_started, mx_response_digest = None, mx_response = None, mx_usage = None,
     mx_failure_code = None\<rparr>"

text \<open>The first transaction: the stored response, or the intent to send.\<close>

definition begin_execution ::
    "operation_ref \<Rightarrow> string \<Rightarrow> string \<Rightarrow> model_route_binding \<Rightarrow> mjr \<Rightarrow> (model_response option \<times> mjr) res" where
  "begin_execution i key prompt binding db =
     (case find_execution i key db of
        Some x \<Rightarrow>
          if mx_request_digest x \<noteq> prompt_digest prompt \<or> mx_prompt x \<noteq> prompt \<or> mx_binding x \<noteq> binding then
            Inl (ModelRouteBindingStale ''model idempotency identity binds different request or route bytes'')
          else if mx_state x \<noteq> X_result_committed \<or> mx_response x = None then
            Inl (ModelCallIndeterminate ''model call has no authoritative terminal response'')
          else and_then (validated_response binding x) (\<lambda>r. Inr (Some r, db))
      | None \<Rightarrow> Inr (None, db\<lparr>mj_executions := mj_executions db @ [started_execution i key prompt binding]\<rparr>))"

text \<open>
  The handlers of a provider failure, in their order: the state the execution is left in and
  the exception raised. A process loss is not handled.
\<close>

definition failed_execution :: "exn \<Rightarrow> execution_state option \<times> exn" where
  "failed_execution e =
     (if e = SimulatedRlmProcessLoss then (None, e)
      else case e of
        ModelRouteDrift m \<Rightarrow> (Some X_route_drift, e)
      | ModelProviderOutcomeUnknown m \<Rightarrow> (Some X_indeterminate,
          ModelCallIndeterminate ''provider call outcome is unknown; receipt lookup is required'')
      | ModelProviderFailure m \<Rightarrow> (Some X_failed_certain, ModelProviderFailure ''model provider call failed'')
      | _ \<Rightarrow> if is_model_error e then (Some X_failed_certain, e)
             else (Some X_failed_certain, ModelProviderFailure ''model provider call failed''))"

definition fail_execution :: "operation_ref \<Rightarrow> string \<Rightarrow> exn \<Rightarrow> mjr \<Rightarrow> mjr" where
  "fail_execution i key e db =
     (case fst (failed_execution e) of None \<Rightarrow> db
      | Some st \<Rightarrow> set_execution i key (\<lambda>_. True)
          (\<lambda>x. x\<lparr>mx_state := st, mx_failure_code := Some (exn_name e)\<rparr>) db)"

text \<open>The receipt is durable first, the result visible second; each in its own transaction.\<close>

definition receipt_execution :: "operation_ref \<Rightarrow> string \<Rightarrow> model_response \<Rightarrow> mjr \<Rightarrow> mjr res" where
  "receipt_execution i key r db =
     (if rowcount (\<lambda>x. mx_operation x = i \<and> mx_key x = key \<and> mx_state x = X_send_started)
           (mj_executions db) \<noteq> 1
      then Inl (ModelCallIndeterminate ''model execution changed before terminal receipt commit'')
      else Inr (set_execution i key (\<lambda>x. mx_state x = X_send_started)
        (\<lambda>x. x\<lparr>mx_state := X_terminal_receipt,
               mx_response_digest := Some (json_digest (model_response_json r)), mx_response := Some r,
               mx_usage := Some (ms_usage r), mx_failure_code := None\<rparr>) db))"

definition commit_execution :: "operation_ref \<Rightarrow> string \<Rightarrow> mjr \<Rightarrow> mjr res" where
  "commit_execution i key db =
     (if rowcount (\<lambda>x. mx_operation x = i \<and> mx_key x = key \<and> mx_state x = X_terminal_receipt)
           (mj_executions db) \<noteq> 1
      then Inl (ModelCallIndeterminate ''model execution changed before result commit'')
      else Inr (set_execution i key (\<lambda>x. mx_state x = X_terminal_receipt)
        (\<lambda>x. x\<lparr>mx_state := X_result_committed\<rparr>) db))"

definition finish_execution ::
    "operation_ref \<Rightarrow> string \<Rightarrow> model_response res \<Rightarrow> mjr \<Rightarrow> model_response res \<times> mjr" where
  "finish_execution i key out db =
     (case out of
        Inl e \<Rightarrow> (Inl (snd (failed_execution e)), fail_execution i key e db)
      | Inr r \<Rightarrow>
        (case receipt_execution i key r db of Inl e \<Rightarrow> (Inl e, db)
         | Inr db1 \<Rightarrow>
           (case commit_execution i key db1 of Inl e \<Rightarrow> (Inl e, db1) | Inr db2 \<Rightarrow> (Inr r, db2))))"

definition model_invoke ::
    "(model_route_binding \<Rightarrow> string \<Rightarrow> broker_context \<Rightarrow> 's \<Rightarrow> model_response res \<times> 's) \<Rightarrow> operation_ref \<Rightarrow>
     string \<Rightarrow> broker_context \<Rightarrow> mjr \<times> 's \<Rightarrow> model_response res \<times> mjr \<times> 's" where
  "model_invoke request i prompt context st =
     (let (db, s) = st; key = bx_key context in
      case journal_binding i db of Inl e \<Rightarrow> (Inl e, db, s)
      | Inr binding \<Rightarrow>
        (case begin_execution i key prompt binding db of
           Inl e \<Rightarrow> (Inl e, db, s)
         | Inr (Some r, db1) \<Rightarrow> (Inr r, db1, s)
         | Inr (None, db1) \<Rightarrow>
             let (out, s1) = request binding prompt context s;
                 (result, db2) = finish_execution i key out db1
             in (result, db2, s1)))"

section \<open>Reconciliation\<close>

definition quarantine_execution ::
    "operation_ref \<Rightarrow> string \<Rightarrow> execution_state \<Rightarrow> string \<Rightarrow> mjr \<Rightarrow> mjr" where
  "quarantine_execution i key st code = set_execution i key (\<lambda>x. mx_state x \<noteq> X_result_committed)
     (\<lambda>x. x\<lparr>mx_state := st, mx_failure_code := Some code\<rparr>)"

text \<open>The handlers of a failed lookup: the quarantine, if any, and the exception raised.\<close>

definition failed_lookup :: "exn \<Rightarrow> (execution_state \<times> string) option \<times> exn" where
  "failed_lookup e =
     (case e of
        ModelReceiptLookupUnavailable m \<Rightarrow> (Some (X_lookup_unavailable, ''ModelReceiptLookupUnavailable''), e)
      | ModelReceiptLookupFailed m \<Rightarrow> (Some (X_lookup_failed, ''ModelReceiptLookupFailed''), e)
      | ModelRouteBindingStale m \<Rightarrow> (Some (X_route_drift, ''ModelRouteBindingStale''),
          ModelRouteDrift ''active model route catalog drifted from the durable binding'')
      | ModelRouteDrift m \<Rightarrow> (Some (X_route_drift, ''ModelRouteDrift''), e)
      | _ \<Rightarrow> if is_value_error e \<or> exn_name e = ''TypeError'' then
               (Some (X_receipt_invalid, exn_name e),
                ModelRouteDrift ''provider receipt lookup returned invalid evidence'')
             else (None, e))"

definition quarantine_lookup :: "operation_ref \<Rightarrow> string \<Rightarrow> exn \<Rightarrow> mjr \<Rightarrow> mjr" where
  "quarantine_lookup i key e db =
     (case fst (failed_lookup e) of None \<Rightarrow> db
      | Some (st, code) \<Rightarrow> quarantine_execution i key st code db)"

definition commit_receipt ::
    "operation_ref \<Rightarrow> string \<Rightarrow> model_route_binding \<Rightarrow> model_response \<Rightarrow> mjr \<Rightarrow> model_response res \<times> mjr" where
  "commit_receipt i key binding r db =
     (let p = (\<lambda>x. mx_operation x = i \<and> mx_key x = key \<and> mx_state x = X_terminal_receipt) in
      if rowcount p (mj_executions db) = 1 then
        (Inr r, set_execution i key (\<lambda>x. mx_state x = X_terminal_receipt)
           (\<lambda>x. x\<lparr>mx_state := X_result_committed\<rparr>) db)
      else case find_execution i key db of
        None \<Rightarrow> (Inl (ModelCallIndeterminate ''model receipt changed during local result recovery''), db)
      | Some current \<Rightarrow>
          if mx_state current \<noteq> X_result_committed then
            (Inl (ModelCallIndeterminate ''model receipt changed during local result recovery''), db)
          else (validated_response binding current, db))"

definition commit_lookup ::
    "operation_ref \<Rightarrow> string \<Rightarrow> model_route_binding \<Rightarrow> model_response \<Rightarrow> mjr \<Rightarrow> model_response res \<times> mjr" where
  "commit_lookup i key binding r db =
     (let open_state = (\<lambda>x. mx_state x \<in> {X_send_started, X_indeterminate}) in
      if rowcount (\<lambda>x. mx_operation x = i \<and> mx_key x = key \<and> open_state x) (mj_executions db) = 1 then
        (Inr r, set_execution i key open_state
           (\<lambda>x. x\<lparr>mx_state := X_result_committed,
                  mx_response_digest := Some (json_digest (model_response_json r)),
                  mx_response := Some r, mx_usage := Some (ms_usage r), mx_failure_code := None\<rparr>) db)
      else case find_execution i key db of
        None \<Rightarrow> (Inl (ModelCallIndeterminate ''model execution changed during result commit''), db)
      | Some current \<Rightarrow>
          if mx_state current \<noteq> X_result_committed then
            (Inl (ModelCallIndeterminate ''model execution changed during result commit''), db)
          else (and_then (validated_response binding current) (\<lambda>existing.
                  if existing \<noteq> r then
                    Inl (ModelRouteDrift ''recovered model response conflicts with committed result'')
                  else Inr existing), db))"

definition model_reconcile ::
    "(model_route_binding \<Rightarrow> string \<Rightarrow> broker_context \<Rightarrow> 's \<Rightarrow> model_response option res \<times> 's) \<Rightarrow> operation_ref \<Rightarrow>
     string \<Rightarrow> broker_context \<Rightarrow> mjr \<times> 's \<Rightarrow> model_response option res \<times> mjr \<times> 's" where
  "model_reconcile lookup i prompt context st =
     (let (db, s) = st; key = bx_key context in
      case journal_binding i db of Inl e \<Rightarrow> (Inl e, db, s)
      | Inr binding \<Rightarrow>
        (case find_execution i key db of
           None \<Rightarrow> (Inl (ModelCallIndeterminate ''model execution intent is unavailable''), db, s)
         | Some x \<Rightarrow>
           if mx_request_digest x \<noteq> prompt_digest prompt \<or> mx_prompt x \<noteq> prompt \<or> mx_binding x \<noteq> binding then
             (Inl (ModelRouteBindingStale
               ''model reconciliation identity binds different request or route bytes''), db, s)
           else if mx_state x = X_result_committed then
             (map_sum id Some (validated_response binding x), db, s)
           else if mx_state x = X_terminal_receipt then
             (case validated_response binding x of Inl e \<Rightarrow> (Inl e, db, s)
              | Inr r \<Rightarrow> let (result, db1) = commit_receipt i key binding r db
                         in (map_sum id Some result, db1, s))
           else if mx_state x \<notin> {X_send_started, X_indeterminate} then
             (Inl (ModelCallIndeterminate (''model execution is not lookup-reconcilable: '' @
                execution_wire (mx_state x))), db, s)
           else (case lookup binding prompt context s of
               (Inl e, s1) \<Rightarrow> (Inl (snd (failed_lookup e)), quarantine_lookup i key e db, s1)
             | (Inr None, s1) \<Rightarrow> (Inr None, db, s1)
             | (Inr (Some r), s1) \<Rightarrow> let (result, db1) = commit_lookup i key binding r db
                                  in (map_sum id Some result, db1, s1))))"

section \<open>Reading\<close>

definition committed_rows :: "operation_ref \<Rightarrow> mjr \<Rightarrow> model_execution list" where
  "committed_rows i db = filter (\<lambda>x. mx_operation x = i \<and> mx_state x = X_result_committed) (mj_executions db)"

definition usage_records :: "operation_ref \<Rightarrow> mjr \<Rightarrow> model_usage list res" where
  "usage_records i db = and_then (journal_binding i db) (\<lambda>binding.
     traverse (\<lambda>x. and_then (validated_response binding x) (\<lambda>r. Inr (ms_usage r)))
       (sort_key mx_key (committed_rows i db)))"

definition journal_response :: "operation_ref \<Rightarrow> int \<Rightarrow> mjr \<Rightarrow> model_response res" where
  "journal_response i ordinal db =
     (if ordinal < 0 then Inl (ValueError ''model response ordinal must be non-negative'')
      else and_then (journal_binding i db) (\<lambda>binding.
        case drop (nat ordinal) (committed_rows i db) of
          [] \<Rightarrow> Inl (ModelCallIndeterminate ''model response is not durably committed'')
        | x # _ \<Rightarrow>
            if mx_response x = None then Inl (ModelCallIndeterminate ''model response is not durably committed'')
            else validated_response binding x))"

section \<open>The reference driver\<close>

text \<open>\<open>len(text.split())\<close>: the number of maximal runs of characters that are not white space.\<close>

definition is_space :: "char \<Rightarrow> bool" where
  "is_space c \<longleftrightarrow> (let n = of_char c :: nat in
     (9 \<le> n \<and> n \<le> 13) \<or> (28 \<le> n \<and> n \<le> 32) \<or> n = 133 \<or> n = 160)"

fun word_count :: "bool \<Rightarrow> string \<Rightarrow> nat" where
  "word_count inside [] = 0"
| "word_count inside (c # cs) =
     (if is_space c then word_count False cs
      else (if inside then 0 else 1) + word_count True cs)"

definition token_units :: "string \<Rightarrow> int" where
  "token_units text = max 1 (int (word_count False text))"

definition reference_request ::
    "string \<Rightarrow> bool \<Rightarrow> string \<Rightarrow> broker_context \<Rightarrow> model_route_binding \<Rightarrow> model_response res" where
  "reference_request output_prefix closed prompt context binding =
     (if closed then Inl (ModelBrokerError ''reference model broker is closed'')
      else
        let digest = json_digest (JObj
              [(''prompt'', JStr prompt), (''parent'', JStr (operation_value (bx_parent_operation context))),
               (''grant'', JStr (bx_grant_id context)), (''route'', binding_json binding)]);
            hex = drop 7 digest;
            out = output_prefix @ '':'' @ take 16 hex
        in and_then (validate_effective_route \<lparr>em_provider_driver = mb_provider_driver binding,
             em_provider = mb_provider binding, em_model = mb_model binding,
             em_reasoning_effort = mb_reasoning_effort binding\<rparr>) (\<lambda>effective.
           and_then (route_receipt_issue binding effective ''stop'' (Some (''reference-'' @ take 24 hex)) [] False)
             (\<lambda>receipt.
           and_then (validate_model_usage \<lparr>mu_accounting_source = AS_reference,
             mu_input_tokens = token_units prompt, mu_output_tokens = token_units out,
             mu_cache_read_tokens = None, mu_cache_write_tokens = None, mu_reasoning_tokens = None,
             mu_total_tokens = token_units prompt + token_units out, mu_retry_ordinal = 0,
             mu_wasted = False\<rparr>) (\<lambda>usage.
           validate_model_response
             \<lparr>ms_output_text = out, ms_route_receipt = receipt, ms_usage = usage\<rparr>))))"

end
