(* ===== verification/Broker_Providers.thy ===== *)
theory Broker_Providers
  imports Broker_Calls Model_Journal
begin

text \<open>
  The deterministic providers of \<open>src/aar/runtime/brokers.py\<close>: the artifact store, the
  model, subagent and effect brokers and the evidence provider. A digest of a context binds
  every receipt to the calling operation and its grant.
\<close>

section \<open>Text and bytes\<close>

text \<open>\<open>str.lower\<close> on code points below 256.\<close>

definition lower_char :: "char \<Rightarrow> char" where
  "lower_char c = (let n = of_char c :: nat in
     if (65 \<le> n \<and> n \<le> 90) \<or> (192 \<le> n \<and> n \<le> 214) \<or> (216 \<le> n \<and> n \<le> 222) then char_of (n + 32) else c)"

definition contained :: "string \<Rightarrow> string \<Rightarrow> bool" where
  "contained t r \<longleftrightarrow> list_ex (\<lambda>n. take (length t) (drop n r) = t) [0..<length r + 1]"

definition base64_char :: "nat \<Rightarrow> char" where
  "base64_char n = (''ABCDEFGHIJKLMNOPQRSTUVWXYZabcdefghijklmnopqrstuvwxyz0123456789+/'') ! (n mod 64)"

fun base64 :: "8 word list \<Rightarrow> string" where
  "base64 [] = []"
| "base64 [a] = (let n = unat a * 16 in [base64_char (n div 64), base64_char n, CHR ''='', CHR ''=''])"
| "base64 [a, b] = (let n = (unat a * 256 + unat b) * 4 in
     [base64_char (n div 4096), base64_char (n div 64), base64_char n, CHR ''=''])"
| "base64 (a # b # c # bs) = (let n = unat a * 65536 + unat b * 256 + unat c in
     [base64_char (n div 262144), base64_char (n div 4096), base64_char (n div 64), base64_char n] @ base64 bs)"

definition content_digest :: "8 word list \<Rightarrow> string" where
  "content_digest bs = ''sha256:'' @ sha256_hex bs"

text \<open>\<open>digest.removeprefix('sha256:')\<close> of a digest.\<close>

definition digest_hex :: "string \<Rightarrow> string" where
  "digest_hex d = drop 7 d"

section \<open>Artifacts\<close>

type_synonym artifact_store = "(string \<times> 8 word list) list"

definition artifact_id :: "string \<Rightarrow> artifact_ref" where
  "artifact_id digest = ArtifactIdRef (''artifact-'' @ take 32 (digest_hex digest))"

definition put_artifact ::
    "8 word list \<Rightarrow> string \<Rightarrow> operation_ref \<Rightarrow> bool \<Rightarrow> artifact_store \<Rightarrow> artifact_reference res \<times> artifact_store" where
  "put_artifact content media created_by redacted store =
     (let digest = content_digest content;
          store1 = (if map_of store digest = None then store @ [(digest, content)] else store)
      in (validate_artifact_reference
            \<lparr>ar_artifact = artifact_id digest, ar_digest = digest, ar_media_type = media,
             ar_size_bytes = int (length content), ar_created_by = created_by, ar_redacted = redacted\<rparr>, store1))"

definition read_artifact :: "artifact_reference \<Rightarrow> artifact_store \<Rightarrow> 8 word list res" where
  "read_artifact r store =
     (case map_of store (ar_digest r) of
        None \<Rightarrow> Inl (KeyError (ar_digest r))
      | Some content \<Rightarrow>
          if int (length content) \<noteq> ar_size_bytes r then Inl (RuntimeFailure ''artifact size mismatch'')
          else if content_digest content \<noteq> ar_digest r then Inl (RuntimeFailure ''artifact digest mismatch'')
          else Inr content)"

definition lookup_artifact ::
    "put_request \<Rightarrow> operation_ref \<Rightarrow> artifact_store \<Rightarrow> artifact_reference option res" where
  "lookup_artifact q created_by store =
     and_then (validate_artifact_reference
       \<lparr>ar_artifact = artifact_id (ap_content_digest q), ar_digest = ap_content_digest q,
        ar_media_type = ap_media_type q, ar_size_bytes = ap_size_bytes q, ar_created_by = created_by,
        ar_redacted = ap_redacted q\<rparr>) (\<lambda>artifact.
     case read_artifact artifact store of
       Inl (KeyError k) \<Rightarrow> Inr None
     | Inl e \<Rightarrow> Inl e
     | Inr content \<Rightarrow> Inr (Some artifact))"

section \<open>Receipts\<close>

definition context_fields :: "broker_context \<Rightarrow> (string \<times> json) list" where
  "context_fields c =
     [(''parent'', JStr (operation_value (bx_parent_operation c))), (''grant'', JStr (bx_grant_id c))]"

definition fake_model_request :: "string \<Rightarrow> broker_context \<Rightarrow> broker_receipt" where
  "fake_model_request prompt c =
     (let digest = json_digest (JObj ((''prompt'', JStr prompt) # context_fields c))
      in \<lparr>br_kind = ''model'', br_handle = ''model-'' @ take 24 (digest_hex digest), br_digest = digest,
          br_value = ''deterministic:'' @ take 16 (digest_hex digest)\<rparr>)"

type_synonym child_store = "(string \<times> broker_receipt) list"

definition child_digest :: "string \<Rightarrow> broker_context \<Rightarrow> string" where
  "child_digest task c = json_digest (JObj ((''task'', JStr task) # context_fields c))"

definition child_handle :: "string \<Rightarrow> broker_context \<Rightarrow> string" where
  "child_handle task c = ''child-'' @ take 24 (digest_hex (child_digest task c))"

definition submit_child :: "string \<Rightarrow> broker_context \<Rightarrow> child_store \<Rightarrow> string \<times> child_store" where
  "submit_child task c store =
     (let handle = child_handle task c;
          receipt = \<lparr>br_kind = ''subagent'', br_handle = handle, br_digest = child_digest task c,
                     br_value = ''completed:'' @ task\<rparr>
      in (handle, if map_of store handle = None then store @ [(handle, receipt)] else store))"

definition lookup_submission :: "string \<Rightarrow> broker_context \<Rightarrow> child_store \<Rightarrow> string option" where
  "lookup_submission task c store =
     (let handle = child_handle task c in if map_of store handle = None then None else Some handle)"

definition child_result :: "string \<Rightarrow> child_store \<Rightarrow> broker_receipt res" where
  "child_result handle store = (case map_of store handle of None \<Rightarrow> Inl (KeyError handle) | Some r \<Rightarrow> Inr r)"

definition propose_effect :: "string \<Rightarrow> string \<Rightarrow> broker_context \<Rightarrow> broker_receipt" where
  "propose_effect effect_type payload_digest c =
     (let digest = json_digest (JObj ((''effect_type'', JStr effect_type) #
            (''payload_digest'', JStr payload_digest) # context_fields c))
      in \<lparr>br_kind = ''effect_proposal'', br_handle = ''proposal-'' @ take 24 (digest_hex digest),
          br_digest = digest, br_value = ''proposal_only''\<rparr>)"

definition query_evidence :: "string list \<Rightarrow> string \<Rightarrow> broker_context \<Rightarrow> broker_receipt" where
  "query_evidence records text c =
     (let matches = filter (\<lambda>r. contained (map lower_char text) (map lower_char r)) (sort records);
          digest = json_digest (JObj ((''query'', JStr text) # (''matches'', JArr (map JStr matches)) #
            context_fields c))
      in \<lparr>br_kind = ''evidence'', br_handle = ''evidence-'' @ take 24 (digest_hex digest), br_digest = digest,
          br_value = join [char_of (10 :: nat)] matches\<rparr>)"

section \<open>What the stores keep\<close>

text \<open>
  A store whose keys are the digests of their contents stays so, and what was put is read
  back until the store is gone.
\<close>

definition store_ok :: "artifact_store \<Rightarrow> bool" where
  "store_ok store \<longleftrightarrow> (\<forall>(d, bs) \<in> set store. d = content_digest bs) \<and> distinct (map fst store)"

lemma put_artifact_ok: "store_ok store \<Longrightarrow> store_ok (snd (put_artifact bs m i red store))"
  by (auto simp: store_ok_def put_artifact_def Let_def map_of_eq_None_iff)

lemma put_artifact_keeps: "map_of store d = Some bs \<Longrightarrow> map_of (snd (put_artifact cs m i red store)) d = Some bs"
  by (auto simp: put_artifact_def Let_def map_add_def)

lemma put_then_read:
  assumes "store_ok store" "fst (put_artifact bs m i red store) = Inr r"
    and "\<And>cs. content_digest cs = content_digest bs \<Longrightarrow> cs = bs"
  shows "read_artifact r (snd (put_artifact bs m i red store)) = Inr bs"
proof -
  from assms(2) have r: "ar_digest r = content_digest bs" "ar_size_bytes r = int (length bs)"
    by (auto simp: put_artifact_def Let_def validate_artifact_reference_def res_simps)
  show ?thesis
  proof (cases "map_of store (content_digest bs)")
    case None
    then show ?thesis using r by (auto simp: put_artifact_def Let_def read_artifact_def map_add_def)
  next
    case (Some cs)
    then have "cs = bs" using assms(1,3) by (force simp: store_ok_def dest!: map_of_SomeD)
    then show ?thesis using r Some by (auto simp: put_artifact_def Let_def read_artifact_def)
  qed
qed

lemma submit_then_result:
  "child_result (fst (submit_child task c store)) (snd (submit_child task c store)) =
     (case map_of store (child_handle task c) of Some r \<Rightarrow> Inr r
      | None \<Rightarrow> Inr \<lparr>br_kind = ''subagent'', br_handle = child_handle task c, br_digest = child_digest task c,
                     br_value = ''completed:'' @ task\<rparr>)"
  by (auto simp: submit_child_def child_result_def Let_def map_add_def split: option.split)

end
