(* ===== verification/Broker_Facade.thy ===== *)
theory Broker_Facade
  imports Broker_Providers
begin

text \<open>
  The operation-scoped broker view (\<open>BoundBrokerFacade\<close> in \<open>src/aar/runtime/brokers.py\<close>):
  grants and deadlines before every call, the seven typed calls over the journal, the
  compensation proposal and the reconciliation of started calls. Clock readings are explicit:
  single calls take one, reconciliation reads a clock that counts its readings.
\<close>

section \<open>The facade\<close>

text \<open>
  \<open>fa_routes\<close> is the model registry with its journal, absent in hosts that only have the
  deterministic model broker; \<open>providers\<close> is everything a provider call may change.
\<close>

record 's routes =
  rq_request :: "model_route_binding \<Rightarrow> string \<Rightarrow> broker_context \<Rightarrow> 's \<Rightarrow> model_response res \<times> 's"
  rq_lookup :: "model_route_binding \<Rightarrow> string \<Rightarrow> broker_context \<Rightarrow> 's \<Rightarrow> model_response option res \<times> 's"

record 's facade =
  fa_routes :: "'s routes option"
  fa_evidence :: "string list"

record 's providers =
  pv_models :: mjr
  pv_artifacts :: artifact_store
  pv_children :: child_store
  pv_driver :: 's

type_synonym 's world = "brk \<times> 's providers"

text \<open>The binding of a view: its facade, the request envelope and the operation.\<close>

record 's bound =
  bo_facade :: "'s facade"
  bo_envelope :: request_envelope
  bo_operation :: operation_ref

section \<open>Grants\<close>

definition all_methods :: "broker_method list" where
  "all_methods = [Artifact_put, Artifact_read, Effect_propose, Evidence_query, Model_request,
     Subagent_result, Subagent_submit]"

fun method_description :: "broker_method \<Rightarrow> string" where
  "method_description Artifact_put = ''Persist content by digest and return an authoritative artifact reference.''"
| "method_description Artifact_read = ''Read retained content through its digest-bound artifact reference.''"
| "method_description Effect_propose =
     ''Create an effect proposal receipt; the facade has no effect execution method.''"
| "method_description Evidence_query = ''Query host-owned evidence without exposing provider credentials.''"
| "method_description Model_request = ''Request a model result through a host-owned broker.''"
| "method_description Subagent_result = ''Retrieve a retained child result explicitly by handle.''"
| "method_description Subagent_submit = ''Submit bounded child work and return only a retained handle.''"

record method_summary =
  su_name :: broker_method
  su_capability :: string
  su_access :: access_mode
  su_description :: string

definition method_summary_of :: "broker_method \<Rightarrow> method_summary" where
  "method_summary_of m = \<lparr>su_name = m, su_capability = fst (method_capability m),
     su_access = snd (method_capability m), su_description = method_description m\<rparr>"

definition catalog :: "'s bound \<Rightarrow> method_summary list" where
  "catalog v = map method_summary_of
     (filter (\<lambda>m. fst (method_capability m) \<in> gr_capability ` set (en_grants (bo_envelope v))) all_methods)"

text \<open>\<open>describe\<close> up to the schema text of a contract, which a library generates.\<close>

definition describe :: "(broker_method \<Rightarrow> 'c) \<Rightarrow> 's bound \<Rightarrow> broker_method list \<Rightarrow> 'c list res" where
  "describe contract v names =
     (let granted = map su_name (catalog v);
          requested = filter (\<lambda>m. m \<in> set names) all_methods;
          denied = filter (\<lambda>m. m \<notin> set granted) requested
      in if denied \<noteq> [] then
           Inl (BrokerGrantDenied (''broker contracts are unavailable without grants: '' @
             join '', '' (map method_wire denied)))
         else Inr (map contract requested))"

definition grant_fits :: "request_envelope \<Rightarrow> string \<Rightarrow> grant \<Rightarrow> bool" where
  "grant_fits e capability g \<longleftrightarrow> gr_capability g = capability \<and> gr_issued_to g = en_principal e \<and>
     gr_expires_at g \<ge> en_deadline e"

definition grant_of :: "'s bound \<Rightarrow> broker_method \<Rightarrow> grant res" where
  "grant_of v m =
     (let capability = fst (method_capability m) in
      case filter (grant_fits (bo_envelope v) capability) (en_grants (bo_envelope v)) of
        [] \<Rightarrow> Inl (BrokerGrantDenied (''valid '' @ capability @ '' grant is absent for '' @ method_wire m))
      | g # _ \<Rightarrow> Inr g)"

definition call_key_of :: "'s bound \<Rightarrow> broker_method \<Rightarrow> string \<Rightarrow> string" where
  "call_key_of v m step = ''broker-'' @ take 32 (digest_hex (json_digest (JObj
     [(''operation'', JStr (operation_value (bo_operation v))),
      (''request'', JStr (en_idempotency_key (bo_envelope v))),
      (''method'', JStr (method_wire m)), (''step'', JStr step)])))"

definition prepare :: "'s bound \<Rightarrow> broker_method \<Rightarrow> string \<Rightarrow> int \<Rightarrow> broker_context res" where
  "prepare v m step now =
     (if now \<ge> en_deadline (bo_envelope v) then
        Inl (BrokerDeadlineExpired ''broker request deadline has expired'')
      else and_then (grant_of v m) (\<lambda>g.
        Inr \<lparr>bx_parent_operation = bo_operation v, bx_grant_id = gr_grant_id g,
             bx_deadline = en_deadline (bo_envelope v), bx_key = call_key_of v m step\<rparr>))"

section \<open>Calls\<close>

definition call_args ::
    "'s bound \<Rightarrow> broker_method \<Rightarrow> broker_context \<Rightarrow> broker_request \<Rightarrow> string \<Rightarrow> broker_usage \<Rightarrow> invoke_args" where
  "call_args v m c request model usage =
     \<lparr>iv_operation = bo_operation v, iv_method = m, iv_grant_id = bx_grant_id c, iv_key = bx_key c,
      iv_request = request, iv_response_model = model, iv_usage = usage,
      iv_budget = en_budget (bo_envelope v), iv_control = None, iv_not_cancelled = False, iv_check = None\<rparr>"

text \<open>A response whose usage is the requested usage and that needs no further check.\<close>

definition plain_sent :: "broker_usage \<Rightarrow> broker_response \<Rightarrow> sent" where
  "plain_sent u r = \<lparr>se_response = r, se_usage = u, se_check = Inr ()\<rparr>"

definition bound_invoke ::
    "'s bound \<Rightarrow> broker_method \<Rightarrow> broker_context \<Rightarrow> broker_request \<Rightarrow> string \<Rightarrow> broker_usage \<Rightarrow>
     ('s providers \<Rightarrow> sent res \<times> 's providers) \<Rightarrow> 's world \<Rightarrow> broker_response res \<times> 's world" where
  "bound_invoke v m c request model usage provider w =
     invoke (call_args v m c request model usage) 0 0 provider w"

definition prepared ::
    "'s bound \<Rightarrow> broker_method \<Rightarrow> string \<Rightarrow> int \<Rightarrow>
     (broker_context \<Rightarrow> 's world \<Rightarrow> broker_response res \<times> 's world) \<Rightarrow> 's world \<Rightarrow> broker_response res \<times> 's world" where
  "prepared v m step now f w = (case prepare v m step now of Inl e \<Rightarrow> (Inl e, w) | Inr c \<Rightarrow> f c w)"

definition legacy_model_receipt :: "model_response \<Rightarrow> broker_receipt" where
  "legacy_model_receipt r =
     (let receipt = ms_route_receipt r in
      \<lparr>br_kind = ''model'',
       br_handle = (case mr_provider_response_id receipt of
           None \<Rightarrow> ''model-'' @ take 24 (digest_hex (mr_receipt_digest receipt))
         | Some h \<Rightarrow> if h = [] then ''model-'' @ take 24 (digest_hex (mr_receipt_digest receipt)) else h),
       br_digest = mr_receipt_digest receipt, br_value = ms_output_text r\<rparr>)"

definition model_call_usage :: "int \<Rightarrow> int \<Rightarrow> broker_usage" where
  "model_call_usage i out = usage_zero\<lparr>us_model_requests := 1, us_input_tokens := i, us_output_tokens := out\<rparr>"

text \<open>The routed provider: its failures become broker failures, its usage is the provider's.\<close>

fun routed_failure :: "exn \<Rightarrow> exn" where
  "routed_failure (ModelCallIndeterminate m) = BrokerCallIndeterminate m"
| "routed_failure (ModelRouteDrift m) = BrokerCallQuarantined ''model_route_drift''"
| "routed_failure e = e"

definition routed_request ::
    "'s routes \<Rightarrow> operation_ref \<Rightarrow> model_route_binding \<Rightarrow> string \<Rightarrow> broker_context \<Rightarrow> 's providers
     \<Rightarrow> sent res \<times> 's providers" where
  "routed_request routes i binding prompt c p =
     (let (out, models, s) = model_invoke (rq_request routes) i prompt c (pv_models p, pv_driver p);
          p1 = p\<lparr>pv_models := models, pv_driver := s\<rparr>
      in case out of
           Inl e \<Rightarrow> (Inl (routed_failure e), p1)
         | Inr r \<Rightarrow> (Inr \<lparr>se_response = Receipt_resp (legacy_model_receipt r),
             se_usage = model_call_usage (mu_input_tokens (ms_usage r)) (mu_output_tokens (ms_usage r)),
             se_check = (if mu_output_tokens (ms_usage r) > mb_max_output_tokens binding then
                 Inl (BrokerBudgetExceeded ''provider output usage exceeded the bound model route maximum'')
               else Inr ())\<rparr>, p1))"

definition bound_model_request ::
    "'s bound \<Rightarrow> string \<Rightarrow> string \<Rightarrow> int \<Rightarrow> 's world \<Rightarrow> broker_response res \<times> 's world" where
  "bound_model_request v prompt step now = prepared v Model_request step now (\<lambda>c w.
     case fa_routes (bo_facade v) of
       None \<Rightarrow>
         let u = model_call_usage (token_units prompt) 1 in
         bound_invoke v Model_request c (Model_req prompt) ''BrokerReceipt'' u
           (\<lambda>p. (Inr (plain_sent u (Receipt_resp (fake_model_request prompt c))), p)) w
     | Some routes \<Rightarrow>
         (case journal_binding (bo_operation v) (pv_models (snd w)) of
            Inl e \<Rightarrow> (Inl e, w)
          | Inr binding \<Rightarrow>
            bound_invoke v Model_request c (Model_req prompt) ''BrokerReceipt''
              (model_call_usage (token_units prompt) (mb_max_output_tokens binding))
              (routed_request routes (bo_operation v) binding prompt c) w))"

definition bound_evidence_query ::
    "'s bound \<Rightarrow> string \<Rightarrow> string \<Rightarrow> int \<Rightarrow> 's world \<Rightarrow> broker_response res \<times> 's world" where
  "bound_evidence_query v text step now = prepared v Evidence_query step now (\<lambda>c.
     bound_invoke v Evidence_query c (Evidence_req text) ''BrokerReceipt'' usage_zero
       (\<lambda>p. (Inr (plain_sent usage_zero (Receipt_resp (query_evidence (fa_evidence (bo_facade v)) text c))), p)))"

definition bound_subagent_submit ::
    "'s bound \<Rightarrow> string \<Rightarrow> string \<Rightarrow> int \<Rightarrow> 's world \<Rightarrow> broker_response res \<times> 's world" where
  "bound_subagent_submit v task step now = prepared v Subagent_submit step now (\<lambda>c.
     let u = usage_zero\<lparr>us_child_operations := 1\<rparr> in
     bound_invoke v Subagent_submit c (Submit_req task) ''RetainedSubagentHandle'' u
       (\<lambda>p. let (handle, children) = submit_child task c (pv_children p)
            in (Inr (plain_sent u (Handle_resp handle)), p\<lparr>pv_children := children\<rparr>)))"

definition bound_subagent_result ::
    "'s bound \<Rightarrow> string \<Rightarrow> string \<Rightarrow> int \<Rightarrow> 's world \<Rightarrow> broker_response res \<times> 's world" where
  "bound_subagent_result v handle step now = prepared v Subagent_result step now (\<lambda>c.
     bound_invoke v Subagent_result c (Result_req handle) ''BrokerReceipt'' usage_zero
       (\<lambda>p. (and_then (child_result handle (pv_children p)) (\<lambda>r. Inr (plain_sent usage_zero (Receipt_resp r))), p)))"

definition bound_effect_propose ::
    "'s bound \<Rightarrow> string \<Rightarrow> string \<Rightarrow> string \<Rightarrow> int \<Rightarrow> 's world \<Rightarrow> broker_response res \<times> 's world" where
  "bound_effect_propose v effect_type payload_digest step now = prepared v Effect_propose step now (\<lambda>c.
     bound_invoke v Effect_propose c (Effect_req effect_type payload_digest) ''BrokerReceipt'' usage_zero
       (\<lambda>p. (Inr (plain_sent usage_zero (Receipt_resp (propose_effect effect_type payload_digest c))), p)))"

definition bound_artifact_put ::
    "'s bound \<Rightarrow> put_request \<Rightarrow> 8 word list \<Rightarrow> string \<Rightarrow> int \<Rightarrow> 's world \<Rightarrow> broker_response res \<times> 's world" where
  "bound_artifact_put v q content step now w =
     (if content_digest content \<noteq> ap_content_digest q \<or> int (length content) \<noteq> ap_size_bytes q then
        (Inl (ValueError ''artifact content does not match declared digest and size''), w)
      else prepared v Artifact_put step now (\<lambda>c.
        let u = usage_zero\<lparr>us_artifact_bytes := int (length content)\<rparr> in
        bound_invoke v Artifact_put c (Put_req q) ''ArtifactReference'' u
          (\<lambda>p. let (r, store) = put_artifact content (ap_media_type q) (bo_operation v) (ap_redacted q)
                   (pv_artifacts p)
               in (and_then r (\<lambda>a. Inr (plain_sent u (Artifact_resp a))), p\<lparr>pv_artifacts := store\<rparr>))) w)"

definition bound_artifact_read ::
    "'s bound \<Rightarrow> artifact_reference \<Rightarrow> string \<Rightarrow> int \<Rightarrow> 's world \<Rightarrow> broker_response res \<times> 's world" where
  "bound_artifact_read v r step now = prepared v Artifact_read step now (\<lambda>c.
     let u = usage_zero\<lparr>us_artifact_bytes := ar_size_bytes r\<rparr> in
     bound_invoke v Artifact_read c (Read_req r) ''ArtifactReadResult'' u
       (\<lambda>p. (and_then (read_artifact r (pv_artifacts p)) (\<lambda>bs. Inr (plain_sent u (Read_resp r (base64 bs)))), p)))"

end
