(* ===== verification/Broker_Reconciliation.thy ===== *)
theory Broker_Reconciliation
  imports Broker_Facade
begin

text \<open>
  Reconciliation of started broker calls (\<open>BoundBrokerFacade.reconcile_unresolved\<close> and
  \<open>_propose_compensation\<close> in \<open>src/aar/runtime/brokers.py\<close>). The state carries the number of
  clock readings taken so far; the clock is a function of that number.
\<close>

section \<open>State\<close>

record 's reconciling =
  rx_world :: "'s world"
  rx_ticks :: nat

definition read_clock :: "(nat \<Rightarrow> int) \<Rightarrow> 's reconciling \<Rightarrow> int \<times> 's reconciling" where
  "read_clock clock s = (clock (rx_ticks s), s\<lparr>rx_ticks := rx_ticks s + 1\<rparr>)"

text \<open>The arguments of the call, and what is fixed for one row.\<close>

record reconcile_args =
  ra_capability_digest :: string
  ra_compensation_grant :: "grant option"
  ra_propose :: bool
  ra_cancelled :: "bool option"

record row_authority =
  au_row :: call_row
  au_digest :: string
  au_control :: int
  au_cancelled :: bool

definition authority_of :: "'s bound \<Rightarrow> reconcile_args \<Rightarrow> brk \<Rightarrow> call_row \<Rightarrow> row_authority" where
  "authority_of v a db row =
     (let (control_revision, durable) = operation_control_state (bo_operation v) db;
          cancelled = (ra_cancelled a = Some True \<or> durable)
      in \<lparr>au_row = row,
          au_digest = json_digest (JObj
            [(''operation'', operation_json (bo_operation v)),
             (''method'', JStr (method_wire (bj_method row))),
             (''grant_id'', JStr (bj_grant_id row)),
             (''request_digest'', JStr (bj_request_digest row)),
             (''deadline_unix_ms'', JInt (en_deadline (bo_envelope v))),
             (''capability_digest'', JStr (ra_capability_digest a)),
             (''control_revision'', JInt control_revision),
             (''cancellation_requested'', JBool cancelled)]),
          au_control = control_revision, au_cancelled = cancelled\<rparr>)"

section \<open>Compensation\<close>

definition compensation_grant_ok :: "'s bound \<Rightarrow> grant \<Rightarrow> bool" where
  "compensation_grant_ok v g \<longleftrightarrow> gr_capability g = ''effect.propose'' \<and> gr_issued_to g = en_principal (bo_envelope v)"

definition compensation_key :: "'s bound \<Rightarrow> string \<Rightarrow> grant \<Rightarrow> int \<Rightarrow> string" where
  "compensation_key v step g control_revision = ''broker-'' @ take 32 (digest_hex (json_digest (JObj
     [(''operation'', JStr (operation_value (bo_operation v))),
      (''request'', JStr (en_idempotency_key (bo_envelope v))),
      (''method'', JStr ''effect.propose''), (''step'', JStr step),
      (''grant_id'', JStr (gr_grant_id g)), (''control_revision'', JInt control_revision)])))"

text \<open>
  The journal reads the clock in both admission checks, the second only once the call is
  admitted.
\<close>

definition propose_compensation ::
    "(nat \<Rightarrow> int) \<Rightarrow> 's bound \<Rightarrow> string \<Rightarrow> string \<Rightarrow> string \<Rightarrow> grant \<Rightarrow> int \<Rightarrow> 's reconciling
     \<Rightarrow> broker_receipt res \<times> 's reconciling" where
  "propose_compensation clock v effect_type payload_digest step g control_revision s0 =
     (let (now, s) = read_clock clock s0;
          deadline = min (en_deadline (bo_envelope v)) (gr_expires_at g) in
      if now \<ge> deadline then (Inl (BrokerDeadlineExpired ''compensation authority deadline has expired''), s)
      else if \<not> compensation_grant_ok v g then
        (Inl (BrokerGrantDenied ''current effect.propose grant is invalid for compensation''), s)
      else case grant_of v Effect_propose of
        Inl e \<Rightarrow> (Inl e, s)
      | Inr _ \<Rightarrow>
        let key = compensation_key v step g control_revision;
            c = \<lparr>bx_parent_operation = bo_operation v, bx_grant_id = gr_grant_id g, bx_deadline = deadline,
                 bx_key = key\<rparr>;
            args = \<lparr>iv_operation = bo_operation v, iv_method = Effect_propose, iv_grant_id = gr_grant_id g,
              iv_key = key, iv_request = Effect_req effect_type payload_digest,
              iv_response_model = ''BrokerReceipt'', iv_usage = usage_zero,
              iv_budget = en_budget (bo_envelope v), iv_control = Some control_revision,
              iv_not_cancelled = True,
              iv_check = Some (\<lambda>t. if t \<ge> deadline then
                  Inl (BrokerDeadlineExpired ''compensation authority deadline expired during broker admission'')
                else Inr ())\<rparr>;
            k = rx_ticks s;
            w = rx_world s;
            admitted = (case admit_call args (clock k) (fst w) of Inr (Admitted n cur, db) \<Rightarrow> True | _ \<Rightarrow> False);
            (out, w1) = invoke args (clock k) (clock (k + 1))
              (\<lambda>p. (Inr (plain_sent usage_zero (Receipt_resp (propose_effect effect_type payload_digest c))), p)) w;
            s1 = s\<lparr>rx_world := w1, rx_ticks := k + (if admitted then 2 else 1)\<rparr>
        in (case out of Inl e \<Rightarrow> (Inl e, s1) | Inr (Receipt_resp r) \<Rightarrow> (Inr r, s1)
            | Inr _ \<Rightarrow> (Inl (ValidationError ''field constraint''), s1)))"

section \<open>Unresolved calls\<close>

definition compensable :: "broker_method \<Rightarrow> bool" where
  "compensable m \<longleftrightarrow> m \<in> {Artifact_put, Model_request, Subagent_submit}"

definition compensation_step :: "'s bound \<Rightarrow> row_authority \<Rightarrow> string" where
  "compensation_step v au = ''compensate-'' @ take 32 (digest_hex (json_digest (JObj
     [(''operation'', operation_json (bo_operation v)), (''sequence'', JInt (bj_sequence (au_row au))),
      (''request_digest'', JStr (bj_request_digest (au_row au))), (''action'', JStr ''compensation_proposal''),
      (''control_revision'', JInt (au_control au))])))"

text \<open>The proposal, when it is due: the action and receipt to record, or an error that escapes.\<close>

definition try_compensation ::
    "(nat \<Rightarrow> int) \<Rightarrow> 's bound \<Rightarrow> reconcile_args \<Rightarrow> row_authority \<Rightarrow> reconciliation_action \<Rightarrow> 's reconciling
     \<Rightarrow> (reconciliation_action \<times> broker_receipt option) res \<times> 's reconciling" where
  "try_compensation clock v a au action s =
     (if ra_propose a \<and> \<not> au_cancelled au then
        let (now, s1) = read_clock clock s in
        if now < en_deadline (bo_envelope v) \<and> compensable (bj_method (au_row au)) then
          (case ra_compensation_grant a of
             None \<Rightarrow> (Inl AssertionError, s1)
           | Some g \<Rightarrow>
             let (out, s2) = propose_compensation clock v ''effect.compensate'' (bj_request_digest (au_row au))
                   (compensation_step v au) g (au_control au) s1
             in (case out of Inr r \<Rightarrow> (Inr (RA_compensation_proposed, Some r), s2)
                 | Inl e \<Rightarrow> if is_facade_error e then (Inr (action, None), s2) else (Inl e, s2)))
        else (Inr (action, None), s1)
      else (Inr (action, None), s))"

definition resolution_of ::
    "row_authority \<Rightarrow> operation_ref \<Rightarrow> reconciliation_action \<Rightarrow> string \<Rightarrow> int \<Rightarrow> resolution" where
  "resolution_of au i action reason now =
     \<lparr>re_operation = i, re_sequence = bj_sequence (au_row au), re_method = bj_method (au_row au),
      re_request_digest = bj_request_digest (au_row au), re_authority_digest = au_digest au,
      re_action = action, re_reason_code = reason, re_now = now\<rparr>"

definition on_journal ::
    "('a \<times> brk) res \<Rightarrow> 's reconciling \<Rightarrow> 'a res \<times> 's reconciling" where
  "on_journal m s = (case m of Inl e \<Rightarrow> (Inl e, s)
     | Inr (x, db) \<Rightarrow> (Inr x, s\<lparr>rx_world := (db, snd (rx_world s))\<rparr>))"

definition record_unresolved ::
    "(nat \<Rightarrow> int) \<Rightarrow> 's bound \<Rightarrow> row_authority \<Rightarrow> reconciliation_action \<Rightarrow> string \<Rightarrow> broker_receipt option \<Rightarrow>
     broker_usage option \<Rightarrow> 's reconciling \<Rightarrow> call_reconciliation res \<times> 's reconciling" where
  "record_unresolved clock v au action reason receipt usage s =
     (let (now, s1) = read_clock clock s in
      on_journal (record_unresolved_reconciliation (resolution_of au (bo_operation v) action reason now)
        receipt usage (fst (rx_world s1))) s1)"

definition unresolved ::
    "(nat \<Rightarrow> int) \<Rightarrow> 's bound \<Rightarrow> reconcile_args \<Rightarrow> row_authority \<Rightarrow> string \<Rightarrow> bool \<Rightarrow> 's reconciling
     \<Rightarrow> call_reconciliation res \<times> 's reconciling" where
  "unresolved clock v a au reason pending s =
     (case try_compensation clock v a au (if pending then RA_pending else RA_quarantine) s of
        (Inl e, s1) \<Rightarrow> (Inl e, s1)
      | (Inr (action, receipt), s1) \<Rightarrow> record_unresolved clock v au action reason receipt None s1)"

section \<open>One started call\<close>

text \<open>
  What the provider evidence says of a call: a response to commit with its usage, action
  and reason, or a reconciliation already recorded.
\<close>

datatype evidence =
    Recovered broker_response "broker_usage option" reconciliation_action string
  | Recorded call_reconciliation

definition recorded :: "call_reconciliation res \<times> 's reconciling \<Rightarrow> evidence res \<times> 's reconciling" where
  "recorded q = (map_sum id Recorded (fst q), snd q)"

definition model_evidence ::
    "(nat \<Rightarrow> int) \<Rightarrow> 's bound \<Rightarrow> reconcile_args \<Rightarrow> row_authority \<Rightarrow> string \<Rightarrow> broker_context \<Rightarrow> 's reconciling
     \<Rightarrow> evidence res \<times> 's reconciling" where
  "model_evidence clock v a au prompt c s =
     (let open_call = (\<lambda>reason pending s. recorded (unresolved clock v a au reason pending s)) in
      case fa_routes (bo_facade v) of
        None \<Rightarrow> open_call ''model_receipt_unavailable'' True s
      | Some routes \<Rightarrow>
        let (db, p) = rx_world s;
            (out, models, drv) = model_reconcile (rq_lookup routes) (bo_operation v) prompt c
              (pv_models p, pv_driver p);
            s1 = s\<lparr>rx_world := (db, p\<lparr>pv_models := models, pv_driver := drv\<rparr>)\<rparr>
        in (case out of
            Inl (ModelReceiptLookupUnavailable m) \<Rightarrow> open_call ''model_receipt_lookup_unavailable'' False s1
          | Inl (ModelReceiptLookupFailed m) \<Rightarrow> open_call ''model_receipt_lookup_failed'' False s1
          | Inl (ModelRouteDrift m) \<Rightarrow> open_call ''model_route_drift'' False s1
          | Inl (ModelCallIndeterminate m) \<Rightarrow> open_call ''model_receipt_lookup_pending'' True s1
          | Inl e \<Rightarrow> (Inl e, s1)
          | Inr None \<Rightarrow> open_call ''model_receipt_lookup_pending'' True s1
          | Inr (Some r) \<Rightarrow>
            let u = model_call_usage (mu_input_tokens (ms_usage r)) (mu_output_tokens (ms_usage r)) in
            (case journal_binding (bo_operation v) models of
               Inl e \<Rightarrow> (Inl e, s1)
             | Inr binding \<Rightarrow>
               (case and_then (journal_usage (bo_operation v) db) (\<lambda>t. and_then (usage_plus t u)
                   (assert_budget (en_budget (bo_envelope v)))) of
                  Inl (BrokerBudgetExceeded m) \<Rightarrow> recorded
                    (record_unresolved clock v au RA_quarantine ''model_host_budget_exceeded'' None (Some u) s1)
                | Inl e \<Rightarrow> (Inl e, s1)
                | Inr _ \<Rightarrow>
                  if mu_output_tokens (ms_usage r) > mb_max_output_tokens binding then recorded
                    (record_unresolved clock v au RA_quarantine ''model_route_usage_exceeded'' None (Some u) s1)
                  else (Inr (Recovered (Receipt_resp (legacy_model_receipt r)) (Some u)
                    RA_receipt_recovered ''model_receipt_recovered''), s1)))))"

fun request_fits :: "broker_method \<Rightarrow> broker_request \<Rightarrow> bool" where
  "request_fits Model_request (Model_req p) = True"
| "request_fits Evidence_query (Evidence_req t) = True"
| "request_fits Subagent_submit (Submit_req t) = True"
| "request_fits Subagent_result (Result_req h) = True"
| "request_fits Effect_propose (Effect_req t d) = True"
| "request_fits Artifact_put (Put_req q) = True"
| "request_fits Artifact_read (Read_req r) = True"
| "request_fits m q = False"

fun gather ::
    "(nat \<Rightarrow> int) \<Rightarrow> 's bound \<Rightarrow> reconcile_args \<Rightarrow> row_authority \<Rightarrow> broker_request \<Rightarrow> broker_context \<Rightarrow>
     's reconciling \<Rightarrow> evidence res \<times> 's reconciling" where
  "gather clock v a au (Put_req q) c s =
     (case lookup_artifact q (bo_operation v) (pv_artifacts (snd (rx_world s))) of
        Inl e \<Rightarrow> (Inl e, s)
      | Inr None \<Rightarrow> recorded (unresolved clock v a au ''artifact_receipt_unavailable'' True s)
      | Inr (Some r) \<Rightarrow>
          (Inr (Recovered (Artifact_resp r) None RA_receipt_recovered ''artifact_receipt_recovered''), s))"
| "gather clock v a au (Read_req r) c s =
     (and_then (read_artifact r (pv_artifacts (snd (rx_world s)))) (\<lambda>bs.
        Inr (Recovered (Read_resp r (base64 bs)) None RA_safe_replay ''broker_safe_read_replayed'')), s)"
| "gather clock v a au (Evidence_req t) c s =
     (Inr (Recovered (Receipt_resp (query_evidence (fa_evidence (bo_facade v)) t c)) None
        RA_safe_replay ''broker_safe_read_replayed''), s)"
| "gather clock v a au (Model_req p) c s = model_evidence clock v a au p c s"
| "gather clock v a au (Result_req h) c s =
     (case child_result h (pv_children (snd (rx_world s))) of
        Inl (KeyError k) \<Rightarrow> recorded (unresolved clock v a au ''subagent_result_pending'' True s)
      | Inl e \<Rightarrow> (Inl e, s)
      | Inr r \<Rightarrow> (Inr (Recovered (Receipt_resp r) None RA_safe_replay ''broker_safe_read_replayed''), s))"
| "gather clock v a au (Submit_req t) c s =
     (case lookup_submission t c (pv_children (snd (rx_world s))) of
        None \<Rightarrow> recorded (unresolved clock v a au ''subagent_submission_receipt_unavailable'' True s)
      | Some h \<Rightarrow> (Inr (Recovered (Handle_resp h) None RA_receipt_recovered ''subagent_handle_recovered''), s))"
| "gather clock v a au (Effect_req t d) c s =
     recorded (unresolved clock v a au ''effect_proposal_receipt_unavailable'' True s)"

definition provider_conflict :: "exn \<Rightarrow> bool" where
  "provider_conflict e \<longleftrightarrow> exn_name e = ''KeyError'' \<or> is_runtime_error e \<or> is_value_error e"

definition settle ::
    "(nat \<Rightarrow> int) \<Rightarrow> 's bound \<Rightarrow> reconcile_args \<Rightarrow> row_authority \<Rightarrow> evidence res \<times> 's reconciling
     \<Rightarrow> call_reconciliation res \<times> 's reconciling" where
  "settle clock v a au q =
     (case q of
        (Inl e, s) \<Rightarrow> if provider_conflict e then unresolved clock v a au ''broker_provider_conflict'' False s
                     else (Inl e, s)
      | (Inr (Recorded r), s) \<Rightarrow> (Inr r, s)
      | (Inr (Recovered response u action reason), s) \<Rightarrow>
          let (now, s1) = read_clock clock s in
          on_journal (resolve_started_call (resolution_of au (bo_operation v) action reason now) response u
            (fst (rx_world s1))) s1)"

definition reconcile_row ::
    "(nat \<Rightarrow> int) \<Rightarrow> 's bound \<Rightarrow> reconcile_args \<Rightarrow> call_row \<Rightarrow> 's reconciling
     \<Rightarrow> call_reconciliation res \<times> 's reconciling" where
  "reconcile_row clock v a row s0 =
     (let au = authority_of v a (fst (rx_world s0)) row in
      if au_cancelled au then unresolved clock v a au ''broker_reconcile_cancelled'' False s0
      else let (now, s) = read_clock clock s0 in
      if now \<ge> en_deadline (bo_envelope v) then
        unresolved clock v a au ''broker_reconcile_deadline_expired'' False s
      else case bj_request row of
        None \<Rightarrow> unresolved clock v a au ''broker_request_bytes_unavailable'' False s
      | Some request \<Rightarrow>
          if \<not> request_fits (bj_method row) request then (Inl (ValidationError ''field constraint''), s)
          else if json_digest (request_json request) \<noteq> bj_request_digest row then
            (Inl (BrokerCallConflict ''broker request bytes do not match stored digest''), s)
          else if bj_method row = Effect_propose then
            unresolved clock v a au ''effect_proposal_receipt_unavailable'' True s
          else (case grant_of v (bj_method row) of
            Inl e \<Rightarrow> unresolved clock v a au ''broker_reconcile_authority_denied'' False s
          | Inr g \<Rightarrow>
            if gr_grant_id g \<noteq> bj_grant_id row then unresolved clock v a au ''broker_reconcile_grant_drift'' False s
            else settle clock v a au (gather clock v a au request
              \<lparr>bx_parent_operation = bo_operation v, bx_grant_id = gr_grant_id g,
               bx_deadline = en_deadline (bo_envelope v), bx_key = bj_key row\<rparr> s)))"

section \<open>All started calls\<close>

fun reconcile_rows ::
    "(nat \<Rightarrow> int) \<Rightarrow> 's bound \<Rightarrow> reconcile_args \<Rightarrow> call_row list \<Rightarrow> call_reconciliation list \<Rightarrow> 's reconciling
     \<Rightarrow> call_reconciliation list res \<times> 's reconciling" where
  "reconcile_rows clock v a [] acc s = (Inr acc, s)"
| "reconcile_rows clock v a (row # rows) acc s =
     (case reconcile_row clock v a row s of
        (Inl e, s1) \<Rightarrow> (Inl e, s1)
      | (Inr r, s1) \<Rightarrow> reconcile_rows clock v a rows (acc @ [r]) s1)"

definition compensation_allowed :: "'s bound \<Rightarrow> reconcile_args \<Rightarrow> unit res" where
  "compensation_allowed v a =
     (if \<not> ra_propose a then Inr ()
      else case ra_compensation_grant a of
        None \<Rightarrow> Inl (BrokerGrantDenied ''current effect.propose grant is required for compensation'')
      | Some g \<Rightarrow> if compensation_grant_ok v g then Inr ()
          else Inl (BrokerGrantDenied ''current effect.propose grant is invalid for compensation''))"

definition reconcile_unresolved ::
    "(nat \<Rightarrow> int) \<Rightarrow> 's bound \<Rightarrow> reconcile_args \<Rightarrow> 's reconciling \<Rightarrow> broker_report res \<times> 's reconciling" where
  "reconcile_unresolved clock v a s =
     (if ra_capability_digest a \<noteq> en_capability_digest (bo_envelope v) then
        (Inl (BrokerGrantDenied ''operation capability profile does not match current host authority''), s)
      else case compensation_allowed v a of
        Inl e \<Rightarrow> (Inl e, s)
      | Inr _ \<Rightarrow>
        (case reconcile_rows clock v a (started_calls (bo_operation v) (fst (rx_world s))) [] s of
           (Inl e, s1) \<Rightarrow> (Inl e, s1)
         | (Inr calls, s1) \<Rightarrow>
             (broker_report_issue (bo_operation v) calls
                (has_unresolved_calls (bo_operation v) (fst (rx_world s1))), s1)))"

end
