(* ===== verification/Reconciliation_Runs.thy ===== *)
theory Reconciliation_Runs
  imports Broker_Journal Broker_Reconciliation
begin

text \<open>
  Reconciliation as a run of the journal's steps: whatever \<open>reconcile_unresolved\<close> does to the table of
  calls is a sequence of steps of \<open>call_step\<close>. It sends compensation proposals, which are calls of
  their own, and reads; a call with an effect is looked up, never sent again.
\<close>

section \<open>Runs\<close>

text \<open>The table a run can leave, with the calls under way and the reads as they were.\<close>

definition runs_to :: "call_run \<Rightarrow> brk \<Rightarrow> bool" where
  "runs_to q db \<longleftrightarrow> (\<exists>t ns. call_step\<^sup>*\<^sup>* q t \<and> cr_db t = db \<and> cr_pending t = cr_pending q \<and>
     cr_flight t = cr_flight q \<and> cr_sent t = ns @ cr_sent q \<and> cr_replays t = cr_replays q)"

lemma runs_to_here [simp]: "runs_to q (cr_db q)"
  unfolding runs_to_def by (intro exI [of _ q] exI [of _ "[]"]) simp

lemma runs_to_step: "call_step q (q\<lparr>cr_db := db\<rparr>) \<Longrightarrow> runs_to q db"
  unfolding runs_to_def by (intro exI [of _ "q\<lparr>cr_db := db\<rparr>"] exI [of _ "[]"]) auto

lemma runs_to_trans:
  assumes "runs_to q db1" "\<And>t. cr_db t = db1 \<Longrightarrow> runs_to t db2"
  shows "runs_to q db2"
proof -
  obtain t ns where t: "call_step\<^sup>*\<^sup>* q t" "cr_db t = db1" "cr_pending t = cr_pending q"
    "cr_flight t = cr_flight q" "cr_sent t = ns @ cr_sent q" "cr_replays t = cr_replays q"
    using assms(1) unfolding runs_to_def by blast
  obtain u ms where u: "call_step\<^sup>*\<^sup>* t u" "cr_db u = db2" "cr_pending u = cr_pending t"
    "cr_flight u = cr_flight t" "cr_sent u = ms @ cr_sent t" "cr_replays u = cr_replays t"
    using assms(2) [OF t(2)] unfolding runs_to_def by blast
  show ?thesis unfolding runs_to_def
    by (intro exI [of _ u] exI [of _ "ms @ ns"]) (use t u in \<open>simp add: rtranclp_trans [OF t(1) u(1)]\<close>)
qed

lemma runs_to_invoke: "cr_db q = db \<Longrightarrow> runs_to q (fst (snd (invoke c now1 now2 prov (db, p))))"
  using invoke_is_a_run [of q c now1 now2 prov p] unfolding runs_to_def
  by (metis append_Cons append_Nil)

text \<open>An action of a reconciliation that only makes steps.\<close>

definition steps_only :: "('s reconciling \<Rightarrow> 'a \<times> 's reconciling) \<Rightarrow> bool" where
  "steps_only m \<longleftrightarrow> (\<forall>s q. cr_db q = fst (rx_world s) \<longrightarrow> runs_to q (fst (rx_world (snd (m s)))))"

lemma steps_onlyI: "(\<And>s q. cr_db q = fst (rx_world s) \<Longrightarrow> runs_to q (fst (rx_world (snd (m s))))) \<Longrightarrow> steps_only m"
  by (simp add: steps_only_def)

lemma steps_onlyD: "steps_only m \<Longrightarrow> cr_db q = fst (rx_world s) \<Longrightarrow> runs_to q (fst (rx_world (snd (m s))))"
  by (simp add: steps_only_def)

lemma steps_still: "fst (rx_world (snd (m s))) = fst (rx_world s) \<Longrightarrow> cr_db q = fst (rx_world s) \<Longrightarrow>
    runs_to q (fst (rx_world (snd (m s))))"
  using runs_to_here [of q] by simp

lemma read_clock_world [simp]: "rx_world (snd (read_clock clock s)) = rx_world s"
  by (simp add: read_clock_def)

lemma read_clockE:
  obtains now s1 where "read_clock clock s = (now, s1)" "rx_world s1 = rx_world s"
  by (rule that [of "clock (rx_ticks s)" "s\<lparr>rx_ticks := rx_ticks s + 1\<rparr>"]) (simp_all add: read_clock_def)

lemma steps_on_journal:
  assumes "cr_db q = fst (rx_world s)" "\<And>x db. m = Inr (x, db) \<Longrightarrow> call_step q (q\<lparr>cr_db := db\<rparr>)"
  shows "runs_to q (fst (rx_world (snd (on_journal m s))))"
proof (cases m)
  case (Inl e)
  then show ?thesis using assms(1) steps_still [of "on_journal m" s q] by (simp add: on_journal_def)
next
  case (Inr y)
  obtain x db where "y = (x, db)" by (cases y)
  with Inr show ?thesis using runs_to_step [OF assms(2)] by (simp add: on_journal_def)
qed

lemma steps_record_unresolved: "steps_only (record_unresolved clock v au action reason receipt usage)"
proof (rule steps_onlyI)
  fix s :: "'a reconciling" and q :: call_run assume q: "cr_db q = fst (rx_world s)"
  obtain now s1 where s1: "read_clock clock s = (now, s1)" "rx_world s1 = rx_world s" by (rule read_clockE)
  show "runs_to q (fst (rx_world (snd (record_unresolved clock v au action reason receipt usage s))))"
    unfolding record_unresolved_def Let_def s1(1) prod.case
    by (rule steps_on_journal) (use q s1(2) in \<open>auto intro: call_step.unresolved\<close>)
qed

lemma steps_compensation: "steps_only (propose_compensation clock v effect_type digest step g n)"
proof (rule steps_onlyI)
  fix s :: "'a reconciling" and q :: call_run assume q: "cr_db q = fst (rx_world s)"
  obtain db p where w: "rx_world s = (db, p)" by (cases "rx_world s")
  have i: "runs_to q db'" if "invoke c now1 now2 prov (db, p) = (out, db', p')" for c now1 now2 out db' p'
    and prov :: "'a providers \<Rightarrow> _"
    using runs_to_invoke [of q db c now1 now2 prov p] q w that by simp
  have h: "runs_to q db" using runs_to_here [of q] q w by simp
  obtain now s1 where s1: "read_clock clock s = (now, s1)" "rx_world s1 = (db, p)"
    using w by (metis read_clockE)
  have o': "snd (case y of Receipt_resp r \<Rightarrow> (Inr r, s2) | _ \<Rightarrow> (Inl (ValidationError ''field constraint''), s2)) = s2"
    for y and s2 :: "'a reconciling" by (simp split: broker_response.split)
  show "runs_to q (fst (rx_world (snd (propose_compensation clock v effect_type digest step g n s))))"
    unfolding propose_compensation_def Let_def s1(1) prod.case
    by (auto simp: o' s1(2) h split: sum.split prod.split dest: i)
qed

lemma steps_try_compensation: "steps_only (try_compensation clock v a au action)"
proof (rule steps_onlyI)
  fix s :: "'a reconciling" and q :: call_run assume q: "cr_db q = fst (rx_world s)"
  obtain now s1 where s1: "read_clock clock s = (now, s1)" "rx_world s1 = rx_world s" by (rule read_clockE)
  have h: "runs_to q (fst (rx_world s))" using runs_to_here [of q] q by simp
  have c: "runs_to q (fst (rx_world s2))" if "propose_compensation clock v et d st g n s1 = (out, s2)" for et d st g n out s2
    using steps_onlyD [OF steps_compensation, of q s1 clock v et d st g n] q s1(2) that by simp
  show "runs_to q (fst (rx_world (snd (try_compensation clock v a au action s))))"
    unfolding try_compensation_def s1(1) Let_def prod.case
    using h c s1(2) by (simp split: option.split prod.split sum.split)
qed

lemma steps_unresolved: "steps_only (unresolved clock v a au reason pending)"
proof (rule steps_onlyI)
  fix s :: "'a reconciling" and q :: call_run assume q: "cr_db q = fst (rx_world s)"
  obtain x s1 where x: "try_compensation clock v a au (if pending then RA_pending else RA_quarantine) s = (x, s1)"
    by fastforce
  have 1: "runs_to q (fst (rx_world s1))" using steps_onlyD [OF steps_try_compensation q] x by (metis snd_conv)
  have "runs_to q (fst (rx_world (snd (record_unresolved clock v au ac reason receipt None s1))))" for ac receipt
    by (rule runs_to_trans [OF 1]) (rule steps_onlyD [OF steps_record_unresolved])
  with 1 show "runs_to q (fst (rx_world (snd (unresolved clock v a au reason pending s))))"
    by (simp add: unresolved_def x split: sum.split prod.split)
qed

section \<open>One row\<close>

lemma recorded_world [simp]: "rx_world (snd (recorded y)) = rx_world (snd y)"
  by (simp add: recorded_def)

lemma steps_model_evidence: "steps_only (model_evidence clock v a au prompt c)"
proof (rule steps_onlyI)
  fix s :: "'a reconciling" and q :: call_run assume q: "cr_db q = fst (rx_world s)"
  have h: "runs_to q (fst (rx_world s))" using runs_to_here [of q] q by simp
  have u: "runs_to q (fst (rx_world (snd (unresolved clock v a au reason pending s'))))"
    "runs_to q (fst (rx_world (snd (record_unresolved clock v au ac reason receipt us s'))))"
    if "fst (rx_world s') = fst (rx_world s)" for s' reason pending ac receipt us
    using steps_onlyD [OF steps_unresolved, of q s'] steps_onlyD [OF steps_record_unresolved, of q s'] q that by simp_all
  show "runs_to q (fst (rx_world (snd (model_evidence clock v a au prompt c s))))"
    unfolding model_evidence_def Let_def
    using h u by (auto split: option.split prod.split sum.split exn.split)
qed

lemma steps_gather: "steps_only (gather clock v a au request c)"
proof (rule steps_onlyI)
  fix s :: "'a reconciling" and q :: call_run assume q: "cr_db q = fst (rx_world s)"
  have h: "runs_to q (fst (rx_world s))" using runs_to_here [of q] q by simp
  note u = steps_onlyD [OF steps_unresolved q] and m = steps_onlyD [OF steps_model_evidence q]
  show "runs_to q (fst (rx_world (snd (gather clock v a au request c s))))"
    by (cases request) (use h u m in \<open>auto split: option.split sum.split exn.split\<close>)
qed

lemma steps_settle:
  assumes "runs_to q (fst (rx_world (snd y)))"
  shows "runs_to q (fst (rx_world (snd (settle clock v a au y))))"
proof -
  obtain x s where y: "y = (x, s)" by fastforce
  have u: "runs_to q (fst (rx_world (snd (unresolved clock v a au reason pending s))))" for reason pending
    by (rule runs_to_trans [OF assms]) (rule steps_onlyD [OF steps_unresolved], simp add: y)
  have j: "runs_to q (fst (rx_world (snd (on_journal (resolve_started_call r response us (fst (rx_world s))) s1))))"
    if s1: "rx_world s1 = rx_world s" for r response us s1
  proof (rule runs_to_trans [OF assms])
    fix t :: call_run assume "cr_db t = fst (rx_world (snd y))"
    then show "runs_to t (fst (rx_world (snd (on_journal (resolve_started_call r response us (fst (rx_world s))) s1))))"
      by (intro steps_on_journal) (auto simp: y s1 intro: call_step.resolved)
  qed
  have a: "runs_to q (fst (rx_world s))" using assms by (simp add: y)
  show ?thesis
  proof (cases x)
    case (Inl e)
    then show ?thesis using u a by (simp add: settle_def y)
  next
    case (Inr e)
    obtain now s1 where "read_clock clock s = (now, s1)" "rx_world s1 = rx_world s" by (rule read_clockE)
    then show ?thesis using Inr a j by (cases e) (simp_all add: settle_def y Let_def)
  qed
qed

text \<open>When the provider of a read is asked again for a row.\<close>

definition reads_again :: "(nat \<Rightarrow> int) \<Rightarrow> 's bound \<Rightarrow> reconcile_args \<Rightarrow> call_row \<Rightarrow> 's reconciling \<Rightarrow> bool" where
  "reads_again clock v a row s \<longleftrightarrow> safe_read (bj_method row) \<and>
     \<not> au_cancelled (authority_of v a (fst (rx_world s)) row) \<and>
     clock (rx_ticks s) < en_deadline (bo_envelope v) \<and>
     (\<exists>request. bj_request row = Some request \<and> request_fits (bj_method row) request \<and>
        json_digest (request_json request) = bj_request_digest row) \<and>
     (\<exists>g. grant_of v (bj_method row) = Inr g \<and> gr_grant_id g = bj_grant_id row)"

text \<open>
  One row: a run of the journal, whose only repeated send is the read just described. The row is
  one fetched before, so its identity and method are those of a row of the table.
\<close>

lemma reconcile_row_run:
  assumes "cr_db q = fst (rx_world s)"
    and "w \<in> set (bk_calls (cr_db q))" "call_key w = call_key row" "bj_method w = bj_method row"
  shows "\<exists>t ns. call_step\<^sup>*\<^sup>* q t \<and> cr_db t = fst (rx_world (snd (reconcile_row clock v a row s))) \<and>
    cr_pending t = cr_pending q \<and> cr_flight t = cr_flight q \<and> cr_sent t = ns @ cr_sent q \<and>
    cr_replays t = (if reads_again clock v a row s then [call_key row] else []) @ cr_replays q"
proof -
  obtain p where p: "call_step\<^sup>*\<^sup>* q p" "cr_db p = cr_db q" "cr_pending p = cr_pending q"
    "cr_flight p = cr_flight q" "cr_sent p = cr_sent q"
    "cr_replays p = (if reads_again clock v a row s then [call_key row] else []) @ cr_replays q"
  proof (cases "reads_again clock v a row s")
    case True
    have "call_step q (q\<lparr>cr_replays := call_key w # cr_replays q\<rparr>)"
      by (rule call_step.replayed [OF assms(2)]) (use True assms(4) in \<open>simp add: reads_again_def\<close>)
    then show ?thesis using True assms(3) by (intro that [of "q\<lparr>cr_replays := call_key w # cr_replays q\<rparr>"]) auto
  next
    case False
    then show ?thesis by (intro that [of q]) simp_all
  qed
  have q: "cr_db p = fst (rx_world s)" using assms(1) p(2) by simp
  obtain now s1 where s1: "read_clock clock s = (now, s1)" "rx_world s1 = rx_world s" by (rule read_clockE)
  have q1: "cr_db p = fst (rx_world s1)" using q s1(2) by simp
  have h: "runs_to p (fst (rx_world s))" using runs_to_here [of p] q by simp
  note u = steps_onlyD [OF steps_unresolved q] and u1 = steps_onlyD [OF steps_unresolved q1]
    and g = steps_settle [OF steps_onlyD [OF steps_gather q1]]
  have "runs_to p (fst (rx_world (snd (reconcile_row clock v a row s))))"
    unfolding reconcile_row_def s1(1) Let_def prod.case
    using h u u1 g s1(2) by (simp split: option.split sum.split)
  then obtain t ns where t: "call_step\<^sup>*\<^sup>* p t" "cr_db t = fst (rx_world (snd (reconcile_row clock v a row s)))"
    "cr_pending t = cr_pending p" "cr_flight t = cr_flight p" "cr_sent t = ns @ cr_sent p"
    "cr_replays t = cr_replays p" unfolding runs_to_def by blast
  show ?thesis
    by (intro exI [of _ t] exI [of _ ns]) (simp only: t(2-6) p(3-6) rtranclp_trans [OF p(1) t(1)] simp_thms)
qed

text \<open>Evidence that a provider was asked again is evidence of a read; every other method is looked up.\<close>

definition no_replay :: "evidence res \<times> 's reconciling \<Rightarrow> bool" where
  "no_replay y \<longleftrightarrow> (\<forall>response u reason. fst y \<noteq> Inr (Recovered response u RA_safe_replay reason))"

lemma no_replay_simps [simp]: "no_replay (recorded y)" "no_replay (Inl e, s)"
  "no_replay (Inr (Recovered response u action reason), s) \<longleftrightarrow> action \<noteq> RA_safe_replay"
  by (auto simp: no_replay_def recorded_def map_sum_def split: sum.split_asm)

lemma no_replay_model: "no_replay (model_evidence clock v a au p c s)"
  unfolding model_evidence_def Let_def by (simp split: option.split prod.split sum.split exn.split)

lemma gather_replays_reads: "\<not> no_replay (gather clock v a au request c s) \<Longrightarrow> request_fits m request \<Longrightarrow> safe_read m"
  by (cases request; cases m)
    (simp_all add: safe_read_def no_replay_model split: option.split_asm sum.split_asm exn.split_asm)

section \<open>All rows\<close>

lemma reconcile_rows_run:
  assumes "cr_db q = fst (rx_world s)"
    and "\<forall>row \<in> set rows. \<exists>w \<in> set (bk_calls (cr_db q)). call_key w = call_key row \<and> bj_method w = bj_method row"
  shows "\<exists>t ns ks. call_step\<^sup>*\<^sup>* q t \<and> cr_db t = fst (rx_world (snd (reconcile_rows clock v a rows acc s))) \<and>
    cr_pending t = cr_pending q \<and> cr_flight t = cr_flight q \<and> cr_sent t = ns @ cr_sent q \<and>
    cr_replays t = ks @ cr_replays q \<and> set ks \<subseteq> call_key ` {row \<in> set rows. safe_read (bj_method row)}"
  using assms
proof (induction rows arbitrary: q acc s)
  case Nil
  then show ?case by (intro exI [of _ q] exI [of _ "[]"]) simp
next
  case (Cons row rows)
  obtain x s1 where x: "reconcile_row clock v a row s = (x, s1)" by fastforce
  obtain w where w: "w \<in> set (bk_calls (cr_db q))" "call_key w = call_key row" "bj_method w = bj_method row"
    using Cons.prems(2) by auto
  let ?k = "if reads_again clock v a row s then [call_key row] else []"
  obtain t ns where t: "call_step\<^sup>*\<^sup>* q t" "cr_db t = fst (rx_world s1)" "cr_pending t = cr_pending q"
    "cr_flight t = cr_flight q" "cr_sent t = ns @ cr_sent q" "cr_replays t = ?k @ cr_replays q"
    using reconcile_row_run [OF Cons.prems(1) w, of clock v a] x by auto
  have k: "set ?k \<subseteq> call_key ` {r \<in> set (row # rows). safe_read (bj_method r)}"
    by (auto simp: reads_again_def)
  show ?case
  proof (cases x)
    case (Inl e)
    then show ?thesis by (intro exI [of _ t] exI [of _ ns] exI [of _ ?k]) (use t k x in simp)
  next
    case (Inr r)
    have "rows_stay (cr_db q) (cr_db t)"
      using t(1) by (induction rule: rtranclp_induct) (auto intro: rows_stay_trans call_step_rows_stay)
    then have "\<forall>row \<in> set rows. \<exists>w \<in> set (bk_calls (cr_db t)). call_key w = call_key row \<and> bj_method w = bj_method row"
      using Cons.prems(2) unfolding rows_stay_def by (metis list.set_intros(2))
    from Cons.IH [OF t(2) this, of "acc @ [r]"] obtain u ms ks where u: "call_step\<^sup>*\<^sup>* t u"
      "cr_db u = fst (rx_world (snd (reconcile_rows clock v a rows (acc @ [r]) s1)))" "cr_pending u = cr_pending t"
      "cr_flight u = cr_flight t" "cr_sent u = ms @ cr_sent t" "cr_replays u = ks @ cr_replays t"
      "set ks \<subseteq> call_key ` {row \<in> set rows. safe_read (bj_method row)}" by blast
    have "set (ks @ ?k) \<subseteq> call_key ` {r \<in> set (row # rows). safe_read (bj_method r)}" using u(7) k by auto
    then show ?thesis
      by (intro exI [of _ u] exI [of _ "ms @ ns"] exI [of _ "ks @ ?k"])
        (use t(3-6) u(2-6) x Inr in \<open>simp add: rtranclp_trans [OF t(1) u(1)]\<close>)
  qed
qed

theorem reconciliation_is_a_run:
  assumes "cr_db q = fst (rx_world s)"
  shows "\<exists>t ns ks. call_step\<^sup>*\<^sup>* q t \<and> cr_db t = fst (rx_world (snd (reconcile_unresolved clock v a s))) \<and>
    cr_pending t = cr_pending q \<and> cr_flight t = cr_flight q \<and> cr_sent t = ns @ cr_sent q \<and>
    cr_replays t = ks @ cr_replays q \<and>
    set ks \<subseteq> call_key ` {row \<in> set (started_calls (bo_operation v) (cr_db q)). safe_read (bj_method row)}"
proof -
  have here: "\<exists>t ns ks. call_step\<^sup>*\<^sup>* q t \<and> cr_db t = fst (rx_world s) \<and>
    cr_pending t = cr_pending q \<and> cr_flight t = cr_flight q \<and> cr_sent t = ns @ cr_sent q \<and>
    cr_replays t = ks @ cr_replays q \<and> set ks \<subseteq> call_key ` {row \<in> set rows. safe_read (bj_method row)}" for rows
    using assms by (intro exI [of _ q] exI [of _ "[]"]) simp
  have "\<forall>row \<in> set (started_calls (bo_operation v) (cr_db q)).
      \<exists>w \<in> set (bk_calls (cr_db q)). call_key w = call_key row \<and> bj_method w = bj_method row"
    by (auto simp: started_calls_def)
  note rows = reconcile_rows_run [OF assms this, of clock v a "[]"]
  have "snd (reconcile_unresolved clock v a s) = s \<or> snd (reconcile_unresolved clock v a s) =
      snd (reconcile_rows clock v a (started_calls (bo_operation v) (cr_db q)) [] s)"
    by (simp add: reconcile_unresolved_def assms split: sum.split prod.split)
  then show ?thesis using rows here by (elim disjE) simp_all
qed

end
