(* ===== verification/Broker_Properties.thy ===== *)
theory Broker_Properties
  imports Reconciliation_Runs
begin

text \<open>
  Properties of the broker journal: however calls, provider outcomes, process losses and
  reconciliations interleave, one call identity is sent by a call at most once and only reads are
  sent again; a call that ended, and has no transaction of its own outstanding, is never rewritten,
  so a repeated call gets the stored response; and what a call returned stays within the budget.
\<close>

section \<open>Samples\<close>

definition sample_call :: invoke_args where
  "sample_call = \<lparr>iv_operation = OperationRef ''op-1'', iv_method = Evidence_query, iv_grant_id = ''grant-1'',
     iv_key = ''key-1'', iv_request = Evidence_req ''question'', iv_response_model = ''BrokerReceipt'',
     iv_usage = usage_zero\<lparr>us_input_tokens := 1\<rparr>,
     iv_budget = \<lparr>bu_wall_time_ms = 0, bu_model_requests = 0, bu_input_tokens = 5,
       bu_output_tokens = 0, bu_child_operations = 0, bu_artifact_bytes = 0\<rparr>,
     iv_control = None, iv_not_cancelled = False, iv_check = None\<rparr>"

definition sample_sent :: sent where
  "sample_sent = \<lparr>se_response = Receipt_resp \<lparr>br_kind = ''evidence'', br_handle = ''h'', br_digest = ''d'', br_value = ''v''\<rparr>,
     se_usage = usage_zero\<lparr>us_input_tokens := 2\<rparr>, se_check = Inr ()\<rparr>"

definition no_calls :: brk where
  "no_calls = \<lparr>bk_calls = [], bk_controls = []\<rparr>"

definition sample_calls :: brk where
  "sample_calls = fst (snd (invoke sample_call 1 2 (\<lambda>_. (Inr sample_sent, ())) (no_calls, ())))"

lemma no_calls_ok [simp]: "calls_ok no_calls" "usages_ok no_calls"
  by (simp_all add: calls_ok_def usages_ok_def no_calls_def)

lemma sample_admit: "admit_call sample_call 1 no_calls = Inr (Admitted 1 usage_zero,
    \<lparr>bk_calls = [started_row sample_call 1], bk_controls = []\<rparr>)"
  by (simp add: admit_call_def sample_call_def no_calls_def run_check_def prior_call_def find_call_def
      fetchone_def counted_usages_def next_sequence_def max_col_def insert_row_def usage_plus_def
      validate_broker_usage_def validated_def usage_zero_def budget_counter_def max_i64_def exceeded_def assert_budget_def Let_def)

lemma sample_check [simp]: "run_check sample_call now = Inr ()"
  by (simp add: run_check_def sample_call_def)

lemma sample_call_commit: "commit_call sample_call 1 usage_zero (Inr sample_sent) db =
    (Inr (se_response sample_sent), succeed_call sample_call 1 sample_sent db)"
  by (simp add: sample_call_def sample_sent_def commit_call_def usage_plus_def
      validate_broker_usage_def validated_def usage_zero_def budget_counter_def max_i64_def exceeded_def assert_budget_def Let_def)

lemma sample_invoke: "invoke sample_call 1 2 (\<lambda>_. (Inr sample_sent, ())) (no_calls, ()) =
    (Inr (se_response sample_sent), sample_calls, ())"
proof -
  have "fst (invoke sample_call 1 2 (\<lambda>_. (Inr sample_sent, ())) (no_calls, ())) = Inr (se_response sample_sent)"
    by (simp add: invoke_def sample_admit sample_call_commit Let_def)
  then show ?thesis unfolding sample_calls_def by (metis prod.collapse unit.exhaust)
qed

definition sample_call_row :: call_row where
  "sample_call_row = (started_row sample_call 1)\<lparr>bj_state := T_succeeded,
     bj_response_digest := Some (json_digest (response_json (se_response sample_sent))),
     bj_response := Some (se_response sample_sent), bj_usage := se_usage sample_sent\<rparr>"

lemma sample_calls_rows: "bk_calls sample_calls = [sample_call_row]"
proof -
  have "sample_calls = succeed_call sample_call 1 sample_sent \<lparr>bk_calls = [started_row sample_call 1], bk_controls = []\<rparr>"
    by (simp add: sample_calls_def invoke_steps sample_admit sample_call_commit)
  then have "bk_calls sample_calls = bk_calls (succeed_call sample_call 1 sample_sent
      \<lparr>bk_calls = [started_row sample_call 1], bk_controls = []\<rparr>)" by (rule arg_cong)
  then show ?thesis
    by (simp add: succeed_call_def bk_calls_set_call sample_call_row_def started_row_def)
qed

section \<open>Properties\<close>



text \<open>C30: Budgets: when a broker call returns a response it did not replay, the usage the journal then counts
  for the operation is within the budget in every counter; a replay changes nothing.\<close>

theorem returned_calls_stay_within_budget:
  assumes "calls_ok db" "usages_ok db" "\<And>q out q'. prov q = (Inr out, q') \<Longrightarrow> usage_ok (se_usage out)"
    "invoke c now1 now2 prov (db, p) = (Inr r, db', p')"
  shows "calls_ok db' \<and> usages_ok db' \<and>
    (db' = db \<and> p' = p \<and> (\<exists>w \<in> set (bk_calls db). bj_key w = iv_key c \<and> bj_response w = Some r) \<or>
     (\<exists>u. journal_usage (iv_operation c) db' = Inr u \<and> exceeded (iv_budget c) u = []))"
  using assms(4)
proof (cases rule: invoke_Inr)
  case replayed
  then show ?thesis using assms(1,2) admit_Replayed find_call_SomeD by metis
next
  case (returned n cur db1 s u)
  show ?thesis
    using returned_usage [OF returned(1) assms(1,2) assms(3) [OF returned(2)] returned(5,6,4)] by blast
qed

theorem returned_calls_stay_within_budget_witness:
  "\<exists>u. journal_usage (OperationRef ''op-1'') sample_calls = Inr u \<and> exceeded (iv_budget sample_call) u = []"
proof -
  have "usage_ok (se_usage sample_sent)"
    by (simp add: sample_sent_def usage_ok_def counters_simps budget_counter_def max_i64_def usage_zero_def)
  then have "\<exists>u. journal_usage (iv_operation sample_call) sample_calls = Inr u \<and> exceeded (iv_budget sample_call) u = []"
    using returned_calls_stay_within_budget [OF no_calls_ok _ sample_invoke] by (auto simp: no_calls_def)
  then show ?thesis by (simp add: sample_call_def)
qed

text \<open>C31: A finished call is final: once a call's row has succeeded or failed and no transaction of that call is
  outstanding (it is neither waiting to be sent nor at its provider), the row stays as it is however calls,
  outcomes, losses and reconciliations interleave after that. A later call with its identity then sends nothing
  and changes nothing, returns only the stored response to the same request bytes, and once its checks pass it
  does return it, conflicts on other request bytes and is indeterminate after a failure.\<close>

theorem finished_calls_are_final:
  assumes "calls_ok (cr_db s)" "w \<in> set (bk_calls (cr_db s))" "finished w"
    and "\<And>d n cur. (d, n, cur) \<in> set (cr_pending s) \<union> set (cr_flight s) \<Longrightarrow> (iv_operation d, n) \<noteq> call_seq w"
    and "call_step\<^sup>*\<^sup>* s t" "cr_db t = db"
    and "iv_operation c = bj_operation w" "iv_key c = bj_key w"
  shows "w \<in> set (bk_calls db) \<and> snd (invoke c now1 now2 prov (db, p)) = (db, p) \<and>
    (\<forall>r. fst (invoke c now1 now2 prov (db, p)) = Inr r \<longrightarrow>
       bj_state w = T_succeeded \<and> bj_response w = Some r \<and> bj_request_digest w = iv_digest c) \<and>
    (run_check c now1 = Inr () \<and> check_control c db = Inr () \<longrightarrow>
       (iv_digest c \<noteq> bj_request_digest w \<longrightarrow> fst (invoke c now1 now2 prov (db, p)) =
          Inl (BrokerCallConflict ''broker idempotency key already binds different request bytes'')) \<and>
       (iv_digest c = bj_request_digest w \<and> bj_state w = T_failed \<longrightarrow> fst (invoke c now1 now2 prov (db, p)) =
          Inl (BrokerCallIndeterminate ''broker call has no authoritative terminal receipt'')) \<and>
       (\<forall>r. iv_digest c = bj_request_digest w \<and> bj_state w = T_succeeded \<and> bj_response w = Some r \<and>
          response_model r = iv_response_model c \<and> bj_response_digest w = Some (json_digest (response_json r)) \<longrightarrow>
          fst (invoke c now1 now2 prov (db, p)) = Inr r))"
proof -
  have "none_under_way s w" using assms(4) by (fastforce simp: none_under_way_def call_seq_def)
  then have "at_rest t w" by (intro call_runs_at_rest [OF assms(5)] at_restI assms(1-3))
  then have fin: "calls_ok db \<and> w \<in> set (bk_calls db)" using assms(6) by (simp add: at_rest_def)
  note rep = invoke_repeated [OF conjunct1 [OF fin] conjunct2 [OF fin] assms(3,7,8)]
  note stored = invoke_stored [OF conjunct1 [OF fin] conjunct2 [OF fin] assms(7,8)]
  have eq: "invoke c now1 now2 prov (db, p) = (Inr r, db, p)" if "fst (invoke c now1 now2 prov (db, p)) = Inr r" for r
    using that rep(1) [of now1 now2 prov p] by (metis prod.collapse)
  have replay: "bj_state w = T_succeeded \<and> bj_response w = Some r \<and> bj_request_digest w = iv_digest c"
    if "fst (invoke c now1 now2 prov (db, p)) = Inr r" for r
    by (rule rep(2) [OF eq [OF that]])
  show ?thesis
  proof (intro conjI, goal_cases)
    case 1 show ?case using fin by blast
  next
    case 2 show ?case by (rule rep(1))
  next
    case 3 show ?case using replay by blast
  next
    case 4 show ?case by (intro impI conjI allI; elim conjE; (rule stored; assumption))
  qed
qed

text \<open>The sample call, repeated after a call with another key.\<close>

theorem finished_calls_are_final_witness:
  "\<exists>db. db = fst (snd (invoke (sample_call\<lparr>iv_key := ''key-2''\<rparr>) 3 4 (\<lambda>_. (Inr sample_sent, ())) (sample_calls, ()))) \<and>
     sample_call_row \<in> set (bk_calls db) \<and>
     snd (invoke sample_call 7 8 (\<lambda>n. (Inr sample_sent, n + 1)) (db, 0 :: int)) = (db, 0)"
proof -
  let ?s = "\<lparr>cr_db = sample_calls, cr_pending = [], cr_flight = [], cr_sent = [], cr_replays = []\<rparr>"
  let ?db = "fst (snd (invoke (sample_call\<lparr>iv_key := ''key-2''\<rparr>) 3 4 (\<lambda>_. (Inr sample_sent, ())) (sample_calls, ())))"
  obtain t where t: "call_step\<^sup>*\<^sup>* ?s t" "cr_db t = ?db"
    using invoke_is_a_run [of ?s "sample_call\<lparr>iv_key := ''key-2''\<rparr>" 3 4 "\<lambda>_. (Inr sample_sent, ())" "()"]
    unfolding call_run.simps by blast
  have "calls_ok (cr_db ?s)" by (simp add: calls_ok_def sample_calls_rows)
  moreover have "sample_call_row \<in> set (bk_calls (cr_db ?s))" by (simp add: sample_calls_rows)
  moreover have "finished sample_call_row" by (simp add: finished_def sample_call_row_def)
  moreover have "(iv_operation d, n) \<noteq> call_seq sample_call_row"
    if "(d, n, cur) \<in> set (cr_pending ?s) \<union> set (cr_flight ?s)" for d n cur using that by simp
  moreover have "iv_operation sample_call = bj_operation sample_call_row" "iv_key sample_call = bj_key sample_call_row"
    by (simp_all add: sample_call_row_def started_row_def)
  ultimately show ?thesis
    using finished_calls_are_final [OF _ _ _ _ t, of sample_call_row sample_call 7 8
        "\<lambda>n. (Inr sample_sent, n + 1)" "0 :: int"] by blast
qed

end
