(* ===== verification/Model_Routes.thy ===== *)
theory Model_Routes
  imports Model_Journal
begin

text \<open>
  What the model journal keeps: one execution per operation and key, evidence with every
  terminal execution, and a binding for every execution. The interface between the journal
  and the registry of drivers is a locale whose law is exact attestation of the bound route;
  the static registry provides it for every driver.
\<close>

section \<open>Rows\<close>

definition execution_key :: "model_execution \<Rightarrow> operation_ref \<times> string" where
  "execution_key x = (mx_operation x, mx_key x)"

definition evidence_ok :: "model_execution \<Rightarrow> bool" where
  "evidence_ok x \<longleftrightarrow> (mx_state x = X_terminal_receipt \<or> mx_state x = X_result_committed \<longrightarrow>
     (\<exists>r. mx_response x = Some r \<and> mx_response_digest x = Some (json_digest (model_response_json r)) \<and>
        mx_usage x = Some (ms_usage r) \<and> mr_requested (ms_route_receipt r) = mx_binding x))"

definition bound_to :: "mjr \<Rightarrow> operation_ref \<Rightarrow> model_route_binding \<Rightarrow> bool" where
  "bound_to db i b \<longleftrightarrow> (\<exists>row \<in> set (mj_bindings db). ro_operation row = i \<and> ro_binding row = b)"

definition model_ok :: "mjr \<Rightarrow> bool" where
  "model_ok db \<longleftrightarrow> distinct (map execution_key (mj_executions db)) \<and>
     distinct (map ro_operation (mj_bindings db)) \<and>
     (\<forall>x \<in> set (mj_executions db). evidence_ok x \<and> bound_to db (mx_operation x) (mx_binding x))"

definition empty_journal :: mjr where
  "empty_journal = \<lparr>mj_bindings = [], mj_executions = []\<rparr>"

lemma model_ok_empty [simp]: "model_ok empty_journal"
  by (simp add: model_ok_def empty_journal_def)

lemma executions_set_execution:
  "mj_executions (set_execution i k p f db) =
     map (\<lambda>x. if mx_operation x = i \<and> mx_key x = k \<and> p x then f x else x) (mj_executions db)"
  by (simp add: set_execution_def update_rows_def split del: if_split)

lemma bindings_set_execution [simp]: "mj_bindings (set_execution i k p f db) = mj_bindings db"
  by (simp add: set_execution_def)

definition same_execution :: "(model_execution \<Rightarrow> model_execution) \<Rightarrow> bool" where
  "same_execution f \<longleftrightarrow> (\<forall>x. execution_key (f x) = execution_key x \<and> mx_binding (f x) = mx_binding x)"

lemma set_execution_ok:
  assumes "model_ok db" "same_execution f"
    and "\<And>x. x \<in> set (mj_executions db) \<Longrightarrow> execution_key x = (i, k) \<Longrightarrow> p x \<Longrightarrow> evidence_ok x \<Longrightarrow> evidence_ok (f x)"
  shows "model_ok (set_execution i k p f db)"
proof -
  let ?g = "\<lambda>x. if mx_operation x = i \<and> mx_key x = k \<and> p x then f x else x"
  have key: "execution_key (?g x) = execution_key x" "mx_binding (?g x) = mx_binding x"
    "mx_operation (?g x) = mx_operation x" for x
    using assms(2) by (auto simp: same_execution_def execution_key_def)
  have "map execution_key (mj_executions (set_execution i k p f db)) = map execution_key (mj_executions db)"
    unfolding executions_set_execution by (simp add: key o_def split del: if_split)
  moreover have "evidence_ok (?g x)" if "x \<in> set (mj_executions db)" for x
    using that assms(1,3) by (auto simp: model_ok_def execution_key_def)
  moreover have "bound_to db (mx_operation (?g x)) (mx_binding (?g x))" if "x \<in> set (mj_executions db)" for x
    using that assms(1) unfolding key by (simp add: model_ok_def)
  ultimately show ?thesis using assms(1) unfolding model_ok_def executions_set_execution bound_to_def
    by (simp only: set_map ball_simps bindings_set_execution simp_thms) blast
qed

lemma execution_unique:
  "model_ok db \<Longrightarrow> x \<in> set (mj_executions db) \<Longrightarrow> y \<in> set (mj_executions db) \<Longrightarrow>
   execution_key x = execution_key y \<Longrightarrow> x = y"
  by (auto simp: model_ok_def distinct_map inj_on_def)

lemma find_execution_SomeD:
  "find_execution i k db = Some x \<Longrightarrow> x \<in> set (mj_executions db) \<and> execution_key x = (i, k)"
  by (auto simp: find_execution_def execution_key_def dest!: fetchone_SomeD)

lemma find_execution_None:
  "find_execution i k db = None \<Longrightarrow> (i, k) \<notin> execution_key ` set (mj_executions db)"
  by (auto simp: find_execution_def execution_key_def fetchone_None_iff)

lemma find_execution_row:
  assumes "model_ok db" "x \<in> set (mj_executions db)"
  shows "find_execution (mx_operation x) (mx_key x) db = Some x"
proof (cases "find_execution (mx_operation x) (mx_key x) db")
  case None
  then show ?thesis using find_execution_None [OF None] assms(2) by (auto simp: execution_key_def)
next
  case (Some y)
  then have "y = x" using execution_unique [OF assms(1)] find_execution_SomeD [OF Some] assms(2)
    by (simp add: execution_key_def)
  with Some show ?thesis by simp
qed

lemma journal_binding_bound: "journal_binding i db = Inr b \<Longrightarrow> bound_to db i b"
  by (auto simp: journal_binding_def bound_to_def dest!: fetchone_SomeD validate_model_route_binding_Inr
      split: option.split_asm)

lemma bound_unique: "model_ok db \<Longrightarrow> bound_to db i b \<Longrightarrow> bound_to db i c \<Longrightarrow> b = c"
  unfolding model_ok_def bound_to_def distinct_map inj_on_def by metis

lemma bind_operation_ok:
  assumes "bind_operation i b db = Inr (b', db')" "model_ok db"
  shows "model_ok db'" "mj_executions db' = mj_executions db"
  using assms
  by (auto simp: bind_operation_def model_ok_def bound_to_def res_simps fetchone_None_iff
      split: option.split_asm if_split_asm)

lemma validated_response_Inr:
  "validated_response b x = Inr r \<Longrightarrow> mx_response x = Some r \<and> mx_binding x = b \<and>
     mr_requested (ms_route_receipt r) = b \<and> validate_model_response r = Inr r"
  by (auto simp: validated_response_def validate_model_response_def res_simps split: option.split_asm if_split_asm)

section \<open>The transactions keep the rows\<close>

lemma begin_execution_stored:
  "begin_execution i k p b db = Inr (Some r, db') \<Longrightarrow>
   db' = db \<and> (\<exists>x. find_execution i k db = Some x \<and> mx_state x = X_result_committed \<and>
     validated_response b x = Inr r)"
  by (auto simp: begin_execution_def res_simps split: option.split_asm if_split_asm)

lemma begin_execution_fresh:
  "begin_execution i k p b db = Inr (None, db') \<Longrightarrow> find_execution i k db = None \<and>
   mj_bindings db' = mj_bindings db \<and> mj_executions db' = mj_executions db @ [started_execution i k p b]"
  by (auto simp: begin_execution_def res_simps split: option.split_asm if_split_asm)

lemma begin_execution_ok:
  assumes "begin_execution i k p b db = Inr (s, db')" "model_ok db" "bound_to db i b"
  shows "model_ok db'"
proof (cases s)
  case None
  from begin_execution_fresh [OF assms(1) [unfolded None]] find_execution_None [of i k db]
  have "bound_to db' j c \<longleftrightarrow> bound_to db j c" "mj_bindings db' = mj_bindings db"
    "mj_executions db' = mj_executions db @ [started_execution i k p b]"
    "(i, k) \<notin> execution_key ` set (mj_executions db)" for j c by (simp_all add: bound_to_def)
  with assms(2,3) show ?thesis
    by (auto simp: model_ok_def started_execution_def evidence_ok_def execution_key_def)
next
  case (Some r)
  then show ?thesis using begin_execution_stored assms(1,2) by blast
qed

lemma fail_execution_ok:
  assumes "model_ok db"
  shows "model_ok (fail_execution i k e db)"
proof -
  have st: "st \<noteq> X_terminal_receipt \<and> st \<noteq> X_result_committed" if "fst (failed_execution e) = Some st" for st
    using that by (auto simp: failed_execution_def split: exn.split_asm if_split_asm)
  show ?thesis
  proof (cases "fst (failed_execution e)")
    case (Some st)
    show ?thesis unfolding fail_execution_def Some option.case
      by (rule set_execution_ok [OF assms])
        (use st [OF Some] in \<open>auto simp: same_execution_def execution_key_def evidence_ok_def\<close>)
  qed (simp add: fail_execution_def assms)
qed

lemma quarantine_lookup_ok:
  assumes "model_ok db"
  shows "model_ok (quarantine_lookup i k e db)"
proof -
  have st: "fst q \<noteq> X_terminal_receipt \<and> fst q \<noteq> X_result_committed" if "fst (failed_lookup e) = Some q" for q
    using that by (auto simp: failed_lookup_def split: exn.split_asm if_split_asm)
  show ?thesis
  proof (cases "fst (failed_lookup e)")
    case (Some q)
    obtain st code where q: "q = (st, code)" by (cases q)
    show ?thesis unfolding quarantine_lookup_def Some option.case q prod.case quarantine_execution_def
      by (rule set_execution_ok [OF assms])
        (use st [OF Some] q in \<open>auto simp: same_execution_def execution_key_def evidence_ok_def\<close>)
  qed (simp add: quarantine_lookup_def assms)
qed

text \<open>The row that is about to take a response carries the binding that response attests.\<close>

definition awaits :: "mjr \<Rightarrow> operation_ref \<Rightarrow> string \<Rightarrow> model_route_binding \<Rightarrow> bool" where
  "awaits db i k b \<longleftrightarrow> (\<forall>x \<in> set (mj_executions db). execution_key x = (i, k) \<longrightarrow> mx_binding x = b)"

lemma receipt_execution_ok:
  assumes "receipt_execution i k r db = Inr db'" "model_ok db" "awaits db i k (mr_requested (ms_route_receipt r))"
  shows "model_ok db'"
proof -
  from assms(1) have db': "db' = set_execution i k (\<lambda>x. mx_state x = X_send_started)
      (\<lambda>x. x\<lparr>mx_state := X_terminal_receipt,
             mx_response_digest := Some (json_digest (model_response_json r)), mx_response := Some r,
             mx_usage := Some (ms_usage r), mx_failure_code := None\<rparr>) db"
    by (simp add: receipt_execution_def split: if_split_asm)
  show ?thesis unfolding db' using assms(2,3)
    by (intro set_execution_ok) (auto simp: same_execution_def execution_key_def evidence_ok_def awaits_def)
qed

lemma commit_execution_ok:
  assumes "commit_execution i k db = Inr db'" "model_ok db"
  shows "model_ok db'"
proof -
  from assms(1) have db': "db' = set_execution i k (\<lambda>x. mx_state x = X_terminal_receipt)
      (\<lambda>x. x\<lparr>mx_state := X_result_committed\<rparr>) db"
    by (simp add: commit_execution_def split: if_split_asm)
  show ?thesis unfolding db' using assms(2)
    by (intro set_execution_ok) (auto simp: same_execution_def execution_key_def evidence_ok_def)
qed

lemma finish_execution_ok:
  assumes "finish_execution i k out db = (result, db')" "model_ok db"
    "\<And>r. out = Inr r \<Longrightarrow> awaits db i k (mr_requested (ms_route_receipt r))"
  shows "model_ok db'"
  using assms
  by (auto simp: finish_execution_def fail_execution_ok split: sum.split_asm
      intro: receipt_execution_ok commit_execution_ok)

lemma finish_execution_Inr: "finish_execution i k out db = (Inr r, db') \<Longrightarrow> out = Inr r"
  by (auto simp: finish_execution_def split: sum.split_asm)

lemma commit_receipt_ok:
  assumes "commit_receipt i k b r db = (result, db')" "model_ok db"
  shows "model_ok db'"
proof (cases "rowcount (\<lambda>x. mx_operation x = i \<and> mx_key x = k \<and> mx_state x = X_terminal_receipt)
    (mj_executions db) = 1")
  case True
  then have "commit_execution i k db = Inr db'" using assms(1)
    by (simp add: commit_receipt_def commit_execution_def)
  then show ?thesis using assms(2) by (rule commit_execution_ok)
next
  case False
  then show ?thesis using assms by (auto simp: commit_receipt_def Let_def split: option.split_asm if_split_asm)
qed

lemma commit_lookup_ok:
  assumes "commit_lookup i k b r db = (result, db')" "model_ok db" "awaits db i k (mr_requested (ms_route_receipt r))"
  shows "model_ok db'"
proof -
  have "model_ok (set_execution i k (\<lambda>x. mx_state x \<in> {X_send_started, X_indeterminate})
      (\<lambda>x. x\<lparr>mx_state := X_result_committed, mx_response_digest := Some (json_digest (model_response_json r)),
             mx_response := Some r, mx_usage := Some (ms_usage r), mx_failure_code := None\<rparr>) db)"
    using assms(2,3)
    by (intro set_execution_ok) (auto simp: same_execution_def execution_key_def evidence_ok_def awaits_def)
  then show ?thesis using assms(1,2)
    by (auto simp: commit_lookup_def Let_def split: option.split_asm if_split_asm)
qed

section \<open>The routes interface\<close>

locale model_routes =
  fixes request :: "model_route_binding \<Rightarrow> string \<Rightarrow> broker_context \<Rightarrow> 's \<Rightarrow> model_response res \<times> 's"
    and lookup :: "model_route_binding \<Rightarrow> string \<Rightarrow> broker_context \<Rightarrow> 's \<Rightarrow> model_response option res \<times> 's"
  assumes request_attests: "request b p c s = (Inr r, s') \<Longrightarrow> mr_requested (ms_route_receipt r) = b"
    and lookup_attests: "lookup b p c s = (Inr (Some r), s') \<Longrightarrow> mr_requested (ms_route_receipt r) = b"
begin

lemma invoke_ok:
  assumes "model_invoke request i p c (db, s) = (result, db', s')" "model_ok db"
  shows "model_ok db'"
proof -
  let ?k = "bx_key c"
  show ?thesis
  proof (cases "journal_binding i db")
    case (Inl e)
    with assms show ?thesis by (simp add: model_invoke_def)
  next
    case (Inr b)
    then have bound: "bound_to db i b" by (rule journal_binding_bound)
    show ?thesis
    proof (cases "begin_execution i ?k p b db")
      case (Inl e)
      with Inr assms show ?thesis by (simp add: model_invoke_def)
    next
      case begun: (Inr q)
      then obtain stored db1 where q: "begin_execution i ?k p b db = Inr (stored, db1)" by (cases q) simp
      have ok1: "model_ok db1" by (rule begin_execution_ok [OF q assms(2) bound])
      show ?thesis
      proof (cases stored)
        case (Some r)
        with Inr q assms ok1 show ?thesis by (simp add: model_invoke_def)
      next
        case None
        obtain out s1 where out: "request b p c s = (out, s1)" by (cases "request b p c s")
        from begin_execution_fresh [OF q [unfolded None]]
        have "awaits db1 i ?k b" by (auto simp: awaits_def started_execution_def execution_key_def find_execution_def
              fetchone_None_iff)
        moreover have "finish_execution i ?k out db1 = (result, db')"
          using assms(1) Inr q None out by (simp add: model_invoke_def Let_def split: prod.split_asm)
        ultimately show ?thesis using finish_execution_ok ok1 out request_attests by blast
      qed
    qed
  qed
qed

lemma invoke_attests:
  assumes "model_invoke request i p c (db, s) = (Inr r, db', s')"
  shows "bound_to db i (mr_requested (ms_route_receipt r))"
  using assms
  by (auto simp: model_invoke_def Let_def split: sum.split_asm prod.split_asm option.split_asm
      dest!: begin_execution_stored validated_response_Inr finish_execution_Inr request_attests
      intro: journal_binding_bound)

lemma reconcile_ok:
  assumes "model_reconcile lookup i p c (db, s) = (result, db', s')" "model_ok db"
  shows "model_ok db'"
proof -
  let ?k = "bx_key c"
  have awaits: "awaits db i ?k b" if "find_execution i ?k db = Some x" "mx_binding x = b" for x b
    using that find_execution_SomeD [OF that(1)] execution_unique [OF assms(2)]
    unfolding awaits_def by metis
  have looked: "model_ok db1" if "lookup b p' c s = (Inr (Some r), s1)" "commit_lookup i ?k b r db = (q, db1)"
    "find_execution i ?k db = Some x" "mx_binding x = b" for b r s1 q db1 x p'
    using commit_lookup_ok [OF that(2) assms(2)] awaits [OF that(3,4)] lookup_attests [OF that(1)] by simp
  show ?thesis using assms
    by (auto simp: model_reconcile_def Let_def quarantine_lookup_ok
        split: sum.split_asm prod.split_asm option.split_asm if_split_asm
        intro: commit_receipt_ok) (rule looked; (assumption | rule refl))+
qed

end

lemma static_request_attests:
  "static_request reg b p c s = (Inr r, s') \<Longrightarrow> mr_requested (ms_route_receipt r) = b"
  by (auto simp: static_request_def split: sum.split_asm prod.split_asm if_split_asm)

lemma static_reconcile_attests:
  "static_reconcile reg b p c s = (Inr (Some r), s') \<Longrightarrow> mr_requested (ms_route_receipt r) = b"
  by (auto simp: static_reconcile_def split: sum.split_asm prod.split_asm if_split_asm option.split_asm)

interpretation static_routes: model_routes "static_request reg" "static_reconcile reg" for reg
  by unfold_locales (rule static_request_attests static_reconcile_attests, assumption)+

end
