(* ===== verification/Model_Call_Properties.thy ===== *)
theory Model_Call_Properties
  imports Model_Routes
begin

text \<open>
  Properties of model calls over the static registry: a committed result is final and a
  repeated call is answered from it, and what answers is the route the operation is bound to.
\<close>

section \<open>Committed rows stay\<close>

definition only_at :: "operation_ref \<Rightarrow> string \<Rightarrow> mjr \<Rightarrow> mjr \<Rightarrow> bool" where
  "only_at i k db db' \<longleftrightarrow> (\<forall>x \<in> set (mj_executions db). execution_key x \<noteq> (i, k) \<longrightarrow> x \<in> set (mj_executions db'))"

lemma only_at_refl [simp]: "only_at i k db db"
  by (simp add: only_at_def)

lemma only_at_trans: "only_at i k a b \<Longrightarrow> only_at i k b c \<Longrightarrow> only_at i k a c"
  by (simp add: only_at_def)

lemma only_at_set_execution [simp]: "only_at i k db (set_execution i k p f db)"
  unfolding only_at_def executions_set_execution execution_key_def by (auto intro!: image_eqI)

lemma only_at_fail [simp]: "only_at i k db (fail_execution i k e db)"
  by (simp add: fail_execution_def split: option.split)

lemma only_at_quarantine [simp]: "only_at i k db (quarantine_lookup i k e db)"
  by (simp add: quarantine_lookup_def quarantine_execution_def split: option.split prod.split)

lemma only_at_finish: "finish_execution i k out db = (q, db') \<Longrightarrow> only_at i k db db'"
  by (auto simp: finish_execution_def receipt_execution_def commit_execution_def
      intro: only_at_trans [OF only_at_set_execution only_at_set_execution]
      split: sum.split_asm if_split_asm)

lemma only_at_commit_receipt: "commit_receipt i k b r db = (q, db') \<Longrightarrow> only_at i k db db'"
  by (auto simp: commit_receipt_def Let_def split: if_split_asm option.split_asm)

lemma only_at_commit_lookup: "commit_lookup i k b r db = (q, db') \<Longrightarrow> only_at i k db db'"
  by (auto simp: commit_lookup_def Let_def split: if_split_asm option.split_asm)

lemma invoke_committed:
  assumes "model_invoke request i p c (db, s) = (q, db', s')" "x \<in> set (mj_executions db)"
  shows "x \<in> set (mj_executions db')"
proof (cases "journal_binding i db")
  case (Inl e)
  with assms show ?thesis by (simp add: model_invoke_def)
next
  case (Inr b)
  show ?thesis
  proof (cases "\<exists>db1. begin_execution i (bx_key c) p b db = Inr (None, db1)")
    case True
    then obtain db1 where b: "begin_execution i (bx_key c) p b db = Inr (None, db1)" by blast
    then have "(i, bx_key c) \<notin> execution_key ` set (mj_executions db)"
      using begin_execution_fresh find_execution_None by blast
    then have fresh: "execution_key x \<noteq> (i, bx_key c)" using assms(2) by (metis imageI)
    have "x \<in> set (mj_executions db1)" using begin_execution_fresh [OF b] assms(2) by simp
    obtain out s1 where out: "request b p c s = (out, s1)" by (cases "request b p c s")
    have "finish_execution i (bx_key c) out db1 = (q, db')"
      using assms(1) Inr b out by (simp add: model_invoke_def Let_def split: prod.split_asm)
    then show ?thesis using fresh \<open>x \<in> set (mj_executions db1)\<close> only_at_finish only_at_def by blast
  next
    case False
    then have "db' = db" using assms(1) Inr
      by (auto simp: model_invoke_def Let_def dest: begin_execution_stored split: sum.split_asm prod.split_asm option.split_asm)
    with assms(2) show ?thesis by simp
  qed
qed

lemma reconcile_committed:
  assumes "model_reconcile lookup i p c (db, s) = (q, db', s')" "model_ok db"
    "x \<in> set (mj_executions db)" "mx_state x = X_result_committed"
  shows "x \<in> set (mj_executions db')"
proof -
  have only: "only_at i (bx_key c) db db'" using assms(1)
    by (auto simp: model_reconcile_def Let_def
        split: sum.split_asm prod.split_asm option.split_asm if_split_asm
        dest: only_at_commit_receipt only_at_commit_lookup)
  have "db' = db" if "execution_key x = (i, bx_key c)"
  proof -
    have "find_execution i (bx_key c) db = Some x"
      using find_execution_row [OF assms(2,3)] that by (simp add: execution_key_def)
    then show ?thesis using assms(1,4)
      by (auto simp: model_reconcile_def Let_def split: sum.split_asm if_split_asm)
  qed
  then show ?thesis using only assms(3) unfolding only_at_def by blast
qed

text \<open>One journal in use: route bindings, calls and reconciliations.\<close>

inductive model_step :: "'s static_registry \<Rightarrow> mjr \<times> 's \<Rightarrow> mjr \<times> 's \<Rightarrow> bool" for reg where
  bound: "bind_operation i b db = Inr (b', db') \<Longrightarrow> model_step reg (db, s) (db', s)"
| invoked: "model_invoke (static_request reg) i p c st = (q, st') \<Longrightarrow> model_step reg st st'"
| reconciled: "model_reconcile (static_reconcile reg) i p c st = (q', st') \<Longrightarrow> model_step reg st st'"

lemma model_step_ok: "model_step reg st st' \<Longrightarrow> model_ok (fst st) \<Longrightarrow> model_ok (fst st')"
  by (cases st; cases st'; erule model_step.cases)
    (auto dest: bind_operation_ok static_routes.invoke_ok static_routes.reconcile_ok)

lemma model_step_committed:
  "model_step reg st st' \<Longrightarrow> model_ok (fst st) \<Longrightarrow> x \<in> set (mj_executions (fst st)) \<Longrightarrow>
   mx_state x = X_result_committed \<Longrightarrow> x \<in> set (mj_executions (fst st'))"
  by (cases st; cases st'; erule model_step.cases)
    (auto dest: bind_operation_ok(2) invoke_committed reconcile_committed)

lemma model_steps_committed:
  assumes "(model_step reg)\<^sup>*\<^sup>* st st'" "model_ok (fst st)" "x \<in> set (mj_executions (fst st))"
    "mx_state x = X_result_committed"
  shows "model_ok (fst st') \<and> x \<in> set (mj_executions (fst st'))"
  using assms by (induction rule: rtranclp_induct) (auto dest: model_step_ok intro: model_step_committed)

lemma invoke_repeated_model:
  assumes "find_execution i (bx_key c) db = Some x"
  shows "snd (model_invoke request i p c (db, s)) = (db, s)"
    and "fst (model_invoke request i p c (db, s)) = Inr r \<Longrightarrow>
      mx_response x = Some r \<and> mx_prompt x = p \<and> mr_requested (ms_route_receipt r) = mx_binding x"
  using assms
  by (auto simp: model_invoke_def begin_execution_def Let_def and_then_Inr_iff
      split: sum.split sum.split_asm prod.split prod.split_asm option.split option.split_asm if_split_asm
      dest!: validated_response_Inr)

section \<open>Drivers return validated responses\<close>

text \<open>
  What every driver gets from its language: a \<open>ModelResponse\<close> object has passed its
  validators. What the registry adds is the exact attestation.
\<close>

definition typed_drivers :: "'s static_registry \<Rightarrow> bool" where
  "typed_drivers reg \<longleftrightarrow> (\<forall>d \<in> snd ` set (sr_drivers reg). \<forall>p c b s r s'.
     md_request d p c b s = (Inr r, s') \<longrightarrow> validate_model_response r = Inr r)"

lemma static_resolve_driver: "static_resolve reg b = Inr d \<Longrightarrow> d \<in> snd ` set (sr_drivers reg)"
  by (force simp: static_resolve_def res_simps dest!: map_of_SomeD split: if_split_asm option.split_asm)

lemma static_request_typed:
  "static_request reg b p c s = (Inr r, s') \<Longrightarrow> typed_drivers reg \<Longrightarrow> validate_model_response r = Inr r"
  unfolding typed_drivers_def static_request_def
  by (fastforce dest: static_resolve_driver split: sum.split_asm prod.split_asm if_split_asm)

lemma invoke_typed:
  assumes "model_invoke (static_request reg) i p c (db, s) = (Inr r, db', s')" "typed_drivers reg"
  shows "validate_model_response r = Inr r"
  using assms
  by (auto simp: model_invoke_def Let_def split: sum.split_asm prod.split_asm option.split_asm
      dest!: begin_execution_stored validated_response_Inr finish_execution_Inr static_request_typed)

section \<open>A late failure\<close>

text \<open>
  The handlers of a provider failure update the execution in whatever state it is, unlike
  \<open>_quarantine\<close> and the two commits. If a reconciliation commits the result while the first
  send is still waiting, the failure of that send discards it.
\<close>

lemma late_failure_discards_committed_result:
  assumes "begin_execution i k p b db = Inr (None, db1)" "commit_lookup i k b r db1 = (Inr r', db2)" "model_ok db2"
    "mx_state x = X_result_committed" "find_execution i k db2 = Some x"
  shows "find_execution i k (snd (finish_execution i k (Inl (ModelProviderOutcomeUnknown m)) db2)) =
    Some (x\<lparr>mx_state := X_indeterminate, mx_failure_code := Some ''ModelProviderOutcomeUnknown''\<rparr>)"
proof -
  have "mx_operation x = i \<and> mx_key x = k"
    using find_execution_SomeD [OF assms(5)] by (simp add: execution_key_def)
  then show ?thesis using assms(5)
    by (simp add: finish_execution_def fail_execution_def failed_execution_def set_execution_def
        find_execution_def fetchone_update_rows_same)
qed

section \<open>Samples\<close>

definition sample_model_profile :: model_route_profile where
  "sample_model_profile = \<lparr>mp_profile_id = ''fast'', mp_provider_driver = ''d'', mp_provider = ''p'', mp_model = ''m'',
     mp_reasoning_effort = None, mp_max_output_tokens = 100, mp_fallback_policy = FB_none,
     mp_cache_policy = CP_disabled\<rparr>"

definition sample_model_binding :: model_route_binding where
  "sample_model_binding = \<lparr>mb_profile_id = ''fast'', mb_catalog_digest = json_digest JNull,
     mb_profile_digest = profile_digest sample_model_profile,
     mb_provider_driver = ''d'', mb_provider = ''p'', mb_model = ''m'', mb_reasoning_effort = None,
     mb_max_output_tokens = 100, mb_fallback_policy = FB_none, mb_cache_policy = CP_disabled\<rparr>"

definition unsigned_receipt :: route_receipt where
  "unsigned_receipt = \<lparr>mr_requested = sample_model_binding,
     mr_effective = \<lparr>em_provider_driver = ''d'', em_provider = ''p'', em_model = ''m'', em_reasoning_effort = None\<rparr>,
     mr_finish_reason = ''stop'', mr_provider_response_id = None, mr_fallback_chain = [],
     mr_lookup_supported = False, mr_receipt_digest = []\<rparr>"

definition sample_response :: model_response where
  "sample_response = \<lparr>ms_output_text = ''answer'',
     ms_route_receipt = unsigned_receipt\<lparr>mr_receipt_digest := json_digest (receipt_payload unsigned_receipt)\<rparr>,
     ms_usage = \<lparr>mu_accounting_source = AS_reference, mu_input_tokens = 1, mu_output_tokens = 1,
       mu_cache_read_tokens = None, mu_cache_write_tokens = None, mu_reasoning_tokens = None,
       mu_total_tokens = 2, mu_retry_ordinal = 0, mu_wasted = False\<rparr>\<rparr>"

definition sample_execution :: model_execution where
  "sample_execution = (started_execution (OperationRef ''op-1'') ''key-1'' ''hello'' sample_model_binding)
     \<lparr>mx_state := X_result_committed, mx_response_digest := Some (json_digest (model_response_json sample_response)),
      mx_response := Some sample_response, mx_usage := Some (ms_usage sample_response)\<rparr>"

definition sample_model_journal :: mjr where
  "sample_model_journal = \<lparr>mj_bindings = [\<lparr>ro_operation = OperationRef ''op-1'', ro_binding = sample_model_binding\<rparr>],
     mj_executions = [sample_execution]\<rparr>"

definition sample_registry :: "nat static_registry" where
  "sample_registry = \<lparr>sr_catalog = \<lparr>mc_profiles = [sample_model_profile], mc_catalog_digest = json_digest JNull\<rparr>,
     sr_drivers = [(''fast'', \<lparr>md_id = 0,
       md_request = (\<lambda>p c b n. (Inr sample_response, n + 1)),
       md_reconcile = (\<lambda>p c b n. (Inr None, n)), md_close = (\<lambda>n. (Inr (), n))\<rparr>)],
     sr_closing = False, sr_closed = False, sr_closed_ids = []\<rparr>"

lemma sample_model_journal_ok: "model_ok sample_model_journal"
  by (simp add: model_ok_def sample_model_journal_def sample_execution_def started_execution_def
      evidence_ok_def bound_to_def sample_response_def unsigned_receipt_def)

lemma profile_of_sample: "binding_profile sample_model_binding = sample_model_profile"
  by (simp add: binding_profile_def sample_model_binding_def sample_model_profile_def)

lemma sample_binding_valid: "validate_model_route_binding sample_model_binding = Inr sample_model_binding"
proof -
  have "validate_model_route_profile sample_model_profile = Inr sample_model_profile"
    by (simp add: validate_model_route_profile_def validated_def sample_model_profile_def is_alnum_def
        is_lower_alnum_def char_in_def opt_ok_def positive_counter_def max_i64_def)
  moreover have "model_route_value (mb_profile_id sample_model_binding) \<and> is_digest (mb_catalog_digest sample_model_binding) \<and>
      is_digest (mb_profile_digest sample_model_binding) \<and> model_route_value (mb_provider_driver sample_model_binding) \<and>
      model_route_value (mb_provider sample_model_binding) \<and> model_route_value (mb_model sample_model_binding) \<and>
      opt_ok model_route_value (mb_reasoning_effort sample_model_binding) \<and>
      positive_counter (mb_max_output_tokens sample_model_binding)"
    by (simp add: sample_model_binding_def is_alnum_def is_lower_alnum_def char_in_def opt_ok_def
        positive_counter_def max_i64_def profile_digest_def)
  moreover have "mb_profile_digest sample_model_binding = profile_digest sample_model_profile"
    by (simp add: sample_model_binding_def)
  ultimately show ?thesis by (simp add: validate_model_route_binding_def validated_def profile_of_sample)
qed

lemma sample_response_valid: "validate_model_response sample_response = Inr sample_response"
proof -
  have "receipt_payload (ms_route_receipt sample_response) = receipt_payload unsigned_receipt"
    by (simp add: receipt_payload_def sample_response_def)
  then have "validate_route_receipt (ms_route_receipt sample_response) = Inr (ms_route_receipt sample_response)"
    unfolding validate_route_receipt_Inr_iff
    by (simp add: sample_response_def unsigned_receipt_def sample_model_binding_def is_alnum_def
        is_lower_alnum_def char_in_def opt_ok_def)
  moreover have "validate_effective_route (mr_effective (ms_route_receipt sample_response)) =
      Inr (mr_effective (ms_route_receipt sample_response))"
    by (simp add: validate_effective_route_def validated_def sample_response_def unsigned_receipt_def is_alnum_def
        is_lower_alnum_def char_in_def opt_ok_def)
  moreover have "validate_model_usage (ms_usage sample_response) = Inr (ms_usage sample_response)"
    by (simp add: validate_model_usage_def validated_def sample_response_def budget_counter_def max_i64_def opt_ok_def)
  moreover have "mr_requested (ms_route_receipt sample_response) = sample_model_binding"
    "mr_fallback_chain (ms_route_receipt sample_response) = []" "length (ms_output_text sample_response) \<le> 1048576"
    by (simp_all add: sample_response_def unsigned_receipt_def)
  ultimately show ?thesis using sample_binding_valid by (simp add: validate_model_response_def validated_def)
qed

lemma sample_registry_typed: "typed_drivers sample_registry"
  by (simp add: typed_drivers_def sample_registry_def sample_response_valid)

definition sample_context :: broker_context where
  "sample_context = \<lparr>bx_parent_operation = OperationRef ''op-1'', bx_grant_id = ''g'', bx_deadline = 9, bx_key = ''key-1''\<rparr>"

definition sample_bound :: mjr where
  "sample_bound = \<lparr>mj_bindings = [\<lparr>ro_operation = OperationRef ''op-1'', ro_binding = sample_model_binding\<rparr>],
     mj_executions = []\<rparr>"

lemma sample_bind: "bind_operation (OperationRef ''op-1'') sample_model_binding empty_journal =
    Inr (sample_model_binding, sample_bound)"
  by (simp add: bind_operation_def empty_journal_def sample_bound_def row_simps)

lemma sample_routed_request: "static_request sample_registry sample_model_binding p c n = (Inr sample_response, n + 1)"
proof -
  have "static_bind sample_registry ''fast'' = Inr sample_model_binding"
    using sample_binding_valid
    by (simp add: static_bind_def sample_registry_def row_simps binding_issue_def sample_model_profile_def)
      (simp add: sample_model_binding_def sample_model_profile_def)
  moreover have "mb_profile_id sample_model_binding = ''fast''"
    "mb_catalog_digest sample_model_binding = mc_catalog_digest (sr_catalog sample_registry)"
    "mr_requested (ms_route_receipt sample_response) = sample_model_binding"
    by (simp_all add: sample_model_binding_def sample_registry_def sample_response_def unsigned_receipt_def)
  ultimately show ?thesis
    by (simp add: static_request_def static_resolve_def) (simp add: sample_registry_def)
qed

lemma sample_model_call: "fst (model_invoke (static_request sample_registry) (OperationRef ''op-1'') ''hello''
    sample_context (sample_bound, n)) = Inr sample_response"
  by (simp add: model_invoke_def journal_binding_def sample_bound_def row_simps sample_binding_valid
      begin_execution_def find_execution_def sample_routed_request finish_execution_def receipt_execution_def
      commit_execution_def started_execution_def sample_context_def rowcount_def set_execution_def update_rows_def Let_def)

section \<open>Properties\<close>

text \<open>C32: A committed model result is final: whatever bindings, calls and reconciliations follow, its row stays
  as committed, and a later call with its operation and key reaches no driver, changes nothing and
  can only return the stored response, for the same prompt and attested for the stored route.\<close>

theorem committed_model_results_are_final:
  assumes "model_ok db" "x \<in> set (mj_executions db)" "mx_state x = X_result_committed"
    "(model_step reg)\<^sup>*\<^sup>* (db, s) (db', s')" "bx_key c = mx_key x"
  shows "x \<in> set (mj_executions db') \<and>
    snd (model_invoke (static_request reg) (mx_operation x) p c (db', s')) = (db', s') \<and>
    (\<forall>r. fst (model_invoke (static_request reg) (mx_operation x) p c (db', s')) = Inr r \<longrightarrow>
       mx_response x = Some r \<and> mx_prompt x = p \<and> mr_requested (ms_route_receipt r) = mx_binding x)"
proof -
  from model_steps_committed [OF assms(4)] assms(1-3)
  have ok: "model_ok db'" and x: "x \<in> set (mj_executions db')" by simp_all
  have f: "find_execution (mx_operation x) (bx_key c) db' = Some x"
    unfolding assms(5) by (rule find_execution_row [OF ok x])
  note rep = invoke_repeated_model [OF f, where request = "static_request reg" and p = p and s = s']
  show ?thesis
  proof (intro conjI allI impI)
    show "x \<in> set (mj_executions db')" by (rule x)
    show "snd (model_invoke (static_request reg) (mx_operation x) p c (db', s')) = (db', s')" by (rule rep(1))
    fix r assume "fst (model_invoke (static_request reg) (mx_operation x) p c (db', s')) = Inr r"
    note r = rep(2) [OF this]
    show "mx_response x = Some r" by (rule r [THEN conjunct1])
    show "mx_prompt x = p" by (rule r [THEN conjunct2, THEN conjunct1])
    show "mr_requested (ms_route_receipt r) = mx_binding x" by (rule r [THEN conjunct2, THEN conjunct2])
  qed
qed

theorem committed_model_results_are_final_witness:
  "snd (model_invoke (static_request sample_registry) (OperationRef ''op-1'') ''other''
     sample_context (sample_model_journal, 0)) = (sample_model_journal, 0)"
proof -
  have x: "mx_operation sample_execution = OperationRef ''op-1''" "mx_key sample_execution = ''key-1''"
    "mx_state sample_execution = X_result_committed" "sample_execution \<in> set (mj_executions sample_model_journal)"
    by (simp_all add: sample_execution_def started_execution_def sample_model_journal_def)
  have "bx_key sample_context = mx_key sample_execution" by (simp add: sample_context_def x)
  from committed_model_results_are_final [OF sample_model_journal_ok x(4,3) rtranclp.rtrancl_refl this,
      THEN conjunct2, THEN conjunct1]
  show ?thesis unfolding x(1) .
qed

text \<open>C33: What answers a model call is the bound route: in every journal reached from the empty one, a response
  returned by a call (fresh or stored) attests the very binding of its operation, and its effective
  driver, provider, model and effort are those of the binding, with no fallback where none is allowed.\<close>

theorem model_answers_come_from_the_bound_route:
  assumes "(model_step reg)\<^sup>*\<^sup>* (empty_journal, s0) (db, s)" "typed_drivers reg"
    "model_invoke (static_request reg) i p c (db, s) = (Inr r, db', s')"
  shows "model_ok db' \<and> (\<exists>b. bound_to db i b \<and> mr_requested (ms_route_receipt r) = b \<and>
    mr_effective (ms_route_receipt r) = \<lparr>em_provider_driver = mb_provider_driver b, em_provider = mb_provider b,
      em_model = mb_model b, em_reasoning_effort = mb_reasoning_effort b\<rparr> \<and>
    (mb_fallback_policy b = FB_none \<longrightarrow> mr_fallback_chain (ms_route_receipt r) = []))"
proof -
  have "model_ok (fst (db, s))" using assms(1)
    by (induction rule: rtranclp_induct) (auto dest: model_step_ok)
  then have "model_ok db'" using static_routes.invoke_ok [OF assms(3)] by simp
  moreover have "validate_route_receipt (ms_route_receipt r) = Inr (ms_route_receipt r)"
    using invoke_typed [OF assms(3,2)]
    by (auto simp: validate_model_response_def res_simps validate_route_receipt_Inr_iff)
  ultimately show ?thesis using static_routes.invoke_attests [OF assms(3)]
    by (intro conjI exI [of _ "mr_requested (ms_route_receipt r)"])
      (auto simp: validate_route_receipt_Inr_iff intro: effective_route.equality)
qed

theorem model_answers_come_from_the_bound_route_witness:
  "model_ok (fst (snd (model_invoke (static_request sample_registry) (OperationRef ''op-1'') ''hello'' sample_context
     (sample_bound, 0))))"
proof -
  let ?call = "model_invoke (static_request sample_registry) (OperationRef ''op-1'') ''hello'' sample_context
       (sample_bound, 0)"
  have "model_step sample_registry (empty_journal, 0) (sample_bound, 0)"
    using sample_bind by (rule model_step.bound)
  then have run: "(model_step sample_registry)\<^sup>*\<^sup>* (empty_journal, 0) (sample_bound, 0)" by (rule r_into_rtranclp)
  have "?call = (Inr sample_response, fst (snd ?call), snd (snd ?call))"
    unfolding sample_model_call [of 0, symmetric] by simp
  from model_answers_come_from_the_bound_route [OF run sample_registry_typed this]
  show ?thesis by (rule conjunct1)
qed

end
