(* ===== verification/Rlm_Models.thy ===== *)
theory Rlm_Models
  imports Broker_Models Content_Bound
begin

text \<open>
  The contract models of the recursive language-model runner (\<open>src/aar/rlm_models.py\<close>): job
  specifications, actions, steps and results bound to their trace by a digest.
\<close>

datatype strategy_name = S_baseline | S_evidence_synthesis

fun strategy_wire :: "strategy_name \<Rightarrow> string" where
  "strategy_wire S_baseline = ''baseline''"
| "strategy_wire S_evidence_synthesis = ''evidence_synthesis''"

record rlm_job_spec =
  js_query :: string
  js_strategy :: strategy_name
  js_max_steps :: int

definition rlm_job_spec_json :: "rlm_job_spec \<Rightarrow> json" where
  "rlm_job_spec_json j = JObj
     [(''schema_version'', JStr ''aar.rlm.v1''), (''query'', JStr (js_query j)),
      (''strategy'', JStr (strategy_wire (js_strategy j))), (''max_steps'', JInt (js_max_steps j))]"

definition strategy_minimum :: "strategy_name \<Rightarrow> int" where
  "strategy_minimum n = (if n = S_baseline then 1 else 2)"

definition validate_rlm_job_spec :: "rlm_job_spec \<Rightarrow> rlm_job_spec res" where
  "validate_rlm_job_spec j = validated
     (1 \<le> length (js_query j) \<and> length (js_query j) \<le> 65536 \<and> 1 \<le> js_max_steps j \<and> js_max_steps j \<le> 32)
     [(strategy_minimum (js_strategy j) \<le> js_max_steps j,
       ''strategy '' @ strategy_wire (js_strategy j) @ '' requires at least '' @
       itoa (strategy_minimum (js_strategy j)) @ '' bounded steps'')] j"

datatype rlm_action_kind = K_evidence_query | K_model_request

fun action_kind_wire :: "rlm_action_kind \<Rightarrow> string" where
  "action_kind_wire K_evidence_query = ''evidence.query''"
| "action_kind_wire K_model_request = ''model.request''"

record rlm_action =
  rk_kind :: rlm_action_kind
  rk_text :: string

definition rlm_action_json :: "rlm_action \<Rightarrow> json" where
  "rlm_action_json a = JObj
     [(''schema_version'', JStr ''aar.rlm.v1''), (''kind'', JStr (action_kind_wire (rk_kind a))),
      (''text'', JStr (rk_text a))]"

record rlm_step =
  st_index :: int
  st_action :: rlm_action_kind
  st_request_digest :: string
  st_call_sequence :: int
  st_grant_id :: string
  st_receipt :: broker_receipt

definition rlm_step_json :: "rlm_step \<Rightarrow> json" where
  "rlm_step_json s = JObj
     [(''schema_version'', JStr ''aar.rlm.v1''), (''index'', JInt (st_index s)),
      (''action'', JStr (action_kind_wire (st_action s))), (''request_digest'', JStr (st_request_digest s)),
      (''broker_call_sequence'', JInt (st_call_sequence s)), (''grant_id'', JStr (st_grant_id s)),
      (''receipt'', broker_receipt_json (st_receipt s))]"

definition validate_rlm_step :: "rlm_step \<Rightarrow> rlm_step res" where
  "validate_rlm_step s = validated (revision (st_index s) \<and> is_digest (st_request_digest s)) [] s"

record rlm_result =
  rs_operation :: operation_ref
  rs_strategy :: strategy_name
  rs_answer :: string
  rs_steps :: "rlm_step list"
  rs_usage :: broker_usage
  rs_trace :: "call_trace list"
  rs_trace_digest :: string

definition rlm_result_payload :: "rlm_result \<Rightarrow> json" where
  "rlm_result_payload r = JObj
     [(''operation'', operation_json (rs_operation r)), (''strategy'', JStr (strategy_wire (rs_strategy r))),
      (''answer'', JStr (rs_answer r)), (''steps'', JArr (map rlm_step_json (rs_steps r))),
      (''usage'', broker_usage_json (rs_usage r)),
      (''broker_trace'', JArr (map call_trace_json (rs_trace r)))]"

definition validate_rlm_result :: "rlm_result \<Rightarrow> rlm_result res" where
  "validate_rlm_result r = validated (is_digest (rs_trace_digest r))
     [(rs_trace_digest r = json_digest (rlm_result_payload r),
       ''RLM trace digest does not match canonical trace bytes'')] r"

definition rlm_result_issue ::
    "operation_ref \<Rightarrow> strategy_name \<Rightarrow> string \<Rightarrow> rlm_step list \<Rightarrow> broker_usage \<Rightarrow> call_trace list \<Rightarrow> rlm_result res" where
  "rlm_result_issue operation strategy answer steps usage broker_trace =
     (let payload = JObj
        [(''operation'', operation_json operation), (''strategy'', JStr (strategy_wire strategy)),
         (''answer'', JStr answer), (''steps'', JArr (map rlm_step_json steps)),
         (''usage'', broker_usage_json usage),
         (''broker_trace'', JArr (map call_trace_json broker_trace))]
      in validate_rlm_result
        \<lparr>rs_operation = operation, rs_strategy = strategy, rs_answer = answer, rs_steps = steps,
         rs_usage = usage, rs_trace = broker_trace, rs_trace_digest = json_digest payload\<rparr>)"

record rlm_job_snapshot =
  jn_operation :: operation_ref
  jn_state :: operation_state
  jn_spec :: rlm_job_spec
  jn_steps :: "rlm_step list"
  jn_usage :: broker_usage
  jn_result :: "rlm_result option"

interpretation trace_digest: content_bound rlm_result_payload rs_trace_digest
  "\<lambda>d r. r\<lparr>rs_trace_digest := d\<rparr>"
  by unfold_locales (simp_all add: rlm_result_payload_def)

lemma rlm_result_issue_Inr:
  "rlm_result_issue i n a steps u t = Inr r \<Longrightarrow>
     rs_operation r = i \<and> rs_strategy r = n \<and> rs_answer r = a \<and> rs_steps r = steps \<and> rs_usage r = u \<and>
     rs_trace r = t \<and> rs_trace_digest r = json_digest (rlm_result_payload r)"
  by (auto simp: rlm_result_issue_def validate_rlm_result_def validated_def Let_def
      rlm_result_payload_def split: if_split_asm)

end
