(* ===== verification/Effects.thy ===== *)
theory Effects
  imports Prelude
begin

text \<open>
  Code that changes state and can raise: an action maps a state to a result and the state
  it leaves, also when it raises. The combinators are sequencing, raising, and an action on
  a part of the state.
\<close>

type_synonym ('a, 's) act = "'s \<Rightarrow> 'a res \<times> 's"

named_theorems act_simps \<open>running actions\<close>

definition ret :: "'a \<Rightarrow> ('a, 's) act" where
  "ret x s = (Inr x, s)"

definition throw :: "exn \<Rightarrow> ('a, 's) act" where
  "throw e s = (Inl e, s)"

definition of_res :: "'a res \<Rightarrow> ('a, 's) act" where
  "of_res r s = (r, s)"

definition seq :: "('a, 's) act \<Rightarrow> ('a \<Rightarrow> ('b, 's) act) \<Rightarrow> ('b, 's) act" where
  "seq m f s = (case m s of (Inl e, s1) \<Rightarrow> (Inl e, s1) | (Inr x, s1) \<Rightarrow> f x s1)"

definition catch :: "('a, 's) act \<Rightarrow> (exn \<Rightarrow> ('a, 's) act) \<Rightarrow> ('a, 's) act" where
  "catch m h s = (case m s of (Inl e, s1) \<Rightarrow> h e s1 | (Inr x, s1) \<Rightarrow> (Inr x, s1))"

text \<open>\<open>try\<close> with an \<open>else\<close> part, which the handler does not guard, and a loop over a sequence.\<close>

definition try_else :: "('a, 's) act \<Rightarrow> (exn \<Rightarrow> ('b, 's) act) \<Rightarrow> ('a \<Rightarrow> ('b, 's) act) \<Rightarrow> ('b, 's) act" where
  "try_else m h f s = (case m s of (Inl e, s1) \<Rightarrow> h e s1 | (Inr x, s1) \<Rightarrow> f x s1)"

fun each :: "('x \<Rightarrow> (unit, 's) act) \<Rightarrow> 'x list \<Rightarrow> (unit, 's) act" where
  "each f [] = ret ()"
| "each f (x # xs) = seq (f x) (\<lambda>_. each f xs)"

definition raise_if :: "bool \<Rightarrow> exn \<Rightarrow> (unit, 's) act" where
  "raise_if c e s = (if c then Inl e else Inr (), s)"

text \<open>An action on a part of the state, and a transaction: its error leaves the part as it was.\<close>

definition within :: "('s \<Rightarrow> 'p) \<Rightarrow> ('p \<Rightarrow> 's \<Rightarrow> 's) \<Rightarrow> ('a, 'p) act \<Rightarrow> ('a, 's) act" where
  "within get put m s = (let (r, p) = m (get s) in (r, put p s))"

definition transact :: "('s \<Rightarrow> 'p) \<Rightarrow> ('p \<Rightarrow> 's \<Rightarrow> 's) \<Rightarrow> ('p \<Rightarrow> ('a \<times> 'p) res) \<Rightarrow> ('a, 's) act" where
  "transact get put f s = (case f (get s) of Inl e \<Rightarrow> (Inl e, s) | Inr (x, p) \<Rightarrow> (Inr x, put p s))"

lemma ret_run [act_simps]: "ret x s = (Inr x, s)"
  by (simp add: ret_def)

lemma throw_run [act_simps]: "throw e s = (Inl e, s)"
  by (simp add: throw_def)

lemma of_res_run [act_simps]: "of_res r s = (r, s)"
  by (simp add: of_res_def)

lemma raise_if_run [act_simps]: "raise_if c e s = (if c then Inl e else Inr (), s)"
  by (simp add: raise_if_def)

lemma seq_Inr [act_simps]: "seq m f s = (Inr y, t) \<longleftrightarrow> (\<exists>x s1. m s = (Inr x, s1) \<and> f x s1 = (Inr y, t))"
  by (auto simp: seq_def split: prod.split sum.split)

lemma seq_Inl: "seq m f s = (Inl e, t) \<longleftrightarrow> m s = (Inl e, t) \<or> (\<exists>x s1. m s = (Inr x, s1) \<and> f x s1 = (Inl e, t))"
  by (auto simp: seq_def split: prod.split sum.split)

lemma seq_step: "m s = (Inr x, s1) \<Longrightarrow> seq m f s = f x s1"
  by (simp add: seq_def)

lemma seq_stop: "m s = (Inl e, s1) \<Longrightarrow> seq m f s = (Inl e, s1)"
  by (simp add: seq_def)

lemma seq_ret [simp]: "seq (ret x) f = f x"
  by (rule ext) (simp add: seq_def ret_def)

lemma seq_assoc: "seq (seq m f) g = seq m (\<lambda>x. seq (f x) g)"
  by (rule ext) (simp add: seq_def split: prod.split sum.split)

lemma transact_Inr [act_simps]:
  "transact get put f s = (Inr x, t) \<longleftrightarrow> (\<exists>p. f (get s) = Inr (x, p) \<and> t = put p s)"
  by (auto simp: transact_def split: sum.split prod.split)

lemma transact_Inl: "transact get put f s = (Inl e, t) \<longleftrightarrow> f (get s) = Inl e \<and> t = s"
  by (auto simp: transact_def split: sum.split prod.split)

lemma within_run [act_simps]:
  "within get put m s = (r, t) \<longleftrightarrow> (\<exists>p. m (get s) = (r, p) \<and> t = put p s)"
  by (auto simp: within_def Let_def split: prod.split)

text \<open>A relation between the states before and after that sequencing keeps.\<close>

lemma seq_rel:
  assumes "\<And>s. R s s" "\<And>a b c. R a b \<Longrightarrow> R b c \<Longrightarrow> R a c"
    and "\<And>s. R s (snd (m s))" "\<And>x s. R s (snd (f x s))"
  shows "R s (snd (seq m f s))"
  using assms(3) [of s] assms(1,2,4) by (auto simp: seq_def split: prod.split sum.split)

end
