(* ===== verification/Rlm.thy ===== *)
theory Rlm
  imports Rlm_Models Effects Broker_Facade
begin

text \<open>
  The bounded runner of recursive language-model jobs (\<open>src/aar/runtime/rlm.py\<close>): the two
  strategies, the job store and the engine, over the broker facade.
\<close>

section \<open>Strategies\<close>

fun baseline_next :: "rlm_job_spec \<Rightarrow> rlm_step list \<Rightarrow> rlm_action option" where
  "baseline_next spec [] = Some \<lparr>rk_kind = K_model_request, rk_text = js_query spec\<rparr>"
| "baseline_next spec (s # steps) = None"

definition evidence_text :: "rlm_step \<Rightarrow> string" where
  "evidence_text s = (if br_value (st_receipt s) = [] then ''(no matching evidence)'' else br_value (st_receipt s))"

definition synthesis_prompt :: "rlm_job_spec \<Rightarrow> rlm_step \<Rightarrow> string" where
  "synthesis_prompt spec s = ''Question: '' @ js_query spec @ [char_of (10 :: nat)] @ ''Evidence:'' @
     [char_of (10 :: nat)] @ evidence_text s"

fun synthesis_next :: "rlm_job_spec \<Rightarrow> rlm_step list \<Rightarrow> rlm_action option" where
  "synthesis_next spec [] = Some \<lparr>rk_kind = K_evidence_query, rk_text = js_query spec\<rparr>"
| "synthesis_next spec [s] = Some \<lparr>rk_kind = K_model_request, rk_text = synthesis_prompt spec s\<rparr>"
| "synthesis_next spec (s # t # steps) = None"

fun next_of :: "strategy_name \<Rightarrow> rlm_job_spec \<Rightarrow> rlm_step list \<Rightarrow> rlm_action option" where
  "next_of S_baseline = baseline_next"
| "next_of S_evidence_synthesis = synthesis_next"

definition next_rlm_action :: "rlm_job_spec \<Rightarrow> rlm_step list \<Rightarrow> rlm_action option" where
  "next_rlm_action spec steps = next_of (js_strategy spec) spec steps"

text \<open>What the engine relies on: a strategy is done after a fixed number of steps.\<close>

locale rlm_strategy =
  fixes next_action :: "rlm_job_spec \<Rightarrow> rlm_step list \<Rightarrow> rlm_action option"
    and needed :: nat
  assumes decides: "next_action spec steps = None \<longleftrightarrow> needed \<le> length steps"
begin

lemma bound_suffices:
  "int needed \<le> m \<Longrightarrow> \<not> int (length steps) < m \<Longrightarrow> next_action spec steps = None"
  unfolding decides by simp

lemma action_means_unfinished: "next_action spec steps = Some a \<Longrightarrow> length steps < needed"
  using decides [of spec steps] by simp

end

interpretation baseline: rlm_strategy baseline_next 1
  by unfold_locales (case_tac steps, simp_all)

interpretation synthesis: rlm_strategy synthesis_next 2
  by unfold_locales (case_tac "(spec, steps)" rule: synthesis_next.cases, simp_all)

definition answer_of :: "rlm_step list \<Rightarrow> string res" where
  "answer_of steps = (if steps = [] then Inl (IndexError ''tuple index out of range'')
     else Inr (br_value (st_receipt (last steps))))"

section \<open>The store\<close>

record job_row =
  jb_operation :: operation_ref
  jb_state :: operation_state
  jb_spec :: rlm_job_spec
  jb_result :: "rlm_result option"

record step_row =
  jt_operation :: operation_ref
  jt_index :: int
  jt_step :: rlm_step

record rlm_store =
  rl_jobs :: "job_row tbl"
  rl_steps :: "step_row tbl"

definition find_job :: "operation_ref \<Rightarrow> rlm_store \<Rightarrow> job_row option" where
  "find_job i db = fetchone (\<lambda>j. jb_operation j = i) (rl_jobs db)"

definition set_job :: "operation_ref \<Rightarrow> (job_row \<Rightarrow> job_row) \<Rightarrow> rlm_store \<Rightarrow> rlm_store" where
  "set_job i f db = db\<lparr>rl_jobs := update_rows (\<lambda>j. jb_operation j = i) f (rl_jobs db)\<rparr>"

definition rlm_ensure :: "operation_ref \<Rightarrow> rlm_job_spec \<Rightarrow> rlm_store \<Rightarrow> (unit \<times> rlm_store) res" where
  "rlm_ensure i spec db =
     (case find_job i db of
        Some j \<Rightarrow> if jb_spec j \<noteq> spec then Inl (ValueError ''RLM operation already binds different spec bytes'')
                  else Inr ((), db)
      | None \<Rightarrow> Inr ((), db\<lparr>rl_jobs := rl_jobs db @
          [\<lparr>jb_operation = i, jb_state = ACCEPTED, jb_spec = spec, jb_result = None\<rparr>]\<rparr>))"

definition rlm_exists :: "operation_ref \<Rightarrow> rlm_store \<Rightarrow> bool" where
  "rlm_exists i db \<longleftrightarrow> find_job i db \<noteq> None"

definition rlm_set_state ::
    "operation_ref \<Rightarrow> operation_state set \<Rightarrow> operation_state \<Rightarrow> rlm_store \<Rightarrow> (unit \<times> rlm_store) res" where
  "rlm_set_state i expected state db =
     (case find_job i db of
        None \<Rightarrow> Inl (KeyError (operation_value i))
      | Some j \<Rightarrow>
        if jb_state j \<notin> expected then
          Inl (ValueError (''cannot transition RLM job from '' @ state_wire (jb_state j)))
        else Inr ((), set_job i (\<lambda>j. j\<lparr>jb_state := state\<rparr>) db))"

definition rlm_begin :: "operation_ref \<Rightarrow> rlm_store \<Rightarrow> (unit \<times> rlm_store) res" where
  "rlm_begin i = rlm_set_state i {ACCEPTED} RUNNING"

definition find_step :: "operation_ref \<Rightarrow> int \<Rightarrow> rlm_store \<Rightarrow> step_row option" where
  "find_step i n db = fetchone (\<lambda>w. jt_operation w = i \<and> jt_index w = n) (rl_steps db)"

definition rlm_record_step :: "operation_ref \<Rightarrow> rlm_step \<Rightarrow> rlm_store \<Rightarrow> (unit \<times> rlm_store) res" where
  "rlm_record_step i s db =
     (case find_step i (st_index s) db of
        Some w \<Rightarrow> if jt_step w \<noteq> s then
            Inl (ValueError ''RLM step index already binds different receipt bytes'')
          else Inr ((), db)
      | None \<Rightarrow>
        if find_job i db = None then Inl (IntegrityError ''FOREIGN KEY constraint failed'')
        else Inr ((), db\<lparr>rl_steps := rl_steps db @
          [\<lparr>jt_operation = i, jt_index = st_index s, jt_step = s\<rparr>]\<rparr>))"

definition rlm_complete :: "operation_ref \<Rightarrow> rlm_result \<Rightarrow> rlm_store \<Rightarrow> (unit \<times> rlm_store) res" where
  "rlm_complete i r db =
     (case find_job i db of
        None \<Rightarrow> Inl (KeyError (operation_value i))
      | Some j \<Rightarrow>
        if jb_state j = SUCCEEDED then
          (if jb_result j \<noteq> Some r then Inl (ValueError ''RLM operation already binds a different result'')
           else Inr ((), db))
        else if jb_state j \<noteq> RUNNING then
          Inl (ValueError (''cannot complete RLM job from '' @ state_wire (jb_state j)))
        else Inr ((), set_job i (\<lambda>j. j\<lparr>jb_state := SUCCEEDED, jb_result := Some r\<rparr>) db))"

definition rlm_mark :: "operation_ref \<Rightarrow> operation_state \<Rightarrow> rlm_store \<Rightarrow> (unit \<times> rlm_store) res" where
  "rlm_mark i state db =
     (if state \<notin> {CANCELLED, FAILED, INDETERMINATE, TIMED_OUT} then
        Inl (ValueError (''unsupported RLM terminal marker: '' @ state_wire state))
      else case find_job i db of
        None \<Rightarrow> Inl (KeyError (operation_value i))
      | Some j \<Rightarrow>
        if jb_state j \<in> {SUCCEEDED, CANCELLED, FAILED, TIMED_OUT} then Inr ((), db)
        else Inr ((), set_job i (\<lambda>j. j\<lparr>jb_state := state\<rparr>) db))"

definition rlm_terminal_result :: "operation_ref \<Rightarrow> rlm_store \<Rightarrow> rlm_result option" where
  "rlm_terminal_result i db = (case find_job i db of None \<Rightarrow> None | Some j \<Rightarrow> jb_result j)"

definition rlm_steps :: "operation_ref \<Rightarrow> rlm_store \<Rightarrow> rlm_step list" where
  "rlm_steps i db = map jt_step (sort_key jt_index (filter (\<lambda>w. jt_operation w = i) (rl_steps db)))"

definition rlm_snapshot ::
    "operation_ref \<Rightarrow> operation_state option \<Rightarrow> broker_usage option \<Rightarrow> rlm_store \<Rightarrow> rlm_job_snapshot res" where
  "rlm_snapshot i authoritative usage db =
     (case find_job i db of
        None \<Rightarrow> Inl (KeyError (operation_value i))
      | Some j \<Rightarrow> Inr
          \<lparr>jn_operation = i,
           jn_state = (case authoritative of None \<Rightarrow> jb_state j | Some s \<Rightarrow> s),
           jn_spec = jb_spec j, jn_steps = rlm_steps i db,
           jn_usage = (case usage of Some u \<Rightarrow> u
             | None \<Rightarrow> (case jb_result j of None \<Rightarrow> usage_zero | Some r \<Rightarrow> rs_usage r)),
           jn_result = jb_result j\<rparr>)"

definition rlm_resume :: "operation_ref \<Rightarrow> rlm_store \<Rightarrow> (unit \<times> rlm_store) res" where
  "rlm_resume i db =
     (case find_job i db of
        None \<Rightarrow> Inl (KeyError (operation_value i))
      | Some j \<Rightarrow>
        if jb_state j = ACCEPTED then Inr ((), db)
        else if jb_state j \<notin> {RUNNING, INDETERMINATE} then
          Inl (ValueError (''cannot resume RLM job from '' @ state_wire (jb_state j)))
        else Inr ((), set_job i (\<lambda>j. j\<lparr>jb_state := ACCEPTED\<rparr>) db))"

section \<open>The engine\<close>

text \<open>
  The callbacks and the clock act on a state of their own, which holds whatever else the host
  changes while a job runs; the failpoint is the argument of \<open>run\<close> that tests use to lose the
  process.
\<close>

record ('s, 'o) rlm_state =
  lm_store :: rlm_store
  lm_world :: "'s world"
  lm_outer :: 'o

record 'o rlm_env =
  lv_cancelled :: "(bool, 'o) act"
  lv_beat :: "(unit, 'o) act"
  lv_clock :: "'o \<Rightarrow> int \<times> 'o"
  lv_failpoint :: "string option"

definition poll :: "('a, 'o) act \<Rightarrow> ('a, ('s, 'o) rlm_state) act" where
  "poll m s = (fst (m (lm_outer s)), s\<lparr>lm_outer := snd (m (lm_outer s))\<rparr>)"

definition poll_clock :: "'o rlm_env \<Rightarrow> (int, ('s, 'o) rlm_state) act" where
  "poll_clock e = poll (\<lambda>x. (Inr (fst (lv_clock e x)), snd (lv_clock e x)))"

definition stop_if_cancelled :: "'o rlm_env \<Rightarrow> string \<Rightarrow> (unit, ('s, 'o) rlm_state) act" where
  "stop_if_cancelled e m = seq (poll (lv_cancelled e)) (\<lambda>c. raise_if c (RlmExecutionCancelled m))"

definition on_store :: "(rlm_store \<Rightarrow> ('a \<times> rlm_store) res) \<Rightarrow> ('a, ('s, 'o) rlm_state) act" where
  "on_store = transact lm_store (\<lambda>db s. s\<lparr>lm_store := db\<rparr>)"

definition on_world :: "('s world \<Rightarrow> 'a res \<times> 's world) \<Rightarrow> ('a, ('s, 'o) rlm_state) act" where
  "on_world = within lm_world (\<lambda>w s. s\<lparr>lm_world := w\<rparr>)"

definition ask :: "(('s, 'o) rlm_state \<Rightarrow> 'a res) \<Rightarrow> ('a, ('s, 'o) rlm_state) act" where
  "ask f s = (f s, s)"

definition failpoint :: "'o rlm_env \<Rightarrow> string \<Rightarrow> (unit, ('s, 'o) rlm_state) act" where
  "failpoint e name = raise_if (lv_failpoint e = Some name) SimulatedRlmProcessLoss"

text \<open>Both calls return a receipt: their journal rows are read back as one.\<close>

definition receipt_of :: "broker_response res \<times> 's world \<Rightarrow> broker_receipt res \<times> 's world" where
  "receipt_of q = (and_then (fst q) (\<lambda>r. case r of Receipt_resp x \<Rightarrow> Inr x
     | _ \<Rightarrow> Inl (ValidationError ''field constraint'')), snd q)"

definition step_key :: "nat \<Rightarrow> string" where
  "step_key index = ''rlm-step-'' @ itoa (int index)"

definition send_action ::
    "'s bound \<Rightarrow> rlm_action \<Rightarrow> nat \<Rightarrow> int \<Rightarrow> 's world \<Rightarrow> broker_receipt res \<times> 's world" where
  "send_action v a index now w = receipt_of
     (case rk_kind a of
        K_evidence_query \<Rightarrow> bound_evidence_query v (rk_text a) (step_key index) now w
      | K_model_request \<Rightarrow> bound_model_request v (rk_text a) (step_key index) now w)"

definition check_request :: "rlm_action \<Rightarrow> unit res" where
  "check_request a = map_sum id (\<lambda>_. ()) (case rk_kind a of
     K_evidence_query \<Rightarrow> validate_evidence_query (rk_text a)
   | K_model_request \<Rightarrow> validate_model_request (rk_text a))"

definition execute_action ::
    "'s bound \<Rightarrow> 'o rlm_env \<Rightarrow> rlm_action \<Rightarrow> nat \<Rightarrow> (broker_receipt, ('s, 'o) rlm_state) act" where
  "execute_action v e a index =
     seq (of_res (check_request a)) (\<lambda>_.
     seq (poll_clock e) (\<lambda>now. on_world (send_action v a index now)))"

definition last_trace :: "operation_ref \<Rightarrow> ('s, 'o) rlm_state \<Rightarrow> call_trace res" where
  "last_trace i s = (case traces i (fst (lm_world s)) of
     [] \<Rightarrow> Inl (IndexError ''tuple index out of range'') | ts \<Rightarrow> Inr (last ts))"

definition step_of :: "rlm_action \<Rightarrow> nat \<Rightarrow> call_trace \<Rightarrow> broker_receipt \<Rightarrow> rlm_step" where
  "step_of a index t r = \<lparr>st_index = int index, st_action = rk_kind a,
     st_request_digest = json_digest (rlm_action_json a), st_call_sequence = bt_sequence t,
     st_grant_id = bt_grant_id t, st_receipt = r\<rparr>"

text \<open>One turn of the loop; no step when the strategy has no further action.\<close>

definition rlm_turn ::
    "'s bound \<Rightarrow> 'o rlm_env \<Rightarrow> rlm_job_spec \<Rightarrow> rlm_step list \<Rightarrow> (rlm_step option, ('s, 'o) rlm_state) act" where
  "rlm_turn v e spec steps =
     seq (stop_if_cancelled e ''cancellation requested at RLM step boundary'') (\<lambda>_.
     seq (poll (lv_beat e)) (\<lambda>_.
     seq (poll_clock e) (\<lambda>now.
     seq (raise_if (now \<ge> en_deadline (bo_envelope v))
       (TimeoutError ''RLM request deadline expired during execution'')) (\<lambda>_.
     case next_rlm_action spec steps of
       None \<Rightarrow> ret None
     | Some a \<Rightarrow>
       seq (execute_action v e a (length steps)) (\<lambda>r.
       seq (failpoint e ''process_loss_after_broker_receipt'') (\<lambda>_.
       seq (ask (last_trace (bo_operation v))) (\<lambda>t.
       seq (of_res (validate_rlm_step (step_of a (length steps) t r))) (\<lambda>st.
       seq (on_store (rlm_record_step (bo_operation v) st)) (\<lambda>_.
       seq (poll (lv_beat e)) (\<lambda>_. ret (Some st)))))))))))"

text \<open>Each turn adds a step, so the bound on the steps is also the bound on the turns.\<close>

function rlm_loop ::
    "'s bound \<Rightarrow> 'o rlm_env \<Rightarrow> rlm_job_spec \<Rightarrow> rlm_step list \<Rightarrow> (rlm_step list, ('s, 'o) rlm_state) act" where
  "rlm_loop v e spec steps s =
     (if int (length steps) < js_max_steps spec then
        (case rlm_turn v e spec steps s of
           (Inl x, s1) \<Rightarrow> (Inl x, s1)
         | (Inr None, s1) \<Rightarrow> (Inr steps, s1)
         | (Inr (Some st), s1) \<Rightarrow> rlm_loop v e spec (steps @ [st]) s1)
      else (Inr steps, s))"
  by pat_completeness auto
termination by (relation "measure (\<lambda>(v, e, spec, steps, s). nat (js_max_steps spec) - length steps)") auto

declare rlm_loop.simps [simp del]

definition rlm_finish ::
    "'s bound \<Rightarrow> 'o rlm_env \<Rightarrow> rlm_job_spec \<Rightarrow> rlm_step list \<Rightarrow> (rlm_result, ('s, 'o) rlm_state) act" where
  "rlm_finish v e spec steps =
     seq (stop_if_cancelled e ''cancellation requested before RLM completion'') (\<lambda>_.
     seq (raise_if (next_rlm_action spec steps \<noteq> None)
       (RuntimeFailure ''RLM step bound exhausted before strategy completion'')) (\<lambda>_.
     seq (of_res (answer_of steps)) (\<lambda>answer.
     seq (ask (\<lambda>s. journal_usage (bo_operation v) (fst (lm_world s)))) (\<lambda>usage.
     seq (ask (\<lambda>s. rlm_result_issue (bo_operation v) (js_strategy spec) answer steps usage
       (traces (bo_operation v) (fst (lm_world s))))) (\<lambda>r.
     seq (stop_if_cancelled e ''cancellation requested before RLM receipt commit'') (\<lambda>_.
     seq (poll (lv_beat e)) (\<lambda>_.
     seq (on_store (rlm_complete (bo_operation v) r)) (\<lambda>_.
     seq (failpoint e ''process_loss_after_terminal_receipt'') (\<lambda>_. ret r)))))))))"

definition rlm_run :: "'s bound \<Rightarrow> 'o rlm_env \<Rightarrow> (rlm_result, ('s, 'o) rlm_state) act" where
  "rlm_run v e =
     seq (ask (\<lambda>s. rlm_snapshot (bo_operation v) None None (lm_store s))) (\<lambda>snapshot.
     seq (stop_if_cancelled e ''cancellation requested before RLM execution'') (\<lambda>_.
     seq (poll (lv_beat e)) (\<lambda>_.
     seq (on_store (rlm_begin (bo_operation v))) (\<lambda>_.
     seq (failpoint e ''process_loss_before_first_broker'') (\<lambda>_.
     seq (ask (\<lambda>s. Inr (rlm_steps (bo_operation v) (lm_store s)))) (\<lambda>steps.
     seq (rlm_loop v e (jn_spec snapshot) steps) (\<lambda>all. rlm_finish v e (jn_spec snapshot) all)))))))"

end
