(* ===== verification/Rlm_Runs.thy ===== *)
theory Rlm_Runs
  imports Rlm Broker_Journal Model_Routes
begin

text \<open>
  What makes a run of the engine repeatable: a brokered call that returned returns the same
  again and sends nothing, and in an undisturbed environment a run depends only on the store
  and the broker world, not on what the callbacks do to their own state.
\<close>

section \<open>Returned calls\<close>

definition plain_args :: "invoke_args \<Rightarrow> bool" where
  "plain_args c \<longleftrightarrow> iv_control c = None \<and> \<not> iv_not_cancelled c \<and> iv_check c = None"

text \<open>The identity of a call: what an earlier row of it is compared with.\<close>

definition same_request :: "invoke_args \<Rightarrow> invoke_args \<Rightarrow> bool" where
  "same_request c d \<longleftrightarrow> iv_operation d = iv_operation c \<and> iv_key d = iv_key c \<and> iv_request d = iv_request c \<and>
     iv_response_model d = iv_response_model c"

lemma prior_call_same:
  assumes "same_request c d"
  shows "prior_call d db = prior_call c db"
proof -
  from assms have e: "iv_operation d = iv_operation c" "iv_key d = iv_key c" "iv_request d = iv_request c"
    "iv_response_model d = iv_response_model c" by (simp_all add: same_request_def)
  show ?thesis by (simp only: prior_call_def iv_digest_def e)
qed

lemma invoke_prior:
  assumes "plain_args c" "prior_call c db = Inr (Stored r)"
  shows "invoke c a b prov (db, p) = (Inr r, db, p)"
  using assms by (simp add: invoke_def admit_call_def plain_args_def run_check_def Let_def)

lemma admit_prior:
  "admit_call c now db = Inr (Replayed r, db1) \<Longrightarrow> prior_call c db = Inr (Stored r)"
  using admit_Replayed [of c now db r db1]
  by (cases "prior_call c db")
    (auto simp: admit_call_def Let_def and_then_Inr_iff split: if_split_asm prior_call.split_asm)

lemma succeeded_prior:
  assumes a: "admit_call c now db = Inr (Admitted n cur, db1)" and ok: "calls_ok db"
    and m: "response_model (se_response s) = iv_response_model c"
  shows "prior_call c (succeed_call c n s db1) = Inr (Stored (se_response s))"
proof -
  let ?f = "\<lambda>w. w\<lparr>bj_state := T_succeeded, bj_response_digest := Some (json_digest (response_json (se_response s))),
    bj_response := Some (se_response s), bj_usage := se_usage s\<rparr>"
  obtain w where w: "bj_operation w = iv_operation c" "bj_sequence w = n" "bj_key w = iv_key c"
      "bj_request_digest w = iv_digest c"
    and rows: "set (bk_calls db1) = insert w {v \<in> set (bk_calls db). \<not> (bj_operation v = iv_operation c \<and> bj_sequence v = n)}"
    by (rule admit_row [OF a ok]) (rule that)
  have ok': "calls_ok (succeed_call c n s db1)" unfolding succeed_call_def
    by (rule calls_ok_set_call [OF admit_calls_ok [OF a ok]]) (simp add: same_call_def)
  have w': "?f w \<in> set (bk_calls (succeed_call c n s db1))"
    unfolding succeed_call_def set_call_rows using w rows by (intro bexI [of _ w]) simp_all
  have "find_call (iv_operation c) (iv_key c) (succeed_call c n s db1) = Some (?f w)"
    using find_call_unique [OF ok' w'] w by simp
  then show ?thesis using w m by (simp add: prior_call_def)
qed

lemma invoke_again:
  assumes i: "invoke c a b prov (db, p) = (Inr r, db', p')" and ok: "calls_ok db"
    and c: "plain_args d" "same_request c d"
  shows "invoke d a' b' prov' (db', q) = (Inr r, db', q)"
proof -
  have "prior_call c db' = Inr (Stored r)"
    using i ok
    by (auto simp: invoke_def commit_call_def Let_def res_simps dest: admit_prior admit_Replayed succeeded_prior
      split: sum.split_asm prod.split_asm admitted.split_asm if_split_asm)
  then show ?thesis using invoke_prior [OF c(1)] prior_call_same [OF c(2)] by simp
qed

section \<open>Bound calls\<close>

lemma call_args_plain [simp]: "plain_args (call_args v m c q model u)"
  by (simp add: plain_args_def call_args_def)

lemma call_args_same [simp]: "same_request (call_args v m c q model u) (call_args v m c q model u')"
  by (simp add: same_request_def call_args_def)

lemma bound_invoke_again:
  assumes "bound_invoke v m c q model u prov w = (Inr r, w1)" "calls_ok (fst w)"
  shows "bound_invoke v m c q model u' prov' w1 = (Inr r, w1)"
proof -
  obtain db p db' p' where w: "w = (db, p)" "w1 = (db', p')" by (cases w, cases w1) auto
  show ?thesis
    using invoke_again [OF assms(1) [unfolded bound_invoke_def w], of "call_args v m c q model u'"] assms(2)
    by (simp add: bound_invoke_def w)
qed

lemma bound_invoke_calls_ok: "calls_ok (fst w) \<Longrightarrow> calls_ok (fst (snd (bound_invoke v m c q model u prov w)))"
  using invoke_calls_ok [of "fst w" "call_args v m c q model u" 0 0 prov "snd w"] by (simp add: bound_invoke_def)

lemma prepare_now:
  "now < en_deadline (bo_envelope v) \<Longrightarrow> now' < en_deadline (bo_envelope v) \<Longrightarrow> prepare v m k now = prepare v m k now'"
  by (simp add: prepare_def)

lemma prepared_now:
  "now < en_deadline (bo_envelope v) \<Longrightarrow> now' < en_deadline (bo_envelope v) \<Longrightarrow>
   prepared v m k now f w = prepared v m k now' f w"
  by (simp add: prepared_def prepare_now [of now v now'])

lemma prepared_Inr:
  "prepared v m k now f w = (Inr r, w1) \<longleftrightarrow> (\<exists>c. prepare v m k now = Inr c \<and> f c w = (Inr r, w1))"
  by (auto simp: prepared_def split: sum.split)

text \<open>The model journal keeps the bound route through a call.\<close>

lemma model_invoke_bindings:
  "mj_bindings (fst (snd (model_invoke req i prompt c (db, s)))) = mj_bindings db"
proof -
  have f: "mj_bindings (fail_execution i k e d) = mj_bindings d" for k e d
    by (auto simp: fail_execution_def split: option.split)
  have r: "receipt_execution i k r d = Inr d' \<Longrightarrow> mj_bindings d' = mj_bindings d" for k r d d'
    by (auto simp: receipt_execution_def Let_def res_simps split: if_split_asm)
  have m: "commit_execution i k d = Inr d' \<Longrightarrow> mj_bindings d' = mj_bindings d" for k d d'
    by (auto simp: commit_execution_def Let_def res_simps split: if_split_asm)
  have g: "mj_bindings (snd (finish_execution i k out d)) = mj_bindings d" for k out d
    by (auto simp: finish_execution_def f split: sum.split) (metis r, metis r m)
  show ?thesis
    by (auto simp: model_invoke_def Let_def g split: sum.split prod.split option.split
        dest: begin_execution_stored)
      (metis begin_execution_fresh g snd_conv)
qed

lemma bound_model_request_again:
  assumes r: "bound_model_request v x k now w = (Inr r, w1)" and ok: "calls_ok (fst w)"
    and now: "now < en_deadline (bo_envelope v)" "now' < en_deadline (bo_envelope v)"
  shows "bound_model_request v x k now' w1 = (Inr r, w1)"
proof -
  obtain db p db1 p1 where w: "w = (db, p)" "w1 = (db1, p1)" by (cases w, cases w1) auto
  from r obtain c where c: "prepare v Model_request k now = Inr c"
    unfolding bound_model_request_def prepared_Inr by blast
  have c': "prepare v Model_request k now' = Inr c" using prepare_now [OF now] c by simp
  show ?thesis
  proof (cases "fa_routes (bo_facade v)")
    case None
    with r c c' show ?thesis
      by (auto simp: bound_model_request_def prepared_def Let_def intro: bound_invoke_again [OF _ ok])
  next
    case (Some routes)
    with r c w obtain b where b: "journal_binding (bo_operation v) (pv_models p) = Inr b"
      and i: "bound_invoke v Model_request c (Model_req x) ''BrokerReceipt''
        (model_call_usage (token_units x) (mb_max_output_tokens b))
        (routed_request routes (bo_operation v) b x c) w = (Inr r, w1)"
      by (auto simp: bound_model_request_def prepared_def split: sum.split_asm)
    have "mj_bindings (pv_models p1) = mj_bindings (pv_models p)"
      using i model_invoke_bindings [of "rq_request routes" "bo_operation v" x c "pv_models p" "pv_driver p"]
      by (auto simp: bound_invoke_def w invoke_def routed_request_def Let_def dest: admit_Replayed
        split: sum.split_asm prod.split_asm admitted.split_asm)
    then have "journal_binding (bo_operation v) (pv_models (snd w1)) = Inr b"
      using b by (simp add: journal_binding_def w)
    then show ?thesis using Some c' bound_invoke_again [OF i ok]
      by (simp add: bound_model_request_def prepared_def)
  qed
qed

lemma bound_evidence_query_again:
  assumes r: "bound_evidence_query v x k now w = (Inr r, w1)" and ok: "calls_ok (fst w)"
    and now: "now < en_deadline (bo_envelope v)" "now' < en_deadline (bo_envelope v)"
  shows "bound_evidence_query v x k now' w1 = (Inr r, w1)"
  using r prepared_now [OF now]
  by (auto simp: bound_evidence_query_def prepared_Inr intro: bound_invoke_again [OF _ ok])

lemma receipt_of_Inr: "receipt_of q = (Inr x, w) \<longleftrightarrow> q = (Inr (Receipt_resp x), w)"
  by (cases q) (auto simp: receipt_of_def res_simps split: broker_response.split_asm)

lemma send_action_again:
  assumes "send_action v a n now w = (Inr x, w1)" "calls_ok (fst w)"
    "now < en_deadline (bo_envelope v)" "now' < en_deadline (bo_envelope v)"
  shows "send_action v a n now' w1 = (Inr x, w1)"
  using assms bound_model_request_again bound_evidence_query_again
  unfolding send_action_def receipt_of_Inr by (cases "rk_kind a") (simp, blast)+

lemma send_action_now:
  assumes "now < en_deadline (bo_envelope v)" "now' < en_deadline (bo_envelope v)"
  shows "send_action v a n now w = send_action v a n now' w"
  using prepared_now [OF assms]
  by (simp add: send_action_def bound_model_request_def bound_evidence_query_def split: rlm_action_kind.split)

section \<open>Undisturbed runs\<close>

definition calm :: "'s bound \<Rightarrow> 'o rlm_env \<Rightarrow> bool" where
  "calm v e \<longleftrightarrow> (\<forall>x. fst (lv_cancelled e x) = Inr False \<and> fst (lv_beat e x) = Inr () \<and>
     fst (lv_clock e x) < en_deadline (bo_envelope v))"

definition same_rlm :: "('s, 'o) rlm_state \<Rightarrow> ('s, 'o) rlm_state \<Rightarrow> bool" where
  "same_rlm s t \<longleftrightarrow> lm_store s = lm_store t \<and> lm_world s = lm_world t"

lemma same_rlm_simps [simp]:
  "same_rlm s s" "same_rlm (s\<lparr>lm_outer := k\<rparr>) t = same_rlm s t" "same_rlm s (t\<lparr>lm_outer := k\<rparr>) = same_rlm s t"
  by (auto simp: same_rlm_def)

definition agree :: "('a, ('s, 'o) rlm_state) act \<Rightarrow> ('a, ('s, 'o) rlm_state) act \<Rightarrow> bool" where
  "agree m n \<longleftrightarrow> (\<forall>s t. same_rlm s t \<longrightarrow> fst (m s) = fst (n t) \<and> same_rlm (snd (m s)) (snd (n t)))"

named_theorems agree_intros \<open>actions that agree\<close>

lemma agreeD:
  "agree m n \<Longrightarrow> same_rlm s t \<Longrightarrow> m s = (x, s1) \<Longrightarrow> \<exists>t1. n t = (x, t1) \<and> same_rlm s1 t1"
  unfolding agree_def by (metis fst_conv prod.collapse snd_conv)

lemma agree_seq [agree_intros]:
  assumes m: "agree m n" and f: "\<And>x. agree (f x) (g x)"
  shows "agree (seq m f) (seq n g)"
  unfolding agree_def
proof (intro allI impI)
  fix s t :: "('a, 'b) rlm_state" assume st: "same_rlm s t"
  obtain x s1 where x: "m s = (x, s1)" by (cases "m s") auto
  obtain t1 where y: "n t = (x, t1)" "same_rlm s1 t1" using agreeD [OF m st x] by blast
  show "fst (seq m f s) = fst (seq n g t) \<and> same_rlm (snd (seq m f s)) (snd (seq n g t))"
    using x y f unfolding seq_def agree_def by (cases x) auto
qed

lemma agree_const [agree_intros]:
  "agree (ret x) (ret x)" "agree (raise_if c y) (raise_if c y)" "agree (of_res z) (of_res z)"
  by (simp_all add: agree_def act_simps)

lemma agree_poll: "(\<And>i j. fst (f i) = fst (g j)) \<Longrightarrow> agree (poll f) (poll g)"
  by (simp add: agree_def poll_def)

lemma agree_state [agree_intros]:
  "agree (on_store h) (on_store h)" "agree (on_world k) (on_world k)"
  by (auto simp: agree_def on_store_def on_world_def transact_def within_def same_rlm_def Let_def
      split: sum.split prod.split)

lemma agree_ask [agree_intros]: "(\<And>s t. same_rlm s t \<Longrightarrow> q s = q t) \<Longrightarrow> agree (ask q) (ask q)"
  by (simp add: agree_def ask_def)

lemma agree_option [agree_intros]:
  "agree m n \<Longrightarrow> (\<And>x. agree (f x) (g x)) \<Longrightarrow> agree (case z of None \<Rightarrow> m | Some x \<Rightarrow> f x) (case z of None \<Rightarrow> n | Some x \<Rightarrow> g x)"
  by (cases z) simp_all

lemma calm_simps:
  assumes "calm v e"
  shows "fst (lv_cancelled e n) = Inr False" "fst (lv_beat e n) = Inr ()" "fst (lv_clock e n) < en_deadline (bo_envelope v)"
  using assms by (simp_all add: calm_def)

lemma agree_poll_clock:
  fixes f g :: "int \<Rightarrow> ('a, ('s, 'o) rlm_state) act"
  assumes "\<And>i j. agree (f (fst (lv_clock e i))) (g (fst (lv_clock d j)))"
  shows "agree (seq (poll_clock e) f) (seq (poll_clock d) g)"
  unfolding agree_def
proof (intro allI impI)
  fix s t :: "('s, 'o) rlm_state" assume "same_rlm s t"
  then have "same_rlm (s\<lparr>lm_outer := snd (lv_clock e (lm_outer s))\<rparr>) (t\<lparr>lm_outer := snd (lv_clock d (lm_outer t))\<rparr>)" by simp
  from assms [unfolded agree_def, rule_format, OF this]
  show "fst (seq (poll_clock e) f s) = fst (seq (poll_clock d) g t) \<and>
    same_rlm (snd (seq (poll_clock e) f s)) (snd (seq (poll_clock d) g t))"
    by (simp add: seq_def poll_clock_def poll_def)
qed

lemma agree_calm:
  assumes "calm v e" "calm v d"
  shows "agree (stop_if_cancelled e m) (stop_if_cancelled d m)"
    "agree (poll (lv_beat e)) (poll (lv_beat d))"
    "agree (execute_action v e a k) (execute_action v d a k)"
proof -
  note c = calm_simps [OF assms(1)] calm_simps [OF assms(2)]
  show "agree (stop_if_cancelled e m) (stop_if_cancelled d m)"
    unfolding stop_if_cancelled_def by (intro agree_intros agree_poll) (simp add: c)
  show "agree (poll (lv_beat e)) (poll (lv_beat d))" by (rule agree_poll) (simp add: c)
  have e: "send_action v a k (fst (lv_clock e i)) = send_action v a k (fst (lv_clock d j))" for i j
    by (rule ext) (rule send_action_now [OF c(3) c(6)])
  have "agree (on_world (send_action v a k (fst (lv_clock e i)))) (on_world (send_action v a k (fst (lv_clock d j))))" for i j
    unfolding e [of i j] by (rule agree_state)
  then show "agree (execute_action v e a k) (execute_action v d a k)"
    unfolding execute_action_def by (intro agree_seq agree_const agree_poll_clock)
qed

lemma agree_failpoint: "lv_failpoint e = lv_failpoint d \<Longrightarrow> agree (failpoint e n) (failpoint d n)"
  by (simp add: failpoint_def agree_intros)

lemma agree_turn:
  assumes "calm v e" "calm v d" "lv_failpoint e = lv_failpoint d"
  shows "agree (rlm_turn v e spec steps) (rlm_turn v d spec steps)"
  unfolding rlm_turn_def
  using calm_simps(3) [OF assms(1)] calm_simps(3) [OF assms(2)]
  by (intro agree_seq [OF agree_calm(1) [OF assms(1,2)]] agree_seq [OF agree_calm(2) [OF assms(1,2)]]
      agree_poll_clock)
    (simp add: not_le [THEN iffD2], intro agree_intros agree_calm [OF assms(1,2)] agree_failpoint assms(3),
      simp add: last_trace_def same_rlm_def)

lemma agree_loop_at:
  assumes "calm v e" "calm v d" "lv_failpoint e = lv_failpoint d" "same_rlm s t"
  shows "fst (rlm_loop v e spec steps s) = fst (rlm_loop v d spec steps t) \<and>
    same_rlm (snd (rlm_loop v e spec steps s)) (snd (rlm_loop v d spec steps t))"
  using assms(4)
proof (induction "nat (js_max_steps spec) - length steps" arbitrary: steps s t rule: less_induct)
  case less
  obtain x s1 where x: "rlm_turn v e spec steps s = (x, s1)" by (cases "rlm_turn v e spec steps s") auto
  obtain t1 where y: "rlm_turn v d spec steps t = (x, t1)" "same_rlm s1 t1"
    using agreeD [OF agree_turn [OF assms(1-3)] less.prems x] by blast
  show ?case
  proof (cases "int (length steps) < js_max_steps spec")
    case True
    then have "nat (js_max_steps spec) - length (steps @ [st]) < nat (js_max_steps spec) - length steps" for st by simp
    from less.hyps [OF this y(2)] True x y show ?thesis
      by (simp add: rlm_loop.simps [of v e spec steps s] rlm_loop.simps [of v d spec steps t] split: sum.split option.split)
  next
    case False
    then show ?thesis using less.prems
      by (simp add: rlm_loop.simps [of v e spec steps s] rlm_loop.simps [of v d spec steps t])
  qed
qed

lemma agree_loop:
  "calm v e \<Longrightarrow> calm v d \<Longrightarrow> lv_failpoint e = lv_failpoint d \<Longrightarrow> agree (rlm_loop v e spec steps) (rlm_loop v d spec steps)"
  using agree_loop_at unfolding agree_def by blast

lemma agree_finish:
  assumes "calm v e" "calm v d" "lv_failpoint e = lv_failpoint d"
  shows "agree (rlm_finish v e spec steps) (rlm_finish v d spec steps)"
  unfolding rlm_finish_def
  by (intro agree_intros agree_calm [OF assms(1,2)] agree_failpoint assms(3)) (simp_all add: same_rlm_def)

lemma agree_run:
  assumes "calm v e" "calm v d" "lv_failpoint e = lv_failpoint d"
  shows "agree (rlm_run v e) (rlm_run v d)"
  unfolding rlm_run_def
  by (intro agree_intros agree_calm [OF assms(1,2)] agree_failpoint agree_loop [OF assms] agree_finish [OF assms]
      assms(3)) (simp_all add: same_rlm_def)

section \<open>Lost processes\<close>

abbreviation losing :: "string \<Rightarrow> 'o rlm_env \<Rightarrow> 'o rlm_env" where
  "losing f e \<equiv> e\<lparr>lv_failpoint := Some f\<rparr>"

lemma calm_losing [simp]: "calm v (losing f e) = calm v e"
  by (simp add: calm_def)

lemmas run_defs = seq_def poll_def poll_clock_def stop_if_cancelled_def raise_if_def failpoint_def ask_def
  of_res_def ret_def

lemma turn_Inr:
  assumes "calm v e" "rlm_turn v e spec steps s = (Inr x, s1)"
  shows "(next_rlm_action spec steps = None \<and> x = None \<and> same_rlm s s1) \<or>
    (\<exists>a now r t db st. next_rlm_action spec steps = Some a \<and> x = Some st \<and> check_request a = Inr () \<and>
       now < en_deadline (bo_envelope v) \<and>
       send_action v a (length steps) now (lm_world s) = (Inr r, lm_world s1) \<and>
       lv_failpoint e \<noteq> Some ''process_loss_after_broker_receipt'' \<and>
       last_trace (bo_operation v) s1 = Inr t \<and> validate_rlm_step (step_of a (length steps) t r) = Inr st \<and>
       rlm_record_step (bo_operation v) st (lm_store s) = Inr ((), db) \<and> lm_store s1 = db)"
  using assms(2) calm_simps [OF assms(1)]
  by (auto simp: rlm_turn_def run_defs execute_action_def on_world_def on_store_def within_def transact_def
      same_rlm_def last_trace_def Let_def
      split: if_split_asm option.split_asm sum.split_asm prod.split_asm) blast

lemma turn_crash:
  assumes c: "calm v e" and run: "rlm_turn v e spec steps s = (Inr (Some st), s1)"
    and ok: "calls_ok (fst (lm_world s))"
  shows "\<exists>s2. rlm_turn v (losing ''process_loss_after_broker_receipt'' e) spec steps s =
      (Inl SimulatedRlmProcessLoss, s2) \<and> lm_store s2 = lm_store s \<and> lm_world s2 = lm_world s1"
    and "lm_store s3 = lm_store s \<Longrightarrow> lm_world s3 = lm_world s1 \<Longrightarrow>
      \<exists>s4. rlm_turn v e spec steps s3 = (Inr (Some st), s4) \<and> same_rlm s1 s4"
proof -
  note calm = calm_simps [OF c]
  from turn_Inr [OF c run] obtain a now r t db where
    a: "next_rlm_action spec steps = Some a" "check_request a = Inr ()" and now: "now < en_deadline (bo_envelope v)"
    and send: "send_action v a (length steps) now (lm_world s) = (Inr r, lm_world s1)"
    and f: "lv_failpoint e \<noteq> Some ''process_loss_after_broker_receipt''"
    and t: "last_trace (bo_operation v) s1 = Inr t" "validate_rlm_step (step_of a (length steps) t r) = Inr st"
    and db: "rlm_record_step (bo_operation v) st (lm_store s) = Inr ((), db)" "lm_store s1 = db"
    by blast
  have once: "send_action v a (length steps) (fst (lv_clock e n)) (lm_world s) = (Inr r, lm_world s1)" for n
    using send send_action_now [OF calm(3) now] by metis
  have again: "send_action v a (length steps) (fst (lv_clock e n)) (lm_world s1) = (Inr r, lm_world s1)" for n
    using send_action_again [OF send ok now calm(3)] .
  note now' = calm(3) [THEN linorder_not_le [THEN iffD2]]
  show "\<exists>s2. rlm_turn v (losing ''process_loss_after_broker_receipt'' e) spec steps s =
      (Inl SimulatedRlmProcessLoss, s2) \<and> lm_store s2 = lm_store s \<and> lm_world s2 = lm_world s1"
    using a calm(1,2) now' once
    by (simp add: rlm_turn_def run_defs execute_action_def on_world_def within_def)
  show "\<exists>s4. rlm_turn v e spec steps s3 = (Inr (Some st), s4) \<and> same_rlm s1 s4"
    if "lm_store s3 = lm_store s" "lm_world s3 = lm_world s1"
    using a calm(1,2) now' again t db f that
    by (simp add: rlm_turn_def run_defs execute_action_def on_world_def on_store_def within_def transact_def
        last_trace_def same_rlm_def)
qed

lemma turn_no_action:
  assumes "calm v e" "next_rlm_action spec steps = None"
  shows "rlm_turn v (losing f e) spec steps s = rlm_turn v e spec steps s"
    "fst (rlm_turn v e spec steps s) = Inr None"
  using assms(2) calm_simps [OF assms(1)] by (simp_all add: rlm_turn_def run_defs not_le)

text \<open>
  A loop that ends either has no call to lose the process after, or loses it after its first
  call; then the store is untouched and the loop, started again, ends as it would have.
\<close>

lemma loop_crash:
  assumes c: "calm v e" and run: "rlm_loop v e spec steps s = (Inr all, t)" and ok: "calls_ok (fst (lm_world s))"
  shows "rlm_loop v (losing ''process_loss_after_broker_receipt'' e) spec steps s = (Inr all, t) \<or>
    (\<exists>s2. rlm_loop v (losing ''process_loss_after_broker_receipt'' e) spec steps s = (Inl SimulatedRlmProcessLoss, s2) \<and>
       lm_store s2 = lm_store s \<and> (\<forall>s3. same_rlm s2 s3 \<longrightarrow>
         (\<exists>t'. rlm_loop v e spec steps s3 = (Inr all, t') \<and> same_rlm t t')))"
proof (cases "int (length steps) < js_max_steps spec")
  case False
  then show ?thesis using run by (subst (1 2) rlm_loop.simps) (simp add: rlm_loop.simps [of v e spec steps s])
next
  case more: True
  note unfold = rlm_loop.simps [of v _ spec steps]
  obtain x s1 where x: "rlm_turn v e spec steps s = (Inr x, s1)"
    using run more by (auto simp: unfold split: prod.split_asm sum.split_asm)
  show ?thesis
  proof (cases x)
    case None
    with turn_Inr [OF c x] have "next_rlm_action spec steps = None" by auto
    from turn_no_action(1) [OF c this] x None
    have "rlm_loop v (losing ''process_loss_after_broker_receipt'' e) spec steps s = rlm_loop v e spec steps s"
      unfolding unfold by simp
    then show ?thesis using run by simp
  next
    case (Some st)
    with run more x have rest: "rlm_loop v e spec (steps @ [st]) s1 = (Inr all, t)" by (simp add: unfold)
    note crash = turn_crash [OF c x [unfolded Some] ok]
    from crash(1) obtain s2 where s2: "rlm_turn v (losing ''process_loss_after_broker_receipt'' e) spec steps s =
        (Inl SimulatedRlmProcessLoss, s2)" "lm_store s2 = lm_store s" "lm_world s2 = lm_world s1" by blast
    have "\<exists>t'. rlm_loop v e spec steps s3 = (Inr all, t') \<and> same_rlm t t'" if s3: "same_rlm s2 s3" for s3
    proof -
      from crash(2) [of s3] s2 s3 obtain s4 where s4: "rlm_turn v e spec steps s3 = (Inr (Some st), s4)" "same_rlm s1 s4"
        by (auto simp: same_rlm_def)
      from agreeD [OF agree_loop [OF c c refl] s4(2) rest] s4(1) more show ?thesis by (simp add: unfold)
    qed
    then show ?thesis using s2 more by (auto simp: unfold)
  qed
qed

section \<open>The store\<close>

lemma find_set_job: "(\<And>j. jb_operation (f j) = jb_operation j) \<Longrightarrow> find_job i (set_job i f db) = map_option f (find_job i db)"
  unfolding find_job_def set_job_def
  by (simp add: fetchone_update_rows_same option.map_comp comp_def)
    (cases "fetchone (\<lambda>j. jb_operation j = i) (rl_jobs db)", auto dest: fetchone_SomeD)

lemma steps_set_job [simp]: "rlm_steps i (set_job i f db) = rlm_steps i db"
  by (simp add: rlm_steps_def set_job_def)

lemma set_job_twice: "(\<And>j. jb_operation (f j) = jb_operation j) \<Longrightarrow> set_job i g (set_job i f db) = set_job i (\<lambda>j. g (f j)) db"
  by (simp add: set_job_def update_rows_def comp_def if_distrib cong: if_cong)

lemma begin_Inr:
  assumes "rlm_begin i db0 = Inr ((), db)"
  shows "\<exists>j. find_job i db0 = Some j \<and> jb_state j = ACCEPTED \<and> db = set_job i (\<lambda>j. j\<lparr>jb_state := RUNNING\<rparr>) db0 \<and>
    find_job i db = Some (j\<lparr>jb_state := RUNNING\<rparr>)"
  using assms by (auto simp: rlm_begin_def rlm_set_state_def find_set_job split: option.split_asm if_split_asm)

text \<open>A started job that is resumed and started again is where it was.\<close>

lemma resume_begin:
  assumes "rlm_begin i db0 = Inr ((), db)"
  shows "\<exists>db'. rlm_resume i db = Inr ((), db') \<and> rlm_begin i db' = Inr ((), db) \<and>
    map_option jb_spec (find_job i db') = map_option jb_spec (find_job i db0)"
proof -
  from begin_Inr [OF assms] obtain j where j: "find_job i db0 = Some j"
    "db = set_job i (\<lambda>j. j\<lparr>jb_state := RUNNING\<rparr>) db0" "find_job i db = Some (j\<lparr>jb_state := RUNNING\<rparr>)" by blast
  then show ?thesis
    by (simp add: rlm_resume_def rlm_begin_def rlm_set_state_def find_set_job set_job_twice)
qed

section \<open>Runs\<close>

text \<open>What the host does with a job found after a restart: its result if it has one, or a new run.\<close>

definition rlm_restart :: "'s bound \<Rightarrow> 'o rlm_env \<Rightarrow> (rlm_result, ('s, 'o) rlm_state) act" where
  "rlm_restart v e s = (case rlm_terminal_result (bo_operation v) (lm_store s) of Some r \<Rightarrow> (Inr r, s)
     | None \<Rightarrow> seq (on_store (rlm_resume (bo_operation v))) (\<lambda>_. rlm_run v e) s)"

text \<open>A run of an undisturbed job is its start, its loop and its finish.\<close>

definition polled :: "'o rlm_env \<Rightarrow> ('s, 'o) rlm_state \<Rightarrow> 'o" where
  "polled e s = snd (lv_beat e (snd (lv_cancelled e (lm_outer s))))"

lemma polled_simps [simp]: "polled (losing f e) s = polled e s" "polled e (s\<lparr>lm_store := db\<rparr>) = polled e s"
  by (simp_all add: polled_def)

lemma run_phases:
  assumes c: "calm v e"
  shows "rlm_run v e s = (case find_job (bo_operation v) (lm_store s) of
      None \<Rightarrow> (Inl (KeyError (operation_value (bo_operation v))), s)
    | Some j \<Rightarrow>
      (case rlm_begin (bo_operation v) (lm_store s) of Inl x \<Rightarrow> (Inl x, s\<lparr>lm_outer := polled e s\<rparr>)
       | Inr (_, db) \<Rightarrow>
         let s1 = s\<lparr>lm_outer := polled e s, lm_store := db\<rparr> in
         if lv_failpoint e = Some ''process_loss_before_first_broker'' then (Inl SimulatedRlmProcessLoss, s1)
         else seq (rlm_loop v e (jb_spec j) (rlm_steps (bo_operation v) db)) (rlm_finish v e (jb_spec j)) s1))"
  using calm_simps [OF c]
  by (simp add: rlm_run_def run_defs polled_def rlm_snapshot_def on_store_def transact_def Let_def
      split: option.split sum.split prod.split)

lemma finish_Inr:
  assumes c: "calm v e" and f: "lv_failpoint e = None" and run: "rlm_finish v e spec steps s = (Inr r, t)"
  shows "rlm_finish v (losing ''process_loss_after_terminal_receipt'' e) spec steps s = (Inl SimulatedRlmProcessLoss, t)"
    and "g \<noteq> ''process_loss_after_terminal_receipt'' \<Longrightarrow> rlm_finish v (losing g e) spec steps s = (Inr r, t)"
    and "\<exists>j. find_job (bo_operation v) (lm_store t) = Some j \<and> jb_result j = Some r"
    and "lm_world t = lm_world s"
proof -
  note d = rlm_finish_def run_defs on_store_def transact_def
  show "rlm_finish v (losing ''process_loss_after_terminal_receipt'' e) spec steps s = (Inl SimulatedRlmProcessLoss, t)"
    and "g \<noteq> ''process_loss_after_terminal_receipt'' \<Longrightarrow> rlm_finish v (losing g e) spec steps s = (Inr r, t)"
    and "lm_world t = lm_world s"
    using run f calm_simps [OF c]
    by (auto simp: d split: if_split_asm option.split_asm sum.split_asm prod.split_asm)
  from run f calm_simps [OF c] obtain db where db: "rlm_complete (bo_operation v) r (lm_store s) = Inr ((), db)" "lm_store t = db"
    by (auto simp: d split: if_split_asm option.split_asm sum.split_asm prod.split_asm)
  show "\<exists>j. find_job (bo_operation v) (lm_store t) = Some j \<and> jb_result j = Some r"
    unfolding db(2) using db(1)
    by (auto simp: rlm_complete_def find_set_job split: option.split_asm if_split_asm)
qed

lemma losing_simps:
  "stop_if_cancelled (losing f e) m = stop_if_cancelled e m" "poll_clock (losing f e) = poll_clock e"
  "execute_action v (losing f e) a k = execute_action v e a k" "lv_beat (losing f e) = lv_beat e"
  by (simp_all add: stop_if_cancelled_def poll_clock_def execute_action_def)

lemma failpoint_losing: "lv_failpoint e = None \<Longrightarrow> f \<noteq> n \<Longrightarrow> failpoint (losing f e) n = failpoint e n"
  by (simp add: failpoint_def)

lemma loop_losing:
  assumes "f \<noteq> ''process_loss_after_broker_receipt''"
  shows "lv_failpoint e = None \<Longrightarrow> rlm_loop v (losing f e) spec steps s = rlm_loop v e spec steps s"
proof (induction v e spec steps s rule: rlm_loop.induct)
  case (1 v e spec steps s)
  have "rlm_turn v (losing f e) spec steps s = rlm_turn v e spec steps s"
    unfolding rlm_turn_def losing_simps failpoint_losing [OF "1.prems" assms] by (rule refl)
  with 1 show ?case
    by (subst (1 2) rlm_loop.simps) (auto split: prod.split sum.split option.split)
qed

text \<open>
  One row per job, with a result exactly when it succeeded; one row per step and index, of a
  job that exists. Every operation of the store keeps that.
\<close>

definition jobs_ok :: "rlm_store \<Rightarrow> bool" where
  "jobs_ok db \<longleftrightarrow> distinct (map jb_operation (rl_jobs db)) \<and>
     (\<forall>j \<in> set (rl_jobs db). jb_result j \<noteq> None \<longleftrightarrow> jb_state j = SUCCEEDED) \<and>
     distinct (map (\<lambda>w. (jt_operation w, jt_index w)) (rl_steps db)) \<and>
     (\<forall>w \<in> set (rl_steps db). jt_operation w \<in> jb_operation ` set (rl_jobs db) \<and> jt_index w = st_index (jt_step w))"

lemma find_job_ok: "jobs_ok db \<Longrightarrow> find_job i db = Some j \<Longrightarrow> jb_result j \<noteq> None \<longleftrightarrow> jb_state j = SUCCEEDED"
  unfolding jobs_ok_def find_job_def by (drule fetchone_SomeD) blast

lemma lost_run_restarts:
  fixes s :: "('s, 'o) rlm_state"
  assumes c: "calm v e" and f: "lv_failpoint e = None" and ok: "calls_ok (fst (lm_world s))" "jobs_ok (lm_store s)"
    and run: "rlm_run v e s = (Inr r, t)"
    and lost: "rlm_run v (losing g e) s = (Inl x, s1)"
  shows "\<exists>t1. rlm_restart v e s1 = (Inr r, t1) \<and> same_rlm t t1"
proof -
  let ?i = "bo_operation v"
  have c': "calm v (losing g e)" using c by simp
  from run f obtain j db where j: "find_job ?i (lm_store s) = Some j" and db: "rlm_begin ?i (lm_store s) = Inr ((), db)"
    and body: "seq (rlm_loop v e (jb_spec j) (rlm_steps ?i db)) (rlm_finish v e (jb_spec j))
      (s\<lparr>lm_outer := polled e s, lm_store := db\<rparr>) = (Inr r, t)"
    by (auto simp: run_phases [OF c] Let_def split: option.split_asm sum.split_asm prod.split_asm)
  let ?s = "s\<lparr>lm_outer := polled e s, lm_store := db\<rparr>"
  let ?loop = "\<lambda>e. rlm_loop v e (jb_spec j) (rlm_steps ?i db)"
  from body obtain all u where loop: "?loop e ?s = (Inr all, u)"
    and fin: "rlm_finish v e (jb_spec j) all u = (Inr r, t)" by (auto simp: act_simps)
  from resume_begin [OF db] obtain db' where resume: "rlm_resume ?i db = Inr ((), db')" "rlm_begin ?i db' = Inr ((), db)"
    and spec: "map_option jb_spec (find_job ?i db') = map_option jb_spec (find_job ?i (lm_store s))" by blast
  obtain k where k: "find_job ?i db' = Some k" "jb_spec k = jb_spec j" using spec j by auto
  have none: "rlm_terminal_result ?i db = None"
    using begin_Inr [OF db] j find_job_ok [OF ok(2) j] by (auto simp: rlm_terminal_result_def)
  text \<open>Started again from the started job, the run ends as the undisturbed one.\<close>
  have again: "\<exists>t1. rlm_restart v e s2 = (Inr r, t1) \<and> same_rlm t t1"
    if st: "lm_store s2 = db" and l: "\<And>s3. same_rlm s2 s3 \<Longrightarrow> \<exists>u1. ?loop e s3 = (Inr all, u1) \<and> same_rlm u u1" for s2
  proof -
    have "rlm_restart v e s2 = seq (?loop e) (rlm_finish v e (jb_spec j))
        (s2\<lparr>lm_store := db', lm_outer := polled e s2, lm_store := db\<rparr>)"
      using none resume k f st by (simp add: rlm_restart_def seq_def on_store_def transact_def run_phases [OF c] Let_def)
    moreover obtain u1 where "?loop e (s2\<lparr>lm_store := db', lm_outer := polled e s2, lm_store := db\<rparr>) = (Inr all, u1)"
      and u1: "same_rlm u u1"
      using l [of "s2\<lparr>lm_store := db', lm_outer := polled e s2, lm_store := db\<rparr>"] st
      by (auto simp: same_rlm_def)
    moreover obtain t1 where "rlm_finish v e (jb_spec j) all u1 = (Inr r, t1)" "same_rlm t t1"
      using agreeD [OF agree_finish [OF c c refl] u1 fin] by blast
    ultimately show ?thesis by (simp add: seq_def)
  qed
  have rerun: "\<exists>u1. ?loop e s3 = (Inr all, u1) \<and> same_rlm u u1" if "same_rlm ?s s3" for s3
    using agreeD [OF agree_loop [OF c c refl] that loop] .
  have start: "rlm_run v (losing g e) s = (if g = ''process_loss_before_first_broker'' then (Inl SimulatedRlmProcessLoss, ?s)
      else seq (?loop (losing g e)) (rlm_finish v (losing g e) (jb_spec j)) ?s)"
    using j db by (simp add: run_phases [OF c'] Let_def)
  consider "g = ''process_loss_before_first_broker''" | "g = ''process_loss_after_broker_receipt''"
    | "g \<noteq> ''process_loss_before_first_broker''" "g \<noteq> ''process_loss_after_broker_receipt''" by blast
  then show ?thesis
  proof cases
    case 1
    then have "s1 = ?s" using lost start by simp
    then show ?thesis using again [of ?s] rerun by simp
  next
    case 2
    then have l: "seq (?loop (losing g e)) (rlm_finish v (losing g e) (jb_spec j)) ?s = (Inl x, s1)" using lost start by simp
    from loop_crash [OF c loop] ok(1) consider "?loop (losing g e) ?s = (Inr all, u)"
      | s2 where "?loop (losing g e) ?s = (Inl SimulatedRlmProcessLoss, s2)" "lm_store s2 = db"
          "\<forall>s3. same_rlm s2 s3 \<longrightarrow> (\<exists>t'. ?loop e s3 = (Inr all, t') \<and> same_rlm u t')"
      unfolding 2 by auto
    then show ?thesis
    proof cases
      case 1
      then show ?thesis using l finish_Inr(2) [OF c f fin, of g] 2 by (simp add: seq_def)
    next
      case 2
      then have "s1 = s2" using l by (simp add: seq_def)
      then show ?thesis using again [of s2] 2 by blast
    qed
  next
    case 3
    then have l: "seq (?loop e) (rlm_finish v (losing g e) (jb_spec j)) ?s = (Inl x, s1)"
      using lost start loop_losing [OF 3(2) f, of v "jb_spec j" "rlm_steps ?i db" ?s] 3 by (simp add: seq_def)
    then have l': "rlm_finish v (losing g e) (jb_spec j) all u = (Inl x, s1)" using loop by (simp add: seq_def)
    then have "g = ''process_loss_after_terminal_receipt''" using finish_Inr(2) [OF c f fin, of g] by fastforce
    then have "s1 = t" using finish_Inr(1) [OF c f fin] l' by simp
    then show ?thesis using finish_Inr(3) [OF c f fin] by (auto simp: rlm_restart_def rlm_terminal_result_def)
  qed
qed

end
