(* ===== verification/Rlm_Properties.thy ===== *)
theory Rlm_Properties
  imports Rlm_Runs
begin

text \<open>
  Properties of the job runner: finished jobs and recorded steps are final, a valid job
  completes within its bound, a run never makes more calls than the bound, and a run whose
  process is lost gives the same result once restarted.
\<close>

section \<open>The store\<close>

inductive store_step :: "rlm_store \<Rightarrow> rlm_store \<Rightarrow> bool" where
  ensured: "rlm_ensure i spec db = Inr ((), db') \<Longrightarrow> store_step db db'"
| begun: "rlm_begin i db = Inr ((), db') \<Longrightarrow> store_step db db'"
| recorded: "rlm_record_step i s db = Inr ((), db') \<Longrightarrow> store_step db db'"
| completed: "rlm_complete i r db = Inr ((), db') \<Longrightarrow> store_step db db'"
| marked: "rlm_mark i st db = Inr ((), db') \<Longrightarrow> store_step db db'"
| resumed: "rlm_resume i db = Inr ((), db') \<Longrightarrow> store_step db db'"

definition terminal_job :: "job_row \<Rightarrow> bool" where
  "terminal_job j \<longleftrightarrow> jb_state j \<in> {SUCCEEDED, CANCELLED, FAILED, TIMED_OUT}"

lemma find_job_set_other: "i \<noteq> k \<Longrightarrow> (\<And>j. jb_operation (f j) = jb_operation j) \<Longrightarrow> find_job i (set_job k f db) = find_job i db"
  unfolding find_job_def set_job_def
  by (simp add: fetchone_update_rows_same)
    (cases "fetchone (\<lambda>j. jb_operation j = i) (rl_jobs db)", auto dest: fetchone_SomeD)

lemma find_job_key: "jobs_ok db \<Longrightarrow> find_job i db = Some j \<Longrightarrow> k \<in> set (rl_jobs db) \<Longrightarrow> jb_operation k = i \<Longrightarrow> k = j"
  unfolding jobs_ok_def find_job_def by (drule fetchone_SomeD) (auto simp: distinct_map inj_on_def)

lemma jobs_ok_set_job:
  assumes ok: "jobs_ok db" and j: "find_job i db = Some j" and op: "\<And>j. jb_operation (f j) = jb_operation j"
    and f: "jb_result (f j) \<noteq> None \<longleftrightarrow> jb_state (f j) = SUCCEEDED"
  shows "jobs_ok (set_job i f db)"
proof -
  have "jb_result (f k) \<noteq> None \<longleftrightarrow> jb_state (f k) = SUCCEEDED" if "k \<in> set (rl_jobs db)" "jb_operation k = i" for k
    using find_job_key [OF ok j that] f by simp
  moreover have "map jb_operation (rl_jobs (set_job i f db)) = map jb_operation (rl_jobs db)"
    by (simp add: set_job_def map_update_rows op)
  then have "jb_operation ` set (rl_jobs (set_job i f db)) = jb_operation ` set (rl_jobs db)"
    by (metis set_map)
  ultimately show ?thesis using ok op by (auto simp: jobs_ok_def set_job_def set_update_rows map_update_rows)
qed

lemma find_job_None: "find_job i db = None \<longleftrightarrow> i \<notin> jb_operation ` set (rl_jobs db)"
  by (auto simp: find_job_def fetchone_None_iff)

lemma find_job_more [simp]:
  "find_job i db = Some j \<Longrightarrow> find_job i (db\<lparr>rl_jobs := rl_jobs db @ t\<rparr>) = Some j"
  "find_job i (db\<lparr>rl_steps := x\<rparr>) = find_job i db"
  by (simp_all add: find_job_def fetchone_append)

lemma find_step_None: "find_step i n db = None \<longleftrightarrow> (i, n) \<notin> (\<lambda>w. (jt_operation w, jt_index w)) ` set (rl_steps db)"
  by (auto simp: find_step_def fetchone_None_iff)

lemmas store_defs = rlm_ensure_def rlm_begin_def rlm_set_state_def rlm_record_step_def rlm_complete_def rlm_mark_def
  rlm_resume_def

lemma store_step_ok:
  assumes "store_step db db'" "jobs_ok db"
  shows "jobs_ok db'"
  using assms(1)
proof cases
  case (recorded i s)
  with assms(2) show ?thesis
    by (auto simp: rlm_record_step_def find_step_None find_job_None jobs_ok_def split: option.split_asm if_split_asm)
next
  case (ensured i spec)
  with assms(2) show ?thesis
    by (auto simp: rlm_ensure_def find_job_None jobs_ok_def split: option.split_asm if_split_asm)
qed (use assms(2) in \<open>auto simp: store_defs dest: find_job_ok intro!: jobs_ok_set_job split: option.split_asm if_split_asm\<close>)

lemma store_step_final:
  assumes "store_step db db'"
  shows "find_job i db = Some j \<Longrightarrow> terminal_job j \<Longrightarrow> find_job i db' = Some j"
    and "find_step i n db = Some w \<Longrightarrow> find_step i n db' = Some w"
proof -
  have same: "find_job i (set_job k f db) = find_job i db"
    if "find_job i db = Some j" "terminal_job j" "find_job k db = Some l" "\<not> terminal_job l"
      "\<And>j. jb_operation (f j) = jb_operation j" for k l f
  proof -
    have "i \<noteq> k" using that by auto
    from find_job_set_other [OF this that(5)] show ?thesis by simp
  qed
  show "find_job i db' = Some j" if "find_job i db = Some j" "terminal_job j"
    using assms that
    by cases (auto simp: store_defs same terminal_job_def split: option.split_asm if_split_asm)
  show "find_step i n db = Some w \<Longrightarrow> find_step i n db' = Some w"
    using assms
    by cases (auto simp: store_defs find_step_def fetchone_append set_job_def split: option.split_asm if_split_asm)
qed

section \<open>Bounded runs\<close>

lemma valid_spec_bound:
  "validate_rlm_job_spec spec = Inr j \<Longrightarrow> strategy_minimum (js_strategy spec) \<le> js_max_steps spec"
  by (auto simp: validate_rlm_job_spec_def validated_def split: if_split_asm)

lemma next_at_bound:
  assumes "strategy_minimum (js_strategy spec) \<le> js_max_steps spec" "\<not> int (length steps) < js_max_steps spec"
  shows "next_rlm_action spec steps = None"
  using assms baseline.bound_suffices [of "js_max_steps spec" steps spec]
    synthesis.bound_suffices [of "js_max_steps spec" steps spec]
  by (cases "js_strategy spec") (simp_all add: next_rlm_action_def strategy_minimum_def)

lemma turn_None: "rlm_turn v e spec steps s = (Inr None, t) \<Longrightarrow> next_rlm_action spec steps = None"
  by (auto simp: rlm_turn_def seq_Inr ret_run split: option.split_asm)

text \<open>However the loop ends, an exception is that of a turn it took before the bound.\<close>

definition loop_outcome ::
    "'s bound \<Rightarrow> 'o rlm_env \<Rightarrow> rlm_job_spec \<Rightarrow> rlm_step list \<Rightarrow> rlm_step list res \<times> ('s, 'o) rlm_state \<Rightarrow> bool" where
  "loop_outcome v e spec steps out \<longleftrightarrow>
     (case out of
        (Inr all, t) \<Rightarrow> next_rlm_action spec all = None \<and> (\<exists>new. all = steps @ new) \<and>
          int (length all) \<le> js_max_steps spec
      | (Inl x, t) \<Rightarrow> (\<exists>new s'. int (length (steps @ new)) < js_max_steps spec \<and>
          rlm_turn v e spec (steps @ new) s' = (Inl x, t)))"

lemma loop_outcome_snoc:
  assumes o: "loop_outcome v e spec (steps @ [st]) r"
  shows "loop_outcome v e spec steps r"
proof -
  obtain y t where r: "r = (y, t)" by (cases r)
  show ?thesis
  proof (cases y)
    case (Inl x)
    from o obtain new s' where "int (length (steps @ st # new)) < js_max_steps spec"
      "rlm_turn v e spec (steps @ st # new) s' = (Inl x, t)"
      by (auto simp: loop_outcome_def r Inl)
    then show ?thesis by (simp only: loop_outcome_def r Inl prod.case sum.case) blast
  next
    case (Inr all)
    from o obtain new where "next_rlm_action spec all = None" "all = steps @ st # new"
      "int (length all) \<le> js_max_steps spec"
      by (auto simp: loop_outcome_def r Inr)
    then show ?thesis by (simp only: loop_outcome_def r Inr prod.case sum.case) blast
  qed
qed

lemma loop_outcome_holds:
  assumes "strategy_minimum (js_strategy spec) \<le> js_max_steps spec" "int (length steps) \<le> js_max_steps spec"
  shows "loop_outcome v e spec steps (rlm_loop v e spec steps s)"
  using assms(2)
proof (induction v e spec' \<equiv> spec steps s arbitrary: spec' rule: rlm_loop.induct)
  case (1 v e steps s)
  show ?case
  proof (cases "int (length steps) < js_max_steps spec")
    case False
    with "1.prems" next_at_bound [OF assms(1) False] show ?thesis
      by (simp add: rlm_loop.simps [of v e spec steps] loop_outcome_def)
  next
    case True
    obtain x s1 where x: "rlm_turn v e spec steps s = (x, s1)" by (cases "rlm_turn v e spec steps s") auto
    show ?thesis
    proof (cases x)
      case (Inl e')
      with x True show ?thesis
        by (auto simp: rlm_loop.simps [of v e spec steps] loop_outcome_def intro!: exI [of _ "[]"])
    next
      case (Inr o')
      show ?thesis
      proof (cases o')
        case None
        with x Inr True turn_None [of v e spec steps s s1] show ?thesis
          by (simp add: rlm_loop.simps [of v e spec steps] loop_outcome_def)
      next
        case (Some st)
        have "loop_outcome v e spec (steps @ [st]) (rlm_loop v e spec (steps @ [st]) s1)"
          by (rule "1.hyps" [OF True x [symmetric] Inr Some]) (use True in simp)
        then have "loop_outcome v e spec steps (rlm_loop v e spec (steps @ [st]) s1)"
          by (rule loop_outcome_snoc)
        with x Inr Some True show ?thesis by (simp add: rlm_loop.simps [of v e spec steps])
      qed
    qed
  qed
qed

text \<open>The number of journal rows, and actions that add at most so many.\<close>

definition call_rows :: "('s, 'o) rlm_state \<Rightarrow> nat" where
  "call_rows s = length (bk_calls (fst (lm_world s)))"

definition adds :: "nat \<Rightarrow> ('a, ('s, 'o) rlm_state) act \<Rightarrow> bool" where
  "adds k m \<longleftrightarrow> (\<forall>s. call_rows (snd (m s)) \<le> call_rows s + k)"

lemma adds_seq: "adds k m \<Longrightarrow> (\<And>x. adds l (f x)) \<Longrightarrow> adds (k + l) (seq m f)"
  unfolding adds_def
proof
  fix s assume m: "\<forall>s. call_rows (snd (m s)) \<le> call_rows s + k" and f: "\<And>x. \<forall>s. call_rows (snd (f x s)) \<le> call_rows s + l"
  show "call_rows (snd (seq m f s)) \<le> call_rows s + (k + l)"
    using spec [OF m, of s] f unfolding seq_def
    by (auto split: prod.split sum.split) (metis add.assoc add_le_mono1 le_trans snd_conv)
qed

lemma adds_first: "adds 0 m \<Longrightarrow> (\<And>x. adds k (f x)) \<Longrightarrow> adds k (seq m f)"
  using adds_seq [of 0 m k f] by simp

lemma adds_last: "adds k m \<Longrightarrow> (\<And>x. adds 0 (f x)) \<Longrightarrow> adds k (seq m f)"
  using adds_seq [of k m 0 f] by simp

lemma adds_none:
  "adds 0 (poll f)" "adds 0 (poll_clock e)" "adds 0 (ask g)" "adds 0 (of_res r)" "adds 0 (ret x)" "adds k (ret x)"
  "adds 0 (raise_if c y)" "adds 0 (on_store h)" "adds 0 (stop_if_cancelled e m)" "adds 0 (failpoint e n)"
  by (simp_all add: adds_def call_rows_def run_defs on_store_def transact_def split: sum.split prod.split)

lemma invoke_rows: "length (bk_calls (fst (snd (invoke c a b prov (db, p))))) \<le> length (bk_calls db) + 1"
proof -
  have s: "length (bk_calls (set_call i n q f d)) = length (bk_calls d)" for i n q f d by (simp add: set_call_def)
  have f: "length (bk_calls (fail_call c n code d)) = length (bk_calls d)"
    "length (bk_calls (quarantine_call c n code d)) = length (bk_calls d)" for n code d
    by (simp_all add: s fail_call_def quarantine_call_def)
  have "length (bk_calls (record_failure c n e d)) = length (bk_calls d)" for n e d by (cases e) (simp_all add: f)
  then have "length (bk_calls (snd (commit_call c n cur out d))) = length (bk_calls d)" for n cur out d
    by (simp add: commit_call_def s f succeed_call_def revoke_call_def Let_def split: sum.split)
  moreover have "length (bk_calls db1) \<le> length (bk_calls db) + 1" if "admit_call c a db = Inr (x, db1)" for x db1
    using that admit_Admitted(1) [of c a db _ _ db1] admit_Replayed [of c a db _ db1]
    by (cases x) (auto simp: s)
  ultimately show ?thesis
    unfolding invoke_steps by (auto simp: reject_call_def s split: sum.split prod.split admitted.split)
qed

lemma send_action_rows: "length (bk_calls (fst (snd (send_action v a n now w)))) \<le> length (bk_calls (fst w)) + 1"
proof -
  have i: "length (bk_calls (fst (snd (bound_invoke v m c q model u prov w)))) \<le> length (bk_calls (fst w)) + 1"
    for m c q model u prov
    using invoke_rows [of "call_args v m c q model u" 0 0 prov "fst w" "snd w"] by (simp add: bound_invoke_def)
  then show ?thesis
    by (auto simp: send_action_def receipt_of_def bound_model_request_def bound_evidence_query_def prepared_def Let_def
        split: rlm_action_kind.split sum.split option.split)
qed

lemma adds_execute: "adds 1 (execute_action v e a n)"
  unfolding execute_action_def
proof (intro adds_first adds_none)
  fix now
  show "adds 1 (on_world (send_action v a n now))"
    using send_action_rows [of v a n now] by (simp add: adds_def on_world_def within_def call_rows_def Let_def split_beta)
qed

lemma adds_turn: "adds 1 (rlm_turn v e spec steps)"
proof (cases "next_rlm_action spec steps")
  case None
  then show ?thesis unfolding rlm_turn_def by (intro adds_first adds_none) (simp add: adds_none)
next
  case (Some a)
  show ?thesis unfolding rlm_turn_def Some option.case
    by ((rule adds_first, rule adds_none)+, rule adds_last [OF adds_execute], (rule adds_first, rule adds_none)+,
      rule adds_none)
qed

lemma adds_loop: "call_rows (snd (rlm_loop v e spec steps s)) \<le> call_rows s + (nat (js_max_steps spec) - length steps)"
proof (induction v e spec steps s rule: rlm_loop.induct)
  case (1 v e spec steps s)
  obtain x s1 where x: "rlm_turn v e spec steps s = (x, s1)" by (cases "rlm_turn v e spec steps s") auto
  have turn: "call_rows s1 \<le> call_rows s + 1" using adds_turn [of v e spec steps] x unfolding adds_def by (metis snd_conv)
  show ?case
  proof (cases "int (length steps) < js_max_steps spec")
    case True
    then have more: "1 + (nat (js_max_steps spec) - length (steps @ [st])) = nat (js_max_steps spec) - length steps" for st
      by simp
    show ?thesis
    proof (cases "\<exists>st. x = Inr (Some st)")
      case some: True
      then obtain st where st: "x = Inr (Some st)" by blast
      from "1.IH" [OF True x [symmetric] st refl] turn more [of st] True x st show ?thesis
        by (simp add: rlm_loop.simps [of v e spec steps s])
    next
      case False
      with True x turn more [of undefined] show ?thesis
        by (auto simp: rlm_loop.simps [of v e spec steps s] split: sum.split option.split)
    qed
  qed (simp add: rlm_loop.simps [of v e spec steps s])
qed

text \<open>
  An evidence synthesis whose question is longer than an evidence query may be is a valid job
  that never gets past its first action.
\<close>

lemma long_evidence_jobs_never_return:
  assumes "js_strategy spec = S_evidence_synthesis" "8192 < length (js_query spec)" "1 \<le> js_max_steps spec"
  shows "fst (rlm_loop v e spec [] s) \<noteq> Inr all"
proof -
  have "fst (rlm_turn v e spec [] s) \<noteq> Inr x" for x
  proof
    assume "fst (rlm_turn v e spec [] s) = Inr x"
    then obtain t where "rlm_turn v e spec [] s = (Inr x, t)" by (metis prod.collapse)
    then show False using assms(1,2)
      by (auto simp: rlm_turn_def seq_Inr next_rlm_action_def execute_action_def of_res_run check_request_def
          validate_evidence_query_def validated_def)
  qed
  moreover obtain r t where "rlm_turn v e spec [] s = (r, t)" by fastforce
  ultimately show ?thesis using assms(3)
    by (cases r) (auto simp: rlm_loop.simps [of v e spec "[]"])
qed

section \<open>Samples\<close>

definition sample_rlm_bound :: "unit bound" where
  "sample_rlm_bound = \<lparr>bo_facade = \<lparr>fa_routes = None, fa_evidence = []\<rparr>,
     bo_envelope = \<lparr>en_request_id = ''r-1'', en_idempotency_key = ''k-1'', en_host = HostRef ''h-1'',
       en_principal = PrincipalRef ''p-1'', en_lane = LaneRef ''l-1'', en_session = SessionRef ''s-1'',
       en_workspace = None, en_parent_operation = None, en_runtime_generation = 1,
       en_workspace_generation = None, en_expected_revision = None, en_capability_digest = ''c'',
       en_deadline = 100,
       en_grants = [\<lparr>gr_grant_id = ''g-1'', gr_capability = ''model.request'', gr_issued_to = PrincipalRef ''p-1'',
         gr_expires_at = 200, gr_constraints = []\<rparr>],
       en_budget = \<lparr>bu_wall_time_ms = 0, bu_model_requests = 1, bu_input_tokens = 5, bu_output_tokens = 5,
         bu_child_operations = 0, bu_artifact_bytes = 0\<rparr>, en_trace_id = ''t-1'', en_input_digest = ''d''\<rparr>,
     bo_operation = OperationRef ''op-1''\<rparr>"

definition sample_spec :: rlm_job_spec where
  "sample_spec = \<lparr>js_query = ''why'', js_strategy = S_baseline, js_max_steps = 1\<rparr>"

definition sample_rlm :: "(unit, unit) rlm_state" where
  "sample_rlm = \<lparr>lm_store = \<lparr>rl_jobs = [\<lparr>jb_operation = OperationRef ''op-1'', jb_state = ACCEPTED,
       jb_spec = sample_spec, jb_result = None\<rparr>], rl_steps = []\<rparr>,
     lm_world = (\<lparr>bk_calls = [], bk_controls = []\<rparr>,
       \<lparr>pv_models = \<lparr>mj_bindings = [], mj_executions = []\<rparr>, pv_artifacts = [], pv_children = [], pv_driver = ()\<rparr>),
     lm_outer = ()\<rparr>"

definition sample_env :: "unit rlm_env" where
  "sample_env = \<lparr>lv_cancelled = ret False, lv_beat = ret (), lv_clock = (\<lambda>x. (1, x)), lv_failpoint = None\<rparr>"

definition sample_action :: rlm_action where
  "sample_action = \<lparr>rk_kind = K_model_request, rk_text = ''why''\<rparr>"

lemma sample_tokens: "token_units ''why'' = 1"
  by (simp add: token_units_def is_space_def Let_def)

lemma sample_calm: "calm sample_rlm_bound sample_env"
  by (simp add: calm_def sample_rlm_bound_def sample_env_def ret_def)

lemma sample_send: "\<exists>r db p t u. send_action sample_rlm_bound sample_action 0 1 (lm_world sample_rlm) = (Inr r, db, p) \<and>
    traces (OperationRef ''op-1'') db = [t] \<and> journal_usage (OperationRef ''op-1'') db = Inr u"
  by (simp add: send_action_def sample_action_def bound_model_request_def sample_rlm_bound_def prepared_def prepare_def
      grant_of_def grant_fits_def call_args_def bound_invoke_def invoke_def admit_call_def sample_rlm_def
      run_check_def prior_call_def find_call_def model_call_usage_def sample_tokens plain_sent_def
      fetchone_def counted_usages_def next_sequence_def max_col_def insert_row_def usage_plus_def commit_call_def
      validate_broker_usage_def validated_def usage_zero_def budget_counter_def max_i64_def exceeded_def
      assert_budget_def succeed_call_def set_call_def update_rows_def started_row_def traces_def journal_usage_def
      receipt_of_def Let_def)

lemma sample_rlm_run: "\<exists>r t. rlm_run sample_rlm_bound sample_env sample_rlm = (Inr r, t)"
proof -
  obtain r db p t u where s: "send_action sample_rlm_bound sample_action 0 1 (lm_world sample_rlm) = (Inr r, db, p)"
    "traces (OperationRef ''op-1'') db = [t]" "journal_usage (OperationRef ''op-1'') db = Inr u"
    using sample_send by blast
  have i: "bo_operation sample_rlm_bound = OperationRef ''op-1''" "en_deadline (bo_envelope sample_rlm_bound) = 100"
    by (simp_all add: sample_rlm_bound_def)
  show ?thesis
    using s unfolding run_phases [OF sample_calm]
    by (simp add: i sample_rlm_def find_job_def fetchone_def rlm_begin_def rlm_set_state_def sample_env_def set_job_def
        update_rows_def rlm_steps_def Let_def rlm_loop.simps sample_spec_def rlm_turn_def run_defs 
        next_rlm_action_def execute_action_def sample_action_def check_request_def validate_model_request_def validated_def
        on_world_def within_def last_trace_def validate_rlm_step_def step_of_def revision_def max_i64_def on_store_def
        transact_def rlm_record_step_def find_step_def rlm_finish_def answer_of_def rlm_result_issue_def 
        validate_rlm_result_def rlm_result_payload_def rlm_complete_def)
qed

section \<open>Properties\<close>

text \<open>Whatever operations run on the job store, its rows stay unique and consistent, a job that
  succeeded, failed, timed out or was cancelled keeps its row with its result, and a recorded
  step is never replaced.\<close>

theorem finished_jobs_are_final:
  assumes "store_step\<^sup>*\<^sup>* db db'" "jobs_ok db"
  shows "jobs_ok db' \<and>
    (\<forall>i j. find_job i db = Some j \<and> terminal_job j \<longrightarrow> find_job i db' = Some j) \<and>
    (\<forall>i n w. find_step i n db = Some w \<longrightarrow> find_step i n db' = Some w)"
  using assms
proof (induction rule: rtranclp_induct)
  case (step x y)
  then show ?case using store_step_ok [OF step.hyps(2)] store_step_final [OF step.hyps(2)] by blast
qed simp

definition finished_store :: rlm_store where
  "finished_store = \<lparr>rl_jobs = [\<lparr>jb_operation = OperationRef ''op-1'', jb_state = CANCELLED, jb_spec = sample_spec,
     jb_result = None\<rparr>], rl_steps = []\<rparr>"

theorem finished_jobs_are_final_witness:
  "find_job (OperationRef ''op-1'') (finished_store\<lparr>rl_jobs := rl_jobs finished_store @
     [\<lparr>jb_operation = OperationRef ''op-2'', jb_state = ACCEPTED, jb_spec = sample_spec, jb_result = None\<rparr>]\<rparr>) =
   find_job (OperationRef ''op-1'') finished_store"
proof -
  have "store_step finished_store (finished_store\<lparr>rl_jobs := rl_jobs finished_store @
     [\<lparr>jb_operation = OperationRef ''op-2'', jb_state = ACCEPTED, jb_spec = sample_spec, jb_result = None\<rparr>]\<rparr>)"
    by (rule store_step.ensured [of "OperationRef ''op-2''" sample_spec])
      (simp add: rlm_ensure_def finished_store_def find_job_def fetchone_def)
  moreover have "jobs_ok finished_store" by (simp add: jobs_ok_def finished_store_def)
  moreover have "find_job (OperationRef ''op-1'') finished_store = Some (hd (rl_jobs finished_store))"
    "terminal_job (hd (rl_jobs finished_store))"
    by (simp_all add: find_job_def finished_store_def fetchone_def terminal_job_def)
  ultimately show ?thesis using finished_jobs_are_final [OF r_into_rtranclp] by fastforce
qed

text \<open>C35: The loop of a valid job always ends, within its step bound and in one of two ways: with
  its strategy complete, the steps it started with kept and at most the allowed number of them; or
  with the exception of one of its turns (a callback, the deadline, the broker call or the store),
  taken before the bound. It never stops for want of steps.\<close>

theorem valid_jobs_complete_or_raise:
  assumes "validate_rlm_job_spec spec = Inr j" "int (length steps) \<le> js_max_steps spec"
  shows "case rlm_loop v e spec steps s of
      (Inr all, t) \<Rightarrow> next_rlm_action spec all = None \<and> (\<exists>new. all = steps @ new) \<and>
        int (length all) \<le> js_max_steps spec
    | (Inl x, t) \<Rightarrow> (\<exists>new s'. int (length (steps @ new)) < js_max_steps spec \<and>
        rlm_turn v e spec (steps @ new) s' = (Inl x, t))"
  using loop_outcome_holds [OF valid_spec_bound [OF assms(1)] assms(2)] by (simp only: loop_outcome_def)

theorem valid_jobs_complete_or_raise_witness:
  "\<exists>all t. rlm_loop sample_rlm_bound sample_env sample_spec [] sample_rlm = (Inr all, t) \<and>
     next_rlm_action sample_spec all = None \<and> length all = 1"
proof -
  obtain r db p t u where s: "send_action sample_rlm_bound sample_action 0 1 (lm_world sample_rlm) = (Inr r, db, p)"
    "traces (OperationRef ''op-1'') db = [t]" using sample_send by blast
  have i: "bo_operation sample_rlm_bound = OperationRef ''op-1''" "en_deadline (bo_envelope sample_rlm_bound) = 100"
    by (simp_all add: sample_rlm_bound_def)
  have "\<exists>all t. rlm_loop sample_rlm_bound sample_env sample_spec [] sample_rlm = (Inr all, t) \<and> length all = 1"
    using s
    by (simp add: i sample_rlm_def sample_env_def Let_def rlm_loop.simps sample_spec_def rlm_turn_def run_defs
        next_rlm_action_def execute_action_def sample_action_def check_request_def validate_model_request_def validated_def
        on_world_def within_def last_trace_def validate_rlm_step_def step_of_def revision_def max_i64_def on_store_def
        transact_def rlm_record_step_def find_step_def find_job_def fetchone_def)
  then obtain all t where l: "rlm_loop sample_rlm_bound sample_env sample_spec [] sample_rlm = (Inr all, t)" "length all = 1"
    by blast
  have "validate_rlm_job_spec sample_spec = Inr sample_spec"
    by (simp add: validate_rlm_job_spec_def sample_spec_def strategy_minimum_def validated_def)
  from valid_jobs_complete_or_raise [OF this, of "[]" sample_rlm_bound sample_env sample_rlm] l show ?thesis
    by (auto simp: sample_spec_def)
qed

text \<open>C36: Whatever the callbacks, the clock, the broker and the failpoint do, a run of a job adds at
  most as many broker calls as its specification allows steps.\<close>

theorem runs_make_bounded_calls:
  assumes "find_job (bo_operation v) (lm_store s) = Some j"
  shows "length (bk_calls (fst (lm_world (snd (rlm_run v e s))))) \<le>
    length (bk_calls (fst (lm_world s))) + nat (js_max_steps (jb_spec j))"
proof -
  let ?n = "nat (js_max_steps (jb_spec j))"
  have loop: "adds ?n (rlm_loop v e (jb_spec j) steps)" for steps
    using adds_loop [of v e "jb_spec j" steps] unfolding adds_def by (meson add_left_mono diff_le_self le_trans)
  have finish: "adds 0 (rlm_finish v e (jb_spec j) steps)" for steps
    unfolding rlm_finish_def by ((rule adds_first, rule adds_none)+, rule adds_none)
  have tail: "adds ?n (seq (stop_if_cancelled e m) (\<lambda>_. seq (poll (lv_beat e)) (\<lambda>_.
     seq (on_store (rlm_begin (bo_operation v))) (\<lambda>_.
     seq (failpoint e ''process_loss_before_first_broker'') (\<lambda>_.
     seq (ask (\<lambda>s. Inr (rlm_steps (bo_operation v) (lm_store s)))) (\<lambda>steps.
     seq (rlm_loop v e (jb_spec j) steps) (\<lambda>all. rlm_finish v e (jb_spec j) all)))))))" for m
    by ((rule adds_first, rule adds_none)+, rule adds_last [OF loop finish])
  show ?thesis using tail assms unfolding rlm_run_def adds_def call_rows_def
    by (simp add: seq_def [of "ask _"] ask_def rlm_snapshot_def)
qed

theorem runs_make_bounded_calls_witness:
  "length (bk_calls (fst (lm_world (snd (rlm_run sample_rlm_bound sample_env sample_rlm))))) \<le> 1"
  using runs_make_bounded_calls [of sample_rlm_bound sample_rlm "hd (rl_jobs (lm_store sample_rlm))" sample_env]
  by (simp add: find_job_def fetchone_def sample_rlm_def sample_rlm_bound_def sample_spec_def)

text \<open>C10: A run that would return a result returns the same result, with the same store and broker
  state, when the process is lost at any of its failpoints and the job is restarted: what was
  sent is not sent again and what was recorded is kept.\<close>

theorem lost_runs_give_the_same_result:
  fixes s :: "('s, 'o) rlm_state"
  assumes "calm v e" "lv_failpoint e = None" "calls_ok (fst (lm_world s))" "jobs_ok (lm_store s)"
    and "rlm_run v e s = (Inr r, t)"
    and "rlm_run v (losing g e) s = (Inl x, s1)"
  shows "\<exists>t1. rlm_restart v e s1 = (Inr r, t1) \<and> lm_store t1 = lm_store t \<and> lm_world t1 = lm_world t"
  using lost_run_restarts [OF assms] by (auto simp: same_rlm_def)

theorem lost_runs_give_the_same_result_witness:
  "\<exists>r t s1 t1. rlm_run sample_rlm_bound sample_env sample_rlm = (Inr r, t) \<and>
     rlm_run sample_rlm_bound (losing ''process_loss_after_terminal_receipt'' sample_env) sample_rlm =
       (Inl SimulatedRlmProcessLoss, s1) \<and>
     rlm_restart sample_rlm_bound sample_env s1 = (Inr r, t1) \<and> lm_store t1 = lm_store t"
proof -
  obtain r t where run: "rlm_run sample_rlm_bound sample_env sample_rlm = (Inr r, t)" using sample_rlm_run by blast
  have f: "lv_failpoint sample_env = None" by (simp add: sample_env_def)
  note c = sample_calm
  have c': "calm sample_rlm_bound (losing g sample_env)" for g using c by simp
  let ?g = "''process_loss_after_terminal_receipt''"
  have lost: "rlm_run sample_rlm_bound (losing ?g sample_env) sample_rlm = (Inl SimulatedRlmProcessLoss, t)"
    using run finish_Inr(1) [OF c f] loop_losing [of ?g, OF _ f, where ?v = sample_rlm_bound] f
    unfolding run_phases [OF c] run_phases [OF c']
    by (auto simp: Let_def seq_def split: option.splits sum.splits prod.splits)
  have "calls_ok (fst (lm_world sample_rlm))" "jobs_ok (lm_store sample_rlm)"
    by (simp_all add: calls_ok_def jobs_ok_def sample_rlm_def)
  from lost_runs_give_the_same_result [OF c f this run lost] run lost show ?thesis by blast
qed

end
