(* ===== verification/Continuity.thy ===== *)
theory Continuity
  imports Continuity_Models Rlm
begin

text \<open>
  Recovery planning (\<open>src/aar/runtime/continuity.py\<close>): the two recovery policies, the
  environment digests they bind, and the decisions whether a workspace program may continue
  from a checkpoint and whether a job may continue at its last recorded step.
\<close>

section \<open>Policies\<close>

definition rlm_operation_kind :: string where
  "rlm_operation_kind = ''rlm.execute''"

definition workspace_program_kind :: string where
  "workspace_program_kind = ''workspace.program.execute''"

definition rlm_step_boundary_policy :: recovery_policy where
  "rlm_step_boundary_policy = \<lparr>rp_policy_version = 1, rp_policy_id = Rlm_step_boundary,
     rp_operation_kind = rlm_operation_kind,
     rp_allowed_decisions = [Needs_user, Quarantine, Reconcile_effect, Start_successor, Terminal_from_receipt],
     rp_max_successor_attempts = 3, rp_safe_replay_no_effect = False, rp_checkpoint_required = False,
     rp_allow_partial_checkpoint = False, rp_environment_compatibility = Capability_exact,
     rp_broker_uncertainty_policy = Receipt_or_park, rp_effect_reconcile_required = True\<rparr>"

definition workspace_checkpoint_boundary_policy :: recovery_policy where
  "workspace_checkpoint_boundary_policy = \<lparr>rp_policy_version = 1, rp_policy_id = Workspace_checkpoint_boundary,
     rp_operation_kind = workspace_program_kind,
     rp_allowed_decisions = [Needs_user, Quarantine, Restore_checkpoint],
     rp_max_successor_attempts = 1, rp_safe_replay_no_effect = True, rp_checkpoint_required = True,
     rp_allow_partial_checkpoint = False, rp_environment_compatibility = Environment_exact,
     rp_broker_uncertainty_policy = No_broker_replay, rp_effect_reconcile_required = False\<rparr>"

section \<open>Environment digests\<close>

definition package_version :: string where
  "package_version = ''0.6.1a0''"

definition workspace_recovery_environment_digest ::
    "backend_descriptor \<Rightarrow> environment \<Rightarrow> string \<Rightarrow> recovery_policy \<Rightarrow> string" where
  "workspace_recovery_environment_digest backend env capability_digest policy = json_digest (JObj
     [(''package_version'', JStr package_version), (''backend'', backend_json backend),
      (''environment'', environment_json env), (''capability_digest'', JStr capability_digest),
      (''policy_digest'', JStr (json_digest (policy_json policy)))])"

definition rlm_strategy_digest :: "rlm_job_spec \<Rightarrow> string" where
  "rlm_strategy_digest spec = json_digest (JObj
     [(''contract_version'', JStr ''aar.rlm-strategy.v1''),
      (''strategy'', JStr (strategy_wire (js_strategy spec)))])"

definition rlm_recovery_environment_digest :: "rlm_job_spec \<Rightarrow> string \<Rightarrow> recovery_policy \<Rightarrow> string" where
  "rlm_recovery_environment_digest spec capability_digest policy = json_digest (JObj
     [(''package_version'', JStr package_version), (''rlm_schema_version'', JStr ''aar.rlm.v1''),
      (''strategy_digest'', JStr (rlm_strategy_digest spec)), (''capability_digest'', JStr capability_digest),
      (''policy_digest'', JStr (json_digest (policy_json policy)))])"

section \<open>Workspace programs\<close>

record workspace_plan =
  wp_decision :: recovery_decision_kind
  wp_reason :: string
  wp_manifest :: "checkpoint_manifest option"

definition workspace_blocked :: "recovery_decision_kind \<Rightarrow> string \<Rightarrow> workspace_plan" where
  "workspace_blocked d r = \<lparr>wp_decision = d, wp_reason = r, wp_manifest = None\<rparr>"

record workspace_plan_args =
  wq_operation :: operation_ref
  wq_input_digest :: string
  wq_envelope :: request_envelope
  wq_handle :: workspace_handle
  wq_spec :: program_spec
  wq_prior_attempt :: attempt_ref
  wq_binding :: policy_binding
  wq_capability_digest :: string
  wq_backend :: backend_descriptor
  wq_environment :: environment
  wq_manifest :: "checkpoint_manifest option"
  wq_cancelled :: bool
  wq_now :: int

definition workspace_payload :: "workspace_plan_args \<Rightarrow> json" where
  "workspace_payload q = JObj [(''handle'', handle_json (wq_handle q)), (''kind'', JStr workspace_program_kind),
     (''spec'', program_spec_json (wq_spec q))]"

definition plan_workspace_checkpoint_successor :: "workspace_plan_args \<Rightarrow> workspace_plan" where
  "plan_workspace_checkpoint_successor q =
     (let policy = pb_policy (wq_binding q) in
      if pb_operation (wq_binding q) \<noteq> wq_operation q \<or> at_operation (wq_prior_attempt q) \<noteq> wq_operation q then
        workspace_blocked Quarantine ''recovery_identity_mismatch''
      else if rp_policy_id policy \<noteq> Workspace_checkpoint_boundary \<or> rp_policy_version policy \<noteq> 1 then
        workspace_blocked Quarantine ''unknown_recovery_policy''
      else if rp_operation_kind policy \<noteq> workspace_program_kind then
        workspace_blocked Quarantine ''recovery_operation_kind_mismatch''
      else if Restore_checkpoint \<notin> set (rp_allowed_decisions policy) \<or> \<not> rp_safe_replay_no_effect policy then
        workspace_blocked Needs_user ''checkpoint_successor_not_allowed''
      else if \<not> sp_checkpoint_replay_safe (wq_spec q) then
        workspace_blocked Needs_user ''workspace_replay_not_declared_safe''
      else if wq_input_digest q \<noteq> en_input_digest (wq_envelope q) \<or>
          json_digest (workspace_payload q) \<noteq> wq_input_digest q then
        workspace_blocked Quarantine ''recovery_input_digest_mismatch''
      else if en_capability_digest (wq_envelope q) \<noteq> wq_capability_digest q then
        workspace_blocked Needs_user ''recovery_capability_digest_mismatch''
      else if workspace_recovery_environment_digest (wq_backend q) (wq_environment q) (wq_capability_digest q) policy
          \<noteq> pb_environment_digest (wq_binding q) then
        workspace_blocked Needs_user ''recovery_environment_mismatch''
      else if wq_cancelled q then workspace_blocked Needs_user ''cancellation_requested''
      else if wq_now q \<ge> en_deadline (wq_envelope q) then workspace_blocked Needs_user ''deadline_expired''
      else case wq_manifest q of
        None \<Rightarrow> workspace_blocked Needs_user ''workspace_checkpoint_missing''
      | Some m \<Rightarrow>
        if cm_source_handle m \<noteq> wq_handle q then
          workspace_blocked Quarantine ''workspace_checkpoint_handle_mismatch''
        else if wh_backend (cm_source_handle m) \<noteq> wq_backend q then
          workspace_blocked Needs_user ''workspace_backend_mismatch''
        else if cm_environment m \<noteq> wq_environment q then
          workspace_blocked Needs_user ''workspace_checkpoint_environment_mismatch''
        else if cm_exclusions m \<noteq> [] \<and> \<not> rp_allow_partial_checkpoint policy then
          workspace_blocked Needs_user ''partial_checkpoint_not_allowed''
        else \<lparr>wp_decision = Restore_checkpoint, wp_reason = ''workspace_exact_checkpoint_boundary'',
               wp_manifest = Some m\<rparr>)"

section \<open>Jobs\<close>

record rlm_plan =
  lp_decision :: recovery_decision_kind
  lp_reason :: string
  lp_boundary :: "rlm_boundary option"

definition rlm_blocked :: "recovery_decision_kind \<Rightarrow> string \<Rightarrow> rlm_plan" where
  "rlm_blocked d r = \<lparr>lp_decision = d, lp_reason = r, lp_boundary = None\<rparr>"

record rlm_plan_args =
  lq_operation :: operation_ref
  lq_input_digest :: string
  lq_envelope :: request_envelope
  lq_spec :: rlm_job_spec
  lq_prior_attempt :: attempt_ref
  lq_runtime_generation :: int
  lq_dispatcher_generation :: int
  lq_lease_epoch :: int
  lq_binding :: policy_binding
  lq_capability_digest :: string
  lq_steps :: "rlm_step list"
  lq_traces :: "call_trace list"
  lq_usage :: broker_usage
  lq_cancelled :: bool
  lq_unresolved :: bool
  lq_now :: int

text \<open>\<open>_request_digest\<close> builds the request model, whose bounds the text may exceed.\<close>

definition action_request_digest :: "rlm_action \<Rightarrow> string res" where
  "action_request_digest a = (case rk_kind a of
     K_evidence_query \<Rightarrow> and_then (validate_evidence_query (rk_text a)) (\<lambda>t. Inr (json_digest (evidence_query_json t)))
   | K_model_request \<Rightarrow> and_then (validate_model_request (rk_text a)) (\<lambda>p. Inr (json_digest (model_request_json p))))"

definition trace_grant_is_authorized :: "call_trace \<Rightarrow> rlm_action \<Rightarrow> request_envelope \<Rightarrow> bool" where
  "trace_grant_is_authorized t a e \<longleftrightarrow> list_ex (\<lambda>g. gr_grant_id g = bt_grant_id t \<and>
     gr_capability g = action_kind_wire (rk_kind a) \<and> gr_issued_to g = en_principal e \<and>
     gr_expires_at g \<ge> en_deadline e) (en_grants e)"

definition usage_exceeds_authority :: "broker_usage \<Rightarrow> request_envelope \<Rightarrow> bool" where
  "usage_exceeds_authority u e \<longleftrightarrow> (let b = en_budget e in
     us_model_requests u > bu_model_requests b \<or> us_input_tokens u > bu_input_tokens b \<or>
     us_output_tokens u > bu_output_tokens b \<or> us_child_operations u > bu_child_operations b \<or>
     us_artifact_bytes u > bu_artifact_bytes b)"

definition next_action_has_no_budget :: "rlm_action option \<Rightarrow> broker_usage \<Rightarrow> request_envelope \<Rightarrow> bool" where
  "next_action_has_no_budget a u e \<longleftrightarrow> (case a of None \<Rightarrow> False
     | Some a \<Rightarrow> rk_kind a = K_model_request \<and> (let b = en_budget e in
         us_model_requests u \<ge> bu_model_requests b \<or> us_input_tokens u \<ge> bu_input_tokens b \<or>
         us_output_tokens u \<ge> bu_output_tokens b))"

text \<open>
  What a trace must be to stand for an action: the conjuncts in the order of the code, the
  request digest raising where the request cannot be built.
\<close>

definition trace_fits :: "operation_ref \<Rightarrow> request_envelope \<Rightarrow> call_trace \<Rightarrow> rlm_action \<Rightarrow> string option \<Rightarrow> bool res" where
  "trace_fits i e t a grant =
     (if bt_parent_operation t \<noteq> i \<or> method_wire (bt_method t) \<noteq> action_kind_wire (rk_kind a) \<or>
         (grant \<noteq> None \<and> grant \<noteq> Some (bt_grant_id t)) \<or> \<not> trace_grant_is_authorized t a e
      then Inr False
      else and_then (action_request_digest a) (\<lambda>d. Inr (bt_request_digest t = d \<and> bt_state t = T_succeeded)))"

text \<open>The reason a recorded step is not certain, if there is one, and the traces the steps refer to.\<close>

fun check_steps :: "rlm_plan_args \<Rightarrow> rlm_step list \<Rightarrow> rlm_step list \<Rightarrow> int list \<Rightarrow> (string + int list) res" where
  "check_steps q prefix [] seen = Inr (Inr seen)"
| "check_steps q prefix (s # steps) seen =
     (case next_rlm_action (lq_spec q) prefix of
        None \<Rightarrow> Inr (Inl ''rlm_strategy_or_step_digest_mismatch'')
      | Some a \<Rightarrow>
        if st_action s \<noteq> rk_kind a \<or> st_request_digest s \<noteq> json_digest (rlm_action_json a) then
          Inr (Inl ''rlm_strategy_or_step_digest_mismatch'')
        else case List.find (\<lambda>t. bt_sequence t = st_call_sequence s) (lq_traces q) of
          None \<Rightarrow> Inr (Inl ''rlm_step_broker_trace_missing'')
        | Some t \<Rightarrow>
          if bt_sequence t \<in> set seen then Inr (Inl ''rlm_step_broker_trace_reused'')
          else and_then (trace_fits (lq_operation q) (lq_envelope q) t a (Some (st_grant_id s))) (\<lambda>fits.
            if \<not> fits \<or> bt_response_digest t \<noteq> Some (json_digest (broker_receipt_json (st_receipt s))) then
              Inr (Inl ''rlm_step_broker_receipt_mismatch'')
            else check_steps q (prefix @ [s]) steps (bt_sequence t # seen)))"

text \<open>A call that was made but not recorded as a step must be the next action's.\<close>

definition check_extra :: "rlm_plan_args \<Rightarrow> call_trace list \<Rightarrow> string option res" where
  "check_extra q extra =
     (case extra of
        [] \<Rightarrow> Inr None
      | [t] \<Rightarrow>
        (case next_rlm_action (lq_spec q) (lq_steps q) of
           None \<Rightarrow> Inr (Some ''uncommitted_broker_receipt_mismatch'')
         | Some a \<Rightarrow> and_then (trace_fits (lq_operation q) (lq_envelope q) t a None) (\<lambda>fits.
             Inr (if \<not> fits \<or> bt_response_digest t = None then Some ''uncommitted_broker_receipt_mismatch''
                  else None)))
      | _ \<Rightarrow> Inr (Some ''multiple_uncommitted_broker_receipts''))"

definition boundary_of :: "rlm_plan_args \<Rightarrow> rlm_boundary res" where
  "boundary_of q = rlm_boundary_issue
     \<lparr>rb_operation = lq_operation q, rb_prior_attempt = lq_prior_attempt q,
      rb_runtime_generation = lq_runtime_generation q, rb_dispatcher_generation = lq_dispatcher_generation q,
      rb_lease_epoch = lq_lease_epoch q, rb_policy_digest = pb_policy_digest (lq_binding q),
      rb_input_digest = lq_input_digest q, rb_strategy = strategy_wire (js_strategy (lq_spec q)),
      rb_strategy_digest = rlm_strategy_digest (lq_spec q), rb_capability_digest = lq_capability_digest q,
      rb_environment_digest =
        rlm_recovery_environment_digest (lq_spec q) (lq_capability_digest q) (pb_policy (lq_binding q)),
      rb_deadline = en_deadline (lq_envelope q), rb_committed_step_count = int (length (lq_steps q)),
      rb_last_step_index = None,
      rb_last_step_digest = (if lq_steps q = [] then None
        else Some (json_digest (rlm_step_json (last (lq_steps q))))),
      rb_steps_digest = json_digest (JArr (map rlm_step_json (lq_steps q))),
      rb_broker_trace_digest = json_digest (JArr (map call_trace_json (lq_traces q))),
      rb_usage_digest = json_digest (broker_usage_json (lq_usage q)),
      rb_created_at = lq_now q, rb_boundary_digest = []\<rparr>"

text \<open>The checks before the steps are looked at.\<close>

definition authority_block :: "rlm_plan_args \<Rightarrow> rlm_plan option" where
  "authority_block q =
     (let policy = pb_policy (lq_binding q) in
      if pb_operation (lq_binding q) \<noteq> lq_operation q \<or> at_operation (lq_prior_attempt q) \<noteq> lq_operation q then
        Some (rlm_blocked Quarantine ''recovery_identity_mismatch'')
      else if rp_policy_id policy \<noteq> Rlm_step_boundary \<or> rp_policy_version policy \<noteq> 1 then
        Some (rlm_blocked Quarantine ''unknown_recovery_policy'')
      else if rp_operation_kind policy \<noteq> rlm_operation_kind then
        Some (rlm_blocked Quarantine ''recovery_operation_kind_mismatch'')
      else if Start_successor \<notin> set (rp_allowed_decisions policy) then
        Some (rlm_blocked Needs_user ''successor_not_allowed'')
      else if lq_input_digest q \<noteq> en_input_digest (lq_envelope q) then
        Some (rlm_blocked Quarantine ''recovery_input_digest_mismatch'')
      else if json_digest (rlm_job_spec_json (lq_spec q)) \<noteq> lq_input_digest q then
        Some (rlm_blocked Quarantine ''recovery_payload_digest_mismatch'')
      else if en_capability_digest (lq_envelope q) \<noteq> lq_capability_digest q then
        Some (rlm_blocked Needs_user ''recovery_capability_digest_mismatch'')
      else if rlm_recovery_environment_digest (lq_spec q) (lq_capability_digest q) policy
          \<noteq> pb_environment_digest (lq_binding q) then
        Some (rlm_blocked Needs_user ''recovery_environment_mismatch'')
      else if lq_cancelled q then Some (rlm_blocked Needs_user ''cancellation_requested'')
      else if lq_now q \<ge> en_deadline (lq_envelope q) then Some (rlm_blocked Needs_user ''deadline_expired'')
      else if lq_unresolved q then Some (rlm_blocked Reconcile_effect ''broker_call_unresolved'')
      else if usage_exceeds_authority (lq_usage q) (lq_envelope q) then
        Some (rlm_blocked Quarantine ''cumulative_usage_exceeds_budget'')
      else None)"

definition plan_rlm_step_successor :: "rlm_plan_args \<Rightarrow> rlm_plan res" where
  "plan_rlm_step_successor q =
     (let steps = lq_steps q; traces = lq_traces q; next = next_rlm_action (lq_spec q) steps in
      case authority_block q of Some p \<Rightarrow> Inr p
      | None \<Rightarrow>
        if map st_index steps \<noteq> map int [0..<length steps] then
          Inr (rlm_blocked Quarantine ''rlm_step_sequence_mismatch'')
        else if map bt_sequence traces \<noteq> map int [1..<length traces + 1] then
          Inr (rlm_blocked Quarantine ''broker_trace_sequence_mismatch'')
        else and_then (check_steps q [] steps []) (\<lambda>checked. case checked of
          Inl reason \<Rightarrow> Inr (rlm_blocked Quarantine reason)
        | Inr seen \<Rightarrow>
          let extra = filter (\<lambda>t. bt_sequence t \<notin> set seen) traces in
          and_then (check_extra q extra) (\<lambda>reason. case reason of
            Some r \<Rightarrow> Inr (rlm_blocked Quarantine r)
          | None \<Rightarrow>
            if next \<noteq> None \<and> int (length steps) \<ge> js_max_steps (lq_spec q) then
              Inr (rlm_blocked Needs_user ''rlm_step_bound_exhausted'')
            else if extra = [] \<and> next_action_has_no_budget next (lq_usage q) (lq_envelope q) then
              Inr (rlm_blocked Needs_user ''cumulative_budget_exhausted'')
            else and_then (boundary_of q) (\<lambda>b.
              Inr \<lparr>lp_decision = Start_successor, lp_reason = ''rlm_certain_step_boundary'',
                   lp_boundary = Some b\<rparr>))))"

end
