(* ===== verification/Continuity_Properties.thy ===== *)
theory Continuity_Properties
  imports Continuity
begin

text \<open>
  Properties of recovery planning: a successor is planned only at a boundary that is certain,
  and a checkpoint is restored only where everything it depends on is exact.
\<close>

section \<open>Certain steps\<close>

definition certain_call :: "rlm_plan_args \<Rightarrow> rlm_action \<Rightarrow> call_trace \<Rightarrow> bool" where
  "certain_call q a t \<longleftrightarrow> t \<in> set (lq_traces q) \<and> bt_parent_operation t = lq_operation q \<and>
     method_wire (bt_method t) = action_kind_wire (rk_kind a) \<and> trace_grant_is_authorized t a (lq_envelope q) \<and>
     action_request_digest a = Inr (bt_request_digest t) \<and> bt_state t = T_succeeded"

definition certain_step :: "rlm_plan_args \<Rightarrow> rlm_step list \<Rightarrow> rlm_step \<Rightarrow> bool" where
  "certain_step q prefix s \<longleftrightarrow> (\<exists>a t. next_rlm_action (lq_spec q) prefix = Some a \<and> st_action s = rk_kind a \<and>
     st_request_digest s = json_digest (rlm_action_json a) \<and> certain_call q a t \<and>
     bt_sequence t = st_call_sequence s \<and> bt_grant_id t = st_grant_id s \<and>
     bt_response_digest t = Some (json_digest (broker_receipt_json (st_receipt s))))"

lemma trace_fits_True:
  "trace_fits i e t a grant = Inr True \<longleftrightarrow> bt_parent_operation t = i \<and>
     method_wire (bt_method t) = action_kind_wire (rk_kind a) \<and> (grant = None \<or> grant = Some (bt_grant_id t)) \<and>
     trace_grant_is_authorized t a e \<and> action_request_digest a = Inr (bt_request_digest t) \<and> bt_state t = T_succeeded"
  by (auto simp: trace_fits_def and_then_Inr_iff)

lemma find_SomeD: "List.find p xs = Some x \<Longrightarrow> x \<in> set xs \<and> p x"
  by (induction xs) (auto split: if_split_asm)

lemma check_steps_certain:
  assumes "check_steps q prefix steps seen = Inr (Inr out)"
  shows "(\<forall>k < length steps. certain_step q (prefix @ take k steps) (steps ! k)) \<and>
    out = rev (map st_call_sequence steps) @ seen \<and>
    (distinct seen \<longrightarrow> distinct out)"
  using assms
proof (induction q prefix steps seen rule: check_steps.induct)
  case (2 q prefix s steps seen)
  from "2.prems" obtain a t where a: "next_rlm_action (lq_spec q) prefix = Some a"
    and s: "st_action s = rk_kind a" "st_request_digest s = json_digest (rlm_action_json a)"
    and t: "List.find (\<lambda>t. bt_sequence t = st_call_sequence s) (lq_traces q) = Some t" "bt_sequence t \<notin> set seen"
    and fits: "trace_fits (lq_operation q) (lq_envelope q) t a (Some (st_grant_id s)) = Inr True"
      "bt_response_digest t = Some (json_digest (broker_receipt_json (st_receipt s)))"
    and rest: "check_steps q (prefix @ [s]) steps (bt_sequence t # seen) = Inr (Inr out)"
    by (auto simp: and_then_Inr_iff split: option.split_asm if_split_asm)
  have IH: "(\<forall>k < length steps. certain_step q ((prefix @ [s]) @ take k steps) (steps ! k)) \<and>
      out = rev (map st_call_sequence steps) @ bt_sequence t # seen \<and> (distinct (bt_sequence t # seen) \<longrightarrow> distinct out)"
    by (rule "2.IH" [OF a _ t(1) t(2) _ rest, where x = True]) (use s fits in simp_all)
  have c: "certain_step q prefix s"
    using a s find_SomeD [OF t(1)] fits by (auto simp: certain_step_def certain_call_def trace_fits_True)
  have "certain_step q (prefix @ take k (s # steps)) ((s # steps) ! k)" if "k < length (s # steps)" for k
    using that c IH by (cases k) auto
  then show ?case using IH t(2) find_SomeD [OF t(1)] by (auto simp: disjoint_iff)
qed simp

lemma check_extra_None:
  "check_extra q extra = Inr None \<Longrightarrow> extra = [] \<or> (\<exists>t a. extra = [t] \<and>
     next_rlm_action (lq_spec q) (lq_steps q) = Some a \<and> trace_fits (lq_operation q) (lq_envelope q) t a None = Inr True \<and>
     bt_response_digest t \<noteq> None)"
  by (auto simp: check_extra_def and_then_Inr_iff split: list.split_asm option.split_asm if_split_asm)

lemma boundary_of_Inr:
  assumes "boundary_of q = Inr b"
  shows "validate_rlm_boundary b = Inr b" "rb_operation b = lq_operation q"
    "rb_prior_attempt b = lq_prior_attempt q" "rb_policy_digest b = pb_policy_digest (lq_binding q)"
    "rb_deadline b = en_deadline (lq_envelope q)" "rb_committed_step_count b = int (length (lq_steps q))"
    "rb_steps_digest b = json_digest (JArr (map rlm_step_json (lq_steps q)))"
    "rb_broker_trace_digest b = json_digest (JArr (map call_trace_json (lq_traces q)))"
    "rb_usage_digest b = json_digest (broker_usage_json (lq_usage q))"
proof -
  have v: "validate_rlm_boundary c = Inr b \<Longrightarrow> b = c" for c
    by (simp add: validate_rlm_boundary_def validated_def Let_def split: if_split_asm option.split_asm)
  from assms obtain c where c: "validate_rlm_boundary c = Inr b" "rb_operation c = lq_operation q"
    "rb_prior_attempt c = lq_prior_attempt q" "rb_policy_digest c = pb_policy_digest (lq_binding q)"
    "rb_deadline c = en_deadline (lq_envelope q)" "rb_committed_step_count c = int (length (lq_steps q))"
    "rb_steps_digest c = json_digest (JArr (map rlm_step_json (lq_steps q)))"
    "rb_broker_trace_digest c = json_digest (JArr (map call_trace_json (lq_traces q)))"
    "rb_usage_digest c = json_digest (broker_usage_json (lq_usage q))"
    by (simp add: boundary_of_def rlm_boundary_issue_def Let_def)
  with v [OF c(1)] show "validate_rlm_boundary b = Inr b" "rb_operation b = lq_operation q"
    "rb_prior_attempt b = lq_prior_attempt q" "rb_policy_digest b = pb_policy_digest (lq_binding q)"
    "rb_deadline b = en_deadline (lq_envelope q)" "rb_committed_step_count b = int (length (lq_steps q))"
    "rb_steps_digest b = json_digest (JArr (map rlm_step_json (lq_steps q)))"
    "rb_broker_trace_digest b = json_digest (JArr (map call_trace_json (lq_traces q)))"
    "rb_usage_digest b = json_digest (broker_usage_json (lq_usage q))"
    by simp_all
qed

lemma authority_block_None:
  assumes "authority_block q = None"
  shows "pb_operation (lq_binding q) = lq_operation q" "at_operation (lq_prior_attempt q) = lq_operation q"
    "rp_policy_id (pb_policy (lq_binding q)) = Rlm_step_boundary"
    "Start_successor \<in> set (rp_allowed_decisions (pb_policy (lq_binding q)))"
    "en_input_digest (lq_envelope q) = lq_input_digest q" "json_digest (rlm_job_spec_json (lq_spec q)) = lq_input_digest q"
    "en_capability_digest (lq_envelope q) = lq_capability_digest q"
    "pb_environment_digest (lq_binding q) =
       rlm_recovery_environment_digest (lq_spec q) (lq_capability_digest q) (pb_policy (lq_binding q))"
    "\<not> lq_cancelled q" "lq_now q < en_deadline (lq_envelope q)" "\<not> lq_unresolved q"
    "\<not> usage_exceeds_authority (lq_usage q) (lq_envelope q)"
  using assms unfolding authority_block_def Let_def by (simp_all split: if_split_asm)

lemma authority_block_Some: "authority_block q = Some p \<Longrightarrow> lp_decision p \<noteq> Start_successor"
  unfolding authority_block_def Let_def by (auto simp: rlm_blocked_def split: if_split_asm)

lemma start_successor_checks:
  assumes "plan_rlm_step_successor q = Inr p" "lp_decision p = Start_successor"
  obtains seen b where "authority_block q = None" "map st_index (lq_steps q) = map int [0..<length (lq_steps q)]"
    "map bt_sequence (lq_traces q) = map int [1..<length (lq_traces q) + 1]"
    "check_steps q [] (lq_steps q) [] = Inr (Inr seen)"
    "check_extra q (filter (\<lambda>t. bt_sequence t \<notin> set seen) (lq_traces q)) = Inr None"
    "next_rlm_action (lq_spec q) (lq_steps q) = None \<or> int (length (lq_steps q)) < js_max_steps (lq_spec q)"
    "boundary_of q = Inr b" "lp_boundary p = Some b"
proof (cases "authority_block q")
  case (Some x)
  with assms authority_block_Some [OF Some] show ?thesis by (simp add: plan_rlm_step_successor_def Let_def)
next
  case None
  let ?extra = "\<lambda>seen. filter (\<lambda>t. bt_sequence t \<notin> set seen) (lq_traces q)"
  have idx: "map st_index (lq_steps q) = map int [0..<length (lq_steps q)]"
    and trs: "map bt_sequence (lq_traces q) = map int [1..<length (lq_traces q) + 1]"
    using assms unfolding plan_rlm_step_successor_def Let_def None option.case
    by (auto simp: rlm_blocked_def simp del: upt_Suc One_nat_def split: if_split_asm)
  with assms obtain checked where c: "check_steps q [] (lq_steps q) [] = Inr checked"
    unfolding plan_rlm_step_successor_def Let_def None option.case by (auto simp: and_then_Inr_iff)
  with assms idx trs obtain seen where seen: "checked = Inr seen"
    unfolding plan_rlm_step_successor_def Let_def None option.case
    by (cases checked) (auto simp: rlm_blocked_def simp del: upt_Suc One_nat_def)
  note plan = assms(1) [unfolded plan_rlm_step_successor_def Let_def None option.case c seen sum.case
    and_then.simps if_not_P [OF not_not [THEN iffD2], OF idx] if_not_P [OF not_not [THEN iffD2], OF trs]]
  from plan obtain reason where x: "check_extra q (?extra seen) = Inr reason" by (auto simp: and_then_Inr_iff)
  with plan assms(2) have "reason = None" by (cases reason) (auto simp: rlm_blocked_def)
  note x = x [unfolded this]
  from plan x assms(2) obtain b where "boundary_of q = Inr b" "lp_boundary p = Some b"
    "next_rlm_action (lq_spec q) (lq_steps q) = None \<or> int (length (lq_steps q)) < js_max_steps (lq_spec q)"
    by (auto simp: rlm_blocked_def and_then_Inr_iff not_le split: if_split_asm)
  then show ?thesis using that [OF None idx trs c [unfolded seen] x] by blast
qed

section \<open>Properties\<close>

text \<open>C20: A job is continued only at a certain boundary: the plan starts a successor only for the
  bound policy and input, before the deadline, uncancelled, within the budget and with no
  open broker call; every recorded step is the action its strategy takes after the steps
  before it and is backed by a succeeded, granted broker call of its own with the recorded
  receipt; at most one call is not recorded yet, and it is the next action's; and the
  boundary that is issued binds exactly these steps, traces and usage.\<close>

theorem successor_plans_are_certain:
  assumes "plan_rlm_step_successor q = Inr p" "lp_decision p = Start_successor"
  shows "pb_operation (lq_binding q) = lq_operation q \<and>
      json_digest (rlm_job_spec_json (lq_spec q)) = en_input_digest (lq_envelope q) \<and>
      \<not> lq_cancelled q \<and> \<not> lq_unresolved q \<and> lq_now q < en_deadline (lq_envelope q) \<and>
      \<not> usage_exceeds_authority (lq_usage q) (lq_envelope q) \<and>
      (\<forall>k < length (lq_steps q). st_index (lq_steps q ! k) = int k \<and> certain_step q (take k (lq_steps q)) (lq_steps q ! k)) \<and>
      distinct (map st_call_sequence (lq_steps q)) \<and>
      (\<forall>t \<in> set (lq_traces q). bt_sequence t \<notin> st_call_sequence ` set (lq_steps q) \<longrightarrow>
        (\<exists>a. next_rlm_action (lq_spec q) (lq_steps q) = Some a \<and> certain_call q a t)) \<and>
      length (filter (\<lambda>t. bt_sequence t \<notin> st_call_sequence ` set (lq_steps q)) (lq_traces q)) \<le> 1 \<and>
      (\<exists>b. lp_boundary p = Some b \<and> validate_rlm_boundary b = Inr b \<and>
        rb_committed_step_count b = int (length (lq_steps q)) \<and>
        rb_steps_digest b = json_digest (JArr (map rlm_step_json (lq_steps q))) \<and>
        rb_broker_trace_digest b = json_digest (JArr (map call_trace_json (lq_traces q))) \<and>
        rb_usage_digest b = json_digest (broker_usage_json (lq_usage q)))"
proof -
  obtain seen b where auth: "authority_block q = None"
    and idx: "map st_index (lq_steps q) = map int [0..<length (lq_steps q)]"
    and steps: "check_steps q [] (lq_steps q) [] = Inr (Inr seen)"
    and extra: "check_extra q (filter (\<lambda>t. bt_sequence t \<notin> set seen) (lq_traces q)) = Inr None"
    and b: "boundary_of q = Inr b" "lp_boundary p = Some b"
    by (rule start_successor_checks [OF assms])
  note c = check_steps_certain [OF steps, simplified]
  have seen: "set seen = st_call_sequence ` set (lq_steps q)" using c by auto
  have dist: "distinct (map st_call_sequence (lq_steps q))" using c by (metis distinct_rev)
  have idx': "st_index (lq_steps q ! k) = int k" if "k < length (lq_steps q)" for k
    using arg_cong [OF idx, of "\<lambda>xs. xs ! k"] that by simp
  have only: "\<exists>a. next_rlm_action (lq_spec q) (lq_steps q) = Some a \<and> certain_call q a t"
    if "t \<in> set (lq_traces q)" "bt_sequence t \<notin> st_call_sequence ` set (lq_steps q)" for t
  proof -
    let ?E = "filter (\<lambda>t. bt_sequence t \<notin> set seen) (lq_traces q)"
    have t: "t \<in> set ?E" using that seen by simp
    then have "?E \<noteq> []" by (metis empty_iff list.set(1))
    with check_extra_None [OF extra] obtain u a where u: "?E = [u]" "next_rlm_action (lq_spec q) (lq_steps q) = Some a"
      "trace_fits (lq_operation q) (lq_envelope q) u a None = Inr True" by blast
    from t have "t = u" unfolding u(1) by simp
    with u that(1) show ?thesis by (auto simp: certain_call_def trace_fits_True)
  qed
  have one: "length (filter (\<lambda>t. bt_sequence t \<notin> st_call_sequence ` set (lq_steps q)) (lq_traces q)) \<le> 1"
    using check_extra_None [OF extra] unfolding seen by auto
  show ?thesis
    using authority_block_None [OF auth] c idx' dist only one b boundary_of_Inr [OF b(1)] by simp
qed

definition sample_plan :: rlm_plan_args where
  "sample_plan =
     (let spec = \<lparr>js_query = ''why'', js_strategy = S_baseline, js_max_steps = 2\<rparr>;
          input = json_digest (rlm_job_spec_json spec);
          capability = json_digest (JStr ''capabilities'');
          op = OperationRef ''op-1''
      in \<lparr>lq_operation = op, lq_input_digest = input,
          lq_envelope = \<lparr>en_request_id = ''r-1'', en_idempotency_key = ''k-1'', en_host = HostRef ''h-1'',
            en_principal = PrincipalRef ''p-1'', en_lane = LaneRef ''l-1'', en_session = SessionRef ''s-1'',
            en_workspace = None, en_parent_operation = None, en_runtime_generation = 1,
            en_workspace_generation = None, en_expected_revision = None, en_capability_digest = capability,
            en_deadline = 100, en_grants = [],
            en_budget = \<lparr>bu_wall_time_ms = 1, bu_model_requests = 1, bu_input_tokens = 5, bu_output_tokens = 5,
              bu_child_operations = 0, bu_artifact_bytes = 0\<rparr>, en_trace_id = ''t-1'', en_input_digest = input\<rparr>,
          lq_spec = spec,
          lq_prior_attempt = \<lparr>at_operation = op, at_attempt_no = 1, at_attempt_id = ''attempt-1''\<rparr>,
          lq_runtime_generation = 1, lq_dispatcher_generation = 1, lq_lease_epoch = 1,
          lq_binding = \<lparr>pb_operation = op, pb_operation_kind = rlm_operation_kind,
            pb_policy = rlm_step_boundary_policy, pb_policy_digest = json_digest (policy_json rlm_step_boundary_policy),
            pb_environment_digest = rlm_recovery_environment_digest spec capability rlm_step_boundary_policy,
            pb_created_at = 1\<rparr>,
          lq_capability_digest = capability, lq_steps = [], lq_traces = [], lq_usage = usage_zero,
          lq_cancelled = False, lq_unresolved = False, lq_now = 50\<rparr>)"

theorem successor_plans_are_certain_witness:
  "\<exists>p. plan_rlm_step_successor sample_plan = Inr p \<and> lp_decision p = Start_successor \<and>
     (\<exists>b. lp_boundary p = Some b \<and> rb_committed_step_count b = 0)"
proof -
  have "\<exists>p. plan_rlm_step_successor sample_plan = Inr p \<and> lp_decision p = Start_successor"
    by (simp add: plan_rlm_step_successor_def authority_block_def sample_plan_def Let_def rlm_step_boundary_policy_def
        usage_exceeds_authority_def usage_zero_def check_extra_def next_action_has_no_budget_def next_rlm_action_def
        boundary_of_def rlm_boundary_issue_def validate_rlm_boundary_def validated_def rlm_boundary_fields_ok_def
        positive_counter_def max_i64_def revision_def continuity_text_def rlm_strategy_digest_def
        rlm_recovery_environment_digest_def rlm_boundary_payload_def opt_ok_def)
  then obtain p where p: "plan_rlm_step_successor sample_plan = Inr p" "lp_decision p = Start_successor" by blast
  from successor_plans_are_certain [OF p] p show ?thesis by (auto simp: sample_plan_def Let_def)
qed

text \<open>Both policies are valid, and a checkpoint is restored only where it is exact.\<close>

lemma policies_valid:
  "validate_policy rlm_step_boundary_policy = Inr rlm_step_boundary_policy"
  "validate_policy workspace_checkpoint_boundary_policy = Inr workspace_checkpoint_boundary_policy"
  by (simp_all add: validate_policy_def rlm_step_boundary_policy_def workspace_checkpoint_boundary_policy_def
      validated_def positive_counter_def max_i64_def revision_def continuity_text_def rlm_operation_kind_def
      workspace_program_kind_def sorted_unique_strict successor_decisions_def less_recovery_decision_kind_def Let_def)

lemma restored_checkpoints_are_exact:
  assumes "wp_decision (plan_workspace_checkpoint_successor q) = Restore_checkpoint"
  shows "\<exists>m. wq_manifest q = Some m \<and> wp_manifest (plan_workspace_checkpoint_successor q) = Some m \<and>
    cm_source_handle m = wq_handle q \<and> cm_environment m = wq_environment q \<and> wh_backend (wq_handle q) = wq_backend q \<and>
    (cm_exclusions m = [] \<or> rp_allow_partial_checkpoint (pb_policy (wq_binding q))) \<and>
    sp_checkpoint_replay_safe (wq_spec q) \<and> \<not> wq_cancelled q \<and> wq_now q < en_deadline (wq_envelope q)"
proof -
  have b: "wp_decision (workspace_blocked Needs_user r) \<noteq> Restore_checkpoint"
    "wp_decision (workspace_blocked Quarantine r) \<noteq> Restore_checkpoint" for r by (simp_all add: workspace_blocked_def)
  show ?thesis using assms unfolding plan_workspace_checkpoint_successor_def Let_def
    by (auto simp: b not_le split: if_split_asm option.split_asm)
qed

end
