(* ===== verification/Workspace_Store.thy ===== *)
theory Workspace_Store
  imports Canonical Schemas Effects
begin

text \<open>
  The deterministic workspace (\<open>runtime/workspace.py\<close>): a store of JSON scalars per workspace
  whose mutation and receipt commit in one transaction, so that an operation mutates a workspace
  at most once however often it is executed.
\<close>

section \<open>Models\<close>

record mutation_handle =
  mh_workspace :: workspace_ref
  mh_generation :: int
  mh_revision :: int

datatype mutation_action = M_set | M_delete | M_increment

fun mutation_action_wire :: "mutation_action \<Rightarrow> string" where
  "mutation_action_wire M_set = ''set''"
| "mutation_action_wire M_delete = ''delete''"
| "mutation_action_wire M_increment = ''increment''"

record mutation_spec =
  mq_workspace :: workspace_ref
  mq_generation :: int
  mq_revision :: int
  mq_action :: mutation_action
  mq_key :: string
  mq_value :: json

definition mutation_spec_json :: "mutation_spec \<Rightarrow> json" where
  "mutation_spec_json s = JObj
     [(''workspace'', workspace_ref_json (mq_workspace s)), (''expected_generation'', JInt (mq_generation s)),
      (''expected_revision'', JInt (mq_revision s)), (''action'', JStr (mutation_action_wire (mq_action s))),
      (''key'', JStr (mq_key s)), (''value'', mq_value s)]"

fun is_json_scalar :: "json \<Rightarrow> bool" where
  "is_json_scalar (JArr vs) = False"
| "is_json_scalar (JObj kvs) = False"
| "is_json_scalar v = True"

fun mutation_key :: "string \<Rightarrow> bool" where
  "mutation_key [] = False"
| "mutation_key (c # cs) \<longleftrightarrow> (char_in 65 90 c \<or> char_in 97 122 c) \<and> length cs \<le> 63 \<and>
     list_all (\<lambda>d. is_alnum d \<or> d \<in> {CHR ''_'', CHR ''.'', CHR ''-''}) cs"

fun json_int :: "json \<Rightarrow> int option" where
  "json_int (JInt n) = Some n"
| "json_int v = None"

definition validate_mutation_spec :: "mutation_spec \<Rightarrow> mutation_spec res" where
  "validate_mutation_spec s = validated
     (positive_counter (mq_generation s) \<and> revision (mq_revision s) \<and> mutation_key (mq_key s) \<and>
      is_json_scalar (mq_value s))
     [(\<not> (mq_action s = M_delete \<and> mq_value s \<noteq> JNull), ''delete does not accept a value''),
      (\<not> (mq_action s = M_increment \<and> json_int (mq_value s) = None), ''increment requires an integer value'')] s"

record mutation_result =
  mt_workspace :: workspace_ref
  mt_generation :: int
  mt_revision_before :: int
  mt_revision_after :: int
  mt_action :: mutation_action
  mt_key :: string
  mt_previous :: json
  mt_value :: json

definition mutation_result_json :: "mutation_result \<Rightarrow> json" where
  "mutation_result_json r = JObj
     [(''workspace'', workspace_ref_json (mt_workspace r)), (''generation'', JInt (mt_generation r)),
      (''revision_before'', JInt (mt_revision_before r)), (''revision_after'', JInt (mt_revision_after r)),
      (''action'', JStr (mutation_action_wire (mt_action r))), (''key'', JStr (mt_key r)),
      (''previous'', mt_previous r), (''value'', mt_value r)]"

definition validate_mutation_result :: "mutation_result \<Rightarrow> mutation_result res" where
  "validate_mutation_result r = validated
     (positive_counter (mt_generation r) \<and> revision (mt_revision_before r) \<and>
      revision (mt_revision_after r) \<and> is_json_scalar (mt_previous r) \<and> is_json_scalar (mt_value r)) [] r"

record mutation_snapshot =
  mz_workspace :: workspace_ref
  mz_generation :: int
  mz_revision :: int
  mz_values :: "(string \<times> json) list"

section \<open>The store\<close>

record stored_workspace =
  sk_workspace :: workspace_ref
  sk_session :: session_ref
  sk_generation :: int
  sk_revision :: int
  sk_state :: "(string \<times> json) list"

record mutation_receipt =
  mv_operation :: operation_ref
  mv_workspace :: workspace_ref
  mv_result :: mutation_result

record workspace_store =
  wt_workspaces :: "stored_workspace tbl"
  wt_receipts :: "mutation_receipt tbl"

definition handle_of :: "stored_workspace \<Rightarrow> mutation_handle" where
  "handle_of k = \<lparr>mh_workspace = sk_workspace k, mh_generation = sk_generation k,
     mh_revision = sk_revision k\<rparr>"

definition find_workspace :: "workspace_ref \<Rightarrow> workspace_store \<Rightarrow> stored_workspace option" where
  "find_workspace w db = fetchone (\<lambda>k. sk_workspace k = w) (wt_workspaces db)"

definition workspace_row :: "workspace_ref \<Rightarrow> workspace_store \<Rightarrow> stored_workspace res" where
  "workspace_row w db =
     (case find_workspace w db of None \<Rightarrow> Inl (WorkspaceNotFound (workspace_value w)) | Some k \<Rightarrow> Inr k)"

definition check_version :: "stored_workspace \<Rightarrow> int \<Rightarrow> int \<Rightarrow> unit res" where
  "check_version k generation expected =
     (if sk_generation k \<noteq> generation then
        Inl (StaleWorkspaceGeneration
          (''workspace generation is '' @ itoa (sk_generation k) @ '', not '' @ itoa generation))
      else if sk_revision k \<noteq> expected then
        Inl (WorkspaceRevisionConflict
          (''workspace revision is '' @ itoa (sk_revision k) @ '', not '' @ itoa expected))
      else Inr ())"

definition create_workspace ::
    "workspace_ref \<Rightarrow> session_ref \<Rightarrow> workspace_store \<Rightarrow> (mutation_handle \<times> workspace_store) res" where
  "create_workspace w session db =
     (case find_workspace w db of
        None \<Rightarrow>
          let k = \<lparr>sk_workspace = w, sk_session = session, sk_generation = 1, sk_revision = 0, sk_state = []\<rparr>
          in Inr (handle_of k, db\<lparr>wt_workspaces := wt_workspaces db @ [k]\<rparr>)
      | Some k \<Rightarrow>
          if sk_session k \<noteq> session then Inl (WorkspaceError ''workspace is bound to another session'')
          else Inr (handle_of k, db))"

definition read_key :: "string \<Rightarrow> (string \<times> json) list \<Rightarrow> json" where
  "read_key k m = (case map_of m k of None \<Rightarrow> JNull | Some v \<Rightarrow> v)"

definition mutated_state :: "mutation_spec \<Rightarrow> (string \<times> json) list \<Rightarrow> (string \<times> json) list res" where
  "mutated_state s m =
     (case mq_action s of
        M_set \<Rightarrow> Inr (put_key (mq_key s) (mq_value s) m)
      | M_delete \<Rightarrow> Inr (filter (\<lambda>(k, v). k \<noteq> mq_key s) m)
      | M_increment \<Rightarrow>
          (case json_int (case map_of m (mq_key s) of None \<Rightarrow> JInt 0 | Some v \<Rightarrow> v) of
             None \<Rightarrow> Inl (InvalidWorkspaceMutation ''increment target is not an integer'')
           | Some current \<Rightarrow>
             (case json_int (mq_value s) of
                None \<Rightarrow> Inl AssertionError
              | Some n \<Rightarrow> Inr (put_key (mq_key s) (JInt (current + n)) m))))"

text \<open>The state column holds canonical bytes, whose keys are sorted.\<close>

definition stored_state :: "(string \<times> json) list \<Rightarrow> (string \<times> json) list" where
  "stored_state = sort_key fst"

definition find_receipt :: "operation_ref \<Rightarrow> workspace_store \<Rightarrow> mutation_receipt option" where
  "find_receipt i db = fetchone (\<lambda>c. mv_operation c = i) (wt_receipts db)"

definition workspace_receipt :: "operation_ref \<Rightarrow> workspace_store \<Rightarrow> mutation_result option res" where
  "workspace_receipt i db =
     (case find_receipt i db of None \<Rightarrow> Inr None
      | Some c \<Rightarrow> and_then (validate_mutation_result (mv_result c)) (\<lambda>r. Inr (Some r)))"

definition workspace_execute ::
    "operation_ref \<Rightarrow> mutation_spec \<Rightarrow> string option \<Rightarrow> workspace_store \<Rightarrow>
     (mutation_result \<times> workspace_store) res" where
  "workspace_execute i s fp db =
     (case find_receipt i db of
        Some c \<Rightarrow> and_then (validate_mutation_result (mv_result c)) (\<lambda>r. Inr (r, db))
      | None \<Rightarrow>
          and_then (workspace_row (mq_workspace s) db) (\<lambda>k.
          and_then (check_version k (mq_generation s) (mq_revision s)) (\<lambda>_.
          and_then (mutated_state s (sk_state k)) (\<lambda>m.
          and_then (validate_mutation_result
            \<lparr>mt_workspace = mq_workspace s, mt_generation = sk_generation k,
             mt_revision_before = sk_revision k, mt_revision_after = sk_revision k + 1,
             mt_action = mq_action s, mt_key = mq_key s,
             mt_previous = read_key (mq_key s) (sk_state k), mt_value = read_key (mq_key s) m\<rparr>) (\<lambda>r.
          if fp = Some ''loss_after_state_before_receipt'' then Inl SimulatedWorkspaceTransactionLoss
          else Inr (r, db
            \<lparr>wt_workspaces := update_rows (\<lambda>k. sk_workspace k = mq_workspace s)
               (\<lambda>k. k\<lparr>sk_revision := mt_revision_after r, sk_state := stored_state m\<rparr>) (wt_workspaces db),
             wt_receipts := wt_receipts db @
               [\<lparr>mv_operation = i, mv_workspace = mq_workspace s, mv_result = r\<rparr>]\<rparr>))))))"

definition workspace_inspect :: "mutation_handle \<Rightarrow> workspace_store \<Rightarrow> mutation_snapshot res" where
  "workspace_inspect h db =
     and_then (workspace_row (mh_workspace h) db) (\<lambda>k.
     and_then (check_version k (mh_generation h) (mh_revision h)) (\<lambda>_.
     Inr \<lparr>mz_workspace = mh_workspace h, mz_generation = sk_generation k, mz_revision = sk_revision k,
          mz_values = sort_key fst (sk_state k)\<rparr>))"

definition current_handle :: "workspace_ref \<Rightarrow> workspace_store \<Rightarrow> mutation_handle res" where
  "current_handle w db = and_then (workspace_row w db) (\<lambda>k. Inr (handle_of k))"

definition workspace_count :: "workspace_store \<Rightarrow> int" where
  "workspace_count db = int (length (wt_workspaces db))"

definition assert_session :: "workspace_ref \<Rightarrow> session_ref \<Rightarrow> workspace_store \<Rightarrow> unit res" where
  "assert_session w session db =
     and_then (workspace_row w db) (\<lambda>k.
     require (sk_session k = session) (WorkspaceSessionMismatch ''workspace is bound to another session''))"

definition workspace_attach ::
    "workspace_ref \<Rightarrow> session_ref \<Rightarrow> int \<Rightarrow> int \<Rightarrow> workspace_store \<Rightarrow> mutation_handle res" where
  "workspace_attach w session generation expected db =
     and_then (workspace_row w db) (\<lambda>k.
     and_then (require (sk_session k = session)
       (WorkspaceSessionMismatch ''workspace is bound to another session'')) (\<lambda>_.
     and_then (check_version k generation expected) (\<lambda>_. Inr (handle_of k))))"

section \<open>A workspace is the replay of its receipts\<close>

definition receipts_of :: "workspace_ref \<Rightarrow> workspace_store \<Rightarrow> mutation_receipt list" where
  "receipts_of w db = filter (\<lambda>c. mv_workspace c = w) (wt_receipts db)"

text \<open>What a receipt alone says of the state after it, and the state all receipts give.\<close>

definition apply_receipt :: "(string \<times> json) list \<Rightarrow> mutation_result \<Rightarrow> (string \<times> json) list" where
  "apply_receipt m r = stored_state
     (if mt_action r = M_delete then filter (\<lambda>(k, v). k \<noteq> mt_key r) m else put_key (mt_key r) (mt_value r) m)"

definition replay :: "mutation_receipt list \<Rightarrow> (string \<times> json) list" where
  "replay cs = foldl apply_receipt [] (map mv_result cs)"

definition workspace_ok :: "workspace_store \<Rightarrow> stored_workspace \<Rightarrow> bool" where
  "workspace_ok db k \<longleftrightarrow> (let cs = receipts_of (sk_workspace k) db in
     sk_revision k = int (length cs) \<and> sk_state k = replay cs \<and>
     map (\<lambda>c. mt_revision_before (mv_result c)) cs = map int [0..<length cs] \<and>
     (\<forall>n < length cs. mt_previous (mv_result (cs ! n)) =
        read_key (mt_key (mv_result (cs ! n))) (replay (take n cs))))"

definition workspaces_ok :: "workspace_store \<Rightarrow> bool" where
  "workspaces_ok db \<longleftrightarrow> distinct (map sk_workspace (wt_workspaces db)) \<and>
     distinct (map mv_operation (wt_receipts db)) \<and>
     (\<forall>c \<in> set (wt_receipts db). validate_mutation_result (mv_result c) = Inr (mv_result c) \<and>
        mv_workspace c \<in> sk_workspace ` set (wt_workspaces db)) \<and>
     (\<forall>k \<in> set (wt_workspaces db). workspace_ok db k)"

definition empty_workspaces :: workspace_store where
  "empty_workspaces = \<lparr>wt_workspaces = [], wt_receipts = []\<rparr>"

inductive workspace_step :: "workspace_store \<Rightarrow> workspace_store \<Rightarrow> bool" where
  created: "create_workspace w s db = Inr (h, db') \<Longrightarrow> workspace_step db db'"
| executed: "workspace_execute i s fp db = Inr (r, db') \<Longrightarrow> workspace_step db db'"

lemma workspaces_ok_empty: "workspaces_ok empty_workspaces"
  by (simp add: workspaces_ok_def empty_workspaces_def)

lemma put_key_map_of: "map_of (put_key k v m) k = Some v"
  by (induction m) auto

text \<open>The mutation of a valid request is what its receipt says.\<close>

lemma mutated_applied:
  assumes "mutated_state s m = Inr m'" "mt_action r = mq_action s" "mt_key r = mq_key s"
    and "mt_value r = read_key (mq_key s) m'"
  shows "stored_state m' = apply_receipt m r"
  using assms
  by (auto simp: mutated_state_def apply_receipt_def read_key_def put_key_map_of
      split: mutation_action.split_asm option.split_asm)

lemma workspace_execute_Inr:
  assumes "workspace_execute i s fp db = Inr (r, db')"
  shows "(\<exists>c. find_receipt i db = Some c \<and> r = mv_result c \<and> db' = db) \<or>
    (find_receipt i db = None \<and> validate_mutation_result r = Inr r \<and> (\<exists>k m. find_workspace (mq_workspace s) db = Some k \<and>
      sk_generation k = mq_generation s \<and> sk_revision k = mq_revision s \<and>
      mutated_state s (sk_state k) = Inr m \<and> mt_workspace r = mq_workspace s \<and>
      mt_generation r = sk_generation k \<and> mt_revision_before r = sk_revision k \<and>
      mt_revision_after r = sk_revision k + 1 \<and> mt_action r = mq_action s \<and> mt_key r = mq_key s \<and>
      mt_previous r = read_key (mq_key s) (sk_state k) \<and> mt_value r = read_key (mq_key s) m \<and>
      db' = db\<lparr>wt_workspaces := update_rows (\<lambda>k. sk_workspace k = mq_workspace s)
               (\<lambda>k. k\<lparr>sk_revision := mt_revision_after r, sk_state := stored_state m\<rparr>) (wt_workspaces db),
             wt_receipts := wt_receipts db @
               [\<lparr>mv_operation = i, mv_workspace = mq_workspace s, mv_result = r\<rparr>]\<rparr>))"
  using assms
  by (auto simp: workspace_execute_def workspace_row_def check_version_def validate_mutation_result_def res_simps
      split: option.split_asm if_split_asm)

lemma execute_keeps_ok:
  assumes e: "workspace_execute i s fp db = Inr (r, db')" and ok: "workspaces_ok db"
  shows "workspaces_ok db'"
  using workspace_execute_Inr [OF e]
proof (elim disjE conjE exE)
  fix k m
  let ?w = "mq_workspace s"
  let ?c = "\<lparr>mv_operation = i, mv_workspace = ?w, mv_result = r\<rparr>"
  let ?f = "\<lambda>k. k\<lparr>sk_revision := mt_revision_after r, sk_state := stored_state m\<rparr>"
  assume k: "find_workspace ?w db = Some k" and n: "find_receipt i db = None" and m: "mutated_state s (sk_state k) = Inr m"
    and v: "validate_mutation_result r = Inr r"
    and r: "mt_revision_before r = sk_revision k" "mt_revision_after r = sk_revision k + 1"
      "mt_previous r = read_key (mq_key s) (sk_state k)"
      "mt_action r = mq_action s" "mt_key r = mq_key s" "mt_value r = read_key (mq_key s) m"
    and db': "db' = db\<lparr>wt_workspaces := update_rows (\<lambda>k. sk_workspace k = ?w) ?f (wt_workspaces db),
       wt_receipts := wt_receipts db @ [?c]\<rparr>"
  have kin: "k \<in> set (wt_workspaces db)" "sk_workspace k = ?w"
    using k by (auto simp: find_workspace_def dest: fetchone_SomeD)
  have keys: "map sk_workspace (wt_workspaces db') = map sk_workspace (wt_workspaces db)"
    by (simp add: db' map_update_rows)
  have new: "i \<notin> mv_operation ` set (wt_receipts db)"
    using n by (auto simp: find_receipt_def fetchone_None_iff)
  have self: "workspace_ok db' (?f k)"
  proof -
    have "workspace_ok db k" using ok kin(1) by (simp add: workspaces_ok_def)
    moreover have "receipts_of ?w db' = receipts_of ?w db @ [?c]" by (simp add: receipts_of_def db')
    ultimately show ?thesis using r mutated_applied [OF m, of r]
      by (auto simp: workspace_ok_def kin(2) Let_def replay_def nth_append less_Suc_eq)
  qed
  have "workspace_ok db' x" if "x \<in> set (wt_workspaces db')" for x
  proof (cases "sk_workspace x = ?w")
    case True
    with that kin ok have "x = ?f k"
      by (auto simp: db' set_update_rows workspaces_ok_def distinct_map inj_on_def)
    with self show ?thesis by simp
  next
    case False
    then have "x \<in> set (wt_workspaces db)" "receipts_of (sk_workspace x) db' = receipts_of (sk_workspace x) db"
      using that by (auto simp: db' set_update_rows receipts_of_def)
    with ok show ?thesis by (auto simp: workspaces_ok_def workspace_ok_def)
  qed
  moreover have "sk_workspace ` set (wt_workspaces db') = sk_workspace ` set (wt_workspaces db)"
    using keys by (metis set_map)
  moreover have "?w \<in> sk_workspace ` set (wt_workspaces db)" using kin by force
  ultimately show ?thesis using ok keys new v
    by (auto simp: workspaces_ok_def db')
qed (use ok in simp)

lemma create_keeps_ok:
  assumes c: "create_workspace w s db = Inr (h, db')" and ok: "workspaces_ok db"
  shows "workspaces_ok db'"
proof (cases "find_workspace w db")
  case None
  have new: "w \<notin> sk_workspace ` set (wt_workspaces db)"
    using None by (auto simp: find_workspace_def fetchone_None_iff)
  with ok have "receipts_of w db = []" by (auto simp: receipts_of_def workspaces_ok_def filter_empty_conv)
  with None c new ok show ?thesis
    by (auto simp: create_workspace_def Let_def workspaces_ok_def workspace_ok_def receipts_of_def replay_def)
next
  case (Some k)
  with c ok show ?thesis by (simp add: create_workspace_def split: if_split_asm)
qed

lemma workspace_steps_ok: "workspace_step\<^sup>*\<^sup>* empty_workspaces db \<Longrightarrow> workspaces_ok db"
  by (induction rule: rtranclp_induct)
    (auto simp: workspaces_ok_empty elim!: workspace_step.cases intro: create_keeps_ok execute_keeps_ok)

end
