(* ===== verification/Workspace_Properties.thy ===== *)
theory Workspace_Properties
  imports Workspace_Store
begin

text \<open>
  Properties of the deterministic workspace: its tables are determined by the receipts it gave,
  and an operation mutates at most once.
\<close>

lemma find_receipt_kept:
  "workspace_step db db' \<Longrightarrow> find_receipt i db = Some c \<Longrightarrow> find_receipt i db' = Some c"
proof (induction rule: workspace_step.induct)
  case (executed k s fp db r db')
  then show ?case
    by (auto simp: find_receipt_def fetchone_append dest!: workspace_execute_Inr)
qed (auto simp: create_workspace_def find_receipt_def Let_def split: option.split_asm if_split_asm)

lemma receipts_kept:
  "workspace_step\<^sup>*\<^sup>* db db' \<Longrightarrow> find_receipt i db = Some c \<Longrightarrow> find_receipt i db' = Some c"
  by (induction rule: rtranclp_induct) (auto intro: find_receipt_kept)

lemma executed_receipt:
  assumes "workspaces_ok db" "workspace_execute i s fp db = Inr (r, db')"
  shows "\<exists>c. find_receipt i db' = Some c \<and> mv_result c = r \<and> validate_mutation_result r = Inr r"
  using workspace_execute_Inr [OF assms(2)] assms(1)
  by (auto simp: find_receipt_def fetchone_append workspaces_ok_def dest: fetchone_SomeD)
    (simp add: fetchone_def)

text \<open>C27: Whatever workspaces were created and whatever was executed on them, a workspace is exactly
  what its receipts say: its state is the replay of their keys and values from nothing, its
  revision is their number, they carry the revisions 0, 1, 2, ... in order, and each one's previous
  value is what the replay of those before it holds. No operation has two receipts.\<close>

theorem workspaces_replay_their_receipts:
  assumes "workspace_step\<^sup>*\<^sup>* empty_workspaces db" "k \<in> set (wt_workspaces db)"
    and "cs = receipts_of (sk_workspace k) db"
  shows "sk_state k = replay cs \<and> sk_revision k = int (length cs) \<and>
    map (\<lambda>c. mt_revision_before (mv_result c)) cs = map int [0..<length cs] \<and>
    (\<forall>n < length cs. mt_previous (mv_result (cs ! n)) =
       read_key (mt_key (mv_result (cs ! n))) (replay (take n cs))) \<and>
    distinct (map mv_operation cs)"
proof -
  have ok: "workspaces_ok db" using assms(1) by (rule workspace_steps_ok)
  then have "workspace_ok db k" "distinct (map mv_operation cs)"
    using assms(2) by (auto simp: workspaces_ok_def assms(3) receipts_of_def intro: distinct_map_filter)
  then show ?thesis by (simp add: workspace_ok_def assms(3) Let_def)
qed

text \<open>A run: a workspace is created and counts to two.\<close>

definition counter_spec :: mutation_spec where
  "counter_spec = \<lparr>mq_workspace = WorkspaceRef ''w'', mq_generation = 1, mq_revision = 0,
     mq_action = M_increment, mq_key = ''n'', mq_value = JInt 2\<rparr>"

definition counter_result :: mutation_result where
  "counter_result = \<lparr>mt_workspace = WorkspaceRef ''w'', mt_generation = 1, mt_revision_before = 0,
     mt_revision_after = 1, mt_action = M_increment, mt_key = ''n'', mt_previous = JNull, mt_value = JInt 2\<rparr>"

definition new_counter :: workspace_store where
  "new_counter = \<lparr>wt_workspaces = [\<lparr>sk_workspace = WorkspaceRef ''w'', sk_session = SessionRef ''s'',
     sk_generation = 1, sk_revision = 0, sk_state = []\<rparr>], wt_receipts = []\<rparr>"

definition counter :: workspace_store where
  "counter = \<lparr>wt_workspaces = [\<lparr>sk_workspace = WorkspaceRef ''w'', sk_session = SessionRef ''s'',
       sk_generation = 1, sk_revision = 1, sk_state = [(''n'', JInt 2)]\<rparr>],
     wt_receipts = [\<lparr>mv_operation = OperationRef ''op-1'', mv_workspace = WorkspaceRef ''w'',
       mv_result = counter_result\<rparr>]\<rparr>"

lemma counter_created: "workspace_step empty_workspaces new_counter"
  by (rule workspace_step.created [of "WorkspaceRef ''w''" "SessionRef ''s''"])
    (simp add: create_workspace_def find_workspace_def empty_workspaces_def fetchone_def Let_def new_counter_def)

lemma counter_executed:
  "workspace_execute (OperationRef ''op-1'') counter_spec None new_counter = Inr (counter_result, counter)"
  by (simp add: workspace_execute_def find_receipt_def workspace_row_def find_workspace_def fetchone_def
      new_counter_def counter_spec_def check_version_def mutated_state_def read_key_def stored_state_def
      validate_mutation_result_def validated_def positive_counter_def revision_def max_i64_def
      counter_result_def counter_def update_rows_def)

lemma counter_steps: "workspace_step\<^sup>*\<^sup>* empty_workspaces new_counter" "workspace_step\<^sup>*\<^sup>* empty_workspaces counter"
proof -
  show "workspace_step\<^sup>*\<^sup>* empty_workspaces new_counter" using counter_created by (rule r_into_rtranclp)
  then show "workspace_step\<^sup>*\<^sup>* empty_workspaces counter"
    using workspace_step.executed [OF counter_executed] by (rule rtranclp.rtrancl_into_rtrancl)
qed

theorem workspaces_replay_their_receipts_witness:
  "replay (receipts_of (WorkspaceRef ''w'') counter) = [(''n'', JInt 2)]"
  using workspaces_replay_their_receipts [OF counter_steps(2) _ refl, of "hd (wt_workspaces counter)"]
  by (simp add: counter_def)

text \<open>C28: An operation mutates its workspace once. After an execution that returned, however many
  other steps follow, executing the operation again, even with another request, returns the first
  result and changes nothing, and its receipt is that result.\<close>

theorem mutations_happen_once:
  assumes "workspace_step\<^sup>*\<^sup>* empty_workspaces db" "workspace_execute i s fp db = Inr (r, db1)"
    and "workspace_step\<^sup>*\<^sup>* db1 db2"
  shows "workspace_execute i s' fp' db2 = Inr (r, db2) \<and> workspace_receipt i db2 = Inr (Some r)"
proof -
  obtain c where "find_receipt i db1 = Some c" "mv_result c = r" "validate_mutation_result r = Inr r"
    using executed_receipt [OF workspace_steps_ok [OF assms(1)] assms(2)] by blast
  with receipts_kept [OF assms(3)] show ?thesis by (simp add: workspace_execute_def workspace_receipt_def)
qed

theorem mutations_happen_once_witness:
  "workspace_execute (OperationRef ''op-1'') (counter_spec\<lparr>mq_value := JInt 5\<rparr>) None counter =
     Inr (counter_result, counter)"
  using mutations_happen_once [OF counter_steps(1) counter_executed rtranclp.rtrancl_refl] by blast

end
