(* ===== verification/Registry_Access.thy ===== *)
theory Registry_Access
  imports Effects Registry_Invariant
begin

text \<open>
  How the rest of the program calls the registry: it waits for the registry's lock, and with the
  lock held the method reads the clock and runs as one transaction. The state a caller changes
  is a parameter, with where the registry is in it; the laws of such an access are a locale that
  every user of the registry's methods interprets.
\<close>

text \<open>\<open>ac_enter\<close> is waiting for the lock: other threads run until the caller has it.\<close>

record 's access =
  ac_registry :: "'s \<Rightarrow> reg"
  ac_put :: "reg \<Rightarrow> 's \<Rightarrow> 's"
  ac_enter :: "'s \<Rightarrow> 's"
  ac_clock :: "'s \<Rightarrow> int \<times> 's"

text \<open>
  A registry method runs with the lock held and reads the clock there: once, or before that for
  its fence.
\<close>

definition in_registry :: "('s, 'x) access_scheme \<Rightarrow> (int \<Rightarrow> reg \<Rightarrow> ('a \<times> reg) res) \<Rightarrow> ('a, 's) act" where
  "in_registry h f s = (let (now, s1) = ac_clock h s in transact (ac_registry h) (ac_put h) (f now) s1)"

definition on_registry :: "('s, 'x) access_scheme \<Rightarrow> (int \<Rightarrow> reg \<Rightarrow> ('a \<times> reg) res) \<Rightarrow> ('a, 's) act" where
  "on_registry h f s = in_registry h f (ac_enter h s)"

definition on_fenced :: "('s, 'x) access_scheme \<Rightarrow> (int \<Rightarrow> int \<Rightarrow> reg \<Rightarrow> ('a \<times> reg) res) \<Rightarrow> ('a, 's) act" where
  "on_fenced h f s = (let (fence_now, s1) = ac_clock h (ac_enter h s) in in_registry h (f fence_now) s1)"

text \<open>A read, which leaves the clock alone.\<close>

definition on_read :: "('s, 'x) access_scheme \<Rightarrow> (reg \<Rightarrow> 'a res) \<Rightarrow> ('a, 's) act" where
  "on_read h f s = (f (ac_registry h (ac_enter h s)), ac_enter h s)"

definition moves :: "('s, 'x) access_scheme \<Rightarrow> ('a, 's) act \<Rightarrow> bool" where
  "moves h m \<longleftrightarrow> (\<forall>s. reg_steps (ac_registry h s) (ac_registry h (snd (m s))))"

named_theorems moves_intros \<open>actions that change the registry only by its methods\<close>

text \<open>The readings of the clock are times at most \<open>t\<close>.\<close>

definition clocked :: "('s, 'x) access_scheme \<Rightarrow> int \<Rightarrow> bool" where
  "clocked h t \<longleftrightarrow> (\<forall>s. positive_counter (fst (ac_clock h s)) \<and> fst (ac_clock h s) \<le> t)"

lemma moves_ret [moves_intros]: "moves h (ret x)" "moves h (throw e)" "moves h (of_res r)" "moves h (raise_if c e)"
  by (simp_all add: moves_def act_simps)

lemma moves_seq [moves_intros]: "moves h m \<Longrightarrow> (\<And>x. moves h (f x)) \<Longrightarrow> moves h (seq m f)"
  unfolding moves_def
  by (intro allI seq_rel [where R = "\<lambda>s t. reg_steps (ac_registry h s) (ac_registry h t)"]) auto

lemma moves_catch [moves_intros]: "moves h m \<Longrightarrow> (\<And>e. moves h (g e)) \<Longrightarrow> moves h (catch m g)"
  unfolding moves_def catch_def
  by (auto split: prod.split sum.split) (metis rtranclp_trans snd_conv)+

lemma moves_try [moves_intros]:
  "moves h m \<Longrightarrow> (\<And>e. moves h (g e)) \<Longrightarrow> (\<And>x. moves h (f x)) \<Longrightarrow> moves h (try_else m g f)"
  unfolding moves_def try_else_def
  by (auto split: prod.split sum.split) (metis rtranclp_trans snd_conv)+

lemma moves_each [moves_intros]: "(\<And>x. moves h (f x)) \<Longrightarrow> moves h (each f xs)"
  by (induction xs) (auto intro!: moves_intros)

lemma reachable_moves: "moves h m \<Longrightarrow> reachable (ac_registry h s) \<Longrightarrow> reachable (ac_registry h (snd (m s)))"
  unfolding moves_def by (blast intro: reachable_steps)

text \<open>
  The registry is stored where it is read, the lock is only waited for while other callers make
  registry steps, and the clock does not touch the registry.
\<close>

locale access_laws =
  fixes h :: "('s, 'x) access_scheme"
  assumes stored: "ac_registry h (ac_put h r s) = r"
    and entered: "reg_steps (ac_registry h s) (ac_registry h (ac_enter h s))"
    and ticked: "ac_registry h (snd (ac_clock h s)) = ac_registry h s"
begin

lemma moves_method:
  assumes "\<And>now r x r'. f now r = Inr (x, r') \<Longrightarrow> reg_step r r'"
  shows "reg_steps (ac_registry h s) (ac_registry h (snd (in_registry h f s)))"
  using assms ticked [of s]
  by (auto simp: in_registry_def transact_def stored split: prod.split sum.split intro: r_into_rtranclp)

lemma moves_on_registry:
  "(\<And>now r x r'. f now r = Inr (x, r') \<Longrightarrow> reg_step r r') \<Longrightarrow> moves h (on_registry h f)"
  using moves_method [of f] entered unfolding moves_def on_registry_def by (meson rtranclp_trans)

lemma moves_on_fenced:
  assumes "\<And>u now r x r'. f u now r = Inr (x, r') \<Longrightarrow> reg_step r r'"
  shows "moves h (on_fenced h f)"
  unfolding moves_def
proof
  fix s
  let ?s = "ac_enter h s"
  have "ac_registry h (snd (ac_clock h ?s)) = ac_registry h ?s" by (rule ticked)
  then show "reg_steps (ac_registry h s) (ac_registry h (snd (on_fenced h f s)))"
    using moves_method [where f = "f (fst (ac_clock h ?s))" and s = "snd (ac_clock h ?s)", OF assms, of "\<lambda>_ _ _ _. fst (ac_clock h ?s)"
        "\<lambda>n _ _ _. n" "\<lambda>_ _ x _. x"] entered [of s]
    by (simp add: on_fenced_def split_beta)
qed

lemma moves_on_read: "moves h (on_read h f)"
  using entered by (simp add: moves_def on_read_def)

text \<open>A fenced method runs on the registry as the lock is entered; its error leaves it there.\<close>

lemma fenced_Inr:
  "on_fenced h f s = (Inr x, s1) \<Longrightarrow>
   \<exists>u now. f u now (ac_registry h (ac_enter h s)) = Inr (x, ac_registry h s1)"
  using ticked [of "ac_enter h s"] ticked [of "snd (ac_clock h (ac_enter h s))"]
  by (cases "f (fst (ac_clock h (ac_enter h s))) (fst (ac_clock h (snd (ac_clock h (ac_enter h s)))))
      (ac_registry h (ac_enter h s))")
    (auto simp: on_fenced_def in_registry_def transact_def split_beta stored intro!: exI)

lemma fenced_Inl:
  "on_fenced h f s = (Inl e, s1) \<Longrightarrow> clocked h t \<Longrightarrow>
   \<exists>u now. u \<le> t \<and> positive_counter now \<and> f u now (ac_registry h s1) = Inl e \<and>
     ac_registry h s1 = ac_registry h (ac_enter h s)"
  using ticked [of "ac_enter h s"] ticked [of "snd (ac_clock h (ac_enter h s))"]
  by (auto simp: on_fenced_def in_registry_def transact_def split_beta stored clocked_def split: sum.splits)

lemma entered_ok: "reachable (ac_registry h s) \<Longrightarrow> reg_ok (ac_registry h (ac_enter h s))"
  by (rule reachable_ok [OF reachable_steps [OF _ entered]])

end

end
