(* ===== verification/Host.thy ===== *)
theory Host
  imports Rlm_Runs Broker_Reconciliation Continuity Registry_Access Workspace_Store "HOL-Library.Sublist"
begin

text \<open>
  The RLM part of the reference host (\<open>runtime/reference_host.py\<close>): admission, direct and
  claimed execution with the mapping of every exception to a committed outcome, and the recovery
  of parked executions. One database holds the registry, the RLM store, the broker journal and
  the model journal; here they are the parts of one state.
\<close>

section \<open>State\<close>

text \<open>
  The registry, how often the clock was read or the lock waited for, the deterministic
  workspaces, and the state of the programmable workspaces' backend.
\<close>

record 'w outer =
  ou_registry :: reg
  ou_ticks :: nat
  ou_workspaces :: workspace_store
  ou_backend :: 'w

type_synonym ('s, 'w) host = "('s, 'w outer) rlm_state"

text \<open>
  What other threads and processes do to the registry while a call waits for its lock: by the
  number of the wait, any sequence of registry methods.
\<close>

typedef interference = "{f :: nat \<Rightarrow> reg \<Rightarrow> reg. \<forall>n r. reg_steps r (f n r)}"
  morphisms interfere Interference
  by (rule exI [of _ "\<lambda>n r. r"]) simp

setup_lifting type_definition_interference

lift_definition alone :: interference is "\<lambda>n r. r"
  by simp

lemma interfere_steps: "reg_steps r (interfere f n r)"
  using interfere [of f] by simp

text \<open>
  What the host is constructed with. \<open>hc_clock\<close> is the \<open>n\<close>th reading of the clock and
  \<open>hc_others\<close> what the other threads do before the \<open>n\<close>th lock is taken. The parser of a
  stored specification is pydantic's, the routes are the model broker registry's.
\<close>

record 's host_config =
  hc_clock :: "nat \<Rightarrow> int"
  hc_others :: interference
  hc_generation :: int
  hc_capability_digest :: string
  hc_facade :: "'s facade"
  hc_parse_spec :: "string \<Rightarrow> rlm_job_spec res"
  hc_bind_route :: "(string \<Rightarrow> model_route_binding res) option"
  hc_default_profile :: "string option"

definition read_time :: "('s, 'x) host_config_scheme \<Rightarrow> 'w outer \<Rightarrow> int \<times> 'w outer" where
  "read_time c u = (hc_clock c (ou_ticks u), u\<lparr>ou_ticks := ou_ticks u + 1\<rparr>)"

definition enter_lock :: "('s, 'x) host_config_scheme \<Rightarrow> 'w outer \<Rightarrow> 'w outer" where
  "enter_lock c u =
     u\<lparr>ou_registry := interfere (hc_others c) (ou_ticks u) (ou_registry u), ou_ticks := ou_ticks u + 1\<rparr>"

definition outer_access :: "('s, 'x) host_config_scheme \<Rightarrow> 'w outer access" where
  "outer_access c = \<lparr>ac_registry = ou_registry, ac_put = (\<lambda>r u. u\<lparr>ou_registry := r\<rparr>),
     ac_enter = enter_lock c, ac_clock = read_time c\<rparr>"

text \<open>Registry calls of the host, by the number of times they read the clock.\<close>

definition host_read :: "('s, 'x) host_config_scheme \<Rightarrow> (reg \<Rightarrow> 'a res) \<Rightarrow> ('a, ('s, 'w) host) act" where
  "host_read c f = poll (on_read (outer_access c) f)"

definition host_write ::
    "('s, 'x) host_config_scheme \<Rightarrow> (int \<Rightarrow> reg \<Rightarrow> ('a \<times> reg) res) \<Rightarrow> ('a, ('s, 'w) host) act" where
  "host_write c f = poll (on_registry (outer_access c) f)"

definition host_fenced ::
    "('s, 'x) host_config_scheme \<Rightarrow> (int \<Rightarrow> int \<Rightarrow> reg \<Rightarrow> ('a \<times> reg) res) \<Rightarrow> ('a, ('s, 'w) host) act" where
  "host_fenced c f = poll (on_fenced (outer_access c) f)"

definition now_ms :: "('s, 'x) host_config_scheme \<Rightarrow> (int, ('s, 'w) host) act" where
  "now_ms c = poll (\<lambda>u. (Inr (fst (read_time c u)), snd (read_time c u)))"

definition bind_brokers :: "('s, 'x) host_config_scheme \<Rightarrow> request_envelope \<Rightarrow> operation_ref \<Rightarrow> 's bound" where
  "bind_brokers c e i = \<lparr>bo_facade = hc_facade c, bo_envelope = e, bo_operation = i\<rparr>"

section \<open>Stored bytes\<close>

definition rlm_result_json :: "rlm_result \<Rightarrow> json" where
  "rlm_result_json r = JObj
     [(''schema_version'', JStr ''aar.rlm.v1''), (''operation'', operation_json (rs_operation r)),
      (''strategy'', JStr (strategy_wire (rs_strategy r))), (''answer'', JStr (rs_answer r)),
      (''steps'', JArr (map rlm_step_json (rs_steps r))), (''usage'', broker_usage_json (rs_usage r)),
      (''broker_trace'', JArr (map call_trace_json (rs_trace r))),
      (''trace_digest'', JStr (rs_trace_digest r))]"

definition rlm_job_snapshot_json :: "rlm_job_snapshot \<Rightarrow> json" where
  "rlm_job_snapshot_json n = JObj
     [(''schema_version'', JStr ''aar.rlm.v1''), (''operation'', operation_json (jn_operation n)),
      (''state'', JStr (state_wire (jn_state n))), (''spec'', rlm_job_spec_json (jn_spec n)),
      (''steps'', JArr (map rlm_step_json (jn_steps n))), (''usage'', broker_usage_json (jn_usage n)),
      (''result'', opt_json rlm_result_json (jn_result n))]"

text \<open>\<open>rlm_status\<close>: the inner snapshot under the outer state, with the journal's usage.\<close>

definition rlm_status ::
    "('s, 'x) host_config_scheme \<Rightarrow> operation_ref \<Rightarrow> operation_state option \<Rightarrow>
     (rlm_job_snapshot, ('s, 'w) host) act" where
  "rlm_status c i authoritative =
     seq (host_read c (get_record i)) (\<lambda>record.
     seq (ask (\<lambda>s. require (rlm_exists i (lm_store s)) (RlmStateMissing
       ''RLM operation has no durable job state; use mutation-authorized reconcile''))) (\<lambda>_.
     seq (ask (\<lambda>s. journal_usage i (fst (lm_world s)))) (\<lambda>usage.
     ask (\<lambda>s. rlm_snapshot i
       (Some (case authoritative of Some st \<Rightarrow> st | None \<Rightarrow> or_state record)) (Some usage) (lm_store s)))))"

definition snapshot_text :: "rlm_job_snapshot \<Rightarrow> string" where
  "snapshot_text n = canonical_json_text (rlm_job_snapshot_json n)"

definition result_text :: "rlm_result \<Rightarrow> string" where
  "result_text r = canonical_json_text (rlm_result_json r)"

section \<open>Admission\<close>

definition granted_capabilities :: "request_envelope \<Rightarrow> string list" where
  "granted_capabilities e = map gr_capability (filter (\<lambda>g. gr_issued_to g = en_principal e \<and>
     gr_expires_at g \<ge> en_deadline e) (en_grants e))"

definition required_capabilities :: "rlm_job_spec \<Rightarrow> string list" where
  "required_capabilities spec =
     (if js_strategy spec = S_evidence_synthesis then [''evidence.query''] else []) @
     [''model.request'', ''rlm.execute'']"

text \<open>
  The checks all three admissions begin with; only programs also bound their own wall time.
\<close>

definition check_authority ::
    "('s, 'x) host_config_scheme \<Rightarrow> request_envelope \<Rightarrow> string \<Rightarrow> int option \<Rightarrow> (unit, ('s, 'w) host) act" where
  "check_authority c e what program_ms =
     seq (raise_if (en_runtime_generation e \<noteq> hc_generation c) (StaleRuntimeGeneration
       (''runtime generation is '' @ itoa (hc_generation c) @ '', not '' @ itoa (en_runtime_generation e)))) (\<lambda>_.
     seq (raise_if (en_capability_digest e \<noteq> hc_capability_digest c)
       (CapabilityMismatch ''capability digest does not match the reference host'')) (\<lambda>_.
     seq (now_ms c) (\<lambda>now.
     seq (raise_if (now \<ge> en_deadline e)
       (DeadlineExpired ''request deadline has expired before acceptance'')) (\<lambda>_.
     seq (raise_if (bu_wall_time_ms (en_budget e) = 0)
       (BudgetDenied (what @ '' execution requires a positive wall-time budget''))) (\<lambda>_.
     seq (now_ms c) (\<lambda>now'.
     seq (raise_if (en_deadline e - now' > bu_wall_time_ms (en_budget e))
       (BudgetDenied ''wall-time budget does not cover the request deadline'')) (\<lambda>_.
     seq (raise_if (case program_ms of None \<Rightarrow> False | Some ms \<Rightarrow> ms > bu_wall_time_ms (en_budget e))
       (BudgetDenied ''workspace wall-time exceeds the request budget'')) (\<lambda>_.
     raise_if (bu_wall_time_ms (en_budget e) > 60000)
       (BudgetDenied ''wall-time budget exceeds the reference-host capability limit'')))))))))"

definition validate_rlm_request ::
    "('s, 'x) host_config_scheme \<Rightarrow> request_envelope \<Rightarrow> rlm_job_spec \<Rightarrow> (unit, ('s, 'w) host) act" where
  "validate_rlm_request c e spec =
     (let missing = filter (\<lambda>k. k \<notin> set (granted_capabilities e)) (required_capabilities spec) in
     seq (check_authority c e ''RLM'' None) (\<lambda>_.
     seq (raise_if (bu_model_requests (en_budget e) > 16)
       (BudgetDenied ''model-request budget exceeds the reference-host capability limit'')) (\<lambda>_.
     seq (raise_if (missing \<noteq> [])
       (GrantDenied (''required RLM grants are absent: '' @ join '', '' missing))) (\<lambda>_.
     seq (raise_if (json_digest (rlm_job_spec_json spec) \<noteq> en_input_digest e)
       (InputDigestMismatch ''RLM payload does not match envelope input digest'')) (\<lambda>_.
     raise_if (en_workspace e \<noteq> None)
       (WorkspaceBindingDenied ''portable RLM execution is not implicitly bound to a workspace''))))))"

text \<open>The route the operation is bound to, in the transaction that accepts it.\<close>

definition chosen_route ::
    "('s, 'x) host_config_scheme \<Rightarrow> string option \<Rightarrow> model_route_binding option res" where
  "chosen_route c profile =
     (case hc_bind_route c of None \<Rightarrow> Inr None
      | Some bind \<Rightarrow>
        (case (case profile of Some p \<Rightarrow> if p = [] then hc_default_profile c else Some p
               | None \<Rightarrow> hc_default_profile c) of
           None \<Rightarrow> Inl (ReferenceHostError ''model route profile is required'')
         | Some p \<Rightarrow> and_then (bind p) (\<lambda>b. Inr (Some b))))"

definition accept_bound ::
    "request_envelope \<Rightarrow> string \<Rightarrow> model_route_binding option \<Rightarrow> int \<Rightarrow> reg \<times> mjr \<Rightarrow>
     ((op_row \<times> bool) \<times> reg \<times> mjr) res" where
  "accept_bound e payload binding now st =
     (let (r, m) = st; i = operation_id_of e in
      case binding of
        None \<Rightarrow> and_then (accept e payload None now r) (\<lambda>(res, r'). Inr (res, r', m))
      | Some b \<Rightarrow>
          and_then (accept e payload (Some (\<lambda>i r. and_then (bind_operation i b m) (\<lambda>_. Inr r))) now r)
            (\<lambda>(res, r'). and_then (bind_operation i b m) (\<lambda>(_, m'). Inr (res, r', m'))))"

definition set_models :: "mjr \<Rightarrow> ('s, 'w) host \<Rightarrow> ('s, 'w) host" where
  "set_models m s = s\<lparr>lm_world := (fst (lm_world s), (snd (lm_world s))\<lparr>pv_models := m\<rparr>)\<rparr>"

definition host_accept ::
    "('s, 'x) host_config_scheme \<Rightarrow> request_envelope \<Rightarrow> string \<Rightarrow> model_route_binding option \<Rightarrow>
     (op_row \<times> bool, ('s, 'w) host) act" where
  "host_accept c e payload binding s =
     (let o1 = enter_lock c (lm_outer s); (now, o2) = read_time c o1; s2 = s\<lparr>lm_outer := o2\<rparr> in
      case accept_bound e payload binding now (ou_registry o2, pv_models (snd (lm_world s))) of
        Inl x \<Rightarrow> (Inl x, s2)
      | Inr (res, r, m) \<Rightarrow> (Inr res, set_models m (s2\<lparr>lm_outer := o2\<lparr>ou_registry := r\<rparr>\<rparr>)))"

definition submit_rlm ::
    "('s, 'x) host_config_scheme \<Rightarrow> request_envelope \<Rightarrow> rlm_job_spec \<Rightarrow> string option \<Rightarrow>
     (op_row, ('s, 'w) host) act" where
  "submit_rlm c e spec profile =
     seq (validate_rlm_request c e spec) (\<lambda>_.
     seq (of_res (chosen_route c profile)) (\<lambda>binding.
     seq (host_accept c e (canonical_json_text (rlm_job_spec_json spec)) binding) (\<lambda>(record, _).
     seq (on_store (rlm_ensure (or_operation record) spec)) (\<lambda>_. ret record))))"

section \<open>Outcomes of a run\<close>

text \<open>\<open>str(error)\<close>; the text of a pydantic error is its own.\<close>

fun exn_message :: "exn \<Rightarrow> string" where
  "exn_message (ValueError m) = m"
| "exn_message (TypeError m) = m"
| "exn_message (ValidationError m) = m"
| "exn_message (KeyError m) = CHR 0x27 # m @ [CHR 0x27]"
| "exn_message AssertionError = []"
| "exn_message (RuntimeFailure m) = m"
| "exn_message (TimeoutError m) = m"
| "exn_message (RegistryError m) = m"
| "exn_message (IdempotencyConflict m) = m"
| "exn_message (InvalidTransition m) = m"
| "exn_message (StaleRuntimeGeneration m) = m"
| "exn_message (StaleAttemptFence m) = m"
| "exn_message (IntegrityError m) = m"
| "exn_message (OperationalError m) = m"
| "exn_message (IndexError m) = m"
| "exn_message (BrokerGrantDenied m) = m"
| "exn_message (BrokerBudgetExceeded m) = m"
| "exn_message (BrokerDeadlineExpired m) = m"
| "exn_message (BrokerCallConflict m) = m"
| "exn_message (BrokerCallIndeterminate m) = m"
| "exn_message (BrokerCallQuarantined m) = m"
| "exn_message (RlmExecutionCancelled m) = m"
| "exn_message SimulatedRlmProcessLoss = []"
| "exn_message (DispatcherClosed m) = m"
| "exn_message (DispatcherDrainTimeout names) = itoa (int (length names)) @
     '' dispatcher worker(s) still running after drain timeout: '' @ join '', '' names"
| "exn_message (ModelBrokerError m) = m"
| "exn_message (ModelRouteNotFound m) = m"
| "exn_message (ModelRouteBindingStale m) = m"
| "exn_message (ModelRouteDrift m) = m"
| "exn_message (ModelCallIndeterminate m) = m"
| "exn_message (ModelProviderOutcomeUnknown m) = m"
| "exn_message (ModelProviderFailure m) = m"
| "exn_message (ModelReceiptLookupUnavailable m) = m"
| "exn_message (ModelReceiptLookupFailed m) = m"
| "exn_message (ReferenceHostError m) = m"
| "exn_message (CapabilityMismatch m) = m"
| "exn_message (GrantDenied m) = m"
| "exn_message (BudgetDenied m) = m"
| "exn_message (WorkspaceBindingDenied m) = m"
| "exn_message (DeadlineExpired m) = m"
| "exn_message (InputDigestMismatch m) = m"
| "exn_message (RlmStateMissing m) = m"
| "exn_message (WorkspaceError m) = m"
| "exn_message (WorkspaceNotFound m) = m"
| "exn_message (StaleWorkspaceGeneration m) = m"
| "exn_message (WorkspaceRevisionConflict m) = m"
| "exn_message (WorkspaceSessionMismatch m) = m"
| "exn_message (InvalidWorkspaceMutation m) = m"
| "exn_message (WorkspaceClosed m) = m"
| "exn_message (WorkspaceOperationConflict m) = m"
| "exn_message (WorkspaceCheckpointRejected m) = m"
| "exn_message (WorkspaceArtifactUnavailable m) = m"
| "exn_message SimulatedProcessLoss = []"
| "exn_message SimulatedWorkspaceTransactionLoss = []"
| "exn_message (AttributeError m) = m"
| "exn_message (RepositoryClosed m) = m"
| "exn_message (CallerWorkConflict m) = m"
| "exn_message (CallerWorkIdempotencyConflict m) = m"
| "exn_message (StaleTicketRevision m) = m"
| "exn_message (InvalidTicketTransition m) = m"
| "exn_message (ExpiredCallerClaim m) = m"
| "exn_message (ActivationStoreError m) = m"
| "exn_message (ActivationGenerationConflict m) = m"
| "exn_message (ActivationBindingMismatch m) = m"
| "exn_message (SessionGrantDenied m) = m"
| "exn_message (ProviderReadyStartupError m) = m"

text \<open>
  What the \<open>except\<close> clauses make of an exception: the execution ended in a state, its outcome is
  unknown, it failed, or the process is gone. Only claimed runs have the first clause.
\<close>

datatype run_outcome =
    Run_ended operation_state string
  | Run_unknown
  | Run_failed failure_category string string
  | Run_lost

definition run_outcome_of :: "bool \<Rightarrow> exn \<Rightarrow> run_outcome" where
  "run_outcome_of claimed e =
     (let name = exn_name e; message = exn_message e in
      if claimed \<and> name = ''RlmExecutionCancelled'' then Run_ended CANCELLED ''cancelled''
      else if name = ''BrokerDeadlineExpired'' \<or> name = ''TimeoutError'' then
        Run_ended TIMED_OUT ''deadline_expired''
      else if name = ''BrokerCallIndeterminate'' then Run_unknown
      else if name = ''BrokerBudgetExceeded'' then Run_failed BUDGET ''BROKER_BUDGET_EXCEEDED'' message
      else if name = ''BrokerGrantDenied'' then Run_failed AUTHORITY ''BROKER_GRANT_DENIED'' message
      else if name = ''BrokerCallConflict'' then Run_failed CONFLICT ''BROKER_CALL_CONFLICT'' message
      else if is_runtime_error e then
        (if sublist ''step bound exhausted'' message then
           Run_failed BUDGET ''RLM_STEP_BUDGET_EXHAUSTED'' message
         else Run_failed WORKER ''RLM_EXECUTION_FAILED'' message)
      else if is_process_loss e then Run_lost
      else Run_failed INTERNAL ''RLM_INTERNAL_ERROR'' (if message = [] then name else message))"

definition rlm_failure :: "operation_ref \<Rightarrow> failure_category \<Rightarrow> string \<Rightarrow> string \<Rightarrow> failure_envelope res" where
  "rlm_failure i category code message = validate_failure_envelope
     \<lparr>fe_category = category, fe_code = code, fe_message = take 512 message, fe_retryable = False,
      fe_certainty = CERTAIN, fe_operation = Some i, fe_details = []\<rparr>"

text \<open>Marking the inner job and reading the snapshot that is stored as the outer result.\<close>

definition mark_and_snapshot ::
    "('s, 'x) host_config_scheme \<Rightarrow> operation_ref \<Rightarrow> operation_state \<Rightarrow> (string, ('s, 'w) host) act" where
  "mark_and_snapshot c i st =
     seq (on_store (rlm_mark i st)) (\<lambda>_.
     seq (rlm_status c i (Some st)) (\<lambda>n. ret (snapshot_text n)))"

section \<open>Direct execution\<close>

definition fail_rlm ::
    "('s, 'x) host_config_scheme \<Rightarrow> operation_ref \<Rightarrow> failure_category \<Rightarrow> string \<Rightarrow> string \<Rightarrow>
     (op_row, ('s, 'w) host) act" where
  "fail_rlm c i category code message =
     seq (mark_and_snapshot c i FAILED) (\<lambda>text.
     seq (of_res (rlm_failure i category code message)) (\<lambda>failure.
     host_write c (fail_op i failure False (Some text) (hc_generation c))))"

definition run_error ::
    "('s, 'x) host_config_scheme \<Rightarrow> operation_ref \<Rightarrow> exn \<Rightarrow> (op_row, ('s, 'w) host) act" where
  "run_error c i e =
     (case run_outcome_of False e of
        Run_ended st note \<Rightarrow>
          seq (mark_and_snapshot c i TIMED_OUT) (\<lambda>text.
          host_write c (time_out i (Some text) (hc_generation c)))
      | Run_unknown \<Rightarrow>
          seq (on_store (rlm_mark i INDETERMINATE)) (\<lambda>_.
          host_write c (mark_indeterminate i ''broker_call_indeterminate'' (hc_generation c)))
      | Run_failed category code message \<Rightarrow> fail_rlm c i category code message
      | Run_lost \<Rightarrow> throw e)"

definition direct_env :: "('s, 'x) host_config_scheme \<Rightarrow> string option \<Rightarrow> 'w outer rlm_env" where
  "direct_env c fp = \<lparr>lv_cancelled = ret False, lv_beat = ret (), lv_clock = read_time c,
     lv_failpoint = fp\<rparr>"

definition run_rlm ::
    "('s, 'x) host_config_scheme \<Rightarrow> operation_ref \<Rightarrow> string option \<Rightarrow> (op_row, ('s, 'w) host) act" where
  "run_rlm c i fp =
     seq (host_read c (get_record i)) (\<lambda>record.
     if or_state record \<noteq> ACCEPTED then ret record
     else
       seq (of_res (hc_parse_spec c (or_payload_json record))) (\<lambda>spec.
       seq (on_store (rlm_ensure i spec)) (\<lambda>_.
       seq (now_ms c) (\<lambda>now.
       if now \<ge> en_deadline (or_request record) then
         seq (on_store (rlm_mark i TIMED_OUT)) (\<lambda>_. host_write c (time_out i None (hc_generation c)))
       else
         seq (host_write c (begin_op i (hc_generation c))) (\<lambda>_.
         try_else (rlm_run (bind_brokers c (or_request record) i) (direct_env c fp)) (run_error c i)
           (\<lambda>result. host_write c (succeed i (result_text result) False (hc_generation c))))))))"

definition execute_rlm ::
    "('s, 'x) host_config_scheme \<Rightarrow> request_envelope \<Rightarrow> rlm_job_spec \<Rightarrow> string option \<Rightarrow> string option \<Rightarrow>
     (op_row, ('s, 'w) host) act" where
  "execute_rlm c e spec fp profile =
     seq (submit_rlm c e spec profile) (\<lambda>record.
     if or_state record \<noteq> ACCEPTED then ret record else run_rlm c (or_operation record) fp)"

section \<open>Claimed execution\<close>

definition host_fence :: "('s, 'x) host_config_scheme \<Rightarrow> fence \<Rightarrow> fence" where
  "host_fence c f = f\<lparr>fn_runtime_generation := hc_generation c\<rparr>"

definition claimed_outcome ::
    "('s, 'x) host_config_scheme \<Rightarrow> fence \<Rightarrow> operation_state \<Rightarrow> string option \<Rightarrow> failure_envelope option \<Rightarrow>
     string \<Rightarrow> (op_row, ('s, 'w) host) act" where
  "claimed_outcome c f st result failure note =
     host_fenced c (transition_claimed (host_fence c f) st result failure note)"

definition fail_claimed_rlm ::
    "('s, 'x) host_config_scheme \<Rightarrow> operation_ref \<Rightarrow> fence \<Rightarrow> failure_category \<Rightarrow> string \<Rightarrow> string \<Rightarrow>
     (op_row, ('s, 'w) host) act" where
  "fail_claimed_rlm c i f category code message =
     seq (mark_and_snapshot c i FAILED) (\<lambda>text.
     seq (of_res (rlm_failure i category code message)) (\<lambda>failure.
     claimed_outcome c f FAILED (Some text) (Some failure) ''execution_failed''))"

definition end_claimed_rlm ::
    "('s, 'x) host_config_scheme \<Rightarrow> operation_ref \<Rightarrow> fence \<Rightarrow> operation_state \<Rightarrow> string \<Rightarrow>
     (op_row, ('s, 'w) host) act" where
  "end_claimed_rlm c i f st note =
     seq (mark_and_snapshot c i st) (\<lambda>text. claimed_outcome c f st (Some text) None note)"

definition claimed_error ::
    "('s, 'x) host_config_scheme \<Rightarrow> operation_ref \<Rightarrow> fence \<Rightarrow> exn \<Rightarrow> (op_row, ('s, 'w) host) act" where
  "claimed_error c i f e =
     (case run_outcome_of True e of
        Run_ended st note \<Rightarrow> end_claimed_rlm c i f st note
      | Run_unknown \<Rightarrow>
          seq (on_store (rlm_mark i INDETERMINATE)) (\<lambda>_.
          claimed_outcome c f INDETERMINATE None None ''broker_call_indeterminate'')
      | Run_failed category code message \<Rightarrow> fail_claimed_rlm c i f category code message
      | Run_lost \<Rightarrow> throw e)"

text \<open>The callbacks of a claimed run: every beat renews the lease through its fence.\<close>

definition claimed_env :: "('s, 'x) host_config_scheme \<Rightarrow> operation_ref \<Rightarrow> fence \<Rightarrow> 'w outer rlm_env" where
  "claimed_env c i f =
     \<lparr>lv_cancelled = on_read (outer_access c) (\<lambda>r. Inr (cancellation_requested i r)),
      lv_beat = seq (on_fenced (outer_access c) (heartbeat (host_fence c f) 30000)) (\<lambda>_. ret ()),
      lv_clock = read_time c, lv_failpoint = None\<rparr>"

definition run_claimed_rlm ::
    "('s, 'x) host_config_scheme \<Rightarrow> operation_ref \<Rightarrow> fence \<Rightarrow> (op_row, ('s, 'w) host) act" where
  "run_claimed_rlm c i f =
     seq (raise_if (fn_operation f \<noteq> i)
       (ReferenceHostError ''claimed attempt does not belong to operation'')) (\<lambda>_.
     seq (host_read c (get_record i)) (\<lambda>record.
     if or_state record \<noteq> RUNNING then ret record
     else
       seq (of_res (hc_parse_spec c (or_payload_json record))) (\<lambda>spec.
       seq (on_store (rlm_ensure i spec)) (\<lambda>_.
       seq (now_ms c) (\<lambda>now.
       if now \<ge> en_deadline (or_request record) then end_claimed_rlm c i f TIMED_OUT ''deadline_expired''
       else
         try_else (rlm_run (bind_brokers c (or_request record) i) (claimed_env c i f)) (claimed_error c i f)
           (\<lambda>result. claimed_outcome c f SUCCEEDED (Some (result_text result)) None
             ''execution_succeeded''))))))"

definition mark_dispatch_failure ::
    "('s, 'x) host_config_scheme \<Rightarrow> operation_ref \<Rightarrow> fence \<Rightarrow> exn \<Rightarrow> (op_row, ('s, 'w) host) act" where
  "mark_dispatch_failure c i f e =
     seq (ask (\<lambda>s. Inr (rlm_exists i (lm_store s)))) (\<lambda>known.
     seq (if known then on_store (rlm_mark i INDETERMINATE) else ret ()) (\<lambda>_.
     host_fenced c (park_attempt (host_fence c f) (''dispatcher_worker_exception:'' @ exn_name e))))"

end
