(* ===== verification/Host_Recovery.thy ===== *)
theory Host_Recovery
  imports Host
begin

text \<open>
  Recovery of parked executions in the reference host: a candidate's terminal receipt or marker
  is projected onto its outer operation, and everything else is requeued with the decision the
  continuity engine gives on reconciled evidence.
\<close>

section \<open>Reconciling broker calls\<close>

text \<open>
  The journal reads the controls of the registry's database, and its clock is the host's.
\<close>

definition reconcile_calls ::
    "('s, 'x) host_config_scheme \<Rightarrow> 's bound \<Rightarrow> reconcile_args \<Rightarrow> (broker_report, ('s, 'w) host) act" where
  "reconcile_calls c v a s =
     (let u = lm_outer s; w = lm_world s;
          w' = ((fst w)\<lparr>bk_controls := rg_controls (ou_registry u)\<rparr>, snd w);
          (r, x) = reconcile_unresolved (hc_clock c) v a \<lparr>rx_world = w', rx_ticks = ou_ticks u\<rparr>
      in (r, s\<lparr>lm_world := rx_world x, lm_outer := u\<lparr>ou_ticks := rx_ticks x\<rparr>\<rparr>))"

definition reconcile_broker_calls ::
    "('s, 'x) host_config_scheme \<Rightarrow> operation_ref \<Rightarrow> string option \<Rightarrow> grant option \<Rightarrow> bool \<Rightarrow>
     (broker_report, ('s, 'w) host) act" where
  "reconcile_broker_calls c i digest compensation propose =
     seq (host_read c (get_record i)) (\<lambda>record.
     if or_state record \<noteq> INDETERMINATE then
       throw (BrokerCallConflict ''broker reconciliation requires an indeterminate operation'')
     else reconcile_calls c (bind_brokers c (or_request record) i)
       \<lparr>ra_capability_digest = (case digest of None \<Rightarrow> hc_capability_digest c
            | Some d \<Rightarrow> if d = [] then hc_capability_digest c else d),
        ra_compensation_grant = compensation, ra_propose = propose, ra_cancelled = None\<rparr>)"

text \<open>\<open>recover_durable_effects\<close>: the reports of the candidates whose evidence is usable.\<close>

definition unusable_evidence :: "exn \<Rightarrow> bool" where
  "unusable_evidence e \<longleftrightarrow> exn_name e \<in> {''BrokerCallConflict'', ''BrokerGrantDenied''} \<or> is_value_error e"

fun collect_reports ::
    "('s, 'x) host_config_scheme \<Rightarrow> op_row list \<Rightarrow> broker_report list \<Rightarrow> (broker_report list, ('s, 'w) host) act" where
  "collect_reports c [] reports = ret reports"
| "collect_reports c (record # records) reports =
     seq (ask (\<lambda>s. Inr (has_unresolved_calls (or_operation record) (fst (lm_world s))))) (\<lambda>unresolved.
     if \<not> unresolved then collect_reports c records reports
     else try_else
       (reconcile_calls c (bind_brokers c (or_request record) (or_operation record))
         \<lparr>ra_capability_digest = hc_capability_digest c, ra_compensation_grant = None,
          ra_propose = False, ra_cancelled = None\<rparr>)
       (\<lambda>e. if unusable_evidence e then collect_reports c records reports else throw e)
       (\<lambda>report. collect_reports c records (reports @ [report])))"

definition recover_durable_effects ::
    "('s, 'x) host_config_scheme \<Rightarrow> (broker_report list, ('s, 'w) host) act" where
  "recover_durable_effects c =
     seq (host_read c list_recovery_candidates) (\<lambda>records. collect_reports c records [])"

section \<open>Decisions\<close>

definition requeue ::
    "('s, 'x) host_config_scheme \<Rightarrow> op_row \<Rightarrow> string \<Rightarrow> string \<Rightarrow> policy_binding option \<Rightarrow> boundary option \<Rightarrow>
     (unit, ('s, 'w) host) act" where
  "requeue c record decision reason policy bd =
     seq (host_write c (requeue_indeterminate (or_operation record) (hc_generation c) decision reason
       (or_input_digest record) policy bd)) (\<lambda>_. ret ())"

definition project_receipt ::
    "('s, 'x) host_config_scheme \<Rightarrow> op_row \<Rightarrow> operation_state \<Rightarrow> string \<Rightarrow> string \<Rightarrow> (unit, ('s, 'w) host) act" where
  "project_receipt c record st text reason =
     seq (host_write c (recover_terminal_from_receipt (or_operation record) (hc_generation c) st text reason
       (or_input_digest record))) (\<lambda>_. ret ())"

text \<open>
  The evidence of a candidate: \<open>None\<close> when it was decided on the way. Everything here is guarded
  by one \<open>except\<close> clause.
\<close>

definition plan_candidate ::
    "('s, 'x) host_config_scheme \<Rightarrow> op_row \<Rightarrow> rlm_job_snapshot \<Rightarrow> policy_binding \<Rightarrow> recovery_fence \<Rightarrow>
     (rlm_plan option, ('s, 'w) host) act" where
  "plan_candidate c record inner policy prior =
     (let i = or_operation record; e = or_request record; v = bind_brokers c e i in
      if en_capability_digest e \<noteq> hc_capability_digest c then
        seq (requeue c record ''needs_user'' ''recovery_capability_digest_mismatch'' (Some policy) None)
          (\<lambda>_. ret None)
      else
        seq (of_res (hc_parse_spec c (or_payload_json record))) (\<lambda>spec.
        seq (host_read c (continuity_snapshot i)) (\<lambda>continuity.
        let cancelled = ct_cancellation_requested (sn_control continuity) in
        seq (reconcile_calls c v
          \<lparr>ra_capability_digest = hc_capability_digest c, ra_compensation_grant = None,
           ra_propose = False, ra_cancelled = Some cancelled\<rparr>) (\<lambda>report.
        seq (ask (\<lambda>s. Inr (traces i (fst (lm_world s))))) (\<lambda>made.
        seq (ask (\<lambda>s. journal_usage i (fst (lm_world s)))) (\<lambda>usage.
        seq (now_ms c) (\<lambda>now.
        seq (of_res (plan_rlm_step_successor
          \<lparr>lq_operation = i, lq_input_digest = or_input_digest record, lq_envelope = e, lq_spec = spec,
           lq_prior_attempt = rf_attempt prior, lq_runtime_generation = rf_runtime_generation prior,
           lq_dispatcher_generation = rf_dispatcher_generation prior,
           lq_lease_epoch = rf_lease_epoch prior, lq_binding = policy,
           lq_capability_digest = hc_capability_digest c, lq_steps = jn_steps inner, lq_traces = made,
           lq_usage = usage, lq_cancelled = cancelled, lq_unresolved = bp_unresolved report,
           lq_now = now\<rparr>)) (\<lambda>plan. ret (Some plan)))))))))"

definition invalid_evidence :: "exn \<Rightarrow> bool" where
  "invalid_evidence e \<longleftrightarrow> exn_name e = ''BrokerCallConflict'' \<or> is_value_error e"

definition apply_plan ::
    "('s, 'x) host_config_scheme \<Rightarrow> op_row \<Rightarrow> policy_binding \<Rightarrow> rlm_plan option \<Rightarrow> (unit, ('s, 'w) host) act" where
  "apply_plan c record policy plan =
     (case plan of None \<Rightarrow> ret ()
      | Some p \<Rightarrow>
        if lp_decision p \<noteq> Start_successor then
          requeue c record (decision_wire (lp_decision p)) (lp_reason p) (Some policy) None
        else case lp_boundary p of
          None \<Rightarrow> throw AssertionError
        | Some b \<Rightarrow>
            seq (on_store (rlm_resume (or_operation record))) (\<lambda>_.
            requeue c record (decision_wire (lp_decision p)) (lp_reason p) (Some policy) (Some (Rlm_bd b))))"

definition recover_from_steps ::
    "('s, 'x) host_config_scheme \<Rightarrow> op_row \<Rightarrow> rlm_job_snapshot \<Rightarrow> policy_binding \<Rightarrow> (unit, ('s, 'w) host) act" where
  "recover_from_steps c record inner policy =
     seq (host_read c (latest_recovery_attempt_fence (or_operation record))) (\<lambda>prior.
     case prior of
       None \<Rightarrow> requeue c record ''quarantine'' ''recovery_attempt_fence_missing'' (Some policy) None
     | Some f \<Rightarrow>
         try_else (plan_candidate c record inner policy f)
           (\<lambda>e. if invalid_evidence e then
                requeue c record ''quarantine'' ''recovery_evidence_invalid'' (Some policy) None
              else throw e)
           (apply_plan c record policy))"

definition recover_by_policy ::
    "('s, 'x) host_config_scheme \<Rightarrow> op_row \<Rightarrow> rlm_job_snapshot \<Rightarrow> (unit, ('s, 'w) host) act" where
  "recover_by_policy c record inner =
     try_else (host_read c (recovery_policy_binding (or_operation record)))
       (\<lambda>e. if is_value_error e then
            requeue c record ''quarantine'' ''recovery_policy_invalid'' None None
          else throw e)
       (\<lambda>binding. case binding of
          None \<Rightarrow> requeue c record ''quarantine'' ''recovery_policy_missing'' None None
        | Some policy \<Rightarrow>
            if jn_state inner = FAILED then
              requeue c record ''needs_user'' ''rlm_failed_marker_without_outer_receipt'' (Some policy) None
            else recover_from_steps c record inner policy)"

definition recover_candidate ::
    "('s, 'x) host_config_scheme \<Rightarrow> op_row \<Rightarrow> (unit, ('s, 'w) host) act" where
  "recover_candidate c record =
     (let i = or_operation record in
      seq (ask (\<lambda>s. Inr (rlm_exists i (lm_store s)))) (\<lambda>known.
      if \<not> known then ret ()
      else
        seq (ask (\<lambda>s. rlm_snapshot i None None (lm_store s))) (\<lambda>inner.
        seq (ask (\<lambda>s. Inr (rlm_terminal_result i (lm_store s)))) (\<lambda>result.
        case result of
          Some r \<Rightarrow> project_receipt c record SUCCEEDED (result_text r) ''rlm_terminal_receipt''
        | None \<Rightarrow>
            if jn_state inner = CANCELLED \<or> jn_state inner = TIMED_OUT then
              seq (rlm_status c i (Some (jn_state inner))) (\<lambda>n.
              project_receipt c record (jn_state inner) (snapshot_text n) ''rlm_terminal_marker'')
            else recover_by_policy c record inner))))"

definition recover_durable_rlm :: "('s, 'x) host_config_scheme \<Rightarrow> (unit, ('s, 'w) host) act" where
  "recover_durable_rlm c =
     seq (host_write c (fence_expired_attempts (hc_generation c))) (\<lambda>_.
     seq (host_read c list_recovery_candidates) (each (recover_candidate c)))"

section \<open>Reconciling one execution\<close>

text \<open>\<open>notify\<close> is the running dispatcher's, if there is one.\<close>

definition recover_dispatched ::
    "('s, 'x) host_config_scheme \<Rightarrow> (operation_ref \<Rightarrow> (dispatch_row, ('s, 'w) host) act) option \<Rightarrow>
     operation_ref \<Rightarrow> (op_row, ('s, 'w) host) act" where
  "recover_dispatched c notify i =
     seq (recover_durable_rlm c) (\<lambda>_.
     seq (host_read c (get_record i)) (\<lambda>record.
     case notify of
       None \<Rightarrow> ret record
     | Some n \<Rightarrow> if or_state record = ACCEPTED then seq (n i) (\<lambda>_. ret record) else ret record))"

definition reconcile_rlm ::
    "('s, 'x) host_config_scheme \<Rightarrow> (operation_ref \<Rightarrow> (dispatch_row, ('s, 'w) host) act) option \<Rightarrow>
     operation_ref \<Rightarrow> (reconciliation_report, ('s, 'w) host) act" where
  "reconcile_rlm c notify i =
     seq (host_read c (get_record i)) (\<lambda>before.
     seq (of_res (hc_parse_spec c (or_payload_json before))) (\<lambda>spec.
     seq (on_store (rlm_ensure i spec)) (\<lambda>_.
     seq (host_read c (continuity_snapshot i)) (\<lambda>continuity.
     seq (if sn_dispatcher_state continuity \<noteq> None then recover_dispatched c notify i else ret before)
       (\<lambda>record.
     seq (if or_state record \<in> {CANCELLED, FAILED, TIMED_OUT} then
            seq (on_store (rlm_mark i (or_state record))) (\<lambda>_. ret record)
          else if or_state record = INDETERMINATE then
            seq (ask (\<lambda>s. Inr (rlm_terminal_result i (lm_store s)))) (\<lambda>result. case result of
              Some r \<Rightarrow> host_write c (succeed i (result_text r) True (hc_generation c))
            | None \<Rightarrow> seq (on_store (rlm_mark i INDETERMINATE)) (\<lambda>_. ret record))
          else ret record) (\<lambda>final.
     of_res (validate_reconciliation_report
       \<lparr>rr_operation = i, rr_state = or_state final, rr_certainty = or_certainty final,
        rr_runtime_generation = hc_generation c, rr_workspace_generation = None,
        rr_observed_revision = None, rr_reconciliation_required = or_reconciliation_required final\<rparr>)))))))"

end
