(* ===== verification/Host_Mutations.thy ===== *)
theory Host_Mutations
  imports Host_Recovery
begin

text \<open>
  The reference host on deterministic workspaces: admission, execution, cancellation and
  reconciliation of one mutation, with the failpoints that lose the process or the transport.
\<close>

section \<open>Access to the workspaces\<close>

definition on_workspaces ::
    "(workspace_store \<Rightarrow> ('a \<times> workspace_store) res) \<Rightarrow> ('a, ('s, 'w) host) act" where
  "on_workspaces f = poll (transact ou_workspaces (\<lambda>d u. u\<lparr>ou_workspaces := d\<rparr>) f)"

definition ask_workspaces :: "(workspace_store \<Rightarrow> 'a res) \<Rightarrow> ('a, ('s, 'w) host) act" where
  "ask_workspaces f = ask (\<lambda>s. f (ou_workspaces (lm_outer s)))"

section \<open>Admission\<close>

definition has_grant :: "request_envelope \<Rightarrow> string \<Rightarrow> bool" where
  "has_grant e capability \<longleftrightarrow> capability \<in> set (granted_capabilities e)"

text \<open>A failed session check is reported as a denied binding.\<close>

definition binding_denied :: "exn \<Rightarrow> exn" where
  "binding_denied e =
     (if exn_name e \<in> {''WorkspaceNotFound'', ''WorkspaceSessionMismatch''} then
        WorkspaceBindingDenied (exn_message e) else e)"

definition validate_mutation_request ::
    "('s, 'x) host_config_scheme \<Rightarrow> request_envelope \<Rightarrow> mutation_spec \<Rightarrow> (unit, ('s, 'w) host) act" where
  "validate_mutation_request c e spec =
     seq (check_authority c e ''workspace'' None) (\<lambda>_.
     seq (raise_if (\<not> has_grant e ''workspace.execute'')
       (GrantDenied ''workspace.execute grant is absent or expired'')) (\<lambda>_.
     seq (raise_if (json_digest (mutation_spec_json spec) \<noteq> en_input_digest e)
       (InputDigestMismatch ''execution payload does not match envelope input digest'')) (\<lambda>_.
     seq (raise_if (en_workspace e \<noteq> Some (mq_workspace spec))
       (InputDigestMismatch ''workspace reference differs between envelope and payload'')) (\<lambda>_.
     seq (raise_if (en_workspace_generation e \<noteq> Some (mq_generation spec))
       (InputDigestMismatch ''workspace generation differs between envelope and payload'')) (\<lambda>_.
     seq (raise_if (en_expected_revision e \<noteq> Some (mq_revision spec))
       (InputDigestMismatch ''workspace revision differs between envelope and payload'')) (\<lambda>_.
     catch (ask_workspaces (assert_session (mq_workspace spec) (en_session e)))
       (\<lambda>x. throw (binding_denied x))))))))"

definition submit_execute ::
    "('s, 'x) host_config_scheme \<Rightarrow> request_envelope \<Rightarrow> mutation_spec \<Rightarrow> (op_row, ('s, 'w) host) act" where
  "submit_execute c e spec =
     seq (validate_mutation_request c e spec) (\<lambda>_.
     seq (host_accept c e (canonical_json_text (mutation_spec_json spec)) None) (\<lambda>(record, _). ret record))"

section \<open>Execution\<close>

definition mutation_failure ::
    "operation_ref \<Rightarrow> failure_category \<Rightarrow> string \<Rightarrow> string \<Rightarrow> bool \<Rightarrow> failure_envelope res" where
  "mutation_failure i category code message retryable = validate_failure_envelope
     \<lparr>fe_category = category, fe_code = code, fe_message = message, fe_retryable = retryable,
      fe_certainty = CERTAIN, fe_operation = Some i, fe_details = []\<rparr>"

definition mutation_error ::
    "('s, 'x) host_config_scheme \<Rightarrow> operation_ref \<Rightarrow> exn \<Rightarrow> (op_row, ('s, 'w) host) act" where
  "mutation_error c i e =
     (let failed = (\<lambda>category code.
        seq (of_res (mutation_failure i category code (exn_message e) False)) (\<lambda>failure.
        host_write c (fail_op i failure False None (hc_generation c)))) in
      if exn_name e = ''StaleWorkspaceGeneration'' then failed STALE ''STALE_WORKSPACE_GENERATION''
      else if exn_name e = ''WorkspaceRevisionConflict'' then failed STALE ''WORKSPACE_REVISION_CONFLICT''
      else if exn_name e \<in> {''InvalidWorkspaceMutation'', ''WorkspaceNotFound''} then
        failed VALIDATION ''INVALID_WORKSPACE_MUTATION''
      else throw e)"

text \<open>The parser of the stored specification is pydantic's, as for RLM jobs.\<close>

definition run_execute ::
    "('s, 'x) host_config_scheme \<Rightarrow> (string \<Rightarrow> mutation_spec res) \<Rightarrow> operation_ref \<Rightarrow> string option \<Rightarrow>
     (op_row, ('s, 'w) host) act" where
  "run_execute c parse i fp =
     seq (host_read c (get_record i)) (\<lambda>record.
     if or_state record \<noteq> ACCEPTED then ret record
     else
       seq (now_ms c) (\<lambda>now.
       if now \<ge> en_deadline (or_request record) then host_write c (time_out i None (hc_generation c))
       else
         seq (host_write c (begin_op i (hc_generation c))) (\<lambda>_.
         seq (raise_if (fp = Some ''process_loss_before_workspace'') SimulatedProcessLoss) (\<lambda>_.
         seq (of_res (parse (or_payload_json record))) (\<lambda>spec.
         try_else (on_workspaces (workspace_execute i spec None)) (mutation_error c i) (\<lambda>result.
         if fp = Some ''transport_loss_after_workspace_commit'' then
           host_write c (mark_indeterminate i ''transport_loss_after_workspace_commit'' (hc_generation c))
         else host_write c
           (succeed i (canonical_json_text (mutation_result_json result)) False (hc_generation c))))))))"

definition execute_mutation ::
    "('s, 'x) host_config_scheme \<Rightarrow> (string \<Rightarrow> mutation_spec res) \<Rightarrow> request_envelope \<Rightarrow> mutation_spec \<Rightarrow>
     string option \<Rightarrow> (op_row, ('s, 'w) host) act" where
  "execute_mutation c parse e spec fp =
     seq (submit_execute c e spec) (\<lambda>record.
     if or_state record \<noteq> ACCEPTED then ret record else run_execute c parse (or_operation record) fp)"

section \<open>Cancellation\<close>

definition cancel_actor :: string where
  "cancel_actor = json_digest (JObj [(''actor'', JStr ''reference-host-cancel'')])"

text \<open>
  \<open>cancel\<close> with the default reason; the workbench of later schema versions has no part here.
  Only an operation the registry really cancelled has its inner job marked.
\<close>

definition host_cancel ::
    "('s, 'x) host_config_scheme \<Rightarrow> operation_ref \<Rightarrow> string option \<Rightarrow> string option \<Rightarrow> string \<Rightarrow>
     (op_row, ('s, 'w) host) act" where
  "host_cancel c i fp requested_by reason =
     (let mark = (\<lambda>record.
        seq (raise_if (fp = Some ''process_loss_after_outer_cancel'') SimulatedProcessLoss) (\<lambda>_.
        seq (ask (\<lambda>s. Inr (rlm_exists i (lm_store s)))) (\<lambda>known.
        seq (if known then on_store (rlm_mark i CANCELLED) else ret ()) (\<lambda>_. ret record)))) in
      seq (host_read c (get_record i)) (\<lambda>record.
      if terminal (or_state record) \<or> or_state record = INDETERMINATE then ret record
      else
        seq (host_read c (continuity_snapshot i)) (\<lambda>continuity.
        if sn_dispatcher_state continuity \<noteq> None then
          seq (host_write c (request_cancel i
            (case requested_by of None \<Rightarrow> cancel_actor | Some d \<Rightarrow> if d = [] then cancel_actor else d) reason))
            (\<lambda>_.
          seq (host_write c (cancel_queued_dispatch i (hc_generation c) None)) (\<lambda>(record', cancelled).
          if \<not> cancelled then host_read c (get_record i) else mark record'))
        else seq (host_write c (cancel i None (hc_generation c))) mark)))"

section \<open>Reconciliation\<close>

text \<open>
  The receipt of the workspace decides what became of an execution whose outcome was lost.
\<close>

definition settle_mutation ::
    "('s, 'x) host_config_scheme \<Rightarrow> operation_ref \<Rightarrow> (op_row, ('s, 'w) host) act" where
  "settle_mutation c i =
     seq (ask_workspaces (workspace_receipt i)) (\<lambda>receipt. case receipt of
       Some r \<Rightarrow> host_write c
         (succeed i (canonical_json_text (mutation_result_json r)) True (hc_generation c))
     | None \<Rightarrow>
         seq (of_res (mutation_failure i WORKER ''NO_WORKSPACE_RECEIPT''
           ''authoritative workspace store contains no execution receipt'' True)) (\<lambda>failure.
         host_write c (fail_op i failure True None (hc_generation c))))"

text \<open>\<open>read\<close> is \<open>json.loads\<close> of a stored result with the two lookups in it.\<close>

definition host_reconcile ::
    "('s, 'x) host_config_scheme \<Rightarrow> (string \<Rightarrow> (int option \<times> int option) res) \<Rightarrow> operation_ref \<Rightarrow>
     (reconciliation_report, ('s, 'w) host) act" where
  "host_reconcile c read i =
     seq (host_read c (get_record i)) (\<lambda>before.
     seq (if or_state before = INDETERMINATE then settle_mutation c i else ret before) (\<lambda>record.
     seq (of_res (case or_result_json record of None \<Rightarrow> Inr (None, None) | Some j \<Rightarrow> read j))
       (\<lambda>(generation, observed).
     of_res (validate_reconciliation_report
       \<lparr>rr_operation = i, rr_state = or_state record, rr_certainty = or_certainty record,
        rr_runtime_generation = hc_generation c, rr_workspace_generation = generation,
        rr_observed_revision = observed, rr_reconciliation_required = or_reconciliation_required record\<rparr>))))"

end
