(* ===== verification/Dispatcher.thy ===== *)
theory Dispatcher
  imports Registry_Access
begin

text \<open>
  The durable dispatcher (\<open>runtime/dispatcher.py\<close>): its worker threads claim queued operations
  from the registry, hand them to the host, and finish or park each attempt. Worker threads are
  states of a machine whose steps are what one thread does between two releases of the lock;
  a step of the registry is one transaction. The host is a parameter, as in the code, whose
  \<open>DispatchHost\<close> and \<open>DispatchRegistry\<close> protocols are the record below.
\<close>

section \<open>The host\<close>

text \<open>
  What the dispatcher uses of its host, beside the access to the registry. A handler the host may
  lack is an option, as \<open>getattr(host, name, None)\<close> is.
\<close>

record 's dispatch_host = "'s access" +
  hs_generation :: int
  hs_recover :: "(unit, 's) act option"
  hs_run_rlm :: "fence \<Rightarrow> (op_row, 's) act"
  hs_run_kind :: "(string \<Rightarrow> fence \<Rightarrow> (op_row, 's) act) option"
  hs_marker_for_kind :: "(string \<Rightarrow> fence \<Rightarrow> exn \<Rightarrow> (op_row option, 's) act) option"
  hs_marker :: "(fence \<Rightarrow> exn \<Rightarrow> (op_row option, 's) act) option"

section \<open>The dispatcher\<close>

datatype worker =
    Checking
  | Entering
  | Claiming
  | Holding dispatch_claim
  | Waiting
  | Ended

record dispatcher =
  dp_concurrency :: int
  dp_lease_duration :: int
  dp_idle_poll :: int
  dp_generation :: int
  dp_owner_digest :: string
  dp_started :: bool
  dp_closing :: bool
  dp_closed :: bool
  dp_in_flight :: int
  dp_workers :: "worker list"

definition dispatch_kind :: string where
  "dispatch_kind = ''rlm.execute''"

definition new_dispatcher ::
    "'s dispatch_host \<Rightarrow> int \<Rightarrow> int \<Rightarrow> int \<Rightarrow> string \<Rightarrow> dispatcher res" where
  "new_dispatcher h concurrency lease_duration idle_poll token =
     (if concurrency < 1 then Inl (ValueError ''concurrency must be a positive integer'')
      else if lease_duration < 1 then Inl (ValueError ''lease_duration_ms must be a positive integer'')
      else if idle_poll < 1 then Inl (ValueError ''idle_poll_ms must be a positive integer'')
      else if hs_generation h < 1 then
        Inl (ValueError ''host.runtime_generation must be a positive integer'')
      else Inr \<lparr>dp_concurrency = concurrency, dp_lease_duration = lease_duration,
        dp_idle_poll = idle_poll, dp_generation = hs_generation h,
        dp_owner_digest = json_digest (JStr token), dp_started = False, dp_closing = False,
        dp_closed = False, dp_in_flight = 0, dp_workers = []\<rparr>)"

definition dispatcher_start :: "dispatcher \<Rightarrow> dispatcher res" where
  "dispatcher_start d =
     (if dp_closed d then Inl (DispatcherClosed ''dispatcher is closed'')
      else if dp_started d then Inr d
      else Inr (d\<lparr>dp_started := True, dp_workers := replicate (nat (dp_concurrency d)) Checking\<rparr>))"

section \<open>A claim\<close>

text \<open>\<open>_claim_parts\<close>, on the claims \<open>claim_next\<close> returns.\<close>

definition claim_parts :: "dispatch_claim \<Rightarrow> (operation_ref \<times> attempt_ref \<times> int \<times> string) res" where
  "claim_parts k =
     (if dc_lease_epoch k < 1 then Inl (ValueError ''lease_epoch must be a positive integer'')
      else if dc_kind k = [] then
        Inl (ValueError ''claimed dispatch kind must be a non-empty string'')
      else Inr (dc_operation k, dc_attempt k, dc_lease_epoch k, dc_kind k))"

text \<open>The attempt and \<open>_fence(lease_epoch)\<close>, with the dispatcher's generation as the runtime's.\<close>

definition worker_fence :: "dispatcher \<Rightarrow> dispatch_claim \<Rightarrow> fence" where
  "worker_fence d k = \<lparr>fn_operation = at_operation (dc_attempt k),
     fn_attempt_no = at_attempt_no (dc_attempt k), fn_attempt_id = at_attempt_id (dc_attempt k),
     fn_runtime_generation = dp_generation d, fn_dispatcher_generation = dp_generation d,
     fn_lease_epoch = dc_lease_epoch k, fn_owner_digest = dp_owner_digest d\<rparr>"

definition claim_work :: "'s dispatch_host \<Rightarrow> dispatcher \<Rightarrow> (dispatch_claim option, 's) act" where
  "claim_work h d =
     seq (case hs_recover h of None \<Rightarrow> ret () | Some recover \<Rightarrow> recover) (\<lambda>_.
     on_registry h (\<lambda>now. claim_next \<lparr>ca_runtime_generation = dp_generation d,
       ca_dispatcher_generation = dp_generation d, ca_owner_digest = dp_owner_digest d,
       ca_lease_duration = dp_lease_duration d, ca_now = now\<rparr>))"

section \<open>Running a claim\<close>

definition finish_claim :: "'s dispatch_host \<Rightarrow> fence \<Rightarrow> (unit, 's) act" where
  "finish_claim h f = seq (on_fenced h (finish_attempt f)) (\<lambda>_. ret ())"

text \<open>Parking is the last resort: whatever it raises is suppressed.\<close>

definition park_claim :: "'s dispatch_host \<Rightarrow> fence \<Rightarrow> exn \<Rightarrow> (unit, 's) act" where
  "park_claim h f e = catch
     (seq (on_fenced h (park_attempt f (''dispatcher_worker_exception:'' @ exn_name e))) (\<lambda>_. ret ()))
     (\<lambda>_. ret ())"

definition finish_or_park :: "'s dispatch_host \<Rightarrow> fence \<Rightarrow> (unit, 's) act" where
  "finish_or_park h f = catch (finish_claim h f) (park_claim h f)"

definition marker_of :: "'s dispatch_host \<Rightarrow> string \<Rightarrow> fence \<Rightarrow> exn \<Rightarrow> (op_row option, 's) act option" where
  "marker_of h kind f e =
     (case hs_marker_for_kind h of
        Some m \<Rightarrow> Some (m kind f e)
      | None \<Rightarrow> if kind = dispatch_kind then map_option (\<lambda>m. m f e) (hs_marker h) else None)"

definition handler_failed :: "'s dispatch_host \<Rightarrow> string \<Rightarrow> fence \<Rightarrow> exn \<Rightarrow> (unit, 's) act" where
  "handler_failed h kind f e =
     (case marker_of h kind f e of
        None \<Rightarrow> park_claim h f e
      | Some marker \<Rightarrow>
          seq (catch marker (\<lambda>_. ret None)) (\<lambda>record.
            if record = None then park_claim h f e else finish_or_park h f))"

definition run_handler :: "'s dispatch_host \<Rightarrow> string \<Rightarrow> fence \<Rightarrow> (op_row, 's) act" where
  "run_handler h kind f =
     (if kind = dispatch_kind then hs_run_rlm h f
      else case hs_run_kind h of
        None \<Rightarrow> throw (TypeError (''host does not support dispatch kind '' @ kind))
      | Some run \<Rightarrow> run kind f)"

definition run_claim :: "'s dispatch_host \<Rightarrow> fence \<Rightarrow> string \<Rightarrow> (unit, 's) act" where
  "run_claim h f kind =
     try_else (run_handler h kind f) (handler_failed h kind f) (\<lambda>record. finish_or_park h f)"

section \<open>The threads\<close>

record 's dispatching =
  dg_dispatcher :: dispatcher
  dg_host :: 's

definition set_worker :: "nat \<Rightarrow> worker \<Rightarrow> dispatcher \<Rightarrow> dispatcher" where
  "set_worker n w d = d\<lparr>dp_workers := (dp_workers d)[n := w]\<rparr>"

text \<open>What worker \<open>n\<close> does next, \<open>_worker_main\<close> with \<open>_claim_next\<close> inlined.\<close>

definition worker_step :: "'s dispatch_host \<Rightarrow> nat \<Rightarrow> 's dispatching \<Rightarrow> 's dispatching" where
  "worker_step h n x =
     (let d = dg_dispatcher x; s = dg_host x;
          go = (\<lambda>w d s. \<lparr>dg_dispatcher = set_worker n w d, dg_host = s\<rparr>) in
      case dp_workers d ! n of
        Checking \<Rightarrow> go (if dp_closing d then Ended else Entering) d s
      | Entering \<Rightarrow>
          if dp_closing d then go Waiting d s
          else go Claiming (d\<lparr>dp_in_flight := dp_in_flight d + 1\<rparr>) s
      | Claiming \<Rightarrow>
          let (r, s1) = claim_work h d s;
              next = (case r of
                  Inl e \<Rightarrow> Waiting
                | Inr None \<Rightarrow> Waiting
                | Inr (Some k) \<Rightarrow> (case claim_parts k of Inl e \<Rightarrow> Checking | Inr p \<Rightarrow> Holding k))
          in go next (d\<lparr>dp_in_flight := dp_in_flight d - 1\<rparr>) s1
      | Holding k \<Rightarrow>
          let f = worker_fence d k
          in go Checking d (snd (catch (run_claim h f (dc_kind k)) (park_claim h f) s))
      | Waiting \<Rightarrow> go Checking d s
      | Ended \<Rightarrow> x)"

section \<open>Submitting, waiting, closing\<close>

definition dispatcher_notify ::
    "'s dispatch_host \<Rightarrow> operation_ref \<Rightarrow> string option \<Rightarrow> (dispatch_row, 's dispatching) act" where
  "dispatcher_notify h i kind x =
     (let k = (case kind of None \<Rightarrow> dispatch_kind | Some k \<Rightarrow> k) in
      if k = [] then (Inl (ValueError ''dispatch kind must be non-empty''), x)
      else if dp_closed (dg_dispatcher x) then
        (Inl (DispatcherClosed ''dispatcher is closed; cannot submit operation''), x)
      else within dg_host (\<lambda>s x. x\<lparr>dg_host := s\<rparr>) (on_registry h (request_dispatch i k)) x)"

definition dispatcher_submit ::
    "'s dispatch_host \<Rightarrow> operation_ref \<Rightarrow> string option \<Rightarrow> (dispatch_row, 's dispatching) act" where
  "dispatcher_submit = dispatcher_notify"

definition is_closed_state :: "operation_state \<Rightarrow> bool" where
  "is_closed_state st \<longleftrightarrow> st \<in> {SUCCEEDED, FAILED, CANCELLED, TIMED_OUT, INDETERMINATE}"

text \<open>
  \<open>wait\<close> polls: \<open>pause\<close> is what the state becomes while the thread waits, and the monotonic
  clock is read from it. Without a deadline it may never return.
\<close>

partial_function (option) wait_loop ::
    "('s \<Rightarrow> reg) \<Rightarrow> ('s \<Rightarrow> int) \<Rightarrow> (int \<Rightarrow> 's \<Rightarrow> 's) \<Rightarrow> int \<Rightarrow> operation_ref \<Rightarrow> int option \<Rightarrow> 's \<Rightarrow>
     (op_row res \<times> 's) option" where
  "wait_loop registry monotonic pause idle i deadline s =
     (case get_record i (registry s) of
        Inl e \<Rightarrow> Some (Inl e, s)
      | Inr record \<Rightarrow>
          if is_closed_state (or_state record) then Some (Inr record, s)
          else (case deadline of
            None \<Rightarrow> wait_loop registry monotonic pause idle i deadline (pause idle s)
          | Some t \<Rightarrow>
              if t - monotonic s \<le> 0 then Some (Inr record, s)
              else wait_loop registry monotonic pause idle i deadline
                (pause (min (t - monotonic s) idle) s)))"

definition dispatcher_wait ::
    "('s \<Rightarrow> reg) \<Rightarrow> ('s \<Rightarrow> int) \<Rightarrow> (int \<Rightarrow> 's \<Rightarrow> 's) \<Rightarrow> dispatcher \<Rightarrow> operation_ref \<Rightarrow> int option \<Rightarrow> 's \<Rightarrow>
     (op_row res \<times> 's) option" where
  "dispatcher_wait registry monotonic pause d i timeout s =
     (if (case timeout of None \<Rightarrow> False | Some t \<Rightarrow> t < 0) then
        Some (Inl (ValueError ''timeout_s must be non-negative or None''), s)
      else wait_loop registry monotonic pause (dp_idle_poll d) i
        (map_option (\<lambda>t. monotonic s + t) timeout) s)"

text \<open>
  \<open>close\<close> sets the flags, waits for the threads for a bounded time, and then raises when one of
  them is still alive.
\<close>

definition close_begin :: "dispatcher \<Rightarrow> dispatcher" where
  "close_begin d = d\<lparr>dp_closing := True, dp_closed := True\<rparr>"

definition alive_workers :: "dispatcher \<Rightarrow> nat list" where
  "alive_workers d = filter (\<lambda>n. dp_workers d ! n \<noteq> Ended) [0..<length (dp_workers d)]"

definition worker_name :: "nat \<Rightarrow> string" where
  "worker_name n = ''aar-durable-dispatcher-'' @ itoa (int n)"

definition close_end :: "dispatcher \<Rightarrow> unit res" where
  "close_end d = (let alive = alive_workers d in
     if alive \<noteq> [] then Inl (DispatcherDrainTimeout (map worker_name alive)) else Inr ())"

end
