(* ===== verification/Host_Programs.thy ===== *)
theory Host_Programs
  imports Host_Mutations Dispatcher
begin

text \<open>
  The reference host on programmable workspaces: claimed execution, failure marking by dispatch
  kind, and the recovery of a lost workspace from its selected checkpoint. The backend that runs
  programs is a parameter with the operations of the \<open>WorkspaceBackend\<close> protocol. At the end,
  the host as the dispatcher sees it.
\<close>

section \<open>The backend\<close>

record restore_spec =
  rr_workspace :: workspace_ref
  rr_session :: session_ref
  rr_expected_handle :: "workspace_handle option"
  rr_recover_lost_generation :: bool

definition validate_restore_spec :: "restore_spec \<Rightarrow> restore_spec res" where
  "validate_restore_spec s = validated True
     [(case rr_expected_handle s of None \<Rightarrow> True | Some h \<Rightarrow> wh_workspace h = rr_workspace s,
       ''restore handle must target the requested workspace''),
      (\<not> (rr_recover_lost_generation s \<and> rr_expected_handle s = None),
       ''lost-generation recovery requires an exact expected handle'')] s"

record checkpoint_policy =
  kp_max_values :: int
  kp_max_bytes :: int
  kp_max_depth :: int
  kp_max_collection_items :: int

record 'w program_backend =
  gb_descriptor :: backend_descriptor
  gb_environment :: environment
  gb_attach :: "workspace_handle \<Rightarrow> session_ref \<Rightarrow> (workspace_handle, 'w) act"
  gb_execute :: "operation_ref \<Rightarrow> workspace_handle \<Rightarrow> program_spec \<Rightarrow> (program_result, 'w) act"
  gb_restore :: "checkpoint_manifest \<Rightarrow> restore_spec \<Rightarrow> (workspace_handle, 'w) act"
  gb_checkpoint ::
    "operation_ref \<Rightarrow> workspace_handle \<Rightarrow> checkpoint_policy \<Rightarrow> string \<Rightarrow> (checkpoint_manifest, 'w) act"
  gb_retire_lost_receipt :: "operation_ref \<Rightarrow> workspace_handle \<Rightarrow> (unit, 'w) act"
  gb_close :: "workspace_handle \<Rightarrow> string \<Rightarrow> (unit, 'w) act"

text \<open>\<open>json.loads\<close> and the two pydantic parsers of a stored payload.\<close>

record ('s, 'w) program_config = "'s host_config" +
  hp_backend :: "'w program_backend"
  hp_loads :: "string \<Rightarrow> json res"
  hp_handle :: "json \<Rightarrow> workspace_handle res"
  hp_spec :: "json \<Rightarrow> program_spec res"

definition on_backend :: "('a, 'w) act \<Rightarrow> ('a, ('s, 'w) host) act" where
  "on_backend m = poll (within ou_backend (\<lambda>b u. u\<lparr>ou_backend := b\<rparr>) m)"

section \<open>Payloads\<close>

text \<open>
  \<open>set(payload) != {...}\<close> on what was loaded: iterating a number or null raises, as does hashing
  a nested value or indexing a list by name.
\<close>

definition payload_fields :: "exn \<Rightarrow> json \<Rightarrow> (string \<times> json) list res" where
  "payload_fields e v =
     (let names = {''handle'', ''kind'', ''spec''} in
      case v of
        JObj kvs \<Rightarrow> if fst ` set kvs = names then Inr kvs else Inl e
      | JArr vs \<Rightarrow>
          if list_all is_json_scalar vs \<and> set vs \<noteq> JStr ` names then Inl e
          else Inl (TypeError ''unhashable element or string index'')
      | JStr s \<Rightarrow> Inl e
      | _ \<Rightarrow> Inl (TypeError ''object is not iterable''))"

definition program_payload ::
    "('s, 'w) program_config \<Rightarrow> exn \<Rightarrow> exn \<Rightarrow> string \<Rightarrow> (workspace_handle \<times> program_spec) res" where
  "program_payload c shape kind text =
     and_then (hp_loads c text) (\<lambda>v.
     and_then (payload_fields shape v) (\<lambda>kvs.
     if map_of kvs ''kind'' \<noteq> Some (JStr workspace_program_kind) then Inl kind
     else
       and_then (hp_handle c (the (map_of kvs ''handle''))) (\<lambda>h.
       and_then (hp_spec c (the (map_of kvs ''spec''))) (\<lambda>s. Inr (h, s)))))"

section \<open>Results\<close>

definition opt_value :: "pyval option \<Rightarrow> json res" where
  "opt_value v = (case v of None \<Rightarrow> Inr JNull | Some x \<Rightarrow> json_value x)"

definition workspace_event_json :: "workspace_event \<Rightarrow> json res" where
  "workspace_event_json e = and_then (opt_value (we_data e)) (\<lambda>data. Inr (JObj
     [(''sequence'', JInt (we_sequence e)), (''kind'', JStr (event_kind_wire (we_kind e))),
      (''text'', opt_json JStr (we_text e)), (''data'', data),
      (''artifact'', opt_json artifact_reference_json (we_artifact e)),
      (''truncated'', JBool (we_truncated e))]))"

fun execution_status_wire :: "execution_status \<Rightarrow> string" where
  "execution_status_wire EX_succeeded = ''succeeded''"
| "execution_status_wire EX_failed = ''failed''"
| "execution_status_wire EX_interrupted = ''interrupted''"
| "execution_status_wire EX_timed_out = ''timed_out''"

definition program_result_json :: "program_result \<Rightarrow> json res" where
  "program_result_json r =
     and_then (opt_value (pr_result r)) (\<lambda>value.
     and_then (traverse workspace_event_json (pr_events r)) (\<lambda>events. Inr (JObj
       [(''operation'', operation_json (pr_operation r)), (''workspace'', workspace_ref_json (pr_workspace r)),
        (''backend'', backend_json (pr_backend r)), (''generation'', JInt (pr_generation r)),
        (''revision_before'', JInt (pr_revision_before r)), (''revision_after'', JInt (pr_revision_after r)),
        (''status'', JStr (execution_status_wire (pr_status r))),
        (''workspace_lost'', JBool (pr_workspace_lost r)), (''result'', value),
        (''result_excluded_reason'', opt_json JStr (pr_result_excluded_reason r)),
        (''events'', JArr events)])))"

section \<open>Claimed execution\<close>

definition program_failure :: "operation_ref \<Rightarrow> failure_envelope res" where
  "program_failure i = mutation_failure i WORKER ''WORKSPACE_PROGRAM_FAILED''
     ''programmable workspace execution failed'' False"

text \<open>The state, failure and note of a result.\<close>

definition program_outcome ::
    "operation_ref \<Rightarrow> program_spec \<Rightarrow> program_result \<Rightarrow> (operation_state \<times> failure_envelope option \<times> string) res" where
  "program_outcome i spec r =
     (case pr_status r of
        EX_succeeded \<Rightarrow> Inr (SUCCEEDED, None, ''execution_succeeded'')
      | EX_interrupted \<Rightarrow> Inr (CANCELLED, None, ''cancelled'')
      | EX_timed_out \<Rightarrow> Inr (TIMED_OUT, None, ''deadline_expired'')
      | EX_failed \<Rightarrow>
          if pr_workspace_lost r \<and> sp_checkpoint_replay_safe spec then
            Inr (INDETERMINATE, None, ''workspace_worker_lost'')
          else and_then (program_failure i) (\<lambda>f. Inr (FAILED, Some f, ''execution_failed'')))"

text \<open>A successor attempt runs on the workspace its predecessor's checkpoint was restored to.\<close>

definition program_handle :: "fence \<Rightarrow> workspace_handle \<Rightarrow> ws_boundary list \<Rightarrow> workspace_handle res" where
  "program_handle f h boundaries =
     (if fn_attempt_no f \<le> 1 then Inr h
      else if boundaries = [] then Inl (ReferenceHostError ''workspace successor has no restore boundary'')
      else Inr (wb_restored_handle (last boundaries)))"

definition execute_program ::
    "('s, 'w) program_config \<Rightarrow> operation_ref \<Rightarrow> fence \<Rightarrow> session_ref \<Rightarrow> workspace_handle \<Rightarrow> program_spec \<Rightarrow>
     (op_row, ('s, 'w) host) act" where
  "execute_program c i f session h spec =
     seq (on_backend (gb_attach (hp_backend c) h session)) (\<lambda>_.
     seq (on_backend (gb_execute (hp_backend c) i h spec)) (\<lambda>result.
     seq (of_res (program_result_json result)) (\<lambda>v.
     seq (of_res (program_outcome i spec result)) (\<lambda>(st, failure, note).
     claimed_outcome c f st (Some (canonical_json_text v)) failure note))))"

definition run_claimed_program ::
    "('s, 'w) program_config \<Rightarrow> operation_ref \<Rightarrow> fence \<Rightarrow> (op_row, ('s, 'w) host) act" where
  "run_claimed_program c i f =
     seq (raise_if (fn_operation f \<noteq> i)
       (ReferenceHostError ''claimed attempt does not belong to operation'')) (\<lambda>_.
     seq (host_read c (get_record i)) (\<lambda>record.
     if or_state record \<noteq> RUNNING then ret record
     else
       seq (of_res (program_payload c (ReferenceHostError ''workspace operation payload shape is invalid'')
         (ReferenceHostError ''workspace operation payload kind is invalid'') (or_payload_json record)))
         (\<lambda>(stored, spec).
       seq (host_read c (workspace_checkpoint_boundaries i)) (\<lambda>boundaries.
       seq (of_res (program_handle f stored boundaries)) (\<lambda>h.
       seq (now_ms c) (\<lambda>now.
       if now \<ge> en_deadline (or_request record) then
         claimed_outcome c f TIMED_OUT None None ''deadline_expired''
       else
         seq (host_read c (\<lambda>r. Inr (cancellation_requested i r))) (\<lambda>cancelled.
         if cancelled then claimed_outcome c f CANCELLED None None ''cancelled''
         else execute_program c i f (en_session (or_request record)) h spec)))))))"

text \<open>The workbench of the later schema versions is absent: its kind is refused.\<close>

definition run_claimed ::
    "('s, 'w) program_config \<Rightarrow> string \<Rightarrow> operation_ref \<Rightarrow> fence \<Rightarrow> (op_row, ('s, 'w) host) act" where
  "run_claimed c kind i f =
     (if kind = ''rlm.workbench.execute'' then
        throw (ReferenceHostError ''RLM workbench coordinator is unavailable'')
      else if kind \<noteq> workspace_program_kind then
        throw (ReferenceHostError (''unsupported durable dispatch kind: '' @ kind))
      else run_claimed_program c i f)"

definition mark_dispatch_failure_for_kind ::
    "('s, 'w) program_config \<Rightarrow> string \<Rightarrow> operation_ref \<Rightarrow> fence \<Rightarrow> exn \<Rightarrow> (op_row, ('s, 'w) host) act" where
  "mark_dispatch_failure_for_kind c kind i f e =
     (if kind = rlm_operation_kind then mark_dispatch_failure c i f e
      else if kind = ''rlm.workbench.execute'' then
        throw (ReferenceHostError ''RLM workbench coordinator is unavailable'')
      else if kind \<noteq> workspace_program_kind then
        throw (ReferenceHostError (''unsupported durable dispatch kind: '' @ kind))
      else host_fenced c (park_attempt (host_fence c f) (''workspace_dispatch_exception:'' @ exn_name e)))"

section \<open>Recovery of workspaces\<close>

definition requeue_program ::
    "('s, 'w) program_config \<Rightarrow> op_row \<Rightarrow> string \<Rightarrow> string \<Rightarrow> policy_binding \<Rightarrow> boundary option \<Rightarrow>
     (unit, ('s, 'w) host) act" where
  "requeue_program c record decision reason policy bd = requeue c record decision reason (Some policy) bd"

definition plan_program ::
    "('s, 'w) program_config \<Rightarrow> op_row \<Rightarrow> policy_binding \<Rightarrow> recovery_fence \<Rightarrow>
     (workspace_handle \<times> workspace_plan, ('s, 'w) host) act" where
  "plan_program c record policy prior =
     (let i = or_operation record; e = or_request record; b = hp_backend c in
      seq (of_res (program_payload c (ValueError ''workspace recovery payload shape is invalid'')
        (ValueError ''workspace recovery payload kind is invalid'') (or_payload_json record)))
        (\<lambda>(h, spec).
      seq (host_read c (latest_workspace_checkpoint h)) (\<lambda>manifest.
      seq (host_read c (continuity_snapshot i)) (\<lambda>continuity.
      seq (now_ms c) (\<lambda>now.
      ret (h, plan_workspace_checkpoint_successor
        \<lparr>wq_operation = i, wq_input_digest = or_input_digest record, wq_envelope = e, wq_handle = h,
         wq_spec = spec, wq_prior_attempt = rf_attempt prior, wq_binding = policy,
         wq_capability_digest = hc_capability_digest c, wq_backend = gb_descriptor b,
         wq_environment = gb_environment b, wq_manifest = manifest,
         wq_cancelled = ct_cancellation_requested (sn_control continuity), wq_now = now\<rparr>))))))"

definition manifest_exclusions_digest :: "checkpoint_manifest \<Rightarrow> string" where
  "manifest_exclusions_digest m = json_digest (JArr (map checkpoint_exclusion_json (cm_exclusions m)))"

definition manifest_artifacts_digest :: "checkpoint_manifest \<Rightarrow> string" where
  "manifest_artifacts_digest m = json_digest (JArr (map artifact_reference_json (cm_artifacts m)))"

definition selection_of ::
    "op_row \<Rightarrow> policy_binding \<Rightarrow> recovery_fence \<Rightarrow> checkpoint_manifest \<Rightarrow> ws_selection res" where
  "selection_of record policy prior m = ws_selection_issue
     \<lparr>ws_operation = or_operation record, ws_prior_attempt = rf_attempt prior,
      ws_runtime_generation = rf_runtime_generation prior,
      ws_dispatcher_generation = rf_dispatcher_generation prior, ws_lease_epoch = rf_lease_epoch prior,
      ws_policy_digest = pb_policy_digest policy, ws_input_digest = or_input_digest record,
      ws_checkpoint_operation = cm_creation_operation m,
      ws_checkpoint_manifest_digest = cm_content_digest m, ws_source_handle = cm_source_handle m,
      ws_environment_digest = pb_environment_digest policy,
      ws_exclusion_count = int (length (cm_exclusions m)),
      ws_exclusions_digest = manifest_exclusions_digest m,
      ws_artifacts_digest = manifest_artifacts_digest m, ws_completeness = Complete,
      ws_deadline = en_deadline (or_request record), ws_selected_at = or_updated_at record,
      ws_selection_digest = []\<rparr>"

definition ws_boundary_of ::
    "op_row \<Rightarrow> policy_binding \<Rightarrow> recovery_fence \<Rightarrow> checkpoint_manifest \<Rightarrow> workspace_handle \<Rightarrow> int \<Rightarrow>
     ws_boundary res" where
  "ws_boundary_of record policy prior m restored now = ws_boundary_issue
     \<lparr>wb_operation = or_operation record, wb_prior_attempt = rf_attempt prior,
      wb_runtime_generation = rf_runtime_generation prior,
      wb_dispatcher_generation = rf_dispatcher_generation prior, wb_lease_epoch = rf_lease_epoch prior,
      wb_policy_digest = pb_policy_digest policy, wb_input_digest = or_input_digest record,
      wb_checkpoint_operation = cm_creation_operation m,
      wb_checkpoint_manifest_digest = cm_content_digest m, wb_source_handle = cm_source_handle m,
      wb_restored_handle = restored, wb_environment_digest = pb_environment_digest policy,
      wb_exclusion_count = int (length (cm_exclusions m)),
      wb_exclusions_digest = manifest_exclusions_digest m,
      wb_artifacts_digest = manifest_artifacts_digest m, wb_completeness = Complete,
      wb_deadline = en_deadline (or_request record), wb_created_at = now, wb_boundary_digest = []\<rparr>"

text \<open>Selecting the checkpoint, reading every artifact of it, and restoring it.\<close>

definition read_checkpoint_artifact :: "artifact_reference \<Rightarrow> (unit, ('s, 'w) host) act" where
  "read_checkpoint_artifact r =
     seq (ask (\<lambda>s. read_artifact r (pv_artifacts (snd (lm_world s))))) (\<lambda>_. ret ())"

definition restore_selected ::
    "('s, 'w) program_config \<Rightarrow> op_row \<Rightarrow> ws_selection \<Rightarrow> checkpoint_manifest \<Rightarrow> workspace_handle \<Rightarrow>
     (workspace_handle, ('s, 'w) host) act" where
  "restore_selected c record selection m h =
     seq (host_write c (select_workspace_checkpoint selection (hc_generation c))) (\<lambda>_.
     seq (each read_checkpoint_artifact (cm_artifacts m)) (\<lambda>_.
     seq (of_res (validate_restore_spec
       \<lparr>rr_workspace = wh_workspace h, rr_session = en_session (or_request record),
        rr_expected_handle = Some h, rr_recover_lost_generation = True\<rparr>)) (\<lambda>spec.
     on_backend (gb_restore (hp_backend c) m spec))))"

definition verify_policy :: checkpoint_policy where
  "verify_policy = \<lparr>kp_max_values = 1024, kp_max_bytes = 16777216, kp_max_depth = 32,
     kp_max_collection_items = 65536\<rparr>"

text \<open>
  The restored workspace is checkpointed again and compared before its handle is bound to a
  successor.
\<close>

definition bind_restored ::
    "('s, 'w) program_config \<Rightarrow> op_row \<Rightarrow> workspace_plan \<Rightarrow> policy_binding \<Rightarrow> recovery_fence \<Rightarrow>
     ws_selection \<Rightarrow> checkpoint_manifest \<Rightarrow> workspace_handle \<Rightarrow> workspace_handle \<Rightarrow> (unit, ('s, 'w) host) act" where
  "bind_restored c record plan policy prior selection m h restored =
     (let i = or_operation record; name = operation_value i in
      seq (of_res (validate_ref OperationRef
        (''verify-'' @ name @ ''-'' @ itoa (at_attempt_no (rf_attempt prior))))) (\<lambda>verify.
      seq (on_backend (gb_checkpoint (hp_backend c) verify restored verify_policy
        (''trace-verify-'' @ name))) (\<lambda>verification.
      seq (raise_if (cm_values verification \<noteq> cm_values m \<or> cm_exclusions verification \<noteq> [])
        (WorkspaceCheckpointRejected ''restored workspace values do not match checkpoint'')) (\<lambda>_.
      seq (now_ms c) (\<lambda>now.
      seq (of_res (ws_boundary_of record policy prior m restored now)) (\<lambda>bd.
      seq (host_write c (mark_workspace_checkpoint_restored selection restored (hc_generation c))) (\<lambda>_.
      seq (on_backend (gb_retire_lost_receipt (hp_backend c) i h)) (\<lambda>_.
      requeue_program c record (decision_wire (wp_decision plan)) (wp_reason plan) policy
        (Some (Ws_bd bd))))))))))"

definition restore_error :: "exn \<Rightarrow> bool" where
  "restore_error e \<longleftrightarrow> exn_name e \<in> {''KeyError'', ''WorkspaceCheckpointRejected'',
     ''WorkspaceOperationConflict''} \<or> is_registry_error e"

definition restore_failed ::
    "('s, 'w) program_config \<Rightarrow> op_row \<Rightarrow> policy_binding \<Rightarrow> workspace_handle option \<Rightarrow> exn \<Rightarrow>
     (unit, ('s, 'w) host) act" where
  "restore_failed c record policy restored e =
     (if \<not> restore_error e then throw e
      else
        seq (case restored of None \<Rightarrow> ret ()
          | Some h \<Rightarrow> on_backend (gb_close (hp_backend c) h ''workspace recovery transaction failed'')) (\<lambda>_.
        requeue_program c record ''needs_user'' ''workspace_restore_failed'' policy None))"

definition restore_candidate ::
    "('s, 'w) program_config \<Rightarrow> op_row \<Rightarrow> policy_binding \<Rightarrow> recovery_fence \<Rightarrow> workspace_handle \<Rightarrow>
     workspace_plan \<Rightarrow> (unit, ('s, 'w) host) act" where
  "restore_candidate c record policy prior h plan =
     (case wp_manifest plan of None \<Rightarrow> throw AssertionError
      | Some m \<Rightarrow>
          seq (of_res (selection_of record policy prior m)) (\<lambda>selection.
          try_else (restore_selected c record selection m h) (restore_failed c record policy None) (\<lambda>restored.
          catch (bind_restored c record plan policy prior selection m h restored)
            (restore_failed c record policy (Some restored)))))"

definition invalid_payload :: "exn \<Rightarrow> bool" where
  "invalid_payload e \<longleftrightarrow> exn_name e = ''TypeError'' \<or> is_value_error e"

definition recover_program ::
    "('s, 'w) program_config \<Rightarrow> op_row \<Rightarrow> policy_binding \<Rightarrow> (unit, ('s, 'w) host) act" where
  "recover_program c record policy =
     seq (host_read c (latest_recovery_attempt_fence (or_operation record))) (\<lambda>prior.
     case prior of
       None \<Rightarrow> requeue_program c record ''quarantine'' ''recovery_attempt_fence_missing'' policy None
     | Some f \<Rightarrow>
         try_else (plan_program c record policy f)
           (\<lambda>e. if invalid_payload e then
                requeue_program c record ''quarantine'' ''workspace_recovery_evidence_invalid'' policy None
              else throw e)
           (\<lambda>(h, plan).
             if wp_decision plan \<noteq> Restore_checkpoint then
               requeue_program c record (decision_wire (wp_decision plan)) (wp_reason plan) policy None
             else restore_candidate c record policy f h plan))"

definition recover_workspace_candidate ::
    "('s, 'w) program_config \<Rightarrow> op_row \<Rightarrow> (unit, ('s, 'w) host) act" where
  "recover_workspace_candidate c record =
     try_else (host_read c (recovery_policy_binding (or_operation record)))
       (\<lambda>e. if is_value_error e then ret () else throw e)
       (\<lambda>binding. case binding of None \<Rightarrow> ret ()
        | Some policy \<Rightarrow>
            if pb_operation_kind policy \<noteq> workspace_program_kind then ret ()
            else recover_program c record policy)"

definition recover_durable_workspaces :: "('s, 'w) program_config \<Rightarrow> (unit, ('s, 'w) host) act" where
  "recover_durable_workspaces c =
     seq (host_write c (fence_expired_attempts (hc_generation c))) (\<lambda>_.
     seq (host_read c list_recovery_candidates) (each (recover_workspace_candidate c)))"

section \<open>The host as the dispatcher sees it\<close>

text \<open>Caller work and the workbench only exist in later schema versions and recover nothing.\<close>

definition recover_durable :: "('s, 'w) program_config \<Rightarrow> (unit, ('s, 'w) host) act" where
  "recover_durable c =
     seq (recover_durable_effects c) (\<lambda>_.
     seq (recover_durable_rlm c) (\<lambda>_. recover_durable_workspaces c))"

definition dispatched_host :: "('s, 'w) program_config \<Rightarrow> ('s, 'w) host dispatch_host" where
  "dispatched_host c =
     \<lparr>ac_registry = (\<lambda>s. ou_registry (lm_outer s)),
      ac_put = (\<lambda>r s. s\<lparr>lm_outer := (lm_outer s)\<lparr>ou_registry := r\<rparr>\<rparr>),
      ac_enter = (\<lambda>s. s\<lparr>lm_outer := enter_lock c (lm_outer s)\<rparr>),
      ac_clock = (\<lambda>s. (fst (read_time c (lm_outer s)), s\<lparr>lm_outer := snd (read_time c (lm_outer s))\<rparr>)),
      hs_generation = hc_generation c,
      hs_recover = Some (recover_durable c),
      hs_run_rlm = (\<lambda>f. run_claimed_rlm c (fn_operation f) f),
      hs_run_kind = Some (\<lambda>kind f. run_claimed c kind (fn_operation f) f),
      hs_marker_for_kind = Some (\<lambda>kind f e.
        seq (mark_dispatch_failure_for_kind c kind (fn_operation f) f e) (\<lambda>record. ret (Some record))),
      hs_marker = Some (\<lambda>f e. seq (mark_dispatch_failure c (fn_operation f) f e) (\<lambda>record. ret (Some record)))\<rparr>"

section \<open>Durable admission\<close>

text \<open>
  \<open>notify\<close> is the dispatcher's, present once durable dispatch is enabled, and \<open>before_dispatch\<close> the
  caller's hook, whose exceptions fail the operation instead of dispatching it.
\<close>

definition submit_rlm_durable ::
    "('s, 'w) program_config \<Rightarrow> (operation_ref \<Rightarrow> (dispatch_row, ('s, 'w) host) act) option \<Rightarrow>
     request_envelope \<Rightarrow> rlm_job_spec \<Rightarrow> (operation_ref \<Rightarrow> (unit, ('s, 'w) host) act) option \<Rightarrow>
     (op_row, ('s, 'w) host) act" where
  "submit_rlm_durable c notify e spec before_dispatch =
     (case notify of
        None \<Rightarrow> throw (ReferenceHostError ''durable RLM dispatch is not enabled'')
      | Some n \<Rightarrow>
          seq (submit_rlm c e spec None) (\<lambda>record.
          let i = or_operation record in
          seq (host_write c (bind_recovery_policy i rlm_operation_kind rlm_step_boundary_policy
            (rlm_recovery_environment_digest spec (hc_capability_digest c) rlm_step_boundary_policy))) (\<lambda>_.
          if or_state record \<noteq> ACCEPTED then ret record
          else
            try_else (case before_dispatch of None \<Rightarrow> ret () | Some hook \<Rightarrow> hook i)
              (\<lambda>x. if is_process_loss x then throw x
                else
                  seq (of_res (mutation_failure i AUTHORITY ''DISPATCH_PREREQUISITE_FAILED''
                    ''durable dispatch prerequisite failed'' False)) (\<lambda>failure.
                  host_write c (fail_op i failure False None (hc_generation c))))
              (\<lambda>_. seq (n i) (\<lambda>_. ret record)))))"

definition validate_program_request ::
    "('s, 'w) program_config \<Rightarrow> request_envelope \<Rightarrow> workspace_handle \<Rightarrow> program_spec \<Rightarrow> json \<Rightarrow>
     (unit, ('s, 'w) host) act" where
  "validate_program_request c e h spec payload =
     seq (check_authority c e ''workspace'' (Some (sp_wall_time_ms spec))) (\<lambda>_.
     seq (raise_if (\<not> has_grant e workspace_program_kind)
       (GrantDenied ''workspace.program.execute grant is absent or expired'')) (\<lambda>_.
     seq (raise_if (json_digest payload \<noteq> en_input_digest e)
       (InputDigestMismatch ''workspace payload does not match envelope input digest'')) (\<lambda>_.
     seq (raise_if (en_workspace e \<noteq> Some (wh_workspace h) \<or>
         en_workspace_generation e \<noteq> Some (wh_generation h) \<or> en_expected_revision e \<noteq> Some (wh_revision h))
       (InputDigestMismatch ''workspace envelope does not match the exact handle'')) (\<lambda>_.
     seq (catch (on_backend (gb_attach (hp_backend c) h (en_session e))) (\<lambda>x. throw (binding_denied x)))
       (\<lambda>_. ret ())))))"

definition submit_program_durable ::
    "('s, 'w) program_config \<Rightarrow> (operation_ref \<Rightarrow> string \<Rightarrow> (dispatch_row, ('s, 'w) host) act) option \<Rightarrow>
     request_envelope \<Rightarrow> workspace_handle \<Rightarrow> program_spec \<Rightarrow> (op_row, ('s, 'w) host) act" where
  "submit_program_durable c notify e h spec =
     (let payload = JObj [(''handle'', handle_json h), (''kind'', JStr workspace_program_kind),
            (''spec'', program_spec_json spec)];
          b = hp_backend c; policy = workspace_checkpoint_boundary_policy in
      case notify of
        None \<Rightarrow> throw (ReferenceHostError ''durable workspace dispatch is not enabled'')
      | Some n \<Rightarrow>
          seq (validate_program_request c e h spec payload) (\<lambda>_.
          seq (host_accept c e (canonical_json_text payload) None) (\<lambda>(record, _).
          let i = or_operation record in
          seq (if sp_checkpoint_replay_safe spec then
                 seq (host_write c (bind_recovery_policy i workspace_program_kind policy
                   (workspace_recovery_environment_digest (gb_descriptor b) (gb_environment b)
                     (hc_capability_digest c) policy))) (\<lambda>_. ret ())
               else ret ()) (\<lambda>_.
          seq (if or_state record = ACCEPTED then seq (n i workspace_program_kind) (\<lambda>_. ret ()) else ret ())
            (\<lambda>_. ret record)))))"

end
