(* ===== verification/Dispatch_Runs.thy ===== *)
theory Dispatch_Runs
  imports Dispatcher Fence_Properties
begin

text \<open>
  What a dispatcher promises of a host: the laws it relies on as a locale, the settlement of a
  claim it ran, and the life of its threads as a step relation with what closing means.
\<close>

section \<open>Settled claims\<close>

lemma validate_fence_earlier:
  "validate_fence f now r = Inr v \<Longrightarrow> now' \<le> now \<Longrightarrow> validate_fence f now' r = Inr v"
  by (cases v) (auto simp: validate_fence_Inr)

text \<open>
  From time \<open>t\<close> on, the operation is no longer running or the fence is stale, as far as its
  record can be read and written back.
\<close>

definition settled :: "fence \<Rightarrow> int \<Rightarrow> reg \<Rightarrow> bool" where
  "settled f t r \<longleftrightarrow> (\<forall>x. get_record (fn_operation f) r = Inr x \<and> or_record_revision x < max_i64 \<longrightarrow>
     or_state x \<noteq> RUNNING \<or> (\<forall>now \<ge> t. \<exists>e. validate_fence f now r = Inl e))"

lemma settled_mono: "settled f t r \<Longrightarrow> t \<le> u \<Longrightarrow> settled f u r"
  by (auto simp: settled_def)

lemma get_record_row: "get_record i r = Inr x \<Longrightarrow> find_op i r = Some x \<and> record_model x = Inr x"
  by (auto simp: get_record_def get_op_def res_simps split: option.splits dest: record_model_Inr)

lemma one_running_row:
  assumes "reg_ok r" "find_op i r = Some x" "p x"
  shows "rowcount (\<lambda>y. or_operation y = i \<and> p y) (rg_operations r) = 1"
proof -
  have d: "distinct (map or_operation (rg_operations r))"
    using assms(1) journal_distinct [of r] by (auto simp: reg_ok_def)
  have "rowcount (\<lambda>y. or_operation y = i \<and> p y) (rg_operations r) \<le> 1"
    by (rule rowcount_key_le_1 [OF d]) simp
  moreover have "rowcount (\<lambda>y. or_operation y = i \<and> p y) (rg_operations r) \<noteq> 0"
    using assms(2,3) by (auto simp: rowcount_eq_0_iff dest!: find_op_SomeD)
  ultimately show ?thesis by linarith
qed

lemma park_refused_settled:
  assumes ok: "reg_ok r" and p: "park_attempt f note fence_now now r = Inl e"
    and now: "positive_counter now"
  shows "settled f fence_now r"
  unfolding settled_def
proof (intro allI impI)
  fix x assume x: "get_record (fn_operation f) r = Inr x \<and> or_record_revision x < max_i64"
  show "or_state x \<noteq> RUNNING \<or> (\<forall>t \<ge> fence_now. \<exists>e. validate_fence f t r = Inl e)"
  proof (rule ccontr)
    assume "\<not> ?thesis"
    then obtain t where run: "or_state x = RUNNING" and t: "fence_now \<le> t" "\<nexists>e. validate_fence f t r = Inl e"
      by auto
    then obtain v where v: "validate_fence f fence_now r = Inr v"
      using validate_fence_earlier [of f t r] by (metis sumE)
    have f: "find_op (fn_operation f) r = Some x" and m: "record_model x = Inr x"
      using x get_record_row by blast+
    let ?y = "outcome_op INDETERMINATE None None (or_record_revision x + 1) now x"
    have g: "or_runtime_generation x = fn_runtime_generation f" using v f by (cases v) (auto simp: validate_fence_Inr)
    have "find_op (fn_operation f) (outcome_writes f INDETERMINATE None None note now x r) = Some ?y"
      using find_op_set_op [OF f, of "\<lambda>x. or_state x = RUNNING \<and> or_runtime_generation x = fn_runtime_generation f"
          "outcome_op INDETERMINATE None None (or_record_revision x + 1) now"] run g
      by (simp add: outcome_writes_def Let_def find_op_def set_defs outcome_op_def)
    then have "find_op (fn_operation f) (insert_event i st ce rv nw nt no k pl
        (outcome_writes f INDETERMINATE None None note now x r)) = Some ?y" for i st ce rv nw nt no k pl
      by (simp add: find_op_def)
    moreover have "record_model ?y = Inr ?y"
      using m now x by (auto simp: record_model_def validated_Inr_iff outcome_op_def revision_def)
    ultimately show False
      using p v f run one_running_row [OF ok f, of "\<lambda>x. or_state x = RUNNING \<and>
          or_runtime_generation x = fn_runtime_generation f"] g
      by (simp add: park_attempt_def transition_claimed_def record_from_operation_id_def Let_def split: if_split_asm)
  qed
qed

lemma park_settled:
  assumes ok: "reg_ok r" and p: "park_attempt f note fence_now now r = Inr (x, r')"
  shows "settled f t r'"
proof -
  obtain y where "find_op (fn_operation f) r' = Some (outcome_op INDETERMINATE None None (or_record_revision y + 1) now y)"
    using committed_rows [OF ok p [unfolded park_attempt_def]] by metis
  then show ?thesis by (auto simp: settled_def outcome_op_def dest!: get_record_Inr)
qed

lemma finish_settled:
  assumes ok: "reg_ok r" and p: "finish_attempt f fence_now now r = Inr (x, r')"
  shows "settled f t r'"
proof -
  from finish_attempt_Inr [OF p] obtain a where
    "find_exact_attempt (fn_operation f) (fn_attempt_no f) (fn_attempt_id f) r = Some a"
    "aw_state a \<noteq> A_running \<and> r' = r \<or> (\<exists>y. find_op (fn_operation f) r = Some y \<and>
       (terminal (or_state y) \<or> or_state y = INDETERMINATE) \<and> r' = finish_writes f (or_state y) now r)"
    by blast
  then consider (closed) "find_exact_attempt (fn_operation f) (fn_attempt_no f) (fn_attempt_id f) r = Some a"
      "aw_state a \<noteq> A_running" "r' = r"
    | (now) y where "find_op (fn_operation f) r = Some y"
      "terminal (or_state y) \<or> or_state y = INDETERMINATE" "r' = finish_writes f (or_state y) now r"
    by blast
  then show ?thesis
  proof cases
    case closed
    then have "\<nexists>v. validate_fence f now r' = Inr v" for now by (auto simp: validate_fence_Inr)
    then have "\<exists>e. validate_fence f now r' = Inl e" for now by (metis sumE)
    then show ?thesis by (simp add: settled_def)
  next
    case (now y)
    note y = now(1,2) and r' = now(3)
    have "find_op (fn_operation f) r' = Some y" using y(1) by (simp add: r' find_op_def finish_writes_def set_defs Let_def)
    then show ?thesis using y(2) by (auto simp: settled_def terminal_def dest!: get_record_Inr)
  qed
qed

section \<open>What the dispatcher needs of its host\<close>

lemma caught: "\<exists>x. catch m (\<lambda>_. ret y) s = (Inr x, snd (catch m (\<lambda>_. ret y) s))"
  by (cases "m s", cases "fst (m s)") (simp_all add: catch_def ret_def)

text \<open>Every handler changes the registry only by its methods.\<close>

locale dispatch_laws = access_laws h for h :: "'s dispatch_host" +
  assumes recovers: "hs_recover h = Some recover \<Longrightarrow> moves h recover"
    and runs_rlm: "moves h (hs_run_rlm h f)"
    and runs_kind: "hs_run_kind h = Some run \<Longrightarrow> moves h (run k f)"
    and marks_kind: "hs_marker_for_kind h = Some mark \<Longrightarrow> moves h (mark k f e)"
    and marks: "hs_marker h = Some mark' \<Longrightarrow> moves h (mark' f e)"
begin

lemma park_moves: "moves h (park_claim h f e)"
  unfolding park_claim_def park_attempt_def
  by (intro moves_catch moves_seq moves_on_fenced moves_ret reg_step.outcome)

lemma finish_moves: "moves h (finish_claim h f)"
  unfolding finish_claim_def by (intro moves_seq moves_on_fenced moves_ret reg_step.finish)

lemma finish_or_park_moves: "moves h (finish_or_park h f)"
  unfolding finish_or_park_def by (intro moves_catch finish_moves park_moves)

lemma claim_work_moves: "moves h (claim_work h d)"
  unfolding claim_work_def
  by (intro moves_seq moves_on_registry reg_step.claim)
    (auto simp: moves_ret recovers split: option.split)

lemma marker_moves: "marker_of h k f e = Some m \<Longrightarrow> moves h m"
  by (auto simp: marker_of_def intro: marks_kind marks split: option.split_asm if_split_asm)

lemma handler_failed_moves: "moves h (handler_failed h k f e)"
  unfolding handler_failed_def
  by (auto intro!: moves_seq moves_catch moves_ret park_moves finish_or_park_moves
    dest: marker_moves split: option.split)

lemma run_handler_moves: "moves h (run_handler h k f)"
  by (auto simp: run_handler_def runs_rlm moves_ret intro: runs_kind split: option.split)

text \<open>\<open>run_claim\<close> as a sequence: its handler's outcome, then the closing of the attempt.\<close>

lemma run_claim_cases:
  obtains e where "run_claim h f k s = handler_failed h k f e (snd (run_handler h k f s))"
  | "run_claim h f k s = finish_or_park h f (snd (run_handler h k f s))"
  by (cases "run_handler h k f s" rule: prod.exhaust, cases "fst (run_handler h k f s)")
    (auto simp: run_claim_def try_else_def)

lemma run_claim_moves: "moves h (run_claim h f k)"
  unfolding moves_def
proof
  fix s
  have "reg_steps (ac_registry h s) (ac_registry h (snd (run_handler h k f s)))"
    using run_handler_moves by (simp add: moves_def)
  moreover have "reg_steps (ac_registry h (snd (run_handler h k f s))) (ac_registry h (snd (run_claim h f k s)))"
    using handler_failed_moves finish_or_park_moves
    by (cases rule: run_claim_cases [of f k s]) (simp_all add: moves_def)
  ultimately show "reg_steps (ac_registry h s) (ac_registry h (snd (run_claim h f k s)))" by (rule rtranclp_trans)
qed

lemma park_settles:
  assumes "reachable (ac_registry h s)" "clocked h t"
  shows "settled f t (ac_registry h (snd (park_claim h f e s)))"
proof -
  let ?park = "on_fenced h (park_attempt f (''dispatcher_worker_exception:'' @ exn_name e))"
  note ok = entered_ok [OF assms(1)]
  show ?thesis
  proof (cases "?park s")
    case (Pair r s1)
    show ?thesis
    proof (cases r)
      case (Inl x)
      with Pair have "snd (park_claim h f e s) = s1" by (simp add: park_claim_def catch_def seq_def ret_def)
      with fenced_Inl [OF Pair [unfolded Inl] assms(2)] ok show ?thesis
        by (auto elim!: settled_mono dest!: park_refused_settled)
    next
      case (Inr x)
      with Pair have "snd (park_claim h f e s) = s1" by (simp add: park_claim_def catch_def seq_def ret_def)
      with fenced_Inr [OF Pair [unfolded Inr]] ok show ?thesis by (auto dest: park_settled)
    qed
  qed
qed

lemma finish_or_park_settles:
  assumes "reachable (ac_registry h s)" "clocked h t"
  shows "settled f t (ac_registry h (snd (finish_or_park h f s)))"
proof (cases "on_fenced h (finish_attempt f) s")
  case (Pair r s1)
  show ?thesis
  proof (cases r)
    case (Inl x)
    with Pair have f: "finish_claim h f s = (Inl x, s1)" by (simp add: finish_claim_def seq_def)
    then have "reachable (ac_registry h s1)" using reachable_moves [OF finish_moves assms(1)] by (metis snd_conv)
    with f park_settles assms(2) show ?thesis by (simp add: finish_or_park_def catch_def)
  next
    case (Inr x)
    with Pair have "snd (finish_or_park h f s) = s1"
      by (simp add: finish_or_park_def finish_claim_def catch_def seq_def ret_def)
    with fenced_Inr [OF Pair [unfolded Inr]] entered_ok [OF assms(1)] show ?thesis by (auto dest: finish_settled)
  qed
qed

lemma handler_failed_settles:
  assumes "reachable (ac_registry h s)" "clocked h t"
  shows "settled f t (ac_registry h (snd (handler_failed h k f e s)))"
proof (cases "marker_of h k f e")
  case None
  with assms park_settles show ?thesis by (simp add: handler_failed_def)
next
  case (Some m)
  let ?m = "catch m (\<lambda>_. ret None)"
  have "moves h ?m" by (intro moves_catch marker_moves [OF Some] moves_ret)
  then have "reachable (ac_registry h (snd (?m s)))" using assms(1) by (rule reachable_moves)
  moreover obtain x where "?m s = (Inr x, snd (?m s))" using caught [of m None s] by auto
  then have "handler_failed h k f e s =
      (if x = None then park_claim h f e else finish_or_park h f) (snd (?m s))"
    unfolding handler_failed_def by (simp add: Some seq_step)
  ultimately show ?thesis using park_settles finish_or_park_settles assms(2) by simp
qed

lemma run_claim_settles:
  assumes "reachable (ac_registry h s)" "clocked h t"
  shows "settled f t (ac_registry h (snd (run_claim h f k s)))"
proof -
  have "reachable (ac_registry h (snd (run_handler h k f s)))"
    by (rule reachable_moves [OF run_handler_moves assms(1)])
  then show ?thesis
    by (cases rule: run_claim_cases [of f k s]) (simp_all add: handler_failed_settles finish_or_park_settles assms(2))
qed

text \<open>The last resort of the thread itself is never needed.\<close>

lemma run_claim_never_raises: "\<exists>s1. run_claim h f k s = (Inr (), s1)"
proof -
  have p: "\<exists>s1. park_claim h f e s = (Inr (), s1)" for e s
    by (cases "on_fenced h (park_attempt f (''dispatcher_worker_exception:'' @ exn_name e)) s")
      (auto simp: park_claim_def catch_def seq_def ret_def split: sum.split)
  have q: "\<exists>s1. finish_or_park h f s = (Inr (), s1)" for s
    using p by (cases "finish_claim h f s") (auto simp: finish_or_park_def catch_def split: sum.split)
  have "\<exists>s1. handler_failed h k f e s = (Inr (), s1)" for e s
  proof (cases "marker_of h k f e")
    case (Some m)
    obtain x s1 where "catch m (\<lambda>_. ret None) s = (Inr x, s1)" using caught [of m None s] by auto
    then show ?thesis using p q by (simp add: handler_failed_def Some seq_step)
  qed (use p in \<open>simp add: handler_failed_def\<close>)
  with q show ?thesis by (cases rule: run_claim_cases [of f k s]) simp_all
qed

end

section \<open>The threads\<close>

text \<open>What may happen next: a thread's step, a call of the dispatcher's methods, or another writer.\<close>

inductive dispatch_step :: "'s dispatch_host \<Rightarrow> 's dispatching \<Rightarrow> 's dispatching \<Rightarrow> bool" for h where
  worker: "n < length (dp_workers (dg_dispatcher x)) \<Longrightarrow> dispatch_step h x (worker_step h n x)"
| started: "dispatcher_start (dg_dispatcher x) = Inr d \<Longrightarrow> dispatch_step h x (x\<lparr>dg_dispatcher := d\<rparr>)"
| notified: "dispatcher_notify h i k x = (r, y) \<Longrightarrow> dispatch_step h x y"
| closing: "dispatch_step h x (x\<lparr>dg_dispatcher := close_begin (dg_dispatcher x)\<rparr>)"
| other: "dispatch_step h x (x\<lparr>dg_host := s\<rparr>)"

inductive_cases dispatch_stepE: "dispatch_step h x y"

definition drained :: "dispatcher \<Rightarrow> bool" where
  "drained d \<longleftrightarrow> dp_closing d \<and> dp_closed d \<and> close_end d = Inr ()"

lemma close_end_Inr: "close_end d = Inr () \<longleftrightarrow> (\<forall>w \<in> set (dp_workers d). w = Ended)"
  by (auto simp: close_end_def alive_workers_def filter_empty_conv all_set_conv_all_nth)

lemma drained_worker:
  assumes "drained (dg_dispatcher x)" "n < length (dp_workers (dg_dispatcher x))"
  shows "worker_step h n x = x"
proof -
  have "dp_workers (dg_dispatcher x) ! n = Ended" using assms by (simp add: drained_def close_end_Inr)
  then show ?thesis by (simp add: worker_step_def Let_def)
qed

lemma drained_calls:
  assumes "drained (dg_dispatcher x)"
  shows "dispatcher_start (dg_dispatcher x) = Inl (DispatcherClosed ''dispatcher is closed'')"
    "snd (dispatcher_notify h i k x) = x" "fst (dispatcher_notify h i k x) \<in> range Inl"
    "close_begin (dg_dispatcher x) = dg_dispatcher x"
  using assms by (auto simp: drained_def dispatcher_start_def dispatcher_notify_def close_begin_def Let_def)

lemma drained_step:
  assumes "dispatch_step h x y" "drained (dg_dispatcher x)"
  shows "dg_dispatcher y = dg_dispatcher x"
  using assms(1) drained_worker [OF assms(2)] drained_calls [OF assms(2)]
  by (cases rule: dispatch_stepE) (auto dest!: arg_cong [of "dispatcher_notify h _ _ x" _ snd])

lemma drained_steps:
  assumes "(dispatch_step h)\<^sup>*\<^sup>* x y" "drained (dg_dispatcher x)"
  shows "dg_dispatcher y = dg_dispatcher x"
  using assms by (induction rule: rtranclp_induct) (simp_all add: drained_step)

text \<open>How many more steps a thread takes once the dispatcher is closing.\<close>

fun worker_rank :: "worker \<Rightarrow> nat" where
  "worker_rank Ended = 0"
| "worker_rank Checking = 1"
| "worker_rank Waiting = 2"
| "worker_rank (Holding k) = 2"
| "worker_rank Entering = 3"
| "worker_rank Claiming = 3"

lemma worker_rank_bound: "worker_rank w \<le> 3" "worker_rank w = 0 \<longleftrightarrow> w = Ended"
  by (cases w; simp)+

lemma closing_worker_step:
  assumes "dp_closing (dg_dispatcher x)" "n < length (dp_workers (dg_dispatcher x))"
  shows "\<exists>w. dp_workers (dg_dispatcher (worker_step h n x)) = (dp_workers (dg_dispatcher x))[n := w] \<and>
      worker_rank w \<le> worker_rank (dp_workers (dg_dispatcher x) ! n) - 1"
    "dp_closing (dg_dispatcher (worker_step h n x))"
proof -
  let ?d = "dg_dispatcher x"
  have "(\<exists>w. dp_workers (dg_dispatcher (worker_step h n x)) = (dp_workers ?d)[n := w] \<and>
      worker_rank w \<le> worker_rank (dp_workers ?d ! n) - 1) \<and> dp_closing (dg_dispatcher (worker_step h n x))"
  proof (cases "dp_workers ?d ! n")
    case Ended
    then have "(dp_workers ?d)[n := Ended] = dp_workers ?d" by (metis list_update_id)
    with Ended assms show ?thesis by (auto simp: worker_step_def Let_def intro!: exI [of _ Ended])
  next
    case Claiming
    then show ?thesis using assms
      by (auto simp: worker_step_def Let_def set_worker_def split_beta split: sum.split option.split)
  qed (use assms in \<open>auto simp: worker_step_def Let_def set_worker_def\<close>)
  then show "\<exists>w. dp_workers (dg_dispatcher (worker_step h n x)) = (dp_workers ?d)[n := w] \<and>
      worker_rank w \<le> worker_rank (dp_workers ?d ! n) - 1"
    and "dp_closing (dg_dispatcher (worker_step h n x))" by blast+
qed

text \<open>A schedule: which thread runs next, and what others did to the host before it.\<close>

definition scheduled :: "'s dispatch_host \<Rightarrow> (nat \<times> ('s \<Rightarrow> 's)) list \<Rightarrow> 's dispatching \<Rightarrow> 's dispatching" where
  "scheduled h ns x = foldl (\<lambda>x (n, g). worker_step h n (x\<lparr>dg_host := g (dg_host x)\<rparr>)) x ns"

lemma closing_schedule:
  assumes "dp_closing (dg_dispatcher x)" "\<forall>(n, g) \<in> set ns. n < length (dp_workers (dg_dispatcher x))"
    and "m < length (dp_workers (dg_dispatcher x))"
  shows "length (dp_workers (dg_dispatcher (scheduled h ns x))) = length (dp_workers (dg_dispatcher x))"
    "worker_rank (dp_workers (dg_dispatcher (scheduled h ns x)) ! m)
       \<le> worker_rank (dp_workers (dg_dispatcher x) ! m) - length (filter (\<lambda>p. fst p = m) ns)"
proof -
  have "length (dp_workers (dg_dispatcher (scheduled h ns x))) = length (dp_workers (dg_dispatcher x)) \<and>
    worker_rank (dp_workers (dg_dispatcher (scheduled h ns x)) ! m)
       \<le> worker_rank (dp_workers (dg_dispatcher x) ! m) - length (filter (\<lambda>p. fst p = m) ns)"
    using assms
  proof (induction ns arbitrary: x)
    case (Cons p ns)
    obtain n g where p: "p = (n, g)" by (cases p)
    let ?y = "x\<lparr>dg_host := g (dg_host x)\<rparr>"
    have y: "dp_closing (dg_dispatcher ?y)" "n < length (dp_workers (dg_dispatcher ?y))"
      using Cons.prems p by auto
    note s = closing_worker_step [OF y, of h]
    from s(1) obtain w where w: "dp_workers (dg_dispatcher (worker_step h n ?y)) = (dp_workers (dg_dispatcher x))[n := w]"
      "worker_rank w \<le> worker_rank (dp_workers (dg_dispatcher x) ! n) - 1" by auto
    have r: "scheduled h ((n, g) # ns) x = scheduled h ns (worker_step h n ?y)" by (simp add: scheduled_def)
    show ?case
      using Cons.IH [OF s(2)] Cons.prems w by (cases "m = n") (auto simp: p r simp del: One_nat_def)
  qed (simp add: scheduled_def)
  then show "length (dp_workers (dg_dispatcher (scheduled h ns x))) = length (dp_workers (dg_dispatcher x))"
    "worker_rank (dp_workers (dg_dispatcher (scheduled h ns x)) ! m)
       \<le> worker_rank (dp_workers (dg_dispatcher x) ! m) - length (filter (\<lambda>p. fst p = m) ns)"
    by simp_all
qed

end
