(* ===== verification/Host_Runs.thy ===== *)
theory Host_Runs
  imports Host_Programs Dispatch_Runs
begin

text \<open>
  The reference host as a lawful host: each of its operations changes the registry only by the
  registry's methods, so that every access, recovery, handler and marker satisfies what the
  dispatcher relies on.
\<close>

section \<open>Access\<close>

interpretation outer: access_laws "outer_access c" for c :: "('s, 'x) host_config_scheme"
  by unfold_locales (simp_all add: outer_access_def enter_lock_def read_time_def interfere_steps)

lemma dispatched_simps [simp]:
  "ac_registry (dispatched_host c) s = ou_registry (lm_outer s)"
  "ac_put (dispatched_host c) r s = s\<lparr>lm_outer := (lm_outer s)\<lparr>ou_registry := r\<rparr>\<rparr>"
  "ac_enter (dispatched_host c) s = s\<lparr>lm_outer := enter_lock c (lm_outer s)\<rparr>"
  "ac_clock (dispatched_host c) s =
     (fst (read_time c (lm_outer s)), s\<lparr>lm_outer := snd (read_time c (lm_outer s))\<rparr>)"
  by (simp_all add: dispatched_host_def)

interpretation host: access_laws "dispatched_host c" for c :: "('s, 'w) program_config"
  by unfold_locales (simp_all add: enter_lock_def read_time_def interfere_steps)

section \<open>The parts of the state\<close>

lemma moves_poll [moves_intros]: "moves (outer_access c) m \<Longrightarrow> moves (dispatched_host c) (poll m)"
  by (simp add: moves_def poll_def outer_access_def)

lemma moves_parts [moves_intros]:
  "moves (dispatched_host c) (on_store f)" "moves (dispatched_host c) (on_world g)"
  "moves (dispatched_host c) (ask k)" "moves (dispatched_host c) (now_ms d)"
  "moves (dispatched_host c) (on_workspaces l)" "moves (dispatched_host c) (on_backend b)"
  by (auto simp: moves_def on_store_def on_world_def ask_def now_ms_def on_workspaces_def on_backend_def
    poll_def transact_def within_def read_time_def Let_def split: sum.split prod.split)

lemma moves_host_read [moves_intros]: "moves (dispatched_host c) (host_read c f)"
  unfolding host_read_def by (intro moves_poll outer.moves_on_read)

lemma moves_host_write:
  "(\<And>now r x r'. f now r = Inr (x, r') \<Longrightarrow> reg_step r r') \<Longrightarrow> moves (dispatched_host c) (host_write c f)"
  unfolding host_write_def by (intro moves_poll outer.moves_on_registry)

lemma moves_host_fenced:
  "(\<And>u now r x r'. f u now r = Inr (x, r') \<Longrightarrow> reg_step r r') \<Longrightarrow> moves (dispatched_host c) (host_fenced c f)"
  unfolding host_fenced_def by (intro moves_poll outer.moves_on_fenced)

lemma moves_methods [moves_intros]:
  "moves (dispatched_host c) (host_write c (requeue_indeterminate i g d rc ind pb bd))"
  "moves (dispatched_host c) (host_write c (recover_terminal_from_receipt i g st j rc ind))"
  "moves (dispatched_host c) (host_write c (fence_expired_attempts g))"
  "moves (dispatched_host c) (host_write c (select_workspace_checkpoint sel g))"
  "moves (dispatched_host c) (host_write c (mark_workspace_checkpoint_restored sel h g))"
  by (rule moves_host_write, erule reg_step.intros)+

lemma moves_claimed_outcome [moves_intros]: "moves (dispatched_host c) (claimed_outcome c f st j fl note)"
  unfolding claimed_outcome_def by (rule moves_host_fenced) (rule reg_step.outcome)

lemma moves_park [moves_intros]: "moves (dispatched_host c) (host_fenced c (park_attempt f note))"
  unfolding park_attempt_def by (rule moves_host_fenced) (rule reg_step.outcome)

section \<open>Runs of the engine\<close>

lemma moves_turn:
  assumes "moves (outer_access c) (lv_cancelled e)" "moves (outer_access c) (lv_beat e)" "lv_clock e = read_time c"
  shows "moves (dispatched_host c) (rlm_turn v e spec steps)"
  using assms
  by (auto simp: rlm_turn_def stop_if_cancelled_def execute_action_def failpoint_def poll_clock_def
      simp flip: now_ms_def intro!: moves_intros split: option.split)

lemma moves_loop [moves_intros]:
  fixes v :: "'s bound" and c :: "('s, 'w) program_config"
  assumes "\<And>steps. moves (dispatched_host c) (rlm_turn v e spec steps)"
  shows "moves (dispatched_host c) (rlm_loop v e spec steps)"
  unfolding moves_def
proof
  fix s :: "('s, 'w) host"
  have turn: "reg_steps (ou_registry (lm_outer s)) (ou_registry (lm_outer s1))"
    if "rlm_turn v e spec steps s = (r, s1)" for steps s r s1
    using assms [of steps] that by (auto simp: moves_def dest: spec [of _ s])
  have "reg_steps (ou_registry (lm_outer s)) (ou_registry (lm_outer (snd (rlm_loop v e spec steps s))))"
    using turn
  proof (induction v e spec steps s rule: rlm_loop.induct)
    case (1 v e spec steps s)
    show ?case
    proof (cases "int (length steps) < js_max_steps spec")
      case True
      obtain r s1 where t: "rlm_turn v e spec steps s = (r, s1)" by (rule prod.exhaust)
      have first: "reg_steps (ou_registry (lm_outer s)) (ou_registry (lm_outer s1))" by (rule 1(2) [OF t])
      show ?thesis
      proof (cases r)
        case (Inr x)
        show ?thesis
        proof (cases x)
          case (Some st)
          have "reg_steps (ou_registry (lm_outer s1)) (ou_registry (lm_outer (snd (rlm_loop v e spec (steps @ [st]) s1))))"
            using 1(1) [OF True t [symmetric] Inr Some] 1(2) by blast
          with first True show ?thesis
            unfolding rlm_loop.simps [of v e spec steps s] by (simp add: t Inr Some rtranclp_trans)
        qed (use first True in \<open>simp add: rlm_loop.simps [of v e spec steps s] t Inr\<close>)
      qed (use first True in \<open>simp add: rlm_loop.simps [of v e spec steps s] t\<close>)
    qed (simp add: rlm_loop.simps [of v e spec steps s])
  qed
  then show "reg_steps (ac_registry (dispatched_host c) s)
      (ac_registry (dispatched_host c) (snd (rlm_loop v e spec steps s)))" by simp
qed

lemma moves_run [moves_intros]:
  assumes "moves (outer_access c) (lv_cancelled e)" "moves (outer_access c) (lv_beat e)" "lv_clock e = read_time c"
  shows "moves (dispatched_host c) (rlm_run v e)"
  using assms moves_turn [OF assms]
  by (auto simp: rlm_run_def rlm_finish_def stop_if_cancelled_def failpoint_def intro!: moves_intros)

lemma moves_claimed_env:
  "moves (outer_access c) (lv_cancelled (claimed_env c i f))"
  "moves (outer_access c) (lv_beat (claimed_env c i f))" "lv_clock (claimed_env c i f) = read_time c"
  by (simp_all add: claimed_env_def outer.moves_on_read moves_seq moves_ret outer.moves_on_fenced
      reg_step.heartbeat)

section \<open>Handlers, markers, recovery\<close>

lemma moves_snapshot [moves_intros]: "moves (dispatched_host c) (mark_and_snapshot c i st)"
  unfolding mark_and_snapshot_def rlm_status_def by (intro moves_intros)

lemma moves_claimed_error [moves_intros]: "moves (dispatched_host c) (claimed_error c i f e)"
  by (auto simp: claimed_error_def end_claimed_rlm_def fail_claimed_rlm_def split: run_outcome.split
    intro!: moves_intros)

lemma moves_run_claimed_rlm: "moves (dispatched_host c) (run_claimed_rlm c i f)"
  by (auto simp: run_claimed_rlm_def end_claimed_rlm_def intro!: moves_intros moves_run moves_claimed_env)

lemma moves_run_claimed: "moves (dispatched_host c) (run_claimed c k i f)"
  by (auto simp: run_claimed_def run_claimed_program_def execute_program_def intro!: moves_intros)

lemma moves_mark: "moves (dispatched_host c) (mark_dispatch_failure c i f e)"
  by (auto simp: mark_dispatch_failure_def intro!: moves_intros)

lemma moves_mark_kind: "moves (dispatched_host c) (mark_dispatch_failure_for_kind c k i f e)"
  by (auto simp: mark_dispatch_failure_for_kind_def moves_mark intro!: moves_intros)

lemma moves_requeue [moves_intros]:
  "moves (dispatched_host c) (requeue c record decision reason policy bd)"
  "moves (dispatched_host c) (requeue_program c record decision reason pb bd)"
  unfolding requeue_program_def requeue_def by (intro moves_intros)+

lemma moves_project [moves_intros]: "moves (dispatched_host c) (project_receipt c record st text reason)"
  unfolding project_receipt_def by (intro moves_intros)

lemma moves_reconcile_calls [moves_intros]: "moves (dispatched_host c) (reconcile_calls c v a)"
  by (simp add: moves_def reconcile_calls_def Let_def split_beta)

lemma moves_recover_candidate: "moves (dispatched_host c) (recover_candidate c record)"
  by (auto simp: recover_candidate_def rlm_status_def recover_by_policy_def recover_from_steps_def
      plan_candidate_def apply_plan_def Let_def intro!: moves_intros split: option.split)

lemma moves_collect_reports: "moves (dispatched_host c) (collect_reports c records reports)"
  by (induction records arbitrary: reports) (auto intro!: moves_intros)

lemma moves_recover_workspace: "moves (dispatched_host c) (recover_workspace_candidate c record)"
  by (auto simp: recover_workspace_candidate_def recover_program_def plan_program_def restore_candidate_def
      restore_selected_def read_checkpoint_artifact_def bind_restored_def restore_failed_def Let_def
      intro!: moves_intros split: option.split)

lemma moves_recover_durable: "moves (dispatched_host c) (recover_durable c)"
  unfolding recover_durable_def recover_durable_effects_def recover_durable_rlm_def recover_durable_workspaces_def
  by (intro moves_intros moves_recover_candidate moves_collect_reports
      moves_recover_workspace)

lemma dispatched_handlers [simp]:
  "hs_recover (dispatched_host c) = Some (recover_durable c)"
  "hs_run_rlm (dispatched_host c) f = run_claimed_rlm c (fn_operation f) f"
  "hs_run_kind (dispatched_host c) = Some (\<lambda>kind f. run_claimed c kind (fn_operation f) f)"
  "hs_marker_for_kind (dispatched_host c) = Some (\<lambda>kind f e.
     seq (mark_dispatch_failure_for_kind c kind (fn_operation f) f e) (\<lambda>record. ret (Some record)))"
  "hs_marker (dispatched_host c) = Some (\<lambda>f e.
     seq (mark_dispatch_failure c (fn_operation f) f e) (\<lambda>record. ret (Some record)))"
  by (simp_all add: dispatched_host_def)

interpretation dispatched: dispatch_laws "dispatched_host c" for c :: "('s, 'w) program_config"
  by unfold_locales
    (auto intro!: moves_seq moves_ret moves_recover_durable moves_run_claimed_rlm moves_run_claimed
        moves_mark moves_mark_kind)

end
