(* ===== verification/Host_Outcomes.thy ===== *)
theory Host_Outcomes
  imports Host_Runs Rlm_Properties Workspace_Properties
begin

text \<open>
  What the host's executions leave in the job store and in the registry: the two records of one
  execution agree.
\<close>

section \<open>The job store\<close>

text \<open>A job in a state, or finished otherwise before.\<close>

definition job_in :: "operation_ref \<Rightarrow> operation_state \<Rightarrow> rlm_store \<Rightarrow> bool" where
  "job_in i st db \<longleftrightarrow> (\<exists>j. find_job i db = Some j \<and> (jb_state j = st \<or> terminal_job j))"

lemma mark_Inr: "rlm_mark i st db = Inr ((), db') \<Longrightarrow> job_in i st db'"
  by (auto simp: rlm_mark_def job_in_def terminal_job_def find_set_job split: option.split_asm if_split_asm)

lemma complete_Inr: "rlm_complete i r db = Inr ((), db') \<Longrightarrow> rlm_terminal_result i db' = Some r"
  by (auto simp: rlm_complete_def rlm_terminal_result_def find_set_job split: option.split_asm if_split_asm)

lemma ask_Inr [act_simps]: "ask f s = (Inr x, t) \<longleftrightarrow> f s = Inr x \<and> t = s"
  by (auto simp: ask_def)

lemma on_store_Inr [act_simps]:
  "on_store f s = (Inr x, t) \<longleftrightarrow> (\<exists>db. f (lm_store s) = Inr (x, db) \<and> t = s\<lparr>lm_store := db\<rparr>)"
  by (simp add: on_store_def transact_Inr)

lemma poll_store: "poll m s = (r, t) \<Longrightarrow> lm_store t = lm_store s" "poll m s = (r, t) \<Longrightarrow> lm_world t = lm_world s"
  by (auto simp: poll_def)

lemma failpoint_store: "failpoint e n s = (r, t) \<Longrightarrow> t = s"
  by (auto simp: failpoint_def raise_if_def)

text \<open>A run that returns a result has committed it to the store.\<close>

lemma run_result:
  assumes "rlm_run v e s = (Inr r, t)"
  shows "rlm_terminal_result (bo_operation v) (lm_store t) = Some r"
proof -
  from assms obtain spec steps s' where "rlm_finish v e spec steps s' = (Inr r, t)"
    unfolding rlm_run_def seq_Inr by blast
  then obtain s1 s2 where "on_store (rlm_complete (bo_operation v) r) s1 = (Inr (), s2)"
    "failpoint e ''process_loss_after_terminal_receipt'' s2 = (Inr (), t)"
    unfolding rlm_finish_def seq_Inr ret_run by auto
  then show ?thesis by (auto simp: on_store_Inr dest!: complete_Inr failpoint_store)
qed

lemma snapshot_Inr:
  assumes "mark_and_snapshot c i st s = (Inr w, t)"
  shows "job_in i st (lm_store t)"
    and "\<exists>n. w = snapshot_text n \<and> jn_operation n = i \<and> jn_state n = st"
proof -
  from assms obtain db row usage n where m: "rlm_mark i st (lm_store s) = Inr ((), db)"
    and r: "host_read c (get_record i) (s\<lparr>lm_store := db\<rparr>) = (Inr row, t)"
    and t: "w = snapshot_text n" "rlm_snapshot i (Some st) (Some usage) (lm_store t) = Inr n"
    unfolding mark_and_snapshot_def rlm_status_def by (auto simp: act_simps)
  from poll_store(1) [OF r [unfolded host_read_def]] have "lm_store t = db" by simp
  with mark_Inr [OF m] show "job_in i st (lm_store t)" by simp
  from t show "\<exists>n. w = snapshot_text n \<and> jn_operation n = i \<and> jn_state n = st"
    by (auto simp: rlm_snapshot_def split: option.split_asm)
qed

section \<open>The registry\<close>

lemma record_from_Inr: "record_from_operation_id i r = Inr x \<Longrightarrow> find_op i r = Some x"
  by (auto simp: record_from_operation_id_def dest: record_model_Inr split: option.split_asm)

lemma claimed_rec:
  "transition_claimed f st j fl why fn now r = Inr (rec, r') \<Longrightarrow> find_op (fn_operation f) r' = Some rec"
  by (auto simp: transition_claimed_def res_simps Let_def dest: record_from_Inr split: if_split_asm option.split_asm)

lemma host_fence_operation [simp]: "fn_operation (host_fence c f) = fn_operation f"
  by (simp add: host_fence_def)

lemma claimed_outcome_Inr:
  assumes "reachable (ou_registry (lm_outer s))" "claimed_outcome c f st j fl why s = (Inr rec, t)"
  shows "lm_store t = lm_store s" "find_op (fn_operation f) (ou_registry (lm_outer t)) = Some rec"
    "or_state rec = st" "or_result_json rec = j"
proof -
  let ?m = "on_fenced (outer_access c) (transition_claimed (host_fence c f) st j fl why)"
  have p: "?m (lm_outer s) = (Inr rec, lm_outer t)" and q: "lm_store t = lm_store s"
    using assms(2) by (auto simp: claimed_outcome_def host_fenced_def poll_def prod_eq_iff)
  show "lm_store t = lm_store s" by (rule q)
  from outer.fenced_Inr [OF p] obtain u now where
    w: "transition_claimed (host_fence c f) st j fl why u now (ou_registry (enter_lock c (lm_outer s))) =
      Inr (rec, ou_registry (lm_outer t))"
    by (auto simp: outer_access_def)
  have "reg_ok (ou_registry (enter_lock c (lm_outer s)))"
    using outer.entered_ok [of c "lm_outer s"] assms(1) by (simp add: outer_access_def)
  from committed_rows [OF this w] obtain x where
    "find_op (fn_operation f) (ou_registry (lm_outer t)) = Some (outcome_op st j fl (or_record_revision x + 1) now x)"
    by simp metis
  with claimed_rec [OF w] show "find_op (fn_operation f) (ou_registry (lm_outer t)) = Some rec"
    "or_state rec = st" "or_result_json rec = j"
    by (auto simp: outcome_op_def)
qed

section \<open>A claimed run\<close>

text \<open>What the outer record says of the job behind it.\<close>

definition agrees :: "operation_ref \<Rightarrow> op_row \<Rightarrow> rlm_store \<Rightarrow> bool" where
  "agrees i rec db \<longleftrightarrow>
     (case or_state rec of
        SUCCEEDED \<Rightarrow> \<exists>r. rlm_terminal_result i db = Some r \<and> or_result_json rec = Some (result_text r)
      | INDETERMINATE \<Rightarrow> or_result_json rec = None \<and> job_in i INDETERMINATE db
      | st \<Rightarrow> st \<in> {CANCELLED, TIMED_OUT, FAILED} \<and> job_in i st db \<and>
          (\<exists>n. or_result_json rec = Some (snapshot_text n) \<and> jn_operation n = i \<and> jn_state n = st))"

lemma agrees_outcome:
  assumes "reachable (ou_registry (lm_outer s))" "claimed_outcome c f st j fl why s = (Inr rec, t)"
    and "\<And>rec. or_state rec = st \<Longrightarrow> or_result_json rec = j \<Longrightarrow> agrees i rec (lm_store s)"
  shows "agrees i rec (lm_store t) \<and> find_op (fn_operation f) (ou_registry (lm_outer t)) = Some rec"
  using claimed_outcome_Inr [OF assms(1,2)] assms(3) by simp

lemma reachable_host:
  assumes "moves (dispatched_host c) m" "reachable (ou_registry (lm_outer s))" "m s = (r, t)"
  shows "reachable (ou_registry (lm_outer t))"
  using reachable_moves [OF assms(1), of s] assms(2,3) by simp

lemma end_claimed_Inr:
  fixes c :: "('s, 'w) program_config" and s :: "('s, 'w) host"
  assumes "reachable (ou_registry (lm_outer s))" "end_claimed_rlm c i f st why s = (Inr rec, t)"
    and "st = CANCELLED \<or> st = TIMED_OUT"
  shows "agrees i rec (lm_store t) \<and> find_op (fn_operation f) (ou_registry (lm_outer t)) = Some rec"
proof -
  from assms(2) obtain u s1 where m: "mark_and_snapshot c i st s = (Inr u, s1)"
    and o: "claimed_outcome c f st (Some u) None why s1 = (Inr rec, t)"
    unfolding end_claimed_rlm_def seq_Inr by blast
  have "reachable (ou_registry (lm_outer s1))" by (rule reachable_host [OF moves_snapshot assms(1) m])
  from this o show ?thesis
    by (rule agrees_outcome) (use snapshot_Inr [OF m] assms(3) in \<open>auto simp: agrees_def\<close>)
qed

lemma fail_claimed_Inr:
  fixes c :: "('s, 'w) program_config" and s :: "('s, 'w) host"
  assumes "reachable (ou_registry (lm_outer s))" "fail_claimed_rlm c i f category code message s = (Inr rec, t)"
  shows "agrees i rec (lm_store t) \<and> find_op (fn_operation f) (ou_registry (lm_outer t)) = Some rec"
proof -
  from assms(2) obtain u s1 failure where m: "mark_and_snapshot c i FAILED s = (Inr u, s1)"
    and o: "claimed_outcome c f FAILED (Some u) (Some failure) ''execution_failed'' s1 = (Inr rec, t)"
    unfolding fail_claimed_rlm_def seq_Inr of_res_run by auto
  have "reachable (ou_registry (lm_outer s1))" by (rule reachable_host [OF moves_snapshot assms(1) m])
  from this o show ?thesis
    by (rule agrees_outcome) (use snapshot_Inr [OF m] in \<open>auto simp: agrees_def\<close>)
qed

lemma claimed_ends: "run_outcome_of b e = Run_ended st why \<Longrightarrow> st = CANCELLED \<or> st = TIMED_OUT"
  by (auto simp: run_outcome_of_def Let_def split: if_split_asm)

lemma claimed_error_Inr:
  fixes c :: "('s, 'w) program_config" and s :: "('s, 'w) host"
  assumes "reachable (ou_registry (lm_outer s))" "claimed_error c i f e s = (Inr rec, t)"
  shows "agrees i rec (lm_store t) \<and> find_op (fn_operation f) (ou_registry (lm_outer t)) = Some rec"
proof (cases "run_outcome_of True e")
  case (Run_ended st why)
  then show ?thesis
    using end_claimed_Inr [OF assms(1)] claimed_ends assms(2) by (fastforce simp: claimed_error_def)
next
  case Run_unknown
  with assms(2) obtain db where m: "rlm_mark i INDETERMINATE (lm_store s) = Inr ((), db)"
    and o: "claimed_outcome c f INDETERMINATE None None ''broker_call_indeterminate'' (s\<lparr>lm_store := db\<rparr>) = (Inr rec, t)"
    by (auto simp: claimed_error_def seq_Inr on_store_Inr)
  from assms(1) have "reachable (ou_registry (lm_outer (s\<lparr>lm_store := db\<rparr>)))" by simp
  from this o show ?thesis by (rule agrees_outcome) (use mark_Inr [OF m] in \<open>auto simp: agrees_def\<close>)
next
  case (Run_failed category code message)
  then show ?thesis using fail_claimed_Inr [OF assms(1)] assms(2) by (simp add: claimed_error_def)
next
  case Run_lost
  with assms(2) show ?thesis by (simp add: claimed_error_def throw_run)
qed

text \<open>The outer record of a claimed run that found its operation running agrees with the job.\<close>

lemma claimed_run_agrees:
  fixes c :: "('s, 'w) program_config" and s :: "('s, 'w) host"
  assumes reach: "reachable (ou_registry (lm_outer s))" and run: "run_claimed_rlm c i f s = (Inr rec, t)"
    and read: "host_read c (get_record i) s = (Inr before, s0)" "or_state before = RUNNING"
  shows "agrees i rec (lm_store t) \<and> find_op i (ou_registry (lm_outer t)) = Some rec"
proof -
  let ?env = "claimed_env c i f" and ?v = "bind_brokers c (or_request before) i"
  let ?late = "\<lambda>now. now \<ge> en_deadline (or_request before)"
  from run read obtain spec now s1 db s2 where i: "fn_operation f = i"
    and s1: "s1 = s0\<lparr>lm_store := db\<rparr>" and s2: "now_ms c s1 = (Inr now, s2)"
    and rest: "(if ?late now then end_claimed_rlm c i f TIMED_OUT ''deadline_expired''
      else try_else (rlm_run ?v ?env) (claimed_error c i f)
        (\<lambda>result. claimed_outcome c f SUCCEEDED (Some (result_text result)) None ''execution_succeeded'')) s2 =
      (Inr rec, t)"
    unfolding run_claimed_rlm_def by (auto simp: seq_Inr raise_if_run of_res_run on_store_Inr split: if_split_asm)
  have "reachable (ou_registry (lm_outer s0))" by (rule reachable_host [OF moves_host_read reach read(1)])
  then have "reachable (ou_registry (lm_outer s1))" by (simp add: s1)
  then have r2: "reachable (ou_registry (lm_outer s2))"
    using s2 by (rule reachable_host [OF moves_parts(4)])
  show ?thesis
  proof (cases "?late now")
    case True
    then show ?thesis using end_claimed_Inr [OF r2, of c i f TIMED_OUT] rest i by auto
  next
    case False
    obtain q s3 where q: "rlm_run ?v ?env s2 = (q, s3)" by fastforce
    have r3: "reachable (ou_registry (lm_outer s3))"
      by (rule reachable_host [OF moves_run [OF moves_claimed_env] r2 q])
    show ?thesis
    proof (cases q)
      case (Inl e)
      then show ?thesis using claimed_error_Inr [OF r3, of c i f e] False rest q i by (simp add: try_else_def)
    next
      case (Inr result)
      with False rest q have o: "claimed_outcome c f SUCCEEDED (Some (result_text result)) None
          ''execution_succeeded'' s3 = (Inr rec, t)" by (simp add: try_else_def)
      have "rlm_terminal_result i (lm_store s3) = Some result"
        using run_result [of ?v ?env s2 result s3] q Inr by (simp add: bind_brokers_def)
      with agrees_outcome [OF r3 o, of i] i show ?thesis by (simp add: agrees_def)
    qed
  qed
qed

section \<open>Unfenced calls\<close>

lemma host_write_Inr:
  assumes "host_write c f s = (Inr x, t)"
  shows "\<exists>now. f now (ou_registry (enter_lock c (lm_outer s))) = Inr (x, ou_registry (lm_outer t))"
    and "lm_store t = lm_store s" "lm_world t = lm_world s" "ou_workspaces (lm_outer t) = ou_workspaces (lm_outer s)"
  using assms
  by (auto simp: host_write_def poll_def on_registry_def in_registry_def outer_access_def transact_def read_time_def
      enter_lock_def Let_def split: sum.split_asm)

lemma transition_rec:
  assumes "transition i a g now r = Inr (rec, r')"
  shows "find_op i r' = Some rec \<and> or_state rec = ta_state a \<and> or_certainty rec = ta_certainty a \<and>
    (ta_result a \<noteq> None \<longrightarrow> or_result_json rec = ta_result a) \<and> (ta_failure a \<noteq> None \<longrightarrow> or_failure rec = ta_failure a)"
proof -
  from assms obtain x r1 where x: "find_op i r = Some x"
    and r1: "r1 = set_op i (\<lambda>_. True) (transition_row a g now) r"
    and rec: "get_record i r' = Inr rec" "find_op i r' = find_op i r1"
    by (auto simp: transition_def get_op_def res_simps Let_def find_op_def split: option.split_asm if_split_asm)
  have "find_op i r1 = Some (transition_row a g now x)"
    unfolding r1 by (rule find_op_set_op [OF x]) (simp_all add: transition_row_def)
  with rec show ?thesis by (auto simp: transition_row_def dest!: get_record_Inr)
qed

text \<open>Reconciling a mutation: the receipt decides.\<close>

lemma settle_Inr:
  assumes "settle_mutation c i s = (Inr rec, t)"
  shows "ou_workspaces (lm_outer t) = ou_workspaces (lm_outer s) \<and> find_op i (ou_registry (lm_outer t)) = Some rec \<and>
    (case workspace_receipt i (ou_workspaces (lm_outer s)) of
       Inr (Some r) \<Rightarrow> or_state rec = SUCCEEDED \<and> or_result_json rec = Some (canonical_json_text (mutation_result_json r))
     | Inr None \<Rightarrow> or_state rec = FAILED \<and> (\<exists>failure. or_failure rec = Some failure \<and> fe_retryable failure)
     | Inl e \<Rightarrow> False)"
proof -
  from assms obtain q where q: "workspace_receipt i (ou_workspaces (lm_outer s)) = Inr q"
    and m: "(case q of
       Some r \<Rightarrow> host_write c (succeed i (canonical_json_text (mutation_result_json r)) True (hc_generation c))
     | None \<Rightarrow> seq (of_res (mutation_failure i WORKER ''NO_WORKSPACE_RECEIPT''
           ''authoritative workspace store contains no execution receipt'' True)) (\<lambda>failure.
         host_write c (fail_op i failure True None (hc_generation c)))) s = (Inr rec, t)"
    by (auto simp: settle_mutation_def ask_workspaces_def act_simps)
  show ?thesis
  proof (cases q)
    case None
    with m obtain failure where f: "mutation_failure i WORKER ''NO_WORKSPACE_RECEIPT''
        ''authoritative workspace store contains no execution receipt'' True = Inr failure"
      and w: "host_write c (fail_op i failure True None (hc_generation c)) s = (Inr rec, t)"
      by (auto simp: act_simps)
    from f have "fe_retryable failure" by (auto simp: mutation_failure_def validate_failure_envelope_def validated_Inr_iff)
    with host_write_Inr [OF w] None q show ?thesis
      by (auto simp: fail_op_def fail_args_def dest!: transition_rec)
  next
    case (Some r)
    with m have "host_write c (succeed i (canonical_json_text (mutation_result_json r)) True (hc_generation c)) s =
      (Inr rec, t)" by simp
    from host_write_Inr [OF this] Some q show ?thesis
      by (auto simp: succeed_def succeed_args_def dest!: transition_rec)
  qed
qed

lemma host_read_parts:
  "host_read c f s = (r, t) \<Longrightarrow> lm_store t = lm_store s \<and> lm_world t = lm_world s \<and> ou_workspaces (lm_outer t) = ou_workspaces (lm_outer s)"
  by (auto simp: host_read_def poll_def on_read_def outer_access_def enter_lock_def)

lemma now_parts:
  "now_ms c s = (r, t) \<Longrightarrow> lm_store t = lm_store s \<and> lm_world t = lm_world s \<and> ou_workspaces (lm_outer t) = ou_workspaces (lm_outer s)"
  by (auto simp: now_ms_def poll_def read_time_def)

lemma on_workspaces_Inr:
  "on_workspaces f s = (Inr x, t) \<Longrightarrow> f (ou_workspaces (lm_outer s)) = Inr (x, ou_workspaces (lm_outer t))"
  by (auto simp: on_workspaces_def poll_def transact_def prod_eq_iff split: sum.split_asm prod.split_asm)

lemma raise_if_False [simp]: "raise_if False e = ret ()"
  by (rule ext) (simp add: raise_if_def ret_def)

text \<open>An execution whose acknowledgement was lost has left its receipt.\<close>

lemma lost_execution:
  assumes "run_execute c parse i (Some ''transport_loss_after_workspace_commit'') s = (Inr rec, t)"
    and "host_read c (get_record i) s = (Inr before, s0)" "or_state before = ACCEPTED"
    and "or_state rec = INDETERMINATE" "workspaces_ok (ou_workspaces (lm_outer s))"
  shows "\<exists>k. find_receipt i (ou_workspaces (lm_outer t)) = Some k \<and>
    validate_mutation_result (mv_result k) = Inr (mv_result k)"
proof -
  obtain now s1 where now: "now_ms c s0 = (Inr now, s1)" by (auto simp: now_ms_def poll_def)
  let ?run = "\<lambda>spec. try_else (on_workspaces (workspace_execute i spec None)) (mutation_error c i) (\<lambda>result.
      host_write c (mark_indeterminate i ''transport_loss_after_workspace_commit'' (hc_generation c)))"
  let ?rest = "\<lambda>s1. if now \<ge> en_deadline (or_request before) then host_write c (time_out i None (hc_generation c)) s1
       else seq (host_write c (begin_op i (hc_generation c))) (\<lambda>_.
         seq (of_res (parse (or_payload_json before))) ?run) s1"
  have "run_execute c parse i (Some ''transport_loss_after_workspace_commit'') s = ?rest s1"
    unfolding run_execute_def
    by (simp add: seq_step [where m = "host_read c (get_record i)" and s = s, OF assms(2)] assms(3)
        seq_step [where m = "now_ms c" and s = s0, OF now])
  with assms(1) have rest: "?rest s1 = (Inr rec, t)" by simp
  have late: "\<not> now \<ge> en_deadline (or_request before)"
  proof
    assume "now \<ge> en_deadline (or_request before)"
    with rest have "host_write c (time_out i None (hc_generation c)) s1 = (Inr rec, t)" by simp
    from host_write_Inr(1) [OF this] assms(4) show False
      by (auto simp: time_out_def time_out_args_def dest!: transition_rec)
  qed
  with rest obtain b s2 spec where b: "host_write c (begin_op i (hc_generation c)) s1 = (Inr b, s2)"
    and run: "?run spec s2 = (Inr rec, t)"
    by (auto simp: act_simps)
  have same: "ou_workspaces (lm_outer s2) = ou_workspaces (lm_outer s)"
    using host_read_parts [OF assms(2)] now_parts [OF now] host_write_Inr(4) [OF b] by simp
  obtain q s3 where q: "on_workspaces (workspace_execute i spec None) s2 = (q, s3)" by fastforce
  show ?thesis
  proof (cases q)
    case (Inl e)
    with run q have "mutation_error c i e s3 = (Inr rec, t)" by (simp add: try_else_def)
    then have "or_state rec = FAILED"
      by (auto simp: mutation_error_def act_simps fail_op_def fail_args_def Let_def split: if_split_asm
          dest!: host_write_Inr(1) transition_rec)
    with assms(4) show ?thesis by simp
  next
    case (Inr r)
    with run q have w: "host_write c (mark_indeterminate i ''transport_loss_after_workspace_commit'' (hc_generation c)) s3 =
      (Inr rec, t)" by (simp add: try_else_def)
    from on_workspaces_Inr [OF q [unfolded Inr]]
    have "workspace_execute i spec None (ou_workspaces (lm_outer s)) = Inr (r, ou_workspaces (lm_outer s3))"
      by (simp add: same)
    from executed_receipt [OF assms(5) this] host_write_Inr(4) [OF w] show ?thesis by auto
  qed
qed

section \<open>Recovery\<close>

text \<open>Projecting a terminal receipt onto the outer operation.\<close>

lemma project_Inr:
  assumes "project_receipt c record st w reason s = (Inr (), t)"
  shows "lm_store t = lm_store s" "lm_world t = lm_world s"
    "\<exists>x. find_op (or_operation record) (ou_registry (lm_outer t)) = Some x \<and> or_state x = st \<and>
       or_certainty x = CERTAIN \<and> or_result_json x = Some w"
proof -
  from assms obtain rec where p: "host_write c (recover_terminal_from_receipt (or_operation record) (hc_generation c) st w
      reason (or_input_digest record)) s = (Inr rec, t)"
    by (auto simp: project_receipt_def act_simps)
  show "lm_store t = lm_store s" "lm_world t = lm_world s" using host_write_Inr(2,3) [OF p] by simp_all
  from host_write_Inr(1) [OF p] obtain now where n: "recover_terminal_from_receipt (or_operation record)
      (hc_generation c) st w reason (or_input_digest record) now (ou_registry (enter_lock c (lm_outer s))) =
      Inr (rec, ou_registry (lm_outer t))" by blast
  from recover_terminal_Inr [OF n] obtain x :: op_row and d :: dispatch_row and pl where
    x: "find_op (or_operation record) (ou_registry (enter_lock c (lm_outer s))) = Some x" "or_state x = INDETERMINATE"
    and t: "ou_registry (lm_outer t) = insert_event (or_operation record) st CERTAIN (or_record_revision x + 1) now
        ''terminal_from_receipt'' (dw_current_attempt_no d) (Some ''terminal_from_receipt'') pl
        (receipt_writes (or_operation record) st w reason (or_input_digest record) now x (dw_current_attempt_no d)
          (ou_registry (enter_lock c (lm_outer s))))"
    by blast
  let ?r = "ou_registry (enter_lock c (lm_outer s))"
  let ?d = "\<lambda>n. ?r\<lparr>rg_decisions := rg_decisions ?r @ [receipt_decision (or_operation record)
     (next_decision_no (or_operation record) ?r) n reason (or_input_digest record) now]\<rparr>"
  have "find_op (or_operation record) (?d n) = Some x" for n using x(1) by (simp add: find_op_def)
  from find_op_set_op [OF this, of "\<lambda>x. or_state x = INDETERMINATE"] x(2)
  have "find_op (or_operation record) (receipt_writes (or_operation record) st w reason (or_input_digest record) now x n ?r) =
      Some (receipt_op st (rg_generation ?r) w (or_record_revision x + 1) now x)" for n
    by (cases n) (simp_all add: receipt_writes_def Let_def find_op_def set_defs receipt_op_def)
  then show "\<exists>x. find_op (or_operation record) (ou_registry (lm_outer t)) = Some x \<and> or_state x = st \<and>
       or_certainty x = CERTAIN \<and> or_result_json x = Some w"
    by (simp add: t find_op_def receipt_op_def)
qed

section \<open>Admission\<close>

text \<open>The authority a request has to carry, at the readings \<open>early\<close> and \<open>late\<close> of the clock.\<close>

definition authorised ::
    "('s, 'x) host_config_scheme \<Rightarrow> request_envelope \<Rightarrow> rlm_job_spec \<Rightarrow> int \<Rightarrow> int \<Rightarrow> bool" where
  "authorised c e spec early late \<longleftrightarrow>
     en_runtime_generation e = hc_generation c \<and> en_capability_digest e = hc_capability_digest c \<and>
     early < en_deadline e \<and> en_deadline e - late \<le> bu_wall_time_ms (en_budget e) \<and>
     bu_wall_time_ms (en_budget e) \<noteq> 0 \<and> bu_wall_time_ms (en_budget e) \<le> 60000 \<and>
     bu_model_requests (en_budget e) \<le> 16 \<and>
     (\<forall>k \<in> set (required_capabilities spec). \<exists>g \<in> set (en_grants e). gr_capability g = k \<and>
        gr_issued_to g = en_principal e \<and> en_deadline e \<le> gr_expires_at g) \<and>
     json_digest (rlm_job_spec_json spec) = en_input_digest e \<and> en_workspace e = None"

lemma now_Inr: "now_ms c s = (Inr now, t) \<Longrightarrow> \<exists>n. now = hc_clock c n"
  by (auto simp: now_ms_def poll_def read_time_def)

lemma raise_if_Inr: "raise_if b e s = (Inr x, t) \<longleftrightarrow> \<not> b \<and> t = s"
  by (simp add: raise_if_def) auto

lemma image_filter_iff: "k \<in> f ` {x \<in> A. p x \<and> q x} \<longleftrightarrow> (\<exists>x \<in> A. f x = k \<and> p x \<and> q x)"
  by auto

lemma validated_request:
  assumes "validate_rlm_request c e spec s = (Inr (), t)"
  shows "\<exists>m n. authorised c e spec (hc_clock c m) (hc_clock c n)"
proof -
  from assms obtain now now' s1 where "now_ms c s = (Inr now, s1)" "now_ms c s1 = (Inr now', t)"
    and "authorised c e spec now now'"
    unfolding authorised_def
    by (auto simp: validate_rlm_request_def check_authority_def seq_Inr raise_if_Inr Let_def granted_capabilities_def
        filter_empty_conv not_le not_less image_filter_iff)
  with now_Inr show ?thesis by blast
qed

text \<open>What admission stores: the intent with the canonical bytes of the specification, and its job.\<close>

lemma accepted_rec:
  assumes "accept e w hook now r = Inr ((rec, new), r')" "\<And>h i r1 r2. hook = Some h \<Longrightarrow> h i r1 = Inr r2 \<Longrightarrow> r2 = r1"
  shows "rec \<in> set (rg_operations r') \<and> or_payload_json rec = w \<and> or_input_digest rec = en_input_digest e"
proof -
  have adm: "r2 = r1" if "run_admission hook i r1 = Inr r2" for i r1 r2
    using assms(2) that by (cases hook) (auto simp: run_admission_def)
  show ?thesis
proof (cases "find_scoped e r")
  case (Some x)
  then have "x \<in> set (rg_operations r)" by (auto simp: find_scoped_def dest: fetchone_SomeD)
  with assms Some show ?thesis
    by (auto simp: accept_def res_simps Let_def dest!: record_model_Inr adm split: if_split_asm)
next
  case None
  let ?x = "fresh_op_row e w now"
  from None assms(1) have fresh: "\<forall>y \<in> set (rg_operations r). \<not> same_key ?x y"
    and r': "rg_operations r' = rg_operations r @ [?x]" and rec: "get_record (operation_id_of e) r' = Inr rec"
    by (auto simp: accept_def res_simps Let_def dest!: adm split: if_split_asm)
  have "fetchone (\<lambda>x. or_operation x = operation_id_of e) (rg_operations r) = None"
    using fresh by (auto simp: row_simps same_key_def fresh_op_row_def)
  then have "find_op (operation_id_of e) r' = Some ?x"
    by (simp add: find_op_def r' fetchone_append) (simp add: fetchone_def fresh_op_row_def)
  with get_record_Inr [OF rec] have "rec = ?x" by simp
  with r' show ?thesis by (simp add: fresh_op_row_def)
qed
qed

lemma host_accept_Inr:
  assumes "host_accept c e w binding s = (Inr (rec, new), t)"
  shows "rec \<in> set (rg_operations (ou_registry (lm_outer t))) \<and> or_payload_json rec = w \<and>
    or_input_digest rec = en_input_digest e"
  using assms
  by (auto simp: host_accept_def accept_bound_def set_models_def Let_def read_time_def res_simps
      split: sum.split_asm prod.split_asm option.split_asm dest!: accepted_rec)

end
