(* ===== verification/Host_Samples.thy ===== *)
theory Host_Samples
  imports Host_Outcomes Registry_Samples
begin

text \<open>
  A host with a constant clock and no other threads, on the sample registry, that the witnesses
  of the host's properties run on.
\<close>

definition sample_backend :: "unit program_backend" where
  "sample_backend = \<lparr>gb_descriptor = \<lparr>bd_kind = Plain_python, bd_version = ''1'',
       bd_capability_digest = json_digest JNull, bd_checkpoint_formats = [], bd_features = []\<rparr>,
     gb_environment = \<lparr>ev_entries = [], ev_digest = json_digest JNull\<rparr>,
     gb_attach = (\<lambda>h s. ret h),
     gb_execute = (\<lambda>i h s. throw (WorkspaceNotFound ''lost'')),
     gb_restore = (\<lambda>m s. throw (WorkspaceCheckpointRejected ''lost'')),
     gb_checkpoint = (\<lambda>i h p t. throw (WorkspaceNotFound ''lost'')),
     gb_retire_lost_receipt = (\<lambda>i h. ret ()),
     gb_close = (\<lambda>h r. ret ())\<rparr>"

definition sample_config :: "(unit, unit) program_config" where
  "sample_config = \<lparr>hc_clock = (\<lambda>n. 1300), hc_others = alone, hc_generation = 1,
     hc_capability_digest = json_digest JNull, hc_facade = \<lparr>fa_routes = None, fa_evidence = []\<rparr>,
     hc_parse_spec = (\<lambda>_. Inr sample_spec), hc_bind_route = None, hc_default_profile = None,
     hp_backend = sample_backend, hp_loads = (\<lambda>_. Inr JNull),
     hp_handle = (\<lambda>_. Inl (TypeError ''handle'')), hp_spec = (\<lambda>_. Inl (TypeError ''spec''))\<rparr>"

definition sample_host :: "rlm_store \<Rightarrow> reg \<Rightarrow> (unit, unit) host" where
  "sample_host db r = \<lparr>lm_store = db, lm_world = lm_world sample_rlm,
     lm_outer = \<lparr>ou_registry = r, ou_ticks = 0, ou_workspaces = empty_workspaces, ou_backend = ()\<rparr>\<rparr>"

definition no_jobs :: rlm_store where
  "no_jobs = \<lparr>rl_jobs = [], rl_steps = []\<rparr>"

lemma sample_config_simps [simp]:
  "hc_clock sample_config n = 1300" "hc_generation sample_config = 1"
  "hc_parse_spec sample_config t = Inr sample_spec" "hc_bind_route sample_config = None"
  "hc_capability_digest sample_config = json_digest JNull"
  by (simp_all add: sample_config_def)

lemma sample_access [simp]:
  "enter_lock sample_config u = u\<lparr>ou_ticks := ou_ticks u + 1\<rparr>"
  "read_time sample_config u = (1300, u\<lparr>ou_ticks := ou_ticks u + 1\<rparr>)"
  by (simp_all add: enter_lock_def read_time_def sample_config_def alone.rep_eq)

section \<open>A parked claim\<close>

definition parked_row :: op_row where
  "parked_row = outcome_op INDETERMINATE None None 2 1300 (claimed_op sample_args 1 sample_row)"

definition parked_writes :: "string \<Rightarrow> reg" where
  "parked_writes why = insert_event sample_op INDETERMINATE INDETERMINATE_OUTCOME 2 1300 why (Some 1)
     (Some why) (Some (JObj [(''attempt_no'', JInt 1), (''state'', JStr ''indeterminate'')]))
     (outcome_writes sample_fence INDETERMINATE None None why 1300
        (claimed_op sample_args 1 sample_row) sample_running)"

lemma parked_tables [simp]: "rg_generation (parked_writes why) = 1" "rg_operations (parked_writes why) = [parked_row]"
  by (simp_all add: parked_writes_def outcome_writes_def set_defs row_simps parked_row_def)

lemma parked_record: "get_record sample_op (parked_writes why) = Inr parked_row"
  by (simp add: sample_eval)
    (simp add: parked_row_def outcome_op_def claimed_op_def sample_args_def sample_row_def fresh_op_row_def sample_op_def
      sample_eval)

lemma sample_park: "park_attempt sample_fence why 1300 1300 sample_running = Inr (parked_row, parked_writes why)"
proof -
  have "record_from_operation_id sample_op (parked_writes why) = Inr parked_row"
    using parked_record [of why]
    by (simp add: record_from_operation_id_def get_record_def get_op_def split: option.split_asm)
  then show ?thesis
    by (simp add: park_attempt_def transition_claimed_def terminal_def sample_fence_valid find_op_def row_simps
      rowcount_def Let_def outcome_certainty_of_def flip: parked_writes_def)
qed

section \<open>A resumed run\<close>

text \<open>A job whose only step was recorded before its process was lost.\<close>

definition sample_step :: rlm_step where
  "sample_step = \<lparr>st_index = 0, st_action = K_model_request, st_request_digest = json_digest JNull,
     st_call_sequence = 1, st_grant_id = ''g-1'',
     st_receipt = \<lparr>br_kind = ''model.response'', br_handle = ''m-1'', br_digest = json_digest JNull,
       br_value = ''because''\<rparr>\<rparr>"

definition resumed_jobs :: rlm_store where
  "resumed_jobs = \<lparr>rl_jobs = [\<lparr>jb_operation = sample_op, jb_state = ACCEPTED, jb_spec = sample_spec,
       jb_result = None\<rparr>],
     rl_steps = [\<lparr>jt_operation = sample_op, jt_index = 0, jt_step = sample_step\<rparr>]\<rparr>"

definition beaten_lease :: lease_row where
  "beaten_lease = (fresh_lease sample_args sample_op 1 1)\<lparr>lw_heartbeat_at := 1300, lw_expires_at := 31300\<rparr>"

definition beaten :: reg where
  "beaten = sample_running\<lparr>rg_leases := [beaten_lease]\<rparr>"

lemma beaten_tables [simp]:
  "rg_generation beaten = 1" "rg_operations beaten = [claimed_op sample_args 1 sample_row]"
  "rg_dispatch beaten = [claimed_dispatch sample_args 1 sample_dispatch]"
  "rg_attempts beaten = [fresh_attempt sample_args sample_op 1]"
  "rg_leases beaten = [beaten_lease]" "rg_controls beaten = []"
  by (simp_all add: beaten_def)

lemma beaten_lease_simps [simp]:
  "lw_operation beaten_lease = sample_op" "lw_owner_digest beaten_lease = json_digest (JStr ''owner'')"
  "lw_released_at beaten_lease = None" "lw_expires_at beaten_lease = 31300"
  "lw_attempt_no beaten_lease = 1" "lw_lease_epoch beaten_lease = 1"
  by (simp_all add: beaten_lease_def fresh_lease_def sample_args_def)

lemma beaten_valid:
  "validate_fence sample_fence 1300 beaten = Inr (fresh_attempt sample_args sample_op 1, beaten_lease)"
  by (subst validate_fence_Inr) (simp add: sample_eval)

lemma sample_lease_beats:
  "set_lease sample_op 1 (\<lambda>l. lw_lease_epoch l = 1)
     (\<lambda>l. l\<lparr>lw_heartbeat_at := 1300, lw_expires_at := 31300\<rparr>) sample_running = beaten"
  "set_lease sample_op 1 (\<lambda>l. lw_lease_epoch l = 1)
     (\<lambda>l. l\<lparr>lw_heartbeat_at := 1300, lw_expires_at := 31300\<rparr>) beaten = beaten"
proof -
  show "set_lease sample_op 1 (\<lambda>l. lw_lease_epoch l = 1)
     (\<lambda>l. l\<lparr>lw_heartbeat_at := 1300, lw_expires_at := 31300\<rparr>) sample_running = beaten"
    by (simp add: set_lease_def row_simps beaten_def beaten_lease_def fresh_lease_def)
  show "set_lease sample_op 1 (\<lambda>l. lw_lease_epoch l = 1)
     (\<lambda>l. l\<lparr>lw_heartbeat_at := 1300, lw_expires_at := 31300\<rparr>) beaten = beaten"
    by (simp add: set_lease_def row_simps) (simp add: beaten_def beaten_lease_def fresh_lease_def)
qed

lemma sample_heartbeat:
  assumes "r = sample_running \<or> r = beaten"
  shows "\<exists>m. heartbeat sample_fence 30000 1300 1300 r = Inr (m, beaten)"
proof -
  have "\<exists>m. lease_model sample_op beaten_lease (fresh_attempt sample_args sample_op 1) = Inr m"
    by (simp add: lease_model_def fresh_attempt_def validate_attempt_ref_def validated_def positive_counter_def max_i64_def)
      (simp add: validate_lease_record_def beaten_lease_def fresh_lease_def sample_args_def validated_def
        positive_counter_def max_i64_def opt_ok_def)
  moreover have "find_lease sample_op 1 1 beaten = Some beaten_lease" by (simp add: find_lease_def row_simps)
  ultimately show ?thesis using assms
    by (auto simp: heartbeat_def sample_fence_valid beaten_valid Let_def sample_lease_beats)
qed

lemma sample_host_fence [simp]: "host_fence sample_config sample_fence = sample_fence"
  by (simp add: host_fence_def)

lemma sample_beat:
  assumes "ou_registry u = sample_running \<or> ou_registry u = beaten"
  shows "lv_beat (claimed_env sample_config sample_op sample_fence) u =
    (Inr (), u\<lparr>ou_registry := beaten, ou_ticks := ou_ticks u + 3\<rparr>)"
proof -
  obtain m where m: "heartbeat sample_fence 30000 1300 1300 (ou_registry u) = Inr (m, beaten)"
    using sample_heartbeat [OF assms] by blast
  show ?thesis
    by (simp add: claimed_env_def seq_def on_fenced_def in_registry_def outer_access_def transact_def m ret_def)
qed

lemma sample_cancelled:
  assumes "rg_controls (ou_registry u) = []"
  shows "lv_cancelled (claimed_env sample_config sample_op sample_fence) u = (Inr False, u\<lparr>ou_ticks := ou_ticks u + 1\<rparr>)"
  using assms by (simp add: claimed_env_def on_read_def outer_access_def cancellation_requested_def find_control_def row_simps)

lemma sample_env_simps [simp]:
  "lv_clock (claimed_env sample_config i f) = read_time sample_config" "lv_failpoint (claimed_env sample_config i f) = None"
  by (simp_all add: claimed_env_def)

lemma resumed_simps [simp]:
  "find_job sample_op resumed_jobs = Some \<lparr>jb_operation = sample_op, jb_state = ACCEPTED, jb_spec = sample_spec, jb_result = None\<rparr>"
  "rlm_steps sample_op resumed_jobs = [sample_step]"
  by (simp_all add: resumed_jobs_def find_job_def fetchone_def rlm_steps_def)

lemma resumed_run:
  assumes "lm_store s = resumed_jobs" "lm_world s = lm_world sample_rlm" "ou_registry (lm_outer s) = sample_running"
  shows "\<exists>r t. rlm_run (bind_brokers sample_config sample_envelope sample_op)
      (claimed_env sample_config sample_op sample_fence) s = (Inr r, t) \<and> ou_registry (lm_outer t) = beaten"
  using assms
  by (simp add: rlm_run_def run_defs bind_brokers_def rlm_snapshot_def sample_cancelled sample_beat on_store_def
      transact_def rlm_begin_def rlm_set_state_def rlm_loop.simps sample_spec_def rlm_finish_def next_rlm_action_def
      answer_of_def journal_usage_def sample_rlm_def traces_def rlm_result_issue_def Let_def rlm_complete_def
      find_set_job validate_rlm_result_def validated_def rlm_result_payload_def)

definition finished_row :: "rlm_result \<Rightarrow> op_row" where
  "finished_row r = outcome_op SUCCEEDED (Some (result_text r)) None 2 1300 (claimed_op sample_args 1 sample_row)"

definition finished_writes :: "rlm_result \<Rightarrow> reg" where
  "finished_writes r = insert_event sample_op SUCCEEDED CERTAIN 2 1300 ''execution_succeeded'' (Some 1)
     (Some ''execution_succeeded'')
     (Some (JObj [(''attempt_no'', JInt 1), (''state'', JStr ''succeeded'')]))
     (outcome_writes sample_fence SUCCEEDED (Some (result_text r)) None ''execution_succeeded'' 1300
        (claimed_op sample_args 1 sample_row) beaten)"

lemma finished_tables [simp]:
  "rg_generation (finished_writes r) = 1" "rg_operations (finished_writes r) = [finished_row r]"
  by (simp_all add: finished_writes_def outcome_writes_def set_defs row_simps finished_row_def)

lemma finished_commit:
  "transition_claimed sample_fence SUCCEEDED (Some (result_text r)) None ''execution_succeeded'' 1300 1300 beaten =
     Inr (finished_row r, finished_writes r)"
proof -
  have "record_from_operation_id sample_op (finished_writes r) = Inr (finished_row r)"
    by (simp add: sample_eval)
      (simp add: finished_row_def outcome_op_def claimed_op_def sample_args_def sample_row_def fresh_op_row_def
        sample_op_def)
  then show ?thesis
    by (simp add: transition_claimed_def terminal_def beaten_valid find_op_def row_simps
      rowcount_def Let_def outcome_certainty_of_def flip: finished_writes_def)
qed

lemma sample_running_record: "get_record sample_op sample_running = Inr (claimed_op sample_args 1 sample_row)"
  by (simp add: sample_eval)
    (simp add: claimed_op_def sample_args_def sample_row_def fresh_op_row_def sample_op_def sample_eval)

lemma resumed_claim:
  "\<exists>r t. run_claimed_rlm sample_config sample_op sample_fence (sample_host resumed_jobs sample_running) =
     (Inr (finished_row r), t)"
proof -
  let ?s = "sample_host resumed_jobs sample_running"
  let ?s2 = "?s\<lparr>lm_outer := (lm_outer ?s)\<lparr>ou_ticks := Suc (Suc 0)\<rparr>\<rparr>"
  obtain r t where r: "rlm_run (bind_brokers sample_config sample_envelope sample_op)
      (claimed_env sample_config sample_op sample_fence) ?s2 = (Inr r, t)" "ou_registry (lm_outer t) = beaten"
    using resumed_run [of ?s2] by (auto simp: sample_host_def)
  have "\<exists>t'. claimed_outcome sample_config sample_fence SUCCEEDED (Some (result_text r)) None ''execution_succeeded'' t =
      (Inr (finished_row r), t')"
    using r(2) by (simp add: claimed_outcome_def host_fenced_def poll_def on_fenced_def in_registry_def
        transact_def outer_access_def finished_commit)
  moreover have "host_read sample_config (get_record sample_op) ?s =
      (Inr (claimed_op sample_args 1 sample_row), ?s\<lparr>lm_outer := (lm_outer ?s)\<lparr>ou_ticks := 1\<rparr>\<rparr>)"
    by (simp add: host_read_def poll_def on_read_def outer_access_def sample_host_def sample_running_record)
  moreover have "or_state (claimed_op sample_args 1 sample_row) = RUNNING" by (simp add: claimed_op_def)
  ultimately show ?thesis using r(1)
    by (intro exI [of _ r]) (simp add: run_claimed_rlm_def seq_def raise_if_def of_res_def on_store_def transact_def rlm_ensure_def
        now_ms_def poll_def try_else_def sample_host_def)
qed

section \<open>A projected receipt\<close>

definition sample_result :: rlm_result where
  "sample_result = \<lparr>rs_operation = sample_op, rs_strategy = S_baseline, rs_answer = ''because'', rs_steps = [sample_step],
     rs_usage = usage_zero, rs_trace = [], rs_trace_digest = json_digest JNull\<rparr>"

definition finished_jobs :: rlm_store where
  "finished_jobs = \<lparr>rl_jobs = [\<lparr>jb_operation = sample_op, jb_state = SUCCEEDED, jb_spec = sample_spec,
     jb_result = Some sample_result\<rparr>], rl_steps = []\<rparr>"

lemma parked_dispatch: "\<exists>d. find_dispatch sample_op (parked_writes why) = Some d \<and> dw_state d = D_parked"
  by (simp add: find_dispatch_def parked_writes_def outcome_writes_def set_defs row_simps Let_def claimed_dispatch_def
      closed_dispatch_state_def)

lemma parked_recovers:
  "\<exists>rec r'. recover_terminal_from_receipt sample_op 1 SUCCEEDED w ''rlm_terminal_receipt'' (or_input_digest parked_row)
     1300 (parked_writes why) = Inr (rec, r')"
proof -
  obtain d where d: "find_dispatch sample_op (parked_writes why) = Some d" "dw_state d = D_parked"
    using parked_dispatch by blast
  have f: "find_op sample_op (parked_writes why) = Some parked_row" "or_state parked_row = INDETERMINATE"
    using parked_record [of why] by (auto dest!: get_record_Inr simp: parked_row_def outcome_op_def)
  define q where "q = receipt_op SUCCEEDED 1 w 3 1300 parked_row"
  have q: "record_model q = Inr q"
    using parked_record [of why]
    by (simp add: q_def receipt_op_def) (simp add: parked_row_def outcome_op_def claimed_op_def sample_args_def
      sample_row_def fresh_op_row_def record_model_def validated_def positive_counter_def revision_def max_i64_def)
  have "find_op sample_op (insert_event i st ce rv nw no at k pl
      (receipt_writes sample_op SUCCEEDED w rc dg 1300 parked_row n (parked_writes why))) = Some q"
    for i st ce rv nw no at k pl rc dg n
    using f by (cases n) (simp_all add: receipt_writes_def Let_def set_defs find_op_def row_simps q_def receipt_op_def
      parked_row_def outcome_op_def)
  with q have "get_record sample_op (insert_event i st ce rv nw no at k pl
      (receipt_writes sample_op SUCCEEDED w rc dg 1300 parked_row n (parked_writes why))) = Inr q"
    for i st ce rv nw no at k pl rc dg n
    by (simp add: get_record_def get_op_def)
  with d f show ?thesis by (simp add: recover_terminal_from_receipt_def get_op_def Let_def)
qed

lemma finished_recovers:
  "\<exists>t. recover_candidate sample_config parked_row (sample_host finished_jobs (parked_writes why)) = (Inr (), t)"
proof -
  have i: "or_operation parked_row = sample_op"
    using parked_record by (auto dest!: get_record_Inr find_op_SomeD)
  have j: "find_job sample_op finished_jobs = Some \<lparr>jb_operation = sample_op, jb_state = SUCCEEDED, jb_spec = sample_spec,
      jb_result = Some sample_result\<rparr>"
    by (simp add: finished_jobs_def find_job_def fetchone_def)
  obtain rec r' where "recover_terminal_from_receipt sample_op 1 SUCCEEDED (result_text sample_result) ''rlm_terminal_receipt''
      (or_input_digest parked_row) 1300 (parked_writes why) = Inr (rec, r')"
    using parked_recovers by blast
  then show ?thesis
    by (simp add: recover_candidate_def i j seq_def ask_def rlm_exists_def rlm_snapshot_def rlm_terminal_result_def
        sample_host_def project_receipt_def host_write_def poll_def on_registry_def in_registry_def transact_def
        outer_access_def ret_def Let_def)
qed

section \<open>A mutation without acknowledgement\<close>

definition counting_host :: "(unit, unit) host" where
  "counting_host = (sample_host no_jobs sample_accepted)\<lparr>lm_outer := (lm_outer (sample_host no_jobs sample_accepted))
     \<lparr>ou_workspaces := new_counter\<rparr>\<rparr>"

definition begun_row :: op_row where
  "begun_row = transition_row begin_args 1 1300 sample_row"

definition lost_row :: op_row where
  "lost_row = transition_row (mark_indeterminate_args ''transport_loss_after_workspace_commit'') 1 1300 begun_row"

definition settled_row :: "string \<Rightarrow> op_row" where
  "settled_row w = transition_row (succeed_args w True) 1 1300 lost_row"

lemmas transition_defs = begin_op_def mark_indeterminate_def succeed_def transition_row_def begin_args_def
  mark_indeterminate_args_def succeed_args_def

lemma mutation_rows:
  "record_model begun_row = Inr begun_row" "record_model lost_row = Inr lost_row"
  "record_model (settled_row w) = Inr (settled_row w)"
  "or_operation begun_row = sample_op" "or_operation lost_row = sample_op" "or_operation (settled_row w) = sample_op"
  "or_state begun_row = RUNNING" "or_state lost_row = INDETERMINATE" "or_state (settled_row w) = SUCCEEDED"
  "or_runtime_generation begun_row = 1" "or_runtime_generation lost_row = 1"
proof -
  note d = settled_row_def lost_row_def begun_row_def transition_defs record_model_def sample_row_def fresh_op_row_def
    sample_op_def sample_envelope_def validated_def positive_counter_def revision_def max_i64_def
  show "record_model begun_row = Inr begun_row" "record_model lost_row = Inr lost_row"
    "record_model (settled_row w) = Inr (settled_row w)" by (simp_all add: d)
  show "or_operation begun_row = sample_op" "or_operation lost_row = sample_op" "or_operation (settled_row w) = sample_op"
    "or_state begun_row = RUNNING" "or_state lost_row = INDETERMINATE" "or_state (settled_row w) = SUCCEEDED"
    "or_runtime_generation begun_row = 1" "or_runtime_generation lost_row = 1"
    by (simp_all add: settled_row_def lost_row_def begun_row_def transition_defs)
qed

text \<open>A transition on a registry of one row.\<close>

lemma one_row_transition:
  assumes "rg_operations r = [x]" "or_operation x = sample_op" "rg_generation r = 1" "or_state x \<in> set (ta_expected a)"
    and "ta_allow_generation_change a \<or> or_runtime_generation x = 1"
    and "record_model (transition_row a 1 1300 x) = Inr (transition_row a 1 1300 x)"
  shows "\<exists>r'. transition sample_op a 1 1300 r = Inr (transition_row a 1 1300 x, r') \<and> rg_generation r' = 1 \<and>
    rg_operations r' = [transition_row a 1 1300 x]"
  using assms
  by (auto simp: transition_def get_op_def find_op_def row_simps Let_def set_op_def get_record_def transition_row_def)

lemma one_row_write:
  assumes "f 1300 (ou_registry (lm_outer s)) = Inr (x, r)"
  shows "host_write sample_config f s =
    (Inr x, s\<lparr>lm_outer := (lm_outer s)\<lparr>ou_ticks := Suc (Suc (ou_ticks (lm_outer s))), ou_registry := r\<rparr>\<rparr>)"
  using assms by (simp add: host_write_def poll_def on_registry_def in_registry_def outer_access_def transact_def)

lemma counter_for_sample:
  "workspace_execute sample_op counter_spec None new_counter = Inr (counter_result, counter
     \<lparr>wt_receipts := [\<lparr>mv_operation = sample_op, mv_workspace = WorkspaceRef ''w'', mv_result = counter_result\<rparr>]\<rparr>)"
  by (simp add: workspace_execute_def find_receipt_def workspace_row_def find_workspace_def fetchone_def
      new_counter_def counter_spec_def check_version_def mutated_state_def read_key_def stored_state_def
      validate_mutation_result_def validated_def positive_counter_def revision_def max_i64_def
      counter_result_def counter_def update_rows_def)

definition lost_counter :: "(unit, unit) host" where
  "lost_counter = snd (run_execute sample_config (\<lambda>_. Inr counter_spec) sample_op
     (Some ''transport_loss_after_workspace_commit'') counting_host)"

lemma counting_parts [simp]:
  "ou_registry (lm_outer counting_host) = sample_accepted" "ou_workspaces (lm_outer counting_host) = new_counter"
  by (simp_all add: counting_host_def sample_host_def)

lemma lost_read:
  "host_read sample_config (get_record sample_op) counting_host =
     (Inr sample_row, counting_host\<lparr>lm_outer := (lm_outer counting_host)\<lparr>ou_ticks := 1\<rparr>\<rparr>)"
  "or_state sample_row = ACCEPTED" "or_state lost_row = INDETERMINATE"
  by (simp_all add: host_read_def poll_def on_read_def outer_access_def counting_host_def sample_host_def get_record_def
      get_op_def find_op_def row_simps mutation_rows)

lemma lost_run_steps:
  obtains t where "run_execute sample_config (\<lambda>_. Inr counter_spec) sample_op
      (Some ''transport_loss_after_workspace_commit'') counting_host = (Inr lost_row, t)"
    "rg_operations (ou_registry (lm_outer t)) = [lost_row]" "rg_generation (ou_registry (lm_outer t)) = 1"
    "workspace_receipt sample_op (ou_workspaces (lm_outer t)) = Inr (Some counter_result)"
proof -
  obtain r1 where r1: "transition sample_op begin_args 1 1300 sample_accepted = Inr (begun_row, r1)"
    "rg_operations r1 = [begun_row]" "rg_generation r1 = 1"
    using one_row_transition [of sample_accepted sample_row begin_args] mutation_rows(1)
    by (auto simp: begun_row_def begin_args_def)
  obtain r2 where r2: "transition sample_op (mark_indeterminate_args ''transport_loss_after_workspace_commit'') 1 1300 r1 =
      Inr (lost_row, r2)" "rg_operations r2 = [lost_row]" "rg_generation r2 = 1"
    using one_row_transition [of r1 begun_row "mark_indeterminate_args ''transport_loss_after_workspace_commit''"] r1
      mutation_rows by (auto simp: lost_row_def mark_indeterminate_args_def)
  have "\<exists>t. run_execute sample_config (\<lambda>_. Inr counter_spec) sample_op (Some ''transport_loss_after_workspace_commit'')
      counting_host = (Inr lost_row, t) \<and> ou_registry (lm_outer t) = r2 \<and>
    ou_workspaces (lm_outer t) = counter\<lparr>wt_receipts :=
      [\<lparr>mv_operation = sample_op, mv_workspace = WorkspaceRef ''w'', mv_result = counter_result\<rparr>]\<rparr>"
    by (simp add: run_execute_def seq_def lost_read now_ms_def poll_def begin_op_def one_row_write r1 of_res_def ret_def
        try_else_def on_workspaces_def transact_def counter_for_sample
        mark_indeterminate_def r2)
  then show ?thesis using that r2
    by (auto simp: workspace_receipt_def find_receipt_def fetchone_def counter_result_def validate_mutation_result_def
        validated_def positive_counter_def revision_def max_i64_def)
qed

lemma lost_run: "run_execute sample_config (\<lambda>_. Inr counter_spec) sample_op
    (Some ''transport_loss_after_workspace_commit'') counting_host = (Inr lost_row, lost_counter)"
  by (rule lost_run_steps) (simp add: lost_counter_def)

lemma lost_settles: "\<exists>rec v. settle_mutation sample_config sample_op lost_counter = (Inr rec, v)"
proof (rule lost_run_steps)
  fix t assume t: "run_execute sample_config (\<lambda>_. Inr counter_spec) sample_op
      (Some ''transport_loss_after_workspace_commit'') counting_host = (Inr lost_row, t)"
    "rg_operations (ou_registry (lm_outer t)) = [lost_row]" "rg_generation (ou_registry (lm_outer t)) = 1"
    "workspace_receipt sample_op (ou_workspaces (lm_outer t)) = Inr (Some counter_result)"
  let ?w = "canonical_json_text (mutation_result_json counter_result)"
  have u: "lost_counter = t" using t(1) by (simp add: lost_counter_def)
  obtain r3 where "transition sample_op (succeed_args ?w True) 1 1300 (ou_registry (lm_outer t)) = Inr (settled_row ?w, r3)"
    using one_row_transition [of "ou_registry (lm_outer t)" lost_row "succeed_args ?w True"] t mutation_rows
    by (auto simp: settled_row_def succeed_args_def)
  then show ?thesis
    by (simp add: u settle_mutation_def seq_def ask_workspaces_def ask_def t(4) succeed_def one_row_write)
qed

section \<open>An admitted job\<close>

definition admitted_envelope :: request_envelope where
  "admitted_envelope = sample_envelope
     \<lparr>en_grants := [\<lparr>gr_grant_id = ''g-1'', gr_capability = ''rlm.execute'', gr_issued_to = PrincipalRef ''alice'',
          gr_expires_at = 5000, gr_constraints = []\<rparr>,
        \<lparr>gr_grant_id = ''g-2'', gr_capability = ''model.request'', gr_issued_to = PrincipalRef ''alice'',
          gr_expires_at = 5000, gr_constraints = []\<rparr>],
      en_budget := \<lparr>bu_wall_time_ms = 60000, bu_model_requests = 1, bu_input_tokens = 0,
        bu_output_tokens = 0, bu_child_operations = 0, bu_artifact_bytes = 0\<rparr>,
      en_input_digest := json_digest (rlm_job_spec_json sample_spec)\<rparr>"

lemma admitted_valid:
  "validate_rlm_request sample_config admitted_envelope sample_spec (sample_host no_jobs sample_started) =
     (Inr (), (sample_host no_jobs sample_started)\<lparr>lm_outer := (lm_outer (sample_host no_jobs sample_started))
        \<lparr>ou_ticks := Suc (Suc 0)\<rparr>\<rparr>)"
  by (simp add: validate_rlm_request_def check_authority_def seq_def raise_if_def now_ms_def poll_def
      admitted_envelope_def sample_envelope_def granted_capabilities_def required_capabilities_def sample_spec_def
      sample_host_def ret_def)

lemma admitted_accepts:
  "\<exists>rec r. accept admitted_envelope w None 1300 sample_started = Inr ((rec, True), r) \<and>
     or_operation rec = operation_id_of admitted_envelope"
proof -
  let ?x = "fresh_op_row admitted_envelope w 1300"
  have "record_model ?x = Inr ?x"
    by (simp add: record_model_def validated_def positive_counter_def revision_def max_i64_def fresh_op_row_def
      admitted_envelope_def sample_envelope_def)
  moreover have "or_operation ?x = operation_id_of admitted_envelope" by (simp add: fresh_op_row_def)
  ultimately show ?thesis
    by (simp add: accept_def find_scoped_def row_simps insert_row_def run_admission_def Let_def get_record_def
        get_op_def find_op_def)
qed

lemma admitted_job:
  "\<exists>rec t. submit_rlm sample_config admitted_envelope sample_spec None (sample_host no_jobs sample_started) = (Inr rec, t)"
proof -
  let ?w = "canonical_json_text (rlm_job_spec_json sample_spec)"
  obtain rec r where "accept admitted_envelope ?w None 1300 sample_started = Inr ((rec, True), r)"
    "or_operation rec = operation_id_of admitted_envelope" using admitted_accepts by blast
  then show ?thesis
    unfolding submit_rlm_def seq_step [where m = "validate_rlm_request sample_config admitted_envelope sample_spec"
        and s = "sample_host no_jobs sample_started", OF admitted_valid]
    by (simp add: seq_def of_res_def chosen_route_def host_accept_def accept_bound_def sample_host_def
        on_store_def transact_def rlm_ensure_def find_job_def fetchone_def no_jobs_def ret_def set_models_def)
qed

end
