(* ===== verification/Host_Properties.thy ===== *)
theory Host_Properties
  imports Host_Samples
begin

text \<open>
  Properties that span the dispatcher and the reference host.
\<close>

section \<open>The dispatcher\<close>

text \<open>C3: When a worker thread has run the claim it holds, whatever its handler did or raised and
  whatever other threads did to the registry meanwhile, the thread is free for the next claim, and
  the operation is no longer running or the claim's fence is stale from the last clock reading on:
  no worker leaves a running operation behind that it still owns. The operation's record has to be
  readable, with a revision that can still be incremented.\<close>

theorem worker_settles_every_claim:
  assumes "reachable (ou_registry (lm_outer (dg_host x)))"
    and "\<And>j. 1 \<le> hc_clock c j" "\<And>j. hc_clock c j \<le> t" "t \<le> max_i64"
    and "dp_workers (dg_dispatcher x) ! n = Holding k" "n < length (dp_workers (dg_dispatcher x))"
    and y: "y = worker_step (dispatched_host c) n x"
    and "get_record (at_operation (dc_attempt k)) (ou_registry (lm_outer (dg_host y))) = Inr z"
    and "or_record_revision z < max_i64"
  shows "dp_workers (dg_dispatcher y) ! n = Checking \<and>
    (or_state z \<noteq> RUNNING \<or> (\<forall>now \<ge> t. \<exists>e.
      validate_fence (worker_fence (dg_dispatcher x) k) now (ou_registry (lm_outer (dg_host y))) = Inl e))"
proof -
  let ?f = "worker_fence (dg_dispatcher x) k"
  let ?run = "run_claim (dispatched_host c) ?f (dc_kind k)"
  have "\<exists>s. ?run (dg_host x) = (Inr (), s)" by (rule dispatched.run_claim_never_raises)
  then have "snd (catch ?run (park_claim (dispatched_host c) ?f) (dg_host x)) = snd (?run (dg_host x))"
    by (auto simp: catch_def)
  with assms(5,6) have h: "dg_host y = snd (?run (dg_host x))" and w: "dp_workers (dg_dispatcher y) ! n = Checking"
    by (simp_all add: y worker_step_def Let_def set_worker_def)
  have "clocked (dispatched_host c) t"
    using assms(2-4) by (auto simp: clocked_def read_time_def positive_counter_def intro: order_trans)
  with assms(1) have "settled ?f t (ou_registry (lm_outer (dg_host y)))"
    using dispatched.run_claim_settles [of c "dg_host x" t ?f "dc_kind k"] by (simp add: h)
  moreover have "fn_operation ?f = at_operation (dc_attempt k)" by (simp add: worker_fence_def)
  ultimately show ?thesis using assms(8,9) w by (auto simp: settled_def)
qed

text \<open>A worker with a claim of a kind the host does not know.\<close>

definition foreign_claim :: dispatch_claim where
  "foreign_claim = sample_claim\<lparr>dc_kind := ''other''\<rparr>"

definition sample_dispatcher :: "worker list \<Rightarrow> dispatcher" where
  "sample_dispatcher ws = \<lparr>dp_concurrency = 1, dp_lease_duration = 30000, dp_idle_poll = 100,
     dp_generation = 1, dp_owner_digest = json_digest (JStr ''owner''), dp_started = True,
     dp_closing = False, dp_closed = False, dp_in_flight = 0, dp_workers = ws\<rparr>"

definition holding_one :: "(unit, unit) host dispatching" where
  "holding_one = \<lparr>dg_dispatcher = sample_dispatcher [Holding foreign_claim],
     dg_host = sample_host no_jobs sample_running\<rparr>"

lemma foreign_fence: "worker_fence (sample_dispatcher ws) foreign_claim = sample_fence"
  by (simp add: worker_fence_def sample_dispatcher_def foreign_claim_def sample_fence_def fence_of_def sample_claim_def)

lemma foreign_run:
  "run_claim (dispatched_host sample_config) sample_fence ''other'' s =
     park_claim (dispatched_host sample_config) sample_fence
       (ReferenceHostError ''unsupported durable dispatch kind: other'') s"
  by (simp add: run_claim_def run_handler_def dispatch_kind_def run_claimed_def workspace_program_kind_def
      rlm_operation_kind_def throw_def try_else_def handler_failed_def marker_of_def catch_def seq_def ret_def
      mark_dispatch_failure_for_kind_def)

lemma sample_parks:
  "park_claim (dispatched_host sample_config) sample_fence e (sample_host db sample_running) =
     (Inr (), (sample_host db (parked_writes (''dispatcher_worker_exception:'' @ exn_name e)))
        \<lparr>lm_outer := \<lparr>ou_registry = parked_writes (''dispatcher_worker_exception:'' @ exn_name e), ou_ticks = 3,
           ou_workspaces = empty_workspaces, ou_backend = ()\<rparr>\<rparr>)"
  by (simp add: park_claim_def catch_def seq_def ret_def on_fenced_def in_registry_def transact_def
      sample_host_def sample_park)

lemma foreign_parked:
  "ou_registry (lm_outer (dg_host (worker_step (dispatched_host sample_config) 0 holding_one))) =
     parked_writes ''dispatcher_worker_exception:ReferenceHostError''"
proof -
  have "dc_kind foreign_claim = ''other''" by (simp add: foreign_claim_def)
  moreover have "dp_workers (sample_dispatcher ws) = ws" for ws by (simp add: sample_dispatcher_def)
  ultimately show ?thesis
    by (simp add: holding_one_def worker_step_def foreign_fence Let_def foreign_run sample_parks catch_def)
qed

theorem worker_settles_every_claim_witness:
  "dp_workers (dg_dispatcher (worker_step (dispatched_host sample_config) 0 holding_one)) ! 0 = Checking \<and>
     or_state parked_row = INDETERMINATE"
proof -
  let ?y = "worker_step (dispatched_host sample_config) 0 holding_one"
  have s: "reachable (ou_registry (lm_outer (dg_host holding_one)))"
    using sample_run(4) by (simp add: holding_one_def sample_host_def)
  have w: "dp_workers (dg_dispatcher holding_one) ! 0 = Holding foreign_claim"
    "0 < length (dp_workers (dg_dispatcher holding_one))"
    "worker_fence (dg_dispatcher holding_one) foreign_claim = sample_fence"
    by (simp_all add: holding_one_def foreign_fence) (simp_all add: sample_dispatcher_def)
  have g: "get_record (at_operation (dc_attempt foreign_claim)) (ou_registry (lm_outer (dg_host ?y))) = Inr parked_row"
    unfolding foreign_parked using parked_record [of "''dispatcher_worker_exception:ReferenceHostError''"]
    by (simp add: foreign_claim_def sample_claim_def)
  have c: "1 \<le> hc_clock sample_config j" "hc_clock sample_config j \<le> 1300" for j by simp_all
  have t: "(1300 :: int) \<le> max_i64" "or_record_revision parked_row < max_i64"
    by (simp_all add: max_i64_def parked_row_def outcome_op_def)
  have "or_state parked_row = INDETERMINATE" by (simp add: parked_row_def outcome_op_def)
  then show ?thesis
    using worker_settles_every_claim [OF s c t(1) w(1,2) refl g t(2)] by simp
qed

text \<open>C34: Once a dispatcher is closing, its threads stop without more work to wait for: however the
  operating system schedules them and whatever else happens to the host in between, a schedule
  that runs every thread at least three times ends them all, and \<open>close\<close> finds nobody alive.\<close>

theorem closing_dispatcher_drains:
  assumes "dp_closing (dg_dispatcher x)"
    and "\<forall>(n, g) \<in> set ns. n < length (dp_workers (dg_dispatcher x))"
    and "\<forall>n < length (dp_workers (dg_dispatcher x)). 3 \<le> length (filter (\<lambda>p. fst p = n) ns)"
  shows "close_end (dg_dispatcher (scheduled h ns x)) = Inr ()"
proof -
  have "dp_workers (dg_dispatcher (scheduled h ns x)) ! m = Ended" if "m < length (dp_workers (dg_dispatcher x))" for m
  proof -
    have "3 \<le> length (filter (\<lambda>p. fst p = m) ns)" using assms(3) that by blast
    then have "worker_rank (dp_workers (dg_dispatcher (scheduled h ns x)) ! m) = 0"
      using closing_schedule(2) [OF assms(1,2) that, of h]
        worker_rank_bound(1) [of "dp_workers (dg_dispatcher x) ! m"] by linarith
    then show ?thesis by (simp add: worker_rank_bound(2))
  qed
  moreover have "length (dp_workers (dg_dispatcher (scheduled h ns x))) = length (dp_workers (dg_dispatcher x))"
    if "dp_workers (dg_dispatcher x) \<noteq> []"
    using closing_schedule(1) [OF assms(1,2), of 0 h] that by simp
  moreover have "scheduled h ns x = x" if "dp_workers (dg_dispatcher x) = []"
    using assms(2) that by (cases ns) (auto simp: scheduled_def)
  ultimately show ?thesis
    by (cases "dp_workers (dg_dispatcher x) = []") (auto simp: close_end_Inr in_set_conv_nth)
qed

definition closing_one :: "(unit, unit) host dispatching" where
  "closing_one = holding_one\<lparr>dg_dispatcher := close_begin (sample_dispatcher [Holding foreign_claim])\<rparr>"

theorem closing_dispatcher_drains_witness:
  "close_end (dg_dispatcher (scheduled (dispatched_host sample_config) (replicate 3 (0, id)) closing_one)) = Inr ()"
  by (rule closing_dispatcher_drains)
    (simp_all add: closing_one_def close_begin_def sample_dispatcher_def)

text \<open>After a close that reported no live thread, the dispatcher does nothing any more: no later
  thread step, start, close or notification changes it, a thread's step leaves the host as it was,
  and a notification is refused without touching the registry.\<close>

theorem drained_dispatcher_is_silent:
  assumes "drained (dg_dispatcher x)" "(dispatch_step h)\<^sup>*\<^sup>* x y"
  shows "dg_dispatcher y = dg_dispatcher x \<and>
    (\<forall>n < length (dp_workers (dg_dispatcher x)). worker_step h n y = y) \<and>
    (\<forall>i kind. snd (dispatcher_notify h i kind y) = y \<and> fst (dispatcher_notify h i kind y) \<in> range Inl)"
proof -
  have y: "dg_dispatcher y = dg_dispatcher x" by (rule drained_steps [OF assms(2,1)])
  with assms(1) have "drained (dg_dispatcher y)" by simp
  then show ?thesis using drained_worker [of y] drained_calls(2,3) [of y] by (simp add: y)
qed

theorem drained_dispatcher_is_silent_witness:
  "\<exists>y. (dispatch_step (dispatched_host sample_config))\<^sup>*\<^sup>* y y \<and>
     worker_step (dispatched_host sample_config) 0 y = y"
proof -
  let ?x = "holding_one\<lparr>dg_dispatcher := close_begin (sample_dispatcher [Ended])\<rparr>"
  have "drained (dg_dispatcher ?x)"
    by (simp add: drained_def close_end_Inr close_begin_def sample_dispatcher_def)
  from drained_dispatcher_is_silent [OF this rtranclp.rtrancl_refl, of "dispatched_host sample_config"] show ?thesis
    by (intro exI [of _ ?x]) (simp add: close_begin_def sample_dispatcher_def)
qed

section \<open>Admission\<close>

text \<open>C26: A job is admitted only with authority for it. When submission returned, the request named the
  host's own generation and capabilities, its deadline was still ahead of the clock and within its wall
  time budget of at most a minute, at most 16 model requests were asked for, every capability its
  strategy needs was granted to its principal until the deadline, its digest was that of exactly this
  specification, and no workspace was bound. What is stored is that intent with the canonical bytes of
  the specification, and a job of that specification.\<close>

theorem admitted_jobs_are_authorised:
  assumes "submit_rlm c e spec profile s = (Inr rec, t)"
  shows "(\<exists>m n. authorised c e spec (hc_clock c m) (hc_clock c n)) \<and>
    rec \<in> set (rg_operations (ou_registry (lm_outer t))) \<and>
    or_payload_json rec = canonical_json_text (rlm_job_spec_json spec) \<and> or_input_digest rec = en_input_digest e \<and>
    (\<exists>j. find_job (or_operation rec) (lm_store t) = Some j \<and> jb_spec j = spec)"
proof -
  from assms obtain s1 s2 binding new db where v: "validate_rlm_request c e spec s = (Inr (), s1)"
    and a: "host_accept c e (canonical_json_text (rlm_job_spec_json spec)) binding s1 = (Inr (rec, new), s2)"
    and j: "rlm_ensure (or_operation rec) spec (lm_store s2) = Inr ((), db)" and t: "t = s2\<lparr>lm_store := db\<rparr>"
    by (auto simp: submit_rlm_def seq_Inr of_res_run on_store_Inr ret_run)
  have "\<exists>j. find_job (or_operation rec) db = Some j \<and> jb_spec j = spec"
    using j by (auto simp: rlm_ensure_def find_job_def fetchone_append split: option.split_asm if_split_asm)
      (simp add: fetchone_def)
  with validated_request [OF v] host_accept_Inr [OF a] show ?thesis by (simp add: t)
qed

theorem admitted_jobs_are_authorised_witness:
  "\<exists>m n. authorised sample_config admitted_envelope sample_spec (hc_clock sample_config m) (hc_clock sample_config n)"
proof -
  obtain rec t where "submit_rlm sample_config admitted_envelope sample_spec None (sample_host no_jobs sample_started) =
    (Inr rec, t)" using admitted_job by blast
  from admitted_jobs_are_authorised [OF this] show ?thesis by blast
qed

section \<open>Outcomes\<close>

text \<open>C8: A claimed run that found its operation running and returned has committed an outer record that
  agrees with the job behind it, whatever failed inside: a success carries exactly the canonical bytes
  of the result in the job's terminal receipt, a cancellation, timeout or failure carries the snapshot
  of a job that was marked so or had finished before, and an unknown outcome carries no result.\<close>

theorem claimed_runs_agree_with_their_job:
  fixes c :: "('s, 'w) program_config" and s :: "('s, 'w) host"
  assumes "reachable (ou_registry (lm_outer s))" "run_claimed_rlm c i f s = (Inr rec, t)"
    and "host_read c (get_record i) s = (Inr before, s0)" "or_state before = RUNNING"
  shows "find_op i (ou_registry (lm_outer t)) = Some rec \<and>
    (case or_state rec of
       SUCCEEDED \<Rightarrow> \<exists>r. rlm_terminal_result i (lm_store t) = Some r \<and> or_result_json rec = Some (result_text r)
     | INDETERMINATE \<Rightarrow> or_result_json rec = None \<and> job_in i INDETERMINATE (lm_store t)
     | st \<Rightarrow> st \<in> {CANCELLED, TIMED_OUT, FAILED} \<and> job_in i st (lm_store t) \<and>
         (\<exists>n. or_result_json rec = Some (snapshot_text n) \<and> jn_operation n = i \<and> jn_state n = st))"
  using claimed_run_agrees [OF assms] by (simp add: agrees_def)

theorem claimed_runs_agree_with_their_job_witness:
  "\<exists>r t. run_claimed_rlm sample_config sample_op sample_fence (sample_host resumed_jobs sample_running) =
       (Inr (finished_row r), t) \<and>
     (\<exists>r'. rlm_terminal_result sample_op (lm_store t) = Some r' \<and> result_text r = result_text r')"
proof -
  obtain r t where r: "run_claimed_rlm sample_config sample_op sample_fence (sample_host resumed_jobs sample_running) =
    (Inr (finished_row r), t)" using resumed_claim by blast
  have s: "reachable (ou_registry (lm_outer (sample_host resumed_jobs sample_running)))"
    using sample_run(4) by (simp add: sample_host_def)
  have read: "host_read sample_config (get_record sample_op) (sample_host resumed_jobs sample_running) =
      (Inr (claimed_op sample_args 1 sample_row), snd (host_read sample_config (get_record sample_op)
        (sample_host resumed_jobs sample_running)))"
    by (simp add: host_read_def poll_def on_read_def outer_access_def sample_host_def sample_running_record)
  have "or_state (claimed_op sample_args 1 sample_row) = RUNNING" by (simp add: claimed_op_def)
  from claimed_runs_agree_with_their_job [OF s r read this] r show ?thesis
    by (auto simp: finished_row_def outcome_op_def)
qed

text \<open>C19: When a job has its terminal receipt, recovery of its operation commits exactly that: the
  outer operation is a certain success with the canonical bytes of the receipt's result, and neither
  the job store nor any broker or provider is touched. Nothing is run again.\<close>

theorem finished_jobs_are_projected:
  assumes "rlm_terminal_result (or_operation record) (lm_store s) = Some r"
    and "recover_candidate c record s = (Inr (), t)"
  shows "lm_store t = lm_store s \<and> lm_world t = lm_world s \<and>
    (\<exists>x. find_op (or_operation record) (ou_registry (lm_outer t)) = Some x \<and> or_state x = SUCCEEDED \<and>
       or_certainty x = CERTAIN \<and> or_result_json x = Some (result_text r))"
proof -
  have "rlm_exists (or_operation record) (lm_store s)"
    using assms(1) by (auto simp: rlm_terminal_result_def rlm_exists_def split: option.split_asm)
  with assms have "project_receipt c record SUCCEEDED (result_text r) ''rlm_terminal_receipt'' s = (Inr (), t)"
    by (auto simp: recover_candidate_def act_simps Let_def)
  from project_Inr [OF this] show ?thesis by simp
qed

theorem finished_jobs_are_projected_witness:
  "\<exists>t x. recover_candidate sample_config parked_row (sample_host finished_jobs (parked_writes ''lost'')) = (Inr (), t) \<and>
     find_op (or_operation parked_row) (ou_registry (lm_outer t)) = Some x \<and> or_state x = SUCCEEDED"
proof -
  let ?s = "sample_host finished_jobs (parked_writes ''lost'')"
  have r: "rlm_terminal_result (or_operation parked_row) (lm_store ?s) = Some sample_result"
    by (simp add: parked_row_def outcome_op_def claimed_op_def finished_jobs_def rlm_terminal_result_def find_job_def
        fetchone_def sample_host_def)
  obtain t where t: "recover_candidate sample_config parked_row ?s = (Inr (), t)"
    using finished_recovers by blast
  from finished_jobs_are_projected [OF r t] t show ?thesis by blast
qed

text \<open>C29: A mutation whose acknowledgement was lost after its commit is not lost: however the workspaces
  move on, reconciling the operation later commits it as the success it was, with the canonical bytes of
  the one receipt it left, and touches no workspace.\<close>

theorem lost_mutations_are_recovered:
  assumes "workspace_step\<^sup>*\<^sup>* empty_workspaces (ou_workspaces (lm_outer s))"
    and "run_execute c parse i (Some ''transport_loss_after_workspace_commit'') s = (Inr rec, t)"
    and "host_read c (get_record i) s = (Inr before, s0)" "or_state before = ACCEPTED" "or_state rec = INDETERMINATE"
    and "workspace_step\<^sup>*\<^sup>* (ou_workspaces (lm_outer t)) (ou_workspaces (lm_outer u))"
    and "settle_mutation c i u = (Inr rec', v)"
  shows "\<exists>r. workspace_receipt i (ou_workspaces (lm_outer t)) = Inr (Some r) \<and>
    find_op i (ou_registry (lm_outer v)) = Some rec' \<and> or_state rec' = SUCCEEDED \<and>
    or_result_json rec' = Some (canonical_json_text (mutation_result_json r)) \<and>
    ou_workspaces (lm_outer v) = ou_workspaces (lm_outer u)"
proof -
  obtain k where k: "find_receipt i (ou_workspaces (lm_outer t)) = Some k"
    "validate_mutation_result (mv_result k) = Inr (mv_result k)"
    using lost_execution [OF assms(2-5) workspace_steps_ok [OF assms(1)]] by blast
  from receipts_kept [OF assms(6) k(1)] k(2)
  have "workspace_receipt i (ou_workspaces (lm_outer u)) = Inr (Some (mv_result k))"
    by (simp add: workspace_receipt_def)
  with settle_Inr [OF assms(7)] k show ?thesis by (auto simp: workspace_receipt_def)
qed

theorem lost_mutations_are_recovered_witness:
  "\<exists>rec v. settle_mutation sample_config sample_op lost_counter = (Inr rec, v) \<and> or_state rec = SUCCEEDED"
proof -
  obtain rec v where v: "settle_mutation sample_config sample_op lost_counter = (Inr rec, v)"
    using lost_settles by blast
  have e: "workspace_step\<^sup>*\<^sup>* empty_workspaces (ou_workspaces (lm_outer counting_host))"
    using counter_steps(1) by (simp add: counting_host_def)
  from lost_mutations_are_recovered [OF e lost_run lost_read(1) lost_read(2) lost_read(3) rtranclp.rtrancl_refl v] v
  show ?thesis by blast
qed

section \<open>Two observations\<close>

text \<open>
  A claimed run treats a stale fence like any other runtime error of the execution: when a heartbeat
  finds that the lease was lost, the worker marks the inner job failed before its fenced commit is
  refused, although the job may by then belong to the attempt that took over.
\<close>

lemma stale_outcome: "run_outcome_of True (StaleAttemptFence why) \<in> range (\<lambda>(k, code, m). Run_failed k code m)"
  by (auto simp: run_outcome_of_def Let_def image_iff is_runtime_error_def)

lemma rlm_status_store: "lm_store (snd (rlm_status c i a s)) = lm_store s"
  by (auto simp: rlm_status_def seq_def ask_def host_read_def poll_def split: sum.split prod.split)

lemma claimed_outcome_store: "lm_store (snd (claimed_outcome c f st j fl why s)) = lm_store s"
  by (simp add: claimed_outcome_def host_fenced_def poll_def)

lemma stale_worker_fails_the_job:
  assumes "find_job i (lm_store s) = Some j" "jb_state j = RUNNING"
  shows "\<exists>k. find_job i (lm_store (snd (claimed_error c i f (StaleAttemptFence why) s))) = Some k \<and> jb_state k = FAILED"
proof -
  let ?db = "set_job i (\<lambda>j. j\<lparr>jb_state := FAILED\<rparr>) (lm_store s)"
  obtain k code m where o: "run_outcome_of True (StaleAttemptFence why) = Run_failed k code m"
    using stale_outcome [of why] by auto
  have mark: "on_store (rlm_mark i FAILED) s = (Inr (), s\<lparr>lm_store := ?db\<rparr>)"
    using assms by (simp add: on_store_def transact_def rlm_mark_def)
  have "lm_store (snd (fail_claimed_rlm c i f k code m s)) = ?db"
    using rlm_status_store [of c i "Some FAILED" "s\<lparr>lm_store := ?db\<rparr>"]
    by (auto simp: claimed_outcome_store fail_claimed_rlm_def mark_and_snapshot_def seq_def mark ret_def of_res_def split: sum.split prod.split)
  then show ?thesis using assms by (simp add: claimed_error_def o find_set_job)
qed

text \<open>
  Recovery of a checkpoint handles only some of the errors a restore can raise. A corrupt artifact or
  a stale generation leaves recovery with an exception, and then the worker that recovered claims
  nothing: it waits and meets the same candidate again, and so does every other worker.
\<close>

lemma restore_raises:
  assumes "restore_selected c record selection m h s = (Inl e, t)" "e = RuntimeFailure why \<or> e = StaleWorkspaceGeneration why"
    and "wp_manifest plan = Some m" "selection_of record policy prior m = Inr selection"
  shows "restore_candidate c record policy prior h plan s = (Inl e, t)"
  using assms
  by (auto simp: restore_candidate_def seq_def of_res_def try_else_def restore_failed_def restore_error_def is_registry_error_def throw_def)

lemma recovery_error_blocks_claims:
  assumes "dp_workers (dg_dispatcher x) ! n = Claiming" "n < length (dp_workers (dg_dispatcher x))"
    and "recover_durable c (dg_host x) = (Inl e, s)"
  shows "dp_workers (dg_dispatcher (worker_step (dispatched_host c) n x)) ! n = Waiting"
    "dg_host (worker_step (dispatched_host c) n x) = s"
  using assms by (simp_all add: worker_step_def Let_def claim_work_def seq_def set_worker_def)

end
