(* ===== verification/Caller_Models.thy ===== *)
theory Caller_Models
  imports Model_Journal
begin

text \<open>
  The documents of caller-delegated work, with the fields their reviewed schemas give them
  (\<open>schemas/aar-caller-work-v1.schema.json\<close>): requests, owners, observations, tickets, candidate
  receipts and the five commands. \<open>ContractDocument\<close> accepts a document when the JSON-Schema
  library does; that verdict is a parameter. Embedded schemas and artifact bindings are JSON.
\<close>

section \<open>Requests and owners\<close>

datatype planner_phase = Ph_initial | Ph_correction | Ph_recovery | Ph_finalizer

fun planner_phase_wire :: "planner_phase \<Rightarrow> string" where
  "planner_phase_wire Ph_initial = ''initial''"
| "planner_phase_wire Ph_correction = ''correction''"
| "planner_phase_wire Ph_recovery = ''recovery''"
| "planner_phase_wire Ph_finalizer = ''finalizer''"

datatype call_owner = Planner_Owner planner_phase int | Cell_Owner string int

fun call_owner_json :: "call_owner \<Rightarrow> json" where
  "call_owner_json (Planner_Owner ph i) = JObj
     [(''kind'', JStr ''planner''), (''phase'', JStr (planner_phase_wire ph)), (''step_index'', JInt i)]"
| "call_owner_json (Cell_Owner c i) = JObj
     [(''kind'', JStr ''cell''), (''cell_execution_id'', JStr c), (''broker_call_ordinal'', JInt i)]"

record json_contract =
  jc_schema_digest :: string
  jc_schema :: json
  jc_max_instance_bytes :: int

definition json_contract_json :: "json_contract \<Rightarrow> json" where
  "json_contract_json c = JObj
     [(''schema_version'', JStr ''aar.json-contract.v1''),
      (''dialect'', JStr ''https://json-schema.org/draft/2020-12/schema''),
      (''profile'', JStr ''aar.json-schema-profile.v1''),
      (''schema_digest'', JStr (jc_schema_digest c)), (''schema'', jc_schema c),
      (''max_instance_bytes'', JInt (jc_max_instance_bytes c))]"

datatype caller_request =
    Model_Request_V2 (mq_prompt: string) (mq_contract: json_contract)
      (mq_binding: model_route_binding) (mq_output_bytes: int)
  | Subagent_Submit_V2 string string json_contract int
  | Subagent_Result_V2 string string
  | Evidence_Query_V2 string int
  | Effect_Propose_V2 string string json string

fun request_method :: "caller_request \<Rightarrow> string" where
  "request_method (Model_Request_V2 p c b n) = ''model.request''"
| "request_method (Subagent_Submit_V2 t p c d) = ''subagent.submit''"
| "request_method (Subagent_Result_V2 e d) = ''subagent.result''"
| "request_method (Evidence_Query_V2 q n) = ''evidence.query''"
| "request_method (Effect_Propose_V2 t d b s) = ''effect.propose''"

fun request_contract_id :: "caller_request \<Rightarrow> string" where
  "request_contract_id (Model_Request_V2 p c b n) = ''aar.broker-contract.model-request.v2''"
| "request_contract_id (Subagent_Submit_V2 t p c d) = ''aar.broker-contract.subagent-submit.v2''"
| "request_contract_id (Subagent_Result_V2 e d) = ''aar.broker-contract.subagent-result.v2''"
| "request_contract_id (Evidence_Query_V2 q n) = ''aar.broker-contract.evidence-query.v2''"
| "request_contract_id (Effect_Propose_V2 t d b s) = ''aar.broker-contract.effect-propose.v2''"

fun request_fields :: "caller_request \<Rightarrow> (string \<times> json) list" where
  "request_fields (Model_Request_V2 p c b n) =
     [(''prompt'', JStr p), (''response_contract'', json_contract_json c),
      (''route_binding'', binding_json b), (''max_output_bytes'', JInt n)]"
| "request_fields (Subagent_Submit_V2 t p c d) =
     [(''task'', JStr t), (''child_profile_id'', JStr p), (''result_contract'', json_contract_json c),
      (''max_depth'', JInt d), (''required'', JBool True)]"
| "request_fields (Subagent_Result_V2 e d) =
     [(''child_execution_id'', JStr e), (''result_contract_digest'', JStr d)]"
| "request_fields (Evidence_Query_V2 q n) = [(''query'', JStr q), (''max_records'', JInt n)]"
| "request_fields (Effect_Propose_V2 t d b s) =
     [(''effect_type'', JStr t), (''payload_digest'', JStr d), (''payload_binding'', b),
      (''summary'', JStr s)]"

definition caller_request_json :: "caller_request \<Rightarrow> json" where
  "caller_request_json r = JObj ((''contract_id'', JStr (request_contract_id r)) #
     (''method'', JStr (request_method r)) # request_fields r)"

text \<open>\<open>ModelRouteBinding.model_validate(request_document["route_binding"], strict=True)\<close>.\<close>

fun request_binding :: "caller_request \<Rightarrow> model_route_binding res" where
  "request_binding (Model_Request_V2 p c b n) = validate_model_route_binding b"
| "request_binding _ = Inl (KeyError ''route_binding'')"

section \<open>Observations\<close>

datatype caller_outcome =
    O_accepted | O_succeeded | O_failed_certain | O_outcome_unknown | O_cancelled_certain
  | O_proposed | O_rejected

fun outcome_wire :: "caller_outcome \<Rightarrow> string" where
  "outcome_wire O_accepted = ''accepted''"
| "outcome_wire O_succeeded = ''succeeded''"
| "outcome_wire O_failed_certain = ''failed_certain''"
| "outcome_wire O_outcome_unknown = ''outcome_unknown''"
| "outcome_wire O_cancelled_certain = ''cancelled_certain''"
| "outcome_wire O_proposed = ''proposed''"
| "outcome_wire O_rejected = ''rejected''"

record model_observation =
  mo_output_text :: "string option"
  mo_output_digest :: "string option"
  mo_route_receipt_digest :: "string option"
  mo_usage_receipt_digest :: "string option"

datatype evidence_kind =
    Model_Observed model_observation
  | Child_Observed string "string option" "string option"
  | Evidence_Observed "string option"
  | Effect_Observed string

record observation =
  ob_outcome :: caller_outcome
  ob_evidence :: evidence_kind
  ob_host_receipt_digest :: string

fun evidence_kind_wire :: "evidence_kind \<Rightarrow> string" where
  "evidence_kind_wire (Model_Observed m) = ''model''"
| "evidence_kind_wire (Child_Observed i r a) = ''subagent''"
| "evidence_kind_wire (Evidence_Observed d) = ''evidence''"
| "evidence_kind_wire (Effect_Observed d) = ''effect''"

fun evidence_fields :: "evidence_kind \<Rightarrow> (string \<times> json) list" where
  "evidence_fields (Model_Observed m) =
     [(''output_text'', opt_json JStr (mo_output_text m)),
      (''output_digest'', opt_json JStr (mo_output_digest m)),
      (''route_receipt_digest'', opt_json JStr (mo_route_receipt_digest m)),
      (''usage_receipt_digest'', opt_json JStr (mo_usage_receipt_digest m))]"
| "evidence_fields (Child_Observed i r a) =
     [(''child_execution_id'', JStr i), (''result_digest'', opt_json JStr r),
      (''artifact_manifest_digest'', opt_json JStr a)]"
| "evidence_fields (Evidence_Observed d) = [(''record_set_digest'', opt_json JStr d)]"
| "evidence_fields (Effect_Observed d) = [(''proposal_digest'', JStr d)]"

definition observation_json :: "observation \<Rightarrow> json" where
  "observation_json ob = JObj ([(''kind'', JStr (evidence_kind_wire (ob_evidence ob))),
     (''outcome'', JStr (outcome_wire (ob_outcome ob)))] @ evidence_fields (ob_evidence ob) @
     [(''host_receipt_digest'', JStr (ob_host_receipt_digest ob))])"

text \<open>The test \<open>kind == "model" and outcome == "succeeded"\<close>.\<close>

definition model_succeeded :: "observation \<Rightarrow> bool" where
  "model_succeeded ob \<longleftrightarrow> evidence_kind_wire (ob_evidence ob) = ''model'' \<and>
     outcome_wire (ob_outcome ob) = ''succeeded''"

section \<open>Tickets\<close>

datatype ticket_state =
    T_pending | T_send_reserved | T_send_started | T_settled_success | T_settled_failure
  | T_outcome_unknown | T_cancel_requested | T_cancelled_before_send | T_cancelled_certain
  | T_quarantined

fun ticket_wire :: "ticket_state \<Rightarrow> string" where
  "ticket_wire T_pending = ''pending''"
| "ticket_wire T_send_reserved = ''send_reserved''"
| "ticket_wire T_send_started = ''send_started''"
| "ticket_wire T_settled_success = ''settled_success''"
| "ticket_wire T_settled_failure = ''settled_failure''"
| "ticket_wire T_outcome_unknown = ''outcome_unknown''"
| "ticket_wire T_cancel_requested = ''cancel_requested''"
| "ticket_wire T_cancelled_before_send = ''cancelled_before_send''"
| "ticket_wire T_cancelled_certain = ''cancelled_certain''"
| "ticket_wire T_quarantined = ''quarantined''"

record claimant =
  ca_principal :: string
  ca_session :: string
  ca_adapter :: string
  ca_adapter_generation :: int
  ca_claim_id :: string
  ca_claim_fence :: string
  ca_claim_expires_at :: int

record physical_attempt =
  pa_attempt_id :: string
  pa_key :: string
  pa_lookup_supported :: bool
  pa_cancel_supported :: bool
  pa_send_started_at :: "int option"
  pa_sent_request_digest :: "string option"
  pa_sent_at :: "int option"
  pa_request_id :: "string option"

record caller_ticket =
  tk_operation :: operation_ref
  tk_suspension_revision :: int
  tk_ticket_id :: string
  tk_revision :: int
  tk_owner :: call_owner
  tk_request :: caller_request
  tk_request_digest :: string
  tk_ticket_digest :: string
  tk_state :: ticket_state
  tk_claimant :: "claimant option"
  tk_attempt :: "physical_attempt option"
  tk_settled_digest :: "string option"
  tk_settled_at :: "int option"
  tk_deadline :: int

definition claimant_json :: "claimant \<Rightarrow> json" where
  "claimant_json c = JObj
     [(''principal_id'', JStr (ca_principal c)), (''session_id'', JStr (ca_session c)),
      (''adapter_id'', JStr (ca_adapter c)), (''adapter_generation'', JInt (ca_adapter_generation c)),
      (''claim_id'', JStr (ca_claim_id c)), (''claim_fence'', JStr (ca_claim_fence c)),
      (''claim_expires_at_unix_ms'', JInt (ca_claim_expires_at c))]"

definition physical_attempt_json :: "physical_attempt \<Rightarrow> json" where
  "physical_attempt_json a = JObj
     [(''physical_attempt_id'', JStr (pa_attempt_id a)),
      (''provider_or_child_idempotency_key'', JStr (pa_key a)),
      (''lookup_supported'', JBool (pa_lookup_supported a)),
      (''cancel_supported'', JBool (pa_cancel_supported a)),
      (''send_started_at_unix_ms'', opt_json JInt (pa_send_started_at a)),
      (''sent_request_digest'', opt_json JStr (pa_sent_request_digest a)),
      (''sent_at_unix_ms'', opt_json JInt (pa_sent_at a)),
      (''provider_or_child_request_id'', opt_json JStr (pa_request_id a))]"

definition ticket_json :: "caller_ticket \<Rightarrow> json" where
  "ticket_json t = JObj
     [(''schema_version'', JStr ''aar.caller-work-ticket.v1''),
      (''operation'', operation_json (tk_operation t)),
      (''suspension_revision'', JInt (tk_suspension_revision t)),
      (''ticket_id'', JStr (tk_ticket_id t)), (''revision'', JInt (tk_revision t)),
      (''owner'', call_owner_json (tk_owner t)), (''request'', caller_request_json (tk_request t)),
      (''request_digest'', JStr (tk_request_digest t)),
      (''ticket_digest'', JStr (tk_ticket_digest t)), (''state'', JStr (ticket_wire (tk_state t))),
      (''claimant'', opt_json claimant_json (tk_claimant t)),
      (''physical_attempt'', opt_json physical_attempt_json (tk_attempt t)),
      (''settled_receipt_digest'', opt_json JStr (tk_settled_digest t)),
      (''settled_at_unix_ms'', opt_json JInt (tk_settled_at t)),
      (''deadline_unix_ms'', JInt (tk_deadline t))]"

section \<open>Candidate receipts\<close>

record candidate_receipt =
  cr_ticket_id :: string
  cr_ticket_digest :: string
  cr_attempt_id :: string
  cr_sent_request_digest :: string
  cr_sent_at :: "int option"
  cr_request_id :: "string option"
  cr_observation :: observation
  cr_principal :: string
  cr_session :: string
  cr_adapter :: string
  cr_adapter_generation :: int
  cr_observed_at :: int
  cr_signature_digest :: string
  cr_receipt_digest :: string

definition candidate_fields :: "candidate_receipt \<Rightarrow> (string \<times> json) list" where
  "candidate_fields r =
     [(''schema_version'', JStr ''aar.caller-work-candidate-receipt.v1''),
      (''ticket_id'', JStr (cr_ticket_id r)), (''ticket_digest'', JStr (cr_ticket_digest r)),
      (''physical_attempt_id'', JStr (cr_attempt_id r)),
      (''sent_request_digest'', JStr (cr_sent_request_digest r)),
      (''sent_at_unix_ms'', opt_json JInt (cr_sent_at r)),
      (''provider_or_child_request_id'', opt_json JStr (cr_request_id r)),
      (''observation'', observation_json (cr_observation r)),
      (''callback_principal_id'', JStr (cr_principal r)),
      (''callback_session_id'', JStr (cr_session r)), (''callback_adapter_id'', JStr (cr_adapter r)),
      (''callback_adapter_generation'', JInt (cr_adapter_generation r)),
      (''observed_at_unix_ms'', JInt (cr_observed_at r)),
      (''signature_digest'', JStr (cr_signature_digest r))]"

definition candidate_payload :: "candidate_receipt \<Rightarrow> json" where
  "candidate_payload r = JObj (candidate_fields r)"

definition candidate_json :: "candidate_receipt \<Rightarrow> json" where
  "candidate_json r = JObj (candidate_fields r @ [(''receipt_digest'', JStr (cr_receipt_digest r))])"

text \<open>\<open>_candidate_receipt_digest\<close>.\<close>

definition candidate_digest :: "candidate_receipt \<Rightarrow> string" where
  "candidate_digest r = json_digest (candidate_payload r)"

interpretation candidate_digest: content_bound candidate_payload cr_receipt_digest
    "\<lambda>d. cr_receipt_digest_update (\<lambda>_. d)"
  by unfold_locales (simp_all add: candidate_payload_def candidate_fields_def)

section \<open>Commands\<close>

record mutation_context =
  mc_principal :: string
  mc_session :: string
  mc_runtime_generation :: int
  mc_capability_digest :: string
  mc_request_id :: string
  mc_key :: string
  mc_deadline :: int
  mc_grant_ids :: "string list"
  mc_wall_time_ms :: int
  mc_model_requests :: int
  mc_input_tokens :: int
  mc_output_tokens :: int
  mc_child_operations :: int
  mc_artifact_bytes :: int

definition context_json :: "mutation_context \<Rightarrow> json" where
  "context_json c = JObj
     [(''schema_version'', JStr ''aar.mcp-rlm-workbench-context.v1''),
      (''principal_id'', JStr (mc_principal c)), (''session_id'', JStr (mc_session c)),
      (''runtime_generation'', JInt (mc_runtime_generation c)),
      (''capability_digest'', JStr (mc_capability_digest c)), (''request_id'', JStr (mc_request_id c)),
      (''idempotency_key'', JStr (mc_key c)), (''deadline_unix_ms'', JInt (mc_deadline c)),
      (''grant_ids'', JArr (map JStr (mc_grant_ids c))),
      (''budget_wall_time_ms'', JInt (mc_wall_time_ms c)),
      (''budget_model_requests'', JInt (mc_model_requests c)),
      (''budget_input_tokens'', JInt (mc_input_tokens c)),
      (''budget_output_tokens'', JInt (mc_output_tokens c)),
      (''budget_child_operations'', JInt (mc_child_operations c)),
      (''budget_artifact_bytes'', JInt (mc_artifact_bytes c))]"

text \<open>The fields all five commands have.\<close>

record caller_command =
  cb_context :: mutation_context
  cb_operation :: operation_ref
  cb_control_revision :: int
  cb_cancellation_revision :: int
  cb_suspension_revision :: int
  cb_deadline :: int
  cb_ticket_id :: string
  cb_revision :: int
  cb_ticket_digest :: string
  cb_key :: string

definition command_fields :: "'a caller_command_scheme \<Rightarrow> (string \<times> json) list" where
  "command_fields c =
     [(''context'', context_json (cb_context c)), (''operation'', operation_json (cb_operation c)),
      (''expected_control_revision'', JInt (cb_control_revision c)),
      (''expected_cancellation_revision'', JInt (cb_cancellation_revision c)),
      (''expected_suspension_revision'', JInt (cb_suspension_revision c)),
      (''expected_cumulative_deadline_unix_ms'', JInt (cb_deadline c)),
      (''ticket_id'', JStr (cb_ticket_id c)), (''expected_revision'', JInt (cb_revision c)),
      (''ticket_digest'', JStr (cb_ticket_digest c)), (''idempotency_key'', JStr (cb_key c))]"

record claim_command = caller_command +
  cc_adapter :: string
  cc_adapter_generation :: int
  cc_claim_lease_ms :: int

record send_command = caller_command +
  cs_claim_id :: string
  cs_claim_fence :: string
  cs_attempt_id :: string
  cs_claim_expires_at :: int
  cs_provider_key :: string
  cs_sent_request_digest :: string
  cs_lookup_supported :: bool
  cs_cancel_supported :: bool

datatype cancel_reason = By_user | By_deadline | By_operation_cancel | By_shutdown

fun cancel_reason_wire :: "cancel_reason \<Rightarrow> string" where
  "cancel_reason_wire By_user = ''user_requested''"
| "cancel_reason_wire By_deadline = ''deadline''"
| "cancel_reason_wire By_operation_cancel = ''operation_cancel''"
| "cancel_reason_wire By_shutdown = ''shutdown''"

record cancel_command = caller_command +
  cn_expected_state :: ticket_state
  cn_claim_id :: "string option"
  cn_claim_fence :: "string option"
  cn_attempt_id :: "string option"
  cn_claim_expires_at :: "int option"
  cn_settled_digest :: string
  cn_settled_at :: int
  cn_reason :: cancel_reason

record commit_command = caller_command +
  cm_claim_id :: string
  cm_claim_fence :: string
  cm_attempt_id :: string
  cm_sent_request_digest :: string
  cm_sent_at :: "int option"
  cm_request_id :: "string option"
  cm_observation :: observation
  cm_model_response :: "model_response option"

datatype reconcile_action = R_lookup | R_retry_if_certain_no_send | R_quarantine | R_settle

fun reconcile_wire :: "reconcile_action \<Rightarrow> string" where
  "reconcile_wire R_lookup = ''lookup''"
| "reconcile_wire R_retry_if_certain_no_send = ''retry_if_certain_no_send''"
| "reconcile_wire R_quarantine = ''quarantine''"
| "reconcile_wire R_settle = ''settle''"

record reconcile_command = caller_command +
  cv_attempt_id :: string
  cv_candidate_digest :: "string option"
  cv_reconciler_id :: string
  cv_reconciler_generation :: int
  cv_fence :: string
  cv_action :: reconcile_action

definition claim_json :: "claim_command \<Rightarrow> json" where
  "claim_json c = JObj (command_fields c @
     [(''adapter_id'', JStr (cc_adapter c)), (''adapter_generation'', JInt (cc_adapter_generation c)),
      (''claim_lease_ms'', JInt (cc_claim_lease_ms c))])"

definition send_json :: "send_command \<Rightarrow> json" where
  "send_json c = JObj (command_fields c @
     [(''claim_id'', JStr (cs_claim_id c)), (''claim_fence'', JStr (cs_claim_fence c)),
      (''physical_attempt_id'', JStr (cs_attempt_id c)),
      (''expected_claim_expires_at_unix_ms'', JInt (cs_claim_expires_at c)),
      (''provider_or_child_idempotency_key'', JStr (cs_provider_key c)),
      (''sent_request_digest'', JStr (cs_sent_request_digest c)),
      (''lookup_supported'', JBool (cs_lookup_supported c)),
      (''cancel_supported'', JBool (cs_cancel_supported c))])"

definition cancel_json :: "cancel_command \<Rightarrow> json" where
  "cancel_json c = JObj (command_fields c @
     [(''expected_pre_send_state'', JStr (ticket_wire (cn_expected_state c))),
      (''claim_id'', opt_json JStr (cn_claim_id c)), (''claim_fence'', opt_json JStr (cn_claim_fence c)),
      (''physical_attempt_id'', opt_json JStr (cn_attempt_id c)),
      (''expected_claim_expires_at_unix_ms'', opt_json JInt (cn_claim_expires_at c)),
      (''settled_receipt_digest'', JStr (cn_settled_digest c)),
      (''settled_at_unix_ms'', JInt (cn_settled_at c)),
      (''reason'', JStr (cancel_reason_wire (cn_reason c)))])"

definition commit_json :: "commit_command \<Rightarrow> json" where
  "commit_json c = JObj (command_fields c @
     [(''claim_id'', JStr (cm_claim_id c)), (''claim_fence'', JStr (cm_claim_fence c)),
      (''physical_attempt_id'', JStr (cm_attempt_id c)),
      (''sent_request_digest'', JStr (cm_sent_request_digest c)),
      (''sent_at_unix_ms'', opt_json JInt (cm_sent_at c)),
      (''provider_or_child_request_id'', opt_json JStr (cm_request_id c)),
      (''observation'', observation_json (cm_observation c)),
      (''model_response'', opt_json model_response_json (cm_model_response c))])"

definition reconcile_json :: "reconcile_command \<Rightarrow> json" where
  "reconcile_json c = JObj (command_fields c @
     [(''physical_attempt_id'', JStr (cv_attempt_id c)),
      (''candidate_receipt_digest'', opt_json JStr (cv_candidate_digest c)),
      (''reconciler_id'', JStr (cv_reconciler_id c)),
      (''reconciler_generation'', JInt (cv_reconciler_generation c)),
      (''reconcile_fence'', JStr (cv_fence c)),
      (''reconciliation_action'', JStr (reconcile_wire (cv_action c)))])"

text \<open>The command \<open>settle_candidate\<close> makes of its arguments.\<close>

record settle_command =
  sl_ticket_id :: string
  sl_revision :: int
  sl_candidate_digest :: string
  sl_reconciler_id :: string
  sl_reconciler_generation :: int
  sl_fence :: string
  sl_key :: string

definition settle_json :: "settle_command \<Rightarrow> json" where
  "settle_json c = JObj
     [(''ticket_id'', JStr (sl_ticket_id c)), (''expected_revision'', JInt (sl_revision c)),
      (''candidate_receipt_digest'', JStr (sl_candidate_digest c)),
      (''reconciler_id'', JStr (sl_reconciler_id c)),
      (''reconciler_generation'', JInt (sl_reconciler_generation c)),
      (''reconcile_fence'', JStr (sl_fence c)), (''reconciliation_action'', JStr ''settle''),
      (''idempotency_key'', JStr (sl_key c))]"

text \<open>\<open>build_reconcile_fence\<close>.\<close>

definition build_reconcile_fence ::
    "string \<Rightarrow> int \<Rightarrow> string \<Rightarrow> string option \<Rightarrow> string \<Rightarrow> int \<Rightarrow> string \<Rightarrow> string" where
  "build_reconcile_fence ticket_id rv attempt_id receipt_digest reconciler generation action =
     json_digest (JObj
       [(''kind'', JStr ''caller_work_reconcile''), (''ticket_id'', JStr ticket_id),
        (''expected_revision'', JInt rv), (''physical_attempt_id'', JStr attempt_id),
        (''candidate_receipt_digest'', opt_json JStr receipt_digest), (''reconciler_id'', JStr reconciler),
        (''reconciler_generation'', JInt generation), (''reconciliation_action'', JStr action)])"

text \<open>Validation of a document against its reviewed schema.\<close>

record caller_config =
  ch_accepts :: "string \<Rightarrow> json \<Rightarrow> bool"
  ch_journal :: bool

definition contract_document :: "caller_config \<Rightarrow> string \<Rightarrow> json \<Rightarrow> 'a \<Rightarrow> 'a res" where
  "contract_document c kind document x =
     (if ch_accepts c kind document then Inr x else Inl (ValidationError kind))"

lemma contract_document_Inr [res_simps]:
  "contract_document c kind document x = Inr y \<longleftrightarrow> y = x \<and> ch_accepts c kind document"
  by (auto simp: contract_document_def)

end
