(* ===== verification/Caller_Work.thy ===== *)
theory Caller_Work
  imports Caller_Models Effects
begin

text \<open>
  Caller-delegated work (\<open>runtime/caller_work.py\<close>): tickets for calls the caller performs, their
  claim, send and settlement, candidate receipts, and the replay of commands. The tables are the
  version-6 tables of \<open>runtime/assets/migration-v6.sql\<close> in the registry's database, with the
  columns these methods read or write; a CHECK, UNIQUE or FOREIGN KEY that a statement can violate
  is part of the statement. Each public method runs in one transaction, reads the clock
  \<open>clk 0\<close>, \<open>clk 1\<close>, ... and takes fresh UUIDs as arguments.
\<close>

section \<open>Tables\<close>

datatype job_phase =
    J_accepted | J_preparing_workspace | J_running | J_waiting_external | J_checkpointing
  | J_finalizing | J_succeeded | J_failed | J_cancelled | J_timed_out | J_indeterminate | J_parked

record workbench_job =
  wj_operation :: operation_ref
  wj_phase :: job_phase
  wj_control_revision :: int
  wj_cancellation_revision :: int
  wj_cancellation_requested :: bool
  wj_deadline :: int
  wj_updated_at :: int

datatype suspension_state = Sp_pending | Sp_settled | Sp_cancelled | Sp_parked

record suspension_row =
  sp_operation :: operation_ref
  sp_revision :: int
  sp_control_revision :: int
  sp_owner :: call_owner
  sp_method :: string
  sp_contract_id :: string
  sp_request_digest :: string
  sp_ticket_id :: string
  sp_state :: suspension_state
  sp_settled_at :: "int option"

record ticket_row =
  tr_ticket_id :: string
  tr_operation :: operation_ref
  tr_suspension_revision :: int
  tr_revision :: int
  tr_ticket_digest :: string
  tr_request :: caller_request
  tr_request_digest :: string
  tr_method :: string
  tr_contract_id :: string
  tr_owner :: call_owner
  tr_state :: ticket_state
  tr_deadline :: int
  tr_principal :: "string option"
  tr_session :: "string option"
  tr_adapter :: "string option"
  tr_adapter_generation :: "int option"
  tr_claim_id :: "string option"
  tr_claim_fence :: "string option"
  tr_claim_expires_at :: "int option"
  tr_attempt_id :: "string option"
  tr_key :: "string option"
  tr_lookup_supported :: "bool option"
  tr_cancel_supported :: "bool option"
  tr_send_started_at :: "int option"
  tr_sent_request_digest :: "string option"
  tr_sent_at :: "int option"
  tr_request_id :: "string option"
  tr_settled_digest :: "string option"
  tr_settled_at :: "int option"
  tr_created_at :: int
  tr_updated_at :: int

datatype source_kind =
    Claimant_callback | Provider_lookup | Child_lookup | Cancellation_ack | Reconciler

record candidate_row =
  cx_ticket_id :: string
  cx_attempt_id :: string
  cx_receipt_digest :: string
  cx_receipt :: candidate_receipt
  cx_source_kind :: source_kind
  cx_observed_at :: int

datatype command_kind = K_claim | K_mark_send_started | K_cancel_before_send | K_commit | K_reconcile

fun command_kind_wire :: "command_kind \<Rightarrow> string" where
  "command_kind_wire K_claim = ''claim''"
| "command_kind_wire K_mark_send_started = ''mark_send_started''"
| "command_kind_wire K_cancel_before_send = ''cancel_before_send''"
| "command_kind_wire K_commit = ''commit''"
| "command_kind_wire K_reconcile = ''reconcile''"

record command_row =
  cq_operation :: operation_ref
  cq_ticket_id :: string
  cq_kind :: command_kind
  cq_key :: string
  cq_digest :: string
  cq_result_revision :: int
  cq_result :: caller_ticket
  cq_result_digest :: string
  cq_created_at :: int

datatype outbox_state = Ob_pending | Ob_prepared | Ob_consumed

record outbox_row =
  ox_operation :: operation_ref
  ox_suspension_revision :: int
  ox_settlement_digest :: string
  ox_digest :: string
  ox_state :: outbox_state
  ox_rebind_generation :: int
  ox_created_at :: int

text \<open>A row of \<open>model_executions\<close>; its request column holds whatever document was sent.\<close>

record caller_execution =
  ce_operation :: operation_ref
  ce_key :: string
  ce_request_digest :: string
  ce_request :: json
  ce_binding :: model_route_binding
  ce_state :: execution_state
  ce_response_digest :: "string option"
  ce_response :: "model_response option"
  ce_usage :: "model_usage option"
  ce_failure_code :: "string option"

record caller_db =
  cd_closed :: bool
  cd_registry :: reg
  cd_jobs :: "workbench_job tbl"
  cd_suspensions :: "suspension_row tbl"
  cd_tickets :: "ticket_row tbl"
  cd_candidates :: "candidate_row tbl"
  cd_commands :: "command_row tbl"
  cd_outbox :: "outbox_row tbl"
  cd_bindings :: "route_row tbl"
  cd_executions :: "caller_execution tbl"

text \<open>A transaction of the connection factory: refused once the factory is closed.\<close>

definition caller_tx :: "(caller_db \<Rightarrow> 'a res) \<Rightarrow> caller_db \<Rightarrow> 'a res" where
  "caller_tx f db =
     (if cd_closed db then Inl (RepositoryClosed ''repository transaction owner is closed'') else f db)"

section \<open>Ticket rows\<close>

definition claimed_columns :: "ticket_row \<Rightarrow> bool" where
  "claimed_columns r \<longleftrightarrow> tr_principal r \<noteq> None \<and> tr_session r \<noteq> None \<and> tr_adapter r \<noteq> None \<and>
     tr_adapter_generation r \<noteq> None \<and> tr_claim_id r \<noteq> None \<and> tr_claim_fence r \<noteq> None \<and>
     tr_claim_expires_at r \<noteq> None \<and> tr_attempt_id r \<noteq> None \<and> tr_key r \<noteq> None \<and>
     tr_lookup_supported r \<noteq> None \<and> tr_cancel_supported r \<noteq> None"

definition unclaimed_columns :: "ticket_row \<Rightarrow> bool" where
  "unclaimed_columns r \<longleftrightarrow> tr_principal r = None \<and> tr_session r = None \<and> tr_adapter r = None \<and>
     tr_adapter_generation r = None \<and> tr_claim_id r = None \<and> tr_claim_fence r = None \<and>
     tr_claim_expires_at r = None \<and> tr_attempt_id r = None \<and> tr_key r = None \<and>
     tr_lookup_supported r = None \<and> tr_cancel_supported r = None"

definition unsent_columns :: "ticket_row \<Rightarrow> bool" where
  "unsent_columns r \<longleftrightarrow> tr_send_started_at r = None \<and> tr_sent_request_digest r = None \<and>
     tr_sent_at r = None \<and> tr_request_id r = None"

definition settled_columns :: "ticket_row \<Rightarrow> bool" where
  "settled_columns r \<longleftrightarrow> tr_settled_digest r \<noteq> None \<and> tr_settled_at r \<noteq> None"

definition unsettled_columns :: "ticket_row \<Rightarrow> bool" where
  "unsettled_columns r \<longleftrightarrow> tr_settled_digest r = None \<and> tr_settled_at r = None"

text \<open>The CHECK constraints of \<open>caller_work_tickets\<close>, in their order.\<close>

definition ticket_checks :: "ticket_row \<Rightarrow> bool" where
  "ticket_checks r \<longleftrightarrow> 0 \<le> tr_revision r \<and>
     (tr_state r \<notin> {T_pending, T_cancelled_before_send} \<longrightarrow> claimed_columns r) \<and>
     (tr_state r \<in> {T_send_started, T_outcome_unknown, T_settled_success, T_settled_failure,
        T_cancel_requested, T_cancelled_certain, T_quarantined} \<longrightarrow>
        tr_send_started_at r \<noteq> None \<and> tr_sent_request_digest r \<noteq> None) \<and>
     (tr_state r = T_pending \<longrightarrow> unclaimed_columns r \<and> unsent_columns r \<and> unsettled_columns r) \<and>
     (tr_state r = T_send_reserved \<longrightarrow> claimed_columns r \<and> unsent_columns r) \<and>
     (tr_state r = T_cancelled_before_send \<longrightarrow> unsent_columns r \<and> settled_columns r \<and>
        (unclaimed_columns r \<or> claimed_columns r)) \<and>
     (tr_state r \<notin> {T_settled_success, T_settled_failure, T_cancelled_before_send, T_cancelled_certain}
        \<longrightarrow> unsettled_columns r) \<and>
     (tr_state r = T_settled_success \<longrightarrow> tr_sent_at r \<noteq> None) \<and>
     (tr_state r \<in> {T_settled_success, T_settled_failure, T_cancelled_before_send, T_cancelled_certain}
        \<longrightarrow> settled_columns r)"

definition unique_attempts :: "ticket_row tbl \<Rightarrow> bool" where
  "unique_attempts ts \<longleftrightarrow> distinct (filter (\<lambda>a. a \<noteq> None) (map tr_attempt_id ts))"

definition attempt_of :: "string \<Rightarrow> string \<Rightarrow> ticket_row \<Rightarrow> bool" where
  "attempt_of i a r \<longleftrightarrow> tr_ticket_id r = i \<and> tr_attempt_id r = Some a"

definition candidates_bound :: "candidate_row tbl \<Rightarrow> ticket_row tbl \<Rightarrow> bool" where
  "candidates_bound ks ts \<longleftrightarrow>
     list_all (\<lambda>k. list_ex (attempt_of (cx_ticket_id k) (cx_attempt_id k)) ts) ks"

text \<open>\<open>UPDATE caller_work_tickets ... WHERE ticket_id = ? AND revision = ?\<close>.\<close>

definition update_ticket ::
    "string \<Rightarrow> int \<Rightarrow> (ticket_row \<Rightarrow> ticket_row) \<Rightarrow> caller_db \<Rightarrow> caller_db res" where
  "update_ticket i rv f db =
     (let p = (\<lambda>r. tr_ticket_id r = i \<and> tr_revision r = rv);
          ts = update_rows p f (cd_tickets db)
      in if \<not> list_all (\<lambda>r. p r \<longrightarrow> ticket_checks (f r)) (cd_tickets db) then
           Inl (IntegrityError ''CHECK constraint failed'')
         else if \<not> unique_attempts ts then Inl (IntegrityError ''UNIQUE constraint failed'')
         else if \<not> candidates_bound (cd_candidates db) ts then
           Inl (IntegrityError ''FOREIGN KEY constraint failed'')
         else Inr (db\<lparr>cd_tickets := ts\<rparr>))"

definition find_ticket :: "string \<Rightarrow> caller_db \<Rightarrow> ticket_row option" where
  "find_ticket i db = fetchone (\<lambda>r. tr_ticket_id r = i) (cd_tickets db)"

text \<open>\<open>_row\<close>.\<close>

definition caller_row :: "string \<Rightarrow> caller_db \<Rightarrow> ticket_row res" where
  "caller_row i db = (case find_ticket i db of None \<Rightarrow> Inl (KeyError i) | Some r \<Rightarrow> Inr r)"

text \<open>
  \<open>_ticket_from_row\<close>: a document with a null where the contract has none is refused, as are the
  documents its schema refuses.
\<close>

definition row_claimant :: "ticket_row \<Rightarrow> claimant option res" where
  "row_claimant r =
     (case (tr_principal r, tr_session r, tr_adapter r, tr_adapter_generation r, tr_claim_id r,
            tr_claim_fence r, tr_claim_expires_at r) of
        (None, _) \<Rightarrow> Inr None
      | (Some p, Some s, Some a, Some g, Some i, Some f, Some x) \<Rightarrow> Inr (Some
          \<lparr>ca_principal = p, ca_session = s, ca_adapter = a, ca_adapter_generation = g,
           ca_claim_id = i, ca_claim_fence = f, ca_claim_expires_at = x\<rparr>)
      | _ \<Rightarrow> Inl (ValidationError ''CallerWorkTicket''))"

definition row_attempt :: "ticket_row \<Rightarrow> physical_attempt option res" where
  "row_attempt r =
     (case (tr_attempt_id r, tr_key r) of
        (None, _) \<Rightarrow> Inr None
      | (Some a, Some k) \<Rightarrow> Inr (Some
          \<lparr>pa_attempt_id = a, pa_key = k, pa_lookup_supported = (tr_lookup_supported r = Some True),
           pa_cancel_supported = (tr_cancel_supported r = Some True),
           pa_send_started_at = tr_send_started_at r,
           pa_sent_request_digest = tr_sent_request_digest r, pa_sent_at = tr_sent_at r,
           pa_request_id = tr_request_id r\<rparr>)
      | _ \<Rightarrow> Inl (ValidationError ''CallerWorkTicket''))"

definition ticket_from_row :: "caller_config \<Rightarrow> ticket_row \<Rightarrow> caller_ticket res" where
  "ticket_from_row c r =
     and_then (row_claimant r) (\<lambda>claimant. and_then (row_attempt r) (\<lambda>attempt.
       let t = \<lparr>tk_operation = tr_operation r, tk_suspension_revision = tr_suspension_revision r,
           tk_ticket_id = tr_ticket_id r, tk_revision = tr_revision r, tk_owner = tr_owner r,
           tk_request = tr_request r, tk_request_digest = tr_request_digest r,
           tk_ticket_digest = tr_ticket_digest r, tk_state = tr_state r, tk_claimant = claimant,
           tk_attempt = attempt, tk_settled_digest = tr_settled_digest r,
           tk_settled_at = tr_settled_at r, tk_deadline = tr_deadline r\<rparr>
       in contract_document c ''CallerWorkTicket'' (ticket_json t) t))"

definition caller_get :: "caller_config \<Rightarrow> string \<Rightarrow> caller_db \<Rightarrow> caller_ticket res" where
  "caller_get c i db = and_then (caller_row i db) (ticket_from_row c)"

section \<open>Creation\<close>

definition new_ticket_row :: "caller_ticket \<Rightarrow> int \<Rightarrow> ticket_row" where
  "new_ticket_row t now =
     \<lparr>tr_ticket_id = tk_ticket_id t, tr_operation = tk_operation t,
      tr_suspension_revision = tk_suspension_revision t, tr_revision = tk_revision t,
      tr_ticket_digest = tk_ticket_digest t, tr_request = tk_request t,
      tr_request_digest = tk_request_digest t, tr_method = request_method (tk_request t),
      tr_contract_id = request_contract_id (tk_request t), tr_owner = tk_owner t,
      tr_state = tk_state t, tr_deadline = tk_deadline t, tr_principal = None, tr_session = None,
      tr_adapter = None, tr_adapter_generation = None, tr_claim_id = None, tr_claim_fence = None,
      tr_claim_expires_at = None, tr_attempt_id = None, tr_key = None, tr_lookup_supported = None,
      tr_cancel_supported = None, tr_send_started_at = None, tr_sent_request_digest = None,
      tr_sent_at = None, tr_request_id = None, tr_settled_digest = tk_settled_digest t,
      tr_settled_at = tk_settled_at t, tr_created_at = now, tr_updated_at = now\<rparr>"

definition suspension_of :: "ticket_row \<Rightarrow> suspension_row \<Rightarrow> bool" where
  "suspension_of r s \<longleftrightarrow> sp_operation s = tr_operation r \<and> sp_revision s = tr_suspension_revision r \<and>
     sp_ticket_id s = tr_ticket_id r \<and> sp_method s = tr_method r \<and> sp_contract_id s = tr_contract_id r \<and>
     sp_request_digest s = tr_request_digest r \<and> sp_owner s = tr_owner r"

definition insert_ticket :: "ticket_row \<Rightarrow> caller_db \<Rightarrow> caller_db res" where
  "insert_ticket r db =
     (if \<not> ticket_checks r then Inl (IntegrityError ''CHECK constraint failed'')
      else if \<not> list_ex (\<lambda>j. wj_operation j = tr_operation r) (cd_jobs db) \<or>
              \<not> list_ex (suspension_of r) (cd_suspensions db) then
        Inl (IntegrityError ''FOREIGN KEY constraint failed'')
      else and_then (insert_row (\<lambda>x y. tr_ticket_id x = tr_ticket_id y \<or>
             (tr_operation x = tr_operation y \<and> tr_suspension_revision x = tr_suspension_revision y) \<or>
             (tr_attempt_id x \<noteq> None \<and> tr_attempt_id x = tr_attempt_id y)) r (cd_tickets db))
           (\<lambda>ts. Inr (db\<lparr>cd_tickets := ts\<rparr>)))"

definition create_ticket ::
    "caller_config \<Rightarrow> caller_ticket \<Rightarrow> int \<Rightarrow> caller_db \<Rightarrow> (caller_ticket \<times> caller_db) res" where
  "create_ticket c t now = caller_tx (\<lambda>db.
     case find_ticket (tk_ticket_id t) db of
       Some existing \<Rightarrow> and_then (ticket_from_row c existing) (\<lambda>projected.
         if canon (ticket_json projected) \<noteq> canon (ticket_json t) then
           Inl (CallerWorkConflict ''ticket id already binds different ticket bytes'')
         else Inr (projected, db))
     | None \<Rightarrow> and_then (insert_ticket (new_ticket_row t now) db) (\<lambda>db1.
         and_then (caller_get c (tk_ticket_id t) db1) (\<lambda>x. Inr (x, db1))))"

section \<open>Guards\<close>

definition require_revision :: "ticket_row \<Rightarrow> int \<Rightarrow> unit res" where
  "require_revision r expected = require (tr_revision r = expected)
     (StaleTicketRevision (''ticket revision '' @ itoa (tr_revision r) @ '' does not match '' @ itoa expected))"

definition require_claim :: "string option \<Rightarrow> string option \<Rightarrow> string option \<Rightarrow> ticket_row \<Rightarrow> unit res" where
  "require_claim claim_id fence attempt_id r =
     (if claim_id \<noteq> tr_claim_id r then Inl (CallerWorkConflict ''claim id mismatch'')
      else if fence \<noteq> tr_claim_fence r then Inl (CallerWorkConflict ''claim fence mismatch'')
      else if attempt_id \<noteq> tr_attempt_id r then Inl (CallerWorkConflict ''physical attempt mismatch'')
      else Inr ())"

text \<open>\<open>_checked_row\<close>: the ticket, its operation's controls, its job and its suspension.\<close>

definition find_job :: "operation_ref \<Rightarrow> caller_db \<Rightarrow> workbench_job option" where
  "find_job i db = fetchone (\<lambda>j. wj_operation j = i) (cd_jobs db)"

definition find_suspension :: "operation_ref \<Rightarrow> int \<Rightarrow> caller_db \<Rightarrow> suspension_row option" where
  "find_suspension i n db = fetchone (\<lambda>s. sp_operation s = i \<and> sp_revision s = n) (cd_suspensions db)"

definition check_control :: "'a caller_command_scheme \<Rightarrow> control_row option \<Rightarrow> unit res" where
  "check_control v w =
     (case w of
        None \<Rightarrow> Inl (CallerWorkConflict ''caller work operation has no authoritative control row'')
      | Some x \<Rightarrow>
          if cb_control_revision v \<noteq> cw_control_revision x then
            Inl (CallerWorkConflict ''control revision mismatch'')
          else if cw_cancellation_requested x then
            Inl (CallerWorkConflict ''authoritative cancellation is already requested'')
          else Inr ())"

definition check_job :: "'a caller_command_scheme \<Rightarrow> workbench_job option \<Rightarrow> unit res" where
  "check_job v w =
     (case w of
        None \<Rightarrow> Inl (CallerWorkConflict ''caller work operation has no workbench job'')
      | Some j \<Rightarrow>
          if cb_control_revision v \<noteq> wj_control_revision j then
            Inl (CallerWorkConflict ''workbench control revision mismatch'')
          else if cb_cancellation_revision v \<noteq> wj_cancellation_revision j then
            Inl (CallerWorkConflict ''cancellation revision mismatch'')
          else if wj_cancellation_requested j then
            Inl (CallerWorkConflict ''workbench cancellation mirror is already requested'')
          else if cb_deadline v \<noteq> wj_deadline j then
            Inl (CallerWorkConflict ''workbench deadline mismatch'')
          else Inr ())"

definition check_suspension :: "'a caller_command_scheme \<Rightarrow> suspension_row option \<Rightarrow> unit res" where
  "check_suspension v w =
     (case w of
        None \<Rightarrow> Inl (CallerWorkConflict ''caller work suspension is absent'')
      | Some s \<Rightarrow>
          if cb_control_revision v \<noteq> sp_control_revision s then
            Inl (CallerWorkConflict ''suspension control revision mismatch'')
          else if sp_state s \<noteq> Sp_pending then
            Inl (CallerWorkConflict ''caller work suspension is no longer pending'')
          else Inr ())"

definition checked_row :: "'a caller_command_scheme \<Rightarrow> caller_db \<Rightarrow> ticket_row res" where
  "checked_row v db =
     and_then (caller_row (cb_ticket_id v) db) (\<lambda>r.
     and_then (require_revision r (cb_revision v)) (\<lambda>_.
     if cb_ticket_digest v \<noteq> tr_ticket_digest r then Inl (CallerWorkConflict ''ticket digest mismatch'')
     else if cb_operation v \<noteq> tr_operation r then Inl (CallerWorkConflict ''operation identity mismatch'')
     else if cb_suspension_revision v \<noteq> tr_suspension_revision r then
       Inl (CallerWorkConflict ''suspension revision mismatch'')
     else if cb_deadline v \<noteq> tr_deadline r then Inl (CallerWorkConflict ''cumulative deadline mismatch'')
     else
       and_then (check_control v (find_control (tr_operation r) (cd_registry db))) (\<lambda>_.
       and_then (check_job v (find_job (tr_operation r) db)) (\<lambda>_.
       and_then (check_suspension v (find_suspension (tr_operation r) (tr_suspension_revision r) db)) (\<lambda>_.
       Inr r)))))"

section \<open>Replay of commands\<close>

definition command_digest :: "command_kind \<Rightarrow> json \<Rightarrow> string" where
  "command_digest k v = json_digest (JObj
     [(''command_kind'', JStr (command_kind_wire k)), (''command'', v)])"

definition replay_command ::
    "caller_config \<Rightarrow> ticket_row \<Rightarrow> command_kind \<Rightarrow> string \<Rightarrow> json \<Rightarrow> caller_db \<Rightarrow> caller_ticket option res" where
  "replay_command c r kind key v db =
     (case fetchone (\<lambda>q. cq_operation q = tr_operation r \<and> cq_key q = key) (cd_commands db) of
        None \<Rightarrow> Inr None
      | Some q \<Rightarrow>
          if cq_ticket_id q \<noteq> tr_ticket_id r \<or> cq_kind q \<noteq> kind \<or> cq_digest q \<noteq> command_digest kind v then
            Inl (CallerWorkIdempotencyConflict ''caller command key already binds different command bytes'')
          else if \<not> ch_accepts c ''CallerWorkTicket'' (ticket_json (cq_result q)) then
            Inl (CallerWorkConflict ''caller command replay ticket is invalid'')
          else if tk_ticket_id (cq_result q) \<noteq> tr_ticket_id r \<or>
                  tk_operation (cq_result q) \<noteq> tr_operation r \<or>
                  tk_revision (cq_result q) \<noteq> cq_result_revision q \<or>
                  json_digest (ticket_json (cq_result q)) \<noteq> cq_result_digest q then
            Inl (CallerWorkConflict ''caller command replay authority is corrupt'')
          else Inr (Some (cq_result q)))"

definition record_command ::
    "ticket_row \<Rightarrow> command_kind \<Rightarrow> string \<Rightarrow> json \<Rightarrow> caller_ticket \<Rightarrow> int \<Rightarrow> caller_db \<Rightarrow>
     (caller_ticket \<times> caller_db) res" where
  "record_command r kind key v result now db =
     and_then (insert_row (\<lambda>x y. cq_operation x = cq_operation y \<and> cq_key x = cq_key y)
       \<lparr>cq_operation = tr_operation r, cq_ticket_id = tr_ticket_id r, cq_kind = kind, cq_key = key,
        cq_digest = command_digest kind v, cq_result_revision = tk_revision result,
        cq_result = result, cq_result_digest = json_digest (ticket_json result),
        cq_created_at = now\<rparr> (cd_commands db))
     (\<lambda>qs. Inr (result, db\<lparr>cd_commands := qs\<rparr>))"

text \<open>
  The frame of the commands: validate, find the ticket, replay, or run the body and record its
  result.
\<close>

definition or_replay ::
    "caller_config \<Rightarrow> ticket_row \<Rightarrow> command_kind \<Rightarrow> string \<Rightarrow> json \<Rightarrow> int \<Rightarrow>
     (caller_db \<Rightarrow> (caller_ticket \<times> caller_db) res) \<Rightarrow> caller_db \<Rightarrow> (caller_ticket \<times> caller_db) res" where
  "or_replay c r kind key v now body db =
     and_then (replay_command c r kind key v db) (\<lambda>replay.
       case replay of
         Some result \<Rightarrow> Inr (result, db)
       | None \<Rightarrow> and_then (body db) (\<lambda>(result, db1). record_command r kind key v result now db1))"

definition saved :: "caller_config \<Rightarrow> string \<Rightarrow> caller_db \<Rightarrow> (caller_ticket \<times> caller_db) res" where
  "saved c i db = and_then (caller_get c i db) (\<lambda>t. Inr (t, db))"

section \<open>Claims\<close>

definition claim_fence_of :: "ticket_row \<Rightarrow> string \<Rightarrow> string \<Rightarrow> string \<Rightarrow> int \<Rightarrow> string" where
  "claim_fence_of r claim_id attempt_id adapter generation = json_digest (JObj
     [(''ticket_id'', JStr (tr_ticket_id r)), (''revision'', JInt (tr_revision r + 1)),
      (''claim_id'', JStr claim_id), (''physical_attempt_id'', JStr attempt_id),
      (''adapter_id'', JStr adapter), (''adapter_generation'', JInt generation)])"

definition external_key :: "ticket_row \<Rightarrow> string" where
  "external_key r = ''caller-'' @ take 48 (drop 7 (tr_ticket_digest r))"

definition reserved_row :: "claim_command \<Rightarrow> string \<Rightarrow> string \<Rightarrow> int \<Rightarrow> ticket_row \<Rightarrow> ticket_row" where
  "reserved_row v claim_id attempt_id now r = r\<lparr>tr_revision := tr_revision r + 1,
     tr_state := T_send_reserved, tr_principal := Some (mc_principal (cb_context v)),
     tr_session := Some (mc_session (cb_context v)), tr_adapter := Some (cc_adapter v),
     tr_adapter_generation := Some (cc_adapter_generation v), tr_claim_id := Some claim_id,
     tr_claim_fence := Some (claim_fence_of r claim_id attempt_id (cc_adapter v) (cc_adapter_generation v)),
     tr_claim_expires_at := Some (now + cc_claim_lease_ms v), tr_attempt_id := Some attempt_id,
     tr_key := Some (external_key r), tr_lookup_supported := Some False,
     tr_cancel_supported := Some False, tr_updated_at := now\<rparr>"

definition claim_body ::
    "caller_config \<Rightarrow> claim_command \<Rightarrow> string \<Rightarrow> string \<Rightarrow> int \<Rightarrow> caller_db \<Rightarrow>
     (caller_ticket \<times> caller_db) res" where
  "claim_body c v claim_id attempt_id now db =
     and_then (checked_row v db) (\<lambda>r.
       if tr_state r \<noteq> T_pending then
         Inl (InvalidTicketTransition (''cannot claim ticket from '' @ ticket_wire (tr_state r)))
       else if tr_deadline r \<le> now then
         Inl (InvalidTicketTransition ''cannot claim caller work at or beyond deadline'')
       else and_then (update_ticket (tr_ticket_id r) (tr_revision r)
              (reserved_row v claim_id attempt_id now) db)
            (saved c (tr_ticket_id r)))"

definition caller_claim ::
    "caller_config \<Rightarrow> claim_command \<Rightarrow> string \<Rightarrow> string \<Rightarrow> (nat \<Rightarrow> int) \<Rightarrow> caller_db \<Rightarrow>
     (caller_ticket \<times> caller_db) res" where
  "caller_claim c v claim_id attempt_id clk db0 =
     and_then (contract_document c ''CallerWorkClaimInput'' (claim_json v) v) (\<lambda>_. caller_tx (\<lambda>db.
     and_then (caller_row (cb_ticket_id v) db) (\<lambda>r.
       or_replay c r K_claim (cb_key v) (claim_json v) (clk 1)
         (claim_body c v claim_id attempt_id (clk 0)) db)) db0)"

text \<open>The reservation a claim made, undone.\<close>

definition released_row :: "int \<Rightarrow> ticket_row \<Rightarrow> ticket_row" where
  "released_row now r = r\<lparr>tr_revision := tr_revision r + 1, tr_state := T_pending,
     tr_principal := None, tr_session := None, tr_adapter := None, tr_adapter_generation := None,
     tr_claim_id := None, tr_claim_fence := None, tr_claim_expires_at := None,
     tr_attempt_id := None, tr_key := None, tr_lookup_supported := None,
     tr_cancel_supported := None, tr_updated_at := now\<rparr>"

definition reclaimed_row :: "int \<Rightarrow> ticket_row \<Rightarrow> ticket_row" where
  "reclaimed_row now r = (released_row now r)\<lparr>tr_send_started_at := None,
     tr_sent_request_digest := None, tr_sent_at := None, tr_request_id := None,
     tr_settled_digest := None, tr_settled_at := None\<rparr>"

text \<open>The comparison \<open>now < int(row["claim_expires_at_unix_ms"])\<close> on a reserved ticket.\<close>

definition reclaim_expired ::
    "caller_config \<Rightarrow> string \<Rightarrow> int \<Rightarrow> string \<Rightarrow> string \<Rightarrow> (nat \<Rightarrow> int) \<Rightarrow> caller_db \<Rightarrow>
     (caller_ticket \<times> caller_db) res" where
  "reclaim_expired c i rv claim_id fence clk = caller_tx (\<lambda>db.
     and_then (caller_row i db) (\<lambda>r.
     and_then (require_revision r rv) (\<lambda>_.
     if tr_state r \<noteq> T_send_reserved then
       Inl (InvalidTicketTransition (''cannot reclaim ticket from '' @ ticket_wire (tr_state r)))
     else if tr_claim_id r \<noteq> Some claim_id \<or> tr_claim_fence r \<noteq> Some fence then
       Inl (CallerWorkConflict ''expired claim identity mismatch'')
     else case tr_claim_expires_at r of
       None \<Rightarrow> Inl (TypeError ''int() argument must be a string, a bytes-like object or a real number, not NoneType'')
     | Some expires \<Rightarrow>
         if clk 0 < expires then Inl (InvalidTicketTransition ''caller claim has not expired'')
         else and_then (update_ticket i rv (reclaimed_row (clk 1)) db) (saved c i))))"

section \<open>Sending\<close>

definition sending_row :: "send_command \<Rightarrow> int \<Rightarrow> ticket_row \<Rightarrow> ticket_row" where
  "sending_row v now r = r\<lparr>tr_revision := tr_revision r + 1, tr_state := T_send_started,
     tr_lookup_supported := Some (cs_lookup_supported v),
     tr_cancel_supported := Some (cs_cancel_supported v), tr_send_started_at := Some now,
     tr_sent_request_digest := Some (cs_sent_request_digest v), tr_updated_at := now\<rparr>"

definition send_body ::
    "caller_config \<Rightarrow> send_command \<Rightarrow> int \<Rightarrow> caller_db \<Rightarrow> (caller_ticket \<times> caller_db) res" where
  "send_body c v now db =
     and_then (checked_row v db) (\<lambda>r.
       if tr_state r \<noteq> T_send_reserved then
         Inl (InvalidTicketTransition (''cannot mark send from '' @ ticket_wire (tr_state r)))
       else and_then (require_claim (Some (cs_claim_id v)) (Some (cs_claim_fence v)) (Some (cs_attempt_id v)) r)
         (\<lambda>_.
       if tr_deadline r \<le> now then
         Inl (ExpiredCallerClaim ''caller work deadline expired before send-start CAS'')
       else case tr_claim_expires_at r of
         None \<Rightarrow> Inl (TypeError ''int() argument must be a string, a bytes-like object or a real number, not NoneType'')
       | Some expires \<Rightarrow>
           if expires \<le> now then Inl (ExpiredCallerClaim ''caller claim expired before send-start CAS'')
           else if cs_claim_expires_at v \<noteq> expires then
             Inl (CallerWorkConflict ''claim expiry boundary mismatch'')
           else if Some (cs_provider_key v) \<noteq> tr_key r then
             Inl (CallerWorkConflict ''provider idempotency key mismatch'')
           else if cs_sent_request_digest v \<noteq> tr_request_digest r then
             Inl (CallerWorkConflict ''sent request digest mismatch'')
           else and_then (update_ticket (tr_ticket_id r) (tr_revision r) (sending_row v now) db)
                (saved c (tr_ticket_id r))))"

definition mark_send_started ::
    "caller_config \<Rightarrow> send_command \<Rightarrow> (nat \<Rightarrow> int) \<Rightarrow> caller_db \<Rightarrow> (caller_ticket \<times> caller_db) res" where
  "mark_send_started c v clk db0 =
     and_then (contract_document c ''CallerWorkMarkSendStartedInput'' (send_json v) v) (\<lambda>_. caller_tx (\<lambda>db.
     and_then (caller_row (cb_ticket_id v) db) (\<lambda>r.
       or_replay c r K_mark_send_started (cb_key v) (send_json v) (clk 1) (send_body c v (clk 0)) db)) db0)"

section \<open>Projection of a settled ticket\<close>

fun suspension_end :: "ticket_state \<Rightarrow> suspension_state option" where
  "suspension_end T_settled_success = Some Sp_settled"
| "suspension_end T_settled_failure = Some Sp_settled"
| "suspension_end T_cancelled_before_send = Some Sp_cancelled"
| "suspension_end T_cancelled_certain = Some Sp_cancelled"
| "suspension_end T_quarantined = Some Sp_parked"
| "suspension_end _ = None"

definition outbox_digest :: "operation_ref \<Rightarrow> int \<Rightarrow> string \<Rightarrow> string" where
  "outbox_digest i n d = json_digest (JObj
     [(''kind'', JStr ''caller_work_settlement''), (''operation_id'', JStr (operation_value i)),
      (''suspension_revision'', JInt n), (''settlement_digest'', JStr d)])"

text \<open>The successor is queued in the outbox and the job and its controls move one revision on.\<close>

definition queue_successor ::
    "ticket_row \<Rightarrow> string \<Rightarrow> int \<Rightarrow> workbench_job \<Rightarrow> control_row \<Rightarrow> caller_db \<Rightarrow> caller_db res" where
  "queue_successor r d now j w db =
     (let i = tr_operation r; n = wj_control_revision j in
      and_then (insert_row (\<lambda>x y. (ox_operation x = ox_operation y \<and>
            ox_suspension_revision x = ox_suspension_revision y) \<or> ox_digest x = ox_digest y)
          \<lparr>ox_operation = i, ox_suspension_revision = tr_suspension_revision r,
           ox_settlement_digest = d, ox_digest = outbox_digest i (tr_suspension_revision r) d,
           ox_state = Ob_pending, ox_rebind_generation = 0, ox_created_at = now\<rparr> (cd_outbox db))
      (\<lambda>outbox.
        if wj_phase j \<noteq> J_waiting_external \<or> n \<noteq> cw_control_revision w \<or> cw_cancellation_requested w then
          Inl (CallerWorkConflict ''caller settlement lost workbench control authority'')
        else let p = (\<lambda>x. wj_operation x = i \<and> wj_phase x = J_waiting_external \<and> wj_control_revision x = n)
          in if rowcount p (cd_jobs db) \<noteq> 1 then
               Inl (CallerWorkConflict ''caller settlement lost workbench phase authority'')
             else let q = (\<lambda>x. cw_operation x = i \<and> cw_control_revision x = n \<and>
                          \<not> cw_cancellation_requested x)
               in if rowcount q (rg_controls (cd_registry db)) \<noteq> 1 then
                    Inl (CallerWorkConflict ''caller settlement lost operation control authority'')
                  else Inr (db\<lparr>cd_outbox := outbox,
                    cd_jobs := update_rows p (\<lambda>x. x\<lparr>wj_phase := J_accepted,
                      wj_control_revision := n + 1, wj_updated_at := now\<rparr>) (cd_jobs db),
                    cd_registry := (cd_registry db)\<lparr>rg_controls := update_rows q
                      (\<lambda>x. x\<lparr>cw_control_revision := n + 1\<rparr>) (rg_controls (cd_registry db))\<rparr>\<rparr>)))"

definition settle_suspension ::
    "ticket_row \<Rightarrow> ticket_state \<Rightarrow> int \<Rightarrow> caller_db \<Rightarrow> caller_db res" where
  "settle_suspension r st now db =
     (case suspension_end st of
        None \<Rightarrow> Inl (CallerWorkConflict (''state '' @ ticket_wire st @ '' is not terminal''))
      | Some sp \<Rightarrow>
          let p = (\<lambda>s. sp_operation s = tr_operation r \<and> sp_revision s = tr_suspension_revision r \<and>
                       sp_state s = Sp_pending)
          in if rowcount p (cd_suspensions db) \<noteq> 1 then
               Inl (CallerWorkConflict ''caller work suspension terminal projection lost authority'')
             else Inr (db\<lparr>cd_suspensions :=
               update_rows p (\<lambda>s. s\<lparr>sp_state := sp, sp_settled_at := Some now\<rparr>) (cd_suspensions db)\<rparr>))"

definition project_terminal ::
    "ticket_row \<Rightarrow> ticket_state \<Rightarrow> string option \<Rightarrow> int \<Rightarrow> caller_db \<Rightarrow> caller_db res" where
  "project_terminal r st settlement now db =
     and_then (settle_suspension r st now db) (\<lambda>db1.
       if st \<notin> {T_settled_success, T_settled_failure, T_cancelled_certain} then Inr db1
       else case settlement of
         None \<Rightarrow> Inl (CallerWorkConflict ''successor outbox requires a settlement digest'')
       | Some d \<Rightarrow>
         (case find_op (tr_operation r) (cd_registry db1) of
            None \<Rightarrow> Inl (CallerWorkConflict ''caller settlement outer operation is absent'')
          | Some outer \<Rightarrow>
              if or_state outer \<noteq> ACCEPTED then Inr db1
              else case (find_job (tr_operation r) db1, find_control (tr_operation r) (cd_registry db1)) of
                (Some j, Some w) \<Rightarrow>
                  if tr_state r = T_outcome_unknown \<and> wj_deadline j \<le> now then Inr db1
                  else queue_successor r d now j w db1
              | _ \<Rightarrow> Inl (CallerWorkConflict ''caller settlement lost workbench control authority'')))"

section \<open>Cancellation\<close>

definition cancelled_row :: "cancel_command \<Rightarrow> int \<Rightarrow> ticket_row \<Rightarrow> ticket_row" where
  "cancelled_row v now r = r\<lparr>tr_revision := tr_revision r + 1, tr_state := T_cancelled_before_send,
     tr_settled_digest := Some (cn_settled_digest v), tr_settled_at := Some (cn_settled_at v),
     tr_updated_at := now\<rparr>"

definition cancel_body ::
    "caller_config \<Rightarrow> cancel_command \<Rightarrow> int \<Rightarrow> caller_db \<Rightarrow> (caller_ticket \<times> caller_db) res" where
  "cancel_body c v now db =
     and_then (checked_row v db) (\<lambda>r.
       if tr_state r \<noteq> cn_expected_state v \<or> cn_expected_state v \<notin> {T_pending, T_send_reserved} then
         Inl (InvalidTicketTransition (''cannot cancel before send from '' @ ticket_wire (tr_state r)))
       else and_then
         (if cn_expected_state v = T_send_reserved then
            and_then (require_claim (cn_claim_id v) (cn_claim_fence v) (cn_attempt_id v) r) (\<lambda>_.
              require (cn_claim_expires_at v = tr_claim_expires_at r)
                (CallerWorkConflict ''claim expiry boundary mismatch''))
          else Inr ())
         (\<lambda>_. and_then (update_ticket (tr_ticket_id r) (tr_revision r) (cancelled_row v now) db) (\<lambda>db1.
              and_then (project_terminal r T_cancelled_before_send (Some (cn_settled_digest v))
                (cn_settled_at v) db1) (saved c (tr_ticket_id r)))))"

definition cancel_before_send ::
    "caller_config \<Rightarrow> cancel_command \<Rightarrow> (nat \<Rightarrow> int) \<Rightarrow> caller_db \<Rightarrow> (caller_ticket \<times> caller_db) res" where
  "cancel_before_send c v clk db0 =
     and_then (contract_document c ''CallerWorkCancelBeforeSendInput'' (cancel_json v) v) (\<lambda>_. caller_tx (\<lambda>db.
     and_then (caller_row (cb_ticket_id v) db) (\<lambda>r.
       or_replay c r K_cancel_before_send (cb_key v) (cancel_json v) (clk 1) (cancel_body c v (clk 0)) db)) db0)"

definition restated_row :: "ticket_state \<Rightarrow> int \<Rightarrow> ticket_row \<Rightarrow> ticket_row" where
  "restated_row st now r = r\<lparr>tr_revision := tr_revision r + 1, tr_state := st, tr_updated_at := now\<rparr>"

definition ticket_request_cancel ::
    "caller_config \<Rightarrow> string \<Rightarrow> int \<Rightarrow> int \<Rightarrow> caller_db \<Rightarrow> (caller_ticket \<times> caller_db) res" where
  "ticket_request_cancel c i rv now = caller_tx (\<lambda>db.
     and_then (caller_row i db) (\<lambda>r.
     and_then (require_revision r rv) (\<lambda>_.
     if tr_state r \<notin> {T_send_started, T_outcome_unknown} then
       Inl (InvalidTicketTransition (''cannot request cancellation from '' @ ticket_wire (tr_state r)))
     else and_then (update_ticket i rv (restated_row T_cancel_requested now) db) (saved c i))))"

definition mark_outcome_unknown ::
    "caller_config \<Rightarrow> string \<Rightarrow> int \<Rightarrow> int \<Rightarrow> caller_db \<Rightarrow> (caller_ticket \<times> caller_db) res" where
  "mark_outcome_unknown c i rv now = caller_tx (\<lambda>db.
     and_then (caller_row i db) (\<lambda>r.
     and_then (require_revision r rv) (\<lambda>_.
     if tr_state r = T_outcome_unknown then and_then (ticket_from_row c r) (\<lambda>t. Inr (t, db))
     else if tr_state r \<noteq> T_send_started then
       Inl (InvalidTicketTransition (''cannot mark outcome unknown from '' @ ticket_wire (tr_state r)))
     else and_then (update_ticket i rv (restated_row T_outcome_unknown now) db) (saved c i))))"

section \<open>Model evidence\<close>

text \<open>\<open>str(row[column])\<close>.\<close>

definition str_column :: "string option \<Rightarrow> string" where
  "str_column x = (case x of None \<Rightarrow> ''None'' | Some s \<Rightarrow> s)"

text \<open>The journal methods of \<open>runtime/model_broker.py\<close> that run inside a command's transaction.\<close>

definition caller_ticket_authority ::
    "operation_ref \<Rightarrow> string \<Rightarrow> string \<Rightarrow> string \<Rightarrow> string \<Rightarrow> caller_request \<Rightarrow> caller_db \<Rightarrow> bool" where
  "caller_ticket_authority i ticket_id attempt_id key digest request db \<longleftrightarrow>
     (case find_ticket ticket_id db of
        None \<Rightarrow> False
      | Some t \<Rightarrow> tr_state t \<in> {T_send_started, T_cancel_requested, T_outcome_unknown, T_settled_success} \<and>
          tr_operation t = i \<and> str_column (tr_attempt_id t) = attempt_id \<and> str_column (tr_key t) = key \<and>
          tr_request_digest t = digest \<and>
          canon (caller_request_json (tr_request t)) = canon (caller_request_json request))"

definition find_caller_execution :: "operation_ref \<Rightarrow> string \<Rightarrow> caller_db \<Rightarrow> caller_execution option" where
  "find_caller_execution i key db =
     fetchone (\<lambda>x. ce_operation x = i \<and> ce_key x = key) (cd_executions db)"

text \<open>\<open>_validated_response_row\<close> reads no request column.\<close>

definition evidence_row :: "caller_execution \<Rightarrow> model_execution" where
  "evidence_row x = \<lparr>mx_operation = ce_operation x, mx_key = ce_key x,
     mx_request_digest = ce_request_digest x, mx_prompt = [], mx_binding = ce_binding x,
     mx_state = ce_state x, mx_response_digest = ce_response_digest x, mx_response = ce_response x,
     mx_usage = ce_usage x, mx_failure_code = ce_failure_code x\<rparr>"

definition caller_lineage :: "string \<Rightarrow> caller_request \<Rightarrow> model_route_binding \<Rightarrow> caller_execution \<Rightarrow> bool" where
  "caller_lineage digest request binding x \<longleftrightarrow> ce_request_digest x = digest \<and>
     canon (ce_request x) = canon (caller_request_json request) \<and> ce_binding x = binding \<and>
     ce_failure_code x = None"

definition committed_evidence ::
    "operation_ref \<Rightarrow> string \<Rightarrow> string \<Rightarrow> caller_request \<Rightarrow> model_route_binding \<Rightarrow> model_response \<Rightarrow>
     caller_execution" where
  "committed_evidence i key digest request binding response =
     \<lparr>ce_operation = i, ce_key = key, ce_request_digest = digest,
      ce_request = caller_request_json request, ce_binding = binding, ce_state = X_result_committed,
      ce_response_digest = Some (json_digest (model_response_json response)),
      ce_response = Some response, ce_usage = Some (ms_usage response), ce_failure_code = None\<rparr>"

definition record_caller_result ::
    "operation_ref \<Rightarrow> string \<Rightarrow> string \<Rightarrow> string \<Rightarrow> string \<Rightarrow> caller_request \<Rightarrow> model_route_binding \<Rightarrow>
     model_response \<Rightarrow> caller_db \<Rightarrow> (model_response \<times> caller_db) res" where
  "record_caller_result i ticket_id attempt_id key digest request binding response db =
     (if json_digest (caller_request_json request) \<noteq> digest then
        Inl (ModelRouteBindingStale ''caller model request digest does not match bytes'')
      else if mr_requested (ms_route_receipt response) \<noteq> binding then
        Inl (ModelRouteDrift ''caller model response does not attest the exact bound route'')
      else if \<not> caller_ticket_authority i ticket_id attempt_id key digest request db then
        Inl (ModelRouteBindingStale ''caller model ticket authority is stale'')
      else and_then (bind_operation i binding \<lparr>mj_bindings = cd_bindings db, mj_executions = []\<rparr>)
        (\<lambda>(_, bound). let db1 = db\<lparr>cd_bindings := mj_bindings bound\<rparr> in
        case find_caller_execution i key db1 of
          Some x \<Rightarrow>
            if \<not> caller_lineage digest request binding x \<or> ce_state x \<noteq> X_result_committed \<or>
               ce_response_digest x \<noteq> Some (json_digest (model_response_json response)) \<or>
               ce_response x \<noteq> Some response \<or> ce_usage x \<noteq> Some (ms_usage response) then
              Inl (ModelRouteBindingStale ''caller model idempotency identity binds different evidence'')
            else and_then (validated_response binding (evidence_row x)) (\<lambda>stored. Inr (stored, db1))
        | None \<Rightarrow> Inr (response, db1\<lparr>cd_executions := cd_executions db1 @
            [committed_evidence i key digest request binding response]\<rparr>)))"

definition require_caller_result ::
    "operation_ref \<Rightarrow> string \<Rightarrow> string \<Rightarrow> string \<Rightarrow> string \<Rightarrow> caller_request \<Rightarrow> model_route_binding \<Rightarrow>
     caller_db \<Rightarrow> model_response res" where
  "require_caller_result i ticket_id attempt_id key digest request binding db =
     (if \<not> caller_ticket_authority i ticket_id attempt_id key digest request db then
        Inl (ModelRouteBindingStale ''caller model ticket authority is stale'')
      else case find_caller_execution i key db of
        None \<Rightarrow> Inl (ModelCallIndeterminate ''caller model result journal is absent'')
      | Some x \<Rightarrow>
          if ce_state x \<noteq> X_result_committed then
            Inl (ModelCallIndeterminate ''caller model result journal is absent'')
          else if \<not> caller_lineage digest request binding x then
            Inl (ModelRouteBindingStale ''caller model result journal lineage is stale'')
          else validated_response binding (evidence_row x))"

text \<open>\<open>except ModelBrokerError as error: raise CallerWorkConflict(str(error))\<close>.\<close>

fun model_error_text :: "exn \<Rightarrow> string" where
  "model_error_text (ModelBrokerError m) = m"
| "model_error_text (ModelRouteNotFound m) = m"
| "model_error_text (ModelRouteBindingStale m) = m"
| "model_error_text (ModelRouteDrift m) = m"
| "model_error_text (ModelCallIndeterminate m) = m"
| "model_error_text (ModelProviderOutcomeUnknown m) = m"
| "model_error_text (ModelProviderFailure m) = m"
| "model_error_text (ModelReceiptLookupUnavailable m) = m"
| "model_error_text (ModelReceiptLookupFailed m) = m"
| "model_error_text _ = []"

definition as_conflict :: "'a res \<Rightarrow> 'a res" where
  "as_conflict m = (case m of
     Inl e \<Rightarrow> Inl (if is_model_error e then CallerWorkConflict (model_error_text e) else e)
   | Inr x \<Rightarrow> Inr x)"

text \<open>\<open>_require_response_matches_observation\<close>, which is only reached with a model's observation.\<close>

definition response_matches :: "model_response \<Rightarrow> observation \<Rightarrow> unit res" where
  "response_matches response ob =
     (case ob_evidence ob of
        Model_Observed m \<Rightarrow>
          require (Some (ms_output_text response) = mo_output_text m \<and>
            Some (''sha256:'' @ sha256_hex (utf8 (ms_output_text response))) = mo_output_digest m \<and>
            Some (mr_receipt_digest (ms_route_receipt response)) = mo_route_receipt_digest m \<and>
            Some (json_digest (model_usage_json (ms_usage response))) = mo_usage_receipt_digest m \<and>
            json_digest (model_response_json response) = ob_host_receipt_digest ob)
          (CallerWorkConflict ''model response evidence does not match observation'')
      | _ \<Rightarrow> Inl (KeyError ''output_text''))"

definition record_model_response ::
    "caller_config \<Rightarrow> ticket_row \<Rightarrow> observation \<Rightarrow> model_response \<Rightarrow> caller_db \<Rightarrow> caller_db res" where
  "record_model_response c r ob response db =
     (if \<not> ch_journal c then Inl (CallerWorkConflict ''model execution journal is unavailable'')
      else and_then (validate_model_response response) (\<lambda>_.
        and_then (request_binding (tr_request r)) (\<lambda>binding.
        and_then (response_matches response ob) (\<lambda>_.
        and_then (as_conflict (record_caller_result (tr_operation r) (tr_ticket_id r)
            (str_column (tr_attempt_id r)) (str_column (tr_key r)) (tr_request_digest r) (tr_request r)
            binding response db))
          (\<lambda>(_, db1). Inr db1)))))"

definition require_settlement_authority ::
    "caller_config \<Rightarrow> ticket_row \<Rightarrow> observation \<Rightarrow> caller_db \<Rightarrow> unit res" where
  "require_settlement_authority c r ob db =
     (if \<not> ch_journal c then Inl (CallerWorkConflict ''model execution journal is unavailable'')
      else and_then (request_binding (tr_request r)) (\<lambda>binding.
        and_then
          (as_conflict (require_caller_result (tr_operation r) (tr_ticket_id r)
            (str_column (tr_attempt_id r)) (str_column (tr_key r)) (tr_request_digest r) (tr_request r)
            binding db))
          (\<lambda>response. response_matches response ob)))"

section \<open>Candidates and settlement\<close>

definition commit_signature :: "ticket_row \<Rightarrow> string \<Rightarrow> commit_command \<Rightarrow> string" where
  "commit_signature r attempt_id v = json_digest (JObj
     [(''kind'', JStr ''claimant_commit''), (''ticket_id'', JStr (tr_ticket_id r)),
      (''physical_attempt_id'', JStr attempt_id),
      (''provider_or_child_request_id'', opt_json JStr (cm_request_id v)),
      (''observation'', observation_json (cm_observation v))])"

text \<open>\<open>_candidate_from_commit\<close>: a null in the claimant's columns is no receipt.\<close>

definition candidate_from_commit ::
    "caller_config \<Rightarrow> ticket_row \<Rightarrow> commit_command \<Rightarrow> int \<Rightarrow> candidate_receipt res" where
  "candidate_from_commit c r v now =
     (case (tr_attempt_id r, tr_principal r, tr_session r, tr_adapter r, tr_adapter_generation r) of
        (Some a, Some p, Some s, Some ad, Some g) \<Rightarrow>
          let payload = \<lparr>cr_ticket_id = tr_ticket_id r, cr_ticket_digest = tr_ticket_digest r,
                cr_attempt_id = a, cr_sent_request_digest = cm_sent_request_digest v,
                cr_sent_at = cm_sent_at v, cr_request_id = cm_request_id v,
                cr_observation = cm_observation v, cr_principal = p, cr_session = s, cr_adapter = ad,
                cr_adapter_generation = g, cr_observed_at = now,
                cr_signature_digest = commit_signature r a v, cr_receipt_digest = []\<rparr>;
              receipt = payload\<lparr>cr_receipt_digest := candidate_digest payload\<rparr>
          in contract_document c ''CandidateReceipt'' (candidate_json receipt) receipt
      | _ \<Rightarrow> Inl (ValidationError ''CandidateReceipt''))"

definition candidate_key :: "candidate_receipt \<Rightarrow> candidate_row \<Rightarrow> bool" where
  "candidate_key r k \<longleftrightarrow> cx_ticket_id k = cr_ticket_id r \<and> cx_attempt_id k = cr_attempt_id r \<and>
     cx_receipt_digest k = cr_receipt_digest r"

text \<open>\<open>INSERT OR IGNORE\<close>: whether a row was inserted, and the table.\<close>

definition insert_candidate ::
    "candidate_receipt \<Rightarrow> source_kind \<Rightarrow> caller_db \<Rightarrow> (bool \<times> caller_db) res" where
  "insert_candidate r source db =
     (if cr_receipt_digest r \<noteq> candidate_digest r then
        Inl (CallerWorkConflict ''candidate receipt digest does not bind its canonical payload'')
      else if list_ex (candidate_key r) (cd_candidates db) then Inr (False, db)
      else if \<not> list_ex (attempt_of (cr_ticket_id r) (cr_attempt_id r)) (cd_tickets db) then
        Inl (IntegrityError ''FOREIGN KEY constraint failed'')
      else Inr (True, db\<lparr>cd_candidates := cd_candidates db @
        [\<lparr>cx_ticket_id = cr_ticket_id r, cx_attempt_id = cr_attempt_id r,
          cx_receipt_digest = cr_receipt_digest r, cx_receipt = r, cx_source_kind = source,
          cx_observed_at = cr_observed_at r\<rparr>]\<rparr>))"

definition settled_state :: "caller_outcome \<Rightarrow> ticket_state" where
  "settled_state o' =
     (if outcome_wire o' = ''succeeded'' then T_settled_success
      else if outcome_wire o' \<in> {''cancelled'', ''canceled''} then T_cancelled_certain
      else T_settled_failure)"

definition settled_row :: "candidate_receipt \<Rightarrow> int \<Rightarrow> ticket_row \<Rightarrow> ticket_row" where
  "settled_row s now r = r\<lparr>tr_revision := tr_revision r + 1,
     tr_state := settled_state (ob_outcome (cr_observation s)), tr_sent_at := cr_sent_at s,
     tr_request_id := cr_request_id s, tr_settled_digest := Some (cr_receipt_digest s),
     tr_settled_at := Some now, tr_updated_at := now\<rparr>"

definition attempt_candidates :: "ticket_row \<Rightarrow> caller_db \<Rightarrow> candidate_row list" where
  "attempt_candidates r db =
     filter (\<lambda>k. cx_ticket_id k = tr_ticket_id r \<and> tr_attempt_id r = Some (cx_attempt_id k)) (cd_candidates db)"

definition candidate_digests :: "caller_config \<Rightarrow> ticket_row \<Rightarrow> caller_db \<Rightarrow> string list res" where
  "candidate_digests c r db = traverse
     (\<lambda>k. and_then (contract_document c ''CandidateReceipt'' (candidate_json (cx_receipt k)) (cx_receipt k))
        (\<lambda>x. Inr (candidate_digest x)))
     (sort_key cx_receipt_digest (attempt_candidates r db))"

definition quarantine_ticket ::
    "caller_config \<Rightarrow> ticket_row \<Rightarrow> int \<Rightarrow> caller_db \<Rightarrow> (caller_ticket \<times> caller_db) res" where
  "quarantine_ticket c r now db =
     and_then (update_ticket (tr_ticket_id r) (tr_revision r) (restated_row T_quarantined now) db) (\<lambda>db1.
     and_then (project_terminal r T_quarantined None now db1) (saved c (tr_ticket_id r)))"

definition apply_settlement ::
    "caller_config \<Rightarrow> ticket_row \<Rightarrow> candidate_receipt \<Rightarrow> int \<Rightarrow> caller_db \<Rightarrow>
     (caller_ticket \<times> caller_db) res" where
  "apply_settlement c r s now db =
     and_then (candidate_digests c r db) (\<lambda>ds.
       if 1 < length (remdups ds) then quarantine_ticket c r now db
       else and_then
         (if model_succeeded (cr_observation s)
          then require_settlement_authority c r (cr_observation s) db else Inr ())
         (\<lambda>_. and_then (update_ticket (tr_ticket_id r) (tr_revision r) (settled_row s now) db) (\<lambda>db1.
           and_then (project_terminal r (settled_state (ob_outcome (cr_observation s)))
             (Some (cr_receipt_digest s)) now db1) (saved c (tr_ticket_id r)))))"

definition may_have_sent :: "ticket_row \<Rightarrow> bool" where
  "may_have_sent r \<longleftrightarrow> tr_state r \<in> {T_send_started, T_outcome_unknown, T_cancel_requested}"

definition commit_body ::
    "caller_config \<Rightarrow> commit_command \<Rightarrow> (nat \<Rightarrow> int) \<Rightarrow> caller_db \<Rightarrow> (caller_ticket \<times> caller_db) res" where
  "commit_body c v clk db =
     and_then (checked_row v db) (\<lambda>r.
       if \<not> may_have_sent r then
         Inl (InvalidTicketTransition (''cannot commit caller work from '' @ ticket_wire (tr_state r)))
       else and_then (require_claim (Some (cm_claim_id v)) (Some (cm_claim_fence v)) (Some (cm_attempt_id v)) r)
         (\<lambda>_.
       if Some (cm_sent_request_digest v) \<noteq> tr_sent_request_digest r then
         Inl (CallerWorkConflict ''committed request digest mismatch'')
       else and_then (candidate_from_commit c r v (clk 0)) (\<lambda>receipt.
         and_then (insert_candidate receipt Claimant_callback db) (\<lambda>(_, db1).
         apply_settlement c r receipt (clk 1) db1))))"

text \<open>Succeeded model evidence is journalled first, also when the command is then replayed.\<close>

definition commit_evidence ::
    "caller_config \<Rightarrow> commit_command \<Rightarrow> ticket_row \<Rightarrow> caller_db \<Rightarrow> caller_db res" where
  "commit_evidence c v r db =
     (if \<not> model_succeeded (cm_observation v) then Inr db
      else if \<not> ch_journal c then Inl (CallerWorkConflict ''model execution journal is unavailable'')
      else case cm_model_response v of
        None \<Rightarrow> Inl (TypeError ''NoneType object is not iterable'')
      | Some response \<Rightarrow> record_model_response c r (cm_observation v) response db)"

definition commit_in_transaction ::
    "caller_config \<Rightarrow> commit_command \<Rightarrow> (nat \<Rightarrow> int) \<Rightarrow> caller_db \<Rightarrow> (caller_ticket \<times> caller_db) res" where
  "commit_in_transaction c v clk db =
     and_then (caller_row (cb_ticket_id v) db) (\<lambda>r.
     and_then (commit_evidence c v r db)
       (or_replay c r K_commit (cb_key v) (commit_json v) (clk 2) (commit_body c v clk)))"

definition commit_transaction ::
    "caller_config \<Rightarrow> commit_command \<Rightarrow> (nat \<Rightarrow> int) \<Rightarrow> caller_db \<Rightarrow> (caller_ticket \<times> caller_db) res" where
  "commit_transaction c v clk db =
     and_then (contract_document c ''CallerWorkCommitInput'' (commit_json v) v) (\<lambda>_.
       caller_tx (commit_in_transaction c v clk) db)"

text \<open>
  \<open>commit\<close>: the settlement handler runs after the transaction, which its exceptions do not undo.
\<close>

definition notify_settlement ::
    "(caller_ticket \<Rightarrow> (unit, caller_db) act) option \<Rightarrow> caller_ticket \<Rightarrow> (unit, caller_db) act" where
  "notify_settlement handler t = (case handler of None \<Rightarrow> ret () | Some f \<Rightarrow> f t)"

definition caller_commit ::
    "caller_config \<Rightarrow> (caller_ticket \<Rightarrow> (unit, caller_db) act) option \<Rightarrow> commit_command \<Rightarrow>
     (nat \<Rightarrow> int) \<Rightarrow> (caller_ticket, caller_db) act" where
  "caller_commit c handler v clk =
     seq (transact id (\<lambda>p _. p) (commit_transaction c v clk))
     (\<lambda>t. seq (notify_settlement handler t) (\<lambda>_. ret t))"

definition bind_settlement_handler :: "'h option \<Rightarrow> 'h option \<Rightarrow> 'h option res" where
  "bind_settlement_handler bound handler =
     (if bound \<noteq> None \<and> handler \<noteq> None \<and> bound \<noteq> handler then
        Inl (CallerWorkConflict ''caller settlement handler is already bound'')
      else Inr handler)"

section \<open>Reconciliation\<close>

definition require_internal_reconciler :: "string \<Rightarrow> int \<Rightarrow> ticket_row \<Rightarrow> unit res" where
  "require_internal_reconciler reconciler generation r =
     (if Some reconciler \<noteq> tr_adapter r then
        Inl (CallerWorkConflict ''reconciler identity is not the current ticket adapter'')
      else if Some generation \<noteq> tr_adapter_generation r then
        Inl (CallerWorkConflict ''reconciler generation is not the current adapter generation'')
      else Inr ())"

definition require_reconcile_fence :: "string \<Rightarrow> string \<Rightarrow> unit res" where
  "require_reconcile_fence fence expected = require (fence = expected)
     (CallerWorkConflict ''reconciler fence does not bind current ticket authority'')"

definition require_reconciler :: "ticket_row \<Rightarrow> reconcile_command \<Rightarrow> unit res" where
  "require_reconciler r v =
     (if Some (mc_principal (cb_context v)) \<noteq> tr_principal r \<or>
         Some (mc_session (cb_context v)) \<noteq> tr_session r then
        Inl (CallerWorkConflict ''reconciler context is not the current claimant authority'')
      else and_then (require_internal_reconciler (cv_reconciler_id v) (cv_reconciler_generation v) r) (\<lambda>_.
        require_reconcile_fence (cv_fence v) (build_reconcile_fence (cb_ticket_id v) (cb_revision v)
          (cv_attempt_id v) (cv_candidate_digest v) (cv_reconciler_id v) (cv_reconciler_generation v)
          (reconcile_wire (cv_action v)))))"

definition find_candidate ::
    "string \<Rightarrow> string option \<Rightarrow> string option \<Rightarrow> caller_db \<Rightarrow> candidate_row option" where
  "find_candidate i attempt_id digest db =
     fetchone (\<lambda>k. cx_ticket_id k = i \<and> Some (cx_attempt_id k) = attempt_id \<and>
        Some (cx_receipt_digest k) = digest) (cd_candidates db)"

definition stored_candidate :: "caller_config \<Rightarrow> candidate_row \<Rightarrow> candidate_receipt res" where
  "stored_candidate c k =
     contract_document c ''CandidateReceipt'' (candidate_json (cx_receipt k)) (cx_receipt k)"

definition reconcile_body ::
    "caller_config \<Rightarrow> reconcile_command \<Rightarrow> int \<Rightarrow> caller_db \<Rightarrow> (caller_ticket \<times> caller_db) res" where
  "reconcile_body c v now db =
     and_then (checked_row v db) (\<lambda>r.
       if tr_attempt_id r \<noteq> Some (cv_attempt_id v) then
         Inl (CallerWorkConflict ''reconciliation physical attempt mismatch'')
       else and_then (require_reconciler r v) (\<lambda>_.
       case cv_action v of
         R_retry_if_certain_no_send \<Rightarrow>
           if tr_state r \<noteq> T_send_reserved \<or> tr_send_started_at r \<noteq> None then
             Inl (InvalidTicketTransition
               ''retry_if_certain_no_send requires an unstarted send reservation'')
           else and_then (update_ticket (tr_ticket_id r) (tr_revision r) (released_row now) db)
                (saved c (tr_ticket_id r))
       | R_lookup \<Rightarrow>
           if \<not> may_have_sent r then
             Inl (InvalidTicketTransition ''lookup reconciliation requires a may-have-sent ticket'')
           else saved c (tr_ticket_id r) db
       | action \<Rightarrow>
           if \<not> may_have_sent r then
             Inl (InvalidTicketTransition (''cannot '' @ reconcile_wire action @
               '' reconciliation from '' @ ticket_wire (tr_state r)))
           else case find_candidate (tr_ticket_id r) (tr_attempt_id r) (cv_candidate_digest v) db of
             None \<Rightarrow> Inl (CallerWorkConflict ''candidate receipt is absent'')
           | Some k \<Rightarrow>
               if action = R_settle then
                 and_then (stored_candidate c k) (\<lambda>receipt. apply_settlement c r receipt now db)
               else quarantine_ticket c r now db))"

definition caller_reconcile ::
    "caller_config \<Rightarrow> reconcile_command \<Rightarrow> (nat \<Rightarrow> int) \<Rightarrow> caller_db \<Rightarrow> (caller_ticket \<times> caller_db) res" where
  "caller_reconcile c v clk db0 =
     and_then (contract_document c ''CallerWorkReconcileInput'' (reconcile_json v) v) (\<lambda>_. caller_tx (\<lambda>db.
     and_then (caller_row (cb_ticket_id v) db) (\<lambda>r.
       or_replay c r K_reconcile (cb_key v) (reconcile_json v)
         (clk (if cv_action v = R_lookup then 0 else 1)) (reconcile_body c v (clk 0)) db)) db0)"

section \<open>Candidate receipts\<close>

definition check_candidate :: "candidate_receipt \<Rightarrow> ticket_row \<Rightarrow> unit res" where
  "check_candidate s r =
     (if cr_ticket_digest s \<noteq> tr_ticket_digest r then Inl (CallerWorkConflict ''candidate ticket digest mismatch'')
      else if Some (cr_attempt_id s) \<noteq> tr_attempt_id r then
        Inl (CallerWorkConflict ''candidate physical attempt mismatch'')
      else if tr_send_started_at r = None then
        Inl (CallerWorkConflict ''candidate receipt has no durable send-start mark'')
      else require (cr_sent_request_digest s = tr_request_digest r)
        (CallerWorkConflict ''candidate request digest mismatch''))"

definition valid_candidate :: "caller_config \<Rightarrow> candidate_receipt \<Rightarrow> unit res" where
  "valid_candidate c s =
     and_then (contract_document c ''CandidateReceipt'' (candidate_json s) s) (\<lambda>_.
       require (cr_receipt_digest s = candidate_digest s)
         (CallerWorkConflict ''candidate receipt digest mismatch''))"

text \<open>The second result is \<open>replayed\<close>.\<close>

definition append_candidate_receipt ::
    "caller_config \<Rightarrow> candidate_receipt \<Rightarrow> source_kind \<Rightarrow> caller_db \<Rightarrow>
     ((candidate_receipt \<times> bool) \<times> caller_db) res" where
  "append_candidate_receipt c s source db0 =
     and_then (valid_candidate c s) (\<lambda>_. caller_tx (\<lambda>db.
       and_then (caller_row (cr_ticket_id s) db) (\<lambda>r.
       and_then (check_candidate s r) (\<lambda>_.
       and_then (insert_candidate s source db) (\<lambda>(inserted, db1). Inr ((s, \<not> inserted), db1))))) db0)"

definition append_model_candidate_receipt ::
    "caller_config \<Rightarrow> candidate_receipt \<Rightarrow> model_response \<Rightarrow> source_kind \<Rightarrow> caller_db \<Rightarrow>
     ((candidate_receipt \<times> bool) \<times> caller_db) res" where
  "append_model_candidate_receipt c s response source db0 =
     and_then (valid_candidate c s) (\<lambda>_.
     if \<not> model_succeeded (cr_observation s) then
       Inl (CallerWorkConflict ''sealed model callback requires succeeded model evidence'')
     else caller_tx (\<lambda>db.
       and_then (caller_row (cr_ticket_id s) db) (\<lambda>r.
       and_then (check_candidate s r) (\<lambda>_.
       and_then (record_model_response c r (cr_observation s) response db) (\<lambda>db1.
       and_then (insert_candidate s source db1) (\<lambda>(inserted, db2). Inr ((s, \<not> inserted), db2)))))) db0)"

definition candidate_receipts :: "caller_config \<Rightarrow> string \<Rightarrow> caller_db \<Rightarrow> candidate_receipt list res" where
  "candidate_receipts c i = caller_tx (\<lambda>db. traverse (stored_candidate c)
     (sort_key (\<lambda>k. (cx_observed_at k, cx_receipt_digest k))
       (filter (\<lambda>k. cx_ticket_id k = i) (cd_candidates db))))"

definition settle_body ::
    "caller_config \<Rightarrow> settle_command \<Rightarrow> ticket_row \<Rightarrow> int \<Rightarrow> caller_db \<Rightarrow> (caller_ticket \<times> caller_db) res" where
  "settle_body c v r now db =
     and_then (require_revision r (sl_revision v)) (\<lambda>_.
     if \<not> may_have_sent r then
       Inl (InvalidTicketTransition (''cannot reconcile ticket from '' @ ticket_wire (tr_state r)))
     else let a = str_column (tr_attempt_id r) in
       and_then (require_internal_reconciler (sl_reconciler_id v) (sl_reconciler_generation v) r) (\<lambda>_.
       and_then (require_reconcile_fence (sl_fence v) (build_reconcile_fence (sl_ticket_id v) (sl_revision v)
         a (Some (sl_candidate_digest v)) (sl_reconciler_id v) (sl_reconciler_generation v) ''settle'')) (\<lambda>_.
       case find_candidate (sl_ticket_id v) (Some a) (Some (sl_candidate_digest v)) db of
         None \<Rightarrow> Inl (CallerWorkConflict ''candidate receipt is not bound to current attempt'')
       | Some k \<Rightarrow> and_then (stored_candidate c k) (\<lambda>receipt. apply_settlement c r receipt now db))))"

definition settle_in_transaction ::
    "caller_config \<Rightarrow> settle_command \<Rightarrow> (nat \<Rightarrow> int) \<Rightarrow> caller_db \<Rightarrow> (caller_ticket \<times> caller_db) res" where
  "settle_in_transaction c v clk = caller_tx (\<lambda>db.
     and_then (caller_row (sl_ticket_id v) db) (\<lambda>r.
       or_replay c r K_reconcile (sl_key v) (settle_json v) (clk 1) (settle_body c v r (clk 0)) db))"

definition settle_candidate ::
    "caller_config \<Rightarrow> (caller_ticket \<Rightarrow> (unit, caller_db) act) option \<Rightarrow> settle_command \<Rightarrow>
     (nat \<Rightarrow> int) \<Rightarrow> (caller_ticket, caller_db) act" where
  "settle_candidate c handler v clk =
     seq (transact id (\<lambda>p _. p) (settle_in_transaction c v clk))
     (\<lambda>t. seq (notify_settlement handler t) (\<lambda>_. ret t))"

definition send_started_count :: "string \<Rightarrow> caller_db \<Rightarrow> nat res" where
  "send_started_count i = caller_tx (\<lambda>db. and_then (caller_row i db) (\<lambda>r.
     Inr (if tr_send_started_at r = None then 0 else 1)))"

section \<open>The dispatcher\<close>

text \<open>
  \<open>CallerWorkDispatcher.resume\<close>: a ticket that may have been sent is looked up, never sent again.
  The adapter's \<open>lookup\<close> is an action on the state of the outside world; a document it returns is
  validated before it is used.
\<close>

definition on_caller :: "(caller_db \<Rightarrow> ('a \<times> caller_db) res) \<Rightarrow> ('a, caller_db \<times> 's) act" where
  "on_caller = transact fst (\<lambda>p s. (p, snd s))"

definition lookup_source :: "caller_request \<Rightarrow> source_kind" where
  "lookup_source q = (if take 9 (request_method q) = ''subagent.'' then Child_lookup else Provider_lookup)"

definition lookup_settlement :: "string \<Rightarrow> caller_ticket \<Rightarrow> claimant \<Rightarrow> string \<Rightarrow> string \<Rightarrow> settle_command" where
  "lookup_settlement i t a attempt_id d =
     \<lparr>sl_ticket_id = i, sl_revision = tk_revision t, sl_candidate_digest = d,
      sl_reconciler_id = ca_adapter a, sl_reconciler_generation = ca_adapter_generation a,
      sl_fence = build_reconcile_fence i (tk_revision t) attempt_id (Some d) (ca_adapter a)
        (ca_adapter_generation a) ''settle'',
      sl_key = ''lookup-settle-'' @ drop 7 d\<rparr>"

definition resume_receipt ::
    "caller_config \<Rightarrow> (caller_ticket \<Rightarrow> (unit, caller_db) act) option \<Rightarrow> (nat \<Rightarrow> int) \<Rightarrow> string \<Rightarrow>
     caller_request \<Rightarrow> string \<Rightarrow> candidate_receipt \<Rightarrow> (caller_ticket, caller_db \<times> 's) act" where
  "resume_receipt c handler clk i request attempt_id receipt =
     seq (of_res (contract_document c ''CandidateReceipt'' (candidate_json receipt) receipt)) (\<lambda>_.
     seq (on_caller (append_candidate_receipt c receipt (lookup_source request))) (\<lambda>_.
     seq (on_caller (caller_tx (saved c i))) (\<lambda>current.
     if model_succeeded (cr_observation receipt) then
       if tk_state current = T_send_started then
         on_caller (mark_outcome_unknown c i (tk_revision current) (clk 0))
       else ret current
     else case tk_claimant current of
       None \<Rightarrow> throw (AttributeError ''NoneType object has no attribute adapter_id'')
     | Some a \<Rightarrow> within fst (\<lambda>p s. (p, snd s)) (settle_candidate c handler
         (lookup_settlement i current a attempt_id (cr_receipt_digest receipt)) clk))))"

definition caller_resume ::
    "caller_config \<Rightarrow> (caller_ticket \<Rightarrow> (unit, caller_db) act) option \<Rightarrow>
     (string \<Rightarrow> (candidate_receipt option, 's) act) \<Rightarrow> (nat \<Rightarrow> int) \<Rightarrow> string \<Rightarrow>
     (caller_ticket, caller_db \<times> 's) act" where
  "caller_resume c handler lookup clk i =
     seq (on_caller (caller_tx (saved c i))) (\<lambda>t.
     if tk_state t \<notin> {T_send_started, T_outcome_unknown, T_cancel_requested} then
       throw (InvalidTicketTransition (''cannot resume caller work from '' @ ticket_wire (tk_state t)))
     else case tk_attempt t of
       None \<Rightarrow> throw (CallerWorkConflict ''may-have-sent ticket has no physical attempt'')
     | Some a \<Rightarrow>
         seq (within snd (\<lambda>w s. (fst s, w)) (lookup (pa_key a))) (\<lambda>found.
         case found of
           None \<Rightarrow>
             if tk_state t = T_send_started then
               on_caller (mark_outcome_unknown c i (tk_revision t) (clk 0))
             else ret t
         | Some receipt \<Rightarrow> resume_receipt c handler clk i (tk_request t) (pa_attempt_id a) receipt))"

end
