(* ===== verification/Caller_Runs.thy ===== *)
theory Caller_Runs
  imports Caller_Work
begin

text \<open>
  The life of caller-delegated tickets: the automaton a ticket follows, the steps the repository's
  methods make with everything else that may happen to the database between them, and what no step
  undoes.
\<close>

section \<open>The ticket automaton\<close>

text \<open>
  Section 4 of \<open>docs/sdd/aar-rlm-native-workbench-v2/LIFECYCLE.md\<close>, edge by edge, and the two moves the
  code makes that the section does not name: conflicting receipts quarantine a ticket whose send has
  only started, and \<open>request_cancel\<close> takes a ticket of unknown outcome.
\<close>

fun lifecycle_edges :: "ticket_state \<Rightarrow> ticket_state set" where
  "lifecycle_edges T_pending = {T_send_reserved, T_cancelled_before_send}"
| "lifecycle_edges T_send_reserved = {T_send_started, T_cancelled_before_send, T_pending}"
| "lifecycle_edges T_send_started = {T_settled_success, T_settled_failure, T_outcome_unknown, T_cancel_requested}"
| "lifecycle_edges T_outcome_unknown = {T_settled_success, T_settled_failure, T_cancelled_certain, T_quarantined}"
| "lifecycle_edges T_cancel_requested = {T_settled_success, T_settled_failure, T_cancelled_certain, T_quarantined}"
| "lifecycle_edges _ = {}"

definition undocumented_edges :: "(ticket_state \<times> ticket_state) set" where
  "undocumented_edges = {(T_send_started, T_quarantined), (T_outcome_unknown, T_cancel_requested)}"

definition code_edge :: "ticket_state \<Rightarrow> ticket_state \<Rightarrow> bool" where
  "code_edge st st' \<longleftrightarrow> st' \<in> lifecycle_edges st \<or> (st, st') \<in> undocumented_edges"

text \<open>The ends of a ticket that was sent.\<close>

definition sent_ends :: "ticket_state set" where
  "sent_ends = {T_settled_success, T_settled_failure, T_cancelled_certain, T_quarantined}"

definition final_states :: "ticket_state set" where
  "final_states = {T_settled_success, T_settled_failure, T_cancelled_before_send,
     T_cancelled_certain, T_quarantined}"

text \<open>What a ticket is issued with and never loses, and what its send fixes.\<close>

definition issued :: "ticket_row \<Rightarrow> string \<times> operation_ref \<times> int \<times> string \<times> caller_request \<times> string \<times> call_owner \<times> int" where
  "issued r = (tr_ticket_id r, tr_operation r, tr_suspension_revision r, tr_ticket_digest r,
     tr_request r, tr_request_digest r, tr_owner r, tr_deadline r)"

definition send_mark :: "ticket_row \<Rightarrow> int option \<times> string option \<times> string option \<times> string option \<times> string option" where
  "send_mark r = (tr_send_started_at r, tr_sent_request_digest r, tr_attempt_id r, tr_key r, tr_claim_id r)"

definition ticket_move :: "ticket_row \<Rightarrow> ticket_row \<Rightarrow> bool" where
  "ticket_move r r' \<longleftrightarrow> tr_revision r' = tr_revision r + 1 \<and>
     code_edge (tr_state r) (tr_state r') \<and> issued r' = issued r \<and>
     (may_have_sent r \<longrightarrow> send_mark r' = send_mark r)"

lemma may_have_sent_states: "may_have_sent r \<longleftrightarrow>
    tr_state r = T_send_started \<or> tr_state r = T_outcome_unknown \<or> tr_state r = T_cancel_requested"
  by (auto simp: may_have_sent_def)

lemma ticket_moveI [intro]:
  "tr_revision r' = tr_revision r + 1 \<Longrightarrow> code_edge (tr_state r) (tr_state r') \<Longrightarrow>
   issued r' = issued r \<Longrightarrow> (may_have_sent r \<Longrightarrow> send_mark r' = send_mark r) \<Longrightarrow> ticket_move r r'"
  by (simp add: ticket_move_def)

text \<open>The outcomes of the contract never name a cancellation as \<open>_apply_candidate_settlement\<close> reads it.\<close>

lemma cancelled_certain_is_never_settled: "settled_state out \<in> {T_settled_success, T_settled_failure}"
  by (cases out) (simp_all add: settled_state_def)

lemma code_edge_simps [simp]:
  "code_edge T_pending st \<longleftrightarrow> st = T_send_reserved \<or> st = T_cancelled_before_send"
  "code_edge T_send_reserved st \<longleftrightarrow> st = T_send_started \<or> st = T_cancelled_before_send \<or> st = T_pending"
  "code_edge T_send_started st \<longleftrightarrow> st = T_settled_success \<or> st = T_settled_failure \<or> st = T_outcome_unknown \<or>
     st = T_cancel_requested \<or> st = T_quarantined"
  "code_edge T_outcome_unknown st \<longleftrightarrow> st \<in> sent_ends \<or> st = T_cancel_requested"
  "code_edge T_cancel_requested st \<longleftrightarrow> st \<in> sent_ends"
  "\<not> code_edge T_settled_success st" "\<not> code_edge T_settled_failure st" "\<not> code_edge T_cancelled_before_send st"
  "\<not> code_edge T_cancelled_certain st" "\<not> code_edge T_quarantined st"
  by (auto simp: code_edge_def undocumented_edges_def sent_ends_def)

text \<open>The seven row updates are moves of the automaton from the states they are guarded by.\<close>

named_theorems moves_of \<open>row updates as moves of the automaton\<close>

lemma reserved_move [moves_of]: "tr_state r = T_pending \<Longrightarrow> ticket_move r (reserved_row v i a now r)"
  by (auto simp: reserved_row_def issued_def may_have_sent_def)

lemma released_move [moves_of]:
  "tr_state r = T_send_reserved \<Longrightarrow> ticket_move r (released_row now r)"
  "tr_state r = T_send_reserved \<Longrightarrow> ticket_move r (reclaimed_row now r)"
  by (auto simp: released_row_def reclaimed_row_def issued_def may_have_sent_def)

lemma sending_move [moves_of]: "tr_state r = T_send_reserved \<Longrightarrow> ticket_move r (sending_row v now r)"
  by (auto simp: sending_row_def issued_def may_have_sent_def)

lemma cancelled_move [moves_of]:
  "tr_state r = T_pending \<or> tr_state r = T_send_reserved \<Longrightarrow> ticket_move r (cancelled_row v now r)"
  by (auto simp: cancelled_row_def issued_def may_have_sent_def)

lemma restated_move [moves_of]:
  "code_edge (tr_state r) st \<Longrightarrow> ticket_move r (restated_row st now r)"
  by (auto simp: restated_row_def issued_def send_mark_def)

lemma settled_move [moves_of]: "may_have_sent r \<Longrightarrow> ticket_move r (settled_row s now r)"
  using cancelled_certain_is_never_settled [of "ob_outcome (cr_observation s)"]
  by (auto simp: settled_row_def issued_def send_mark_def may_have_sent_states sent_ends_def)

section \<open>Invariant\<close>

definition caller_ok :: "caller_db \<Rightarrow> bool" where
  "caller_ok db \<longleftrightarrow> distinct (map tr_ticket_id (cd_tickets db)) \<and>
     (\<forall>r \<in> set (cd_tickets db). ticket_checks r)"

lemma find_ticket_SomeD: "find_ticket i db = Some r \<Longrightarrow> r \<in> set (cd_tickets db) \<and> tr_ticket_id r = i"
  unfolding find_ticket_def by (drule fetchone_SomeD) simp

lemma caller_row_Inr [res_simps]: "caller_row i db = Inr r \<longleftrightarrow> find_ticket i db = Some r"
  by (auto simp: caller_row_def split: option.splits)

lemma find_ticket_key:
  "caller_ok db \<Longrightarrow> r \<in> set (cd_tickets db) \<Longrightarrow> tr_ticket_id r = i \<Longrightarrow> find_ticket i db = Some r"
  unfolding find_ticket_def caller_ok_def by (rule fetchone_key [where k = tr_ticket_id]) auto

lemma find_ticket_checks: "caller_ok db \<Longrightarrow> find_ticket i db = Some r \<Longrightarrow> ticket_checks r"
  using find_ticket_SomeD by (fastforce simp: caller_ok_def)

text \<open>
  What a statement may do to the tickets: move one along the automaton, append one, or nothing.
\<close>

definition ticket_target :: "ticket_row \<Rightarrow> ticket_row \<Rightarrow> bool" where
  "ticket_target r x \<longleftrightarrow> tr_ticket_id x = tr_ticket_id r \<and> tr_revision x = tr_revision r"

definition ticket_updated :: "caller_db \<Rightarrow> caller_db \<Rightarrow> bool" where
  "ticket_updated db db' \<longleftrightarrow> (\<exists>r f. find_ticket (tr_ticket_id r) db = Some r \<and> ticket_move r (f r) \<and>
     ticket_checks (f r) \<and> cd_tickets db' = update_rows (ticket_target r) f (cd_tickets db))"

definition ticket_added :: "caller_db \<Rightarrow> caller_db \<Rightarrow> bool" where
  "ticket_added db db' \<longleftrightarrow> (\<exists>r. cd_tickets db' = cd_tickets db @ [r] \<and> ticket_checks r \<and>
     find_ticket (tr_ticket_id r) db = None)"

definition ticket_kept :: "caller_db \<Rightarrow> caller_db \<Rightarrow> bool" where
  "ticket_kept db db' \<longleftrightarrow> cd_tickets db' = cd_tickets db"

definition tickets_step :: "caller_db \<Rightarrow> caller_db \<Rightarrow> bool" where
  "tickets_step db db' \<longleftrightarrow> ticket_updated db db' \<or> ticket_added db db' \<or> ticket_kept db db'"

lemma update_ticket_Inr: "update_ticket i rv f db = Inr db' \<longleftrightarrow>
    db' = db\<lparr>cd_tickets := update_rows (\<lambda>r. tr_ticket_id r = i \<and> tr_revision r = rv) f (cd_tickets db)\<rparr> \<and>
    (\<forall>r \<in> set (cd_tickets db). tr_ticket_id r = i \<and> tr_revision r = rv \<longrightarrow> ticket_checks (f r)) \<and>
    unique_attempts (cd_tickets db') \<and> candidates_bound (cd_candidates db) (cd_tickets db')"
  by (auto simp: update_ticket_def Let_def list_all_iff)

text \<open>The statements that follow an UPDATE of a ticket leave the tickets alone.\<close>

definition same_tickets :: "caller_db \<Rightarrow> caller_db \<Rightarrow> bool" where
  "same_tickets db db' \<longleftrightarrow> cd_tickets db' = cd_tickets db \<and> cd_commands db' = cd_commands db \<and>
     cd_closed db' = cd_closed db"

lemma updated_by:
  assumes "find_ticket i db = Some r" "update_ticket i (tr_revision r) f db = Inr db1"
    and "same_tickets db1 db'" "ticket_move r (f r)"
  shows "ticket_updated db db'"
proof -
  have r: "r \<in> set (cd_tickets db)" "tr_ticket_id r = i" using find_ticket_SomeD [OF assms(1)] by simp_all
  have "ticket_target r = (\<lambda>x. tr_ticket_id x = i \<and> tr_revision x = tr_revision r)"
    by (rule ext) (simp add: ticket_target_def r(2))
  then have "cd_tickets db' = update_rows (ticket_target r) f (cd_tickets db)"
    using assms(2,3) by (simp add: update_ticket_Inr same_tickets_def)
  moreover have "ticket_checks (f r)" using assms(2) r by (simp add: update_ticket_Inr)
  ultimately show ?thesis unfolding ticket_updated_def using assms(1,4) r(2) by blast
qed

lemma same_refl [simp]: "same_tickets db db"
  by (simp add: same_tickets_def)

lemma saved_Inr [res_simps]: "saved c i db = Inr x \<longleftrightarrow> (\<exists>t. caller_get c i db = Inr t \<and> x = (t, db))"
  by (auto simp: saved_def and_then_Inr_iff)

lemma settle_suspension_same: "settle_suspension r st now db = Inr db' \<Longrightarrow> same_tickets db db'"
  by (auto simp: settle_suspension_def same_tickets_def Let_def split: option.splits if_split_asm)

lemma queue_successor_same: "queue_successor r d now j w db = Inr db' \<Longrightarrow> same_tickets db db'"
  by (auto simp: queue_successor_def same_tickets_def Let_def res_simps split: if_split_asm)

lemma same_trans: "same_tickets a b \<Longrightarrow> same_tickets b c \<Longrightarrow> same_tickets a c"
  by (simp add: same_tickets_def)

lemma project_terminal_same:
  assumes "project_terminal r st d now db = Inr db'"
  shows "same_tickets db db'"
proof -
  obtain db1 where 1: "settle_suspension r st now db = Inr db1"
    and "db' = db1 \<or> (\<exists>d j w. queue_successor r d now j w db1 = Inr db')"
    using assms by (auto simp: project_terminal_def res_simps split: if_split_asm option.split_asm)
  then show ?thesis using settle_suspension_same [OF 1] queue_successor_same same_trans by metis
qed

lemma quarantine_moves:
  assumes "find_ticket (tr_ticket_id r) db = Some r" "may_have_sent r" "quarantine_ticket c r now db = Inr (t, db')"
  shows "ticket_updated db db'" "cd_commands db' = cd_commands db" "caller_get c (tr_ticket_id r) db' = Inr t"
proof -
  obtain db1 where u: "update_ticket (tr_ticket_id r) (tr_revision r) (restated_row T_quarantined now) db = Inr db1"
    and p: "project_terminal r T_quarantined None now db1 = Inr db'" and g: "caller_get c (tr_ticket_id r) db' = Inr t"
    using assms(3) by (auto simp: quarantine_ticket_def res_simps)
  have "ticket_move r (restated_row T_quarantined now r)"
    using assms(2) by (intro moves_of) (auto simp: may_have_sent_states sent_ends_def)
  then show "ticket_updated db db'" using updated_by [OF assms(1) u] project_terminal_same [OF p] by blast
  show "cd_commands db' = cd_commands db"
    using u project_terminal_same [OF p] by (simp add: update_ticket_Inr same_tickets_def)
  show "caller_get c (tr_ticket_id r) db' = Inr t" by (rule g)
qed

lemma settlement_moves:
  assumes "find_ticket (tr_ticket_id r) db = Some r" "may_have_sent r" "apply_settlement c r s now db = Inr (t, db')"
  shows "ticket_updated db db'" "cd_commands db' = cd_commands db" "caller_get c (tr_ticket_id r) db' = Inr t"
proof -
  let ?st = "settled_state (ob_outcome (cr_observation s))"
  have cases: "quarantine_ticket c r now db = Inr (t, db') \<or>
    (\<exists>db1. update_ticket (tr_ticket_id r) (tr_revision r) (settled_row s now) db = Inr db1 \<and>
      project_terminal r ?st (Some (cr_receipt_digest s)) now db1 = Inr db' \<and>
      caller_get c (tr_ticket_id r) db' = Inr t)"
    using assms(3) by (auto simp: apply_settlement_def res_simps split: if_split_asm)
  have "ticket_updated db db' \<and> cd_commands db' = cd_commands db \<and> caller_get c (tr_ticket_id r) db' = Inr t"
    using cases
  proof
    assume "quarantine_ticket c r now db = Inr (t, db')"
    then show ?thesis using quarantine_moves [OF assms(1,2)] by blast
  next
    assume "\<exists>db1. update_ticket (tr_ticket_id r) (tr_revision r) (settled_row s now) db = Inr db1 \<and>
      project_terminal r ?st (Some (cr_receipt_digest s)) now db1 = Inr db' \<and>
      caller_get c (tr_ticket_id r) db' = Inr t"
    then obtain db1 where u: "update_ticket (tr_ticket_id r) (tr_revision r) (settled_row s now) db = Inr db1"
      and p: "project_terminal r ?st (Some (cr_receipt_digest s)) now db1 = Inr db'"
      and g: "caller_get c (tr_ticket_id r) db' = Inr t" by blast
    have "ticket_updated db db'"
      by (rule updated_by [OF assms(1) u project_terminal_same [OF p] settled_move [OF assms(2)]])
    then show ?thesis
      using u project_terminal_same [OF p] g by (simp add: update_ticket_Inr same_tickets_def)
  qed
  then show "ticket_updated db db'" "cd_commands db' = cd_commands db" "caller_get c (tr_ticket_id r) db' = Inr t"
    by blast+
qed

section \<open>The bodies of the commands\<close>

definition ran :: "caller_config \<Rightarrow> string \<Rightarrow> caller_db \<Rightarrow> caller_ticket \<Rightarrow> caller_db \<Rightarrow> bool" where
  "ran c i db t db' \<longleftrightarrow> (ticket_updated db db' \<or> ticket_kept db db') \<and>
     cd_commands db' = cd_commands db \<and> caller_get c i db' = Inr t"

lemma checked_row_Inr: "checked_row v db = Inr r \<Longrightarrow>
    find_ticket (cb_ticket_id v) db = Some r \<and> tr_ticket_id r = cb_ticket_id v \<and>
    tr_revision r = cb_revision v \<and> tr_operation r = cb_operation v"
  using find_ticket_SomeD by (fastforce simp: checked_row_def res_simps require_revision_def split: if_split_asm)

lemma updated_ran:
  assumes "find_ticket i db = Some r" "update_ticket i (tr_revision r) f db = Inr db'"
    and "caller_get c i db' = Inr t" "ticket_move r (f r)"
  shows "ran c i db t db'"
  using updated_by [OF assms(1,2) same_refl assms(4)] assms(2,3) by (simp add: ran_def update_ticket_Inr)

lemma claim_body_ran:
  assumes "claim_body c v i a now db = Inr (t, db')"
  shows "ran c (cb_ticket_id v) db t db'"
proof -
  obtain r where r: "checked_row v db = Inr r" "tr_state r = T_pending"
    and u: "update_ticket (tr_ticket_id r) (tr_revision r) (reserved_row v i a now) db = Inr db'"
    and g: "caller_get c (tr_ticket_id r) db' = Inr t"
    using assms by (auto simp: claim_body_def res_simps split: if_split_asm)
  note f = checked_row_Inr [OF r(1)]
  show ?thesis using updated_ran [of _ db r "reserved_row v i a now"] f u g reserved_move [OF r(2)] by auto
qed

lemma send_body_ran:
  assumes "send_body c v now db = Inr (t, db')"
  shows "ran c (cb_ticket_id v) db t db'"
proof -
  obtain r where r: "checked_row v db = Inr r" "tr_state r = T_send_reserved"
    and u: "update_ticket (tr_ticket_id r) (tr_revision r) (sending_row v now) db = Inr db'"
    and g: "caller_get c (tr_ticket_id r) db' = Inr t"
    using assms by (auto simp: send_body_def res_simps split: if_split_asm option.split_asm)
  note f = checked_row_Inr [OF r(1)]
  show ?thesis using updated_ran [of _ db r "sending_row v now"] f u g sending_move [OF r(2)] by auto
qed

lemma cancel_body_ran:
  assumes "cancel_body c v now db = Inr (t, db')"
  shows "ran c (cb_ticket_id v) db t db'"
proof -
  obtain r db1 where r: "checked_row v db = Inr r" "tr_state r = T_pending \<or> tr_state r = T_send_reserved"
    and u: "update_ticket (tr_ticket_id r) (tr_revision r) (cancelled_row v now) db = Inr db1"
    and p: "project_terminal r T_cancelled_before_send (Some (cn_settled_digest v)) (cn_settled_at v) db1 = Inr db'"
    and g: "caller_get c (tr_ticket_id r) db' = Inr t"
    using assms by (auto simp: cancel_body_def res_simps split: if_split_asm)
  note f = checked_row_Inr [OF r(1)]
  have "ticket_updated db db'"
    using updated_by [of "tr_ticket_id r" db r "cancelled_row v now"] f u project_terminal_same [OF p]
      cancelled_move [OF r(2)] by auto
  then show ?thesis
    using u g f project_terminal_same [OF p] by (simp add: ran_def update_ticket_Inr same_tickets_def)
qed

lemma settlement_ran:
  assumes "find_ticket i db = Some r" "may_have_sent r" "apply_settlement c r s now db = Inr (t, db')"
  shows "ran c i db t db'"
  using settlement_moves [of r db c s now t db'] find_ticket_SomeD [OF assms(1)] assms by (simp add: ran_def)

lemma quarantine_ran:
  assumes "find_ticket i db = Some r" "may_have_sent r" "quarantine_ticket c r now db = Inr (t, db')"
  shows "ran c i db t db'"
  using quarantine_moves [of r db c now t db'] find_ticket_SomeD [OF assms(1)] assms by (simp add: ran_def)

lemma reconcile_body_ran:
  assumes "reconcile_body c v now db = Inr (t, db')"
  shows "ran c (cb_ticket_id v) db t db'"
proof -
  obtain r where r: "checked_row v db = Inr r"
    using assms by (auto simp: reconcile_body_def and_then_Inr_iff)
  note f = checked_row_Inr [OF r]
  show ?thesis
  proof (cases "cv_action v")
    case R_lookup
    with assms r f show ?thesis
      by (auto simp: reconcile_body_def res_simps ran_def ticket_kept_def split: if_split_asm)
  next
    case R_retry_if_certain_no_send
    with assms r have "tr_state r = T_send_reserved"
      "\<exists>db1. update_ticket (tr_ticket_id r) (tr_revision r) (released_row now) db = Inr db1 \<and>
         saved c (tr_ticket_id r) db1 = Inr (t, db')"
      by (auto simp: reconcile_body_def and_then_Inr_iff split: if_split_asm)
    then show ?thesis
      using f updated_ran [of "cb_ticket_id v" db r "released_row now" db' c t] released_move(1) [of r now]
      by (auto simp: saved_Inr)
  next
    case R_quarantine
    with assms r have "may_have_sent r" "quarantine_ticket c r now db = Inr (t, db')"
      by (auto simp: reconcile_body_def and_then_Inr_iff split: if_split_asm option.split_asm)
    then show ?thesis using f quarantine_ran by blast
  next
    case R_settle
    with assms r have "may_have_sent r" "\<exists>s. apply_settlement c r s now db = Inr (t, db')"
      by (auto simp: reconcile_body_def and_then_Inr_iff split: if_split_asm option.split_asm)
    then show ?thesis using f settlement_ran by blast
  qed
qed

lemma insert_candidate_same: "insert_candidate s k db = Inr (b, db') \<Longrightarrow> same_tickets db db'"
  by (auto simp: insert_candidate_def same_tickets_def split: if_split_asm)

lemma find_ticket_same: "same_tickets db db' \<Longrightarrow> find_ticket i db' = find_ticket i db"
  by (simp add: find_ticket_def same_tickets_def)

lemma ran_same: "same_tickets db db1 \<Longrightarrow> ran c i db1 t db' \<Longrightarrow> ran c i db t db'"
  by (simp add: ran_def ticket_updated_def ticket_kept_def find_ticket_def same_tickets_def)

lemma commit_body_ran:
  assumes "commit_body c v clk db = Inr (t, db')"
  shows "ran c (cb_ticket_id v) db t db'"
proof -
  obtain r s b db1 where r: "checked_row v db = Inr r" "may_have_sent r"
    and i: "insert_candidate s Claimant_callback db = Inr (b, db1)"
    and a: "apply_settlement c r s (clk 1) db1 = Inr (t, db')"
    using assms by (auto simp: commit_body_def res_simps split: if_split_asm)
  note f = checked_row_Inr [OF r(1)] and e = insert_candidate_same [OF i]
  then show ?thesis
    using ran_same [OF e settlement_ran [of _ db1 r c s "clk 1" t db']] a r(2) by (auto simp: find_ticket_same [OF e])
qed

lemma settle_body_ran:
  assumes "settle_body c v r now db = Inr (t, db')" "find_ticket i db = Some r"
  shows "ran c i db t db'"
proof -
  obtain s where "may_have_sent r" "apply_settlement c r s now db = Inr (t, db')"
    using assms by (auto simp: settle_body_def res_simps Let_def split: if_split_asm option.split_asm)
  then show ?thesis using settlement_ran [OF assms(2)] by blast
qed

section \<open>Steps\<close>

text \<open>
  The commands that leave a receipt. A commit and the settlement of a stored candidate are the
  transactions of \<open>commit\<close> and \<open>settle_candidate\<close>; their notification of the settlement handler follows
  the transaction and returns nothing.
\<close>

datatype caller_call =
    Call_claim claim_command
  | Call_send send_command
  | Call_cancel cancel_command
  | Call_reconcile reconcile_command
  | Call_settle settle_command
  | Call_commit commit_command

fun run_call ::
    "caller_config \<Rightarrow> caller_call \<Rightarrow> string \<times> string \<Rightarrow> (nat \<Rightarrow> int) \<Rightarrow> caller_db \<Rightarrow>
     (caller_ticket \<times> caller_db) res" where
  "run_call c (Call_claim v) (claim_id, attempt_id) clk db = caller_claim c v claim_id attempt_id clk db"
| "run_call c (Call_send v) _ clk db = mark_send_started c v clk db"
| "run_call c (Call_cancel v) _ clk db = cancel_before_send c v clk db"
| "run_call c (Call_reconcile v) _ clk db = caller_reconcile c v clk db"
| "run_call c (Call_settle v) _ clk db = settle_in_transaction c v clk db"
| "run_call c (Call_commit v) _ clk db = commit_transaction c v clk db"

text \<open>
  Every method that writes a ticket, a candidate receipt or a command receipt is in
  \<open>caller_work.py\<close>; the rest of the program changes the other tables as it likes.
\<close>

inductive caller_step :: "caller_config \<Rightarrow> caller_db \<Rightarrow> caller_db \<Rightarrow> bool" for c where
  created: "create_ticket c t now db = Inr (x, db') \<Longrightarrow> caller_step c db db'"
| called: "run_call c v ids clk db = Inr (x, db') \<Longrightarrow> caller_step c db db'"
| reclaimed: "reclaim_expired c i rv claim_id fence clk db = Inr (x, db') \<Longrightarrow> caller_step c db db'"
| cancel_asked: "ticket_request_cancel c i rv now db = Inr (x, db') \<Longrightarrow> caller_step c db db'"
| marked_unknown: "mark_outcome_unknown c i rv now db = Inr (x, db') \<Longrightarrow> caller_step c db db'"
| appended: "append_candidate_receipt c s k db = Inr (y, db') \<Longrightarrow> caller_step c db db'"
| model_appended: "append_model_candidate_receipt c s response k db = Inr (y, db') \<Longrightarrow> caller_step c db db'"
| elsewhere: "cd_tickets db' = cd_tickets db \<Longrightarrow> cd_candidates db' = cd_candidates db \<Longrightarrow>
    cd_commands db' = cd_commands db \<Longrightarrow> caller_step c db db'"

lemma settled: "settle_in_transaction c v clk db = Inr (x, db') \<Longrightarrow> caller_step c db db'"
  by (rule called [where v = "Call_settle v"]) simp

definition commands_grow :: "caller_db \<Rightarrow> caller_db \<Rightarrow> bool" where
  "commands_grow db db' \<longleftrightarrow> (\<exists>qs. cd_commands db' = cd_commands db @ qs)"

definition caller_moves :: "caller_db \<Rightarrow> caller_db \<Rightarrow> bool" where
  "caller_moves db db' \<longleftrightarrow> tickets_step db db' \<and> commands_grow db db'"

lemma caller_tx_Inr [res_simps]: "caller_tx f db = Inr x \<longleftrightarrow> \<not> cd_closed db \<and> f db = Inr x"
  by (simp add: caller_tx_def)

lemma record_command_Inr: "record_command r k key v t now db = Inr (x, db') \<longleftrightarrow> x = t \<and>
    (\<forall>q \<in> set (cd_commands db). \<not> (cq_operation q = tr_operation r \<and> cq_key q = key)) \<and>
    db' = db\<lparr>cd_commands := cd_commands db @
      [\<lparr>cq_operation = tr_operation r, cq_ticket_id = tr_ticket_id r, cq_kind = k, cq_key = key,
        cq_digest = command_digest k v, cq_result_revision = tk_revision t, cq_result = t,
        cq_result_digest = json_digest (ticket_json t), cq_created_at = now\<rparr>]\<rparr>"
  by (auto simp: record_command_def res_simps)

lemma or_replayE:
  assumes "or_replay c r k key v now body db = Inr (t, db')"
  obtains "replay_command c r k key v db = Inr (Some t)" "db' = db"
    | db1 where "replay_command c r k key v db = Inr None" "body db = Inr (t, db1)"
        "record_command r k key v t now db1 = Inr (t, db')"
proof -
  obtain w where w: "replay_command c r k key v db = Inr w"
    and b: "(case w of Some result \<Rightarrow> Inr (result, db)
       | None \<Rightarrow> and_then (body db) (\<lambda>(result, db1). record_command r k key v result now db1)) = Inr (t, db')"
    using assms by (auto simp: or_replay_def and_then_Inr_iff)
  show thesis
  proof (cases w)
    case None
    with b obtain x db1 where x: "body db = Inr (x, db1)" "record_command r k key v x now db1 = Inr (t, db')"
      by (auto simp: and_then_Inr_iff)
    then have "x = t" by (simp add: record_command_Inr)
    with x w None show thesis by (intro that(2)) simp_all
  next
    case (Some y)
    with b w show thesis by (intro that(1)) simp_all
  qed
qed

lemma ran_moves: "ran c i db t db1 \<Longrightarrow> record_command r k key v t now db1 = Inr (t, db') \<Longrightarrow> caller_moves db db'"
  by (auto simp: ran_def caller_moves_def tickets_step_def commands_grow_def record_command_Inr
      ticket_updated_def ticket_kept_def)

lemma or_replay_moves:
  assumes "or_replay c r k key v now body db = Inr (t, db')"
    and "\<And>db1. body db = Inr (t, db1) \<Longrightarrow> ran c i db t db1"
  shows "caller_moves db db'"
  using assms(1)
proof (cases rule: or_replayE)
  case 1
  then show ?thesis by (simp add: caller_moves_def tickets_step_def ticket_kept_def commands_grow_def)
next
  case (2 db1)
  then show ?thesis using ran_moves assms(2) by blast
qed

text \<open>
  The commands have one frame: the contract, the ticket, the model evidence of a commit, the answer
  given before, and only then the command itself.
\<close>

fun call_ticket :: "caller_call \<Rightarrow> string" where
  "call_ticket (Call_claim v) = cb_ticket_id v"
| "call_ticket (Call_send v) = cb_ticket_id v"
| "call_ticket (Call_cancel v) = cb_ticket_id v"
| "call_ticket (Call_reconcile v) = cb_ticket_id v"
| "call_ticket (Call_settle v) = sl_ticket_id v"
| "call_ticket (Call_commit v) = cb_ticket_id v"

fun call_key :: "caller_call \<Rightarrow> string" where
  "call_key (Call_claim v) = cb_key v"
| "call_key (Call_send v) = cb_key v"
| "call_key (Call_cancel v) = cb_key v"
| "call_key (Call_reconcile v) = cb_key v"
| "call_key (Call_settle v) = sl_key v"
| "call_key (Call_commit v) = cb_key v"

fun call_kind :: "caller_call \<Rightarrow> command_kind" where
  "call_kind (Call_claim v) = K_claim"
| "call_kind (Call_send v) = K_mark_send_started"
| "call_kind (Call_cancel v) = K_cancel_before_send"
| "call_kind (Call_reconcile v) = K_reconcile"
| "call_kind (Call_settle v) = K_reconcile"
| "call_kind (Call_commit v) = K_commit"

fun call_json :: "caller_call \<Rightarrow> json" where
  "call_json (Call_claim v) = claim_json v"
| "call_json (Call_send v) = send_json v"
| "call_json (Call_cancel v) = cancel_json v"
| "call_json (Call_reconcile v) = reconcile_json v"
| "call_json (Call_settle v) = settle_json v"
| "call_json (Call_commit v) = commit_json v"

fun call_accepted :: "caller_config \<Rightarrow> caller_call \<Rightarrow> bool" where
  "call_accepted c (Call_claim v) = ch_accepts c ''CallerWorkClaimInput'' (claim_json v)"
| "call_accepted c (Call_send v) = ch_accepts c ''CallerWorkMarkSendStartedInput'' (send_json v)"
| "call_accepted c (Call_cancel v) = ch_accepts c ''CallerWorkCancelBeforeSendInput'' (cancel_json v)"
| "call_accepted c (Call_reconcile v) = ch_accepts c ''CallerWorkReconcileInput'' (reconcile_json v)"
| "call_accepted c (Call_settle v) = True"
| "call_accepted c (Call_commit v) = ch_accepts c ''CallerWorkCommitInput'' (commit_json v)"

fun call_evidence :: "caller_config \<Rightarrow> caller_call \<Rightarrow> ticket_row \<Rightarrow> caller_db \<Rightarrow> caller_db res" where
  "call_evidence c (Call_commit v) r db = commit_evidence c v r db"
| "call_evidence c _ r db = Inr db"

fun journals_evidence :: "caller_call \<Rightarrow> bool" where
  "journals_evidence (Call_commit v) = model_succeeded (cm_observation v)"
| "journals_evidence _ = False"

lemma no_evidence: "\<not> journals_evidence v \<Longrightarrow> call_evidence c v r db = Inr db"
  by (cases v) (simp_all add: commit_evidence_def)

lemma record_model_response_same: "record_model_response c r ob response db = Inr db' \<Longrightarrow> same_tickets db db'"
  by (auto simp: record_model_response_def record_caller_result_def as_conflict_def res_simps same_tickets_def Let_def
      split: if_split_asm sum.split_asm option.split_asm prod.split_asm)

lemma commit_evidence_same: "commit_evidence c v r db = Inr db' \<Longrightarrow> same_tickets db db'"
  using record_model_response_same
  by (auto simp: commit_evidence_def split: if_split_asm option.split_asm)

lemma evidence_same: "call_evidence c v r db = Inr db' \<Longrightarrow> same_tickets db db'"
  by (cases v) (auto intro: commit_evidence_same)

lemma run_call_frame:
  "\<exists>now body. (\<forall>r d x d'. find_ticket (call_ticket v) d = Some r \<longrightarrow> body r d = Inr (x, d') \<longrightarrow>
        ran c (call_ticket v) d x d') \<and>
     (\<forall>db y. run_call c v ids clk db = Inr y \<longleftrightarrow> call_accepted c v \<and> \<not> cd_closed db \<and>
       (\<exists>r d. find_ticket (call_ticket v) db = Some r \<and> call_evidence c v r db = Inr d \<and>
         or_replay c r (call_kind v) (call_key v) (call_json v) now (body r) d = Inr y))"
proof (cases v)
  case (Call_claim w)
  obtain i a where ids: "ids = (i, a)" by fastforce
  show ?thesis
    by (rule exI [of _ "clk 1"], rule exI [of _ "\<lambda>_. claim_body c w i a (clk 0)"])
      (auto simp: Call_claim ids caller_claim_def res_simps intro: claim_body_ran)
next
  case (Call_send w)
  show ?thesis
    by (rule exI [of _ "clk 1"], rule exI [of _ "\<lambda>_. send_body c w (clk 0)"])
      (auto simp: Call_send mark_send_started_def res_simps intro: send_body_ran)
next
  case (Call_cancel w)
  show ?thesis
    by (rule exI [of _ "clk 1"], rule exI [of _ "\<lambda>_. cancel_body c w (clk 0)"])
      (auto simp: Call_cancel cancel_before_send_def res_simps intro: cancel_body_ran)
next
  case (Call_reconcile w)
  show ?thesis
    by (rule exI [of _ "clk (if cv_action w = R_lookup then 0 else 1)"], rule exI [of _ "\<lambda>_. reconcile_body c w (clk 0)"])
      (auto simp: Call_reconcile caller_reconcile_def res_simps intro: reconcile_body_ran)
next
  case (Call_settle w)
  show ?thesis
    by (rule exI [of _ "clk 1"], rule exI [of _ "\<lambda>r. settle_body c w r (clk 0)"])
      (auto simp: Call_settle settle_in_transaction_def res_simps intro: settle_body_ran)
next
  case (Call_commit w)
  show ?thesis
    by (rule exI [of _ "clk 2"], rule exI [of _ "\<lambda>_. commit_body c w clk"])
      (auto simp: Call_commit commit_transaction_def commit_in_transaction_def res_simps intro: commit_body_ran)
qed

text \<open>A command that returned, and one whose answer is stored.\<close>

lemma run_callE:
  assumes "run_call c v ids clk db = Inr (t, db')"
  obtains r d now body where "call_accepted c v" "\<not> cd_closed db" "find_ticket (call_ticket v) db = Some r"
    "call_evidence c v r db = Inr d"
    "or_replay c r (call_kind v) (call_key v) (call_json v) now body d = Inr (t, db')"
    "\<And>x d'. body d = Inr (x, d') \<Longrightarrow> ran c (call_ticket v) d x d'"
proof -
  obtain now body where b: "\<forall>r d x d'. find_ticket (call_ticket v) d = Some r \<longrightarrow> body r d = Inr (x, d') \<longrightarrow>
        ran c (call_ticket v) d x d'"
    and f: "\<forall>db y. run_call c v ids clk db = Inr y \<longleftrightarrow> call_accepted c v \<and> \<not> cd_closed db \<and>
       (\<exists>r d. find_ticket (call_ticket v) db = Some r \<and> call_evidence c v r db = Inr d \<and>
         or_replay c r (call_kind v) (call_key v) (call_json v) now (body r) d = Inr y)"
    using run_call_frame [of v c ids clk] by blast
  from f assms obtain r d where r: "call_accepted c v" "\<not> cd_closed db" "find_ticket (call_ticket v) db = Some r"
    "call_evidence c v r db = Inr d"
    "or_replay c r (call_kind v) (call_key v) (call_json v) now (body r) d = Inr (t, db')" by blast
  have "find_ticket (call_ticket v) d = Some r" using find_ticket_same [OF evidence_same [OF r(4)]] r(3) by simp
  with b show thesis by (intro that [OF r]) blast
qed

lemma stored_call:
  assumes "call_accepted c v" "\<not> cd_closed db" "find_ticket (call_ticket v) db = Some r" "call_evidence c v r db = Inr d"
    and "replay_command c r (call_kind v) (call_key v) (call_json v) d = Inr (Some t)"
  shows "run_call c v ids clk db = Inr (t, d)"
proof -
  obtain now body where "\<forall>db y. run_call c v ids clk db = Inr y \<longleftrightarrow> call_accepted c v \<and> \<not> cd_closed db \<and>
       (\<exists>r d. find_ticket (call_ticket v) db = Some r \<and> call_evidence c v r db = Inr d \<and>
         or_replay c r (call_kind v) (call_key v) (call_json v) now (body r) d = Inr y)"
    using run_call_frame [of v c ids clk] by blast
  moreover have "or_replay c r (call_kind v) (call_key v) (call_json v) now (body r) d = Inr (t, d)"
    using assms(5) by (simp add: or_replay_def)
  ultimately show ?thesis using assms(1-4) by blast
qed

section \<open>Every step moves tickets along the automaton\<close>

lemma same_moves: "same_tickets db db' \<Longrightarrow> caller_moves db db'"
  by (simp add: same_tickets_def caller_moves_def tickets_step_def ticket_kept_def commands_grow_def)

lemma ran_alone: "ran c i db t db' \<Longrightarrow> caller_moves db db'"
  by (auto simp: ran_def caller_moves_def tickets_step_def commands_grow_def)

lemma moves_same: "same_tickets db db1 \<Longrightarrow> caller_moves db1 db' \<Longrightarrow> caller_moves db db'"
  by (simp add: caller_moves_def tickets_step_def ticket_updated_def ticket_added_def ticket_kept_def
      commands_grow_def find_ticket_def same_tickets_def)

lemma run_call_moves:
  assumes "run_call c v ids clk db = Inr (t, db')"
  shows "caller_moves db db'"
  using assms
proof (cases rule: run_callE)
  case (1 r d now body)
  show ?thesis using moves_same [OF evidence_same [OF 1(4)]] or_replay_moves [OF 1(5)] 1(6) by blast
qed

lemma create_ticket_moves:
  assumes "create_ticket c t now db = Inr (x, db')"
  shows "caller_moves db db'"
proof (cases "find_ticket (tk_ticket_id t) db")
  case None
  with assms have "insert_ticket (new_ticket_row t now) db = Inr db'"
    by (auto simp: create_ticket_def res_simps)
  then have "ticket_checks (new_ticket_row t now)" "cd_tickets db' = cd_tickets db @ [new_ticket_row t now]"
    "cd_commands db' = cd_commands db"
    by (auto simp: insert_ticket_def res_simps split: if_split_asm)
  moreover have "find_ticket (tr_ticket_id (new_ticket_row t now)) db = None"
    using None by (simp add: new_ticket_row_def)
  ultimately show ?thesis
    by (auto simp: caller_moves_def tickets_step_def ticket_added_def commands_grow_def)
next
  case (Some r)
  with assms have "db' = db" by (auto simp: create_ticket_def res_simps split: if_split_asm)
  then show ?thesis using same_moves [OF same_refl] by simp
qed

lemma plain_update_moves:
  assumes "find_ticket i db = Some r" "update_ticket i (tr_revision r) f db = Inr db1"
    and "saved c i db1 = Inr (t, db')" "ticket_move r (f r)"
  shows "caller_moves db db'"
proof -
  have "caller_get c i db1 = Inr t" "db' = db1" using assms(3) by (simp_all add: saved_Inr)
  then show ?thesis using ran_alone [OF updated_ran [OF assms(1,2) _ assms(4)]] by blast
qed

lemma require_revision_Inr [res_simps]: "require_revision r n = Inr u \<longleftrightarrow> tr_revision r = n"
  by (simp add: require_revision_def res_simps)

lemma reclaim_moves:
  assumes "reclaim_expired c i rv claim_id fence clk db = Inr (t, db')"
  shows "caller_moves db db'"
proof -
  obtain r db1 where "find_ticket i db = Some r" "tr_state r = T_send_reserved"
    "update_ticket i (tr_revision r) (reclaimed_row (clk 1)) db = Inr db1" "saved c i db1 = Inr (t, db')"
    using assms
    by (auto simp: reclaim_expired_def caller_tx_Inr and_then_Inr_iff caller_row_Inr require_revision_Inr
        split: if_split_asm option.split_asm)
  then show ?thesis using plain_update_moves released_move(2) by blast
qed

lemma request_cancel_moves:
  assumes "ticket_request_cancel c i rv now db = Inr (t, db')"
  shows "caller_moves db db'"
proof -
  obtain r db1 where "find_ticket i db = Some r" "tr_state r = T_send_started \<or> tr_state r = T_outcome_unknown"
    "update_ticket i (tr_revision r) (restated_row T_cancel_requested now) db = Inr db1" "saved c i db1 = Inr (t, db')"
    using assms
    by (auto simp: ticket_request_cancel_def caller_tx_Inr and_then_Inr_iff caller_row_Inr require_revision_Inr
        split: if_split_asm)
  then show ?thesis
    using plain_update_moves [of i db r "restated_row T_cancel_requested now" db1 c t db']
      restated_move [of r T_cancel_requested now] by auto
qed

lemma mark_unknown_moves:
  assumes "mark_outcome_unknown c i rv now db = Inr (t, db')"
  shows "caller_moves db db'"
proof -
  obtain r where r: "find_ticket i db = Some r" and "db' = db \<or> (tr_state r = T_send_started \<and>
     (\<exists>db1. update_ticket i (tr_revision r) (restated_row T_outcome_unknown now) db = Inr db1 \<and> saved c i db1 = Inr (t, db')))"
    using assms
    by (auto simp: mark_outcome_unknown_def caller_tx_Inr and_then_Inr_iff caller_row_Inr require_revision_Inr
        split: if_split_asm)
  then show ?thesis
    using plain_update_moves [OF r, of "restated_row T_outcome_unknown now" _ c t db']
      restated_move [of r T_outcome_unknown now] same_moves [OF same_refl] by auto
qed

lemma append_moves:
  assumes "append_candidate_receipt c s k db = Inr (y, db')"
  shows "caller_moves db db'"
proof -
  obtain b where "insert_candidate s k db = Inr (b, db')"
    using assms by (auto simp: append_candidate_receipt_def res_simps)
  then show ?thesis using same_moves insert_candidate_same by blast
qed

lemma append_model_moves:
  assumes "append_model_candidate_receipt c s response k db = Inr (y, db')"
  shows "caller_moves db db'"
proof -
  obtain r db1 b where "record_model_response c r (cr_observation s) response db = Inr db1"
    "insert_candidate s k db1 = Inr (b, db')"
    using assms by (auto simp: append_model_candidate_receipt_def res_simps split: if_split_asm)
  then show ?thesis using same_moves same_trans insert_candidate_same record_model_response_same by blast
qed

lemma caller_step_moves:
  assumes "caller_step c db db'"
  shows "caller_moves db db'"
  using assms
proof cases
  case elsewhere
  then show ?thesis by (simp add: caller_moves_def tickets_step_def ticket_kept_def commands_grow_def)
qed (auto intro: create_ticket_moves run_call_moves reclaim_moves request_cancel_moves mark_unknown_moves
    append_moves append_model_moves)

section \<open>Runs\<close>

abbreviation caller_runs :: "caller_config \<Rightarrow> caller_db \<Rightarrow> caller_db \<Rightarrow> bool" where
  "caller_runs c \<equiv> (caller_step c)\<^sup>*\<^sup>*"

lemma target_unique:
  assumes "caller_ok db" "find_ticket (tr_ticket_id r) db = Some r" "x \<in> set (cd_tickets db)" "ticket_target r x"
  shows "x = r"
proof -
  have "tr_ticket_id x = tr_ticket_id r" using assms(4) unfolding ticket_target_def by blast
  from find_ticket_key [OF assms(1,3) this] assms(2) show ?thesis by simp
qed

lemma updated_ids:
  assumes "caller_ok db" "find_ticket (tr_ticket_id r) db = Some r" "ticket_move r (f r)"
  shows "map tr_ticket_id (update_rows (ticket_target r) f (cd_tickets db)) = map tr_ticket_id (cd_tickets db)"
proof -
  have "tr_ticket_id (f x) = tr_ticket_id x" if "x \<in> set (cd_tickets db)" "ticket_target r x" for x
    using target_unique [OF assms(1,2) that] assms(3) by (simp add: ticket_move_def issued_def)
  then show ?thesis by (auto simp: update_rows_def)
qed

lemma caller_ok_step:
  assumes "caller_ok db" "caller_step c db db'"
  shows "caller_ok db'"
proof -
  have "tickets_step db db'" using caller_step_moves [OF assms(2)] by (simp add: caller_moves_def)
  then consider (u) "ticket_updated db db'" | (a) "ticket_added db db'" | (k) "ticket_kept db db'"
    unfolding tickets_step_def by blast
  then show ?thesis
  proof cases
    case u
    then obtain r f where r: "find_ticket (tr_ticket_id r) db = Some r" "ticket_move r (f r)" "ticket_checks (f r)"
      and t: "cd_tickets db' = update_rows (ticket_target r) f (cd_tickets db)"
      unfolding ticket_updated_def by blast
    have "ticket_checks x" if "x \<in> set (cd_tickets db')" for x
      using that [unfolded t]
    proof (rule in_update_rowsE)
      fix y assume "y \<in> set (cd_tickets db)" "ticket_target r y" "x = f y"
      then show "ticket_checks x" using target_unique [OF assms(1) r(1)] r(3) by blast
    qed (use assms(1) in \<open>simp add: caller_ok_def\<close>)
    then show ?thesis using updated_ids [where f = f, OF assms(1) r(1,2)] assms(1) by (simp add: caller_ok_def t)
  next
    case a
    then obtain r where r: "cd_tickets db' = cd_tickets db @ [r]" "ticket_checks r"
      "find_ticket (tr_ticket_id r) db = None" unfolding ticket_added_def by blast
    from r(3) have "tr_ticket_id r \<notin> tr_ticket_id ` set (cd_tickets db)"
      unfolding find_ticket_def fetchone_None_iff by force
    then show ?thesis using assms(1) r(1,2) by (auto simp: caller_ok_def)
  next
    case k
    then show ?thesis using assms(1) by (simp add: ticket_kept_def caller_ok_def)
  qed
qed

lemma ticket_follows:
  assumes "caller_ok db" "caller_step c db db'" "find_ticket i db = Some x"
  shows "\<exists>y. find_ticket i db' = Some y \<and> (y = x \<or> ticket_move x y)"
proof -
  have ok: "caller_ok db'" by (rule caller_ok_step [OF assms(1,2)])
  have x: "x \<in> set (cd_tickets db)" "tr_ticket_id x = i" using find_ticket_SomeD [OF assms(3)] by simp_all
  have "tickets_step db db'" using caller_step_moves [OF assms(2)] by (simp add: caller_moves_def)
  then consider (u) "ticket_updated db db'" | (a) "ticket_added db db'" | (k) "ticket_kept db db'"
    unfolding tickets_step_def by blast
  then show ?thesis
  proof cases
    case u
    then obtain r f where r: "find_ticket (tr_ticket_id r) db = Some r" "ticket_move r (f r)"
      and t: "cd_tickets db' = update_rows (ticket_target r) f (cd_tickets db)"
      unfolding ticket_updated_def by blast
    let ?y = "if ticket_target r x then f x else x"
    have y: "?y \<in> set (cd_tickets db')" using x(1) by (auto simp: t set_update_rows)
    have m: "?y = x \<or> ticket_move x ?y" using target_unique [OF assms(1) r(1) x(1)] r(2) by auto
    then have "tr_ticket_id ?y = i" using x(2) by (auto simp: ticket_move_def issued_def)
    then show ?thesis using find_ticket_key [OF ok y] m by blast
  next
    case a
    then show ?thesis using assms(3) by (auto simp: ticket_added_def find_ticket_def fetchone_append)
  next
    case k
    then show ?thesis using assms(3) by (auto simp: ticket_kept_def find_ticket_def)
  qed
qed

lemma caller_ok_runs: "caller_runs c db db' \<Longrightarrow> caller_ok db \<Longrightarrow> caller_ok db'"
  by (induction rule: rtranclp_induct) (auto intro: caller_ok_step)

text \<open>A relation that holds of a row and itself and across every move holds along every run.\<close>

lemma runs_follow:
  assumes "caller_runs c db db'" "caller_ok db" "find_ticket i db = Some x" "P x"
    and "\<And>y z. P y \<Longrightarrow> ticket_checks y \<Longrightarrow> ticket_move y z \<Longrightarrow> P z"
  shows "\<exists>y. find_ticket i db' = Some y \<and> P y"
  using assms(1)
proof (induction rule: rtranclp_induct)
  case base
  then show ?case using assms(3,4) by blast
next
  case (step db1 db2)
  then obtain y where y: "find_ticket i db1 = Some y" "P y" by blast
  have ok: "caller_ok db1" by (rule caller_ok_runs [OF step.hyps(1) assms(2)])
  obtain z where "find_ticket i db2 = Some z" "z = y \<or> ticket_move y z"
    using ticket_follows [OF ok step.hyps(2) y(1)] by blast
  then show ?case using y assms(5) find_ticket_checks [OF ok y(1)] by blast
qed

text \<open>A database whose caller tables have just been created, and what it can become.\<close>

definition caller_reachable :: "caller_config \<Rightarrow> caller_db \<Rightarrow> bool" where
  "caller_reachable c db \<longleftrightarrow> (\<exists>db0. cd_tickets db0 = [] \<and> cd_candidates db0 = [] \<and> cd_commands db0 = [] \<and>
     caller_runs c db0 db)"

lemma caller_reachable_ok: "caller_reachable c db \<Longrightarrow> caller_ok db"
  unfolding caller_reachable_def
  by (elim exE conjE) (rule caller_ok_runs, assumption, simp add: caller_ok_def)

lemma caller_reachable_runs: "caller_reachable c db \<Longrightarrow> caller_runs c db db' \<Longrightarrow> caller_reachable c db'"
  unfolding caller_reachable_def by (blast intro: rtranclp_trans)

section \<open>Sent tickets\<close>

definition dispatched_state :: "ticket_row \<Rightarrow> bool" where
  "dispatched_state r \<longleftrightarrow> may_have_sent r \<or> tr_state r \<in> sent_ends"

lemma sent_dispatched: "ticket_checks r \<Longrightarrow> tr_send_started_at r \<noteq> None \<Longrightarrow> dispatched_state r"
  by (cases "tr_state r")
    (auto simp: ticket_checks_def unsent_columns_def dispatched_state_def may_have_sent_states sent_ends_def)

lemma dispatched_move:
  "dispatched_state y \<Longrightarrow> ticket_move y z \<Longrightarrow> dispatched_state z \<and> send_mark z = send_mark y \<and>
     issued z = issued y \<and> tr_revision y \<le> tr_revision z"
  by (auto simp: dispatched_state_def ticket_move_def may_have_sent_states sent_ends_def)

lemma sent_stays:
  assumes "caller_runs c db db'" "caller_ok db" "find_ticket i db = Some r" "tr_send_started_at r \<noteq> None"
  shows "\<exists>r'. find_ticket i db' = Some r' \<and> dispatched_state r' \<and> send_mark r' = send_mark r \<and>
    issued r' = issued r \<and> tr_revision r \<le> tr_revision r'"
proof (rule runs_follow [OF assms(1-3), of "\<lambda>y. dispatched_state y \<and> send_mark y = send_mark r \<and>
    issued y = issued r \<and> tr_revision r \<le> tr_revision y"])
  show "dispatched_state r \<and> send_mark r = send_mark r \<and> issued r = issued r \<and> tr_revision r \<le> tr_revision r"
    using sent_dispatched [OF find_ticket_checks [OF assms(2,3)] assms(4)] by simp
next
  fix y z assume "dispatched_state y \<and> send_mark y = send_mark r \<and> issued y = issued r \<and> tr_revision r \<le> tr_revision y"
    and "ticket_move y z"
  then show "dispatched_state z \<and> send_mark z = send_mark r \<and> issued z = issued r \<and> tr_revision r \<le> tr_revision z"
    using dispatched_move [of y z] by auto
qed

lemma dispatched_send_replays:
  assumes "mark_send_started c v clk db = Inr (t, db')" "find_ticket (cb_ticket_id v) db = Some r" "dispatched_state r"
  shows "db' = db"
proof -
  have f: "or_replay c r K_mark_send_started (cb_key v) (send_json v) (clk 1) (send_body c v (clk 0)) db = Inr (t, db')"
    using assms(1,2) by (auto simp: mark_send_started_def res_simps)
  have "send_body c v n db \<noteq> Inr (t', db1)" for n t' db1
    using assms(2,3) checked_row_Inr [of v db]
    by (auto simp: send_body_def res_simps dispatched_state_def may_have_sent_states sent_ends_def split: if_split_asm)
  with f show ?thesis by (elim or_replayE) auto
qed

lemma dispatched_claim_replays:
  assumes "caller_claim c v i a clk db = Inr (t, db')" "find_ticket (cb_ticket_id v) db = Some r" "dispatched_state r"
  shows "db' = db"
proof -
  have f: "or_replay c r K_claim (cb_key v) (claim_json v) (clk 1) (claim_body c v i a (clk 0)) db = Inr (t, db')"
    using assms(1,2) by (auto simp: caller_claim_def res_simps)
  have "claim_body c v i a n db \<noteq> Inr (t', db1)" for n t' db1
    using assms(2,3) checked_row_Inr [of v db]
    by (auto simp: claim_body_def res_simps dispatched_state_def may_have_sent_states sent_ends_def split: if_split_asm)
  with f show ?thesis by (elim or_replayE) auto
qed

section \<open>Replay\<close>

lemma commands_grow_runs: "caller_runs c db db' \<Longrightarrow> commands_grow db db'"
proof (induction rule: rtranclp_induct)
  case base
  then show ?case by (simp add: commands_grow_def)
next
  case (step db1 db2)
  then show ?case using caller_step_moves [OF step.hyps(2)] by (auto simp: caller_moves_def commands_grow_def)
qed

lemma replay_grows:
  assumes "replay_command c r k key v db = Inr (Some t)" "commands_grow db db'" "issued r' = issued r"
  shows "replay_command c r' k key v db' = Inr (Some t)"
proof -
  let ?p = "\<lambda>q. cq_operation q = tr_operation r \<and> cq_key q = key"
  have i: "tr_operation r' = tr_operation r" "tr_ticket_id r' = tr_ticket_id r" using assms(3) by (simp_all add: issued_def)
  obtain q where f: "fetchone ?p (cd_commands db) = Some q"
    using assms(1) by (auto simp: replay_command_def split: option.split_asm)
  from this have g: "fetchone ?p (cd_commands db') = Some q"
    using assms(2) by (auto simp: commands_grow_def fetchone_append)
  have "replay_command c r' k key v db' = replay_command c r k key v db"
    by (simp only: replay_command_def i f g option.case)
  with assms(1) show ?thesis by simp
qed

lemma row_from_get: "caller_get c i db = Inr t \<Longrightarrow> \<exists>r. find_ticket i db = Some r \<and>
    tk_ticket_id t = tr_ticket_id r \<and> tk_operation t = tr_operation r \<and> tk_state t = tr_state r \<and>
    tk_revision t = tr_revision r \<and> tk_settled_digest t = tr_settled_digest r \<and> ch_accepts c ''CallerWorkTicket'' (ticket_json t)"
  by (auto simp: caller_get_def ticket_from_row_def res_simps Let_def)

lemma recorded_replays:
  assumes "caller_get c i db1 = Inr t" "find_ticket i db1 = Some r1" "issued r1 = issued r"
    and "record_command r k key v t now db1 = Inr (t, db')"
  shows "replay_command c r k key v db' = Inr (Some t)"
proof -
  let ?q = "\<lparr>cq_operation = tr_operation r, cq_ticket_id = tr_ticket_id r, cq_kind = k, cq_key = key,
        cq_digest = command_digest k v, cq_result_revision = tk_revision t, cq_result = t,
        cq_result_digest = json_digest (ticket_json t), cq_created_at = now\<rparr>"
  have "tr_ticket_id r1 = tr_ticket_id r" "tr_operation r1 = tr_operation r"
    using assms(3) by (simp_all add: issued_def)
  then have t: "tk_ticket_id t = tr_ticket_id r" "tk_operation t = tr_operation r"
    "ch_accepts c ''CallerWorkTicket'' (ticket_json t)"
    using row_from_get [OF assms(1)] assms(2) by auto
  have n: "fetchone (\<lambda>q. cq_operation q = tr_operation r \<and> cq_key q = key) (cd_commands db1) = None"
    and d: "cd_commands db' = cd_commands db1 @ [?q]"
    using assms(4) by (simp_all add: record_command_Inr fetchone_None_iff)
  have "fetchone (\<lambda>q. cq_operation q = tr_operation r \<and> cq_key q = key) (cd_commands db') = Some ?q"
    unfolding d by (simp add: fetchone_append n fetchone_Cons)
  then show ?thesis by (simp add: replay_command_def t)
qed

lemma issued_step:
  assumes "caller_ok db" "caller_step c db db'" "find_ticket i db = Some r"
  shows "\<exists>r'. find_ticket i db' = Some r' \<and> issued r' = issued r"
  using ticket_follows [OF assms] by (auto simp: ticket_move_def)

lemma issued_runs:
  assumes "caller_runs c db db'" "caller_ok db" "find_ticket i db = Some r"
  shows "\<exists>r'. find_ticket i db' = Some r' \<and> issued r' = issued r"
  by (rule runs_follow [OF assms]) (auto simp: ticket_move_def)

lemma replay_same: "same_tickets db d \<Longrightarrow> replay_command c r k key v d = replay_command c r k key v db"
  by (simp add: replay_command_def same_tickets_def)

lemma run_call_answers:
  assumes "caller_ok db" "run_call c v ids clk db = Inr (t, db1)"
  shows "\<exists>r. find_ticket (call_ticket v) db = Some r \<and> call_accepted c v \<and>
    replay_command c r (call_kind v) (call_key v) (call_json v) db1 = Inr (Some t)"
  using assms(2)
proof (cases rule: run_callE)
  case (1 r d now body)
  from 1(5) have "replay_command c r (call_kind v) (call_key v) (call_json v) db1 = Inr (Some t)"
  proof (cases rule: or_replayE)
    case replayed: 1
    then show ?thesis by simp
  next
    case (2 db2)
    have g: "caller_get c (call_ticket v) db2 = Inr t" using 1(6) [OF 2(2)] by (simp add: ran_def)
    have c: "cd_tickets db1 = cd_tickets db2" using 2(3) by (simp add: record_command_Inr)
    obtain r1 where "find_ticket (call_ticket v) db1 = Some r1" "issued r1 = issued r"
      using issued_step [OF assms(1) called [OF assms(2)] 1(3)] by blast
    then have "find_ticket (call_ticket v) db2 = Some r1" "issued r1 = issued r"
      by (simp_all add: find_ticket_def c)
    then show ?thesis using recorded_replays [OF g _ _ 2(3)] by blast
  qed
  with 1(1,3) show ?thesis by blast
qed

text \<open>The answer of a command stays stored under the ticket it was given for.\<close>

lemma call_answer_stays:
  assumes "caller_ok db" "run_call c v ids clk db = Inr (t, db1)" "caller_runs c db1 db2"
  shows "\<exists>r. find_ticket (call_ticket v) db2 = Some r \<and> call_accepted c v \<and>
    replay_command c r (call_kind v) (call_key v) (call_json v) db2 = Inr (Some t)"
proof -
  obtain r where r: "find_ticket (call_ticket v) db = Some r" and a: "call_accepted c v"
    and p: "replay_command c r (call_kind v) (call_key v) (call_json v) db1 = Inr (Some t)"
    using run_call_answers [OF assms(1,2)] by blast
  have "caller_runs c db db2" using called [OF assms(2)] assms(3) by (rule converse_rtranclp_into_rtranclp)
  from issued_runs [OF this assms(1) r] obtain r2 where r2: "find_ticket (call_ticket v) db2 = Some r2" "issued r2 = issued r"
    by blast
  have "replay_command c r2 (call_kind v) (call_key v) (call_json v) db2 = Inr (Some t)"
    by (rule replay_grows [OF p commands_grow_runs [OF assms(3)] r2(2)])
  with a r2 show ?thesis by blast
qed

lemma calls_replay:
  assumes "caller_ok db" "run_call c v ids clk db = Inr (t, db1)" "caller_runs c db1 db2" "\<not> cd_closed db2"
    and "\<not> journals_evidence v"
  shows "run_call c v ids' clk' db2 = Inr (t, db2)"
  using call_answer_stays [OF assms(1-3)] stored_call assms(4) no_evidence [OF assms(5)] by blast

text \<open>A commit of model evidence journals it again first; when it returns, it returns the stored answer.\<close>

lemma repeated_call:
  assumes "caller_ok db" "run_call c v ids clk db = Inr (t, db1)" "caller_runs c db1 db2"
    and "run_call c v ids' clk' db2 = Inr (u, db3)"
  shows "u = t \<and> (\<exists>r. call_evidence c v r db2 = Inr db3)"
  using assms(4)
proof (cases rule: run_callE)
  case (1 r d now body)
  have "replay_command c r (call_kind v) (call_key v) (call_json v) d = Inr (Some t)"
    using call_answer_stays [OF assms(1-3)] 1(3) replay_same [OF evidence_same [OF 1(4)]] by auto
  with 1(5) have "u = t" "db3 = d" by (simp_all add: or_replay_def)
  with 1(4) show ?thesis by blast
qed

section \<open>Final tickets\<close>

lemma final_stays:
  assumes "caller_runs c db db'" "caller_ok db" "find_ticket i db = Some r" "tr_state r \<in> final_states"
  shows "find_ticket i db' = Some r"
proof -
  have "\<exists>y. find_ticket i db' = Some y \<and> y = r"
    by (rule runs_follow [OF assms(1-3)])
      (use assms(4) in \<open>auto simp: ticket_move_def final_states_def\<close>)
  then show ?thesis by blast
qed

lemma unknown_outcomes_settle_as_failures: "settled_state O_outcome_unknown = T_settled_failure"
  by (simp add: settled_state_def)

section \<open>Resuming\<close>

definition handler_runs :: "caller_config \<Rightarrow> (caller_ticket \<Rightarrow> (unit, caller_db) act) option \<Rightarrow> bool" where
  "handler_runs c handler \<longleftrightarrow> (\<forall>f t db. handler = Some f \<longrightarrow> caller_runs c db (snd (f t db)))"

definition caller_does :: "caller_config \<Rightarrow> ('a, caller_db \<times> 's) act \<Rightarrow> bool" where
  "caller_does c m \<longleftrightarrow> (\<forall>s. caller_runs c (fst s) (fst (snd (m s))))"

named_theorems does_intros \<open>actions that make only steps of the repository\<close>

lemma does_basic [does_intros]: "caller_does c (ret x)" "caller_does c (throw e)" "caller_does c (of_res y)"
  by (simp_all add: caller_does_def act_simps)

lemma does_seq [does_intros]: "caller_does c m \<Longrightarrow> (\<And>x. caller_does c (f x)) \<Longrightarrow> caller_does c (seq m f)"
  unfolding caller_does_def
  by (intro allI seq_rel [where R = "\<lambda>s t. caller_runs c (fst s) (fst t)"]) auto

lemma does_step:
  "(\<And>db x db'. f db = Inr (x, db') \<Longrightarrow> caller_step c db db') \<Longrightarrow> caller_does c (on_caller f)"
  by (auto simp: caller_does_def on_caller_def transact_def split: sum.split prod.split)

lemma does_caller [does_intros]:
  "caller_does c (on_caller (append_candidate_receipt c s k))"
  "caller_does c (on_caller (mark_outcome_unknown c i rv now))"
  by (auto intro!: does_step intro: appended marked_unknown)

lemma does_read [does_intros]: "caller_does c (on_caller (caller_tx (saved c i)))"
  by (rule does_step) (auto simp: caller_tx_Inr saved_Inr intro: elsewhere)

lemma does_outside [does_intros]: "caller_does c (within snd (\<lambda>w s. (fst s, w)) m)"
  by (simp add: caller_does_def within_def Let_def split: prod.split)

lemma does_settle [does_intros]:
  assumes "handler_runs c handler"
  shows "caller_does c (within fst (\<lambda>p s. (p, snd s)) (settle_candidate c handler v clk))"
proof -
  have n: "caller_runs c db (snd (notify_settlement handler t db))" for t db
    using assms by (cases handler) (auto simp: notify_settlement_def handler_runs_def act_simps)
  have "caller_runs c db (snd (settle_candidate c handler v clk db))" for db
    unfolding settle_candidate_def
  proof (rule seq_rel [where R = "caller_runs c"])
    show "caller_runs c s (snd (transact id (\<lambda>p _. p) (settle_in_transaction c v clk) s))" for s
      by (auto simp: transact_def intro: settled split: sum.split prod.split)
    show "caller_runs c s (snd (seq (notify_settlement handler x) (\<lambda>_. ret x) s))" for x s
      by (rule seq_rel [where R = "caller_runs c"]) (auto simp: act_simps n)
  qed auto
  then show ?thesis by (simp add: caller_does_def within_def Let_def split: prod.split) (metis snd_conv)
qed

lemma resume_does:
  assumes "handler_runs c handler"
  shows "caller_does c (caller_resume c handler lookup clk i)"
proof -
  have "caller_does c (resume_receipt c handler clk i q a s)" for q a s
    unfolding resume_receipt_def
    by (intro does_intros assms) (auto split: option.split intro!: does_intros assms)
  then show ?thesis unfolding caller_resume_def
    by (intro does_intros) (auto split: option.split intro!: does_intros)
qed

end
