(* ===== verification/Caller_Outcomes.thy ===== *)
theory Caller_Outcomes
  imports Caller_Runs
begin

text \<open>
  What a settled ticket leaves in the other tables: the journalled evidence of a model call, and
  the successor of the suspended operation.
\<close>

section \<open>Tables a settlement leaves alone\<close>

lemma settle_suspension_Inr:
  assumes "settle_suspension r st now db = Inr db'"
  shows "\<exists>sp. suspension_end st = Some sp \<and> db' = db\<lparr>cd_suspensions :=
    update_rows (\<lambda>s. sp_operation s = tr_operation r \<and> sp_revision s = tr_suspension_revision r \<and>
      sp_state s = Sp_pending) (\<lambda>s. s\<lparr>sp_state := sp, sp_settled_at := Some now\<rparr>) (cd_suspensions db)\<rparr>"
  using assms by (auto simp: settle_suspension_def Let_def split: option.split_asm if_split_asm)

lemma queue_successor_Inr:
  assumes "queue_successor r d now j w db = Inr db'"
  shows "wj_phase j = J_waiting_external" "cw_control_revision w = wj_control_revision j"
    "\<not> cw_cancellation_requested w"
    "db' = db\<lparr>cd_outbox := cd_outbox db @
        [\<lparr>ox_operation = tr_operation r, ox_suspension_revision = tr_suspension_revision r,
          ox_settlement_digest = d, ox_digest = outbox_digest (tr_operation r) (tr_suspension_revision r) d,
          ox_state = Ob_pending, ox_rebind_generation = 0, ox_created_at = now\<rparr>],
      cd_jobs := update_rows (\<lambda>x. wj_operation x = tr_operation r \<and> wj_phase x = J_waiting_external \<and>
          wj_control_revision x = wj_control_revision j)
        (\<lambda>x. x\<lparr>wj_phase := J_accepted, wj_control_revision := wj_control_revision j + 1, wj_updated_at := now\<rparr>)
        (cd_jobs db),
      cd_registry := (cd_registry db)\<lparr>rg_controls := update_rows
        (\<lambda>x. cw_operation x = tr_operation r \<and> cw_control_revision x = wj_control_revision j \<and>
          \<not> cw_cancellation_requested x)
        (\<lambda>x. x\<lparr>cw_control_revision := wj_control_revision j + 1\<rparr>) (rg_controls (cd_registry db))\<rparr>\<rparr>"
  using assms by (auto simp: queue_successor_def Let_def res_simps split: if_split_asm)

lemma update_ticket_keeps:
  "update_ticket i rv f db = Inr db1 \<Longrightarrow> \<exists>ts. db1 = db\<lparr>cd_tickets := ts\<rparr>"
  by (auto simp: update_ticket_Inr)

lemma insert_candidate_keeps:
  "insert_candidate s k db = Inr (b, db1) \<Longrightarrow> \<exists>ks. db1 = db\<lparr>cd_candidates := ks\<rparr>"
proof -
  assume "insert_candidate s k db = Inr (b, db1)"
  then have "db1 = db \<or> (\<exists>ks. db1 = db\<lparr>cd_candidates := ks\<rparr>)"
    by (auto simp: insert_candidate_def split: if_split_asm)
  moreover have "db = db\<lparr>cd_candidates := cd_candidates db\<rparr>" by simp
  ultimately show ?thesis by metis
qed

lemma project_terminal_evidence:
  assumes "project_terminal r st d now db = Inr db'"
  shows "cd_executions db' = cd_executions db"
proof -
  obtain db1 where 1: "settle_suspension r st now db = Inr db1"
    and 2: "db' = db1 \<or> (\<exists>x j w. queue_successor r x now j w db1 = Inr db')"
    using assms by (auto simp: project_terminal_def res_simps split: if_split_asm option.split_asm)
  have "cd_executions db1 = cd_executions db" using settle_suspension_Inr [OF 1] by auto
  moreover have "cd_executions db' = cd_executions db1" if "queue_successor r x now j w db1 = Inr db'" for x j w
    unfolding queue_successor_Inr(4) [OF that] by simp
  ultimately show ?thesis using 2 by auto
qed

text \<open>The two ways a settlement can end.\<close>

lemma apply_settlement_cases:
  assumes "apply_settlement c r s now db = Inr (t, db')"
  obtains (quarantined) db1 where
      "update_ticket (tr_ticket_id r) (tr_revision r) (restated_row T_quarantined now) db = Inr db1"
      "project_terminal r T_quarantined None now db1 = Inr db'" "caller_get c (tr_ticket_id r) db' = Inr t"
    | (settled) db1 where
      "update_ticket (tr_ticket_id r) (tr_revision r) (settled_row s now) db = Inr db1"
      "project_terminal r (settled_state (ob_outcome (cr_observation s))) (Some (cr_receipt_digest s)) now db1 = Inr db'"
      "caller_get c (tr_ticket_id r) db' = Inr t"
  using assms by (auto simp: apply_settlement_def quarantine_ticket_def res_simps split: if_split_asm)

lemma apply_settlement_evidence:
  assumes "apply_settlement c r s now db = Inr (t, db')"
  shows "cd_executions db' = cd_executions db"
  using assms
proof (cases rule: apply_settlement_cases)
  case (quarantined db1)
  then show ?thesis using update_ticket_keeps [OF quarantined(1)] project_terminal_evidence by fastforce
next
  case (settled db1)
  then show ?thesis using update_ticket_keeps [OF settled(1)] project_terminal_evidence by fastforce
qed

section \<open>Journalled evidence\<close>

text \<open>The journal's row for a response, as a ticket's observation states it.\<close>

definition sealed :: "ticket_row \<Rightarrow> observation \<Rightarrow> caller_db \<Rightarrow> bool" where
  "sealed r ob db \<longleftrightarrow> (\<exists>x binding response. request_binding (tr_request r) = Inr binding \<and>
     find_caller_execution (tr_operation r) (str_column (tr_key r)) db = Some x \<and>
     ce_state x = X_result_committed \<and> ce_binding x = binding \<and> ce_response x = Some response \<and>
     mr_requested (ms_route_receipt response) = binding \<and> response_matches response ob = Inr ())"

lemma sealed_cong: "cd_executions db' = cd_executions db \<Longrightarrow> sealed r ob db' = sealed r ob db"
  by (simp add: sealed_def find_caller_execution_def)

lemma record_caller_result_Inr:
  assumes "record_caller_result i tid a key digest request binding response db = Inr (x, db')"
  shows "mr_requested (ms_route_receipt response) = binding \<and>
    (\<exists>e. find_caller_execution i key db' = Some e \<and> ce_state e = X_result_committed \<and> ce_binding e = binding \<and>
      ce_response e = Some response)"
proof -
  from assms have m: "mr_requested (ms_route_receipt response) = binding"
    by (auto simp: record_caller_result_def split: if_split_asm)
  have f: "find_caller_execution i key (db\<lparr>cd_bindings := bs\<rparr>) = find_caller_execution i key db" for bs
    by (simp add: find_caller_execution_def)
  show ?thesis
  proof (cases "find_caller_execution i key db")
    case None
    with assms obtain bs where "db' = db\<lparr>cd_bindings := bs, cd_executions := cd_executions db @
         [committed_evidence i key digest request binding response]\<rparr>"
      by (auto simp: record_caller_result_def and_then_Inr_iff Let_def f split: if_split_asm)
    with m None show ?thesis
      by (auto simp: find_caller_execution_def committed_evidence_def fetchone_append fetchone_Cons)
  next
    case (Some e)
    with assms obtain bs where "caller_lineage digest request binding e" "ce_state e = X_result_committed"
      "ce_response e = Some response" "db' = db\<lparr>cd_bindings := bs\<rparr>"
      by (auto simp: record_caller_result_def and_then_Inr_iff Let_def f split: if_split_asm)
    with m Some show ?thesis by (simp add: f caller_lineage_def)
  qed
qed

lemma as_conflict_Inr [res_simps]: "as_conflict m = Inr x \<longleftrightarrow> m = Inr x"
  by (simp add: as_conflict_def split: sum.split)

lemma record_model_response_sealed:
  assumes "record_model_response c r ob response db = Inr db'"
  shows "sealed r ob db'"
proof -
  obtain binding x where "request_binding (tr_request r) = Inr binding" "response_matches response ob = Inr ()"
    and "record_caller_result (tr_operation r) (tr_ticket_id r) (str_column (tr_attempt_id r)) (str_column (tr_key r))
      (tr_request_digest r) (tr_request r) binding response db = Inr (x, db')"
    using assms by (auto simp: record_model_response_def res_simps split: if_split_asm)
  then show ?thesis using record_caller_result_Inr unfolding sealed_def by blast
qed

lemma commit_body_evidence:
  assumes "commit_body c v clk db = Inr (t, db')"
  shows "cd_executions db' = cd_executions db"
proof -
  obtain r s b db1 where "insert_candidate s Claimant_callback db = Inr (b, db1)"
    "apply_settlement c r s (clk 1) db1 = Inr (t, db')"
    using assms by (auto simp: commit_body_def res_simps split: if_split_asm)
  then show ?thesis using insert_candidate_keeps apply_settlement_evidence by fastforce
qed

lemma commit_sealed:
  assumes "commit_transaction c v clk db = Inr (t, db')" "model_succeeded (cm_observation v)"
  shows "\<exists>r. find_ticket (cb_ticket_id v) db = Some r \<and> sealed r (cm_observation v) db'"
proof -
  obtain r db1 where r: "find_ticket (cb_ticket_id v) db = Some r" and e: "commit_evidence c v r db = Inr db1"
    and c: "or_replay c r K_commit (cb_key v) (commit_json v) (clk 2) (commit_body c v clk) db1 = Inr (t, db')"
    using assms(1)
    by (auto simp: commit_transaction_def commit_in_transaction_def caller_tx_Inr and_then_Inr_iff caller_row_Inr)
  have s: "sealed r (cm_observation v) db1"
    using e assms(2) record_model_response_sealed by (auto simp: commit_evidence_def split: if_split_asm option.split_asm)
  have "cd_executions db' = cd_executions db1"
    using c
  proof (cases rule: or_replayE)
    case (2 db2)
    then show ?thesis using commit_body_evidence [OF 2(2)] by (simp add: record_command_Inr)
  qed simp
  then show ?thesis using r s sealed_cong by blast
qed

section \<open>The successor\<close>

lemma updated_find:
  assumes "update_ticket i rv f db = Inr db1" "\<And>r. tr_ticket_id (f r) = tr_ticket_id r"
  shows "find_ticket i db1 = map_option (\<lambda>r. if tr_ticket_id r = i \<and> tr_revision r = rv then f r else r) (find_ticket i db)"
  using assms(1) unfolding update_ticket_Inr find_ticket_def
  by (subst fetchone_update_rows_same [symmetric]) (simp_all add: assms(2))

lemma find_job_SomeD: "find_job i db = Some j \<Longrightarrow> wj_operation j = i"
  unfolding find_job_def by (drule fetchone_SomeD) simp

lemma find_control_SomeD: "find_control i r = Some w \<Longrightarrow> cw_operation w = i"
  unfolding find_control_def by (drule fetchone_SomeD) simp

text \<open>What a queued successor leaves, with the digest it was queued under.\<close>

definition successor_queued :: "operation_ref \<Rightarrow> int \<Rightarrow> string \<Rightarrow> int \<Rightarrow> caller_db \<Rightarrow> caller_db \<Rightarrow> bool" where
  "successor_queued i n d now db db' \<longleftrightarrow> (\<exists>j w. find_job i db = Some j \<and> find_control i (cd_registry db) = Some w \<and>
     wj_phase j = J_waiting_external \<and> cw_control_revision w = wj_control_revision j \<and>
     \<not> cw_cancellation_requested w \<and>
     find_job i db' = Some (j\<lparr>wj_phase := J_accepted, wj_control_revision := wj_control_revision j + 1,
       wj_updated_at := now\<rparr>) \<and>
     find_control i (cd_registry db') = Some (w\<lparr>cw_control_revision := wj_control_revision j + 1\<rparr>) \<and>
     cd_outbox db' = cd_outbox db @ [\<lparr>ox_operation = i, ox_suspension_revision = n,
       ox_settlement_digest = d, ox_digest = outbox_digest i n d, ox_state = Ob_pending,
       ox_rebind_generation = 0, ox_created_at = now\<rparr>])"

lemma queued_successor:
  assumes "queue_successor r d now j w db = Inr db'"
    and "find_job (tr_operation r) db = Some j" "find_control (tr_operation r) (cd_registry db) = Some w"
  shows "successor_queued (tr_operation r) (tr_suspension_revision r) d now db db'"
proof -
  note q = queue_successor_Inr [OF assms(1)]
  have o: "wj_operation j = tr_operation r" "cw_operation w = tr_operation r"
    using find_job_SomeD [OF assms(2)] find_control_SomeD [OF assms(3)] by simp_all
  have "find_job (tr_operation r) db' = Some (j\<lparr>wj_phase := J_accepted,
      wj_control_revision := wj_control_revision j + 1, wj_updated_at := now\<rparr>)"
    using assms(2) q(1) o(1) unfolding q(4) find_job_def by (simp add: fetchone_update_rows_same)
  moreover have "find_control (tr_operation r) (cd_registry db') = Some (w\<lparr>cw_control_revision := wj_control_revision j + 1\<rparr>)"
    using assms(3) q(2,3) o(2) unfolding q(4) find_control_def by (simp add: fetchone_update_rows_same)
  moreover have "cd_outbox db' = cd_outbox db @ [\<lparr>ox_operation = tr_operation r,
      ox_suspension_revision = tr_suspension_revision r, ox_settlement_digest = d,
      ox_digest = outbox_digest (tr_operation r) (tr_suspension_revision r) d, ox_state = Ob_pending,
      ox_rebind_generation = 0, ox_created_at = now\<rparr>]"
    unfolding q(4) by simp
  ultimately show ?thesis unfolding successor_queued_def using assms(2,3) q(1-3) by blast
qed

text \<open>
  When a settlement queues a successor: the operation is still accepted, and a ticket whose outcome
  was unknown is settled before the deadline of its job. Otherwise the tables of the continuation
  stay as they are.
\<close>

definition may_continue :: "ticket_row \<Rightarrow> int \<Rightarrow> caller_db \<Rightarrow> bool" where
  "may_continue r now db \<longleftrightarrow>
     (case find_op (tr_operation r) (cd_registry db) of None \<Rightarrow> False | Some x \<Rightarrow> or_state x = ACCEPTED) \<and>
     \<not> (tr_state r = T_outcome_unknown \<and>
        (case find_job (tr_operation r) db of None \<Rightarrow> False | Some j \<Rightarrow> wj_deadline j \<le> now))"

definition continuation :: "caller_db \<Rightarrow> reg \<times> workbench_job tbl \<times> outbox_row tbl" where
  "continuation db = (cd_registry db, cd_jobs db, cd_outbox db)"

definition continued :: "ticket_row \<Rightarrow> bool \<Rightarrow> string option \<Rightarrow> int \<Rightarrow> caller_db \<Rightarrow> caller_db \<Rightarrow> bool" where
  "continued r settles d now db db' \<longleftrightarrow>
     (if settles \<and> may_continue r now db
      then \<exists>x. d = Some x \<and> successor_queued (tr_operation r) (tr_suspension_revision r) x now db db'
      else continuation db' = continuation db)"

lemma continued_cong:
  assumes "continuation a' = continuation a" "continuation b' = continuation b" "continued r q d now a b"
  shows "continued r q d now a' b'"
proof -
  have t: "cd_registry a' = cd_registry a" "cd_outbox a' = cd_outbox a" "find_job i a' = find_job i a"
    "cd_registry b' = cd_registry b" "cd_outbox b' = cd_outbox b" "find_job i b' = find_job i b" for i
    using assms(1,2) by (simp_all add: continuation_def find_job_def)
  have "may_continue r now a' = may_continue r now a" by (simp add: may_continue_def t)
  moreover have "successor_queued i n x now a' b' = successor_queued i n x now a b" for i n x
    by (simp add: successor_queued_def t)
  ultimately show ?thesis using assms unfolding continued_def by simp
qed

lemma project_terminal_continues:
  assumes "project_terminal r st d now db = Inr db'"
  shows "continued r (st \<in> {T_settled_success, T_settled_failure, T_cancelled_certain}) d now db db'"
proof -
  obtain db1 where 1: "settle_suspension r st now db = Inr db1"
    and e: "(if st \<notin> {T_settled_success, T_settled_failure, T_cancelled_certain} then Inr db1
       else case d of
         None \<Rightarrow> Inl (CallerWorkConflict ''successor outbox requires a settlement digest'')
       | Some d \<Rightarrow>
         (case find_op (tr_operation r) (cd_registry db1) of
            None \<Rightarrow> Inl (CallerWorkConflict ''caller settlement outer operation is absent'')
          | Some outer \<Rightarrow>
              if or_state outer \<noteq> ACCEPTED then Inr db1
              else case (find_job (tr_operation r) db1, find_control (tr_operation r) (cd_registry db1)) of
                (Some j, Some w) \<Rightarrow>
                  if tr_state r = T_outcome_unknown \<and> wj_deadline j \<le> now then Inr db1
                  else queue_successor r d now j w db1
              | _ \<Rightarrow> Inl (CallerWorkConflict ''caller settlement lost workbench control authority''))) = Inr db'"
    using assms by (auto simp: project_terminal_def and_then_Inr_iff)
  have s: "continuation db1 = continuation db"
    using settle_suspension_Inr [OF 1] by (auto simp: continuation_def)
  have "continued r (st \<in> {T_settled_success, T_settled_failure, T_cancelled_certain}) d now db1 db'"
  proof (cases "st \<in> {T_settled_success, T_settled_failure, T_cancelled_certain}")
    case False
    with e show ?thesis by (simp add: continued_def)
  next
    case True
    with e obtain x outer where d: "d = Some x" "find_op (tr_operation r) (cd_registry db1) = Some outer"
      by (auto split: option.split_asm)
    show ?thesis
    proof (cases "or_state outer = ACCEPTED")
      case False
      with True e d show ?thesis by (simp add: continued_def may_continue_def)
    next
      case accepted: True
      with True e d obtain j w where j: "find_job (tr_operation r) db1 = Some j"
        "find_control (tr_operation r) (cd_registry db1) = Some w"
        and q: "(if tr_state r = T_outcome_unknown \<and> wj_deadline j \<le> now then Inr db1
           else queue_successor r x now j w db1) = Inr db'"
        by (auto split: option.split_asm)
      show ?thesis
      proof (cases "tr_state r = T_outcome_unknown \<and> wj_deadline j \<le> now")
        case True
        with q j show ?thesis by (simp add: continued_def may_continue_def)
      next
        case False
        with q have "queue_successor r x now j w db1 = Inr db'" by (simp split: if_split_asm)
        from queued_successor [OF this j] False True accepted j(1) d show ?thesis
          by (simp add: continued_def may_continue_def)
      qed
    qed
  qed
  then show ?thesis by (rule continued_cong [OF s [symmetric] refl])
qed

text \<open>The tables around a ticket that only its settlement changes.\<close>

definition control_tables :: "caller_db \<Rightarrow> reg \<times> workbench_job tbl \<times> suspension_row tbl \<times> outbox_row tbl" where
  "control_tables db = (cd_registry db, cd_jobs db, cd_suspensions db, cd_outbox db)"

lemma same_continuation: "control_tables db' = control_tables db \<Longrightarrow> continuation db' = continuation db"
  by (simp add: control_tables_def continuation_def)

lemma record_caller_result_control:
  assumes "record_caller_result i tid a key digest request binding response db = Inr (x, db')"
  shows "control_tables db' = control_tables db"
  using assms
  by (auto simp: record_caller_result_def and_then_Inr_iff Let_def control_tables_def
      split: if_split_asm option.split_asm)

lemma commit_evidence_control:
  assumes "commit_evidence c v r db = Inr db'"
  shows "control_tables db' = control_tables db"
proof -
  have "control_tables db' = control_tables db" if "record_model_response c r ob response db = Inr db'" for ob response
  proof -
    from that obtain b x where "record_caller_result (tr_operation r) (tr_ticket_id r) (str_column (tr_attempt_id r))
        (str_column (tr_key r)) (tr_request_digest r) (tr_request r) b response db = Inr (x, db')"
      by (auto simp: record_model_response_def res_simps split: if_split_asm)
    then show ?thesis by (rule record_caller_result_control)
  qed
  with assms show ?thesis by (auto simp: commit_evidence_def split: if_split_asm option.split_asm)
qed

text \<open>A quarantined ticket does not read as settled.\<close>

lemma quarantine_reads:
  assumes "find_ticket (tr_ticket_id r) db = Some r"
    and "update_ticket (tr_ticket_id r) (tr_revision r) (restated_row T_quarantined now) db = Inr db1"
    and "project_terminal r T_quarantined None now db1 = Inr db'" "caller_get c (tr_ticket_id r) db' = Inr t"
  shows "tk_state t = T_quarantined"
proof -
  have "find_ticket (tr_ticket_id r) db1 = Some (restated_row T_quarantined now r)"
    using updated_find [OF assms(2)] assms(1) by (simp add: restated_row_def)
  then have "find_ticket (tr_ticket_id r) db' = Some (restated_row T_quarantined now r)"
    using find_ticket_same [OF project_terminal_same [OF assms(3)]] by simp
  then show ?thesis using row_from_get [OF assms(4)] by (auto simp: restated_row_def)
qed

lemma settled_reads:
  assumes "find_ticket (tr_ticket_id r) db = Some r"
    and "update_ticket (tr_ticket_id r) (tr_revision r) (settled_row s now) db = Inr db1"
    and "project_terminal r st d now db1 = Inr db'" "caller_get c (tr_ticket_id r) db' = Inr t"
  shows "tk_settled_digest t = Some (cr_receipt_digest s)" "tk_state t \<noteq> T_quarantined"
proof -
  have "find_ticket (tr_ticket_id r) db1 = Some (settled_row s now r)"
    using updated_find [OF assms(2)] assms(1) by (simp add: settled_row_def)
  then have "find_ticket (tr_ticket_id r) db' = Some (settled_row s now r)"
    using find_ticket_same [OF project_terminal_same [OF assms(3)]] by simp
  then show "tk_settled_digest t = Some (cr_receipt_digest s)" "tk_state t \<noteq> T_quarantined"
    using row_from_get [OF assms(4)] cancelled_certain_is_never_settled [of "ob_outcome (cr_observation s)"]
    by (auto simp: settled_row_def)
qed

lemma settlement_continues:
  assumes "apply_settlement c r s now db = Inr (t, db')" "find_ticket (tr_ticket_id r) db = Some r"
  shows "continued r (tk_state t \<noteq> T_quarantined) (tk_settled_digest t) now db db'"
  using assms(1)
proof (cases rule: apply_settlement_cases)
  case (quarantined db1)
  have "continuation db1 = continuation db"
    using update_ticket_keeps [OF quarantined(1)] by (auto simp: continuation_def)
  then show ?thesis
    using project_terminal_continues [OF quarantined(2)] quarantine_reads [OF assms(2) quarantined]
    by (simp add: continued_def)
next
  case (settled db1)
  have k: "continuation db = continuation db1"
    using update_ticket_keeps [OF settled(1)] by (auto simp: continuation_def)
  have "continued r True (Some (cr_receipt_digest s)) now db1 db'"
    using project_terminal_continues [OF settled(2)]
      cancelled_certain_is_never_settled [of "ob_outcome (cr_observation s)"] by auto
  from continued_cong [OF k refl this] show ?thesis using settled_reads [OF assms(2) settled] by simp
qed

lemma commit_body_continues:
  assumes "commit_body c v clk db = Inr (t, db')" "find_ticket (cb_ticket_id v) db = Some r"
  shows "continued r (tk_state t \<noteq> T_quarantined) (tk_settled_digest t) (clk 1) db db'"
proof -
  obtain r' s b db1 where r': "checked_row v db = Inr r'"
    and i: "insert_candidate s Claimant_callback db = Inr (b, db1)"
    and a: "apply_settlement c r' s (clk 1) db1 = Inr (t, db')"
    using assms(1) by (auto simp: commit_body_def res_simps split: if_split_asm)
  have r: "r' = r" "tr_ticket_id r = cb_ticket_id v" using checked_row_Inr [OF r'] assms(2) by auto
  obtain ks where ks: "db1 = db\<lparr>cd_candidates := ks\<rparr>" using insert_candidate_keeps [OF i] by blast
  have "find_ticket (tr_ticket_id r) db1 = Some r" using assms(2) r(2) by (simp add: ks find_ticket_def)
  from settlement_continues [OF a [unfolded r] this] show ?thesis
    by (rule continued_cong [rotated -1]) (simp_all add: ks continuation_def)
qed

text \<open>The first commit under its key, or the replay of an earlier one.\<close>

definition first_commit :: "ticket_row \<Rightarrow> commit_command \<Rightarrow> caller_db \<Rightarrow> bool" where
  "first_commit r v db \<longleftrightarrow>
     fetchone (\<lambda>q. cq_operation q = tr_operation r \<and> cq_key q = cb_key v) (cd_commands db) = None"

lemma commit_continues:
  assumes "commit_transaction c v clk db = Inr (t, db')" "find_ticket (cb_ticket_id v) db = Some r"
  shows "continued r (first_commit r v db \<and> tk_state t \<noteq> T_quarantined) (tk_settled_digest t) (clk 1) db db'"
proof -
  obtain db1 where e: "commit_evidence c v r db = Inr db1"
    and o': "or_replay c r K_commit (cb_key v) (commit_json v) (clk 2) (commit_body c v clk) db1 = Inr (t, db')"
    using assms
    by (auto simp: commit_transaction_def commit_in_transaction_def caller_tx_Inr and_then_Inr_iff caller_row_Inr)
  have k: "continuation db = continuation db1" by (rule same_continuation [OF commit_evidence_control [OF e, symmetric]])
  have first: "first_commit r v db \<longleftrightarrow> replay_command c r K_commit (cb_key v) (commit_json v) db1 = Inr None"
    using replay_same [OF commit_evidence_same [OF e], of c r K_commit "cb_key v" "commit_json v"]
    by (simp add: first_commit_def replay_command_def split: option.split)
  have f: "find_ticket (cb_ticket_id v) db1 = Some r" using find_ticket_same [OF commit_evidence_same [OF e]] assms(2) by simp
  from o' have "continued r (first_commit r v db \<and> tk_state t \<noteq> T_quarantined) (tk_settled_digest t) (clk 1) db1 db'"
  proof (cases rule: or_replayE)
    case 1
    then show ?thesis by (simp add: first continued_def)
  next
    case (2 db2)
    have "continuation db' = continuation db2" using 2(3) by (simp add: record_command_Inr continuation_def)
    from continued_cong [OF refl this commit_body_continues [OF 2(2) f]] 2(1) show ?thesis by (simp add: first)
  qed
  then show ?thesis by (rule continued_cong [OF k refl])
qed

section \<open>Repeated commits\<close>

lemma evidence_only:
  assumes "call_evidence c v r db = Inr db'"
  shows "\<exists>bs es. db' = db\<lparr>cd_bindings := bs, cd_executions := es\<rparr>"
proof -
  have id: "\<exists>bs es. db = db\<lparr>cd_bindings := bs, cd_executions := es\<rparr>"
    by (rule exI [of _ "cd_bindings db"], rule exI [of _ "cd_executions db"]) simp
  have "\<exists>bs es. db' = db\<lparr>cd_bindings := bs, cd_executions := es\<rparr>"
    if "record_model_response c r ob response db = Inr db'" for ob response
  proof -
    from that obtain b x where "record_caller_result (tr_operation r) (tr_ticket_id r) (str_column (tr_attempt_id r))
        (str_column (tr_key r)) (tr_request_digest r) (tr_request r) b response db = Inr (x, db')"
      by (auto simp: record_model_response_def res_simps split: if_split_asm)
    then obtain bs where "db' = db\<lparr>cd_bindings := bs\<rparr> \<or>
        (\<exists>es. db' = db\<lparr>cd_bindings := bs, cd_executions := es\<rparr>)"
      by (auto simp: record_caller_result_def and_then_Inr_iff Let_def split: if_split_asm option.split_asm)
    moreover have "db\<lparr>cd_bindings := bs\<rparr> = db\<lparr>cd_bindings := bs, cd_executions := cd_executions db\<rparr>" by simp
    ultimately show ?thesis by metis
  qed
  with assms id show ?thesis
    by (cases v) (auto simp: commit_evidence_def split: if_split_asm option.split_asm)
qed

text \<open>
  A commit of model evidence whose ticket has ended other than in success raises: the evidence is
  refused before the stored answer is looked for.
\<close>

lemma late_evidence_is_refused:
  assumes "find_ticket (cb_ticket_id v) db = Some r" "model_succeeded (cm_observation v)"
    and "tr_state r = T_quarantined \<or> tr_state r = T_settled_failure"
  shows "commit_transaction c v clk db \<noteq> Inr (t, db')"
proof
  assume "commit_transaction c v clk db = Inr (t, db')"
  with assms(1) obtain db1 where "commit_evidence c v r db = Inr db1"
    by (auto simp: commit_transaction_def commit_in_transaction_def caller_tx_Inr and_then_Inr_iff caller_row_Inr)
  with assms(2) obtain b response x where
    "record_caller_result (tr_operation r) (tr_ticket_id r) (str_column (tr_attempt_id r)) (str_column (tr_key r))
       (tr_request_digest r) (tr_request r) b response db = Inr (x, db1)"
    by (auto simp: commit_evidence_def record_model_response_def res_simps split: if_split_asm option.split_asm)
  then have "caller_ticket_authority (tr_operation r) (tr_ticket_id r) (str_column (tr_attempt_id r)) (str_column (tr_key r))
      (tr_request_digest r) (tr_request r) db"
    by (simp add: record_caller_result_def split: if_split_asm)
  moreover have "find_ticket (tr_ticket_id r) db = Some r" using find_ticket_SomeD [OF assms(1)] assms(1) by simp
  ultimately show False using assms(3) by (auto simp: caller_ticket_authority_def)
qed

end
