(* ===== verification/Caller_Properties.thy ===== *)
theory Caller_Properties
  imports Caller_Outcomes Model_Call_Properties Registry_Samples
begin

text \<open>
  Properties of caller-delegated work: tickets move along the edges of \<open>LIFECYCLE.md\<close> and the two more
  the code has, a call whose send has started is never sent again, commands answer once, and a call
  settled for an accepted operation leaves its evidence and its successor. The sample is one model call from its ticket to its commit.
\<close>

section \<open>A sample call\<close>

definition lax_rules :: caller_config where
  "lax_rules = \<lparr>ch_accepts = (\<lambda>_ _. True), ch_journal = True\<rparr>"

definition delegated_request :: caller_request where
  "delegated_request = Model_Request_V2 ''hello''
     \<lparr>jc_schema_digest = json_digest (JObj []), jc_schema = JObj [], jc_max_instance_bytes = 100\<rparr>
     sample_model_binding 100"

definition delegated_ticket :: caller_ticket where
  "delegated_ticket = \<lparr>tk_operation = sample_op, tk_suspension_revision = 1, tk_ticket_id = ''t-1'',
     tk_revision = 0, tk_owner = Planner_Owner Ph_initial 0, tk_request = delegated_request,
     tk_request_digest = json_digest (caller_request_json delegated_request),
     tk_ticket_digest = ''sha256:0'', tk_state = T_pending, tk_claimant = None, tk_attempt = None,
     tk_settled_digest = None, tk_settled_at = None, tk_deadline = 5000\<rparr>"

definition waiting_db :: caller_db where
  "waiting_db = \<lparr>cd_closed = False,
     cd_registry = reg_init\<lparr>rg_operations := [sample_row], rg_controls :=
       [\<lparr>cw_operation = sample_op, cw_control_revision = 1, cw_cancellation_requested = False,
         cw_requested_at = None, cw_requested_by_digest = None, cw_reason_code = None\<rparr>]\<rparr>,
     cd_jobs = [\<lparr>wj_operation = sample_op, wj_phase = J_waiting_external, wj_control_revision = 1,
       wj_cancellation_revision = 0, wj_cancellation_requested = False, wj_deadline = 5000,
       wj_updated_at = 900\<rparr>],
     cd_suspensions = [\<lparr>sp_operation = sample_op, sp_revision = 1, sp_control_revision = 1,
       sp_owner = Planner_Owner Ph_initial 0, sp_method = ''model.request'',
       sp_contract_id = ''aar.broker-contract.model-request.v2'',
       sp_request_digest = json_digest (caller_request_json delegated_request), sp_ticket_id = ''t-1'',
       sp_state = Sp_pending, sp_settled_at = None\<rparr>],
     cd_tickets = [], cd_candidates = [], cd_commands = [], cd_outbox = [], cd_bindings = [],
     cd_executions = []\<rparr>"

definition delegated_common :: "int \<Rightarrow> string \<Rightarrow> caller_command" where
  "delegated_common rv key = \<lparr>cb_context = \<lparr>mc_principal = ''alice'', mc_session = ''s1'',
       mc_runtime_generation = 1, mc_capability_digest = json_digest JNull, mc_request_id = ''r'',
       mc_key = ''context-key'', mc_deadline = 5000, mc_grant_ids = [''g''], mc_wall_time_ms = 1000,
       mc_model_requests = 1, mc_input_tokens = 0, mc_output_tokens = 0, mc_child_operations = 0,
       mc_artifact_bytes = 0\<rparr>,
     cb_operation = sample_op, cb_control_revision = 1, cb_cancellation_revision = 0,
     cb_suspension_revision = 1, cb_deadline = 5000, cb_ticket_id = ''t-1'', cb_revision = rv,
     cb_ticket_digest = ''sha256:0'', cb_key = key\<rparr>"

definition delegated_claim :: claim_command where
  "delegated_claim = caller_command.extend (delegated_common 0 ''c-1'')
     (claim_command.fields ''driver'' 1 4000)"

definition pending_row :: ticket_row where
  "pending_row = new_ticket_row delegated_ticket 1000"

definition claimed_row :: ticket_row where
  "claimed_row = reserved_row delegated_claim ''claim-1'' ''attempt-1'' 1100 pending_row"

definition delegated_send :: send_command where
  "delegated_send = caller_command.extend (delegated_common 1 ''c-2'')
     (send_command.fields ''claim-1'' (claim_fence_of pending_row ''claim-1'' ''attempt-1'' ''driver'' 1)
        ''attempt-1'' 5100 (external_key pending_row) (tr_request_digest pending_row) True False)"

definition sent_row :: ticket_row where
  "sent_row = sending_row delegated_send 1200 claimed_row"

definition delegated_observation :: observation where
  "delegated_observation = \<lparr>ob_outcome = O_succeeded, ob_evidence = Model_Observed
       \<lparr>mo_output_text = Some ''answer'', mo_output_digest = Some (''sha256:'' @ sha256_hex (utf8 ''answer'')),
        mo_route_receipt_digest = Some (mr_receipt_digest (ms_route_receipt sample_response)),
        mo_usage_receipt_digest = Some (json_digest (model_usage_json (ms_usage sample_response)))\<rparr>,
     ob_host_receipt_digest = json_digest (model_response_json sample_response)\<rparr>"

definition delegated_commit :: commit_command where
  "delegated_commit = caller_command.extend (delegated_common 2 ''c-3'')
     (commit_command.fields ''claim-1'' (claim_fence_of pending_row ''claim-1'' ''attempt-1'' ''driver'' 1)
        ''attempt-1'' (tr_request_digest pending_row) (Some 1250) None delegated_observation
        (Some sample_response))"

lemmas sample_commands = delegated_claim_def delegated_send_def delegated_commit_def delegated_common_def
  caller_command.defs claim_command.defs send_command.defs commit_command.defs

lemma pending_columns:
  "tr_ticket_id pending_row = ''t-1''" "tr_operation pending_row = sample_op" "tr_revision pending_row = 0"
  "tr_suspension_revision pending_row = 1" "tr_ticket_digest pending_row = ''sha256:0''"
  "tr_deadline pending_row = 5000" "tr_state pending_row = T_pending" "tr_request pending_row = delegated_request"
  "tr_request_digest pending_row = json_digest (caller_request_json delegated_request)"
  "tr_method pending_row = ''model.request''" "tr_contract_id pending_row = ''aar.broker-contract.model-request.v2''"
  "tr_owner pending_row = Planner_Owner Ph_initial 0"
  "unclaimed_columns pending_row" "unsent_columns pending_row" "unsettled_columns pending_row"
  by (simp_all add: pending_row_def new_ticket_row_def delegated_ticket_def delegated_request_def
      unclaimed_columns_def unsent_columns_def unsettled_columns_def)

definition created_db :: caller_db where
  "created_db = waiting_db\<lparr>cd_tickets := [pending_row]\<rparr>"

lemma saved_accepts:
  "find_ticket i db = Some r \<Longrightarrow> claimed_columns r \<or> unclaimed_columns r \<Longrightarrow> \<exists>t. saved lax_rules i db = Inr (t, db)"
  by (auto simp: saved_def caller_get_def caller_row_def ticket_from_row_def row_claimant_def row_attempt_def
      contract_document_def lax_rules_def claimed_columns_def unclaimed_columns_def Let_def)

lemma created_ok: "\<exists>t. create_ticket lax_rules delegated_ticket 1000 waiting_db = Inr (t, created_db)"
proof -
  have f: "find_ticket ''t-1'' created_db = Some pending_row"
    by (simp add: created_db_def find_ticket_def fetchone_Cons pending_columns)
  have "insert_ticket pending_row waiting_db = Inr created_db"
    by (simp add: insert_ticket_def waiting_db_def created_db_def insert_row_def ticket_checks_def pending_columns
        suspension_of_def)
  then show ?thesis
    using saved_accepts [OF f] pending_columns(13)
    by (auto simp: create_ticket_def caller_tx_def saved_Inr find_ticket_def fetchone_Nil waiting_db_def
        delegated_ticket_def [THEN arg_cong, of tk_ticket_id] pending_row_def [symmetric])
qed

lemma checked_delegated:
  assumes "control_tables db = control_tables waiting_db" "find_ticket ''t-1'' db = Some r"
    and "issued r = issued pending_row" "tr_revision r = cb_revision v"
    and "v = caller_command.extend (delegated_common (cb_revision v) key) w"
  shows "checked_row v db = Inr r"
proof -
  have v: "cb_ticket_id v = ''t-1''" "cb_ticket_digest v = ''sha256:0''" "cb_operation v = sample_op"
    "cb_suspension_revision v = 1" "cb_deadline v = 5000" "cb_control_revision v = 1" "cb_cancellation_revision v = 0"
    by (subst assms(5), simp add: caller_command.defs delegated_common_def)+
  have i: "tr_ticket_digest r = ''sha256:0''" "tr_operation r = sample_op" "tr_suspension_revision r = 1"
    "tr_deadline r = 5000"
    using assms(3) by (simp_all add: issued_def pending_columns)
  have c: "find_control sample_op (cd_registry db) = Some \<lparr>cw_operation = sample_op, cw_control_revision = 1,
       cw_cancellation_requested = False, cw_requested_at = None, cw_requested_by_digest = None,
       cw_reason_code = None\<rparr>"
    "cd_jobs db = cd_jobs waiting_db" "cd_suspensions db = cd_suspensions waiting_db"
    using assms(1) by (simp_all add: control_tables_def find_control_def fetchone_Cons) (simp add: waiting_db_def fetchone_Cons)
  show ?thesis
    using assms(2,4)
    by (simp add: checked_row_def caller_row_def require_revision_def require_def v i c(1) check_control_def
        check_job_def check_suspension_def find_job_def find_suspension_def c(2,3))
      (simp add: waiting_db_def fetchone_Cons v)
qed

text \<open>The one ticket of the sample, replaced by an update of its row.\<close>

lemma update_only:
  assumes "cd_tickets db = [r]" "tr_ticket_id r = i" "ticket_checks (f r)" "cd_candidates db = []"
  shows "update_ticket i (tr_revision r) f db = Inr (db\<lparr>cd_tickets := [f r]\<rparr>)"
  using assms by (simp add: update_ticket_def Let_def row_simps unique_attempts_def candidates_bound_def)

lemma find_only: "cd_tickets db = [r] \<Longrightarrow> tr_ticket_id r = i \<Longrightarrow> find_ticket i db = Some r"
  by (simp add: find_ticket_def fetchone_Cons)

lemma first_command:
  assumes "body db = Inr (t, db1)" "cd_commands db1 = cd_commands db"
    and "\<forall>q \<in> set (cd_commands db). cq_key q \<noteq> key"
  shows "\<exists>q. cq_key q = key \<and>
    or_replay c r k key v now body db = Inr (t, db1\<lparr>cd_commands := cd_commands db @ [q]\<rparr>)"
proof -
  let ?q = "\<lparr>cq_operation = tr_operation r, cq_ticket_id = tr_ticket_id r, cq_kind = k, cq_key = key,
        cq_digest = command_digest k v, cq_result_revision = tk_revision t, cq_result = t,
        cq_result_digest = json_digest (ticket_json t), cq_created_at = now\<rparr>"
  have "replay_command c r k key v db = Inr None"
    using assms(3) by (auto simp: replay_command_def split: option.split dest!: fetchone_SomeD)
  moreover have "record_command r k key v t now db1 = Inr (t, db1\<lparr>cd_commands := cd_commands db @ [?q]\<rparr>)"
    using assms(2,3) by (auto simp: record_command_Inr)
  ultimately have "cq_key ?q = key \<and> or_replay c r k key v now body db =
      Inr (t, db1\<lparr>cd_commands := cd_commands db @ [?q]\<rparr>)"
    using assms(1) by (simp add: or_replay_def)
  then show ?thesis by blast
qed

lemma sample_state_columns:
  "claimed_columns claimed_row" "tr_state claimed_row = T_send_reserved" "tr_revision claimed_row = 1"
  "ticket_checks claimed_row" "claimed_columns sent_row" "tr_state sent_row = T_send_started"
  "tr_revision sent_row = 2" "ticket_checks sent_row" "issued claimed_row = issued pending_row"
  "issued sent_row = issued pending_row" "tr_send_started_at sent_row = Some 1200"
  using pending_columns
  by (simp_all add: claimed_row_def sent_row_def reserved_row_def sending_row_def ticket_checks_def issued_def
      claimed_columns_def unsent_columns_def unsettled_columns_def)

lemma claimed_columns_of:
  "tr_ticket_id claimed_row = ''t-1''" "tr_operation claimed_row = sample_op" "tr_claim_id claimed_row = Some ''claim-1''"
  "tr_claim_fence claimed_row = Some (claim_fence_of pending_row ''claim-1'' ''attempt-1'' ''driver'' 1)"
  "tr_attempt_id claimed_row = Some ''attempt-1''" "tr_key claimed_row = Some (external_key pending_row)"
  "tr_claim_expires_at claimed_row = Some 5100" "tr_deadline claimed_row = 5000"
  "tr_request_digest claimed_row = tr_request_digest pending_row" "tr_request claimed_row = delegated_request"
  "tr_principal claimed_row = Some ''alice''" "tr_session claimed_row = Some ''s1''"
  "tr_adapter claimed_row = Some ''driver''" "tr_adapter_generation claimed_row = Some 1"
  "tr_suspension_revision claimed_row = 1"
  by (simp_all add: claimed_row_def reserved_row_def pending_columns sample_commands)

lemma sent_columns_of:
  "tr_ticket_id sent_row = ''t-1''" "tr_operation sent_row = sample_op" "tr_claim_id sent_row = Some ''claim-1''"
  "tr_claim_fence sent_row = Some (claim_fence_of pending_row ''claim-1'' ''attempt-1'' ''driver'' 1)"
  "tr_attempt_id sent_row = Some ''attempt-1''" "tr_key sent_row = Some (external_key pending_row)"
  "tr_request_digest sent_row = tr_request_digest pending_row" "tr_request sent_row = delegated_request"
  "tr_principal sent_row = Some ''alice''" "tr_session sent_row = Some ''s1''"
  "tr_adapter sent_row = Some ''driver''" "tr_adapter_generation sent_row = Some 1"
  "tr_sent_request_digest sent_row = Some (tr_request_digest pending_row)" "tr_suspension_revision sent_row = 1"
  by (simp_all add: sent_row_def sending_row_def claimed_columns_of sample_commands)

lemma claim_body_runs:
  "\<exists>t. claim_body lax_rules delegated_claim ''claim-1'' ''attempt-1'' 1100 created_db =
     Inr (t, created_db\<lparr>cd_tickets := [claimed_row]\<rparr>)"
proof -
  have f: "find_ticket ''t-1'' created_db = Some pending_row"
    by (simp add: created_db_def find_only pending_columns)
  have c: "checked_row delegated_claim created_db = Inr pending_row"
    by (rule checked_delegated [OF _ f, where key = "''c-1''" and w = "claim_command.fields ''driver'' 1 4000"])
      (simp_all add: control_tables_def created_db_def sample_commands pending_columns)
  have "update_ticket ''t-1'' 0 (reserved_row delegated_claim ''claim-1'' ''attempt-1'' 1100) created_db =
      Inr (created_db\<lparr>cd_tickets := [claimed_row]\<rparr>)"
    using update_only [of created_db pending_row "''t-1''" "reserved_row delegated_claim ''claim-1'' ''attempt-1'' 1100"]
    by (simp add: created_db_def waiting_db_def pending_columns sample_state_columns(4) claimed_row_def [symmetric])
  moreover have "\<exists>t. saved lax_rules ''t-1'' (created_db\<lparr>cd_tickets := [claimed_row]\<rparr>) =
      Inr (t, created_db\<lparr>cd_tickets := [claimed_row]\<rparr>)"
    using saved_accepts [OF find_only, of "created_db\<lparr>cd_tickets := [claimed_row]\<rparr>" claimed_row "''t-1''"]
    by (simp add: sample_state_columns claimed_columns_of)
  ultimately show ?thesis by (auto simp: claim_body_def c pending_columns)
qed

lemma claim_runs:
  "\<exists>t q. cq_key q = ''c-1'' \<and> caller_claim lax_rules delegated_claim ''claim-1'' ''attempt-1'' (\<lambda>_. 1100) created_db =
     Inr (t, created_db\<lparr>cd_tickets := [claimed_row], cd_commands := [q]\<rparr>)"
proof -
  obtain t where "claim_body lax_rules delegated_claim ''claim-1'' ''attempt-1'' 1100 created_db =
     Inr (t, created_db\<lparr>cd_tickets := [claimed_row]\<rparr>)" using claim_body_runs by blast
  from first_command [where body = "claim_body lax_rules delegated_claim ''claim-1'' ''attempt-1'' 1100", OF this, of "''c-1''" lax_rules pending_row K_claim "claim_json delegated_claim" 1100]
  obtain q where "cq_key q = ''c-1''" "or_replay lax_rules pending_row K_claim ''c-1'' (claim_json delegated_claim) 1100
      (claim_body lax_rules delegated_claim ''claim-1'' ''attempt-1'' 1100) created_db =
    Inr (t, created_db\<lparr>cd_tickets := [claimed_row], cd_commands := [q]\<rparr>)"
    by (auto simp: created_db_def waiting_db_def)
  moreover have "find_ticket ''t-1'' created_db = Some pending_row" "\<not> cd_closed created_db"
    by (simp_all add: created_db_def find_only pending_columns) (simp add: waiting_db_def)
  moreover have "cb_ticket_id delegated_claim = ''t-1''" "cb_key delegated_claim = ''c-1''"
    by (simp_all add: sample_commands)
  ultimately show ?thesis
    by (auto simp: caller_claim_def caller_tx_def contract_document_def lax_rules_def [THEN arg_cong, of ch_accepts] caller_row_def)
qed

text \<open>The database after a claim whose receipt is \<open>q\<close>, and after a send.\<close>

definition claimed_db :: "command_row \<Rightarrow> caller_db" where
  "claimed_db q = created_db\<lparr>cd_tickets := [claimed_row], cd_commands := [q]\<rparr>"

lemma claimed_fields:
  "cd_tickets (claimed_db q) = [claimed_row]" "cd_commands (claimed_db q) = [q]" "cd_candidates (claimed_db q) = []"
  "control_tables (claimed_db q) = control_tables waiting_db" "cd_closed (claimed_db q) = False"
  "cd_bindings (claimed_db q) = []" "cd_executions (claimed_db q) = []" "cd_registry (claimed_db q) = cd_registry waiting_db"
  by (simp_all add: claimed_db_def created_db_def control_tables_def) (simp_all add: waiting_db_def)

definition sent_db :: "command_row \<Rightarrow> command_row \<Rightarrow> caller_db" where
  "sent_db q q' = (claimed_db q)\<lparr>cd_tickets := [sent_row], cd_commands := [q, q']\<rparr>"

lemma sent_fields:
  "cd_tickets (sent_db q q') = [sent_row]" "cd_commands (sent_db q q') = [q, q']" "cd_candidates (sent_db q q') = []"
  "control_tables (sent_db q q') = control_tables waiting_db" "cd_closed (sent_db q q') = False"
  "cd_bindings (sent_db q q') = []" "cd_executions (sent_db q q') = []" "cd_registry (sent_db q q') = cd_registry waiting_db"
  using claimed_fields [of q] by (simp_all add: sent_db_def control_tables_def)

lemma send_runs:
  assumes "cq_key q = ''c-1''"
  shows "\<exists>t q'. cq_key q' = ''c-2'' \<and>
    mark_send_started lax_rules delegated_send (\<lambda>_. 1200) (claimed_db q) = Inr (t, sent_db q q')"
proof -
  have f: "find_ticket ''t-1'' (claimed_db q) = Some claimed_row"
    by (simp add: find_only claimed_fields claimed_columns_of)
  have c: "checked_row delegated_send (claimed_db q) = Inr claimed_row"
    by (rule checked_delegated [OF _ f, where key = "''c-2''" and w = "send_command.fields ''claim-1''
        (claim_fence_of pending_row ''claim-1'' ''attempt-1'' ''driver'' 1) ''attempt-1'' 5100
        (external_key pending_row) (tr_request_digest pending_row) True False"])
      (simp_all add: claimed_fields sample_state_columns sample_commands)
  have "update_ticket ''t-1'' 1 (sending_row delegated_send 1200) (claimed_db q) =
      Inr ((claimed_db q)\<lparr>cd_tickets := [sent_row]\<rparr>)"
    using update_only [of "claimed_db q" claimed_row "''t-1''" "sending_row delegated_send 1200"]
    by (simp add: claimed_fields claimed_columns_of sample_state_columns sent_row_def [symmetric])
  moreover obtain t where "saved lax_rules ''t-1'' ((claimed_db q)\<lparr>cd_tickets := [sent_row]\<rparr>) =
      Inr (t, (claimed_db q)\<lparr>cd_tickets := [sent_row]\<rparr>)"
    using saved_accepts [OF find_only, of "(claimed_db q)\<lparr>cd_tickets := [sent_row]\<rparr>" sent_row "''t-1''"]
    by (auto simp: sample_state_columns sent_columns_of)
  moreover have "require_claim (Some (cs_claim_id delegated_send)) (Some (cs_claim_fence delegated_send))
      (Some (cs_attempt_id delegated_send)) claimed_row = Inr ()" "cs_claim_expires_at delegated_send = 5100"
    "Some (cs_provider_key delegated_send) = tr_key claimed_row"
    "cs_sent_request_digest delegated_send = tr_request_digest claimed_row"
    by (simp_all add: require_claim_def claimed_columns_of sample_commands)
  ultimately have b: "send_body lax_rules delegated_send 1200 (claimed_db q) =
      Inr (t, (claimed_db q)\<lparr>cd_tickets := [sent_row]\<rparr>)"
    by (simp add: send_body_def c sample_state_columns claimed_columns_of)
  from first_command [where body = "send_body lax_rules delegated_send 1200", OF this, of "''c-2''" lax_rules
      claimed_row K_mark_send_started "send_json delegated_send" 1200] assms
  obtain q' where "cq_key q' = ''c-2''" "or_replay lax_rules claimed_row K_mark_send_started ''c-2''
      (send_json delegated_send) 1200 (send_body lax_rules delegated_send 1200) (claimed_db q) = Inr (t, sent_db q q')"
    by (auto simp: claimed_fields sent_db_def)
  moreover have "cb_ticket_id delegated_send = ''t-1''" "cb_key delegated_send = ''c-2''"
    by (simp_all add: sample_commands)
  ultimately show ?thesis using f
    by (auto simp: mark_send_started_def caller_tx_def contract_document_def lax_rules_def [THEN arg_cong, of ch_accepts]
        caller_row_def claimed_fields)
qed

lemma unknown_runs:
  "\<exists>t. mark_outcome_unknown lax_rules ''t-1'' 2 1300 (sent_db q q') =
     Inr (t, (sent_db q q')\<lparr>cd_tickets := [restated_row T_outcome_unknown 1300 sent_row]\<rparr>)"
proof -
  let ?r = "restated_row T_outcome_unknown 1300 sent_row"
  have k: "tr_ticket_id ?r = ''t-1''" "claimed_columns ?r" "ticket_checks ?r"
    using sample_state_columns(5,8) sent_columns_of sample_state_columns(6)
    by (simp_all add: restated_row_def claimed_columns_def ticket_checks_def unsettled_columns_def)
  have f: "find_ticket ''t-1'' (sent_db q q') = Some sent_row"
    by (simp add: find_only sent_fields sent_columns_of)
  have u: "update_ticket ''t-1'' 2 (restated_row T_outcome_unknown 1300) (sent_db q q') = Inr ((sent_db q q')\<lparr>cd_tickets := [?r]\<rparr>)"
    using update_only [of "sent_db q q'" sent_row "''t-1''" "restated_row T_outcome_unknown 1300"]
    by (simp add: sent_fields sent_columns_of k sample_state_columns)
  moreover obtain t where "saved lax_rules ''t-1'' ((sent_db q q')\<lparr>cd_tickets := [?r]\<rparr>) = Inr (t, (sent_db q q')\<lparr>cd_tickets := [?r]\<rparr>)"
    using saved_accepts [OF find_only, of "(sent_db q q')\<lparr>cd_tickets := [?r]\<rparr>" ?r "''t-1''"] k by auto
  ultimately show ?thesis
    by (simp add: mark_outcome_unknown_def caller_tx_def caller_row_def f sent_fields require_revision_def require_def
        sample_state_columns)
qed

section \<open>The sample's commit\<close>

definition delegated_execution :: caller_execution where
  "delegated_execution = committed_evidence sample_op (external_key pending_row) (tr_request_digest pending_row)
     delegated_request sample_model_binding sample_response"

definition sealed_db :: "command_row \<Rightarrow> command_row \<Rightarrow> caller_db" where
  "sealed_db q q' = (sent_db q q')\<lparr>cd_bindings := [\<lparr>ro_operation = sample_op, ro_binding = sample_model_binding\<rparr>],
     cd_executions := [delegated_execution]\<rparr>"

lemma delegated_observed: "response_matches sample_response delegated_observation = Inr ()"
  by (simp add: response_matches_def delegated_observation_def require_def sample_response_def)

lemma delegated_requested: "mr_requested (ms_route_receipt sample_response) = sample_model_binding"
  by (simp add: sample_response_def unsigned_receipt_def)

lemma evidence_runs: "commit_evidence lax_rules delegated_commit sent_row (sent_db q q') = Inr (sealed_db q q')"
proof -
  have "find_ticket ''t-1'' (sent_db q q') = Some sent_row" by (simp add: find_only sent_fields sent_columns_of)
  then have "caller_ticket_authority sample_op ''t-1'' ''attempt-1'' (external_key pending_row)
      (tr_request_digest pending_row) delegated_request (sent_db q q')"
    by (simp add: caller_ticket_authority_def sample_state_columns sent_columns_of str_column_def)
  then have "record_caller_result sample_op ''t-1'' ''attempt-1'' (external_key pending_row)
      (tr_request_digest pending_row) delegated_request sample_model_binding sample_response (sent_db q q') =
    Inr (sample_response, sealed_db q q')"
    by (simp add: record_caller_result_def pending_columns delegated_requested bind_operation_def sent_fields
        fetchone_Nil find_caller_execution_def sealed_db_def delegated_execution_def)
  moreover have "request_binding delegated_request = Inr sample_model_binding"
    by (simp add: delegated_request_def sample_binding_valid)
  moreover have "model_succeeded delegated_observation" "cm_observation delegated_commit = delegated_observation"
    "cm_model_response delegated_commit = Some sample_response" "ch_journal lax_rules"
    by (simp_all add: model_succeeded_def delegated_observation_def sample_commands lax_rules_def)
  ultimately show ?thesis
    by (simp add: commit_evidence_def record_model_response_def sample_response_valid delegated_observed
        sent_columns_of str_column_def as_conflict_def)
qed

lemma sealed_fields:
  "cd_tickets (sealed_db q q') = [sent_row]" "cd_commands (sealed_db q q') = [q, q']" "cd_candidates (sealed_db q q') = []"
  "control_tables (sealed_db q q') = control_tables waiting_db" "cd_closed (sealed_db q q') = False"
  "cd_executions (sealed_db q q') = [delegated_execution]"
  using sent_fields [of q q'] by (simp_all add: sealed_db_def control_tables_def)

definition delegated_candidate :: candidate_receipt where
  "delegated_candidate = (let p = \<lparr>cr_ticket_id = ''t-1'', cr_ticket_digest = tr_ticket_digest sent_row,
     cr_attempt_id = ''attempt-1'', cr_sent_request_digest = tr_request_digest pending_row, cr_sent_at = Some 1250,
     cr_request_id = None, cr_observation = delegated_observation, cr_principal = ''alice'', cr_session = ''s1'',
     cr_adapter = ''driver'', cr_adapter_generation = 1, cr_observed_at = 1300,
     cr_signature_digest = commit_signature sent_row ''attempt-1'' delegated_commit, cr_receipt_digest = []\<rparr>
   in p\<lparr>cr_receipt_digest := candidate_digest p\<rparr>)"

lemma candidate_runs: "candidate_from_commit lax_rules sent_row delegated_commit 1300 = Inr delegated_candidate"
  by (simp add: candidate_from_commit_def delegated_candidate_def sent_columns_of Let_def contract_document_def
      lax_rules_def sample_commands)

lemma delegated_candidate_bound: "cr_receipt_digest delegated_candidate = candidate_digest delegated_candidate"
  by (simp add: delegated_candidate_def Let_def candidate_digest_def candidate_payload_def candidate_fields_def)

lemma delegated_candidate_fields:
  "cr_ticket_id delegated_candidate = ''t-1''" "cr_attempt_id delegated_candidate = ''attempt-1''"
  "cr_observation delegated_candidate = delegated_observation" "cr_sent_at delegated_candidate = Some 1250"
  by (simp_all add: delegated_candidate_def Let_def)

definition candidate_db :: "command_row \<Rightarrow> command_row \<Rightarrow> caller_db" where
  "candidate_db q q' = (sealed_db q q')\<lparr>cd_candidates :=
     [\<lparr>cx_ticket_id = ''t-1'', cx_attempt_id = ''attempt-1'', cx_receipt_digest = cr_receipt_digest delegated_candidate,
       cx_receipt = delegated_candidate, cx_source_kind = Claimant_callback,
       cx_observed_at = cr_observed_at delegated_candidate\<rparr>]\<rparr>"

lemma insert_runs: "insert_candidate delegated_candidate Claimant_callback (sealed_db q q') = Inr (True, candidate_db q q')"
  by (simp add: insert_candidate_def delegated_candidate_bound [symmetric] sealed_fields attempt_of_def sent_columns_of
      delegated_candidate_fields candidate_db_def)

definition settled_sample :: ticket_row where
  "settled_sample = settled_row delegated_candidate 1300 sent_row"

lemma settled_columns_of:
  "tr_ticket_id settled_sample = ''t-1''" "claimed_columns settled_sample" "ticket_checks settled_sample"
  "tr_state settled_sample = T_settled_success" "tr_attempt_id settled_sample = Some ''attempt-1''"
proof -
  have "settled_state (ob_outcome delegated_observation) = T_settled_success"
    by (simp add: settled_state_def delegated_observation_def)
  then show "tr_ticket_id settled_sample = ''t-1''" "claimed_columns settled_sample" "ticket_checks settled_sample"
    "tr_state settled_sample = T_settled_success" "tr_attempt_id settled_sample = Some ''attempt-1''"
    using sample_state_columns(5,7,8,11) sent_columns_of
    by (simp_all add: settled_sample_def settled_row_def claimed_columns_def ticket_checks_def settled_columns_def
        delegated_candidate_fields)
qed

lemma authority_runs: "require_settlement_authority lax_rules sent_row delegated_observation (candidate_db q q') = Inr ()"
proof -
  have f: "find_ticket ''t-1'' (candidate_db q q') = Some sent_row"
    by (simp add: candidate_db_def find_only sealed_fields sent_columns_of)
  have "caller_ticket_authority sample_op ''t-1'' ''attempt-1'' (external_key pending_row)
      (tr_request_digest pending_row) delegated_request (candidate_db q q')"
    using f by (simp add: caller_ticket_authority_def sample_state_columns sent_columns_of str_column_def)
  moreover have "find_caller_execution sample_op (external_key pending_row) (candidate_db q q') = Some delegated_execution"
    by (simp add: find_caller_execution_def candidate_db_def sealed_fields fetchone_Cons delegated_execution_def committed_evidence_def)
  moreover have "ce_state delegated_execution = X_result_committed"
    "caller_lineage (tr_request_digest pending_row) delegated_request sample_model_binding delegated_execution"
    by (simp_all add: delegated_execution_def committed_evidence_def caller_lineage_def)
  moreover have "validated_response sample_model_binding (evidence_row delegated_execution) = Inr sample_response"
  proof -
    have "validate_model_usage (ms_usage sample_response) = Inr (ms_usage sample_response)"
      by (simp add: validate_model_usage_def validated_def sample_response_def budget_counter_def max_i64_def opt_ok_def)
    then show ?thesis
      by (simp add: validated_response_def evidence_row_def delegated_execution_def committed_evidence_def
          sample_response_valid delegated_requested)
  qed
  ultimately have "require_caller_result sample_op ''t-1'' ''attempt-1'' (external_key pending_row)
      (tr_request_digest pending_row) delegated_request sample_model_binding (candidate_db q q') = Inr sample_response"
    by (simp add: require_caller_result_def)
  moreover have "request_binding delegated_request = Inr sample_model_binding" "ch_journal lax_rules"
    by (simp_all add: delegated_request_def sample_binding_valid lax_rules_def)
  ultimately show ?thesis
    by (simp add: require_settlement_authority_def sent_columns_of str_column_def as_conflict_def delegated_observed)
qed

lemma project_runs:
  assumes "control_tables db = control_tables waiting_db"
  shows "\<exists>db'. project_terminal sent_row T_settled_success (Some d) 1300 db = Inr db' \<and>
    cd_tickets db' = cd_tickets db \<and> cd_commands db' = cd_commands db"
proof -
  have t: "cd_suspensions db = cd_suspensions waiting_db" "cd_jobs db = cd_jobs waiting_db"
    "cd_registry db = cd_registry waiting_db" "cd_outbox db = cd_outbox waiting_db"
    using assms by (simp_all add: control_tables_def)
  obtain db1 where s: "settle_suspension sent_row T_settled_success 1300 db = Inr db1"
    by (simp add: settle_suspension_def t(1) sent_columns_of waiting_db_def rowcount_def)
  then have k: "cd_tickets db1 = cd_tickets db" "cd_commands db1 = cd_commands db" "cd_jobs db1 = cd_jobs waiting_db"
    "cd_registry db1 = cd_registry waiting_db" "cd_outbox db1 = cd_outbox waiting_db"
    using settle_suspension_Inr [OF s] t by auto
  have o': "find_op sample_op (cd_registry waiting_db) = Some sample_row" "or_state sample_row = ACCEPTED"
    by (simp_all add: waiting_db_def find_op_def fetchone_Cons sample_row_def fresh_op_row_def sample_op_def)
  have j: "find_job sample_op db1 = Some (hd (cd_jobs waiting_db))"
    "find_control sample_op (cd_registry waiting_db) = Some (hd (rg_controls (cd_registry waiting_db)))"
    unfolding find_job_def find_control_def k(3) by (simp_all add: waiting_db_def fetchone_Cons)
  have "\<exists>db'. queue_successor sent_row d 1300 (hd (cd_jobs waiting_db)) (hd (rg_controls (cd_registry waiting_db))) db1 =
      Inr db' \<and> cd_tickets db' = cd_tickets db1 \<and> cd_commands db' = cd_commands db1"
    unfolding queue_successor_def insert_row_def k(3-5) by (simp add: sent_columns_of waiting_db_def rowcount_def)
  then show ?thesis
    using s k(1,2) by (auto simp: project_terminal_def sent_columns_of k(4) o' j sample_state_columns)
qed

lemma settlement_runs:
  "\<exists>t db'. apply_settlement lax_rules sent_row delegated_candidate 1300 (candidate_db q q') = Inr (t, db') \<and>
     cd_commands db' = [q, q'] \<and> tk_state t = T_settled_success"
proof -
  let ?db1 = "(candidate_db q q')\<lparr>cd_tickets := [settled_sample]\<rparr>"
  have d: "candidate_digests lax_rules sent_row (candidate_db q q') = Inr [candidate_digest delegated_candidate]"
    by (simp add: candidate_digests_def attempt_candidates_def candidate_db_def sent_columns_of contract_document_def lax_rules_def)
  have u: "update_ticket ''t-1'' 2 (settled_row delegated_candidate 1300) (candidate_db q q') = Inr ?db1"
    using settled_columns_of
    by (simp add: update_ticket_def Let_def candidate_db_def sealed_fields row_simps unique_attempts_def candidates_bound_def
        sent_columns_of sample_state_columns attempt_of_def settled_sample_def [symmetric])
  have "control_tables ?db1 = control_tables waiting_db"
    using sealed_fields(4) [of q q'] by (simp add: candidate_db_def control_tables_def)
  from project_runs [OF this, of "cr_receipt_digest delegated_candidate"] obtain db' where
    p: "project_terminal sent_row T_settled_success (Some (cr_receipt_digest delegated_candidate)) 1300 ?db1 = Inr db'"
      "cd_tickets db' = [settled_sample]" "cd_commands db' = [q, q']"
    by (auto simp: candidate_db_def sealed_fields)
  have f: "find_ticket ''t-1'' db' = Some settled_sample"
    by (rule find_only [OF p(2) settled_columns_of(1)])
  obtain t where t: "saved lax_rules ''t-1'' db' = Inr (t, db')"
    using saved_accepts [OF f] settled_columns_of(2) by blast
  then have "tk_state t = T_settled_success"
    using row_from_get [of lax_rules "''t-1''" db' t] f settled_columns_of(4) by (auto simp: saved_Inr)
  moreover have "settled_state (ob_outcome delegated_observation) = T_settled_success" "model_succeeded delegated_observation"
    by (simp_all add: settled_state_def delegated_observation_def model_succeeded_def)
  ultimately show ?thesis using t p
    by (simp add: apply_settlement_def d delegated_candidate_fields authority_runs sent_columns_of sample_state_columns u)
qed

lemma commit_runs:
  assumes "cq_key q = ''c-1''" "cq_key q' = ''c-2''"
  shows "\<exists>t db'. commit_transaction lax_rules delegated_commit (\<lambda>_. 1300) (sent_db q q') = Inr (t, db') \<and>
    tk_state t = T_settled_success"
proof -
  have f: "find_ticket ''t-1'' (sealed_db q q') = Some sent_row" "find_ticket ''t-1'' (sent_db q q') = Some sent_row"
    by (simp_all add: find_only sealed_fields sent_fields sent_columns_of)
  have c: "checked_row delegated_commit (sealed_db q q') = Inr sent_row"
    by (rule checked_delegated [OF _ f(1), where key = "''c-3''" and w = "commit_command.fields ''claim-1''
        (claim_fence_of pending_row ''claim-1'' ''attempt-1'' ''driver'' 1) ''attempt-1'' (tr_request_digest pending_row)
        (Some 1250) None delegated_observation (Some sample_response)"])
      (simp_all add: sealed_fields sample_state_columns sample_commands)
  obtain t db' where a: "apply_settlement lax_rules sent_row delegated_candidate 1300 (candidate_db q q') = Inr (t, db')"
    "cd_commands db' = [q, q']" "tk_state t = T_settled_success" using settlement_runs by blast
  have "require_claim (Some (cm_claim_id delegated_commit)) (Some (cm_claim_fence delegated_commit))
      (Some (cm_attempt_id delegated_commit)) sent_row = Inr ()"
    "Some (cm_sent_request_digest delegated_commit) = tr_sent_request_digest sent_row" "may_have_sent sent_row"
    by (simp_all add: require_claim_def sent_columns_of sample_commands may_have_sent_def sample_state_columns)
  then have b: "commit_body lax_rules delegated_commit (\<lambda>_. 1300) (sealed_db q q') = Inr (t, db')"
    by (simp add: commit_body_def c candidate_runs insert_runs a(1))
  have n: "\<forall>x \<in> set (cd_commands (sealed_db q q')). cq_key x \<noteq> ''c-3''" using assms by (simp add: sealed_fields)
  obtain y where "or_replay lax_rules sent_row K_commit ''c-3'' (commit_json delegated_commit) 1300
      (commit_body lax_rules delegated_commit (\<lambda>_. 1300)) (sealed_db q q') =
    Inr (t, db'\<lparr>cd_commands := cd_commands (sealed_db q q') @ [y]\<rparr>)"
    using first_command [where body = "commit_body lax_rules delegated_commit (\<lambda>_. 1300)", OF b _ n, of lax_rules sent_row
        K_commit "commit_json delegated_commit" 1300] a(2) by (auto simp: sealed_fields)
  moreover have "cb_ticket_id delegated_commit = ''t-1''" "cb_key delegated_commit = ''c-3''"
    by (simp_all add: sample_commands)
  ultimately show ?thesis using f a(3)
    by (simp add: commit_transaction_def commit_in_transaction_def caller_tx_def contract_document_def
        lax_rules_def [THEN arg_cong, of ch_accepts] caller_row_def sent_fields evidence_runs)
qed

lemma sample_call_run:
  "\<exists>q q'. cq_key q = ''c-1'' \<and> cq_key q' = ''c-2'' \<and> caller_reachable lax_rules created_db \<and>
     caller_step lax_rules created_db (claimed_db q) \<and> caller_step lax_rules (claimed_db q) (sent_db q q') \<and>
     (\<exists>t. run_call lax_rules (Call_claim delegated_claim) (''claim-1'', ''attempt-1'') (\<lambda>_. 1100) created_db = Inr (t, claimed_db q))"
proof -
  obtain t q where q: "cq_key q = ''c-1''"
    "run_call lax_rules (Call_claim delegated_claim) (''claim-1'', ''attempt-1'') (\<lambda>_. 1100) created_db = Inr (t, claimed_db q)"
    using claim_runs by (auto simp: claimed_db_def)
  obtain u q' where q': "cq_key q' = ''c-2''"
    "run_call lax_rules (Call_send delegated_send) ([], []) (\<lambda>_. 1200) (claimed_db q) = Inr (u, sent_db q q')"
    using send_runs [OF q(1)] by auto
  have "caller_step lax_rules waiting_db created_db" using created_ok created by blast
  then have "caller_reachable lax_rules created_db"
    unfolding caller_reachable_def by (intro exI [of _ waiting_db]) (simp add: waiting_db_def)
  with q q' show ?thesis using called by blast
qed

section \<open>Properties\<close>

text \<open>C14: A step of the caller-work repository leaves a stored ticket as it is, or raises its revision
    by one, keeps what it was issued with, and moves it along an edge of section 4 of \<open>LIFECYCLE.md\<close> or
    along one of the two edges the code has beyond that section: the quarantine of a ticket whose
    send has only started, and the cancellation request on an unknown outcome.\<close>
theorem tickets_move_along_known_edges:
  assumes "caller_reachable c db" "caller_step c db db'" "find_ticket i db = Some x"
  shows "\<exists>y. find_ticket i db' = Some y \<and>
    (y = x \<or> tr_revision y = tr_revision x + 1 \<and> issued y = issued x \<and>
       (tr_state y \<in> lifecycle_edges (tr_state x) \<or>
        (tr_state x, tr_state y) \<in> {(T_send_started, T_quarantined), (T_outcome_unknown, T_cancel_requested)}))"
  using ticket_follows [OF caller_reachable_ok [OF assms(1)] assms(2,3)]
  by (auto simp: ticket_move_def code_edge_def undocumented_edges_def)

text \<open>The claim of the sample ticket.\<close>
theorem tickets_move_along_known_edges_witness:
  "\<exists>q. caller_step lax_rules created_db (claimed_db q) \<and> find_ticket ''t-1'' created_db = Some pending_row \<and>
     find_ticket ''t-1'' (claimed_db q) = Some claimed_row \<and> issued claimed_row = issued pending_row \<and>
     tr_state claimed_row \<in> lifecycle_edges (tr_state pending_row)"
proof -
  obtain q where k: "caller_reachable lax_rules created_db" "caller_step lax_rules created_db (claimed_db q)"
    using sample_call_run by blast
  have f: "find_ticket ''t-1'' created_db = Some pending_row" "find_ticket ''t-1'' (claimed_db q) = Some claimed_row"
    by (simp_all add: created_db_def claimed_db_def find_only pending_columns claimed_columns_of)
  have n: "claimed_row \<noteq> pending_row" "tr_state pending_row = T_pending"
    using sample_state_columns(2) pending_columns(7) by fastforce+
  from tickets_move_along_known_edges [OF k f(1)] f(2) n k(2) f(1) show ?thesis by auto
qed

text \<open>C7: Once a ticket's send has started, every later database keeps its send time, request,
    physical attempt and idempotency key, it never becomes claimable again, and a claim or a
    send-start that still returns for it is the replay of an old answer that writes nothing.\<close>
theorem sent_tickets_are_never_resent:
  assumes "caller_reachable c db" "caller_runs c db db'" "find_ticket i db = Some r" "tr_send_started_at r \<noteq> None"
  shows "(\<exists>r'. find_ticket i db' = Some r' \<and> dispatched_state r' \<and> send_mark r' = send_mark r) \<and>
    (\<forall>v clk t db''. cb_ticket_id v = i \<and> mark_send_started c v clk db' = Inr (t, db'') \<longrightarrow> db'' = db') \<and>
    (\<forall>v j a clk t db''. cb_ticket_id v = i \<and> caller_claim c v j a clk db' = Inr (t, db'') \<longrightarrow> db'' = db')"
  using sent_stays [OF assms(2) caller_reachable_ok [OF assms(1)] assms(3,4)]
    dispatched_send_replays dispatched_claim_replays by blast

text \<open>The sample ticket, sent and then of unknown outcome.\<close>
theorem sent_tickets_are_never_resent_witness:
  "\<exists>q q' db r'. caller_runs lax_rules (sent_db q q') db \<and> find_ticket ''t-1'' db = Some r' \<and>
     tr_state r' = T_outcome_unknown \<and> send_mark r' = send_mark sent_row"
proof -
  obtain q q' where k: "caller_reachable lax_rules created_db" "caller_step lax_rules created_db (claimed_db q)"
    "caller_step lax_rules (claimed_db q) (sent_db q q')" using sample_call_run by blast
  let ?r = "restated_row T_outcome_unknown 1300 sent_row"
  let ?db = "(sent_db q q')\<lparr>cd_tickets := [?r]\<rparr>"
  have "caller_reachable lax_rules (claimed_db q)" by (rule caller_reachable_runs [OF k(1) r_into_rtranclp [of "caller_step lax_rules", OF k(2)]])
  then have r: "caller_reachable lax_rules (sent_db q q')"
    by (rule caller_reachable_runs [OF _ r_into_rtranclp [of "caller_step lax_rules", OF k(3)]])
  have s: "caller_runs lax_rules (sent_db q q') ?db"
    using unknown_runs [of q q'] marked_unknown by (blast intro: r_into_rtranclp)
  have f: "find_ticket ''t-1'' (sent_db q q') = Some sent_row" "find_ticket ''t-1'' ?db = Some ?r"
    by (simp_all add: find_only sent_fields sent_columns_of) (simp add: find_only restated_row_def sent_columns_of)
  have "tr_send_started_at sent_row \<noteq> None" by (simp add: sample_state_columns)
  from sent_tickets_are_never_resent [OF r s f(1) this] f(2) have "send_mark ?r = send_mark sent_row" by auto
  moreover have "tr_state ?r = T_outcome_unknown" by (simp add: restated_row_def)
  ultimately show ?thesis using s f(2) by blast
qed

text \<open>C9: After a command that leaves a receipt (claim, send-start, pre-send cancellation,
    reconciliation, settlement of a stored candidate or commit) has returned a ticket, the same
    command, whatever happened in between, returns no other ticket and writes no ticket, candidate,
    command, job, control or outbox row. Unless it is the commit of a succeeded model call it does
    return that ticket and writes nothing at all; such a commit journals its evidence again first
    and may be refused there.\<close>
theorem caller_commands_answer_once:
  assumes "caller_reachable c db" "run_call c v ids clk db = Inr (t, db1)"
    and "caller_runs c db1 db2" "\<not> cd_closed db2"
  shows "(\<not> journals_evidence v \<longrightarrow> run_call c v ids' clk' db2 = Inr (t, db2)) \<and>
    (\<forall>u db3. run_call c v ids' clk' db2 = Inr (u, db3) \<longrightarrow>
       u = t \<and> (\<exists>bs es. db3 = db2\<lparr>cd_bindings := bs, cd_executions := es\<rparr>))"
proof (intro conjI impI allI)
  assume "\<not> journals_evidence v"
  then show "run_call c v ids' clk' db2 = Inr (t, db2)"
    by (rule calls_replay [OF caller_reachable_ok [OF assms(1)] assms(2-4)])
next
  fix u db3 assume "run_call c v ids' clk' db2 = Inr (u, db3)"
  from repeated_call [OF caller_reachable_ok [OF assms(1)] assms(2,3) this]
  show "u = t" "\<exists>bs es. db3 = db2\<lparr>cd_bindings := bs, cd_executions := es\<rparr>" using evidence_only by blast+
qed

text \<open>The sample claim, repeated with other fresh identifiers after the send.\<close>
theorem caller_commands_answer_once_witness:
  "\<exists>q q' t. caller_claim lax_rules delegated_claim ''claim-9'' ''attempt-9'' (\<lambda>_. 4000) (sent_db q q') =
     Inr (t, sent_db q q')"
proof -
  obtain q q' t where k: "caller_reachable lax_rules created_db" "caller_step lax_rules (claimed_db q) (sent_db q q')"
    "run_call lax_rules (Call_claim delegated_claim) (''claim-1'', ''attempt-1'') (\<lambda>_. 1100) created_db = Inr (t, claimed_db q)"
    using sample_call_run by blast
  have o: "\<not> cd_closed (sent_db q q')" by (simp add: sent_fields)
  from caller_commands_answer_once [OF k(1,3) r_into_rtranclp [of "caller_step lax_rules", OF k(2)] o,
      of "(''claim-9'', ''attempt-9'')" "\<lambda>_. 4000"]
  show ?thesis by auto
qed

text \<open>C15: A commit of a succeeded model call that returns has its evidence in the model journal:
    a committed execution under the ticket's key whose response attests the route the request is
    bound to and agrees with every digest of the observation.\<close>
theorem committed_model_calls_are_sealed:
  assumes "commit_transaction c v clk db = Inr (t, db')" "model_succeeded (cm_observation v)"
  shows "\<exists>r. find_ticket (cb_ticket_id v) db = Some r \<and> sealed r (cm_observation v) db'"
  by (rule commit_sealed [OF assms])

text \<open>The sample commit.\<close>
theorem committed_model_calls_are_sealed_witness:
  "\<exists>q q' t db'. commit_transaction lax_rules delegated_commit (\<lambda>_. 1300) (sent_db q q') = Inr (t, db') \<and>
     sealed sent_row delegated_observation db'"
proof -
  obtain q q' :: command_row where "cq_key q = ''c-1''" "cq_key q' = ''c-2''" using sample_call_run by blast
  from commit_runs [OF this] obtain t db' where
    c: "commit_transaction lax_rules delegated_commit (\<lambda>_. 1300) (sent_db q q') = Inr (t, db')" by blast
  have "find_ticket ''t-1'' (sent_db q q') = Some sent_row" by (simp add: find_only sent_fields sent_columns_of)
  moreover have "cb_ticket_id delegated_commit = ''t-1''" "cm_observation delegated_commit = delegated_observation"
    "model_succeeded delegated_observation"
    by (simp_all add: sample_commands model_succeeded_def delegated_observation_def)
  ultimately have "sealed sent_row delegated_observation db'" using committed_model_calls_are_sealed [OF c] by auto
  with c show ?thesis by blast
qed

text \<open>C13: The first commit under its key that settles a ticket (one receipt only, so no quarantine),
    while the operation is accepted and, for a ticket of unknown outcome, before the job's deadline,
    finds the job waiting and not cancelled, and in the same transaction queues one successor under
    the ticket's settlement digest and moves the job to accepted and its two control revisions,
    equal before, one on. Any other commit that returns leaves registry, jobs and outbox unchanged.\<close>
theorem settlement_queues_one_successor:
  assumes "commit_transaction c v clk db = Inr (t, db')" "find_ticket (cb_ticket_id v) db = Some r"
  shows "if first_commit r v db \<and> tk_state t \<noteq> T_quarantined \<and> may_continue r (clk 1) db
    then \<exists>d. tk_settled_digest t = Some d \<and>
      successor_queued (tr_operation r) (tr_suspension_revision r) d (clk 1) db db'
    else cd_registry db' = cd_registry db \<and> cd_jobs db' = cd_jobs db \<and> cd_outbox db' = cd_outbox db"
  using commit_continues [OF assms] unfolding continued_def continuation_def by (auto split: if_split_asm)

text \<open>The sample commit.\<close>
theorem settlement_queues_one_successor_witness:
  "\<exists>q q' t db' d. commit_transaction lax_rules delegated_commit (\<lambda>_. 1300) (sent_db q q') = Inr (t, db') \<and>
     successor_queued sample_op 1 d 1300 (sent_db q q') db'"
proof -
  obtain q q' :: command_row where k: "cq_key q = ''c-1''" "cq_key q' = ''c-2''" using sample_call_run by blast
  from commit_runs [OF k] obtain t db' where
    c: "commit_transaction lax_rules delegated_commit (\<lambda>_. 1300) (sent_db q q') = Inr (t, db')"
    and t: "tk_state t = T_settled_success" by blast
  have i: "cb_ticket_id delegated_commit = ''t-1''" "cb_key delegated_commit = ''c-3''" by (simp_all add: sample_commands)
  have f: "find_ticket (cb_ticket_id delegated_commit) (sent_db q q') = Some sent_row"
    unfolding i by (simp add: find_only sent_fields sent_columns_of)
  have n: "first_commit sent_row delegated_commit (sent_db q q')"
    using k by (simp add: first_commit_def fetchone_Cons fetchone_Nil sent_fields i)
  have "find_op (tr_operation sent_row) (cd_registry (sent_db q q')) = Some sample_row" "or_state sample_row = ACCEPTED"
    by (simp_all add: sent_fields sent_columns_of waiting_db_def find_op_def fetchone_Cons sample_row_def fresh_op_row_def sample_op_def)
  then have "may_continue sent_row 1300 (sent_db q q')" by (simp add: may_continue_def sample_state_columns)
  with settlement_queues_one_successor [OF c f] n t obtain d where
    "successor_queued sample_op 1 d 1300 (sent_db q q') db'" by (auto simp: sent_columns_of)
  with c show ?thesis by blast
qed

end
