(* ===== verification/Session_Grants.thy ===== *)
theory Session_Grants
  imports Broker_Calls Effects
begin

text \<open>
  Session grants of a provider-ready runtime (\<open>runtime/_session_grants.py\<close>): grants that live in
  memory, are issued and accepted only under the current grant set, and end with its generation;
  and their resolution to the grants of a request
  (\<open>ProviderReadyStartup.resolve_session_grants\<close>). The durable store of grant sets is a
  parameter: what it holds as current, and its verification, which reads files.
\<close>

section \<open>Documents\<close>

record grant_ceiling =
  gl_wall_time_ms :: int
  gl_model_requests :: int
  gl_input_tokens :: int
  gl_output_tokens :: int
  gl_child_operations :: int
  gl_artifact_bytes :: int

definition ceiling_fields :: "grant_ceiling \<Rightarrow> bool" where
  "ceiling_fields b \<longleftrightarrow> 1000 \<le> gl_wall_time_ms b \<and> gl_wall_time_ms b \<le> max_i64 \<and>
     1 \<le> gl_model_requests b \<and> gl_model_requests b \<le> 128 \<and>
     budget_counter (gl_input_tokens b) \<and> budget_counter (gl_output_tokens b) \<and>
     0 \<le> gl_child_operations b \<and> gl_child_operations b \<le> 64 \<and>
     0 \<le> gl_artifact_bytes b \<and> gl_artifact_bytes b \<le> 33554432"

definition ceiling_json :: "grant_ceiling \<Rightarrow> json" where
  "ceiling_json b = JObj
     [(''wall_time_ms'', JInt (gl_wall_time_ms b)), (''model_requests'', JInt (gl_model_requests b)),
      (''input_tokens'', JInt (gl_input_tokens b)), (''output_tokens'', JInt (gl_output_tokens b)),
      (''child_operations'', JInt (gl_child_operations b)), (''artifact_bytes'', JInt (gl_artifact_bytes b))]"

record grant_set =
  gt_runtime_generation :: int
  gt_activation_generation :: int
  gt_profile_id :: string
  gt_profile_digest :: string
  gt_authority_digest :: string
  gt_capability_digest :: string
  gt_catalog_digest :: string
  gt_principals :: "string list"
  gt_capabilities :: "string list"
  gt_ceiling :: grant_ceiling
  gt_max_ttl_ms :: int
  gt_digest :: string

definition grant_set_payload :: "grant_set \<Rightarrow> json" where
  "grant_set_payload s = JObj
     [(''schema_version'', JStr ''aar.workbench-grant-set.v1''),
      (''runtime_generation'', JInt (gt_runtime_generation s)),
      (''activation_generation'', JInt (gt_activation_generation s)),
      (''profile_id'', JStr (gt_profile_id s)), (''profile_digest'', JStr (gt_profile_digest s)),
      (''activation_authority_digest'', JStr (gt_authority_digest s)),
      (''capability_digest'', JStr (gt_capability_digest s)),
      (''route_catalog_digest'', JStr (gt_catalog_digest s)),
      (''principal_ids'', JArr (map JStr (gt_principals s))),
      (''session_binding_policy'', JStr ''bind_exact_request_session''),
      (''capabilities'', JArr (map JStr (gt_capabilities s))),
      (''budget_ceiling'', ceiling_json (gt_ceiling s)), (''max_ttl_ms'', JInt (gt_max_ttl_ms s))]"

definition grant_set_fields :: "grant_set \<Rightarrow> bool" where
  "grant_set_fields s \<longleftrightarrow> positive_counter (gt_runtime_generation s) \<and>
     positive_counter (gt_activation_generation s) \<and> opaque_token (gt_profile_id s) \<and>
     list_all is_digest [gt_profile_digest s, gt_authority_digest s, gt_capability_digest s,
       gt_catalog_digest s, gt_digest s] \<and>
     list_all opaque_token (gt_principals s) \<and> length (gt_principals s) \<in> {1..64} \<and>
     list_all capability_name (gt_capabilities s) \<and> length (gt_capabilities s) \<in> {1..64} \<and>
     ceiling_fields (gt_ceiling s) \<and> 1000 \<le> gt_max_ttl_ms s \<and> gt_max_ttl_ms s \<le> max_i64"

definition validate_grant_set :: "grant_set \<Rightarrow> grant_set res" where
  "validate_grant_set s = validated (grant_set_fields s)
     [(sorted_unique (gt_principals s), ''principal_ids must be sorted and unique''),
      (sorted_unique (gt_capabilities s), ''capabilities must be sorted and unique''),
      (gt_digest s = json_digest (grant_set_payload s),
        ''grant set digest does not match canonical grant-set bytes'')] s"

definition issue_grant_set :: "grant_set \<Rightarrow> grant_set res" where
  "issue_grant_set s =
     (let t = s\<lparr>gt_principals := sort (gt_principals s), gt_capabilities := sort (gt_capabilities s)\<rparr>
      in validate_grant_set (t\<lparr>gt_digest := json_digest (grant_set_payload t)\<rparr>))"

interpretation grant_set_digest: content_bound grant_set_payload gt_digest
  "\<lambda>d s. s\<lparr>gt_digest := d\<rparr>"
  by unfold_locales (simp_all add: grant_set_payload_def)

record issued_grant =
  ig_grant_id :: string
  ig_set_digest :: string
  ig_capability :: string
  ig_principal :: string
  ig_session :: string
  ig_runtime_generation :: int
  ig_activation_generation :: int
  ig_profile_digest :: string
  ig_authority_digest :: string
  ig_capability_digest :: string
  ig_catalog_digest :: string
  ig_budget :: grant_ceiling
  ig_issued_at :: int
  ig_expires_at :: int
  ig_revoked :: bool

definition unix_ms :: "int \<Rightarrow> bool" where
  "unix_ms t \<longleftrightarrow> 0 \<le> t \<and> t \<le> max_i64"

definition validate_issued_grant :: "issued_grant \<Rightarrow> issued_grant res" where
  "validate_issued_grant g = validated
     (opaque_token (ig_grant_id g) \<and> capability_name (ig_capability g) \<and> opaque_token (ig_principal g) \<and>
      opaque_token (ig_session g) \<and> positive_counter (ig_runtime_generation g) \<and>
      positive_counter (ig_activation_generation g) \<and>
      list_all is_digest [ig_set_digest g, ig_profile_digest g, ig_authority_digest g,
        ig_capability_digest g, ig_catalog_digest g] \<and>
      ceiling_fields (ig_budget g) \<and> unix_ms (ig_issued_at g) \<and> unix_ms (ig_expires_at g))
     [(ig_issued_at g < ig_expires_at g, ''issued_at_unix_ms must be less than expires_at_unix_ms'')] g"

section \<open>The owner\<close>

text \<open>
  \<open>SessionGrantOwner\<close>: the live grants by identifier and the generation they belong to.
\<close>

record grant_owner =
  go_grants :: "string \<rightharpoonup> issued_grant"
  go_observed :: "int option"

text \<open>
  Beside it the durable store and the readback of the startup. \<open>gp_enter\<close> is waiting for the lock
  the owner shares with the store; the other two are the store's current set and its verification.
\<close>

record 's grant_world =
  wg_owner :: grant_owner
  wg_store :: 's
  wg_readback :: "grant_set option"

record 's grant_provider =
  gp_current :: "'s \<Rightarrow> grant_set option"
  gp_verify :: "grant_set \<Rightarrow> (unit, 's) act"
  gp_enter :: "'s grant_world \<Rightarrow> 's grant_world"

definition on_owner :: "(grant_owner \<Rightarrow> ('a \<times> grant_owner) res) \<Rightarrow> ('a, 's grant_world) act" where
  "on_owner = transact wg_owner (\<lambda>p w. w\<lparr>wg_owner := p\<rparr>)"

definition locked :: "('s, 'x) grant_provider_scheme \<Rightarrow> ('a, 's grant_world) act \<Rightarrow> ('a, 's grant_world) act" where
  "locked p m w = m (gp_enter p w)"

definition observe_generation :: "int \<Rightarrow> grant_owner \<Rightarrow> grant_owner" where
  "observe_generation n p = (if go_observed p = Some n then p
     else \<lparr>go_grants = Map.empty, go_observed = Some n\<rparr>)"

definition observe_activation :: "grant_set \<Rightarrow> bool \<Rightarrow> grant_owner \<Rightarrow> grant_owner" where
  "observe_activation s replayed p =
     (if replayed then p\<lparr>go_observed := Some (gt_runtime_generation s)\<rparr>
      else observe_generation (gt_runtime_generation s) p)"

definition require_current_grant_set :: "('s, 'x) grant_provider_scheme \<Rightarrow> (grant_set, 's grant_world) act" where
  "require_current_grant_set p w =
     (case gp_current p (wg_store w) of
        None \<Rightarrow> (Inl (SessionGrantDenied ''no current post-generation activation exists''), w)
      | Some s \<Rightarrow> (Inr s, w\<lparr>wg_owner := observe_generation (gt_runtime_generation s) (wg_owner w)\<rparr>))"

text \<open>\<open>except ProviderReadyActivationError\<close>.\<close>

fun is_activation_error :: "exn \<Rightarrow> bool" where
  "is_activation_error (ActivationStoreError m) = True"
| "is_activation_error (ActivationGenerationConflict m) = True"
| "is_activation_error (ActivationBindingMismatch m) = True"
| "is_activation_error (SessionGrantDenied m) = True"
| "is_activation_error e = False"

definition refresh_observed :: "('s, 'x) grant_provider_scheme \<Rightarrow> grant_set \<Rightarrow> 's grant_world \<Rightarrow> 's grant_world" where
  "refresh_observed p s w =
     (case gp_current p (wg_store w) of
        Some t \<Rightarrow> if gt_runtime_generation t \<noteq> gt_runtime_generation s then
            w\<lparr>wg_owner := \<lparr>go_grants = Map.empty, go_observed = Some (gt_runtime_generation t)\<rparr>\<rparr>
          else w
      | None \<Rightarrow> w)"

definition verify_current_persisted ::
    "('s, 'x) grant_provider_scheme \<Rightarrow> grant_set \<Rightarrow> (unit, 's grant_world) act" where
  "verify_current_persisted p s =
     catch (within wg_store (\<lambda>d w. w\<lparr>wg_store := d\<rparr>) (gp_verify p s))
       (\<lambda>e w. if is_activation_error e then
          (Inl (SessionGrantDenied ''current grant-set authority cannot be read back''), refresh_observed p s w)
        else (Inl e, w))"

section \<open>Issuing\<close>

record grant_request =
  gq_principal :: string
  gq_session :: string
  gq_capability :: string
  gq_issued_at :: int
  gq_approved :: bool
  gq_expires_at :: "int option"
  gq_ttl_ms :: "int option"
  gq_grant_id :: "string option"

definition denied_unless :: "bool \<Rightarrow> string \<Rightarrow> (unit, 's) act" where
  "denied_unless ok m = raise_if (\<not> ok) (SessionGrantDenied m)"

definition expiry_of :: "grant_set \<Rightarrow> grant_request \<Rightarrow> (int, 's) act" where
  "expiry_of s q =
     (case gq_ttl_ms q of
        Some ttl \<Rightarrow>
          seq (denied_unless (positive_counter ttl) ''ttl_ms must be a positive strict integer'') (\<lambda>_.
          seq (denied_unless (ttl \<le> gt_max_ttl_ms s) ''requested session-grant TTL exceeds policy'') (\<lambda>_.
          ret (gq_issued_at q + ttl)))
      | None \<Rightarrow> (case gq_expires_at q of
          None \<Rightarrow> throw AssertionError
        | Some expires \<Rightarrow>
            seq (denied_unless (unix_ms expires) ''expires_at_unix_ms is outside the strict Unix-ms domain'') (\<lambda>_.
            seq (denied_unless (gq_issued_at q < expires) ''session-grant expiry must follow issuance'') (\<lambda>_.
            seq (denied_unless (expires - gq_issued_at q \<le> gt_max_ttl_ms s)
              ''requested session-grant TTL exceeds policy'') (\<lambda>_. ret expires)))))"

definition new_grant :: "grant_set \<Rightarrow> grant_request \<Rightarrow> string \<Rightarrow> int \<Rightarrow> issued_grant" where
  "new_grant s q i expires =
     \<lparr>ig_grant_id = i, ig_set_digest = gt_digest s, ig_capability = gq_capability q,
      ig_principal = gq_principal q, ig_session = gq_session q,
      ig_runtime_generation = gt_runtime_generation s,
      ig_activation_generation = gt_activation_generation s, ig_profile_digest = gt_profile_digest s,
      ig_authority_digest = gt_authority_digest s, ig_capability_digest = gt_capability_digest s,
      ig_catalog_digest = gt_catalog_digest s, ig_budget = gt_ceiling s,
      ig_issued_at = gq_issued_at q, ig_expires_at = expires, ig_revoked = False\<rparr>"

definition add_grant :: "issued_grant \<Rightarrow> grant_owner \<Rightarrow> (issued_grant \<times> grant_owner) res" where
  "add_grant new p =
     (if ig_grant_id new \<in> dom (go_grants p) then
        Inl (SessionGrantDenied ''grant_id is already live in this activation'')
      else case validate_issued_grant new of
        Inl (ValidationError m) \<Rightarrow> Inl (SessionGrantDenied (''session-grant request is not valid: '' @ m))
      | Inl e \<Rightarrow> Inl e
      | Inr g \<Rightarrow> Inr (g, p\<lparr>go_grants := (go_grants p)(ig_grant_id g \<mapsto> g)\<rparr>))"

text \<open>\<open>fresh\<close> is the random part of an identifier the caller does not give.\<close>

definition issue_session_grant ::
    "('s, 'x) grant_provider_scheme \<Rightarrow> grant_request \<Rightarrow> string \<Rightarrow> (issued_grant, 's grant_world) act" where
  "issue_session_grant p q fresh =
     seq (denied_unless (gq_approved q) ''session grant issuance requires explicit policy approval'') (\<lambda>_.
     seq (denied_unless (unix_ms (gq_issued_at q)) ''issued_at_unix_ms is outside the strict Unix-ms domain'') (\<lambda>_.
     seq (denied_unless ((gq_expires_at q = None) \<noteq> (gq_ttl_ms q = None))
       ''provide exactly one of ttl_ms or expires_at_unix_ms'') (\<lambda>_.
     locked p (seq (require_current_grant_set p) (\<lambda>s.
     seq (verify_current_persisted p s) (\<lambda>_.
     seq (denied_unless (gq_principal q \<in> set (gt_principals s))
       ''principal is not present in the current grant set'') (\<lambda>_.
     seq (denied_unless (gq_capability q \<in> set (gt_capabilities s))
       ''capability is not present in the current grant set'') (\<lambda>_.
     seq (expiry_of s q) (\<lambda>expires.
     seq (denied_unless (expires \<le> max_i64) ''session-grant expiry exceeds the model counter domain'') (\<lambda>_.
     on_owner (add_grant (new_grant s q
       (case gq_grant_id q of Some i \<Rightarrow> i | None \<Rightarrow> ''grant-'' @ fresh) expires))))))))))))"

section \<open>Accepting and revoking\<close>

datatype grant_handle = By_id string | By_grant issued_grant

fun handle_id :: "grant_handle \<Rightarrow> string" where
  "handle_id (By_id i) = i"
| "handle_id (By_grant g) = ig_grant_id g"

definition resolve_grant :: "grant_handle \<Rightarrow> grant_owner \<Rightarrow> issued_grant res" where
  "resolve_grant h p =
     (case go_grants p (handle_id h) of
        None \<Rightarrow> Inl (SessionGrantDenied ''session grant is not owned by this activation process'')
      | Some stored \<Rightarrow> (case h of
          By_grant g \<Rightarrow> if stored \<noteq> g then
              Inl (SessionGrantDenied ''session grant bytes are not the owned immutable grant'')
            else Inr stored
        | By_id i \<Rightarrow> Inr stored))"

record acceptance =
  at_principal :: string
  at_session :: string
  at_capability :: "string option"
  at_runtime_generation :: int
  at_now :: int
  at_activation_generation :: "int option"
  at_profile_id :: "string option"
  at_profile_digest :: "string option"
  at_capability_digest :: "string option"

fun first_denial :: "(bool \<times> string) list \<Rightarrow> unit res" where
  "first_denial [] = Inr ()"
| "first_denial ((ok, m) # cs) = (if ok then first_denial cs else Inl (SessionGrantDenied m))"

definition acceptance_checks :: "acceptance \<Rightarrow> issued_grant \<Rightarrow> grant_set \<Rightarrow> (bool \<times> string) list" where
  "acceptance_checks a g s =
     [(at_runtime_generation a = gt_runtime_generation s, ''session grant runtime generation is stale''),
      (ig_runtime_generation g = at_runtime_generation a,
        ''session grant belongs to a different runtime generation''),
      (ig_set_digest g = gt_digest s, ''session grant digest is not current''),
      (ig_activation_generation g = gt_activation_generation s,
        ''session grant activation generation is stale''),
      (ig_profile_digest g = gt_profile_digest s, ''session grant profile binding is stale''),
      (ig_authority_digest g = gt_authority_digest s, ''session grant activation authority is stale''),
      (ig_capability_digest g = gt_capability_digest s, ''session grant capability binding is stale''),
      (ig_catalog_digest g = gt_catalog_digest s, ''session grant route binding is stale''),
      (ig_principal g = at_principal a, ''session grant principal binding does not match''),
      (ig_session g = at_session a, ''session grant session binding does not match''),
      (ig_capability g \<in> set (gt_capabilities s), ''session grant capability is not current''),
      (opt_ok (\<lambda>c. ig_capability g = c) (at_capability a),
        ''session grant capability binding does not match''),
      (opt_ok (\<lambda>n. n = gt_activation_generation s) (at_activation_generation a),
        ''activation generation context does not match''),
      (opt_ok (\<lambda>i. i = gt_profile_id s) (at_profile_id a), ''profile context does not match''),
      (opt_ok (\<lambda>d. d = gt_profile_digest s) (at_profile_digest a),
        ''profile digest context does not match''),
      (opt_ok (\<lambda>d. d = gt_capability_digest s) (at_capability_digest a),
        ''capability digest context does not match''),
      (ig_issued_at g \<le> at_now a \<and> at_now a < ig_expires_at g,
        ''session grant is expired or not yet valid'')]"

definition accept_session_grant ::
    "('s, 'x) grant_provider_scheme \<Rightarrow> grant_handle \<Rightarrow> acceptance \<Rightarrow> (issued_grant, 's grant_world) act" where
  "accept_session_grant p h a =
     seq (raise_if (\<not> positive_counter (at_runtime_generation a))
       (ActivationBindingMismatch ''runtime_generation must be a positive strict integer'')) (\<lambda>_.
     seq (denied_unless (unix_ms (at_now a)) ''now_unix_ms is outside the strict Unix-ms domain'') (\<lambda>_.
     locked p (seq (\<lambda>w. (resolve_grant h (wg_owner w), w)) (\<lambda>stored.
     seq (denied_unless (\<not> ig_revoked stored) ''session grant is revoked'') (\<lambda>_.
     seq (require_current_grant_set p) (\<lambda>s.
     seq (verify_current_persisted p s) (\<lambda>_.
     seq (of_res (first_denial (acceptance_checks a stored s))) (\<lambda>_. ret stored))))))))"

definition revoke_session_grant ::
    "('s, 'x) grant_provider_scheme \<Rightarrow> grant_handle \<Rightarrow> (issued_grant, 's grant_world) act" where
  "revoke_session_grant p h = locked p (on_owner (\<lambda>w.
     and_then (resolve_grant h w) (\<lambda>g. let revoked = g\<lparr>ig_revoked := True\<rparr>
       in Inr (revoked, w\<lparr>go_grants := (go_grants w)(ig_grant_id g \<mapsto> revoked)\<rparr>))))"

section \<open>Resolution for a request\<close>

record grant_query =
  gu_principal :: string
  gu_session :: string
  gu_generation :: int
  gu_now :: int
  gu_deadline :: int
  gu_required :: "string list"
  gu_budget :: budget

definition budget_within :: "issued_grant \<Rightarrow> budget \<Rightarrow> bool" where
  "budget_within g b \<longleftrightarrow>
     bu_wall_time_ms b \<le> gl_wall_time_ms (ig_budget g) \<and>
     bu_model_requests b \<le> gl_model_requests (ig_budget g) \<and>
     bu_input_tokens b \<le> gl_input_tokens (ig_budget g) \<and>
     bu_output_tokens b \<le> gl_output_tokens (ig_budget g) \<and>
     bu_child_operations b \<le> gl_child_operations (ig_budget g) \<and>
     bu_artifact_bytes b \<le> gl_artifact_bytes (ig_budget g)"

definition acceptance_of :: "grant_query \<Rightarrow> grant_set \<Rightarrow> acceptance" where
  "acceptance_of q s =
     \<lparr>at_principal = gu_principal q, at_session = gu_session q, at_capability = None,
      at_runtime_generation = gu_generation q, at_now = gu_now q,
      at_activation_generation = Some (gt_activation_generation s), at_profile_id = Some (gt_profile_id s),
      at_profile_digest = Some (gt_profile_digest s), at_capability_digest = Some (gt_capability_digest s)\<rparr>"

fun resolve_each ::
    "('s, 'x) grant_provider_scheme \<Rightarrow> grant_query \<Rightarrow> grant_set \<Rightarrow> string list \<Rightarrow> issued_grant list \<Rightarrow>
     (issued_grant list, 's grant_world) act" where
  "resolve_each p q s [] resolved = ret resolved"
| "resolve_each p q s (i # ids) resolved =
     seq (accept_session_grant p (By_id i) (acceptance_of q s)) (\<lambda>g.
     seq (denied_unless (gu_deadline q \<le> ig_expires_at g)
       ''session grant expires before the request deadline'') (\<lambda>_.
     seq (denied_unless (budget_within g (gu_budget q))
       ''request budget exceeds the issued session grant'') (\<lambda>_.
     seq (denied_unless (ig_capability g \<notin> ig_capability ` set resolved)
       ''session grants must not duplicate a capability'') (\<lambda>_.
     resolve_each p q s ids (resolved @ [g])))))"

definition missing_capabilities :: "grant_query \<Rightarrow> issued_grant list \<Rightarrow> string list" where
  "missing_capabilities q resolved =
     sort (remdups (filter (\<lambda>c. c \<notin> ig_capability ` set resolved) (gu_required q)))"

definition grant_for :: "string \<Rightarrow> issued_grant \<Rightarrow> grant" where
  "grant_for who g =
     \<lparr>gr_grant_id = ig_grant_id g, gr_capability = ig_capability g, gr_issued_to = PrincipalRef who,
      gr_expires_at = ig_expires_at g, gr_constraints = []\<rparr>"

definition resolve_session_grants ::
    "('s, 'x) grant_provider_scheme \<Rightarrow> grant_query \<Rightarrow> string list \<Rightarrow> (grant list, 's grant_world) act" where
  "resolve_session_grants p q ids =
     seq (denied_unless (sorted_unique ids) ''session grant IDs must be sorted and unique'') (\<lambda>_.
     seq (\<lambda>w. (case wg_readback w of
         None \<Rightarrow> Inl (ProviderReadyStartupError ''provider-ready startup is not active'')
       | Some s \<Rightarrow> Inr s, w)) (\<lambda>s.
     seq (resolve_each p q s ids []) (\<lambda>resolved.
     seq (denied_unless (missing_capabilities q resolved = [])
       (''current session grants omit required capability: '' @
         join '', '' (missing_capabilities q resolved))) (\<lambda>_.
     seq (of_res (validate_ref PrincipalRef (gu_principal q))) (\<lambda>_.
     of_res (traverse (\<lambda>g. validate_grant (grant_for (gu_principal q) g)) resolved))))))"

end
