(* ===== verification/Grant_Runs.thy ===== *)
theory Grant_Runs
  imports Session_Grants
begin

text \<open>
  What session grants promise: every live grant was drawn from a grant set, and what is accepted is
  drawn from the set that is current, unless two sets collide under SHA-256. The step relation has
  the owner's methods, the publication of grant sets, and any change of the durable store.
\<close>

section \<open>Grants and grant sets\<close>

definition drawn_from :: "issued_grant \<Rightarrow> grant_set \<Rightarrow> bool" where
  "drawn_from g s \<longleftrightarrow> validate_grant_set s = Inr s \<and> ig_set_digest g = gt_digest s \<and>
     ig_capability g \<in> set (gt_capabilities s) \<and> ig_principal g \<in> set (gt_principals s) \<and>
     ig_budget g = gt_ceiling s \<and> ig_issued_at g < ig_expires_at g \<and>
     ig_expires_at g - ig_issued_at g \<le> gt_max_ttl_ms s \<and>
     ig_runtime_generation g = gt_runtime_generation s \<and> ig_authority_digest g = gt_authority_digest s"

definition sets_collide :: "grant_set \<Rightarrow> grant_set \<Rightarrow> bool" where
  "sets_collide s t \<longleftrightarrow>
     collides (canonical_json_text (grant_set_payload s)) (canonical_json_text (grant_set_payload t))"

lemma map_JStr_eq: "map JStr xs = map JStr ys \<longleftrightarrow> xs = ys"
  by (rule inj_map_eq_map) (simp add: inj_on_def)

lemma ceiling_json_inject: "canon (ceiling_json b) = canon (ceiling_json c) \<Longrightarrow> b = c"
proof -
  assume eq: "canon (ceiling_json b) = canon (ceiling_json c)"
  note same = canon_member [OF eq [unfolded ceiling_json_def]]
  show "b = c"
    using same [of "''wall_time_ms''" "JInt (gl_wall_time_ms b)" "JInt (gl_wall_time_ms c)"]
      same [of "''model_requests''" "JInt (gl_model_requests b)" "JInt (gl_model_requests c)"]
      same [of "''input_tokens''" "JInt (gl_input_tokens b)" "JInt (gl_input_tokens c)"]
      same [of "''output_tokens''" "JInt (gl_output_tokens b)" "JInt (gl_output_tokens c)"]
      same [of "''child_operations''" "JInt (gl_child_operations b)" "JInt (gl_child_operations c)"]
      same [of "''artifact_bytes''" "JInt (gl_artifact_bytes b)" "JInt (gl_artifact_bytes c)"]
    by (intro grant_ceiling.equality) simp_all
qed

lemma payload_policy:
  assumes "canon (grant_set_payload s) = canon (grant_set_payload t)"
  shows "gt_principals s = gt_principals t" "gt_capabilities s = gt_capabilities t"
    "gt_ceiling s = gt_ceiling t" "gt_max_ttl_ms s = gt_max_ttl_ms t"
    "gt_runtime_generation s = gt_runtime_generation t" "gt_authority_digest s = gt_authority_digest t"
proof -
  note same = canon_member [OF assms [unfolded grant_set_payload_def]]
  show "gt_principals s = gt_principals t"
    using same [of "''principal_ids''" "JArr (map JStr (gt_principals s))" "JArr (map JStr (gt_principals t))"]
    by (simp add: comp_def map_JStr_eq)
  show "gt_capabilities s = gt_capabilities t"
    using same [of "''capabilities''" "JArr (map JStr (gt_capabilities s))" "JArr (map JStr (gt_capabilities t))"]
    by (simp add: comp_def map_JStr_eq)
  show "gt_ceiling s = gt_ceiling t"
    using same [of "''budget_ceiling''" "ceiling_json (gt_ceiling s)" "ceiling_json (gt_ceiling t)"]
    by (intro ceiling_json_inject) simp
  show "gt_max_ttl_ms s = gt_max_ttl_ms t"
    using same [of "''max_ttl_ms''" "JInt (gt_max_ttl_ms s)" "JInt (gt_max_ttl_ms t)"] by simp
  show "gt_runtime_generation s = gt_runtime_generation t"
    using same [of "''runtime_generation''" "JInt (gt_runtime_generation s)" "JInt (gt_runtime_generation t)"] by simp
  show "gt_authority_digest s = gt_authority_digest t"
    using same [of "''activation_authority_digest''" "JStr (gt_authority_digest s)" "JStr (gt_authority_digest t)"] by simp
qed

lemma valid_set_bound: "validate_grant_set s = Inr s \<Longrightarrow> gt_digest s = json_digest (grant_set_payload s)"
  by (simp add: validate_grant_set_def res_simps)

text \<open>A digest stands for its policy.\<close>

lemma drawn_by_digest:
  assumes "drawn_from g s" "validate_grant_set t = Inr t" "gt_digest s = gt_digest t"
  shows "drawn_from g t \<or> sets_collide s t"
proof -
  have "canon (grant_set_payload s) = canon (grant_set_payload t) \<or> sets_collide s t"
    using grant_set_digest.same_digest_same_payload [OF valid_set_bound valid_set_bound assms(3)] assms(1,2)
    by (auto simp: drawn_from_def sets_collide_def)
  then show ?thesis using assms payload_policy [of s t] by (auto simp: drawn_from_def)
qed

section \<open>Steps\<close>

definition unlocked :: "('s, 'x) grant_provider_scheme \<Rightarrow> ('s, 'x) grant_provider_scheme" where
  "unlocked p = p\<lparr>gp_enter := (\<lambda>w. w)\<rparr>"

lemma unlocked_simps [simp]:
  "gp_enter (unlocked p) w = w" "gp_current (unlocked p) = gp_current p" "gp_verify (unlocked p) = gp_verify p"
  by (simp_all add: unlocked_def)

inductive grant_step :: "('s, 'x) grant_provider_scheme \<Rightarrow> 's grant_world \<Rightarrow> 's grant_world \<Rightarrow> bool"
  for p where
  stored: "grant_step p w (w\<lparr>wg_store := d, wg_readback := r\<rparr>)"
| published: "grant_step p w (w\<lparr>wg_owner := observe_activation s replayed (wg_owner w)\<rparr>)"
| issued: "issue_session_grant (unlocked p) q fresh w = (res, w') \<Longrightarrow> grant_step p w w'"
| accepted: "accept_session_grant (unlocked p) h a w = (res, w') \<Longrightarrow> grant_step p w w'"
| revoked: "revoke_session_grant (unlocked p) h w = (res, w') \<Longrightarrow> grant_step p w w'"

abbreviation grant_runs :: "('s, 'x) grant_provider_scheme \<Rightarrow> 's grant_world \<Rightarrow> 's grant_world \<Rightarrow> bool" where
  "grant_runs p \<equiv> (grant_step p)\<^sup>*\<^sup>*"

text \<open>
  The laws of a provider: what it holds as current is a validated document, and while a method
  waits for the lock only the methods above run.
\<close>

definition lawful_provider :: "('s, 'x) grant_provider_scheme \<Rightarrow> bool" where
  "lawful_provider p \<longleftrightarrow> (\<forall>d s. gp_current p d = Some s \<longrightarrow> validate_grant_set s = Inr s) \<and>
     (\<forall>w. grant_runs p w (gp_enter p w))"

definition owner_ok :: "grant_owner \<Rightarrow> bool" where
  "owner_ok b \<longleftrightarrow> (\<forall>i g. go_grants b i = Some g \<longrightarrow> ig_grant_id g = i \<and> (\<exists>s. drawn_from g s))"

definition fresh_world :: "'s \<Rightarrow> 's grant_world" where
  "fresh_world d = \<lparr>wg_owner = \<lparr>go_grants = Map.empty, go_observed = None\<rparr>, wg_store = d, wg_readback = None\<rparr>"

definition grant_reachable :: "('s, 'x) grant_provider_scheme \<Rightarrow> 's grant_world \<Rightarrow> bool" where
  "grant_reachable p w \<longleftrightarrow> (\<exists>d. grant_runs p (fresh_world d) w)"

lemma owner_ok_observe [simp]: "owner_ok b \<Longrightarrow> owner_ok (observe_generation n b)"
  by (simp add: owner_ok_def observe_generation_def)

lemma owner_ok_empty [simp]: "owner_ok \<lparr>go_grants = Map.empty, go_observed = n\<rparr>"
  by (simp add: owner_ok_def)

lemma owner_ok_publish: "owner_ok b \<Longrightarrow> owner_ok (observe_activation s replayed b)"
  using owner_ok_observe [of b "gt_runtime_generation s"] by (simp add: observe_activation_def owner_ok_def)

section \<open>The owner's invariant\<close>

definition keeps :: "('a, 's grant_world) act \<Rightarrow> bool" where
  "keeps m \<longleftrightarrow> (\<forall>w. owner_ok (wg_owner w) \<longrightarrow> owner_ok (wg_owner (snd (m w))))"

lemma keeps_seq: "keeps m \<Longrightarrow> (\<And>x w w'. m w = (Inr x, w') \<Longrightarrow> keeps (f x)) \<Longrightarrow> keeps (seq m f)"
  unfolding keeps_def seq_def by (auto split: prod.split sum.split)

lemma keeps_basic: "keeps (ret x)" "keeps (throw e)" "keeps (of_res r)" "keeps (raise_if c e)" "keeps (denied_unless c m)"
  "keeps (\<lambda>w. (h w, w))"
  by (simp_all add: keeps_def act_simps denied_unless_def)

lemma denied_unless_Inr [act_simps]: "denied_unless c m w = (Inr u, w') \<longleftrightarrow> c \<and> w' = w"
  by (auto simp: denied_unless_def act_simps)

lemma current_Inr:
  "require_current_grant_set p w = (Inr s, w') \<longleftrightarrow> gp_current p (wg_store w) = Some s \<and>
     w' = w\<lparr>wg_owner := observe_generation (gt_runtime_generation s) (wg_owner w)\<rparr>"
  by (auto simp: require_current_grant_set_def split: option.splits)

lemma keeps_current: "keeps (require_current_grant_set p)"
  by (auto simp: keeps_def require_current_grant_set_def split: option.splits)

lemma verify_Inr: "verify_current_persisted p s w = (Inr u, w') \<Longrightarrow> wg_owner w' = wg_owner w"
  by (auto simp: verify_current_persisted_def catch_def within_def Let_def split: prod.splits sum.splits if_splits)

lemma keeps_verify: "keeps (verify_current_persisted p s)"
  by (auto simp: keeps_def verify_current_persisted_def catch_def within_def Let_def refresh_observed_def
    split: prod.splits sum.splits if_splits option.splits)

lemma expiry_of_Inr:
  assumes "expiry_of s q w = (Inr e, w')"
  shows "gq_issued_at q < e" "e - gq_issued_at q \<le> gt_max_ttl_ms s"
  using assms by (auto simp: expiry_of_def act_simps positive_counter_def split: option.splits)

lemma keeps_expiry: "keeps (expiry_of s q)"
  by (auto simp: expiry_of_def split: option.splits intro!: keeps_seq keeps_basic)

lemma new_grant_drawn:
  assumes "validate_grant_set s = Inr s" "gq_principal q \<in> set (gt_principals s)"
    and "gq_capability q \<in> set (gt_capabilities s)" "expiry_of s q w = (Inr e, w')"
  shows "\<exists>t. drawn_from (new_grant s q i e) t"
  using assms expiry_of_Inr [OF assms(4)] by (intro exI [of _ s]) (simp add: drawn_from_def new_grant_def)

lemma keeps_add: "\<exists>s. drawn_from g s \<Longrightarrow> keeps (on_owner (add_grant g))"
  by (auto simp: keeps_def on_owner_def transact_def add_grant_def owner_ok_def validate_issued_grant_def res_simps
    split: sum.splits exn.splits if_splits)

lemma keeps_issue:
  assumes "lawful_provider p"
  shows "keeps (issue_session_grant (unlocked p) q fresh)"
proof -
  have v: "validate_grant_set s = Inr s" if "require_current_grant_set (unlocked p) w = (Inr s, w')" for s w w'
    using that assms by (auto simp: current_Inr lawful_provider_def)
  have l: "locked (unlocked p) m = m" for m :: "('c, 'a grant_world) act"
    by (rule ext) (simp add: locked_def)
  show ?thesis unfolding issue_session_grant_def l
    by (intro keeps_seq keeps_basic keeps_current keeps_verify keeps_expiry keeps_add new_grant_drawn)
      (auto simp: act_simps dest: v)
qed

lemma keeps_accept: "keeps (accept_session_grant (unlocked p) h a)"
proof -
  have l: "locked (unlocked p) m = m" for m :: "('c, 'a grant_world) act"
    by (rule ext) (simp add: locked_def)
  show ?thesis unfolding accept_session_grant_def l
    by (intro keeps_seq keeps_basic keeps_current keeps_verify)
qed

lemma resolve_grant_Inr: "resolve_grant h b = Inr g \<Longrightarrow> go_grants b (handle_id h) = Some g"
  by (auto simp: resolve_grant_def split: option.splits grant_handle.splits if_splits)

lemma keeps_revoke: "keeps (revoke_session_grant (unlocked p) h)"
proof -
  have "owner_ok (b\<lparr>go_grants := (go_grants b)(ig_grant_id g \<mapsto> g\<lparr>ig_revoked := True\<rparr>)\<rparr>)"
    if "owner_ok b" "resolve_grant h b = Inr g" for b g
    using that resolve_grant_Inr [OF that(2)] by (fastforce simp: owner_ok_def drawn_from_def)
  then show ?thesis
    by (auto simp: keeps_def revoke_session_grant_def locked_def on_owner_def transact_def res_simps Let_def
      split: sum.splits)
qed

lemma step_owner_ok:
  assumes "grant_step p w w'" "lawful_provider p" "owner_ok (wg_owner w)"
  shows "owner_ok (wg_owner w')"
  using assms(1)
proof cases
  case (issued q fresh res)
  then show ?thesis using keeps_issue [OF assms(2), of q fresh] assms(3) by (auto simp: keeps_def dest!: spec [of _ w])
next
  case (accepted h a res)
  then show ?thesis using keeps_accept [of p h a] assms(3) by (auto simp: keeps_def dest!: spec [of _ w])
next
  case (revoked h res)
  then show ?thesis using keeps_revoke [of p h] assms(3) by (auto simp: keeps_def dest!: spec [of _ w])
qed (use assms(3) in \<open>simp_all add: owner_ok_publish\<close>)

lemma runs_owner_ok: "grant_runs p w w' \<Longrightarrow> lawful_provider p \<Longrightarrow> owner_ok (wg_owner w) \<Longrightarrow> owner_ok (wg_owner w')"
  by (induction rule: rtranclp_induct) (auto intro: step_owner_ok)

lemma reachable_owner_ok: "grant_reachable p w \<Longrightarrow> lawful_provider p \<Longrightarrow> owner_ok (wg_owner w)"
  using runs_owner_ok by (fastforce simp: grant_reachable_def fresh_world_def)

section \<open>What is accepted\<close>

definition backed :: "grant_query \<Rightarrow> issued_grant \<Rightarrow> grant_set \<Rightarrow> bool" where
  "backed q g s \<longleftrightarrow> \<not> ig_revoked g \<and> ig_principal g = gu_principal q \<and> ig_session g = gu_session q \<and>
     ig_runtime_generation g = gu_generation q \<and> gt_runtime_generation s = gu_generation q \<and>
     ig_capability g \<in> set (gt_capabilities s) \<and> ig_issued_at g \<le> gu_now q \<and> gu_now q < ig_expires_at g \<and>
     gu_deadline q \<le> ig_expires_at g \<and> budget_within g (gu_budget q) \<and>
     (drawn_from g s \<or> (\<exists>t. drawn_from g t \<and> sets_collide t s))"

text \<open>An accepted grant was live, under the set that was current, at one moment of the call.\<close>

definition live_at :: "('s, 'x) grant_provider_scheme \<Rightarrow> 's grant_world \<Rightarrow> issued_grant \<Rightarrow> grant_set \<Rightarrow> bool" where
  "live_at p w g s \<longleftrightarrow> gp_current p (wg_store w) = Some s \<and> go_grants (wg_owner w) (ig_grant_id g) = Some g"

lemma lawful_enter: "lawful_provider p \<Longrightarrow> grant_runs p w (gp_enter p w)"
  by (simp add: lawful_provider_def)

lemma unlocked_current [simp]: "require_current_grant_set (unlocked p) = require_current_grant_set p"
  by (rule ext) (simp add: require_current_grant_set_def)

lemma unlocked_verify [simp]: "verify_current_persisted (unlocked p) s = verify_current_persisted p s"
  by (simp add: verify_current_persisted_def refresh_observed_def cong: if_cong)

lemma accept_unlocked:
  assumes "positive_counter (at_runtime_generation a)" "unix_ms (at_now a)"
  shows "accept_session_grant p h a w = accept_session_grant (unlocked p) h a (gp_enter p w)"
  using assms by (simp add: accept_session_grant_def locked_def seq_def act_simps denied_unless_def)

lemma accept_runs:
  assumes "lawful_provider p" "accept_session_grant p h a w = (Inr g, w')"
  shows "grant_runs p w w'"
proof -
  have "positive_counter (at_runtime_generation a)" "unix_ms (at_now a)"
    using assms(2) by (auto simp: accept_session_grant_def act_simps split: if_splits)
  then have "accept_session_grant (unlocked p) h a (gp_enter p w) = (Inr g, w')"
    using accept_unlocked assms(2) by metis
  then have "grant_step p (gp_enter p w) w'" by (rule accepted)
  with lawful_enter [OF assms(1), of w] show ?thesis by simp
qed

lemma first_denial_Inr: "first_denial cs = Inr () \<longleftrightarrow> list_all fst cs"
  by (induction cs rule: first_denial.induct) auto

lemma accept_live:
  assumes "accept_session_grant p h a w = (Inr g, w')"
  shows "go_grants (wg_owner (gp_enter p w)) (handle_id h) = Some g" "\<not> ig_revoked g"
    "\<exists>s. gp_current p (wg_store (gp_enter p w)) = Some s \<and> list_all fst (acceptance_checks a g s)"
  using assms
  by (auto simp: accept_session_grant_def locked_def act_simps current_Inr first_denial_Inr dest!: resolve_grant_Inr
    split: if_splits)

lemma accepted_backed:
  assumes "lawful_provider p" "owner_ok (wg_owner (gp_enter p w))"
    and "accept_session_grant p (By_id i) (acceptance_of q s) w = (Inr g, w')"
    and "gu_deadline q \<le> ig_expires_at g" "budget_within g (gu_budget q)"
  shows "ig_grant_id g = i \<and> (\<exists>t. live_at p (gp_enter p w) g t \<and> backed q g t)"
proof -
  from accept_live [OF assms(3)] obtain t where
    t: "gp_current p (wg_store (gp_enter p w)) = Some t" "list_all fst (acceptance_checks (acceptance_of q s) g t)"
      "go_grants (wg_owner (gp_enter p w)) i = Some g" "\<not> ig_revoked g" by auto
  with assms(2) obtain u where u: "ig_grant_id g = i" "drawn_from g u" by (auto simp: owner_ok_def)
  have "ig_set_digest g = gt_digest t" using t(2) by (simp add: acceptance_checks_def)
  then have "gt_digest u = gt_digest t" using u(2) by (simp add: drawn_from_def)
  moreover have "validate_grant_set t = Inr t" using assms(1) t(1) by (simp add: lawful_provider_def)
  ultimately have "drawn_from g t \<or> sets_collide u t" using drawn_by_digest [OF u(2)] by blast
  then have "drawn_from g t \<or> (\<exists>t'. drawn_from g t' \<and> sets_collide t' t)" using u(2) by blast
  then have "backed q g t" using t(2,4) assms(4,5)
    by (simp add: backed_def acceptance_checks_def acceptance_of_def)
  then show ?thesis using t(1,3) u(1) by (auto simp: live_at_def)
qed

section \<open>What is resolved\<close>

lemma resolve_each_backed:
  assumes "lawful_provider p" "resolve_each p q s ids acc w = (Inr out, w')" "owner_ok (wg_owner w)"
    and "distinct (map ig_capability acc)"
  shows "\<exists>new. out = acc @ new \<and> map ig_grant_id new = ids \<and> distinct (map ig_capability out) \<and>
    (\<forall>g \<in> set new. \<exists>v t. grant_runs p w v \<and> live_at p v g t \<and> backed q g t)"
  using assms(2-4)
proof (induction ids arbitrary: acc w)
  case (Cons i ids)
  from Cons.prems(1) obtain g w1 where a: "accept_session_grant p (By_id i) (acceptance_of q s) w = (Inr g, w1)"
    and b: "gu_deadline q \<le> ig_expires_at g" "budget_within g (gu_budget q)" "ig_capability g \<notin> ig_capability ` set acc"
    and rest: "resolve_each p q s ids (acc @ [g]) w1 = (Inr out, w')"
    by (auto simp: act_simps)
  have run: "grant_runs p w w1" by (rule accept_runs [OF assms(1) a])
  have enter: "grant_runs p w (gp_enter p w)" by (rule lawful_enter [OF assms(1)])
  have "ig_grant_id g = i \<and> (\<exists>t. live_at p (gp_enter p w) g t \<and> backed q g t)"
    by (rule accepted_backed [OF assms(1) runs_owner_ok [OF enter assms(1) Cons.prems(2)] a b(1,2)])
  moreover have "distinct (map ig_capability (acc @ [g]))" using Cons.prems(3) b(3) by auto
  then obtain new where n: "out = (acc @ [g]) @ new" "map ig_grant_id new = ids" "distinct (map ig_capability out)"
    "\<forall>x \<in> set new. \<exists>v t. grant_runs p w1 v \<and> live_at p v x t \<and> backed q x t"
    using Cons.IH [OF rest runs_owner_ok [OF run assms(1) Cons.prems(2)]] by blast
  moreover have "\<forall>x \<in> set new. \<exists>v t. grant_runs p w v \<and> live_at p v x t \<and> backed q x t"
    using n(4) run by (meson rtranclp_trans)
  ultimately show ?case using enter by (intro exI [of _ "g # new"]) auto
qed (simp add: act_simps)

lemma resolve_Inr:
  assumes "resolve_session_grants p q ids w = (Inr gs, w')"
  obtains s out where "sorted_unique ids" "resolve_each p q s ids [] w = (Inr out, w')"
    "set (gu_required q) \<subseteq> ig_capability ` set out" "gs = map (grant_for (gu_principal q)) out"
proof -
  from assms obtain s out where o: "sorted_unique ids" "resolve_each p q s ids [] w = (Inr out, w')"
    "missing_capabilities q out = []" "traverse (\<lambda>g. validate_grant (grant_for (gu_principal q) g)) out = Inr gs"
    by (auto simp: resolve_session_grants_def act_simps split: option.splits)
  have "set (missing_capabilities q out) = {}" using o(3) by simp
  then have c: "set (gu_required q) \<subseteq> ig_capability ` set out" by (auto simp: missing_capabilities_def)
  have "traverse (\<lambda>g. validate_grant (grant_for n g)) xs = Inr ys \<Longrightarrow> ys = map (grant_for n) xs" for n xs ys
    by (induction xs arbitrary: ys) (auto simp: res_simps validate_grant_def)
  from that [OF o(1,2) c this [OF o(4)]] show thesis .
qed

text \<open>What stands behind a grant of a request.\<close>

definition grant_stands ::
    "('s, 'x) grant_provider_scheme \<Rightarrow> 's grant_world \<Rightarrow> grant_query \<Rightarrow> grant \<Rightarrow> bool" where
  "grant_stands p w q x \<longleftrightarrow> gu_deadline q \<le> gr_expires_at x \<and>
     (\<exists>v g s. grant_runs p w v \<and> live_at p v g s \<and> backed q g s \<and> x = grant_for (gu_principal q) g)"

lemma resolved_backed:
  assumes "lawful_provider p" "grant_reachable p w" "resolve_session_grants p q ids w = (Inr gs, w')"
  shows "map gr_grant_id gs = ids" "sorted_unique ids" "distinct (map gr_capability gs)"
    "set (gu_required q) \<subseteq> gr_capability ` set gs" "list_all (grant_stands p w q) gs"
proof -
  obtain s out where o: "sorted_unique ids" "resolve_each p q s ids [] w = (Inr out, w')"
    "set (gu_required q) \<subseteq> ig_capability ` set out" and gs: "gs = map (grant_for (gu_principal q)) out"
    using resolve_Inr [OF assms(3)] by metis
  have b: "map ig_grant_id out = ids" "distinct (map ig_capability out)"
      "\<forall>g \<in> set out. \<exists>v t. grant_runs p w v \<and> live_at p v g t \<and> backed q g t"
    using resolve_each_backed [OF assms(1) o(2) reachable_owner_ok [OF assms(2,1)]] by auto
  show "map gr_grant_id gs = ids" "sorted_unique ids" "distinct (map gr_capability gs)"
    "set (gu_required q) \<subseteq> gr_capability ` set gs"
    using o b(1,2) by (simp_all add: gs comp_def image_image grant_for_def)
  have "grant_stands p w q (grant_for (gu_principal q) g)" if g: "g \<in> set out" for g
  proof -
    from g b(3) obtain v t where "grant_runs p w v" "live_at p v g t" "backed q g t" by blast
    moreover from this(3) have "gu_deadline q \<le> gr_expires_at (grant_for (gu_principal q) g)"
      by (simp add: backed_def grant_for_def)
    ultimately show ?thesis unfolding grant_stands_def by blast
  qed
  then show "list_all (grant_stands p w q) gs" by (simp add: gs list_all_iff)
qed

end
