(* ===== verification/Spec2Isabelle.thy ===== *)
theory Spec2Isabelle
  imports Model_Properties Supervisor_Properties Broker_Properties Model_Call_Properties Rlm_Properties
    Continuity_Properties Workspace_Properties Host_Properties Caller_Properties Grant_Runs
begin

text \<open>
  A verification library of the adaptive agent harness (\<open>src/src/aar\<close>, Python): a durable runtime
  that accepts operations, runs them under leases and fences, lets them call models, subagents,
  evidence and artifact stores through a journalled broker, and after a crash recovers what is
  certain and refuses what is not.

  \<^bold>\<open>The program and its parts.\<close> Contract values (\<open>schemas.py\<close>, \<open>broker_models.py\<close>,
  \<open>continuity_models.py\<close>, \<open>rlm_models.py\<close>, \<open>runtime/workspace_models.py\<close>) are immutable documents whose
  digests bind their canonical JSON (\<open>canonical.py\<close>). The operation registry
  (\<open>runtime/registry.py\<close>) is a SQLite database that holds every operation's row, event log, attempts,
  leases and dispatch; nothing else in the program decides what an operation's state is. The
  dispatcher (\<open>runtime/dispatcher.py\<close>) runs worker threads that claim queued operations from it and
  hand them to the reference host (\<open>runtime/reference_host.py\<close>). The host runs RLM jobs
  (\<open>runtime/rlm.py\<close>), deterministic workspaces (\<open>runtime/workspace.py\<close>) and workspace programs, and
  commits their outcome under the claim's fence. A job's calls go through the broker
  (\<open>runtime/brokers.py\<close>, \<open>runtime/model_broker.py\<close>), whose journal sends every call identity at most
  once and lets a reconciliation repeat only reads. The continuity engine (\<open>runtime/continuity.py\<close>) decides from evidence whether a lost
  attempt may have a successor. Calls the caller of the harness performs itself are tickets
  (\<open>runtime/caller_work.py\<close>), settled by receipts. A provider-ready runtime admits requests by session
  grants held in memory (\<open>runtime/_session_grants.py\<close>).

  \<^bold>\<open>Which theory models what.\<close>
  \<^item> \<open>Prelude\<close>: exceptions and results, SQLite tables as lists of rows with the statements the code
    uses. \<open>Effects\<close>: actions that change a state also when they raise, on a part of a larger state.
    \<open>Content_Bound\<close>: the contract of documents that carry their own digest.
  \<^item> \<open>Canonical\<close>: \<open>canonical.py\<close>, with JSON normalisation, the canonical text and SHA-256 on 32-bit words.
  \<^item> \<open>Schemas\<close>, \<open>Broker_Models\<close>, \<open>Workspace_Models\<close>, \<open>Continuity_Models\<close>, \<open>Rlm_Models\<close>,
    \<open>Caller_Models\<close>: the contract values, a record per model, \<open>validate_X\<close> for its validator, and its
    JSON. \<open>Caller_Models\<close> follows the reviewed JSON schema of caller work.
  \<^item> \<open>Registry_State\<close> (the tables of schema version 5 and shared statements), \<open>Registry_Lifecycle\<close>
    (restart, acceptance, transitions), \<open>Registry_Claims\<close> (claims, leases, fences, fenced outcomes),
    \<open>Registry_Recovery\<close> (expiry, requeueing, recovery from a receipt), \<open>Registry_Workspace\<close> (checkpoint
    catalog), \<open>Registry_Reads\<close> (event pages), \<open>Supervisor\<close> (supervisor runs and worker bindings):
    the methods of \<open>OperationRegistry\<close>, one definition each.
  \<^item> \<open>Journal\<close>, \<open>Registry_Refinement\<close>, \<open>Fences\<close>, \<open>Registry_Invariant\<close>, \<open>Registry_Monotone\<close>,
    \<open>Registry_Samples\<close>: the abstract journal, its refinement by every method, the ownership invariant,
    the step relation \<open>reg_step\<close> with its reachable states, what no step undoes, a sample run.
  \<^item> \<open>Registry_Access\<close>: how other components call the registry, the lock first and then one transaction.
  \<^item> \<open>Broker_Calls\<close> (\<open>BrokerJournal\<close>), \<open>Broker_Providers\<close> (the deterministic providers),
    \<open>Broker_Facade\<close> (\<open>BoundBrokerFacade\<close>), \<open>Broker_Reconciliation\<close>; \<open>Broker_Journal\<close> holds the journal's
    invariant and interleaved runs, \<open>Reconciliation_Runs\<close> that \<open>reconcile_unresolved\<close> is such a run.
    \<open>Model_Journal\<close> (\<open>model_broker.py\<close>) with \<open>Model_Routes\<close>.
  \<^item> \<open>Rlm\<close> (strategies, job store, engine) with \<open>Rlm_Runs\<close>; \<open>Continuity\<close> (the planners).
  \<^item> \<open>Dispatcher\<close> (the threads as states of a machine) with \<open>Dispatch_Runs\<close>.
  \<^item> \<open>Workspace_Store\<close> (\<open>DeterministicWorkspace\<close>); \<open>Host\<close>, \<open>Host_Recovery\<close>, \<open>Host_Mutations\<close>,
    \<open>Host_Programs\<close> (the methods of \<open>ReferenceHost\<close> by kind of work, composed in \<open>Host_Programs\<close> to
    the host the dispatcher sees), with \<open>Host_Runs\<close>, \<open>Host_Outcomes\<close>, \<open>Host_Samples\<close>.
  \<^item> \<open>Caller_Work\<close> (\<open>CallerWorkRepository\<close>, the caller-result methods of \<open>ModelExecutionJournal\<close>, and
    \<open>CallerWorkDispatcher\<close>) with \<open>Caller_Runs\<close> and \<open>Caller_Outcomes\<close>.
  \<^item> \<open>Session_Grants\<close> (\<open>SessionGrantOwner\<close> and \<open>resolve_session_grants\<close> of \<open>provider_ready_startup.py\<close>) with
    \<open>Grant_Runs\<close>: every grant resolved for a request stands on a live issued grant of the current set.

  \<^bold>\<open>Conventions.\<close> A method of a store is a function from the state and its arguments to an exception
  or a value with the next state. A SQLite transaction that raises leaves the state as it was, so its
  exceptional result carries none; code that can change several stores before it raises is an action
  of \<open>Effects\<close>, which returns the state in both cases. Clock readings, random identifiers and what
  other processes do between two transactions are arguments, in the order the code takes them. A
  broker call is one function (\<open>invoke\<close>) with nothing else writing while its provider runs; the code
  does not hold the journal's lock there, so \<open>call_step\<close> has its three transactions as separate steps,
  between which other calls, reconciliations and losses fall, and \<open>invoke_is_a_run\<close> and
  \<open>reconciliation_is_a_run\<close> tie the functions to the steps. The budget property is of whole calls.
  Exceptions keep their class and message. A Python integer is an \<open>int\<close>, and a bound of a contract is a
  check of its validator; hash words are \<open>32 word\<close>. A Python string is a list of code points below 256.
  Providers, model drivers, workspace backends and the verdict of the JSON-Schema library on a
  document are parameters. Nothing is assumed of SHA-256: statements about identity of content speak of
  digests.

  \<^bold>\<open>Interfaces.\<close> \<open>content_bound\<close> is provided by every digest-carrying model. \<open>journaled_store\<close>, what a
  store of operations promises its readers, is provided by the registry (interpretation \<open>registry\<close>).
  \<open>rlm_strategy\<close>, bounded decisions, is provided by the two strategies (\<open>baseline\<close>, \<open>synthesis\<close>) and
  gives the engine's bound. \<open>model_routes\<close>, exact attestation, is provided by the static route
  registry for every driver (\<open>static_routes\<close>). \<open>access_laws\<close> (a component changes the registry only by
  the registry's methods) is provided by the host's own access (\<open>outer\<close>) and by the host the
  dispatcher sees (\<open>host\<close>), and \<open>dispatch_laws\<close>, which extends it, by the latter (\<open>dispatched\<close>).

  \<^bold>\<open>What the properties show.\<close>
  \<^item> The registry as a record (\<open>Registry_Properties\<close>): every reachable state satisfies the invariant,
    every method refines the journal, terminal rows are final, the event log tells the lifecycle,
    an accepted intent is replayed or refused when its bytes differ.
  \<^item> Ownership (\<open>Fence_Properties\<close>, \<open>Recovery_Properties\<close>, \<open>Supervisor_Properties\<close>): a claim takes the
    oldest eligible operation and owns it until expiry, a valid fence is unique, a restart or a
    committed outcome ends it; a cancelled operation never resumes, a successor needs its
    certificate; pages read the log without gaps; one supervisor generation is active.
  \<^item> Calls (\<open>Broker_Properties\<close>, \<open>Model_Call_Properties\<close>): under any interleaving with crashes and
    reconciliation one identity is sent by a call at most once and only reads are sent again; finished
    calls with no transaction outstanding are final; whole calls stay within budget; model answers come
    from the bound route.
  \<^item> Jobs (\<open>Rlm_Properties\<close>, \<open>Continuity_Properties\<close>): a valid job's loop ends within its bound, complete
    or with the exception of one of its turns, a lost run repeated gives the same result, successors
    are planned only at certain boundaries.
  \<^item> Composition (\<open>Host_Properties\<close>, \<open>Workspace_Properties\<close>): a worker settles every claim it took, what
    the host commits agrees with the inner job or workspace receipt, lost mutations are recovered as
    what they were, admission needs every grant, a closing dispatcher drains.
  \<^item> Delegated calls (\<open>Caller_Properties\<close>): tickets move along the edges of \<open>LIFECYCLE.md\<close> and two more, a
    call that may have been sent is never sent again, commands answer once (the commit of a model call
    answers the same when it is not refused), a call settled for an accepted operation leaves its
    sealed evidence and one successor.
  \<^item> Content (\<open>Model_Properties\<close>): canonical bytes determine the value.
  Lemmas outside the listed properties record behaviour the code has against its intention:
  \<open>late_failure_discards_committed_result\<close>, \<open>long_evidence_jobs_never_return\<close>,
  \<open>stale_worker_fails_the_job\<close>, \<open>recovery_error_blocks_claims\<close>,
  \<open>cancelled_certain_is_never_settled\<close>, \<open>unknown_outcomes_settle_as_failures\<close>, \<open>late_evidence_is_refused\<close>,
  \<open>late_commit_overwrites_finished_call\<close>.

  \<^bold>\<open>Bounds and loops.\<close> Loops over fetched rows, the claim loop and the recovery loops among them, recurse
  over the rows as they were fetched. The engine's loop ends at the step bound of its job, which is its
  termination measure; \<open>rlm_strategy\<close> says how many steps a strategy needs, and
  \<open>valid_jobs_complete_or_raise\<close> that the bound of a valid job is enough: only an exception of one of its
  turns (a callback, the deadline, a broker call or the store) ends the loop before its strategy is complete. The wait of a caller for a
  closed state has no bound in the code and is a \<open>partial_function\<close> whose \<open>None\<close> is not returning. The
  dispatcher is a step relation; three rounds over its threads drain it after closing.

  \<^bold>\<open>Not modelled.\<close>
  \<^item> The version-6 workbench: the successor protocol in \<open>registry.py\<close> and \<open>rlm_workbench.py\<close>, which
    schedule interactive planner jobs over the offline cutover tables. \<open>Caller_Work\<close> has the columns of
    those tables that tickets read and write; a job's planner is outside.
  \<^item> Backends that execute Python (\<open>programming.py\<close>, \<open>ipython_backend.py\<close>, \<open>ipython_worker.py\<close>,
    \<open>worker_manager.py\<close>): interpreter processes and pipes. The host sees them as a record of operations.
  \<^item> Supervisor processes, named pipes and process identity; file publication and signed assets;
    installation, activation and migration of files and databases: operating-system effects.
  \<^item> The MCP servers, host integrations, provider-ready contract material, benchmarks and the
    documentation generators: glue, transports and generated data.
  \<^item> Of the modelled files: schema creation (the initial state), construction, provider startup and
    closing of the host, asset imports, pass-through methods to a workspace backend, the workbench
    kinds of dispatch, and read models without validators.
\<close>

end
